(* ===== verification/Styrened_Prelude.thy ===== *)
theory Styrened_Prelude
  imports Complex_Main "HOL-Library.Word" "HOL-Library.AList" "HOL-Library.Sublist"
begin

text \<open>
  Shared vocabulary of the development: bytes and texts, the exceptions the Python code
  raises and results that may be exceptions, hexadecimal text, and lemmas on lists and
  association lists. The interfaces of the components are in \<open>Interfaces\<close>, the dynamically
  typed values in \<open>Py_Values\<close>.

  Conventions. A Python \<^verbatim>\<open>bytes\<close> object is a list of 8-bit words. A Python
  \<^verbatim>\<open>str\<close> is held as its UTF-8 text, one \<open>char\<close> per byte, so that
  \<^verbatim>\<open>encode("utf-8")\<close> changes no byte. A \<^verbatim>\<open>dict\<close> whose order the
  code observes is an association list in insertion order, updated by
  \<open>AList.update\<close> (in place, or at the end) as Python does. A \<^verbatim>\<open>float\<close> is an
  exact rational. An exception is a value of \<open>exn\<close>; its text is not kept.
\<close>

section \<open>Collections of facts\<close>

named_theorems code_defs \<open>unfolding equations of the modelled operations\<close>
named_theorems inv_intros \<open>preservation lemmas of the component invariants\<close>

section \<open>Exceptions and results\<close>

datatype exn =
    ValueError | TypeError | KeyError | IndexError | AttributeError | OverflowError
  | RuntimeError | UnicodeDecodeError | OSError | OtherError
  | InvalidPrefixError | UnsupportedVersionError | InvalidMessageTypeError | PayloadDecodeError
  | FrameDecodeError | FrameReadTimeoutError | PayloadTooLargeError | IncompleteReadError
  | ProtocolNotFoundError | AssertionError
  | RPCTimeoutError | RPCTransportError | RPCInvalidResponseError
  | TimeoutError | ConnectionRefusedError | ConfigLoadError

type_synonym 'a res = "exn + 'a"

definition bind_res :: "'a res \<Rightarrow> ('a \<Rightarrow> 'b res) \<Rightarrow> 'b res" where
  "bind_res r f = (case r of Inl e \<Rightarrow> Inl e | Inr a \<Rightarrow> f a)"

lemma bind_res_simps [simp]:
  "bind_res (Inl e) f = Inl e"
  "bind_res (Inr a) f = f a"
  by (simp_all add: bind_res_def)

lemma bind_res_Inr [simp]: "bind_res r f = Inr b \<longleftrightarrow> (\<exists>a. r = Inr a \<and> f a = Inr b)"
  by (cases r) auto

lemma bind_res_cong [fundef_cong]:
  "r = r' \<Longrightarrow> (\<And>a. r' = Inr a \<Longrightarrow> f a = g a) \<Longrightarrow> bind_res r f = bind_res r' g"
  by (cases r') auto

fun map_res :: "('a \<Rightarrow> 'b res) \<Rightarrow> 'a list \<Rightarrow> 'b list res" where
  "map_res f [] = Inr []"
| "map_res f (x # xs) = bind_res (f x) (\<lambda>y. bind_res (map_res f xs) (\<lambda>ys. Inr (y # ys)))"

lemma map_res_Inr:
  "map_res f xs = Inr ys \<Longrightarrow> length ys = length xs \<and> (\<forall>i < length xs. f (xs ! i) = Inr (ys ! i))"
proof (induction xs arbitrary: ys)
  case Nil
  then show ?case by simp
next
  case (Cons x xs)
  then obtain z zs where "f x = Inr z" "map_res f xs = Inr zs" "ys = z # zs" by auto
  with Cons.IH[of zs] show ?case by (auto simp: nth_Cons split: nat.splits)
qed

lemma map_res_total:
  "(\<And>x. x \<in> set xs \<Longrightarrow> f x = Inr (g x)) \<Longrightarrow> map_res f xs = Inr (map g xs)"
  by (induction xs) auto

section \<open>Association lists\<close>

lemma length_alist_update: "length (AList.update k v d) \<le> Suc (length d)"
  by (induction d) auto

lemma distinct_map_update:
  "distinct (map g xs) \<Longrightarrow> g (k, v) \<notin> g ` set xs \<Longrightarrow> distinct (map g (AList.update k v xs))"
proof (induction xs)
  case (Cons x xs)
  have "set (AList.update k v xs) \<subseteq> insert (k, v) (set xs)" by (induction xs) auto
  with Cons show ?case by (auto dest!: subsetD)
qed simp

lemma set_alist_update:
  "distinct (map fst d) \<Longrightarrow> set (AList.update k v d) = {(k, v)} \<union> {p \<in> set d. fst p \<noteq> k}"
proof (induction d)
  case (Cons p d)
  then show ?case by (cases p) force
qed simp

lemma set_alist_delete: "set (AList.delete k d) = {p \<in> set d. fst p \<noteq> k}"
  by (auto simp: AList.delete_eq)

section \<open>Bytes and texts\<close>

type_synonym byte = "8 word"
type_synonym bytes = "byte list"

text \<open>A bytes literal, and the UTF-8 encoding of a text.\<close>

definition str_bytes :: "string \<Rightarrow> bytes" where
  "str_bytes s = map of_char s"

definition bytes_str :: "bytes \<Rightarrow> string" where
  "bytes_str b = map (\<lambda>w. char_of (unat w)) b"

lemma unat_of_char [simp]: "unat (of_char c :: byte) = of_char c"
proof -
  have "unat (of_char c :: byte) = unat (of_nat (of_char c) :: byte)"
    by (simp add: of_nat_of_char)
  also have "\<dots> = of_char c mod 256"
    by (simp add: unat_of_nat)
  finally show ?thesis by simp
qed

lemma bytes_str_bytes [simp]: "bytes_str (str_bytes s) = s"
  by (simp add: bytes_str_def str_bytes_def o_def)

lemma str_bytes_inj [simp]: "str_bytes s = str_bytes t \<longleftrightarrow> s = t"
  by (metis bytes_str_bytes)

lemma length_str_bytes [simp]: "length (str_bytes s) = length s"
  by (simp add: str_bytes_def)


text \<open>Well-formed UTF-8, as \<^verbatim>\<open>bytes.decode()\<close> accepts it (no overlong form, no surrogate,
  nothing above U+10FFFF).\<close>

definition utf8_cont :: "byte \<Rightarrow> bool" where
  "utf8_cont b \<longleftrightarrow> 128 \<le> unat b \<and> unat b < 192"

definition in_range :: "nat \<Rightarrow> nat \<Rightarrow> byte \<Rightarrow> bool" where
  "in_range lo hi b \<longleftrightarrow> lo \<le> unat b \<and> unat b \<le> hi"

fun utf8_tail :: "(byte \<Rightarrow> bool) list \<Rightarrow> bytes \<Rightarrow> bytes option" where
  "utf8_tail [] bs = Some bs"
| "utf8_tail (p # ps) [] = None"
| "utf8_tail (p # ps) (b # bs) = (if p b then utf8_tail ps bs else None)"

definition utf8_follow :: "byte \<Rightarrow> (byte \<Rightarrow> bool) list option" where
  "utf8_follow b =
     (if unat b < 128 then Some []
      else if in_range 0xC2 0xDF b then Some [utf8_cont]
      else if unat b = 0xE0 then Some [in_range 0xA0 0xBF, utf8_cont]
      else if in_range 0xE1 0xEC b \<or> in_range 0xEE 0xEF b then Some [utf8_cont, utf8_cont]
      else if unat b = 0xED then Some [in_range 0x80 0x9F, utf8_cont]
      else if unat b = 0xF0 then Some [in_range 0x90 0xBF, utf8_cont, utf8_cont]
      else if in_range 0xF1 0xF3 b then Some [utf8_cont, utf8_cont, utf8_cont]
      else if unat b = 0xF4 then Some [in_range 0x80 0x8F, utf8_cont, utf8_cont]
      else None)"

lemma utf8_tail_length: "utf8_tail ps bs = Some rest \<Longrightarrow> length rest \<le> length bs"
proof (induction ps bs rule: utf8_tail.induct)
  case (3 p ps b bs)
  then show ?case by (auto split: if_splits)
qed auto

function utf8_valid :: "bytes \<Rightarrow> bool" where
  "utf8_valid [] = True"
| "utf8_valid (b # bs) =
     (case utf8_follow b of
        None \<Rightarrow> False
      | Some ps \<Rightarrow> (case utf8_tail ps bs of None \<Rightarrow> False | Some rest \<Rightarrow> utf8_valid rest))"
  by pat_completeness auto
termination
  by (relation "measure length") (auto dest: utf8_tail_length)

definition decode_utf8 :: "bytes \<Rightarrow> string res" where
  "decode_utf8 b = (if utf8_valid b then Inr (bytes_str b) else Inl UnicodeDecodeError)"

text \<open>An ASCII text is valid UTF-8; the number of code points of a text.\<close>

definition is_ascii :: "string \<Rightarrow> bool" where
  "is_ascii s \<longleftrightarrow> list_all (\<lambda>c. (of_char c :: nat) < 128) s"

lemma utf8_valid_ascii: "is_ascii s \<Longrightarrow> utf8_valid (str_bytes s)"
  by (induction s) (auto simp: is_ascii_def str_bytes_def utf8_follow_def)

lemma decode_utf8_ascii [simp]: "is_ascii s \<Longrightarrow> decode_utf8 (str_bytes s) = Inr s"
  by (simp add: decode_utf8_def utf8_valid_ascii)

definition py_len :: "string \<Rightarrow> nat" where
  "py_len s = length (filter (\<lambda>c. \<not> utf8_cont (of_char c)) s)"

section \<open>Text operations\<close>

definition is_space :: "char \<Rightarrow> bool" where
  "is_space c \<longleftrightarrow> (let n = (of_char c :: nat) in (9 \<le> n \<and> n \<le> 13) \<or> n = 32)"

text \<open>\<^verbatim>\<open>str.strip()\<close> also strips the ASCII separators 28 to 31.\<close>

definition is_strip_space :: "char \<Rightarrow> bool" where
  "is_strip_space c \<longleftrightarrow> is_space c \<or> (28 \<le> (of_char c :: nat) \<and> (of_char c :: nat) \<le> 31)"

definition strip :: "string \<Rightarrow> string" where
  "strip s = rev (dropWhile is_strip_space (rev (dropWhile is_strip_space s)))"

text \<open>Case mapping of ASCII letters (other characters are left alone).\<close>

definition lower_char :: "char \<Rightarrow> char" where
  "lower_char c = (let n = (of_char c :: nat) in if 65 \<le> n \<and> n \<le> 90 then char_of (n + 32) else c)"

definition upper_char :: "char \<Rightarrow> char" where
  "upper_char c = (let n = (of_char c :: nat) in if 97 \<le> n \<and> n \<le> 122 then char_of (n - 32) else c)"

definition lower :: "string \<Rightarrow> string" where
  "lower s = map lower_char s"

definition upper :: "string \<Rightarrow> string" where
  "upper s = map upper_char s"

lemma lower_char_idem [simp]: "lower_char (lower_char c) = lower_char c"
  by (auto simp: lower_char_def Let_def)

lemma lower_idem [simp]: "lower (lower s) = lower s"
  by (simp add: lower_def o_def)

text \<open>Decimal text of a number.\<close>

definition digit_char :: "nat \<Rightarrow> char" where
  "digit_char d = char_of (48 + d)"

fun show_nat :: "nat \<Rightarrow> string" where
  "show_nat n = (if n < 10 then [digit_char n] else show_nat (n div 10) @ [digit_char (n mod 10)])"

declare show_nat.simps [simp del]

definition show_int :: "int \<Rightarrow> string" where
  "show_int i = (if i < 0 then ''-'' @ show_nat (nat (- i)) else show_nat (nat i))"

section \<open>Hexadecimal text\<close>

definition hex_digit :: "nat \<Rightarrow> char" where
  "hex_digit n = (if n < 10 then char_of (48 + n) else char_of (87 + n))"

definition hex_value :: "char \<Rightarrow> nat option" where
  "hex_value c = (let n = (of_char c :: nat) in
     if 48 \<le> n \<and> n \<le> 57 then Some (n - 48)
     else if 97 \<le> n \<and> n \<le> 102 then Some (n - 87)
     else if 65 \<le> n \<and> n \<le> 70 then Some (n - 55)
     else None)"

text \<open>\<^verbatim>\<open>bytes.hex()\<close>.\<close>

definition hex_of :: "bytes \<Rightarrow> string" where
  "hex_of bs = concat (map (\<lambda>b. [hex_digit (unat b div 16), hex_digit (unat b mod 16)]) bs)"

text \<open>\<^verbatim>\<open>bytes.fromhex(s)\<close>: white space is skipped between pairs of digits only.\<close>

fun fromhex :: "string \<Rightarrow> bytes res" where
  "fromhex [] = Inr []"
| "fromhex (c # cs) =
     (if is_space c then fromhex cs
      else case cs of
        [] \<Rightarrow> Inl ValueError
      | d # ds \<Rightarrow>
          (case (hex_value c, hex_value d) of
             (Some x, Some y) \<Rightarrow> bind_res (fromhex ds) (\<lambda>bs. Inr (of_nat (16 * x + y) # bs))
           | _ \<Rightarrow> Inl ValueError))"

lemma hex_digit_value: "n < 16 \<Longrightarrow> hex_value (hex_digit n) = Some n"
  by (auto simp: hex_value_def hex_digit_def Let_def)

lemma hex_digit_not_space: "n < 16 \<Longrightarrow> \<not> is_space (hex_digit n)"
  by (auto simp: is_space_def hex_digit_def Let_def)

lemma byte_nibbles: "(of_nat (16 * (unat b div 16) + unat b mod 16) :: byte) = b"
  by (simp add: mult.commute[of 16] flip: div_mult_mod_eq)

lemma hex_of_Nil [simp]: "hex_of [] = []"
  by (simp add: hex_of_def)

lemma hex_of_Cons: "hex_of (b # bs) = hex_digit (unat b div 16) # hex_digit (unat b mod 16) # hex_of bs"
  by (simp add: hex_of_def)

lemma unat_byte_lt [simp]: "unat (b :: byte) < 256"
  using unsigned_less[of b] by simp

lemma unat_byte_div [simp]: "unat (b :: byte) div 16 < 16"
  using unat_byte_lt[of b] by (simp add: less_mult_imp_div_less)

lemma fromhex_hex_of [simp]: "fromhex (hex_of bs) = Inr bs"
  by (induction bs)
    (simp_all add: hex_of_Cons hex_digit_value hex_digit_not_space byte_nibbles del: of_nat_add of_nat_mult)

lemma hex_of_inj [simp]: "hex_of a = hex_of b \<longleftrightarrow> a = b"
  using fromhex_hex_of by (metis sum.inject(2))

end
