(* ===== verification/Py_Values.thy ===== *)
theory Py_Values
  imports Styrened_Prelude
begin

text \<open>
  The dynamically typed values that cross the wire, the few operations of Python's
  \<^verbatim>\<open>dict\<close> and of its truth test the code applies to them, and the msgpack library,
  which is not part of the repository, as a record of functions. A dictionary value has
  distinct keys, in insertion order.
\<close>

section \<open>Values\<close>

datatype pyval =
    PNone
  | PBool bool
  | PInt int
  | PFloat rat
  | PStr string
  | PBytes bytes
  | PList "pyval list"
  | PDict "(pyval \<times> pyval) list"

type_synonym pydict = "(pyval \<times> pyval) list"

text \<open>\<^verbatim>\<open>{"k": v, ...}\<close> with text keys, and \<^verbatim>\<open>d.get("k")\<close>.\<close>

definition kv :: "(string \<times> pyval) list \<Rightarrow> pydict" where
  "kv ps = map (\<lambda>p. (PStr (fst p), snd p)) ps"

definition d_get :: "pydict \<Rightarrow> string \<Rightarrow> pyval option" where
  "d_get d k = map_of d (PStr k)"

definition d_get_or :: "pydict \<Rightarrow> string \<Rightarrow> pyval \<Rightarrow> pyval" where
  "d_get_or d k v = (case d_get d k of None \<Rightarrow> v | Some x \<Rightarrow> x)"

definition d_item :: "pydict \<Rightarrow> string \<Rightarrow> pyval res" where
  "d_item d k = (case d_get d k of None \<Rightarrow> Inl KeyError | Some x \<Rightarrow> Inr x)"

lemma kv_simps [simp]:
  "kv [] = []"
  "kv ((k, v) # ps) = (PStr k, v) # kv ps"
  "kv (ps @ qs) = kv ps @ kv qs"
  by (simp_all add: kv_def)

lemma d_get_kv: "d_get (kv ps) k = map_of ps k"
  by (induction ps) (auto simp: d_get_def kv_def)

lemma d_get_simps [simp]:
  "d_get [] k = None"
  "d_get ((PStr j, v) # d) k = (if k = j then Some v else d_get d k)"
  by (auto simp: d_get_def)

text \<open>\<^verbatim>\<open>isinstance(v, int)\<close>, which a \<^verbatim>\<open>bool\<close> satisfies, and the number it stands for.\<close>

fun as_int :: "pyval \<Rightarrow> int option" where
  "as_int (PInt i) = Some i"
| "as_int (PBool b) = Some (if b then 1 else 0)"
| "as_int _ = None"

fun as_str :: "pyval \<Rightarrow> string option" where
  "as_str (PStr s) = Some s"
| "as_str _ = None"

fun as_dict :: "pyval \<Rightarrow> pydict option" where
  "as_dict (PDict d) = Some d"
| "as_dict _ = None"

text \<open>A list all of whose items are texts.\<close>

fun as_str_list :: "pyval \<Rightarrow> string list option" where
  "as_str_list (PList []) = Some []"
| "as_str_list (PList (PStr s # vs)) = map_option (Cons s) (as_str_list (PList vs))"
| "as_str_list _ = None"

fun truthy :: "pyval \<Rightarrow> bool" where
  "truthy PNone = False"
| "truthy (PBool b) = b"
| "truthy (PInt i) = (i \<noteq> 0)"
| "truthy (PFloat q) = (q \<noteq> 0)"
| "truthy (PStr s) = (s \<noteq> [])"
| "truthy (PBytes b) = (b \<noteq> [])"
| "truthy (PList vs) = (vs \<noteq> [])"
| "truthy (PDict d) = (d \<noteq> [])"

lemma as_int_Some: "as_int v = Some i \<longleftrightarrow> v = PInt i \<or> (\<exists>b. v = PBool b \<and> i = (if b then 1 else 0))"
  by (cases v) auto

lemma as_str_Some [simp]: "as_str v = Some s \<longleftrightarrow> v = PStr s"
  by (cases v) auto

lemma as_dict_Some [simp]: "as_dict v = Some d \<longleftrightarrow> v = PDict d"
  by (cases v) auto

lemma as_str_list_Some: "as_str_list (PList vs) = Some ss \<longleftrightarrow> vs = map PStr ss"
proof (induction vs arbitrary: ss)
  case Nil
  then show ?case by auto
next
  case (Cons v vs)
  then show ?case by (cases v) (auto simp: Cons_eq_map_conv)
qed

text \<open>An optional value: \<^verbatim>\<open>None\<close> when absent.\<close>

definition opt :: "('a \<Rightarrow> pyval) \<Rightarrow> 'a option \<Rightarrow> pyval" where
  "opt f x = (case x of None \<Rightarrow> PNone | Some y \<Rightarrow> f y)"

text \<open>An entry present only when the value is not \<^verbatim>\<open>None\<close>.\<close>

definition opt_entry :: "string \<Rightarrow> ('a \<Rightarrow> pyval) \<Rightarrow> 'a option \<Rightarrow> (string \<times> pyval) list" where
  "opt_entry k f x = (case x of None \<Rightarrow> [] | Some y \<Rightarrow> [(k, f y)])"

definition str_list :: "string list \<Rightarrow> pyval" where
  "str_list ss = PList (map PStr ss)"

section \<open>The msgpack library\<close>

text \<open>
  \<^verbatim>\<open>packb\<close>, and \<^verbatim>\<open>unpackb\<close> as the code calls it: with the strict size limits of
  the Styrene wire format, with \<^verbatim>\<open>raw=False\<close> alone (the control socket), and with
  \<^verbatim>\<open>raw=True\<close> (the terminal data plane), which returns texts as bytes.
\<close>

record msgpack =
  packb :: "pyval \<Rightarrow> bytes res"
  unpackb_strict :: "bytes \<Rightarrow> pyval res"
  unpackb_text :: "bytes \<Rightarrow> pyval res"
  unpackb_raw :: "bytes \<Rightarrow> pyval res"

text \<open>What \<^verbatim>\<open>raw=True\<close> makes of a value: every text comes back as its UTF-8 bytes.\<close>

fun rawify :: "pyval \<Rightarrow> pyval" where
  "rawify (PStr s) = PBytes (str_bytes s)"
| "rawify (PList vs) = PList (map rawify vs)"
| "rawify (PDict d) = PDict (map (\<lambda>(k, v). (rawify k, rawify v)) d)"
| "rawify v = v"

end
