(* ===== verification/Interfaces.thy ===== *)
theory Interfaces
  imports Py_Values
begin

text \<open>
  Interfaces that several components share, each with the facts its clients use: a step
  system with an inductive invariant, a codec with a round trip (the second form of it
  canonical, so that decoding determines the bytes), and Python's \<^verbatim>\<open>IntEnum\<close>.
\<close>

section \<open>Step systems with an invariant\<close>

inductive reach :: "('s \<Rightarrow> bool) \<Rightarrow> ('s \<Rightarrow> 's \<Rightarrow> bool) \<Rightarrow> 's \<Rightarrow> bool"
  for start :: "'s \<Rightarrow> bool" and step :: "'s \<Rightarrow> 's \<Rightarrow> bool" where
  reach_start: "start s \<Longrightarrow> reach start step s"
| reach_step: "reach start step s \<Longrightarrow> step s t \<Longrightarrow> reach start step t"

inductive_cases reach_elim: "reach start step s"

locale invariant_system =
  fixes start :: "'s \<Rightarrow> bool"
    and step :: "'s \<Rightarrow> 's \<Rightarrow> bool"
    and inv :: "'s \<Rightarrow> bool"
  assumes inv_start: "start s \<Longrightarrow> inv s"
    and inv_step: "inv s \<Longrightarrow> step s t \<Longrightarrow> inv t"
begin

lemma reach_inv: "reach start step s \<Longrightarrow> inv s"
  by (induction rule: reach.induct) (auto intro: inv_start inv_step)

lemma reach_inv_step: "reach start step s \<Longrightarrow> step s t \<Longrightarrow> inv t"
  using reach_inv inv_step by blast

end

section \<open>Codecs\<close>

locale codec =
  fixes wf :: "'a \<Rightarrow> bool"
    and enc :: "'a \<Rightarrow> 'b res"
    and dec :: "'b \<Rightarrow> 'a res"
  assumes enc_total: "wf a \<Longrightarrow> \<exists>b. enc a = Inr b"
    and dec_enc: "wf a \<Longrightarrow> enc a = Inr b \<Longrightarrow> dec b = Inr a"
begin

lemma round_trip: "wf a \<Longrightarrow> bind_res (enc a) dec = Inr a"
  using enc_total dec_enc by fastforce

lemma enc_inj: "wf a \<Longrightarrow> wf b \<Longrightarrow> enc a = enc b \<Longrightarrow> a = b"
  by (metis enc_total dec_enc sum.inject(2))

end

locale canonical_codec = codec +
  assumes dec_wf: "dec b = Inr a \<Longrightarrow> wf a"
    and enc_dec: "dec b = Inr a \<Longrightarrow> enc a = Inr b"
begin

lemma dec_iff: "dec b = Inr a \<longleftrightarrow> wf a \<and> enc a = Inr b"
  using dec_wf enc_dec dec_enc by blast

lemma dec_inj: "dec b = Inr a \<Longrightarrow> dec c = Inr a \<Longrightarrow> b = c"
  by (metis enc_dec sum.inject(2))

end

section \<open>Integer enumerations\<close>

text \<open>\<^verbatim>\<open>SomeIntEnum(value)\<close>: the member with that value, \<^verbatim>\<open>ValueError\<close> if there is none.\<close>

definition int_enum_of :: "('e \<Rightarrow> nat) \<Rightarrow> 'e list \<Rightarrow> nat \<Rightarrow> 'e res" where
  "int_enum_of code members n =
     (case find (\<lambda>t. code t = n) members of None \<Rightarrow> Inl ValueError | Some t \<Rightarrow> Inr t)"

locale int_enum =
  fixes code :: "'e \<Rightarrow> nat"
    and members :: "'e list"
  assumes members_all: "t \<in> set members"
    and codes_distinct: "distinct (map code members)"
begin

lemma code_inj: "code s = code t \<longleftrightarrow> s = t"
  using codes_distinct members_all by (auto simp: distinct_map dest: inj_onD)

lemma of_Inr: "int_enum_of code members n = Inr t \<longleftrightarrow> n = code t"
proof
  assume "int_enum_of code members n = Inr t"
  then show "n = code t"
    by (auto simp: int_enum_of_def find_Some_iff split: option.splits)
next
  assume n: "n = code t"
  obtain s where s: "find (\<lambda>t. code t = n) members = Some s"
    using members_all n by (cases "find (\<lambda>t. code t = n) members") (auto simp: find_None_iff)
  then have "code s = n" by (auto simp: find_Some_iff)
  with n have "s = t" by (simp add: code_inj)
  with s show "int_enum_of code members n = Inr t" by (simp add: int_enum_of_def)
qed

lemma of_code: "int_enum_of code members (code t) = Inr t"
  by (simp add: of_Inr)

lemma not_member: "n \<notin> range code \<Longrightarrow> int_enum_of code members n = Inl ValueError"
  by (auto simp: int_enum_of_def find_Some_iff split: option.splits)

lemma of_Inl: "int_enum_of code members n = Inl e \<longleftrightarrow> e = ValueError \<and> n \<notin> range code"
proof (cases "n \<in> range code")
  case True
  then obtain t where "int_enum_of code members n = Inr t" by (auto simp: of_Inr)
  with True show ?thesis by simp
next
  case False
  then show ?thesis by (auto simp: not_member)
qed

lemma member_of_code: "(\<exists>t. int_enum_of code members n = Inr t) \<longleftrightarrow> n \<in> range code"
  by (auto simp: of_Inr)

end

section \<open>Authorization\<close>

text \<open>
  What a service relies on of a policy: a banned identity holds no capability, whatever the
  policy grants it otherwise.
\<close>

locale authorizer =
  fixes allows :: "'p \<Rightarrow> string \<Rightarrow> string \<Rightarrow> bool"
    and banned :: "'p \<Rightarrow> string \<Rightarrow> bool"
  assumes banned_denied: "banned p i \<Longrightarrow> \<not> allows p i c"
begin

lemma allowed_not_banned: "allows p i c \<Longrightarrow> \<not> banned p i"
  using banned_denied by blast

lemma banned_denied_all: "banned p i \<Longrightarrow> \<not> list_ex (allows p i) cs"
  using banned_denied by (simp add: list_ex_iff)

lemma some_allowed_not_banned: "list_ex (allows p i) cs \<Longrightarrow> \<not> banned p i"
  using banned_denied_all by blast

end

end
