(* ===== verification/Wire.thy ===== *)
theory Wire
  imports Interfaces
begin

text \<open>
  The Styrene wire format (\<^verbatim>\<open>src/styrened/models/styrene_wire.py\<close>): the message types,
  the envelope with its validation, encoding and decoding, the payload functions over the
  msgpack library, and the message factories. \<^verbatim>\<open>os.urandom(16)\<close> is an argument.
\<close>

section \<open>Constants\<close>

definition STYRENE_PREFIX :: bytes where
  "STYRENE_PREFIX = str_bytes ''styrene.io:''"

definition STYRENE_VERSION_1 :: int where
  "STYRENE_VERSION_1 = 1"

definition STYRENE_VERSION_2 :: int where
  "STYRENE_VERSION_2 = 2"

definition STYRENE_VERSION :: int where
  "STYRENE_VERSION = STYRENE_VERSION_2"

definition REQUEST_ID_LENGTH :: nat where
  "REQUEST_ID_LENGTH = 16"

definition NO_CORRELATION :: bytes where
  "NO_CORRELATION = replicate REQUEST_ID_LENGTH 0"

definition MIN_MESSAGE_LENGTH_V1 :: nat where
  "MIN_MESSAGE_LENGTH_V1 = length STYRENE_PREFIX + 2"

definition MIN_MESSAGE_LENGTH_V2 :: nat where
  "MIN_MESSAGE_LENGTH_V2 = length STYRENE_PREFIX + 2 + REQUEST_ID_LENGTH"

definition MAX_PAYLOAD_SIZE :: nat where
  "MAX_PAYLOAD_SIZE = 262144"

lemmas wire_consts = STYRENE_PREFIX_def STYRENE_VERSION_1_def STYRENE_VERSION_2_def
  STYRENE_VERSION_def REQUEST_ID_LENGTH_def NO_CORRELATION_def MIN_MESSAGE_LENGTH_V1_def
  MIN_MESSAGE_LENGTH_V2_def MAX_PAYLOAD_SIZE_def

lemma length_prefix [simp]: "length STYRENE_PREFIX = 11"
  by (simp add: STYRENE_PREFIX_def)

lemma min_lengths [simp]: "MIN_MESSAGE_LENGTH_V1 = 13" "MIN_MESSAGE_LENGTH_V2 = 29"
  by (simp_all add: MIN_MESSAGE_LENGTH_V1_def MIN_MESSAGE_LENGTH_V2_def REQUEST_ID_LENGTH_def)

lemma length_no_correlation [simp]: "length NO_CORRELATION = 16"
  by (simp add: NO_CORRELATION_def REQUEST_ID_LENGTH_def)

section \<open>Message types\<close>

datatype (plugins only: code size) message_type =
    PING | PONG | HEARTBEAT | STATUS_REQUEST
  | STATUS_RESPONSE | CAPABILITIES_REQUEST | CAPABILITIES_RESPONSE | CHAT
  | CHAT_ACK | FILE_OFFER | FILE_ACCEPT | FILE_CHUNK
  | ANNOUNCE | ANNOUNCE_ACK | PEER_REQUEST | PEER_RESPONSE
  | VPN_HANDSHAKE_REQUEST | VPN_HANDSHAKE_RESPONSE | EXEC | REBOOT
  | CONFIG_UPDATE | SERVICE_CONTROL | INBOX_QUERY | MESSAGES_QUERY
  | SELF_UPDATE | PROVISION | EXEC_RESULT | REBOOT_RESULT
  | CONFIG_RESULT | SERVICE_RESULT | INBOX_RESPONSE | MESSAGES_RESPONSE
  | SELF_UPDATE_RESULT | PROVISION_RESULT | REGISTRY_QUERY | REGISTRY_RESPONSE
  | FLEET_STATUS_REQUEST | FLEET_STATUS_RESPONSE | SUBSCRIBE | UNSUBSCRIBE
  | PUBLISH | SUBSCRIPTION_ACK | TERMINAL_REQUEST | TERMINAL_ACCEPT
  | TERMINAL_REJECT | TERMINAL_RESIZE | TERMINAL_SIGNAL | TERMINAL_CLOSE
  | TERMINAL_CLOSED | PQC_INITIATE | PQC_RESPOND | PQC_CONFIRM
  | PQC_REKEY | PQC_DATA | PQC_CLOSE | ERROR

text \<open>The values of the enumeration.\<close>

fun type_code :: "message_type \<Rightarrow> nat" where
  "type_code PING = 0x01"
| "type_code PONG = 0x02"
| "type_code HEARTBEAT = 0x03"
| "type_code STATUS_REQUEST = 0x10"
| "type_code STATUS_RESPONSE = 0x11"
| "type_code CAPABILITIES_REQUEST = 0x12"
| "type_code CAPABILITIES_RESPONSE = 0x13"
| "type_code CHAT = 0x20"
| "type_code CHAT_ACK = 0x21"
| "type_code FILE_OFFER = 0x22"
| "type_code FILE_ACCEPT = 0x23"
| "type_code FILE_CHUNK = 0x24"
| "type_code ANNOUNCE = 0x30"
| "type_code ANNOUNCE_ACK = 0x31"
| "type_code PEER_REQUEST = 0x32"
| "type_code PEER_RESPONSE = 0x33"
| "type_code VPN_HANDSHAKE_REQUEST = 0x34"
| "type_code VPN_HANDSHAKE_RESPONSE = 0x35"
| "type_code EXEC = 0x40"
| "type_code REBOOT = 0x41"
| "type_code CONFIG_UPDATE = 0x42"
| "type_code SERVICE_CONTROL = 0x43"
| "type_code INBOX_QUERY = 0x44"
| "type_code MESSAGES_QUERY = 0x45"
| "type_code SELF_UPDATE = 0x46"
| "type_code PROVISION = 0x47"
| "type_code EXEC_RESULT = 0x60"
| "type_code REBOOT_RESULT = 0x61"
| "type_code CONFIG_RESULT = 0x62"
| "type_code SERVICE_RESULT = 0x63"
| "type_code INBOX_RESPONSE = 0x64"
| "type_code MESSAGES_RESPONSE = 0x65"
| "type_code SELF_UPDATE_RESULT = 0x66"
| "type_code PROVISION_RESULT = 0x67"
| "type_code REGISTRY_QUERY = 0x80"
| "type_code REGISTRY_RESPONSE = 0x81"
| "type_code FLEET_STATUS_REQUEST = 0x82"
| "type_code FLEET_STATUS_RESPONSE = 0x83"
| "type_code SUBSCRIBE = 0xA0"
| "type_code UNSUBSCRIBE = 0xA1"
| "type_code PUBLISH = 0xA2"
| "type_code SUBSCRIPTION_ACK = 0xA3"
| "type_code TERMINAL_REQUEST = 0xC0"
| "type_code TERMINAL_ACCEPT = 0xC1"
| "type_code TERMINAL_REJECT = 0xC2"
| "type_code TERMINAL_RESIZE = 0xC3"
| "type_code TERMINAL_SIGNAL = 0xC4"
| "type_code TERMINAL_CLOSE = 0xC5"
| "type_code TERMINAL_CLOSED = 0xC6"
| "type_code PQC_INITIATE = 0xD0"
| "type_code PQC_RESPOND = 0xD1"
| "type_code PQC_CONFIRM = 0xD2"
| "type_code PQC_REKEY = 0xD3"
| "type_code PQC_DATA = 0xD4"
| "type_code PQC_CLOSE = 0xD5"
| "type_code ERROR = 0xFF"

definition message_types :: "message_type list" where
  "message_types =
     [PING, PONG, HEARTBEAT, STATUS_REQUEST,
      STATUS_RESPONSE, CAPABILITIES_REQUEST, CAPABILITIES_RESPONSE, CHAT,
      CHAT_ACK, FILE_OFFER, FILE_ACCEPT, FILE_CHUNK,
      ANNOUNCE, ANNOUNCE_ACK, PEER_REQUEST, PEER_RESPONSE,
      VPN_HANDSHAKE_REQUEST, VPN_HANDSHAKE_RESPONSE, EXEC, REBOOT,
      CONFIG_UPDATE, SERVICE_CONTROL, INBOX_QUERY, MESSAGES_QUERY,
      SELF_UPDATE, PROVISION, EXEC_RESULT, REBOOT_RESULT,
      CONFIG_RESULT, SERVICE_RESULT, INBOX_RESPONSE, MESSAGES_RESPONSE,
      SELF_UPDATE_RESULT, PROVISION_RESULT, REGISTRY_QUERY, REGISTRY_RESPONSE,
      FLEET_STATUS_REQUEST, FLEET_STATUS_RESPONSE, SUBSCRIBE, UNSUBSCRIBE,
      PUBLISH, SUBSCRIPTION_ACK, TERMINAL_REQUEST, TERMINAL_ACCEPT,
      TERMINAL_REJECT, TERMINAL_RESIZE, TERMINAL_SIGNAL, TERMINAL_CLOSE,
      TERMINAL_CLOSED, PQC_INITIATE, PQC_RESPOND, PQC_CONFIRM,
      PQC_REKEY, PQC_DATA, PQC_CLOSE, ERROR]"

text \<open>\<^verbatim>\<open>StyreneMessageType(value)\<close>: the member with that value, \<^verbatim>\<open>ValueError\<close> if none.\<close>

definition StyreneMessageType :: "nat \<Rightarrow> message_type res" where
  "StyreneMessageType n = int_enum_of type_code message_types n"

interpretation mt: int_enum type_code message_types
proof unfold_locales
  show "t \<in> set message_types" for t by (cases t) (simp_all add: message_types_def)
  show "distinct (map type_code message_types)" by (simp add: message_types_def)
qed

lemmas StyreneMessageType_code [simp] = mt.of_code [folded StyreneMessageType_def]
lemmas StyreneMessageType_Inr = mt.of_Inr [folded StyreneMessageType_def]
lemmas StyreneMessageType_Inl = mt.of_Inl [folded StyreneMessageType_def]
lemmas type_code_inj [simp] = mt.code_inj

lemma type_code_lt [simp]: "type_code t < 256"
  by (cases t) simp_all

section \<open>The envelope\<close>

record envelope =
  version :: int
  mtype :: message_type
  payload :: bytes
  request_id :: "bytes option"

text \<open>
  \<^verbatim>\<open>StyreneEnvelope(version, message_type, payload, request_id)\<close> with its
  \<^verbatim>\<open>__post_init__\<close>; \<open>rnd\<close> is what \<^verbatim>\<open>os.urandom(16)\<close> returns if it is called.
\<close>

definition StyreneEnvelope ::
    "bytes \<Rightarrow> int \<Rightarrow> message_type \<Rightarrow> bytes \<Rightarrow> bytes option \<Rightarrow> envelope res" where
  "StyreneEnvelope rnd v t p rid =
     (if \<not> (0 \<le> v \<and> v \<le> 255) then Inl ValueError
      else if MAX_PAYLOAD_SIZE < length p then Inl ValueError
      else if (case rid of None \<Rightarrow> False | Some r \<Rightarrow> length r \<noteq> REQUEST_ID_LENGTH) then Inl ValueError
      else if v = STYRENE_VERSION_2 \<and> rid = None then
        Inr \<lparr>version = v, mtype = t, payload = p, request_id = Some rnd\<rparr>
      else if v = STYRENE_VERSION_1 \<and> rid \<noteq> None then Inl ValueError
      else Inr \<lparr>version = v, mtype = t, payload = p, request_id = rid\<rparr>)"

definition expects_response :: "envelope \<Rightarrow> bool" where
  "expects_response e \<longleftrightarrow> request_id e \<noteq> None \<and> request_id e \<noteq> Some NO_CORRELATION"

text \<open>\<^verbatim>\<open>bytes([n])\<close>: one byte, \<^verbatim>\<open>ValueError\<close> outside 0 to 255.\<close>

definition byte_of_int :: "int \<Rightarrow> bytes res" where
  "byte_of_int n = (if 0 \<le> n \<and> n \<le> 255 then Inr [of_int n] else Inl ValueError)"

text \<open>\<^verbatim>\<open>self.request_id if self.request_id else NO_CORRELATION\<close>.\<close>

definition or_no_correlation :: "bytes option \<Rightarrow> bytes" where
  "or_no_correlation rid = (case rid of None \<Rightarrow> NO_CORRELATION | Some r \<Rightarrow> if r = [] then NO_CORRELATION else r)"

definition encode :: "envelope \<Rightarrow> bytes res" where
  "encode e =
     bind_res (byte_of_int (version e)) (\<lambda>v.
       let header = STYRENE_PREFIX @ v @ [of_nat (type_code (mtype e))] in
       if version e = STYRENE_VERSION_2
       then Inr (header @ or_no_correlation (request_id e) @ payload e)
       else Inr (header @ payload e))"

definition decode :: "bytes \<Rightarrow> bytes \<Rightarrow> envelope res" where
  "decode rnd data =
     (if length data < MIN_MESSAGE_LENGTH_V1 then Inl InvalidPrefixError
      else if \<not> prefix STYRENE_PREFIX data then Inl InvalidPrefixError
      else
        let offset = length STYRENE_PREFIX;
            v = uint (data ! offset);
            tv = unat (data ! (offset + 1))
        in if v \<noteq> STYRENE_VERSION_1 \<and> v \<noteq> STYRENE_VERSION_2 then Inl UnsupportedVersionError
           else case StyreneMessageType tv of
             Inl e \<Rightarrow> Inl InvalidMessageTypeError
           | Inr t \<Rightarrow>
               if v = STYRENE_VERSION_2 then
                 if length data < MIN_MESSAGE_LENGTH_V2 then Inl InvalidPrefixError
                 else StyreneEnvelope rnd v t (drop (offset + 2 + REQUEST_ID_LENGTH) data)
                        (Some (take REQUEST_ID_LENGTH (drop (offset + 2) data)))
               else StyreneEnvelope rnd v t (drop (offset + 2) data) None)"

definition is_styrene_message :: "bytes \<Rightarrow> bool" where
  "is_styrene_message data = prefix STYRENE_PREFIX data"

subsection \<open>Payloads\<close>

definition encode_payload :: "msgpack \<Rightarrow> pyval \<Rightarrow> bytes res" where
  "encode_payload mp v = packb mp v"

definition decode_payload :: "msgpack \<Rightarrow> bytes \<Rightarrow> pyval res" where
  "decode_payload mp data =
     (if MAX_PAYLOAD_SIZE < length data then Inl PayloadDecodeError
      else case unpackb_strict mp data of Inl e \<Rightarrow> Inl PayloadDecodeError | Inr v \<Rightarrow> Inr v)"

subsection \<open>Well-formed envelopes and the round trip\<close>

text \<open>What the constructor leaves behind for the two versions the decoder accepts.\<close>

definition wf_envelope :: "envelope \<Rightarrow> bool" where
  "wf_envelope e \<longleftrightarrow>
     length (payload e) \<le> MAX_PAYLOAD_SIZE \<and>
     (if version e = STYRENE_VERSION_2
      then (case request_id e of None \<Rightarrow> False | Some r \<Rightarrow> length r = REQUEST_ID_LENGTH)
      else version e = STYRENE_VERSION_1 \<and> request_id e = None)"

lemma StyreneEnvelope_Inl: "StyreneEnvelope rnd v t p rid = Inl e \<Longrightarrow> e = ValueError"
  by (auto simp: StyreneEnvelope_def split: if_splits)

lemma StyreneEnvelope_fields:
  "StyreneEnvelope rnd v t p rid = Inr e \<Longrightarrow>
     version e = v \<and> mtype e = t \<and> payload e = p \<and>
     request_id e = (if v = STYRENE_VERSION_2 \<and> rid = None then Some rnd else rid)"
  by (auto simp: StyreneEnvelope_def split: if_splits)

lemma StyreneEnvelope_wf:
  assumes "StyreneEnvelope rnd v t p rid = Inr e" and "length rnd = REQUEST_ID_LENGTH"
    and "v = STYRENE_VERSION_1 \<or> v = STYRENE_VERSION_2"
  shows "wf_envelope e"
  using assms by (auto simp: StyreneEnvelope_def wf_envelope_def STYRENE_VERSION_1_def
      STYRENE_VERSION_2_def split: if_splits option.splits)

lemma StyreneEnvelope_refl:
  "wf_envelope e \<Longrightarrow> StyreneEnvelope rnd (version e) (mtype e) (payload e) (request_id e) = Inr e"
  by (cases e) (auto simp: StyreneEnvelope_def wf_envelope_def STYRENE_VERSION_1_def
      STYRENE_VERSION_2_def split: if_splits option.splits)

text \<open>The decoder on data that passes the length and prefix tests.\<close>

lemma decode_split:
  "decode rnd (STYRENE_PREFIX @ v # t # rest) =
     (if uint v \<noteq> 1 \<and> uint v \<noteq> 2 then Inl UnsupportedVersionError
      else case StyreneMessageType (unat t) of
        Inl e \<Rightarrow> Inl InvalidMessageTypeError
      | Inr m \<Rightarrow>
          if uint v = 2 then
            if length rest < 16 then Inl InvalidPrefixError
            else StyreneEnvelope rnd (uint v) m (drop 16 rest) (Some (take 16 rest))
          else StyreneEnvelope rnd (uint v) m rest None)"
  by (cases "StyreneMessageType (unat t)")
    (simp_all add: decode_def nth_append REQUEST_ID_LENGTH_def STYRENE_VERSION_1_def
      STYRENE_VERSION_2_def Let_def)

definition wire_shaped :: "bytes \<Rightarrow> bool" where
  "wire_shaped data \<longleftrightarrow> MIN_MESSAGE_LENGTH_V1 \<le> length data \<and> is_styrene_message data"

lemma wire_shaped_iff: "wire_shaped data \<longleftrightarrow> (\<exists>v t rest. data = STYRENE_PREFIX @ v # t # rest)"
proof
  assume "wire_shaped data"
  then obtain zs where zs: "data = STYRENE_PREFIX @ zs" and "13 \<le> length data"
    by (auto simp: wire_shaped_def is_styrene_message_def prefix_def)
  then have "2 \<le> length zs" by simp
  then obtain v t rest where "zs = v # t # rest"
    by (cases zs; cases "tl zs") auto
  with zs show "\<exists>v t rest. data = STYRENE_PREFIX @ v # t # rest" by blast
qed (auto simp: wire_shaped_def is_styrene_message_def)

lemma decode_unshaped: "\<not> wire_shaped data \<Longrightarrow> decode rnd data = Inl InvalidPrefixError"
  by (auto simp: wire_shaped_def is_styrene_message_def decode_def)

lemma encode_v2:
  "version e = STYRENE_VERSION_2 \<Longrightarrow> request_id e = Some r \<Longrightarrow> length r = REQUEST_ID_LENGTH \<Longrightarrow>
     encode e = Inr (STYRENE_PREFIX @ 2 # of_nat (type_code (mtype e)) # r @ payload e)"
  by (auto simp: encode_def byte_of_int_def STYRENE_VERSION_2_def or_no_correlation_def
      REQUEST_ID_LENGTH_def)

lemma encode_v1:
  "version e = STYRENE_VERSION_1 \<Longrightarrow>
     encode e = Inr (STYRENE_PREFIX @ 1 # of_nat (type_code (mtype e)) # payload e)"
  by (auto simp: encode_def byte_of_int_def STYRENE_VERSION_1_def STYRENE_VERSION_2_def)

lemma unat_type_code [simp]: "unat (of_nat (type_code t) :: byte) = type_code t"
  by (simp add: unat_of_nat)

lemma of_nat_type_code: "unat (b :: byte) = type_code t \<Longrightarrow> of_nat (type_code t) = b"
  by (simp add: word_unat_eq_iff)

lemma uint_eq_1 [simp]: "uint (v :: byte) = 1 \<longleftrightarrow> v = 1"
  by (simp add: word_uint_eq_iff)

lemma uint_eq_2 [simp]: "uint (v :: byte) = 2 \<longleftrightarrow> v = 2"
  by (simp add: word_uint_eq_iff)

interpretation wire: canonical_codec wf_envelope encode "decode rnd"
proof unfold_locales
  fix e :: envelope and b :: bytes
  show "\<exists>b. encode e = Inr b" if "wf_envelope e"
    using that encode_v1 [of e] encode_v2 [of e]
    by (auto simp: wf_envelope_def split: if_splits option.splits)
  show "decode rnd b = Inr e" if "wf_envelope e" and "encode e = Inr b"
  proof (cases "version e = STYRENE_VERSION_2")
    case True
    with that obtain r where "request_id e = Some r" "length r = REQUEST_ID_LENGTH"
      by (auto simp: wf_envelope_def split: option.splits)
    with True that StyreneEnvelope_refl [of e rnd] encode_v2 [of e r] show ?thesis
      by (auto simp: decode_split REQUEST_ID_LENGTH_def STYRENE_VERSION_2_def)
  next
    case False
    with that StyreneEnvelope_refl [of e rnd] encode_v1 [of e] show ?thesis
      by (auto simp: decode_split wf_envelope_def STYRENE_VERSION_1_def)
  qed
  have key: "wf_envelope e \<and> encode e = Inr b" if dec: "decode rnd b = Inr e"
  proof -
    obtain v t rest where b: "b = STYRENE_PREFIX @ v # t # rest"
      using dec decode_unshaped [of b rnd] by (cases "wire_shaped b") (auto simp: wire_shaped_iff)
    from dec show ?thesis unfolding b decode_split
      by (auto simp: StyreneEnvelope_def wf_envelope_def encode_def byte_of_int_def
          or_no_correlation_def wire_consts StyreneMessageType_Inr of_nat_type_code
          split: if_splits sum.splits)
  qed
  show "wf_envelope e" if "decode rnd b = Inr e" using key that by simp
  show "encode e = Inr b" if "decode rnd b = Inr e" using key that by simp
qed

section \<open>Properties\<close>

text \<open>
  Claim C1. The decoder accepts exactly the encodings of well-formed envelopes and gives each
  back unchanged, and every well-formed envelope survives the round trip.
\<close>

theorem decode_accepts_exactly_encodings:
  "(decode rnd data = Inr e \<longleftrightarrow> wf_envelope e \<and> encode e = Inr data) \<and>
   (wf_envelope e \<longleftrightarrow> (\<exists>d. encode e = Inr d \<and> decode rnd d = Inr e))"
  using wire.dec_iff [of rnd] wire.enc_total by blast

text \<open>
  Claim C2. Which exception the decoder raises, completely: a message that is too short or
  has the wrong prefix, a version 2 message without room for its request id
  (\<^verbatim>\<open>InvalidPrefixError\<close>), another version, an unassigned type byte, and, for a payload over
  the limit, the constructor's \<^verbatim>\<open>ValueError\<close>, which is not one of the wire errors.
\<close>

lemma decode_Inl_split:
  "decode rnd (STYRENE_PREFIX @ v # t # rest) = Inl e \<longleftrightarrow>
     (if v \<noteq> 1 \<and> v \<noteq> 2 then e = UnsupportedVersionError
      else if unat t \<notin> range type_code then e = InvalidMessageTypeError
      else if v = 2 \<and> length rest < 16 then e = InvalidPrefixError
      else e = ValueError \<and> MAX_PAYLOAD_SIZE + (if v = 2 then 16 else 0) < length rest)"
proof (cases "unat t \<in> range type_code")
  case True
  then obtain m where "StyreneMessageType (unat t) = Inr m" by (auto simp: StyreneMessageType_Inr)
  with True show ?thesis
    by (auto simp: decode_split StyreneEnvelope_def REQUEST_ID_LENGTH_def STYRENE_VERSION_1_def
        STYRENE_VERSION_2_def less_diff_conv split: if_splits)
next
  case False
  then have "StyreneMessageType (unat t) = Inl ValueError" by (simp add: StyreneMessageType_Inl)
  with False show ?thesis by (auto simp: decode_split)
qed

theorem decode_errors:
  "decode rnd data = Inl e \<longleftrightarrow>
     (if \<not> wire_shaped data then e = InvalidPrefixError
      else if data ! 11 \<noteq> 1 \<and> data ! 11 \<noteq> 2 then e = UnsupportedVersionError
      else if unat (data ! 12) \<notin> range type_code then e = InvalidMessageTypeError
      else if data ! 11 = 2 \<and> length data < MIN_MESSAGE_LENGTH_V2 then e = InvalidPrefixError
      else e = ValueError \<and>
        MAX_PAYLOAD_SIZE + (if data ! 11 = 2 then MIN_MESSAGE_LENGTH_V2 else MIN_MESSAGE_LENGTH_V1)
          < length data)"
proof (cases "wire_shaped data")
  case True
  then obtain v t rest where "data = STYRENE_PREFIX @ v # t # rest"
    by (auto simp: wire_shaped_iff)
  with True show ?thesis by (simp add: decode_Inl_split nth_append add.commute)
next
  case False
  then show ?thesis by (auto simp: decode_unshaped)
qed

end
