(* ===== verification/Wire_Messages.thy ===== *)
theory Wire_Messages
  imports Wire
begin

text \<open>
  The message factories of \<^verbatim>\<open>src/styrened/models/styrene_wire.py\<close>, one definition per
  \<^verbatim>\<open>create_*\<close> function. \<open>rnd\<close> is the value of \<^verbatim>\<open>os.urandom(16)\<close> if the
  envelope draws one; \<open>rid\<close> is the \<^verbatim>\<open>request_id\<close> argument. The lemmas say what a
  factory's envelope holds and that the receiver's decoder gives it back, payload included.
\<close>

section \<open>The factories\<close>

text \<open>\<^verbatim>\<open>StyreneEnvelope(STYRENE_VERSION, t, encode_payload(v), rid)\<close>.\<close>

definition packed :: "msgpack \<Rightarrow> bytes \<Rightarrow> message_type \<Rightarrow> pyval \<Rightarrow> bytes option \<Rightarrow> envelope res" where
  "packed mp rnd t v rid =
     bind_res (encode_payload mp v) (\<lambda>p. StyreneEnvelope rnd STYRENE_VERSION t p rid)"

definition create_ping ::
    "bytes \<Rightarrow> bytes option \<Rightarrow> envelope res" where
  "create_ping rnd rid =
     StyreneEnvelope rnd STYRENE_VERSION PING [] rid"

definition create_pong ::
    "bytes \<Rightarrow> bytes option \<Rightarrow> envelope res" where
  "create_pong rnd rid =
     StyreneEnvelope rnd STYRENE_VERSION PONG [] (Some (or_no_correlation rid))"

definition create_status_request ::
    "bytes \<Rightarrow> bytes option \<Rightarrow> envelope res" where
  "create_status_request rnd rid =
     StyreneEnvelope rnd STYRENE_VERSION STATUS_REQUEST [] rid"

definition create_status_response ::
    "msgpack \<Rightarrow> bytes \<Rightarrow> pydict \<Rightarrow> bytes option \<Rightarrow> envelope res" where
  "create_status_response mp rnd status_data rid =
     packed mp rnd STATUS_RESPONSE
      (PDict status_data)
      (Some (or_no_correlation rid))"

definition create_chat ::
    "msgpack \<Rightarrow> bytes \<Rightarrow> string \<Rightarrow> bytes option \<Rightarrow> envelope res" where
  "create_chat mp rnd message rid =
     packed mp rnd CHAT
      (PDict (kv [(''text'', PStr message)]))
      (Some (or_no_correlation rid))"

definition create_announce ::
    "msgpack \<Rightarrow> bytes \<Rightarrow> pydict \<Rightarrow> envelope res" where
  "create_announce mp rnd identity_data =
     packed mp rnd ANNOUNCE
      (PDict identity_data)
      (Some NO_CORRELATION)"

definition create_error ::
    "msgpack \<Rightarrow> bytes \<Rightarrow> int \<Rightarrow> string \<Rightarrow> bytes option \<Rightarrow> envelope res" where
  "create_error mp rnd error_code message rid =
     packed mp rnd ERROR
      (PDict (kv [(''code'', PInt error_code), (''message'', PStr message)]))
      (Some (or_no_correlation rid))"

definition create_exec ::
    "msgpack \<Rightarrow> bytes \<Rightarrow> string \<Rightarrow> string list \<Rightarrow> bytes option \<Rightarrow> envelope res" where
  "create_exec mp rnd command args rid =
     packed mp rnd EXEC
      (PDict (kv [(''command'', PStr command), (''args'', str_list args)]))
      rid"

definition create_exec_result ::
    "msgpack \<Rightarrow> bytes \<Rightarrow> int \<Rightarrow> string \<Rightarrow> string \<Rightarrow> bytes option \<Rightarrow> envelope res" where
  "create_exec_result mp rnd exit_code stdout stderr rid =
     packed mp rnd EXEC_RESULT
      (PDict (kv [(''exit_code'', PInt exit_code), (''stdout'', PStr stdout), (''stderr'', PStr stderr)]))
      (Some (or_no_correlation rid))"

definition create_reboot ::
    "msgpack \<Rightarrow> bytes \<Rightarrow> int \<Rightarrow> bytes option \<Rightarrow> envelope res" where
  "create_reboot mp rnd delay rid =
     packed mp rnd REBOOT
      (PDict (kv [(''delay'', PInt delay)]))
      rid"

definition create_reboot_result ::
    "msgpack \<Rightarrow> bytes \<Rightarrow> bool \<Rightarrow> string \<Rightarrow> rat option \<Rightarrow> bytes option \<Rightarrow> envelope res" where
  "create_reboot_result mp rnd success message scheduled_time rid =
     packed mp rnd REBOOT_RESULT
      (PDict (kv ([(''success'', PBool success), (''message'', PStr message)] @
       opt_entry ''scheduled_time'' PFloat scheduled_time)))
      (Some (or_no_correlation rid))"

definition create_config_update ::
    "msgpack \<Rightarrow> bytes \<Rightarrow> pydict \<Rightarrow> bytes option \<Rightarrow> envelope res" where
  "create_config_update mp rnd updates rid =
     packed mp rnd CONFIG_UPDATE
      (PDict (kv [(''updates'', PDict updates)]))
      rid"

definition create_config_result ::
    "msgpack \<Rightarrow> bytes \<Rightarrow> bool \<Rightarrow> string \<Rightarrow> string list \<Rightarrow> bytes option \<Rightarrow> envelope res" where
  "create_config_result mp rnd success message updated_keys rid =
     packed mp rnd CONFIG_RESULT
      (PDict (kv [(''success'', PBool success), (''message'', PStr message),
       (''updated_keys'', str_list updated_keys)]))
      (Some (or_no_correlation rid))"

definition create_self_update ::
    "msgpack \<Rightarrow> bytes \<Rightarrow> string option \<Rightarrow> bytes option \<Rightarrow> envelope res" where
  "create_self_update mp rnd target rid =
     packed mp rnd SELF_UPDATE
      (PDict (kv [(''version'', opt PStr target)]))
      rid"

definition create_self_update_result ::
    "msgpack \<Rightarrow> bytes \<Rightarrow> bool \<Rightarrow> string \<Rightarrow> string \<Rightarrow> string option \<Rightarrow> bytes option \<Rightarrow> envelope res" where
  "create_self_update_result mp rnd success message old_version new_version rid =
     packed mp rnd SELF_UPDATE_RESULT
      (PDict (kv ([(''success'', PBool success), (''message'', PStr message),
       (''old_version'', PStr old_version)] @ opt_entry ''new_version'' PStr new_version)))
      (Some (or_no_correlation rid))"

definition create_provision ::
    "msgpack \<Rightarrow> bytes \<Rightarrow> string \<Rightarrow> bytes option \<Rightarrow> envelope res" where
  "create_provision mp rnd adapter rid =
     packed mp rnd PROVISION
      (PDict (kv [(''adapter'', PStr adapter), (''type'', PStr ''provision'')]))
      (Some (or_no_correlation rid))"

definition create_provision_result ::
    "msgpack \<Rightarrow> bytes \<Rightarrow> pydict \<Rightarrow> bytes option \<Rightarrow> envelope res" where
  "create_provision_result mp rnd outcome rid =
     packed mp rnd PROVISION_RESULT
      (PDict outcome)
      (Some (or_no_correlation rid))"

definition create_inbox_query ::
    "msgpack \<Rightarrow> bytes \<Rightarrow> int \<Rightarrow> bytes option \<Rightarrow> envelope res" where
  "create_inbox_query mp rnd limit rid =
     packed mp rnd INBOX_QUERY
      (PDict (kv [(''limit'', PInt limit)]))
      rid"

definition create_inbox_response ::
    "msgpack \<Rightarrow> bytes \<Rightarrow> pydict list \<Rightarrow> bytes option \<Rightarrow> envelope res" where
  "create_inbox_response mp rnd conversations rid =
     packed mp rnd INBOX_RESPONSE
      (PDict (kv [(''conversations'', PList (map PDict conversations))]))
      (Some (or_no_correlation rid))"

definition create_messages_query ::
    "msgpack \<Rightarrow> bytes \<Rightarrow> string \<Rightarrow> int \<Rightarrow> bytes option \<Rightarrow> envelope res" where
  "create_messages_query mp rnd peer_hash limit rid =
     packed mp rnd MESSAGES_QUERY
      (PDict (kv [(''peer_hash'', PStr peer_hash), (''limit'', PInt limit)]))
      rid"

definition create_messages_response ::
    "msgpack \<Rightarrow> bytes \<Rightarrow> pydict list \<Rightarrow> bytes option \<Rightarrow> envelope res" where
  "create_messages_response mp rnd messages rid =
     packed mp rnd MESSAGES_RESPONSE
      (PDict (kv [(''messages'', PList (map PDict messages))]))
      (Some (or_no_correlation rid))"

definition create_terminal_request ::
    "msgpack \<Rightarrow> bytes \<Rightarrow> string \<Rightarrow> int \<Rightarrow> int \<Rightarrow> string option \<Rightarrow> string option \<Rightarrow> string list option \<Rightarrow> bytes option \<Rightarrow> envelope res" where
  "create_terminal_request mp rnd term_type rows cols shell cmd argv rid =
     packed mp rnd TERMINAL_REQUEST
      (PDict (kv ([(''term_type'', PStr term_type), (''rows'', PInt rows), (''cols'', PInt cols)] @
       opt_entry ''shell'' PStr shell @ opt_entry ''command'' PStr cmd @
       opt_entry ''args'' str_list argv)))
      rid"

definition create_terminal_accept ::
    "msgpack \<Rightarrow> bytes \<Rightarrow> string \<Rightarrow> bytes option \<Rightarrow> bytes option \<Rightarrow> string option \<Rightarrow> envelope res" where
  "create_terminal_accept mp rnd link_destination session_id rid identity_hash =
     packed mp rnd TERMINAL_ACCEPT
      (PDict (kv ([(''link_destination'', PStr link_destination)] @
       opt_entry ''session_id'' (\<lambda>s. PStr (hex_of s)) (if session_id = None then rid else session_id) @
       opt_entry ''identity_hash'' PStr identity_hash)))
      (Some (or_no_correlation rid))"

definition create_terminal_reject ::
    "msgpack \<Rightarrow> bytes \<Rightarrow> string \<Rightarrow> int \<Rightarrow> bytes option \<Rightarrow> envelope res" where
  "create_terminal_reject mp rnd reason code rid =
     packed mp rnd TERMINAL_REJECT
      (PDict (kv [(''reason'', PStr reason), (''code'', PInt code)]))
      (Some (or_no_correlation rid))"

definition create_terminal_resize ::
    "msgpack \<Rightarrow> bytes \<Rightarrow> int \<Rightarrow> int \<Rightarrow> bytes option \<Rightarrow> bytes option \<Rightarrow> envelope res" where
  "create_terminal_resize mp rnd rows cols session_id rid =
     packed mp rnd TERMINAL_RESIZE
      (PDict (kv ([(''rows'', PInt rows), (''cols'', PInt cols)] @
       opt_entry ''session_id'' (\<lambda>s. PStr (hex_of s)) session_id)))
      (Some (or_no_correlation rid))"

definition create_terminal_signal ::
    "msgpack \<Rightarrow> bytes \<Rightarrow> int \<Rightarrow> bytes option \<Rightarrow> bytes option \<Rightarrow> envelope res" where
  "create_terminal_signal mp rnd sig session_id rid =
     packed mp rnd TERMINAL_SIGNAL
      (PDict (kv ([(''signal'', PInt sig)] @ opt_entry ''session_id'' (\<lambda>s. PStr (hex_of s)) session_id)))
      (Some (or_no_correlation rid))"

definition create_terminal_close ::
    "msgpack \<Rightarrow> bytes \<Rightarrow> bytes option \<Rightarrow> bytes option \<Rightarrow> envelope res" where
  "create_terminal_close mp rnd session_id rid =
     packed mp rnd TERMINAL_CLOSE
      (PDict (kv (opt_entry ''session_id'' (\<lambda>s. PStr (hex_of s)) session_id)))
      (Some (or_no_correlation rid))"

definition create_terminal_closed ::
    "msgpack \<Rightarrow> bytes \<Rightarrow> int \<Rightarrow> string \<Rightarrow> bytes option \<Rightarrow> bytes option \<Rightarrow> envelope res" where
  "create_terminal_closed mp rnd exit_code reason session_id rid =
     packed mp rnd TERMINAL_CLOSED
      (PDict (kv ([(''exit_code'', PInt exit_code), (''reason'', PStr reason)] @
       opt_entry ''session_id'' (\<lambda>s. PStr (hex_of s)) session_id)))
      (Some (or_no_correlation rid))"

definition create_file_offer ::
    "msgpack \<Rightarrow> bytes \<Rightarrow> string \<Rightarrow> int \<Rightarrow> string option \<Rightarrow> string option \<Rightarrow> bytes option \<Rightarrow> envelope res" where
  "create_file_offer mp rnd filename nbytes mime_type checksum_sha256 rid =
     packed mp rnd FILE_OFFER
      (PDict (kv ([(''filename'', PStr filename), (''size'', PInt nbytes)] @
       opt_entry ''mime_type'' PStr mime_type @ opt_entry ''checksum'' PStr checksum_sha256)))
      (Some (or_no_correlation rid))"

definition create_file_accept ::
    "msgpack \<Rightarrow> bytes \<Rightarrow> int \<Rightarrow> bytes option \<Rightarrow> envelope res" where
  "create_file_accept mp rnd max_size rid =
     packed mp rnd FILE_ACCEPT
      (PDict (kv [(''max_size'', PInt max_size)]))
      (Some (or_no_correlation rid))"

lemmas factory_defs =
  create_ping_def create_pong_def create_status_request_def
  create_status_response_def create_chat_def create_announce_def
  create_error_def create_exec_def create_exec_result_def
  create_reboot_def create_reboot_result_def create_config_update_def
  create_config_result_def create_self_update_def create_self_update_result_def
  create_provision_def create_provision_result_def create_inbox_query_def
  create_inbox_response_def create_messages_query_def create_messages_response_def
  create_terminal_request_def create_terminal_accept_def create_terminal_reject_def
  create_terminal_resize_def create_terminal_signal_def create_terminal_close_def
  create_terminal_closed_def create_file_offer_def create_file_accept_def

section \<open>What the factories put in an envelope\<close>

text \<open>
  \<open>stamped t rid r\<close>: the factory either fails or yields a version-2 envelope of type \<open>t\<close>
  with request id \<open>rid\<close>.
\<close>

definition stamped :: "message_type \<Rightarrow> bytes \<Rightarrow> envelope res \<Rightarrow> bool" where
  "stamped t rid r \<longleftrightarrow> (case r of Inl e \<Rightarrow> True
     | Inr e \<Rightarrow> version e = STYRENE_VERSION_2 \<and> mtype e = t \<and> request_id e = Some rid)"

definition or_fresh :: "bytes \<Rightarrow> bytes option \<Rightarrow> bytes" where
  "or_fresh rnd rid = (case rid of None \<Rightarrow> rnd | Some r \<Rightarrow> r)"

lemma stamped_Inl [simp]: "stamped t rid (Inl e)"
  by (simp add: stamped_def)

lemma stamped_some: "stamped t rid (StyreneEnvelope rnd STYRENE_VERSION t p (Some rid))"
  by (auto simp: stamped_def STYRENE_VERSION_def dest!: StyreneEnvelope_fields split: sum.splits)

lemma stamped_fresh:
  "stamped t (or_fresh rnd rid) (StyreneEnvelope rnd STYRENE_VERSION t p rid)"
  by (auto simp: stamped_def STYRENE_VERSION_def or_fresh_def dest!: StyreneEnvelope_fields
      split: sum.splits option.splits)

lemma stamped_packed_some: "stamped t rid (packed mp rnd t v (Some rid))"
  using stamped_some by (cases "encode_payload mp v") (simp_all add: packed_def)

lemma stamped_packed_fresh:
  "stamped t (or_fresh rnd rid) (packed mp rnd t v rid)"
  using stamped_fresh by (cases "encode_payload mp v") (simp_all add: packed_def)

lemmas stamped_intros = stamped_some stamped_fresh stamped_packed_some stamped_packed_fresh

text \<open>Every answer carries the correlation id it was given, or the all-zero id.\<close>

lemma reply_factories_stamped:
  "stamped PONG (or_no_correlation rid) (create_pong rnd rid)"
  "stamped STATUS_RESPONSE (or_no_correlation rid) (create_status_response mp rnd status_data rid)"
  "stamped CHAT (or_no_correlation rid) (create_chat mp rnd message rid)"
  "stamped ERROR (or_no_correlation rid) (create_error mp rnd error_code message rid)"
  "stamped EXEC_RESULT (or_no_correlation rid) (create_exec_result mp rnd exit_code stdout stderr rid)"
  "stamped REBOOT_RESULT (or_no_correlation rid) (create_reboot_result mp rnd success message scheduled_time rid)"
  "stamped CONFIG_RESULT (or_no_correlation rid) (create_config_result mp rnd success message updated_keys rid)"
  "stamped SELF_UPDATE_RESULT (or_no_correlation rid) (create_self_update_result mp rnd success message old_version new_version rid)"
  "stamped PROVISION (or_no_correlation rid) (create_provision mp rnd adapter rid)"
  "stamped PROVISION_RESULT (or_no_correlation rid) (create_provision_result mp rnd outcome rid)"
  "stamped INBOX_RESPONSE (or_no_correlation rid) (create_inbox_response mp rnd conversations rid)"
  "stamped MESSAGES_RESPONSE (or_no_correlation rid) (create_messages_response mp rnd messages rid)"
  "stamped TERMINAL_ACCEPT (or_no_correlation rid) (create_terminal_accept mp rnd link_destination session_id rid identity_hash)"
  "stamped TERMINAL_REJECT (or_no_correlation rid) (create_terminal_reject mp rnd reason code rid)"
  "stamped TERMINAL_RESIZE (or_no_correlation rid) (create_terminal_resize mp rnd rows cols session_id rid)"
  "stamped TERMINAL_SIGNAL (or_no_correlation rid) (create_terminal_signal mp rnd sig session_id rid)"
  "stamped TERMINAL_CLOSE (or_no_correlation rid) (create_terminal_close mp rnd session_id rid)"
  "stamped TERMINAL_CLOSED (or_no_correlation rid) (create_terminal_closed mp rnd exit_code reason session_id rid)"
  "stamped FILE_OFFER (or_no_correlation rid) (create_file_offer mp rnd filename nbytes mime_type checksum_sha256 rid)"
  "stamped FILE_ACCEPT (or_no_correlation rid) (create_file_accept mp rnd max_size rid)"
  by (simp_all only: factory_defs stamped_intros)

text \<open>Every request carries the caller's id, or a freshly drawn one.\<close>

lemma request_factories_stamped:
  "stamped PING (or_fresh rnd rid) (create_ping rnd rid)"
  "stamped STATUS_REQUEST (or_fresh rnd rid) (create_status_request rnd rid)"
  "stamped EXEC (or_fresh rnd rid) (create_exec mp rnd command args rid)"
  "stamped REBOOT (or_fresh rnd rid) (create_reboot mp rnd delay rid)"
  "stamped CONFIG_UPDATE (or_fresh rnd rid) (create_config_update mp rnd updates rid)"
  "stamped SELF_UPDATE (or_fresh rnd rid) (create_self_update mp rnd target rid)"
  "stamped INBOX_QUERY (or_fresh rnd rid) (create_inbox_query mp rnd limit rid)"
  "stamped MESSAGES_QUERY (or_fresh rnd rid) (create_messages_query mp rnd peer_hash limit rid)"
  "stamped TERMINAL_REQUEST (or_fresh rnd rid) (create_terminal_request mp rnd term_type rows cols shell cmd argv rid)"
  by (simp_all only: factory_defs stamped_intros)

section \<open>Delivery\<close>

text \<open>
  What the peer sees of an envelope: encoded, carried as \<^verbatim>\<open>FIELD_CUSTOM_DATA\<close>, decoded,
  and its payload unpacked.
\<close>

definition deliver :: "msgpack \<Rightarrow> bytes \<Rightarrow> envelope res \<Rightarrow> (message_type \<times> bytes option \<times> pyval) res" where
  "deliver mp rnd r =
     bind_res r (\<lambda>e. bind_res (encode e) (\<lambda>d. bind_res (decode rnd d) (\<lambda>e'.
       bind_res (decode_payload mp (payload e')) (\<lambda>v. Inr (mtype e', request_id e', v)))))"

text \<open>What the sender and receiver rely on of msgpack, at one value.\<close>

definition packs :: "msgpack \<Rightarrow> pyval \<Rightarrow> bool" where
  "packs mp v \<longleftrightarrow> (case packb mp v of Inl e \<Rightarrow> False
     | Inr p \<Rightarrow> length p \<le> MAX_PAYLOAD_SIZE \<and> unpackb_strict mp p = Inr v)"

lemma deliver_packed:
  assumes "packs mp v" and "length r = REQUEST_ID_LENGTH"
  shows "deliver mp rnd' (packed mp rnd t v (Some r)) = Inr (t, Some r, v)"
proof -
  obtain p where p: "packb mp v = Inr p" "length p \<le> MAX_PAYLOAD_SIZE" "unpackb_strict mp p = Inr v"
    using assms(1) by (auto simp: packs_def split: sum.splits)
  define e where "e = \<lparr>version = STYRENE_VERSION_2, mtype = t, payload = p, request_id = Some r\<rparr>"
  have e: "packed mp rnd t v (Some r) = Inr e"
    using p assms(2) by (simp add: packed_def encode_payload_def StyreneEnvelope_def e_def wire_consts)
  have "wf_envelope e"
    using p assms(2) by (simp add: wf_envelope_def e_def)
  then obtain d where d: "encode e = Inr d" "decode rnd' d = Inr e"
    using wire.enc_total wire.dec_enc by blast
  show ?thesis
    using p by (simp add: deliver_def e d decode_payload_def) (simp add: e_def)
qed

lemma length_or_no_correlation:
  "(\<And>r. rid = Some r \<Longrightarrow> length r = REQUEST_ID_LENGTH) \<Longrightarrow>
     length (or_no_correlation rid) = REQUEST_ID_LENGTH"
  by (auto simp: or_no_correlation_def REQUEST_ID_LENGTH_def split: option.splits)

lemma or_no_correlation_Some [simp]: "r \<noteq> [] \<Longrightarrow> or_no_correlation (Some r) = r"
  by (simp add: or_no_correlation_def)

section \<open>Properties\<close>

text \<open>
  A remote command and its answer arrive intact: when msgpack gives back the two
  payloads, the peer decodes the \<^verbatim>\<open>EXEC\<close> request with its correlation id, command and
  arguments, and the requester decodes the \<^verbatim>\<open>EXEC_RESULT\<close> with the same id.
\<close>

theorem exec_exchange_delivered:
  assumes "packs mp (PDict (kv [(''command'', PStr cmd), (''args'', str_list args)]))"
    and "packs mp (PDict (kv [(''exit_code'', PInt code), (''stdout'', PStr out), (''stderr'', PStr err)]))"
    and "length r = REQUEST_ID_LENGTH"
  shows "deliver mp rnd' (create_exec mp rnd cmd args (Some r)) =
           Inr (EXEC, Some r, PDict (kv [(''command'', PStr cmd), (''args'', str_list args)])) \<and>
         deliver mp rnd' (create_exec_result mp rnd code out err (Some r)) =
           Inr (EXEC_RESULT, Some r,
             PDict (kv [(''exit_code'', PInt code), (''stdout'', PStr out), (''stderr'', PStr err)]))"
proof -
  have "r \<noteq> []" using assms(3) by (auto simp: REQUEST_ID_LENGTH_def)
  then show ?thesis
    using deliver_packed [OF assms(1,3)] deliver_packed [OF assms(2,3)]
    by (simp add: create_exec_def create_exec_result_def)
qed

text \<open>A msgpack that tells the two payloads apart.\<close>

definition two_value_msgpack :: "pyval \<Rightarrow> pyval \<Rightarrow> msgpack" where
  "two_value_msgpack a b =
     \<lparr>packb = (\<lambda>v. Inr (if v = a then [1] else [2])),
      unpackb_strict = (\<lambda>p. Inr (if p = [1] then a else b)),
      unpackb_text = (\<lambda>p. Inr (if p = [1] then a else b)),
      unpackb_raw = (\<lambda>p. Inr (if p = [1] then a else b))\<rparr>"

lemma two_value_packs: "packs (two_value_msgpack a b) a" "packs (two_value_msgpack a b) b"
  by (auto simp: packs_def two_value_msgpack_def MAX_PAYLOAD_SIZE_def)

theorem exec_exchange_delivered_witness:
  "let a = PDict (kv [(''command'', PStr ''uptime''), (''args'', str_list [''-p''])]);
       b = PDict (kv [(''exit_code'', PInt 0), (''stdout'', PStr ''up''), (''stderr'', PStr [])]);
       mp = two_value_msgpack a b; r = replicate 16 7
   in deliver mp [] (create_exec mp [] ''uptime'' [''-p''] (Some r)) = Inr (EXEC, Some r, a) \<and>
      deliver mp [] (create_exec_result mp [] 0 ''up'' [] (Some r)) = Inr (EXEC_RESULT, Some r, b)"
  unfolding Let_def
  by (intro exec_exchange_delivered two_value_packs) (simp add: REQUEST_ID_LENGTH_def)

text \<open>
  Every answer factory stamps its envelope with its own message type, protocol
  version 2 and the correlation id of the request it answers (all zero when there was none);
  so an answer can be matched whatever its payload.
\<close>

theorem replies_carry_the_correlation_id:
  "stamped PONG (or_no_correlation rid) (create_pong rnd rid) \<and>
   stamped STATUS_RESPONSE (or_no_correlation rid) (create_status_response mp rnd status_data rid) \<and>
   stamped CHAT (or_no_correlation rid) (create_chat mp rnd message rid) \<and>
   stamped ERROR (or_no_correlation rid) (create_error mp rnd error_code message rid) \<and>
   stamped EXEC_RESULT (or_no_correlation rid) (create_exec_result mp rnd exit_code stdout stderr rid) \<and>
   stamped REBOOT_RESULT (or_no_correlation rid) (create_reboot_result mp rnd success message scheduled_time rid) \<and>
   stamped CONFIG_RESULT (or_no_correlation rid) (create_config_result mp rnd success message updated_keys rid) \<and>
   stamped SELF_UPDATE_RESULT (or_no_correlation rid) (create_self_update_result mp rnd success message old_version new_version rid) \<and>
   stamped PROVISION (or_no_correlation rid) (create_provision mp rnd adapter rid) \<and>
   stamped PROVISION_RESULT (or_no_correlation rid) (create_provision_result mp rnd outcome rid) \<and>
   stamped INBOX_RESPONSE (or_no_correlation rid) (create_inbox_response mp rnd conversations rid) \<and>
   stamped MESSAGES_RESPONSE (or_no_correlation rid) (create_messages_response mp rnd messages rid) \<and>
   stamped TERMINAL_ACCEPT (or_no_correlation rid) (create_terminal_accept mp rnd link_destination session_id rid identity_hash) \<and>
   stamped TERMINAL_REJECT (or_no_correlation rid) (create_terminal_reject mp rnd reason code rid) \<and>
   stamped TERMINAL_RESIZE (or_no_correlation rid) (create_terminal_resize mp rnd rows cols session_id rid) \<and>
   stamped TERMINAL_SIGNAL (or_no_correlation rid) (create_terminal_signal mp rnd sig session_id rid) \<and>
   stamped TERMINAL_CLOSE (or_no_correlation rid) (create_terminal_close mp rnd session_id rid) \<and>
   stamped TERMINAL_CLOSED (or_no_correlation rid) (create_terminal_closed mp rnd exit_code reason session_id rid) \<and>
   stamped FILE_OFFER (or_no_correlation rid) (create_file_offer mp rnd filename nbytes mime_type checksum_sha256 rid) \<and>
   stamped FILE_ACCEPT (or_no_correlation rid) (create_file_accept mp rnd max_size rid)"
  by (intro conjI reply_factories_stamped)

end
