(* ===== verification/Rbac.thy ===== *)
theory Rbac
  imports Interfaces
begin

text \<open>
  The authorization policy (\<^verbatim>\<open>src/styrened/models/rbac.py\<close>): roles, capabilities, the
  roster and the list of blocked prefixes, the cached allow lists, every mutation of the
  policy, and its construction from a configuration section (also the second parser of the
  same section, \<^verbatim>\<open>_parse_rbac\<close> of \<^verbatim>\<open>src/styrened/services/config.py\<close>). Configuration
  texts are read as ASCII where they are upper- or lower-cased.
\<close>

section \<open>Roles\<close>

datatype role = BLOCKED | NONE | PEER | MONITOR | OPERATOR | ADMIN

primrec role_value :: "role \<Rightarrow> nat" where
  "role_value BLOCKED = 0"
| "role_value NONE = 1"
| "role_value PEER = 10"
| "role_value MONITOR = 20"
| "role_value OPERATOR = 30"
| "role_value ADMIN = 40"

definition roles :: "role list" where
  "roles = [BLOCKED, NONE, PEER, MONITOR, OPERATOR, ADMIN]"

interpretation rl: int_enum role_value roles
proof unfold_locales
  show "t \<in> set roles" for t by (cases t) (simp_all add: roles_def)
  show "distinct (map role_value roles)" by (simp add: roles_def)
qed

text \<open>Members of an \<^verbatim>\<open>IntEnum\<close> compare by value.\<close>

instantiation role :: linorder
begin

definition less_eq_role :: "role \<Rightarrow> role \<Rightarrow> bool" where
  "less_eq_role r s \<longleftrightarrow> role_value r \<le> role_value s"

definition less_role :: "role \<Rightarrow> role \<Rightarrow> bool" where
  "less_role r s \<longleftrightarrow> role_value r < role_value s"

instance
  by standard (auto simp: less_eq_role_def less_role_def rl.code_inj)

end

text \<open>\<^verbatim>\<open>Role[name]\<close>.\<close>

definition role_of_name :: "string \<Rightarrow> role option" where
  "role_of_name s =
     (if s = ''BLOCKED'' then Some BLOCKED else if s = ''NONE'' then Some NONE
      else if s = ''PEER'' then Some PEER else if s = ''MONITOR'' then Some MONITOR
      else if s = ''OPERATOR'' then Some OPERATOR else if s = ''ADMIN'' then Some ADMIN
      else None)"

section \<open>Capabilities\<close>

definition CAP_CHAT_SEND :: string where
  "CAP_CHAT_SEND = ''chat.send''"

definition CAP_CHAT_RECEIVE :: string where
  "CAP_CHAT_RECEIVE = ''chat.receive''"

definition CAP_PAGE_BROWSE :: string where
  "CAP_PAGE_BROWSE = ''page.browse''"

definition CAP_PING :: string where
  "CAP_PING = ''rpc.ping''"

definition CAP_STATUS_QUERY :: string where
  "CAP_STATUS_QUERY = ''rpc.status''"

definition CAP_DATALINK_PING :: string where
  "CAP_DATALINK_PING = ''datalink.ping''"

definition CAP_DATALINK_META :: string where
  "CAP_DATALINK_META = ''datalink.meta''"

definition CAP_DATALINK_INFO :: string where
  "CAP_DATALINK_INFO = ''datalink.info''"

definition CAP_DATALINK_STATUS :: string where
  "CAP_DATALINK_STATUS = ''datalink.status''"

definition CAP_INBOX_READ :: string where
  "CAP_INBOX_READ = ''rpc.inbox_read''"

definition CAP_WEB_READ :: string where
  "CAP_WEB_READ = ''web.read''"

definition CAP_DATALINK_ESTABLISH :: string where
  "CAP_DATALINK_ESTABLISH = ''datalink.establish''"

definition CAP_DATALINK_SPEEDTEST :: string where
  "CAP_DATALINK_SPEEDTEST = ''datalink.speedtest''"

definition CAP_CONFIG_UPDATE :: string where
  "CAP_CONFIG_UPDATE = ''rpc.config_update''"

definition CAP_TERMINAL_RESTRICTED :: string where
  "CAP_TERMINAL_RESTRICTED = ''terminal.restricted''"

definition CAP_WEB_WRITE :: string where
  "CAP_WEB_WRITE = ''web.write''"

definition CAP_EXEC :: string where
  "CAP_EXEC = ''rpc.exec''"

definition CAP_REBOOT :: string where
  "CAP_REBOOT = ''rpc.reboot''"

definition CAP_SELF_UPDATE :: string where
  "CAP_SELF_UPDATE = ''rpc.self_update''"

definition CAP_TERMINAL_FULL :: string where
  "CAP_TERMINAL_FULL = ''terminal.full''"

definition CAP_RELAY_REQUEST :: string where
  "CAP_RELAY_REQUEST = ''relay.request''"

definition CAP_RELAY_LIST :: string where
  "CAP_RELAY_LIST = ''relay.list''"

definition CAP_RELAY_TEARDOWN :: string where
  "CAP_RELAY_TEARDOWN = ''relay.teardown''"

definition CAP_RELAY_ACCEPT :: string where
  "CAP_RELAY_ACCEPT = ''relay.accept''"

definition CAP_RELAY_REJECT :: string where
  "CAP_RELAY_REJECT = ''relay.reject''"

definition CAP_RELAY_REQUEST_PERMANENT :: string where
  "CAP_RELAY_REQUEST_PERMANENT = ''relay.request_permanent''"

definition CAP_RELAY_ACCEPT_PERMANENT :: string where
  "CAP_RELAY_ACCEPT_PERMANENT = ''relay.accept_permanent''"

definition CAP_RELAY_PRIORITIZE :: string where
  "CAP_RELAY_PRIORITIZE = ''relay.prioritize''"

definition CAP_RELAY_BRIDGE :: string where
  "CAP_RELAY_BRIDGE = ''relay.bridge''"

definition CAP_RELAY_ADMIN :: string where
  "CAP_RELAY_ADMIN = ''relay.admin''"

definition CAP_ADAPTER_PROVISION :: string where
  "CAP_ADAPTER_PROVISION = ''adapter.provision''"

definition CAP_VPN_HANDSHAKE :: string where
  "CAP_VPN_HANDSHAKE = ''vpn.handshake''"

lemmas cap_defs =
  CAP_CHAT_SEND_def CAP_CHAT_RECEIVE_def CAP_PAGE_BROWSE_def
  CAP_PING_def CAP_STATUS_QUERY_def CAP_DATALINK_PING_def
  CAP_DATALINK_META_def CAP_DATALINK_INFO_def CAP_DATALINK_STATUS_def
  CAP_INBOX_READ_def CAP_WEB_READ_def CAP_DATALINK_ESTABLISH_def
  CAP_DATALINK_SPEEDTEST_def CAP_CONFIG_UPDATE_def CAP_TERMINAL_RESTRICTED_def
  CAP_WEB_WRITE_def CAP_EXEC_def CAP_REBOOT_def
  CAP_SELF_UPDATE_def CAP_TERMINAL_FULL_def CAP_RELAY_REQUEST_def
  CAP_RELAY_LIST_def CAP_RELAY_TEARDOWN_def CAP_RELAY_ACCEPT_def
  CAP_RELAY_REJECT_def CAP_RELAY_REQUEST_PERMANENT_def CAP_RELAY_ACCEPT_PERMANENT_def
  CAP_RELAY_PRIORITIZE_def CAP_RELAY_BRIDGE_def CAP_RELAY_ADMIN_def
  CAP_ADAPTER_PROVISION_def CAP_VPN_HANDSHAKE_def

text \<open>\<^verbatim>\<open>Capability.ALL\<close>.\<close>

definition ALL_CAPS :: "string list" where
  "ALL_CAPS =
     [CAP_CHAT_SEND, CAP_CHAT_RECEIVE, CAP_PAGE_BROWSE,
      CAP_PING, CAP_STATUS_QUERY, CAP_DATALINK_PING,
      CAP_DATALINK_META, CAP_DATALINK_INFO, CAP_DATALINK_STATUS,
      CAP_INBOX_READ, CAP_WEB_READ, CAP_DATALINK_ESTABLISH,
      CAP_DATALINK_SPEEDTEST, CAP_CONFIG_UPDATE, CAP_TERMINAL_RESTRICTED,
      CAP_WEB_WRITE, CAP_EXEC, CAP_REBOOT,
      CAP_SELF_UPDATE, CAP_TERMINAL_FULL, CAP_RELAY_REQUEST,
      CAP_RELAY_LIST, CAP_RELAY_TEARDOWN, CAP_RELAY_ACCEPT,
      CAP_RELAY_REJECT, CAP_RELAY_REQUEST_PERMANENT, CAP_RELAY_ACCEPT_PERMANENT,
      CAP_RELAY_PRIORITIZE, CAP_RELAY_BRIDGE, CAP_RELAY_ADMIN,
      CAP_ADAPTER_PROVISION, CAP_VPN_HANDSHAKE]"

definition PEER_CAPS :: "string set" where
  "PEER_CAPS =
     {CAP_CHAT_SEND, CAP_CHAT_RECEIVE, CAP_PAGE_BROWSE,
      CAP_PING, CAP_STATUS_QUERY, CAP_DATALINK_PING,
      CAP_DATALINK_META, CAP_DATALINK_INFO, CAP_DATALINK_STATUS,
      CAP_RELAY_REQUEST, CAP_RELAY_LIST, CAP_RELAY_TEARDOWN,
      CAP_RELAY_ACCEPT}"

definition MONITOR_CAPS :: "string set" where
  "MONITOR_CAPS =
     PEER_CAPS \<union>
     {CAP_INBOX_READ, CAP_WEB_READ, CAP_DATALINK_ESTABLISH,
      CAP_DATALINK_SPEEDTEST}"

definition OPERATOR_CAPS :: "string set" where
  "OPERATOR_CAPS =
     MONITOR_CAPS \<union>
     {CAP_CONFIG_UPDATE, CAP_TERMINAL_RESTRICTED, CAP_WEB_WRITE,
      CAP_RELAY_REQUEST_PERMANENT, CAP_RELAY_ACCEPT_PERMANENT, CAP_RELAY_PRIORITIZE,
      CAP_RELAY_BRIDGE}"

definition ADMIN_CAPS :: "string set" where
  "ADMIN_CAPS =
     OPERATOR_CAPS \<union>
     {CAP_EXEC, CAP_REBOOT, CAP_SELF_UPDATE,
      CAP_TERMINAL_FULL, CAP_ADAPTER_PROVISION, CAP_RELAY_ADMIN}"

primrec ROLE_CAPABILITIES :: "role \<Rightarrow> string set" where
  "ROLE_CAPABILITIES BLOCKED = {}"
| "ROLE_CAPABILITIES NONE = {}"
| "ROLE_CAPABILITIES PEER = PEER_CAPS"
| "ROLE_CAPABILITIES MONITOR = MONITOR_CAPS"
| "ROLE_CAPABILITIES OPERATOR = OPERATOR_CAPS"
| "ROLE_CAPABILITIES ADMIN = ADMIN_CAPS"

lemmas tier_defs = PEER_CAPS_def MONITOR_CAPS_def OPERATOR_CAPS_def ADMIN_CAPS_def

section \<open>The policy\<close>

record roster_entry =
  identity_hash :: string
  erole :: role
  label :: string
  grants :: "string set"

definition effective_capabilities :: "roster_entry \<Rightarrow> string set" where
  "effective_capabilities e = ROLE_CAPABILITIES (erole e) \<union> grants e"

record rbac =
  default_role :: role
  roster :: "(string \<times> roster_entry) list"
  blocked :: "string list"
  allow_list_cache :: "(string \<times> bytes list) list"

definition RBACPolicy :: "role \<Rightarrow> (string \<times> roster_entry) list \<Rightarrow> string list \<Rightarrow> rbac" where
  "RBACPolicy d r b = \<lparr>default_role = d, roster = r, blocked = b, allow_list_cache = []\<rparr>"

text \<open>The blocked list matches by prefix, in either direction.\<close>

definition is_blocked :: "rbac \<Rightarrow> string \<Rightarrow> bool" where
  "is_blocked p ih \<longleftrightarrow> list_ex (\<lambda>pre. prefix pre ih \<or> prefix ih pre) (blocked p)"

definition resolve_role :: "rbac \<Rightarrow> string \<Rightarrow> role" where
  "resolve_role p ih =
     (if is_blocked p ih then BLOCKED
      else case map_of (roster p) ih of Some e \<Rightarrow> erole e | None \<Rightarrow> default_role p)"

definition has_capability :: "rbac \<Rightarrow> string \<Rightarrow> string \<Rightarrow> bool" where
  "has_capability p ih cap =
     (let r = resolve_role p ih in
      if r = BLOCKED then False
      else if cap \<in> ROLE_CAPABILITIES r then True
      else case map_of (roster p) ih of Some e \<Rightarrow> cap \<in> grants e | None \<Rightarrow> False)"

text \<open>
  The allow list proper: the identities of the roster, as bytes, in roster order; a key that
  is not hexadecimal makes \<^verbatim>\<open>bytes.fromhex\<close> raise. \<open>get_allow_list\<close> adds the cache.
\<close>

definition allow_list :: "rbac \<Rightarrow> string \<Rightarrow> bytes list res" where
  "allow_list p cap =
     map_res (\<lambda>e. fromhex (identity_hash e))
       (filter (\<lambda>e. erole e \<noteq> BLOCKED \<and> cap \<in> effective_capabilities e) (map snd (roster p)))"

definition get_allow_list :: "rbac \<Rightarrow> string \<Rightarrow> (bytes list \<times> rbac) res" where
  "get_allow_list p cap =
     (case map_of (allow_list_cache p) cap of
        Some l \<Rightarrow> Inr (l, p)
      | None \<Rightarrow> bind_res (allow_list p cap) (\<lambda>l.
          Inr (l, p\<lparr>allow_list_cache := AList.update cap l (allow_list_cache p)\<rparr>)))"

definition should_use_allow_all :: "rbac \<Rightarrow> string \<Rightarrow> bool" where
  "should_use_allow_all p cap \<longleftrightarrow> cap \<in> ROLE_CAPABILITIES (default_role p)"

subsection \<open>Mutations\<close>

definition invalidate_cache :: "rbac \<Rightarrow> rbac" where
  "invalidate_cache p = p\<lparr>allow_list_cache := []\<rparr>"

definition add_entry :: "roster_entry \<Rightarrow> rbac \<Rightarrow> rbac" where
  "add_entry e p = invalidate_cache (p\<lparr>roster := AList.update (identity_hash e) e (roster p)\<rparr>)"

definition remove_entry :: "string \<Rightarrow> rbac \<Rightarrow> bool \<times> rbac" where
  "remove_entry ih p =
     (if map_of (roster p) ih \<noteq> None
      then (True, invalidate_cache (p\<lparr>roster := AList.delete ih (roster p)\<rparr>))
      else (False, p))"

definition block :: "string \<Rightarrow> rbac \<Rightarrow> rbac" where
  "block pre p =
     (if pre \<notin> set (blocked p) then invalidate_cache (p\<lparr>blocked := blocked p @ [pre]\<rparr>) else p)"

definition unblock :: "string \<Rightarrow> rbac \<Rightarrow> bool \<times> rbac" where
  "unblock pre p =
     (if pre \<in> set (blocked p) then (True, invalidate_cache (p\<lparr>blocked := remove1 pre (blocked p)\<rparr>))
      else (False, p))"

subsection \<open>Construction from a configuration section\<close>

text \<open>
  A scalar of the YAML document, its \<^verbatim>\<open>str()\<close> and truth value, and a list field that may
  be absent, explicitly null, or a list. (A floating-point scalar, or a mapping where a
  scalar belongs, is outside the model.)
\<close>

datatype scalar = SNone | SBool bool | SInt int | SStr string

datatype 'a field = Absent | Null | Is 'a

primrec py_str :: "scalar \<Rightarrow> string" where
  "py_str SNone = ''None''"
| "py_str (SBool b) = (if b then ''True'' else ''False'')"
| "py_str (SInt i) = show_int i"
| "py_str (SStr s) = s"

primrec scalar_true :: "scalar \<Rightarrow> bool" where
  "scalar_true SNone = False"
| "scalar_true (SBool b) = b"
| "scalar_true (SInt i) = (i \<noteq> 0)"
| "scalar_true (SStr s) = (s \<noteq> [])"

text \<open>\<^verbatim>\<open>str(d.get(key, default))\<close>, and iterating \<^verbatim>\<open>d.get(key, [])\<close>.\<close>

definition str_field :: "scalar option \<Rightarrow> string \<Rightarrow> string" where
  "str_field f dflt = (case f of None \<Rightarrow> dflt | Some v \<Rightarrow> py_str v)"

primrec list_field :: "'a list field \<Rightarrow> 'a list res" where
  "list_field Absent = Inr []"
| "list_field Null = Inl TypeError"
| "list_field (Is xs) = Inr xs"

record rbac_item =
  item_identity :: "scalar option"
  item_role :: "scalar option"
  item_label :: "scalar option"
  item_grants :: "scalar list field"

record rbac_section =
  sec_default_role :: "scalar option"
  sec_roster :: "rbac_item list field"
  sec_blocked :: "scalar list field"

definition parse_default_role :: "scalar option \<Rightarrow> role" where
  "parse_default_role f =
     (case role_of_name (upper (str_field f ''peer'')) of None \<Rightarrow> PEER | Some r \<Rightarrow> r)"

definition parse_grants :: "scalar list \<Rightarrow> string set" where
  "parse_grants gs = set (filter (\<lambda>g. g \<in> set ALL_CAPS) (map (\<lambda>g. strip (py_str g)) gs))"

text \<open>One round of the roster loop.\<close>

definition parse_item :: "rbac_item \<Rightarrow> (string \<times> roster_entry) list \<Rightarrow> (string \<times> roster_entry) list res" where
  "parse_item d acc =
     (let identity = strip (lower (str_field (item_identity d) [])) in
      if identity = [] then Inr acc
      else case role_of_name (upper (str_field (item_role d) ''peer'')) of
        None \<Rightarrow> Inr acc
      | Some r \<Rightarrow>
          let lab = str_field (item_label d) [] in
          bind_res (list_field (item_grants d)) (\<lambda>gs.
            Inr (AList.update identity
              \<lparr>identity_hash = identity, erole = r, label = lab, grants = parse_grants gs\<rparr> acc)))"

fun parse_roster :: "rbac_item list \<Rightarrow> (string \<times> roster_entry) list \<Rightarrow> (string \<times> roster_entry) list res" where
  "parse_roster [] acc = Inr acc"
| "parse_roster (d # ds) acc = bind_res (parse_item d acc) (parse_roster ds)"

definition parse_blocked :: "scalar list \<Rightarrow> string list" where
  "parse_blocked hs = map (\<lambda>h. strip (lower (py_str h))) (filter scalar_true hs)"

text \<open>\<^verbatim>\<open>RBACPolicy.from_dict\<close>; \<open>None\<close> is a missing or empty section.\<close>

definition from_dict :: "rbac_section option \<Rightarrow> rbac res" where
  "from_dict data =
     (case data of
        None \<Rightarrow> Inr (RBACPolicy PEER [] [])
      | Some d \<Rightarrow>
          let dr = parse_default_role (sec_default_role d) in
          bind_res (list_field (sec_roster d)) (\<lambda>items.
            bind_res (parse_roster items []) (\<lambda>r.
              bind_res (list_field (sec_blocked d)) (\<lambda>hs.
                Inr (RBACPolicy dr r (parse_blocked hs))))))"

section \<open>Tiers\<close>

lemma peer_monitor: "PEER_CAPS \<subseteq> MONITOR_CAPS"
  by (auto simp: MONITOR_CAPS_def)

lemma monitor_operator: "MONITOR_CAPS \<subseteq> OPERATOR_CAPS"
  by (auto simp: OPERATOR_CAPS_def)

lemma operator_admin: "OPERATOR_CAPS \<subseteq> ADMIN_CAPS"
  by (auto simp: ADMIN_CAPS_def)

lemmas tier_subsets = peer_monitor monitor_operator operator_admin

lemma role_caps_mono: "r \<le> s \<Longrightarrow> ROLE_CAPABILITIES r \<subseteq> ROLE_CAPABILITIES s"
  using tier_subsets by (cases r; cases s) (auto simp: less_eq_role_def)

lemma role_caps_le_admin: "ROLE_CAPABILITIES r \<subseteq> ADMIN_CAPS"
  using tier_subsets by (cases r) auto

section \<open>The decision\<close>

lemma resolve_blocked: "is_blocked p ih \<Longrightarrow> resolve_role p ih = BLOCKED"
  by (simp add: resolve_role_def)

lemma has_capability_iff:
  "has_capability p ih cap \<longleftrightarrow>
     resolve_role p ih \<noteq> BLOCKED \<and>
     (cap \<in> ROLE_CAPABILITIES (resolve_role p ih) \<or>
      (\<exists>e. map_of (roster p) ih = Some e \<and> cap \<in> grants e))"
  by (auto simp: has_capability_def Let_def split: option.splits)

lemma has_capability_rostered:
  "\<not> is_blocked p ih \<Longrightarrow> map_of (roster p) ih = Some e \<Longrightarrow>
     has_capability p ih cap \<longleftrightarrow> erole e \<noteq> BLOCKED \<and> cap \<in> effective_capabilities e"
  by (auto simp: has_capability_iff resolve_role_def effective_capabilities_def)

lemma has_capability_default:
  "\<not> is_blocked p ih \<Longrightarrow> map_of (roster p) ih = None \<Longrightarrow>
     has_capability p ih cap \<longleftrightarrow> cap \<in> ROLE_CAPABILITIES (default_role p)"
  by (cases "default_role p") (auto simp: has_capability_iff resolve_role_def)

section \<open>The cache is coherent\<close>

text \<open>
  The roster is keyed by the entry's own hash, and every cached allow list is the one that
  would be computed now.
\<close>

definition keyed :: "rbac \<Rightarrow> bool" where
  "keyed p \<longleftrightarrow> distinct (map fst (roster p)) \<and> (\<forall>(k, e) \<in> set (roster p). identity_hash e = k)"

definition cache_ok :: "rbac \<Rightarrow> bool" where
  "cache_ok p \<longleftrightarrow> (\<forall>cap l. map_of (allow_list_cache p) cap = Some l \<longrightarrow> allow_list p cap = Inr l)"

lemma allow_list_cache_irrelevant [simp]: "allow_list (p\<lparr>allow_list_cache := c\<rparr>) cap = allow_list p cap"
  by (simp add: allow_list_def)

lemma keyed_cache [simp]: "keyed (p\<lparr>allow_list_cache := c\<rparr>) = keyed p"
  by (simp add: keyed_def)

lemma invalidate_ok [inv_intros]: "cache_ok (invalidate_cache p)"
  by (simp add: cache_ok_def invalidate_cache_def)

lemma get_allow_list_ok [inv_intros]:
  "cache_ok p \<Longrightarrow> get_allow_list p cap = Inr (l, q) \<Longrightarrow> cache_ok q"
  by (auto simp: get_allow_list_def cache_ok_def update_conv' split: option.splits if_splits)

lemma get_allow_list_value:
  "cache_ok p \<Longrightarrow> bind_res (get_allow_list p cap) (\<lambda>(l, q). Inr l) = allow_list p cap"
  by (cases "map_of (allow_list_cache p) cap"; cases "allow_list p cap")
    (auto simp: get_allow_list_def cache_ok_def)

lemma update_in_set: "(k, v) \<in> set (AList.update k' v' xs) \<Longrightarrow> (k, v) = (k', v') \<or> (k, v) \<in> set xs"
  by (induction xs) (auto split: if_splits)

lemma keyed_add [inv_intros]: "keyed p \<Longrightarrow> keyed (add_entry e p)"
  by (auto simp: keyed_def add_entry_def invalidate_cache_def distinct_update dest!: update_in_set)

lemma keyed_remove [inv_intros]: "keyed p \<Longrightarrow> keyed (snd (remove_entry ih p))"
  by (auto simp: keyed_def remove_entry_def invalidate_cache_def AList.delete_eq
      intro: distinct_map_filter)

lemma keyed_block [inv_intros]: "keyed p \<Longrightarrow> keyed (block pre p)"
  by (simp add: keyed_def block_def invalidate_cache_def)

lemma keyed_unblock [inv_intros]: "keyed p \<Longrightarrow> keyed (snd (unblock pre p))"
  by (simp add: keyed_def unblock_def invalidate_cache_def)

text \<open>Every way the running daemon changes or reads the policy, as a step.\<close>

inductive policy_step :: "rbac \<Rightarrow> rbac \<Rightarrow> bool" where
  ps_add: "policy_step p (add_entry e p)"
| ps_remove: "policy_step p (snd (remove_entry ih p))"
| ps_block: "policy_step p (block pre p)"
| ps_unblock: "policy_step p (snd (unblock pre p))"
| ps_query: "get_allow_list p cap = Inr (l, q) \<Longrightarrow> policy_step p q"
| ps_invalidate: "policy_step p (invalidate_cache p)"

inductive_cases policy_stepE: "policy_step p q"

definition fresh_policy :: "rbac \<Rightarrow> bool" where
  "fresh_policy p \<longleftrightarrow> keyed p \<and> allow_list_cache p = []"

lemma cache_ok_add: "cache_ok (add_entry e p)"
  and cache_ok_remove: "cache_ok p \<Longrightarrow> cache_ok (snd (remove_entry ih p))"
  and cache_ok_block: "cache_ok p \<Longrightarrow> cache_ok (block pre p)"
  and cache_ok_unblock: "cache_ok p \<Longrightarrow> cache_ok (snd (unblock pre p))"
  by (simp_all add: add_entry_def remove_entry_def block_def unblock_def invalidate_ok)

lemma get_allow_list_state:
  "get_allow_list p cap = Inr (l, q) \<Longrightarrow>
     default_role q = default_role p \<and> roster q = roster p \<and> blocked q = blocked p"
  by (auto simp: get_allow_list_def split: option.splits)

lemma policy_step_inv:
  assumes "keyed p \<and> cache_ok p" and "policy_step p q"
  shows "keyed q \<and> cache_ok q"
  using assms(2,1)
proof (cases rule: policy_step.cases)
  case (ps_query cap l)
  then show ?thesis using assms(1) get_allow_list_ok [of p cap l q] get_allow_list_state [of p cap l q]
    by (simp add: keyed_def)
next
  case ps_invalidate
  then show ?thesis using assms(1) by (simp add: invalidate_ok) (simp add: invalidate_cache_def)
qed (auto intro: keyed_add keyed_remove keyed_block keyed_unblock cache_ok_add cache_ok_remove
    cache_ok_block cache_ok_unblock)

interpretation policy: invariant_system fresh_policy policy_step "\<lambda>p. keyed p \<and> cache_ok p"
proof unfold_locales
  show "keyed s \<and> cache_ok s" if "fresh_policy s" for s
    using that by (simp add: fresh_policy_def cache_ok_def)
  show "keyed t \<and> cache_ok t" if "keyed s \<and> cache_ok s" "policy_step s t" for s t
    using policy_step_inv that by blast
qed

section \<open>The allow list and the decision\<close>

lemma roster_lookup:
  "keyed p \<Longrightarrow> (k, e) \<in> set (roster p) \<longleftrightarrow> map_of (roster p) k = Some e"
  by (auto simp: keyed_def map_of_is_SomeI dest: map_of_SomeD)

lemma keyed_hash: "keyed p \<Longrightarrow> map_of (roster p) k = Some e \<Longrightarrow> identity_hash e = k"
  by (auto simp: keyed_def dest: map_of_SomeD)

lemma map_res_set: "map_res f xs = Inr ys \<Longrightarrow> set ys = {y. \<exists>x \<in> set xs. f x = Inr y}"
proof (induction xs arbitrary: ys)
  case (Cons x xs)
  then show ?case by force
qed simp

lemma allow_list_set:
  assumes "keyed p" and "allow_list p cap = Inr l"
  shows "set l = {b. \<exists>k e. map_of (roster p) k = Some e \<and> erole e \<noteq> BLOCKED \<and>
                       cap \<in> effective_capabilities e \<and> fromhex k = Inr b}"
proof -
  have "set l = {b. \<exists>k e. (k, e) \<in> set (roster p) \<and> erole e \<noteq> BLOCKED \<and>
                  cap \<in> effective_capabilities e \<and> fromhex (identity_hash e) = Inr b}"
    using map_res_set [OF assms(2) [unfolded allow_list_def]] by fastforce
  then show ?thesis
    using roster_lookup [OF assms(1)] keyed_hash [OF assms(1)] by fastforce
qed

text \<open>Identities written in the canonical form \<^verbatim>\<open>bytes.hex()\<close> gives.\<close>

definition canonical_hashes :: "rbac \<Rightarrow> bool" where
  "canonical_hashes p \<longleftrightarrow> (\<forall>k \<in> fst ` set (roster p). \<exists>b. k = hex_of b)"

lemma allow_list_member:
  assumes "keyed p" "canonical_hashes p" "allow_list p cap = Inr l"
  shows "b \<in> set l \<longleftrightarrow> (\<exists>e. map_of (roster p) (hex_of b) = Some e \<and> erole e \<noteq> BLOCKED \<and>
                              cap \<in> effective_capabilities e)"
proof -
  have "\<exists>b'. k = hex_of b'" if "map_of (roster p) k = Some e" for k e
    using that assms(2) by (force simp: canonical_hashes_def dest: map_of_SomeD)
  then show ?thesis
    unfolding allow_list_set [OF assms(1,3)] by fastforce
qed

lemma allow_list_total:
  assumes "keyed p" "canonical_hashes p"
  shows "\<exists>l. allow_list p cap = Inr l"
proof -
  have "\<exists>b. fromhex (identity_hash e) = Inr b" if ke: "(k, e) \<in> set (roster p)" for k e
  proof -
    have "k \<in> fst ` set (roster p)" using ke by force
    then obtain b where "k = hex_of b" using assms(2) by (auto simp: canonical_hashes_def)
    moreover have "identity_hash e = k" using ke assms(1) by (auto simp: keyed_def)
    ultimately show ?thesis by auto
  qed
  then have "fromhex (identity_hash e) = Inr (projr (fromhex (identity_hash e)))"
    if "(k, e) \<in> set (roster p)" for k e
    using that by fastforce
  then show ?thesis
    unfolding allow_list_def
    by (subst map_res_total [where g = "\<lambda>e. projr (fromhex (identity_hash e))"]) auto
qed

interpretation rbac_auth: authorizer has_capability is_blocked
  by unfold_locales (simp add: has_capability_iff resolve_blocked)

section \<open>The configuration parsers\<close>

text \<open>
  \<^verbatim>\<open>_parse_rbac\<close> of the configuration service parses the same section with its own
  copy of the loops; the whole section may be absent or null.
\<close>

fun parse_grants_loop :: "scalar list \<Rightarrow> string set \<Rightarrow> string set" where
  "parse_grants_loop [] acc = acc"
| "parse_grants_loop (g # gs) acc =
     (let s = strip (py_str g) in
      parse_grants_loop gs (if s \<in> set ALL_CAPS then insert s acc else acc))"

fun config_roster_loop :: "rbac_item list \<Rightarrow> (string \<times> roster_entry) list \<Rightarrow> (string \<times> roster_entry) list res" where
  "config_roster_loop [] acc = Inr acc"
| "config_roster_loop (d # ds) acc =
     (let identity = strip (lower (str_field (item_identity d) [])) in
      if identity = [] then config_roster_loop ds acc
      else case role_of_name (upper (str_field (item_role d) ''peer'')) of
        None \<Rightarrow> config_roster_loop ds acc
      | Some r \<Rightarrow>
          let lab = str_field (item_label d) [] in
          bind_res (list_field (item_grants d)) (\<lambda>gs.
            config_roster_loop ds (AList.update identity
              \<lparr>identity_hash = identity, erole = r, label = lab,
               grants = parse_grants_loop gs {}\<rparr> acc)))"

definition parse_rbac :: "rbac_section field \<Rightarrow> rbac res" where
  "parse_rbac sec =
     (case sec of
        Null \<Rightarrow> Inl AttributeError
      | Absent \<Rightarrow> Inr (RBACPolicy PEER [] [])
      | Is d \<Rightarrow>
          let dr = parse_default_role (sec_default_role d) in
          bind_res (list_field (sec_roster d)) (\<lambda>items.
            bind_res (config_roster_loop items []) (\<lambda>r.
              bind_res (list_field (sec_blocked d)) (\<lambda>hs.
                Inr (RBACPolicy dr r (parse_blocked hs))))))"

lemma parse_grants_loop_eq: "parse_grants_loop gs acc = parse_grants gs \<union> acc"
  by (induction gs arbitrary: acc) (auto simp: parse_grants_def Let_def)

lemma config_roster_loop_eq: "config_roster_loop ds acc = parse_roster ds acc"
proof (induction ds arbitrary: acc)
  case (Cons d ds)
  then show ?case
    by (cases "list_field (item_grants d)")
      (simp_all add: parse_item_def Let_def parse_grants_loop_eq split: option.splits)
qed simp

text \<open>What either parser guarantees of the roster.\<close>

definition clean_key :: "string \<Rightarrow> bool" where
  "clean_key k \<longleftrightarrow> k \<noteq> [] \<and> lower k = k"

definition clean_roster :: "(string \<times> roster_entry) list \<Rightarrow> bool" where
  "clean_roster r \<longleftrightarrow> distinct (map fst r) \<and>
     (\<forall>(k, e) \<in> set r. identity_hash e = k \<and> clean_key k \<and> grants e \<subseteq> set ALL_CAPS)"

lemma set_strip: "set (strip s) \<subseteq> set s"
  by (auto simp: strip_def dest!: set_dropWhileD)

lemma lower_fixed: "set s \<subseteq> set (lower t) \<Longrightarrow> lower s = s"
  by (auto simp: lower_def intro!: map_idI)

lemma lower_strip_lower: "lower (strip (lower s)) = strip (lower s)"
  using lower_fixed [OF set_strip] by simp

lemma parse_grants_ALL: "parse_grants gs \<subseteq> set ALL_CAPS"
  by (auto simp: parse_grants_def)

lemma clean_roster_update:
  "clean_roster r \<Longrightarrow> clean_key k \<Longrightarrow> identity_hash e = k \<Longrightarrow> grants e \<subseteq> set ALL_CAPS \<Longrightarrow>
     clean_roster (AList.update k e r)"
  by (auto simp: clean_roster_def distinct_update dest!: update_in_set)

lemma parse_item_clean: "clean_roster acc \<Longrightarrow> parse_item d acc = Inr r \<Longrightarrow> clean_roster r"
  using lower_strip_lower
  by (auto simp: parse_item_def Let_def clean_key_def intro!: clean_roster_update
      dest: subsetD [OF parse_grants_ALL] split: if_splits option.splits)

lemma parse_roster_clean: "clean_roster acc \<Longrightarrow> parse_roster ds acc = Inr r \<Longrightarrow> clean_roster r"
  by (induction ds arbitrary: acc) (auto dest: parse_item_clean)

lemma list_field_Inl: "list_field f = Inl e \<Longrightarrow> e = TypeError"
  by (cases f) auto

lemma parse_roster_Inl: "parse_roster ds acc = Inl e \<Longrightarrow> e = TypeError"
proof (induction ds arbitrary: acc)
  case (Cons d ds)
  show ?case
  proof (cases "parse_item d acc")
    case (Inl e')
    with Cons.prems have "parse_item d acc = Inl e" by simp
    then show ?thesis
      by (cases "list_field (item_grants d)")
        (auto simp: parse_item_def Let_def dest: list_field_Inl split: if_splits option.splits)
  next
    case (Inr r)
    with Cons show ?thesis by simp
  qed
qed simp

lemma from_dict_Inl: "from_dict sec = Inl e \<Longrightarrow> e = TypeError"
proof (cases sec)
  case (Some d)
  assume e: "from_dict sec = Inl e"
  show ?thesis
  proof (cases "list_field (sec_roster d)")
    case (Inl e')
    with e Some show ?thesis by (simp add: from_dict_def Let_def list_field_Inl)
  next
    case (Inr items)
    with e Some show ?thesis
      by (cases "parse_roster items []"; cases "list_field (sec_blocked d)")
        (auto simp: from_dict_def Let_def dest: list_field_Inl parse_roster_Inl)
  qed
qed (simp add: from_dict_def)

lemma from_dict_fresh:
  assumes "from_dict sec = Inr p"
  shows "fresh_policy p \<and> clean_roster (roster p)"
proof -
  have "clean_roster []" by (simp add: clean_roster_def)
  then have "clean_roster (roster p) \<and> allow_list_cache p = []"
    using assms parse_roster_clean
    by (auto simp: from_dict_def RBACPolicy_def Let_def split: option.splits)
  then show ?thesis
    by (auto simp: fresh_policy_def keyed_def clean_roster_def)
qed

section \<open>Properties\<close>

text \<open>
  Claim C3. In every policy reachable by the daemon's mutations and queries, the allow list
  answered for a capability (from the cache or not) is the one computed from the current
  roster: no mutation leaves a stale list behind.
\<close>

theorem allow_list_never_stale:
  assumes "reach fresh_policy policy_step p"
  shows "bind_res (get_allow_list p cap) (\<lambda>(l, q). Inr l) = allow_list p cap"
  using policy.reach_inv [OF assms] by (simp add: get_allow_list_value)

definition ex_entry :: "string \<Rightarrow> role \<Rightarrow> string set \<Rightarrow> roster_entry" where
  "ex_entry k r g = \<lparr>identity_hash = k, erole = r, label = [], grants = g\<rparr>"

theorem allow_list_never_stale_witness:
  "bind_res (get_allow_list (add_entry (ex_entry ''a1'' ADMIN {}) (RBACPolicy PEER [] [])) CAP_EXEC)
     (\<lambda>(l, q). Inr l) = Inr [[161]]"
proof -
  let ?p = "add_entry (ex_entry ''a1'' ADMIN {}) (RBACPolicy PEER [] [])"
  have "fresh_policy (RBACPolicy PEER [] [])"
    by (simp add: fresh_policy_def RBACPolicy_def keyed_def)
  then have r: "reach fresh_policy policy_step ?p"
    by (blast intro: reach_start reach_step ps_add)
  have "allow_list ?p CAP_EXEC = Inr [[161]]"
    by (simp add: allow_list_def add_entry_def invalidate_cache_def RBACPolicy_def ex_entry_def
        effective_capabilities_def ADMIN_CAPS_def is_space_def hex_value_def)
  with allow_list_never_stale [OF r, of CAP_EXEC] show ?thesis by simp
qed

text \<open>
  Claim C4. For a rostered identity that no blocked prefix matches, membership in the allow
  list handed to the transport and the policy's own decision agree, in every reachable
  policy whose roster keys are canonical hexadecimal.
\<close>

theorem allow_list_agrees_with_decision:
  assumes "reach fresh_policy policy_step p" and "canonical_hashes p"
    and "get_allow_list p cap = Inr (l, q)"
    and "map_of (roster p) (hex_of b) = Some e" and "\<not> is_blocked p (hex_of b)"
  shows "b \<in> set l \<longleftrightarrow> has_capability p (hex_of b) cap"
proof -
  have inv: "keyed p" "cache_ok p" using policy.reach_inv [OF assms(1)] by auto
  have "allow_list p cap = Inr l"
    using get_allow_list_value [OF inv(2), of cap] assms(3) by simp
  from allow_list_member [OF inv(1) assms(2) this] show ?thesis
    using assms(4,5) has_capability_rostered by simp
qed

theorem allow_list_agrees_with_decision_witness:
  "[161] \<in> set [[161 :: byte]] \<longleftrightarrow>
     has_capability (RBACPolicy PEER [(''a1'', ex_entry ''a1'' ADMIN {})] []) (hex_of [161]) CAP_EXEC"
proof -
  let ?p = "RBACPolicy PEER [(''a1'', ex_entry ''a1'' ADMIN {})] []"
  let ?q = "?p\<lparr>allow_list_cache := [(CAP_EXEC, [[161]])]\<rparr>"
  have hex: "hex_of [161] = ''a1''" by (simp add: hex_of_def hex_digit_def char_of_def bit_0)
  have "reach fresh_policy policy_step ?p"
    by (rule reach_start) (simp add: fresh_policy_def RBACPolicy_def keyed_def ex_entry_def)
  moreover have "canonical_hashes ?p"
    using hex by (auto simp: canonical_hashes_def RBACPolicy_def intro!: exI [of _ "[161]"])
  moreover have "get_allow_list ?p CAP_EXEC = Inr ([[161]], ?q)"
    by (simp add: get_allow_list_def allow_list_def RBACPolicy_def ex_entry_def
        effective_capabilities_def ADMIN_CAPS_def is_space_def hex_value_def)
  moreover have "map_of (roster ?p) (hex_of [161]) = Some (ex_entry ''a1'' ADMIN {})"
    by (simp add: hex RBACPolicy_def)
  moreover have "\<not> is_blocked ?p (hex_of [161])"
    by (simp add: is_blocked_def RBACPolicy_def)
  ultimately show ?thesis by (rule allow_list_agrees_with_decision)
qed

text \<open>
  The allow list does not consult the blocked prefixes: an administrator who is
  blocked by prefix is refused every capability by the policy, and is still on the list
  handed to the transport.
\<close>

theorem allow_list_ignores_blocked_prefixes:
  "let p = block ''a1'' (RBACPolicy PEER [(''a1b2'', ex_entry ''a1b2'' ADMIN {})] []) in
     \<not> has_capability p ''a1b2'' CAP_EXEC \<and>
     bind_res (get_allow_list p CAP_EXEC) (\<lambda>(l, q). Inr l) = Inr [[161, 178]]"
  by (simp add: block_def invalidate_cache_def RBACPolicy_def ex_entry_def has_capability_def
      resolve_role_def is_blocked_def get_allow_list_def allow_list_def effective_capabilities_def
      ADMIN_CAPS_def is_space_def hex_value_def)

text \<open>
  VPN access is a pure orthogonal grant: whatever the roles, an identity holds it
  exactly when it is not blocked and its own roster entry lists it.
\<close>

theorem vpn_only_by_explicit_grant:
  "has_capability p ih CAP_VPN_HANDSHAKE \<longleftrightarrow>
     resolve_role p ih \<noteq> BLOCKED \<and>
     (\<exists>e. map_of (roster p) ih = Some e \<and> CAP_VPN_HANDSHAKE \<in> grants e)"
proof -
  have "CAP_VPN_HANDSHAKE \<notin> ADMIN_CAPS"
    by (simp add: tier_defs cap_defs)
  then have "CAP_VPN_HANDSHAKE \<notin> ROLE_CAPABILITIES r" for r
    using role_caps_le_admin by blast
  then show ?thesis by (simp add: has_capability_iff)
qed

text \<open>
  The tiers are cumulative along the order of the roles, and the administrator tier
  holds every registered capability but the two orthogonal ones.
\<close>

theorem tiers_cumulative:
  "ROLE_CAPABILITIES r \<union> ROLE_CAPABILITIES s = ROLE_CAPABILITIES (max r s) \<and>
   ROLE_CAPABILITIES ADMIN = set ALL_CAPS - {CAP_VPN_HANDSHAKE, CAP_RELAY_REJECT}"
proof
  show "ROLE_CAPABILITIES r \<union> ROLE_CAPABILITIES s = ROLE_CAPABILITIES (max r s)"
    using role_caps_mono [of r s] role_caps_mono [of s r] linear [of r s] by (auto simp: max_def)
  have "CAP_VPN_HANDSHAKE \<notin> ADMIN_CAPS" "CAP_RELAY_REJECT \<notin> ADMIN_CAPS"
    by (simp_all add: tier_defs cap_defs)
  moreover have "set ALL_CAPS = ADMIN_CAPS \<union> {CAP_VPN_HANDSHAKE, CAP_RELAY_REJECT}"
    unfolding ALL_CAPS_def tier_defs by auto
  ultimately show "ROLE_CAPABILITIES ADMIN = set ALL_CAPS - {CAP_VPN_HANDSHAKE, CAP_RELAY_REJECT}"
    by auto
qed

text \<open>
  Claim C5. Blocking takes every capability from every identity under the prefix, changes no
  decision about an identity unrelated to it, and unblocking a prefix that was not blocked
  before restores every decision.
\<close>

lemma is_blocked_block: "is_blocked (block pre p) ih \<longleftrightarrow> is_blocked p ih \<or> prefix pre ih \<or> prefix ih pre"
  by (auto simp: block_def invalidate_cache_def is_blocked_def list_ex_iff)

lemma decision_cong:
  "is_blocked p ih = is_blocked q ih \<Longrightarrow> roster p = roster q \<Longrightarrow> default_role p = default_role q \<Longrightarrow>
     has_capability p ih cap = has_capability q ih cap"
  by (auto simp: has_capability_iff resolve_role_def split: option.splits)

lemma block_frame [simp]: "roster (block pre p) = roster p" "default_role (block pre p) = default_role p"
  by (simp_all add: block_def invalidate_cache_def)

lemma unblock_block:
  "pre \<notin> set (blocked p) \<Longrightarrow> snd (unblock pre (block pre p)) = invalidate_cache p"
  by (simp add: unblock_def block_def invalidate_cache_def remove1_append)

theorem block_denies_and_unblock_restores:
  assumes "pre \<notin> set (blocked p)"
  shows "(has_capability (block pre p) ih cap \<longleftrightarrow>
            \<not> prefix pre ih \<and> \<not> prefix ih pre \<and> has_capability p ih cap) \<and>
         has_capability (snd (unblock pre (block pre p))) ih cap = has_capability p ih cap"
proof
  show "has_capability (block pre p) ih cap \<longleftrightarrow>
          \<not> prefix pre ih \<and> \<not> prefix ih pre \<and> has_capability p ih cap"
  proof (cases "prefix pre ih \<or> prefix ih pre")
    case True
    then have "is_blocked (block pre p) ih" by (auto simp: is_blocked_block)
    with True show ?thesis using rbac_auth.banned_denied by blast
  next
    case False
    then show ?thesis using decision_cong [of "block pre p" ih p cap] by (simp add: is_blocked_block)
  qed
  show "has_capability (snd (unblock pre (block pre p))) ih cap = has_capability p ih cap"
    unfolding unblock_block [OF assms]
    by (rule decision_cong) (simp_all add: invalidate_cache_def is_blocked_def)
qed

theorem block_denies_and_unblock_restores_witness:
  "(has_capability (block ''ca3e'' (RBACPolicy PEER [] [])) ''ca3e98'' CAP_PING \<longleftrightarrow>
      \<not> prefix ''ca3e'' ''ca3e98'' \<and> \<not> prefix ''ca3e98'' ''ca3e'' \<and>
      has_capability (RBACPolicy PEER [] []) ''ca3e98'' CAP_PING) \<and>
   has_capability (snd (unblock ''ca3e'' (block ''ca3e'' (RBACPolicy PEER [] [])))) ''ca3e98'' CAP_PING =
     has_capability (RBACPolicy PEER [] []) ''ca3e98'' CAP_PING"
  by (rule block_denies_and_unblock_restores) (simp add: RBACPolicy_def)

text \<open>
  The two parsers of the \<^verbatim>\<open>rbac\<close> section compute the same policy from the same
  section, and the policy they yield is one the invariants start from, with lower-cased
  non-empty keys and registered grants only.
\<close>

theorem config_parsers_agree:
  "parse_rbac (Is d) = from_dict (Some d) \<and> parse_rbac Absent = from_dict None \<and>
   (case from_dict sec of Inl e \<Rightarrow> e = TypeError
      | Inr p \<Rightarrow> fresh_policy p \<and> clean_roster (roster p))"
proof (intro conjI)
  show "parse_rbac (Is d) = from_dict (Some d)"
    by (simp add: parse_rbac_def from_dict_def config_roster_loop_eq)
  show "parse_rbac Absent = from_dict None"
    by (simp add: parse_rbac_def from_dict_def)
  show "case from_dict sec of Inl e \<Rightarrow> e = TypeError
      | Inr p \<Rightarrow> fresh_policy p \<and> clean_roster (roster p)"
  proof (cases "from_dict sec")
    case (Inl e)
    then show ?thesis by (simp add: from_dict_Inl)
  next
    case (Inr p)
    then show ?thesis using from_dict_fresh by simp
  qed
qed

text \<open>
  A blank line in the configured blocked list (an entry of white space) becomes the
  empty prefix, which every identity has: the policy then refuses everything to everyone.
\<close>

theorem blank_blocked_entry_blocks_everyone:
  "case from_dict (Some \<lparr>sec_default_role = None, sec_roster = Is [], sec_blocked = Is [SStr '' '']\<rparr>) of
     Inl e \<Rightarrow> False
   | Inr p \<Rightarrow> (\<forall>ih cap. \<not> has_capability p ih cap)"
  by (simp add: from_dict_def RBACPolicy_def parse_blocked_def has_capability_def resolve_role_def
      is_blocked_def lower_def lower_char_def strip_def is_strip_space_def is_space_def)

end
