(* ===== verification/Rns_Limits.thy ===== *)
theory Rns_Limits
  imports Interfaces
begin

text \<open>
  The path-request limiter (\<^verbatim>\<open>src/styrened/services/rns_limits.py\<close>): the module-level
  dictionary of last request times, the admission test, and the function that issues a
  request through the transport (its calls are returned as a list). Time is an argument.
\<close>

section \<open>The limiter\<close>

type_synonym path_log = "(string \<times> rat) list"

definition MIN_PATH_REQUEST_INTERVAL :: rat where
  "MIN_PATH_REQUEST_INTERVAL = 300"

definition MAX_PATH_REQUESTS_PER_WINDOW :: nat where
  "MAX_PATH_REQUESTS_PER_WINDOW = 30"

definition PATH_REQUEST_WINDOW :: rat where
  "PATH_REQUEST_WINDOW = 3600"

lemmas limit_consts = MIN_PATH_REQUEST_INTERVAL_def MAX_PATH_REQUESTS_PER_WINDOW_def
  PATH_REQUEST_WINDOW_def

definition prune :: "rat \<Rightarrow> path_log \<Rightarrow> path_log" where
  "prune now d = filter (\<lambda>p. now - PATH_REQUEST_WINDOW \<le> snd p) d"

definition can_request_path :: "rat \<Rightarrow> bytes \<Rightarrow> path_log \<Rightarrow> bool \<times> path_log" where
  "can_request_path now dest d =
     (let key = hex_of dest; d' = prune now d in
      if (case map_of d' key of Some last_request \<Rightarrow> now - last_request < MIN_PATH_REQUEST_INTERVAL | None \<Rightarrow> False)
      then (False, d')
      else if MAX_PATH_REQUESTS_PER_WINDOW \<le> length d' then (False, d')
      else (True, AList.update key now d'))"

definition request_path_once :: "rat \<Rightarrow> bytes \<Rightarrow> path_log \<Rightarrow> bool \<times> path_log \<times> bytes list" where
  "request_path_once now dest d =
     (let (ok, d') = can_request_path now dest d in
      if ok then (True, d', [dest]) else (False, d', []))"

definition reset_path_request_budget :: "path_log \<Rightarrow> path_log" where
  "reset_path_request_budget d = []"

section \<open>The table stays small\<close>

inductive limiter_step :: "path_log \<Rightarrow> path_log \<Rightarrow> bool" where
  ls_request: "limiter_step d (snd (can_request_path now dest d))"
| ls_reset: "limiter_step d (reset_path_request_budget d)"

definition limiter_inv :: "path_log \<Rightarrow> bool" where
  "limiter_inv d \<longleftrightarrow> distinct (map fst d) \<and> length d \<le> MAX_PATH_REQUESTS_PER_WINDOW"

lemma distinct_prune: "distinct (map fst d) \<Longrightarrow> distinct (map fst (prune now d))"
  by (simp add: prune_def distinct_map_filter)

lemma length_prune: "length (prune now d) \<le> length d"
  by (simp add: prune_def)

lemma can_request_inv:
  assumes "limiter_inv d"
  shows "limiter_inv (snd (can_request_path now dest d))"
proof -
  have "length (AList.update (hex_of dest) now (prune now d)) \<le> Suc (length (prune now d))"
    by (rule length_alist_update)
  then show ?thesis
    using assms length_prune [of now d] distinct_prune [of d now]
    by (auto simp: limiter_inv_def can_request_path_def Let_def distinct_update)
qed

interpretation limiter: invariant_system "\<lambda>d. d = []" limiter_step limiter_inv
proof unfold_locales
  show "limiter_inv s" if "s = []" for s using that by (simp add: limiter_inv_def)
  show "limiter_inv t" if "limiter_inv s" "limiter_step s t" for s t
    using that(2,1)
  proof cases
    case (ls_request now dest)
    then show ?thesis using can_request_inv [OF that(1)] by simp
  qed (simp add: reset_path_request_budget_def limiter_inv_def)
qed

section \<open>Runs of requests\<close>

text \<open>
  A run over timed requests: the requests that were let through, in order, and the final
  table.
\<close>

fun request_run :: "(rat \<times> bytes) list \<Rightarrow> path_log \<Rightarrow> (rat \<times> bytes) list \<times> path_log" where
  "request_run [] d = ([], d)"
| "request_run ((now, dest) # cs) d =
     (let (ok, d') = can_request_path now dest d; (acc, d'') = request_run cs d' in
      (if ok then (now, dest) # acc else acc, d''))"

lemma map_of_prune:
  "distinct (map fst d) \<Longrightarrow>
     map_of (prune now d) k =
       (case map_of d k of Some t \<Rightarrow> if now - PATH_REQUEST_WINDOW \<le> t then Some t else None | None \<Rightarrow> None)"
proof (induction d)
  case (Cons p d)
  then show ?case
    by (cases p) (auto simp: prune_def map_of_eq_None_iff split: option.splits)
qed (simp add: prune_def)

text \<open>
  \<open>remembers d k t\<close>: a request for key \<open>k\<close> at time \<open>t\<close> is still in the table, or so old
  that the window has passed.
\<close>

definition remembers :: "path_log \<Rightarrow> rat \<Rightarrow> string \<Rightarrow> rat \<Rightarrow> bool" where
  "remembers d now k t \<longleftrightarrow>
     t < now - PATH_REQUEST_WINDOW \<or> (\<exists>t' \<ge> t. map_of d k = Some t')"

lemma remembers_step:
  assumes "distinct (map fst d)" "remembers d now k t" "now \<le> now'" "t \<le> now'"
  shows "remembers (snd (can_request_path now' dest d)) now' k t"
proof (cases "t < now' - PATH_REQUEST_WINDOW")
  case False
  then obtain t' where "t \<le> t'" "map_of d k = Some t'"
    using assms by (auto simp: remembers_def)
  then show ?thesis
    using False assms(1,4)
    by (auto simp: remembers_def can_request_path_def Let_def map_of_prune update_conv')
qed (simp add: remembers_def)

lemma accepted_gap:
  assumes "distinct (map fst d)" "remembers d now (hex_of dest) t" "now \<le> now'" "t \<le> now'"
    and "fst (can_request_path now' dest d)"
  shows "MIN_PATH_REQUEST_INTERVAL \<le> now' - t"
proof (cases "t < now' - PATH_REQUEST_WINDOW")
  case True
  then show ?thesis by (simp add: limit_consts)
next
  case False
  then obtain t' where t': "t \<le> t'" "map_of d (hex_of dest) = Some t'"
    using assms by (auto simp: remembers_def)
  then have "map_of (prune now' d) (hex_of dest) = Some t'"
    using assms(1) False by (simp add: map_of_prune)
  then show ?thesis
    using assms(5) t' by (auto simp: can_request_path_def Let_def split: if_splits)
qed

lemma distinct_can_request: "distinct (map fst d) \<Longrightarrow> distinct (map fst (snd (can_request_path now dest d)))"
  by (simp add: can_request_path_def Let_def distinct_prune distinct_update)

lemma run_gap:
  assumes "sorted (map fst cs)" and "\<forall>c \<in> set cs. now \<le> fst c" and "t \<le> now"
    and "distinct (map fst d)" and "remembers d now (hex_of dest) t"
    and "(t', dest) \<in> set (fst (request_run cs d))"
  shows "MIN_PATH_REQUEST_INTERVAL \<le> t' - t"
  using assms
proof (induction cs arbitrary: d now)
  case (Cons c cs)
  obtain n e where c: "c = (n, e)" by fastforce
  let ?d = "snd (can_request_path n e d)"
  have n: "now \<le> n" using Cons.prems(2) c by simp
  consider "(t', dest) = (n, e)" "fst (can_request_path n e d)" |
      "(t', dest) \<in> set (fst (request_run cs ?d))"
    using Cons.prems(6) by (auto simp: c Let_def split: prod.splits if_splits)
  then show ?case
  proof cases
    case 1
    then show ?thesis using accepted_gap [OF Cons.prems(4) _ n] Cons.prems n by simp
  next
    case 2
    show ?thesis
    proof (rule Cons.IH [OF _ _ _ _ _ 2])
      show "sorted (map fst cs)" "\<forall>c\<in>set cs. n \<le> fst c" using Cons.prems(1) c by auto
      show "t \<le> n" using Cons.prems(3) n by simp
      show "distinct (map fst ?d)" using Cons.prems(4) by (rule distinct_can_request)
      show "remembers ?d n (hex_of dest) t"
        using remembers_step [OF Cons.prems(4,5) n] Cons.prems(3) n by simp
    qed
  qed
qed simp

lemma accepted_remembered:
  "fst (can_request_path now dest d) \<Longrightarrow>
     remembers (snd (can_request_path now dest d)) now (hex_of dest) now"
  by (auto simp: can_request_path_def Let_def remembers_def update_conv' split: if_splits)

text \<open>Consecutive elements of a list, and the general pair.\<close>

fun spaced :: "(rat \<times> bytes) list \<Rightarrow> bool" where
  "spaced [] = True"
| "spaced ((t, dest) # cs) =
     (list_all (\<lambda>(t', dest'). dest' \<noteq> dest \<or> MIN_PATH_REQUEST_INTERVAL \<le> t' - t) cs \<and> spaced cs)"

lemma run_spaced:
  "sorted (map fst cs) \<Longrightarrow> distinct (map fst d) \<Longrightarrow> spaced (fst (request_run cs d))"
proof (induction cs arbitrary: d)
  case (Cons c cs)
  obtain n e where c: "c = (n, e)" by fastforce
  let ?d = "snd (can_request_path n e d)"
  have d: "distinct (map fst ?d)" using Cons.prems(2) by (rule distinct_can_request)
  have rest: "spaced (fst (request_run cs ?d))"
    using Cons.IH [OF _ d] Cons.prems(1) c by simp
  show ?case
  proof (cases "fst (can_request_path n e d)")
    case True
    have "MIN_PATH_REQUEST_INTERVAL \<le> t' - n" if "(t', e) \<in> set (fst (request_run cs ?d))" for t'
      using run_gap [OF _ _ order_refl d accepted_remembered [OF True] that] Cons.prems(1) c by auto
    with rest True show ?thesis
      by (auto simp: c Let_def list_all_iff split: prod.splits)
  next
    case False
    with rest show ?thesis by (auto simp: c Let_def split: prod.splits)
  qed
qed simp

section \<open>Properties\<close>

text \<open>
  Whatever sequence of requests and resets is made, at whatever times, the table
  holds at most thirty destinations, one entry each.
\<close>

theorem path_table_bounded:
  assumes "reach (\<lambda>d. d = []) limiter_step d"
  shows "length d \<le> MAX_PATH_REQUESTS_PER_WINDOW \<and> distinct (map fst d)"
  using limiter.reach_inv [OF assms] by (simp add: limiter_inv_def)

theorem path_table_bounded_witness:
  "length (snd (can_request_path 5 [1] [])) \<le> MAX_PATH_REQUESTS_PER_WINDOW \<and>
   distinct (map fst (snd (can_request_path 5 [1] [])))"
  by (rule path_table_bounded) (blast intro: reach_start reach_step ls_request)

text \<open>
  Claim C6. Along any run with a clock that does not go back, two requests let through for the
  same destination are at least five minutes apart.
\<close>

theorem path_requests_spaced:
  assumes "sorted (map fst cs)"
  shows "spaced (fst (request_run cs []))"
  using assms by (rule run_spaced) simp

theorem path_requests_spaced_witness:
  "spaced (fst (request_run [(0, [1]), (10, [1]), (310, [1])] [])) \<and>
   fst (request_run [(0, [1]), (10, [1]), (310, [1])] []) = [(0, [1]), (310, [1])]"
proof
  show "spaced (fst (request_run [(0, [1]), (10, [1]), (310, [1])] []))"
    by (rule path_requests_spaced) simp
  show "fst (request_run [(0, [1]), (10, [1]), (310, [1])] []) = [(0, [1]), (310, [1])]"
    by (simp add: can_request_path_def prune_def limit_consts Let_def)
qed

text \<open>Three destinations, each asked for every five minutes.\<close>

definition busy_hour :: "(rat \<times> bytes) list" where
  "busy_hour = concat (map (\<lambda>i. map (\<lambda>b. (300 * of_nat i, [b])) [1, 2, 3]) [0..<12])"

text \<open>
  The hourly budget counts destinations, not requests: three destinations asked for
  every five minutes make 36 requests within 55 minutes, and all are let through, although
  the budget is 30 in an hour.
\<close>

theorem path_budget_counts_destinations:
  "fst (request_run busy_hour []) = busy_hour \<and> length busy_hour = 36 \<and>
   list_all (\<lambda>(t, _). 0 \<le> t \<and> t \<le> PATH_REQUEST_WINDOW - 300) busy_hour \<and>
   MAX_PATH_REQUESTS_PER_WINDOW < 36"
proof -
  have b: "busy_hour =
    [(0, [1]), (0, [2]), (0, [3]), (300, [1]), (300, [2]), (300, [3]), (600, [1]), (600, [2]),
     (600, [3]), (900, [1]), (900, [2]), (900, [3]), (1200, [1]), (1200, [2]), (1200, [3]),
     (1500, [1]), (1500, [2]), (1500, [3]), (1800, [1]), (1800, [2]), (1800, [3]), (2100, [1]),
     (2100, [2]), (2100, [3]), (2400, [1]), (2400, [2]), (2400, [3]), (2700, [1]), (2700, [2]),
     (2700, [3]), (3000, [1]), (3000, [2]), (3000, [3]), (3300, [1]), (3300, [2]), (3300, [3])]"
    by (simp add: busy_hour_def upt_rec)
  have "fst (request_run busy_hour []) = busy_hour"
    unfolding b by (simp add: can_request_path_def prune_def limit_consts Let_def)
  then show ?thesis by (simp add: b limit_consts)
qed

end
