(* ===== verification/Term_Messages.thy ===== *)
theory Term_Messages
  imports Interfaces
begin

text \<open>
  The terminal data plane (\<^verbatim>\<open>src/styrened/terminal/messages.py\<close>): the six messages that travel
  over an RNS link, their \<^verbatim>\<open>pack\<close> and \<^verbatim>\<open>unpack\<close> methods, and the raw packet format
  \<open>[type:1][packed_data]\<close>. A message class is a constructor, an instance its attributes. The
  attributes are dynamically typed, because \<^verbatim>\<open>unpack\<close> stores whatever the peer sent.
\<close>

section \<open>Message types and messages\<close>

datatype TerminalMessageType = NOOP | STREAM_DATA | WINDOW_SIZE | COMMAND_EXITED | VERSION_INFO | ERROR

primrec msgtype_code :: "TerminalMessageType \<Rightarrow> nat" where
  "msgtype_code NOOP = 0"
| "msgtype_code STREAM_DATA = 1"
| "msgtype_code WINDOW_SIZE = 2"
| "msgtype_code COMMAND_EXITED = 3"
| "msgtype_code VERSION_INFO = 4"
| "msgtype_code ERROR = 5"

definition msgtypes :: "TerminalMessageType list" where
  "msgtypes = [NOOP, STREAM_DATA, WINDOW_SIZE, COMMAND_EXITED, VERSION_INFO, ERROR]"

interpretation tmt: int_enum msgtype_code msgtypes
proof unfold_locales
  show "t \<in> set msgtypes" for t by (cases t) (simp_all add: msgtypes_def)
  show "distinct (map msgtype_code msgtypes)" by (simp add: msgtypes_def)
qed

datatype message =
    Noop
  | StreamData (sd_stream: pyval) (sd_data: pyval) (sd_eof: pyval)
  | WindowSize (ws_rows: pyval) (ws_cols: pyval) (ws_xpixel: pyval) (ws_ypixel: pyval)
  | CommandExited (ce_return_code: pyval) (ce_signal: pyval)
  | VersionInfo (vi_version: pyval) (vi_software: pyval)
  | Error (er_message: pyval) (er_code: pyval) (er_fatal: pyval)

definition STDIN :: int where "STDIN = 0"
definition STDOUT :: int where "STDOUT = 1"
definition STDERR :: int where "STDERR = 2"

text \<open>\<^verbatim>\<open>v == n\<close> for a number \<open>n\<close>: a bool or a float may be equal to it as well.\<close>

definition eq_int :: "pyval \<Rightarrow> int \<Rightarrow> bool" where
  "eq_int v i \<longleftrightarrow> as_int v = Some i \<or> v = PFloat (of_int i)"

definition is_stdin :: "message \<Rightarrow> bool" where
  "is_stdin m \<longleftrightarrow> eq_int (sd_stream m) STDIN"

definition is_stdout :: "message \<Rightarrow> bool" where
  "is_stdout m \<longleftrightarrow> eq_int (sd_stream m) STDOUT"

definition is_stderr :: "message \<Rightarrow> bool" where
  "is_stderr m \<longleftrightarrow> eq_int (sd_stream m) STDERR"

primrec MSGTYPE :: "message \<Rightarrow> TerminalMessageType" where
  "MSGTYPE Noop = NOOP"
| "MSGTYPE (StreamData s d e) = STREAM_DATA"
| "MSGTYPE (WindowSize r c x y) = WINDOW_SIZE"
| "MSGTYPE (CommandExited rc sig) = COMMAND_EXITED"
| "MSGTYPE (VersionInfo v sw) = VERSION_INFO"
| "MSGTYPE (Error m c f) = ERROR"

text \<open>The registry of classes; a class stands for the instance its constructor makes.\<close>

definition MESSAGE_TYPES :: "(TerminalMessageType \<times> message) list" where
  "MESSAGE_TYPES =
     [(NOOP, Noop),
      (STREAM_DATA, StreamData (PInt 0) (PBytes []) (PBool False)),
      (WINDOW_SIZE, WindowSize (PInt 0) (PInt 0) (PInt 0) (PInt 0)),
      (COMMAND_EXITED, CommandExited (PInt 0) PNone),
      (VERSION_INFO, VersionInfo (PStr ''1.0'') (PStr ''styrened'')),
      (ERROR, Error (PStr []) (PInt 1) (PBool False))]"

section \<open>Packing\<close>

primrec pack_dict :: "message \<Rightarrow> (string \<times> pyval) list" where
  "pack_dict Noop = []"
| "pack_dict (StreamData s d e) = [(''s'', s), (''d'', d), (''e'', e)]"
| "pack_dict (WindowSize r c x y) = [(''r'', r), (''c'', c), (''x'', x), (''y'', y)]"
| "pack_dict (CommandExited rc sig) =
     (if sig = PNone then [(''rc'', rc)] else [(''rc'', rc), (''sig'', sig)])"
| "pack_dict (VersionInfo v sw) = [(''v'', v), (''sw'', sw)]"
| "pack_dict (Error m c f) = [(''m'', m), (''c'', c), (''f'', f)]"

definition pack :: "msgpack \<Rightarrow> message \<Rightarrow> bytes res" where
  "pack mp m = packb mp (PDict (kv (pack_dict m)))"

text \<open>
  \<^verbatim>\<open>d[b"k"] if b"k" in d else d["k"]\<close>: anything but a dictionary ends in a
  \<^verbatim>\<open>TypeError\<close> (of the membership test or of the subscript). The second form is
  \<^verbatim>\<open>d.get(b"k", d.get("k", v))\<close>, reached only with a dictionary.
\<close>

definition item :: "pyval \<Rightarrow> string \<Rightarrow> pyval res" where
  "item v k =
     (case v of
        PDict d \<Rightarrow> (case map_of d (PBytes (str_bytes k)) of Some x \<Rightarrow> Inr x | None \<Rightarrow> d_item d k)
      | _ \<Rightarrow> Inl TypeError)"

definition get :: "pyval \<Rightarrow> string \<Rightarrow> pyval \<Rightarrow> pyval res" where
  "get v k dflt =
     (case v of
        PDict d \<Rightarrow> Inr (case map_of d (PBytes (str_bytes k)) of Some x \<Rightarrow> x | None \<Rightarrow> d_get_or d k dflt)
      | _ \<Rightarrow> Inl AttributeError)"

text \<open>\<^verbatim>\<open>v.decode() if isinstance(v, bytes) else v\<close>.\<close>

definition decode_text :: "pyval \<Rightarrow> pyval res" where
  "decode_text v =
     (case v of PBytes b \<Rightarrow> bind_res (decode_utf8 b) (\<lambda>s. Inr (PStr s)) | _ \<Rightarrow> Inr v)"

text \<open>Python's order on texts, which for UTF-8 is the order of the bytes.\<close>

fun str_le :: "string \<Rightarrow> string \<Rightarrow> bool" where
  "str_le [] t = True"
| "str_le (c # s) [] = False"
| "str_le (c # s) (d # t) =
     (if (of_char c :: nat) < of_char d then True else if c = d then str_le s t else False)"

section \<open>Unpacking\<close>

definition unpack_stream :: "pyval \<Rightarrow> message res" where
  "unpack_stream d =
     bind_res (item d ''s'') (\<lambda>s. bind_res (item d ''d'') (\<lambda>b.
     bind_res (get d ''e'' (PBool False)) (\<lambda>e. Inr (StreamData s b e))))"

definition unpack_window :: "pyval \<Rightarrow> message res" where
  "unpack_window d =
     bind_res (item d ''r'') (\<lambda>r. bind_res (item d ''c'') (\<lambda>c.
     bind_res (get d ''x'' (PInt 0)) (\<lambda>x. bind_res (get d ''y'' (PInt 0)) (\<lambda>y.
     Inr (WindowSize r c x y)))))"

definition unpack_exited :: "pyval \<Rightarrow> message res" where
  "unpack_exited d =
     bind_res (item d ''rc'') (\<lambda>rc. bind_res (get d ''sig'' PNone) (\<lambda>s. Inr (CommandExited rc s)))"

definition unpack_version :: "pyval \<Rightarrow> message res" where
  "unpack_version d =
     bind_res (item d ''v'') (\<lambda>v. bind_res (item d ''sw'') (\<lambda>sw.
     bind_res (decode_text v) (\<lambda>v'. bind_res (decode_text sw) (\<lambda>sw'. Inr (VersionInfo v' sw')))))"

definition unpack_error :: "pyval \<Rightarrow> message res" where
  "unpack_error d =
     bind_res (item d ''m'') (\<lambda>m. bind_res (decode_text m) (\<lambda>m'.
     bind_res (get d ''c'' (PInt 1)) (\<lambda>c. bind_res (get d ''f'' (PBool False)) (\<lambda>f.
     Inr (Error m' c f)))))"

primrec unpack :: "msgpack \<Rightarrow> message \<Rightarrow> bytes \<Rightarrow> message res" where
  "unpack mp Noop raw = Inr Noop"
| "unpack mp (StreamData _ _ _) raw = bind_res (unpackb_raw mp raw) unpack_stream"
| "unpack mp (WindowSize _ _ _ _) raw = bind_res (unpackb_raw mp raw) unpack_window"
| "unpack mp (CommandExited _ _) raw = bind_res (unpackb_raw mp raw) unpack_exited"
| "unpack mp (VersionInfo _ _) raw = bind_res (unpackb_raw mp raw) unpack_version"
| "unpack mp (Error _ _ _) raw = bind_res (unpackb_raw mp raw) unpack_error"

section \<open>Raw packets\<close>

definition serialize_message :: "msgpack \<Rightarrow> message \<Rightarrow> bytes res" where
  "serialize_message mp m =
     bind_res (pack mp m) (\<lambda>p. Inr (of_nat (msgtype_code (MSGTYPE m)) # p))"

definition deserialize_message :: "msgpack \<Rightarrow> bytes \<Rightarrow> message res" where
  "deserialize_message mp data =
     (case data of
        [] \<Rightarrow> Inl ValueError
      | t # rest \<Rightarrow>
          bind_res (int_enum_of msgtype_code msgtypes (unat t)) (\<lambda>ty.
            case map_of MESSAGE_TYPES ty of
              None \<Rightarrow> Inl ValueError
            | Some inst \<Rightarrow> unpack mp inst rest))"

lemma class_of_type: "map_of MESSAGE_TYPES ty = Some inst \<longleftrightarrow>
  inst = (case ty of NOOP \<Rightarrow> Noop
     | STREAM_DATA \<Rightarrow> StreamData (PInt 0) (PBytes []) (PBool False)
     | WINDOW_SIZE \<Rightarrow> WindowSize (PInt 0) (PInt 0) (PInt 0) (PInt 0)
     | COMMAND_EXITED \<Rightarrow> CommandExited (PInt 0) PNone
     | VERSION_INFO \<Rightarrow> VersionInfo (PStr ''1.0'') (PStr ''styrened'')
     | ERROR \<Rightarrow> Error (PStr []) (PInt 1) (PBool False))"
  by (cases ty) (auto simp: MESSAGE_TYPES_def)

lemma class_total: "\<exists>inst. map_of MESSAGE_TYPES ty = Some inst \<and> MSGTYPE inst = ty"
  by (cases ty) (auto simp: class_of_type)

lemma unat_msgtype: "unat (of_nat (msgtype_code t) :: byte) = msgtype_code t"
  by (cases t) simp_all

lemma msgtype_code_less: "n < 6 \<longleftrightarrow> n \<in> range msgtype_code"
proof
  assume "n < 6"
  then consider "n = 0" | "n = 1" | "n = 2" | "n = 3" | "n = 4" | "n = 5" by linarith
  then show "n \<in> range msgtype_code"
    by cases (auto intro: range_eqI [of _ _ NOOP] range_eqI [of _ _ STREAM_DATA]
      range_eqI [of _ _ WINDOW_SIZE] range_eqI [of _ _ COMMAND_EXITED]
      range_eqI [of _ _ VERSION_INFO] range_eqI [of _ _ ERROR])
next
  assume "n \<in> range msgtype_code"
  then obtain t where "n = msgtype_code t" by auto
  then show "n < 6" by (cases t) simp_all
qed

section \<open>The raw format is a codec\<close>

text \<open>
  The values a sender may put into the fields: those that the byte-string form of msgpack
  gives back unchanged (no text inside), a valid text where \<^verbatim>\<open>unpack\<close> decodes one.
\<close>

definition sendable :: "message \<Rightarrow> bool" where
  "sendable m =
     (case m of
        Noop \<Rightarrow> True
      | StreamData s d e \<Rightarrow> rawify s = s \<and> rawify d = d \<and> rawify e = e
      | WindowSize r c x y \<Rightarrow> rawify r = r \<and> rawify c = c \<and> rawify x = x \<and> rawify y = y
      | CommandExited rc sig \<Rightarrow> rawify rc = rc \<and> rawify sig = sig
      | VersionInfo v sw \<Rightarrow> (\<exists>s. v = PStr s \<and> utf8_valid (str_bytes s)) \<and>
                           (\<exists>s. sw = PStr s \<and> utf8_valid (str_bytes s))
      | Error m c f \<Rightarrow> (\<exists>s. m = PStr s \<and> utf8_valid (str_bytes s)) \<and> rawify c = c \<and> rawify f = f)"

definition packs_raw :: "msgpack \<Rightarrow> pyval \<Rightarrow> bool" where
  "packs_raw mp v \<longleftrightarrow> (case packb mp v of Inl e \<Rightarrow> False | Inr p \<Rightarrow> unpackb_raw mp p = Inr (rawify v))"

definition wf_message :: "msgpack \<Rightarrow> message \<Rightarrow> bool" where
  "wf_message mp m \<longleftrightarrow> sendable m \<and> packs_raw mp (PDict (kv (pack_dict m)))"

lemma rawify_kv:
  "rawify (PDict (kv ps)) = PDict (map (\<lambda>(k, v). (PBytes (str_bytes k), rawify v)) ps)"
  by (induction ps) (auto simp: kv_def)

lemma map_of_raw:
  "map_of (map (\<lambda>(k, v). (PBytes (str_bytes k), rawify v)) ps) (PBytes (str_bytes k)) =
     map_option rawify (map_of ps k)"
  by (induction ps) auto

lemma item_raw:
  "item (rawify (PDict (kv ps))) k = (case map_of ps k of Some v \<Rightarrow> Inr (rawify v) | None \<Rightarrow> Inl KeyError)"
proof -
  have "map_of (map (\<lambda>(k, v). (PBytes (str_bytes k), rawify v)) ps) (PStr k) = None"
    by (induction ps) auto
  then show ?thesis
    by (simp add: item_def rawify_kv map_of_raw d_item_def d_get_def del: rawify.simps split: option.split)
qed

lemma get_raw:
  "get (rawify (PDict (kv ps))) k v = Inr (case map_of ps k of Some x \<Rightarrow> rawify x | None \<Rightarrow> v)"
proof -
  have "map_of (map (\<lambda>(k, v). (PBytes (str_bytes k), rawify v)) ps) (PStr k) = None"
    by (induction ps) auto
  then show ?thesis
    by (simp add: get_def rawify_kv map_of_raw d_get_or_def d_get_def del: rawify.simps split: option.split)
qed

lemma decode_text_raw: "utf8_valid (str_bytes s) \<Longrightarrow> decode_text (PBytes (str_bytes s)) = Inr (PStr s)"
  by (simp add: decode_text_def decode_utf8_def)

lemmas unpack_defs = unpack_stream_def unpack_window_def unpack_exited_def unpack_version_def
  unpack_error_def

lemma unpack_pack:
  assumes "sendable m" and "unpackb_raw mp p = Inr (rawify (PDict (kv (pack_dict m))))"
    and "map_of MESSAGE_TYPES (MSGTYPE m) = Some inst"
  shows "unpack mp inst p = Inr m"
  using assms
  by (cases m)
    (auto simp: sendable_def class_of_type unpack_defs item_raw get_raw decode_text_raw
      simp del: kv_simps rawify.simps(3))

interpretation term_codec: codec "wf_message mp" "serialize_message mp" "deserialize_message mp" for mp
proof unfold_locales
  show "\<exists>b. serialize_message mp m = Inr b" if "wf_message mp m" for m
    using that by (auto simp: wf_message_def packs_raw_def serialize_message_def pack_def split: sum.splits)
  show "deserialize_message mp b = Inr m" if w: "wf_message mp m" and s: "serialize_message mp m = Inr b" for m b
  proof -
    obtain p where p: "packb mp (PDict (kv (pack_dict m))) = Inr p" "b = of_nat (msgtype_code (MSGTYPE m)) # p"
      using s by (auto simp: serialize_message_def pack_def)
    have "unpackb_raw mp p = Inr (rawify (PDict (kv (pack_dict m))))"
      using w p by (simp add: wf_message_def packs_raw_def)
    moreover obtain inst where i: "map_of MESSAGE_TYPES (MSGTYPE m) = Some inst"
      using class_total by blast
    ultimately have "unpack mp inst p = Inr m"
      using unpack_pack w by (simp add: wf_message_def)
    then show ?thesis
      by (simp add: p(2) deserialize_message_def unat_msgtype tmt.of_code i)
  qed
qed

section \<open>What a packet can do\<close>

lemma item_Inl: "item v k = Inl e \<Longrightarrow> e = TypeError \<or> e = KeyError"
  by (cases v) (auto simp: item_def d_item_def split: option.splits)

lemma item_Inr_dict: "item v k = Inr x \<Longrightarrow> \<exists>d. v = PDict d"
  by (cases v) (auto simp: item_def)

lemma get_dict: "\<exists>x. get (PDict d) k v = Inr x"
  by (simp add: get_def)

lemma decode_text_Inl: "decode_text v = Inl e \<Longrightarrow> e = UnicodeDecodeError"
  by (cases v) (auto simp: decode_text_def decode_utf8_def split: if_splits)

lemma bind_res_Inl: "bind_res r f = Inl e \<longleftrightarrow> r = Inl e \<or> (\<exists>a. r = Inr a \<and> f a = Inl e)"
  by (cases r) auto

lemma unpack_parts_errors:
  "unpack_stream v = Inl e \<Longrightarrow> e = TypeError \<or> e = KeyError"
  "unpack_window v = Inl e \<Longrightarrow> e = TypeError \<or> e = KeyError"
  "unpack_exited v = Inl e \<Longrightarrow> e = TypeError \<or> e = KeyError"
  "unpack_version v = Inl e \<Longrightarrow> e = TypeError \<or> e = KeyError \<or> e = UnicodeDecodeError"
  "unpack_error v = Inl e \<Longrightarrow> e = TypeError \<or> e = KeyError \<or> e = UnicodeDecodeError"
  unfolding unpack_defs bind_res_Inl
  by (auto dest: item_Inl decode_text_Inl item_Inr_dict simp: get_def)

lemma unpack_errors:
  "unpack mp inst raw = Inl e \<Longrightarrow>
     unpackb_raw mp raw = Inl e \<or> e \<in> {TypeError, KeyError, UnicodeDecodeError}"
  by (cases inst) (auto simp: bind_res_Inl dest: unpack_parts_errors)

section \<open>Properties\<close>

text \<open>
  A message with sendable fields survives the raw packet format: the peer decodes
  the packet to the same message, with its texts decoded again from the bytes that the
  byte-string form of msgpack returns.
\<close>

theorem terminal_message_round_trip:
  assumes "sendable m" and "packs_raw mp (PDict (kv (pack_dict m)))"
  shows "bind_res (serialize_message mp m) (deserialize_message mp) = Inr m"
  by (rule term_codec.round_trip) (simp add: wf_message_def assms)

definition const_msgpack :: "pyval \<Rightarrow> msgpack" where
  "const_msgpack v =
     \<lparr>packb = (\<lambda>_. Inr [192]), unpackb_strict = (\<lambda>_. Inr v), unpackb_text = (\<lambda>_. Inr v),
      unpackb_raw = (\<lambda>_. Inr (rawify v))\<rparr>"

theorem terminal_message_round_trip_witness:
  "let m = Error (PStr ''Association timeout'') (PInt 3) (PBool True);
       mp = const_msgpack (PDict (kv (pack_dict m)))
   in bind_res (serialize_message mp m) (deserialize_message mp) = Inr m"
  unfolding Let_def
proof (rule terminal_message_round_trip)
  show "sendable (Error (PStr ''Association timeout'') (PInt 3) (PBool True))"
    by (auto simp: sendable_def is_ascii_def intro!: utf8_valid_ascii)
qed (simp add: packs_raw_def const_msgpack_def)

text \<open>
  Every way a packet can be refused: an empty packet or an unknown type byte is a
  \<^verbatim>\<open>ValueError\<close>; a keep-alive is accepted whatever follows its type byte; any other error
  is the one msgpack raised, or a missing key, a body that is not a dictionary, or a text
  that is not UTF-8.
\<close>

theorem deserialize_outcomes:
  "case data of
     [] \<Rightarrow> deserialize_message mp data = Inl ValueError
   | t # body \<Rightarrow>
       if 6 \<le> unat t then deserialize_message mp data = Inl ValueError
       else if t = 0 then deserialize_message mp data = Inr Noop
       else (case deserialize_message mp data of
               Inr m \<Rightarrow> msgtype_code (MSGTYPE m) = unat t
             | Inl e \<Rightarrow> unpackb_raw mp body = Inl e \<or> e \<in> {TypeError, KeyError, UnicodeDecodeError})"
proof (cases data)
  case Nil
  then show ?thesis by (simp add: deserialize_message_def)
next
  case (Cons t body)
  show ?thesis
  proof (cases "6 \<le> unat t")
    case True
    then have "int_enum_of msgtype_code msgtypes (unat t) = Inl ValueError"
      using msgtype_code_less [of "unat t"] by (simp add: tmt.not_member)
    then show ?thesis using True Cons by (simp add: deserialize_message_def)
  next
    case False
    then obtain ty where ty: "unat t = msgtype_code ty"
      using msgtype_code_less [of "unat t"] by auto
    obtain inst where i: "map_of MESSAGE_TYPES ty = Some inst" "MSGTYPE inst = ty"
      using class_total by blast
    have d: "deserialize_message mp data = unpack mp inst body"
      by (simp add: Cons deserialize_message_def ty tmt.of_code i)
    have same: "MSGTYPE m = ty" if "unpack mp inst body = Inr m" for m
      using that i(2) by (cases inst) (auto simp: unpack_defs)
    have "t = 0 \<longleftrightarrow> ty = NOOP"
      using ty by (cases ty) (auto simp: unat_eq_0 [symmetric] simp del: unat_eq_0)
    then show ?thesis
      using False Cons d i(1) ty same unpack_errors [of mp inst body]
      by (auto simp: class_of_type split: sum.split)
  qed
qed

end
