(* ===== verification/Term_State.thy ===== *)
theory Term_State
  imports Wire_Messages Rbac Term_Messages
begin

text \<open>
  The state of the terminal service (\<^verbatim>\<open>src/styrened/terminal/service.py\<close>) and the operations
  below its message handlers: authorization, the signal and command filters, the rate
  limiter, the tracking of sessions per identity, window sizes, and closing a session.

  Session objects are shared: the table of sessions, the links and the running tasks all
  point at the same object, and a closed one stays reachable from its link. So sessions live
  in a heap and everything else holds references. What the service asks of the operating
  system and of RNS is appended to a trace, in order. What they answer is an argument.
\<close>

section \<open>Constants\<close>

definition DEFAULT_SHELL :: string where "DEFAULT_SHELL = ''/bin/bash''"

definition DEFAULT_ALLOWED_SHELLS :: "string set" where
  "DEFAULT_ALLOWED_SHELLS = {''/bin/bash'', ''/bin/sh'', ''/bin/zsh''}"

definition PTY_READ_SIZE :: nat where "PTY_READ_SIZE = 4096"
definition SESSION_IDLE_TIMEOUT :: rat where "SESSION_IDLE_TIMEOUT = 3600"
definition DEFAULT_MAX_SESSIONS_PER_IDENTITY :: int where "DEFAULT_MAX_SESSIONS_PER_IDENTITY = 5"
definition DEFAULT_MAX_TOTAL_SESSIONS :: int where "DEFAULT_MAX_TOTAL_SESSIONS = 20"
definition DEFAULT_SESSION_REQUEST_RATE_LIMIT :: int where "DEFAULT_SESSION_REQUEST_RATE_LIMIT = 10"
definition RATE_LIMIT_WINDOW_SECONDS :: rat where "RATE_LIMIT_WINDOW_SECONDS = 60"

text \<open>The POSIX signals the code names.\<close>

definition SIGHUP :: int where "SIGHUP = 1"
definition SIGINT :: int where "SIGINT = 2"
definition SIGQUIT :: int where "SIGQUIT = 3"
definition SIGKILL :: int where "SIGKILL = 9"
definition SIGTERM :: int where "SIGTERM = 15"
definition SIGCONT :: int where "SIGCONT = 18"
definition SIGSTOP :: int where "SIGSTOP = 19"
definition SIGTSTP :: int where "SIGTSTP = 20"
definition SIGWINCH :: int where "SIGWINCH = 28"

definition DEFAULT_ALLOWED_SIGNALS :: "int set" where
  "DEFAULT_ALLOWED_SIGNALS = {SIGINT, SIGTERM, SIGHUP, SIGTSTP, SIGCONT, SIGWINCH}"

definition BLOCKED_SIGNALS :: "int set" where
  "BLOCKED_SIGNALS = {SIGKILL, SIGSTOP, SIGQUIT}"

definition IDENTITY_VERIFICATION_RETRIES :: nat where "IDENTITY_VERIFICATION_RETRIES = 10"
definition MAX_PENDING_PACKETS :: nat where "MAX_PENDING_PACKETS = 10"
definition HANDOFF_TIMEOUT_SECONDS :: rat where "HANDOFF_TIMEOUT_SECONDS = 30"

lemmas signal_defs = SIGHUP_def SIGINT_def SIGQUIT_def SIGKILL_def SIGTERM_def SIGCONT_def
  SIGSTOP_def SIGTSTP_def SIGWINCH_def DEFAULT_ALLOWED_SIGNALS_def BLOCKED_SIGNALS_def

section \<open>State\<close>

datatype task = NoTask | Running | Finished | Cancelled

record session =
  session_id :: bytes
  source_identity :: string
  master_fd :: int
  child_pid :: int
  link :: "nat option"
  channel :: "nat option"
  protocol_version :: string
  term_type :: string
  rows :: int
  cols :: int
  created_at :: rat
  last_activity :: rat
  read_task :: task
  closed :: bool
  association_pending :: bool

text \<open>
  A link as the service sees it: its status code and sizes, and the attributes that the
  service hangs on it.
\<close>

record link_obj =
  status :: nat
  mtu :: int
  mdu :: int
  terminal_session :: "nat option"
  association_in_progress :: bool
  pending_packets :: "bytes list"

record config =
  default_shell :: string
  session_idle_timeout :: rat
  allowed_signals :: "int set"
  disable_command_validation :: bool
  allowed_shells :: "string set"
  allowed_commands :: "string set option"
  max_sessions_per_identity :: int
  max_total_sessions :: int
  session_request_rate_limit :: int

datatype effect =
    SendEnvelope string envelope
  | SendPacket nat bytes
  | SendChannel nat message
  | Teardown nat
  | SetWinsize int int int int int
  | WritePty int bytes
  | ClosePty int
  | KillChild int int
  | Exec int string string pyval "pyval list"

text \<open>
  \<open>verifications\<close> holds the coroutines scheduled by \<^verbatim>\<open>run_coroutine_threadsafe\<close> and not yet
  finished: a link, and the session it asks for.
\<close>

record service =
  conf :: config
  policy :: rbac
  heap :: "session list"
  sessions :: "(bytes \<times> nat) list"
  sessions_by_identity :: "string \<Rightarrow> bytes list option"
  request_timestamps :: "string \<Rightarrow> rat list option"
  link_destination :: "string option"
  registered :: bool
  idle_check_task :: bool
  event_loop :: bool
  links :: "nat \<Rightarrow> link_obj"
  verifications :: "(nat \<times> nat) list"
  trace :: "effect list"

text \<open>
  What the service calls and does not define: msgpack, \<^verbatim>\<open>shutil.which\<close>, the status code
  \<^verbatim>\<open>RNS.Link.ACTIVE\<close> and the one a torn-down link gets, the two hash lookups, and the
  hash of the node's own identity.
\<close>

record platform =
  pack_lib :: msgpack
  which :: "string \<Rightarrow> string option"
  LINK_ACTIVE :: nat
  LINK_CLOSED :: nat
  discovered :: "string \<Rightarrow> string option res"
  node_store :: "string \<Rightarrow> string option res"
  node_identity :: "string option"

definition emit :: "effect list \<Rightarrow> service \<Rightarrow> service" where
  "emit es st = st\<lparr>trace := trace st @ es\<rparr>"

definition upd_session :: "nat \<Rightarrow> (session \<Rightarrow> session) \<Rightarrow> service \<Rightarrow> service" where
  "upd_session r f st = st\<lparr>heap := (heap st)[r := f (heap st ! r)]\<rparr>"

definition upd_link :: "nat \<Rightarrow> (link_obj \<Rightarrow> link_obj) \<Rightarrow> service \<Rightarrow> service" where
  "upd_link l f st = st\<lparr>links := (links st)(l := f (links st l))\<rparr>"

section \<open>Construction\<close>

definition TerminalService ::
    "string \<Rightarrow> int set option \<Rightarrow> int \<Rightarrow> int \<Rightarrow> int \<Rightarrow> rat \<Rightarrow> string set option \<Rightarrow> string set option
      \<Rightarrow> bool \<Rightarrow> rbac option \<Rightarrow> (nat \<Rightarrow> link_obj) \<Rightarrow> service" where
  "TerminalService shell sigs per_identity overall rate idle shells commands disable pol ls =
     \<lparr>conf =
        \<lparr>default_shell = shell, session_idle_timeout = idle,
         allowed_signals = (case sigs of Some s \<Rightarrow> s | None \<Rightarrow> DEFAULT_ALLOWED_SIGNALS) - BLOCKED_SIGNALS,
         disable_command_validation = disable,
         allowed_shells = (case shells of Some s \<Rightarrow> s | None \<Rightarrow> DEFAULT_ALLOWED_SHELLS),
         allowed_commands = commands,
         max_sessions_per_identity = per_identity, max_total_sessions = overall,
         session_request_rate_limit = rate\<rparr>,
      policy = (case pol of Some p \<Rightarrow> p | None \<Rightarrow> RBACPolicy PEER [] []),
      heap = [], sessions = [], sessions_by_identity = Map.empty, request_timestamps = Map.empty,
      link_destination = None, registered = False, idle_check_task = False, event_loop = False,
      links = ls, verifications = [], trace = []\<rparr>"

section \<open>Authorization and filters\<close>

definition set_rbac_policy :: "rbac \<Rightarrow> service \<Rightarrow> service" where
  "set_rbac_policy p st = st\<lparr>policy := p\<rparr>"

definition authorization_level :: "service \<Rightarrow> string \<Rightarrow> string option" where
  "authorization_level st ih =
     (if has_capability (policy st) ih CAP_TERMINAL_FULL then Some ''full''
      else if has_capability (policy st) ih CAP_TERMINAL_RESTRICTED then Some ''restricted''
      else None)"

definition is_authorized :: "service \<Rightarrow> string \<Rightarrow> bool" where
  "is_authorized st ih \<longleftrightarrow>
     has_capability (policy st) ih CAP_TERMINAL_RESTRICTED \<or>
     has_capability (policy st) ih CAP_TERMINAL_FULL"

definition is_signal_allowed :: "service \<Rightarrow> int \<Rightarrow> bool" where
  "is_signal_allowed st sig =
     (if sig \<in> BLOCKED_SIGNALS then False else sig \<in> allowed_signals (conf st))"

text \<open>
  \<^verbatim>\<open>resolve_path\<close>: a value that is not a text fails in \<^verbatim>\<open>startswith\<close>.
\<close>

definition resolve_path :: "platform \<Rightarrow> pyval \<Rightarrow> string res" where
  "resolve_path w p =
     (case p of
        PStr s \<Rightarrow>
          (if prefix ''/'' s then Inr s
           else case which w s of Some q \<Rightarrow> Inr (if q = [] then s else q) | None \<Rightarrow> Inr s)
      | PBytes b \<Rightarrow> Inl TypeError
      | _ \<Rightarrow> Inl AttributeError)"

text \<open>The text of a value in a message; the code gets here only with a text.\<close>

definition shown :: "pyval \<Rightarrow> string" where
  "shown v = (case v of PStr s \<Rightarrow> s | _ \<Rightarrow> [])"

definition validate_command :: "platform \<Rightarrow> service \<Rightarrow> pyval \<Rightarrow> pyval \<Rightarrow> string option res" where
  "validate_command w st shell command =
     (if disable_command_validation (conf st) then Inr None
      else if command \<noteq> PNone then
        (case allowed_commands (conf st) of
           None \<Rightarrow> Inr (Some ''Command execution not allowed (only shell access permitted)'')
         | Some ok \<Rightarrow>
             bind_res (resolve_path w command) (\<lambda>q.
               Inr (if q \<in> ok then None else Some (''Command not allowed: '' @ shown command))))
      else
        bind_res (resolve_path w shell) (\<lambda>q.
          Inr (if q \<in> allowed_shells (conf st) then None else Some (''Shell not allowed: '' @ shown shell))))"

section \<open>Rate limits and tracking\<close>

definition cleanup_request_timestamps :: "string \<Rightarrow> rat \<Rightarrow> service \<Rightarrow> service" where
  "cleanup_request_timestamps ih now st =
     (case request_timestamps st ih of
        None \<Rightarrow> st
      | Some ts \<Rightarrow>
          let ts' = filter (\<lambda>t. now - RATE_LIMIT_WINDOW_SECONDS < t) ts in
          st\<lparr>request_timestamps := (request_timestamps st)(ih := if ts' = [] then None else Some ts')\<rparr>)"

definition or_empty :: "'a list option \<Rightarrow> 'a list" where
  "or_empty x = (case x of None \<Rightarrow> [] | Some ys \<Rightarrow> ys)"

definition check_rate_limits :: "rat \<Rightarrow> string \<Rightarrow> service \<Rightarrow> string option \<times> service" where
  "check_rate_limits now ih st0 =
     (let st1 = cleanup_request_timestamps ih now st0;
          c = conf st1;
          ts = or_empty (request_timestamps st1 ih) in
      if session_request_rate_limit c \<le> int (length ts)
      then (Some (''Rate limit exceeded: max '' @ show_int (session_request_rate_limit c) @ '' requests per minute''), st1)
      else
        (let live = filter (\<lambda>s. s \<in> fst ` set (sessions st1)) (or_empty (sessions_by_identity st1 ih));
             st2 = st1\<lparr>request_timestamps := (request_timestamps st1)(ih \<mapsto> ts @ [now]),
                       sessions_by_identity := (sessions_by_identity st1)(ih \<mapsto> live)\<rparr> in
         if max_sessions_per_identity c \<le> int (length live)
         then (Some (''Session limit exceeded: max '' @ show_int (max_sessions_per_identity c) @ '' sessions per identity''), st2)
         else if max_total_sessions c \<le> int (length (sessions st2))
         then (Some (''Server session limit exceeded: max '' @ show_int (max_total_sessions c) @ '' total sessions''), st2)
         else (None, st2)))"

definition track_session :: "string \<Rightarrow> bytes \<Rightarrow> service \<Rightarrow> service" where
  "track_session ih sid st =
     st\<lparr>sessions_by_identity :=
          (sessions_by_identity st)(ih \<mapsto> or_empty (sessions_by_identity st ih) @ [sid])\<rparr>"

definition untrack_session :: "string \<Rightarrow> bytes \<Rightarrow> service \<Rightarrow> service" where
  "untrack_session ih sid st =
     (case sessions_by_identity st ih of
        None \<Rightarrow> st
      | Some xs \<Rightarrow>
          let ys = remove1 sid xs in
          if ys = []
          then st\<lparr>sessions_by_identity := (sessions_by_identity st)(ih := None),
                  request_timestamps := (request_timestamps st)(ih := None)\<rparr>
          else st\<lparr>sessions_by_identity := (sessions_by_identity st)(ih \<mapsto> ys)\<rparr>)"

section \<open>Session objects\<close>

definition update_activity :: "rat \<Rightarrow> nat \<Rightarrow> service \<Rightarrow> service" where
  "update_activity now r = upd_session r (\<lambda>s. s\<lparr>last_activity := now\<rparr>)"

definition valid_dim :: "int \<Rightarrow> bool" where
  "valid_dim i \<longleftrightarrow> 1 \<le> i \<and> i \<le> 65535"

definition pixels :: "pyval \<Rightarrow> int" where
  "pixels v = (case as_int v of Some i \<Rightarrow> if 0 \<le> i \<and> i \<le> 65535 then i else 0 | None \<Rightarrow> 0)"

definition set_window_size :: "nat \<Rightarrow> pyval \<Rightarrow> pyval \<Rightarrow> pyval \<Rightarrow> pyval \<Rightarrow> service \<Rightarrow> service" where
  "set_window_size r nrows ncols xp yp st =
     (case (as_int nrows, as_int ncols) of
        (Some a, Some b) \<Rightarrow>
          if valid_dim a \<and> valid_dim b
          then emit [SetWinsize (master_fd (heap st ! r)) a b (pixels xp) (pixels yp)]
                 (upd_session r (\<lambda>s. s\<lparr>rows := a, cols := b\<rparr>) st)
          else st
      | _ \<Rightarrow> st)"

section \<open>Sending and closing\<close>

definition send_link_packet :: "platform \<Rightarrow> nat \<Rightarrow> bytes \<Rightarrow> service \<Rightarrow> service" where
  "send_link_packet w l data st =
     (if status (links st l) = LINK_ACTIVE w then emit [SendPacket l data] st else st)"

definition teardown :: "platform \<Rightarrow> nat \<Rightarrow> service \<Rightarrow> service" where
  "teardown w l st = emit [Teardown l] (upd_link l (\<lambda>k. k\<lparr>status := LINK_CLOSED w\<rparr>) st)"

text \<open>What becomes of the child after \<^verbatim>\<open>SIGTERM\<close>: gone already, gone when polled, or alive.\<close>

datatype term_outcome = NoSuchProcess | Reaped | Survives

record close_env =
  channel_ready :: bool
  term_result :: term_outcome

definition send_command_exited :: "platform \<Rightarrow> bool \<Rightarrow> nat \<Rightarrow> session \<Rightarrow> int \<Rightarrow> service \<Rightarrow> service" where
  "send_command_exited w ready l s code st =
     (let msg = CommandExited (PInt code) PNone in
      case channel s of
        Some ch \<Rightarrow>
          if ready then emit [SendChannel ch msg] st
          else (case serialize_message (pack_lib w) msg of
                  Inl _ \<Rightarrow> st | Inr p \<Rightarrow> send_link_packet w l p st)
      | None \<Rightarrow>
          (case serialize_message (pack_lib w) msg of
             Inl _ \<Rightarrow> st | Inr p \<Rightarrow> send_link_packet w l p st))"

text \<open>The literal status code that the code compares with when it closes and when it reads.\<close>

definition STATUS_LITERAL :: nat where "STATUS_LITERAL = 0"

definition release_link :: "platform \<Rightarrow> bool \<Rightarrow> session \<Rightarrow> int \<Rightarrow> service \<Rightarrow> service" where
  "release_link w ready s code st =
     (case link s of
        None \<Rightarrow> st
      | Some l \<Rightarrow>
          if status (links st l) = STATUS_LITERAL
          then teardown w l (send_command_exited w ready l s code st)
          else st)"

definition kill_effects :: "term_outcome \<Rightarrow> int \<Rightarrow> effect list" where
  "kill_effects t pid =
     (case t of Survives \<Rightarrow> [KillChild pid SIGTERM, KillChild pid SIGKILL] | _ \<Rightarrow> [KillChild pid SIGTERM])"

definition close_session :: "platform \<Rightarrow> close_env \<Rightarrow> bytes \<Rightarrow> int \<Rightarrow> service \<Rightarrow> service" where
  "close_session w env sid code st =
     (case map_of (sessions st) sid of
        None \<Rightarrow> st
      | Some r \<Rightarrow>
          let st1 = st\<lparr>sessions := AList.delete sid (sessions st)\<rparr>; s = heap st ! r in
          if closed s then st1
          else
            let st2 = upd_session r (\<lambda>s. s\<lparr>closed := True\<rparr>) st1;
                st3 = untrack_session (source_identity s) sid st2;
                st4 = (if read_task s = Running
                       then upd_session r (\<lambda>s. s\<lparr>read_task := Cancelled\<rparr>) st3 else st3);
                st5 = release_link w (channel_ready env) s code st4 in
            emit (ClosePty (master_fd s) # kill_effects (term_result env) (child_pid s)) st5)"

end
