(* ===== verification/Term_Service.thy ===== *)
theory Term_Service
  imports Term_State
begin

text \<open>
  The handlers of the terminal service (\<^verbatim>\<open>src/styrened/terminal/service.py\<close>): start and stop,
  the timeouts, session requests, the child monitor, the link callbacks and the association of
  a link with a session, the PTY reader, and the resize, signal and close messages; then the
  step relation they make. A coroutine is cut at its \<^verbatim>\<open>await\<close>s: each part between two of
  them is one operation here.
\<close>

section \<open>Start, stop and timeouts\<close>

definition resolve_identity_hash :: "platform \<Rightarrow> string \<Rightarrow> string option" where
  "resolve_identity_hash w dest =
     (let found = (\<lambda>r. case r of Inr (Some h) \<Rightarrow> (if h = [] then None else Some h) | _ \<Rightarrow> None) in
      case found (discovered w dest) of Some h \<Rightarrow> Some h | None \<Rightarrow> found (node_store w dest))"

definition start :: "platform \<Rightarrow> string \<Rightarrow> service \<Rightarrow> unit res \<times> service" where
  "start w dest st =
     (if registered st then (Inr (), st)
      else let st1 = st\<lparr>event_loop := True\<rparr> in
        case node_identity w of
          None \<Rightarrow> (Inl RuntimeError, st1)
        | Some _ \<Rightarrow>
            (Inr (), st1\<lparr>link_destination := Some dest, idle_check_task := True, registered := True\<rparr>))"

definition stop :: "platform \<Rightarrow> (bytes \<Rightarrow> close_env) \<Rightarrow> service \<Rightarrow> service" where
  "stop w envs st =
     (let st1 = st\<lparr>idle_check_task := False\<rparr>;
          st2 = fold (\<lambda>sid. close_session w (envs sid) sid (- 1)) (map fst (sessions st1)) st1 in
      st2\<lparr>registered := False\<rparr>)"

definition idle_reason :: "rat \<Rightarrow> service \<Rightarrow> session \<Rightarrow> string option" where
  "idle_reason now st s =
     (if link s = None \<and> HANDOFF_TIMEOUT_SECONDS \<le> now - created_at s then Some ''handoff_timeout''
      else if session_idle_timeout (conf st) \<le> now - last_activity s then Some ''idle_timeout''
      else None)"

definition sessions_to_close :: "rat \<Rightarrow> service \<Rightarrow> (bytes \<times> nat \<times> string) list" where
  "sessions_to_close now st =
     concat (map (\<lambda>(sid, r). case idle_reason now st (heap st ! r) of
                     None \<Rightarrow> [] | Some reason \<Rightarrow> [(sid, r, reason)]) (sessions st))"

definition close_expired ::
    "platform \<Rightarrow> (bytes \<Rightarrow> close_env) \<Rightarrow> bytes \<Rightarrow> bytes \<times> nat \<times> string \<Rightarrow> service \<Rightarrow> service" where
  "close_expired w envs rnd v st =
     (case v of (sid, r, reason) \<Rightarrow>
        let ih = source_identity (heap st ! r); st1 = close_session w (envs sid) sid (- 1) st in
        case create_terminal_closed (pack_lib w) rnd (- 1) reason (Some sid) None of
          Inl _ \<Rightarrow> st1
        | Inr e \<Rightarrow> emit [SendEnvelope ih e] st1)"

definition check_idle_sessions ::
    "platform \<Rightarrow> (bytes \<Rightarrow> close_env) \<Rightarrow> bytes \<Rightarrow> rat \<Rightarrow> service \<Rightarrow> service" where
  "check_idle_sessions w envs rnd now st =
     fold (close_expired w envs rnd) (sessions_to_close now st) st"

section \<open>Session requests\<close>

text \<open>What the operating system answers while a session is created.\<close>

record spawn_env =
  openpty :: "(int \<times> int) res"
  winsize_error :: "exn option"
  forked :: "int res"
  parent_error :: "exn option"

definition child_program :: "pyval \<Rightarrow> pyval \<Rightarrow> pyval list \<Rightarrow> pyval \<times> pyval list" where
  "child_program shell command argv =
     (if truthy command then (command, command # argv) else (shell, [shell, PStr ''-l'']))"

definition create_session ::
    "spawn_env \<Rightarrow> rat \<Rightarrow> bytes \<Rightarrow> string \<Rightarrow> string \<Rightarrow> int \<Rightarrow> int \<Rightarrow> pyval \<Rightarrow> pyval \<Rightarrow> pyval list
      \<Rightarrow> service \<Rightarrow> nat res \<times> service" where
  "create_session sp now sid ih term nrows ncols shell command argv st =
     (case openpty sp of
        Inl e \<Rightarrow> (Inl e, st)
      | Inr (master, slave) \<Rightarrow>
          let st1 = emit [SetWinsize slave nrows ncols 0 0] st in
          case winsize_error sp of
            Some e \<Rightarrow> (Inl e, st1)
          | None \<Rightarrow>
              (case forked sp of
                 Inl e \<Rightarrow> (Inl e, st1)
               | Inr pid \<Rightarrow>
                   let (prog, args) = child_program shell command argv;
                       st2 = emit [Exec pid term ih prog args] st1 in
                   case parent_error sp of
                     Some e \<Rightarrow> (Inl e, st2)
                   | None \<Rightarrow>
                       let r = length (heap st2);
                           s = \<lparr>session_id = sid, source_identity = ih, master_fd = master,
                                child_pid = pid, link = None, channel = None,
                                protocol_version = ''1.0'', term_type = term, rows = nrows,
                                cols = ncols, created_at = now, last_activity = now,
                                read_task = NoTask, closed = False, association_pending = False\<rparr> in
                       (Inr r, track_session ih sid
                                 (st2\<lparr>heap := heap st2 @ [s],
                                      sessions := AList.update sid r (sessions st2)\<rparr>))))"

definition is_text_list :: "pyval \<Rightarrow> bool" where
  "is_text_list v =
     (case v of PList vs \<Rightarrow> list_all (\<lambda>x. case x of PStr _ \<Rightarrow> True | _ \<Rightarrow> False) vs | _ \<Rightarrow> False)"

definition list_items :: "pyval \<Rightarrow> pyval list" where
  "list_items v = (case v of PList vs \<Rightarrow> vs | _ \<Rightarrow> [])"

text \<open>
  The checks of a request's parameters, in order; every refusal here has code 4.
\<close>

definition request_fault :: "platform \<Rightarrow> service \<Rightarrow> pydict \<Rightarrow> string option res" where
  "request_fault w st d =
     (let term = d_get_or d ''term_type'' (PStr ''xterm-256color'');
          nrows = d_get_or d ''rows'' (PInt 24); ncols = d_get_or d ''cols'' (PInt 80);
          shell = d_get_or d ''shell'' (PStr (default_shell (conf st)));
          command = d_get_or d ''command'' PNone; argv = d_get_or d ''args'' (PList []) in
      case (as_int nrows, as_int ncols) of
        (Some a, Some b) \<Rightarrow>
          if \<not> (valid_dim a \<and> valid_dim b)
          then Inr (Some ''Invalid terminal dimensions: must be 1-65535'')
          else if (case term of PStr s \<Rightarrow> 256 < py_len s \<or> py_len s = 0 | _ \<Rightarrow> True)
          then Inr (Some ''Invalid terminal type'')
          else if \<not> is_text_list argv then Inr (Some ''Invalid args: must be a list of strings'')
          else validate_command w st shell command
      | _ \<Rightarrow> Inr (Some ''Invalid terminal dimensions: must be integers''))"

text \<open>The request with its checks passed: the session, then the answer.\<close>

definition open_session ::
    "platform \<Rightarrow> spawn_env \<Rightarrow> rat \<Rightarrow> bytes \<Rightarrow> string \<Rightarrow> bytes \<Rightarrow> pydict \<Rightarrow> service \<Rightarrow> envelope res \<times> service" where
  "open_session w sp now rnd ih sid d st =
     (let int_of = (\<lambda>v. case as_int v of Some i \<Rightarrow> i | None \<Rightarrow> 0);
          (made, st1) =
            create_session sp now sid ih (shown (d_get_or d ''term_type'' (PStr ''xterm-256color'')))
              (int_of (d_get_or d ''rows'' (PInt 24))) (int_of (d_get_or d ''cols'' (PInt 80)))
              (d_get_or d ''shell'' (PStr (default_shell (conf st))))
              (d_get_or d ''command'' PNone) (list_items (d_get_or d ''args'' (PList []))) st in
      case made of
        Inl _ \<Rightarrow> (create_terminal_reject (pack_lib w) rnd ''Failed to create session'' 2 (Some sid), st1)
      | Inr r \<Rightarrow>
          (case link_destination st1 of
             None \<Rightarrow> (create_terminal_reject (pack_lib w) rnd ''Terminal service not ready'' 3 (Some sid), st1)
           | Some dest \<Rightarrow>
               (create_terminal_accept (pack_lib w) rnd dest (Some sid) (Some sid) (node_identity w), st1)))"

definition process_terminal_request ::
    "platform \<Rightarrow> spawn_env \<Rightarrow> rat \<Rightarrow> bytes \<Rightarrow> string \<Rightarrow> bytes option \<Rightarrow> pyval \<Rightarrow> service
      \<Rightarrow> envelope res \<times> service" where
  "process_terminal_request w sp now rnd ih rid p st =
     (let sid = (case rid of None \<Rightarrow> rnd | Some r \<Rightarrow> r);
          reject = (\<lambda>reason code. create_terminal_reject (pack_lib w) rnd reason code (Some sid)) in
      if \<not> is_authorized st ih then (reject ''Identity not authorized'' 1, st)
      else
        (let (limit, st1) = check_rate_limits now ih st in
         case limit of
           Some reason \<Rightarrow> (reject reason 5, st1)
         | None \<Rightarrow>
             (case p of
                PDict d \<Rightarrow>
                  (case request_fault w st1 d of
                     Inl e \<Rightarrow> (Inl e, st1)
                   | Inr (Some reason) \<Rightarrow> (reject reason 4, st1)
                   | Inr None \<Rightarrow> open_session w sp now rnd ih sid d st1)
              | _ \<Rightarrow> (Inl AttributeError, st1))))"

definition answer :: "string \<Rightarrow> envelope res \<times> service \<Rightarrow> unit res \<times> service" where
  "answer dest a =
     (case a of (Inl e, st) \<Rightarrow> (Inl e, st) | (Inr r, st) \<Rightarrow> (Inr (), emit [SendEnvelope dest r] st))"

definition handle_terminal_request ::
    "platform \<Rightarrow> spawn_env \<Rightarrow> rat \<Rightarrow> bytes \<Rightarrow> string \<Rightarrow> envelope \<Rightarrow> service \<Rightarrow> unit res \<times> service" where
  "handle_terminal_request w sp now rnd source env st =
     (case decode_payload (pack_lib w) (payload env) of
        Inl e \<Rightarrow> (Inl e, st)
      | Inr p \<Rightarrow>
          (case resolve_identity_hash w source of
             None \<Rightarrow>
               answer source
                 (create_terminal_reject (pack_lib w) rnd
                    ''Identity resolution failed - node not yet discovered'' 1 (request_id env), st)
           | Some ih \<Rightarrow> answer source (process_terminal_request w sp now rnd ih (request_id env) p st)))"

section \<open>The child monitor\<close>

datatype wait_result = StillRunning | Exited int | Signaled int | OtherStatus | ChildGone

definition monitor_child :: "platform \<Rightarrow> close_env \<Rightarrow> nat \<Rightarrow> wait_result \<Rightarrow> service \<Rightarrow> service" where
  "monitor_child w env r res st =
     (let sid = session_id (heap st ! r) in
      case res of
        StillRunning \<Rightarrow> st
      | Exited code \<Rightarrow> close_session w env sid code st
      | Signaled sig \<Rightarrow> close_session w env sid (128 + sig) st
      | OtherStatus \<Rightarrow> close_session w env sid (- 1) st
      | ChildGone \<Rightarrow> close_session w env sid (- 1) st)"

section \<open>Links\<close>

text \<open>\<^verbatim>\<open>link\<close> objects are new when RNS hands them over.\<close>

definition on_link_established :: "nat \<Rightarrow> nat \<Rightarrow> int \<Rightarrow> int \<Rightarrow> service \<Rightarrow> service" where
  "on_link_established l stat mt md st =
     st\<lparr>links := (links st)(l :=
          \<lparr>status = stat, mtu = mt, mdu = md, terminal_session = None,
           association_in_progress = False, pending_packets = []\<rparr>)\<rparr>"

definition session_message :: "nat \<Rightarrow> message \<Rightarrow> service \<Rightarrow> service" where
  "session_message r m st =
     (case m of
        StreamData _ b _ \<Rightarrow>
          if is_stdin m
          then (case b of PBytes bs \<Rightarrow> emit [WritePty (master_fd (heap st ! r)) bs] st | _ \<Rightarrow> st)
          else st
      | WindowSize a b x y \<Rightarrow> set_window_size r a b x y st
      | _ \<Rightarrow> st)"

definition set_pending :: "nat \<Rightarrow> bool \<Rightarrow> service \<Rightarrow> service" where
  "set_pending r b = upd_session r (\<lambda>s. s\<lparr>association_pending := b\<rparr>)"

definition set_progress :: "nat \<Rightarrow> bool \<Rightarrow> service \<Rightarrow> service" where
  "set_progress l b = upd_link l (\<lambda>k. k\<lparr>association_in_progress := b\<rparr>)"

definition on_link_packet :: "platform \<Rightarrow> rat \<Rightarrow> nat \<Rightarrow> bytes \<Rightarrow> service \<Rightarrow> service" where
  "on_link_packet w now l data st =
     (case terminal_session (links st l) of
        Some r \<Rightarrow>
          let st1 = update_activity now r st in
          (case deserialize_message (pack_lib w) data of
             Inl _ \<Rightarrow> st1 | Inr m \<Rightarrow> session_message r m st1)
      | None \<Rightarrow>
          if association_in_progress (links st l)
          then (if length (pending_packets (links st l)) < MAX_PENDING_PACKETS
                then upd_link l (\<lambda>k. k\<lparr>pending_packets := pending_packets k @ [data]\<rparr>) st else st)
          else
            let st1 = set_progress l True st in
            if length data < 16 then teardown w l st1
            else
              (case map_of (sessions st1) (take 16 data) of
                 None \<Rightarrow> teardown w l st1
               | Some r \<Rightarrow>
                   if association_pending (heap st1 ! r) then teardown w l (set_progress l False st1)
                   else
                     let st2 = set_pending r True st1 in
                     if event_loop st2 then st2\<lparr>verifications := verifications st2 @ [(l, r)]\<rparr>
                     else teardown w l (set_progress l False (set_pending r False st2))))"

definition on_channel_message :: "rat \<Rightarrow> nat \<Rightarrow> message \<Rightarrow> service \<Rightarrow> service" where
  "on_channel_message now r m st = session_message r m (update_activity now r st)"

fun scan_pending :: "msgpack \<Rightarrow> bytes list \<Rightarrow> pyval \<Rightarrow> pyval \<times> bytes list" where
  "scan_pending mp [] v = (v, [])"
| "scan_pending mp (p # ps) v =
     (case deserialize_message mp p of
        Inr (VersionInfo ver _) \<Rightarrow> scan_pending mp ps ver
      | _ \<Rightarrow> let (v', rest) = scan_pending mp ps v in (v', p # rest))"

definition refuse_association :: "platform \<Rightarrow> nat \<Rightarrow> nat \<Rightarrow> service \<Rightarrow> service" where
  "refuse_association w l r st = teardown w l (set_progress l False (set_pending r False st))"

text \<open>The channel of protocol 2.0: \<open>chan_ok\<close> tells whether RNS sets it up.\<close>

definition negotiate :: "nat \<Rightarrow> nat \<Rightarrow> pyval \<Rightarrow> bool \<Rightarrow> service \<Rightarrow> string res \<times> service" where
  "negotiate l r client_version chan_ok st =
     (case client_version of
        PStr v \<Rightarrow>
          if str_le ''2.0'' v \<and> chan_ok
          then (Inr ''2.0'', upd_session r (\<lambda>s. s\<lparr>channel := Some l, protocol_version := ''2.0''\<rparr>) st)
          else (Inr ''1.0'', st)
      | _ \<Rightarrow> (Inl TypeError, st))"

definition associate :: "platform \<Rightarrow> rat \<Rightarrow> nat \<Rightarrow> nat \<Rightarrow> bool \<Rightarrow> service \<Rightarrow> service" where
  "associate w now l r chan_ok st =
     (let st1 = update_activity now r
                  (upd_session r (\<lambda>s. s\<lparr>link := Some l\<rparr>)
                    (upd_link l (\<lambda>k. k\<lparr>terminal_session := Some r\<rparr>) st));
          (client_version, rest) = scan_pending (pack_lib w) (pending_packets (links st1 l)) (PStr ''1.0'');
          st2 = upd_link l (\<lambda>k. k\<lparr>pending_packets := []\<rparr>) st1;
          (server_version, st3) = negotiate l r client_version chan_ok st2 in
      case bind_res server_version (\<lambda>v.
             serialize_message (pack_lib w) (VersionInfo (PStr v) (PStr ''styrened''))) of
        Inl _ \<Rightarrow> refuse_association w l r st3
      | Inr hello \<Rightarrow>
          let st4 = send_link_packet w l hello st3;
              st5 = upd_session r (\<lambda>s. s\<lparr>read_task := Running\<rparr>) st4;
              st6 = fold (on_link_packet w now l) rest st5 in
          set_progress l False (set_pending r False st6))"

fun first_identity :: "string option list \<Rightarrow> string option" where
  "first_identity [] = None"
| "first_identity (Some h # hs) = Some h"
| "first_identity (None # hs) = first_identity hs"

text \<open>
  The verification coroutine; \<open>seen\<close> lists what \<^verbatim>\<open>get_remote_identity()\<close> returns at the
  successive attempts.
\<close>

definition verify_and_associate ::
    "platform \<Rightarrow> rat \<Rightarrow> nat \<Rightarrow> nat \<Rightarrow> string option list \<Rightarrow> bool \<Rightarrow> service \<Rightarrow> service" where
  "verify_and_associate w now l r seen chan_ok st0 =
     (let st = st0\<lparr>verifications := remove1 (l, r) (verifications st0)\<rparr>; s = heap st ! r in
      case first_identity (take IDENTITY_VERIFICATION_RETRIES seen) of
        None \<Rightarrow> refuse_association w l r st
      | Some h \<Rightarrow>
          if h \<noteq> source_identity s then refuse_association w l r st
          else if link s \<noteq> None then refuse_association w l r st
          else associate w now l r chan_ok st)"

definition on_link_closed :: "platform \<Rightarrow> close_env \<Rightarrow> nat \<Rightarrow> service \<Rightarrow> service" where
  "on_link_closed w env l st =
     (let st1 = upd_link l (\<lambda>k. k\<lparr>pending_packets := []\<rparr>) st in
      case terminal_session (links st l) of
        None \<Rightarrow> st1
      | Some r \<Rightarrow> close_session w env (session_id (heap st ! r)) (- 1) st1)"

section \<open>The PTY reader\<close>

definition get_max_payload_size :: "service \<Rightarrow> nat \<Rightarrow> int" where
  "get_max_payload_size st r =
     (let s = heap st ! r in
      case channel s of
        Some ch \<Rightarrow> max 64 (mdu (links st ch) - 20)
      | None \<Rightarrow> (case link s of None \<Rightarrow> 64 | Some l \<Rightarrow> max 64 (mtu (links st l) - 32)))"

text \<open>\<^verbatim>\<open>data[i : i + n] for i in range(0, len(data), n)\<close>.\<close>

function chunks :: "nat \<Rightarrow> 'a list \<Rightarrow> 'a list list" where
  "chunks n xs = (if xs = [] \<or> n = 0 then [] else take n xs # chunks n (drop n xs))"
  by pat_completeness auto
termination by (relation "measure (\<lambda>(n, xs). length xs)") auto

declare chunks.simps [simp del]

definition stdout_message :: "bytes \<Rightarrow> message" where
  "stdout_message c = StreamData (PInt STDOUT) (PBytes c) (PBool False)"

fun send_chunks :: "platform \<Rightarrow> nat \<Rightarrow> bytes list \<Rightarrow> service \<Rightarrow> bool \<times> service" where
  "send_chunks w l [] st = (True, st)"
| "send_chunks w l (c # cs) st =
     (case serialize_message (pack_lib w) (stdout_message c) of
        Inl _ \<Rightarrow> (False, st)
      | Inr p \<Rightarrow> send_chunks w l cs (send_link_packet w l p st))"

datatype read_result = Data bytes | Eof | WouldBlock | ReadError

text \<open>
  One turn of the read loop. In channel mode \<open>ready\<close> is the number of chunks that go out
  before the link is found dead while waiting for the channel.
\<close>

definition pty_read_step :: "platform \<Rightarrow> rat \<Rightarrow> nat \<Rightarrow> read_result \<Rightarrow> nat \<Rightarrow> service \<Rightarrow> service" where
  "pty_read_step w now r res ready st =
     (let s = heap st ! r;
          finish = upd_session r (\<lambda>s. s\<lparr>read_task := Finished\<rparr>) in
      if read_task s \<noteq> Running then st
      else case link s of
        None \<Rightarrow> finish st
      | Some l \<Rightarrow>
          if status (links st l) \<noteq> STATUS_LITERAL then finish st
          else
            (case res of
               WouldBlock \<Rightarrow> st
             | Eof \<Rightarrow> finish st
             | ReadError \<Rightarrow> finish st
             | Data [] \<Rightarrow> finish st
             | Data bs \<Rightarrow>
                 let st1 = update_activity now r st;
                     cs = chunks (nat (get_max_payload_size st1 r)) bs in
                 (case channel s of
                    Some ch \<Rightarrow>
                      let st2 = emit (map (\<lambda>c. SendChannel ch (stdout_message c)) (take ready cs)) st1 in
                      if length cs \<le> ready then st2 else finish st2
                  | None \<Rightarrow>
                      let (ok, st2) = send_chunks w l cs st1 in
                      if ok then st2 else finish st2)))"

section \<open>Resize, signal and close\<close>

text \<open>
  \<^verbatim>\<open>bytes.fromhex(payload["session_id"]) if "session_id" in payload else envelope.request_id\<close>,
  for any value the payload may decode to.
\<close>

definition named_session :: "pyval \<Rightarrow> bytes option \<Rightarrow> bytes option res" where
  "named_session p rid =
     (case p of
        PDict d \<Rightarrow>
          (case d_get d ''session_id'' of
             None \<Rightarrow> Inr rid
           | Some (PStr s) \<Rightarrow> bind_res (fromhex s) (\<lambda>b. Inr (Some b))
           | Some _ \<Rightarrow> Inl TypeError)
      | PList vs \<Rightarrow> if PStr ''session_id'' \<in> set vs then Inl TypeError else Inr rid
      | PStr s \<Rightarrow> if sublist ''session_id'' s then Inl TypeError else Inr rid
      | _ \<Rightarrow> Inl TypeError)"

definition owned_session :: "service \<Rightarrow> bytes option \<Rightarrow> string \<Rightarrow> nat option" where
  "owned_session st sid ih =
     (case sid of
        None \<Rightarrow> None
      | Some b \<Rightarrow>
          if b = [] then None
          else (case map_of (sessions st) b of
                  None \<Rightarrow> None
                | Some r \<Rightarrow> if source_identity (heap st ! r) = ih then Some r else None))"

definition handle_terminal_resize ::
    "platform \<Rightarrow> rat \<Rightarrow> string \<Rightarrow> envelope \<Rightarrow> service \<Rightarrow> unit res \<times> service" where
  "handle_terminal_resize w now source env st =
     (case decode_payload (pack_lib w) (payload env) of
        Inl e \<Rightarrow> (Inl e, st)
      | Inr p \<Rightarrow>
          (case named_session p (request_id env) of
             Inl e \<Rightarrow> (Inl e, st)
           | Inr sid \<Rightarrow>
               (case resolve_identity_hash w source of
                  None \<Rightarrow> (Inr (), st)
                | Some ih \<Rightarrow>
                    (case p of
                       PDict d \<Rightarrow>
                         (case owned_session st sid ih of
                            None \<Rightarrow> (Inr (), st)
                          | Some r \<Rightarrow>
                              let nrows = d_get_or d ''rows'' PNone; ncols = d_get_or d ''cols'' PNone in
                              if nrows = PNone \<or> ncols = PNone then (Inr (), st)
                              else (Inr (), set_window_size r nrows ncols (PInt 0) (PInt 0)
                                              (update_activity now r st)))
                     | _ \<Rightarrow> (Inl AttributeError, st)))))"

definition handle_terminal_signal ::
    "platform \<Rightarrow> rat \<Rightarrow> string \<Rightarrow> envelope \<Rightarrow> service \<Rightarrow> unit res \<times> service" where
  "handle_terminal_signal w now source env st =
     (case decode_payload (pack_lib w) (payload env) of
        Inl e \<Rightarrow> (Inl e, st)
      | Inr p \<Rightarrow>
          (case named_session p (request_id env) of
             Inl e \<Rightarrow> (Inl e, st)
           | Inr sid \<Rightarrow>
               (case p of
                  PDict d \<Rightarrow>
                    (case as_int (d_get_or d ''signal'' (PInt SIGINT)) of
                       None \<Rightarrow> (Inr (), st)
                     | Some sig \<Rightarrow>
                         (case resolve_identity_hash w source of
                            None \<Rightarrow> (Inr (), st)
                          | Some ih \<Rightarrow>
                              (case owned_session st sid ih of
                                 None \<Rightarrow> (Inr (), st)
                               | Some r \<Rightarrow>
                                   let st1 = update_activity now r st in
                                   if is_signal_allowed st1 sig
                                   then (Inr (), emit [KillChild (child_pid (heap st ! r)) sig] st1)
                                   else (Inr (), st1))))
                | _ \<Rightarrow> (Inl AttributeError, st))))"

definition handle_terminal_close ::
    "platform \<Rightarrow> close_env \<Rightarrow> bytes \<Rightarrow> string \<Rightarrow> envelope \<Rightarrow> service \<Rightarrow> envelope option res \<times> service" where
  "handle_terminal_close w cenv rnd source env st =
     (case (if payload env = [] then Inr (PDict []) else decode_payload (pack_lib w) (payload env)) of
        Inl e \<Rightarrow> (Inl e, st)
      | Inr p \<Rightarrow>
          (case named_session p (request_id env) of
             Inl e \<Rightarrow> (Inl e, st)
           | Inr sid \<Rightarrow>
               (case resolve_identity_hash w source of
                  None \<Rightarrow> (Inr None, st)
                | Some ih \<Rightarrow>
                    (case (sid, owned_session st sid ih) of
                       (Some b, Some r) \<Rightarrow>
                         let st1 = close_session w cenv b 0 st in
                         (bind_res (create_terminal_closed (pack_lib w) rnd 0 ''client_close'' (Some b) (request_id env))
                            (\<lambda>e. Inr (Some e)), st1)
                     | _ \<Rightarrow> (Inr None, st)))))"

end
