(* ===== verification/Term_Safety.thy ===== *)
theory Term_Safety
  imports Term_Service
begin

text \<open>
  The step relation of the terminal service and its invariants: the table of sessions with
  its two limits, the association of links with sessions, and the window sizes. Each
  operation is first shown to leave alone the part of the state it does not touch.
\<close>

section \<open>Steps\<close>

definition new_link :: "service \<Rightarrow> nat \<Rightarrow> bool" where
  "new_link st l \<longleftrightarrow> terminal_session (links st l) = None \<and> l \<notin> fst ` set (verifications st)"

inductive term_step :: "platform \<Rightarrow> service \<Rightarrow> service \<Rightarrow> bool" for w :: platform where
  ts_start: "term_step w st (snd (start w dest st))"
| ts_stop: "term_step w st (stop w envs st)"
| ts_policy: "term_step w st (set_rbac_policy p st)"
| ts_request: "term_step w st (snd (handle_terminal_request w sp now rnd source env st))"
| ts_resize: "term_step w st (snd (handle_terminal_resize w now source env st))"
| ts_signal: "term_step w st (snd (handle_terminal_signal w now source env st))"
| ts_close: "term_step w st (snd (handle_terminal_close w cenv rnd source env st))"
| ts_idle: "idle_check_task st \<Longrightarrow> term_step w st (check_idle_sessions w envs rnd now st)"
| ts_monitor: "r < length (heap st) \<Longrightarrow> term_step w st (monitor_child w cenv r res st)"
| ts_link: "new_link st l \<Longrightarrow> term_step w st (on_link_established l stat mt md st)"
| ts_packet: "term_step w st (on_link_packet w now l data st)"
| ts_channel: "r < length (heap st) \<Longrightarrow> channel (heap st ! r) \<noteq> None \<Longrightarrow>
    term_step w st (on_channel_message now r m st)"
| ts_verify: "(l, r) \<in> set (verifications st) \<Longrightarrow>
    term_step w st (verify_and_associate w now l r seen chan_ok st)"
| ts_link_closed: "term_step w st (on_link_closed w cenv l st)"
| ts_status: "term_step w st (upd_link l (\<lambda>k. k\<lparr>status := c\<rparr>) st)"
| ts_read: "r < length (heap st) \<Longrightarrow> term_step w st (pty_read_step w now r res ready st)"

definition term_start :: "service \<Rightarrow> bool" where
  "term_start st \<longleftrightarrow>
     (\<exists>shell sigs n total rate idle shells commands disable pol ls.
        st = TerminalService shell sigs n total rate idle shells commands disable pol ls \<and>
        (\<forall>l. terminal_session (ls l) = None \<and> \<not> association_in_progress (ls l)))"

section \<open>Views of the state\<close>

text \<open>What the table of sessions depends on, and what the links depend on.\<close>

definition ident :: "session \<Rightarrow> bytes \<times> string \<times> bool" where
  "ident s = (session_id s, source_identity s, closed s)"

definition table_view where
  "table_view st = (conf st, sessions st, sessions_by_identity st, map ident (heap st))"

definition link_view where
  "link_view st =
     (map link (heap st), (\<lambda>l. (terminal_session (links st l), association_in_progress (links st l))),
      verifications st)"

lemma map_upd_nth:
  "(\<And>s. g (f s) = g s) \<Longrightarrow> map g (xs[i := f (xs ! i)]) = map g xs"
  by (cases "i < length xs") (simp_all add: list_eq_iff_nth_eq nth_list_update)

lemma map_upd_nth_heap:
  "(\<And>s. g (f s) = g s) \<Longrightarrow> map g (heap (upd_session r f st)) = map g (heap st)"
  by (simp add: upd_session_def map_upd_nth)

lemma emit_views [simp]:
  "table_view (emit es st) = table_view st" "link_view (emit es st) = link_view st"
  by (simp_all add: emit_def table_view_def link_view_def)

lemma emit_emit [simp]: "emit bs (emit as st) = emit (as @ bs) st"
  by (simp add: emit_def)

lemma upd_link_table [simp]: "table_view (upd_link l f st) = table_view st"
  by (simp add: upd_link_def table_view_def)

lemma upd_link_links:
  "(\<And>k. terminal_session (f k) = terminal_session k \<and> association_in_progress (f k) = association_in_progress k)
     \<Longrightarrow> link_view (upd_link l f st) = link_view st"
  by (auto simp: upd_link_def link_view_def fun_eq_iff)

lemma upd_session_table: "(\<And>s. ident (f s) = ident s) \<Longrightarrow> table_view (upd_session r f st) = table_view st"
  by (simp add: table_view_def upd_session_def map_upd_nth)

lemma upd_session_links: "(\<And>s. link (f s) = link s) \<Longrightarrow> link_view (upd_session r f st) = link_view st"
  by (simp add: link_view_def upd_session_def map_upd_nth)

lemma record_views [simp]:
  "table_view (st\<lparr>verifications := vs\<rparr>) = table_view st"
  "table_view (st\<lparr>registered := b\<rparr>) = table_view st"
  "table_view (st\<lparr>idle_check_task := b\<rparr>) = table_view st"
  "table_view (st\<lparr>event_loop := b\<rparr>) = table_view st"
  "table_view (st\<lparr>link_destination := d\<rparr>) = table_view st"
  "table_view (st\<lparr>policy := p\<rparr>) = table_view st"
  "table_view (st\<lparr>request_timestamps := ts\<rparr>) = table_view st"
  "link_view (st\<lparr>registered := b\<rparr>) = link_view st"
  "link_view (st\<lparr>idle_check_task := b\<rparr>) = link_view st"
  "link_view (st\<lparr>event_loop := b\<rparr>) = link_view st"
  "link_view (st\<lparr>link_destination := d\<rparr>) = link_view st"
  "link_view (st\<lparr>policy := p\<rparr>) = link_view st"
  "link_view (st\<lparr>request_timestamps := ts\<rparr>) = link_view st"
  "link_view (st\<lparr>sessions := ss\<rparr>) = link_view st"
  "link_view (st\<lparr>sessions_by_identity := m\<rparr>) = link_view st"
  by (simp_all add: table_view_def link_view_def)

lemma update_activity_views [simp]:
  "table_view (update_activity now r st) = table_view st"
  "link_view (update_activity now r st) = link_view st"
  by (simp_all add: update_activity_def upd_session_table upd_session_links ident_def)

lemma set_window_size_views [simp]:
  "table_view (set_window_size r a b x y st) = table_view st"
  "link_view (set_window_size r a b x y st) = link_view st"
  by (auto simp: set_window_size_def upd_session_table upd_session_links ident_def split: option.split)

lemma send_link_packet_views [simp]:
  "table_view (send_link_packet w l d st) = table_view st"
  "link_view (send_link_packet w l d st) = link_view st"
  by (simp_all add: send_link_packet_def)

lemma teardown_views [simp]:
  "table_view (teardown w l st) = table_view st" "link_view (teardown w l st) = link_view st"
  by (simp_all add: teardown_def upd_link_links)

lemma set_pending_views [simp]:
  "table_view (set_pending r b st) = table_view st" "link_view (set_pending r b st) = link_view st"
  by (simp_all add: set_pending_def upd_session_table upd_session_links ident_def)

lemma set_progress_table [simp]: "table_view (set_progress l b st) = table_view st"
  by (simp add: set_progress_def)

lemma release_link_views [simp]:
  "table_view (release_link w b s c st) = table_view st"
  "link_view (release_link w b s c st) = link_view st"
  by (auto simp: release_link_def send_command_exited_def Let_def split: option.split sum.split)

lemma session_message_views [simp]:
  "table_view (session_message r m st) = table_view st"
  "link_view (session_message r m st) = link_view st"
  by (auto simp: session_message_def split: message.split pyval.split)

lemma fold_view: "(\<And>x st. v (f x st) = v st) \<Longrightarrow> v (fold f xs st) = v st"
  by (induction xs arbitrary: st) simp_all

section \<open>The table of sessions\<close>

definition tracked :: "service \<Rightarrow> string \<Rightarrow> bytes list" where
  "tracked st ih = or_empty (sessions_by_identity st ih)"

definition table_inv :: "service \<Rightarrow> bool" where
  "table_inv st \<longleftrightarrow>
     distinct (map fst (sessions st)) \<and>
     (\<forall>(sid, r) \<in> set (sessions st).
        r < length (heap st) \<and> session_id (heap st ! r) = sid \<and> \<not> closed (heap st ! r) \<and>
        sid \<in> set (tracked st (source_identity (heap st ! r)))) \<and>
     (\<forall>ih. int (length (tracked st ih)) \<le> max 0 (max_sessions_per_identity (conf st))) \<and>
     int (length (sessions st)) \<le> max 0 (max_total_sessions (conf st))"

lemma table_inv_view: "table_view st = table_view st' \<Longrightarrow> table_inv st = table_inv st'"
proof -
  assume v: "table_view st = table_view st'"
  then have m: "map ident (heap st) = map ident (heap st')"
    and e: "conf st = conf st'" "sessions st = sessions st'"
      "sessions_by_identity st = sessions_by_identity st'"
    by (simp_all add: table_view_def)
  then have l: "length (heap st) = length (heap st')" by (metis length_map)
  have "ident (heap st ! r) = ident (heap st' ! r)" if "r < length (heap st')" for r
    using m l that by (metis nth_map)
  then show ?thesis
    unfolding table_inv_def tracked_def e l ident_def by fastforce
qed

lemma table_frame: "table_view st' = table_view st \<Longrightarrow> table_inv st \<Longrightarrow> table_inv st'"
  using table_inv_view by blast

lemma tracked_untrack:
  "tracked (untrack_session ih sid st) jh =
     (if jh = ih then remove1 sid (tracked st ih) else tracked st jh)"
  by (auto simp: tracked_def untrack_session_def or_empty_def Let_def split: option.split)

lemma untrack_rest [simp]:
  "heap (untrack_session ih sid st) = heap st" "sessions (untrack_session ih sid st) = sessions st"
  "conf (untrack_session ih sid st) = conf st" "links (untrack_session ih sid st) = links st"
  "verifications (untrack_session ih sid st) = verifications st"
  "trace (untrack_session ih sid st) = trace st"
  by (auto simp: untrack_session_def Let_def split: option.split)

text \<open>Closing, without the effects.\<close>

definition drop_session :: "bytes \<Rightarrow> nat \<Rightarrow> service \<Rightarrow> service" where
  "drop_session sid r st =
     untrack_session (source_identity (heap st ! r)) sid
       (upd_session r (\<lambda>s. s\<lparr>closed := True\<rparr>) (st\<lparr>sessions := AList.delete sid (sessions st)\<rparr>))"

lemma close_session_table:
  "table_view (close_session w env sid code st) =
     (case map_of (sessions st) sid of
        None \<Rightarrow> table_view st
      | Some r \<Rightarrow>
          if closed (heap st ! r) then table_view (st\<lparr>sessions := AList.delete sid (sessions st)\<rparr>)
          else table_view (drop_session sid r st))"
  by (auto simp: close_session_def Let_def drop_session_def upd_session_table ident_def
      split: option.split)

lemma drop_session_inv:
  assumes inv: "table_inv st" and r: "map_of (sessions st) sid = Some r"
  shows "table_inv (drop_session sid r st)"
proof -
  let ?ih = "source_identity (heap st ! r)"
  have mem: "(sid, r) \<in> set (sessions st)" using r by (rule map_of_SomeD)
  then have rl: "r < length (heap st)" and rid: "session_id (heap st ! r) = sid"
    using inv by (auto simp: table_inv_def)
  have others: "j < length (heap st) \<and> session_id (heap st ! j) = s \<and> \<not> closed (heap st ! j) \<and>
      s \<in> set (tracked st (source_identity (heap st ! j))) \<and> j \<noteq> r \<and> s \<noteq> sid"
    if "(s, j) \<in> set (AList.delete sid (sessions st))" for s j
    using that inv rid by (fastforce simp: set_alist_delete table_inv_def)
  have h: "heap (drop_session sid r st) = (heap st)[r := (heap st ! r)\<lparr>closed := True\<rparr>]"
    and s: "sessions (drop_session sid r st) = AList.delete sid (sessions st)"
    and c: "conf (drop_session sid r st) = conf st"
    by (simp_all add: drop_session_def upd_session_def)
  have t: "tracked (drop_session sid r st) jh =
      (if jh = ?ih then remove1 sid (tracked st ?ih) else tracked st jh)" for jh
    unfolding drop_session_def tracked_untrack by (simp add: tracked_def upd_session_def)
  have len: "length (tracked (drop_session sid r st) jh) \<le> length (tracked st jh)" for jh
    by (simp add: t length_remove1)
  have "length (AList.delete sid (sessions st)) \<le> length (sessions st)"
    by (rule length_delete_le)
  then have total: "int (length (AList.delete sid (sessions st))) \<le> max 0 (max_total_sessions (conf st))"
    using inv by (fastforce simp: table_inv_def)
  have per: "int (length (tracked (drop_session sid r st) jh)) \<le> max 0 (max_sessions_per_identity (conf st))" for jh
    using inv len [of jh] unfolding table_inv_def by (meson of_nat_mono order_trans)
  have dist: "distinct (map fst (AList.delete sid (sessions st)))"
    using inv by (simp add: table_inv_def distinct_delete)
  have entry: "j < length ((heap st)[r := (heap st ! r)\<lparr>closed := True\<rparr>]) \<and>
      session_id ((heap st)[r := (heap st ! r)\<lparr>closed := True\<rparr>] ! j) = sj \<and>
      \<not> closed ((heap st)[r := (heap st ! r)\<lparr>closed := True\<rparr>] ! j) \<and>
      sj \<in> set (tracked (drop_session sid r st)
                  (source_identity ((heap st)[r := (heap st ! r)\<lparr>closed := True\<rparr>] ! j)))"
    if "(sj, j) \<in> set (AList.delete sid (sessions st))" for sj j
    using others [OF that] by (auto simp: t nth_list_update intro: in_set_remove1 [THEN iffD2])
  show ?thesis
    unfolding table_inv_def h s c using dist total per entry by blast
qed

lemma close_session_inv [inv_intros]:
  assumes "table_inv st"
  shows "table_inv (close_session w env sid code st)"
proof (cases "map_of (sessions st) sid")
  case None
  then show ?thesis using assms table_frame by (fastforce simp: close_session_table)
next
  case (Some r)
  then have "\<not> closed (heap st ! r)"
    using assms map_of_SomeD [OF Some] by (auto simp: table_inv_def)
  with Some show ?thesis
    using drop_session_inv [OF assms Some] table_frame [of _ "drop_session sid r st"]
    by (simp add: close_session_table)
qed


lemma tracked_limits:
  "check_rate_limits now ih st = (None, st') \<Longrightarrow>
     int (length (tracked st' ih)) < max_sessions_per_identity (conf st') \<and>
     int (length (sessions st')) < max_total_sessions (conf st')"
  by (auto simp: check_rate_limits_def Let_def tracked_def or_empty_def split: if_splits)

lemma cleanup_rest [simp]:
  "table_view (cleanup_request_timestamps ih now st) = table_view st"
  "link_view (cleanup_request_timestamps ih now st) = link_view st"
  "trace (cleanup_request_timestamps ih now st) = trace st"
  "policy (cleanup_request_timestamps ih now st) = policy st"
  by (auto simp: cleanup_request_timestamps_def Let_def split: option.split)

text \<open>The stale references that a rate-limit check drops are those of closed sessions.\<close>

lemma filter_tracked_inv:
  assumes "table_inv st" and "\<And>s r. (s, r) \<in> set (sessions st) \<Longrightarrow> P s"
  shows "table_inv (st\<lparr>sessions_by_identity := (sessions_by_identity st)(ih \<mapsto> filter P (tracked st ih))\<rparr>)"
    (is "table_inv ?st")
proof -
  have t: "tracked ?st jh = (if jh = ih then filter P (tracked st ih) else tracked st jh)" for jh
    by (simp add: tracked_def or_empty_def)
  have "int (length (tracked ?st jh)) \<le> int (length (tracked st jh))" for jh
    by (simp add: t)
  then have "int (length (tracked ?st jh)) \<le> max 0 (max_sessions_per_identity (conf st))" for jh
    using assms(1) unfolding table_inv_def by (meson order_trans)
  with assms show ?thesis
    by (fastforce simp: table_inv_def t)
qed

lemma rate_limits_inv [inv_intros]:
  assumes "table_inv st"
  shows "table_inv (snd (check_rate_limits now ih st))"
proof -
  let ?st1 = "cleanup_request_timestamps ih now st"
  have i: "table_inv ?st1" by (rule table_frame [OF _ assms]) simp
  have "table_inv (?st1\<lparr>sessions_by_identity :=
      (sessions_by_identity ?st1)(ih \<mapsto> filter (\<lambda>s. s \<in> fst ` set (sessions ?st1)) (tracked ?st1 ih))\<rparr>)"
    by (rule filter_tracked_inv [OF i]) force
  then have "table_inv (?st1\<lparr>request_timestamps := ts, sessions_by_identity :=
      (sessions_by_identity ?st1)(ih \<mapsto> filter (\<lambda>s. s \<in> fst ` set (sessions ?st1)) (tracked ?st1 ih))\<rparr>)" for ts
    by (rule table_frame [rotated]) (simp add: table_view_def)
  with i show ?thesis
    by (simp add: check_rate_limits_def Let_def tracked_def)
qed

lemma add_session_inv:
  assumes inv: "table_inv st" and s: "session_id s = sid" "source_identity s = ih" "\<not> closed s"
    and room: "int (length (tracked st ih)) < max_sessions_per_identity (conf st)"
      "int (length (sessions st)) < max_total_sessions (conf st)"
  shows "table_inv (track_session ih sid
           (st\<lparr>heap := heap st @ [s], sessions := AList.update sid (length (heap st)) (sessions st)\<rparr>))"
    (is "table_inv ?st")
proof -
  have t: "tracked ?st jh = (if jh = ih then tracked st ih @ [sid] else tracked st jh)" for jh
    by (simp add: tracked_def track_session_def or_empty_def)
  have set: "set (sessions ?st) = {(sid, length (heap st))} \<union> {p \<in> set (sessions st). fst p \<noteq> sid}"
    using inv by (simp add: track_session_def set_alist_update table_inv_def)
  have heap: "heap ?st = heap st @ [s]" and conf: "conf ?st = conf st"
    by (simp_all add: track_session_def)
  have old: "r < length (heap st) \<and> session_id (heap st ! r) = k \<and> \<not> closed (heap st ! r) \<and>
      k \<in> set (tracked st (source_identity (heap st ! r)))" if "(k, r) \<in> set (sessions st)" for k r
    using inv that by (auto simp: table_inv_def)
  have "\<forall>(k, r) \<in> set (sessions ?st). r < length (heap ?st) \<and> session_id (heap ?st ! r) = k \<and>
      \<not> closed (heap ?st ! r) \<and> k \<in> set (tracked ?st (source_identity (heap ?st ! r)))"
    using s by (auto simp: set heap t nth_append dest!: old)
  moreover have "distinct (map fst (sessions ?st))"
    using inv by (simp add: track_session_def table_inv_def distinct_update)
  moreover have "int (length (tracked ?st jh)) \<le> max 0 (max_sessions_per_identity (conf ?st))" for jh
    using inv room(1) by (auto simp: t conf table_inv_def)
  moreover have "int (length (sessions ?st)) \<le> max 0 (max_total_sessions (conf ?st))"
    using length_alist_update [of sid "length (heap st)" "sessions st"] room(2)
    by (simp add: track_session_def)
  ultimately show ?thesis by (simp add: table_inv_def)
qed

text \<open>The two outcomes of creating a session.\<close>

definition new_session :: "rat \<Rightarrow> bytes \<Rightarrow> string \<Rightarrow> string \<Rightarrow> int \<Rightarrow> int \<Rightarrow> int \<Rightarrow> int \<Rightarrow> session" where
  "new_session now sid ih term a b master pid =
     \<lparr>session_id = sid, source_identity = ih, master_fd = master, child_pid = pid, link = None,
      channel = None, protocol_version = ''1.0'', term_type = term, rows = a, cols = b,
      created_at = now, last_activity = now, read_task = NoTask, closed = False,
      association_pending = False\<rparr>"

lemma emit_simps [simp]:
  "tracked (emit es st) ih = tracked st ih" "conf (emit es st) = conf st"
  "sessions (emit es st) = sessions st" "heap (emit es st) = heap st"
  "links (emit es st) = links st" "verifications (emit es st) = verifications st"
  "policy (emit es st) = policy st" "link_destination (emit es st) = link_destination st"
  "trace (emit es st) = trace st @ es" "emit [] st = st"
  by (simp_all add: tracked_def emit_def)

lemma create_session_cases:
  obtains (failed) e es where "create_session sp now sid ih term a b shell command argv st = (Inl e, emit es st)"
    "\<forall>x \<in> set es. (\<exists>slave. x = SetWinsize slave a b 0 0) \<or>
       (\<exists>pid. x = Exec pid term ih (fst (child_program shell command argv)) (snd (child_program shell command argv)))"
  | (made) master pid es where
    "create_session sp now sid ih term a b shell command argv st =
       (Inr (length (heap st)),
        track_session ih sid ((emit es st)\<lparr>
          heap := heap st @ [new_session now sid ih term a b master pid],
          sessions := AList.update sid (length (heap st)) (sessions st)\<rparr>))"
    "\<forall>x \<in> set es. (\<exists>slave. x = SetWinsize slave a b 0 0) \<or>
       (\<exists>pid. x = Exec pid term ih (fst (child_program shell command argv)) (snd (child_program shell command argv)))"
proof -
  let ?c = "create_session sp now sid ih term a b shell command argv st"
  let ?x = "\<lambda>pid. Exec pid term ih (fst (child_program shell command argv)) (snd (child_program shell command argv))"
  consider (pty) e where "openpty sp = Inl e" | (pair) m sl where "openpty sp = Inr (m, sl)"
    by (cases "openpty sp") auto
  then show ?thesis
  proof cases
    case pty
    then have "?c = (Inl e, emit [] st)" by (simp add: create_session_def)
    then show ?thesis by (rule failed) simp
  next
    case (pair m sl)
    consider (early) e where "?c = (Inl e, emit [SetWinsize sl a b 0 0] st)"
      | (late) e pid where "?c = (Inl e, emit [SetWinsize sl a b 0 0, ?x pid] st)"
      | (ok) pid where "winsize_error sp = None" "forked sp = Inr pid" "parent_error sp = None"
      using pair
      by (cases "winsize_error sp"; cases "forked sp"; cases "parent_error sp")
        (auto simp: create_session_def Let_def case_prod_beta)
    then show ?thesis
    proof cases
      case early
      then show ?thesis by (rule failed) simp
    next
      case late
      then show ?thesis by (rule failed) simp
    next
      case (ok pid)
      with pair have "?c = (Inr (length (heap st)),
        track_session ih sid ((emit [SetWinsize sl a b 0 0, ?x pid] st)\<lparr>
          heap := heap st @ [new_session now sid ih term a b m pid],
          sessions := AList.update sid (length (heap st)) (sessions st)\<rparr>))"
        by (simp add: create_session_def new_session_def Let_def case_prod_beta)
      then show ?thesis by (rule made) simp
    qed
  qed
qed

lemma open_session_state:
  "snd (open_session w sp now rnd ih sid d st) =
     snd (create_session sp now sid ih (shown (d_get_or d ''term_type'' (PStr ''xterm-256color'')))
              (case as_int (d_get_or d ''rows'' (PInt 24)) of Some i \<Rightarrow> i | None \<Rightarrow> 0)
              (case as_int (d_get_or d ''cols'' (PInt 80)) of Some i \<Rightarrow> i | None \<Rightarrow> 0)
              (d_get_or d ''shell'' (PStr (default_shell (conf st))))
              (d_get_or d ''command'' PNone) (list_items (d_get_or d ''args'' (PList []))) st)"
  by (auto simp: open_session_def Let_def split: prod.split sum.split option.split)

lemma open_session_inv:
  assumes "table_inv st"
    and "int (length (tracked st ih)) < max_sessions_per_identity (conf st)"
    and "int (length (sessions st)) < max_total_sessions (conf st)"
  shows "table_inv (snd (open_session w sp now rnd ih sid d st))"
proof -
  have e: "table_inv (emit es st)" for es
    by (rule table_frame [OF _ assms(1)]) simp
  have "table_inv (track_session ih sid ((emit es st)\<lparr>
          heap := heap st @ [new_session now sid ih tt a b master pid],
          sessions := AList.update sid (length (heap st)) (sessions st)\<rparr>))" for es tt a b master pid
    using add_session_inv [OF e, of "new_session now sid ih tt a b master pid" sid ih es] assms
    by (simp add: new_session_def)
  then have "table_inv (snd (create_session sp now sid ih tt a b shell command argv st))"
    for tt a b shell command argv
    using e by (cases rule: create_session_cases [of sp now sid ih tt a b shell command argv st]) auto
  then show ?thesis by (simp add: open_session_state)
qed


lemma process_request_inv:
  assumes "table_inv st"
  shows "table_inv (snd (process_terminal_request w sp now rnd ih rid p st))"
proof (cases "check_rate_limits now ih st")
  case (Pair limit st1)
  then have inv: "table_inv st1" using rate_limits_inv [OF assms, of now ih] by simp
  show ?thesis
  proof (cases limit)
    case None
    with Pair have "int (length (tracked st1 ih)) < max_sessions_per_identity (conf st1)"
      "int (length (sessions st1)) < max_total_sessions (conf st1)"
      using tracked_limits by blast+
    then have "table_inv (snd (open_session w sp now rnd ih sid d st1))" for sid d
      by (rule open_session_inv [OF inv])
    with inv assms Pair None show ?thesis
      by (auto simp: process_terminal_request_def Let_def split: pyval.split sum.split option.split)
  next
    case (Some reason)
    with inv assms Pair show ?thesis by (simp add: process_terminal_request_def Let_def)
  qed
qed

lemma answer_state: "table_view (snd (answer dest a)) = table_view (snd a)"
  "link_view (snd (answer dest a)) = link_view (snd a)"
  by (auto simp: answer_def split: prod.split sum.split)

lemma request_inv [inv_intros]:
  assumes "table_inv st"
  shows "table_inv (snd (handle_terminal_request w sp now rnd source env st))"
proof -
  have "table_inv (snd (answer dest (process_terminal_request w sp now rnd ih rid p st)))" for dest ih rid p
    by (rule table_frame [OF answer_state(1) process_request_inv [OF assms]])
  moreover have "table_inv (snd (answer dest (e, st)))" for dest e
    by (rule table_frame [OF _ assms]) (simp add: answer_state)
  ultimately show ?thesis
    using assms by (simp add: handle_terminal_request_def split: sum.split option.split)
qed

subsection \<open>Every step keeps the table\<close>

lemma fold_inv: "(\<And>x s. P s \<Longrightarrow> P (f x s)) \<Longrightarrow> P st \<Longrightarrow> P (fold f xs st)"
  by (induction xs arbitrary: st) simp_all

lemma start_views [simp]:
  "table_view (snd (start w dest st)) = table_view st" "link_view (snd (start w dest st)) = link_view st"
  by (auto simp: start_def Let_def table_view_def link_view_def split: option.split)

lemma stop_inv [inv_intros]: "table_inv st \<Longrightarrow> table_inv (stop w envs st)"
proof -
  assume "table_inv st"
  then have "table_inv (st\<lparr>idle_check_task := False\<rparr>)" by (rule table_frame [rotated]) simp
  then have "table_inv (fold (\<lambda>sid. close_session w (envs sid) sid (- 1)) xs (st\<lparr>idle_check_task := False\<rparr>))" for xs
    by (intro fold_inv [where P = table_inv] close_session_inv)
  then show ?thesis unfolding stop_def Let_def by (rule table_frame [rotated]) simp
qed

lemma close_expired_inv: "table_inv st \<Longrightarrow> table_inv (close_expired w envs rnd v st)"
  by (auto simp: close_expired_def Let_def close_session_inv split: prod.split sum.split
      intro!: table_frame [OF emit_views(1)])

lemma idle_inv [inv_intros]: "table_inv st \<Longrightarrow> table_inv (check_idle_sessions w envs rnd now st)"
  unfolding check_idle_sessions_def by (rule fold_inv [where P = table_inv]) (rule close_expired_inv)

lemma monitor_inv [inv_intros]: "table_inv st \<Longrightarrow> table_inv (monitor_child w env r res st)"
  by (auto simp: monitor_child_def Let_def close_session_inv split: wait_result.split)

lemma link_closed_inv [inv_intros]: "table_inv st \<Longrightarrow> table_inv (on_link_closed w env l st)"
  unfolding on_link_closed_def Let_def
  by (auto split: option.split intro!: close_session_inv intro: table_frame [rotated])

lemma on_link_packet_table [simp]: "table_view (on_link_packet w now l d st) = table_view st"
  by (auto simp: on_link_packet_def Let_def split: option.split sum.split)

lemma negotiate_views [simp]:
  "table_view (snd (negotiate l r v ok st)) = table_view st"
  "link_view (snd (negotiate l r v ok st)) = link_view st"
  by (auto simp: negotiate_def upd_session_table upd_session_links ident_def split: pyval.split)

lemma refuse_table [simp]: "table_view (refuse_association w l r st) = table_view st"
  by (simp add: refuse_association_def)

lemma associate_table [simp]: "table_view (associate w now l r ok st) = table_view st"
proof -
  have "table_view (fold (on_link_packet w now l) ps (upd_session r (\<lambda>s. s\<lparr>read_task := Running\<rparr>)
           (send_link_packet w l h s'))) = table_view s'" for ps h s'
    by (subst fold_view) (simp_all add: upd_session_table ident_def)
  then show ?thesis
    by (auto simp: associate_def Let_def case_prod_beta upd_session_table ident_def split: sum.split)
qed

lemma verify_table [simp]: "table_view (verify_and_associate w now l r seen ok st) = table_view st"
  by (auto simp: verify_and_associate_def Let_def split: option.split)

lemma send_chunks_views [simp]:
  "table_view (snd (send_chunks w l cs st)) = table_view st"
  "link_view (snd (send_chunks w l cs st)) = link_view st"
  by (induction cs arbitrary: st) (auto split: sum.split)

lemma pty_read_views [simp]:
  "table_view (pty_read_step w now r res ready st) = table_view st"
  "link_view (pty_read_step w now r res ready st) = link_view st"
  by (auto simp: pty_read_step_def Let_def case_prod_beta upd_session_table upd_session_links ident_def
      split: option.split read_result.split list.split)

lemma handler_views [simp]:
  "table_view (snd (handle_terminal_resize w now source env st)) = table_view st"
  "link_view (snd (handle_terminal_resize w now source env st)) = link_view st"
  "table_view (snd (handle_terminal_signal w now source env st)) = table_view st"
  "link_view (snd (handle_terminal_signal w now source env st)) = link_view st"
  by (auto simp: handle_terminal_resize_def handle_terminal_signal_def Let_def
      split: option.split sum.split pyval.split)

lemma close_handler_state:
  "snd (handle_terminal_close w cenv rnd source env st) = st \<or>
   (\<exists>sid. snd (handle_terminal_close w cenv rnd source env st) = close_session w cenv sid 0 st)"
  by (auto simp: handle_terminal_close_def Let_def split: option.split sum.split)

lemma channel_message_views [simp]:
  "table_view (on_channel_message now r m st) = table_view st"
  "link_view (on_channel_message now r m st) = link_view st"
  by (simp_all add: on_channel_message_def)

lemma established_table [simp]: "table_view (on_link_established l c mt md st) = table_view st"
  by (simp add: on_link_established_def table_view_def)

lemma policy_table [simp]: "table_view (set_rbac_policy p st) = table_view st"
  by (simp add: set_rbac_policy_def)

lemma table_inv_step:
  assumes "table_inv st" and "term_step w st st'"
  shows "table_inv st'"
  using assms(2,1)
proof cases
  case (ts_close cenv rnd source env)
  then show ?thesis
    using assms(1) close_handler_state [of w cenv rnd source env st] close_session_inv by metis
qed (simp_all add: stop_inv request_inv idle_inv monitor_inv link_closed_inv
      table_frame [OF _ assms(1)])

lemma table_inv_start: "term_start st \<Longrightarrow> table_inv st"
  by (auto simp: term_start_def TerminalService_def table_inv_def tracked_def or_empty_def)

interpretation term_table: invariant_system term_start "term_step w" table_inv for w
  by unfold_locales (auto intro: table_inv_start table_inv_step)


section \<open>Links and sessions\<close>

definition link_inv :: "service \<Rightarrow> bool" where
  "link_inv st \<longleftrightarrow>
     (\<forall>r < length (heap st). \<forall>l. link (heap st ! r) = Some l \<longrightarrow> terminal_session (links st l) = Some r) \<and>
     (\<forall>l r. terminal_session (links st l) = Some r \<longrightarrow> r < length (heap st) \<and> link (heap st ! r) = Some l) \<and>
     (\<forall>(l, r) \<in> set (verifications st).
        r < length (heap st) \<and> terminal_session (links st l) = None \<and> association_in_progress (links st l)) \<and>
     distinct (map fst (verifications st))"

lemma link_invD:
  assumes "link_inv st"
  shows "r < length (heap st) \<Longrightarrow> link (heap st ! r) = Some l \<Longrightarrow> terminal_session (links st l) = Some r"
    "terminal_session (links st l) = Some r \<Longrightarrow> r < length (heap st)"
    "terminal_session (links st l) = Some r \<Longrightarrow> link (heap st ! r) = Some l"
    "(l, r) \<in> set (verifications st) \<Longrightarrow> r < length (heap st)"
    "(l, r) \<in> set (verifications st) \<Longrightarrow> terminal_session (links st l) = None"
    "(l, r) \<in> set (verifications st) \<Longrightarrow> association_in_progress (links st l)"
    "distinct (map fst (verifications st))"
  using assms unfolding link_inv_def by blast+

lemma link_invI:
  assumes "\<And>r l. r < length (heap st) \<Longrightarrow> link (heap st ! r) = Some l \<Longrightarrow> terminal_session (links st l) = Some r"
    "\<And>r l. terminal_session (links st l) = Some r \<Longrightarrow> r < length (heap st) \<and> link (heap st ! r) = Some l"
    "\<And>r l. (l, r) \<in> set (verifications st) \<Longrightarrow> r < length (heap st) \<and> terminal_session (links st l) = None \<and>
        association_in_progress (links st l)"
    "distinct (map fst (verifications st))"
  shows "link_inv st"
  unfolding link_inv_def using assms by blast

lemma link_viewD:
  assumes "link_view st' = link_view st"
  shows "length (heap st') = length (heap st)" "verifications st' = verifications st"
    "terminal_session (links st' l) = terminal_session (links st l)"
    "association_in_progress (links st' l) = association_in_progress (links st l)"
    "r < length (heap st) \<Longrightarrow> link (heap st' ! r) = link (heap st ! r)"
proof -
  have m: "map link (heap st') = map link (heap st)"
    and f: "(\<lambda>l. (terminal_session (links st' l), association_in_progress (links st' l))) =
      (\<lambda>l. (terminal_session (links st l), association_in_progress (links st l)))"
    and v: "verifications st' = verifications st"
    using assms by (simp_all add: link_view_def)
  show "length (heap st') = length (heap st)" using m by (metis length_map)
  then show "r < length (heap st) \<Longrightarrow> link (heap st' ! r) = link (heap st ! r)"
    using m by (metis nth_map)
  show "verifications st' = verifications st" by (rule v)
  show "terminal_session (links st' l) = terminal_session (links st l)"
    "association_in_progress (links st' l) = association_in_progress (links st l)"
    using fun_cong [OF f, of l] by simp_all
qed

lemma link_frame:
  assumes v: "link_view st' = link_view st" and i: "link_inv st"
  shows "link_inv st'"
proof (rule link_invI; simp only: link_viewD(1-4) [OF v])
  fix r l
  assume "r < length (heap st)" "link (heap st' ! r) = Some l"
  then show "terminal_session (links st l) = Some r"
    using link_invD(1) [OF i] link_viewD(5) [OF v] by metis
next
  fix r l
  assume "terminal_session (links st l) = Some r"
  then show "r < length (heap st) \<and> link (heap st' ! r) = Some l"
    using link_invD(2,3) [OF i] link_viewD(5) [OF v] by metis
qed (use link_invD [OF i] in blast)+

lemma untrack_links [simp]: "link_view (untrack_session ih sid st) = link_view st"
  by (simp add: link_view_def)

lemma close_session_links [simp]: "link_view (close_session w env sid code st) = link_view st"
  by (auto simp: close_session_def Let_def upd_session_links split: option.split)

lemma stop_links [simp]: "link_view (stop w envs st) = link_view st"
proof -
  have "link_view (fold (\<lambda>sid. close_session w (envs sid) sid (- 1)) xs st) = link_view st" for xs st
    by (rule fold_view) simp
  then show ?thesis by (simp add: stop_def Let_def)
qed

lemma idle_links [simp]: "link_view (check_idle_sessions w envs rnd now st) = link_view st"
  unfolding check_idle_sessions_def
  by (rule fold_view) (auto simp: close_expired_def Let_def split: prod.split sum.split)

lemma monitor_links [simp]: "link_view (monitor_child w env r res st) = link_view st"
  by (auto simp: monitor_child_def Let_def split: wait_result.split)

lemma link_closed_links [simp]: "link_view (on_link_closed w env l st) = link_view st"
  by (auto simp: on_link_closed_def Let_def upd_link_links split: option.split)

lemma policy_links [simp]: "link_view (set_rbac_policy p st) = link_view st"
  by (simp add: set_rbac_policy_def)

lemma close_handler_links [simp]: "link_view (snd (handle_terminal_close w cenv rnd source env st)) = link_view st"
  using close_handler_state [of w cenv rnd source env st] by auto

subsection \<open>Requests add an unlinked session\<close>

lemma link_inv_append:
  assumes i: "link_inv st" and n: "link s = None"
    and e: "heap st' = heap st @ [s]" "links st' = links st" "verifications st' = verifications st"
  shows "link_inv st'"
proof (rule link_invI)
  fix r l
  assume "r < length (heap st')" "link (heap st' ! r) = Some l"
  then have "r < length (heap st)" "link (heap st ! r) = Some l"
    using n by (auto simp: e nth_append less_Suc_eq split: if_splits)
  then show "terminal_session (links st' l) = Some r" unfolding e by (rule link_invD(1) [OF i])
next
  fix r l
  assume "terminal_session (links st' l) = Some r"
  then show "r < length (heap st') \<and> link (heap st' ! r) = Some l"
    using link_invD(2,3) [OF i] by (simp add: e nth_append less_SucI)
next
  fix r l
  assume "(l, r) \<in> set (verifications st')"
  then show "r < length (heap st') \<and> terminal_session (links st' l) = None \<and> association_in_progress (links st' l)"
    using link_invD(4-6) [OF i] by (simp add: e less_SucI)
qed (simp add: e link_invD(7) [OF i])

definition grows :: "service \<Rightarrow> service \<Rightarrow> bool" where
  "grows st st' \<longleftrightarrow> link_view st' = link_view st \<or>
     (\<exists>s. link s = None \<and> heap st' = heap st @ [s] \<and> links st' = links st \<and> verifications st' = verifications st)"

lemma rate_limits_rest [simp]:
  "heap (snd (check_rate_limits now ih st)) = heap st" "links (snd (check_rate_limits now ih st)) = links st"
  "verifications (snd (check_rate_limits now ih st)) = verifications st"
  "trace (snd (check_rate_limits now ih st)) = trace st"
  "conf (snd (check_rate_limits now ih st)) = conf st"
  "sessions (snd (check_rate_limits now ih st)) = sessions st"
  "policy (snd (check_rate_limits now ih st)) = policy st"
  by (auto simp: check_rate_limits_def cleanup_request_timestamps_def Let_def split: option.split)

lemma open_session_grows: "grows st (snd (open_session w sp now rnd ih sid d st))"
proof -
  have "grows st (snd (create_session sp now sid ih tt a b shell command argv st))"
    for tt a b shell command argv
    by (cases rule: create_session_cases [of sp now sid ih tt a b shell command argv st])
      (auto simp: grows_def track_session_def new_session_def)
  then show ?thesis by (simp add: open_session_state)
qed

lemma process_request_grows: "grows st (snd (process_terminal_request w sp now rnd ih rid p st))"
proof (cases "check_rate_limits now ih st")
  case (Pair limit st1)
  have same: "heap st1 = heap st" "links st1 = links st" "verifications st1 = verifications st"
    using rate_limits_rest [of now ih st] Pair by simp_all
  then have lv: "link_view st1 = link_view st" by (simp add: link_view_def)
  have "grows st (snd (open_session w sp now rnd ih sid d st1))" for sid d
    using open_session_grows [of st1 w sp now rnd ih sid d] same lv by (simp add: grows_def)
  moreover have "grows st st1" "grows st st" using lv by (simp_all add: grows_def)
  ultimately show ?thesis
    using Pair by (auto simp: process_terminal_request_def Let_def split: option.split pyval.split sum.split)
qed

lemma grows_emit: "grows st st' \<Longrightarrow> grows st (emit es st')"
  by (auto simp: grows_def)

lemma request_grows: "grows st (snd (handle_terminal_request w sp now rnd source env st))"
proof -
  have "grows st (snd (answer dest a))" if "grows st (snd a)" for dest a
    using that by (auto simp: answer_def grows_emit split: prod.splits sum.splits)
  moreover have "grows st st" by (simp add: grows_def)
  ultimately show ?thesis
    by (auto simp: handle_terminal_request_def process_request_grows split: sum.split option.split)
qed

lemma grows_inv: "grows st st' \<Longrightarrow> link_inv st \<Longrightarrow> link_inv st'"
  unfolding grows_def using link_frame link_inv_append by blast

subsection \<open>Packets and association\<close>

lemma set_progress_rest [simp]:
  "heap (set_progress l b st) = heap st" "verifications (set_progress l b st) = verifications st"
  "terminal_session (links (set_progress l b st) k) = terminal_session (links st k)"
  "association_in_progress (links (set_progress l b st) k) =
     (if k = l then b else association_in_progress (links st k))"
  by (simp_all add: set_progress_def upd_link_def)

lemma set_progress_inv:
  assumes i: "link_inv st" and b: "b \<or> l \<notin> fst ` set (verifications st)"
  shows "link_inv (set_progress l b st)"
proof (rule link_invI; simp only: set_progress_rest)
  fix k r
  assume v: "(k, r) \<in> set (verifications st)"
  then have "k = l \<Longrightarrow> b" using b by force
  with v show "r < length (heap st) \<and> terminal_session (links st k) = None \<and>
      (if k = l then b else association_in_progress (links st k))"
    using link_invD(4-6) [OF i] by auto
qed (use link_invD [OF i] in blast)+

lemma refuse_inv:
  assumes "link_inv st" and "l \<notin> fst ` set (verifications st)"
  shows "link_inv (refuse_association w l r st)"
proof -
  have p: "link_inv (set_pending r False st)" by (rule link_frame [OF _ assms(1)]) simp
  have v: "verifications (set_pending r False st) = verifications st"
    by (simp add: set_pending_def upd_session_def)
  have "link_inv (set_progress l False (set_pending r False st))"
    by (rule set_progress_inv [OF p]) (simp add: v assms)
  then show ?thesis
    unfolding refuse_association_def by (rule link_frame [rotated]) simp
qed

lemma link_inv_schedule:
  assumes i: "link_inv st" and "r < length (heap st)" "terminal_session (links st l) = None"
    "association_in_progress (links st l)" "l \<notin> fst ` set (verifications st)"
  shows "link_inv (st\<lparr>verifications := verifications st @ [(l, r)]\<rparr>)" (is "link_inv ?st")
proof (rule link_invI)
  fix r' l'
  assume "(l', r') \<in> set (verifications ?st)"
  then have "(l', r') \<in> set (verifications st) \<or> l' = l \<and> r' = r" by auto
  then show "r' < length (heap ?st) \<and> terminal_session (links ?st l') = None \<and> association_in_progress (links ?st l')"
    using link_invD(4-6) [OF i] assms(2-4) by auto
next
  fix r' l'
  assume "r' < length (heap ?st)" "link (heap ?st ! r') = Some l'"
  then show "terminal_session (links ?st l') = Some r'" using link_invD(1) [OF i] by simp
next
  fix r' l'
  assume "terminal_session (links ?st l') = Some r'"
  then show "r' < length (heap ?st) \<and> link (heap ?st ! r') = Some l'" using link_invD(2,3) [OF i] by simp
next
  show "distinct (map fst (verifications ?st))" using link_invD(7) [OF i] assms(5) by simp
qed

lemma associated_packet_links:
  "terminal_session (links st l) = Some r \<Longrightarrow> link_view (on_link_packet w now l d st) = link_view st"
  by (auto simp: on_link_packet_def Let_def split: sum.split)

lemma packet_inv:
  assumes "link_inv st" and "table_inv st"
  shows "link_inv (on_link_packet w now l d st)"
proof (cases "terminal_session (links st l)")
  case (Some r)
  then show ?thesis by (rule link_frame [OF associated_packet_links assms(1)])
next
  case None
  show ?thesis
  proof (cases "association_in_progress (links st l)")
    case True
    have "link_inv (upd_link l (\<lambda>k. k\<lparr>pending_packets := pending_packets k @ [d]\<rparr>) st)"
      by (rule link_frame [OF _ assms(1)]) (simp add: upd_link_links)
    with None True assms(1) show ?thesis by (simp add: on_link_packet_def)
  next
    case False
    let ?st1 = "set_progress l True st"
    have fresh: "l \<notin> fst ` set (verifications st)"
      using link_invD(6) [OF assms(1)] False by force
    have i1: "link_inv ?st1" using assms(1) by (simp add: set_progress_inv)
    have td: "link_inv (teardown w l s)" if "link_inv s" for s
      by (rule link_frame [OF _ that]) simp
    have i0: "link_inv (set_progress l False ?st1)"
      by (rule set_progress_inv [OF i1]) (simp add: fresh)
    have ip: "link_inv (set_pending r b ?st1)" for r b by (rule link_frame [OF _ i1]) simp
    have vp: "verifications (set_pending r b s) = verifications s" for r b s
      by (simp add: set_pending_def upd_session_def)
    have ipp: "link_inv (set_progress l False (set_pending r False (set_pending r True ?st1)))" for r
      by (rule set_progress_inv [OF link_frame [OF _ ip]]) (simp_all add: vp fresh)
    have add: "link_inv (set_pending r True ?st1\<lparr>verifications := verifications (set_pending r True ?st1) @ [(l, r)]\<rparr>)"
      if "map_of (sessions st) (take 16 d) = Some r" for r
    proof -
      have "r < length (heap st)" using map_of_SomeD [OF that] assms(2) by (auto simp: table_inv_def)
      moreover have "length (heap (set_pending r True ?st1)) = length (heap st)"
        by (simp add: set_pending_def upd_session_def)
      moreover have "links (set_pending r True ?st1) = links ?st1"
        by (simp add: set_pending_def upd_session_def)
      ultimately show ?thesis
        using None fresh by (intro link_inv_schedule [OF ip]) (auto simp: vp)
    qed
    have "sessions ?st1 = sessions st" by (simp add: set_progress_def upd_link_def)
    then show ?thesis
      using None False i1 i0 ipp add
      by (auto simp: on_link_packet_def Let_def td split: option.split)
  qed
qed

lemma fold_packet_links:
  "terminal_session (links st l) = Some r \<Longrightarrow> link_view (fold (on_link_packet w now l) ps st) = link_view st"
proof (induction ps arbitrary: st)
  case (Cons p ps)
  have "link_view (on_link_packet w now l p st) = link_view st"
    using Cons.prems by (rule associated_packet_links)
  moreover from this have "terminal_session (links (on_link_packet w now l p st) l) = Some r"
    using Cons.prems link_viewD(3) by metis
  ultimately show ?case using Cons.IH by simp
qed simp

text \<open>The link and the session after an association.\<close>

definition joined :: "nat \<Rightarrow> nat \<Rightarrow> service \<Rightarrow> service" where
  "joined l r st =
     upd_session r (\<lambda>s. s\<lparr>link := Some l\<rparr>) (upd_link l (\<lambda>k. k\<lparr>terminal_session := Some r\<rparr>) st)"

lemma joined_rest [simp]:
  "length (heap (joined l r st)) = length (heap st)"
  "verifications (joined l r st) = verifications st"
  "terminal_session (links (joined l r st) k) = (if k = l then Some r else terminal_session (links st k))"
  "association_in_progress (links (joined l r st) k) = association_in_progress (links st k)"
  by (simp_all add: joined_def upd_session_def upd_link_def)

lemma joined_link:
  "r < length (heap st) \<Longrightarrow> q < length (heap st) \<Longrightarrow>
     link (heap (joined l r st) ! q) = (if q = r then Some l else link (heap st ! q))"
  by (simp add: joined_def upd_session_def upd_link_def nth_list_update)

lemma joined_inv:
  assumes i: "link_inv st" and r: "r < length (heap st)" "link (heap st ! r) = None"
    and l: "terminal_session (links st l) = None" "l \<notin> fst ` set (verifications st)"
  shows "link_inv (joined l r st)"
proof (rule link_invI; (simp only: joined_rest)?)
  fix q k
  assume "q < length (heap st)" "link (heap (joined l r st) ! q) = Some k"
  then show "(if k = l then Some r else terminal_session (links st k)) = Some q"
    using link_invD(1) [OF i, of q k] r l by (auto simp: joined_link split: if_splits)
next
  fix q k
  assume "(if k = l then Some r else terminal_session (links st k)) = Some q"
  then show "q < length (heap st) \<and> link (heap (joined l r st) ! q) = Some k"
    using link_invD(2,3) [OF i, where l = k and r = q] r by (auto simp: joined_link split: if_splits)
next
  fix q k
  assume v: "(k, q) \<in> set (verifications st)"
  then have "k \<noteq> l" using l(2) by force
  with v show "q < length (heap st) \<and> (if k = l then Some r else terminal_session (links st k)) = None \<and>
      association_in_progress (links st k)"
    using link_invD(4-6) [OF i] by auto
qed (rule link_invD(7) [OF i])

lemma associate_links:
  "\<exists>s. link_view s = link_view (joined l r st) \<and>
       link_view (associate w now l r ok st) = link_view (set_progress l False s)"
proof -
  define st1 where "st1 = update_activity now r (joined l r st)"
  define v where "v = scan_pending (pack_lib w) (pending_packets (links st1 l)) (PStr ''1.0'')"
  define st2 where "st2 = upd_link l (\<lambda>k. k\<lparr>pending_packets := []\<rparr>) st1"
  define n where "n = negotiate l r (fst v) ok st2"
  have lv: "link_view (snd n) = link_view (joined l r st)"
    by (simp add: n_def st2_def st1_def upd_link_links)
  have a: "associate w now l r ok st =
    (case bind_res (fst n) (\<lambda>v. serialize_message (pack_lib w) (VersionInfo (PStr v) (PStr ''styrened''))) of
        Inl _ \<Rightarrow> refuse_association w l r (snd n)
      | Inr hello \<Rightarrow>
          set_progress l False (set_pending r False
            (fold (on_link_packet w now l) (snd v)
              (upd_session r (\<lambda>s. s\<lparr>read_task := Running\<rparr>) (send_link_packet w l hello (snd n))))))"
    unfolding associate_def Let_def case_prod_beta n_def v_def st2_def st1_def joined_def by (rule refl)
  have prog: "link_view (set_progress l b s) = link_view (set_progress l b t)"
    if "link_view s = link_view t" for b s t
    using that by (simp add: link_view_def fun_eq_iff)
  show ?thesis
  proof (cases "bind_res (fst n) (\<lambda>v. serialize_message (pack_lib w) (VersionInfo (PStr v) (PStr ''styrened'')))")
    case (Inl e)
    have "link_view (associate w now l r ok st) = link_view (set_progress l False (set_pending r False (snd n)))"
      by (simp add: a Inl refuse_association_def)
    moreover have "link_view (set_pending r False (snd n)) = link_view (joined l r st)" using lv by simp
    ultimately show ?thesis by blast
  next
    case (Inr hello)
    let ?s = "upd_session r (\<lambda>s. s\<lparr>read_task := Running\<rparr>) (send_link_packet w l hello (snd n))"
    have s: "link_view ?s = link_view (joined l r st)" using lv by (simp add: upd_session_links)
    then have "terminal_session (links ?s l) = Some r" using link_viewD(3) [OF s, of l] by simp
    then have "link_view (set_pending r False (fold (on_link_packet w now l) (snd v) ?s)) = link_view (joined l r st)"
      using s by (simp add: fold_packet_links)
    moreover have "associate w now l r ok st =
        set_progress l False (set_pending r False (fold (on_link_packet w now l) (snd v) ?s))"
      by (simp add: a Inr)
    ultimately show ?thesis by metis
  qed
qed

text \<open>
  The outcomes of a verification: refused, with every session's link as before; or the link
  is joined to a session that had none and whose owner was seen at the other end.
\<close>

lemma verification_outcome:
  fixes st l r
  defines "st0 \<equiv> st\<lparr>verifications := remove1 (l, r) (verifications st)\<rparr>"
  obtains (refused) "verify_and_associate w now l r seen ok st = refuse_association w l r st0"
  | (joined) "first_identity (take IDENTITY_VERIFICATION_RETRIES seen) = Some (source_identity (heap st ! r))"
      "link (heap st ! r) = None" "verify_and_associate w now l r seen ok st = associate w now l r ok st0"
proof (cases "first_identity (take IDENTITY_VERIFICATION_RETRIES seen)")
  case None
  then show ?thesis by (intro refused) (simp add: verify_and_associate_def Let_def st0_def)
next
  case (Some h)
  show ?thesis
  proof (cases "h = source_identity (heap st ! r) \<and> link (heap st ! r) = None")
    case True
    with Some show ?thesis by (intro joined) (simp_all add: verify_and_associate_def Let_def st0_def)
  next
    case False
    with Some show ?thesis
      by (intro refused) (auto simp: verify_and_associate_def Let_def st0_def)
  qed
qed

lemma unscheduled_inv:
  assumes i: "link_inv st" and m: "(l, r) \<in> set (verifications st)"
  shows "link_inv (st\<lparr>verifications := remove1 (l, r) (verifications st)\<rparr>)"
    "l \<notin> fst ` set (remove1 (l, r) (verifications st))"
proof -
  have d: "distinct (map fst (verifications st))" by (rule link_invD(7) [OF i])
  then have dv: "distinct (verifications st)" by (simp add: distinct_map)
  have "q = r" if "(l, q) \<in> set (verifications st)" for q
    using d that m by (simp add: eq_key_imp_eq_value)
  then show "l \<notin> fst ` set (remove1 (l, r) (verifications st))"
    using dv by (auto simp: set_remove1_eq)
  show "link_inv (st\<lparr>verifications := remove1 (l, r) (verifications st)\<rparr>)" (is "link_inv ?st")
  proof (rule link_invI)
    fix q k
    assume "q < length (heap ?st)" "link (heap ?st ! q) = Some k"
    then show "terminal_session (links ?st k) = Some q" using link_invD(1) [OF i] by simp
  next
    fix q k
    assume "terminal_session (links ?st k) = Some q"
    then show "q < length (heap ?st) \<and> link (heap ?st ! q) = Some k" using link_invD(2,3) [OF i] by simp
  next
    fix q k
    assume "(k, q) \<in> set (verifications ?st)"
    then have "(k, q) \<in> set (verifications st)" by (simp add: set_remove1_eq [OF dv])
    then show "q < length (heap ?st) \<and> terminal_session (links ?st k) = None \<and> association_in_progress (links ?st k)"
      using link_invD(4-6) [OF i] by simp
  next
    show "distinct (map fst (verifications ?st))"
      using d by (simp add: distinct_map inj_on_def set_remove1_eq [OF dv] distinct_remove1)
  qed
qed

lemma verify_inv:
  assumes i: "link_inv st" and m: "(l, r) \<in> set (verifications st)"
  shows "link_inv (verify_and_associate w now l r seen ok st)"
proof -
  let ?st = "st\<lparr>verifications := remove1 (l, r) (verifications st)\<rparr>"
  note u = unscheduled_inv [OF i m]
  show ?thesis
  proof (cases rule: verification_outcome [of w now l r seen ok st])
    case refused
    have "link_inv (refuse_association w l r ?st)" by (rule refuse_inv [OF u(1)]) (simp add: u(2))
    then show ?thesis by (simp only: refused)
  next
    case joined
    have "link_inv (joined l r ?st)"
      by (rule joined_inv [OF u(1)]) (use link_invD(4,5) [OF i m] joined(2) u(2) in simp_all)
    moreover obtain s where s: "link_view s = link_view (joined l r ?st)"
      "link_view (associate w now l r ok ?st) = link_view (set_progress l False s)"
      using associate_links by blast
    ultimately have si: "link_inv s" using link_frame by blast
    have "verifications s = remove1 (l, r) (verifications st)" using link_viewD(2) [OF s(1)] by simp
    then have "link_inv (set_progress l False s)" by (intro set_progress_inv [OF si]) (simp add: u(2))
    then show ?thesis unfolding joined(3) by (rule link_frame [OF s(2)])
  qed
qed

lemma established_inv:
  assumes i: "link_inv st" and n: "new_link st l"
  shows "link_inv (on_link_established l c mt md st)" (is "link_inv ?st")
proof (rule link_invI)
  fix r k
  assume "r < length (heap ?st)" "link (heap ?st ! r) = Some k"
  then have t: "terminal_session (links st k) = Some r"
    using link_invD(1) [OF i] by (simp add: on_link_established_def)
  then have "k \<noteq> l" using n by (auto simp: new_link_def)
  with t show "terminal_session (links ?st k) = Some r" by (simp add: on_link_established_def)
next
  fix r k
  assume "terminal_session (links ?st k) = Some r"
  then have "terminal_session (links st k) = Some r" by (simp add: on_link_established_def split: if_splits)
  then show "r < length (heap ?st) \<and> link (heap ?st ! r) = Some k"
    using link_invD(2,3) [OF i] by (simp add: on_link_established_def)
next
  fix r k
  assume v: "(k, r) \<in> set (verifications ?st)"
  then have "k \<noteq> l" using n by (force simp: new_link_def on_link_established_def)
  with v show "r < length (heap ?st) \<and> terminal_session (links ?st k) = None \<and> association_in_progress (links ?st k)"
    using link_invD(4-6) [OF i] by (simp add: on_link_established_def)
qed (use link_invD(7) [OF i] in \<open>simp add: on_link_established_def\<close>)

subsection \<open>Every step keeps the links\<close>

definition term_inv :: "service \<Rightarrow> bool" where
  "term_inv st \<longleftrightarrow> table_inv st \<and> link_inv st"

lemma link_inv_step:
  assumes t: "table_inv st" and i: "link_inv st" and s: "term_step w st st'"
  shows "link_inv st'"
  using s
proof cases
  case (ts_request sp now rnd source env)
  then show ?thesis using grows_inv [OF request_grows i] by simp
next
  case (ts_packet now l data)
  then show ?thesis using packet_inv [OF i t] by simp
next
  case (ts_verify l r now seen ok)
  then show ?thesis using verify_inv [OF i] by simp
next
  case (ts_link l c mt md)
  then show ?thesis using established_inv [OF i] by simp
next
  case (ts_status l c)
  then show ?thesis using link_frame [OF _ i] by (simp add: upd_link_links)
qed (simp_all add: link_frame [OF _ i])

lemma link_inv_start: "term_start st \<Longrightarrow> link_inv st"
  by (auto simp: term_start_def TerminalService_def intro!: link_invI)

interpretation term_sys: invariant_system term_start "term_step w" term_inv for w
proof unfold_locales
  show "term_inv s" if "term_start s" for s
    using that by (simp add: term_inv_def table_inv_start link_inv_start)
  show "term_inv t" if "term_inv s" "term_step w s t" for s t
    using that table_inv_step link_inv_step by (auto simp: term_inv_def)
qed

end
