(* ===== verification/Term_Properties.thy ===== *)
theory Term_Properties
  imports Term_Safety
begin

text \<open>
  What the terminal service guarantees, and where it falls short of what it means to do.
\<close>

section \<open>Window sizes\<close>

fun size_ok :: "effect \<Rightarrow> bool" where
  "size_ok (SetWinsize _ a b x y) \<longleftrightarrow>
     valid_dim a \<and> valid_dim b \<and> 0 \<le> x \<and> x \<le> 65535 \<and> 0 \<le> y \<and> y \<le> 65535"
| "size_ok _ = True"

definition size_inv :: "service \<Rightarrow> bool" where
  "size_inv st \<longleftrightarrow>
     list_all size_ok (trace st) \<and> list_all (\<lambda>s. valid_dim (rows s) \<and> valid_dim (cols s)) (heap st)"

lemma size_emit [simp]: "size_inv (emit es st) \<longleftrightarrow> list_all size_ok es \<and> size_inv st"
  by (auto simp: size_inv_def emit_def)

lemma size_upd_link [simp]: "size_inv (upd_link l f st) = size_inv st"
  by (simp add: size_inv_def upd_link_def)

lemma size_upd_session:
  "size_inv st \<Longrightarrow> (\<And>s. valid_dim (rows s) \<and> valid_dim (cols s) \<Longrightarrow> valid_dim (rows (f s)) \<and> valid_dim (cols (f s)))
     \<Longrightarrow> size_inv (upd_session r f st)"
  by (cases "r < length (heap st)")
    (auto simp: size_inv_def upd_session_def list_all_length nth_list_update)

lemma size_records [simp]:
  "size_inv (st\<lparr>verifications := vs\<rparr>) = size_inv st"
  "size_inv (st\<lparr>registered := b\<rparr>) = size_inv st"
  "size_inv (st\<lparr>idle_check_task := b\<rparr>) = size_inv st"
  "size_inv (st\<lparr>event_loop := b\<rparr>) = size_inv st"
  "size_inv (st\<lparr>link_destination := d\<rparr>) = size_inv st"
  "size_inv (st\<lparr>policy := p\<rparr>) = size_inv st"
  "size_inv (st\<lparr>request_timestamps := ts\<rparr>) = size_inv st"
  "size_inv (st\<lparr>sessions := ss\<rparr>) = size_inv st"
  "size_inv (st\<lparr>sessions_by_identity := m\<rparr>) = size_inv st"
  by (simp_all add: size_inv_def)

lemma pixels_range: "0 \<le> pixels v" "pixels v \<le> 65535"
  by (auto simp: pixels_def split: option.split)

lemma size_helpers [intro]:
  "size_inv st \<Longrightarrow> size_inv (update_activity now r st)"
  "size_inv st \<Longrightarrow> size_inv (set_pending r b st)"
  "size_inv st \<Longrightarrow> size_inv (set_progress l b st)"
  "size_inv st \<Longrightarrow> size_inv (send_link_packet w l d st)"
  "size_inv st \<Longrightarrow> size_inv (teardown w l st)"
  "size_inv st \<Longrightarrow> size_inv (untrack_session ih sid st)"
  by (auto simp: update_activity_def set_pending_def set_progress_def send_link_packet_def teardown_def
      size_upd_session) (simp add: size_inv_def)

lemma size_window [intro]: "size_inv st \<Longrightarrow> size_inv (set_window_size r a b x y st)"
  by (auto simp: set_window_size_def pixels_range size_upd_session split: option.split)

lemma size_message [intro]: "size_inv st \<Longrightarrow> size_inv (session_message r m st)"
  by (auto simp: session_message_def split: message.split pyval.split)

lemma size_packet [intro]: "size_inv st \<Longrightarrow> size_inv (on_link_packet w now l d st)"
  by (auto simp: on_link_packet_def Let_def intro!: size_helpers split: option.split sum.split)

lemma size_release [intro]: "size_inv st \<Longrightarrow> size_inv (release_link w b s c st)"
  by (auto simp: release_link_def send_command_exited_def Let_def split: option.split sum.split)

lemma size_close [intro]: "size_inv st \<Longrightarrow> size_inv (close_session w env sid code st)"
  by (auto simp: close_session_def Let_def kill_effects_def
      intro!: size_release size_helpers size_upd_session split: option.split term_outcome.split)

lemma size_fold: "size_inv st \<Longrightarrow> (\<And>x s. size_inv s \<Longrightarrow> size_inv (f x s)) \<Longrightarrow> size_inv (fold f xs st)"
  by (induction xs arbitrary: st) simp_all

lemma request_fault_dims:
  assumes "request_fault w st d = Inr None"
  obtains a b where "as_int (d_get_or d ''rows'' (PInt 24)) = Some a" "valid_dim a"
    "as_int (d_get_or d ''cols'' (PInt 80)) = Some b" "valid_dim b"
  using assms by (auto simp: request_fault_def Let_def split: option.splits if_splits)

lemma size_create:
  assumes "size_inv st" "valid_dim a" "valid_dim b"
  shows "size_inv (snd (create_session sp now sid ih tt a b shell command argv st))"
proof -
  have ok: "list_all size_ok es" if "\<forall>x \<in> set es. (\<exists>slave. x = SetWinsize slave a b 0 0) \<or>
       (\<exists>pid. x = Exec pid tt ih (fst (child_program shell command argv)) (snd (child_program shell command argv)))" for es
    using that assms by (auto simp: list_all_iff)
  show ?thesis
  proof (cases rule: create_session_cases [of sp now sid ih tt a b shell command argv st])
    case (failed e es)
    then show ?thesis using ok assms by simp
  next
    case (made master pid es)
    then have "list_all size_ok es" using ok by blast
    with made(1) assms show ?thesis
      by (simp add: size_inv_def track_session_def new_session_def)
  qed
qed

lemma size_process: "size_inv st \<Longrightarrow> size_inv (snd (process_terminal_request w sp now rnd ih rid p st))"
proof -
  assume i: "size_inv st"
  obtain limit st1 where c: "check_rate_limits now ih st = (limit, st1)" by fastforce
  have i1: "size_inv st1" using i rate_limits_rest [of now ih st] by (simp add: c size_inv_def)
  have "size_inv (snd (open_session w sp now rnd ih sid d st1))" if "request_fault w st1 d = Inr None" for sid d
    using that by (rule request_fault_dims) (simp add: open_session_state size_create [OF i1])
  with i i1 c show ?thesis
    by (auto simp: process_terminal_request_def Let_def split: option.split pyval.split sum.split)
qed

lemma size_answer: "size_inv (snd a) \<Longrightarrow> size_inv (snd (answer dest a))"
  by (auto simp: answer_def split: prod.split sum.split)

lemma size_request [intro]: "size_inv st \<Longrightarrow> size_inv (snd (handle_terminal_request w sp now rnd source env st))"
  by (auto simp: handle_terminal_request_def intro!: size_answer size_process split: sum.split option.split)

lemma size_idle [intro]: "size_inv st \<Longrightarrow> size_inv (check_idle_sessions w envs rnd now st)"
  unfolding check_idle_sessions_def
  by (erule size_fold) (auto simp: close_expired_def Let_def split: prod.split sum.split)

lemma size_stop [intro]: "size_inv st \<Longrightarrow> size_inv (stop w envs st)"
  by (auto simp: stop_def Let_def intro!: size_fold)

lemma size_associate [intro]:
  assumes i: "size_inv st"
  shows "size_inv (associate w now l r ok st)"
proof -
  have n: "size_inv (snd (negotiate l r v ok s))" if "size_inv s" for v s
    using that by (auto simp: negotiate_def intro: size_upd_session split: pyval.split)
  have a: "size_inv (update_activity now r (upd_session r (\<lambda>s. s\<lparr>link := Some l\<rparr>) (upd_link l f st)))" for f
    by (intro size_helpers size_upd_session) (use i in simp_all)
  show ?thesis
    by (auto simp: associate_def Let_def case_prod_beta refuse_association_def
      intro!: size_helpers size_fold size_packet size_upd_session n a split: sum.split)
qed

lemma size_send_chunks: "size_inv st \<Longrightarrow> size_inv (snd (send_chunks w l cs st))"
  by (induction cs arbitrary: st) (auto split: sum.split)

lemma size_read [intro]: "size_inv st \<Longrightarrow> size_inv (pty_read_step w now r res ready st)"
  by (auto simp: pty_read_step_def Let_def case_prod_beta list_all_iff
      intro!: size_upd_session size_send_chunks size_helpers split: option.split read_result.split list.split)

lemma size_established [simp]: "size_inv (on_link_established l c mt md st) = size_inv st"
  by (simp add: size_inv_def on_link_established_def)

lemma size_step:
  assumes i: "size_inv st" and s: "term_step w st st'"
  shows "size_inv st'"
  using s
proof cases
  case (ts_close cenv rnd source env)
  then show ?thesis using close_handler_state [of w cenv rnd source env st] i size_close by metis
next
  case (ts_verify l r now seen ok)
  have "size_inv (st\<lparr>verifications := vs\<rparr>)" for vs using i by simp
  then show ?thesis
    unfolding ts_verify(1)
    by (cases rule: verification_outcome [of w now l r seen ok st])
      (auto simp: refuse_association_def intro!: size_helpers size_associate)
qed (use i in \<open>auto simp: start_def set_rbac_policy_def handle_terminal_resize_def
      handle_terminal_signal_def monitor_child_def on_link_closed_def on_channel_message_def Let_def
      split: option.split sum.split pyval.split wait_result.split\<close>)


lemma size_start: "term_start st \<Longrightarrow> size_inv st"
  by (auto simp: term_start_def TerminalService_def size_inv_def)

interpretation term_sizes: invariant_system term_start "term_step w" size_inv for w
  by unfold_locales (auto intro: size_start size_step)

section \<open>A small deployment\<close>

text \<open>
  The concrete service on which the properties below are also evaluated: every identity is an
  operator, destination hashes resolve to themselves, and msgpack knows two payloads: an
  empty request, and keystrokes from the terminal.
\<close>

definition demo_keys :: bytes where "demo_keys = [108, 115, 10]"

definition demo_platform :: platform where
  "demo_platform =
     \<lparr>pack_lib = \<lparr>packb = (\<lambda>_. Inr [128]), unpackb_strict = (\<lambda>_. Inr (PDict [])),
        unpackb_text = (\<lambda>_. Inr (PDict [])),
        unpackb_raw = (\<lambda>_. Inr (PDict [(PBytes (str_bytes ''s''), PInt 0),
                                      (PBytes (str_bytes ''d''), PBytes demo_keys)]))\<rparr>,
      which = (\<lambda>_. None), LINK_ACTIVE = 2, LINK_CLOSED = 4,
      discovered = (\<lambda>d. Inr (Some d)), node_store = (\<lambda>d. Inr None), node_identity = Some ''ff''\<rparr>"

definition demo_link :: link_obj where
  "demo_link = \<lparr>status = 0, mtu = 500, mdu = 431, terminal_session = None,
                association_in_progress = False, pending_packets = []\<rparr>"

definition demo_start :: service where
  "demo_start = TerminalService DEFAULT_SHELL None DEFAULT_MAX_SESSIONS_PER_IDENTITY
     DEFAULT_MAX_TOTAL_SESSIONS DEFAULT_SESSION_REQUEST_RATE_LIMIT SESSION_IDLE_TIMEOUT None None False
     (Some (RBACPolicy OPERATOR [] [])) (\<lambda>_. demo_link)"

definition demo_spawn :: "int \<Rightarrow> int \<Rightarrow> spawn_env" where
  "demo_spawn fd pid = \<lparr>openpty = Inr (fd, fd + 1), winsize_error = None, forked = Inr pid, parent_error = None\<rparr>"

definition demo_env :: "byte \<Rightarrow> envelope" where
  "demo_env b = \<lparr>version = 2, mtype = TERMINAL_REQUEST, payload = [128], request_id = Some (replicate 16 b)\<rparr>"

definition demo_ready :: service where
  "demo_ready = snd (start demo_platform ''dest'' demo_start)"

text \<open>What happens when the service closes a session: the child goes at the first signal.\<close>

definition demo_ends :: "bytes \<Rightarrow> close_env" where
  "demo_ends sid = \<lparr>channel_ready = True, term_result = Reaped\<rparr>"

text \<open>Alice holds a session on descriptor 7; then her link is up and associated.\<close>

definition demo_alice :: service where
  "demo_alice = snd (handle_terminal_request demo_platform (demo_spawn 7 100) 0 [] ''aa'' (demo_env 1) demo_ready)"

definition demo_linked :: service where
  "demo_linked =
     verify_and_associate demo_platform 1 1 0 [None, Some ''aa''] True
       (on_link_packet demo_platform 1 1 (replicate 16 1) (on_link_established 1 2 500 431 demo_alice))"

lemmas demo_platform_simps = demo_platform_def demo_link_def demo_spawn_def demo_env_def

lemma demo_ready_eq:
  "demo_ready =
     demo_start\<lparr>event_loop := True, link_destination := Some ''dest'', idle_check_task := True, registered := True\<rparr>"
  by (simp add: demo_ready_def start_def demo_start_def TerminalService_def demo_platform_def)

lemma demo_authorized: "policy st = RBACPolicy OPERATOR [] [] \<Longrightarrow> is_authorized st ih"
  by (simp add: is_authorized_def has_capability_def resolve_role_def is_blocked_def RBACPolicy_def Let_def
      OPERATOR_CAPS_def)

text \<open>The definitions that evaluate a request.\<close>

lemmas request_defs = handle_terminal_request_def decode_payload_def MAX_PAYLOAD_SIZE_def
  resolve_identity_hash_def process_terminal_request_def check_rate_limits_def
  cleanup_request_timestamps_def request_fault_def validate_command_def open_session_def
  create_session_def child_program_def d_get_or_def Let_def or_empty_def valid_dim_def
  DEFAULT_SHELL_def DEFAULT_ALLOWED_SHELLS_def is_text_list_def resolve_path_def py_len_def
  utf8_cont_def track_session_def emit_def answer_def create_terminal_accept_def packed_def
  encode_payload_def StyreneEnvelope_def STYRENE_VERSION_def STYRENE_VERSION_1_def STYRENE_VERSION_2_def
  REQUEST_ID_LENGTH_def or_no_correlation_def shown_def list_items_def

lemmas demo_limits = DEFAULT_MAX_SESSIONS_PER_IDENTITY_def DEFAULT_MAX_TOTAL_SESSIONS_def
  DEFAULT_SESSION_REQUEST_RATE_LIMIT_def SESSION_IDLE_TIMEOUT_def

definition demo_session :: "byte \<Rightarrow> string \<Rightarrow> int \<Rightarrow> int \<Rightarrow> rat \<Rightarrow> session" where
  "demo_session b ih fd pid t =
     new_session t (replicate 16 b) ih ''xterm-256color'' 24 80 fd pid"

lemma demo_alice_eq:
  "demo_alice =
     demo_ready\<lparr>heap := [demo_session 1 ''aa'' 7 100 0], sessions := [(replicate 16 1, 0)],
       sessions_by_identity := [''aa'' \<mapsto> [replicate 16 1]], request_timestamps := [''aa'' \<mapsto> [0]],
       trace := [SetWinsize 8 24 80 0 0,
         Exec 100 ''xterm-256color'' ''aa'' (PStr ''/bin/bash'') [PStr ''/bin/bash'', PStr ''-l''],
         SendEnvelope ''aa'' \<lparr>version = 2, mtype = TERMINAL_ACCEPT, payload = [128],
           request_id = Some (replicate 16 1)\<rparr>]\<rparr>"
  by (simp add: demo_alice_def demo_ready_eq demo_start_def TerminalService_def demo_authorized
      demo_session_def new_session_def demo_platform_simps demo_limits request_defs)

lemma demo_linked_eq:
  "demo_linked =
     demo_alice\<lparr>heap := [(demo_session 1 ''aa'' 7 100 0)\<lparr>link := Some 1, last_activity := 1, read_task := Running\<rparr>],
       links := (links demo_alice)(1 := \<lparr>status = 2, mtu = 500, mdu = 431, terminal_session = Some 0,
                  association_in_progress = False, pending_packets = []\<rparr>),
       trace := trace demo_alice @ [SendPacket 1 [4, 128]]\<rparr>"
  by (simp add: demo_linked_def demo_alice_eq demo_ready_eq demo_start_def TerminalService_def
      on_link_established_def on_link_packet_def set_progress_def upd_link_def set_pending_def upd_session_def
      verify_and_associate_def IDENTITY_VERIFICATION_RETRIES_def associate_def update_activity_def negotiate_def
      serialize_message_def pack_def send_link_packet_def emit_def
      demo_session_def new_session_def demo_platform_simps demo_limits Let_def)

lemma term_reach:
  "term_start st \<Longrightarrow> reach term_start (term_step w) st"
  "reach term_start (term_step w) st \<Longrightarrow> term_step w st st' \<Longrightarrow> reach term_start (term_step w) st'"
  by (fact reach_start, fact reach_step)

lemma demo_start_start: "term_start demo_start"
  unfolding term_start_def
proof (intro exI conjI)
  show "demo_start = TerminalService DEFAULT_SHELL None DEFAULT_MAX_SESSIONS_PER_IDENTITY
     DEFAULT_MAX_TOTAL_SESSIONS DEFAULT_SESSION_REQUEST_RATE_LIMIT SESSION_IDLE_TIMEOUT None None False
     (Some (RBACPolicy OPERATOR [] [])) (\<lambda>_. demo_link)"
    by (rule demo_start_def)
qed (simp add: demo_link_def)

lemma demo_reach_ready: "reach term_start (term_step demo_platform) demo_ready"
  unfolding demo_ready_def by (rule term_reach(2) [OF term_reach(1) [OF demo_start_start] ts_start])

lemma demo_reach_alice: "reach term_start (term_step demo_platform) demo_alice"
  unfolding demo_alice_def by (rule term_reach(2) [OF demo_reach_ready ts_request])

lemma demo_reach_linked: "reach term_start (term_step demo_platform) demo_linked"
proof -
  let ?s1 = "on_link_established 1 2 500 431 demo_alice"
  let ?s2 = "on_link_packet demo_platform 1 1 (replicate 16 1) ?s1"
  have "new_link demo_alice 1"
    by (simp add: new_link_def demo_alice_eq demo_ready_eq demo_start_def TerminalService_def demo_link_def)
  then have "reach term_start (term_step demo_platform) ?s1"
    by (rule term_reach(2) [OF demo_reach_alice ts_link])
  then have s2: "reach term_start (term_step demo_platform) ?s2"
    by (rule term_reach(2) [OF _ ts_packet])
  have "(1, 0) \<in> set (verifications ?s2)"
    by (simp add: demo_alice_eq demo_ready_eq demo_start_def TerminalService_def
      on_link_established_def on_link_packet_def set_progress_def upd_link_def set_pending_def upd_session_def
      demo_session_def new_session_def demo_platform_simps Let_def)
  then show ?thesis
    unfolding demo_linked_def by (rule term_reach(2) [OF s2 ts_verify])
qed
lemma links_same:
  assumes v: "link_view st' = link_view st" and r: "r < length (heap st)"
  shows "r < length (heap st') \<and> link (heap st' ! r) = link (heap st ! r)"
  using r by (simp add: link_viewD [OF v])

text \<open>Packets and verifications, as far as the links of sessions go.\<close>

lemma packet_keeps_links:
  "length (heap (on_link_packet w now l d st)) = length (heap st) \<and>
   (r < length (heap st) \<longrightarrow> link (heap (on_link_packet w now l d st) ! r) = link (heap st ! r))"
proof (cases "terminal_session (links st l)")
  case (Some q)
  then have v: "link_view (on_link_packet w now l d st) = link_view st" by (rule associated_packet_links)
  show ?thesis by (simp add: link_viewD [OF v])
next
  case None
  have p: "length (heap (set_pending q b s)) = length (heap s)"
    "link (heap (set_pending q b s) ! r) = link (heap s ! r)" for q b s
    by (simp add: set_pending_def upd_session_def)
      (cases "q < length (heap s)"; simp add: set_pending_def upd_session_def nth_list_update not_less list_update_beyond)
  have t: "heap (teardown w l s) = heap s" "heap (upd_link l f s) = heap s" for s f
    by (simp_all add: teardown_def upd_link_def)
  from None show ?thesis
    by (auto simp: on_link_packet_def Let_def p t split: option.split)
qed

lemma verify_links:
  assumes i: "link_inv st" and m: "(l, q) \<in> set (verifications st)" and r: "r < length (heap st)"
    and st': "st' = verify_and_associate w now l q seen ok st"
  shows "r < length (heap st') \<and>
    (link (heap st' ! r) = link (heap st ! r) \<or>
     r = q \<and> link (heap st ! r) = None \<and> link (heap st' ! r) = Some l \<and>
     first_identity (take IDENTITY_VERIFICATION_RETRIES seen) = Some (source_identity (heap st ! r)))"
proof -
  let ?st = "st\<lparr>verifications := remove1 (l, q) (verifications st)\<rparr>"
  show ?thesis
  proof (cases rule: verification_outcome [of w now l q seen ok st])
    case refused
    have v: "link_view (set_pending q False ?st) = link_view ?st" by simp
    have "heap st' = heap (set_pending q False ?st)"
      by (simp add: st' refused refuse_association_def teardown_def upd_link_def set_progress_def)
    then show ?thesis using link_viewD(1,5) [OF v] r by simp
  next
    case joined
    obtain s where s: "link_view s = link_view (joined l q ?st)"
      "link_view st' = link_view (set_progress l False s)"
      using associate_links [of l q ?st w now ok] by (auto simp: st' joined)
    have q: "q < length (heap st)" by (rule link_invD(4) [OF i m])
    have len: "length (heap s) = length (heap st)" using link_viewD(1) [OF s(1)] by simp
    have "link (heap st' ! r) = link (heap (joined l q ?st) ! r)"
      using link_viewD(5) [OF s(2), of r] link_viewD(5) [OF s(1), of r] r len by simp
    also have "\<dots> = (if r = q then Some l else link (heap st ! r))"
      using joined_link [of q ?st r l] q r by simp
    finally show ?thesis using joined link_viewD(1) [OF s(2)] len r by auto
  qed
qed

section \<open>Properties\<close>

text \<open>
  Claim C7. In every reachable state the table holds at most the configured number of sessions,
  and no identity owns more of them than its own limit; the requests that pass
  \<^verbatim>\<open>_check_rate_limits\<close> are the only way in, and closing keeps the bookkeeping exact.
\<close>

theorem session_limits_hold:
  assumes "reach term_start (term_step w) st"
  shows "int (length (sessions st)) \<le> max 0 (max_total_sessions (conf st)) \<and>
         (\<forall>ih. int (length (filter (\<lambda>(sid, r). source_identity (heap st ! r) = ih) (sessions st)))
                 \<le> max 0 (max_sessions_per_identity (conf st)))"
proof (intro conjI allI)
  have inv: "table_inv st" by (rule term_table.reach_inv [OF assms])
  then show "int (length (sessions st)) \<le> max 0 (max_total_sessions (conf st))"
    by (simp add: table_inv_def)
  fix ih
  let ?mine = "filter (\<lambda>(sid, r). source_identity (heap st ! r) = ih) (sessions st)"
  have "distinct (map fst ?mine)" using inv by (simp add: table_inv_def distinct_map_filter)
  then have "length ?mine = card (set (map fst ?mine))"
    using distinct_card [of "map fst ?mine"] by (simp only: length_map)
  also have "\<dots> \<le> card (set (tracked st ih))"
    by (rule card_mono) (use inv in \<open>auto simp: table_inv_def\<close>)
  also have "\<dots> \<le> length (tracked st ih)" by (rule card_length)
  finally have "length ?mine \<le> length (tracked st ih)" .
  then show "int (length ?mine) \<le> max 0 (max_sessions_per_identity (conf st))"
    using inv unfolding table_inv_def by (meson of_nat_mono order_trans)
qed

theorem session_limits_hold_witness:
  "sessions demo_linked = [(replicate 16 1, 0)] \<and>
   int (length (sessions demo_linked)) \<le> max 0 (max_total_sessions (conf demo_linked))"
  using session_limits_hold [OF demo_reach_linked]
  by (simp add: demo_linked_eq demo_alice_eq)

text \<open>
  Claim C8. A session's link is never replaced, and it gets one only when the identity that RNS
  proved at the other end of the link is the session's owner. So knowing a session id is not
  enough to take a session over.
\<close>

theorem link_only_to_the_owner:
  assumes "reach term_start (term_step w) st" and "term_step w st st'" and "r < length (heap st)"
  shows "r < length (heap st') \<and>
    (link (heap st' ! r) = link (heap st ! r) \<or>
     link (heap st ! r) = None \<and>
     (\<exists>now l seen ok. st' = verify_and_associate w now l r seen ok st \<and>
        link (heap st' ! r) = Some l \<and>
        first_identity (take IDENTITY_VERIFICATION_RETRIES seen) = Some (source_identity (heap st ! r))))"
proof -
  have inv: "link_inv st" using term_sys.reach_inv [OF assms(1)] by (simp add: term_inv_def)
  show ?thesis using assms(2)
  proof cases
    case (ts_request sp now rnd source env)
    then show ?thesis
      using request_grows [of st w sp now rnd source env] assms(3)
      by (auto simp: grows_def nth_append dest: links_same)
  next
    case (ts_packet now l d)
    then show ?thesis using packet_keeps_links [of w now l d st] assms(3) by simp
  next
    case (ts_verify l q now seen ok)
    then show ?thesis using verify_links [OF inv ts_verify(2) assms(3) ts_verify(1)] by auto
  next
    case (ts_link l c mt md)
    then show ?thesis using assms(3) by (simp add: on_link_established_def)
  next
    case (ts_status l c)
    then show ?thesis using assms(3) by (simp add: upd_link_def)
  qed (use links_same [of st' st r] assms(3) in simp_all)
qed

theorem link_only_to_the_owner_witness:
  "link (heap demo_linked ! 0) = Some 1 \<and>
   link (heap (snd (handle_terminal_close demo_platform \<lparr>channel_ready = True, term_result = Reaped\<rparr> [] ''aa'' (demo_env 1) demo_linked)) ! 0) = Some 1"
  using link_only_to_the_owner [OF demo_reach_linked
      ts_close [of demo_platform demo_linked "\<lparr>channel_ready = True, term_result = Reaped\<rparr>" "[]" "''aa''" "demo_env 1"], of 0]
  by (auto simp: demo_linked_eq demo_alice_eq)


text \<open>What passing the rate limiter means.\<close>

lemma rate_limits_passed:
  assumes "check_rate_limits now ih st = (None, st1)"
  shows "int (length (filter (\<lambda>t. now - RATE_LIMIT_WINDOW_SECONDS < t) (or_empty (request_timestamps st ih))))
           < session_request_rate_limit (conf st)"
    "int (length (sessions st)) < max_total_sessions (conf st)"
    "request_timestamps st1 ih =
       Some (filter (\<lambda>t. now - RATE_LIMIT_WINDOW_SECONDS < t) (or_empty (request_timestamps st ih)) @ [now])"
    "int (length (filter (\<lambda>s. s \<in> fst ` set (sessions st)) (or_empty (sessions_by_identity st ih))))
           < max_sessions_per_identity (conf st)"
  using assms
  by (auto simp: check_rate_limits_def cleanup_request_timestamps_def or_empty_def Let_def
      split: if_splits option.splits)

lemma request_fault_conf: "conf st' = conf st \<Longrightarrow> request_fault w st' d = request_fault w st d"
proof -
  assume c: "conf st' = conf st"
  then have v: "validate_command w st' = validate_command w st"
    by (intro ext) (simp add: validate_command_def)
  show ?thesis unfolding request_fault_def c v by (rule refl)
qed

text \<open>What passing the checks of a request's parameters means, one lemma a field.\<close>

lemma request_fault_checks:
  assumes "request_fault w st d = Inr None"
  shows request_term: "\<exists>t. d_get_or d ''term_type'' (PStr ''xterm-256color'') = PStr t \<and> 0 < py_len t \<and> py_len t \<le> 256"
    and request_args: "is_text_list (d_get_or d ''args'' (PList []))"
    and request_command:
      "validate_command w st (d_get_or d ''shell'' (PStr (default_shell (conf st)))) (d_get_or d ''command'' PNone) = Inr None"
  using assms by (auto simp: request_fault_def Let_def split: option.splits if_splits pyval.splits)

lemma text_list: "is_text_list v \<Longrightarrow> \<exists>as. v = PList (map PStr as)"
proof (cases v)
  case (PList vs)
  assume t: "is_text_list v"
  have "\<exists>s. x = PStr s" if "x \<in> set vs" for x
    using t that PList by (cases x) (auto simp: is_text_list_def list_all_iff dest: bspec)
  then have "\<exists>as. vs = map PStr as" by (metis ex_map_conv)
  with PList show ?thesis by blast
qed (simp_all add: is_text_list_def)

lemma command_permitted:
  assumes "validate_command w st shell command = Inr None"
  shows "disable_command_validation (conf st) \<or>
     command = PNone \<and> (\<exists>q. resolve_path w shell = Inr q \<and> q \<in> allowed_shells (conf st)) \<or>
     command \<noteq> PNone \<and> (\<exists>ok q. allowed_commands (conf st) = Some ok \<and> resolve_path w command = Inr q \<and> q \<in> ok)"
  using assms by (auto simp: validate_command_def bind_res_def split: if_splits option.splits sum.splits)

lemma create_session_result:
  "\<exists>es new. trace (snd (create_session sp now sid ih tt a b shell command argv st)) = trace st @ es \<and>
     heap (snd (create_session sp now sid ih tt a b shell command argv st)) = heap st @ new \<and>
     length new \<le> 1 \<and> list_all (\<lambda>s. source_identity s = ih \<and> term_type s = tt \<and> rows s = a \<and> cols s = b) new \<and>
     (\<forall>x \<in> set es. (\<exists>slave. x = SetWinsize slave a b 0 0) \<or>
       (\<exists>pid. x = Exec pid tt ih (fst (child_program shell command argv)) (snd (child_program shell command argv))))"
proof (cases rule: create_session_cases [of sp now sid ih tt a b shell command argv st])
  case (failed e es)
  then show ?thesis by (intro exI [of _ es] exI [of _ "[]"]) simp
next
  case (made master pid es)
  then show ?thesis
    by (intro exI [of _ es] exI [of _ "[new_session now sid ih tt a b master pid]"])
      (simp add: track_session_def new_session_def)
qed

text \<open>
  Claim C9. A request has an effect on the operating system or adds a session only if: its sender
  holds one of the two terminal capabilities and matches no blocked prefix; its payload is a
  dictionary with whole numbers of rows and columns from 1 to 65535, a terminal type of 1 to 256
  characters and a list of texts as arguments; without a command the shell is an allowed one, and
  with a command that command is (unless validation is turned off); and none of the three limits
  is reached: requests of this identity in the last minute, live sessions of this identity,
  sessions overall. The effects are at most the requested size for the new PTY and the start of
  the requested program with the requested terminal type, on behalf of that sender; at most one
  session is added, the sender's own, of that size.
\<close>

theorem request_admission:
  assumes "trace (snd (process_terminal_request w sp now rnd ih rid p st)) \<noteq> trace st \<or>
           heap (snd (process_terminal_request w sp now rnd ih rid p st)) \<noteq> heap st"
  shows "(has_capability (policy st) ih CAP_TERMINAL_RESTRICTED \<or> has_capability (policy st) ih CAP_TERMINAL_FULL) \<and>
    \<not> is_blocked (policy st) ih \<and>
    int (length (filter (\<lambda>t. now - 60 < t) (or_empty (request_timestamps st ih)))) < session_request_rate_limit (conf st) \<and>
    int (length (filter (\<lambda>s. s \<in> fst ` set (sessions st)) (or_empty (sessions_by_identity st ih))))
      < max_sessions_per_identity (conf st) \<and>
    int (length (sessions st)) < max_total_sessions (conf st) \<and>
    (\<exists>d a b tt as es new.
       let shell = d_get_or d ''shell'' (PStr (default_shell (conf st))); command = d_get_or d ''command'' PNone in
       p = PDict d \<and>
       as_int (d_get_or d ''rows'' (PInt 24)) = Some a \<and> 1 \<le> a \<and> a \<le> 65535 \<and>
       as_int (d_get_or d ''cols'' (PInt 80)) = Some b \<and> 1 \<le> b \<and> b \<le> 65535 \<and>
       d_get_or d ''term_type'' (PStr ''xterm-256color'') = PStr tt \<and> 0 < py_len tt \<and> py_len tt \<le> 256 \<and>
       d_get_or d ''args'' (PList []) = PList (map PStr as) \<and>
       (disable_command_validation (conf st) \<or>
        command = PNone \<and> (\<exists>q. resolve_path w shell = Inr q \<and> q \<in> allowed_shells (conf st)) \<or>
        command \<noteq> PNone \<and> (\<exists>ok q. allowed_commands (conf st) = Some ok \<and> resolve_path w command = Inr q \<and> q \<in> ok)) \<and>
       trace (snd (process_terminal_request w sp now rnd ih rid p st)) = trace st @ es \<and>
       heap (snd (process_terminal_request w sp now rnd ih rid p st)) = heap st @ new \<and> length new \<le> 1 \<and>
       list_all (\<lambda>s. source_identity s = ih \<and> term_type s = tt \<and> rows s = a \<and> cols s = b) new \<and>
       (\<forall>x \<in> set es. (\<exists>slave. x = SetWinsize slave a b 0 0) \<or>
          (\<exists>pid. x = (if truthy command then Exec pid tt ih command (command # map PStr as)
                     else Exec pid tt ih shell [shell, PStr ''-l'']))))"
proof -
  let ?sid = "case rid of None \<Rightarrow> rnd | Some r \<Rightarrow> r"
  obtain limit st1 where c: "check_rate_limits now ih st = (limit, st1)" by fastforce
  have same: "trace st1 = trace st" "heap st1 = heap st" "conf st1 = conf st"
    using rate_limits_rest [of now ih st] by (simp_all add: c)
  have auth: "is_authorized st ih" and lim: "limit = None"
    and d: "\<exists>d. p = PDict d \<and> request_fault w st1 d = Inr None"
    using assms c same
    by (auto simp: process_terminal_request_def Let_def split: if_splits option.splits pyval.splits sum.splits)
  then obtain d where p: "p = PDict d" and f1: "request_fault w st1 d = Inr None" by blast
  then have f: "request_fault w st d = Inr None" using request_fault_conf [OF same(3)] by simp
  have nb: "\<not> is_blocked (policy st) ih"
    by (rule rbac_auth.some_allowed_not_banned [of _ _ "[CAP_TERMINAL_RESTRICTED, CAP_TERMINAL_FULL]"])
      (use auth in \<open>simp add: is_authorized_def\<close>)
  have run: "snd (process_terminal_request w sp now rnd ih rid p st) = snd (open_session w sp now rnd ih ?sid d st1)"
    using auth lim c f1 by (simp add: process_terminal_request_def Let_def p)
  obtain a b where ab: "as_int (d_get_or d ''rows'' (PInt 24)) = Some a" "valid_dim a"
    "as_int (d_get_or d ''cols'' (PInt 80)) = Some b" "valid_dim b"
    using request_fault_dims [OF f] by blast
  obtain tt as where t: "d_get_or d ''term_type'' (PStr ''xterm-256color'') = PStr tt" "0 < py_len tt" "py_len tt \<le> 256"
    and as: "d_get_or d ''args'' (PList []) = PList (map PStr as)"
    using request_term [OF f] text_list [OF request_args [OF f]] by blast
  let ?sh = "d_get_or d ''shell'' (PStr (default_shell (conf st)))" and ?cmd = "d_get_or d ''command'' PNone"
  have opened: "snd (process_terminal_request w sp now rnd ih rid p st) =
      snd (create_session sp now ?sid ih tt a b ?sh ?cmd (map PStr as) st1)"
    unfolding run open_session_state by (simp add: ab t as shown_def list_items_def same)
  have program: "Exec pid tt ih (fst (child_program ?sh ?cmd (map PStr as))) (snd (child_program ?sh ?cmd (map PStr as))) =
      (if truthy ?cmd then Exec pid tt ih ?cmd (?cmd # map PStr as) else Exec pid tt ih ?sh [?sh, PStr ''-l''])" for pid
    by (simp add: child_program_def)
  note cap = auth [unfolded is_authorized_def]
    and limits = rate_limits_passed(1,4,2) [OF c [unfolded lim], unfolded RATE_LIMIT_WINDOW_SECONDS_def]
    and fields = ab(1) ab(2) [unfolded valid_dim_def] ab(3) ab(4) [unfolded valid_dim_def] t as
      command_permitted [OF request_command [OF f]]
  obtain es new where "trace (snd (process_terminal_request w sp now rnd ih rid p st)) = trace st @ es"
      "heap (snd (process_terminal_request w sp now rnd ih rid p st)) = heap st @ new" "length new \<le> 1"
      "list_all (\<lambda>s. source_identity s = ih \<and> term_type s = tt \<and> rows s = a \<and> cols s = b) new"
      "\<forall>x \<in> set es. (\<exists>slave. x = SetWinsize slave a b 0 0) \<or>
          (\<exists>pid. x = (if truthy ?cmd then Exec pid tt ih ?cmd (?cmd # map PStr as)
                     else Exec pid tt ih ?sh [?sh, PStr ''-l'']))"
    using create_session_result [of sp now ?sid ih tt a b ?sh ?cmd "map PStr as" st1]
    unfolding opened same program by blast
  note made = this
  show ?thesis
    unfolding Let_def
    by (intro conjI cap nb limits, rule exI [of _ d], rule exI [of _ a], rule exI [of _ b], rule exI [of _ tt],
        rule exI [of _ as], rule exI [of _ es], rule exI [of _ new])
      (intro conjI p fields(1,3,5-9) made conjunct1 [OF fields(2)] conjunct2 [OF fields(2)]
        conjunct1 [OF fields(4)] conjunct2 [OF fields(4)])
qed

theorem request_admission_witness:
  "has_capability (policy demo_ready) ''aa'' CAP_TERMINAL_RESTRICTED \<or>
   has_capability (policy demo_ready) ''aa'' CAP_TERMINAL_FULL"
proof -
  have "heap (snd (process_terminal_request demo_platform (demo_spawn 7 100) 0 [] ''aa'' (Some (replicate 16 1)) (PDict []) demo_ready))
      \<noteq> heap demo_ready"
    by (simp add: demo_ready_eq demo_start_def TerminalService_def demo_authorized demo_platform_simps
        demo_limits request_defs)
  then show ?thesis
    using request_admission [of demo_platform "demo_spawn 7 100" 0 "[]" "''aa''" "Some (replicate 16 1)" "PDict []" demo_ready]
    by blast
qed

text \<open>What a control message names, whose session it is, and what its handler then does.\<close>

lemma named_dict:
  "named_session (PDict d) rid = Inr (Some sid) \<Longrightarrow>
     d_get d ''session_id'' = None \<and> rid = Some sid \<or>
     (\<exists>t. d_get d ''session_id'' = Some (PStr t) \<and> fromhex t = Inr sid)"
  by (auto simp: named_session_def bind_res_def split: option.splits pyval.splits sum.splits)

lemma named_any:
  "named_session p rid = Inr (Some sid) \<Longrightarrow>
     rid = Some sid \<or> (\<exists>d t. p = PDict d \<and> d_get d ''session_id'' = Some (PStr t) \<and> fromhex t = Inr sid)"
  by (auto simp: named_session_def bind_res_def split: option.splits pyval.splits sum.splits if_splits)

lemma owned_session_some:
  "owned_session st sid ih = Some r \<Longrightarrow>
     \<exists>b. sid = Some b \<and> b \<noteq> [] \<and> map_of (sessions st) b = Some r \<and> source_identity (heap st ! r) = ih"
  by (auto simp: owned_session_def split: option.splits if_splits)

lemma upd_twice: "upd_session r f (upd_session r g st) = upd_session r (f \<circ> g) st"
  by (cases "r < length (heap st)") (simp_all add: upd_session_def not_less list_update_beyond)

lemma upd_read: "(heap (upd_session r f st)) ! r = (if r < length (heap st) then f (heap st ! r) else heap st ! r)"
  by (simp add: upd_session_def not_less list_update_beyond)

lemma window_size_result:
  "set_window_size r x y (PInt 0) (PInt 0) (update_activity now r st) =
     st\<lparr>heap := (heap st)[r := (heap st ! r)\<lparr>last_activity := now\<rparr>]\<rparr> \<or>
   (\<exists>a b. as_int x = Some a \<and> 1 \<le> a \<and> a \<le> 65535 \<and> as_int y = Some b \<and> 1 \<le> b \<and> b \<le> 65535 \<and>
     set_window_size r x y (PInt 0) (PInt 0) (update_activity now r st) =
       st\<lparr>heap := (heap st)[r := (heap st ! r)\<lparr>last_activity := now, rows := a, cols := b\<rparr>],
          trace := trace st @ [SetWinsize (master_fd (heap st ! r)) a b 0 0]\<rparr>)"
  unfolding set_window_size_def update_activity_def upd_twice upd_read
  by (auto simp: upd_session_def emit_def pixels_def valid_dim_def comp_def split: option.split)

lemma resize_result:
  "snd (handle_terminal_resize w now source env st) = st \<or>
   (\<exists>d sid ih r. decode_payload (pack_lib w) (payload env) = Inr (PDict d) \<and>
      named_session (PDict d) (request_id env) = Inr sid \<and> resolve_identity_hash w source = Some ih \<and>
      owned_session st sid ih = Some r \<and>
      snd (handle_terminal_resize w now source env st) =
        set_window_size r (d_get_or d ''rows'' PNone) (d_get_or d ''cols'' PNone) (PInt 0) (PInt 0) (update_activity now r st))"
  by (simp add: handle_terminal_resize_def Let_def split: sum.split option.split pyval.split)

lemma close_result:
  "snd (handle_terminal_close w cenv rnd source env st) = st \<or>
   (\<exists>p sid ih r. (if payload env = [] then Inr (PDict []) else decode_payload (pack_lib w) (payload env)) = Inr p \<and>
      named_session p (request_id env) = Inr (Some sid) \<and> resolve_identity_hash w source = Some ih \<and>
      owned_session st (Some sid) ih = Some r \<and>
      snd (handle_terminal_close w cenv rnd source env st) = close_session w cenv sid 0 st)"
  by (simp add: handle_terminal_close_def Let_def split: sum.split option.split)

lemma signal_result:
  "snd (handle_terminal_signal w now source env st) = st \<or>
   (\<exists>d sid ih r sig. decode_payload (pack_lib w) (payload env) = Inr (PDict d) \<and>
      named_session (PDict d) (request_id env) = Inr sid \<and> resolve_identity_hash w source = Some ih \<and>
      owned_session st sid ih = Some r \<and> as_int (d_get_or d ''signal'' (PInt SIGINT)) = Some sig \<and>
      snd (handle_terminal_signal w now source env st) =
        (if is_signal_allowed (update_activity now r st) sig
         then emit [KillChild (child_pid (heap st ! r)) sig] (update_activity now r st)
         else update_activity now r st))"
  by (simp add: handle_terminal_signal_def Let_def split: sum.split option.split pyval.split) blast

lemma signal_permitted:
  "is_signal_allowed (update_activity now r st) sig \<longleftrightarrow> sig \<notin> {9, 19, 3} \<and> sig \<in> allowed_signals (conf st)"
  by (simp add: is_signal_allowed_def update_activity_def upd_session_def signal_defs)

text \<open>
  Claim C10. A control message changes nothing, unless it names a session of the table, by its
  request id or by the field \<^verbatim>\<open>session_id\<close> of its payload, and the identity that its sender
  resolves to is the identity that opened that session. Then a resize marks that session active
  and at most sets its size, to the whole numbers from 1 to 65535 that the message gives, with one
  request to its PTY; a signal message marks it active and at most sends its child the one signal
  that the message gives, which is in the configured set and never \<^verbatim>\<open>SIGKILL\<close> (9),
  \<^verbatim>\<open>SIGSTOP\<close> (19) or \<^verbatim>\<open>SIGQUIT\<close> (3), whatever set was configured; and a close message closes it.
\<close>

theorem control_messages_need_ownership:
  "(snd (handle_terminal_resize w now source env st) = st \<or>
     (\<exists>d sid ih r. decode_payload (pack_lib w) (payload env) = Inr (PDict d) \<and>
        (d_get d ''session_id'' = None \<and> request_id env = Some sid \<or>
         (\<exists>t. d_get d ''session_id'' = Some (PStr t) \<and> fromhex t = Inr sid)) \<and>
        resolve_identity_hash w source = Some ih \<and>
        map_of (sessions st) sid = Some r \<and> source_identity (heap st ! r) = ih \<and>
        (snd (handle_terminal_resize w now source env st) =
           st\<lparr>heap := (heap st)[r := (heap st ! r)\<lparr>last_activity := now\<rparr>]\<rparr> \<or>
         (\<exists>a b. as_int (d_get_or d ''rows'' PNone) = Some a \<and> 1 \<le> a \<and> a \<le> 65535 \<and>
            as_int (d_get_or d ''cols'' PNone) = Some b \<and> 1 \<le> b \<and> b \<le> 65535 \<and>
            snd (handle_terminal_resize w now source env st) =
              st\<lparr>heap := (heap st)[r := (heap st ! r)\<lparr>last_activity := now, rows := a, cols := b\<rparr>],
                 trace := trace st @ [SetWinsize (master_fd (heap st ! r)) a b 0 0]\<rparr>)))) \<and>
   (snd (handle_terminal_close w cenv rnd source env st) = st \<or>
     (\<exists>sid ih r. (request_id env = Some sid \<or>
         (\<exists>d t. decode_payload (pack_lib w) (payload env) = Inr (PDict d) \<and>
            d_get d ''session_id'' = Some (PStr t) \<and> fromhex t = Inr sid)) \<and>
        resolve_identity_hash w source = Some ih \<and>
        map_of (sessions st) sid = Some r \<and> source_identity (heap st ! r) = ih \<and>
        snd (handle_terminal_close w cenv rnd source env st) = close_session w cenv sid 0 st)) \<and>
   (snd (handle_terminal_signal w now source env st) = st \<or>
     (\<exists>d sid ih r sig. decode_payload (pack_lib w) (payload env) = Inr (PDict d) \<and>
        (d_get d ''session_id'' = None \<and> request_id env = Some sid \<or>
         (\<exists>t. d_get d ''session_id'' = Some (PStr t) \<and> fromhex t = Inr sid)) \<and>
        resolve_identity_hash w source = Some ih \<and>
        map_of (sessions st) sid = Some r \<and> source_identity (heap st ! r) = ih \<and>
        as_int (d_get_or d ''signal'' (PInt 2)) = Some sig \<and>
        snd (handle_terminal_signal w now source env st) =
          (let st1 = st\<lparr>heap := (heap st)[r := (heap st ! r)\<lparr>last_activity := now\<rparr>]\<rparr> in
           if sig \<notin> {9, 19, 3} \<and> sig \<in> allowed_signals (conf st)
           then st1\<lparr>trace := trace st @ [KillChild (child_pid (heap st ! r)) sig]\<rparr> else st1)))"
  (is "?resize \<and> ?close \<and> ?signal")
proof (intro conjI)
  show ?resize
  proof (cases "snd (handle_terminal_resize w now source env st) = st")
    case False
    then obtain d sid ih r where *: "decode_payload (pack_lib w) (payload env) = Inr (PDict d)"
      "named_session (PDict d) (request_id env) = Inr sid" "resolve_identity_hash w source = Some ih"
      "owned_session st sid ih = Some r"
      "snd (handle_terminal_resize w now source env st) =
        set_window_size r (d_get_or d ''rows'' PNone) (d_get_or d ''cols'' PNone) (PInt 0) (PInt 0) (update_activity now r st)"
      using resize_result [of w now source env st] by blast
    obtain b where b: "sid = Some b" "map_of (sessions st) b = Some r" "source_identity (heap st ! r) = ih"
      using owned_session_some [OF *(4)] by blast
    show ?thesis
      unfolding *(5)
      by (rule disjI2, rule exI [of _ d], rule exI [of _ b], rule exI [of _ ih], rule exI [of _ r])
        (intro conjI *(1,3) b(2,3) named_dict [OF *(2) [unfolded b(1)]] window_size_result)
  qed simp
  show ?close
  proof (cases "snd (handle_terminal_close w cenv rnd source env st) = st")
    case False
    then obtain p sid ih r where *:
      "(if payload env = [] then Inr (PDict []) else decode_payload (pack_lib w) (payload env)) = Inr p"
      "named_session p (request_id env) = Inr (Some sid)" "resolve_identity_hash w source = Some ih"
      "owned_session st (Some sid) ih = Some r"
      "snd (handle_terminal_close w cenv rnd source env st) = close_session w cenv sid 0 st"
      using close_result [of w cenv rnd source env st] by blast
    have "request_id env = Some sid \<or>
         (\<exists>d t. decode_payload (pack_lib w) (payload env) = Inr (PDict d) \<and>
            d_get d ''session_id'' = Some (PStr t) \<and> fromhex t = Inr sid)"
      using named_any [OF *(2)] *(1) by (auto simp: d_get_def split: if_splits)
    then show ?thesis using * owned_session_some [OF *(4)] by blast
  qed simp
  show ?signal
  proof (cases "snd (handle_terminal_signal w now source env st) = st")
    case False
    then obtain d sid ih r sig where *: "decode_payload (pack_lib w) (payload env) = Inr (PDict d)"
      "named_session (PDict d) (request_id env) = Inr sid" "resolve_identity_hash w source = Some ih"
      "owned_session st sid ih = Some r" "as_int (d_get_or d ''signal'' (PInt SIGINT)) = Some sig"
      "snd (handle_terminal_signal w now source env st) =
        (if is_signal_allowed (update_activity now r st) sig
         then emit [KillChild (child_pid (heap st ! r)) sig] (update_activity now r st)
         else update_activity now r st)"
      using signal_result [of w now source env st] by blast
    obtain b where b: "sid = Some b" "map_of (sessions st) b = Some r" "source_identity (heap st ! r) = ih"
      using owned_session_some [OF *(4)] by blast
    show ?thesis
      unfolding *(6) signal_permitted
      by (rule disjI2, rule exI [of _ d], rule exI [of _ b], rule exI [of _ ih], rule exI [of _ r], rule exI [of _ sig])
        (intro conjI *(1,3) b(2,3) named_dict [OF *(2) [unfolded b(1)]] *(5) [unfolded SIGINT_def],
         simp add: emit_def update_activity_def upd_session_def Let_def)
  qed simp
qed


text \<open>
  Claim C11. Every window size that reaches the kernel fits the four unsigned shorts of
  \<^verbatim>\<open>struct.pack("HHHH", ...)\<close>, with at least one row and one column, and so do the sizes that
  the sessions remember: whatever a client sends, packing never fails.
\<close>

theorem window_sizes_fit:
  assumes "reach term_start (term_step w) st"
  shows "list_all (\<lambda>x. case x of SetWinsize _ a b x y \<Rightarrow>
                     1 \<le> a \<and> a \<le> 65535 \<and> 1 \<le> b \<and> b \<le> 65535 \<and> 0 \<le> x \<and> x \<le> 65535 \<and> 0 \<le> y \<and> y \<le> 65535
                   | _ \<Rightarrow> True) (trace st) \<and>
         list_all (\<lambda>s. 1 \<le> rows s \<and> rows s \<le> 65535 \<and> 1 \<le> cols s \<and> cols s \<le> 65535) (heap st)"
proof -
  have "size_inv st" by (rule term_sizes.reach_inv [OF assms])
  moreover have "size_ok x \<Longrightarrow> case x of SetWinsize _ a b x y \<Rightarrow>
                     1 \<le> a \<and> a \<le> 65535 \<and> 1 \<le> b \<and> b \<le> 65535 \<and> 0 \<le> x \<and> x \<le> 65535 \<and> 0 \<le> y \<and> y \<le> 65535
                   | _ \<Rightarrow> True" for x
    by (cases x) (simp_all add: valid_dim_def)
  ultimately show ?thesis
    unfolding size_inv_def valid_dim_def by (auto elim: list.pred_mono_strong)
qed

theorem window_sizes_fit_witness:
  "list_all (\<lambda>s. 1 \<le> rows s \<and> rows s \<le> 65535 \<and> 1 \<le> cols s \<and> cols s \<le> 65535) (heap demo_linked) \<and>
   length (heap demo_linked) = 1"
  using window_sizes_fit [OF demo_reach_linked] by (simp add: demo_linked_eq)

text \<open>What a chunked transfer adds up to.\<close>

lemma concat_chunks: "0 < n \<Longrightarrow> concat (chunks n xs) = xs"
proof (induction n xs rule: chunks.induct)
  case (1 n xs)
  then show ?case by (subst chunks.simps) auto
qed

lemma chunk_sizes: "c \<in> set (chunks n xs) \<Longrightarrow> c \<noteq> [] \<and> length c \<le> n"
proof (induction n xs rule: chunks.induct)
  case (1 n xs)
  from 1(2) show ?case
    by (subst (asm) chunks.simps) (use 1(1) in \<open>auto split: if_splits\<close>)
qed

lemma max_payload_pos: "64 \<le> get_max_payload_size st r"
  by (simp add: get_max_payload_size_def Let_def split: option.split)

text \<open>
  With a channel that keeps up, the reader sends what it read from the PTY, all of
  it, in order, in non-empty pieces no longer than the channel takes (less 20 bytes of framing,
  and never cut below 64).
\<close>

theorem output_is_chunked_faithfully:
  assumes "r < length (heap st)" and "read_task (heap st ! r) = Running"
    and "link (heap st ! r) = Some l" and "status (links st l) = STATUS_LITERAL"
    and "channel (heap st ! r) = Some ch" and "bs \<noteq> []" and "length bs \<le> ready"
  shows "\<exists>cs. trace (pty_read_step w now r (Data bs) ready st) =
                trace st @ map (\<lambda>c. SendChannel ch (stdout_message c)) cs \<and>
              concat cs = bs \<and>
              list_all (\<lambda>c. c \<noteq> [] \<and> int (length c) \<le> max 64 (mdu (links st ch) - 20)) cs \<and>
              read_task (heap (pty_read_step w now r (Data bs) ready st) ! r) = Running"
proof -
  let ?st = "update_activity now r st"
  define n where "n = nat (get_max_payload_size ?st r)"
  have same: "links ?st = links st" "trace ?st = trace st" "channel (heap ?st ! r) = Some ch"
      "read_task (heap ?st ! r) = Running"
    using assms(1,2,5) by (simp_all add: update_activity_def upd_session_def)
  then have n: "int n = max 64 (mdu (links st ch) - 20)"
    by (simp add: n_def get_max_payload_size_def Let_def)
  then have pos: "0 < n" by linarith
  have few: "length (chunks n bs) \<le> length bs"
  proof -
    have "length (chunks n xs) \<le> length xs" for xs :: bytes
    proof (induction n xs rule: chunks.induct)
      case (1 n xs)
      then show ?case by (subst chunks.simps) (cases xs, auto)
    qed
    then show ?thesis .
  qed
  obtain b bs' where bs: "bs = b # bs'" using assms(6) by (cases bs) auto
  have run: "pty_read_step w now r (Data bs) ready st =
      emit (map (\<lambda>c. SendChannel ch (stdout_message c)) (chunks n bs)) ?st"
    using assms few by (simp add: pty_read_step_def Let_def bs n_def)
  show ?thesis
    using concat_chunks [OF pos] chunk_sizes n same
    by (intro exI [of _ "chunks n bs"]) (fastforce simp: run list_all_iff)
qed

text \<open>A link still being set up, where the reader and the sender agree on the status.\<close>

definition demo_channel :: service where
  "demo_channel =
     upd_link 1 (\<lambda>k. k\<lparr>status := 0\<rparr>) (upd_session 0 (\<lambda>s. s\<lparr>channel := Some 1\<rparr>) demo_linked)"

theorem output_is_chunked_faithfully_witness:
  "\<exists>cs. trace (pty_read_step demo_platform 2 0 (Data (replicate 100 7)) 100 demo_channel) =
          trace demo_channel @ map (\<lambda>c. SendChannel 1 (stdout_message c)) cs \<and>
        concat cs = replicate 100 7"
  using output_is_chunked_faithfully [of 0 demo_channel 1 1 "replicate 100 7" 100 demo_platform 2]
  by (auto simp: demo_channel_def demo_linked_eq upd_link_def upd_session_def STATUS_LITERAL_def)


text \<open>What a close leaves of the table, and of the session objects.\<close>

lemma close_session_sessions:
  "sessions (close_session w env sid code st) = AList.delete sid (sessions st)"
proof (cases "map_of (sessions st) sid")
  case None
  then have "AList.delete sid (sessions st) = sessions st"
    by (simp add: delete_id map_of_eq_None_iff)
  with None show ?thesis by (simp add: close_session_def)
next
  case (Some r)
  have "sessions (release_link w b s c st') = sessions st'" for b s c st'
    by (auto simp: release_link_def send_command_exited_def send_link_packet_def teardown_def upd_link_def
        Let_def emit_def split: option.split sum.split)
  with Some show ?thesis
    by (simp add: close_session_def Let_def upd_session_def)
qed

lemma close_expired_sessions:
  "sessions (close_expired w envs rnd v st) = AList.delete (fst v) (sessions st)"
  by (auto simp: close_expired_def Let_def close_session_sessions split: prod.split sum.split)

lemma fold_close_expired:
  "sessions (fold (close_expired w envs rnd) vs st) =
     filter (\<lambda>p. fst p \<notin> fst ` set vs) (sessions st)"
proof (induction vs arbitrary: st)
  case (Cons v vs)
  then show ?case
    by (simp add: close_expired_sessions AList.delete_eq filter_filter) (rule filter_cong, auto)
qed simp

lemma sessions_to_close_iff:
  "(sid, r, reason) \<in> set (sessions_to_close now st) \<longleftrightarrow>
     (sid, r) \<in> set (sessions st) \<and> idle_reason now st (heap st ! r) = Some reason"
proof
  assume "(sid, r, reason) \<in> set (sessions_to_close now st)"
  then show "(sid, r) \<in> set (sessions st) \<and> idle_reason now st (heap st ! r) = Some reason"
    by (auto simp: sessions_to_close_def split: option.splits)
next
  assume a: "(sid, r) \<in> set (sessions st) \<and> idle_reason now st (heap st ! r) = Some reason"
  then show "(sid, r, reason) \<in> set (sessions_to_close now st)"
    unfolding sessions_to_close_def set_concat set_map
    by (intro UN_I [OF imageI [of "(sid, r)"]]) simp_all
qed

lemma expired_ids:
  assumes "distinct (map fst (sessions st))" "(sid, r) \<in> set (sessions st)"
  shows "sid \<in> fst ` set (sessions_to_close now st) \<longleftrightarrow> idle_reason now st (heap st ! r) \<noteq> None"
proof
  assume "sid \<in> fst ` set (sessions_to_close now st)"
  then obtain q reason where "(sid, q, reason) \<in> set (sessions_to_close now st)" by auto
  then have "(sid, q) \<in> set (sessions st)" "idle_reason now st (heap st ! q) = Some reason"
    by (simp_all add: sessions_to_close_iff)
  then show "idle_reason now st (heap st ! r) \<noteq> None"
    using eq_key_imp_eq_value [OF assms(1)] assms(2) by fastforce
next
  assume "idle_reason now st (heap st ! r) \<noteq> None"
  then obtain reason where "(sid, r, reason) \<in> set (sessions_to_close now st)"
    using assms(2) by (auto simp: sessions_to_close_iff)
  then show "sid \<in> fst ` set (sessions_to_close now st)" by (force simp: image_iff)
qed

text \<open>
  One pass of the timeout check removes from the table exactly the sessions that are
  overdue at that moment (30 seconds without a link, or idle for the configured time) and
  keeps all others, in order.
\<close>

theorem idle_check_closes_exactly_the_overdue:
  assumes "reach term_start (term_step w) st"
  shows "sessions (check_idle_sessions w envs rnd now st) =
    filter (\<lambda>(sid, r). \<not> (link (heap st ! r) = None \<and> HANDOFF_TIMEOUT_SECONDS \<le> now - created_at (heap st ! r)) \<and>
                       now - last_activity (heap st ! r) < session_idle_timeout (conf st)) (sessions st)"
proof -
  have "table_inv st" by (rule term_table.reach_inv [OF assms])
  then have d: "distinct (map fst (sessions st))" by (simp add: table_inv_def)
  have "filter (\<lambda>p. fst p \<notin> fst ` set (sessions_to_close now st)) (sessions st) =
     filter (\<lambda>(sid, r). idle_reason now st (heap st ! r) = None) (sessions st)"
  proof (rule filter_cong [OF refl])
    fix x
    assume "x \<in> set (sessions st)"
    then show "fst x \<notin> fst ` set (sessions_to_close now st) \<longleftrightarrow>
        (case x of (sid, r) \<Rightarrow> idle_reason now st (heap st ! r) = None)"
      using expired_ids [OF d, of "fst x" "snd x" now] by (simp add: case_prod_beta)
  qed
  moreover have "idle_reason now st s = None \<longleftrightarrow>
     \<not> (link s = None \<and> HANDOFF_TIMEOUT_SECONDS \<le> now - created_at s) \<and>
     now - last_activity s < session_idle_timeout (conf st)" for s
    by (auto simp: idle_reason_def)
  ultimately show ?thesis
    by (simp add: check_idle_sessions_def fold_close_expired)
qed

theorem idle_check_closes_exactly_the_overdue_witness:
  "sessions (check_idle_sessions demo_platform demo_ends [] 29 demo_alice) = [(replicate 16 1, 0)] \<and>
   sessions (check_idle_sessions demo_platform demo_ends [] 30 demo_alice) = []"
  using idle_check_closes_exactly_the_overdue [OF demo_reach_alice, of demo_ends "[]" 29]
    idle_check_closes_exactly_the_overdue [OF demo_reach_alice, of demo_ends "[]" 30]
  by (simp add: demo_alice_eq demo_ready_eq demo_start_def TerminalService_def demo_session_def new_session_def
      HANDOFF_TIMEOUT_SECONDS_def SESSION_IDLE_TIMEOUT_def)

section \<open>Where the service falls short\<close>

text \<open>
  The reader and the closing code compare a link's status with the literal 0, the
  sender with \<^verbatim>\<open>RNS.Link.ACTIVE\<close>. Where that constant is another number, as it is in
  Reticulum, a session whose link is active never sends a byte of output: the reader's
  first turn ends it.
\<close>

theorem active_link_ends_the_reader:
  assumes "LINK_ACTIVE w \<noteq> STATUS_LITERAL"
    and "r < length (heap st)" and "link (heap st ! r) = Some l" and "status (links st l) = LINK_ACTIVE w"
    and "read_task (heap st ! r) = Running"
  shows "trace (pty_read_step w now r res ready st) = trace st \<and>
         read_task (heap (pty_read_step w now r res ready st) ! r) = Finished"
  using assms by (simp add: pty_read_step_def Let_def upd_session_def)

theorem active_link_ends_the_reader_witness:
  "trace (pty_read_step demo_platform 2 0 (Data [104, 105]) 10 demo_linked) = trace demo_linked \<and>
   read_task (heap (pty_read_step demo_platform 2 0 (Data [104, 105]) 10 demo_linked) ! 0) = Finished"
  by (rule active_link_ends_the_reader [where l = 1])
    (simp_all add: demo_linked_eq demo_platform_def STATUS_LITERAL_def)

text \<open>
  For the same reason closing a session neither tells its client nor tears its active
  link down; the link stays bound to the closed session, and what the client types afterwards
  is still written to the closed descriptor's number, which the operating system may by then
  have given to another session.
\<close>

theorem closed_session_keeps_typing:
  assumes "LINK_ACTIVE w \<noteq> STATUS_LITERAL"
    and "map_of (sessions st) sid = Some r" and "r < length (heap st)" and "\<not> closed (heap st ! r)"
    and "link (heap st ! r) = Some l" and "terminal_session (links st l) = Some r"
    and "status (links st l) = LINK_ACTIVE w"
    and "deserialize_message (pack_lib w) d = Inr (StreamData (PInt STDIN) (PBytes bs) e)"
  shows "let st' = close_session w env sid code st in
         trace st' = trace st @ ClosePty (master_fd (heap st ! r)) # kill_effects (term_result env) (child_pid (heap st ! r)) \<and>
         closed (heap st' ! r) \<and> links st' l = links st l \<and>
         trace (on_link_packet w now l d st') = trace st' @ [WritePty (master_fd (heap st ! r)) bs]"
proof -
  define st' where "st' = close_session w env sid code st"
  have t: "trace st' = trace st @ ClosePty (master_fd (heap st ! r)) # kill_effects (term_result env) (child_pid (heap st ! r))"
    and l: "links st' = links st"
    and h: "closed (heap st' ! r)" "master_fd (heap st' ! r) = master_fd (heap st ! r)" "length (heap st') = length (heap st)"
    using assms by (simp_all add: st'_def close_session_def Let_def release_link_def upd_session_def)
  have "is_stdin (StreamData (PInt STDIN) (PBytes bs) e)" by (simp add: is_stdin_def eq_int_def)
  then have "trace (on_link_packet w now l d st') = trace st' @ [WritePty (master_fd (heap st ! r)) bs]"
    using assms(3,6,8) h l
    by (simp add: on_link_packet_def session_message_def update_activity_def upd_session_def Let_def)
  with t l h(1) show ?thesis by (simp add: st'_def [symmetric] Let_def)
qed

theorem closed_session_keeps_typing_witness:
  "let st' = close_session demo_platform \<lparr>channel_ready = True, term_result = Reaped\<rparr> (replicate 16 1) 0 demo_linked in
   closed (heap st' ! 0) \<and>
   trace (on_link_packet demo_platform 4 1 [1] st') = trace st' @ [WritePty 7 demo_keys]"
proof -
  have d: "deserialize_message (pack_lib demo_platform) [1] = Inr (StreamData (PInt STDIN) (PBytes demo_keys) (PBool False))"
    by (simp add: demo_platform_def deserialize_message_def int_enum_of_def msgtypes_def MESSAGE_TYPES_def
      unpack_stream_def item_def get_def d_get_or_def d_get_def STDIN_def str_bytes_def)
  show ?thesis
    using closed_session_keeps_typing [of demo_platform demo_linked "replicate 16 1" 0 1 "[1]" demo_keys "PBool False"
      "\<lparr>channel_ready = True, term_result = Reaped\<rparr>" 0 4, OF _ _ _ _ _ _ _ d]
    by (simp add: demo_linked_eq demo_alice_eq demo_platform_def STATUS_LITERAL_def demo_session_def new_session_def Let_def)
qed


text \<open>
  The session id is the request id that the client chose, and a request with the id of
  a live session replaces that session in the table, whoever owns it: the old session's PTY
  and child are not closed, nothing finds it again, and when its child exits the monitor
  closes the new session instead.
\<close>

theorem request_id_collision:
  assumes "map_of (sessions st) sid = Some r" and "r < length (heap st)"
    and "session_id (heap st ! r) = sid" and "\<not> closed (heap st ! r)"
    and "create_session sp now sid ih tt a b shell command argv st = (Inr r', st')"
  shows "map_of (sessions st') sid = Some r' \<and> r' \<noteq> r \<and> heap st' ! r = heap st ! r \<and>
    (\<exists>es. trace st' = trace st @ es \<and> list_all (\<lambda>x. case x of SetWinsize _ _ _ _ _ \<Rightarrow> True | Exec _ _ _ _ _ \<Rightarrow> True | _ \<Rightarrow> False) es) \<and>
    map_of (sessions (monitor_child w env r (Exited code) st')) sid = None \<and>
    closed (heap (monitor_child w env r (Exited code) st') ! r')"
proof (cases rule: create_session_cases [of sp now sid ih tt a b shell command argv st])
  case (failed e es)
  with assms(5) show ?thesis by simp
next
  case (made master pid es)
  let ?s = "new_session now sid ih tt a b master pid"
  have st': "st' = track_session ih sid ((emit es st)\<lparr>heap := heap st @ [?s],
          sessions := AList.update sid (length (heap st)) (sessions st)\<rparr>)" and r': "r' = length (heap st)"
    using made(1) assms(5) by simp_all
  have m: "map_of (sessions st') sid = Some r'"
    by (simp add: st' r' track_session_def update_conv')
  have h: "heap st' = heap st @ [?s]" and t: "trace st' = trace st @ es"
    by (simp_all add: st' track_session_def)
  have new: "heap st' ! r' = ?s" "\<not> closed ?s" "link ?s = None" "read_task ?s = NoTask"
    by (simp_all add: h r' new_session_def)
  have old: "heap st' ! r = heap st ! r" using assms(2) by (simp add: h nth_append)
  have mon: "monitor_child w env r (Exited code) st' = close_session w env sid code st'"
    by (simp add: monitor_child_def old assms(3))
  have "sessions (close_session w env sid code st') = AList.delete sid (sessions st')"
    by (rule close_session_sessions)
  then have gone: "map_of (sessions (monitor_child w env r (Exited code) st')) sid = None"
    by (simp add: mon delete_conv')
  have "closed (heap (close_session w env sid code st') ! r')"
    using new by (simp add: close_session_def m Let_def release_link_def upd_session_def h r')
  then have cl: "closed (heap (monitor_child w env r (Exited code) st') ! r')" by (simp add: mon)
  have "list_all (\<lambda>x. case x of SetWinsize _ _ _ _ _ \<Rightarrow> True | Exec _ _ _ _ _ \<Rightarrow> True | _ \<Rightarrow> False) es"
    using made(2) by (fastforce simp: list_all_iff)
  with m r' assms(2) old t gone cl show ?thesis by blast
qed

definition demo_spoof :: "nat res \<times> service" where
  "demo_spoof = create_session (demo_spawn 9 300) 2 (replicate 16 1) ''bb'' ''xterm'' 24 80
     (PStr ''/bin/sh'') PNone [] demo_alice"

theorem request_id_collision_witness:
  "demo_spoof = (Inr 1, snd demo_spoof) \<and>
   map_of (sessions (snd demo_spoof)) (replicate 16 1) = Some 1 \<and>
   source_identity (heap (snd demo_spoof) ! 0) = ''aa'' \<and>
   map_of (sessions (monitor_child demo_platform \<lparr>channel_ready = True, term_result = Reaped\<rparr> 0 (Exited 0) (snd demo_spoof)))
     (replicate 16 1) = None"
proof -
  have made: "demo_spoof = (Inr 1, snd demo_spoof)"
    by (simp add: demo_spoof_def create_session_def demo_spawn_def child_program_def demo_alice_eq)
  have old: "map_of (sessions demo_alice) (replicate 16 1) = Some 0" "0 < length (heap demo_alice)"
    "session_id (heap demo_alice ! 0) = replicate 16 1" "\<not> closed (heap demo_alice ! 0)"
    "source_identity (heap demo_alice ! 0) = ''aa''"
    by (simp_all add: demo_alice_eq demo_session_def new_session_def)
  show ?thesis
    using request_id_collision [OF old(1-4) made [unfolded demo_spoof_def], of demo_platform
        "\<lparr>channel_ready = True, term_result = Reaped\<rparr>" 0] made old(5)
    by (simp add: demo_spoof_def)
qed

text \<open>
  Closing an identity's last session forgets its request times, so the next request
  passes the rate limit at once, however many the identity has made in the last minute: a
  client that opens and closes sessions is not limited at all.
\<close>

theorem closing_resets_the_rate_limit:
  assumes "map_of (sessions st) sid = Some r" and "\<not> closed (heap st ! r)" and "r < length (heap st)"
    and "source_identity (heap st ! r) = ih" and "sessions_by_identity st ih = Some [sid]"
    and "0 < session_request_rate_limit (conf st)" and "0 < max_sessions_per_identity (conf st)"
    and "int (length (sessions st)) \<le> max_total_sessions (conf st)"
  shows "request_timestamps (close_session w env sid code st) ih = None \<and>
         fst (check_rate_limits now ih (close_session w env sid code st)) = None"
proof -
  let ?st = "close_session w env sid code st"
  have rel: "sessions_by_identity (release_link w b s c st') = sessions_by_identity st'"
    "request_timestamps (release_link w b s c st') = request_timestamps st'"
    "conf (release_link w b s c st') = conf st'" for b s c st'
    by (auto simp: release_link_def send_command_exited_def send_link_packet_def teardown_def upd_link_def
        Let_def emit_def split: option.split sum.split)
  have ts: "request_timestamps ?st ih = None" "sessions_by_identity ?st ih = None" "conf ?st = conf st"
    using assms(1-5)
    by (auto simp: close_session_def Let_def rel upd_session_def untrack_session_def emit_def)
  have "length (sessions ?st) < length (sessions st)"
    using map_of_SomeD [OF assms(1)] length_filter_less [of "(sid, r)" "sessions st" "\<lambda>(k, _). sid \<noteq> k"]
    by (simp add: close_session_sessions AList.delete_eq)
  then have "int (length (sessions ?st)) < max_total_sessions (conf st)" using assms(8) by linarith
  then have "fst (check_rate_limits now ih ?st) = None"
    using assms(6,7) ts
    by (simp add: check_rate_limits_def cleanup_request_timestamps_def or_empty_def Let_def)
  with ts show ?thesis by simp
qed

theorem closing_resets_the_rate_limit_witness:
  "fst (check_rate_limits 1 ''aa'' (close_session demo_platform \<lparr>channel_ready = True, term_result = Reaped\<rparr>
     (replicate 16 1) 0 (demo_alice\<lparr>request_timestamps := [''aa'' \<mapsto> replicate 10 0]\<rparr>))) = None"
  using closing_resets_the_rate_limit [of "demo_alice\<lparr>request_timestamps := [''aa'' \<mapsto> replicate 10 0]\<rparr>"
      "replicate 16 1" 0 "''aa''" demo_platform "\<lparr>channel_ready = True, term_result = Reaped\<rparr>" 0 1]
  by (simp add: demo_alice_eq demo_ready_eq demo_start_def TerminalService_def demo_session_def new_session_def demo_limits)

end
