(* ===== verification/Ipc_Protocol.thy ===== *)
theory Ipc_Protocol
  imports Interfaces
begin

text \<open>
  The control socket (\<^verbatim>\<open>src/styrened/ipc/protocol.py\<close>): the message types, the frame
  \<open>[LENGTH:4][TYPE:1][REQUEST_ID:16][PAYLOAD]\<close>, its encoder, its decoder for a complete frame,
  and the reader that takes one frame off a stream. The stream is the bytes that have arrived
  and what comes after them: the end of the connection, or nothing. Reading with no timeout
  from a stream on which nothing comes does not return, which is the value \<open>None\<close>.
\<close>

section \<open>Message types\<close>

datatype (plugins only: code size) IPCMessageType =
    PING | PONG | QUERY_DEVICES | QUERY_IDENTITY | QUERY_STATUS | QUERY_CONFIG
    | QUERY_CONVERSATIONS | QUERY_MESSAGES | QUERY_SEARCH_MESSAGES | QUERY_CONTACTS
    | QUERY_RESOLVE_NAME | QUERY_AUTO_REPLY | QUERY_PATH_INFO | QUERY_PAGE
    | QUERY_PAGE_SERVER_STATUS | QUERY_ATTACHMENT | CMD_SEND | CMD_EXEC | CMD_ANNOUNCE
    | CMD_DEVICE_STATUS | CMD_SEND_CHAT | CMD_MARK_READ | CMD_DELETE_CONVERSATION
    | CMD_DELETE_MESSAGE | CMD_RETRY_MESSAGE | CMD_SET_CONTACT | CMD_REMOVE_CONTACT
    | CMD_SET_AUTO_REPLY | CMD_SYNC_MESSAGES | CMD_PAGE_DISCONNECT | CMD_REBOOT_DEVICE
    | CMD_REMOTE_INBOX | CMD_REMOTE_MESSAGES | CMD_SELF_UPDATE | CMD_SET_IDENTITY
    | CMD_PQC_STATUS | CMD_PAGE_REGENERATE | CMD_PAGE_SAVE_SITE | CMD_PAGE_REMOVE_SITE
    | CMD_PAGE_LIST_SITES | CMD_PAGE_CRAWL_SITE | CMD_PAGE_GET_CACHED | CMD_TERMINAL_OPEN
    | CMD_TERMINAL_INPUT | CMD_TERMINAL_RESIZE | CMD_TERMINAL_CLOSE | GET_NODES
    | GET_CORE_CONFIG | SAVE_CORE_CONFIG | GET_HUB_STATUS | GET_UNREAD_COUNTS | CMD_BLOCK_PEER
    | CMD_UNBLOCK_PEER | QUERY_BLOCKED_PEERS | CMD_DATALINK_ESTABLISH | CMD_DATALINK_TEARDOWN
    | CMD_DATALINK_STATUS | CMD_DATALINK_QUERY | CMD_DATALINK_SPEEDTEST | CMD_DATALINK_META
    | CMD_DATALINK_INFO | CMD_PROVISION_ADAPTER | GET_ADAPTER_STATE | CMD_BOUNDARY_SNAPSHOT
    | GET_ACTIVITY_HISTORY | SUB_DEVICES | SUB_MESSAGES | SUB_ACTIVITY | UNSUB | RESULT | ERROR
    | EVENT_DEVICE | EVENT_MESSAGE | EVENT_TERMINAL_OUTPUT | EVENT_TERMINAL_EXITED
    | EVENT_TERMINAL_ERROR | EVENT_TERMINAL_READY | EVENT_ACTIVITY

primrec ipc_code :: "IPCMessageType \<Rightarrow> nat" where
  "ipc_code PING = 1"
| "ipc_code PONG = 128"
| "ipc_code QUERY_DEVICES = 16"
| "ipc_code QUERY_IDENTITY = 17"
| "ipc_code QUERY_STATUS = 18"
| "ipc_code QUERY_CONFIG = 19"
| "ipc_code QUERY_CONVERSATIONS = 20"
| "ipc_code QUERY_MESSAGES = 21"
| "ipc_code QUERY_SEARCH_MESSAGES = 22"
| "ipc_code QUERY_CONTACTS = 23"
| "ipc_code QUERY_RESOLVE_NAME = 24"
| "ipc_code QUERY_AUTO_REPLY = 25"
| "ipc_code QUERY_PATH_INFO = 26"
| "ipc_code QUERY_PAGE = 27"
| "ipc_code QUERY_PAGE_SERVER_STATUS = 28"
| "ipc_code QUERY_ATTACHMENT = 29"
| "ipc_code CMD_SEND = 32"
| "ipc_code CMD_EXEC = 33"
| "ipc_code CMD_ANNOUNCE = 34"
| "ipc_code CMD_DEVICE_STATUS = 35"
| "ipc_code CMD_SEND_CHAT = 36"
| "ipc_code CMD_MARK_READ = 37"
| "ipc_code CMD_DELETE_CONVERSATION = 38"
| "ipc_code CMD_DELETE_MESSAGE = 39"
| "ipc_code CMD_RETRY_MESSAGE = 40"
| "ipc_code CMD_SET_CONTACT = 41"
| "ipc_code CMD_REMOVE_CONTACT = 42"
| "ipc_code CMD_SET_AUTO_REPLY = 43"
| "ipc_code CMD_SYNC_MESSAGES = 44"
| "ipc_code CMD_PAGE_DISCONNECT = 45"
| "ipc_code CMD_REBOOT_DEVICE = 46"
| "ipc_code CMD_REMOTE_INBOX = 47"
| "ipc_code CMD_REMOTE_MESSAGES = 64"
| "ipc_code CMD_SELF_UPDATE = 65"
| "ipc_code CMD_SET_IDENTITY = 66"
| "ipc_code CMD_PQC_STATUS = 67"
| "ipc_code CMD_PAGE_REGENERATE = 68"
| "ipc_code CMD_PAGE_SAVE_SITE = 69"
| "ipc_code CMD_PAGE_REMOVE_SITE = 70"
| "ipc_code CMD_PAGE_LIST_SITES = 71"
| "ipc_code CMD_PAGE_CRAWL_SITE = 72"
| "ipc_code CMD_PAGE_GET_CACHED = 73"
| "ipc_code CMD_TERMINAL_OPEN = 80"
| "ipc_code CMD_TERMINAL_INPUT = 81"
| "ipc_code CMD_TERMINAL_RESIZE = 82"
| "ipc_code CMD_TERMINAL_CLOSE = 83"
| "ipc_code GET_NODES = 30"
| "ipc_code GET_CORE_CONFIG = 31"
| "ipc_code SAVE_CORE_CONFIG = 77"
| "ipc_code GET_HUB_STATUS = 78"
| "ipc_code GET_UNREAD_COUNTS = 79"
| "ipc_code CMD_BLOCK_PEER = 74"
| "ipc_code CMD_UNBLOCK_PEER = 75"
| "ipc_code QUERY_BLOCKED_PEERS = 76"
| "ipc_code CMD_DATALINK_ESTABLISH = 96"
| "ipc_code CMD_DATALINK_TEARDOWN = 97"
| "ipc_code CMD_DATALINK_STATUS = 98"
| "ipc_code CMD_DATALINK_QUERY = 99"
| "ipc_code CMD_DATALINK_SPEEDTEST = 100"
| "ipc_code CMD_DATALINK_META = 101"
| "ipc_code CMD_DATALINK_INFO = 102"
| "ipc_code CMD_PROVISION_ADAPTER = 113"
| "ipc_code GET_ADAPTER_STATE = 114"
| "ipc_code CMD_BOUNDARY_SNAPSHOT = 112"
| "ipc_code GET_ACTIVITY_HISTORY = 115"
| "ipc_code SUB_DEVICES = 48"
| "ipc_code SUB_MESSAGES = 49"
| "ipc_code SUB_ACTIVITY = 50"
| "ipc_code UNSUB = 63"
| "ipc_code RESULT = 129"
| "ipc_code ERROR = 130"
| "ipc_code EVENT_DEVICE = 192"
| "ipc_code EVENT_MESSAGE = 193"
| "ipc_code EVENT_TERMINAL_OUTPUT = 194"
| "ipc_code EVENT_TERMINAL_EXITED = 195"
| "ipc_code EVENT_TERMINAL_ERROR = 196"
| "ipc_code EVENT_TERMINAL_READY = 197"
| "ipc_code EVENT_ACTIVITY = 198"

definition ipc_types :: "IPCMessageType list" where
  "ipc_types =
     [PING, PONG, QUERY_DEVICES, QUERY_IDENTITY, QUERY_STATUS, QUERY_CONFIG,
      QUERY_CONVERSATIONS, QUERY_MESSAGES, QUERY_SEARCH_MESSAGES, QUERY_CONTACTS,
      QUERY_RESOLVE_NAME, QUERY_AUTO_REPLY, QUERY_PATH_INFO, QUERY_PAGE,
      QUERY_PAGE_SERVER_STATUS, QUERY_ATTACHMENT, CMD_SEND, CMD_EXEC, CMD_ANNOUNCE,
      CMD_DEVICE_STATUS, CMD_SEND_CHAT, CMD_MARK_READ, CMD_DELETE_CONVERSATION,
      CMD_DELETE_MESSAGE, CMD_RETRY_MESSAGE, CMD_SET_CONTACT, CMD_REMOVE_CONTACT,
      CMD_SET_AUTO_REPLY, CMD_SYNC_MESSAGES, CMD_PAGE_DISCONNECT, CMD_REBOOT_DEVICE,
      CMD_REMOTE_INBOX, CMD_REMOTE_MESSAGES, CMD_SELF_UPDATE, CMD_SET_IDENTITY, CMD_PQC_STATUS,
      CMD_PAGE_REGENERATE, CMD_PAGE_SAVE_SITE, CMD_PAGE_REMOVE_SITE, CMD_PAGE_LIST_SITES,
      CMD_PAGE_CRAWL_SITE, CMD_PAGE_GET_CACHED, CMD_TERMINAL_OPEN, CMD_TERMINAL_INPUT,
      CMD_TERMINAL_RESIZE, CMD_TERMINAL_CLOSE, GET_NODES, GET_CORE_CONFIG, SAVE_CORE_CONFIG,
      GET_HUB_STATUS, GET_UNREAD_COUNTS, CMD_BLOCK_PEER, CMD_UNBLOCK_PEER, QUERY_BLOCKED_PEERS,
      CMD_DATALINK_ESTABLISH, CMD_DATALINK_TEARDOWN, CMD_DATALINK_STATUS, CMD_DATALINK_QUERY,
      CMD_DATALINK_SPEEDTEST, CMD_DATALINK_META, CMD_DATALINK_INFO, CMD_PROVISION_ADAPTER,
      GET_ADAPTER_STATE, CMD_BOUNDARY_SNAPSHOT, GET_ACTIVITY_HISTORY, SUB_DEVICES,
      SUB_MESSAGES, SUB_ACTIVITY, UNSUB, RESULT, ERROR, EVENT_DEVICE, EVENT_MESSAGE,
      EVENT_TERMINAL_OUTPUT, EVENT_TERMINAL_EXITED, EVENT_TERMINAL_ERROR, EVENT_TERMINAL_READY,
      EVENT_ACTIVITY]"

interpretation ipc: int_enum ipc_code ipc_types
proof unfold_locales
  show "t \<in> set ipc_types" for t by (cases t) (simp_all add: ipc_types_def)
  show "distinct (map ipc_code ipc_types)" by (simp add: ipc_types_def)
qed

lemma ipc_code_byte: "ipc_code t < 256"
  by (cases t) simp_all

lemma unat_ipc_code: "unat (of_nat (ipc_code t) :: byte) = ipc_code t"
  using ipc_code_byte [of t] by (simp add: unat_of_nat)

definition is_request_type :: "IPCMessageType \<Rightarrow> bool" where
  "is_request_type t \<longleftrightarrow> ipc_code t < 0x80"

definition is_response_type :: "IPCMessageType \<Rightarrow> bool" where
  "is_response_type t \<longleftrightarrow> ipc_code t \<in> {ipc_code PONG, ipc_code RESULT, ipc_code ERROR}"

definition is_event_type :: "IPCMessageType \<Rightarrow> bool" where
  "is_event_type t \<longleftrightarrow> 0xC0 \<le> ipc_code t"

section \<open>Frames\<close>

definition LENGTH_SIZE :: nat where "LENGTH_SIZE = 4"
definition TYPE_SIZE :: nat where "TYPE_SIZE = 1"
definition REQUEST_ID_SIZE :: nat where "REQUEST_ID_SIZE = 16"
definition HEADER_SIZE :: nat where "HEADER_SIZE = TYPE_SIZE + REQUEST_ID_SIZE"
definition MAX_FRAME_PAYLOAD :: nat where "MAX_FRAME_PAYLOAD = 4 * 1024 * 1024"

lemmas frame_consts = LENGTH_SIZE_def TYPE_SIZE_def REQUEST_ID_SIZE_def HEADER_SIZE_def MAX_FRAME_PAYLOAD_def

text \<open>\<^verbatim>\<open>struct.pack(">I", n)\<close> and its inverse.\<close>

definition be32 :: "nat \<Rightarrow> bytes" where
  "be32 n = [of_nat (n div 2 ^ 24), of_nat (n div 2 ^ 16), of_nat (n div 2 ^ 8), of_nat n]"

definition of_be32 :: "bytes \<Rightarrow> nat" where
  "of_be32 bs = foldl (\<lambda>acc b. acc * 256 + unat b) 0 bs"

lemma length_be32 [simp]: "length (be32 n) = 4"
  by (simp add: be32_def)

lemma digits:
  "(n :: nat) = 256 * b + r \<Longrightarrow> b = 256 * c + s \<Longrightarrow> c = 256 * a + t \<Longrightarrow> a' = a \<Longrightarrow>
     ((a' * 256 + t) * 256 + s) * 256 + r = n"
  by simp

lemma of_be32_be32: "n < 2 ^ 32 \<Longrightarrow> of_be32 (be32 n) = n"
proof -
  assume n: "n < 2 ^ 32"
  have a: "n = 256 * (n div 256) + n mod 256" by (simp only: mult_div_mod_eq)
  have b: "n div 256 = 256 * (n div 65536) + n div 256 mod 256"
    using mult_div_mod_eq [of 256 "n div 256"] by (simp add: div_mult2_eq [symmetric])
  have c: "n div 65536 = 256 * (n div 16777216) + n div 65536 mod 256"
    using mult_div_mod_eq [of 256 "n div 65536"] by (simp add: div_mult2_eq [symmetric])
  have d: "n div 16777216 mod 256 = n div 16777216"
    using n by (simp add: less_mult_imp_div_less)
  have "of_be32 (be32 n) =
      ((n div 16777216 mod 256 * 256 + n div 65536 mod 256) * 256 + n div 256 mod 256) * 256 + n mod 256"
    by (simp add: of_be32_def be32_def unat_of_nat)
  also have "\<dots> = n" by (rule digits [OF a b c d])
  finally show ?thesis .
qed

type_synonym frame = "IPCMessageType \<times> bytes \<times> pydict"

definition encode_frame :: "msgpack \<Rightarrow> IPCMessageType \<Rightarrow> bytes \<Rightarrow> pydict \<Rightarrow> bytes res" where
  "encode_frame mp t rid d =
     (if length rid \<noteq> REQUEST_ID_SIZE then Inl ValueError
      else bind_res (packb mp (PDict d)) (\<lambda>p.
        if MAX_FRAME_PAYLOAD < length p then Inl PayloadTooLargeError
        else Inr (be32 (TYPE_SIZE + REQUEST_ID_SIZE + length p) @ [of_nat (ipc_code t)] @ rid @ p)))"

definition message_type_of :: "byte \<Rightarrow> IPCMessageType res" where
  "message_type_of b =
     (case int_enum_of ipc_code ipc_types (unat b) of Inl _ \<Rightarrow> Inl FrameDecodeError | Inr t \<Rightarrow> Inr t)"

definition decode_dict :: "msgpack \<Rightarrow> bytes \<Rightarrow> pydict res" where
  "decode_dict mp p =
     (case unpackb_text mp p of Inr (PDict d) \<Rightarrow> Inr d | _ \<Rightarrow> Inl FrameDecodeError)"

definition decode_frame :: "msgpack \<Rightarrow> bytes \<Rightarrow> frame res" where
  "decode_frame mp data =
     (if length data < LENGTH_SIZE then Inl FrameDecodeError
      else
        let total = of_be32 (take LENGTH_SIZE data) in
        if length data < LENGTH_SIZE + total then Inl FrameDecodeError
        else if length data \<le> LENGTH_SIZE then Inl IndexError
        else bind_res (message_type_of (data ! LENGTH_SIZE)) (\<lambda>t.
          let rid = take REQUEST_ID_SIZE (drop (LENGTH_SIZE + TYPE_SIZE) data);
              p = drop (LENGTH_SIZE + TYPE_SIZE + REQUEST_ID_SIZE) (take (LENGTH_SIZE + total) data) in
          bind_res (decode_dict mp p) (\<lambda>d. Inr (t, rid, d))))"

section \<open>Reading from a stream\<close>

datatype ending = ConnectionClosed | Silent

type_synonym stream = "bytes \<times> ending"

text \<open>
  \<^verbatim>\<open>reader.readexactly(n)\<close> under the optional timeout, which passes if the bytes never come.
\<close>

definition read_exactly :: "nat \<Rightarrow> bool \<Rightarrow> stream \<Rightarrow> (bytes \<times> stream) res option" where
  "read_exactly n timeout s =
     (case s of (buf, rest) \<Rightarrow>
        if n \<le> length buf then Some (Inr (take n buf, (drop n buf, rest)))
        else case rest of
          ConnectionClosed \<Rightarrow> Some (Inl IncompleteReadError)
        | Silent \<Rightarrow> if timeout then Some (Inl FrameReadTimeoutError) else None)"

definition parse_body :: "msgpack \<Rightarrow> bytes \<Rightarrow> frame res" where
  "parse_body mp body =
     (case body of
        [] \<Rightarrow> Inl IndexError
      | b # _ \<Rightarrow>
          bind_res (message_type_of b) (\<lambda>t.
            let rid = take REQUEST_ID_SIZE (drop TYPE_SIZE body); p = drop (TYPE_SIZE + REQUEST_ID_SIZE) body in
            bind_res (decode_dict mp p) (\<lambda>d. Inr (t, rid, d))))"

definition read_frame :: "msgpack \<Rightarrow> bool \<Rightarrow> stream \<Rightarrow> (frame \<times> stream) res option" where
  "read_frame mp timeout s =
     (case read_exactly LENGTH_SIZE timeout s of
        None \<Rightarrow> None
      | Some (Inl e) \<Rightarrow> Some (Inl e)
      | Some (Inr (lb, s1)) \<Rightarrow>
          let total = of_be32 lb in
          if MAX_FRAME_PAYLOAD + HEADER_SIZE < total then Some (Inl FrameDecodeError)
          else
            (case read_exactly total timeout s1 of
               None \<Rightarrow> None
             | Some (Inl e) \<Rightarrow> Some (Inl e)
             | Some (Inr (body, s2)) \<Rightarrow>
                 Some (bind_res (parse_body mp body) (\<lambda>f. Inr (f, s2)))))"

text \<open>\<^verbatim>\<open>write_frame\<close> appends the frame to what the peer will read.\<close>

definition write_frame :: "msgpack \<Rightarrow> bytes \<Rightarrow> IPCMessageType \<Rightarrow> bytes \<Rightarrow> pydict \<Rightarrow> bytes res" where
  "write_frame mp out t rid d = bind_res (encode_frame mp t rid d) (\<lambda>f. Inr (out @ f))"

section \<open>Frames as a codec\<close>

definition packs_text :: "msgpack \<Rightarrow> pydict \<Rightarrow> bool" where
  "packs_text mp d \<longleftrightarrow>
     (case packb mp (PDict d) of
        Inl e \<Rightarrow> False
      | Inr p \<Rightarrow> length p \<le> MAX_FRAME_PAYLOAD \<and> unpackb_text mp p = Inr (PDict d))"

definition wf_frame :: "msgpack \<Rightarrow> frame \<Rightarrow> bool" where
  "wf_frame mp f \<longleftrightarrow> (case f of (t, rid, d) \<Rightarrow> length rid = REQUEST_ID_SIZE \<and> packs_text mp d)"

lemma encode_frame_shape:
  assumes "wf_frame mp (t, rid, d)"
  obtains p where "packb mp (PDict d) = Inr p" "length p \<le> MAX_FRAME_PAYLOAD"
    "unpackb_text mp p = Inr (PDict d)" "length rid = 16"
    "encode_frame mp t rid d = Inr (be32 (17 + length p) @ [of_nat (ipc_code t)] @ rid @ p)"
    "of_be32 (be32 (17 + length p)) = 17 + length p"
proof -
  obtain p where p: "packb mp (PDict d) = Inr p" "length p \<le> MAX_FRAME_PAYLOAD"
    "unpackb_text mp p = Inr (PDict d)" and r: "length rid = 16"
    using assms by (auto simp: wf_frame_def packs_text_def REQUEST_ID_SIZE_def split: sum.splits)
  moreover from p r have "encode_frame mp t rid d = Inr (be32 (17 + length p) @ [of_nat (ipc_code t)] @ rid @ p)"
    by (simp add: encode_frame_def frame_consts)
  moreover have "of_be32 (be32 (17 + length p)) = 17 + length p"
    using p(2) by (intro of_be32_be32) (simp add: MAX_FRAME_PAYLOAD_def)
  ultimately show ?thesis by (rule that)
qed

lemma message_type_of_code [simp]: "message_type_of (of_nat (ipc_code t)) = Inr t"
  by (simp add: message_type_of_def unat_ipc_code ipc.of_code)

interpretation ipc_codec: codec "wf_frame mp" "\<lambda>(t, rid, d). encode_frame mp t rid d" "decode_frame mp" for mp
proof unfold_locales
  show "\<exists>b. (case f of (t, rid, d) \<Rightarrow> encode_frame mp t rid d) = Inr b" if w: "wf_frame mp f" for f
  proof -
    obtain t rid d where f: "f = (t, rid, d)" by (cases f)
    obtain b where "encode_frame mp t rid d = Inr b"
      using w unfolding f by (rule encode_frame_shape) blast
    then show ?thesis by (simp add: f)
  qed
  show "decode_frame mp b = Inr f"
    if w: "wf_frame mp f" and e: "(case f of (t, rid, d) \<Rightarrow> encode_frame mp t rid d) = Inr b" for f b
  proof -
    obtain t rid d where f: "f = (t, rid, d)" by (cases f)
    obtain p where p: "unpackb_text mp p = Inr (PDict d)" "length rid = 16"
      "encode_frame mp t rid d = Inr (be32 (17 + length p) @ [of_nat (ipc_code t)] @ rid @ p)"
      "of_be32 (be32 (17 + length p)) = 17 + length p"
      using w unfolding f by (rule encode_frame_shape)
    have b: "b = be32 (17 + length p) @ of_nat (ipc_code t) # rid @ p" using e p(3) by (simp add: f)
    show ?thesis
      using p by (simp add: b f decode_frame_def frame_consts Let_def decode_dict_def nth_append)
  qed
qed

text \<open>
  A frame is decoded to what was encoded, and the stream reader takes exactly that frame:
  whatever follows it stays for the next read.
\<close>

lemma frame_read_back:
  assumes "length rid = REQUEST_ID_SIZE" and "packs_text mp d"
  shows "\<exists>b. encode_frame mp t rid d = Inr b \<and> decode_frame mp b = Inr (t, rid, d) \<and>
             read_frame mp timeout (b @ rest, ending) = Some (Inr ((t, rid, d), (rest, ending)))"
proof -
  have w: "wf_frame mp (t, rid, d)" using assms by (simp add: wf_frame_def)
  obtain p where p: "length p \<le> MAX_FRAME_PAYLOAD" "unpackb_text mp p = Inr (PDict d)" "length rid = 16"
    "encode_frame mp t rid d = Inr (be32 (17 + length p) @ [of_nat (ipc_code t)] @ rid @ p)"
    "of_be32 (be32 (17 + length p)) = 17 + length p"
    using w by (rule encode_frame_shape)
  let ?b = "be32 (17 + length p) @ [of_nat (ipc_code t)] @ rid @ p"
  have "decode_frame mp ?b = Inr (t, rid, d)"
    using ipc_codec.dec_enc [OF w] p(4) by simp
  moreover have "read_frame mp timeout (?b @ rest, ending) = Some (Inr ((t, rid, d), (rest, ending)))"
  proof -
    have "take (17 + length p) (x # rid @ p @ rest) = x # rid @ p" for x using p(3) by (simp add: take_Cons')
    moreover have "drop (17 + length p) (x # rid @ p @ rest) = rest" for x using p(3) by (simp add: drop_Cons')
    ultimately show ?thesis
      using p by (simp add: read_frame_def read_exactly_def parse_body_def frame_consts decode_dict_def Let_def)
  qed
  ultimately show ?thesis using p(4) by blast
qed

section \<open>Properties\<close>

text \<open>
  Every message type is exactly one of request, response and event, so a peer can
  tell from the type byte alone what a frame is.
\<close>

theorem message_types_partition:
  "length (filter (\<lambda>kind. kind t) [is_request_type, is_response_type, is_event_type]) = 1"
  by (cases t) (simp_all add: is_request_type_def is_response_type_def is_event_type_def)

text \<open>
  \<^verbatim>\<open>decode_frame\<close> raises \<^verbatim>\<open>FrameDecodeError\<close> and nothing else, except for the four
  zero bytes, an empty frame: there the read of the type byte raises \<^verbatim>\<open>IndexError\<close>. The stream
  reader does the same on a stream that starts with them.
\<close>

theorem frame_errors:
  "(case decode_frame mp data of
      Inr _ \<Rightarrow> True
    | Inl e \<Rightarrow> (e = IndexError \<and> data = [0, 0, 0, 0]) \<or> (e = FrameDecodeError \<and> data \<noteq> [0, 0, 0, 0])) \<and>
   read_frame mp timeout ([0, 0, 0, 0] @ rest, ending) = Some (Inl IndexError)"
proof
  have m: "message_type_of b = Inl e \<Longrightarrow> e = FrameDecodeError" for b e
    by (auto simp: message_type_of_def split: sum.splits)
  have d: "decode_dict mp p = Inl e \<Longrightarrow> e = FrameDecodeError" for p e
    by (auto simp: decode_dict_def split: sum.splits pyval.splits)
  have zero: "data = [0, 0, 0, 0]" if "length data = 4" "of_be32 data = 0"
  proof -
    have "length data = Suc (Suc (Suc (Suc 0)))" using that(1) by simp
    then obtain a b c e where "data = [a, b, c, e]" by (auto simp: length_Suc_conv)
    with that(2) show ?thesis by (simp add: of_be32_def unat_eq_0)
  qed
  show "case decode_frame mp data of
      Inr _ \<Rightarrow> True
    | Inl e \<Rightarrow> (e = IndexError \<and> data = [0, 0, 0, 0]) \<or> (e = FrameDecodeError \<and> data \<noteq> [0, 0, 0, 0])"
  proof (cases "data = [0, 0, 0, 0]")
    case True
    then show ?thesis by (simp add: decode_frame_def frame_consts of_be32_def)
  next
    case False
    show ?thesis
    proof (cases "decode_frame mp data")
      case (Inl e)
      then have "e = FrameDecodeError"
        using False zero
        by (auto simp: decode_frame_def frame_consts Let_def bind_res_def dest: m d split: if_splits sum.splits)
      with Inl False show ?thesis by simp
    qed simp
  qed
  show "read_frame mp timeout ([0, 0, 0, 0] @ rest, ending) = Some (Inl IndexError)"
    by (simp add: read_frame_def read_exactly_def frame_consts of_be32_def parse_body_def)
qed

end
