(* ===== verification/Py_Text.thy ===== *)
theory Py_Text
  imports Styrened_Prelude
begin

text \<open>
  The text operations of Python that depend on code points rather than bytes, on texts held
  as UTF-8: stripping Unicode white space, slicing by code points, \<^verbatim>\<open>split\<close> and
  \<^verbatim>\<open>join\<close>, the character-class patterns the code gives to \<^verbatim>\<open>re.match\<close>, and the
  \<^verbatim>\<open>LIKE\<close> operator of SQLite.
\<close>

section \<open>Stripping\<close>

text \<open>
  The white space of \<^verbatim>\<open>str.strip\<close>: the ASCII characters of \<open>is_strip_space\<close>, U+0085,
  U+00A0, U+1680, U+2000 to U+200A, U+2028, U+2029, U+202F, U+205F and U+3000. No such sequence
  begins or ends inside another character of a well-formed text.
\<close>

definition bytes_text :: "nat list \<Rightarrow> string" where
  "bytes_text = map char_of"

definition wide_spaces :: "string list" where
  "wide_spaces = map bytes_text
     ([[0xC2, 0x85], [0xC2, 0xA0], [0xE1, 0x9A, 0x80]] @ map (\<lambda>n. [0xE2, 0x80, n]) [0x80..<0x8B] @
      [[0xE2, 0x80, 0xA8], [0xE2, 0x80, 0xA9], [0xE2, 0x80, 0xAF], [0xE2, 0x81, 0x9F], [0xE3, 0x80, 0x80]])"

function strip_from :: "string list \<Rightarrow> string \<Rightarrow> string" where
  "strip_from ws [] = []"
| "strip_from ws (c # cs) =
     (if is_strip_space c then strip_from ws cs
      else case find (\<lambda>w. w \<noteq> [] \<and> prefix w (c # cs)) ws of
             Some w \<Rightarrow> strip_from ws (drop (length w) (c # cs))
           | None \<Rightarrow> c # cs)"
  by pat_completeness auto
termination
  by (relation "measure (\<lambda>(ws, s). length s)") (auto simp: find_Some_iff)

definition py_strip :: "string \<Rightarrow> string" where
  "py_strip s = rev (strip_from (map rev wide_spaces) (rev (strip_from wide_spaces s)))"

text \<open>No white space starts with an ASCII character outside \<open>is_strip_space\<close>.\<close>

definition ascii_char :: "char \<Rightarrow> bool" where
  "ascii_char c \<longleftrightarrow> (of_char c :: nat) < 128"

lemma wide_space_bytes: "w \<in> set wide_spaces \<Longrightarrow> c \<in> set w \<Longrightarrow> \<not> ascii_char c"
  by (auto simp: wide_spaces_def bytes_text_def ascii_char_def)

lemma strip_from_ascii:
  assumes "\<And>w c. w \<in> set ws \<Longrightarrow> c \<in> set w \<Longrightarrow> \<not> ascii_char c"
    and "ascii_char c" and "\<not> is_strip_space c"
  shows "strip_from ws (c # cs) = c # cs"
proof -
  have "find (\<lambda>w. w \<noteq> [] \<and> prefix w (c # cs)) ws = None"
    using assms(1,2) by (auto simp: find_None_iff prefix_Cons)
  with assms(3) show ?thesis by simp
qed

lemma py_strip_ascii:
  assumes "s \<noteq> []" and "ascii_char (hd s)" "\<not> is_strip_space (hd s)"
    and "ascii_char (last s)" "\<not> is_strip_space (last s)"
  shows "py_strip s = s"
proof -
  have l: "strip_from wide_spaces s = s"
    using assms(1-3) strip_from_ascii [of wide_spaces "hd s" "tl s"] wide_space_bytes by (cases s) auto
  have "strip_from (map rev wide_spaces) (last s # rev (butlast s)) = last s # rev (butlast s)"
    by (rule strip_from_ascii) (use assms(4,5) wide_space_bytes in auto)
  moreover have "rev s = last s # rev (butlast s)"
    using assms(1) by (metis append_butlast_last_id rev_eq_Cons_iff rev_rev_ident)
  ultimately have "strip_from (map rev wide_spaces) (rev s) = rev s" by (simp only:)
  then show ?thesis by (simp add: py_strip_def l)
qed

section \<open>Slicing by code points\<close>

text \<open>\<^verbatim>\<open>s[:n]\<close>: the continuation bytes of a character go with it.\<close>

fun py_take :: "nat \<Rightarrow> string \<Rightarrow> string" where
  "py_take n [] = []"
| "py_take n (c # cs) =
     (if utf8_cont (of_char c) then c # py_take n cs
      else case n of 0 \<Rightarrow> [] | Suc k \<Rightarrow> c # py_take k cs)"

lemma py_len_Cons: "py_len (c # cs) = (if utf8_cont (of_char c) then py_len cs else Suc (py_len cs))"
  by (simp add: py_len_def)

lemma py_len_take: "py_len (py_take n s) \<le> n"
  by (induction n s rule: py_take.induct) (auto simp: py_len_def split: nat.split)

lemma py_take_all: "py_len s \<le> n \<Longrightarrow> py_take n s = s"
  by (induction n s rule: py_take.induct) (auto simp: py_len_Cons split: nat.split if_splits)

section \<open>Splitting and joining\<close>

fun split_on :: "char \<Rightarrow> string \<Rightarrow> string list" where
  "split_on sep [] = [[]]"
| "split_on sep (c # cs) =
     (if c = sep then [] # split_on sep cs
      else case split_on sep cs of [] \<Rightarrow> [[c]] | w # ws \<Rightarrow> (c # w) # ws)"

fun join_with :: "string \<Rightarrow> string list \<Rightarrow> string" where
  "join_with sep [] = []"
| "join_with sep [w] = w"
| "join_with sep (w # v # ws) = w @ sep @ join_with sep (v # ws)"

lemma split_on_not_Nil [simp]: "split_on sep s \<noteq> []"
  by (cases s) (auto split: list.split)

lemma split_on_word: "sep \<notin> set w \<Longrightarrow> split_on sep w = [w]"
  by (induction w) auto

lemma split_on_append: "sep \<notin> set w \<Longrightarrow> split_on sep (w @ sep # s) = w # split_on sep s"
  by (induction w) auto

lemma split_join:
  "ws \<noteq> [] \<Longrightarrow> (\<And>w. w \<in> set ws \<Longrightarrow> sep \<notin> set w) \<Longrightarrow> split_on sep (join_with [sep] ws) = ws"
  by (induction "[sep]" ws rule: join_with.induct) (auto simp: split_on_word split_on_append)

section \<open>Patterns\<close>

text \<open>
  \<^verbatim>\<open>re.match(r"^[class]{lo,hi}$", s)\<close>: the dollar also matches before one final newline.
\<close>

definition re_class :: "(char \<Rightarrow> bool) \<Rightarrow> (nat \<Rightarrow> bool) \<Rightarrow> string \<Rightarrow> bool" where
  "re_class ok count s \<longleftrightarrow>
     list_all ok s \<and> count (length s) \<or>
     s \<noteq> [] \<and> last s = CHR 0x0A \<and> list_all ok (butlast s) \<and> count (length s - 1)"

definition is_hex :: "char \<Rightarrow> bool" where
  "is_hex c \<longleftrightarrow> hex_value c \<noteq> None"

text \<open>
  SQLite's \<^verbatim>\<open>LIKE\<close>: a percent sign matches any text, an underscore any one character, and
  ASCII letters match in either case.
\<close>

definition drop_char :: "string \<Rightarrow> string" where
  "drop_char s = dropWhile (\<lambda>c. utf8_cont (of_char c)) (tl s)"

fun like_any :: "(string \<Rightarrow> bool) \<Rightarrow> string \<Rightarrow> bool" where
  "like_any m [] = m []"
| "like_any m (c # cs) = (m (c # cs) \<or> like_any m cs)"

fun like :: "string \<Rightarrow> string \<Rightarrow> bool" where
  "like [] s = (s = [])"
| "like (p # ps) s =
     (if p = CHR ''%'' then like_any (like ps) s
      else if p = CHR ''_'' then s \<noteq> [] \<and> like ps (drop_char s)
      else case s of [] \<Rightarrow> False | c # cs \<Rightarrow> lower_char c = lower_char p \<and> like ps cs)"

lemma like_any_nil: "like_any (like []) s"
  by (induction s) auto

lemma like_prefix:
  assumes "CHR ''%'' \<notin> set p" and "CHR ''_'' \<notin> set p"
  shows "like (p @ ''%'') s \<longleftrightarrow> prefix (lower p) (lower s)"
  using assms
proof (induction p arbitrary: s)
  case Nil
  then show ?case by (simp add: like_any_nil lower_def)
next
  case (Cons a p)
  then show ?case by (cases s) (auto simp: lower_def)
qed

end
