(* ===== verification/Py_Numbers.thy ===== *)
theory Py_Numbers
  imports Py_Values Py_Text
begin

text \<open>
  Conversions of dynamically typed values: \<^verbatim>\<open>int\<close> and \<^verbatim>\<open>list\<close>, as the code applies them to what
  it reads from a socket or a file.
\<close>

section \<open>Python's int\<close>

definition digit_value :: "char \<Rightarrow> int option" where
  "digit_value c = (let n = of_char c :: nat in if 48 \<le> n \<and> n \<le> 57 then Some (int n - 48) else None)"

text \<open>The digits after the first one, with single underscores between them.\<close>

fun decimal :: "string \<Rightarrow> int \<Rightarrow> int option" where
  "decimal [] acc = Some acc"
| "decimal (c # s) acc =
     (case digit_value c of
        Some v \<Rightarrow> decimal s (10 * acc + v)
      | None \<Rightarrow>
          if c \<noteq> CHR ''_'' then None
          else (case s of
                  [] \<Rightarrow> None
                | c' # s' \<Rightarrow> (case digit_value c' of None \<Rightarrow> None | Some v \<Rightarrow> decimal s' (10 * acc + v))))"

definition unsigned_int :: "string \<Rightarrow> int res" where
  "unsigned_int s =
     (case s of
        [] \<Rightarrow> Inl ValueError
      | c # s' \<Rightarrow>
          (case digit_value c of
             None \<Rightarrow> Inl ValueError
           | Some v \<Rightarrow> (case decimal s' v of None \<Rightarrow> Inl ValueError | Some i \<Rightarrow> Inr i)))"

definition int_of_text :: "string \<Rightarrow> int res" where
  "int_of_text s =
     (case py_strip s of
        CHR ''-'' # t \<Rightarrow> map_sum id uminus (unsigned_int t)
      | CHR ''+'' # t \<Rightarrow> unsigned_int t
      | t \<Rightarrow> unsigned_int t)"

text \<open>
  \<^verbatim>\<open>int(v)\<close>: digits are the ASCII digits. A text of more than 4300 digits, which Python refuses,
  does not fit the model's purpose and is read.
\<close>

definition py_int :: "pyval \<Rightarrow> int res" where
  "py_int v =
     (case v of
        PInt i \<Rightarrow> Inr i
      | PBool b \<Rightarrow> Inr (if b then 1 else 0)
      | PFloat q \<Rightarrow> Inr (if 0 \<le> q then \<lfloor>q\<rfloor> else \<lceil>q\<rceil>)
      | PStr s \<Rightarrow> int_of_text s
      | PBytes b \<Rightarrow> if list_all (\<lambda>x. x < 128) b then int_of_text (bytes_str b) else Inl ValueError
      | _ \<Rightarrow> Inl TypeError)"

section \<open>Python's list\<close>

text \<open>The characters of a text: each with its continuation bytes.\<close>

function py_chars :: "string \<Rightarrow> string list" where
  "py_chars [] = []"
| "py_chars (c # cs) =
     (c # takeWhile (\<lambda>x. utf8_cont (of_char x)) cs) # py_chars (dropWhile (\<lambda>x. utf8_cont (of_char x)) cs)"
  by pat_completeness auto
termination
  by (relation "measure length") (auto simp: le_imp_less_Suc length_dropWhile_le)

text \<open>Iterating a value: \<^verbatim>\<open>list(v)\<close>.\<close>

fun py_list :: "pyval \<Rightarrow> pyval list res" where
  "py_list (PList vs) = Inr vs"
| "py_list (PStr s) = Inr (map PStr (py_chars s))"
| "py_list (PBytes b) = Inr (map (\<lambda>x. PInt (uint x)) b)"
| "py_list (PDict d) = Inr (map fst d)"
| "py_list _ = Inl TypeError"

end
