(* ===== verification/Ipc_Requests.thy ===== *)
theory Ipc_Requests
  imports Ipc_Protocol Py_Numbers
begin

text \<open>
  The requests of the control socket (\<^verbatim>\<open>src/styrened/ipc/messages.py\<close>): a constructor for each
  request class, with the fields of the class in their order as arguments, its message type,
  its payload, and the factory \<^verbatim>\<open>create_request\<close> that the receiver applies to a type and a
  payload. The classes are grouped as the file groups them. The fields have any value, since
  the factory checks no types.
\<close>

section \<open>The request classes\<close>

subsection \<open>The query requests\<close>

datatype (plugins only: code size) query_request =
    PingRequest
  | QueryDevicesRequest pyval
  | QueryIdentityRequest
  | QueryStatusRequest
  | QueryConfigRequest
  | QueryConversationsRequest pyval
  | QueryMessagesRequest pyval pyval pyval pyval
  | QuerySearchMessagesRequest pyval pyval pyval

primrec query_msg_type :: "query_request \<Rightarrow> IPCMessageType" where
  "query_msg_type PingRequest = PING"
| "query_msg_type (QueryDevicesRequest styrene_only) = QUERY_DEVICES"
| "query_msg_type QueryIdentityRequest = QUERY_IDENTITY"
| "query_msg_type QueryStatusRequest = QUERY_STATUS"
| "query_msg_type QueryConfigRequest = QUERY_CONFIG"
| "query_msg_type (QueryConversationsRequest include_unread_count) = QUERY_CONVERSATIONS"
| "query_msg_type (QueryMessagesRequest peer_hash limit before_timestamp status_filter) = QUERY_MESSAGES"
| "query_msg_type (QuerySearchMessagesRequest query peer_hash limit) = QUERY_SEARCH_MESSAGES"

primrec query_payload :: "query_request \<Rightarrow> (string \<times> pyval) list" where
  "query_payload PingRequest = []"
| "query_payload (QueryDevicesRequest styrene_only) = [(''styrene_only'', styrene_only)]"
| "query_payload QueryIdentityRequest = []"
| "query_payload QueryStatusRequest = []"
| "query_payload QueryConfigRequest = []"
| "query_payload (QueryConversationsRequest include_unread_count) =
     [(''include_unread_count'', include_unread_count)]"
| "query_payload (QueryMessagesRequest peer_hash limit before_timestamp status_filter) =
     [(''peer_hash'', peer_hash), (''limit'', limit)] @
       (if before_timestamp = PNone then [] else [(''before_timestamp'', before_timestamp)]) @
       (if status_filter = PNone then [] else [(''status_filter'', status_filter)])"
| "query_payload (QuerySearchMessagesRequest query peer_hash limit) =
     [(''query'', query), (''limit'', limit)] @ (if peer_hash = PNone then [] else [(''peer_hash'',
       peer_hash)])"

subsection \<open>The command requests\<close>

datatype (plugins only: code size) command_request =
    CmdSendRequest pyval pyval pyval pyval pyval
  | CmdExecRequest pyval pyval pyval pyval
  | CmdAnnounceRequest
  | CmdDeviceStatusRequest pyval pyval
  | CmdSendChatRequest pyval pyval pyval pyval pyval pyval pyval pyval
  | CmdMarkReadRequest pyval
  | CmdDeleteConversationRequest pyval
  | CmdDeleteMessageRequest pyval
  | CmdRetryMessageRequest pyval

primrec command_msg_type :: "command_request \<Rightarrow> IPCMessageType" where
  "command_msg_type (CmdSendRequest destination msg proto retry tmo) = CMD_SEND"
| "command_msg_type (CmdExecRequest destination command argv tmo) = CMD_EXEC"
| "command_msg_type CmdAnnounceRequest = CMD_ANNOUNCE"
| "command_msg_type (CmdDeviceStatusRequest destination tmo) = CMD_DEVICE_STATUS"
| "command_msg_type (CmdSendChatRequest peer_hash content title
     delivery_method reply_to_hash attachment_data_b64
     attachment_filename attachment_mime) = CMD_SEND_CHAT"
| "command_msg_type (CmdMarkReadRequest peer_hash) = CMD_MARK_READ"
| "command_msg_type (CmdDeleteConversationRequest peer_hash) = CMD_DELETE_CONVERSATION"
| "command_msg_type (CmdDeleteMessageRequest message_id) = CMD_DELETE_MESSAGE"
| "command_msg_type (CmdRetryMessageRequest message_id) = CMD_RETRY_MESSAGE"

primrec command_payload :: "command_request \<Rightarrow> (string \<times> pyval) list" where
  "command_payload (CmdSendRequest destination msg proto retry tmo) =
     [(''destination'', destination), (''message'', msg), (''protocol'', proto), (''retry'',
       retry), (''timeout'', tmo)]"
| "command_payload (CmdExecRequest destination command argv tmo) =
     [(''destination'', destination), (''command'', command), (''args'', argv), (''timeout'', tmo)]"
| "command_payload CmdAnnounceRequest = []"
| "command_payload (CmdDeviceStatusRequest destination tmo) =
     [(''destination'', destination), (''timeout'', tmo)]"
| "command_payload (CmdSendChatRequest peer_hash content title
       delivery_method reply_to_hash attachment_data_b64 attachment_filename attachment_mime) =
     [(''peer_hash'', peer_hash), (''content'', content), (''delivery_method'', delivery_method)]
       @ (if title = PNone then [] else [(''title'', title)]) @
       (if reply_to_hash = PNone then [] else [(''reply_to_hash'', reply_to_hash)]) @
       (if attachment_data_b64 = PNone then [] else [(''attachment_data_b64'',
       attachment_data_b64)] @ (if
       attachment_filename = PNone then [] else [(''attachment_filename'', attachment_filename)])
       @ (if attachment_mime = PNone then [] else [(''attachment_mime'', attachment_mime)]))"
| "command_payload (CmdMarkReadRequest peer_hash) = [(''peer_hash'', peer_hash)]"
| "command_payload (CmdDeleteConversationRequest peer_hash) = [(''peer_hash'', peer_hash)]"
| "command_payload (CmdDeleteMessageRequest message_id) = [(''message_id'', message_id)]"
| "command_payload (CmdRetryMessageRequest message_id) = [(''message_id'', message_id)]"

subsection \<open>Contacts, automatic replies and synchronisation\<close>

datatype (plugins only: code size) contact_request =
    QueryContactsRequest
  | QueryResolveNameRequest pyval pyval
  | CmdSetContactRequest pyval pyval pyval
  | CmdRemoveContactRequest pyval
  | QueryAutoReplyRequest
  | CmdSetAutoReplyRequest pyval pyval pyval
  | CmdSyncMessagesRequest
  | QueryPathInfoRequest pyval

primrec contact_msg_type :: "contact_request \<Rightarrow> IPCMessageType" where
  "contact_msg_type QueryContactsRequest = QUERY_CONTACTS"
| "contact_msg_type (QueryResolveNameRequest nm prefix_match) = QUERY_RESOLVE_NAME"
| "contact_msg_type (CmdSetContactRequest peer_hash alias notes) = CMD_SET_CONTACT"
| "contact_msg_type (CmdRemoveContactRequest peer_hash) = CMD_REMOVE_CONTACT"
| "contact_msg_type QueryAutoReplyRequest = QUERY_AUTO_REPLY"
| "contact_msg_type (CmdSetAutoReplyRequest mode msg cooldown) = CMD_SET_AUTO_REPLY"
| "contact_msg_type CmdSyncMessagesRequest = CMD_SYNC_MESSAGES"
| "contact_msg_type (QueryPathInfoRequest destination_hash) = QUERY_PATH_INFO"

primrec contact_payload :: "contact_request \<Rightarrow> (string \<times> pyval) list" where
  "contact_payload QueryContactsRequest = []"
| "contact_payload (QueryResolveNameRequest nm prefix_match) =
     [(''name'', nm), (''prefix_match'', prefix_match)]"
| "contact_payload (CmdSetContactRequest peer_hash alias notes) =
     [(''peer_hash'', peer_hash), (''alias'', alias)] @ (if notes = PNone then [] else [(''notes'',
       notes)])"
| "contact_payload (CmdRemoveContactRequest peer_hash) = [(''peer_hash'', peer_hash)]"
| "contact_payload QueryAutoReplyRequest = []"
| "contact_payload (CmdSetAutoReplyRequest mode msg cooldown) =
     [(''mode'', mode), (''message'', msg), (''cooldown'', cooldown)]"
| "contact_payload CmdSyncMessagesRequest = []"
| "contact_payload (QueryPathInfoRequest destination_hash) =
     [(''destination_hash'', destination_hash)]"

subsection \<open>Pages and attachments\<close>

datatype (plugins only: code size) page_request =
    QueryPageRequest pyval pyval pyval pyval pyval
  | QueryPageServerStatusRequest
  | QueryAttachmentRequest pyval
  | CmdPageDisconnectRequest pyval
  | CmdPageRegenerateRequest
  | CmdPageSaveSiteRequest pyval pyval pyval pyval
  | CmdPageRemoveSiteRequest pyval
  | CmdPageListSitesRequest
  | CmdPageCrawlSiteRequest pyval pyval
  | CmdPageGetCachedRequest pyval pyval

primrec page_msg_type :: "page_request \<Rightarrow> IPCMessageType" where
  "page_msg_type (QueryPageRequest destination_hash path url form_data tmo) = QUERY_PAGE"
| "page_msg_type QueryPageServerStatusRequest = QUERY_PAGE_SERVER_STATUS"
| "page_msg_type (QueryAttachmentRequest message_id) = QUERY_ATTACHMENT"
| "page_msg_type (CmdPageDisconnectRequest destination_hash) = CMD_PAGE_DISCONNECT"
| "page_msg_type CmdPageRegenerateRequest = CMD_PAGE_REGENERATE"
| "page_msg_type (CmdPageSaveSiteRequest destination_hash display_name refresh_interval max_depth) = CMD_PAGE_SAVE_SITE"
| "page_msg_type (CmdPageRemoveSiteRequest destination_hash) = CMD_PAGE_REMOVE_SITE"
| "page_msg_type CmdPageListSitesRequest = CMD_PAGE_LIST_SITES"
| "page_msg_type (CmdPageCrawlSiteRequest destination_hash max_depth) = CMD_PAGE_CRAWL_SITE"
| "page_msg_type (CmdPageGetCachedRequest destination_hash path) = CMD_PAGE_GET_CACHED"

primrec page_payload :: "page_request \<Rightarrow> (string \<times> pyval) list" where
  "page_payload (QueryPageRequest destination_hash path url form_data tmo) =
     [(''destination_hash'', destination_hash), (''path'', path), (''timeout'', tmo)] @
       (if truthy url then [(''url'', url)] else []) @
       (if form_data = PNone then [] else [(''form_data'', form_data)])"
| "page_payload QueryPageServerStatusRequest = []"
| "page_payload (QueryAttachmentRequest message_id) = [(''message_id'', message_id)]"
| "page_payload (CmdPageDisconnectRequest destination_hash) =
     [(''destination_hash'', destination_hash)]"
| "page_payload CmdPageRegenerateRequest = []"
| "page_payload (CmdPageSaveSiteRequest destination_hash display_name refresh_interval max_depth) =
     [(''destination_hash'', destination_hash), (''display_name'', display_name),
       (''refresh_interval'', refresh_interval), (''max_depth'', max_depth)]"
| "page_payload (CmdPageRemoveSiteRequest destination_hash) =
     [(''destination_hash'', destination_hash)]"
| "page_payload CmdPageListSitesRequest = []"
| "page_payload (CmdPageCrawlSiteRequest destination_hash max_depth) =
     [(''destination_hash'', destination_hash), (''max_depth'', max_depth)]"
| "page_payload (CmdPageGetCachedRequest destination_hash path) =
     [(''destination_hash'', destination_hash), (''path'', path)]"

subsection \<open>The node store, the configuration and the blocked peers\<close>

datatype (plugins only: code size) node_request =
    GetNodesRequest pyval
  | GetCoreConfigRequest
  | SaveCoreConfigRequest pyval
  | GetHubStatusRequest
  | GetUnreadCountsRequest
  | GetAdapterStateRequest
  | GetActivityHistoryRequest pyval
  | CmdBlockPeerRequest pyval pyval pyval
  | CmdUnblockPeerRequest pyval
  | QueryBlockedPeersRequest

primrec node_msg_type :: "node_request \<Rightarrow> IPCMessageType" where
  "node_msg_type (GetNodesRequest styrene_only) = GET_NODES"
| "node_msg_type GetCoreConfigRequest = GET_CORE_CONFIG"
| "node_msg_type (SaveCoreConfigRequest config_dict) = SAVE_CORE_CONFIG"
| "node_msg_type GetHubStatusRequest = GET_HUB_STATUS"
| "node_msg_type GetUnreadCountsRequest = GET_UNREAD_COUNTS"
| "node_msg_type GetAdapterStateRequest = GET_ADAPTER_STATE"
| "node_msg_type (GetActivityHistoryRequest limit) = GET_ACTIVITY_HISTORY"
| "node_msg_type (CmdBlockPeerRequest identity_hash lxmf_dest_hash alias) = CMD_BLOCK_PEER"
| "node_msg_type (CmdUnblockPeerRequest identity_hash) = CMD_UNBLOCK_PEER"
| "node_msg_type QueryBlockedPeersRequest = QUERY_BLOCKED_PEERS"

primrec node_payload :: "node_request \<Rightarrow> (string \<times> pyval) list" where
  "node_payload (GetNodesRequest styrene_only) = [(''styrene_only'', styrene_only)]"
| "node_payload GetCoreConfigRequest = []"
| "node_payload (SaveCoreConfigRequest config_dict) = [(''config_dict'', config_dict)]"
| "node_payload GetHubStatusRequest = []"
| "node_payload GetUnreadCountsRequest = []"
| "node_payload GetAdapterStateRequest = []"
| "node_payload (GetActivityHistoryRequest limit) = [(''limit'', limit)]"
| "node_payload (CmdBlockPeerRequest identity_hash lxmf_dest_hash alias) =
     [(''identity_hash'', identity_hash), (''lxmf_dest_hash'', lxmf_dest_hash), (''alias'', alias)]"
| "node_payload (CmdUnblockPeerRequest identity_hash) = [(''identity_hash'', identity_hash)]"
| "node_payload QueryBlockedPeersRequest = []"

subsection \<open>The data link commands\<close>

datatype (plugins only: code size) datalink_request =
    CmdDatalinkEstablishRequest pyval
  | CmdDatalinkTeardownRequest pyval
  | CmdDatalinkStatusRequest pyval
  | CmdDatalinkQueryRequest pyval
  | CmdDatalinkSpeedtestRequest pyval
  | CmdDatalinkMetaRequest pyval
  | CmdDatalinkInfoRequest pyval

primrec datalink_msg_type :: "datalink_request \<Rightarrow> IPCMessageType" where
  "datalink_msg_type (CmdDatalinkEstablishRequest destination_hash) = CMD_DATALINK_ESTABLISH"
| "datalink_msg_type (CmdDatalinkTeardownRequest destination_hash) = CMD_DATALINK_TEARDOWN"
| "datalink_msg_type (CmdDatalinkStatusRequest destination_hash) = CMD_DATALINK_STATUS"
| "datalink_msg_type (CmdDatalinkQueryRequest destination_hash) = CMD_DATALINK_QUERY"
| "datalink_msg_type (CmdDatalinkSpeedtestRequest destination_hash) = CMD_DATALINK_SPEEDTEST"
| "datalink_msg_type (CmdDatalinkMetaRequest destination_hash) = CMD_DATALINK_META"
| "datalink_msg_type (CmdDatalinkInfoRequest destination_hash) = CMD_DATALINK_INFO"

primrec datalink_payload :: "datalink_request \<Rightarrow> (string \<times> pyval) list" where
  "datalink_payload (CmdDatalinkEstablishRequest destination_hash) =
     [(''destination_hash'', destination_hash)]"
| "datalink_payload (CmdDatalinkTeardownRequest destination_hash) =
     [(''destination_hash'', destination_hash)]"
| "datalink_payload (CmdDatalinkStatusRequest destination_hash) =
     [(''destination_hash'', destination_hash)]"
| "datalink_payload (CmdDatalinkQueryRequest destination_hash) =
     [(''destination_hash'', destination_hash)]"
| "datalink_payload (CmdDatalinkSpeedtestRequest destination_hash) =
     [(''destination_hash'', destination_hash)]"
| "datalink_payload (CmdDatalinkMetaRequest destination_hash) =
     [(''destination_hash'', destination_hash)]"
| "datalink_payload (CmdDatalinkInfoRequest destination_hash) =
     [(''destination_hash'', destination_hash)]"

subsection \<open>Single devices and the own identity\<close>

datatype (plugins only: code size) device_request =
    CmdBoundarySnapshotRequest
  | CmdRebootDeviceRequest pyval pyval pyval
  | CmdProvisionAdapterRequest pyval
  | CmdSelfUpdateRequest pyval pyval pyval
  | CmdSetIdentityRequest pyval pyval pyval
  | PQCStatusRequest pyval
  | CmdRemoteInboxRequest pyval pyval pyval
  | CmdRemoteMessagesRequest pyval pyval pyval pyval

primrec device_msg_type :: "device_request \<Rightarrow> IPCMessageType" where
  "device_msg_type CmdBoundarySnapshotRequest = CMD_BOUNDARY_SNAPSHOT"
| "device_msg_type (CmdRebootDeviceRequest destination delay tmo) = CMD_REBOOT_DEVICE"
| "device_msg_type (CmdProvisionAdapterRequest adapter_name) = CMD_PROVISION_ADAPTER"
| "device_msg_type (CmdSelfUpdateRequest destination ver tmo) = CMD_SELF_UPDATE"
| "device_msg_type (CmdSetIdentityRequest display_name icon short_name) = CMD_SET_IDENTITY"
| "device_msg_type (PQCStatusRequest peer_hash) = CMD_PQC_STATUS"
| "device_msg_type (CmdRemoteInboxRequest destination limit tmo) = CMD_REMOTE_INBOX"
| "device_msg_type (CmdRemoteMessagesRequest destination peer_hash limit tmo) = CMD_REMOTE_MESSAGES"

primrec device_payload :: "device_request \<Rightarrow> (string \<times> pyval) list" where
  "device_payload CmdBoundarySnapshotRequest = []"
| "device_payload (CmdRebootDeviceRequest destination delay tmo) =
     [(''destination'', destination), (''delay'', delay), (''timeout'', tmo)]"
| "device_payload (CmdProvisionAdapterRequest adapter_name) = [(''adapter_name'', adapter_name)]"
| "device_payload (CmdSelfUpdateRequest destination ver tmo) =
     [(''destination'', destination), (''version'', ver), (''timeout'', tmo)]"
| "device_payload (CmdSetIdentityRequest display_name icon short_name) =
     [(''display_name'', display_name), (''icon'', icon)] @
       (if short_name = PNone then [] else [(''short_name'', short_name)])"
| "device_payload (PQCStatusRequest peer_hash) = [(''peer_hash'', peer_hash)]"
| "device_payload (CmdRemoteInboxRequest destination limit tmo) =
     [(''destination'', destination), (''limit'', limit), (''timeout'', tmo)]"
| "device_payload (CmdRemoteMessagesRequest destination peer_hash limit tmo) =
     [(''destination'', destination), (''peer_hash'', peer_hash), (''limit'', limit), (''timeout'',
       tmo)]"

subsection \<open>Terminals\<close>

datatype (plugins only: code size) terminal_request =
    CmdTerminalOpenRequest pyval pyval pyval pyval pyval
  | CmdTerminalInputRequest pyval pyval
  | CmdTerminalResizeRequest pyval pyval pyval
  | CmdTerminalCloseRequest pyval

primrec terminal_msg_type :: "terminal_request \<Rightarrow> IPCMessageType" where
  "terminal_msg_type (CmdTerminalOpenRequest destination term_type nrows ncols shell) = CMD_TERMINAL_OPEN"
| "terminal_msg_type (CmdTerminalInputRequest session_id data_b64) = CMD_TERMINAL_INPUT"
| "terminal_msg_type (CmdTerminalResizeRequest session_id nrows ncols) = CMD_TERMINAL_RESIZE"
| "terminal_msg_type (CmdTerminalCloseRequest session_id) = CMD_TERMINAL_CLOSE"

primrec terminal_payload :: "terminal_request \<Rightarrow> (string \<times> pyval) list" where
  "terminal_payload (CmdTerminalOpenRequest destination term_type nrows ncols shell) =
     [(''destination'', destination), (''term_type'', term_type), (''rows'', nrows), (''cols'',
       ncols)] @ (if shell = PNone then [] else [(''shell'', shell)])"
| "terminal_payload (CmdTerminalInputRequest session_id data_b64) =
     [(''session_id'', session_id), (''data_b64'', data_b64)]"
| "terminal_payload (CmdTerminalResizeRequest session_id nrows ncols) =
     [(''session_id'', session_id), (''rows'', nrows), (''cols'', ncols)]"
| "terminal_payload (CmdTerminalCloseRequest session_id) = [(''session_id'', session_id)]"

subsection \<open>Subscriptions\<close>

datatype (plugins only: code size) subscription_request =
    SubMessagesRequest pyval
  | SubDevicesRequest
  | SubActivityRequest
  | UnsubRequest pyval

primrec subscription_msg_type :: "subscription_request \<Rightarrow> IPCMessageType" where
  "subscription_msg_type (SubMessagesRequest peer_hashes) = SUB_MESSAGES"
| "subscription_msg_type SubDevicesRequest = SUB_DEVICES"
| "subscription_msg_type SubActivityRequest = SUB_ACTIVITY"
| "subscription_msg_type (UnsubRequest subscription_type) = UNSUB"

primrec subscription_payload :: "subscription_request \<Rightarrow> (string \<times> pyval) list" where
  "subscription_payload (SubMessagesRequest peer_hashes) =
     (if truthy peer_hashes then [(''peer_hashes'', peer_hashes)] else [])"
| "subscription_payload SubDevicesRequest = []"
| "subscription_payload SubActivityRequest = []"
| "subscription_payload (UnsubRequest subscription_type) =
     (if truthy subscription_type then [(''subscription_type'', subscription_type)] else [])"

subsection \<open>Any request\<close>

datatype (plugins only: code size) ipc_request =
    Query query_request
  | Command command_request
  | Contact contact_request
  | Page page_request
  | Node node_request
  | Datalink datalink_request
  | Device device_request
  | Terminal terminal_request
  | Sub subscription_request

primrec MSG_TYPE :: "ipc_request \<Rightarrow> IPCMessageType" where
  "MSG_TYPE (Query r) = query_msg_type r"
| "MSG_TYPE (Command r) = command_msg_type r"
| "MSG_TYPE (Contact r) = contact_msg_type r"
| "MSG_TYPE (Page r) = page_msg_type r"
| "MSG_TYPE (Node r) = node_msg_type r"
| "MSG_TYPE (Datalink r) = datalink_msg_type r"
| "MSG_TYPE (Device r) = device_msg_type r"
| "MSG_TYPE (Terminal r) = terminal_msg_type r"
| "MSG_TYPE (Sub r) = subscription_msg_type r"

primrec request_entries :: "ipc_request \<Rightarrow> (string \<times> pyval) list" where
  "request_entries (Query r) = query_payload r"
| "request_entries (Command r) = command_payload r"
| "request_entries (Contact r) = contact_payload r"
| "request_entries (Page r) = page_payload r"
| "request_entries (Node r) = node_payload r"
| "request_entries (Datalink r) = datalink_payload r"
| "request_entries (Device r) = device_payload r"
| "request_entries (Terminal r) = terminal_payload r"
| "request_entries (Sub r) = subscription_payload r"

definition to_payload :: "ipc_request \<Rightarrow> pydict" where
  "to_payload r = kv (request_entries r)"

definition to_wire :: "ipc_request \<Rightarrow> IPCMessageType \<times> pydict" where
  "to_wire r = (MSG_TYPE r, to_payload r)"

section \<open>The factory\<close>

text \<open>\<^verbatim>\<open>x if isinstance(x, str) else ""\<close>.\<close>

definition text_or_empty :: "pyval \<Rightarrow> pyval" where
  "text_or_empty v = (case v of PStr _ \<Rightarrow> v | _ \<Rightarrow> PStr [])"

text \<open>
  The branches of the factory by group; \<open>None\<close> means that the type belongs to another group. A
  \<^verbatim>\<open>payload.get\<close> without a default yields \<^verbatim>\<open>None\<close>.
\<close>

definition create_query :: "IPCMessageType \<Rightarrow> pydict \<Rightarrow> ipc_request res option" where
  "create_query t d =
     (if t = PING then Some (Inr (Query PingRequest))
      else if t = QUERY_DEVICES then
          Some (Inr (Query (QueryDevicesRequest (d_get_or d ''styrene_only'' (PBool False)))))
      else if t = QUERY_IDENTITY then Some (Inr (Query QueryIdentityRequest))
      else if t = QUERY_STATUS then Some (Inr (Query QueryStatusRequest))
      else if t = QUERY_CONFIG then Some (Inr (Query QueryConfigRequest))
      else if t = QUERY_CONVERSATIONS then
          Some (Inr (Query (QueryConversationsRequest
          (d_get_or d ''include_unread_count'' (PBool True)))))
      else if t = QUERY_MESSAGES then
          Some (Inr (Query (QueryMessagesRequest (d_get_or d ''peer_hash'' (PStr []))
          (d_get_or d ''limit'' (PInt 50)) (d_get_or d ''before_timestamp'' PNone)
          (d_get_or d ''status_filter'' PNone))))
      else if t = QUERY_SEARCH_MESSAGES then
          Some (Inr (Query (QuerySearchMessagesRequest (d_get_or d ''query'' (PStr []))
          (d_get_or d ''peer_hash'' PNone) (d_get_or d ''limit'' (PInt 50)))))
      else None)"

definition create_command :: "IPCMessageType \<Rightarrow> pydict \<Rightarrow> ipc_request res option" where
  "create_command t d =
     (if t = CMD_SEND then
          Some (Inr (Command (CmdSendRequest (d_get_or d ''destination'' (PStr []))
          (d_get_or d ''message'' (PStr [])) (d_get_or d ''protocol'' (PStr ''chat''))
          (d_get_or d ''retry'' (PBool False)) (d_get_or d ''timeout'' (PFloat 30)))))
      else if t = CMD_EXEC then
          Some (Inr (Command (CmdExecRequest (d_get_or d ''destination'' (PStr []))
          (d_get_or d ''command'' (PStr [])) (d_get_or d ''args'' (PList []))
          (d_get_or d ''timeout'' (PFloat 60)))))
      else if t = CMD_ANNOUNCE then Some (Inr (Command CmdAnnounceRequest))
      else if t = CMD_DEVICE_STATUS then
          Some (Inr (Command (CmdDeviceStatusRequest (d_get_or d ''destination'' (PStr []))
          (d_get_or d ''timeout'' (PFloat 30)))))
      else if t = CMD_SEND_CHAT then
          Some (Inr (Command (CmdSendChatRequest (text_or_empty
          (d_get_or d ''peer_hash'' PNone)) (text_or_empty (d_get_or d ''content'' PNone))
          (d_get_or d ''title'' PNone) (d_get_or d ''delivery_method'' (PStr ''auto''))
          (d_get_or d ''reply_to_hash'' PNone) (d_get_or d ''attachment_data_b64'' PNone)
          (d_get_or d ''attachment_filename'' PNone) (d_get_or d ''attachment_mime'' PNone))))
      else if t = CMD_MARK_READ then
          Some (Inr (Command (CmdMarkReadRequest (d_get_or d ''peer_hash'' (PStr [])))))
      else if t = CMD_DELETE_CONVERSATION then
          Some (Inr (Command (CmdDeleteConversationRequest (d_get_or d ''peer_hash'' (PStr [])))))
      else if t = CMD_DELETE_MESSAGE then
          Some (Inr (Command (CmdDeleteMessageRequest (d_get_or d ''message_id'' (PInt 0)))))
      else if t = CMD_RETRY_MESSAGE then
          Some (Inr (Command (CmdRetryMessageRequest (d_get_or d ''message_id'' (PInt 0)))))
      else None)"

definition create_contact :: "IPCMessageType \<Rightarrow> pydict \<Rightarrow> ipc_request res option" where
  "create_contact t d =
     (if t = QUERY_CONTACTS then Some (Inr (Contact QueryContactsRequest))
      else if t = QUERY_RESOLVE_NAME then
          Some (Inr (Contact (QueryResolveNameRequest (d_get_or d ''name'' (PStr []))
          (d_get_or d ''prefix_match'' (PBool True)))))
      else if t = CMD_SET_CONTACT then
          Some (Inr (Contact (CmdSetContactRequest (d_get_or d ''peer_hash'' (PStr []))
          (d_get_or d ''alias'' (PStr [])) (d_get_or d ''notes'' PNone))))
      else if t = CMD_REMOVE_CONTACT then
          Some (Inr (Contact (CmdRemoveContactRequest (d_get_or d ''peer_hash'' (PStr [])))))
      else if t = QUERY_AUTO_REPLY then Some (Inr (Contact QueryAutoReplyRequest))
      else if t = CMD_SET_AUTO_REPLY then
          Some (Inr (Contact (CmdSetAutoReplyRequest
          (d_get_or d ''mode'' (PStr ''disabled'')) (d_get_or d ''message'' (PStr []))
          (d_get_or d ''cooldown'' (PInt 300)))))
      else if t = CMD_SYNC_MESSAGES then Some (Inr (Contact CmdSyncMessagesRequest))
      else if t = QUERY_PATH_INFO then
          Some (Inr (Contact (QueryPathInfoRequest (d_get_or d ''destination_hash'' (PStr [])))))
      else None)"

definition create_page :: "IPCMessageType \<Rightarrow> pydict \<Rightarrow> ipc_request res option" where
  "create_page t d =
     (if t = QUERY_ATTACHMENT then
          Some (Inr (Page (QueryAttachmentRequest (d_get_or d ''message_id'' (PInt 0)))))
      else if t = QUERY_PAGE then
          Some (Inr (Page (QueryPageRequest (d_get_or d ''destination_hash'' (PStr []))
          (d_get_or d ''path'' (PStr ''/page/index.mu'')) (PStr [])
          (d_get_or d ''form_data'' PNone) (d_get_or d ''timeout'' (PFloat 30)))))
      else if t = QUERY_PAGE_SERVER_STATUS then Some (Inr (Page QueryPageServerStatusRequest))
      else if t = CMD_PAGE_DISCONNECT then
          Some (Inr (Page (CmdPageDisconnectRequest (d_get_or d ''destination_hash'' (PStr [])))))
      else if t = CMD_PAGE_REGENERATE then Some (Inr (Page CmdPageRegenerateRequest))
      else if t = CMD_PAGE_SAVE_SITE then
          Some (Inr (Page (CmdPageSaveSiteRequest (d_get_or d ''destination_hash'' (PStr []))
          (d_get_or d ''display_name'' (PStr []))
          (d_get_or d ''refresh_interval'' (PInt 3600)) (d_get_or d ''max_depth'' (PInt 3)))))
      else if t = CMD_PAGE_REMOVE_SITE then
          Some (Inr (Page (CmdPageRemoveSiteRequest (d_get_or d ''destination_hash'' (PStr [])))))
      else if t = CMD_PAGE_LIST_SITES then Some (Inr (Page CmdPageListSitesRequest))
      else if t = CMD_PAGE_CRAWL_SITE then
          Some (Inr (Page (CmdPageCrawlSiteRequest
          (d_get_or d ''destination_hash'' (PStr [])) (d_get_or d ''max_depth'' (PInt 3)))))
      else if t = CMD_PAGE_GET_CACHED then
          Some (Inr (Page (CmdPageGetCachedRequest
          (d_get_or d ''destination_hash'' (PStr []))
          (d_get_or d ''path'' (PStr ''/page/index.mu'')))))
      else None)"

definition create_node :: "IPCMessageType \<Rightarrow> pydict \<Rightarrow> ipc_request res option" where
  "create_node t d =
     (if t = GET_NODES then
          Some (Inr (Node (GetNodesRequest (d_get_or d ''styrene_only'' (PBool False)))))
      else if t = GET_CORE_CONFIG then Some (Inr (Node GetCoreConfigRequest))
      else if t = SAVE_CORE_CONFIG then
          Some (Inr (Node (SaveCoreConfigRequest (d_get_or d ''config_dict'' (PDict [])))))
      else if t = GET_HUB_STATUS then Some (Inr (Node GetHubStatusRequest))
      else if t = GET_UNREAD_COUNTS then Some (Inr (Node GetUnreadCountsRequest))
      else if t = GET_ADAPTER_STATE then Some (Inr (Node GetAdapterStateRequest))
      else if t = GET_ACTIVITY_HISTORY then
          Some (bind_res (py_int
          (d_get_or d ''limit'' (PInt 200))) (\<lambda>i. Inr (Node (GetActivityHistoryRequest (PInt i)))))
      else if t = CMD_BLOCK_PEER then
          Some (Inr (Node (CmdBlockPeerRequest (d_get_or d ''identity_hash'' (PStr []))
          (d_get_or d ''lxmf_dest_hash'' (PStr [])) (d_get_or d ''alias'' (PStr [])))))
      else if t = CMD_UNBLOCK_PEER then
          Some (Inr (Node (CmdUnblockPeerRequest (d_get_or d ''identity_hash'' (PStr [])))))
      else if t = QUERY_BLOCKED_PEERS then Some (Inr (Node QueryBlockedPeersRequest))
      else None)"

definition create_datalink :: "IPCMessageType \<Rightarrow> pydict \<Rightarrow> ipc_request res option" where
  "create_datalink t d =
     (if t = CMD_DATALINK_ESTABLISH then
          Some (Inr (Datalink (CmdDatalinkEstablishRequest
          (d_get_or d ''destination_hash'' (PStr [])))))
      else if t = CMD_DATALINK_TEARDOWN then
          Some (Inr (Datalink (CmdDatalinkTeardownRequest
          (d_get_or d ''destination_hash'' (PStr [])))))
      else if t = CMD_DATALINK_STATUS then
          Some (Inr (Datalink (CmdDatalinkStatusRequest
          (d_get_or d ''destination_hash'' (PStr [])))))
      else if t = CMD_DATALINK_QUERY then
          Some (Inr (Datalink (CmdDatalinkQueryRequest
          (d_get_or d ''destination_hash'' (PStr [])))))
      else if t = CMD_DATALINK_SPEEDTEST then
          Some (Inr (Datalink (CmdDatalinkSpeedtestRequest
          (d_get_or d ''destination_hash'' (PStr [])))))
      else if t = CMD_DATALINK_META then
          Some (Inr (Datalink (CmdDatalinkMetaRequest (d_get_or d ''destination_hash'' (PStr [])))))
      else if t = CMD_DATALINK_INFO then
          Some (Inr (Datalink (CmdDatalinkInfoRequest (d_get_or d ''destination_hash'' (PStr [])))))
      else None)"

definition create_device :: "IPCMessageType \<Rightarrow> pydict \<Rightarrow> ipc_request res option" where
  "create_device t d =
     (if t = CMD_REBOOT_DEVICE then
          Some (Inr (Device (CmdRebootDeviceRequest (d_get_or d ''destination'' (PStr []))
          (d_get_or d ''delay'' (PInt 0)) (d_get_or d ''timeout'' (PFloat 10)))))
      else if t = CMD_SELF_UPDATE then
          Some (Inr (Device (CmdSelfUpdateRequest (d_get_or d ''destination'' (PStr []))
          (d_get_or d ''version'' PNone) (d_get_or d ''timeout'' (PFloat 120)))))
      else if t = CMD_SET_IDENTITY then
          Some (Inr (Device (CmdSetIdentityRequest (d_get_or d ''display_name'' (PStr []))
          (d_get_or d ''icon'' (PStr [])) (d_get_or d ''short_name'' PNone))))
      else if t = CMD_REMOTE_INBOX then
          Some (Inr (Device (CmdRemoteInboxRequest (d_get_or d ''destination'' (PStr []))
          (d_get_or d ''limit'' (PInt 50)) (d_get_or d ''timeout'' (PFloat 30)))))
      else if t = CMD_REMOTE_MESSAGES then
          Some (Inr (Device (CmdRemoteMessagesRequest (d_get_or d ''destination'' (PStr []))
          (d_get_or d ''peer_hash'' (PStr [])) (d_get_or d ''limit'' (PInt 50))
          (d_get_or d ''timeout'' (PFloat 30)))))
      else if t = CMD_PQC_STATUS then
          Some (Inr (Device (PQCStatusRequest (d_get_or d ''peer_hash'' (PStr [])))))
      else if t = CMD_BOUNDARY_SNAPSHOT then Some (Inr (Device CmdBoundarySnapshotRequest))
      else None)"

definition create_terminal :: "IPCMessageType \<Rightarrow> pydict \<Rightarrow> ipc_request res option" where
  "create_terminal t d =
     (if t = CMD_TERMINAL_OPEN then
          Some (Inr (Terminal (CmdTerminalOpenRequest (d_get_or d ''destination'' (PStr []))
          (d_get_or d ''term_type'' (PStr ''xterm-256color''))
          (d_get_or d ''rows'' (PInt 24)) (d_get_or d ''cols'' (PInt 80))
          (d_get_or d ''shell'' PNone))))
      else if t = CMD_TERMINAL_INPUT then
          Some (Inr (Terminal (CmdTerminalInputRequest (d_get_or d ''session_id'' (PStr []))
          (d_get_or d ''data_b64'' (PStr [])))))
      else if t = CMD_TERMINAL_RESIZE then
          Some (Inr (Terminal (CmdTerminalResizeRequest (d_get_or d ''session_id'' (PStr []))
          (d_get_or d ''rows'' (PInt 24)) (d_get_or d ''cols'' (PInt 80)))))
      else if t = CMD_TERMINAL_CLOSE then
          Some (Inr (Terminal (CmdTerminalCloseRequest (d_get_or d ''session_id'' (PStr [])))))
      else None)"

definition create_subscription :: "IPCMessageType \<Rightarrow> pydict \<Rightarrow> ipc_request res option" where
  "create_subscription t d =
     (if t = SUB_MESSAGES then
          Some (Inr (Sub (SubMessagesRequest (d_get_or d ''peer_hashes'' (PList [])))))
      else if t = SUB_DEVICES then Some (Inr (Sub SubDevicesRequest))
      else if t = SUB_ACTIVITY then Some (Inr (Sub SubActivityRequest))
      else if t = UNSUB then
          Some (Inr (Sub (UnsubRequest (d_get_or d ''subscription_type'' (PStr [])))))
      else None)"

definition create_request :: "IPCMessageType \<Rightarrow> pydict \<Rightarrow> ipc_request res" where
  "create_request t d =
     (case List.map_filter (\<lambda>f. f t d)
        [create_query,
         create_command,
         create_contact,
         create_page,
         create_node,
         create_datalink,
         create_device,
         create_terminal,
         create_subscription] of
        [] \<Rightarrow> Inl ValueError
      | r # _ \<Rightarrow> r)"

section \<open>What arrives\<close>

text \<open>
  The requests that the factory rebuilds from what \<^verbatim>\<open>to_wire\<close> puts on the socket.
\<close>

definition no_value :: "pyval \<Rightarrow> pyval \<Rightarrow> bool" where
  "no_value e v \<longleftrightarrow> truthy v \<or> v = e"

definition is_text :: "pyval \<Rightarrow> bool" where
  "is_text v \<longleftrightarrow> (case v of PStr _ \<Rightarrow> True | _ \<Rightarrow> False)"

definition arrives :: "ipc_request \<Rightarrow> bool" where
  "arrives r \<longleftrightarrow>
     (case r of
        Command (CmdSendChatRequest peer content _ _ _ data filename mime) \<Rightarrow>
          is_text peer \<and> is_text content \<and> (data = PNone \<longrightarrow> filename = PNone \<and> mime = PNone)
      | Page (QueryPageRequest _ _ url _ _) \<Rightarrow> url = PStr []
      | Node (GetActivityHistoryRequest limit) \<Rightarrow> (case limit of PInt _ \<Rightarrow> True | _ \<Rightarrow> False)
      | Device (CmdProvisionAdapterRequest _) \<Rightarrow> False
      | Sub (SubMessagesRequest peers) \<Rightarrow> no_value (PList []) peers
      | Sub (UnsubRequest kind) \<Rightarrow> no_value (PStr []) kind
      | _ \<Rightarrow> True)"

lemmas creators = create_query_def create_command_def create_contact_def create_page_def create_node_def
  create_datalink_def create_device_def create_terminal_def create_subscription_def

definition rebuilt :: "ipc_request \<Rightarrow> ipc_request res" where
  "rebuilt r = create_request (fst (to_wire r)) (snd (to_wire r))"

lemmas rebuild = rebuilt_def to_wire_def to_payload_def create_request_def creators d_get_or_def

lemma query_arrives: "rebuilt (Query r) = Inr (Query r)"
  by (cases r) (simp_all add: rebuild)

lemma command_arrives: "rebuilt (Command r) = Inr (Command r) \<longleftrightarrow> arrives (Command r)"
proof (cases r)
  case (CmdSendChatRequest peer content title meth reply data filename mime)
  then show ?thesis
    by (simp add: rebuild arrives_def text_or_empty_def is_text_def split: pyval.split)
qed (simp_all add: rebuild arrives_def)

lemma contact_arrives: "rebuilt (Contact r) = Inr (Contact r)"
  by (cases r) (simp_all add: rebuild)

lemma page_arrives: "rebuilt (Page r) = Inr (Page r) \<longleftrightarrow> arrives (Page r)"
  by (cases r) (auto simp: rebuild arrives_def)

lemma node_arrives: "rebuilt (Node r) = Inr (Node r) \<longleftrightarrow> arrives (Node r)"
proof (cases r)
  case (GetActivityHistoryRequest limit)
  then show ?thesis by (cases limit) (auto simp: rebuild arrives_def py_int_def)
qed (simp_all add: rebuild arrives_def)

lemma datalink_arrives: "rebuilt (Datalink r) = Inr (Datalink r)"
  by (cases r) (simp_all add: rebuild)

lemma device_arrives:
  "rebuilt (Device r) = (case r of CmdProvisionAdapterRequest _ \<Rightarrow> Inl ValueError | _ \<Rightarrow> Inr (Device r))"
  by (cases r) (simp_all add: rebuild)

lemma terminal_arrives: "rebuilt (Terminal r) = Inr (Terminal r)"
  by (cases r) (simp_all add: rebuild)

lemma sub_arrives: "rebuilt (Sub r) = Inr (Sub r) \<longleftrightarrow> arrives (Sub r)"
  by (cases r) (auto simp: rebuild arrives_def no_value_def)

lemma request_arrives: "rebuilt r = Inr r \<longleftrightarrow> arrives r"
proof (cases r)
  case (Device d)
  then show ?thesis by (cases d) (simp_all add: device_arrives arrives_def)
qed (simp_all add: query_arrives command_arrives contact_arrives page_arrives node_arrives
    datalink_arrives terminal_arrives sub_arrives arrives_def)

section \<open>Properties\<close>

text \<open>
  Claim C19. A request that a client writes to the socket is exactly the request the daemon
  rebuilds from the frame it reads, for every request class but these: the url of a page request
  is lost, a provision request is not known to the factory (\<^verbatim>\<open>ValueError\<close>), a chat message loses
  the name and the type of an attachment without data and any address or text that is not a
  text, and an empty value of another type than the default, or a limit of the history that is
  not a number, comes back as the default or as a number.
\<close>

theorem requests_arrive:
  assumes "length rid = REQUEST_ID_SIZE" and "packs_text mp (to_payload r)"
  shows "\<exists>b. write_frame mp [] (MSG_TYPE r) rid (to_payload r) = Inr b \<and>
    (\<exists>t d. read_frame mp timeout (b @ rest, ending) = Some (Inr ((t, rid, d), (rest, ending))) \<and>
       (create_request t d = Inr r \<longleftrightarrow> arrives r))"
  using frame_read_back [OF assms, of "MSG_TYPE r"] request_arrives [of r]
  by (fastforce simp: write_frame_def rebuilt_def to_wire_def)

definition demo_request :: ipc_request where
  "demo_request = Query (QueryMessagesRequest (PStr ''peer'') (PInt 5) PNone (PStr ''failed''))"

definition demo_pack :: "pydict \<Rightarrow> msgpack" where
  "demo_pack d = \<lparr>packb = (\<lambda>_. Inr [1]), unpackb_strict = (\<lambda>_. Inr (PDict d)),
     unpackb_text = (\<lambda>_. Inr (PDict d)), unpackb_raw = (\<lambda>_. Inr (PDict d))\<rparr>"

theorem requests_arrive_witness:
  "\<exists>b. write_frame (demo_pack (to_payload demo_request)) [] QUERY_MESSAGES (replicate 16 7) (to_payload demo_request) = Inr b \<and>
    (\<exists>t d. read_frame (demo_pack (to_payload demo_request)) False (b @ [0], Silent) =
         Some (Inr ((t, replicate 16 7, d), ([0], Silent))) \<and> create_request t d = Inr demo_request)"
  using requests_arrive [of "replicate 16 7" "demo_pack (to_payload demo_request)" demo_request False "[0]" Silent]
  by (simp add: REQUEST_ID_SIZE_def packs_text_def demo_pack_def MAX_FRAME_PAYLOAD_def demo_request_def arrives_def)

text \<open>The url of a page request is lost.\<close>

lemma page_url_lost:
  "rebuilt (Page (QueryPageRequest dest path url form tmo)) =
     Inr (Page (QueryPageRequest dest path (PStr []) form tmo))"
  by (simp add: rebuild)

end
