(* ===== verification/Mesh_Device.thy ===== *)
theory Mesh_Device
  imports Py_Text Py_Values
begin

text \<open>
  Devices discovered on the mesh (\<^verbatim>\<open>src/styrened/models/mesh_device.py\<close>): the record kept of
  a device, and the parsing of the application data of an announce. The LXMF library and
  \<^verbatim>\<open>json.loads\<close> are arguments.
\<close>

unbundle bit_operations_syntax

section \<open>The device record\<close>

datatype device_type =
    STYRENE_NODE | RNODE | GENERIC | UNKNOWN | HUB | LXMF_PEER | PROPAGATION_NODE | NOMADNET_NODE

primrec device_type_value :: "device_type \<Rightarrow> string" where
  "device_type_value STYRENE_NODE = ''styrene''"
| "device_type_value RNODE = ''rnode''"
| "device_type_value GENERIC = ''generic''"
| "device_type_value UNKNOWN = ''unknown''"
| "device_type_value HUB = ''hub''"
| "device_type_value LXMF_PEER = ''lxmf_peer''"
| "device_type_value PROPAGATION_NODE = ''propagation_node''"
| "device_type_value NOMADNET_NODE = ''nomadnet_node''"

definition device_types :: "device_type list" where
  "device_types =
     [STYRENE_NODE, RNODE, GENERIC, UNKNOWN, HUB, LXMF_PEER, PROPAGATION_NODE, NOMADNET_NODE]"

text \<open>\<^verbatim>\<open>DeviceType(value)\<close>.\<close>

definition device_type_of :: "string \<Rightarrow> device_type res" where
  "device_type_of v =
     (case find (\<lambda>t. device_type_value t = v) device_types of None \<Rightarrow> Inl ValueError | Some t \<Rightarrow> Inr t)"

lemma device_type_of_value [simp]: "device_type_of (device_type_value t) = Inr t"
  by (cases t) (simp_all add: device_type_of_def device_types_def)

datatype node_status = ACTIVE | STALE | LOST

record mesh_device =
  destination_hash :: string
  identity_hash :: string
  dev_name :: string
  device_type :: device_type
  last_announce :: int
  announce_count :: int
  app_data_raw :: "bytes option"
  capabilities :: "string list option"
  dev_version :: "string option"
  lxmf_destination_hash :: "string option"
  short_name :: "string option"
  system_fingerprint :: "string option"
  nomadnet_destination_hash :: "string option"
  discovered_via :: "string option"
  hops :: "int option"
  ygg_address :: "string option"
  b32_address :: "string option"
  web_url :: "string option"

definition status_at :: "rat \<Rightarrow> mesh_device \<Rightarrow> node_status" where
  "status_at now d =
     (let elapsed = now - of_int (last_announce d) in
      if elapsed < 300 then ACTIVE else if elapsed < 900 then STALE else LOST)"

text \<open>\<^verbatim>\<open>int()\<close> of a float truncates towards zero.\<close>

definition int_of_float :: "rat \<Rightarrow> int" where
  "int_of_float q = (if 0 \<le> q then \<lfloor>q\<rfloor> else \<lceil>q\<rceil>)"

definition last_seen_display :: "rat \<Rightarrow> mesh_device \<Rightarrow> string" where
  "last_seen_display now d =
     (let elapsed = int_of_float (now - of_int (last_announce d)) in
      if elapsed < 60 then show_int elapsed @ ''s ago''
      else if elapsed < 3600 then show_int (elapsed div 60) @ ''m ago''
      else if elapsed < 86400 then show_int (elapsed div 3600) @ ''h ago''
      else show_int (elapsed div 86400) @ ''d ago'')"

definition has_auto_reply :: "mesh_device \<Rightarrow> bool" where
  "has_auto_reply d = (case capabilities d of None \<Rightarrow> False | Some cs \<Rightarrow> ''autoreply'' \<in> set cs)"

definition is_styrene_node :: "mesh_device \<Rightarrow> bool" where
  "is_styrene_node d \<longleftrightarrow> device_type d = STYRENE_NODE"

definition is_rnode :: "mesh_device \<Rightarrow> bool" where
  "is_rnode d \<longleftrightarrow> device_type d = RNODE"

definition identity_short :: "mesh_device \<Rightarrow> string" where
  "identity_short d = (if destination_hash d = [] then ''unknown'' else py_take 8 (destination_hash d))"

section \<open>Announces\<close>

record announce_info =
  a_name :: string
  a_type :: device_type
  a_capabilities :: "string list option"
  a_version :: "string option"
  a_lxmf :: "string option"
  a_short_name :: "string option"
  a_fingerprint :: "string option"
  a_nomadnet :: "string option"

definition plain_info :: "string \<Rightarrow> device_type \<Rightarrow> announce_info" where
  "plain_info n t = \<lparr>a_name = n, a_type = t, a_capabilities = None, a_version = None, a_lxmf = None,
     a_short_name = None, a_fingerprint = None, a_nomadnet = None\<rparr>"

definition fingerprint_char :: "char \<Rightarrow> bool" where
  "fingerprint_char c \<longleftrightarrow>
     (let n = (of_char c :: nat) in 97 \<le> n \<and> n \<le> 122 \<or> 65 \<le> n \<and> n \<le> 90 \<or> 48 \<le> n \<and> n \<le> 57) \<or>
     c \<in> set ''._|-''"

definition sanitize_fingerprint :: "string option \<Rightarrow> string option" where
  "sanitize_fingerprint raw =
     (case raw of
        None \<Rightarrow> None
      | Some r \<Rightarrow>
          if r = [] then None
          else if 64 < py_len r \<or> \<not> re_class fingerprint_char (\<lambda>n. 1 \<le> n \<and> n \<le> 64) r then None
          else Some r)"

text \<open>The three functions of the LXMF library the parser calls, any of which may raise.\<close>

record lxmf_lib =
  pn_announce_data_is_valid :: "bytes \<Rightarrow> bool res"
  pn_name_from_app_data :: "bytes \<Rightarrow> string option res"
  display_name_from_app_data :: "bytes \<Rightarrow> string option res"

definition clip_name :: "string \<Rightarrow> string" where
  "clip_name s = (if 32 < py_len s then py_take 32 s else s)"

definition or_hint :: "device_type option \<Rightarrow> device_type \<Rightarrow> device_type" where
  "or_hint h t = (case h of Some x \<Rightarrow> x | None \<Rightarrow> t)"

definition try_lxmf_parse :: "lxmf_lib option \<Rightarrow> bytes \<Rightarrow> device_type option \<Rightarrow> announce_info option" where
  "try_lxmf_parse lib data hint =
     (case lib of
        None \<Rightarrow> None
      | Some l \<Rightarrow>
          (let propagation =
             (case pn_announce_data_is_valid l data of
                Inr True \<Rightarrow>
                  (case pn_name_from_app_data l data of
                     Inl _ \<Rightarrow> None
                   | Inr n \<Rightarrow>
                       Some (plain_info
                         (case n of None \<Rightarrow> ''propagation-node''
                          | Some s \<Rightarrow> if s = [] then ''propagation-node'' else clip_name s)
                         (or_hint hint PROPAGATION_NODE)))
              | _ \<Rightarrow> None) in
           case propagation of
             Some i \<Rightarrow> Some i
           | None \<Rightarrow>
               (case display_name_from_app_data l data of
                  Inr (Some s) \<Rightarrow>
                    if s = [] then None
                    else if prefix ''[styrene]'' s
                    then Some (plain_info (clip_name (py_strip (drop 9 s))) STYRENE_NODE)
                    else Some (plain_info (clip_name s) (or_hint hint LXMF_PEER))
                | _ \<Rightarrow> None)))"

definition nth_part :: "string list \<Rightarrow> nat \<Rightarrow> string option" where
  "nth_part parts i = (if i < length parts \<and> parts ! i \<noteq> [] then Some (parts ! i) else None)"

text \<open>The colon-separated format of Styrene nodes, and the truth of a JSON name.\<close>

definition parse_styrene :: "string \<Rightarrow> announce_info" where
  "parse_styrene s =
     (if CHR '':'' \<in> set s then
        (let parts = split_on (CHR '':'') s in
         \<lparr>a_name = (if 1 < length parts then parts ! 1 else ''styrene-node''),
          a_type = STYRENE_NODE,
          a_capabilities = map_option (split_on (CHR '','')) (nth_part parts 3),
          a_version = (if 2 < length parts then Some (parts ! 2) else None),
          a_lxmf = nth_part parts 4,
          a_short_name = nth_part parts 5,
          a_fingerprint = sanitize_fingerprint (nth_part parts 6),
          a_nomadnet = nth_part parts 7\<rparr>)
      else plain_info ''styrene-node'' STYRENE_NODE)"

definition parse_json_name :: "(string \<Rightarrow> pyval res) \<Rightarrow> string \<Rightarrow> device_type option \<Rightarrow> announce_info" where
  "parse_json_name loads s hint =
     (case loads s of
        Inr (PDict d) \<Rightarrow>
          (let first = d_get_or d ''display_name'' PNone;
               chosen = (if truthy first then first else d_get_or d ''name'' PNone) in
           case chosen of
             PStr n \<Rightarrow> if n = [] then plain_info ''unknown'' (or_hint hint UNKNOWN)
                       else plain_info (clip_name n) (or_hint hint GENERIC)
           | _ \<Rightarrow> plain_info ''unknown'' (or_hint hint UNKNOWN))
      | _ \<Rightarrow> plain_info ''unknown'' (or_hint hint UNKNOWN))"

definition parse_announce_data ::
    "lxmf_lib option \<Rightarrow> (string \<Rightarrow> pyval res) \<Rightarrow> bytes option \<Rightarrow> device_type option \<Rightarrow> announce_info" where
  "parse_announce_data lib loads app_data hint =
     (case app_data of
        None \<Rightarrow> plain_info ''unknown'' (or_hint hint UNKNOWN)
      | Some [] \<Rightarrow> plain_info ''unknown'' (or_hint hint UNKNOWN)
      | Some (b # bs) \<Rightarrow>
          (case (if b AND 0xF0 = 0x90 \<or> b = 0xDC then try_lxmf_parse lib (b # bs) hint else None) of
             Some i \<Rightarrow> i
           | None \<Rightarrow>
               (case decode_utf8 (b # bs) of
                  Inl _ \<Rightarrow> plain_info ''binary-data'' (or_hint hint UNKNOWN)
                | Inr raw \<Rightarrow>
                    (let s = py_strip raw in
                     if lower s = ''styrene'' \<or> prefix ''styrene:'' (lower s) then parse_styrene s
                     else if prefix ''rnode:'' (lower s) then plain_info (split_on (CHR '':'') s ! 1) RNODE
                     else if prefix ''{'' s \<and> suffix ''}'' s then parse_json_name loads s hint
                     else if s \<noteq> [] \<and> \<not> prefix ''0x'' s \<and> py_len s \<le> 64 \<and>
                             \<not> list_ex (\<lambda>c. c \<in> set ''{}[]()<>'') s
                     then plain_info s (or_hint hint GENERIC)
                     else plain_info ''unknown'' (or_hint hint UNKNOWN)))))"

definition create_mesh_device ::
    "lxmf_lib option \<Rightarrow> (string \<Rightarrow> pyval res) \<Rightarrow> rat \<Rightarrow> string \<Rightarrow> string \<Rightarrow> bytes option \<Rightarrow> int
      \<Rightarrow> device_type option \<Rightarrow> mesh_device" where
  "create_mesh_device lib loads now dest ident app_data count hint =
     (let i = parse_announce_data lib loads app_data hint in
      \<lparr>destination_hash = dest, identity_hash = ident,
       dev_name = (if a_name i = ''unknown'' then ''device-'' @ py_take 8 dest else a_name i),
       device_type = a_type i, last_announce = int_of_float now, announce_count = count,
       app_data_raw = app_data, capabilities = a_capabilities i, dev_version = a_version i,
       lxmf_destination_hash = a_lxmf i, short_name = a_short_name i, system_fingerprint = a_fingerprint i,
       nomadnet_destination_hash = a_nomadnet i, discovered_via = None, hops = None, ygg_address = None,
       b32_address = None, web_url = None\<rparr>)"

text \<open>The announce of the command line tool, \<^verbatim>\<open>f"styrene:{hostname}:{__version__}:cli:::{fingerprint}"\<close>.\<close>

definition announce_app_data :: "string \<Rightarrow> string \<Rightarrow> string \<Rightarrow> bytes" where
  "announce_app_data hostname version fingerprint =
     str_bytes (''styrene:'' @ hostname @ '':'' @ version @ '':cli:::'' @ fingerprint)"

section \<open>Properties\<close>

lemma of_char_ascii: "ascii_char c \<longleftrightarrow> (of_char c :: nat) < 128"
  by (simp add: ascii_char_def)

lemma fingerprint_char_plain: "fingerprint_char c \<Longrightarrow> ascii_char c \<and> \<not> is_strip_space c \<and> c \<noteq> CHR '':''"
  by (auto simp: fingerprint_char_def ascii_char_def is_strip_space_def is_space_def Let_def)

lemma sanitize_accepts:
  assumes "fp \<noteq> []" and "list_all fingerprint_char fp" and "length fp \<le> 64"
  shows "sanitize_fingerprint (Some fp) = Some fp"
proof -
  have "py_len fp \<le> length fp" by (simp add: py_len_def)
  with assms show ?thesis by (cases fp) (auto simp: sanitize_fingerprint_def re_class_def)
qed

text \<open>An ASCII announce in the Styrene format reaches its parser whatever library is there.\<close>

lemma parse_announce_styrene:
  assumes "is_ascii s" and "prefix ''styrene:'' s" and "\<not> is_strip_space (last s)"
  shows "parse_announce_data lib loads (Some (str_bytes s)) hint = parse_styrene s"
proof -
  obtain t where t: "s = ''styrene:'' @ t" using assms(2) by (auto simp: prefix_def)
  have "last s \<in> set s" using t by simp
  with assms(1) have "ascii_char (last s)" by (simp add: is_ascii_def list_all_iff ascii_char_def)
  then have st: "py_strip s = s"
    using t assms(3) by (intro py_strip_ascii) (auto simp: ascii_char_def is_strip_space_def is_space_def Let_def)
  obtain b bs where b: "str_bytes s = b # bs" "b = 0x73"
    by (simp add: t str_bytes_def)
  have "prefix ''styrene:'' (lower s)" by (simp add: t lower_def lower_char_def Let_def)
  moreover have "\<not> (b AND 0xF0 = 0x90 \<or> b = 0xDC)" by (simp add: b(2))
  moreover have "decode_utf8 (b # bs) = Inr s" using decode_utf8_ascii [OF assms(1)] by (simp only: b(1))
  ultimately show ?thesis
    unfolding b(1) parse_announce_data_def by (simp add: st)
qed

text \<open>
  Claim C17. A node that announces itself with the command line tool is recognised for what it
  is by every other node, whichever parsers that node has: type, host name, version,
  capability list and system fingerprint come back as announced, for any host name and
  version without a colon and any fingerprint of permitted characters.
\<close>

theorem own_announce_recognised:
  assumes "is_ascii host" and "is_ascii ver" and "CHR '':'' \<notin> set host" and "CHR '':'' \<notin> set ver"
    and "fp \<noteq> []" and "list_all fingerprint_char fp" and "length fp \<le> 64" and "host \<noteq> ''unknown''"
  shows "create_mesh_device lib loads now dest ident (Some (announce_app_data host ver fp)) n hint =
     \<lparr>destination_hash = dest, identity_hash = ident, dev_name = host, device_type = STYRENE_NODE,
      last_announce = int_of_float now, announce_count = n, app_data_raw = Some (announce_app_data host ver fp),
      capabilities = Some [''cli''], dev_version = Some ver, lxmf_destination_hash = None, short_name = None,
      system_fingerprint = Some fp, nomadnet_destination_hash = None, discovered_via = None, hops = None,
      ygg_address = None, b32_address = None, web_url = None\<rparr>"
proof -
  let ?parts = "[''styrene'', host, ver, ''cli'', [], [], fp]"
  define s where "s = ''styrene:'' @ host @ '':'' @ ver @ '':cli:::'' @ fp"
  have fpc: "fingerprint_char (last fp)" and colon: "CHR '':'' \<notin> set fp"
    using assms(5,6) fingerprint_char_plain by (auto simp: list_all_iff)
  have "is_ascii fp"
    using assms(6) fingerprint_char_plain by (auto simp: is_ascii_def list_all_iff ascii_char_def)
  then have "is_ascii s" using assms(1,2) by (simp add: s_def is_ascii_def)
  moreover have "prefix ''styrene:'' s" by (simp add: s_def)
  moreover have "\<not> is_strip_space (last s)" using fpc fingerprint_char_plain assms(5) by (simp add: s_def)
  ultimately have parse: "parse_announce_data lib loads (Some (announce_app_data host ver fp)) hint = parse_styrene s"
    unfolding announce_app_data_def s_def [symmetric] by (rule parse_announce_styrene)
  have "s = join_with [CHR '':''] ?parts" by (simp add: s_def)
  then have split: "split_on (CHR '':'') s = ?parts"
    using colon assms(3,4) by (simp only:) (rule split_join, auto)
  have "parse_styrene s = \<lparr>a_name = host, a_type = STYRENE_NODE, a_capabilities = Some [''cli''],
      a_version = Some ver, a_lxmf = None, a_short_name = None, a_fingerprint = Some fp, a_nomadnet = None\<rparr>"
    using assms(5-7) sanitize_accepts unfolding parse_styrene_def split
    by (simp add: s_def nth_part_def Let_def)
  with parse have "parse_announce_data lib loads (Some (announce_app_data host ver fp)) hint =
     \<lparr>a_name = host, a_type = STYRENE_NODE, a_capabilities = Some [''cli''],
      a_version = Some ver, a_lxmf = None, a_short_name = None, a_fingerprint = Some fp, a_nomadnet = None\<rparr>" by simp
  with assms(8) show ?thesis by (simp add: create_mesh_device_def)
qed

theorem own_announce_recognised_witness:
  "create_mesh_device None (\<lambda>_. Inl ValueError) 1000 ''aa'' ''bb''
       (Some (announce_app_data ''host-1'' ''0.11.2'' ''nixos|24.11|x86_64|zah57xw'')) 1 (Some LXMF_PEER) =
     \<lparr>destination_hash = ''aa'', identity_hash = ''bb'', dev_name = ''host-1'', device_type = STYRENE_NODE,
      last_announce = int_of_float 1000, announce_count = 1,
      app_data_raw = Some (announce_app_data ''host-1'' ''0.11.2'' ''nixos|24.11|x86_64|zah57xw''),
      capabilities = Some [''cli''], dev_version = Some ''0.11.2'', lxmf_destination_hash = None, short_name = None,
      system_fingerprint = Some ''nixos|24.11|x86_64|zah57xw'', nomadnet_destination_hash = None,
      discovered_via = None, hops = None, ygg_address = None, b32_address = None, web_url = None\<rparr>"
  by (rule own_announce_recognised) (simp_all add: is_ascii_def fingerprint_char_def)

end
