(* ===== verification/Ipc_Data.thy ===== *)
theory Ipc_Data
  imports Ipc_Requests Mesh_Device
begin

text \<open>
  The answers and events of the control socket (\<^verbatim>\<open>src/styrened/ipc/messages.py\<close>): the response
  classes, the data classes that travel inside them, and the conversions to and from payload
  dictionaries. A class is a constructor with its fields in their order.
\<close>

section \<open>Data classes\<close>

text \<open>What a data class promises: reading back what it wrote gives the same object.\<close>

locale dict_codec =
  fixes to_d :: "'a \<Rightarrow> pydict"
    and from_d :: "pydict \<Rightarrow> 'a"
  assumes read_back: "from_d (to_d x) = x"
begin

lemma to_inj: "to_d x = to_d y \<longleftrightarrow> x = y"
  by (metis read_back)

lemma map_read_back: "map (\<lambda>d. from_d d) (map to_d xs) = xs"
  by (induction xs) (simp_all add: read_back)

end

section \<open>Responses\<close>

definition ERR_UNKNOWN :: int where "ERR_UNKNOWN = 0"
definition INVALID_REQUEST :: int where "INVALID_REQUEST = 1"
definition NOT_FOUND :: int where "NOT_FOUND = 2"
definition ERR_TIMEOUT :: int where "ERR_TIMEOUT = 3"
definition TRANSPORT_ERROR :: int where "TRANSPORT_ERROR = 4"
definition NOT_INITIALIZED :: int where "NOT_INITIALIZED = 5"
definition PERMISSION_DENIED :: int where "PERMISSION_DENIED = 6"
definition INTERNAL_ERROR :: int where "INTERNAL_ERROR = 7"

datatype (plugins only: code size) PongResponse = PongResponse
    (pr_success: pyval) (pr_daemon_version: pyval)

fun PongResponse_to_payload :: "PongResponse \<Rightarrow> pydict" where
  "PongResponse_to_payload (PongResponse success daemon_version) =
     kv ([(''success'', success), (''daemon_version'', daemon_version)])"

definition PongResponse_from_payload :: "pydict \<Rightarrow> PongResponse" where
  "PongResponse_from_payload d =
     PongResponse
       (d_get_or d ''success'' (PBool True)) (d_get_or d ''daemon_version'' (PStr []))"

datatype (plugins only: code size) ResultResponse = ResultResponse
    (rr_success: pyval) (rr_data: pyval)

fun ResultResponse_to_payload :: "ResultResponse \<Rightarrow> pydict" where
  "ResultResponse_to_payload (ResultResponse success data) =
     kv ([(''success'', success), (''data'', data)])"

definition ResultResponse_from_payload :: "pydict \<Rightarrow> ResultResponse" where
  "ResultResponse_from_payload d =
     ResultResponse
       (d_get_or d ''success'' (PBool True)) (d_get_or d ''data'' (PDict []))"

datatype (plugins only: code size) ErrorResponse = ErrorResponse
    (er_success: pyval) (er_code: pyval) (er_message: pyval) (er_details: pyval)

fun ErrorResponse_to_payload :: "ErrorResponse \<Rightarrow> pydict" where
  "ErrorResponse_to_payload (ErrorResponse _ code msg details) =
     kv ([(''success'', PBool False), (''code'', code), (''message'', msg)] @
       (if truthy details then [(''details'', details)] else []))"

definition ErrorResponse_from_payload :: "pydict \<Rightarrow> ErrorResponse" where
  "ErrorResponse_from_payload d =
     ErrorResponse
       (PBool False) (d_get_or d ''code'' (PInt ERR_UNKNOWN))
       (d_get_or d ''message'' (PStr ''Unknown error'')) (d_get_or d ''details'' PNone)"


definition error_of :: "int \<Rightarrow> string \<Rightarrow> ErrorResponse" where
  "error_of code msg = ErrorResponse (PBool False) (PInt code) (PStr msg) PNone"

definition not_found :: "string \<Rightarrow> ErrorResponse" where
  "not_found msg = error_of NOT_FOUND msg"

definition timeout_error :: "string \<Rightarrow> ErrorResponse" where
  "timeout_error msg = error_of ERR_TIMEOUT msg"

definition invalid_request :: "string \<Rightarrow> ErrorResponse" where
  "invalid_request msg = error_of INVALID_REQUEST msg"

definition internal_error :: "string \<Rightarrow> ErrorResponse" where
  "internal_error msg = error_of INTERNAL_ERROR msg"

section \<open>Data carried by responses and events\<close>

datatype (plugins only: code size) DeviceInfo = DeviceInfo
    (di_destination_hash: pyval) (di_identity_hash: pyval) (di_name: pyval)
    (di_device_type: pyval) (di_status: pyval) (di_is_styrene_node: pyval)
    (di_lxmf_destination_hash: pyval) (di_last_announce: pyval) (di_announce_count: pyval)
    (di_short_name: pyval) (di_system_fingerprint: pyval) (di_discovered_via: pyval)
    (di_hops: pyval)

fun DeviceInfo_to_dict :: "DeviceInfo \<Rightarrow> pydict" where
  "DeviceInfo_to_dict (DeviceInfo dest ident nm kind status styrene lxmf heard announces short fp via nhops) =
     kv ([(''destination_hash'', dest), (''identity_hash'', ident), (''name'', nm),
        (''device_type'', kind), (''status'', status), (''is_styrene_node'', styrene),
        (''lxmf_destination_hash'', lxmf), (''last_announce'', heard),
        (''announce_count'', announces), (''short_name'', short), (''system_fingerprint'', fp),
        (''discovered_via'', via), (''hops'', nhops)])"

definition DeviceInfo_from_dict :: "pydict \<Rightarrow> DeviceInfo" where
  "DeviceInfo_from_dict d =
     DeviceInfo
       (d_get_or d ''destination_hash'' (PStr [])) (d_get_or d ''identity_hash'' (PStr []))
       (d_get_or d ''name'' (PStr [])) (d_get_or d ''device_type'' (PStr ''unknown''))
       (d_get_or d ''status'' (PStr ''unknown'')) (d_get_or d ''is_styrene_node'' (PBool False))
       (d_get_or d ''lxmf_destination_hash'' PNone) (d_get_or d ''last_announce'' (PFloat 0))
       (d_get_or d ''announce_count'' (PInt 0)) (d_get_or d ''short_name'' PNone)
       (d_get_or d ''system_fingerprint'' PNone) (d_get_or d ''discovered_via'' PNone)
       (d_get_or d ''hops'' PNone)"

datatype (plugins only: code size) IdentityInfo = IdentityInfo
    (ii_identity_hash: pyval) (ii_destination_hash: pyval) (ii_lxmf_destination_hash: pyval)
    (ii_display_name: pyval) (ii_icon: pyval) (ii_short_name: pyval)

fun IdentityInfo_to_dict :: "IdentityInfo \<Rightarrow> pydict" where
  "IdentityInfo_to_dict (IdentityInfo ident dest lxmf display_name icon short) =
     kv ([(''identity_hash'', ident), (''destination_hash'', dest),
        (''lxmf_destination_hash'', lxmf), (''display_name'', display_name), (''icon'', icon),
        (''short_name'', short)])"

definition IdentityInfo_from_dict :: "pydict \<Rightarrow> IdentityInfo" where
  "IdentityInfo_from_dict d =
     IdentityInfo
       (d_get_or d ''identity_hash'' (PStr [])) (d_get_or d ''destination_hash'' (PStr []))
       (d_get_or d ''lxmf_destination_hash'' (PStr [])) (d_get_or d ''display_name'' (PStr []))
       (d_get_or d ''icon'' (PStr [])) (d_get_or d ''short_name'' PNone)"

datatype (plugins only: code size) DaemonStatus = DaemonStatus
    (ds_uptime: pyval) (ds_daemon_version: pyval) (ds_rns_initialized: pyval)
    (ds_lxmf_initialized: pyval) (ds_device_count: pyval) (ds_styrene_node_count: pyval)
    (ds_pending_rpc_count: pyval) (ds_interface_count: pyval) (ds_hub_status: pyval)
    (ds_hub_address: pyval) (ds_interfaces: pyval) (ds_propagation_enabled: pyval)
    (ds_transport_enabled: pyval) (ds_active_links: pyval)

fun DaemonStatus_to_dict :: "DaemonStatus \<Rightarrow> pydict" where
  "DaemonStatus_to_dict (DaemonStatus uptime daemon_version rns_initialized lxmf_initialized device_count
       styrene_node_count pending_rpc_count interface_count hub_status hub_address interfaces
       propagation_enabled transport_enabled active_links) =
     kv ([(''uptime'', uptime), (''daemon_version'', daemon_version),
        (''rns_initialized'', rns_initialized), (''lxmf_initialized'', lxmf_initialized),
        (''device_count'', device_count), (''styrene_node_count'', styrene_node_count),
        (''pending_rpc_count'', pending_rpc_count), (''interface_count'', interface_count),
        (''hub_status'', hub_status), (''hub_address'', hub_address),
        (''interfaces'', interfaces), (''propagation_enabled'', propagation_enabled),
        (''transport_enabled'', transport_enabled), (''active_links'', active_links)])"

definition DaemonStatus_from_dict :: "pydict \<Rightarrow> DaemonStatus" where
  "DaemonStatus_from_dict d =
     DaemonStatus
       (d_get_or d ''uptime'' (PFloat 0)) (d_get_or d ''daemon_version'' (PStr []))
       (d_get_or d ''rns_initialized'' (PBool False))
       (d_get_or d ''lxmf_initialized'' (PBool False)) (d_get_or d ''device_count'' (PInt 0))
       (d_get_or d ''styrene_node_count'' (PInt 0)) (d_get_or d ''pending_rpc_count'' (PInt 0))
       (d_get_or d ''interface_count'' (PInt 0)) (d_get_or d ''hub_status'' (PStr ''disabled''))
       (d_get_or d ''hub_address'' PNone) (d_get_or d ''interfaces'' (PList []))
       (d_get_or d ''propagation_enabled'' (PBool False))
       (d_get_or d ''transport_enabled'' (PBool False)) (d_get_or d ''active_links'' (PInt 0))"

datatype (plugins only: code size) ExecResultInfo = ExecResultInfo
    (eri_exit_code: pyval) (eri_stdout: pyval) (eri_stderr: pyval)

fun ExecResultInfo_to_dict :: "ExecResultInfo \<Rightarrow> pydict" where
  "ExecResultInfo_to_dict (ExecResultInfo exit_code stdout stderr) =
     kv ([(''exit_code'', exit_code), (''stdout'', stdout), (''stderr'', stderr)])"

definition ExecResultInfo_from_dict :: "pydict \<Rightarrow> ExecResultInfo" where
  "ExecResultInfo_from_dict d =
     ExecResultInfo
       (d_get_or d ''exit_code'' (PInt (- 1))) (d_get_or d ''stdout'' (PStr []))
       (d_get_or d ''stderr'' (PStr []))"

datatype (plugins only: code size) RemoteStatusInfo = RemoteStatusInfo
    (rsi_uptime: pyval) (rsi_ip: pyval) (rsi_services: pyval) (rsi_disk_used: pyval)
    (rsi_disk_total: pyval) (rsi_available_commands: pyval) (rsi_hostname: pyval)
    (rsi_arch: pyval) (rsi_os_id: pyval) (rsi_os_version: pyval) (rsi_nixos_generation: pyval)
    (rsi_styrened_version: pyval)

fun RemoteStatusInfo_to_dict :: "RemoteStatusInfo \<Rightarrow> pydict" where
  "RemoteStatusInfo_to_dict (RemoteStatusInfo uptime ip services disk_used disk_total available_commands hostname arch
       os_id os_version nixos_generation styrened_version) =
     kv ([(''uptime'', uptime), (''ip'', ip), (''services'', services), (''disk_used'', disk_used),
        (''disk_total'', disk_total), (''available_commands'', available_commands)] @
       (if truthy hostname then [(''hostname'', hostname)] else []) @
       (if truthy arch then [(''arch'', arch)] else []) @
       (if truthy os_id then [(''os_id'', os_id)] else []) @
       (if truthy os_version then [(''os_version'', os_version)] else []) @
       (if truthy nixos_generation then [(''nixos_generation'', nixos_generation)] else []) @
       (if truthy styrened_version then [(''styrened_version'', styrened_version)] else []))"

definition RemoteStatusInfo_from_dict :: "pydict \<Rightarrow> RemoteStatusInfo" where
  "RemoteStatusInfo_from_dict d =
     RemoteStatusInfo
       (d_get_or d ''uptime'' (PFloat 0)) (d_get_or d ''ip'' (PStr []))
       (d_get_or d ''services'' (PList [])) (d_get_or d ''disk_used'' (PInt 0))
       (d_get_or d ''disk_total'' (PInt 0)) (d_get_or d ''available_commands'' (PList []))
       (d_get_or d ''hostname'' PNone) (d_get_or d ''arch'' PNone) (d_get_or d ''os_id'' PNone)
       (d_get_or d ''os_version'' PNone) (d_get_or d ''nixos_generation'' PNone)
       (d_get_or d ''styrened_version'' PNone)"

datatype (plugins only: code size) RebootResultInfo = RebootResultInfo
    (rri_success: pyval) (rri_message: pyval) (rri_scheduled_time: pyval)

fun RebootResultInfo_to_dict :: "RebootResultInfo \<Rightarrow> pydict" where
  "RebootResultInfo_to_dict (RebootResultInfo success msg scheduled_time) =
     kv ([(''success'', success), (''message'', msg), (''scheduled_time'', scheduled_time)])"

definition RebootResultInfo_from_dict :: "pydict \<Rightarrow> RebootResultInfo" where
  "RebootResultInfo_from_dict d =
     RebootResultInfo
       (d_get_or d ''success'' (PBool False)) (d_get_or d ''message'' (PStr []))
       (d_get_or d ''scheduled_time'' PNone)"

datatype (plugins only: code size) SelfUpdateResultInfo = SelfUpdateResultInfo
    (suri_success: pyval) (suri_message: pyval) (suri_old_version: pyval)
    (suri_new_version: pyval)

fun SelfUpdateResultInfo_to_dict :: "SelfUpdateResultInfo \<Rightarrow> pydict" where
  "SelfUpdateResultInfo_to_dict (SelfUpdateResultInfo success msg old_version new_version) =
     kv ([(''success'', success), (''message'', msg), (''old_version'', old_version),
        (''new_version'', new_version)])"

definition SelfUpdateResultInfo_from_dict :: "pydict \<Rightarrow> SelfUpdateResultInfo" where
  "SelfUpdateResultInfo_from_dict d =
     SelfUpdateResultInfo
       (d_get_or d ''success'' (PBool False)) (d_get_or d ''message'' (PStr []))
       (d_get_or d ''old_version'' (PStr [])) (d_get_or d ''new_version'' PNone)"

datatype (plugins only: code size) MessageEventPayload = MessageEventPayload
    (mep_event_type: pyval) (mep_message_id: pyval) (mep_peer_hash: pyval) (mep_content: pyval)
    (mep_timestamp: pyval) (mep_status: pyval) (mep_is_outgoing: pyval)
    (mep_delivery_method: pyval)

fun MessageEventPayload_to_payload :: "MessageEventPayload \<Rightarrow> pydict" where
  "MessageEventPayload_to_payload (MessageEventPayload event_type message_id peer_hash content timestamp status is_outgoing
       delivery_method) =
     kv ([(''event_type'', event_type), (''message_id'', message_id), (''peer_hash'', peer_hash),
        (''content'', content), (''timestamp'', timestamp), (''status'', status),
        (''is_outgoing'', is_outgoing), (''delivery_method'', delivery_method)])"

definition MessageEventPayload_from_payload :: "pydict \<Rightarrow> MessageEventPayload" where
  "MessageEventPayload_from_payload d =
     MessageEventPayload
       (d_get_or d ''event_type'' (PStr [])) (d_get_or d ''message_id'' (PInt 0))
       (d_get_or d ''peer_hash'' (PStr [])) (d_get_or d ''content'' PNone)
       (d_get_or d ''timestamp'' (PFloat 0)) (d_get_or d ''status'' (PStr ''pending''))
       (d_get_or d ''is_outgoing'' (PBool False)) (d_get_or d ''delivery_method'' PNone)"

primrec node_status_value :: "node_status \<Rightarrow> string" where
  "node_status_value ACTIVE = ''active''"
| "node_status_value STALE = ''stale''"
| "node_status_value LOST = ''lost''"

text \<open>\<^verbatim>\<open>0 or 0.0\<close> is the float.\<close>

definition from_mesh_device :: "rat \<Rightarrow> mesh_device \<Rightarrow> DeviceInfo" where
  "from_mesh_device now d =
     DeviceInfo (PStr (destination_hash d)) (PStr (identity_hash d)) (PStr (dev_name d))
       (PStr (device_type_value (device_type d))) (PStr (node_status_value (status_at now d)))
       (PBool (is_styrene_node d)) (opt PStr (lxmf_destination_hash d))
       (if last_announce d = 0 then PFloat 0 else PInt (last_announce d)) (PInt (announce_count d))
       (opt PStr (short_name d)) (opt PStr (system_fingerprint d)) (opt PStr (discovered_via d))
       (opt PInt (hops d))"

definition exec_success :: "ExecResultInfo \<Rightarrow> bool" where
  "exec_success r \<longleftrightarrow> as_int (eri_exit_code r) = Some 0 \<or> eri_exit_code r = PFloat 0"

definition uptime_part :: "int \<Rightarrow> string \<Rightarrow> string list" where
  "uptime_part n unit = (if 0 < n then [show_int n @ unit] else [])"

definition format_uptime :: "RemoteStatusInfo \<Rightarrow> string res" where
  "format_uptime r =
     bind_res (py_int (rsi_uptime r)) (\<lambda>u.
       let days = u div 86400; r1 = u mod 86400; hours = r1 div 3600; r2 = r1 mod 3600;
           parts = uptime_part days ''d'' @ uptime_part hours ''h'' @ uptime_part (r2 div 60) ''m'';
           seconds = r2 mod 60 in
       Inr (join_with '' '' (parts @ (if 0 < seconds \<or> parts = [] then [show_int seconds @ ''s''] else []))))"

section \<open>Reading back\<close>

interpretation pong: dict_codec PongResponse_to_payload PongResponse_from_payload
proof
  show "PongResponse_from_payload (PongResponse_to_payload x) = x" for x by (cases x) (simp add: PongResponse_from_payload_def d_get_or_def)
qed

interpretation answer: dict_codec ResultResponse_to_payload ResultResponse_from_payload
proof
  show "ResultResponse_from_payload (ResultResponse_to_payload x) = x" for x by (cases x) (simp add: ResultResponse_from_payload_def d_get_or_def)
qed

interpretation device_info: dict_codec DeviceInfo_to_dict DeviceInfo_from_dict
proof
  show "DeviceInfo_from_dict (DeviceInfo_to_dict x) = x" for x by (cases x) (simp add: DeviceInfo_from_dict_def d_get_or_def)
qed

interpretation identity_info: dict_codec IdentityInfo_to_dict IdentityInfo_from_dict
proof
  show "IdentityInfo_from_dict (IdentityInfo_to_dict x) = x" for x by (cases x) (simp add: IdentityInfo_from_dict_def d_get_or_def)
qed

interpretation daemon_status: dict_codec DaemonStatus_to_dict DaemonStatus_from_dict
proof
  show "DaemonStatus_from_dict (DaemonStatus_to_dict x) = x" for x by (cases x) (simp add: DaemonStatus_from_dict_def d_get_or_def)
qed

interpretation exec_result_info: dict_codec ExecResultInfo_to_dict ExecResultInfo_from_dict
proof
  show "ExecResultInfo_from_dict (ExecResultInfo_to_dict x) = x" for x by (cases x) (simp add: ExecResultInfo_from_dict_def d_get_or_def)
qed

interpretation reboot_info: dict_codec RebootResultInfo_to_dict RebootResultInfo_from_dict
proof
  show "RebootResultInfo_from_dict (RebootResultInfo_to_dict x) = x" for x by (cases x) (simp add: RebootResultInfo_from_dict_def d_get_or_def)
qed

interpretation update_info: dict_codec SelfUpdateResultInfo_to_dict SelfUpdateResultInfo_from_dict
proof
  show "SelfUpdateResultInfo_from_dict (SelfUpdateResultInfo_to_dict x) = x" for x by (cases x) (simp add: SelfUpdateResultInfo_from_dict_def d_get_or_def)
qed

interpretation message_event: dict_codec MessageEventPayload_to_payload MessageEventPayload_from_payload
proof
  show "MessageEventPayload_from_payload (MessageEventPayload_to_payload x) = x" for x by (cases x) (simp add: MessageEventPayload_from_payload_def d_get_or_def)
qed

definition or_none :: "pyval \<Rightarrow> pyval" where
  "or_none v = (if truthy v then v else PNone)"

section \<open>Properties\<close>

text \<open>
  Every answer and every event reads back as it was written, with two exceptions: an
  error always comes back with \<^verbatim>\<open>success\<close> false and with empty details replaced by \<^verbatim>\<open>None\<close>, and
  the optional texts of a remote status come back as \<^verbatim>\<open>None\<close> when they are empty.
\<close>

theorem answers_read_back:
  "PongResponse_from_payload (PongResponse_to_payload p) = p \<and>
   ResultResponse_from_payload (ResultResponse_to_payload r) = r \<and>
   DeviceInfo_from_dict (DeviceInfo_to_dict d) = d \<and>
   IdentityInfo_from_dict (IdentityInfo_to_dict i) = i \<and>
   DaemonStatus_from_dict (DaemonStatus_to_dict s) = s \<and>
   ExecResultInfo_from_dict (ExecResultInfo_to_dict x) = x \<and>
   RebootResultInfo_from_dict (RebootResultInfo_to_dict b) = b \<and>
   SelfUpdateResultInfo_from_dict (SelfUpdateResultInfo_to_dict u) = u \<and>
   MessageEventPayload_from_payload (MessageEventPayload_to_payload m) = m \<and>
   ErrorResponse_from_payload (ErrorResponse_to_payload e) =
     ErrorResponse (PBool False) (er_code e) (er_message e) (or_none (er_details e)) \<and>
   RemoteStatusInfo_from_dict (RemoteStatusInfo_to_dict t) =
     RemoteStatusInfo (rsi_uptime t) (rsi_ip t) (rsi_services t) (rsi_disk_used t) (rsi_disk_total t)
       (rsi_available_commands t) (or_none (rsi_hostname t)) (or_none (rsi_arch t)) (or_none (rsi_os_id t))
       (or_none (rsi_os_version t)) (or_none (rsi_nixos_generation t)) (or_none (rsi_styrened_version t))"
proof -
  have "ErrorResponse_from_payload (ErrorResponse_to_payload e) =
     ErrorResponse (PBool False) (er_code e) (er_message e) (or_none (er_details e))"
    by (cases e) (simp add: ErrorResponse_from_payload_def d_get_or_def or_none_def)
  moreover have "RemoteStatusInfo_from_dict (RemoteStatusInfo_to_dict t) =
     RemoteStatusInfo (rsi_uptime t) (rsi_ip t) (rsi_services t) (rsi_disk_used t) (rsi_disk_total t)
       (rsi_available_commands t) (or_none (rsi_hostname t)) (or_none (rsi_arch t)) (or_none (rsi_os_id t))
       (or_none (rsi_os_version t)) (or_none (rsi_nixos_generation t)) (or_none (rsi_styrened_version t))"
    by (cases t) (simp add: RemoteStatusInfo_from_dict_def d_get_or_def or_none_def)
  ultimately show ?thesis
    by (simp add: pong.read_back answer.read_back device_info.read_back identity_info.read_back
        daemon_status.read_back exec_result_info.read_back reboot_info.read_back update_info.read_back
        message_event.read_back)
qed

end
