(* ===== verification/Rpc_Messages.thy ===== *)
theory Rpc_Messages
  imports Py_Values
begin

text \<open>
  The request and response objects of the RPC layer
  (\<^verbatim>\<open>src/styrened/rpc/messages.py\<close>) with \<^verbatim>\<open>to_dict\<close> and \<^verbatim>\<open>from_dict\<close>. A dataclass is a
  constructor whose arguments are its fields, except \<^verbatim>\<open>type\<close>, which always has its default.
  The fields hold whatever value the dictionary had.
\<close>

section \<open>Requests\<close>

datatype request =
    StatusRequest
  | ExecCommand (ec_command: pyval) (ec_args: pyval)
  | RebootCommand (rc_delay: pyval)
  | UpdateConfigCommand (uc_config_updates: pyval)
  | ProvisionRequest (pr_adapter: pyval)

primrec request_to_dict :: "request \<Rightarrow> pydict" where
  "request_to_dict StatusRequest = kv [(''type'', PStr ''status_request'')]"
| "request_to_dict (ExecCommand c a) = kv [(''command'', c), (''args'', a), (''type'', PStr ''exec'')]"
| "request_to_dict (RebootCommand d) = kv [(''delay'', d), (''type'', PStr ''reboot'')]"
| "request_to_dict (UpdateConfigCommand u) = kv [(''type'', PStr ''update_config''), (''config'', u)]"
| "request_to_dict (ProvisionRequest a) = kv [(''adapter'', a), (''type'', PStr ''provision'')]"

definition StatusRequest_from_dict :: "pydict \<Rightarrow> request res" where
  "StatusRequest_from_dict d = Inr StatusRequest"

definition ExecCommand_from_dict :: "pydict \<Rightarrow> request res" where
  "ExecCommand_from_dict d =
     bind_res (d_item d ''command'') (\<lambda>c. Inr (ExecCommand c (d_get_or d ''args'' (PList []))))"

definition RebootCommand_from_dict :: "pydict \<Rightarrow> request res" where
  "RebootCommand_from_dict d = Inr (RebootCommand (d_get_or d ''delay'' (PInt 0)))"

definition UpdateConfigCommand_from_dict :: "pydict \<Rightarrow> request res" where
  "UpdateConfigCommand_from_dict d = Inr (UpdateConfigCommand (d_get_or d ''config'' (PDict [])))"

definition ProvisionRequest_from_dict :: "pydict \<Rightarrow> request res" where
  "ProvisionRequest_from_dict d = Inr (ProvisionRequest (d_get_or d ''adapter'' (PStr [])))"

text \<open>The class that a request belongs to, by its parser.\<close>

primrec request_class :: "request \<Rightarrow> pydict \<Rightarrow> request res" where
  "request_class StatusRequest = StatusRequest_from_dict"
| "request_class (ExecCommand _ _) = ExecCommand_from_dict"
| "request_class (RebootCommand _) = RebootCommand_from_dict"
| "request_class (UpdateConfigCommand _) = UpdateConfigCommand_from_dict"
| "request_class (ProvisionRequest _) = ProvisionRequest_from_dict"

section \<open>Responses\<close>

datatype response =
    StatusResponse (sr_uptime: pyval) (sr_ip: pyval) (sr_services: pyval) (sr_disk_used: pyval)
      (sr_disk_total: pyval) (sr_styrened_version: pyval) (sr_hostname: pyval) (sr_arch: pyval)
      (sr_os_id: pyval) (sr_os_version: pyval) (sr_nixos_generation: pyval)
      (sr_available_commands: pyval)
  | ExecResult (er_exit_code: pyval) (er_stdout: pyval) (er_stderr: pyval)
  | RebootResult (rr_success: pyval) (rr_message: pyval) (rr_scheduled_time: pyval)
  | UpdateConfigResult (ur_success: pyval) (ur_message: pyval) (ur_updated_keys: pyval)
  | SelfUpdateResult (su_success: pyval) (su_message: pyval) (su_old_version: pyval) (su_new_version: pyval)
  | InboxResponse (ir_conversations: pyval)
  | MessagesResponse (mr_messages: pyval)
  | ProvisionResponse (ps_success: pyval) (ps_adapter: pyval) (ps_installed_path: pyval) (ps_error: pyval)

primrec response_to_dict :: "response \<Rightarrow> pydict" where
  "response_to_dict (StatusResponse u i s du dt v h a oi ov g c) =
     kv [(''uptime'', u), (''ip'', i), (''services'', s), (''disk_used'', du), (''disk_total'', dt),
         (''styrened_version'', v), (''hostname'', h), (''arch'', a), (''os_id'', oi),
         (''os_version'', ov), (''nixos_generation'', g), (''available_commands'', c),
         (''type'', PStr ''status_response'')]"
| "response_to_dict (ExecResult e so se) =
     kv [(''exit_code'', e), (''stdout'', so), (''stderr'', se), (''type'', PStr ''exec_result'')]"
| "response_to_dict (RebootResult s m t) =
     kv [(''success'', s), (''message'', m), (''scheduled_time'', t), (''type'', PStr ''reboot_result'')]"
| "response_to_dict (UpdateConfigResult s m k) =
     kv [(''success'', s), (''message'', m), (''updated_keys'', k), (''type'', PStr ''update_config_result'')]"
| "response_to_dict (SelfUpdateResult s m ov nv) =
     kv [(''success'', s), (''message'', m), (''old_version'', ov), (''new_version'', nv),
         (''type'', PStr ''self_update_result'')]"
| "response_to_dict (InboxResponse c) = kv [(''conversations'', c), (''type'', PStr ''inbox_response'')]"
| "response_to_dict (MessagesResponse m) = kv [(''messages'', m), (''type'', PStr ''messages_response'')]"
| "response_to_dict (ProvisionResponse s a p e) =
     kv [(''success'', s), (''adapter'', a), (''installed_path'', p), (''error'', e)]"

definition StatusResponse_from_dict :: "pydict \<Rightarrow> response res" where
  "StatusResponse_from_dict d =
     bind_res (d_item d ''uptime'') (\<lambda>u. bind_res (d_item d ''ip'') (\<lambda>i.
     bind_res (d_item d ''services'') (\<lambda>s. bind_res (d_item d ''disk_used'') (\<lambda>du.
     bind_res (d_item d ''disk_total'') (\<lambda>dt.
       Inr (StatusResponse u i s du dt (d_get_or d ''styrened_version'' PNone)
         (d_get_or d ''hostname'' PNone) (d_get_or d ''arch'' PNone) (d_get_or d ''os_id'' PNone)
         (d_get_or d ''os_version'' PNone) (d_get_or d ''nixos_generation'' PNone)
         (d_get_or d ''available_commands'' PNone)))))))"

definition ExecResult_from_dict :: "pydict \<Rightarrow> response res" where
  "ExecResult_from_dict d =
     bind_res (d_item d ''exit_code'') (\<lambda>e. bind_res (d_item d ''stdout'') (\<lambda>so.
     bind_res (d_item d ''stderr'') (\<lambda>se. Inr (ExecResult e so se))))"

definition RebootResult_from_dict :: "pydict \<Rightarrow> response res" where
  "RebootResult_from_dict d =
     bind_res (d_item d ''success'') (\<lambda>s. bind_res (d_item d ''message'') (\<lambda>m.
     Inr (RebootResult s m (d_get_or d ''scheduled_time'' PNone))))"

definition UpdateConfigResult_from_dict :: "pydict \<Rightarrow> response res" where
  "UpdateConfigResult_from_dict d =
     bind_res (d_item d ''success'') (\<lambda>s. bind_res (d_item d ''message'') (\<lambda>m.
     Inr (UpdateConfigResult s m (d_get_or d ''updated_keys'' (PList [])))))"

definition SelfUpdateResult_from_dict :: "pydict \<Rightarrow> response res" where
  "SelfUpdateResult_from_dict d =
     bind_res (d_item d ''success'') (\<lambda>s. bind_res (d_item d ''message'') (\<lambda>m.
     bind_res (d_item d ''old_version'') (\<lambda>ov.
     Inr (SelfUpdateResult s m ov (d_get_or d ''new_version'' PNone)))))"

definition InboxResponse_from_dict :: "pydict \<Rightarrow> response res" where
  "InboxResponse_from_dict d = Inr (InboxResponse (d_get_or d ''conversations'' (PList [])))"

definition MessagesResponse_from_dict :: "pydict \<Rightarrow> response res" where
  "MessagesResponse_from_dict d = Inr (MessagesResponse (d_get_or d ''messages'' (PList [])))"

definition ProvisionResponse_from_dict :: "pydict \<Rightarrow> response res" where
  "ProvisionResponse_from_dict d =
     Inr (ProvisionResponse (d_get_or d ''success'' (PBool False)) (d_get_or d ''adapter'' (PStr []))
       (d_get_or d ''installed_path'' PNone) (d_get_or d ''error'' PNone))"

primrec response_class :: "response \<Rightarrow> pydict \<Rightarrow> response res" where
  "response_class (StatusResponse _ _ _ _ _ _ _ _ _ _ _ _) = StatusResponse_from_dict"
| "response_class (ExecResult _ _ _) = ExecResult_from_dict"
| "response_class (RebootResult _ _ _) = RebootResult_from_dict"
| "response_class (UpdateConfigResult _ _ _) = UpdateConfigResult_from_dict"
| "response_class (SelfUpdateResult _ _ _ _) = SelfUpdateResult_from_dict"
| "response_class (InboxResponse _) = InboxResponse_from_dict"
| "response_class (MessagesResponse _) = MessagesResponse_from_dict"
| "response_class (ProvisionResponse _ _ _ _) = ProvisionResponse_from_dict"

lemmas from_dict_defs = StatusRequest_from_dict_def ExecCommand_from_dict_def RebootCommand_from_dict_def
  UpdateConfigCommand_from_dict_def ProvisionRequest_from_dict_def StatusResponse_from_dict_def
  ExecResult_from_dict_def RebootResult_from_dict_def UpdateConfigResult_from_dict_def
  SelfUpdateResult_from_dict_def InboxResponse_from_dict_def MessagesResponse_from_dict_def
  ProvisionResponse_from_dict_def

section \<open>Derived values\<close>

text \<open>\<^verbatim>\<open>ExecResult.success\<close>: \<^verbatim>\<open>exit_code == 0\<close>.\<close>

definition exec_success :: "response \<Rightarrow> bool" where
  "exec_success r \<longleftrightarrow> as_int (er_exit_code r) = Some 0 \<or> er_exit_code r = PFloat 0"

fun join_words :: "string list \<Rightarrow> string" where
  "join_words [] = []"
| "join_words [w] = w"
| "join_words (w # ws) = w @ '' '' @ join_words ws"

definition uptime_parts :: "int \<Rightarrow> (int \<times> char) list" where
  "uptime_parts u =
     (let days = u div 86400; r1 = u mod 86400; hours = r1 div 3600; r2 = r1 mod 3600;
          minutes = r2 div 60; seconds = r2 mod 60;
          parts = (if days > 0 then [(days, CHR ''d'')] else []) @
                  (if hours > 0 then [(hours, CHR ''h'')] else []) @
                  (if minutes > 0 then [(minutes, CHR ''m'')] else []) in
      parts @ (if seconds > 0 \<or> parts = [] then [(seconds, CHR ''s'')] else []))"

definition format_uptime :: "int \<Rightarrow> string" where
  "format_uptime u = join_words (map (\<lambda>(n, c). show_int n @ [c]) (uptime_parts u))"

text \<open>What the parts stand for, in seconds.\<close>

definition unit_seconds :: "char \<Rightarrow> int" where
  "unit_seconds c =
     (if c = CHR ''d'' then 86400 else if c = CHR ''h'' then 3600 else if c = CHR ''m'' then 60 else 1)"

lemma uptime_parts_sum:
  assumes "0 \<le> u"
  shows "sum_list (map (\<lambda>(n, c). n * unit_seconds c) (uptime_parts u)) = u"
proof -
  define days r1 where "days = u div 86400" and "r1 = u mod 86400"
  define hours r2 where "hours = r1 div 3600" and "r2 = r1 mod 3600"
  define minutes secs where "minutes = r2 div 60" and "secs = r2 mod 60"
  note split = days_def r1_def hours_def r2_def minutes_def secs_def
  have e: "u = 86400 * days + 3600 * hours + 60 * minutes + secs"
  proof -
    have "u = 86400 * days + r1" "r1 = 3600 * hours + r2" "r2 = 60 * minutes + secs"
      by (simp_all only: split mult_div_mod_eq)
    then show ?thesis by simp
  qed
  have pos: "0 \<le> days" "0 \<le> hours" "0 \<le> minutes" "0 \<le> secs"
    using assms by (simp_all add: split pos_imp_zdiv_nonneg_iff)
  have p: "uptime_parts u =
      (let parts = (if days > 0 then [(days, CHR ''d'')] else []) @
                   (if hours > 0 then [(hours, CHR ''h'')] else []) @
                   (if minutes > 0 then [(minutes, CHR ''m'')] else []) in
       parts @ (if secs > 0 \<or> parts = [] then [(secs, CHR ''s'')] else []))"
    unfolding uptime_parts_def Let_def split by (rule refl)
  have "sum_list (map (\<lambda>(n, c). n * unit_seconds c) (uptime_parts u)) =
      86400 * days + 3600 * hours + 60 * minutes + secs"
    unfolding p Let_def
    using pos by (cases "days = 0"; cases "hours = 0"; cases "minutes = 0"; cases "secs = 0")
      (simp_all add: unit_seconds_def)
  then show ?thesis using e by simp
qed

section \<open>Properties\<close>

text \<open>
  Every request and every response object is rebuilt by its own class from the
  dictionary it serializes to, whatever its fields hold; and the uptime text of a device is
  made of parts that add up to the uptime.
\<close>

theorem rpc_objects_round_trip:
  "request_class q (request_to_dict q) = Inr q \<and> response_class r (response_to_dict r) = Inr r \<and>
   sum_list (map (\<lambda>(n, c). n * unit_seconds c) (uptime_parts \<bar>u\<bar>)) = \<bar>u\<bar>"
proof (intro conjI)
  show "request_class q (request_to_dict q) = Inr q"
    by (cases q) (simp_all add: from_dict_defs d_get_or_def d_item_def)
  show "response_class r (response_to_dict r) = Inr r"
    by (cases r) (simp_all add: from_dict_defs d_get_or_def d_item_def)
  show "sum_list (map (\<lambda>(n, c). n * unit_seconds c) (uptime_parts \<bar>u\<bar>)) = \<bar>u\<bar>"
    by (rule uptime_parts_sum) simp
qed

end
