(* ===== verification/Protocols.thy ===== *)
theory Protocols
  imports Wire
begin

text \<open>
  The protocol layer over LXMF (\<^verbatim>\<open>src/styrened/protocols/\<close>): messages and their protocol
  field (\<^verbatim>\<open>base.py\<close>), the registry that routes by that field (\<^verbatim>\<open>registry.py\<close>), the chat
  protocol (\<^verbatim>\<open>chat.py\<close>), and the Styrene protocol with its external handlers, its dispatch,
  the identity lookup and the sender (\<^verbatim>\<open>styrene.py\<close>). The database is the list of rows
  added to it, the LXMF router the list of messages handed to it. What a handler does is a
  function on a state of its own.
\<close>

section \<open>Messages\<close>

record lxmf_message =
  source_hash :: string
  destination_hash :: string
  timestamp :: rat
  content :: "string option"
  msg_fields :: pydict

text \<open>\<open>repr\<close> is \<^verbatim>\<open>str()\<close> of a value that is not a text.\<close>

definition get_protocol :: "(pyval \<Rightarrow> string) \<Rightarrow> lxmf_message \<Rightarrow> string" where
  "get_protocol repr m =
     (case d_get_or (msg_fields m) ''protocol'' (PStr []) of
        PStr s \<Rightarrow> s | PNone \<Rightarrow> [] | v \<Rightarrow> repr v)"

record row =
  r_source :: string
  r_destination :: string
  r_timestamp :: rat
  r_content :: "string option"
  r_protocol :: string
  r_status :: string
  r_fields :: pydict

section \<open>The registry\<close>

text \<open>
  The protocols are the values of a type \<open>'p\<close>, given by their \<^verbatim>\<open>protocol_id\<close> and
  \<^verbatim>\<open>can_handle\<close>. The result of routing is the protocol whose \<^verbatim>\<open>handle_message\<close> is called.
\<close>

type_synonym 'p registry = "(string \<times> 'p) list"

definition register_protocol :: "('p \<Rightarrow> string) \<Rightarrow> 'p \<Rightarrow> 'p registry \<Rightarrow> 'p registry res" where
  "register_protocol pid p reg =
     (if map_of reg (pid p) \<noteq> None then Inl ValueError else Inr (AList.update (pid p) p reg))"

definition unregister_protocol :: "string \<Rightarrow> 'p registry \<Rightarrow> 'p registry res" where
  "unregister_protocol i reg = (if map_of reg i = None then Inl KeyError else Inr (AList.delete i reg))"

definition lookup_protocol :: "string \<Rightarrow> 'p registry \<Rightarrow> 'p option" where
  "lookup_protocol i reg = map_of reg i"

definition list_protocols :: "'p registry \<Rightarrow> string list" where
  "list_protocols reg = map fst reg"

definition route_message ::
    "(pyval \<Rightarrow> string) \<Rightarrow> ('p \<Rightarrow> lxmf_message \<Rightarrow> bool) \<Rightarrow> 'p registry \<Rightarrow> lxmf_message \<Rightarrow> 'p res" where
  "route_message repr can reg m =
     (let i = get_protocol repr m in
      if i = [] then Inl ProtocolNotFoundError
      else case map_of reg i of
        None \<Rightarrow> Inl ProtocolNotFoundError
      | Some p \<Rightarrow> if can p m then Inr p else Inl ProtocolNotFoundError)"

text \<open>
  What the registry expects of a protocol: its identifier is not empty, and it handles only
  messages whose protocol field is that identifier.
\<close>

locale routable =
  fixes repr :: "pyval \<Rightarrow> string"
    and pid :: "'p \<Rightarrow> string"
    and can :: "'p \<Rightarrow> lxmf_message \<Rightarrow> bool"
    and me :: 'p
  assumes pid_nonempty: "pid me \<noteq> []"
    and can_own: "can me m \<Longrightarrow> get_protocol repr m = pid me"
begin

lemma routed_if_registered:
  "register_protocol pid me reg = Inr reg' \<Longrightarrow> can me m \<Longrightarrow> route_message repr can reg' m = Inr me"
  using pid_nonempty
  by (auto simp: register_protocol_def route_message_def can_own update_conv' Let_def split: if_splits)

lemma gone_if_unregistered:
  "unregister_protocol (pid me) reg = Inr reg' \<Longrightarrow> can me m \<Longrightarrow>
     route_message repr can reg' m = Inl ProtocolNotFoundError"
  by (auto simp: unregister_protocol_def route_message_def can_own delete_conv' Let_def split: if_splits)

end

section \<open>The chat protocol\<close>

definition chat_id :: string where "chat_id = ''chat''"

definition chat_can_handle :: "(pyval \<Rightarrow> string) \<Rightarrow> lxmf_message \<Rightarrow> bool" where
  "chat_can_handle repr m \<longleftrightarrow> get_protocol repr m = chat_id"

text \<open>
  Adding a row to the database: \<^verbatim>\<open>commit\<close> is the exception the session raises, if it raises one
  (a locked database, a full disk), and then no row is stored.
\<close>

definition add_row :: "exn option \<Rightarrow> row \<Rightarrow> row list \<Rightarrow> row list res" where
  "add_row commit r db = (case commit of None \<Rightarrow> Inr (db @ [r]) | Some e \<Rightarrow> Inl e)"

definition chat_handle_message :: "exn option \<Rightarrow> lxmf_message \<Rightarrow> row list \<Rightarrow> row list res" where
  "chat_handle_message commit m db = add_row commit
     \<lparr>r_source = source_hash m, r_destination = destination_hash m, r_timestamp = timestamp m,
            r_content = content m, r_protocol = chat_id, r_status = ''pending'', r_fields = msg_fields m\<rparr> db"

definition insert_by_time :: "row \<Rightarrow> row list \<Rightarrow> row list" where
  "insert_by_time r rs = takeWhile (\<lambda>x. r_timestamp x \<le> r_timestamp r) rs @ r #
                         dropWhile (\<lambda>x. r_timestamp x \<le> r_timestamp r) rs"

text \<open>\<^verbatim>\<open>order_by(timestamp.asc())\<close>, rows with the same time in the order they were added.\<close>

definition get_conversation_history :: "string \<Rightarrow> string \<Rightarrow> row list \<Rightarrow> row list" where
  "get_conversation_history a b db =
     fold insert_by_time
       (filter (\<lambda>r. r_protocol r = chat_id \<and>
          (r_source r = a \<and> r_destination r = b \<or> r_source r = b \<and> r_destination r = a)) db) []"

section \<open>The Styrene protocol\<close>

primrec type_name :: "message_type \<Rightarrow> string" where
  "type_name PING = ''PING''"
| "type_name PONG = ''PONG''"
| "type_name HEARTBEAT = ''HEARTBEAT''"
| "type_name STATUS_REQUEST = ''STATUS_REQUEST''"
| "type_name STATUS_RESPONSE = ''STATUS_RESPONSE''"
| "type_name CAPABILITIES_REQUEST = ''CAPABILITIES_REQUEST''"
| "type_name CAPABILITIES_RESPONSE = ''CAPABILITIES_RESPONSE''"
| "type_name CHAT = ''CHAT''"
| "type_name CHAT_ACK = ''CHAT_ACK''"
| "type_name FILE_OFFER = ''FILE_OFFER''"
| "type_name FILE_ACCEPT = ''FILE_ACCEPT''"
| "type_name FILE_CHUNK = ''FILE_CHUNK''"
| "type_name ANNOUNCE = ''ANNOUNCE''"
| "type_name ANNOUNCE_ACK = ''ANNOUNCE_ACK''"
| "type_name PEER_REQUEST = ''PEER_REQUEST''"
| "type_name PEER_RESPONSE = ''PEER_RESPONSE''"
| "type_name VPN_HANDSHAKE_REQUEST = ''VPN_HANDSHAKE_REQUEST''"
| "type_name VPN_HANDSHAKE_RESPONSE = ''VPN_HANDSHAKE_RESPONSE''"
| "type_name EXEC = ''EXEC''"
| "type_name REBOOT = ''REBOOT''"
| "type_name CONFIG_UPDATE = ''CONFIG_UPDATE''"
| "type_name SERVICE_CONTROL = ''SERVICE_CONTROL''"
| "type_name INBOX_QUERY = ''INBOX_QUERY''"
| "type_name MESSAGES_QUERY = ''MESSAGES_QUERY''"
| "type_name SELF_UPDATE = ''SELF_UPDATE''"
| "type_name PROVISION = ''PROVISION''"
| "type_name EXEC_RESULT = ''EXEC_RESULT''"
| "type_name REBOOT_RESULT = ''REBOOT_RESULT''"
| "type_name CONFIG_RESULT = ''CONFIG_RESULT''"
| "type_name SERVICE_RESULT = ''SERVICE_RESULT''"
| "type_name INBOX_RESPONSE = ''INBOX_RESPONSE''"
| "type_name MESSAGES_RESPONSE = ''MESSAGES_RESPONSE''"
| "type_name SELF_UPDATE_RESULT = ''SELF_UPDATE_RESULT''"
| "type_name PROVISION_RESULT = ''PROVISION_RESULT''"
| "type_name REGISTRY_QUERY = ''REGISTRY_QUERY''"
| "type_name REGISTRY_RESPONSE = ''REGISTRY_RESPONSE''"
| "type_name FLEET_STATUS_REQUEST = ''FLEET_STATUS_REQUEST''"
| "type_name FLEET_STATUS_RESPONSE = ''FLEET_STATUS_RESPONSE''"
| "type_name SUBSCRIBE = ''SUBSCRIBE''"
| "type_name UNSUBSCRIBE = ''UNSUBSCRIBE''"
| "type_name PUBLISH = ''PUBLISH''"
| "type_name SUBSCRIPTION_ACK = ''SUBSCRIPTION_ACK''"
| "type_name TERMINAL_REQUEST = ''TERMINAL_REQUEST''"
| "type_name TERMINAL_ACCEPT = ''TERMINAL_ACCEPT''"
| "type_name TERMINAL_REJECT = ''TERMINAL_REJECT''"
| "type_name TERMINAL_RESIZE = ''TERMINAL_RESIZE''"
| "type_name TERMINAL_SIGNAL = ''TERMINAL_SIGNAL''"
| "type_name TERMINAL_CLOSE = ''TERMINAL_CLOSE''"
| "type_name TERMINAL_CLOSED = ''TERMINAL_CLOSED''"
| "type_name PQC_INITIATE = ''PQC_INITIATE''"
| "type_name PQC_RESPOND = ''PQC_RESPOND''"
| "type_name PQC_CONFIRM = ''PQC_CONFIRM''"
| "type_name PQC_REKEY = ''PQC_REKEY''"
| "type_name PQC_DATA = ''PQC_DATA''"
| "type_name PQC_CLOSE = ''PQC_CLOSE''"
| "type_name ERROR = ''ERROR''"

definition FIELD_CUSTOM_TYPE :: int where "FIELD_CUSTOM_TYPE = 0xFB"
definition FIELD_CUSTOM_DATA :: int where "FIELD_CUSTOM_DATA = 0xFC"
definition STYRENE_CUSTOM_TYPE :: bytes where "STYRENE_CUSTOM_TYPE = str_bytes ''styrene.io''"

type_synonym 'h handlers = "message_type \<Rightarrow> 'h list option"

definition register_handler :: "message_type \<Rightarrow> 'h \<Rightarrow> 'h handlers \<Rightarrow> 'h handlers" where
  "register_handler t h hs = hs(t \<mapsto> (case hs t of None \<Rightarrow> [] | Some xs \<Rightarrow> xs) @ [h])"

definition unregister_handler :: "message_type \<Rightarrow> 'h \<Rightarrow> 'h handlers \<Rightarrow> 'h handlers" where
  "unregister_handler t h hs = (case hs t of None \<Rightarrow> hs | Some xs \<Rightarrow> hs(t \<mapsto> remove1 h xs))"

definition styrene_can_handle :: "lxmf_message \<Rightarrow> bool" where
  "styrene_can_handle m =
     (case map_of (msg_fields m) (PInt FIELD_CUSTOM_TYPE) of
        Some (PBytes b) \<Rightarrow> b = STYRENE_CUSTOM_TYPE
      | Some (PStr s) \<Rightarrow> s = ''styrene.io''
      | _ \<Rightarrow> False)"

text \<open>The three protocols of the package, as the registry sees them.\<close>

datatype protocol = ChatProtocol | StyreneProtocol | RPCClient

primrec protocol_id :: "protocol \<Rightarrow> string" where
  "protocol_id ChatProtocol = chat_id"
| "protocol_id StyreneProtocol = ''styrene''"
| "protocol_id RPCClient = ''rpc''"

primrec can_handle :: "(pyval \<Rightarrow> string) \<Rightarrow> protocol \<Rightarrow> lxmf_message \<Rightarrow> bool" where
  "can_handle repr ChatProtocol m = chat_can_handle repr m"
| "can_handle repr StyreneProtocol m = styrene_can_handle m"
| "can_handle repr RPCClient m = styrene_can_handle m"

interpretation chat: routable repr protocol_id "can_handle repr" ChatProtocol for repr
  by unfold_locales (simp_all add: chat_id_def chat_can_handle_def)

text \<open>
  \<^verbatim>\<open>StyreneEnvelope.decode\<close> on the value of the data field: a text is encoded first; of the
  other values only a short list or dictionary gets past \<^verbatim>\<open>len\<close> with an error of the wire format.
\<close>

definition decode_field :: "bytes \<Rightarrow> pyval \<Rightarrow> envelope res" where
  "decode_field rnd v =
     (case v of
        PBytes b \<Rightarrow> decode rnd b
      | PStr s \<Rightarrow> decode rnd (str_bytes s)
      | PList vs \<Rightarrow> Inl (if length vs < MIN_MESSAGE_LENGTH_V1 then InvalidPrefixError else AttributeError)
      | PDict d \<Rightarrow> Inl (if length d < MIN_MESSAGE_LENGTH_V1 then InvalidPrefixError else AttributeError)
      | _ \<Rightarrow> Inl TypeError)"

definition is_wire_error :: "exn \<Rightarrow> bool" where
  "is_wire_error e \<longleftrightarrow>
     e \<in> {InvalidPrefixError, UnsupportedVersionError, InvalidMessageTypeError, PayloadDecodeError}"

text \<open>The internal handlers only log; one of them reads the payload as a dictionary.\<close>

definition internal_types :: "message_type list" where
  "internal_types = [PING, PONG, STATUS_REQUEST, STATUS_RESPONSE, CHAT, ANNOUNCE]"

definition internal_handler :: "msgpack \<Rightarrow> envelope \<Rightarrow> unit res" where
  "internal_handler mp env =
     (if mtype env = CHAT then
        (case decode_payload mp (payload env) of
           Inl e \<Rightarrow> if e = PayloadDecodeError then Inr () else Inl e
         | Inr (PDict d) \<Rightarrow> Inr ()
         | Inr _ \<Rightarrow> Inl AttributeError)
      else if mtype env \<in> {STATUS_RESPONSE, ANNOUNCE} then
        (case decode_payload mp (payload env) of
           Inl e \<Rightarrow> if e = PayloadDecodeError then Inr () else Inl e
         | Inr _ \<Rightarrow> Inr ())
      else Inr ())"

text \<open>
  The external handlers of the type are read once, before the first of them runs: the code walks
  over the list of the registration itself, so a handler that registers or removes a handler of
  the same type while the message is dispatched would change the walk. No handler of the package does.
\<close>

type_synonym ('h, 's) run = "'h \<Rightarrow> lxmf_message \<Rightarrow> envelope \<Rightarrow> 's \<Rightarrow> unit res \<times> 's"

fun run_handlers :: "('h, 's) run \<Rightarrow> 'h list \<Rightarrow> lxmf_message \<Rightarrow> envelope \<Rightarrow> 's \<Rightarrow> bool \<times> 's" where
  "run_handlers run [] m env s = (False, s)"
| "run_handlers run (h # hs) m env s =
     (let (r, s1) = run h m env s; (handled, s2) = run_handlers run hs m env s1 in
      ((case r of Inr _ \<Rightarrow> True | Inl _ \<Rightarrow> handled), s2))"

definition dispatch_message ::
    "msgpack \<Rightarrow> ('h, 's) run \<Rightarrow> 'h handlers \<Rightarrow> lxmf_message \<Rightarrow> envelope \<Rightarrow> 's \<Rightarrow> unit res \<times> 's" where
  "dispatch_message mp run hs m env s =
     (case (if mtype env \<in> set internal_types then internal_handler mp env else Inr ()) of
        Inl e \<Rightarrow> (Inl e, s)
      | Inr _ \<Rightarrow> (Inr (), snd (run_handlers run (case hs (mtype env) of None \<Rightarrow> [] | Some xs \<Rightarrow> xs) m env s)))"

definition styrene_row :: "lxmf_message \<Rightarrow> envelope \<Rightarrow> row" where
  "styrene_row m env =
     \<lparr>r_source = source_hash m, r_destination = destination_hash m, r_timestamp = timestamp m,
      r_content = Some (''[Styrene:'' @ type_name (mtype env) @ '']''), r_protocol = ''styrene'',
      r_status = ''received'',
      r_fields = kv [(''protocol'', PStr ''styrene''), (''styrene_version'', PInt (version env)),
                     (''styrene_type'', PStr (type_name (mtype env)))]\<rparr>"

definition persist_message :: "exn option \<Rightarrow> lxmf_message \<Rightarrow> envelope \<Rightarrow> row list \<Rightarrow> row list res" where
  "persist_message commit m env db = add_row commit (styrene_row m env) db"

definition styrene_handle_message ::
    "msgpack \<Rightarrow> bytes \<Rightarrow> ('h, 's) run \<Rightarrow> 'h handlers \<Rightarrow> exn option \<Rightarrow> lxmf_message \<Rightarrow> row list \<Rightarrow> 's
      \<Rightarrow> unit res \<times> row list \<times> 's" where
  "styrene_handle_message mp rnd run hs commit m db s =
     (case map_of (msg_fields m) (PInt FIELD_CUSTOM_DATA) of
        None \<Rightarrow> (Inr (), db, s)
      | Some PNone \<Rightarrow> (Inr (), db, s)
      | Some v \<Rightarrow>
          (case decode_field rnd v of
             Inl e \<Rightarrow> (if is_wire_error e then (Inr (), db, s) else (Inl e, db, s))
           | Inr env \<Rightarrow>
               (case dispatch_message mp run hs m env s of
                  (Inl e, s1) \<Rightarrow> (Inl e, db, s1)
                | (Inr _, s1) \<Rightarrow>
                    (case persist_message commit m env db of
                       Inl e \<Rightarrow> (Inl e, db, s1)
                     | Inr db1 \<Rightarrow> (Inr (), db1, s1)))))"

subsection \<open>Sending\<close>

text \<open>
  The lookups of \<^verbatim>\<open>_resolve_identity\<close>: \<^verbatim>\<open>RNS.Identity.recall\<close> (by destination hash, or by identity
  hash), the table of discovered devices, and the two queries of the node store, which fail
  together. A found hash that is empty counts as not found.
\<close>

record 'i lookups =
  recall :: "bytes \<Rightarrow> bool \<Rightarrow> 'i option"
  find_discovered :: "string \<Rightarrow> string option res"
  find_operator :: "string \<Rightarrow> string option res"
  find_lxmf :: "string \<Rightarrow> string option res"

definition found_hash :: "string option res \<Rightarrow> string option" where
  "found_hash r = (case r of Inr (Some h) \<Rightarrow> if h = [] then None else Some h | _ \<Rightarrow> None)"

definition lookup_hash :: "'i lookups \<Rightarrow> string \<Rightarrow> string option" where
  "lookup_hash lk dest =
     (case found_hash (find_discovered lk dest) of
        Some h \<Rightarrow> Some h
      | None \<Rightarrow>
          (case find_operator lk dest of
             Inl e \<Rightarrow> None
           | Inr r \<Rightarrow> (case found_hash (Inr r) of Some h \<Rightarrow> Some h | None \<Rightarrow> found_hash (find_lxmf lk dest))))"

definition resolve_identity :: "'i lookups \<Rightarrow> string \<Rightarrow> 'i option res" where
  "resolve_identity lk dest =
     bind_res (fromhex dest) (\<lambda>db.
       case recall lk db False of
         Some i \<Rightarrow> Inr (Some i)
       | None \<Rightarrow>
           (case lookup_hash lk dest of
              None \<Rightarrow> Inr (recall lk db True)
            | Some h \<Rightarrow>
                bind_res (fromhex h) (\<lambda>hb.
                  case recall lk hb True of Some i \<Rightarrow> Inr (Some i) | None \<Rightarrow> Inr (recall lk db True))))"

record 'i outbound =
  out_identity :: 'i
  out_content :: string
  out_fields :: pydict

definition send_typed_message ::
    "'i lookups \<Rightarrow> bytes \<Rightarrow> rat \<Rightarrow> string \<Rightarrow> string \<Rightarrow> message_type \<Rightarrow> bytes \<Rightarrow> bytes option \<Rightarrow> row list
      \<Rightarrow> ('i outbound \<times> row list) res" where
  "send_typed_message lk rnd now own dest t p rid db =
     bind_res (StyreneEnvelope rnd STYRENE_VERSION t p rid) (\<lambda>env.
     bind_res (encode env) (\<lambda>data.
     bind_res (resolve_identity lk dest) (\<lambda>who.
       case who of
         None \<Rightarrow> Inl ValueError
       | Some i \<Rightarrow>
           Inr (\<lparr>out_identity = i, out_content = ''[styrene.io:'' @ type_name t @ '']'',
                 out_fields = [(PInt FIELD_CUSTOM_TYPE, PBytes STYRENE_CUSTOM_TYPE),
                               (PInt FIELD_CUSTOM_DATA, PBytes data)]\<rparr>,
                db @ [\<lparr>r_source = own, r_destination = dest, r_timestamp = now,
                       r_content = Some (''[Styrene:'' @ type_name t @ '']''), r_protocol = ''styrene'',
                       r_status = ''pending'',
                       r_fields = kv [(''protocol'', PStr ''styrene''), (''styrene_version'', PInt STYRENE_VERSION),
                                      (''styrene_type'', PStr (type_name t))]\<rparr>]))))"

definition send_envelope ::
    "'i lookups \<Rightarrow> bytes \<Rightarrow> rat \<Rightarrow> string \<Rightarrow> string \<Rightarrow> envelope \<Rightarrow> row list \<Rightarrow> ('i outbound \<times> row list) res" where
  "send_envelope lk rnd now own dest env db =
     send_typed_message lk rnd now own dest (mtype env) (payload env) (request_id env) db"

text \<open>\<^verbatim>\<open>send_ping\<close>, \<^verbatim>\<open>send_pong\<close> and \<^verbatim>\<open>send_status_request\<close>; and those with a payload.\<close>

definition send_empty ::
    "'i lookups \<Rightarrow> bytes \<Rightarrow> rat \<Rightarrow> string \<Rightarrow> string \<Rightarrow> message_type \<Rightarrow> row list \<Rightarrow> ('i outbound \<times> row list) res" where
  "send_empty lk rnd now own dest t db = send_typed_message lk rnd now own dest t [] None db"

definition send_data ::
    "msgpack \<Rightarrow> 'i lookups \<Rightarrow> bytes \<Rightarrow> rat \<Rightarrow> string \<Rightarrow> string \<Rightarrow> message_type \<Rightarrow> pyval \<Rightarrow> row list
      \<Rightarrow> ('i outbound \<times> row list) res" where
  "send_data mp lk rnd now own dest t v db =
     bind_res (encode_payload mp v) (\<lambda>p. send_typed_message lk rnd now own dest t p None db)"

definition send_message ::
    "msgpack \<Rightarrow> 'i lookups \<Rightarrow> bytes \<Rightarrow> rat \<Rightarrow> string \<Rightarrow> string \<Rightarrow> pyval \<Rightarrow> row list \<Rightarrow> ('i outbound \<times> row list) res" where
  "send_message mp lk rnd now own dest v db =
     (case v of
        PStr s \<Rightarrow> send_data mp lk rnd now own dest CHAT (PDict (kv [(''text'', PStr s)])) db
      | _ \<Rightarrow> Inl ValueError)"

section \<open>Lemmas\<close>

lemma run_handlers_state: "snd (run_handlers run hs m env s) = fold (\<lambda>h s. snd (run h m env s)) hs s"
  by (induction hs arbitrary: s) (simp_all add: case_prod_beta Let_def)

lemma internal_ok:
  "mtype env \<noteq> CHAT \<Longrightarrow> internal_handler mp env = Inr ()"
  by (auto simp: internal_handler_def decode_payload_def split: sum.split)

text \<open>A chat envelope with a payload that is not a dictionary.\<close>

definition chat_without_dict :: "msgpack \<Rightarrow> envelope \<Rightarrow> bool" where
  "chat_without_dict mp env \<longleftrightarrow>
     mtype env = CHAT \<and>
     (case decode_payload mp (payload env) of Inl _ \<Rightarrow> False | Inr (PDict _) \<Rightarrow> False | Inr _ \<Rightarrow> True)"

section \<open>Properties\<close>

text \<open>
  Claim C14. A message whose data field holds an encoded envelope is handled completely: every
  external handler registered for its type runs exactly once, in the order of registration,
  whichever of them fail, and then one row is stored. If the database raises, its exception comes
  out and no row is stored, but the handlers have run. The other exception is a chat envelope whose
  payload is not a dictionary: it raises \<^verbatim>\<open>AttributeError\<close>, no handler runs and nothing is
  stored.
\<close>

theorem styrene_dispatch_complete:
  assumes "map_of (msg_fields m) (PInt FIELD_CUSTOM_DATA) = Some (PBytes data)" and "decode rnd data = Inr env"
  shows "styrene_handle_message mp rnd run hs commit m db s =
    (if chat_without_dict mp env
     then (Inl AttributeError, db, s)
     else (case commit of None \<Rightarrow> Inr () | Some e \<Rightarrow> Inl e,
           case commit of None \<Rightarrow> db @ [styrene_row m env] | Some e \<Rightarrow> db,
           fold (\<lambda>h s. snd (run h m env s)) (case hs (mtype env) of None \<Rightarrow> [] | Some xs \<Rightarrow> xs) s))"
proof -
  have pay: "decode_payload mp p = Inl e \<Longrightarrow> e = PayloadDecodeError" for p e
    by (auto simp: decode_payload_def split: if_splits sum.splits)
  have internal: "(if mtype env \<in> set internal_types then internal_handler mp env else Inr ()) =
     (if chat_without_dict mp env
      then Inl AttributeError else Inr ())"
  proof (cases "mtype env = CHAT")
    case False
    then show ?thesis by (simp add: internal_ok chat_without_dict_def)
  next
    case True
    then show ?thesis
      using pay by (auto simp: internal_handler_def internal_types_def chat_without_dict_def split: sum.split pyval.split)
  qed
  have "dispatch_message mp run hs m env s =
    (if chat_without_dict mp env
     then (Inl AttributeError, s)
     else (Inr (), fold (\<lambda>h s. snd (run h m env s)) (case hs (mtype env) of None \<Rightarrow> [] | Some xs \<Rightarrow> xs) s))"
    unfolding dispatch_message_def internal by (simp add: run_handlers_state)
  then show ?thesis
    by (auto simp: styrene_handle_message_def assms decode_field_def persist_message_def add_row_def split: option.split)
qed

definition demo_message :: "bytes \<Rightarrow> lxmf_message" where
  "demo_message data =
     \<lparr>source_hash = ''aa'', destination_hash = ''bb'', timestamp = 0, content = None,
      msg_fields = [(PInt FIELD_CUSTOM_TYPE, PBytes STYRENE_CUSTOM_TYPE), (PInt FIELD_CUSTOM_DATA, PBytes data)]\<rparr>"

definition empty_pack :: msgpack where
  "empty_pack = \<lparr>packb = (\<lambda>_. Inr [128]), unpackb_strict = (\<lambda>_. Inr (PDict [])),
      unpackb_text = (\<lambda>_. Inr (PDict [])), unpackb_raw = (\<lambda>_. Inr (PDict []))\<rparr>"

definition demo_run :: "(nat, nat list) run" where
  "demo_run h m env s = (if h = 1 then Inl KeyError else Inr (), s @ [h])"

theorem styrene_dispatch_complete_witness:
  "let data = STYRENE_PREFIX @ [1, of_nat (type_code PING)];
       handled = (\<lambda>commit. styrene_handle_message empty_pack [] demo_run
          (register_handler PING 2 (register_handler PING 1 Map.empty)) commit (demo_message data) [] []) in
   handled None = (Inr (),
     [styrene_row (demo_message data) \<lparr>version = 1, mtype = PING, payload = [], request_id = None\<rparr>], [1, 2]) \<and>
   handled (Some OtherError) = (Inl OtherError, [], [1, 2])"
proof -
  let ?data = "STYRENE_PREFIX @ [1, of_nat (type_code PING)]"
  let ?env = "\<lparr>version = 1, mtype = PING, payload = [], request_id = None\<rparr>"
  have w: "wf_envelope ?env" by (simp add: wf_envelope_def wire_consts MAX_PAYLOAD_SIZE_def)
  have "encode ?env = Inr ?data"
    by (simp add: encode_def byte_of_int_def wire_consts)
  then have d: "decode [] ?data = Inr ?env" using wire.dec_enc w by blast
  have f: "map_of (msg_fields (demo_message ?data)) (PInt FIELD_CUSTOM_DATA) = Some (PBytes ?data)"
    by (simp add: demo_message_def FIELD_CUSTOM_TYPE_def FIELD_CUSTOM_DATA_def)
  show ?thesis
    unfolding Let_def styrene_dispatch_complete [OF f d]
    by (simp add: chat_without_dict_def register_handler_def demo_run_def)
qed

text \<open>
  The registry does what it promises for a protocol that keeps its contract, as the
  chat protocol does: registered, it gets every message it can handle; unregistered, none, and
  unregistering undoes the registration. The Styrene protocol does not keep the contract: a
  message that its own sender builds has no protocol field, so no registry routes it to any
  protocol, although \<^verbatim>\<open>can_handle\<close> accepts it.
\<close>

theorem registry_routing:
  "(case register_protocol protocol_id ChatProtocol reg of
      Inl e \<Rightarrow> e = ValueError \<and> lookup_protocol chat_id reg \<noteq> None
    | Inr reg' \<Rightarrow>
        (route_message repr (can_handle repr) reg' m = Inr ChatProtocol \<longleftrightarrow> get_protocol repr m = chat_id) \<and>
        map_of (case unregister_protocol chat_id reg' of Inl e \<Rightarrow> [] | Inr reg'' \<Rightarrow> reg'') = map_of reg) \<and>
   (case send_typed_message lk rnd now own dest t p rid db of
      Inl e \<Rightarrow> True
    | Inr (out, db') \<Rightarrow>
        can_handle repr StyreneProtocol (m\<lparr>msg_fields := out_fields out\<rparr>) \<and>
        route_message repr (can_handle repr) reg (m\<lparr>msg_fields := out_fields out\<rparr>) = Inl ProtocolNotFoundError)"
proof
  show "case register_protocol protocol_id ChatProtocol reg of
      Inl e \<Rightarrow> e = ValueError \<and> lookup_protocol chat_id reg \<noteq> None
    | Inr reg' \<Rightarrow>
        (route_message repr (can_handle repr) reg' m = Inr ChatProtocol \<longleftrightarrow> get_protocol repr m = chat_id) \<and>
        map_of (case unregister_protocol chat_id reg' of Inl e \<Rightarrow> [] | Inr reg'' \<Rightarrow> reg'') = map_of reg"
  proof (cases "map_of reg chat_id")
    case None
    let ?reg = "AList.update chat_id ChatProtocol reg"
    have r: "register_protocol protocol_id ChatProtocol reg = Inr ?reg"
      using None by (simp add: register_protocol_def)
    have only: "get_protocol repr m = chat_id" if "route_message repr (can_handle repr) ?reg m = Inr ChatProtocol"
      using that by (auto simp: route_message_def Let_def chat_can_handle_def split: if_splits option.splits)
    have "route_message repr (can_handle repr) ?reg m = Inr ChatProtocol" if "get_protocol repr m = chat_id"
      by (rule chat.routed_if_registered [OF r]) (simp add: chat_can_handle_def that)
    moreover have "map_of (AList.delete chat_id ?reg) = map_of reg"
      using None by (auto simp: fun_eq_iff delete_conv' update_conv')
    ultimately show ?thesis
      using r only by (auto simp: unregister_protocol_def update_conv')
  next
    case (Some p)
    then show ?thesis by (simp add: register_protocol_def lookup_protocol_def)
  qed
  show "case send_typed_message lk rnd now own dest t p rid db of
      Inl e \<Rightarrow> True
    | Inr (out, db') \<Rightarrow>
        can_handle repr StyreneProtocol (m\<lparr>msg_fields := out_fields out\<rparr>) \<and>
        route_message repr (can_handle repr) reg (m\<lparr>msg_fields := out_fields out\<rparr>) = Inl ProtocolNotFoundError"
  proof (cases "send_typed_message lk rnd now own dest t p rid db")
    case (Inr x)
    then obtain data where "out_fields (fst x) =
        [(PInt FIELD_CUSTOM_TYPE, PBytes STYRENE_CUSTOM_TYPE), (PInt FIELD_CUSTOM_DATA, PBytes data)]"
      by (auto simp: send_typed_message_def split: option.splits)
    with Inr show ?thesis
      by (cases x) (simp add: styrene_can_handle_def route_message_def get_protocol_def d_get_or_def d_get_def Let_def)
  qed simp
qed

end
