(* ===== verification/Rpc_Client.thy ===== *)
theory Rpc_Client
  imports Wire_Messages Rpc_Messages Protocols
begin

text \<open>
  The RPC client (\<^verbatim>\<open>src/styrened/rpc/client.py\<close>): the table of pending requests, the futures
  their callers wait for, the handling of responses, and a call cut at its \<^verbatim>\<open>await\<close>s (sending,
  then waiting). A future is a place in a list that only grows.
\<close>

section \<open>State\<close>

datatype future = Waiting | Resolved response | Failed exn | CancelledFuture

record pending_request =
  future_ref :: nat
  sent_at :: rat
  destination :: string
  message_type_sent :: message_type

record rpc_client =
  pending_requests :: "(bytes \<times> pending_request) list"
  futures :: "future list"
  message_timeouts :: "message_type \<Rightarrow> rat option"
  default_timeout :: rat

definition RPCClient_init :: rpc_client where
  "RPCClient_init =
     \<lparr>pending_requests = [], futures = [], message_timeouts = Map.empty, default_timeout = 30\<rparr>"

definition response_types :: "message_type list" where
  "response_types =
     [STATUS_RESPONSE, EXEC_RESULT, REBOOT_RESULT, CONFIG_RESULT, SELF_UPDATE_RESULT, INBOX_RESPONSE,
      MESSAGES_RESPONSE, ERROR]"

definition register_response_handlers :: "'h \<Rightarrow> 'h handlers \<Rightarrow> 'h handlers" where
  "register_response_handlers h hs = fold (\<lambda>t. register_handler t h) response_types hs"

definition is_rpc_response :: "message_type \<Rightarrow> bool" where
  "is_rpc_response t \<longleftrightarrow> t \<in> set response_types"

section \<open>Responses\<close>

definition decode_dict_response :: "message_type \<Rightarrow> pydict \<Rightarrow> response res" where
  "decode_dict_response t d =
     (let opt = (\<lambda>k. d_get_or d k PNone); text = (\<lambda>k. d_get_or d k (PStr [])); num = (\<lambda>k. d_get_or d k (PInt 0));
          flag = (\<lambda>k. d_get_or d k (PBool False)); items = (\<lambda>k. d_get_or d k (PList [])) in
      if t = STATUS_RESPONSE then
        Inr (StatusResponse (num ''uptime'') (text ''ip'') (items ''services'') (num ''disk_used'')
          (num ''disk_total'') (opt ''styrened_version'') (opt ''hostname'') (opt ''arch'') (opt ''os_id'')
          (opt ''os_version'') (opt ''nixos_generation'') (opt ''available_commands''))
      else if t = EXEC_RESULT then
        Inr (ExecResult (d_get_or d ''exit_code'' (PInt (- 1))) (text ''stdout'') (text ''stderr''))
      else if t = REBOOT_RESULT then
        Inr (RebootResult (flag ''success'') (text ''message'') (opt ''scheduled_time''))
      else if t = CONFIG_RESULT then
        Inr (UpdateConfigResult (flag ''success'') (text ''message'') (items ''updated_keys''))
      else if t = SELF_UPDATE_RESULT then
        Inr (SelfUpdateResult (flag ''success'') (text ''message'') (text ''old_version'') (opt ''new_version''))
      else if t = INBOX_RESPONSE then Inr (InboxResponse (items ''conversations''))
      else if t = MESSAGES_RESPONSE then Inr (MessagesResponse (items ''messages''))
      else Inl ValueError)"

definition decode_response :: "msgpack \<Rightarrow> envelope \<Rightarrow> response res" where
  "decode_response mp env =
     bind_res (if payload env = [] then Inr (PDict []) else decode_payload mp (payload env)) (\<lambda>v.
       case v of
         PDict d \<Rightarrow> decode_dict_response (mtype env) d
       | _ \<Rightarrow> Inl (if mtype env \<in> set response_types then AttributeError else ValueError))"

definition add_pending_request ::
    "bytes \<Rightarrow> nat \<Rightarrow> rat \<Rightarrow> string \<Rightarrow> message_type \<Rightarrow> rpc_client \<Rightarrow> rpc_client" where
  "add_pending_request rid f now dest t c =
     c\<lparr>pending_requests := AList.update rid
         \<lparr>future_ref = f, sent_at = now, destination = dest, message_type_sent = t\<rparr> (pending_requests c)\<rparr>"

definition remove_pending_request :: "bytes \<Rightarrow> rpc_client \<Rightarrow> rpc_client" where
  "remove_pending_request rid c = c\<lparr>pending_requests := AList.delete rid (pending_requests c)\<rparr>"

definition settle :: "nat \<Rightarrow> future \<Rightarrow> rpc_client \<Rightarrow> rpc_client" where
  "settle f v c = (if futures c ! f = Waiting then c\<lparr>futures := (futures c)[f := v]\<rparr> else c)"

text \<open>
  \<^verbatim>\<open>_handle_response\<close>; the LXMF message, and so the sender, is an argument it does not use.
\<close>

definition handle_response :: "msgpack \<Rightarrow> lxmf_message \<Rightarrow> envelope \<Rightarrow> rpc_client \<Rightarrow> rpc_client" where
  "handle_response mp m env c =
     (case request_id env of
        None \<Rightarrow> c
      | Some rid \<Rightarrow>
          if rid = NO_CORRELATION then c
          else (case map_of (pending_requests c) rid of
                  None \<Rightarrow> c
                | Some p \<Rightarrow>
                    remove_pending_request rid
                      (settle (future_ref p)
                        (case decode_response mp env of
                           Inr r \<Rightarrow> Resolved r | Inl _ \<Rightarrow> Failed RPCInvalidResponseError) c)))"

definition handle_message :: "msgpack \<Rightarrow> bytes \<Rightarrow> lxmf_message \<Rightarrow> rpc_client \<Rightarrow> rpc_client" where
  "handle_message mp rnd m c =
     (case map_of (msg_fields m) (PInt FIELD_CUSTOM_DATA) of
        None \<Rightarrow> c
      | Some PNone \<Rightarrow> c
      | Some v \<Rightarrow>
          (case decode_field rnd v of
             Inl _ \<Rightarrow> c
           | Inr env \<Rightarrow> if is_rpc_response (mtype env) then handle_response mp m env c else c))"

section \<open>Calls\<close>

definition set_timeout :: "message_type \<Rightarrow> rat \<Rightarrow> rpc_client \<Rightarrow> rpc_client" where
  "set_timeout t s c = c\<lparr>message_timeouts := (message_timeouts c)(t \<mapsto> s)\<rparr>"

definition get_timeout :: "rpc_client \<Rightarrow> message_type \<Rightarrow> rat" where
  "get_timeout c t = (case message_timeouts c t of Some s \<Rightarrow> s | None \<Rightarrow> default_timeout c)"

definition pending_count :: "rpc_client \<Rightarrow> nat" where
  "pending_count c = length (pending_requests c)"

text \<open>
  \<^verbatim>\<open>call\<close> up to the send: the envelope gets an id if it has none, and the request is noted with
  a new future.
\<close>

definition call_begin :: "bytes \<Rightarrow> rat \<Rightarrow> string \<Rightarrow> envelope \<Rightarrow> rpc_client \<Rightarrow> (envelope \<times> bytes \<times> nat) res \<times> rpc_client" where
  "call_begin rnd now dest env c =
     (let ready = (case request_id env of
                     Some rid \<Rightarrow> if rid = NO_CORRELATION
                       then map_sum id (\<lambda>e. (e, rnd)) (StyreneEnvelope rnd (version env) (mtype env) (payload env) (Some rnd))
                       else Inr (env, rid)
                   | None \<Rightarrow>
                       map_sum id (\<lambda>e. (e, rnd)) (StyreneEnvelope rnd (version env) (mtype env) (payload env) (Some rnd))) in
      case ready of
        Inl e \<Rightarrow> (Inl e, c)
      | Inr (env', rid) \<Rightarrow>
          let f = length (futures c) in
          (Inr (env', rid, f),
           add_pending_request rid f now dest (mtype env') (c\<lparr>futures := futures c @ [Waiting]\<rparr>)))"

text \<open>The ways a call goes on: a failed send, a timeout, the cancellation of the calling task.\<close>

definition call_send_failed :: "bytes \<Rightarrow> rpc_client \<Rightarrow> response res \<times> rpc_client" where
  "call_send_failed rid c = (Inl RPCTransportError, remove_pending_request rid c)"

definition call_timed_out :: "bytes \<Rightarrow> nat \<Rightarrow> rpc_client \<Rightarrow> response res \<times> rpc_client" where
  "call_timed_out rid f c = (Inl RPCTimeoutError, remove_pending_request rid (settle f CancelledFuture c))"

definition call_cancelled :: "nat \<Rightarrow> rpc_client \<Rightarrow> rpc_client" where
  "call_cancelled f c = settle f CancelledFuture c"

definition call_result :: "future \<Rightarrow> response res option" where
  "call_result v = (case v of Resolved r \<Rightarrow> Some (Inr r) | Failed e \<Rightarrow> Some (Inl e) | _ \<Rightarrow> None)"

text \<open>
  The convenience calls: the envelope they send, their timeout, and the class of response
  they assert.
\<close>

type_synonym rpc_call = "envelope res \<times> rat \<times> (response \<Rightarrow> bool)"

definition assert_response :: "(response \<Rightarrow> bool) \<Rightarrow> response res \<Rightarrow> response res" where
  "assert_response ok r = bind_res r (\<lambda>x. if ok x then Inr x else Inl AssertionError)"

definition call_status :: "bytes \<Rightarrow> rpc_call" where
  "call_status rnd = (create_status_request rnd None, 10, is_StatusResponse)"

definition call_exec :: "msgpack \<Rightarrow> bytes \<Rightarrow> string \<Rightarrow> string list \<Rightarrow> rpc_call" where
  "call_exec mp rnd command args = (create_exec mp rnd command args None, 60, is_ExecResult)"

definition call_reboot :: "msgpack \<Rightarrow> bytes \<Rightarrow> int \<Rightarrow> rpc_call" where
  "call_reboot mp rnd delay = (create_reboot mp rnd delay None, 10, is_RebootResult)"

definition call_update_config :: "msgpack \<Rightarrow> bytes \<Rightarrow> pydict \<Rightarrow> rpc_call" where
  "call_update_config mp rnd updates = (create_config_update mp rnd updates None, 10, is_UpdateConfigResult)"

definition call_inbox :: "msgpack \<Rightarrow> bytes \<Rightarrow> int \<Rightarrow> rpc_call" where
  "call_inbox mp rnd limit = (create_inbox_query mp rnd limit None, 30, is_InboxResponse)"

definition call_messages :: "msgpack \<Rightarrow> bytes \<Rightarrow> string \<Rightarrow> int \<Rightarrow> rpc_call" where
  "call_messages mp rnd peer limit = (create_messages_query mp rnd peer limit None, 30, is_MessagesResponse)"

definition call_self_update :: "msgpack \<Rightarrow> bytes \<Rightarrow> string option \<Rightarrow> rpc_call" where
  "call_self_update mp rnd target = (create_self_update mp rnd target None, 120, is_SelfUpdateResult)"

section \<open>Steps and the invariant\<close>

inductive rpc_step :: "msgpack \<Rightarrow> rpc_client \<Rightarrow> rpc_client \<Rightarrow> bool" for mp :: msgpack where
  rs_call: "rpc_step mp c (snd (call_begin rnd now dest env c))"
| rs_send_failed: "rpc_step mp c (snd (call_send_failed rid c))"
| rs_response: "rpc_step mp c (handle_response mp m env c)"
| rs_message: "rpc_step mp c (handle_message mp rnd m c)"
| rs_timed_out: "rpc_step mp c (snd (call_timed_out rid f c))"
    if "map_of (pending_requests c) rid = Some p" "future_ref p = f"
| rs_late_timeout: "rpc_step mp c (snd (call_timed_out rid f c))"
    if "f \<notin> future_ref ` snd ` set (pending_requests c)"
| rs_cancelled: "rpc_step mp c (call_cancelled f c)"
| rs_set_timeout: "rpc_step mp c (set_timeout t s c)"

definition rpc_inv :: "rpc_client \<Rightarrow> bool" where
  "rpc_inv c \<longleftrightarrow>
     distinct (map fst (pending_requests c)) \<and>
     distinct (map (future_ref \<circ> snd) (pending_requests c)) \<and>
     (\<forall>(rid, p) \<in> set (pending_requests c).
        future_ref p < length (futures c) \<and> futures c ! future_ref p \<in> {Waiting, CancelledFuture})"


lemma rpc_invD:
  assumes "rpc_inv c" and "map_of (pending_requests c) rid = Some p"
  shows "future_ref p < length (futures c)" and "futures c ! future_ref p \<in> {Waiting, CancelledFuture}"
  using assms(1) map_of_SomeD [OF assms(2)] by (auto simp: rpc_inv_def)

lemma rpc_inv_remove: "rpc_inv c \<Longrightarrow> rpc_inv (remove_pending_request rid c)"
  by (auto simp: rpc_inv_def remove_pending_request_def set_alist_delete AList.delete_eq distinct_map_filter)

lemma nth_update_if: "xs[i := x] ! j = (if i = j \<and> j < length xs then x else xs ! j)"
  by (induction xs arbitrary: i j) (auto split: nat.split simp: nth_Cons)

lemma rpc_inv_cancel: "rpc_inv c \<Longrightarrow> rpc_inv (settle f CancelledFuture c)"
  by (auto simp: rpc_inv_def settle_def nth_update_if)

lemma rpc_inv_settle:
  assumes inv: "rpc_inv c" and p: "map_of (pending_requests c) rid = Some p"
  shows "rpc_inv (remove_pending_request rid (settle (future_ref p) v c))"
proof -
  have other: False
    if "(k, q) \<in> set (pending_requests c)" "rid \<noteq> k" "future_ref p = future_ref q" for k q
    using inv that map_of_SomeD [OF p]
    by (auto simp: rpc_inv_def distinct_map dest: inj_onD [where x = "(k, q)" and y = "(rid, p)"])
  show ?thesis
    using inv
    by (auto dest: other simp: rpc_inv_def remove_pending_request_def settle_def set_alist_delete
        AList.delete_eq distinct_map_filter nth_update_if)
qed

lemma rpc_inv_begin:
  assumes "rpc_inv c"
  shows "rpc_inv (snd (call_begin rnd now dest env c))"
proof -
  have "length (futures c) \<notin> (future_ref \<circ> snd) ` set (pending_requests c)"
    using assms by (auto simp: rpc_inv_def)
  then show ?thesis
    using assms
    by (auto simp: rpc_inv_def call_begin_def add_pending_request_def distinct_update nth_append Let_def
          set_alist_update split: sum.split intro!: distinct_map_update)
qed

lemma rpc_inv_response: "rpc_inv c \<Longrightarrow> rpc_inv (handle_response mp m env c)"
  by (auto simp: handle_response_def rpc_inv_settle split: option.split)

lemma rpc_inv_message: "rpc_inv c \<Longrightarrow> rpc_inv (handle_message mp rnd m c)"
  by (auto simp: handle_message_def rpc_inv_response split: option.split pyval.split sum.split)

lemma rpc_inv_step: "rpc_inv c \<Longrightarrow> rpc_step mp c c' \<Longrightarrow> rpc_inv c'"
  by (erule rpc_step.cases)
    (auto simp: call_send_failed_def call_timed_out_def call_cancelled_def rpc_inv_begin rpc_inv_remove
      rpc_inv_cancel rpc_inv_response rpc_inv_message set_timeout_def, simp add: rpc_inv_def)

interpretation rpc: invariant_system "\<lambda>c. c = RPCClient_init" "rpc_step mp" rpc_inv for mp
proof unfold_locales
  show "rpc_inv c" if "c = RPCClient_init" for c
    using that by (simp add: rpc_inv_def RPCClient_init_def)
qed (rule rpc_inv_step)

section \<open>How futures settle\<close>

text \<open>
  What one operation may do to the futures: the list keeps its settled entries, and a future
  gets a response or an error only as the future of the pending request that is removed.
\<close>

definition settles_one :: "rpc_client \<Rightarrow> rpc_client \<Rightarrow> bool" where
  "settles_one c c' \<longleftrightarrow>
     (\<forall>f < length (futures c).
        futures c' ! f = futures c ! f \<or>
        futures c ! f = Waiting \<and>
          (futures c' ! f = CancelledFuture \<or>
           (\<exists>rid p. map_of (pending_requests c) rid = Some p \<and> future_ref p = f \<and>
                    map_of (pending_requests c') rid = None)))"

lemma settles_remove: "settles_one c (remove_pending_request rid c)"
  by (simp add: settles_one_def remove_pending_request_def)

lemma settles_cancel: "settles_one c (settle f CancelledFuture c)"
  by (auto simp: settles_one_def settle_def nth_update_if)

lemma settles_cancel_remove: "settles_one c (remove_pending_request rid (settle f CancelledFuture c))"
  by (auto simp: settles_one_def settle_def nth_update_if remove_pending_request_def)

lemma settles_pending:
  "map_of (pending_requests c) rid = Some p \<Longrightarrow>
     settles_one c (remove_pending_request rid (settle (future_ref p) v c))"
  by (auto simp: settles_one_def settle_def nth_update_if remove_pending_request_def delete_conv')

lemma settles_refl: "settles_one c c"
  by (simp add: settles_one_def)

lemma settles_begin: "settles_one c (snd (call_begin rnd now dest env c))"
  by (auto simp: settles_one_def call_begin_def add_pending_request_def nth_append Let_def split: sum.split)

lemma settles_response: "settles_one c (handle_response mp m env c)"
  by (auto simp: handle_response_def settles_refl settles_pending split: option.split)

lemma settles_message: "settles_one c (handle_message mp rnd m c)"
  by (auto simp: handle_message_def settles_refl settles_response split: option.split pyval.split sum.split)

lemma rpc_step_settles: "rpc_step mp c c' \<Longrightarrow> settles_one c c'"
  by (erule rpc_step.cases)
    (auto simp: call_send_failed_def call_timed_out_def call_cancelled_def settles_begin settles_remove
      settles_cancel settles_cancel_remove settles_response settles_message set_timeout_def,
      simp add: settles_one_def)

section \<open>Properties\<close>

text \<open>
  Claim C13. A call is answered at most once. However calls, responses, failed sends, timeouts
  and cancellations interleave: a settled future never changes again, a response or a decoding
  error reaches only the future of a pending request and takes that request out of the table,
  and no request in the table has been answered.
\<close>

theorem calls_answered_at_most_once:
  assumes "reach (\<lambda>c. c = RPCClient_init) (rpc_step mp) c" and "rpc_step mp c c'" and "f < length (futures c)"
  shows "(futures c ! f \<noteq> Waiting \<longrightarrow> futures c' ! f = futures c ! f) \<and>
    (futures c ! f = Waiting \<and> futures c' ! f \<notin> {Waiting, CancelledFuture} \<longrightarrow>
       (\<exists>rid p. map_of (pending_requests c) rid = Some p \<and> future_ref p = f \<and>
                map_of (pending_requests c') rid = None)) \<and>
    (\<forall>(rid, p) \<in> set (pending_requests c').
       future_ref p < length (futures c') \<and> futures c' ! future_ref p \<in> {Waiting, CancelledFuture})"
proof -
  have "rpc_inv c'" by (rule rpc.reach_inv_step [OF assms(1,2)])
  moreover have "settles_one c c'" by (rule rpc_step_settles [OF assms(2)])
  ultimately show ?thesis
    using assms(3) unfolding settles_one_def rpc_inv_def by (intro conjI) auto
qed

text \<open>A client with one call pending, and the message that answers it.\<close>

definition one_call :: "message_type \<Rightarrow> rpc_client" where
  "one_call t = snd (call_begin [] 5 ''peer''
     \<lparr>version = 2, mtype = t, payload = [], request_id = Some (replicate 16 7)\<rparr> RPCClient_init)"

definition status_answer :: envelope where
  "status_answer = \<lparr>version = 2, mtype = STATUS_RESPONSE, payload = [], request_id = Some (replicate 16 7)\<rparr>"

lemma one_call_reached: "reach (\<lambda>c. c = RPCClient_init) (rpc_step mp) (one_call t)"
  unfolding one_call_def by (rule reach_step, rule reach_start, rule refl, rule rs_call)

lemma one_call_eq:
  "one_call t = RPCClient_init\<lparr>pending_requests :=
       [(replicate 16 7, \<lparr>future_ref = 0, sent_at = 5, destination = ''peer'', message_type_sent = t\<rparr>)],
     futures := [Waiting]\<rparr>"
  by (simp add: one_call_def call_begin_def add_pending_request_def RPCClient_init_def NO_CORRELATION_def
      REQUEST_ID_LENGTH_def Let_def)

theorem calls_answered_at_most_once_witness:
  "let mp = two_value_msgpack PNone PNone; c = one_call STATUS_REQUEST; c' = handle_response mp (demo_message []) status_answer c
   in (futures c ! 0 \<noteq> Waiting \<longrightarrow> futures c' ! 0 = futures c ! 0) \<and>
    (futures c ! 0 = Waiting \<and> futures c' ! 0 \<notin> {Waiting, CancelledFuture} \<longrightarrow>
       (\<exists>rid p. map_of (pending_requests c) rid = Some p \<and> future_ref p = 0 \<and>
                map_of (pending_requests c') rid = None)) \<and>
    (\<forall>(rid, p) \<in> set (pending_requests c').
       future_ref p < length (futures c') \<and> futures c' ! future_ref p \<in> {Waiting, CancelledFuture})"
  unfolding Let_def
  by (rule calls_answered_at_most_once [OF one_call_reached rs_response]) (simp add: one_call_eq)

lemma decode_exec_result:
  assumes "packb mp (PDict (kv [(''exit_code'', PInt code), (''stdout'', PStr out), (''stderr'', PStr err)])) = Inr q"
    and "unpackb_strict mp q = Inr (PDict (kv [(''exit_code'', PInt code), (''stdout'', PStr out), (''stderr'', PStr err)]))"
    and "length q \<le> MAX_PAYLOAD_SIZE" and "q \<noteq> []" and "length rid = REQUEST_ID_LENGTH"
  obtains rep d where "create_exec_result mp rnd code out err (Some rid) = Inr rep"
    and "encode rep = Inr d" and "decode rnd' d = Inr rep" and "request_id rep = Some rid" and "mtype rep = EXEC_RESULT"
    and "decode_response mp rep = Inr (ExecResult (PInt code) (PStr out) (PStr err))"
proof -
  define rep where "rep = \<lparr>version = STYRENE_VERSION_2, mtype = EXEC_RESULT, payload = q, request_id = Some rid\<rparr>"
  have "rid \<noteq> []" using assms(5) by (auto simp: REQUEST_ID_LENGTH_def)
  then have rep: "create_exec_result mp rnd code out err (Some rid) = Inr rep"
    using assms
    by (simp add: create_exec_result_def packed_def encode_payload_def StyreneEnvelope_def rep_def wire_consts)
  have "wf_envelope rep" using assms by (simp add: wf_envelope_def rep_def)
  then obtain d where d: "encode rep = Inr d" "decode rnd' d = Inr rep"
    using wire.enc_total wire.dec_enc by blast
  have "decode_response mp rep = Inr (ExecResult (PInt code) (PStr out) (PStr err))"
    using assms by (simp add: decode_response_def rep_def decode_payload_def decode_dict_response_def kv_def
        d_get_or_def d_get_def Let_def)
  then show ?thesis using that rep d by (simp add: rep_def)
qed

text \<open>
  Claim C12. A remote command gets its result: with a msgpack that gives back the two payloads
  and packs no value into no bytes,
  the call notes the request under a fresh id, the peer's answer built from that request
  settles the caller's future with the exit code and output it carries, \<^verbatim>\<open>call_exec\<close>'s
  assertion holds, the request leaves the table, and every other request and future is as it
  was before the call.
\<close>

theorem exec_call_answered:
  assumes "packs mp (PDict (kv [(''command'', PStr cmd), (''args'', str_list args)]))"
    and "packs mp (PDict (kv [(''exit_code'', PInt code), (''stdout'', PStr out), (''stderr'', PStr err)]))"
    and "packb mp (PDict (kv [(''exit_code'', PInt code), (''stdout'', PStr out), (''stderr'', PStr err)])) \<noteq> Inr []"
    and "length rid = REQUEST_ID_LENGTH" and "rid \<noteq> NO_CORRELATION"
  shows "case call_exec mp rid cmd args of
      (Inl _, _) \<Rightarrow> False
    | (Inr req, timeout, ok) \<Rightarrow>
        (case call_begin rnd now dest req c of
           (Inl _, _) \<Rightarrow> False
         | (Inr (req', rid', f), c1) \<Rightarrow>
             (case bind_res (create_exec_result mp rnd' code out err (request_id req')) encode of
                Inl _ \<Rightarrow> False
              | Inr wire_bytes \<Rightarrow>
                  let c2 = handle_message mp rnd''
                        (m\<lparr>msg_fields := [(PInt FIELD_CUSTOM_DATA, PBytes wire_bytes)]\<rparr>) c1
                  in map_option (assert_response ok) (call_result (futures c2 ! f)) =
                       Some (Inr (ExecResult (PInt code) (PStr out) (PStr err))) \<and>
                     futures c2 = futures c @ [futures c2 ! f] \<and>
                     map_of (pending_requests c2) = (map_of (pending_requests c))(rid := None)))"
proof -
  let ?v = "PDict (kv [(''exit_code'', PInt code), (''stdout'', PStr out), (''stderr'', PStr err)])"
  obtain p where p: "packb mp (PDict (kv [(''command'', PStr cmd), (''args'', str_list args)])) = Inr p"
      "length p \<le> MAX_PAYLOAD_SIZE"
    using assms(1) by (auto simp: packs_def split: sum.splits)
  obtain q where q: "packb mp ?v = Inr q" "length q \<le> MAX_PAYLOAD_SIZE" "unpackb_strict mp q = Inr ?v"
    using assms(2) by (auto simp: packs_def split: sum.splits)
  have "q \<noteq> []" using assms(3) q(1) by auto
  define req where "req = \<lparr>version = STYRENE_VERSION_2, mtype = EXEC, payload = p, request_id = Some rid\<rparr>"
  have req: "create_exec mp rid cmd args None = Inr req"
    using p by (simp add: create_exec_def packed_def encode_payload_def StyreneEnvelope_def req_def wire_consts)
  obtain rep d where rep: "create_exec_result mp rnd' code out err (Some rid) = Inr rep"
    "encode rep = Inr d" "decode rnd'' d = Inr rep" "request_id rep = Some rid" "mtype rep = EXEC_RESULT"
    "decode_response mp rep = Inr (ExecResult (PInt code) (PStr out) (PStr err))"
    using decode_exec_result [OF q(1,3,2) \<open>q \<noteq> []\<close> assms(4)] by metis
  define c1 where "c1 = snd (call_begin rnd now dest req c)"
  define p where "p = \<lparr>future_ref = length (futures c), sent_at = now, destination = dest, message_type_sent = EXEC\<rparr>"
  have c1: "call_begin rnd now dest req c = (Inr (req, rid, length (futures c)), c1)"
    using assms(5) by (simp add: c1_def call_begin_def req_def Let_def)
  have pend: "map_of (pending_requests c1) = (map_of (pending_requests c))(rid \<mapsto> p)"
    and futs: "futures c1 = futures c @ [Waiting]"
    using assms(5) by (simp_all add: c1_def call_begin_def req_def Let_def add_pending_request_def update_conv' p_def)
  let ?m = "m\<lparr>msg_fields := [(PInt FIELD_CUSTOM_DATA, PBytes d)]\<rparr>"
  have c2: "handle_message mp rnd'' ?m c1 =
      remove_pending_request rid (settle (length (futures c)) (Resolved (ExecResult (PInt code) (PStr out) (PStr err))) c1)"
    using rep assms(5) pend
    by (simp add: handle_message_def decode_field_def is_rpc_response_def response_types_def
        handle_response_def p_def)
  show ?thesis
    using req rep c1 c2 pend futs
    by (simp add: call_exec_def req_def Let_def settle_def remove_pending_request_def delete_conv'
        call_result_def assert_response_def)
qed

theorem exec_call_answered_witness:
  "let a = PDict (kv [(''command'', PStr ''uptime''), (''args'', str_list [''-p''])]);
       b = PDict (kv [(''exit_code'', PInt 0), (''stdout'', PStr ''up''), (''stderr'', PStr [])]);
       mp = two_value_msgpack a b; rid = replicate 16 7; c = one_call STATUS_REQUEST in
   case call_exec mp rid ''uptime'' [''-p''] of
      (Inl _, _) \<Rightarrow> False
    | (Inr req, timeout, ok) \<Rightarrow>
        (case call_begin [] 9 ''peer'' req c of
           (Inl _, _) \<Rightarrow> False
         | (Inr (req', rid', f), c1) \<Rightarrow>
             (case bind_res (create_exec_result mp [] 0 ''up'' [] (request_id req')) encode of
                Inl _ \<Rightarrow> False
              | Inr wire_bytes \<Rightarrow>
                  let c2 = handle_message mp []
                        ((demo_message [])\<lparr>msg_fields := [(PInt FIELD_CUSTOM_DATA, PBytes wire_bytes)]\<rparr>) c1
                  in map_option (assert_response ok) (call_result (futures c2 ! f)) =
                       Some (Inr (ExecResult (PInt 0) (PStr ''up'') (PStr []))) \<and>
                     futures c2 = futures c @ [futures c2 ! f] \<and>
                     map_of (pending_requests c2) = (map_of (pending_requests c))(rid := None)))"
  unfolding Let_def [of "PDict (kv [(''command'', PStr ''uptime''), (''args'', str_list [''-p''])])"]
    Let_def [of "PDict (kv [(''exit_code'', PInt 0), (''stdout'', PStr ''up''), (''stderr'', PStr [])])"]
    Let_def [of "two_value_msgpack _ _"] Let_def [of "replicate 16 7"] Let_def [of "one_call _"]
  by (rule exec_call_answered [OF two_value_packs])
    (simp_all add: two_value_msgpack_def NO_CORRELATION_def REQUEST_ID_LENGTH_def)

text \<open>
  The first response with a pending id wins, whatever its kind and whoever sent it:
  a status response answers a pending command, so that \<^verbatim>\<open>call_exec\<close> ends in an
  \<^verbatim>\<open>AssertionError\<close>, and every later answer to the command, the peer's true result included,
  changes nothing.
\<close>

theorem first_response_wins:
  assumes "reach (\<lambda>c. c = RPCClient_init) (rpc_step mp) c"
    and "map_of (pending_requests c) rid = Some p" and "message_type_sent p = EXEC"
    and "futures c ! future_ref p = Waiting" and "rid \<noteq> NO_CORRELATION"
    and "source_hash m \<noteq> destination p" and "request_id env = Some rid"
  shows "let c' = handle_response mp m
               \<lparr>version = STYRENE_VERSION_2, mtype = STATUS_RESPONSE, payload = [], request_id = Some rid\<rparr> c
         in map_option (assert_response is_ExecResult) (call_result (futures c' ! future_ref p)) =
              Some (Inl AssertionError) \<and>
            handle_response mp m' env c' = c'"
proof -
  have "future_ref p < length (futures c)"
    by (rule rpc_invD(1) [OF rpc.reach_inv [OF assms(1)] assms(2)])
  then show ?thesis
    using assms
    by (simp add: handle_response_def decode_response_def decode_dict_response_def Let_def settle_def
        remove_pending_request_def call_result_def assert_response_def delete_conv')
qed

theorem first_response_wins_witness:
  "let mp = two_value_msgpack PNone PNone; c = one_call EXEC; m = demo_message [];
       env = \<lparr>version = 2, mtype = EXEC_RESULT, payload = [], request_id = Some (replicate 16 7)\<rparr>;
       c' = handle_response mp m
               \<lparr>version = STYRENE_VERSION_2, mtype = STATUS_RESPONSE, payload = [],
                request_id = Some (replicate 16 7)\<rparr> c
   in map_option (assert_response is_ExecResult) (call_result (futures c' ! 0)) = Some (Inl AssertionError) \<and>
      handle_response mp m env c' = c'"
  using first_response_wins [OF one_call_reached, of EXEC "replicate 16 7"
      "\<lparr>future_ref = 0, sent_at = 5, destination = ''peer'', message_type_sent = EXEC\<rparr>" "demo_message []"
      "\<lparr>version = 2, mtype = EXEC_RESULT, payload = [], request_id = Some (replicate 16 7)\<rparr>"]
  by (simp add: one_call_eq demo_message_def NO_CORRELATION_def REQUEST_ID_LENGTH_def Let_def)

end
