(* ===== verification/Config_Models.thy ===== *)
theory Config_Models
  imports Rbac Py_Numbers "HOL-Library.Char_ord" "HOL-Library.List_Lexorder"
begin

text \<open>
  The configuration of the program (\<^verbatim>\<open>src/styrened/models/config.py\<close>, with
  \<^verbatim>\<open>models/relay.py\<close> and \<^verbatim>\<open>models/daemon_mode.py\<close> for two of its sections): the enumerations and
  the section classes with their defaults, and the dictionary \<^verbatim>\<open>CoreConfig.to_dict\<close> makes of a
  configuration. Fields the loader fills with whatever the file holds have any value; a
  path is the text of the path.
\<close>

text \<open>The lookup of an enumeration by value.\<close>

definition enum_of :: "('e \<Rightarrow> string) \<Rightarrow> 'e list \<Rightarrow> pyval \<Rightarrow> 'e option" where
  "enum_of value_of members v =
     (case v of PStr s \<Rightarrow> find (\<lambda>m. value_of m = s) members | _ \<Rightarrow> None)"

section \<open>Enumerations\<close>

datatype deployment_mode = STANDALONE | HUB_MODE | PEER_MODE

primrec deployment_mode_value :: "deployment_mode \<Rightarrow> string" where
  "deployment_mode_value STANDALONE = ''standalone''"
| "deployment_mode_value HUB_MODE = ''hub''"
| "deployment_mode_value PEER_MODE = ''peer''"

definition deployment_mode_of :: "pyval \<Rightarrow> deployment_mode option" where
  "deployment_mode_of = enum_of deployment_mode_value [STANDALONE, HUB_MODE, PEER_MODE]"

lemma deployment_mode_of_value [simp]: "deployment_mode_of (PStr (deployment_mode_value m)) = Some m"
  by (cases m) (simp_all add: deployment_mode_of_def enum_of_def)

datatype profile = OPERATOR_PROFILE | ENDPOINT_PROFILE | HUB_PROFILE

primrec profile_value :: "profile \<Rightarrow> string" where
  "profile_value OPERATOR_PROFILE = ''operator''"
| "profile_value ENDPOINT_PROFILE = ''endpoint''"
| "profile_value HUB_PROFILE = ''hub''"

definition profile_of :: "pyval \<Rightarrow> profile option" where
  "profile_of = enum_of profile_value [OPERATOR_PROFILE, ENDPOINT_PROFILE, HUB_PROFILE]"

lemma profile_of_value [simp]: "profile_of (PStr (profile_value m)) = Some m"
  by (cases m) (simp_all add: profile_of_def enum_of_def)

datatype auto_reply_mode = NO_REPLY | TEMPLATE | CHATBOT

primrec auto_reply_mode_value :: "auto_reply_mode \<Rightarrow> string" where
  "auto_reply_mode_value NO_REPLY = ''disabled''"
| "auto_reply_mode_value TEMPLATE = ''template''"
| "auto_reply_mode_value CHATBOT = ''chatbot''"

definition auto_reply_mode_of :: "pyval \<Rightarrow> auto_reply_mode option" where
  "auto_reply_mode_of = enum_of auto_reply_mode_value [NO_REPLY, TEMPLATE, CHATBOT]"

lemma auto_reply_mode_of_value [simp]: "auto_reply_mode_of (PStr (auto_reply_mode_value m)) = Some m"
  by (cases m) (simp_all add: auto_reply_mode_of_def enum_of_def)

datatype mesh_access_mode = OPEN | ALLOWLIST

primrec mesh_access_mode_value :: "mesh_access_mode \<Rightarrow> string" where
  "mesh_access_mode_value OPEN = ''open''"
| "mesh_access_mode_value ALLOWLIST = ''allowlist''"

definition mesh_access_mode_of :: "pyval \<Rightarrow> mesh_access_mode option" where
  "mesh_access_mode_of = enum_of mesh_access_mode_value [OPEN, ALLOWLIST]"

lemma mesh_access_mode_of_value [simp]: "mesh_access_mode_of (PStr (mesh_access_mode_value m)) = Some m"
  by (cases m) (simp_all add: mesh_access_mode_of_def enum_of_def)

datatype daemon_mode = DISABLED | ADOPT | MANAGED

primrec daemon_mode_value :: "daemon_mode \<Rightarrow> string" where
  "daemon_mode_value DISABLED = ''disabled''"
| "daemon_mode_value ADOPT = ''adopt''"
| "daemon_mode_value MANAGED = ''managed''"

definition daemon_mode_of :: "pyval \<Rightarrow> daemon_mode option" where
  "daemon_mode_of = enum_of daemon_mode_value [DISABLED, ADOPT, MANAGED]"

lemma daemon_mode_of_value [simp]: "daemon_mode_of (PStr (daemon_mode_value m)) = Some m"
  by (cases m) (simp_all add: daemon_mode_of_def enum_of_def)

datatype peer_discovery = EAGER | LAZY

primrec peer_discovery_value :: "peer_discovery \<Rightarrow> string" where
  "peer_discovery_value EAGER = ''eager''"
| "peer_discovery_value LAZY = ''lazy''"

definition peer_discovery_of :: "pyval \<Rightarrow> peer_discovery option" where
  "peer_discovery_of = enum_of peer_discovery_value [EAGER, LAZY]"

lemma peer_discovery_of_value [simp]: "peer_discovery_of (PStr (peer_discovery_value m)) = Some m"
  by (cases m) (simp_all add: peer_discovery_of_def enum_of_def)

datatype feature_tier = MINIMAL | BALANCED | FULL

primrec feature_tier_value :: "feature_tier \<Rightarrow> string" where
  "feature_tier_value MINIMAL = ''minimal''"
| "feature_tier_value BALANCED = ''balanced''"
| "feature_tier_value FULL = ''full''"

definition feature_tier_of :: "pyval \<Rightarrow> feature_tier option" where
  "feature_tier_of = enum_of feature_tier_value [MINIMAL, BALANCED, FULL]"

lemma feature_tier_of_value [simp]: "feature_tier_of (PStr (feature_tier_value m)) = Some m"
  by (cases m) (simp_all add: feature_tier_of_def enum_of_def)

section \<open>Sections\<close>

record server_config =
  srv_enabled :: bool
  srv_listen_ip :: string
  srv_port :: int

definition ServerInterfaceConfig :: server_config where
  "ServerInterfaceConfig =
     \<lparr>srv_enabled = False,
      srv_listen_ip = ''0.0.0.0'',
      srv_port = 4242\<rparr>"

record peer_config =
  peer_host :: string
  peer_port :: int
  peer_name :: pyval
  peer_enabled :: bool

record interface_config =
  if_auto :: bool
  if_server :: server_config
  if_peers :: "peer_config list"

definition InterfaceConfig :: interface_config where
  "InterfaceConfig =
     \<lparr>if_auto = False,
      if_server = ServerInterfaceConfig,
      if_peers = []\<rparr>"

record reticulum_config =
  ret_config_path_override :: "string option"
  ret_auto_initialize :: bool
  ret_mode :: deployment_mode
  ret_enable_transport :: "bool option"
  ret_interfaces :: interface_config
  ret_operator_identity_path :: "string option"
  ret_announce_interval :: int
  ret_hub_enabled :: bool
  ret_hub_address :: "string option"
  ret_hub_announce_interval :: int

definition ReticulumConfig :: reticulum_config where
  "ReticulumConfig =
     \<lparr>ret_config_path_override = None,
      ret_auto_initialize = True,
      ret_mode = STANDALONE,
      ret_enable_transport = None,
      ret_interfaces = InterfaceConfig,
      ret_operator_identity_path = None,
      ret_announce_interval = 3600,
      ret_hub_enabled = False,
      ret_hub_address = None,
      ret_hub_announce_interval = 3600\<rparr>"

record yubikey_config =
  yk_credential_id :: string
  yk_rp_id :: string
  yk_require_touch :: bool

definition YubiKeyConfig :: yubikey_config where
  "YubiKeyConfig =
     \<lparr>yk_credential_id = [],
      yk_rp_id = ''styrene.mesh'',
      yk_require_touch = False\<rparr>"

record identity_config =
  id_display_name :: string
  id_icon :: string
  id_short_name :: "string option"
  id_provider :: string
  id_yubikey :: yubikey_config
  id_web_url :: string

definition IdentityConfig :: identity_config where
  "IdentityConfig =
     \<lparr>id_display_name = ''Anonymous Styrene'',
      id_icon = [CHR 0xF0, CHR 0x9F, CHR 0x94, CHR 0x97],
      id_short_name = None,
      id_provider = ''file'',
      id_yubikey = YubiKeyConfig,
      id_web_url = []\<rparr>"

record web_auth_config =
  auth_enabled :: bool
  auth_exempt_localhost :: bool
  auth_session_ttl :: int

definition WebAuthConfig :: web_auth_config where
  "WebAuthConfig =
     \<lparr>auth_enabled = False,
      auth_exempt_localhost = True,
      auth_session_ttl = 86400\<rparr>"

record metrics_config =
  met_enabled :: bool

definition MetricsConfig :: metrics_config where
  "MetricsConfig = \<lparr>met_enabled = False\<rparr>"

record api_config =
  api_enabled :: bool
  api_host :: string
  api_port :: int
  api_public_mode :: bool
  api_metrics :: metrics_config
  api_auth :: web_auth_config

definition APIConfig :: api_config where
  "APIConfig =
     \<lparr>api_enabled = False,
      api_host = ''0.0.0.0'',
      api_port = 8000,
      api_public_mode = False,
      api_metrics = MetricsConfig,
      api_auth = WebAuthConfig\<rparr>"

record rpc_config =
  rpc_enabled :: bool
  rpc_relay_mode :: bool
  rpc_allow_command_execution :: bool

definition RPCConfig :: rpc_config where
  "RPCConfig =
     \<lparr>rpc_enabled = True,
      rpc_relay_mode = False,
      rpc_allow_command_execution = True\<rparr>"

record discovery_config =
  disc_enabled :: bool
  disc_auto_announce :: bool
  disc_access_mode :: mesh_access_mode
  disc_allowed_peers :: "string set"
  disc_info_respond :: bool
  disc_operator_label :: string

definition DiscoveryConfig :: discovery_config where
  "DiscoveryConfig =
     \<lparr>disc_enabled = True,
      disc_auto_announce = True,
      disc_access_mode = OPEN,
      disc_allowed_peers = {},
      disc_info_respond = False,
      disc_operator_label = []\<rparr>"

record chatbot_config =
  bot_endpoint :: string
  bot_model :: string
  bot_api_key :: string
  bot_system_prompt :: string
  bot_max_tokens :: int
  bot_temperature :: rat
  bot_max_context_messages :: int

definition ChatbotConfig :: chatbot_config where
  "ChatbotConfig =
     \<lparr>bot_endpoint = ''http://localhost:11434/v1'',
      bot_model = ''llama3'',
      bot_api_key = [],
      bot_system_prompt = (''You are an automated assistant running on {hostname}, a Reticulum '' @
   ''mesh network node (styrened {version}, up {uptime}). You are NOT a '' @
   ''human operator '' @
   [CHR 0xE2, CHR 0x80, CHR 0x94] @
   '' be upfront about that if asked.'' @
   [CHR 0x0A, CHR 0x0A] @
   ''Guidelines:'' @
   [CHR 0x0A] @
   ''- Be friendly and conversational. Match the tone of the person '' @
   ''messaging you.'' @
   [CHR 0x0A] @
   ''- Keep responses short (1-3 sentences). This is a low-bandwidth mesh '' @
   ''link.'' @
   [CHR 0x0A] @
   ''- Only share node status (uptime, version) when specifically asked.'' @
   [CHR 0x0A] @
   ''- For casual messages (greetings, small talk), respond naturally '' @
   [CHR 0xE2, CHR 0x80, CHR 0x94] @
   '' don't pivot to technical info unprompted.'' @
   [CHR 0x0A] @
   ''- If you don't know something, say so. Don't fabricate node data.''),
      bot_max_tokens = 256,
      bot_temperature = 7 / 10,
      bot_max_context_messages = 10\<rparr>"

record chat_config =
  chat_enabled :: bool
  chat_auto_reply_mode :: auto_reply_mode
  chat_auto_reply_message :: string
  chat_auto_reply_cooldown :: int
  chat_persist_messages :: bool
  chat_chatbot :: chatbot_config

definition ChatConfig :: chat_config where
  "ChatConfig =
     \<lparr>chat_enabled = True,
      chat_auto_reply_mode = NO_REPLY,
      chat_auto_reply_message = (''This is {hostname}, a Styrene mesh node running in headless mode. No '' @
   ''operator is currently available to respond. For more information '' @
   ''about Styrene, visit: https://github.com/styrene-lab''),
      chat_auto_reply_cooldown = 300,
      chat_persist_messages = True,
      chat_chatbot = ChatbotConfig\<rparr>"

record notifications_config =
  ntf_enabled :: bool
  ntf_quiet_hours_start :: "int option"
  ntf_quiet_hours_end :: "int option"

definition NotificationsConfig :: notifications_config where
  "NotificationsConfig =
     \<lparr>ntf_enabled = True,
      ntf_quiet_hours_start = None,
      ntf_quiet_hours_end = None\<rparr>"

record ipc_config =
  ipc_enabled :: bool
  ipc_socket_path :: "string option"
  ipc_socket_mode :: int

definition IPCConfig :: ipc_config where
  "IPCConfig =
     \<lparr>ipc_enabled = True,
      ipc_socket_path = None,
      ipc_socket_mode = 432\<rparr>"

record propagation_node_config =
  pn_enabled :: bool
  pn_name :: pyval

definition PropagationNodeConfig :: propagation_node_config where
  "PropagationNodeConfig =
     \<lparr>pn_enabled = False,
      pn_name = PNone\<rparr>"

record lxmf_config =
  lx_propagation_node :: propagation_node_config
  lx_propagation_destination :: "string option"
  lx_propagation_limit :: int
  lx_sync_limit :: int
  lx_delivery_limit :: int
  lx_autopeer :: bool
  lx_autopeer_maxdepth :: int
  lx_max_peers :: int
  lx_static_peers :: "string list"
  lx_from_static_only :: bool
  lx_propagation_cost :: int
  lx_propagation_cost_flexibility :: int
  lx_peering_cost :: int
  lx_max_peering_cost :: int

definition LXMFConfig :: lxmf_config where
  "LXMFConfig =
     \<lparr>lx_propagation_node = PropagationNodeConfig,
      lx_propagation_destination = None,
      lx_propagation_limit = 256,
      lx_sync_limit = 10240,
      lx_delivery_limit = 1000,
      lx_autopeer = True,
      lx_autopeer_maxdepth = 4,
      lx_max_peers = 20,
      lx_static_peers = [],
      lx_from_static_only = False,
      lx_propagation_cost = 16,
      lx_propagation_cost_flexibility = 3,
      lx_peering_cost = 18,
      lx_max_peering_cost = 26\<rparr>"

record terminal_config =
  trm_enabled :: bool
  trm_default_shell :: "string option"
  trm_allowed_shells :: "string set"
  trm_session_idle_timeout :: int
  trm_max_sessions_per_identity :: int
  trm_max_total_sessions :: int
  trm_rate_limit_requests :: int

definition TerminalConfig :: terminal_config where
  "TerminalConfig =
     \<lparr>trm_enabled = False,
      trm_default_shell = None,
      trm_allowed_shells = {},
      trm_session_idle_timeout = 3600,
      trm_max_sessions_per_identity = 3,
      trm_max_total_sessions = 10,
      trm_rate_limit_requests = 10\<rparr>"

record page_server_config =
  pg_enabled :: bool
  pg_pages_dir :: "string option"
  pg_node_name :: "string option"
  pg_demo :: bool

definition PageServerConfig :: page_server_config where
  "PageServerConfig =
     \<lparr>pg_enabled = False,
      pg_pages_dir = None,
      pg_node_name = None,
      pg_demo = False\<rparr>"

record pqc_config =
  pqc_enabled :: bool
  pqc_rekey_interval_hours :: int
  pqc_require_pqc_for_rpc :: bool
  pqc_auto_initiate :: bool

definition PQCConfig :: pqc_config where
  "PQCConfig =
     \<lparr>pqc_enabled = True,
      pqc_rekey_interval_hours = 24,
      pqc_require_pqc_for_rpc = False,
      pqc_auto_initiate = True\<rparr>"

record mesh_vpn_config =
  vpn_enable :: bool
  vpn_listen_port :: int
  vpn_subnet_prefix :: string
  vpn_gateway :: bool
  vpn_endpoint :: string
  vpn_peer_discovery :: string

definition MeshVPNConfig :: mesh_vpn_config where
  "MeshVPNConfig =
     \<lparr>vpn_enable = False,
      vpn_listen_port = 51820,
      vpn_subnet_prefix = ''fd73:7479:7265:6e65'',
      vpn_gateway = False,
      vpn_endpoint = [],
      vpn_peer_discovery = ''lazy''\<rparr>"

record relay_config =
  rly_enabled :: bool
  rly_max_sessions :: int
  rly_max_per_identity :: int
  rly_max_bytes_per_session :: int
  rly_idle_timeout :: int
  rly_allow_permanent :: bool
  rly_allowed_identities :: "pyval list"

definition RelayConfig :: relay_config where
  "RelayConfig =
     \<lparr>rly_enabled = False,
      rly_max_sessions = 16,
      rly_max_per_identity = 2,
      rly_max_bytes_per_session = 52428800,
      rly_idle_timeout = 900,
      rly_allow_permanent = False,
      rly_allowed_identities = []\<rparr>"

record yggdrasil_config =
  ygg_mode :: daemon_mode
  ygg_binary_path :: string
  ygg_listen_port :: int
  ygg_admin_socket :: string
  ygg_multicast :: bool
  ygg_bootstrap_from_rns :: bool
  ygg_peer_discovery :: peer_discovery
  ygg_initial_peers :: "string list"

definition YggdrasilConfig :: yggdrasil_config where
  "YggdrasilConfig =
     \<lparr>ygg_mode = DISABLED,
      ygg_binary_path = ''yggdrasil'',
      ygg_listen_port = 9002,
      ygg_admin_socket = [],
      ygg_multicast = True,
      ygg_bootstrap_from_rns = False,
      ygg_peer_discovery = LAZY,
      ygg_initial_peers = []\<rparr>"

record i2p_config =
  i2p_mode :: daemon_mode
  i2p_http_proxy_host :: string
  i2p_http_proxy_port :: int
  i2p_managed_http_proxy_port :: int
  i2p_managed_i2pcontrol_port :: int
  i2p_b32_address :: string
  i2p_cache_ttl :: int
  i2p_fetch_timeout :: rat

definition I2PConfig :: i2p_config where
  "I2PConfig =
     \<lparr>i2p_mode = DISABLED,
      i2p_http_proxy_host = ''127.0.0.1'',
      i2p_http_proxy_port = 4444,
      i2p_managed_http_proxy_port = 4445,
      i2p_managed_i2pcontrol_port = 7651,
      i2p_b32_address = [],
      i2p_cache_ttl = 3600,
      i2p_fetch_timeout = 45\<rparr>"

record group_threads_config =
  gt_enabled :: bool
  gt_feature_tier :: feature_tier
  gt_bounded_retention :: bool
  gt_auto_media_fetch :: bool
  gt_metadata_first_sync :: bool
  gt_background_catchup :: bool
  gt_first_run_auto_tier :: bool

definition GroupThreadsConfig :: group_threads_config where
  "GroupThreadsConfig =
     \<lparr>gt_enabled = True,
      gt_feature_tier = BALANCED,
      gt_bounded_retention = False,
      gt_auto_media_fetch = True,
      gt_metadata_first_sync = False,
      gt_background_catchup = True,
      gt_first_run_auto_tier = True\<rparr>"

record security_config =
  sec_strict_binary_verification :: bool

definition SecurityConfig :: security_config where
  "SecurityConfig =
     \<lparr>sec_strict_binary_verification = False\<rparr>"

record logging_config =
  log_boundary_sink :: bool

definition LoggingConfig :: logging_config where
  "LoggingConfig =
     \<lparr>log_boundary_sink = False\<rparr>"

record core_config =
  c_profile :: profile
  c_reticulum :: reticulum_config
  c_identity :: identity_config
  c_rpc :: rpc_config
  c_discovery :: discovery_config
  c_chat :: chat_config
  c_api :: api_config
  c_ipc :: ipc_config
  c_notifications :: notifications_config
  c_lxmf :: lxmf_config
  c_terminal :: terminal_config
  c_page_server :: page_server_config
  c_pqc :: pqc_config
  c_mesh_vpn :: mesh_vpn_config
  c_relay :: relay_config
  c_rbac :: rbac
  c_yggdrasil :: yggdrasil_config
  c_i2p :: i2p_config
  c_group_threads :: group_threads_config
  c_logging :: logging_config
  c_security :: security_config

definition CoreConfig :: core_config where
  "CoreConfig =
     \<lparr>c_profile = OPERATOR_PROFILE,
      c_reticulum = ReticulumConfig,
      c_identity = IdentityConfig,
      c_rpc = RPCConfig,
      c_discovery = DiscoveryConfig,
      c_chat = ChatConfig,
      c_api = APIConfig,
      c_ipc = IPCConfig,
      c_notifications = NotificationsConfig,
      c_lxmf = LXMFConfig,
      c_terminal = TerminalConfig,
      c_page_server = PageServerConfig,
      c_pqc = PQCConfig,
      c_mesh_vpn = MeshVPNConfig,
      c_relay = RelayConfig,
      c_rbac = RBACPolicy PEER [] [],
      c_yggdrasil = YggdrasilConfig,
      c_i2p = I2PConfig,
      c_group_threads = GroupThreadsConfig,
      c_logging = LoggingConfig,
      c_security = SecurityConfig\<rparr>"

definition COMMUNITY_HUB_PROPAGATION_HASH :: string where
  "COMMUNITY_HUB_PROPAGATION_HASH = ''0db6cb465cb2bb3279f32e27ac7da24b''"

definition WELL_KNOWN_HUBS :: "peer_config list" where
  "WELL_KNOWN_HUBS =
     [\<lparr>peer_host = ''rns.styrene.io'', peer_port = 4242, peer_name = PStr ''Styrene Community Hub'', peer_enabled = True\<rparr>,
      \<lparr>peer_host = ''dublin.connect.reticulum.network'', peer_port = 4965, peer_name = PStr ''RNS Dublin'', peer_enabled = False\<rparr>,
      \<lparr>peer_host = ''reticulum.betweentheborders.com'', peer_port = 4242, peer_name = PStr ''BetweenTheBorders'', peer_enabled = False\<rparr>,
      \<lparr>peer_host = ''istanbul.reserve.network'', peer_port = 9034, peer_name = PStr ''Istanbul Reserve'', peer_enabled = False\<rparr>,
      \<lparr>peer_host = ''sydney.reticulum.au'', peer_port = 4242, peer_name = PStr ''RNS Sydney'', peer_enabled = False\<rparr>]"

section \<open>Small operations\<close>

definition short_name_core :: "string \<Rightarrow> bool" where
  "short_name_core s \<longleftrightarrow>
     (let inner = (\<lambda>c. let n = of_char c :: nat in 97 \<le> n \<and> n \<le> 122 \<or> 48 \<le> n \<and> n \<le> 57) in
      3 \<le> length s \<and> length s \<le> 20 \<and> inner (hd s) \<and> inner (last s) \<and>
      list_all (\<lambda>c. inner c \<or> c = CHR ''-'') s)"

text \<open>The dollar of the pattern also matches before one final newline.\<close>

definition validate_short_name :: "string \<Rightarrow> bool" where
  "validate_short_name s \<longleftrightarrow>
     short_name_core s \<or> s \<noteq> [] \<and> last s = CHR 0x0A \<and> short_name_core (butlast s)"

definition resolve_transport_enabled :: "reticulum_config \<Rightarrow> bool" where
  "resolve_transport_enabled r =
     (case ret_enable_transport r of Some b \<Rightarrow> b | None \<Rightarrow> ret_mode r = HUB_MODE \<or> ret_mode r = STANDALONE)"

section \<open>The dictionary of a configuration\<close>

definition when_true :: "bool \<Rightarrow> string \<Rightarrow> pyval \<Rightarrow> (string \<times> pyval) list" where
  "when_true b k v = (if b then [(k, v)] else [])"

definition sub :: "(string \<times> pyval) list \<Rightarrow> pyval" where
  "sub ps = PDict (kv ps)"

text \<open>\<^verbatim>\<open>sorted\<close> of a set of texts.\<close>

definition sorted_texts :: "string set \<Rightarrow> pyval" where
  "sorted_texts A = str_list (sorted_list_of_set A)"

definition peer_to_dict :: "peer_config \<Rightarrow> pyval" where
  "peer_to_dict p =
     sub ([(''host'', PStr (peer_host p)), (''port'', PInt (peer_port p))] @
          when_true (truthy (peer_name p)) ''name'' (peer_name p) @ [(''enabled'', PBool (peer_enabled p))])"

definition server_to_dict :: "server_config \<Rightarrow> (string \<times> pyval) list" where
  "server_to_dict s =
     [(''enabled'', PBool (srv_enabled s)), (''listen_ip'', PStr (srv_listen_ip s)), (''port'', PInt (srv_port s))]"

definition interfaces_to_dict :: "interface_config \<Rightarrow> (string \<times> pyval) list" where
  "interfaces_to_dict i =
     [(''auto'', PBool (if_auto i)), (''server'', sub (server_to_dict (if_server i)))] @
     when_true (if_peers i \<noteq> []) ''peers'' (PList (map peer_to_dict (if_peers i)))"

definition reticulum_to_dict :: "reticulum_config \<Rightarrow> (string \<times> pyval) list" where
  "reticulum_to_dict r =
     [(''mode'', PStr (deployment_mode_value (ret_mode r))), (''auto_initialize'', PBool (ret_auto_initialize r)),
      (''announce_interval'', PInt (ret_announce_interval r)), (''hub_enabled'', PBool (ret_hub_enabled r)),
      (''hub_announce_interval'', PInt (ret_hub_announce_interval r))] @
     opt_entry ''enable_transport'' PBool (ret_enable_transport r) @
     opt_entry ''config_path_override'' PStr (ret_config_path_override r) @
     opt_entry ''operator_identity_path'' PStr (ret_operator_identity_path r) @
     opt_entry ''hub_address'' PStr (ret_hub_address r) @
     [(''interfaces'', sub (interfaces_to_dict (ret_interfaces r)))]"

definition yubikey_to_dict :: "yubikey_config \<Rightarrow> (string \<times> pyval) list" where
  "yubikey_to_dict y =
     [(''credential_id'', PStr (yk_credential_id y)), (''rp_id'', PStr (yk_rp_id y)),
      (''require_touch'', PBool (yk_require_touch y))]"

definition nonempty_text :: "string option \<Rightarrow> string option" where
  "nonempty_text x = (case x of None \<Rightarrow> None | Some s \<Rightarrow> if s = [] then None else Some s)"

definition identity_to_dict :: "identity_config \<Rightarrow> (string \<times> pyval) list" where
  "identity_to_dict i =
     [(''display_name'', PStr (id_display_name i)), (''icon'', PStr (id_icon i)), (''provider'', PStr (id_provider i))] @
     opt_entry ''short_name'' PStr (nonempty_text (id_short_name i)) @
     when_true (id_provider i = ''yubikey'' \<or> yk_credential_id (id_yubikey i) \<noteq> [])
       ''yubikey'' (sub (yubikey_to_dict (id_yubikey i))) @
     when_true (id_web_url i \<noteq> []) ''web_url'' (PStr (id_web_url i))"

definition rpc_to_dict :: "rpc_config \<Rightarrow> (string \<times> pyval) list" where
  "rpc_to_dict r =
     [(''enabled'', PBool (rpc_enabled r)), (''relay_mode'', PBool (rpc_relay_mode r)),
      (''allow_command_execution'', PBool (rpc_allow_command_execution r))]"

definition discovery_to_dict :: "discovery_config \<Rightarrow> (string \<times> pyval) list" where
  "discovery_to_dict d =
     [(''enabled'', PBool (disc_enabled d)), (''auto_announce'', PBool (disc_auto_announce d)),
      (''access_mode'', PStr (mesh_access_mode_value (disc_access_mode d))),
      (''allowed_peers'', sorted_texts (disc_allowed_peers d)), (''info_respond'', PBool (disc_info_respond d))] @
     when_true (disc_operator_label d \<noteq> []) ''operator_label'' (PStr (disc_operator_label d))"

definition chatbot_to_dict :: "chatbot_config \<Rightarrow> (string \<times> pyval) list" where
  "chatbot_to_dict b =
     [(''endpoint'', PStr (bot_endpoint b)), (''model'', PStr (bot_model b)),
      (''system_prompt'', PStr (bot_system_prompt b)), (''max_tokens'', PInt (bot_max_tokens b)),
      (''temperature'', PFloat (bot_temperature b)), (''max_context_messages'', PInt (bot_max_context_messages b))] @
     when_true (bot_api_key b \<noteq> []) ''api_key'' (PStr (bot_api_key b))"

definition chat_to_dict :: "chat_config \<Rightarrow> (string \<times> pyval) list" where
  "chat_to_dict c =
     [(''enabled'', PBool (chat_enabled c)), (''auto_reply_mode'', PStr (auto_reply_mode_value (chat_auto_reply_mode c))),
      (''auto_reply_message'', PStr (chat_auto_reply_message c)),
      (''auto_reply_cooldown'', PInt (chat_auto_reply_cooldown c)),
      (''persist_messages'', PBool (chat_persist_messages c)), (''chatbot'', sub (chatbot_to_dict (chat_chatbot c)))]"

definition web_auth_to_dict :: "web_auth_config \<Rightarrow> (string \<times> pyval) list" where
  "web_auth_to_dict a =
     [(''enabled'', PBool (auth_enabled a)), (''exempt_localhost'', PBool (auth_exempt_localhost a)),
      (''session_ttl'', PInt (auth_session_ttl a))]"

definition api_to_dict :: "api_config \<Rightarrow> (string \<times> pyval) list" where
  "api_to_dict a =
     [(''enabled'', PBool (api_enabled a)), (''host'', PStr (api_host a)), (''port'', PInt (api_port a)),
      (''public_mode'', PBool (api_public_mode a)),
      (''metrics'', sub [(''enabled'', PBool (met_enabled (api_metrics a)))]),
      (''auth'', sub (web_auth_to_dict (api_auth a)))]"

definition ipc_to_dict :: "ipc_config \<Rightarrow> (string \<times> pyval) list" where
  "ipc_to_dict i =
     [(''enabled'', PBool (ipc_enabled i)), (''socket_mode'', PInt (ipc_socket_mode i))] @
     opt_entry ''socket_path'' PStr (ipc_socket_path i)"

definition notifications_to_dict :: "notifications_config \<Rightarrow> (string \<times> pyval) list" where
  "notifications_to_dict n =
     [(''enabled'', PBool (ntf_enabled n))] @ opt_entry ''quiet_hours_start'' PInt (ntf_quiet_hours_start n) @
     opt_entry ''quiet_hours_end'' PInt (ntf_quiet_hours_end n)"

definition propagation_node_to_dict :: "propagation_node_config \<Rightarrow> (string \<times> pyval) list" where
  "propagation_node_to_dict p =
     [(''enabled'', PBool (pn_enabled p))] @ when_true (pn_name p \<noteq> PNone) ''name'' (pn_name p)"

definition lxmf_to_dict :: "lxmf_config \<Rightarrow> (string \<times> pyval) list" where
  "lxmf_to_dict l =
     [(''propagation_node'', sub (propagation_node_to_dict (lx_propagation_node l))),
      (''propagation_limit'', PInt (lx_propagation_limit l)), (''sync_limit'', PInt (lx_sync_limit l)),
      (''delivery_limit'', PInt (lx_delivery_limit l)), (''autopeer'', PBool (lx_autopeer l)),
      (''autopeer_maxdepth'', PInt (lx_autopeer_maxdepth l)), (''max_peers'', PInt (lx_max_peers l)),
      (''from_static_only'', PBool (lx_from_static_only l)), (''propagation_cost'', PInt (lx_propagation_cost l)),
      (''propagation_cost_flexibility'', PInt (lx_propagation_cost_flexibility l)),
      (''peering_cost'', PInt (lx_peering_cost l)), (''max_peering_cost'', PInt (lx_max_peering_cost l))] @
     opt_entry ''propagation_destination'' PStr (lx_propagation_destination l) @
     when_true (lx_static_peers l \<noteq> []) ''static_peers'' (str_list (lx_static_peers l))"

definition terminal_to_dict :: "terminal_config \<Rightarrow> (string \<times> pyval) list" where
  "terminal_to_dict t =
     [(''enabled'', PBool (trm_enabled t)), (''session_idle_timeout'', PInt (trm_session_idle_timeout t)),
      (''max_sessions_per_identity'', PInt (trm_max_sessions_per_identity t)),
      (''max_total_sessions'', PInt (trm_max_total_sessions t)),
      (''rate_limit_requests'', PInt (trm_rate_limit_requests t))] @
     opt_entry ''default_shell'' PStr (trm_default_shell t) @
     when_true (trm_allowed_shells t \<noteq> {}) ''allowed_shells'' (sorted_texts (trm_allowed_shells t))"

definition page_server_to_dict :: "page_server_config \<Rightarrow> (string \<times> pyval) list" where
  "page_server_to_dict p =
     [(''enabled'', PBool (pg_enabled p))] @ opt_entry ''pages_dir'' PStr (pg_pages_dir p) @
     opt_entry ''node_name'' PStr (pg_node_name p) @ when_true (pg_demo p) ''demo'' (PBool True)"

definition pqc_to_dict :: "pqc_config \<Rightarrow> (string \<times> pyval) list" where
  "pqc_to_dict p =
     [(''enabled'', PBool (pqc_enabled p)), (''rekey_interval_hours'', PInt (pqc_rekey_interval_hours p)),
      (''require_pqc_for_rpc'', PBool (pqc_require_pqc_for_rpc p)), (''auto_initiate'', PBool (pqc_auto_initiate p))]"

definition mesh_vpn_to_dict :: "mesh_vpn_config \<Rightarrow> (string \<times> pyval) list" where
  "mesh_vpn_to_dict v =
     [(''enable'', PBool (vpn_enable v)), (''listen_port'', PInt (vpn_listen_port v)),
      (''subnet_prefix'', PStr (vpn_subnet_prefix v)), (''gateway'', PBool (vpn_gateway v)),
      (''endpoint'', PStr (vpn_endpoint v))]"

definition relay_to_dict :: "relay_config \<Rightarrow> (string \<times> pyval) list" where
  "relay_to_dict r =
     [(''enabled'', PBool (rly_enabled r)), (''max_sessions'', PInt (rly_max_sessions r)),
      (''max_per_identity'', PInt (rly_max_per_identity r)),
      (''max_bytes_per_session'', PInt (rly_max_bytes_per_session r)), (''idle_timeout'', PInt (rly_idle_timeout r)),
      (''allow_permanent'', PBool (rly_allow_permanent r)), (''allowed_identities'', PList (rly_allowed_identities r))]"

definition yggdrasil_to_dict :: "yggdrasil_config \<Rightarrow> (string \<times> pyval) list" where
  "yggdrasil_to_dict y =
     [(''mode'', PStr (daemon_mode_value (ygg_mode y))), (''binary_path'', PStr (ygg_binary_path y)),
      (''listen_port'', PInt (ygg_listen_port y)), (''admin_socket'', PStr (ygg_admin_socket y)),
      (''multicast'', PBool (ygg_multicast y)), (''bootstrap_from_rns'', PBool (ygg_bootstrap_from_rns y)),
      (''peer_discovery'', PStr (peer_discovery_value (ygg_peer_discovery y))),
      (''initial_peers'', str_list (ygg_initial_peers y))]"

definition i2p_to_dict :: "i2p_config \<Rightarrow> (string \<times> pyval) list" where
  "i2p_to_dict i =
     [(''mode'', PStr (daemon_mode_value (i2p_mode i))), (''http_proxy_host'', PStr (i2p_http_proxy_host i)),
      (''http_proxy_port'', PInt (i2p_http_proxy_port i)),
      (''managed_http_proxy_port'', PInt (i2p_managed_http_proxy_port i)),
      (''managed_i2pcontrol_port'', PInt (i2p_managed_i2pcontrol_port i)),
      (''b32_address'', PStr (i2p_b32_address i)), (''cache_ttl'', PInt (i2p_cache_ttl i)),
      (''fetch_timeout'', PFloat (i2p_fetch_timeout i))]"

definition group_threads_to_dict :: "group_threads_config \<Rightarrow> (string \<times> pyval) list" where
  "group_threads_to_dict g =
     [(''enabled'', PBool (gt_enabled g)), (''feature_tier'', PStr (feature_tier_value (gt_feature_tier g))),
      (''bounded_retention'', PBool (gt_bounded_retention g)), (''auto_media_fetch'', PBool (gt_auto_media_fetch g)),
      (''metadata_first_sync'', PBool (gt_metadata_first_sync g)),
      (''background_catchup'', PBool (gt_background_catchup g)),
      (''first_run_auto_tier'', PBool (gt_first_run_auto_tier g))]"

text \<open>\<^verbatim>\<open>role.name.lower()\<close>.\<close>

primrec role_key :: "role \<Rightarrow> string" where
  "role_key BLOCKED = ''blocked''"
| "role_key NONE = ''none''"
| "role_key PEER = ''peer''"
| "role_key MONITOR = ''monitor''"
| "role_key OPERATOR = ''operator''"
| "role_key ADMIN = ''admin''"

definition entry_to_dict :: "roster_entry \<Rightarrow> pyval" where
  "entry_to_dict e =
     sub ([(''identity'', PStr (identity_hash e)), (''role'', PStr (role_key (erole e)))] @
          when_true (label e \<noteq> []) ''label'' (PStr (label e)) @
          when_true (grants e \<noteq> {}) ''grants'' (sorted_texts (grants e)))"

definition sorted_entries :: "rbac \<Rightarrow> roster_entry list" where
  "sorted_entries p = sort_key identity_hash (map snd (roster p))"

definition rbac_to_dict :: "rbac \<Rightarrow> (string \<times> pyval) list" where
  "rbac_to_dict p =
     [(''default_role'', PStr (role_key (default_role p))), (''roster'', PList (map entry_to_dict (sorted_entries p))),
      (''blocked'', str_list (blocked p))]"

definition to_dict :: "core_config \<Rightarrow> (string \<times> pyval) list" where
  "to_dict c =
     [(''profile'', PStr (profile_value (c_profile c))), (''reticulum'', sub (reticulum_to_dict (c_reticulum c))),
      (''identity'', sub (identity_to_dict (c_identity c))), (''rpc'', sub (rpc_to_dict (c_rpc c))),
      (''discovery'', sub (discovery_to_dict (c_discovery c))), (''chat'', sub (chat_to_dict (c_chat c))),
      (''api'', sub (api_to_dict (c_api c))), (''ipc'', sub (ipc_to_dict (c_ipc c))),
      (''notifications'', sub (notifications_to_dict (c_notifications c))), (''lxmf'', sub (lxmf_to_dict (c_lxmf c))),
      (''terminal'', sub (terminal_to_dict (c_terminal c))),
      (''page_server'', sub (page_server_to_dict (c_page_server c))), (''pqc'', sub (pqc_to_dict (c_pqc c))),
      (''mesh_vpn'', sub (mesh_vpn_to_dict (c_mesh_vpn c))), (''relay'', sub (relay_to_dict (c_relay c))),
      (''yggdrasil'', sub (yggdrasil_to_dict (c_yggdrasil c))), (''i2p'', sub (i2p_to_dict (c_i2p c))),
      (''group_threads'', sub (group_threads_to_dict (c_group_threads c))),
      (''security'', sub [(''strict_binary_verification'', PBool (sec_strict_binary_verification (c_security c)))]),
      (''logging'', sub [(''boundary_sink'', PBool (log_boundary_sink (c_logging c)))]),
      (''rbac'', sub (rbac_to_dict (c_rbac c)))]"

end
