(* ===== verification/Node_Store.thy ===== *)
theory Node_Store
  imports Mesh_Device Interfaces
begin

text \<open>
  The persistent store of discovered nodes and of path snapshots
  (\<^verbatim>\<open>src/styrened/services/node_store.py\<close>). A SQL table with a text primary key is the list of
  its rows in row order; \<^verbatim>\<open>INSERT ... ON CONFLICT DO UPDATE\<close> is \<open>upsert\<close>, and a lookup by
  any other column finds the first matching row. The lock makes each operation one step. The
  clock is an argument.
\<close>

section \<open>Tables with a primary key\<close>

fun upsert :: "('r \<Rightarrow> 'k) \<Rightarrow> ('r \<Rightarrow> 'r \<Rightarrow> 'r) \<Rightarrow> 'r \<Rightarrow> 'r list \<Rightarrow> 'r list" where
  "upsert key merge new [] = [new]"
| "upsert key merge new (r # rs) =
     (if key r = key new then merge r new # rs else r # upsert key merge new rs)"

definition table_map :: "('r \<Rightarrow> 'k) \<Rightarrow> 'r list \<Rightarrow> 'k \<Rightarrow> 'r option" where
  "table_map key t = map_of (map (\<lambda>r. (key r, r)) t)"

definition keyed_rows :: "('r \<Rightarrow> 'k) \<Rightarrow> 'r list \<Rightarrow> bool" where
  "keyed_rows key t \<longleftrightarrow> distinct (map key t)"

locale keyed_table =
  fixes key :: "'r \<Rightarrow> 'k"
    and merge :: "'r \<Rightarrow> 'r \<Rightarrow> 'r"
  assumes key_merge: "key new = key old \<Longrightarrow> key (merge old new) = key old"
begin

lemma keys_upsert: "key ` set (upsert key merge new t) = insert (key new) (key ` set t)"
  by (induction t) (auto simp: key_merge)

lemma keyed_upsert: "keyed_rows key t \<Longrightarrow> keyed_rows key (upsert key merge new t)"
proof (induction t)
  case (Cons r t)
  then show ?case by (auto simp: keyed_rows_def key_merge keys_upsert)
qed (simp add: keyed_rows_def)

lemma map_upsert:
  "table_map key (upsert key merge new t) =
     (table_map key t)(key new \<mapsto> (case table_map key t (key new) of None \<Rightarrow> new | Some old \<Rightarrow> merge old new))"
  by (induction t) (auto simp: table_map_def fun_eq_iff key_merge)

lemma keyed_filter: "keyed_rows key t \<Longrightarrow> keyed_rows key (filter P t)"
  by (simp add: keyed_rows_def distinct_map_filter)

lemma map_filter:
  "keyed_rows key t \<Longrightarrow>
     table_map key (filter P t) = (\<lambda>k. case table_map key t k of None \<Rightarrow> None | Some r \<Rightarrow> if P r then Some r else None)"
proof (induction t)
  case (Cons r t)
  then have IH: "table_map key (filter P t) =
      (\<lambda>k. case table_map key t k of None \<Rightarrow> None | Some r \<Rightarrow> if P r then Some r else None)"
    and new: "key r \<notin> key ` set t"
    by (auto simp: keyed_rows_def)
  then have "table_map key t (key r) = None" by (auto simp: table_map_def map_of_eq_None_iff)
  with IH show ?case by (auto simp: table_map_def fun_eq_iff)
qed (simp add: table_map_def)

lemma map_find: "table_map key t k = find (\<lambda>r. key r = k) t"
  by (induction t) (auto simp: table_map_def)

lemma map_key: "table_map key t k = Some r \<Longrightarrow> key r = k"
  by (induction t) (auto simp: table_map_def split: if_splits)

lemma map_member: "keyed_rows key t \<Longrightarrow> table_map key t k = Some r \<longleftrightarrow> r \<in> set t \<and> key r = k"
  by (induction t) (auto simp: table_map_def keyed_rows_def intro: rev_image_eqI)

end

section \<open>Hashes\<close>

definition MIN_PREFIX_LENGTH :: nat where "MIN_PREFIX_LENGTH = 8"

definition is_valid_hash :: "string option \<Rightarrow> bool" where
  "is_valid_hash h = (case h of None \<Rightarrow> False | Some s \<Rightarrow> re_class is_hex (\<lambda>n. n = 32) s)"

definition is_valid_hash_prefix :: "string option \<Rightarrow> bool" where
  "is_valid_hash_prefix h =
     (case h of
        None \<Rightarrow> False
      | Some s \<Rightarrow> if py_len s < MIN_PREFIX_LENGTH then False else re_class is_hex (\<lambda>n. 1 \<le> n) s)"

section \<open>Rows\<close>

record node_row =
  n_destination_hash :: string
  n_identity_hash :: string
  n_name :: string
  n_device_type :: string
  n_last_announce :: int
  n_announce_count :: int
  n_capabilities :: "string option"
  n_version :: "string option"
  n_lxmf_destination_hash :: "string option"
  n_short_name :: "string option"
  n_system_fingerprint :: "string option"
  n_discovered_via :: "string option"
  n_hops :: "int option"
  n_nomadnet :: "string option"
  n_ygg_address :: "string option"
  n_b32_address :: "string option"
  n_web_url :: "string option"
  n_created_at :: int
  n_updated_at :: int

record path_row =
  p_destination_hash :: string
  p_next_hop :: "string option"
  p_hops :: int
  p_interface_type :: "string option"
  p_interface_name :: "string option"
  p_bitrate :: "int option"
  p_expires :: "int option"
  p_updated_at :: int

record node_store =
  nodes :: "node_row list"
  paths :: "path_row list"

definition init_db :: node_store where
  "init_db = \<lparr>nodes = [], paths = []\<rparr>"

definition join_capabilities :: "string list option \<Rightarrow> string option" where
  "join_capabilities cs = (case cs of None \<Rightarrow> None | Some [] \<Rightarrow> None | Some ws \<Rightarrow> Some (join_with '','' ws))"

definition row_of :: "int \<Rightarrow> mesh_device \<Rightarrow> node_row" where
  "row_of now d =
     \<lparr>n_destination_hash = destination_hash d, n_identity_hash = identity_hash d, n_name = dev_name d,
      n_device_type = device_type_value (device_type d), n_last_announce = last_announce d,
      n_announce_count = announce_count d, n_capabilities = join_capabilities (capabilities d),
      n_version = dev_version d, n_lxmf_destination_hash = lxmf_destination_hash d,
      n_short_name = short_name d, n_system_fingerprint = system_fingerprint d,
      n_discovered_via = discovered_via d, n_hops = hops d, n_nomadnet = nomadnet_destination_hash d,
      n_ygg_address = ygg_address d, n_b32_address = b32_address d, n_web_url = web_url d,
      n_created_at = now, n_updated_at = now\<rparr>"

definition coalesce :: "'a option \<Rightarrow> 'a option \<Rightarrow> 'a option" where
  "coalesce a b = (case a of Some x \<Rightarrow> Some x | None \<Rightarrow> b)"

text \<open>The \<^verbatim>\<open>DO UPDATE SET\<close> clause: \<open>old\<close> is the stored row, \<open>new\<close> the excluded one.\<close>

definition merge_node :: "node_row \<Rightarrow> node_row \<Rightarrow> node_row" where
  "merge_node old new =
     new\<lparr>n_destination_hash := n_destination_hash old,
         n_announce_count := n_announce_count old + 1,
         n_discovered_via := coalesce (n_discovered_via new) (n_discovered_via old),
         n_nomadnet := coalesce (n_nomadnet new) (n_nomadnet old),
         n_ygg_address := coalesce (n_ygg_address new) (n_ygg_address old),
         n_b32_address := coalesce (n_b32_address new) (n_b32_address old),
         n_web_url := coalesce (n_web_url new) (n_web_url old),
         n_created_at := n_created_at old\<rparr>"

definition merge_path :: "path_row \<Rightarrow> path_row \<Rightarrow> path_row" where
  "merge_path old new = new\<lparr>p_destination_hash := p_destination_hash old\<rparr>"

definition row_to_device :: "node_row \<Rightarrow> mesh_device" where
  "row_to_device r =
     \<lparr>destination_hash = n_destination_hash r, identity_hash = n_identity_hash r,
      dev_name = (if n_name r = [] then ''device-'' @ py_take 8 (n_destination_hash r) else n_name r),
      device_type =
        (let raw = (if n_device_type r = ''styrene_node'' then ''styrene'' else n_device_type r) in
         if raw = [] then UNKNOWN else case device_type_of raw of Inr t \<Rightarrow> t | Inl _ \<Rightarrow> UNKNOWN),
      last_announce = n_last_announce r,
      announce_count = (if n_announce_count r = 0 then 1 else n_announce_count r),
      app_data_raw = None,
      capabilities = (case n_capabilities r of None \<Rightarrow> None | Some [] \<Rightarrow> None | Some s \<Rightarrow> Some (split_on (CHR '','') s)),
      dev_version = n_version r, lxmf_destination_hash = n_lxmf_destination_hash r,
      short_name = n_short_name r, system_fingerprint = n_system_fingerprint r,
      nomadnet_destination_hash = n_nomadnet r, discovered_via = n_discovered_via r, hops = n_hops r,
      ygg_address = n_ygg_address r, b32_address = n_b32_address r, web_url = n_web_url r\<rparr>"

section \<open>Operations on nodes\<close>

definition save_node :: "int \<Rightarrow> mesh_device \<Rightarrow> node_store \<Rightarrow> node_store" where
  "save_node now d st =
     (if \<not> is_valid_hash (Some (destination_hash d)) then st
      else if \<not> is_valid_hash (Some (identity_hash d)) then st
      else st\<lparr>nodes := upsert n_destination_hash merge_node (row_of now d) (nodes st)\<rparr>)"

definition find_row :: "(node_row \<Rightarrow> bool) \<Rightarrow> node_store \<Rightarrow> mesh_device option" where
  "find_row p st = map_option row_to_device (find p (nodes st))"

definition get_node_by_destination :: "string \<Rightarrow> node_store \<Rightarrow> mesh_device option" where
  "get_node_by_destination h = find_row (\<lambda>r. n_destination_hash r = h)"

definition get_node_by_identity :: "string \<Rightarrow> node_store \<Rightarrow> mesh_device option" where
  "get_node_by_identity h = find_row (\<lambda>r. n_identity_hash r = h)"

definition get_node_by_lxmf_destination :: "string \<Rightarrow> node_store \<Rightarrow> mesh_device option" where
  "get_node_by_lxmf_destination h = find_row (\<lambda>r. n_lxmf_destination_hash r = Some h)"

text \<open>
  The two identity lookups differ in the column only; \<open>NULL\<close> equals nothing and is like nothing.
\<close>

definition lookup_identity :: "(node_row \<Rightarrow> string option) \<Rightarrow> string \<Rightarrow> node_store \<Rightarrow> string option" where
  "lookup_identity col h st =
     (case (if is_valid_hash (Some h) then find (\<lambda>r. col r = Some h) (nodes st) else None) of
        Some r \<Rightarrow> Some (n_identity_hash r)
      | None \<Rightarrow>
          if py_len h < 32 then
            if \<not> is_valid_hash_prefix (Some h) then None
            else (case filter (\<lambda>r. case col r of None \<Rightarrow> False | Some v \<Rightarrow> like (h @ ''%'') v) (nodes st) of
                    [r] \<Rightarrow> Some (n_identity_hash r)
                  | _ \<Rightarrow> None)
          else None)"

definition get_identity_for_destination :: "string \<Rightarrow> node_store \<Rightarrow> string option" where
  "get_identity_for_destination = lookup_identity (\<lambda>r. Some (n_destination_hash r))"

definition get_identity_for_lxmf_destination :: "string \<Rightarrow> node_store \<Rightarrow> string option" where
  "get_identity_for_lxmf_destination = lookup_identity n_lxmf_destination_hash"

definition by_last_announce :: "node_row list \<Rightarrow> node_row list" where
  "by_last_announce = sort_key (\<lambda>r. - n_last_announce r)"

definition get_all_nodes :: "node_store \<Rightarrow> mesh_device list" where
  "get_all_nodes st = map row_to_device (by_last_announce (nodes st))"

definition get_styrene_nodes :: "node_store \<Rightarrow> mesh_device list" where
  "get_styrene_nodes st =
     map row_to_device (by_last_announce
       (filter (\<lambda>r. n_device_type r = device_type_value STYRENE_NODE) (nodes st)))"

definition get_nodes_by_short_name :: "string \<Rightarrow> node_store \<Rightarrow> mesh_device list" where
  "get_nodes_by_short_name s st =
     map row_to_device (filter (\<lambda>r. map_option lower (n_short_name r) = Some (lower s)) (nodes st))"

definition get_nodes_by_short_name_prefix :: "string \<Rightarrow> node_store \<Rightarrow> mesh_device list" where
  "get_nodes_by_short_name_prefix s st =
     map row_to_device
       (filter (\<lambda>r. case n_short_name r of None \<Rightarrow> False | Some v \<Rightarrow> like (lower (s @ ''%'')) (lower v)) (nodes st))"

definition delete_node :: "string \<Rightarrow> node_store \<Rightarrow> bool \<times> node_store" where
  "delete_node h st =
     (let rest = filter (\<lambda>r. n_destination_hash r \<noteq> h) (nodes st) in
      (length rest < length (nodes st), st\<lparr>nodes := rest\<rparr>))"

definition prune_old_nodes :: "rat \<Rightarrow> int \<Rightarrow> node_store \<Rightarrow> nat \<times> node_store" where
  "prune_old_nodes now max_age st =
     (let cutoff = int_of_float now - max_age; rest = filter (\<lambda>r. \<not> n_last_announce r < cutoff) (nodes st) in
      (length (nodes st) - length rest, st\<lparr>nodes := rest\<rparr>))"

definition clear_all_nodes :: "node_store \<Rightarrow> nat \<times> node_store" where
  "clear_all_nodes st = (length (nodes st), st\<lparr>nodes := []\<rparr>)"

section \<open>Operations on paths\<close>

definition save_path ::
    "int \<Rightarrow> string \<Rightarrow> string option \<Rightarrow> int \<Rightarrow> string option \<Rightarrow> string option \<Rightarrow> int option \<Rightarrow> int option
      \<Rightarrow> node_store \<Rightarrow> node_store" where
  "save_path now dest nh hop_count ty nm rate exps st =
     (if \<not> is_valid_hash (Some dest) then st
      else if nh \<noteq> None \<and> \<not> is_valid_hash nh then st
      else st\<lparr>paths := upsert p_destination_hash merge_path
             \<lparr>p_destination_hash = dest, p_next_hop = nh, p_hops = hop_count, p_interface_type = ty,
              p_interface_name = nm, p_bitrate = rate, p_expires = exps, p_updated_at = now\<rparr> (paths st)\<rparr>)"

definition get_all_paths :: "node_store \<Rightarrow> path_row list" where
  "get_all_paths st = sort_key p_hops (paths st)"

definition get_path :: "string \<Rightarrow> node_store \<Rightarrow> path_row option" where
  "get_path dest st = find (\<lambda>r. p_destination_hash r = dest) (paths st)"

definition prune_expired_paths :: "rat \<Rightarrow> node_store \<Rightarrow> nat \<times> node_store" where
  "prune_expired_paths now st =
     (let rest = filter (\<lambda>r. case p_expires r of None \<Rightarrow> True | Some e \<Rightarrow> \<not> e < int_of_float now) (paths st) in
      (length (paths st) - length rest, st\<lparr>paths := rest\<rparr>))"

definition clear_all_paths :: "node_store \<Rightarrow> nat \<times> node_store" where
  "clear_all_paths st = (length (paths st), st\<lparr>paths := []\<rparr>)"

section \<open>Connection health\<close>

text \<open>What running \<^verbatim>\<open>lsof -t\<close> on the database file gives: a return code and text, or a failure.\<close>

definition get_connection_count :: "bool \<Rightarrow> (int \<times> string) res \<Rightarrow> int" where
  "get_connection_count windows outcome =
     (if windows then - 1
      else case outcome of
        Inl _ \<Rightarrow> - 1
      | Inr (code, out) \<Rightarrow>
          if code = 0 then int (length (filter (\<lambda>p. p \<noteq> []) (split_on (CHR 0x0A) (py_strip out)))) else 0)"

definition check_connection_health :: "int \<Rightarrow> int \<times> bool \<times> string" where
  "check_connection_health count =
     (count, count \<le> 2 \<or> count = - 1,
      if 10 \<le> count then ''CRITICAL: NodeStore has '' @ show_int count @ '' open connections. '' @
        ''File descriptor leak detected. Check for unclosed connections.''
      else if 3 \<le> count then ''WARNING: NodeStore has '' @ show_int count @ '' open connections. '' @
        ''This may indicate a leak or heavy concurrent usage.''
      else [])"

section \<open>The store as two maps\<close>

interpretation node_table: keyed_table n_destination_hash merge_node
  by unfold_locales (simp add: merge_node_def)

interpretation path_table: keyed_table p_destination_hash merge_path
  by unfold_locales (simp add: merge_path_def)

definition node_map :: "node_store \<Rightarrow> string \<Rightarrow> node_row option" where
  "node_map st = table_map n_destination_hash (nodes st)"

definition path_map :: "node_store \<Rightarrow> string \<Rightarrow> path_row option" where
  "path_map st = table_map p_destination_hash (paths st)"

text \<open>Every operation that writes; a save of any device, whatever a peer announced.\<close>

inductive store_step :: "node_store \<Rightarrow> node_store \<Rightarrow> bool" where
  ss_save: "store_step st (save_node now d st)"
| ss_delete: "store_step st (snd (delete_node h st))"
| ss_prune: "store_step st (snd (prune_old_nodes t age st))"
| ss_clear: "store_step st (snd (clear_all_nodes st))"
| ss_save_path: "store_step st (save_path now h nh hop_count ty nm rate exps st)"
| ss_prune_paths: "store_step st (snd (prune_expired_paths t st))"
| ss_clear_paths: "store_step st (snd (clear_all_paths st))"

definition valid_row :: "node_row \<Rightarrow> bool" where
  "valid_row r \<longleftrightarrow> is_valid_hash (Some (n_destination_hash r)) \<and> is_valid_hash (Some (n_identity_hash r))"

definition store_inv :: "node_store \<Rightarrow> bool" where
  "store_inv st \<longleftrightarrow> keyed_rows n_destination_hash (nodes st) \<and> keyed_rows p_destination_hash (paths st) \<and>
     list_all valid_row (nodes st)"

lemma keyed_Nil [simp]: "keyed_rows key []"
  by (simp add: keyed_rows_def)

lemma valid_upsert:
  "list_all valid_row t \<Longrightarrow> valid_row new \<Longrightarrow> list_all valid_row (upsert n_destination_hash merge_node new t)"
  by (induction t) (auto simp: valid_row_def merge_node_def)

lemma list_all_filter: "list_all P t \<Longrightarrow> list_all P (filter Q t)"
  by (simp add: list_all_iff)

lemma store_inv_save: "store_inv st \<Longrightarrow> store_inv (save_node now d st)"
  by (auto simp: save_node_def store_inv_def node_table.keyed_upsert intro!: valid_upsert)
    (simp add: valid_row_def row_of_def)

lemma store_inv_step: "store_inv st \<Longrightarrow> store_step st st' \<Longrightarrow> store_inv st'"
  by (erule store_step.cases)
    (auto simp: store_inv_save, simp_all add: store_inv_def delete_node_def prune_old_nodes_def
      clear_all_nodes_def save_path_def prune_expired_paths_def clear_all_paths_def Let_def
      node_table.keyed_filter path_table.keyed_filter path_table.keyed_upsert list_all_filter)

interpretation node_store: invariant_system "\<lambda>st. st = init_db" store_step store_inv
proof unfold_locales
  show "store_inv st" if "st = init_db" for st
    using that by (simp add: store_inv_def init_db_def keyed_rows_def)
qed (rule store_inv_step)

section \<open>Lemmas\<close>

lemma re_class_hash:
  assumes "is_valid_hash (Some h)"
  shows "\<not> py_len h < 32"
proof -
  have plain: "is_hex c \<Longrightarrow> \<not> utf8_cont (of_char c)" for c
    by (auto simp: is_hex_def hex_value_def utf8_cont_def Let_def split: if_splits)
  from assms have "length (filter (\<lambda>c. \<not> utf8_cont (of_char c)) (take 32 h)) = 32"
  proof (cases "list_all is_hex h \<and> length h = 32")
    case True
    then have "filter (\<lambda>c. \<not> utf8_cont (of_char c)) h = h"
      using plain by (simp add: filter_id_conv list_all_iff)
    with True show ?thesis by simp
  next
    case False
    with assms have "list_all is_hex (butlast h)" "length h = 33"
      by (auto simp: is_valid_hash_def re_class_def)
    then have "filter (\<lambda>c. \<not> utf8_cont (of_char c)) (butlast h) = butlast h" "take 32 h = butlast h"
      using plain by (simp_all add: filter_id_conv list_all_iff butlast_conv_take)
    with \<open>length h = 33\<close> show ?thesis by simp
  qed
  moreover have "length (filter P (take 32 h)) \<le> length (filter P h)" for P
    by (metis append_take_drop_id filter_append le_add1 length_append)
  ultimately show ?thesis unfolding py_len_def by (metis not_less)
qed

lemma valid_prefix_chars:
  assumes "is_valid_hash_prefix (Some h)"
  shows "CHR ''%'' \<notin> set h" and "CHR ''_'' \<notin> set h"
proof -
  have chars: "c = CHR 0x0A \<or> is_hex c" if "c \<in> set h" for c
    using assms that
    by (auto simp: is_valid_hash_prefix_def re_class_def list_all_iff split: if_splits)
      (metis append_butlast_last_id empty_iff insert_iff list.set(1,2) set_append Un_iff)
  show "CHR ''%'' \<notin> set h"
    using chars [of "CHR ''%''"] by (auto simp: is_hex_def hex_value_def)
  show "CHR ''_'' \<notin> set h"
    using chars [of "CHR ''_''"] by (auto simp: is_hex_def hex_value_def)
qed

lemma filter_singleton:
  "distinct (filter P t) \<Longrightarrow> filter P t = [r] \<longleftrightarrow> {x \<in> set t. P x} = {r}"
proof
  assume d: "distinct (filter P t)" and s: "{x \<in> set t. P x} = {r}"
  then have "set (filter P t) = {r}" by simp
  with d show "filter P t = [r]"
    by (metis distinct_card card.empty card_insert_disjoint empty_iff finite.emptyI length_0_conv
        length_Suc_conv list.set_intros(1) singletonD)
qed (metis set_filter list.set(1,2))

lemma case_singleton:
  "(case xs of [r] \<Rightarrow> Some (f r) | _ \<Rightarrow> None) = Some i \<longleftrightarrow> (\<exists>r. xs = [r] \<and> f r = i)"
  by (auto split: list.splits)

lemma ran_node_map: "store_inv st \<Longrightarrow> ran (node_map st) = set (nodes st)"
  by (auto simp: ran_def node_map_def store_inv_def node_table.map_member)

text \<open>The writing operations as map operations.\<close>

lemma node_map_save:
  "node_map (save_node now d st) =
     (if is_valid_hash (Some (destination_hash d)) \<and> is_valid_hash (Some (identity_hash d))
      then (node_map st)(destination_hash d \<mapsto>
             (case node_map st (destination_hash d) of
                None \<Rightarrow> row_of now d | Some old \<Rightarrow> merge_node old (row_of now d)))
      else node_map st)"
  by (simp add: node_map_def save_node_def node_table.map_upsert) (simp add: row_of_def)

lemma node_map_delete: "store_inv st \<Longrightarrow> node_map (snd (delete_node h st)) = (node_map st)(h := None)"
  by (auto simp: store_inv_def node_map_def delete_node_def Let_def node_table.map_filter fun_eq_iff
      dest: node_table.map_key split: option.split)

lemma delete_node_found: "store_inv st \<Longrightarrow> fst (delete_node h st) \<longleftrightarrow> h \<in> dom (node_map st)"
proof -
  assume inv: "store_inv st"
  then have "h \<in> dom (node_map st) \<longleftrightarrow> (\<exists>r \<in> set (nodes st). n_destination_hash r = h)"
    by (auto simp: node_map_def dom_def node_table.map_member store_inv_def)
  then show ?thesis
    by (auto simp: delete_node_def Let_def length_filter_less)
qed

lemma node_map_prune:
  "store_inv st \<Longrightarrow> node_map (snd (prune_old_nodes t age st)) =
     (\<lambda>k. case node_map st k of None \<Rightarrow> None
           | Some r \<Rightarrow> if n_last_announce r < int_of_float t - age then None else Some r)"
  by (auto simp: store_inv_def node_map_def prune_old_nodes_def Let_def node_table.map_filter fun_eq_iff
      split: option.split)

lemma prune_count:
  assumes "store_inv st"
  shows "fst (prune_old_nodes t age st) = card {r \<in> ran (node_map st). n_last_announce r < int_of_float t - age}"
proof -
  let ?old = "\<lambda>r. n_last_announce r < int_of_float t - age"
  have "distinct (nodes st)" using assms by (simp add: store_inv_def keyed_rows_def distinct_map)
  then have "card (set (filter ?old (nodes st))) = length (filter ?old (nodes st))"
    by (simp only: distinct_card distinct_filter)
  then show ?thesis
    using sum_length_filter_compl [of ?old "nodes st"]
    by (simp add: prune_old_nodes_def Let_def ran_node_map [OF assms])
qed

lemma get_node_map: "get_node_by_destination h st = map_option row_to_device (node_map st h)"
  by (simp add: get_node_by_destination_def find_row_def node_map_def node_table.map_find)

section \<open>Properties\<close>

text \<open>
  Claim C15. The store of nodes implements a map from destination hash to row. In every
  reachable state a save of a device with valid hashes is one map update, which for a known
  destination merges the stored row with the new one; a save with an invalid hash changes
  nothing; delete, prune and the lookup by destination are removal, restriction and
  application of the map, and the returned flag and count say what was removed.
\<close>

theorem node_store_implements_map:
  assumes "reach (\<lambda>st. st = init_db) store_step st"
  shows "node_map (save_node now d st) =
       (if is_valid_hash (Some (destination_hash d)) \<and> is_valid_hash (Some (identity_hash d))
        then (node_map st)(destination_hash d \<mapsto>
               (case node_map st (destination_hash d) of
                  None \<Rightarrow> row_of now d | Some old \<Rightarrow> merge_node old (row_of now d)))
        else node_map st) \<and>
     node_map (snd (delete_node h st)) = (node_map st)(h := None) \<and>
     (fst (delete_node h st) \<longleftrightarrow> h \<in> dom (node_map st)) \<and>
     node_map (snd (prune_old_nodes t age st)) =
       (\<lambda>k. case node_map st k of None \<Rightarrow> None
             | Some r \<Rightarrow> if n_last_announce r < int_of_float t - age then None else Some r) \<and>
     fst (prune_old_nodes t age st) =
       card {r \<in> ran (node_map st). n_last_announce r < int_of_float t - age} \<and>
     get_node_by_destination h st = map_option row_to_device (node_map st h)"
  using node_store.reach_inv [OF assms]
  by (simp add: node_map_save node_map_delete delete_node_found node_map_prune prune_count get_node_map)

definition demo_device :: mesh_device where
  "demo_device =
     \<lparr>destination_hash = replicate 32 (CHR ''a''), identity_hash = replicate 32 (CHR ''b''),
      dev_name = ''n1'', device_type = STYRENE_NODE, last_announce = 100, announce_count = 1,
      app_data_raw = None, capabilities = Some [''cli'', ''i2p''], dev_version = Some ''1'',
      lxmf_destination_hash = Some (replicate 32 (CHR ''c'')), short_name = None, system_fingerprint = None,
      nomadnet_destination_hash = None, discovered_via = None, hops = Some 2, ygg_address = None,
      b32_address = None, web_url = None\<rparr>"

definition demo_store :: node_store where
  "demo_store = save_node 5 demo_device init_db"

lemma demo_store_reached: "reach (\<lambda>st. st = init_db) store_step demo_store"
  unfolding demo_store_def by (rule reach_step, rule reach_start, rule refl, rule ss_save)

theorem node_store_implements_map_witness:
  "node_map (save_node 6 demo_device demo_store) =
       (if is_valid_hash (Some (destination_hash demo_device)) \<and> is_valid_hash (Some (identity_hash demo_device))
        then (node_map demo_store)(destination_hash demo_device \<mapsto>
               (case node_map demo_store (destination_hash demo_device) of
                  None \<Rightarrow> row_of 6 demo_device | Some old \<Rightarrow> merge_node old (row_of 6 demo_device)))
        else node_map demo_store) \<and>
     node_map (snd (delete_node ''aa'' demo_store)) = (node_map demo_store)(''aa'' := None) \<and>
     (fst (delete_node ''aa'' demo_store) \<longleftrightarrow> ''aa'' \<in> dom (node_map demo_store)) \<and>
     node_map (snd (prune_old_nodes 500 60 demo_store)) =
       (\<lambda>k. case node_map demo_store k of None \<Rightarrow> None
             | Some r \<Rightarrow> if n_last_announce r < int_of_float 500 - 60 then None else Some r) \<and>
     fst (prune_old_nodes 500 60 demo_store) =
       card {r \<in> ran (node_map demo_store). n_last_announce r < int_of_float 500 - 60} \<and>
     get_node_by_destination ''aa'' demo_store = map_option row_to_device (node_map demo_store ''aa'')"
  by (rule node_store_implements_map [OF demo_store_reached])

text \<open>A device the columns can hold: a name, a count, and capabilities that survive \<^verbatim>\<open>join\<close>.\<close>

definition storable :: "mesh_device \<Rightarrow> bool" where
  "storable d \<longleftrightarrow>
     is_valid_hash (Some (destination_hash d)) \<and> is_valid_hash (Some (identity_hash d)) \<and>
     dev_name d \<noteq> [] \<and> announce_count d \<noteq> 0 \<and>
     (case capabilities d of None \<Rightarrow> True
      | Some cs \<Rightarrow> cs \<noteq> [] \<and> cs \<noteq> [[]] \<and> list_all (\<lambda>c. CHR '','' \<notin> set c) cs)"

lemma join_capabilities_split:
  assumes "case cs of None \<Rightarrow> True | Some ws \<Rightarrow> ws \<noteq> [] \<and> ws \<noteq> [[]] \<and> list_all (\<lambda>c. CHR '','' \<notin> set c) ws"
  shows "(case join_capabilities cs of None \<Rightarrow> None | Some [] \<Rightarrow> None | Some s \<Rightarrow> Some (split_on (CHR '','') s)) = cs"
proof (cases cs)
  case (Some ws)
  with assms have ws: "ws \<noteq> []" "ws \<noteq> [[]]" "\<And>w. w \<in> set ws \<Longrightarrow> CHR '','' \<notin> set w"
    by (auto simp: list_all_iff)
  then have "split_on (CHR '','') (join_with '','' ws) = ws" by (intro split_join) auto
  moreover from this ws(2) have "join_with '','' ws \<noteq> []" by auto
  moreover have "join_capabilities cs = Some (join_with '','' ws)"
    using Some ws(1) by (cases ws) (simp_all add: join_capabilities_def)
  ultimately show ?thesis using Some by (auto split: list.split)
qed (simp add: join_capabilities_def)

lemma device_type_value_names: "device_type_value t \<noteq> []" "device_type_value t \<noteq> ''styrene_node''"
  by (cases t; simp)+

lemma row_round_trip:
  "storable d \<Longrightarrow> row_to_device (row_of now d) = d\<lparr>app_data_raw := None\<rparr>"
  unfolding row_to_device_def
  by (simp add: join_capabilities_split storable_def row_of_def device_type_value_names Let_def)

lemma merge_round_trip:
  assumes "storable d" and "storable e" and "destination_hash e = destination_hash d" and "announce_count d \<noteq> - 1"
  shows "row_to_device (merge_node (row_of now d) (row_of now' e)) =
     e\<lparr>app_data_raw := None, announce_count := announce_count d + 1,
       discovered_via := coalesce (discovered_via e) (discovered_via d),
       nomadnet_destination_hash := coalesce (nomadnet_destination_hash e) (nomadnet_destination_hash d),
       ygg_address := coalesce (ygg_address e) (ygg_address d),
       b32_address := coalesce (b32_address e) (b32_address d), web_url := coalesce (web_url e) (web_url d)\<rparr>"
  using assms unfolding row_to_device_def
  by (simp add: join_capabilities_split storable_def row_of_def merge_node_def device_type_value_names Let_def)

text \<open>
  A device saved is the device read back, without its raw announce data; saved again
  under the same destination it is replaced, except that the stored announce count goes up by
  one and the route label and the addresses that the new announce lacks are kept.
\<close>

theorem saved_device_read_back:
  assumes "storable d" and "storable e" and "destination_hash e = destination_hash d" and "announce_count d > 0"
    and "node_map st (destination_hash d) = None"
  shows "get_node_by_destination (destination_hash d) (save_node now d st) = Some (d\<lparr>app_data_raw := None\<rparr>) \<and>
    get_node_by_destination (destination_hash d) (save_node now' e (save_node now d st)) =
     Some (e\<lparr>app_data_raw := None, announce_count := announce_count d + 1,
       discovered_via := coalesce (discovered_via e) (discovered_via d),
       nomadnet_destination_hash := coalesce (nomadnet_destination_hash e) (nomadnet_destination_hash d),
       ygg_address := coalesce (ygg_address e) (ygg_address d),
       b32_address := coalesce (b32_address e) (b32_address d), web_url := coalesce (web_url e) (web_url d)\<rparr>)"
proof -
  have v: "is_valid_hash (Some (destination_hash d))" "is_valid_hash (Some (identity_hash d))"
    "is_valid_hash (Some (destination_hash e))" "is_valid_hash (Some (identity_hash e))"
    using assms(1,2) by (simp_all add: storable_def)
  show ?thesis
    using assms by (simp add: get_node_map node_map_save v row_round_trip merge_round_trip)
qed

theorem saved_device_read_back_witness:
  "get_node_by_destination (destination_hash demo_device) (save_node 5 demo_device init_db) =
     Some (demo_device\<lparr>app_data_raw := None\<rparr>) \<and>
   get_node_by_destination (destination_hash demo_device)
     (save_node 9 (demo_device\<lparr>discovered_via := Some ''lora''\<rparr>) (save_node 5 demo_device init_db)) =
   Some (demo_device\<lparr>app_data_raw := None, announce_count := 2, discovered_via := Some ''lora''\<rparr>)"
  using saved_device_read_back [of demo_device "demo_device\<lparr>discovered_via := Some ''lora''\<rparr>" init_db 5 9]
  by (simp add: storable_def demo_device_def is_valid_hash_def re_class_def list_all_iff is_hex_def
      hex_value_def node_map_def init_db_def table_map_def coalesce_def)

text \<open>
  The identity lookup never guesses. A full hash is found exactly when it is stored,
  and gives that node's identity; a shorter text of at least eight hexadecimal digits gives an
  identity exactly when one stored node's destination begins with it, in either case of
  letters; any other text gives nothing.
\<close>

theorem identity_lookup_unambiguous:
  assumes "reach (\<lambda>st. st = init_db) store_step st"
  shows "get_identity_for_destination h st = Some i \<longleftrightarrow>
    (if is_valid_hash (Some h) then \<exists>r. node_map st h = Some r \<and> n_identity_hash r = i
     else py_len h < 32 \<and> is_valid_hash_prefix (Some h) \<and>
       (\<exists>r. {x \<in> ran (node_map st). prefix (lower h) (lower (n_destination_hash x))} = {r} \<and> n_identity_hash r = i))"
proof (cases "is_valid_hash (Some h)")
  case True
  then show ?thesis
    using re_class_hash [OF True]
    by (auto simp: get_identity_for_destination_def lookup_identity_def node_map_def node_table.map_find
        split: option.split)
next
  case False
  have inv: "store_inv st" using assms by (rule node_store.reach_inv)
  then have d: "distinct (nodes st)" by (simp add: store_inv_def keyed_rows_def distinct_map)
  have like: "like (h @ ''%'') v \<longleftrightarrow> prefix (lower h) (lower v)" if "is_valid_hash_prefix (Some h)" for v
    using valid_prefix_chars [OF that] by (rule like_prefix)
  have "lookup_identity (\<lambda>r. Some (n_destination_hash r)) h st = Some i \<longleftrightarrow>
      py_len h < 32 \<and> is_valid_hash_prefix (Some h) \<and>
      (\<exists>r. filter (\<lambda>r. prefix (lower h) (lower (n_destination_hash r))) (nodes st) = [r] \<and> n_identity_hash r = i)"
    using False by (simp add: lookup_identity_def case_singleton like cong: conj_cong)
  then show ?thesis
    using False d by (simp add: get_identity_for_destination_def filter_singleton ran_node_map [OF inv])
qed

theorem identity_lookup_unambiguous_witness:
  "get_identity_for_destination ''AAAAAAAA'' demo_store = Some (replicate 32 (CHR ''b'')) \<longleftrightarrow>
    (if is_valid_hash (Some ''AAAAAAAA'')
     then \<exists>r. node_map demo_store ''AAAAAAAA'' = Some r \<and> n_identity_hash r = replicate 32 (CHR ''b'')
     else py_len ''AAAAAAAA'' < 32 \<and> is_valid_hash_prefix (Some ''AAAAAAAA'') \<and>
       (\<exists>r. {x \<in> ran (node_map demo_store). prefix (lower ''AAAAAAAA'') (lower (n_destination_hash x))} = {r} \<and>
            n_identity_hash r = replicate 32 (CHR ''b'')))"
  by (rule identity_lookup_unambiguous [OF demo_store_reached])

text \<open>
  The exact lookup is sensitive to the case of letters and the prefix lookup is not: written
  in capitals, the hash of a stored node is not found, and its first 31 digits are.
\<close>

lemma capital_hash_not_found:
  "get_identity_for_destination (replicate 32 (CHR ''A'')) demo_store = None \<and>
   get_identity_for_destination (replicate 31 (CHR ''A'')) demo_store = Some (replicate 32 (CHR ''b''))"
proof -
  have a: "lower_char (CHR ''A'') = CHR ''a''" "lower_char (CHR ''a'') = CHR ''a''" by code_simp+
  have "replicate 32 c = replicate 31 c @ [c]" for c :: char by (simp add: numeral_eq_Suc)
  then have "like (replicate 31 (CHR ''A'') @ ''%'') (replicate 32 (CHR ''a''))"
    by (subst like_prefix) (auto simp: lower_def a)
  then show ?thesis
    by (simp add: demo_store_def demo_device_def save_node_def init_db_def row_of_def is_valid_hash_def
        is_valid_hash_prefix_def MIN_PREFIX_LENGTH_def get_identity_for_destination_def lookup_identity_def
        re_class_def is_hex_def hex_value_def list_all_iff py_len_def utf8_cont_def)
qed

end
