(* ===== verification/Discovery.thy ===== *)
theory Discovery
  imports Config_Models Protocols Node_Store
begin

text \<open>
  Device discovery (\<^verbatim>\<open>src/styrened/services/reticulum.py\<close>): the handler of announces with its
  admission policy, the table of discovered devices, the node store behind it, and the
  queries on the table. What Reticulum knows (expected destination hashes, public keys, the
  path table) is an argument; the calls that leave the program are kept as a trace. A device
  object of the table is named by its key, since one query changes the objects it returns.
\<close>

section \<open>State and surroundings\<close>

definition KNOWN_ASPECTS :: "(string list \<times> device_type) list" where
  "KNOWN_ASPECTS =
     [([''lxmf'', ''delivery''], LXMF_PEER), ([''lxmf'', ''propagation''], PROPAGATION_NODE),
      ([''nomadnetwork'', ''node''], NOMADNET_NODE)]"

text \<open>
  An entry of \<^verbatim>\<open>RNS.Transport.path_table\<close>: its length, next hop, hop count, and interface
  (with the name it may have).
\<close>

record path_entry =
  entry_length :: nat
  received_from :: "bytes option"
  path_hops :: "int option"
  via_interface :: "string option option"

record rns_env =
  expected_hash :: "bytes \<Rightarrow> string list \<Rightarrow> bytes res"
  has_public_key :: "bytes \<Rightarrow> bool"
  rns_path_table :: "bytes \<Rightarrow> path_entry option"
  parser_lib :: "lxmf_lib option"
  json_loads :: "string \<Rightarrow> pyval res"
  loop_running :: bool

text \<open>What the handler asks for.\<close>

datatype announce_effect =
    Remember bytes bytes
  | Bootstrap string string
  | Callback mesh_device

record announce_handler =
  access_mode :: mesh_access_mode
  allowed_peers :: "string set"
  ygg_cfg :: "yggdrasil_config option"
  ygg_adapter :: "string option option"
  has_callback :: bool
  discovered_devices :: "(string \<times> mesh_device) list"
  handler_store :: "node_store option"
  trace :: "announce_effect list"

definition StyreneAnnounceHandler ::
    "bool \<Rightarrow> node_store option \<Rightarrow> mesh_access_mode option \<Rightarrow> string set \<Rightarrow> string option option
      \<Rightarrow> yggdrasil_config option \<Rightarrow> announce_handler" where
  "StyreneAnnounceHandler cb store mode peers adapter cfg =
     \<lparr>access_mode = (case mode of None \<Rightarrow> OPEN | Some m \<Rightarrow> m), allowed_peers = lower ` peers, ygg_cfg = cfg,
      ygg_adapter = adapter, has_callback = cb, discovered_devices = [], handler_store = store, trace = []\<rparr>"

section \<open>Receiving an announce\<close>

fun detect_type :: "rns_env \<Rightarrow> bytes \<Rightarrow> bytes \<Rightarrow> (string list \<times> device_type) list \<Rightarrow> device_type option" where
  "detect_type w ident dest [] = None"
| "detect_type w ident dest ((aspects, t) # rest) =
     (if expected_hash w ident aspects = Inr dest then Some t else detect_type w ident dest rest)"

definition filled :: "string option \<Rightarrow> bool" where
  "filled s \<longleftrightarrow> s \<noteq> None \<and> s \<noteq> Some []"

text \<open>An LXMF peer of the identity of a known Styrene node takes over that node's metadata.\<close>

definition upgrade_peer :: "mesh_device list \<Rightarrow> mesh_device \<Rightarrow> mesh_device" where
  "upgrade_peer known d =
     (if device_type d = LXMF_PEER \<and> identity_hash d \<noteq> [] then
        (case find (\<lambda>e. identity_hash e = identity_hash d \<and> device_type e = STYRENE_NODE) known of
           None \<Rightarrow> d
         | Some e \<Rightarrow>
             d\<lparr>device_type := STYRENE_NODE,
               dev_version := (if filled (dev_version e) then dev_version e else dev_version d),
               capabilities := (if capabilities e \<noteq> None \<and> capabilities e \<noteq> Some [] then capabilities e else capabilities d),
               short_name := (if filled (short_name e) then short_name e else short_name d)\<rparr>)
      else d)"

definition via_label :: "path_entry \<Rightarrow> string option" where
  "via_label e =
     (if 5 < entry_length e then
        (case via_interface e of
           None \<Rightarrow> None
         | Some nm \<Rightarrow>
             (let iface_name = (case nm of None \<Rightarrow> [] | Some s \<Rightarrow> s) in
              case received_from e of
                Some (b # bs) \<Rightarrow>
                  (let next_hop_short = take 8 (hex_of (b # bs)) in
                   Some (if iface_name \<noteq> [] then iface_name @ '' '' @ bytes_text [0xE2, 0x86, 0x92] @ '' '' @ next_hop_short
                         else next_hop_short))
              | _ \<Rightarrow> if iface_name \<noteq> [] then Some iface_name else None))
      else None)"

definition route_info :: "rns_env \<Rightarrow> bytes \<Rightarrow> mesh_device \<Rightarrow> mesh_device" where
  "route_info w dest d =
     (case rns_path_table w dest of
        None \<Rightarrow> d
      | Some e \<Rightarrow>
          if 5 < entry_length e then
            d\<lparr>discovered_via := (case via_label e of None \<Rightarrow> discovered_via d | Some v \<Rightarrow> Some v),
              hops := (case path_hops e of None \<Rightarrow> hops d | Some n \<Rightarrow> Some n)\<rparr>
          else d)"

definition offers :: "mesh_device \<Rightarrow> string \<Rightarrow> bool" where
  "offers d cap = (case capabilities d of None \<Rightarrow> False | Some cs \<Rightarrow> cap \<in> set cs)"

text \<open>
  The overlay part: announced capabilities carry no address; an eager configuration starts a
  bootstrap task, which needs a running event loop in the calling thread.
\<close>

definition overlay :: "rns_env \<Rightarrow> announce_handler \<Rightarrow> mesh_device \<Rightarrow> mesh_device \<times> announce_effect list" where
  "overlay w h d =
     (let d1 = (if offers d ''i2p'' then d\<lparr>b32_address := None\<rparr> else d);
          d2 = (if offers d1 ''yggdrasil'' then d1\<lparr>ygg_address := None\<rparr> else d1) in
      (d2, if offers d1 ''yggdrasil'' \<and> loop_running w \<and>
              (case (ygg_cfg h, ygg_adapter h) of
                 (Some c, Some (Some addr)) \<Rightarrow> ygg_bootstrap_from_rns c \<and> ygg_peer_discovery c = EAGER
               | _ \<Rightarrow> False)
           then [Bootstrap (identity_hash d2)
                  (if filled (lxmf_destination_hash d2) then the (lxmf_destination_hash d2)
                   else mesh_device.destination_hash d2)]
           else []))"

definition announced_device ::
    "rns_env \<Rightarrow> rat \<Rightarrow> bytes \<Rightarrow> bytes option \<Rightarrow> bytes option \<Rightarrow> announce_handler \<Rightarrow> mesh_device" where
  "announced_device w now dest ident app_data h =
     (let dest_hex = hex_of dest;
          ident_hex = (case ident of None \<Rightarrow> dest_hex | Some i \<Rightarrow> hex_of i);
          count = (case map_of (discovered_devices h) dest_hex of None \<Rightarrow> 1 | Some e \<Rightarrow> announce_count e + 1);
          hint = (case ident of None \<Rightarrow> None | Some i \<Rightarrow> detect_type w i dest KNOWN_ASPECTS);
          d = create_mesh_device (parser_lib w) (json_loads w) now dest_hex ident_hex app_data count hint
      in route_info w dest (upgrade_peer (map snd (discovered_devices h)) d))"

definition admitted :: "announce_handler \<Rightarrow> string \<Rightarrow> bool" where
  "admitted h ident_hex \<longleftrightarrow> (access_mode h = ALLOWLIST \<longrightarrow> lower ident_hex \<in> allowed_peers h)"

definition received_announce ::
    "rns_env \<Rightarrow> rat \<Rightarrow> bytes \<Rightarrow> bytes option \<Rightarrow> bytes option \<Rightarrow> bool option \<Rightarrow> announce_handler
      \<Rightarrow> announce_handler" where
  "received_announce w now dest ident app_data is_path_response h =
     (if is_path_response = Some True then h
      else
        let dest_hex = hex_of dest; ident_hex = (case ident of None \<Rightarrow> dest_hex | Some i \<Rightarrow> hex_of i) in
        if \<not> admitted h ident_hex then h
        else
          let (d, boot) = overlay w h (announced_device w now dest ident app_data h);
              known = (case ident of None \<Rightarrow> [] | Some i \<Rightarrow> if has_public_key w i then [Remember dest i] else [])
          in h\<lparr>discovered_devices := AList.update dest_hex d (discovered_devices h),
               handler_store := map_option (save_node (int_of_float now) d) (handler_store h),
               trace := trace h @ known @ boot @ (if has_callback h then [Callback d] else [])\<rparr>)"

section \<open>The shared handler and the queries\<close>

text \<open>\<open>registered\<close>: whether Reticulum is there and took the handler.\<close>

definition start_discovery ::
    "bool \<Rightarrow> announce_handler \<Rightarrow> announce_handler option \<Rightarrow> announce_handler option" where
  "start_discovery registered new h =
     (case h of Some h' \<Rightarrow> Some h' | None \<Rightarrow> if registered then Some new else None)"

definition stop_discovery :: "announce_handler option \<Rightarrow> announce_handler option" where
  "stop_discovery h = None"

definition is_discovery_running :: "announce_handler option \<Rightarrow> bool" where
  "is_discovery_running h \<longleftrightarrow> h \<noteq> None"

definition discover_devices :: "announce_handler option \<Rightarrow> mesh_device list" where
  "discover_devices h = (case h of None \<Rightarrow> [] | Some h' \<Rightarrow> map snd (discovered_devices h'))"

definition get_rnodes :: "announce_handler option \<Rightarrow> mesh_device list" where
  "get_rnodes h = filter is_rnode (discover_devices h)"

text \<open>The first device that has the hash as its LXMF destination or its own destination.\<close>

definition discovered_identity :: "string \<Rightarrow> announce_handler option \<Rightarrow> string option" where
  "discovered_identity dest h =
     map_option identity_hash
       (find (\<lambda>d. lxmf_destination_hash d = Some dest \<or> mesh_device.destination_hash d = dest) (discover_devices h))"

type_synonym devices = "(string \<times> mesh_device) list"

definition identity_key :: "mesh_device \<Rightarrow> string" where
  "identity_key d = (if identity_hash d \<noteq> [] then identity_hash d else mesh_device.destination_hash d)"

text \<open>
  One turn of the loop of \<^verbatim>\<open>_deduplicate_by_identity\<close>: \<open>by_id\<close> maps an identity to the key of the
  device object chosen for it; the merge of the LXMF destination writes into that object.
\<close>

definition better_than :: "mesh_device \<Rightarrow> mesh_device \<Rightarrow> bool" where
  "better_than d e \<longleftrightarrow>
     (is_styrene_node d \<and> \<not> is_styrene_node e) \<or>
     (is_styrene_node d = is_styrene_node e \<and> last_announce d > last_announce e)"

definition merge_lxmf :: "string \<Rightarrow> mesh_device \<Rightarrow> devices \<Rightarrow> devices" where
  "merge_lxmf winner d devs =
     (case map_of devs winner of
        None \<Rightarrow> devs
      | Some e \<Rightarrow>
          if \<not> filled (lxmf_destination_hash e) \<and> filled (lxmf_destination_hash d)
          then AList.update winner (e\<lparr>lxmf_destination_hash := lxmf_destination_hash d\<rparr>) devs
          else devs)"

definition dedupe_step ::
    "rat \<Rightarrow> string \<Rightarrow> (string \<times> string) list \<times> devices \<Rightarrow> (string \<times> string) list \<times> devices" where
  "dedupe_step now key s =
     (case (s, map_of (snd s) key) of
        ((by_id, devs), None) \<Rightarrow> (by_id, devs)
      | ((by_id, devs), Some d) \<Rightarrow>
          if of_int (last_announce d) < now - 1800 then (by_id, devs)
          else (case map_of by_id (identity_key d) of
                  None \<Rightarrow> (AList.update (identity_key d) key by_id, devs)
                | Some ek \<Rightarrow>
                    (case map_of devs ek of
                       None \<Rightarrow> (by_id, devs)
                     | Some e \<Rightarrow>
                         let winner = (if better_than d e then key else ek) in
                         (AList.update (identity_key d) winner by_id, merge_lxmf winner d devs))))"

definition deduplicate_by_identity ::
    "rat \<Rightarrow> string list \<Rightarrow> devices \<Rightarrow> mesh_device list \<times> devices" where
  "deduplicate_by_identity now ks devs =
     (let (by_id, devs') = fold (dedupe_step now) ks ([], devs) in
      (List.map_filter (\<lambda>p. map_of devs' (snd p)) by_id, devs'))"

definition get_styrene_devices :: "rat \<Rightarrow> announce_handler \<Rightarrow> mesh_device list \<times> announce_handler" where
  "get_styrene_devices now h =
     (let (res, devs) = deduplicate_by_identity now
            (map fst (filter (\<lambda>p. is_styrene_node (snd p)) (discovered_devices h))) (discovered_devices h)
      in (res, h\<lparr>discovered_devices := devs\<rparr>))"

section \<open>What the passes over a device keep\<close>

lemma announced_device_hashes [simp]:
  "identity_hash (announced_device w now dest ident app_data h) = (case ident of None \<Rightarrow> hex_of dest | Some i \<Rightarrow> hex_of i)"
  "mesh_device.destination_hash (announced_device w now dest ident app_data h) = hex_of dest"
  by (auto simp: announced_device_def Let_def route_info_def upgrade_peer_def create_mesh_device_def
      split: option.split)

lemma overlay_hashes [simp]:
  "identity_hash (fst (overlay w h d)) = identity_hash d"
  "mesh_device.destination_hash (fst (overlay w h d)) = mesh_device.destination_hash d"
  "lxmf_destination_hash (fst (overlay w h d)) = lxmf_destination_hash d"
  by (simp_all add: overlay_def Let_def)

text \<open>Two tables that differ in LXMF destinations only.\<close>

definition same_but_lxmf :: "mesh_device \<Rightarrow> mesh_device \<Rightarrow> bool" where
  "same_but_lxmf d e \<longleftrightarrow> (\<exists>l. e = d\<lparr>lxmf_destination_hash := l\<rparr>)"

definition agree :: "devices \<Rightarrow> devices \<Rightarrow> bool" where
  "agree ds es \<longleftrightarrow> (\<forall>k. rel_option same_but_lxmf (map_of ds k) (map_of es k))"

lemma same_but_lxmf_refl: "same_but_lxmf d d"
  unfolding same_but_lxmf_def by (rule exI [of _ "lxmf_destination_hash d"]) simp

lemma same_but_lxmf_trans: "same_but_lxmf d e \<Longrightarrow> same_but_lxmf e f \<Longrightarrow> same_but_lxmf d f"
  by (auto simp: same_but_lxmf_def)

lemma same_but_lxmf_views:
  assumes "same_but_lxmf d e"
  shows "identity_hash e = identity_hash d" "identity_key e = identity_key d"
    "last_announce e = last_announce d" "is_styrene_node e = is_styrene_node d"
  using assms by (auto simp: same_but_lxmf_def identity_key_def is_styrene_node_def)

lemma agree_refl: "agree ds ds"
  by (simp add: agree_def option.rel_refl same_but_lxmf_refl)

lemma agree_trans: "agree ds es \<Longrightarrow> agree es fs \<Longrightarrow> agree ds fs"
  unfolding agree_def
  by (metis (no_types, lifting) option.rel_sel same_but_lxmf_trans option.rel_cases)

lemma agree_merge: "agree ds (merge_lxmf k d ds)"
proof -
  have "rel_option same_but_lxmf (map_of ds j) (map_of (merge_lxmf k d ds) j)" for j
    by (cases "map_of ds j")
      (auto simp: merge_lxmf_def update_conv' same_but_lxmf_refl same_but_lxmf_def option.rel_refl
        split: option.split)
  then show ?thesis by (simp add: agree_def)
qed

lemma agree_SomeD: "agree ds es \<Longrightarrow> map_of ds k = Some d \<Longrightarrow> \<exists>e. map_of es k = Some e \<and> same_but_lxmf d e"
  by (metis agree_def option.rel_cases option.distinct(1) option.inject)

lemma agree_step: "agree ds (snd (dedupe_step now k (b, ds)))"
  by (auto simp: dedupe_step_def agree_refl agree_merge Let_def split: option.split)

lemma agree_fold: "agree (snd s) (snd (fold (dedupe_step now) ks s))"
proof (induction ks arbitrary: s)
  case (Cons k ks)
  have "agree (snd s) (snd (dedupe_step now k s))" using agree_step by (cases s) auto
  from agree_trans [OF this Cons.IH [of "dedupe_step now k s"]] show ?case by simp
qed (simp add: agree_refl)

lemma map_fst_merge: "map fst (merge_lxmf k d ds) = map fst ds"
  by (auto simp: merge_lxmf_def update_keys split: option.split dest!: map_of_SomeD intro: rev_image_eqI)

lemma map_fst_dedupe: "map fst (snd (fold (dedupe_step now) ks s)) = map fst (snd s)"
proof (induction ks arbitrary: s)
  case (Cons k ks)
  have "map fst (snd (dedupe_step now k s)) = map fst (snd s)"
    by (cases s) (auto simp: dedupe_step_def map_fst_merge Let_def split: option.split)
  with Cons.IH show ?case by simp
qed simp

section \<open>Admission\<close>

text \<open>
  The node store is shared: the daemon's other services write it too (the hub connection its hub,
  \<^verbatim>\<open>hub_connection.py\<close>), and clear or prune it. So what happens to it between two steps of the
  handler is arbitrary.
\<close>

inductive discovery_step :: "announce_handler \<Rightarrow> announce_handler \<Rightarrow> bool" where
  ds_announce: "discovery_step h (received_announce w now dest ident app_data pr h)"
| ds_query: "discovery_step h (snd (get_styrene_devices now h))"
| ds_store: "discovery_step h (h\<lparr>handler_store := st\<rparr>)"

text \<open>A new handler; its store is on disk and may hold rows of an earlier run.\<close>

definition new_handler :: "announce_handler \<Rightarrow> bool" where
  "new_handler h \<longleftrightarrow> discovered_devices h = [] \<and> trace h = []"

definition only_admitted :: "announce_handler \<Rightarrow> bool" where
  "only_admitted h \<longleftrightarrow>
     (\<forall>d \<in> snd ` set (discovered_devices h). admitted h (identity_hash d)) \<and>
     (\<forall>d. Callback d \<in> set (trace h) \<longrightarrow> admitted h (identity_hash d))"

definition discovery_inv :: "announce_handler \<Rightarrow> bool" where
  "discovery_inv h \<longleftrightarrow> distinct (map fst (discovered_devices h)) \<and> only_admitted h"

lemma upsert_identities:
  "r \<in> set (upsert n_destination_hash merge_node new t) \<Longrightarrow> r \<in> set t \<or> n_identity_hash r = n_identity_hash new"
  by (induction t) (auto simp: merge_node_def split: if_splits)

lemma save_identities:
  "r \<in> set (nodes (save_node now d st)) \<Longrightarrow> r \<in> set (nodes st) \<or> n_identity_hash r = identity_hash d"
  by (auto simp: save_node_def row_of_def dest!: upsert_identities split: if_splits)

lemma received_announce_store:
  "handler_store (received_announce w now dest ident app_data pr h) = handler_store h \<or>
   (\<exists>d. admitted h (identity_hash d) \<and>
      handler_store (received_announce w now dest ident app_data pr h) =
        map_option (save_node (int_of_float now) d) (handler_store h))"
proof (cases "pr = Some True \<or> \<not> admitted h (case ident of None \<Rightarrow> hex_of dest | Some i \<Rightarrow> hex_of i)")
  case True
  then show ?thesis by (auto simp: received_announce_def)
next
  case False
  then have "admitted h (identity_hash (fst (overlay w h (announced_device w now dest ident app_data h))))" by simp
  moreover have "handler_store (received_announce w now dest ident app_data pr h) =
      map_option (save_node (int_of_float now) (fst (overlay w h (announced_device w now dest ident app_data h)))) (handler_store h)"
    using False by (auto simp: received_announce_def Let_def split: prod.split)
  ultimately show ?thesis by blast
qed

lemma get_styrene_rest:
  "handler_store (snd (get_styrene_devices now h)) = handler_store h"
  "access_mode (snd (get_styrene_devices now h)) = access_mode h"
  "allowed_peers (snd (get_styrene_devices now h)) = allowed_peers h"
  "trace (snd (get_styrene_devices now h)) = trace h"
  by (simp_all add: get_styrene_devices_def split: prod.split)

lemma admitted_cong: "access_mode h' = access_mode h \<Longrightarrow> allowed_peers h' = allowed_peers h \<Longrightarrow> admitted h' = admitted h"
  by (simp add: admitted_def fun_eq_iff)

lemma received_announce_inv:
  assumes "discovery_inv h"
  shows "discovery_inv (received_announce w now dest ident app_data pr h)"
proof -
  let ?id = "case ident of None \<Rightarrow> hex_of dest | Some i \<Rightarrow> hex_of i"
  let ?h = "received_announce w now dest ident app_data pr h"
  show ?thesis
  proof (cases "pr = Some True \<or> \<not> admitted h ?id")
    case True
    with assms show ?thesis by (auto simp: received_announce_def)
  next
    case False
    define d where "d = fst (overlay w h (announced_device w now dest ident app_data h))"
    have d: "identity_hash d = ?id" by (simp add: d_def)
    have adm: "admitted ?h = admitted h"
      by (rule admitted_cong) (auto simp: received_announce_def Let_def split: prod.split)
    have tab: "discovered_devices ?h = AList.update (hex_of dest) d (discovered_devices h)"
      and calls: "Callback e \<in> set (trace ?h) \<Longrightarrow> e = d \<or> Callback e \<in> set (trace h)" for e
      using False by (auto simp: received_announce_def Let_def d_def overlay_def split: prod.split if_splits option.splits)
    have old: "\<forall>e \<in> snd ` set (discovered_devices h). admitted h (identity_hash e)"
        "\<forall>e. Callback e \<in> set (trace h) \<longrightarrow> admitted h (identity_hash e)"
        "distinct (map fst (discovered_devices h))" and adm_d: "admitted h (identity_hash d)"
      using assms False d unfolding discovery_inv_def only_admitted_def by simp_all
    have "\<forall>e \<in> snd ` set (discovered_devices ?h). admitted h (identity_hash e)"
      using old(1,3) adm_d by (auto simp: tab set_alist_update)
    moreover have "\<forall>e. Callback e \<in> set (trace ?h) \<longrightarrow> admitted h (identity_hash e)"
      using old(2) adm_d calls by metis
    ultimately have "only_admitted ?h" by (simp add: only_admitted_def adm)
    with assms show ?thesis by (simp add: discovery_inv_def tab distinct_update)
  qed
qed

lemma store_written_inv: "discovery_inv (h\<lparr>handler_store := st\<rparr>) = discovery_inv h"
  by (simp add: discovery_inv_def only_admitted_def admitted_def)

lemma get_styrene_inv:
  assumes "discovery_inv h"
  shows "discovery_inv (snd (get_styrene_devices now h))"
proof -
  let ?ds = "discovered_devices h"
  let ?ks = "map fst (filter (\<lambda>p. is_styrene_node (snd p)) ?ds)"
  define es where "es = snd (fold (dedupe_step now) ?ks ([], ?ds))"
  have h: "snd (get_styrene_devices now h) = h\<lparr>discovered_devices := es\<rparr>"
    by (simp add: get_styrene_devices_def deduplicate_by_identity_def es_def split: prod.split)
  have ks: "map fst es = map fst ?ds" by (simp add: es_def map_fst_dedupe)
  have ag: "agree ?ds es" using agree_fold [of "([], ?ds)"] by (simp add: es_def)
  have "\<exists>d \<in> snd ` set ?ds. identity_hash d = identity_hash e" if "e \<in> snd ` set es" for e
  proof -
    have "distinct (map fst es)" using assms ks by (simp add: discovery_inv_def)
    with that obtain k where k: "map_of es k = Some e" by auto
    then obtain d where "map_of ?ds k = Some d" "same_but_lxmf d e"
      using ag by (metis agree_def option.rel_cases option.distinct(1) option.inject)
    then show ?thesis by (auto dest!: map_of_SomeD simp: same_but_lxmf_views intro: rev_bexI)
  qed
  moreover have "\<forall>d \<in> snd ` set ?ds. admitted h (identity_hash d)"
    using assms unfolding discovery_inv_def only_admitted_def by blast
  ultimately have "\<forall>e \<in> snd ` set es. admitted h (identity_hash e)" by metis
  moreover have "admitted (h\<lparr>discovered_devices := es\<rparr>) = admitted h" by (rule admitted_cong) simp_all
  ultimately have "only_admitted (h\<lparr>discovered_devices := es\<rparr>)"
    using assms by (simp add: discovery_inv_def only_admitted_def)
  with assms ks show ?thesis by (simp add: h discovery_inv_def)
qed

interpretation discovery: invariant_system new_handler discovery_step discovery_inv
proof unfold_locales
  show "discovery_inv h" if "new_handler h" for h
    using that by (auto simp: discovery_inv_def only_admitted_def new_handler_def)
  show "discovery_inv h'" if "discovery_inv h" "discovery_step h h'" for h h'
    using that(2,1) by cases (simp_all add: received_announce_inv get_styrene_inv store_written_inv)
qed

section \<open>Choosing one device per identity\<close>

text \<open>What the loop has established after the keys \<open>ks\<close>, over the table \<open>ds\<close> it started from.\<close>

definition fresh :: "rat \<Rightarrow> mesh_device \<Rightarrow> bool" where
  "fresh now d \<longleftrightarrow> \<not> of_int (last_announce d) < now - 1800"

definition chosen :: "rat \<Rightarrow> devices \<Rightarrow> string list \<Rightarrow> (string \<times> string) list \<times> devices \<Rightarrow> bool" where
  "chosen now ds ks s \<longleftrightarrow>
     agree ds (snd s) \<and> distinct (map fst (fst s)) \<and>
     (\<forall>(i, k) \<in> set (fst s). k \<in> set ks \<and> (\<exists>d. map_of ds k = Some d \<and> identity_key d = i \<and> fresh now d)) \<and>
     (\<forall>k \<in> set ks. \<forall>d. map_of ds k = Some d \<longrightarrow> fresh now d \<longrightarrow>
        (\<exists>j e. map_of (fst s) (identity_key d) = Some j \<and> map_of ds j = Some e \<and> \<not> better_than d e))"

lemma better_than_trans: "\<not> better_than d e \<Longrightarrow> better_than f e \<Longrightarrow> \<not> better_than d f"
  by (auto simp: better_than_def)

lemma better_than_irrefl: "\<not> better_than d d"
  by (simp add: better_than_def)

lemma chosen_views:
  assumes "same_but_lxmf d e"
  shows "identity_key e = identity_key d" "fresh now e = fresh now d"
    "better_than e f = better_than d f" "better_than f e = better_than f d"
  using assms by (auto simp: same_but_lxmf_views fresh_def better_than_def)

lemma agree_merge_trans: "agree ds es \<Longrightarrow> agree ds (merge_lxmf k d es)"
  by (rule agree_trans [OF _ agree_merge])

lemma chosen_put:
  assumes "chosen now ds ks (b, es)" and "map_of ds k = Some d" and "fresh now d"
    and "agree ds es'" and "i = identity_key d"
    and "map_of b i = None \<or> (\<exists>j e. map_of b i = Some j \<and> map_of ds j = Some e \<and> better_than d e)"
  shows "chosen now ds (ks @ [k]) (AList.update i k b, es')"
proof -
  have dist: "distinct (map fst b)" using assms(1) by (simp add: chosen_def)
  have "\<forall>k \<in> set ks. \<forall>d. map_of ds k = Some d \<longrightarrow> fresh now d \<longrightarrow>
      (\<exists>j e. map_of b (identity_key d) = Some j \<and> map_of ds j = Some e \<and> \<not> better_than d e)"
    using assms(1) unfolding chosen_def fst_conv snd_conv by blast
  then have old: "\<exists>j e. map_of b (identity_key d) = Some j \<and> map_of ds j = Some e \<and> \<not> better_than d e"
    if "k \<in> set ks" "map_of ds k = Some d" "fresh now d" for k d
    using that by simp
  have "\<exists>j e. map_of (AList.update i k b) (identity_key d') = Some j \<and> map_of ds j = Some e \<and> \<not> better_than d' e"
    if "k' \<in> set (ks @ [k])" "map_of ds k' = Some d'" "fresh now d'" for k' d'
  proof (cases "identity_key d' = i")
    case True
    have "\<not> better_than d' d"
    proof (cases "k' = k")
      case True
      with that(2) assms(2) show ?thesis by (simp add: better_than_irrefl)
    next
      case False
      with that(1) have "k' \<in> set ks" by simp
      from old [OF this that(2,3)] True
      obtain j e where e: "map_of b i = Some j" "map_of ds j = Some e" and worse: "\<not> better_than d' e" by auto
      with assms(6) have "better_than d e" by auto
      with better_than_trans [OF worse] show ?thesis .
    qed
    with True assms(2) show ?thesis by (simp add: update_conv')
  next
    case False
    with that assms(2,5) have "k' \<in> set ks" by auto
    from old [OF this that(2,3)] False show ?thesis unfolding update_conv' by simp
  qed
  moreover have "\<forall>(i', k') \<in> set (AList.update i k b).
      k' \<in> set (ks @ [k]) \<and> (\<exists>d. map_of ds k' = Some d \<and> identity_key d = i' \<and> fresh now d)"
  proof -
    have "\<forall>(i', k') \<in> set b. k' \<in> set ks \<and> (\<exists>d. map_of ds k' = Some d \<and> identity_key d = i' \<and> fresh now d)"
      using assms(1) by (simp add: chosen_def)
    then show ?thesis using assms(2,3,5) dist by (auto simp: set_alist_update)
  qed
  ultimately show ?thesis
    using assms(4) dist unfolding chosen_def fst_conv snd_conv by (simp add: distinct_update)
qed

lemma chosen_keep:
  assumes "chosen now ds ks (b, es)" and "map_of ds k = Some d" and "agree ds es'"
    and "fresh now d \<longrightarrow> (\<exists>j e. map_of b (identity_key d) = Some j \<and> map_of ds j = Some e \<and> \<not> better_than d e)"
  shows "chosen now ds (ks @ [k]) (b, es')"
  using assms unfolding chosen_def by auto

lemma update_same: "map_of b i = Some j \<Longrightarrow> distinct (map fst b) \<Longrightarrow> AList.update i j b = b"
  by (induction b) (auto split: if_splits)

lemma chosen_step:
  assumes "chosen now ds ks s" and "k \<in> fst ` set ds"
  shows "chosen now ds (ks @ [k]) (dedupe_step now k s)"
proof -
  obtain b es where s: "s = (b, es)" by (cases s)
  obtain d where d: "map_of ds k = Some d" using assms(2) by (metis domIff dom_map_of_conv_image_fst not_None_eq)
  have ag: "agree ds es" and dist: "distinct (map fst b)" using assms(1) by (simp_all add: chosen_def s)
  obtain d' where d': "map_of es k = Some d'" "same_but_lxmf d d'" using agree_SomeD [OF ag d] by blast
  note views = chosen_views [OF d'(2)]
  show ?thesis
  proof (cases "fresh now d")
    case False
    then show ?thesis
      using assms(1) d d' ag by (simp add: s dedupe_step_def fresh_def same_but_lxmf_views [OF d'(2)] chosen_keep)
  next
    case True
    then have fresh': "\<not> of_int (last_announce d') < now - 1800" by (simp add: fresh_def same_but_lxmf_views [OF d'(2)])
    show ?thesis
    proof (cases "map_of b (identity_key d)")
      case None
      then show ?thesis
        using assms(1) d True ag chosen_put [of now ds ks b es k d es "identity_key d"]
        by (simp add: s dedupe_step_def d' fresh' views)
    next
      case (Some ek)
      then have "(identity_key d, ek) \<in> set b" by (rule map_of_SomeD)
      then obtain e where e: "map_of ds ek = Some e" using assms(1) by (auto simp: chosen_def s)
      obtain e' where e': "map_of es ek = Some e'" "same_but_lxmf e e'" using agree_SomeD [OF ag e] by blast
      have "better_than d' e' = better_than d e" using views chosen_views [OF e'(2)] by metis
      then have "dedupe_step now k s =
          (let winner = (if better_than d e then k else ek) in
           (AList.update (identity_key d) winner b, merge_lxmf winner d' es))"
        by (simp add: s dedupe_step_def d' fresh' views Some e'(1))
      then show ?thesis
        using assms(1) d True ag e Some update_same [OF Some dist] agree_merge_trans [OF ag]
          chosen_put [of now ds ks b es k d _ "identity_key d"] chosen_keep [of now ds ks b es k d]
        by (auto simp: s Let_def)
    qed
  qed
qed

lemma chosen_fold:
  "chosen now ds ks s \<Longrightarrow> set ks' \<subseteq> fst ` set ds \<Longrightarrow> chosen now ds (ks @ ks') (fold (dedupe_step now) ks' s)"
proof (induction ks' arbitrary: ks s)
  case (Cons k ks')
  from Cons.IH [OF chosen_step [OF Cons.prems(1)]] Cons.prems(2) show ?case by simp
qed simp

lemma chosen_result:
  assumes "distinct (map fst (discovered_devices h))"
  obtains b es where "get_styrene_devices now h =
      (List.map_filter (\<lambda>p. map_of es (snd p)) b, h\<lparr>discovered_devices := es\<rparr>)"
    and "chosen now (discovered_devices h)
      (map fst (filter (\<lambda>p. is_styrene_node (snd p)) (discovered_devices h))) (b, es)"
proof -
  let ?ds = "discovered_devices h"
  let ?ks = "map fst (filter (\<lambda>p. is_styrene_node (snd p)) ?ds)"
  obtain b es where f: "fold (dedupe_step now) ?ks ([], ?ds) = (b, es)" by fastforce
  have "chosen now ?ds [] ([], ?ds)" by (simp add: chosen_def agree_refl)
  from chosen_fold [OF this, of ?ks] f have "chosen now ?ds ?ks (b, es)" by auto
  with f that show ?thesis by (simp add: get_styrene_devices_def deduplicate_by_identity_def)
qed

lemma chosen_devices:
  assumes "chosen now ds ks (b, es)"
  shows "distinct (map identity_key (List.map_filter (\<lambda>p. map_of es (snd p)) b))"
    and "d \<in> set (List.map_filter (\<lambda>p. map_of es (snd p)) b) \<longleftrightarrow>
         (\<exists>(i, k) \<in> set b. map_of es k = Some d)"
proof -
  have "map_of es k \<noteq> None \<and> (\<forall>e. map_of es k = Some e \<longrightarrow> identity_key e = i)" if "(i, k) \<in> set b" for i k
  proof -
    obtain d where "map_of ds k = Some d" "identity_key d = i"
      using assms \<open>(i, k) \<in> set b\<close> by (auto simp: chosen_def)
    with agree_SomeD [of ds es] assms show ?thesis
      unfolding chosen_def fst_conv snd_conv by (metis chosen_views(1) option.distinct(1) option.inject)
  qed
  then have m: "map identity_key (List.map_filter (\<lambda>p. map_of es (snd p)) b) = map fst b"
  proof (induction b)
    case (Cons p b)
    then show ?case using Cons.prems [of "fst p" "snd p"] by (auto split: option.split)
  qed simp
  then show "distinct (map identity_key (List.map_filter (\<lambda>p. map_of es (snd p)) b))"
    using assms unfolding m by (simp add: chosen_def)
  show "d \<in> set (List.map_filter (\<lambda>p. map_of es (snd p)) b) \<longleftrightarrow>
         (\<exists>(i, k) \<in> set b. map_of es k = Some d)"
    by (force simp: List.map_filter_def)
qed

section \<open>Properties\<close>

text \<open>
  Claim C16. The admission policy holds everywhere behind the handler. Under an allow list, after
  any sequence of announces, queries and writes of other components to the node store, every
  device in the table and every device handed to the callback belongs to an allowed identity; an
  announce of any other identity changes nothing at all; and an announce adds to the node store,
  whatever that holds (rows of earlier runs, the hub that the hub connection saves past the allow
  list), at most rows of allowed identities: each row afterwards was there before, unchanged, or
  is of an allowed identity. A query leaves the store alone.
\<close>

theorem admission_enforced:
  assumes "reach new_handler discovery_step h" and "access_mode h = ALLOWLIST"
  shows "(\<forall>d \<in> set (discover_devices (Some h)). lower (identity_hash d) \<in> allowed_peers h) \<and>
    (\<forall>d. Callback d \<in> set (trace h) \<longrightarrow> lower (identity_hash d) \<in> allowed_peers h) \<and>
    (\<forall>w now dest ident app_data pr.
       lower (case ident of None \<Rightarrow> hex_of dest | Some i \<Rightarrow> hex_of i) \<notin> allowed_peers h \<longrightarrow>
         received_announce w now dest ident app_data pr h = h) \<and>
    (\<forall>w now dest ident app_data pr.
       rel_option (\<lambda>st st'. \<forall>r \<in> set (nodes st'). r \<in> set (nodes st) \<or> lower (n_identity_hash r) \<in> allowed_peers h)
         (handler_store h) (handler_store (received_announce w now dest ident app_data pr h))) \<and>
    (\<forall>now. handler_store (snd (get_styrene_devices now h)) = handler_store h)"
proof (intro conjI allI impI)
  have inv: "discovery_inv h" by (rule discovery.reach_inv [OF assms(1)])
  show "\<forall>d \<in> set (discover_devices (Some h)). lower (identity_hash d) \<in> allowed_peers h"
    using inv assms(2) by (auto simp: discovery_inv_def only_admitted_def admitted_def discover_devices_def)
  show "lower (identity_hash d) \<in> allowed_peers h" if "Callback d \<in> set (trace h)" for d
    using inv assms(2) that by (auto simp: discovery_inv_def only_admitted_def admitted_def)
  show "received_announce w now dest ident app_data pr h = h"
    if "lower (case ident of None \<Rightarrow> hex_of dest | Some i \<Rightarrow> hex_of i) \<notin> allowed_peers h" for w now dest ident app_data pr
    using that assms(2) by (auto simp: received_announce_def admitted_def Let_def)
  show "rel_option (\<lambda>st st'. \<forall>r \<in> set (nodes st'). r \<in> set (nodes st) \<or> lower (n_identity_hash r) \<in> allowed_peers h)
         (handler_store h) (handler_store (received_announce w now dest ident app_data pr h))"
    for w now dest ident app_data pr
    using received_announce_store [of w now dest ident app_data pr h] assms(2)
    by (cases "handler_store h") (auto simp: admitted_def dest!: save_identities)
qed (simp add: get_styrene_rest)

definition demo_env :: rns_env where
  "demo_env = \<lparr>expected_hash = (\<lambda>_ _. Inl OtherError), has_public_key = (\<lambda>_. True), rns_path_table = (\<lambda>_. None),
     parser_lib = None, json_loads = (\<lambda>_. Inl ValueError), loop_running = False\<rparr>"

text \<open>
  A handler that finds a foreign row in its store and hears an allowed and a foreign announce.
\<close>

definition demo_allowed :: announce_handler where
  "demo_allowed = StyreneAnnounceHandler True (Some (save_node 1 demo_device init_db)) (Some ALLOWLIST) {hex_of [2]} None None"

definition demo_handler :: announce_handler where
  "demo_handler = received_announce demo_env 50 [1] (Some [2]) None None demo_allowed"

lemma demo_handler_reached: "reach new_handler discovery_step demo_handler"
proof -
  have "new_handler demo_allowed" by (simp add: new_handler_def demo_allowed_def StyreneAnnounceHandler_def)
  then show ?thesis unfolding demo_handler_def by (blast intro: reach_start reach_step ds_announce)
qed

theorem admission_enforced_witness:
  "list_all (\<lambda>d. lower (identity_hash d) \<in> allowed_peers demo_handler) (discover_devices (Some demo_handler)) \<and>
   list_all (\<lambda>e. case e of Callback d \<Rightarrow> lower (identity_hash d) \<in> allowed_peers demo_handler | _ \<Rightarrow> True)
     (trace demo_handler) \<and>
   received_announce demo_env 60 [3] (Some [4]) None None demo_handler = demo_handler"
proof -
  have mode: "access_mode demo_handler = ALLOWLIST"
    by (simp add: demo_handler_def demo_allowed_def received_announce_def StyreneAnnounceHandler_def Let_def split: prod.split)
  have peers: "allowed_peers demo_handler = {lower (hex_of [2])}"
    by (simp add: demo_handler_def demo_allowed_def received_announce_def StyreneAnnounceHandler_def Let_def split: prod.split)
  note got = admission_enforced [OF demo_handler_reached mode]
  have foreign: "lower (case Some [4] of None \<Rightarrow> hex_of [3] | Some i \<Rightarrow> hex_of i) \<notin> allowed_peers demo_handler"
    by (simp add: peers hex_of_def lower_def lower_char_def hex_digit_def)
  from got have "received_announce demo_env 60 [3] (Some [4]) None None demo_handler = demo_handler"
    using foreign by blast
  with got show ?thesis by (auto simp: list_all_iff split: announce_effect.split)
qed

text \<open>
  The list of Styrene nodes shows each node once and shows it at its latest: no two
  entries share an identity, none is older than thirty minutes, and for every Styrene device
  of the table that is not too old the list has a device of the same identity whose last
  announce is at least as recent.
\<close>

theorem styrene_nodes_listed_once:
  assumes "reach new_handler discovery_step h"
  shows "distinct (map identity_key (fst (get_styrene_devices now h))) \<and>
    (\<forall>r \<in> set (fst (get_styrene_devices now h)). now - 1800 \<le> of_int (last_announce r) \<and> is_styrene_node r) \<and>
    (\<forall>d \<in> set (discover_devices (Some h)). is_styrene_node d \<longrightarrow> now - 1800 \<le> of_int (last_announce d) \<longrightarrow>
       (\<exists>r \<in> set (fst (get_styrene_devices now h)).
          identity_key r = identity_key d \<and> last_announce d \<le> last_announce r))"
proof -
  let ?ds = "discovered_devices h"
  let ?ks = "map fst (filter (\<lambda>p. is_styrene_node (snd p)) ?ds)"
  have dist: "distinct (map fst ?ds)" using discovery.reach_inv [OF assms] by (simp add: discovery_inv_def)
  obtain b es where res: "get_styrene_devices now h =
      (List.map_filter (\<lambda>p. map_of es (snd p)) b, h\<lparr>discovered_devices := es\<rparr>)"
    and c: "chosen now ?ds ?ks (b, es)" by (rule chosen_result [OF dist])
  have ag: "agree ?ds es" using c by (simp add: chosen_def)
  have sty: "is_styrene_node d" if "k \<in> set ?ks" "map_of ?ds k = Some d" for k d
    using that dist by (auto dest: map_of_SomeD eq_key_imp_eq_value)
  let ?R = "List.map_filter (\<lambda>p. map_of es (snd p)) b"
  note mem = chosen_devices(2) [OF c]
  have "now - 1800 \<le> of_int (last_announce r) \<and> is_styrene_node r" if "r \<in> set ?R" for r
  proof -
    from that mem obtain i k where ik: "(i, k) \<in> set b" "map_of es k = Some r" by blast
    from c ik(1) obtain d where d: "k \<in> set ?ks" "map_of ?ds k = Some d" "fresh now d"
      unfolding chosen_def fst_conv snd_conv by blast
    from agree_SomeD [OF ag d(2)] ik(2) have "same_but_lxmf d r" by simp
    from same_but_lxmf_views [OF this] d(3) sty [OF d(1,2)] show ?thesis by (simp add: fresh_def)
  qed
  moreover have "\<exists>r \<in> set ?R. identity_key r = identity_key d \<and> last_announce d \<le> last_announce r"
    if "(k, d) \<in> set ?ds" "is_styrene_node d" "now - 1800 \<le> of_int (last_announce d)" for k d
  proof -
    have "k \<in> set ?ks" "map_of ?ds k = Some d" "fresh now d" using that dist by (auto simp: fresh_def image_iff)
    then obtain j e where e: "map_of b (identity_key d) = Some j" "map_of ?ds j = Some e" "\<not> better_than d e"
      using c unfolding chosen_def fst_conv snd_conv by blast
    then have "(identity_key d, j) \<in> set b" by (simp add: map_of_SomeD)
    with c e(2) have j: "j \<in> set ?ks" and id: "identity_key e = identity_key d"
      unfolding chosen_def fst_conv snd_conv by fastforce+
    obtain r where r: "map_of es j = Some r" "same_but_lxmf e r"
      using agree_SomeD [OF ag e(2)] by blast
    have "identity_key r = identity_key d" "last_announce d \<le> last_announce r"
      using id e(3) sty [OF j e(2)] that(2) same_but_lxmf_views [OF r(2)] by (auto simp: better_than_def)
    moreover have "r \<in> set ?R" using r(1) \<open>(identity_key d, j) \<in> set b\<close> mem by blast
    ultimately show ?thesis by blast
  qed
  ultimately show ?thesis
    using chosen_devices(1) [OF c] unfolding res fst_conv discover_devices_def by auto
qed

theorem styrene_nodes_listed_once_witness:
  "distinct (map identity_key (fst (get_styrene_devices 60 demo_handler))) \<and>
    list_all (\<lambda>r. 60 - 1800 \<le> (of_int (last_announce r) :: rat) \<and> is_styrene_node r)
      (fst (get_styrene_devices 60 demo_handler)) \<and>
    list_all (\<lambda>d. list_ex (\<lambda>r. identity_key r = identity_key d \<and> last_announce d \<le> last_announce r)
        (fst (get_styrene_devices 60 demo_handler)))
      (filter (\<lambda>d. is_styrene_node d \<and> 60 - 1800 \<le> (of_int (last_announce d) :: rat))
        (discover_devices (Some demo_handler)))"
  using styrene_nodes_listed_once [OF demo_handler_reached, of 60] by (auto simp: list_all_iff list_ex_iff)

text \<open>Two announces of one node, of its operator destination and of its LXMF destination.\<close>

definition demo_node :: "string \<Rightarrow> int \<Rightarrow> string option \<Rightarrow> mesh_device" where
  "demo_node dest heard lxmf =
     demo_device\<lparr>destination_hash := dest, last_announce := heard, lxmf_destination_hash := lxmf\<rparr>"

definition two_nodes :: "mesh_device \<Rightarrow> mesh_device \<Rightarrow> announce_handler" where
  "two_nodes a b = (StyreneAnnounceHandler False None None {} None None)
     \<lparr>discovered_devices := [(mesh_device.destination_hash a, a), (mesh_device.destination_hash b, b)]\<rparr>"

text \<open>
  The merge of LXMF destinations works in one direction only. When the later entry
  of a node in the table is also the more recent and carries no LXMF destination, as the node's
  own LXMF announce does, the list shows the node without one, although the table knows it;
  with the two entries in the other order the destination is kept.
\<close>

theorem newer_entry_drops_lxmf:
  assumes "is_styrene_node a" and "is_styrene_node b" and "identity_hash a = identity_hash b" and "identity_hash b \<noteq> []"
    and "mesh_device.destination_hash a \<noteq> mesh_device.destination_hash b"
    and "last_announce a < last_announce b" and "now - 1800 \<le> of_int (last_announce a)"
    and "lxmf_destination_hash a = Some l" and "l \<noteq> []" and "lxmf_destination_hash b = None"
  shows "map lxmf_destination_hash (fst (get_styrene_devices now (two_nodes a b))) = [None] \<and>
    map lxmf_destination_hash (fst (get_styrene_devices now (two_nodes b a))) = [Some l]"
proof -
  have "(of_int (last_announce a) :: rat) < of_int (last_announce b)" using assms(6) by simp
  with assms(7) have "\<not> (of_int (last_announce b) :: rat) < now - 1800" by linarith
  with assms show ?thesis
    by (auto simp: two_nodes_def get_styrene_devices_def deduplicate_by_identity_def dedupe_step_def
        identity_key_def better_than_def merge_lxmf_def filled_def List.map_filter_def Let_def)
qed

theorem newer_entry_drops_lxmf_witness:
  "map lxmf_destination_hash (fst (get_styrene_devices 1000
       (two_nodes (demo_node ''op'' 900 (Some ''lx'')) (demo_node ''lx'' 950 None)))) = [None] \<and>
   map lxmf_destination_hash (fst (get_styrene_devices 1000
       (two_nodes (demo_node ''lx'' 950 None) (demo_node ''op'' 900 (Some ''lx''))))) = [Some ''lx'']"
  by (rule newer_entry_drops_lxmf) (simp_all add: demo_node_def demo_device_def is_styrene_node_def)

lemma find_update:
  "find (\<lambda>d. Q d) (map snd t) = None \<Longrightarrow> Q d \<Longrightarrow> find (\<lambda>d. Q d) (map snd (AList.update k d t)) = Some d"
  by (induction t) (auto split: if_splits)

text \<open>
  The LXMF destination in an announce is taken at its word. If no known device has
  the address \<open>victim\<close>, an admitted announce of identity \<open>i\<close> that names it makes the program
  answer \<open>i\<close> for it, and while Reticulum itself does not know the address, everything
  \<^verbatim>\<open>StyreneProtocol\<close> sends there is encrypted for \<open>i\<close>.
\<close>

theorem claimed_address_is_believed:
  assumes "pr \<noteq> Some True" and "admitted h (hex_of i)"
    and "lxmf_destination_hash (announced_device w now dest (Some i) app_data h) = Some victim"
    and "discovered_identity victim (Some h) = None"
    and "h' = received_announce w now dest (Some i) app_data pr h"
    and "find_discovered lk = (\<lambda>d. Inr (discovered_identity d (Some h')))"
    and "fromhex victim = Inr v" and "recall lk v False = None" and "recall lk i True = Some attacker" and "i \<noteq> []"
    and "StyreneEnvelope rnd STYRENE_VERSION t p rid = Inr env" and "encode env = Inr data"
  shows "discovered_identity victim (Some h') = Some (hex_of i) \<and>
    (\<exists>out db'. send_typed_message lk rnd now' own victim t p rid db = Inr (out, db') \<and> out_identity out = attacker)"
proof -
  let ?Q = "\<lambda>d. lxmf_destination_hash d = Some victim \<or> mesh_device.destination_hash d = victim"
  define d where "d = fst (overlay w h (announced_device w now dest (Some i) app_data h))"
  have "discovered_devices h' = AList.update (hex_of dest) d (discovered_devices h)"
    using assms(1,2) by (auto simp: assms(5) received_announce_def Let_def d_def split: prod.split)
  moreover have "find ?Q (map snd (discovered_devices h)) = None"
    using assms(4) by (simp add: discovered_identity_def discover_devices_def)
  moreover have "?Q d" using assms(3) by (simp add: d_def)
  ultimately have "find ?Q (discover_devices (Some h')) = Some d"
    using find_update [of ?Q] by (simp add: discover_devices_def)
  then have dis: "discovered_identity victim (Some h') = Some (hex_of i)"
    by (simp add: discovered_identity_def d_def)
  have "hex_of i \<noteq> []" using assms(10) by (cases i) (simp_all add: hex_of_Cons)
  then have "resolve_identity lk victim = Inr (Some attacker)"
    using assms(6-9) dis by (simp add: resolve_identity_def lookup_hash_def found_hash_def)
  with dis assms(11,12) show ?thesis by (simp add: send_typed_message_def)
qed

definition open_handler :: announce_handler where
  "open_handler = StyreneAnnounceHandler True None None {} None None"

definition claim :: string where
  "claim = ''styrene:x:1:cli:0102''"

definition demo_lookups :: "announce_handler \<Rightarrow> string lookups" where
  "demo_lookups h = \<lparr>recall = (\<lambda>b ident. if b = [9] \<and> ident then Some ''attacker'' else None),
     find_discovered = (\<lambda>d. Inr (discovered_identity d (Some h))),
     find_operator = (\<lambda>_. Inr None), find_lxmf = (\<lambda>_. Inr None)\<rparr>"

lemma claim_parsed:
  "lxmf_destination_hash (announced_device demo_env 50 [1] (Some [9]) (Some (str_bytes claim)) open_handler) =
     Some ''0102''"
proof -
  have "parse_announce_data None (\<lambda>_. Inl ValueError) (Some (str_bytes claim)) None = parse_styrene claim"
    by (rule parse_announce_styrene)
      (simp_all add: claim_def is_ascii_def is_strip_space_def is_space_def Let_def)
  then show ?thesis
    by (simp add: announced_device_def create_mesh_device_def route_info_def upgrade_peer_def open_handler_def
        StyreneAnnounceHandler_def demo_env_def parse_styrene_def claim_def nth_part_def KNOWN_ASPECTS_def Let_def)
qed

theorem claimed_address_is_believed_witness:
  "let h' = received_announce demo_env 50 [1] (Some [9]) (Some (str_bytes claim)) None open_handler in
   discovered_identity ''0102'' (Some h') = Some (hex_of [9]) \<and>
   (\<exists>out db'. send_typed_message (demo_lookups h') (replicate 16 7) 60 ''aa'' ''0102'' PING [] None [] = Inr (out, db') \<and>
      out_identity out = ''attacker'')"
proof -
  let ?env = "\<lparr>version = STYRENE_VERSION_2, mtype = PING, payload = [], request_id = Some (replicate 16 7)\<rparr>"
  have "wf_envelope ?env" by (simp add: wf_envelope_def wire_consts MAX_PAYLOAD_SIZE_def)
  then obtain data where enc: "encode ?env = Inr data" using wire.enc_total by blast
  have env: "StyreneEnvelope (replicate 16 7) STYRENE_VERSION PING [] None = Inr ?env"
    by (simp add: StyreneEnvelope_def wire_consts MAX_PAYLOAD_SIZE_def)
  have hex: "fromhex ''0102'' = Inr [1, 2]" by (simp add: is_space_def hex_value_def)
  let ?h = "received_announce demo_env 50 [1] (Some [9]) (Some (str_bytes claim)) None open_handler"
  show ?thesis
    unfolding Let_def
    by (rule claimed_address_is_believed [where pr = None and lk = "demo_lookups ?h" and attacker = "''attacker''"
          and own = "''aa''" and db = "[]", OF _ _ claim_parsed _ refl _ hex _ _ _ env enc])
      (simp_all add: admitted_def open_handler_def StyreneAnnounceHandler_def demo_lookups_def
        discovered_identity_def discover_devices_def)
qed

end
