(* ===== verification/Term_Client.thy ===== *)
theory Term_Client
  imports Wire_Messages Term_Messages Protocols
begin

text \<open>
  The terminal client (\<^verbatim>\<open>src/styrened/terminal/client.py\<close>): the session object with its link
  callbacks, its senders, its interactive mode and the loop that reads the keyboard, and the
  client that asks for sessions over LXMF and runs single commands. A coroutine is cut at its
  \<^verbatim>\<open>await\<close>s. What RNS, the terminal and the operating system answer is an argument, and what is
  asked of them is appended to a trace. A callback of the embedding program is its name in the
  trace; it is taken to return.
\<close>

section \<open>The session\<close>

text \<open>
  \<open>Capture\<close> and \<open>Echo\<close> are the closure of \<^verbatim>\<open>run_command\<close> with and without a buffer, \<open>Listener\<close> any
  other \<^verbatim>\<open>on_output\<close>.
\<close>

datatype sink = NoSink | Listener | Capture | Echo

datatype client_effect =
    Identify
  | PathRequest bytes
  | NewLink
  | PacketOut bytes
  | ChannelOut message
  | SendEnvelope string envelope
  | TeardownLink
  | Output pyval
  | WriteStdout bytes
  | WriteStderr bytes
  | ExitCallback pyval
  | ErrorCallback pyval
  | SetRaw
  | RestoreTty
  | InstallResize
  | RestoreResize

text \<open>\<open>link\<close> is the status code of the link, if there is one; \<open>captured\<close> the buffer of \<open>Capture\<close>.\<close>

record client_session =
  session_id :: pyval
  link_destination :: pyval
  destination :: string
  identity_hash :: "string option"
  link :: "nat option"
  channel :: bool
  remote_version :: "(pyval \<times> pyval) option"
  exit_code :: pyval
  on_output :: sink
  on_exit :: bool
  on_error :: bool
  connected :: bool
  exited :: bool
  original_termios :: bool
  resize_handler_installed :: bool
  captured :: bytes
  trace :: "client_effect list"

definition TerminalClientSession :: "pyval \<Rightarrow> pyval \<Rightarrow> string \<Rightarrow> string option \<Rightarrow> client_session" where
  "TerminalClientSession sid ld dest ih =
     \<lparr>session_id = sid, link_destination = ld, destination = dest, identity_hash = ih, link = None,
      channel = False, remote_version = None, exit_code = PNone, on_output = NoSink, on_exit = False,
      on_error = False, connected = False, exited = False, original_termios = False,
      resize_handler_installed = False, captured = [], trace = []\<rparr>"

definition log :: "client_effect list \<Rightarrow> client_session \<Rightarrow> client_session" where
  "log es s = s\<lparr>trace := trace s @ es\<rparr>"

definition LINK_TIMEOUT :: rat where "LINK_TIMEOUT = 15"
definition CONNECT_TIMEOUT :: rat where "CONNECT_TIMEOUT = 30"

text \<open>The msgpack library and the code of \<^verbatim>\<open>RNS.Link.ACTIVE\<close>.\<close>

record client_lib =
  pack_lib :: msgpack
  LINK_ACTIVE :: nat

section \<open>Establishing the link\<close>

text \<open>
  \<^verbatim>\<open>for _ in range(n)\<close>: ask, stop at the first answer, else sleep; \<open>seen k\<close> is what RNS answers
  after \<open>k\<close> sleeps. The second result counts the sleeps.
\<close>

fun poll_identity :: "(nat \<Rightarrow> 'i option) \<Rightarrow> nat \<Rightarrow> nat \<Rightarrow> 'i option \<times> nat" where
  "poll_identity seen k 0 = (None, k)"
| "poll_identity seen k (Suc n) =
     (case seen k of Some i \<Rightarrow> (Some i, k) | None \<Rightarrow> poll_identity seen (Suc k) n)"

definition poll_turns :: "rat \<Rightarrow> nat" where
  "poll_turns timeout = nat \<lfloor>timeout * 10\<rfloor>"

definition resolve_server ::
    "(bytes \<Rightarrow> 'i option) \<Rightarrow> (nat \<Rightarrow> 'i option) \<Rightarrow> rat \<Rightarrow> client_session
      \<Rightarrow> ('i option \<times> nat) res \<times> client_session" where
  "resolve_server by_identity seen timeout s =
     (case (case identity_hash s of
              None \<Rightarrow> Inr None
            | Some h \<Rightarrow> if h = [] then Inr None else bind_res (fromhex h) (\<lambda>b. Inr (by_identity b))) of
        Inl e \<Rightarrow> (Inl e, s)
      | Inr (Some i) \<Rightarrow> (Inr (Some i, 0), s)
      | Inr None \<Rightarrow>
          (case link_destination s of
             PStr d \<Rightarrow>
               (case fromhex d of
                  Inl e \<Rightarrow> (Inl e, s)
                | Inr b \<Rightarrow> (Inr (poll_identity seen 0 (poll_turns timeout)), log [PathRequest b] s))
           | _ \<Rightarrow> (Inl TypeError, s)))"

text \<open>\<^verbatim>\<open>v[:16]\<close> in a log message.\<close>

definition has_slices :: "pyval \<Rightarrow> bool" where
  "has_slices v \<longleftrightarrow> (case v of PStr _ \<Rightarrow> True | PBytes _ \<Rightarrow> True | PList _ \<Rightarrow> True | _ \<Rightarrow> False)"

text \<open>
  \<^verbatim>\<open>connect\<close> up to the wait for the handshake: \<open>Some False\<close> has returned, \<open>None\<close> waits. Every
  exception on the way is caught and means \<^verbatim>\<open>False\<close>; \<open>created\<close> is the status of the new link,
  unless \<^verbatim>\<open>RNS\<close> raises.
\<close>

definition connect_begin ::
    "(bytes \<Rightarrow> 'i option) \<Rightarrow> (nat \<Rightarrow> 'i option) \<Rightarrow> rat \<Rightarrow> nat res \<Rightarrow> client_session
      \<Rightarrow> (bool option \<times> nat) \<times> client_session" where
  "connect_begin by_identity seen timeout created s =
     (case resolve_server by_identity seen timeout s of
        (Inl _, s1) \<Rightarrow> ((Some False, 0), s1)
      | (Inr (None, n), s1) \<Rightarrow> ((Some False, n), s1)
      | (Inr (Some _, n), s1) \<Rightarrow>
          (case (if has_slices (link_destination s1) then created else Inl TypeError) of
             Inl _ \<Rightarrow> ((Some False, n), s1)
           | Inr st \<Rightarrow> ((None, n), log [NewLink] (s1\<lparr>link := Some st\<rparr>))))"

text \<open>The end of the wait: the handshake has been seen, or the time is over.\<close>

definition connect_end :: "client_session \<Rightarrow> bool \<times> client_session" where
  "connect_end s =
     (if connected s then (True, s)
      else (False, if link s = None then s else log [TeardownLink] s))"

text \<open>
  A session id comes from the server and may have any type: \<^verbatim>\<open>len\<close> and \<^verbatim>\<open>hex\<close> of it are not
  always defined.
\<close>

definition no_hex_error :: "pyval \<Rightarrow> exn" where
  "no_hex_error v = (case v of PStr _ \<Rightarrow> AttributeError | PList _ \<Rightarrow> AttributeError | PDict _ \<Rightarrow> AttributeError
     | _ \<Rightarrow> TypeError)"

text \<open>
  \<open>sent1\<close> and \<open>sent2\<close>: whether the two packets go out.
\<close>

definition on_link_established ::
    "client_lib \<Rightarrow> bool \<Rightarrow> bool \<Rightarrow> bool \<Rightarrow> client_session \<Rightarrow> unit res \<times> client_session" where
  "on_link_established w operator sent1 sent2 s =
     (let s1 = (if operator then log [Identify] s else s) in
      case session_id s of
        PBytes b \<Rightarrow>
          if \<not> sent1 then (Inr (), s1)
          else
            let s2 = log [PacketOut b] s1 in
            (case serialize_message (pack_lib w) (VersionInfo (PStr ''2.0'') (PStr ''styrene-client'')) of
               Inl e \<Rightarrow> (Inl e, s2)
             | Inr d \<Rightarrow> (Inr (), if sent2 then log [PacketOut d] s2 else s2))
      | v \<Rightarrow> (Inl (no_hex_error v), s1))"

definition on_link_closed :: "client_session \<Rightarrow> client_session" where
  "on_link_closed s =
     (let s1 = (if exit_code s = PNone then s\<lparr>exit_code := PInt (- 1)\<rparr> else s);
          s2 = s1\<lparr>exited := True\<rparr> in
      if on_exit s2 then log [ExitCallback (exit_code s2)] s2 else s2)"

section \<open>Messages from the server\<close>

text \<open>\<^verbatim>\<open>bytearray.extend\<close>: bytes, or an iterable of numbers below 256; nothing is added otherwise.\<close>

definition byte_item :: "pyval \<Rightarrow> byte option" where
  "byte_item v = (case as_int v of
     None \<Rightarrow> None | Some i \<Rightarrow> if 0 \<le> i \<and> i < 256 then Some (word_of_int i) else None)"

definition bytes_of :: "pyval \<Rightarrow> bytes option" where
  "bytes_of v =
     (let items = (\<lambda>vs. if list_all (\<lambda>x. byte_item x \<noteq> None) vs then Some (List.map_filter byte_item vs) else None) in
      case v of
        PBytes b \<Rightarrow> Some b
      | PList vs \<Rightarrow> items vs
      | PDict d \<Rightarrow> items (map fst d)
      | _ \<Rightarrow> None)"

definition deliver_output :: "message \<Rightarrow> client_session \<Rightarrow> client_session" where
  "deliver_output m s =
     (if is_stdout m \<or> is_stderr m then
        (case on_output s of
           Listener \<Rightarrow> log [Output (sd_data m)] s
         | Capture \<Rightarrow> (case bytes_of (sd_data m) of None \<Rightarrow> s | Some b \<Rightarrow> s\<lparr>captured := captured s @ b\<rparr>)
         | Echo \<Rightarrow> (case sd_data m of PBytes b \<Rightarrow> log [WriteStdout b] s | _ \<Rightarrow> s)
         | NoSink \<Rightarrow>
             (case sd_data m of
                PBytes b \<Rightarrow> log [if is_stdout m then WriteStdout b else WriteStderr b] s
              | _ \<Rightarrow> s))
      else s)"

definition command_exited :: "pyval \<Rightarrow> client_session \<Rightarrow> client_session" where
  "command_exited rc s =
     (let s1 = s\<lparr>exit_code := rc, exited := True\<rparr> in if on_exit s1 then log [ExitCallback rc] s1 else s1)"

definition server_error :: "pyval \<Rightarrow> pyval \<Rightarrow> client_session \<Rightarrow> client_session" where
  "server_error msg fatal s =
     (let s1 = (if on_error s then log [ErrorCallback msg] s else s) in
      if truthy fatal then s1\<lparr>exited := True\<rparr> else s1)"

text \<open>
  The version of the server: a value that is not a text cannot be compared, and the handshake
  is not completed. \<open>chan_ok\<close>: RNS sets the channel up.
\<close>

definition server_version :: "bool \<Rightarrow> pyval \<Rightarrow> pyval \<Rightarrow> client_session \<Rightarrow> client_session" where
  "server_version chan_ok v software s =
     (let s1 = s\<lparr>remote_version := Some (v, software)\<rparr> in
      case v of
        PStr t \<Rightarrow>
          (if str_le ''2.0'' t \<and> link s1 \<noteq> None then s1\<lparr>channel := chan_ok\<rparr> else s1)\<lparr>connected := True\<rparr>
      | _ \<Rightarrow> s1)"

definition on_link_packet :: "client_lib \<Rightarrow> bool \<Rightarrow> bytes \<Rightarrow> client_session \<Rightarrow> client_session" where
  "on_link_packet w chan_ok data s =
     (case deserialize_message (pack_lib w) data of
        Inl _ \<Rightarrow> s
      | Inr m \<Rightarrow>
          (case m of
             StreamData _ _ _ \<Rightarrow> deliver_output m s
           | CommandExited rc _ \<Rightarrow> command_exited rc s
           | VersionInfo v software \<Rightarrow> server_version chan_ok v software s
           | Error msg _ fatal \<Rightarrow> server_error msg fatal s
           | _ \<Rightarrow> s))"

definition on_channel_message :: "message \<Rightarrow> client_session \<Rightarrow> bool \<times> client_session" where
  "on_channel_message m s =
     (True,
      case m of
        StreamData _ _ _ \<Rightarrow> deliver_output m s
      | CommandExited rc _ \<Rightarrow> command_exited rc s
      | Error msg _ fatal \<Rightarrow> server_error msg fatal s
      | _ \<Rightarrow> s)"

section \<open>Sending to the server\<close>

definition send_packet :: "client_lib \<Rightarrow> bool \<Rightarrow> bytes \<Rightarrow> client_session \<Rightarrow> bool \<times> client_session" where
  "send_packet w sent data s =
     (if link s \<noteq> Some (LINK_ACTIVE w) \<or> \<not> sent then (False, s) else (True, log [PacketOut data] s))"

text \<open>How a channel takes a message: not ready, sent, or an exception of \<^verbatim>\<open>send\<close>.\<close>

datatype channel_answer = NotReady | Taken | SendRaises

definition send_data_message ::
    "client_lib \<Rightarrow> channel_answer \<Rightarrow> bool \<Rightarrow> message \<Rightarrow> client_session \<Rightarrow> bool res \<times> client_session" where
  "send_data_message w ans sent m s =
     (if channel s then
        (case ans of
           Taken \<Rightarrow> (Inr True, log [ChannelOut m] s)
         | _ \<Rightarrow> (Inr False, s))
      else
        (case serialize_message (pack_lib w) m of
           Inl e \<Rightarrow> (Inl e, s)
         | Inr d \<Rightarrow> (let (r, s1) = send_packet w sent d s in (Inr r, s1))))"

definition stdin_message :: "bytes \<Rightarrow> message" where
  "stdin_message data = StreamData (PInt STDIN) (PBytes data) (PBool False)"

definition send_input ::
    "client_lib \<Rightarrow> channel_answer \<Rightarrow> bool \<Rightarrow> bytes \<Rightarrow> client_session \<Rightarrow> bool res \<times> client_session" where
  "send_input w ans sent data s = send_data_message w ans sent (stdin_message data) s"

definition send_resize ::
    "client_lib \<Rightarrow> channel_answer \<Rightarrow> bool \<Rightarrow> int \<Rightarrow> int \<Rightarrow> int \<Rightarrow> int \<Rightarrow> client_session \<Rightarrow> bool res \<times> client_session" where
  "send_resize w ans sent rows cols xpixel ypixel s =
     send_data_message w ans sent (WindowSize (PInt rows) (PInt cols) (PInt xpixel) (PInt ypixel)) s"

text \<open>
  \<^verbatim>\<open>close\<close>: \<open>sent\<close> is the outcome of \<^verbatim>\<open>StyreneProtocol.send\<close>. Only bytes, \<^verbatim>\<open>None\<close> and numbers
  with a fraction (\<^verbatim>\<open>float.hex\<close>) get past the factory's use of the id.
\<close>

definition close_envelope :: "msgpack \<Rightarrow> bytes \<Rightarrow> pyval \<Rightarrow> envelope res" where
  "close_envelope mp rnd sid =
     (case sid of
        PBytes b \<Rightarrow> create_terminal_close mp rnd (Some b) (Some b)
      | PNone \<Rightarrow> create_terminal_close mp rnd None None
      | PFloat q \<Rightarrow>
          if q = 0
          then packed mp rnd TERMINAL_CLOSE (PDict (kv [(''session_id'', PStr ''0x0.0p+0'')])) (Some NO_CORRELATION)
          else Inl TypeError
      | _ \<Rightarrow> Inl AttributeError)"

definition close_session :: "client_lib \<Rightarrow> bytes \<Rightarrow> unit res \<Rightarrow> client_session \<Rightarrow> unit res \<times> client_session" where
  "close_session w rnd sent s =
     (case close_envelope (pack_lib w) rnd (session_id s) of
        Inl e \<Rightarrow> (Inl e, s)
      | Inr env \<Rightarrow>
          (case sent of
             Inl e \<Rightarrow> (Inl e, s)
           | Inr _ \<Rightarrow>
               let s1 = log [SendEnvelope (destination s) env] s;
                   s2 = (if link s1 = None then s1 else log [TeardownLink] s1) in
               (Inr (), s2\<lparr>exited := True\<rparr>)))"

section \<open>Interactive mode\<close>

text \<open>
  \<open>dims\<close> is what \<^verbatim>\<open>os.get_terminal_size()\<close> returns: the columns, then the lines; \<open>None\<close> is an
  \<^verbatim>\<open>OSError\<close>. The code unpacks the pair as rows and columns.
\<close>

definition resize_to_terminal ::
    "client_lib \<Rightarrow> (int \<times> int) option \<Rightarrow> channel_answer \<Rightarrow> bool \<Rightarrow> client_session
      \<Rightarrow> unit res \<times> client_session" where
  "resize_to_terminal w dims ans sent s =
     (case dims of
        None \<Rightarrow> (Inr (), s)
      | Some (rows, cols) \<Rightarrow>
          (case send_resize w ans sent rows cols 0 0 s of
             (Inl e, s1) \<Rightarrow> (if e = OSError then Inr () else Inl e, s1)
           | (Inr _, s1) \<Rightarrow> (Inr (), s1)))"

definition run_interactive_begin ::
    "client_lib \<Rightarrow> bool \<Rightarrow> (int \<times> int) option \<Rightarrow> channel_answer \<Rightarrow> bool \<Rightarrow> client_session
      \<Rightarrow> unit res \<times> client_session" where
  "run_interactive_begin w tty dims ans sent s =
     (if link s = None then (Inl RuntimeError, s)
      else
        let s1 = (if tty then log [SetRaw] (s\<lparr>original_termios := True\<rparr>) else s\<lparr>original_termios := False\<rparr>);
            s2 = log [InstallResize] s1 in
        resize_to_terminal w dims ans sent (s2\<lparr>resize_handler_installed := True\<rparr>))"

definition or_zero :: "pyval \<Rightarrow> pyval" where
  "or_zero v = (if truthy v then v else PInt 0)"

text \<open>A keyboard task that has failed hands its exception on when it is awaited.\<close>

definition run_interactive_end :: "exn option \<Rightarrow> client_session \<Rightarrow> pyval res \<times> client_session" where
  "run_interactive_end task_error s =
     (let s1 = (if original_termios s then log [RestoreTty] s else s);
          s2 = (if resize_handler_installed s1 then log [RestoreResize] s1 else s1) in
      (case task_error of None \<Rightarrow> Inr (or_zero (exit_code s2)) | Some e \<Rightarrow> Inl e, s2))"

text \<open>
  One turn of the keyboard loop; the test is against the literal \<^verbatim>\<open>0x00\<close>. No bytes are the end
  of the input. In channel mode \<open>NotReady\<close> means that the link is found dead before the channel
  is ready. The first result says whether the loop goes on.
\<close>

definition STATUS_LITERAL :: nat where "STATUS_LITERAL = 0"

datatype stdin_read = Typed bytes | StdinBlocked | StdinError

definition stdin_turn ::
    "client_lib \<Rightarrow> stdin_read \<Rightarrow> channel_answer \<Rightarrow> bool \<Rightarrow> client_session \<Rightarrow> bool res \<times> client_session" where
  "stdin_turn w res ans sent s =
     (if link s \<noteq> Some STATUS_LITERAL then (Inr False, s)
      else
        (case res of
           StdinBlocked \<Rightarrow> (Inr True, s)
         | StdinError \<Rightarrow> (Inr False, s)
         | Typed [] \<Rightarrow> (Inr False, s)
         | Typed data \<Rightarrow>
             if channel s then
               (case ans of
                  NotReady \<Rightarrow> (Inr False, s)
                | Taken \<Rightarrow> (Inr True, log [ChannelOut (stdin_message data)] s)
                | SendRaises \<Rightarrow> (Inl OtherError, s))
             else
               (case send_input w ans sent data s of
                  (Inl e, s1) \<Rightarrow> (Inl e, s1)
                | (Inr _, s1) \<Rightarrow> (Inr True, s1))))"

text \<open>
  The loop, with what happens before each turn: the status of the link, the read, the answer
  of the channel, and whether a packet goes out.
\<close>

fun stdin_read_loop ::
    "client_lib \<Rightarrow> (nat \<times> stdin_read \<times> channel_answer \<times> bool) list \<Rightarrow> client_session \<Rightarrow> client_session" where
  "stdin_read_loop w [] s = s"
| "stdin_read_loop w ((st, res, ans, sent) # turns) s =
     (case stdin_turn w res ans sent (s\<lparr>link := map_option (\<lambda>_. st) (link s)\<rparr>) of
        (Inr True, s1) \<Rightarrow> stdin_read_loop w turns s1
      | (_, s1) \<Rightarrow> s1)"

section \<open>The client\<close>

text \<open>What a future gets, and the futures, which the calls name by their number.\<close>

datatype reply = Accepted pyval "string option" pyval | Rejected pyval pyval

datatype reply_future = Awaiting | Answered reply | Dropped

record terminal_client =
  pending_requests :: "(bytes \<times> nat) list"
  replies :: "reply_future list"
  outbox :: "(string \<times> envelope) list"

definition TerminalClient :: terminal_client where
  "TerminalClient = \<lparr>pending_requests = [], replies = [], outbox = []\<rparr>"

datatype client_handler = TerminalAccept | TerminalReject | TerminalClosed

definition register_handlers :: "client_handler handlers \<Rightarrow> client_handler handlers" where
  "register_handlers hs =
     register_handler TERMINAL_CLOSED TerminalClosed
       (register_handler TERMINAL_REJECT TerminalReject
         (register_handler TERMINAL_ACCEPT TerminalAccept hs))"

definition valid_identity_hash :: "pyval \<Rightarrow> string option" where
  "valid_identity_hash v =
     (case v of
        PStr h \<Rightarrow> if py_len h = 64 then (case fromhex h of Inl _ \<Rightarrow> None | Inr _ \<Rightarrow> Some h) else None
      | _ \<Rightarrow> None)"

definition accepted_reply :: "bytes \<Rightarrow> pydict \<Rightarrow> reply res" where
  "accepted_reply rid d =
     (let ih = valid_identity_hash (d_get_or d ''identity_hash'' PNone) in
      bind_res (d_item d ''link_destination'') (\<lambda>ld.
      bind_res (case d_get_or d ''session_id'' PNone of
                  PStr s \<Rightarrow> bind_res (fromhex s) (\<lambda>b. Inr (PBytes b))
                | _ \<Rightarrow> Inr (d_get_or d ''session_id'' (PBytes rid))) (\<lambda>sid.
      Inr (Accepted ld ih sid))))"

text \<open>The part the two handlers share: an answer goes to the future that waits for its id.\<close>

definition answer_request ::
    "msgpack \<Rightarrow> (bytes \<Rightarrow> pydict \<Rightarrow> reply res) \<Rightarrow> envelope \<Rightarrow> terminal_client \<Rightarrow> unit res \<times> terminal_client" where
  "answer_request mp build env c =
     (case request_id env of
        None \<Rightarrow> (Inr (), c)
      | Some rid \<Rightarrow>
          if rid = [] then (Inr (), c)
          else (case map_of (pending_requests c) rid of
                  None \<Rightarrow> (Inr (), c)
                | Some f \<Rightarrow>
                    if replies c ! f \<noteq> Awaiting then (Inr (), c)
                    else
                      (case decode_payload mp (payload env) of
                         Inl e \<Rightarrow> (Inl e, c)
                       | Inr (PDict d) \<Rightarrow>
                           (case build rid d of
                              Inl e \<Rightarrow> (Inl e, c)
                            | Inr r \<Rightarrow> (Inr (), c\<lparr>replies := (replies c)[f := Answered r]\<rparr>))
                       | Inr _ \<Rightarrow> (Inl AttributeError, c))))"

definition handle_terminal_accept :: "msgpack \<Rightarrow> envelope \<Rightarrow> terminal_client \<Rightarrow> unit res \<times> terminal_client" where
  "handle_terminal_accept mp env c = answer_request mp accepted_reply env c"

definition rejected_reply :: "bytes \<Rightarrow> pydict \<Rightarrow> reply res" where
  "rejected_reply rid d =
     Inr (Rejected (d_get_or d ''reason'' (PStr ''Unknown'')) (d_get_or d ''code'' (PInt 1)))"

definition handle_terminal_reject :: "msgpack \<Rightarrow> envelope \<Rightarrow> terminal_client \<Rightarrow> unit res \<times> terminal_client" where
  "handle_terminal_reject mp env c = answer_request mp rejected_reply env c"

definition handle_terminal_closed :: "msgpack \<Rightarrow> envelope \<Rightarrow> terminal_client \<Rightarrow> unit res \<times> terminal_client" where
  "handle_terminal_closed mp env c =
     (case (if payload env = [] then Inr (PDict []) else decode_payload mp (payload env)) of
        Inl e \<Rightarrow> (Inl e, c)
      | Inr (PDict d) \<Rightarrow> (Inr (), c)
      | Inr _ \<Rightarrow> (Inl AttributeError, c))"

text \<open>The handlers as \<^verbatim>\<open>StyreneProtocol\<close> runs them; the LXMF message is not used.\<close>

primrec run_client_handler :: "msgpack \<Rightarrow> (client_handler, terminal_client) run" where
  "run_client_handler mp TerminalAccept = (\<lambda>m env c. handle_terminal_accept mp env c)"
| "run_client_handler mp TerminalReject = (\<lambda>m env c. handle_terminal_reject mp env c)"
| "run_client_handler mp TerminalClosed = (\<lambda>m env c. handle_terminal_closed mp env c)"

section \<open>Asking for a session\<close>

definition int_or :: "int option \<Rightarrow> int \<Rightarrow> int" where
  "int_or x d = (case x of None \<Rightarrow> d | Some i \<Rightarrow> if i = 0 then d else i)"

definition request_size :: "(int \<times> int) option \<Rightarrow> int option \<Rightarrow> int option \<Rightarrow> int \<times> int" where
  "request_size dims rows cols =
     (case (rows, cols) of
        (Some r, Some c) \<Rightarrow> (r, c)
      | _ \<Rightarrow>
          (case dims of
             Some (detected_cols, detected_rows) \<Rightarrow> (int_or rows detected_rows, int_or cols detected_cols)
           | None \<Rightarrow> (int_or rows 24, int_or cols 80)))"

definition pop_request :: "bytes \<Rightarrow> terminal_client \<Rightarrow> terminal_client" where
  "pop_request rid c = c\<lparr>pending_requests := AList.delete rid (pending_requests c)\<rparr>"

text \<open>
  \<^verbatim>\<open>connect\<close> up to the wait for the answer, which is named by the request id and the future;
  \<open>sent\<close> is the outcome of \<^verbatim>\<open>StyreneProtocol.send\<close>.
\<close>

definition client_connect_begin ::
    "msgpack \<Rightarrow> bytes \<Rightarrow> (int \<times> int) option \<Rightarrow> string \<Rightarrow> string \<Rightarrow> int option \<Rightarrow> int option
      \<Rightarrow> string option \<Rightarrow> string option \<Rightarrow> string list option \<Rightarrow> unit res \<Rightarrow> terminal_client
      \<Rightarrow> (bytes \<times> nat) res \<times> terminal_client" where
  "client_connect_begin mp rnd dims dest term_type rows cols shell command argv sent c =
     (let (r, k) = request_size dims rows cols in
      case create_terminal_request mp rnd term_type r k shell command argv None of
        Inl e \<Rightarrow> (Inl e, c)
      | Inr env \<Rightarrow>
          (case request_id env of
             None \<Rightarrow> (Inl ValueError, c)
           | Some rid \<Rightarrow>
               let f = length (replies c);
                   c1 = c\<lparr>pending_requests := AList.update rid f (pending_requests c),
                          replies := replies c @ [Awaiting]\<rparr> in
               (case sent of
                  Inl e \<Rightarrow> (Inl e, pop_request rid c1)
                | Inr _ \<Rightarrow> (Inr (rid, f), c1\<lparr>outbox := outbox c1 @ [(dest, env)]\<rparr>))))"

text \<open>
  The end of that wait: an answer, or the timeout, which cancels the future. The session of an
  accepted request is then connected.
\<close>

definition client_connect_answer ::
    "string \<Rightarrow> bytes \<Rightarrow> nat \<Rightarrow> terminal_client \<Rightarrow> client_session res \<times> terminal_client" where
  "client_connect_answer dest rid f c =
     (case replies c ! f of
        Answered (Accepted ld ih sid) \<Rightarrow> (Inr (TerminalClientSession sid ld dest ih), c)
      | Answered (Rejected _ _) \<Rightarrow> (Inl ConnectionRefusedError, pop_request rid c)
      | _ \<Rightarrow> (Inl TimeoutError, pop_request rid (c\<lparr>replies := (replies c)[f := Dropped]\<rparr>)))"

definition client_connect_end ::
    "bytes \<Rightarrow> bool \<Rightarrow> client_session \<Rightarrow> terminal_client \<Rightarrow> client_session res \<times> terminal_client" where
  "client_connect_end rid linked s c =
     (if \<not> linked then (Inl RuntimeError, pop_request rid c)
      else
        (case session_id s of
           PBytes _ \<Rightarrow> (Inr s, pop_request rid c)
         | PFloat _ \<Rightarrow> (Inr s, pop_request rid c)
         | _ \<Rightarrow> (Inl AttributeError, pop_request rid c)))"

section \<open>Running one command\<close>

definition run_command_begin :: "bool \<Rightarrow> client_session \<Rightarrow> client_session" where
  "run_command_begin capture_output s = s\<lparr>on_output := (if capture_output then Capture else Echo)\<rparr>"

definition run_command_end :: "client_session \<Rightarrow> pyval \<times> bytes option" where
  "run_command_end s = (or_zero (exit_code s), if captured s = [] then None else Some (captured s))"

text \<open>What can happen to the session while the command runs.\<close>

datatype session_event =
    PacketIn bool bytes
  | ChannelIn message
  | LinkClosed
  | LinkStatus nat

primrec on_event :: "client_lib \<Rightarrow> session_event \<Rightarrow> client_session \<Rightarrow> client_session" where
  "on_event w (PacketIn chan_ok data) = on_link_packet w chan_ok data"
| "on_event w (ChannelIn m) = (\<lambda>s. snd (on_channel_message m s))"
| "on_event w LinkClosed = on_link_closed"
| "on_event w (LinkStatus st) = (\<lambda>s. s\<lparr>link := map_option (\<lambda>_. st) (link s)\<rparr>)"

section \<open>What the events leave behind\<close>

definition received :: "client_lib \<Rightarrow> session_event \<Rightarrow> message option" where
  "received w e =
     (case e of
        PacketIn _ data \<Rightarrow> (case deserialize_message (pack_lib w) data of Inl _ \<Rightarrow> None | Inr m \<Rightarrow> Some m)
      | ChannelIn m \<Rightarrow> Some m
      | _ \<Rightarrow> None)"

definition exit_code_in :: "client_lib \<Rightarrow> session_event \<Rightarrow> pyval option" where
  "exit_code_in w e = (case received w e of Some (CommandExited rc _) \<Rightarrow> Some rc | _ \<Rightarrow> None)"

definition output_in :: "client_lib \<Rightarrow> session_event \<Rightarrow> bytes" where
  "output_in w e =
     (case received w e of
        Some (StreamData st d eof) \<Rightarrow>
          if eq_int st STDOUT \<or> eq_int st STDERR then (case bytes_of d of None \<Rightarrow> [] | Some b \<Rightarrow> b) else []
      | _ \<Rightarrow> [])"

definition fatal_in :: "client_lib \<Rightarrow> session_event \<Rightarrow> bool" where
  "fatal_in w e \<longleftrightarrow> (case received w e of Some (Error _ _ fatal) \<Rightarrow> truthy fatal | _ \<Rightarrow> False)"

definition exit_codes :: "client_lib \<Rightarrow> session_event list \<Rightarrow> pyval list" where
  "exit_codes w evs = List.map_filter (exit_code_in w) evs"

abbreviation ends_session :: "client_lib \<Rightarrow> session_event \<Rightarrow> bool" where
  "ends_session w e \<equiv> exit_code_in w e \<noteq> None \<or> fatal_in w e \<or> e = LinkClosed"

lemmas event_views = received_def exit_code_in_def output_in_def fatal_in_def

lemma log_views [simp]:
  "exit_code (log es s) = exit_code s" "exited (log es s) = exited s" "captured (log es s) = captured s"
  "on_output (log es s) = on_output s" "link (log es s) = link s" "link_destination (log es s) = link_destination s" "channel (log es s) = channel s"
  "original_termios (log es s) = original_termios s" "session_id (log es s) = session_id s"
  "resize_handler_installed (log es s) = resize_handler_installed s" "trace (log es s) = trace s @ es"
  by (simp_all add: log_def)

lemma handler_on_output:
  "on_output (deliver_output m s) = on_output s"
  "on_output (command_exited rc s) = on_output s"
  "on_output (server_error msg fatal s) = on_output s"
  "on_output (server_version chan_ok v software s) = on_output s"
  "on_output (on_link_closed s) = on_output s"
  by (simp_all add: deliver_output_def command_exited_def server_error_def server_version_def on_link_closed_def
      Let_def split: sink.split option.split pyval.split)

lemma handler_exit:
  "exit_code (deliver_output m s) = exit_code s \<and> exited (deliver_output m s) = exited s"
  "exit_code (command_exited rc s) = rc \<and> exited (command_exited rc s)"
  "exit_code (server_error msg fatal s) = exit_code s \<and> exited (server_error msg fatal s) = (exited s \<or> truthy fatal)"
  "exit_code (server_version chan_ok v software s) = exit_code s \<and> exited (server_version chan_ok v software s) = exited s"
  "exit_code (on_link_closed s) = (if exit_code s = PNone then PInt (- 1) else exit_code s) \<and> exited (on_link_closed s)"
  by (simp_all add: deliver_output_def command_exited_def server_error_def server_version_def on_link_closed_def
      Let_def split: sink.split option.split pyval.split)

lemma handler_captured:
  "captured (command_exited rc s) = captured s"
  "captured (server_error msg fatal s) = captured s"
  "captured (server_version chan_ok v software s) = captured s"
  "captured (on_link_closed s) = captured s"
  "on_output s = Capture \<Longrightarrow> captured (deliver_output m s) =
     captured s @ (if is_stdout m \<or> is_stderr m then (case bytes_of (sd_data m) of None \<Rightarrow> [] | Some b \<Rightarrow> b) else [])"
  by (simp_all add: deliver_output_def command_exited_def server_error_def server_version_def on_link_closed_def
      Let_def split: option.split pyval.split)

lemmas handler_views = handler_on_output handler_exit handler_captured

lemma message_event:
  fixes m :: message
  assumes "received w e = Some m"
  shows "(on_output s = Capture \<longrightarrow> captured (on_event w e s) = captured s @ output_in w e) \<and>
    on_output (on_event w e s) = on_output s \<and>
    exit_code (on_event w e s) = (case exit_code_in w e of Some rc \<Rightarrow> rc | None \<Rightarrow> exit_code s) \<and>
    exited (on_event w e s) = (exited s \<or> exit_code_in w e \<noteq> None \<or> fatal_in w e) \<and> e \<noteq> LinkClosed"
  using assms
  by (cases e; cases m)
    (auto simp: event_views on_link_packet_def on_channel_message_def handler_views is_stdout_def is_stderr_def
      split: sum.splits)

lemma silent_event:
  assumes "received w e = None" and "e \<noteq> LinkClosed"
  shows "captured (on_event w e s) = captured s \<and> on_output (on_event w e s) = on_output s \<and>
    exit_code (on_event w e s) = exit_code s \<and> exited (on_event w e s) = exited s \<and>
    exit_code_in w e = None \<and> output_in w e = [] \<and> \<not> fatal_in w e"
  using assms by (cases e) (auto simp: event_views on_link_packet_def split: sum.splits)

lemma closed_event: "exit_code_in w LinkClosed = None \<and> output_in w LinkClosed = [] \<and> \<not> fatal_in w LinkClosed"
  by (simp add: event_views)

lemma event_effect:
  assumes "on_output s = Capture"
  shows "captured (on_event w e s) = captured s @ output_in w e"
    and "on_output (on_event w e s) = Capture"
    and "exited (on_event w e s) = (exited s \<or> ends_session w e)"
    and "exit_code (on_event w e s) =
      (case exit_code_in w e of Some rc \<Rightarrow> rc
       | None \<Rightarrow> if e = LinkClosed \<and> exit_code s = PNone then PInt (- 1) else exit_code s)"
  using assms closed_event [of w] message_event [of w e _ s] silent_event [of w e s]
  by (cases "received w e"; cases "e = LinkClosed"; auto simp: handler_views split: option.splits)+

lemma exit_codes_Cons:
  "exit_codes w (e # evs) = (case exit_code_in w e of Some rc \<Rightarrow> rc # exit_codes w evs | None \<Rightarrow> exit_codes w evs)"
  by (simp add: exit_codes_def split: option.split)

lemma events_effect:
  assumes "on_output s = Capture" and "PNone \<notin> set (exit_codes w evs)"
  shows "captured (fold (on_event w) evs s) = captured s @ concat (map (output_in w) evs) \<and>
    exited (fold (on_event w) evs s) = (exited s \<or> list_ex (ends_session w) evs) \<and>
    exit_code (fold (on_event w) evs s) =
      (if exit_codes w evs \<noteq> [] then last (exit_codes w evs)
       else if LinkClosed \<in> set evs \<and> exit_code s = PNone then PInt (- 1) else exit_code s)"
  using assms
proof (induction evs arbitrary: s)
  case (Cons e evs)
  have "PNone \<notin> set (exit_codes w evs)" using Cons.prems(2) by (auto simp: exit_codes_Cons split: option.splits)
  note IH = Cons.IH [OF event_effect(2) [OF Cons.prems(1)] this, of w e]
  show ?case
    using IH event_effect [OF Cons.prems(1), of w e] Cons.prems(2)
    by (auto simp: exit_codes_Cons split: option.splits)
qed (simp add: exit_codes_def)

section \<open>Properties\<close>

text \<open>
  Claim C18. What \<^verbatim>\<open>run_command\<close> returns after any sequence of packets, channel messages and link
  events: the output is exactly the data of the standard output and error messages, in order;
  the wait ends exactly with an exit message, a fatal error or the closing of the link; the code
  is that of the last exit message, else -1 if the link was closed, and else 0. So a session
  that ends with a fatal error of the server reports success.
\<close>

theorem command_outcome:
  assumes "exit_code s = PNone" and "captured s = []" and "\<not> exited s" and "PNone \<notin> set (exit_codes w evs)"
    and "s' = fold (on_event w) evs (run_command_begin True s)"
  shows "exited s' = list_ex (ends_session w) evs \<and>
    run_command_end s' =
      (if exit_codes w evs \<noteq> [] then or_zero (last (exit_codes w evs))
       else if LinkClosed \<in> set evs then PInt (- 1) else PInt 0,
       let out = concat (map (output_in w) evs) in if out = [] then None else Some out)"
  using events_effect [of "run_command_begin True s" w evs] assms
  by (simp add: run_command_begin_def run_command_end_def or_zero_def Let_def)

definition demo_session :: client_session where
  "demo_session = TerminalClientSession (PBytes (replicate 16 7)) (PStr (hex_of [1])) ''dest'' None"

definition demo_lib :: "pyval \<Rightarrow> client_lib" where
  "demo_lib v = \<lparr>pack_lib = \<lparr>packb = (\<lambda>_. Inr [1]), unpackb_strict = (\<lambda>_. Inr v), unpackb_text = (\<lambda>_. Inr v),
     unpackb_raw = (\<lambda>_. Inr v)\<rparr>, LINK_ACTIVE = 2\<rparr>"

definition demo_events :: "session_event list" where
  "demo_events =
     [ChannelIn (StreamData (PInt 1) (PBytes [104]) (PBool False)),
      ChannelIn (StreamData (PInt 2) (PBytes [105]) (PBool False)),
      ChannelIn (Error (PStr ''no pty'') (PInt 1) (PBool True))]"

theorem command_outcome_witness:
  "exited (fold (on_event (demo_lib PNone)) demo_events (run_command_begin True demo_session)) \<and>
   run_command_end (fold (on_event (demo_lib PNone)) demo_events (run_command_begin True demo_session)) = (PInt 0, Some [104, 105])"
proof -
  have "PNone \<notin> set (exit_codes (demo_lib PNone) demo_events)"
    by (simp add: exit_codes_def demo_events_def event_views)
  from command_outcome [OF _ _ _ this refl, of demo_session]
  show ?thesis
    by (simp add: demo_session_def TerminalClientSession_def exit_codes_def demo_events_def event_views
        eq_int_def bytes_of_def STDOUT_def STDERR_def)
qed

lemma keyboard_stops:
  assumes "link s = None \<or> st \<noteq> STATUS_LITERAL"
  shows "stdin_read_loop w ((st, res, ans, sent) # turns) s = s\<lparr>link := map_option (\<lambda>_. st) (link s)\<rparr>"
  using assms by (cases "link s") (simp_all add: stdin_turn_def)

lemma raw_turn:
  assumes "\<not> channel s" and "LINK_ACTIVE w \<noteq> STATUS_LITERAL"
  shows "snd (stdin_turn w res ans sent s) = s"
  using assms
  by (auto simp: stdin_turn_def send_input_def send_data_message_def send_packet_def
      split: stdin_read.split list.split sum.split)

lemma raw_loop:
  assumes "\<not> channel s" and "LINK_ACTIVE w \<noteq> STATUS_LITERAL"
  shows "trace (stdin_read_loop w turns s) = trace s"
  using assms
proof (induction turns arbitrary: s)
  case (Cons t turns)
  obtain st res ans sent where t: "t = (st, res, ans, sent)" by (cases t)
  let ?s = "s\<lparr>link := map_option (\<lambda>_. st) (link s)\<rparr>"
  have "snd (stdin_turn w res ans sent ?s) = ?s" using Cons.prems by (intro raw_turn) simp_all
  then obtain r where "stdin_turn w res ans sent ?s = (r, ?s)" by (metis prod.collapse)
  then show ?case using Cons.IH [of ?s] Cons.prems by (simp add: t split: sum.split bool.split)
qed simp

text \<open>
  The keyboard loop runs while the status of the link is the literal 0, which is not
  the code of an active link: over raw packets no key that is typed is ever sent, whatever the
  link does, and over a channel none is sent once the link is active.
\<close>

theorem keystrokes_are_not_sent:
  assumes "LINK_ACTIVE w \<noteq> STATUS_LITERAL"
  shows "trace (if channel s then stdin_read_loop w ((LINK_ACTIVE w, res, ans, sent) # turns) s
                else stdin_read_loop w turns s) = trace s"
  using assms raw_loop [of s w turns] keyboard_stops [of s "LINK_ACTIVE w"] by simp

theorem keystrokes_are_not_sent_witness:
  "trace (stdin_read_loop (demo_lib PNone) [(2, Typed [120], Taken, True)] (demo_session\<lparr>link := Some 2\<rparr>)) = []"
  using keystrokes_are_not_sent [of "demo_lib PNone" "demo_session\<lparr>link := Some 2\<rparr>" StdinError Taken True
      "[(2, Typed [120], Taken, True)]"]
  by (simp add: demo_lib_def demo_session_def TerminalClientSession_def STATUS_LITERAL_def)

text \<open>
  The request carries the size of the terminal, the interactive mode then sends it transposed.
\<close>

lemma interactive_size_transposed:
  assumes "cols \<noteq> 0" and "lines \<noteq> 0" and "link s \<noteq> None" and "channel s"
  shows "request_size (Some (cols, lines)) None None = (lines, cols) \<and>
    last (trace (snd (run_interactive_begin w tty (Some (cols, lines)) Taken sent s))) =
      ChannelOut (WindowSize (PInt cols) (PInt lines) (PInt 0) (PInt 0))"
  using assms
  by (cases "link s") (simp_all add: request_size_def int_or_def run_interactive_begin_def resize_to_terminal_def send_resize_def
      send_data_message_def Let_def)

lemma poll_identity_result:
  "poll_identity seen k n = (case find (\<lambda>j. seen j \<noteq> None) [k..<k + n] of
     Some j \<Rightarrow> (seen j, j) | None \<Rightarrow> (None, k + n))"
  by (induction n arbitrary: k) (auto simp: upt_conv_Cons simp del: upt_Suc split: option.split)

text \<open>
  Looking for the server's identity ends: at a tenth of a second for every sleep, the
  loop takes no longer than the timeout whatever the network answers, and it goes on with the
  connection exactly if the network learns the identity within its turns, at the first of them.
\<close>

theorem identity_search_ends:
  assumes "identity_hash s = None" and "link_destination s = PStr d" and "fromhex d = Inr b"
  shows "fst (connect_begin by_identity seen timeout (Inr st) s) =
      (case find (\<lambda>j. seen j \<noteq> None) [0..<poll_turns timeout] of
         Some j \<Rightarrow> (None, j) | None \<Rightarrow> (Some False, poll_turns timeout)) \<and>
    of_nat (snd (fst (connect_begin by_identity seen timeout (Inr st) s))) * (1 / 10) \<le> max 0 timeout"
proof -
  have res: "fst (connect_begin by_identity seen timeout (Inr st) s) =
      (case find (\<lambda>j. seen j \<noteq> None) [0..<poll_turns timeout] of
         Some j \<Rightarrow> (None, j) | None \<Rightarrow> (Some False, poll_turns timeout))"
  proof (cases "find (\<lambda>j. seen j \<noteq> None) [0..<poll_turns timeout]")
    case None
    then show ?thesis
      using assms poll_identity_result [of seen 0 "poll_turns timeout"]
      by (simp add: connect_begin_def resolve_server_def has_slices_def)
  next
    case (Some j)
    then obtain i where "seen j = Some i" by (auto simp: find_Some_iff)
    with Some show ?thesis
      using assms poll_identity_result [of seen 0 "poll_turns timeout"]
      by (simp add: connect_begin_def resolve_server_def has_slices_def)
  qed
  have "snd (fst (connect_begin by_identity seen timeout (Inr st) s)) \<le> poll_turns timeout"
    unfolding res by (auto simp: find_Some_iff split: option.split)
  then have "rat_of_nat (snd (fst (connect_begin by_identity seen timeout (Inr st) s))) \<le> rat_of_nat (poll_turns timeout)"
    by simp
  also have "\<dots> \<le> max 0 (timeout * 10)"
    unfolding poll_turns_def by (cases "0 \<le> timeout * 10") (simp_all add: max_def)
  finally show ?thesis using res by (simp add: max_def split: if_splits)
qed

theorem identity_search_ends_witness:
  "fst (connect_begin (\<lambda>_. None) (\<lambda>j. if 3 \<le> j then Some () else None) 1 (Inr 0) demo_session) = (None, 3)"
proof -
  have "fromhex (hex_of [1]) = Inr [1]" by (rule fromhex_hex_of)
  then show ?thesis
    using identity_search_ends [of demo_session "hex_of [1]" "[1]" "\<lambda>_. None" "\<lambda>j. if 3 \<le> j then Some () else None" 1 0]
    by (simp add: demo_session_def TerminalClientSession_def poll_turns_def upt_rec)
qed

lemma length_hex_of: "length (hex_of h) = 2 * length h"
  by (induction h) (simp_all add: hex_of_Cons)

lemma short_hash_invalid: "length h < 32 \<Longrightarrow> valid_identity_hash (PStr (hex_of h)) = None"
proof -
  have "py_len (hex_of h) \<le> 2 * length h" by (metis py_len_def length_filter_le length_hex_of)
  then show "length h < 32 \<Longrightarrow> ?thesis" by (simp add: valid_identity_hash_def)
qed

lemma accept_envelope:
  assumes "packs mp (PDict (kv [(''link_destination'', PStr ld), (''session_id'', PStr (hex_of rid)), (''identity_hash'', PStr ih)]))"
    and "length rid = REQUEST_ID_LENGTH" and "create_terminal_accept mp rnd ld (Some rid) (Some rid) (Some ih) = Inr env"
    and "encode env = Inr data"
  shows "decode rnd' data = Inr env \<and> mtype env = TERMINAL_ACCEPT \<and> request_id env = Some rid \<and>
    decode_payload mp (payload env) =
      Inr (PDict (kv [(''link_destination'', PStr ld), (''session_id'', PStr (hex_of rid)), (''identity_hash'', PStr ih)]))"
proof -
  let ?v = "PDict (kv [(''link_destination'', PStr ld), (''session_id'', PStr (hex_of rid)), (''identity_hash'', PStr ih)])"
  have rid: "rid \<noteq> []" using assms(2) by (auto simp: REQUEST_ID_LENGTH_def)
  obtain p where p: "packb mp ?v = Inr p" "length p \<le> MAX_PAYLOAD_SIZE" "unpackb_strict mp p = Inr ?v"
    using assms(1) by (auto simp: packs_def split: sum.splits)
  have "StyreneEnvelope rnd STYRENE_VERSION TERMINAL_ACCEPT p (Some rid) = Inr env"
    using assms(3) p(1) rid
    by (simp add: create_terminal_accept_def opt_entry_def packed_def encode_payload_def or_no_correlation_def)
  then have env: "env = \<lparr>version = STYRENE_VERSION_2, mtype = TERMINAL_ACCEPT, payload = p, request_id = Some rid\<rparr>"
    by (auto simp: StyreneEnvelope_def STYRENE_VERSION_def split: if_splits)
  then have "wf_envelope env" using p(2) assms(2) by (simp add: wf_envelope_def)
  from wire.dec_enc [OF this assms(4)] env p show ?thesis by (simp add: decode_payload_def)
qed

text \<open>
  The server's acceptance of a request, carried as an LXMF message through the
  Styrene protocol, gives the caller a session with its id and the destination of the link.
  The identity hash in it is lost on the way: the client expects 64 digits, the hash of a
  Reticulum identity has 32.
\<close>

theorem acceptance_reaches_the_caller:
  assumes "client_connect_begin mp rid dims dest term_type rows cols shell cmd argv (Inr ()) c = (Inr (rid', f), c1)"
    and "length rid = REQUEST_ID_LENGTH" and "length h = 16"
    and "packs mp (PDict (kv [(''link_destination'', PStr ld), (''session_id'', PStr (hex_of rid)), (''identity_hash'', PStr (hex_of h))]))"
    and "create_terminal_accept mp rnd ld (Some rid') (Some rid') (Some (hex_of h)) = Inr env" and "encode env = Inr data"
    and "map_of (msg_fields m) (PInt FIELD_CUSTOM_DATA) = Some (PBytes data)"
    and "styrene_handle_message mp rnd' (run_client_handler mp) (register_handlers Map.empty) commit m db c1 = (r, db', c2)"
  shows "r = (case commit of None \<Rightarrow> Inr () | Some e \<Rightarrow> Inl e) \<and>
    client_connect_answer dest rid' f c2 = (Inr (TerminalClientSession (PBytes rid') (PStr ld) dest None), c2)"
proof -
  obtain nrows ncols where "request_size dims rows cols = (nrows, ncols)" by fastforce
  with assms(1) obtain q where q: "create_terminal_request mp rid term_type nrows ncols shell cmd argv None = Inr q"
    by (auto simp: client_connect_begin_def split: sum.splits)
  have "stamped TERMINAL_REQUEST (or_fresh rid None) (Inr q)"
    using request_factories_stamped(9) [of rid None mp] by (metis q)
  then have "request_id q = Some rid" by (simp add: stamped_def or_fresh_def)
  with assms(1) q have rid: "rid' = rid" "f = length (replies c)" "replies c1 = replies c @ [Awaiting]"
      "map_of (pending_requests c1) rid = Some f"
    using \<open>request_size dims rows cols = (nrows, ncols)\<close>
    by (auto simp: client_connect_begin_def Let_def update_conv')
  have acc: "decode rnd' data = Inr env" "mtype env = TERMINAL_ACCEPT" "request_id env = Some rid"
    "decode_payload mp (payload env) = Inr (PDict (kv [(''link_destination'', PStr ld),
       (''session_id'', PStr (hex_of rid)), (''identity_hash'', PStr (hex_of h))]))"
    using accept_envelope [OF assms(4,2) assms(5) [unfolded rid(1)] assms(6)] by blast+
  have hs: "register_handlers Map.empty TERMINAL_ACCEPT = Some [TerminalAccept]"
    by (simp add: register_handlers_def register_handler_def)
  have ne: "rid \<noteq> []" using assms(2) by (auto simp: REQUEST_ID_LENGTH_def)
  have "handle_terminal_accept mp env c1 =
    (Inr (), c1\<lparr>replies := replies c @ [Answered (Accepted (PStr ld) None (PBytes rid))]\<rparr>)"
    using acc rid ne short_hash_invalid [of h] assms(3)
    by (simp add: handle_terminal_accept_def answer_request_def accepted_reply_def Let_def d_get_or_def d_item_def)
  then have "(r, db', c2) = (case commit of None \<Rightarrow> Inr () | Some e \<Rightarrow> Inl e,
      case commit of None \<Rightarrow> db @ [styrene_row m env] | Some e \<Rightarrow> db,
      c1\<lparr>replies := replies c @ [Answered (Accepted (PStr ld) None (PBytes rid))]\<rparr>)"
    using assms(8) acc hs
    by (simp add: styrene_handle_message_def assms(7) decode_field_def dispatch_message_def internal_types_def
        persist_message_def add_row_def split: option.splits)
  then show ?thesis using rid by (simp add: client_connect_answer_def)
qed

definition demo_accept :: pyval where
  "demo_accept = PDict (kv [(''link_destination'', PStr (hex_of [1])), (''session_id'', PStr (hex_of (replicate 16 7))),
     (''identity_hash'', PStr (hex_of (replicate 16 9)))])"

definition demo_mail :: "bytes \<Rightarrow> lxmf_message" where
  "demo_mail data = \<lparr>source_hash = ''srv'', destination_hash = ''me'', timestamp = 0, content = None,
     msg_fields = [(PInt FIELD_CUSTOM_DATA, PBytes data)]\<rparr>"

theorem acceptance_reaches_the_caller_witness:
  "let mp = pack_lib (demo_lib demo_accept) in
   case client_connect_begin mp (replicate 16 7) None ''srv'' ''xterm'' None None None None None (Inr ()) TerminalClient of
     (Inl _, _) \<Rightarrow> False
   | (Inr (rid, f), c1) \<Rightarrow>
       (case bind_res (create_terminal_accept mp [] (hex_of [1]) (Some rid) (Some rid) (Some (hex_of (replicate 16 9)))) encode of
          Inl _ \<Rightarrow> False
        | Inr data \<Rightarrow>
            (case styrene_handle_message mp [] (run_client_handler mp) (register_handlers Map.empty) None (demo_mail data) [] c1 of
               (r, db, c2) \<Rightarrow> r = Inr () \<and> client_connect_answer ''srv'' rid f c2 =
                 (Inr (TerminalClientSession (PBytes rid) (PStr (hex_of [1])) ''srv'' None), c2)))"
proof -
  let ?mp = "pack_lib (demo_lib demo_accept)" and ?rid = "replicate 16 7 :: bytes"
  have packs: "packs ?mp (PDict (kv [(''link_destination'', PStr (hex_of [1])), (''session_id'', PStr (hex_of ?rid)),
      (''identity_hash'', PStr (hex_of (replicate 16 9)))]))"
    by (simp add: packs_def demo_lib_def demo_accept_def MAX_PAYLOAD_SIZE_def)
  obtain rid f c1 where started: "client_connect_begin ?mp ?rid None ''srv'' ''xterm'' None None None None None (Inr ()) TerminalClient =
      (Inr (rid, f), c1)" and rid: "rid = ?rid"
    by (simp add: client_connect_begin_def request_size_def int_or_def create_terminal_request_def packed_def
        encode_payload_def demo_lib_def StyreneEnvelope_def wire_consts Let_def)
  obtain env data where env: "create_terminal_accept ?mp [] (hex_of [1]) (Some rid) (Some rid) (Some (hex_of (replicate 16 9))) = Inr env"
      "encode env = Inr data"
    by (simp add: rid create_terminal_accept_def packed_def encode_payload_def demo_lib_def StyreneEnvelope_def
        wire_consts or_no_correlation_def encode_def byte_of_int_def Let_def)
  obtain r db c2 where out: "styrene_handle_message ?mp [] (run_client_handler ?mp) (register_handlers Map.empty)
      None (demo_mail data) [] c1 = (r, db, c2)" by (metis prod_cases3)
  have "map_of (msg_fields (demo_mail data)) (PInt FIELD_CUSTOM_DATA) = Some (PBytes data)"
    by (simp add: demo_mail_def)
  from acceptance_reaches_the_caller [OF started _ _ packs env this out]
  show ?thesis by (simp add: started env out REQUEST_ID_LENGTH_def)
qed
end
