(* ===== verification/Hub_Connection.thy ===== *)
theory Hub_Connection
  imports Rns_Limits Node_Store
begin

text \<open>
  The connection to a hub (\<^verbatim>\<open>src/styrened/services/hub_connection.py\<close>) and the panel of the
  terminal UI that shows it and retries it (\<^verbatim>\<open>src/styrened/tui/widgets/reticulum_panel.py\<close>). The
  time, the answers of \<^verbatim>\<open>RNS.Transport.has_path\<close> and whether Reticulum is initialized are
  arguments; the state holds the path-request limiter and the node store that the connection
  uses, and a log of the path checks made.
\<close>

section \<open>State\<close>

definition PATH_CHECK_INTERVAL :: rat where "PATH_CHECK_INTERVAL = 30"

definition STYRENE_HUB_ADDRESS :: string where
  "STYRENE_HUB_ADDRESS = ''6fc8bf22aa293588c9bf8d7488102e95''"

datatype hub_status = DISABLED | WAITING | CONNECTED | DISCONNECTED

record hub_connection =
  connected :: bool
  hub_address :: "string option"
  hub_configured :: bool
  waiting_since :: "rat option"
  announce_interval :: int
  last_path_check :: rat
  limits :: path_log
  store :: node_store
  path_checks :: "(bytes \<times> rat \<times> bool) list"
  path_requests :: "bytes list"

definition HubConnection :: "path_log \<Rightarrow> node_store \<Rightarrow> hub_connection" where
  "HubConnection lg st =
     \<lparr>connected = False, hub_address = None, hub_configured = False, waiting_since = None,
      announce_interval = 3600, last_path_check = 0, limits = lg, store = st, path_checks = [],
      path_requests = []\<rparr>"

section \<open>Operations\<close>

text \<open>The part that \<^verbatim>\<open>is_connected\<close> and \<^verbatim>\<open>force_path_check\<close> share.\<close>

definition check_path :: "rat \<Rightarrow> (bytes \<Rightarrow> bool) \<Rightarrow> string \<Rightarrow> hub_connection \<Rightarrow> bool \<times> hub_connection" where
  "check_path now path addr s =
     (case fromhex addr of
        Inl _ \<Rightarrow> (False, s\<lparr>connected := False\<rparr>)
      | Inr h \<Rightarrow>
          let s1 = s\<lparr>path_checks := path_checks s @ [(h, now, path h)]\<rparr> in
          if \<not> path h then (False, s1\<lparr>connected := False\<rparr>) else (True, s1\<lparr>last_path_check := now\<rparr>))"

definition is_connected :: "rat \<Rightarrow> (bytes \<Rightarrow> bool) \<Rightarrow> hub_connection \<Rightarrow> bool \<times> hub_connection" where
  "is_connected now path s =
     (if \<not> connected s then (False, s)
      else case hub_address s of
        None \<Rightarrow> (False, s)
      | Some addr \<Rightarrow>
          if PATH_CHECK_INTERVAL < now - last_path_check s then check_path now path addr s else (True, s))"

definition force_path_check :: "rat \<Rightarrow> (bytes \<Rightarrow> bool) \<Rightarrow> hub_connection \<Rightarrow> bool \<times> hub_connection" where
  "force_path_check now path s =
     (if \<not> connected s then (False, s)
      else case hub_address s of None \<Rightarrow> (False, s) | Some addr \<Rightarrow> check_path now path addr s)"

definition set_configured :: "bool \<Rightarrow> hub_connection \<Rightarrow> hub_connection" where
  "set_configured b s = s\<lparr>hub_configured := b\<rparr>"

definition set_announce_interval :: "int \<Rightarrow> hub_connection \<Rightarrow> hub_connection" where
  "set_announce_interval i s = s\<lparr>announce_interval := i\<rparr>"

definition has_address :: "hub_connection \<Rightarrow> bool" where
  "has_address s \<longleftrightarrow> hub_address s \<noteq> None \<and> hub_address s \<noteq> Some []"

definition start_waiting :: "rat \<Rightarrow> hub_connection \<Rightarrow> hub_connection" where
  "start_waiting now s = (if \<not> connected s \<and> has_address s then s\<lparr>waiting_since := Some now\<rparr> else s)"

definition is_within_announce_window :: "rat \<Rightarrow> hub_connection \<Rightarrow> bool" where
  "is_within_announce_window now s \<longleftrightarrow>
     (case waiting_since s of None \<Rightarrow> True | Some t \<Rightarrow> now - t < of_int (announce_interval s))"

definition status :: "rat \<Rightarrow> (bytes \<Rightarrow> bool) \<Rightarrow> hub_connection \<Rightarrow> hub_status \<times> hub_connection" where
  "status now path s =
     (let (up, s1) = is_connected now path s in
      (if up then CONNECTED
       else if has_address s1 then (if is_within_announce_window now s1 then WAITING else DISCONNECTED)
       else if hub_configured s1 then WAITING else DISABLED, s1))"

definition hub_device :: "rat \<Rightarrow> string \<Rightarrow> mesh_device" where
  "hub_device now addr =
     \<lparr>destination_hash = addr, identity_hash = addr, dev_name = ''Styrene Hub'', device_type = HUB,
      last_announce = \<lfloor>now\<rfloor>, announce_count = 1, app_data_raw = None, capabilities = None,
      dev_version = None, lxmf_destination_hash = None, short_name = None, system_fingerprint = None,
      nomadnet_destination_hash = None, discovered_via = None, hops = None, ygg_address = None,
      b32_address = None, web_url = None\<rparr>"

definition connect :: "rat \<Rightarrow> bool \<Rightarrow> (bytes \<Rightarrow> bool) \<Rightarrow> string \<Rightarrow> hub_connection \<Rightarrow> bool \<times> hub_connection" where
  "connect now rns_ready path addr s =
     (if \<not> rns_ready then (False, s)
      else if addr = [] \<or> py_len addr \<noteq> 32 then (False, s)
      else case fromhex addr of
        Inl _ \<Rightarrow> (False, s)
      | Inr h \<Rightarrow>
          let s1 = s\<lparr>path_checks := path_checks s @ [(h, now, path h)]\<rparr> in
          if \<not> path h then
            (let (asked, lg, sent) = request_path_once now h (limits s1) in
             (False, start_waiting now
                (s1\<lparr>limits := lg, path_requests := path_requests s1 @ sent, hub_address := Some addr,
                    connected := False\<rparr>)))
          else
            (True, s1\<lparr>hub_address := Some addr, connected := True, waiting_since := None,
                      store := save_node \<lfloor>now\<rfloor> (hub_device now addr) (store s1)\<rparr>))"

definition disconnect :: "hub_connection \<Rightarrow> hub_connection" where
  "disconnect s = s\<lparr>hub_address := None, connected := False, waiting_since := None\<rparr>"

definition retry_connection :: "rat \<Rightarrow> bool \<Rightarrow> (bytes \<Rightarrow> bool) \<Rightarrow> hub_connection \<Rightarrow> bool \<times> hub_connection" where
  "retry_connection now rns_ready path s =
     (case hub_address s of
        None \<Rightarrow> (False, s)
      | Some addr \<Rightarrow>
          if addr = [] then (False, s)
          else if connected s then (True, s)
          else connect now rns_ready path addr s)"

text \<open>
  The hub part of \<^verbatim>\<open>_load_reticulum_data\<close>, with the hub section of the configuration: whether it is
  enabled, the address, and the announce interval.
\<close>

definition panel_refresh ::
    "rat \<Rightarrow> bool \<Rightarrow> (bytes \<Rightarrow> bool) \<Rightarrow> bool \<Rightarrow> string option \<Rightarrow> int \<Rightarrow> hub_connection
      \<Rightarrow> hub_status \<times> hub_connection" where
  "panel_refresh now rns_ready path enabled cfg_address interval s =
     (let s1 = set_announce_interval interval s;
          s2 = (if enabled \<and> cfg_address \<noteq> None \<and> cfg_address \<noteq> Some []
                then (let (up, s2) = is_connected now path s1 in
                      if up then s2 else snd (retry_connection now rns_ready path s2))
                else s1) in
      status now path s2)"

section \<open>Steps\<close>

text \<open>A hub connection with the time of its last operation; time does not go back.\<close>

inductive hub_step :: "rat \<times> hub_connection \<Rightarrow> rat \<times> hub_connection \<Rightarrow> bool" where
  hs_connect: "t \<le> now \<Longrightarrow> hub_step (t, s) (now, snd (connect now ready path addr s))"
| hs_retry: "t \<le> now \<Longrightarrow> hub_step (t, s) (now, snd (retry_connection now ready path s))"
| hs_disconnect: "t \<le> now \<Longrightarrow> hub_step (t, s) (now, disconnect s)"
| hs_is_connected: "t \<le> now \<Longrightarrow> hub_step (t, s) (now, snd (is_connected now path s))"
| hs_force: "t \<le> now \<Longrightarrow> hub_step (t, s) (now, snd (force_path_check now path s))"
| hs_status: "t \<le> now \<Longrightarrow> hub_step (t, s) (now, snd (status now path s))"
| hs_configured: "t \<le> now \<Longrightarrow> hub_step (t, s) (now, set_configured b s)"
| hs_interval: "t \<le> now \<Longrightarrow> hub_step (t, s) (now, set_announce_interval i s)"
| hs_waiting: "t \<le> now \<Longrightarrow> hub_step (t, s) (now, start_waiting now s)"
| hs_panel: "t \<le> now \<Longrightarrow> hub_step (t, s) (now, snd (panel_refresh now ready path enabled cfg interval s))"

text \<open>
  \<open>checked\<close>: the path to the current hub was found at some time, not before the last check of the
  interval timer.
\<close>

definition checked :: "rat \<Rightarrow> hub_connection \<Rightarrow> bool" where
  "checked t s \<longleftrightarrow> (\<exists>a h v. hub_address s = Some a \<and> fromhex a = Inr h \<and> (h, v, True) \<in> set (path_checks s) \<and>
     last_path_check s \<le> v \<and> v \<le> t)"

definition good_address :: "string \<Rightarrow> bool" where
  "good_address a \<longleftrightarrow> py_len a = 32 \<and> (\<exists>h. fromhex a = Inr h)"

definition hub_inv :: "rat \<times> hub_connection \<Rightarrow> bool" where
  "hub_inv p \<longleftrightarrow>
     last_path_check (snd p) \<le> fst p \<and>
     (connected (snd p) \<longrightarrow> checked (fst p) (snd p)) \<and>
     (\<forall>a. hub_address (snd p) = Some a \<longrightarrow> good_address a)"

lemma checked_later: "checked t s \<Longrightarrow> t \<le> t' \<Longrightarrow> checked t' s"
  by (auto simp: checked_def intro: order_trans)

lemma hub_inv_later: "hub_inv (t, s) \<Longrightarrow> t \<le> t' \<Longrightarrow> hub_inv (t', s)"
  using checked_later by (auto simp: hub_inv_def intro: order_trans)

lemma hub_inv_fields:
  "connected s' \<longrightarrow> connected s \<Longrightarrow> hub_address s' = hub_address s \<Longrightarrow> path_checks s' = path_checks s \<Longrightarrow>
     last_path_check s' = last_path_check s \<Longrightarrow> hub_inv (t, s) \<Longrightarrow> hub_inv (t, s')"
  by (auto simp: hub_inv_def checked_def)

lemma check_path_inv:
  assumes "hub_inv (t, s)" and "hub_address s = Some a"
  shows "hub_inv (t, snd (check_path t path a s))"
  using assms by (auto simp: hub_inv_def check_path_def checked_def Let_def split: sum.split)

lemma is_connected_inv: "hub_inv (t, s) \<Longrightarrow> hub_inv (t, snd (is_connected t path s))"
  using check_path_inv by (auto simp: is_connected_def split: option.split)

lemma force_inv: "hub_inv (t, s) \<Longrightarrow> hub_inv (t, snd (force_path_check t path s))"
  using check_path_inv by (auto simp: force_path_check_def split: option.split)

lemma status_inv: "hub_inv (t, s) \<Longrightarrow> hub_inv (t, snd (status t path s))"
  using is_connected_inv [of t s path] by (auto simp: status_def split: prod.split)

lemma start_waiting_inv: "hub_inv (t, s) \<Longrightarrow> hub_inv (t, start_waiting now s)"
  by (auto simp: start_waiting_def hub_inv_def checked_def)

lemma connect_inv:
  assumes "hub_inv (t, s)"
  shows "hub_inv (t, snd (connect t ready path addr s))"
proof (cases "ready \<and> addr \<noteq> [] \<and> py_len addr = 32 \<and> (\<exists>h. fromhex addr = Inr h)")
  case True
  then obtain h where h: "fromhex addr = Inr h" by blast
  show ?thesis
  proof (cases "path h")
    case True
    with h assms \<open>ready \<and> _\<close> show ?thesis
      by (auto simp: connect_def hub_inv_def checked_def good_address_def Let_def)
  next
    case False
    obtain asked lg sent where "request_path_once t h (limits s) = (asked, lg, sent)" by (metis prod_cases3)
    with False h assms \<open>ready \<and> _\<close> show ?thesis
      by (auto simp: connect_def hub_inv_def good_address_def start_waiting_def has_address_def Let_def)
  qed
next
  case False
  then have "snd (connect t ready path addr s) = s" by (auto simp: connect_def split: sum.split)
  with assms show ?thesis by simp
qed

lemma retry_inv: "hub_inv (t, s) \<Longrightarrow> hub_inv (t, snd (retry_connection t ready path s))"
  using connect_inv by (auto simp: retry_connection_def split: option.split)

lemma disconnect_inv: "hub_inv (t, s) \<Longrightarrow> hub_inv (t, disconnect s)"
  by (simp add: hub_inv_def disconnect_def)

lemma set_configured_inv: "hub_inv (t, s) \<Longrightarrow> hub_inv (t, set_configured b s)"
  by (rule hub_inv_fields [rotated 4]) (simp_all add: set_configured_def)

lemma set_interval_inv: "hub_inv (t, s) \<Longrightarrow> hub_inv (t, set_announce_interval i s)"
  by (rule hub_inv_fields [rotated 4]) (simp_all add: set_announce_interval_def)

lemma panel_inv: "hub_inv (t, s) \<Longrightarrow> hub_inv (t, snd (panel_refresh t ready path enabled cfg interval s))"
  using set_interval_inv is_connected_inv retry_inv status_inv
  by (auto simp: panel_refresh_def Let_def split_beta)

lemmas hub_ops_inv = check_path_inv is_connected_inv force_inv status_inv start_waiting_inv connect_inv
  retry_inv disconnect_inv set_configured_inv set_interval_inv panel_inv

interpretation hub: invariant_system "\<lambda>(t, s). 0 \<le> t \<and> (\<exists>lg st. s = HubConnection lg st)" hub_step hub_inv
proof unfold_locales
  show "hub_inv p" if "case p of (t, s) \<Rightarrow> 0 \<le> t \<and> (\<exists>lg st. s = HubConnection lg st)" for p
    using that by (cases p) (auto simp: hub_inv_def HubConnection_def)
  show "hub_inv q" if "hub_inv p" "hub_step p q" for p q
    using that(2,1) by cases (auto dest: hub_inv_later intro: hub_ops_inv)
qed

section \<open>Properties\<close>

text \<open>
  Claim C21. A hub that is reported as connected was reachable within the last 30 seconds: the
  network had a path to exactly this hub at some time not longer ago.
\<close>

theorem connected_means_reachable:
  assumes "reach (\<lambda>(t, s). 0 \<le> t \<and> (\<exists>lg st. s = HubConnection lg st)) hub_step (t, s)" and "t \<le> now"
    and "status now path s = (CONNECTED, s')"
  shows "\<exists>a h v. hub_address s' = Some a \<and> fromhex a = Inr h \<and> (h, v, True) \<in> set (path_checks s') \<and>
    now - 30 \<le> v \<and> v \<le> now"
proof -
  have "hub_inv (now, s)" using hub.reach_inv [OF assms(1)] hub_inv_later assms(2) by blast
  then have inv: "hub_inv (now, s')" using status_inv [of now s path] assms(3) by simp
  have up: "fst (is_connected now path s)" "s' = snd (is_connected now path s)"
    using assms(3) by (auto simp: status_def Let_def split: prod.splits if_splits)
  then have "connected s'" "now - last_path_check s' \<le> 30"
    by (auto simp: is_connected_def check_path_def PATH_CHECK_INTERVAL_def Let_def
        split: option.splits if_splits sum.splits)
  with inv obtain a h v where "hub_address s' = Some a" "fromhex a = Inr h" "(h, v, True) \<in> set (path_checks s')"
      "last_path_check s' \<le> v" "v \<le> now"
    by (auto simp: hub_inv_def checked_def)
  with \<open>now - last_path_check s' \<le> 30\<close> show ?thesis by (intro exI [of _ a] exI [of _ h] exI [of _ v]) auto
qed

lemma status_connected:
  assumes "connected s" and "hub_address s = Some a" and "fromhex a = Inr h" and "path h"
  shows "fst (status now path s) = CONNECTED"
  using assms by (simp add: status_def is_connected_def check_path_def Let_def)

lemma status_waiting:
  assumes "\<not> connected s" and "has_address s" and "waiting_since s = Some now" and "0 < announce_interval s"
  shows "fst (status now path s) = WAITING"
  using assms by (simp add: status_def is_connected_def is_within_announce_window_def)

text \<open>A retry with a stored address ends connected, or with the announce window started anew.\<close>

lemma retry_outcome:
  assumes "hub_address s = Some a" and "fromhex a = Inr h" and "py_len a = 32" and "a \<noteq> []" and "\<not> connected s"
  shows "let s' = snd (retry_connection now True path s) in
    hub_address s' = Some a \<and> announce_interval s' = announce_interval s \<and>
    (if path h then connected s' else \<not> connected s' \<and> waiting_since s' = Some now)"
proof -
  obtain asked lg sent where "request_path_once now h (limits s) = (asked, lg, sent)" by (metis prod_cases3)
  with assms show ?thesis
    by (simp add: retry_connection_def connect_def Let_def start_waiting_def has_address_def)
qed

lemma not_up:
  assumes "hub_address s = Some a" and "fromhex a = Inr h" and "\<not> fst (is_connected now path s)"
  shows "let s' = snd (is_connected now path s) in
    hub_address s' = Some a \<and> announce_interval s' = announce_interval s \<and> \<not> connected s'"
  using assms by (auto simp: is_connected_def check_path_def Let_def split: if_splits)

lemma up_again:
  assumes "fst (is_connected now path s)"
  shows "fst (status now path (snd (is_connected now path s))) = CONNECTED"
  using assms
  by (auto simp: status_def is_connected_def check_path_def PATH_CHECK_INTERVAL_def Let_def
      split: option.splits if_splits sum.splits)

text \<open>
  While Reticulum runs, the panel never shows a hub that has an address as
  disconnected: each refresh retries the connection, which starts the announce window anew, so
  that a hub that has been gone for any time is shown as waiting.
\<close>

theorem panel_never_shows_disconnected:
  assumes "reach (\<lambda>(t, s). 0 \<le> t \<and> (\<exists>lg st. s = HubConnection lg st)) hub_step (t, s)"
    and "cfg \<noteq> None" and "cfg \<noteq> Some []" and "0 < interval" and "hub_address s \<noteq> None"
  shows "fst (panel_refresh now True path True cfg interval s) \<in> {CONNECTED, WAITING}"
proof -
  obtain a where a: "hub_address s = Some a" using assms(5) by blast
  then obtain h where h: "fromhex a = Inr h" "py_len a = 32"
    using hub.reach_inv [OF assms(1)] by (auto simp: hub_inv_def good_address_def)
  then have "a \<noteq> []" by (auto simp: py_len_def)
  define s1 where "s1 = set_announce_interval interval s"
  have s1: "hub_address s1 = Some a" "announce_interval s1 = interval"
    using a by (simp_all add: s1_def set_announce_interval_def)
  show ?thesis
  proof (cases "fst (is_connected now path s1)")
    case True
    then show ?thesis
      using assms(2,3) up_again [OF True] by (simp add: panel_refresh_def s1_def [symmetric] Let_def split_beta)
  next
    case False
    define s2 where "s2 = snd (is_connected now path s1)"
    define s3 where "s3 = snd (retry_connection now True path s2)"
    have s2: "hub_address s2 = Some a" "announce_interval s2 = interval" "\<not> connected s2"
      using not_up [OF s1(1) h(1) False] s1(2) by (simp_all add: s2_def Let_def)
    have s3: "hub_address s3 = Some a" "announce_interval s3 = interval"
        "if path h then connected s3 else \<not> connected s3 \<and> waiting_since s3 = Some now"
      using retry_outcome [OF s2(1) h \<open>a \<noteq> []\<close> s2(3), of now path] s2(2) by (simp_all add: s3_def Let_def)
    have "fst (status now path s3) \<in> {CONNECTED, WAITING}"
      using status_connected [OF _ s3(1) h(1), of path now] status_waiting [of s3 now path] s3 \<open>a \<noteq> []\<close> assms(4)
      by (auto simp: has_address_def split: if_splits)
    then show ?thesis
      using False assms(2,3)
      by (simp add: panel_refresh_def s1_def [symmetric] s2_def [symmetric] s3_def [symmetric] Let_def split_beta)
  qed
qed

text \<open>A hub found at 100, gone since.\<close>

definition gone_hub :: hub_connection where
  "gone_hub = snd (connect 100 True (\<lambda>_. True) STYRENE_HUB_ADDRESS (HubConnection [] init_db))"

lemma gone_hub_reached:
  "reach (\<lambda>(t, s). 0 \<le> t \<and> (\<exists>lg st. s = HubConnection lg st)) hub_step (100, gone_hub)"
proof (rule reach_step)
  show "reach (\<lambda>(t, s). 0 \<le> t \<and> (\<exists>lg st. s = HubConnection lg st)) hub_step (0, HubConnection [] init_db)"
    by (rule reach_start) auto
  show "hub_step (0, HubConnection [] init_db) (100, gone_hub)"
    unfolding gone_hub_def by (rule hs_connect) simp
qed

lemma gone_hub_state: "hub_address gone_hub = Some STYRENE_HUB_ADDRESS" "connected gone_hub" "last_path_check gone_hub = 0"
  by (simp_all add: gone_hub_def connect_def STYRENE_HUB_ADDRESS_def py_len_def utf8_cont_def Let_def HubConnection_def
      hex_value_def is_space_def)

theorem connected_means_reachable_witness:
  "\<exists>a h v. hub_address (snd (status 110 (\<lambda>_. True) gone_hub)) = Some a \<and> fromhex a = Inr h \<and>
    (h, v, True) \<in> set (path_checks (snd (status 110 (\<lambda>_. True) gone_hub))) \<and> 80 \<le> v \<and> v \<le> 110"
proof -
  have "fst (status 110 (\<lambda>_. True) gone_hub) = CONNECTED"
    using gone_hub_state by (intro status_connected) (auto simp: STYRENE_HUB_ADDRESS_def hex_value_def is_space_def)
  then have "status 110 (\<lambda>_. True) gone_hub = (CONNECTED, snd (status 110 (\<lambda>_. True) gone_hub))"
    by (simp add: prod_eq_iff)
  from connected_means_reachable [OF gone_hub_reached _ this] show ?thesis by simp
qed

theorem panel_never_shows_disconnected_witness:
  "fst (panel_refresh 1000000 True (\<lambda>_. False) True (Some STYRENE_HUB_ADDRESS) 600 gone_hub) \<in> {CONNECTED, WAITING}"
  by (rule panel_never_shows_disconnected [OF gone_hub_reached])
    (simp_all add: gone_hub_state STYRENE_HUB_ADDRESS_def)

end
