(* ===== verification/Lxmf_Service.thy ===== *)
theory Lxmf_Service
  imports Config_Models Rns_Limits Node_Store
begin

text \<open>
  The LXMF service (\<^verbatim>\<open>src/styrened/services/lxmf_service.py\<close>): its start and stop, sending with the
  search for the recipient's identity, sending with a wait for a path, the list of blocked peers,
  and the handling of incoming messages. The RBAC policy, the node store and the path limiter it
  uses are part of its state, as are the two tables of the message database it writes. RNS, LXMF,
  the JSON library, the clock and whether a database access succeeds are arguments; what is asked
  of the router and of the callbacks is a trace.
\<close>

section \<open>State\<close>

definition DIRECT :: string where "DIRECT = ''direct''"
definition PROPAGATED :: string where "PROPAGATED = ''propagated''"
definition AUTO :: string where "AUTO = ''auto''"

datatype desired_method = Method_DIRECT | Method_PROPAGATED

text \<open>A message to be sent, and one that has arrived. \<open>None\<close> for a field that is absent.\<close>

record outbound_message =
  o_destination :: bytes
  o_content :: bytes
  o_fields :: "pydict option"
  o_title :: "string option"
  o_method :: "desired_method option"

record inbound_message =
  m_source :: bytes
  m_content :: bytes
  m_fields :: "pydict option"
  m_title :: pyval

datatype lxmf_effect =
    CreateRouter "(string \<times> pyval) list"
  | SetPropagationNode bytes
  | EnablePropagation
  | RegisterDelivery "string option"
  | AnnounceDelivery bytes
  | RequestPath bytes
  | HandleOutbound outbound_message
  | CallRaw nat inbound_message
  | CallParsed nat string pydict
  | SyncRequest bytes

record contact =
  c_identity_hash :: string
  c_alias :: string
  c_blocked :: bool
  c_blocked_at :: "rat option"
  c_created_at :: rat
  c_updated_at :: rat

record lxmf_service =
  router :: bool
  identity :: "bytes option"
  delivery_destination :: "bytes option"
  initialized :: bool
  message_callbacks :: "(nat \<times> bool) list"
  rbac_policy :: rbac
  peer_blocks :: "(string \<times> rat) list"
  contacts :: "contact list"
  known_nodes :: node_store
  path_limits :: path_log
  trace :: "lxmf_effect list"

definition LXMFService :: "(string \<times> rat) list \<Rightarrow> contact list \<Rightarrow> node_store \<Rightarrow> path_log \<Rightarrow> lxmf_service" where
  "LXMFService blocks cs st lg =
     \<lparr>router = False, identity = None, delivery_destination = None, initialized = False,
      message_callbacks = [], rbac_policy = RBACPolicy PEER [] [], peer_blocks = blocks, contacts = cs,
      known_nodes = st, path_limits = lg, trace = []\<rparr>"

definition log :: "lxmf_effect list \<Rightarrow> lxmf_service \<Rightarrow> lxmf_service" where
  "log es s = s\<lparr>trace := trace s @ es\<rparr>"

definition set_rbac_policy :: "rbac \<Rightarrow> lxmf_service \<Rightarrow> lxmf_service" where
  "set_rbac_policy p s = s\<lparr>rbac_policy := p\<rparr>"

definition is_initialized :: "lxmf_service \<Rightarrow> bool" where
  "is_initialized s \<longleftrightarrow> initialized s \<and> router s"

section \<open>Blocked peers\<close>

text \<open>\<open>db_ok\<close>: the access to the database succeeds.\<close>

definition load_peer_blocks :: "bool \<Rightarrow> lxmf_service \<Rightarrow> string list" where
  "load_peer_blocks db_ok s = (if db_ok then map fst (peer_blocks s) else [])"

definition seed_block :: "string \<Rightarrow> rbac \<Rightarrow> rbac" where
  "seed_block ih p = (if resolve_role p ih \<noteq> BLOCKED then block ih p else p)"

definition seed_blocks_to_rbac :: "bool \<Rightarrow> lxmf_service \<Rightarrow> lxmf_service" where
  "seed_blocks_to_rbac db_ok s =
     (let hs = load_peer_blocks db_ok s; p = fold seed_block hs (rbac_policy s) in
      if hs = [] then s
      else s\<lparr>rbac_policy := (if blocked p = blocked (rbac_policy s) then p else invalidate_cache p)\<rparr>)"

definition upsert_contact :: "rat \<Rightarrow> string \<Rightarrow> string \<Rightarrow> contact list \<Rightarrow> contact list" where
  "upsert_contact now ih alias cs =
     (if list_ex (\<lambda>c. c_identity_hash c = ih) cs
      then map (\<lambda>c. if c_identity_hash c = ih
                    then c\<lparr>c_blocked := True, c_blocked_at := Some now, c_updated_at := now\<rparr> else c) cs
      else cs @ [\<lparr>c_identity_hash = ih, c_alias = alias, c_blocked = True, c_blocked_at = Some now,
                  c_created_at = now, c_updated_at = now\<rparr>])"

definition block_peer ::
    "rat \<Rightarrow> bool \<Rightarrow> bool \<Rightarrow> string \<Rightarrow> string option \<Rightarrow> lxmf_service \<Rightarrow> bool \<times> lxmf_service" where
  "block_peer now db_ok contacts_ok ih alias s =
     (if \<not> db_ok then (False, s)
      else
        let s1 = s\<lparr>peer_blocks := AList.update ih now (peer_blocks s)\<rparr>;
            s2 = s1\<lparr>rbac_policy := block ih (rbac_policy s1)\<rparr>;
            shown = (case alias of None \<Rightarrow> py_take 8 ih | Some a \<Rightarrow> if a = [] then py_take 8 ih else a) in
        (True, if contacts_ok then s2\<lparr>contacts := upsert_contact now ih shown (contacts s2)\<rparr> else s2))"

definition unblock_peer ::
    "rat \<Rightarrow> bool \<Rightarrow> bool \<Rightarrow> string \<Rightarrow> lxmf_service \<Rightarrow> bool \<times> lxmf_service" where
  "unblock_peer now db_ok contacts_ok ih s =
     (if \<not> db_ok \<or> map_of (peer_blocks s) ih = None then (False, s)
      else
        let s1 = s\<lparr>peer_blocks := AList.delete ih (peer_blocks s)\<rparr>;
            s2 = s1\<lparr>rbac_policy := snd (unblock ih (rbac_policy s1))\<rparr> in
        (True,
         if contacts_ok
         then s2\<lparr>contacts := map (\<lambda>c. if c_identity_hash c = ih
                then c\<lparr>c_blocked := False, c_blocked_at := None, c_updated_at := now\<rparr> else c) (contacts s2)\<rparr>
         else s2))"

definition get_blocked_peers :: "bool \<Rightarrow> lxmf_service \<Rightarrow> (string \<times> string option \<times> rat) list" where
  "get_blocked_peers db_ok s =
     (if \<not> db_ok then []
      else map (\<lambda>(ih, t). (ih, map_option c_alias (find (\<lambda>c. c_identity_hash c = ih) (contacts s)), t))
             (sort_key (\<lambda>r. - snd r) (peer_blocks s)))"

section \<open>Start\<close>

text \<open>The keyword arguments of the router after the identity and the storage path.\<close>

definition router_kwargs :: "lxmf_config option \<Rightarrow> (string \<times> pyval) list res" where
  "router_kwargs cfg =
     (case cfg of
        None \<Rightarrow> Inr []
      | Some c \<Rightarrow>
          bind_res (map_res fromhex (lx_static_peers c)) (\<lambda>peers.
          Inr ([(''autopeer'', PBool (lx_autopeer c)), (''autopeer_maxdepth'', PInt (lx_autopeer_maxdepth c)),
                (''max_peers'', PInt (lx_max_peers c)), (''from_static_only'', PBool (lx_from_static_only c)),
                (''propagation_limit'', PInt (lx_propagation_limit c)), (''sync_limit'', PInt (lx_sync_limit c)),
                (''delivery_limit'', PInt (lx_delivery_limit c))] @
               (if lx_static_peers c \<noteq> [] then [(''static_peers'', PList (map PBytes peers))] else []) @
               (if pn_enabled (lx_propagation_node c)
                then [(''propagation_cost'', PInt (lx_propagation_cost c)),
                      (''propagation_cost_flexibility'', PInt (lx_propagation_cost_flexibility c)),
                      (''peering_cost'', PInt (lx_peering_cost c)), (''max_peering_cost'', PInt (lx_max_peering_cost c))] @
                     when_true (truthy (pn_name (lx_propagation_node c))) ''name'' (pn_name (lx_propagation_node c))
                else []))))"

definition propagation_setup :: "lxmf_config option \<Rightarrow> lxmf_effect list" where
  "propagation_setup cfg =
     (case cfg of
        None \<Rightarrow> []
      | Some c \<Rightarrow>
          (case lx_propagation_destination c of
             None \<Rightarrow> []
           | Some d \<Rightarrow> if d = [] then [] else (case fromhex d of Inl _ \<Rightarrow> [] | Inr b \<Rightarrow> [SetPropagationNode b])) @
          (if pn_enabled (lx_propagation_node c) then [EnablePropagation] else []))"

definition init_failed :: "lxmf_service \<Rightarrow> bool \<times> lxmf_service" where
  "init_failed s = (False, s\<lparr>router := False, identity := None, initialized := False\<rparr>)"

text \<open>
  \<open>available\<close>: the library is installed; \<open>created\<close> and \<open>registered\<close> are the outcomes of the
  constructor of the router and of \<^verbatim>\<open>register_delivery_identity\<close>.
\<close>

definition initialize ::
    "bool \<Rightarrow> bool \<Rightarrow> unit res \<Rightarrow> bytes res \<Rightarrow> bool \<Rightarrow> bytes \<Rightarrow> lxmf_config option \<Rightarrow> string option
      \<Rightarrow> lxmf_service \<Rightarrow> bool \<times> lxmf_service" where
  "initialize available rns_ready created registered db_ok own cfg display_name s =
     (if is_initialized s then (True, s)
      else if \<not> available \<or> \<not> rns_ready then (False, s)
      else case router_kwargs cfg of
        Inl _ \<Rightarrow> init_failed s
      | Inr kwargs \<Rightarrow>
          (case created of
             Inl _ \<Rightarrow> init_failed (log [CreateRouter kwargs] s)
           | Inr _ \<Rightarrow>
               let s1 = log (CreateRouter kwargs # propagation_setup cfg @ [RegisterDelivery display_name]) s in
               (case registered of
                  Inl _ \<Rightarrow> init_failed s1
                | Inr dest \<Rightarrow>
                    (True, seed_blocks_to_rbac db_ok
                       (log [AnnounceDelivery dest]
                         (s1\<lparr>router := True, delivery_destination := Some dest, identity := Some own,
                             initialized := True\<rparr>))))))"

definition shutdown :: "lxmf_service \<Rightarrow> lxmf_service" where
  "shutdown s =
     (if \<not> initialized s then s
      else s\<lparr>router := False, identity := None, message_callbacks := [], initialized := False\<rparr>)"

definition handle_reconnection :: "lxmf_service \<Rightarrow> lxmf_service" where
  "handle_reconnection s = s\<lparr>delivery_destination := None\<rparr>"

definition register_callback :: "nat \<Rightarrow> bool \<Rightarrow> lxmf_service \<Rightarrow> lxmf_service" where
  "register_callback cb raw s = s\<lparr>message_callbacks := message_callbacks s @ [(cb, raw)]\<rparr>"

text \<open>\<open>sync_ok\<close>: the router takes the request.\<close>

definition request_messages_from_propagation_node ::
    "bool \<Rightarrow> bytes option \<Rightarrow> lxmf_service \<Rightarrow> bool \<times> lxmf_service" where
  "request_messages_from_propagation_node sync_ok own s =
     (if \<not> is_initialized s then (False, s)
      else case (case own of None \<Rightarrow> identity s | Some i \<Rightarrow> Some i) of
        None \<Rightarrow> (False, s)
      | Some i \<Rightarrow> (if sync_ok then (True, log [SyncRequest i] s) else (False, s)))"

section \<open>Incoming messages\<close>

text \<open>The JSON library and \<^verbatim>\<open>str\<close> of a value that is not a text.\<close>

record text_lib =
  json_loads :: "string \<Rightarrow> pyval res"
  json_dumps :: "pydict \<Rightarrow> string res"
  str_of :: "pyval \<Rightarrow> string"

definition title_of :: "text_lib \<Rightarrow> inbound_message \<Rightarrow> pydict \<Rightarrow> string option" where
  "title_of lib m fs =
     (if truthy (m_title m) then Some (str_of lib (m_title m))
      else case d_get fs ''title'' of
        None \<Rightarrow> None
      | Some v \<Rightarrow> if truthy v then Some (str_of lib v) else None)"

definition normalize_message_payload :: "text_lib \<Rightarrow> inbound_message \<Rightarrow> pydict option" where
  "normalize_message_payload lib m =
     (if m_content m = [] then None
      else case decode_utf8 (m_content m) of
        Inl _ \<Rightarrow> None
      | Inr content \<Rightarrow>
          (case json_loads lib content of
             Inr (PDict d) \<Rightarrow> Some d
           | _ \<Rightarrow>
               let fs = (case m_fields m of None \<Rightarrow> [] | Some f \<Rightarrow> f) in
               Some (kv ([(''type'', PStr ''chat''), (''content'', PStr content),
                          (''protocol'', d_get_or fs ''protocol'' (PStr []))] @
                         (case title_of lib m fs of
                            None \<Rightarrow> [] | Some t \<Rightarrow> if t = [] then [] else [(''title'', PStr t)])))))"

text \<open>
  The key the sender is looked up by in the policy: the identity the node store has for it, as
  an LXMF destination, else as a destination, else the source hash itself.
\<close>

definition nonempty :: "string option \<Rightarrow> string option" where
  "nonempty x = (case x of None \<Rightarrow> None | Some s \<Rightarrow> if s = [] then None else Some s)"

definition rbac_key :: "bool \<Rightarrow> node_store \<Rightarrow> string \<Rightarrow> string" where
  "rbac_key store_ok st src =
     (if \<not> store_ok then src
      else case nonempty (get_identity_for_lxmf_destination src st) of
        Some ih \<Rightarrow> ih
      | None \<Rightarrow> (case nonempty (get_identity_for_destination src st) of Some ih \<Rightarrow> ih | None \<Rightarrow> src))"

definition callback_effects :: "inbound_message \<Rightarrow> pydict option \<Rightarrow> nat \<times> bool \<Rightarrow> lxmf_effect list" where
  "callback_effects m payload cb =
     (case cb of
        (c, True) \<Rightarrow> [CallRaw c m]
      | (c, False) \<Rightarrow> (case payload of None \<Rightarrow> [] | Some d \<Rightarrow> [CallParsed c (hex_of (m_source m)) d]))"

definition handle_lxmf_message :: "text_lib \<Rightarrow> bool \<Rightarrow> inbound_message \<Rightarrow> lxmf_service \<Rightarrow> lxmf_service" where
  "handle_lxmf_message lib store_ok m s =
     (if message_callbacks s = [] then s
      else if resolve_role (rbac_policy s) (rbac_key store_ok (known_nodes s) (hex_of (m_source m))) = BLOCKED then s
      else log (concat (map (callback_effects m (normalize_message_payload lib m)) (message_callbacks s))) s)"

section \<open>Outgoing messages\<close>

text \<open>
  What RNS and the clock answer: \<open>recall k from_id h\<close> is the identity RNS knows at the \<open>k\<close>-th look
  (an identity is its hash), \<open>stored h\<close> the identity file of that name, \<open>delivery_hash i\<close> the hash of
  the delivery destination of an identity, \<open>has_path k d\<close> and \<open>elapsed k\<close> the \<open>k\<close>-th test for a path
  and the \<open>k\<close>-th reading of the time since the start. \<open>send_outcome m\<close> is what handing \<open>m\<close> to the
  router gives, the message hash or an exception.
\<close>

record rns_view =
  recall :: "nat \<Rightarrow> bool \<Rightarrow> bytes \<Rightarrow> bytes option"
  stored :: "string \<Rightarrow> bytes option res"
  delivery_hash :: "bytes \<Rightarrow> bytes"
  has_path :: "nat \<Rightarrow> bytes \<Rightarrow> bool"
  elapsed :: "nat \<Rightarrow> rat"
  send_outcome :: "outbound_message \<Rightarrow> bytes res"
  FIELD_RENDERER :: pyval
  RENDERER_PLAIN :: pyval

definition request_path :: "rat \<Rightarrow> bytes \<Rightarrow> lxmf_service \<Rightarrow> bool \<times> lxmf_service" where
  "request_path now dest s =
     (let (ok, lg, calls) = request_path_once now dest (path_limits s) in
      (ok, log (map RequestPath calls) (s\<lparr>path_limits := lg\<rparr>)))"

definition ensure_path :: "rns_view \<Rightarrow> rat \<Rightarrow> bytes \<Rightarrow> lxmf_service \<Rightarrow> bool \<times> lxmf_service" where
  "ensure_path v now dest s =
     (if has_path v 0 dest then (True, s) else (False, snd (request_path now dest s)))"

definition load_identity_from_storage :: "rns_view \<Rightarrow> string \<Rightarrow> bytes option" where
  "load_identity_from_storage v ih =
     (case stored v ih of
        Inr (Some i) \<Rightarrow> if hex_of i = ih then Some i else None
      | _ \<Rightarrow> None)"

text \<open>The node store's identity for the hash: as a destination, else as an LXMF destination.\<close>

definition store_identity :: "bool \<Rightarrow> node_store \<Rightarrow> string \<Rightarrow> string option" where
  "store_identity store_ok st h =
     (if \<not> store_ok then None
      else case nonempty (get_identity_for_destination h st) of
        Some ih \<Rightarrow> Some ih
      | None \<Rightarrow> nonempty (get_identity_for_lxmf_destination h st))"

definition recall_stored :: "rns_view \<Rightarrow> string option \<Rightarrow> bytes option res" where
  "recall_stored v ih =
     (case ih of
        None \<Rightarrow> Inr None
      | Some x \<Rightarrow>
          bind_res (fromhex x) (\<lambda>b. Inr (case recall v 0 True b of
            Some i \<Rightarrow> Some i | None \<Rightarrow> load_identity_from_storage v x)))"

text \<open>The loop of twenty polls, half a second apart; \<open>ks\<close> are the looks still to come.\<close>

fun poll_identity :: "rns_view \<Rightarrow> bytes \<Rightarrow> bytes option \<Rightarrow> nat list \<Rightarrow> bytes option" where
  "poll_identity v dest ib [] = None"
| "poll_identity v dest ib (k # ks) =
     (case recall v k False dest of
        Some i \<Rightarrow> Some i
      | None \<Rightarrow>
          (case (case ib of None \<Rightarrow> None | Some b \<Rightarrow> recall v k True b) of
             Some i \<Rightarrow> Some i
           | None \<Rightarrow> poll_identity v dest ib ks))"

definition resolve_by_path ::
    "rns_view \<Rightarrow> rat \<Rightarrow> bytes \<Rightarrow> bytes option \<Rightarrow> lxmf_service \<Rightarrow> bytes option \<times> lxmf_service" where
  "resolve_by_path v now dest ib s =
     (let (ok, s1) = request_path now dest s in
      if \<not> ok then (None, s1)
      else (poll_identity v dest ib [1..<21],
            case ib of None \<Rightarrow> s1 | Some b \<Rightarrow> snd (request_path now b s1)))"

definition resolve_identity ::
    "rns_view \<Rightarrow> bool \<Rightarrow> rat \<Rightarrow> bool \<Rightarrow> string \<Rightarrow> lxmf_service \<Rightarrow> bytes option res \<times> lxmf_service" where
  "resolve_identity v store_ok now network_resolve h s =
     (case fromhex h of
        Inl e \<Rightarrow> (Inl e, s)
      | Inr dest \<Rightarrow>
          (case recall v 0 False dest of
             Some i \<Rightarrow> (Inr (Some i), s)
           | None \<Rightarrow>
               let ih = store_identity store_ok (known_nodes s) h in
               (case recall_stored v ih of
                  Inl e \<Rightarrow> (Inl e, s)
                | Inr (Some i) \<Rightarrow> (Inr (Some i), s)
                | Inr None \<Rightarrow>
                    (case recall v 0 True dest of
                       Some i \<Rightarrow> (Inr (Some i), s)
                     | None \<Rightarrow>
                         if \<not> network_resolve then (Inr None, s)
                         else let ib = (case ih of None \<Rightarrow> None | Some x \<Rightarrow>
                                          (case fromhex x of Inl _ \<Rightarrow> None | Inr b \<Rightarrow> Some b));
                                  (i, s') = resolve_by_path v now dest ib s in
                              (Inr i, s')))))"

text \<open>The payload is a text or a dictionary.\<close>

type_synonym payload = "string + pydict"

definition payload_bytes :: "text_lib \<Rightarrow> payload \<Rightarrow> bytes res" where
  "payload_bytes lib p =
     (case p of Inl t \<Rightarrow> Inr (str_bytes t) | Inr d \<Rightarrow> bind_res (json_dumps lib d) (\<lambda>t. Inr (str_bytes t)))"

definition native_title :: "text_lib \<Rightarrow> payload \<Rightarrow> string option" where
  "native_title lib p =
     (case p of
        Inl _ \<Rightarrow> None
      | Inr d \<Rightarrow> (case d_get d ''title'' of
                    None \<Rightarrow> None | Some v \<Rightarrow> if truthy v then Some (str_of lib v) else None))"

definition message_fields :: "rns_view \<Rightarrow> pydict option \<Rightarrow> pydict" where
  "message_fields v given =
     (let fs = (case given of None \<Rightarrow> [] | Some f \<Rightarrow> f) in
      if FIELD_RENDERER v \<in> fst ` set fs then fs else fs @ [(FIELD_RENDERER v, RENDERER_PLAIN v)])"

definition choose_method :: "string \<Rightarrow> bool \<Rightarrow> desired_method \<times> string" where
  "choose_method asked direct_path =
     (if asked = PROPAGATED then (Method_PROPAGATED, PROPAGATED)
      else if asked = DIRECT \<or> direct_path then (Method_DIRECT, DIRECT)
      else (Method_PROPAGATED, PROPAGATED))"

definition hand_over :: "rns_view \<Rightarrow> outbound_message \<Rightarrow> lxmf_service \<Rightarrow> bytes res \<times> lxmf_service" where
  "hand_over v m s = (send_outcome v m, log [HandleOutbound m] s)"

definition send_message ::
    "rns_view \<Rightarrow> text_lib \<Rightarrow> bool \<Rightarrow> rat \<Rightarrow> string \<Rightarrow> payload \<Rightarrow> string \<Rightarrow> pydict option \<Rightarrow> lxmf_service
      \<Rightarrow> (bytes \<times> string \<times> string) option \<times> lxmf_service" where
  "send_message v lib store_ok now h p asked given s =
     (if \<not> is_initialized s \<or> identity s = None then (None, s)
      else case resolve_identity v store_ok now True h s of
        (Inr (Some i), s1) \<Rightarrow>
          (let dst = delivery_hash v i; (direct, s2) = ensure_path v now dst s1 in
           case payload_bytes lib p of
             Inl _ \<Rightarrow> (None, s2)
           | Inr content \<Rightarrow>
               (let (desired, used) = choose_method asked direct;
                    m = \<lparr>o_destination = dst, o_content = content, o_fields = Some (message_fields v given),
                         o_title = native_title lib p, o_method = Some desired\<rparr>;
                    (r, s3) = hand_over v m s2 in
                case r of Inl _ \<Rightarrow> (None, s3) | Inr mh \<Rightarrow> (Some (mh, used, hex_of dst), s3)))
      | (_, s1) \<Rightarrow> (None, s1))"

text \<open>
  The wait for a path may last for ever when the clock does not advance, so it is a partial
  function; \<open>time.sleep\<close> refuses a negative interval.
\<close>

partial_function (option) await_path ::
    "rns_view \<Rightarrow> rat \<Rightarrow> rat \<Rightarrow> bytes \<Rightarrow> nat \<Rightarrow> bool \<Rightarrow> bool res option" where
  "await_path v max_wait check_interval dest k available =
     (if available then Some (Inr True)
      else if \<not> elapsed v k < max_wait then Some (Inr False)
      else if check_interval < 0 then Some (Inl ValueError)
      else await_path v max_wait check_interval dest (Suc k) (has_path v (Suc k) dest))"

text \<open>
  After the message is handed over, the log line reads \<^verbatim>\<open>payload.get\<close>, which a text does not have.
\<close>

definition transmit ::
    "rns_view \<Rightarrow> text_lib \<Rightarrow> bytes \<Rightarrow> payload \<Rightarrow> lxmf_service \<Rightarrow> bool \<times> lxmf_service" where
  "transmit v lib dst p s =
     (case payload_bytes lib p of
        Inl _ \<Rightarrow> (False, s)
      | Inr content \<Rightarrow>
          (let (r, s') = hand_over v \<lparr>o_destination = dst, o_content = content, o_fields = None,
                                       o_title = None, o_method = None\<rparr> s in
           (case r of Inl _ \<Rightarrow> False | Inr _ \<Rightarrow> \<not> isl p, s')))"

definition send_with_retry ::
    "rns_view \<Rightarrow> text_lib \<Rightarrow> bool \<Rightarrow> rat \<Rightarrow> string \<Rightarrow> payload \<Rightarrow> rat \<Rightarrow> rat \<Rightarrow> lxmf_service
      \<Rightarrow> (bool \<times> lxmf_service) option" where
  "send_with_retry v lib store_ok now h p max_wait check_interval s =
     (if \<not> is_initialized s \<or> identity s = None then Some (False, s)
      else case resolve_identity v store_ok now True h s of
        (Inr (Some i), s1) \<Rightarrow>
          (let dst = delivery_hash v i; (direct, s2) = ensure_path v now dst s1 in
           case await_path v max_wait check_interval dst 0 direct of
             None \<Rightarrow> None
           | Some (Inr True) \<Rightarrow> Some (transmit v lib dst p s2)
           | Some _ \<Rightarrow> Some (False, s2))
      | (_, s1) \<Rightarrow> Some (False, s1))"

section \<open>Blocked peers stay blocked\<close>

text \<open>
  One operation of the service, with a database that may or may not be readable, or a change of
  what it reads: the node store and the limiter. Identity hashes have 32 characters. A step of the
  whole system is one of these or the injection of another policy, at any time.
\<close>

inductive service_step :: "lxmf_service \<Rightarrow> lxmf_service \<Rightarrow> bool" where
  xs_initialize: "service_step s (snd (initialize avail ready created registered db_ok own cfg dn s))"
| xs_shutdown: "service_step s (shutdown s)"
| xs_reconnect: "service_step s (handle_reconnection s)"
| xs_callback: "service_step s (register_callback cb raw s)"
| xs_block: "length ih = 32 \<Longrightarrow> service_step s (snd (block_peer now db_ok contacts_ok ih alias s))"
| xs_unblock: "service_step s (snd (unblock_peer now db_ok contacts_ok ih s))"
| xs_message: "service_step s (handle_lxmf_message lib store_ok m s)"
| xs_send: "service_step s (snd (send_message v lib store_ok now h pl asked given s))"
| xs_retry: "send_with_retry v lib store_ok now h pl mw ci s = Some (r, t) \<Longrightarrow> service_step s t"
| xs_sync: "service_step s (snd (request_messages_from_propagation_node sync_ok own s))"
| xs_nodes: "service_step s (s\<lparr>known_nodes := st\<rparr>)"
| xs_limits: "service_step s (s\<lparr>path_limits := lg\<rparr>)"

inductive lxmf_step :: "lxmf_service \<Rightarrow> lxmf_service \<Rightarrow> bool" where
  xs_service: "service_step s t \<Longrightarrow> lxmf_step s t"
| xs_policy: "lxmf_step s (set_rbac_policy p s)"

definition lxmf_start :: "lxmf_service \<Rightarrow> bool" where
  "lxmf_start s \<longleftrightarrow>
     (\<exists>blocks cs st lg. s = LXMFService blocks cs st lg \<and> (\<forall>r \<in> set blocks. length (fst r) = 32))"

definition lxmf_inv :: "lxmf_service \<Rightarrow> bool" where
  "lxmf_inv s \<longleftrightarrow>
     (\<forall>r \<in> set (peer_blocks s). length (fst r) = 32)"

text \<open>A block that the policy knows of.\<close>

definition in_force :: "string \<Rightarrow> lxmf_service \<Rightarrow> bool" where
  "in_force ih s \<longleftrightarrow>
     lxmf_inv s \<and> (ih \<in> fst ` set (peer_blocks s) \<longrightarrow> resolve_role (rbac_policy s) ih = BLOCKED)"

lemma resolve_block: "resolve_role p ih = BLOCKED \<Longrightarrow> resolve_role (block x p) ih = BLOCKED"
  by (auto simp: resolve_role_def is_blocked_block split: option.splits if_splits)

lemma resolve_block_self: "resolve_role (block ih p) ih = BLOCKED"
  by (simp add: resolve_role_def is_blocked_block)

lemma resolve_invalidate [simp]: "resolve_role (invalidate_cache p) ih = resolve_role p ih"
  by (simp add: resolve_role_def is_blocked_def invalidate_cache_def split: option.splits)

lemma resolve_seed: "resolve_role p ih = BLOCKED \<Longrightarrow> resolve_role (fold seed_block hs p) ih = BLOCKED"
  by (induction hs arbitrary: p) (auto simp: seed_block_def resolve_block)

lemma resolve_seeded: "ih \<in> set hs \<Longrightarrow> resolve_role (fold seed_block hs p) ih = BLOCKED"
  by (induction hs arbitrary: p) (auto simp: seed_block_def resolve_seed resolve_block_self)

lemma resolve_unblock:
  assumes "resolve_role p x = BLOCKED" "length x = length ih" "x \<noteq> ih"
  shows "resolve_role (snd (unblock ih p)) x = BLOCKED"
proof -
  have "is_blocked (snd (unblock ih p)) x" if hit: "is_blocked p x"
  proof -
    obtain pre where pre: "pre \<in> set (blocked p)" "prefix pre x \<or> prefix x pre"
      using hit unfolding is_blocked_def list_ex_iff by blast
    moreover have "pre \<noteq> ih" using pre assms(2,3) by (auto simp: prefix_def)
    ultimately show ?thesis
      by (cases "ih \<in> set (blocked p)")
        (auto simp: unblock_def is_blocked_def invalidate_cache_def list_ex_iff in_set_remove1)
  qed
  moreover have "roster (snd (unblock ih p)) = roster p" "default_role (snd (unblock ih p)) = default_role p"
    by (simp_all add: unblock_def invalidate_cache_def)
  ultimately show ?thesis using assms(1) by (auto simp: resolve_role_def split: if_splits option.splits)
qed

text \<open>What the senders leave alone.\<close>

definition same_blocks :: "lxmf_service \<Rightarrow> lxmf_service \<Rightarrow> bool" where
  "same_blocks s t \<longleftrightarrow>
     peer_blocks t = peer_blocks s \<and> rbac_policy t = rbac_policy s \<and> initialized t = initialized s"

lemma same_blocks_refl [simp]: "same_blocks s s"
  by (simp add: same_blocks_def)

lemma same_blocks_trans: "same_blocks s t \<Longrightarrow> same_blocks t u \<Longrightarrow> same_blocks s u"
  by (simp add: same_blocks_def)

lemma same_blocks_inv: "same_blocks s t \<Longrightarrow> in_force ih s \<Longrightarrow> in_force ih t"
  by (simp add: same_blocks_def in_force_def lxmf_inv_def)

lemma same_log: "same_blocks s (log es s)"
  by (simp add: same_blocks_def log_def)

lemma same_request: "same_blocks s (snd (request_path now d s))"
  by (simp add: same_blocks_def request_path_def log_def split: prod.splits)

lemma same_ensure: "same_blocks s (snd (ensure_path v now d s))"
  by (simp add: ensure_path_def same_request)

lemma same_resolve_by_path: "same_blocks s (snd (resolve_by_path v now d ib s))"
proof (cases "request_path now d s")
  case (Pair ok s1)
  then have s1: "same_blocks s s1" using same_request [of s now d] by simp
  have "same_blocks s (snd (request_path now b s1))" for b
    by (rule same_blocks_trans [OF s1 same_request])
  then show ?thesis using Pair s1 by (simp add: resolve_by_path_def split: option.splits)
qed

lemma same_resolve: "same_blocks s (snd (resolve_identity v store_ok now nr h s))"
proof -
  have "same_blocks s (snd (case resolve_by_path v now d ib s of (i, s') \<Rightarrow> (Inr i, s')))" for d ib
    using same_resolve_by_path [of s v now d ib] by (simp add: case_prod_beta)
  then show ?thesis
    unfolding resolve_identity_def Let_def
    by (cases "fromhex h") (auto simp del: fromhex.simps split: option.split sum.split)
qed

lemma same_hand_over: "same_blocks s (snd (hand_over v m s))"
  by (simp add: hand_over_def same_log)

lemma same_send: "same_blocks s (snd (send_message v lib store_ok now h pl asked given s))"
proof -
  note r = same_resolve [of s v store_ok now True h]
  show ?thesis
  proof (cases "resolve_identity v store_ok now True h s")
    case (Pair q s1)
    then have s1: "same_blocks s s1" using r by simp
    have s2: "same_blocks s (snd (ensure_path v now d s1))" for d
      by (rule same_blocks_trans [OF s1 same_ensure])
    have s3: "same_blocks s (snd (hand_over v m (snd (ensure_path v now d s1))))" for m d
      by (rule same_blocks_trans [OF s2 same_hand_over])
    show ?thesis
      using Pair s1 s2 s3
      by (simp add: send_message_def Let_def case_prod_beta split: sum.splits option.splits)
  qed
qed

lemma same_transmit: "same_blocks s (snd (transmit v lib dst p s))"
  by (simp add: transmit_def case_prod_beta same_hand_over split: sum.splits)

lemma same_retry:
  assumes "send_with_retry v lib store_ok now h pl mw ci s = Some (r, t)"
  shows "same_blocks s t"
proof (cases "resolve_identity v store_ok now True h s")
  case (Pair q s1)
  then have s1: "same_blocks s s1" using same_resolve [of s v store_ok now True h] by simp
  have s2: "same_blocks s (snd (ensure_path v now d s1))" for d
    by (rule same_blocks_trans [OF s1 same_ensure])
  have s3: "same_blocks s (snd (transmit v lib d p (snd (ensure_path v now d s1))))" for d p
    by (rule same_blocks_trans [OF s2 same_transmit])
  show ?thesis
    using assms Pair s1 s2 s3
    by (auto simp: send_with_retry_def Let_def case_prod_beta
          split: if_splits sum.splits option.splits bool.splits) (metis snd_conv)+
qed

lemma seed_keeps: "in_force ih s \<Longrightarrow> in_force ih (seed_blocks_to_rbac db_ok s)"
  by (simp add: in_force_def lxmf_inv_def seed_blocks_to_rbac_def Let_def resolve_seed)

lemma seed_reads_table:
  "lxmf_inv s \<Longrightarrow> in_force ih (seed_blocks_to_rbac True s)"
  using resolve_seeded [of ih "map fst (peer_blocks s)" "rbac_policy s"]
  by (auto simp: in_force_def lxmf_inv_def seed_blocks_to_rbac_def load_peer_blocks_def Let_def)

text \<open>What a start does to the table and the policy: nothing, or it seeds the one into the other.\<close>

lemma initialize_result:
  "same_blocks (s\<lparr>initialized := b\<rparr>) (t\<lparr>initialized := b\<rparr>) \<and> (fst (initialize avail ready created registered db_ok own cfg dn s) \<longrightarrow> is_initialized s) \<or>
   (\<exists>u. same_blocks (s\<lparr>initialized := b\<rparr>) (u\<lparr>initialized := b\<rparr>) \<and> t = seed_blocks_to_rbac db_ok u)"
  if "t = snd (initialize avail ready created registered db_ok own cfg dn s)"
  unfolding that initialize_def Let_def
  by (auto simp: same_blocks_def init_failed_def log_def split: sum.split)
    (rule exI, intro conjI, rule_tac [3] refl, simp_all)

lemma in_force_initialized: "in_force ih (s\<lparr>initialized := b\<rparr>) = in_force ih s"
  by (simp add: in_force_def lxmf_inv_def)

lemma initialize_keeps:
  assumes "in_force ih s"
  shows "in_force ih (snd (initialize avail ready created registered db_ok own cfg dn s))"
proof -
  have "in_force ih t" if "same_blocks (s\<lparr>initialized := b\<rparr>) (t\<lparr>initialized := b\<rparr>)" for t b
    using same_blocks_inv [OF that] assms by (simp add: in_force_initialized)
  then show ?thesis using initialize_result [OF refl] seed_keeps by metis
qed

lemma block_keeps:
  assumes "in_force x s" "length ih = 32"
  shows "in_force x (snd (block_peer now db_ok contacts_ok ih alias s))"
  using assms
  by (auto simp: in_force_def lxmf_inv_def block_peer_def Let_def resolve_block resolve_block_self dest!: update_in_set)

lemma unblock_keeps:
  assumes "in_force x s"
  shows "in_force x (snd (unblock_peer now db_ok contacts_ok ih s))"
proof (cases "db_ok \<and> map_of (peer_blocks s) ih \<noteq> None")
  case True
  then have "length ih = 32"
    using assms by (auto simp: in_force_def lxmf_inv_def dest!: map_of_SomeD)
  moreover have "length x = 32" if "x \<in> fst ` set (peer_blocks s)"
    using assms that by (auto simp: in_force_def lxmf_inv_def)
  ultimately show ?thesis
    using assms True
    by (auto simp: in_force_def lxmf_inv_def unblock_peer_def Let_def set_alist_delete intro!: resolve_unblock)
next
  case False
  then show ?thesis using assms by (auto simp: unblock_peer_def)
qed

lemma message_same: "same_blocks s (handle_lxmf_message lib store_ok m s)"
  by (simp add: handle_lxmf_message_def same_log)

lemma service_keeps:
  assumes "in_force ih s" "service_step s t"
  shows "in_force ih t"
  using assms(2)
proof cases
  case (xs_send v lib store_ok now h pl asked given)
  then show ?thesis using same_send same_blocks_inv assms(1) by blast
next
  case (xs_retry v lib store_ok now h pl mw ci r)
  then show ?thesis using same_retry same_blocks_inv assms(1) by blast
next
  case (xs_message lib store_ok m)
  then show ?thesis using message_same same_blocks_inv assms(1) by blast
next
  case (xs_initialize avail ready created registered db_ok own cfg dn)
  then show ?thesis using initialize_keeps assms(1) by blast
next
  case (xs_block ih' now db_ok contacts_ok nick)
  then show ?thesis using block_keeps assms(1) by blast
next
  case (xs_unblock now db_ok contacts_ok ih')
  then show ?thesis using unblock_keeps assms(1) by blast
qed (use assms(1) in \<open>simp_all add: in_force_def lxmf_inv_def shutdown_def handle_reconnection_def
        register_callback_def request_messages_from_propagation_node_def log_def split: option.splits\<close>)

lemma service_run_keeps: "service_step\<^sup>*\<^sup>* s t \<Longrightarrow> in_force ih s \<Longrightarrow> in_force ih t"
  by (induction rule: rtranclp_induct) (auto intro: service_keeps)

text \<open>An identity with no row is in force for want of anything to enforce.\<close>

lemma fresh_in_force: "lxmf_inv s \<Longrightarrow> \<exists>ih. in_force ih s"
  unfolding in_force_def lxmf_inv_def by (rule exI [of _ "[]"]) auto

interpretation lxmf: invariant_system lxmf_start lxmf_step lxmf_inv
proof unfold_locales
  show "lxmf_inv s" if "lxmf_start s" for s
    using that by (auto simp: lxmf_start_def lxmf_inv_def LXMFService_def)
  show "lxmf_inv t" if "lxmf_inv s" "lxmf_step s t" for s t
    using that(2)
  proof cases
    case xs_service
    then show ?thesis using fresh_in_force [OF that(1)] service_keeps in_force_def by blast
  next
    case (xs_policy p)
    then show ?thesis using that(1) by (simp add: lxmf_inv_def set_rbac_policy_def)
  qed
qed

section \<open>Sending with a wait returns\<close>

lemma await_within:
  assumes "0 < ci" "\<And>j. of_nat j * ci \<le> elapsed v j"
  shows "mw \<le> of_nat (k + n) * ci \<Longrightarrow>
    \<exists>r. await_path v mw ci d k av = Some (Inr r) \<and>
      (r \<longrightarrow> av \<or> (\<exists>j \<ge> k. has_path v (Suc j) d \<and> (\<forall>i. k < i \<and> i \<le> j \<longrightarrow> \<not> has_path v i d) \<and> elapsed v j < mw))"
proof (induction n arbitrary: k av)
  case 0
  then have "\<not> elapsed v k < mw" using assms(2) [of k] by simp
  then show ?case by (subst await_path.simps) auto
next
  case (Suc n)
  show ?case
  proof (cases "\<not> av \<and> elapsed v k < mw")
    case True
    obtain r where r: "await_path v mw ci d (Suc k) (has_path v (Suc k) d) = Some (Inr r)"
      and later: "r \<longrightarrow> has_path v (Suc k) d \<or>
        (\<exists>j \<ge> Suc k. has_path v (Suc j) d \<and> (\<forall>i. Suc k < i \<and> i \<le> j \<longrightarrow> \<not> has_path v i d) \<and> elapsed v j < mw)"
    proof -
      have "mw \<le> of_nat (Suc k + n) * ci" using Suc.prems by simp
      from Suc.IH [OF this, of "has_path v (Suc k) d"] that show ?thesis by blast
    qed
    have "\<exists>j \<ge> k. has_path v (Suc j) d \<and> (\<forall>i. k < i \<and> i \<le> j \<longrightarrow> \<not> has_path v i d) \<and> elapsed v j < mw" if r
    proof (cases "has_path v (Suc k) d")
      case True
      then show ?thesis using \<open>\<not> av \<and> elapsed v k < mw\<close> by auto
    next
      case False
      with later that obtain j where j: "Suc k \<le> j" "has_path v (Suc j) d" "elapsed v j < mw"
        "\<forall>i. Suc k < i \<and> i \<le> j \<longrightarrow> \<not> has_path v i d" by blast
      moreover have "\<not> has_path v i d" if "k < i" "i \<le> j" for i
        using j(4) False that by (cases "i = Suc k") auto
      ultimately show ?thesis by (meson Suc_leD)
    qed
    with r show ?thesis
      using True assms(1) by (subst await_path.simps) auto
  next
    case False
    then show ?thesis by (subst await_path.simps) auto
  qed
qed

lemma await_returns:
  assumes "0 < ci" "\<And>j. of_nat j * ci \<le> elapsed v j"
  obtains r where "await_path v mw ci d 0 (has_path v 0 d) = Some (Inr r)"
    and "r \<Longrightarrow> \<exists>k. has_path v k d \<and> (\<forall>j < k. \<not> has_path v j d) \<and> (k = 0 \<or> elapsed v (k - 1) < mw)"
proof -
  obtain n where "mw / ci \<le> of_nat n" using real_arch_simple by blast
  then have "mw \<le> of_nat (0 + n) * ci" using assms(1) by (simp add: field_simps)
  from await_within [of ci v, OF assms this, of d "has_path v 0 d"]
  obtain r where r: "await_path v mw ci d 0 (has_path v 0 d) = Some (Inr r)"
    and seen: "r \<longrightarrow> has_path v 0 d \<or>
      (\<exists>j \<ge> 0. has_path v (Suc j) d \<and> (\<forall>i. 0 < i \<and> i \<le> j \<longrightarrow> \<not> has_path v i d) \<and> elapsed v j < mw)"
    by blast
  have "\<exists>k. has_path v k d \<and> (\<forall>j < k. \<not> has_path v j d) \<and> (k = 0 \<or> elapsed v (k - 1) < mw)" if r
  proof (cases "has_path v 0 d")
    case True
    then show ?thesis by (intro exI [of _ 0]) simp
  next
    case False
    with seen that obtain j where "has_path v (Suc j) d" "\<forall>i. 0 < i \<and> i \<le> j \<longrightarrow> \<not> has_path v i d" "elapsed v j < mw" by blast
    with False show ?thesis by (intro exI [of _ "Suc j"]) (auto simp: less_Suc_eq_le, metis gr0I)
  qed
  with r that show ?thesis by blast
qed

lemma ensure_path_true: "fst (ensure_path v now d s) \<longleftrightarrow> has_path v 0 d"
  by (simp add: ensure_path_def)

lemma transmit_sent:
  assumes "fst (transmit v lib dst p s)"
  shows "\<exists>d js mh. p = Inr d \<and> json_dumps lib d = Inr js \<and>
     send_outcome v \<lparr>o_destination = dst, o_content = str_bytes js, o_fields = None, o_title = None, o_method = None\<rparr> = Inr mh \<and>
     trace (snd (transmit v lib dst p s)) = trace s @
       [HandleOutbound \<lparr>o_destination = dst, o_content = str_bytes js, o_fields = None, o_title = None, o_method = None\<rparr>]"
  using assms
  by (auto simp: transmit_def payload_bytes_def bind_res_def hand_over_def log_def split: sum.splits)

text \<open>Where an identity found for a recipient comes from, and what the search asks for.\<close>

definition known_for :: "rns_view \<Rightarrow> bool \<Rightarrow> node_store \<Rightarrow> string \<Rightarrow> bytes \<Rightarrow> bytes \<Rightarrow> bool" where
  "known_for v store_ok st h dest i \<longleftrightarrow>
     (\<exists>j. recall v j False dest = Some i) \<or> (\<exists>j. recall v j True dest = Some i) \<or>
     (\<exists>x. store_identity store_ok st h = Some x \<and>
        ((\<exists>b j. fromhex x = Inr b \<and> recall v j True b = Some i) \<or> (stored v x = Inr (Some i) \<and> hex_of i = x)))"

definition paths_asked :: "lxmf_service \<Rightarrow> lxmf_service \<Rightarrow> bool" where
  "paths_asked s t \<longleftrightarrow> (\<exists>ds. trace t = trace s @ map RequestPath ds)"

lemma paths_asked_refl: "paths_asked s s"
  unfolding paths_asked_def by (rule exI [of _ "[]"]) simp

lemma paths_asked_trans: "paths_asked s t \<Longrightarrow> paths_asked t u \<Longrightarrow> paths_asked s u"
  unfolding paths_asked_def by (metis append.assoc map_append)

lemma asked_request: "paths_asked s (snd (request_path now d s))"
  by (auto simp: paths_asked_def request_path_def log_def split: prod.splits)

lemma asked_ensure: "paths_asked s (snd (ensure_path v now d s))"
  by (simp add: ensure_path_def asked_request paths_asked_refl)

lemma asked_by_path: "paths_asked s (snd (resolve_by_path v now d ib s))"
proof (cases "request_path now d s")
  case (Pair ok s1)
  then have s1: "paths_asked s s1" using asked_request [of s now d] by simp
  have "paths_asked s (snd (request_path now b s1))" for b
    by (rule paths_asked_trans [OF s1 asked_request])
  then show ?thesis using Pair s1 by (simp add: resolve_by_path_def split: option.splits)
qed

lemma asked_resolve: "paths_asked s (snd (resolve_identity v store_ok now nr h s))"
proof -
  have "paths_asked s (snd (case resolve_by_path v now d ib s of (i, s') \<Rightarrow> (Inr i, s')))" for d ib
    using asked_by_path [of s v now d ib] by (simp add: case_prod_beta)
  then show ?thesis
    unfolding resolve_identity_def Let_def
    by (cases "fromhex h") (auto simp: paths_asked_refl simp del: fromhex.simps split: option.split sum.split)
qed

lemma poll_found:
  "poll_identity v dest ib ks = Some i \<Longrightarrow>
     \<exists>j. recall v j False dest = Some i \<or> (\<exists>b. ib = Some b \<and> recall v j True b = Some i)"
  by (induction ks) (auto split: option.splits)

lemma recall_stored_known:
  "recall_stored v (store_identity store_ok st h) = Inr (Some i) \<Longrightarrow> known_for v store_ok st h dest i"
  unfolding known_for_def
  by (auto simp: recall_stored_def bind_res_def load_identity_from_storage_def
      split: option.splits sum.splits if_splits)

lemma resolve_known:
  assumes "resolve_identity v store_ok now nr h s = (Inr (Some i), t)"
  shows "\<exists>dest. fromhex h = Inr dest \<and> known_for v store_ok (known_nodes s) h dest i"
proof (cases "fromhex h")
  case (Inl e)
  with assms show ?thesis by (simp add: resolve_identity_def)
next
  case (Inr dest)
  have via: "known_for v store_ok (known_nodes s) h dest i"
    if "fst (resolve_by_path v now dest ib s) = Some i"
      and "ib = (case store_identity store_ok (known_nodes s) h of None \<Rightarrow> None | Some x \<Rightarrow>
                   (case fromhex x of Inl _ \<Rightarrow> None | Inr b \<Rightarrow> Some b))" for ib
  proof -
    from that(1) have "poll_identity v dest ib [1..<21] = Some i"
      by (auto simp: resolve_by_path_def split: prod.splits if_splits)
    from poll_found [OF this] that(2) show ?thesis
      unfolding known_for_def by (auto split: option.splits sum.splits)
  qed
  have "known_for v store_ok (known_nodes s) h dest i"
  proof (cases "recall v 0 False dest")
    case (Some j)
    with assms Inr have "j = i" by (simp add: resolve_identity_def)
    with Some show ?thesis unfolding known_for_def by blast
  next
    case nolook: None
    show ?thesis
    proof (cases "recall_stored v (store_identity store_ok (known_nodes s) h)")
      case (Inl e)
      with assms Inr nolook show ?thesis by (simp add: resolve_identity_def)
    next
      case st: (Inr q)
      show ?thesis
      proof (cases q)
        case (Some j)
        with assms Inr nolook st have "j = i" by (simp add: resolve_identity_def)
        with st Some show ?thesis by (simp add: recall_stored_known)
      next
        case none: None
        show ?thesis
        proof (cases "recall v 0 True dest")
          case (Some j)
          with assms Inr nolook st none have "j = i" by (simp add: resolve_identity_def)
          with Some show ?thesis unfolding known_for_def by blast
        next
          case None
          with assms Inr nolook st none show ?thesis
            by (intro via [OF _ refl]) (auto simp: resolve_identity_def Let_def case_prod_beta split: if_splits)
        qed
      qed
    qed
  qed
  with Inr show ?thesis by blast
qed

text \<open>
Claim C23. When the clock advances by at least the check interval between two tests for a path and
the interval is positive, sending with a wait returns. A reported success means: the payload is a
dictionary, and besides path requests exactly one thing was asked of the router: to send a message
whose content is the JSON text of that payload and whose destination is the delivery destination
of an identity known for the recipient asked for (by Reticulum, under that hash as a destination
or as an identity, or by the node store); the router took it; and a path to that destination was
there, at the first test or at the first of the later ones that saw one, the clock having read less
than the waiting time when that test was decided on.
\<close>

theorem send_with_retry_returns:
  assumes "0 < check_interval" and "\<And>k. of_nat k * check_interval \<le> elapsed v k"
  shows "\<exists>r t. send_with_retry v lib store_ok now h p max_wait check_interval s = Some (r, t) \<and>
    (r \<longrightarrow> (\<exists>dest i d js m mh ds k.
       fromhex h = Inr dest \<and>
       ((\<exists>j. recall v j False dest = Some i) \<or> (\<exists>j. recall v j True dest = Some i) \<or>
        (\<exists>x. store_identity store_ok (known_nodes s) h = Some x \<and>
          ((\<exists>b j. fromhex x = Inr b \<and> recall v j True b = Some i) \<or> (stored v x = Inr (Some i) \<and> hex_of i = x)))) \<and>
       p = Inr d \<and> json_dumps lib d = Inr js \<and>
       m = \<lparr>o_destination = delivery_hash v i, o_content = str_bytes js, o_fields = None, o_title = None, o_method = None\<rparr> \<and>
       trace t = trace s @ map RequestPath ds @ [HandleOutbound m] \<and> send_outcome v m = Inr mh \<and>
       has_path v k (delivery_hash v i) \<and> (\<forall>j < k. \<not> has_path v j (delivery_hash v i)) \<and>
       (k = 0 \<or> elapsed v (k - 1) < max_wait)))"
proof (cases "is_initialized s \<and> identity s \<noteq> None \<and>
              (\<exists>i. fst (resolve_identity v store_ok now True h s) = Inr (Some i))")
  case True
  then obtain i s1 where i: "resolve_identity v store_ok now True h s = (Inr (Some i), s1)"
    by (metis prod.collapse)
  obtain direct s2 where e: "ensure_path v now (delivery_hash v i) s1 = (direct, s2)"
    by (rule prod.exhaust)
  have direct: "direct = has_path v 0 (delivery_hash v i)"
    using e ensure_path_true [of v now "delivery_hash v i" s1] by simp
  obtain r where r: "await_path v max_wait check_interval (delivery_hash v i) 0 direct = Some (Inr r)"
    and path: "r \<Longrightarrow> \<exists>k. has_path v k (delivery_hash v i) \<and> (\<forall>j < k. \<not> has_path v j (delivery_hash v i)) \<and>
      (k = 0 \<or> elapsed v (k - 1) < max_wait)"
    unfolding direct using await_returns [OF assms] by blast
  have ret: "send_with_retry v lib store_ok now h p max_wait check_interval s =
      Some (if r then transmit v lib (delivery_hash v i) p s2 else (False, s2))"
    using True i e r by (auto simp: send_with_retry_def split: bool.splits)
  have "paths_asked s s1" using asked_resolve [of s v store_ok now True h] i by simp
  moreover have "paths_asked s1 s2" using asked_ensure [of s1 v now "delivery_hash v i"] e by simp
  ultimately have "paths_asked s s2" by (rule paths_asked_trans)
  then obtain ds where ds: "trace s2 = trace s @ map RequestPath ds" unfolding paths_asked_def by blast
  obtain r' t where t: "transmit v lib (delivery_hash v i) p s2 = (r', t)" by (rule prod.exhaust)
  show ?thesis
  proof (cases "r \<and> r'")
    case True
    have "fst (transmit v lib (delivery_hash v i) p s2)" using True t by simp
    from transmit_sent [OF this] obtain d js mh m where sent: "p = Inr d" "json_dumps lib d = Inr js"
      "m = \<lparr>o_destination = delivery_hash v i, o_content = str_bytes js, o_fields = None, o_title = None, o_method = None\<rparr>"
      "trace t = trace s2 @ [HandleOutbound m]" "send_outcome v m = Inr mh"
      using t by auto
    obtain dest where dest: "fromhex h = Inr dest" "known_for v store_ok (known_nodes s) h dest i"
      using resolve_known [OF i] by blast
    obtain k where k: "has_path v k (delivery_hash v i)" "\<forall>j < k. \<not> has_path v j (delivery_hash v i)"
      "k = 0 \<or> elapsed v (k - 1) < max_wait" using path True by blast
    have res: "send_with_retry v lib store_ok now h p max_wait check_interval s = Some (r', t)"
      using ret True t by simp
    have tr: "trace t = trace s @ map RequestPath ds @ [HandleOutbound m]" by (simp add: sent(4) ds)
    show ?thesis
      unfolding res
      by (rule exI [of _ r'], rule exI [of _ t], rule conjI [OF refl], rule impI, rule exI [of _ dest], rule exI [of _ i],
          rule exI [of _ d], rule exI [of _ js], rule exI [of _ m], rule exI [of _ mh],
          rule exI [of _ ds], rule exI [of _ k])
        (intro conjI dest(1) dest(2) [unfolded known_for_def] sent(1-3,5) tr k)
  next
    case False
    then have "send_with_retry v lib store_ok now h p max_wait check_interval s = Some (False, if r then t else s2)"
      using ret t by auto
    then show ?thesis by auto
  qed
next
  case False
  then show ?thesis
    by (cases "resolve_identity v store_ok now True h s")
      (auto simp: send_with_retry_def split: sum.splits option.splits)
qed

text \<open>
Claim C22. A block holds. Take any reachable state in which a peer of a 32-character identity hash
is blocked successfully, or in which the service, not running, starts successfully with a readable
table of blocked peers (where that identity may have its row from an earlier run). After any
operations of the service from there on (messages sent and received, peers blocked and unblocked,
stops and restarts, also with a table that cannot be read, changes of the node store), as long as
no new policy is injected and the table still has the row: a message whose sender resolves to that
identity changes nothing and reaches no callback.
\<close>

theorem blocked_peers_stay_blocked:
  assumes "reach lxmf_start lxmf_step s"
    and "(length ih = 32 \<and> block_peer now db_ok contacts_ok ih nick s = (True, s1)) \<or>
         (\<not> is_initialized s \<and> initialize avail ready created registered True own cfg dn s = (True, s1))"
    and "service_step\<^sup>*\<^sup>* s1 s2"
    and "ih \<in> fst ` set (peer_blocks s2)"
    and "rbac_key store_ok (known_nodes s2) (hex_of (m_source m)) = ih"
  shows "handle_lxmf_message lib store_ok m s2 = s2"
proof -
  have inv: "lxmf_inv s" by (rule lxmf.reach_inv [OF assms(1)])
  from assms(2) have "in_force ih s1"
  proof
    assume b: "length ih = 32 \<and> block_peer now db_ok contacts_ok ih nick s = (True, s1)"
    then show ?thesis
      using inv by (auto simp: in_force_def lxmf_inv_def block_peer_def Let_def resolve_block_self
          split: if_splits dest!: update_in_set)
  next
    assume i: "\<not> is_initialized s \<and> initialize avail ready created registered True own cfg dn s = (True, s1)"
    then obtain u where "same_blocks (s\<lparr>initialized := True\<rparr>) (u\<lparr>initialized := True\<rparr>)" "s1 = seed_blocks_to_rbac True u"
      using initialize_result [of s1 avail ready created registered True own cfg dn s True] by auto
    moreover from this(1) inv have "lxmf_inv u" by (simp add: same_blocks_def lxmf_inv_def)
    ultimately show ?thesis by (simp add: seed_reads_table)
  qed
  then have "in_force ih s2" by (rule service_run_keeps [OF assms(3)])
  then show ?thesis using assms(4,5) by (simp add: in_force_def handle_lxmf_message_def)
qed

text \<open>
  A concrete run: an identity is blocked, the service starts, and a message comes in from the LXMF
  address the node store has for it.
\<close>

definition ex_lib :: text_lib where
  "ex_lib = \<lparr>json_loads = \<lambda>_. Inl ValueError, json_dumps = \<lambda>_. Inr ''{}'', str_of = \<lambda>_. ''x''\<rparr>"

definition ex_view :: rns_view where
  "ex_view =
     \<lparr>recall = \<lambda>k from_id h. if h = replicate 16 0xbb then Some h else None, stored = \<lambda>_. Inr None,
      delivery_hash = \<lambda>i. replicate 16 0xcc, has_path = \<lambda>k d. 1 \<le> k, elapsed = \<lambda>k. of_nat k * 2,
      send_outcome = \<lambda>m. Inr [1], FIELD_RENDERER = PInt 15, RENDERER_PLAIN = PInt 0\<rparr>"

definition ex_blocked :: string where "ex_blocked = replicate 32 (CHR ''b'')"

definition ex_start :: "bool \<Rightarrow> lxmf_service \<Rightarrow> lxmf_service" where
  "ex_start db_ok s = snd (initialize True True (Inr ()) (Inr [7]) db_ok [8] None None s)"

definition ex_run :: lxmf_service where
  "ex_run = register_callback 1 False (ex_start True
     (snd (block_peer 9 True True ex_blocked None (LXMFService [] [] demo_store []))))"

definition ex_message :: inbound_message where
  "ex_message = \<lparr>m_source = replicate 16 0xcc, m_content = str_bytes ''hi'', m_fields = None, m_title = PNone\<rparr>"

definition ex_blocking :: lxmf_service where
  "ex_blocking = snd (block_peer 9 True True ex_blocked None (LXMFService [] [] demo_store []))"

lemma ex_blocking_run: "service_step\<^sup>*\<^sup>* ex_blocking ex_run"
proof -
  have "service_step ex_blocking (ex_start True ex_blocking)" unfolding ex_start_def by (rule xs_initialize)
  moreover have "service_step (ex_start True ex_blocking) ex_run"
    unfolding ex_run_def ex_blocking_def by (rule xs_callback)
  ultimately show ?thesis by (meson rtranclp.rtrancl_into_rtrancl rtranclp.rtrancl_refl)
qed

theorem blocked_peers_stay_blocked_witness:
  "message_callbacks ex_run \<noteq> [] \<and> handle_lxmf_message ex_lib True ex_message ex_run = ex_run"
proof (rule conjI)
  show "message_callbacks ex_run \<noteq> []" by (simp add: ex_run_def register_callback_def)
  let ?s = "LXMFService [] [] demo_store []"
  show "handle_lxmf_message ex_lib True ex_message ex_run = ex_run"
  proof (rule blocked_peers_stay_blocked [where s = ?s and ?s1.0 = ex_blocking and ih = ex_blocked and now = 9
        and db_ok = True and contacts_ok = True and nick = None])
    show "reach lxmf_start lxmf_step ?s" unfolding lxmf_start_def by (intro reach_start) fastforce
    show "(length ex_blocked = 32 \<and> block_peer 9 True True ex_blocked None ?s = (True, ex_blocking)) \<or>
         (\<not> is_initialized ?s \<and> initialize True True (Inr ()) (Inr []) True [] None None ?s = (True, ex_blocking))"
      by (rule disjI1) (simp add: ex_blocked_def ex_blocking_def block_peer_def Let_def)
    show "service_step\<^sup>*\<^sup>* ex_blocking ex_run" by (rule ex_blocking_run)
    show "ex_blocked \<in> fst ` set (peer_blocks ex_run)" by code_simp
    show "rbac_key True (known_nodes ex_run) (hex_of (m_source ex_message)) = ex_blocked" by code_simp
  qed
qed

text \<open>The same message, when the node store does not know the sender, is delivered.\<close>

lemma unknown_sender_gets_through:
  "trace (handle_lxmf_message ex_lib True ex_message (ex_run\<lparr>known_nodes := init_db\<rparr>)) \<noteq> trace ex_run"
  by code_simp

text \<open>A table that cannot be read at the start blocks nobody, and neither does a policy injected later.\<close>

lemma unreadable_blocks_fail_open:
  "trace (handle_lxmf_message ex_lib True ex_message (register_callback 1 False (ex_start False
     (LXMFService [(ex_blocked, 9)] [] demo_store [])))) \<noteq>
   trace (register_callback 1 False (ex_start False (LXMFService [(ex_blocked, 9)] [] demo_store [])))"
  by code_simp

lemma late_policy_forgets_blocks:
  "trace (handle_lxmf_message ex_lib True ex_message (set_rbac_policy (RBACPolicy PEER [] []) ex_run)) \<noteq> trace ex_run"
  by code_simp

theorem send_with_retry_returns_witness:
  "\<exists>r t. send_with_retry ex_view ex_lib True 0 (hex_of (replicate 16 0xbb)) (Inr []) 30 2 ex_run = Some (r, t) \<and>
    (r \<longrightarrow> (\<exists>m ds. trace t = trace ex_run @ map RequestPath ds @ [HandleOutbound m] \<and> o_content m = str_bytes ''{}''))"
proof -
  have "0 < (2 :: rat)" "\<And>k. of_nat k * 2 \<le> elapsed ex_view k" by (simp_all add: ex_view_def)
  from send_with_retry_returns [OF this, of ex_lib True 0 "hex_of (replicate 16 0xbb)" "Inr []" 30 ex_run]
  obtain r t where ret: "send_with_retry ex_view ex_lib True 0 (hex_of (replicate 16 0xbb)) (Inr []) 30 2 ex_run = Some (r, t)"
    and sent: "r \<Longrightarrow> \<exists>d js m ds. Inr [] = (Inr d :: payload) \<and> json_dumps ex_lib d = Inr js \<and>
       o_content m = str_bytes js \<and> trace t = trace ex_run @ map RequestPath ds @ [HandleOutbound m]"
    by fastforce
  have "\<exists>m ds. trace t = trace ex_run @ map RequestPath ds @ [HandleOutbound m] \<and> o_content m = str_bytes ''{}''" if r
    using sent [OF that] by (auto simp: ex_lib_def)
  with ret show ?thesis by blast
qed

text \<open>A text is handed to the router and reported as a failure.\<close>

lemma text_with_retry_reports_failure: "fst (transmit v lib dst (Inl t) s) = False"
  by (simp add: transmit_def payload_bytes_def hand_over_def split: sum.splits)

end
