(* ===== verification/Config_Load.thy ===== *)
theory Config_Load
  imports Config_Models
begin

text \<open>
  Loading the configuration (\<^verbatim>\<open>src/styrened/services/config.py\<close>): the profile defaults, the loader with
  a parser for each section, over the value the YAML library reads from the file, and what saving and
  loading a configuration gives. A section is loaded by a list of steps in the order of the
  statements; each may raise.
\<close>

section \<open>Values from the file\<close>

text \<open>
  \<open>repr_of\<close> is \<^verbatim>\<open>str\<close> of a number with a point, of bytes, and of a container; \<open>float_of_text\<close> is
  \<^verbatim>\<open>float\<close> of a text; \<open>expanduser\<close> is \<^verbatim>\<open>Path(s).expanduser()\<close>, as text.
\<close>

record config_env =
  repr_of :: "pyval \<Rightarrow> string"
  float_of_text :: "string \<Rightarrow> rat res"
  expanduser :: "string \<Rightarrow> string res"

fun text_of :: "config_env \<Rightarrow> pyval \<Rightarrow> string" where
  "text_of env PNone = ''None''"
| "text_of env (PBool b) = (if b then ''True'' else ''False'')"
| "text_of env (PInt i) = show_int i"
| "text_of env (PStr s) = s"
| "text_of env v = repr_of env v"

fun float_of :: "config_env \<Rightarrow> pyval \<Rightarrow> rat res" where
  "float_of env (PFloat q) = Inr q"
| "float_of env (PInt i) = Inr (of_int i)"
| "float_of env (PBool b) = Inr (if b then 1 else 0)"
| "float_of env (PStr s) = float_of_text env s"
| "float_of env _ = Inl TypeError"

fun parse_bool :: "pyval \<Rightarrow> bool" where
  "parse_bool (PBool b) = b"
| "parse_bool (PStr s) = (lower s \<in> {''true'', ''yes'', ''1'', ''on''})"
| "parse_bool v = truthy v"

section \<open>Steps\<close>

fun in_turn :: "('c \<Rightarrow> 'c res) list \<Rightarrow> 'c \<Rightarrow> 'c res" where
  "in_turn [] c = Inr c"
| "in_turn (f # fs) c = bind_res (f c) (in_turn fs)"

text \<open>\<^verbatim>\<open>if "k" in d: ...\<close>, the same with \<^verbatim>\<open>and d["k"]\<close>, and with \<^verbatim>\<open>isinstance(d["k"], dict)\<close>.\<close>

definition on_key :: "pydict \<Rightarrow> string \<Rightarrow> (pyval \<Rightarrow> 'c \<Rightarrow> 'c res) \<Rightarrow> 'c \<Rightarrow> 'c res" where
  "on_key d k f c = (case d_get d k of None \<Rightarrow> Inr c | Some v \<Rightarrow> f v c)"

definition on_truthy :: "pydict \<Rightarrow> string \<Rightarrow> (pyval \<Rightarrow> 'c \<Rightarrow> 'c res) \<Rightarrow> 'c \<Rightarrow> 'c res" where
  "on_truthy d k f c = (case d_get d k of None \<Rightarrow> Inr c | Some v \<Rightarrow> if truthy v then f v c else Inr c)"

definition on_dict ::
    "pydict \<Rightarrow> string \<Rightarrow> (pydict \<Rightarrow> 's \<Rightarrow> 's res) \<Rightarrow> ('c \<Rightarrow> 's) \<Rightarrow> (('s \<Rightarrow> 's) \<Rightarrow> 'c \<Rightarrow> 'c) \<Rightarrow> 'c \<Rightarrow> 'c res" where
  "on_dict d k f get upd c =
     (case d_get d k of
        Some (PDict s) \<Rightarrow> bind_res (f s (get c)) (\<lambda>x. Inr (upd (\<lambda>_. x) c))
      | _ \<Rightarrow> Inr c)"

definition on_list :: "pydict \<Rightarrow> string \<Rightarrow> (pyval list \<Rightarrow> 'c \<Rightarrow> 'c res) \<Rightarrow> 'c \<Rightarrow> 'c res" where
  "on_list d k f c = (case d_get d k of Some (PList vs) \<Rightarrow> f vs c | _ \<Rightarrow> Inr c)"

definition set_bool :: "((bool \<Rightarrow> bool) \<Rightarrow> 'c \<Rightarrow> 'c) \<Rightarrow> pyval \<Rightarrow> 'c \<Rightarrow> 'c res" where
  "set_bool upd v c = Inr (upd (\<lambda>_. parse_bool v) c)"

definition set_int :: "((int \<Rightarrow> int) \<Rightarrow> 'c \<Rightarrow> 'c) \<Rightarrow> pyval \<Rightarrow> 'c \<Rightarrow> 'c res" where
  "set_int upd v c = bind_res (py_int v) (\<lambda>i. Inr (upd (\<lambda>_. i) c))"

definition set_text :: "config_env \<Rightarrow> ((string \<Rightarrow> string) \<Rightarrow> 'c \<Rightarrow> 'c) \<Rightarrow> pyval \<Rightarrow> 'c \<Rightarrow> 'c res" where
  "set_text env upd v c = Inr (upd (\<lambda>_. text_of env v) c)"

definition set_some_text :: "config_env \<Rightarrow> ((string option \<Rightarrow> string option) \<Rightarrow> 'c \<Rightarrow> 'c) \<Rightarrow> pyval \<Rightarrow> 'c \<Rightarrow> 'c res" where
  "set_some_text env upd v c = Inr (upd (\<lambda>_. Some (text_of env v)) c)"

definition set_path :: "config_env \<Rightarrow> ((string option \<Rightarrow> string option) \<Rightarrow> 'c \<Rightarrow> 'c) \<Rightarrow> pyval \<Rightarrow> 'c \<Rightarrow> 'c res" where
  "set_path env upd v c = bind_res (expanduser env (text_of env v)) (\<lambda>p. Inr (upd (\<lambda>_. Some p) c))"

text \<open>An enumeration member, unless the value is unknown.\<close>

definition set_enum :: "(pyval \<Rightarrow> 'e option) \<Rightarrow> (('e \<Rightarrow> 'e) \<Rightarrow> 'c \<Rightarrow> 'c) \<Rightarrow> pyval \<Rightarrow> 'c \<Rightarrow> 'c res" where
  "set_enum of_value upd v c = Inr (case of_value v of None \<Rightarrow> c | Some m \<Rightarrow> upd (\<lambda>_. m) c)"

definition member_or :: "'e \<Rightarrow> (pyval \<Rightarrow> 'e option) \<Rightarrow> pyval \<Rightarrow> 'e" where
  "member_or dflt of_value v = (case of_value v of None \<Rightarrow> dflt | Some m \<Rightarrow> m)"

lemmas step_defs = on_key_def on_truthy_def on_dict_def on_list_def set_bool_def set_int_def set_text_def
  set_some_text_def set_path_def set_enum_def member_or_def

section \<open>Profile defaults\<close>

definition with_hubs :: "profile \<Rightarrow> core_config" where
  "with_hubs p = CoreConfig
     \<lparr>c_profile := p,
      c_reticulum := ReticulumConfig\<lparr>ret_mode := STANDALONE,
        ret_interfaces := InterfaceConfig\<lparr>if_peers := WELL_KNOWN_HUBS\<rparr>\<rparr>\<rparr>"

primrec get_profile_defaults :: "profile \<Rightarrow> core_config" where
  "get_profile_defaults OPERATOR_PROFILE =
     (let c = with_hubs OPERATOR_PROFILE in
      c\<lparr>c_rpc := (c_rpc c)\<lparr>rpc_enabled := True, rpc_allow_command_execution := False\<rparr>,
        c_chat := (c_chat c)\<lparr>chat_enabled := True, chat_auto_reply_mode := NO_REPLY\<rparr>,
        c_discovery := (c_discovery c)\<lparr>disc_enabled := True, disc_auto_announce := True\<rparr>,
        c_ipc := (c_ipc c)\<lparr>ipc_enabled := True\<rparr>,
        c_terminal := (c_terminal c)\<lparr>trm_enabled := False\<rparr>,
        c_notifications := (c_notifications c)\<lparr>ntf_enabled := True\<rparr>,
        c_reticulum := (c_reticulum c)\<lparr>ret_announce_interval := 3600\<rparr>,
        c_lxmf := (c_lxmf c)\<lparr>lx_propagation_destination := Some COMMUNITY_HUB_PROPAGATION_HASH\<rparr>\<rparr>)"
| "get_profile_defaults ENDPOINT_PROFILE =
     (let c = with_hubs ENDPOINT_PROFILE in
      c\<lparr>c_rpc := (c_rpc c)\<lparr>rpc_enabled := True, rpc_allow_command_execution := True\<rparr>,
        c_chat := (c_chat c)\<lparr>chat_enabled := True, chat_auto_reply_mode := TEMPLATE\<rparr>,
        c_discovery := (c_discovery c)\<lparr>disc_enabled := True, disc_auto_announce := True\<rparr>,
        c_api := (c_api c)\<lparr>api_enabled := False\<rparr>,
        c_ipc := (c_ipc c)\<lparr>ipc_enabled := False\<rparr>,
        c_terminal := (c_terminal c)\<lparr>trm_enabled := True\<rparr>,
        c_notifications := (c_notifications c)\<lparr>ntf_enabled := False\<rparr>,
        c_reticulum := (c_reticulum c)\<lparr>ret_announce_interval := 3600\<rparr>\<rparr>)"
| "get_profile_defaults HUB_PROFILE =
     (let c = with_hubs HUB_PROFILE in
      c\<lparr>c_reticulum := (c_reticulum c)\<lparr>ret_mode := HUB_MODE, ret_enable_transport := Some True,
          ret_announce_interval := 3600\<rparr>,
        c_rpc := (c_rpc c)\<lparr>rpc_enabled := True, rpc_relay_mode := True, rpc_allow_command_execution := False\<rparr>,
        c_chat := (c_chat c)\<lparr>chat_enabled := True, chat_auto_reply_mode := TEMPLATE, chat_auto_reply_cooldown := 600\<rparr>,
        c_discovery := (c_discovery c)\<lparr>disc_enabled := True, disc_auto_announce := True\<rparr>,
        c_api := (c_api c)\<lparr>api_enabled := True, api_public_mode := True\<rparr>,
        c_ipc := (c_ipc c)\<lparr>ipc_enabled := False\<rparr>,
        c_terminal := (c_terminal c)\<lparr>trm_enabled := False\<rparr>,
        c_notifications := (c_notifications c)\<lparr>ntf_enabled := False\<rparr>,
        c_lxmf := (c_lxmf c)\<lparr>lx_propagation_node := (lx_propagation_node (c_lxmf c))\<lparr>pn_enabled := True\<rparr>,
          lx_autopeer := True\<rparr>\<rparr>)"

definition get_default_core_config :: core_config where
  "get_default_core_config = get_profile_defaults OPERATOR_PROFILE"

section \<open>The reticulum section\<close>

definition load_server :: "config_env \<Rightarrow> pydict \<Rightarrow> server_config \<Rightarrow> server_config res" where
  "load_server env s old =
     bind_res (py_int (d_get_or s ''port'' (PInt 4242))) (\<lambda>port.
     Inr \<lparr>srv_enabled = parse_bool (d_get_or s ''enabled'' (PBool False)),
          srv_listen_ip = text_of env (d_get_or s ''listen_ip'' (PStr ''0.0.0.0'')), srv_port = port\<rparr>)"

text \<open>One item of the list of peers: \<open>None\<close> for an item that is skipped.\<close>

definition load_peer :: "config_env \<Rightarrow> pyval \<Rightarrow> peer_config option res" where
  "load_peer env v =
     (case v of
        PDict p \<Rightarrow>
          (case d_get p ''host'' of
             None \<Rightarrow> Inr None
           | Some h \<Rightarrow>
               bind_res (py_int (d_get_or p ''port'' (PInt 4242))) (\<lambda>port.
               Inr (Some \<lparr>peer_host = text_of env h, peer_port = port, peer_name = d_get_or p ''name'' PNone,
                          peer_enabled = parse_bool (d_get_or p ''enabled'' (PBool True))\<rparr>)))
      | _ \<Rightarrow> Inr None)"

fun load_peers :: "config_env \<Rightarrow> pyval list \<Rightarrow> peer_config list res" where
  "load_peers env [] = Inr []"
| "load_peers env (v # vs) =
     bind_res (load_peer env v) (\<lambda>p. bind_res (load_peers env vs) (\<lambda>ps.
       Inr (case p of None \<Rightarrow> ps | Some x \<Rightarrow> x # ps)))"

text \<open>The missing well-known hubs are added; the set of hosts is taken before the loop.\<close>

definition endpoint_of :: "peer_config \<Rightarrow> string \<times> int" where
  "endpoint_of p = (peer_host p, peer_port p)"

definition add_missing_hubs :: "peer_config list \<Rightarrow> peer_config list" where
  "add_missing_hubs ps = ps @ filter (\<lambda>h. endpoint_of h \<notin> endpoint_of ` set ps) WELL_KNOWN_HUBS"

definition load_interfaces :: "config_env \<Rightarrow> pydict \<Rightarrow> interface_config \<Rightarrow> interface_config res" where
  "load_interfaces env d = in_turn
     [on_key d ''auto'' (set_bool if_auto_update),
      on_dict d ''server'' (load_server env) if_server if_server_update,
      on_list d ''peers'' (\<lambda>vs c. bind_res (load_peers env vs) (\<lambda>ps. Inr (c\<lparr>if_peers := ps\<rparr>))),
      (\<lambda>c. Inr (c\<lparr>if_peers := add_missing_hubs (if_peers c)\<rparr>))]"

definition load_path_override :: "config_env \<Rightarrow> pyval \<Rightarrow> reticulum_config \<Rightarrow> reticulum_config res" where
  "load_path_override env v c =
     (case v of
        PStr s \<Rightarrow>
          if py_strip s = [] \<or> lower (py_strip s) = ''null'' then Inr (c\<lparr>ret_config_path_override := None\<rparr>)
          else bind_res (expanduser env s) (\<lambda>p. Inr (c\<lparr>ret_config_path_override := Some p\<rparr>))
      | _ \<Rightarrow> Inr (c\<lparr>ret_config_path_override := None\<rparr>))"

definition load_reticulum :: "config_env \<Rightarrow> pydict \<Rightarrow> reticulum_config \<Rightarrow> reticulum_config res" where
  "load_reticulum env d = in_turn
     [on_key d ''mode'' (set_enum deployment_mode_of ret_mode_update),
      on_key d ''announce_interval'' (set_int ret_announce_interval_update),
      on_key d ''auto_initialize'' (set_bool ret_auto_initialize_update),
      on_key d ''enable_transport'' (\<lambda>v c. Inr (c\<lparr>ret_enable_transport := Some (parse_bool v)\<rparr>)),
      on_key d ''hub_enabled'' (set_bool ret_hub_enabled_update),
      on_truthy d ''hub_address'' (\<lambda>v c. Inr (if py_len (text_of env v) = 32
        then c\<lparr>ret_hub_address := Some (text_of env v)\<rparr> else c)),
      on_key d ''hub_announce_interval'' (set_int ret_hub_announce_interval_update),
      on_truthy d ''operator_identity_path'' (set_path env ret_operator_identity_path_update),
      on_key d ''config_path_override'' (load_path_override env),
      on_dict d ''interfaces'' (load_interfaces env) ret_interfaces ret_interfaces_update]"

section \<open>The other sections\<close>

definition load_rpc :: "config_env \<Rightarrow> pydict \<Rightarrow> rpc_config \<Rightarrow> rpc_config res" where
  "load_rpc env d = in_turn
     [on_key d ''enabled'' (set_bool rpc_enabled_update), on_key d ''relay_mode'' (set_bool rpc_relay_mode_update),
      on_key d ''allow_command_execution'' (set_bool rpc_allow_command_execution_update)]"

definition load_discovery :: "config_env \<Rightarrow> pydict \<Rightarrow> discovery_config \<Rightarrow> discovery_config res" where
  "load_discovery env d = in_turn
     [on_key d ''enabled'' (set_bool disc_enabled_update), on_key d ''auto_announce'' (set_bool disc_auto_announce_update),
      on_key d ''access_mode'' (\<lambda>v. set_enum mesh_access_mode_of disc_access_mode_update (PStr (lower (text_of env v)))),
      on_list d ''allowed_peers'' (\<lambda>vs c. Inr (c\<lparr>disc_allowed_peers :=
        set (map (\<lambda>v. lower (text_of env v)) (filter truthy vs))\<rparr>)),
      on_key d ''info_respond'' (set_bool disc_info_respond_update),
      on_key d ''operator_label'' (\<lambda>v c. Inr (c\<lparr>disc_operator_label := py_strip (text_of env v)\<rparr>))]"

definition load_chatbot :: "config_env \<Rightarrow> pydict \<Rightarrow> chatbot_config \<Rightarrow> chatbot_config res" where
  "load_chatbot env d old =
     bind_res (py_int (d_get_or d ''max_tokens'' (PInt 256))) (\<lambda>tokens.
     bind_res (float_of env (d_get_or d ''temperature'' (PFloat (7 / 10)))) (\<lambda>temp.
     bind_res (py_int (d_get_or d ''max_context_messages'' (PInt 10))) (\<lambda>ctx.
     Inr \<lparr>bot_endpoint = text_of env (d_get_or d ''endpoint'' (PStr ''http://localhost:11434/v1'')),
          bot_model = text_of env (d_get_or d ''model'' (PStr ''llama3'')),
          bot_api_key = text_of env (d_get_or d ''api_key'' (PStr [])),
          bot_system_prompt = text_of env (d_get_or d ''system_prompt'' (PStr (bot_system_prompt old))),
          bot_max_tokens = tokens, bot_temperature = temp, bot_max_context_messages = ctx\<rparr>)))"

definition load_chat :: "config_env \<Rightarrow> pydict \<Rightarrow> chat_config \<Rightarrow> chat_config res" where
  "load_chat env d = in_turn
     [on_key d ''enabled'' (set_bool chat_enabled_update),
      on_key d ''auto_reply_mode'' (set_enum auto_reply_mode_of chat_auto_reply_mode_update),
      on_key d ''auto_reply_message'' (set_text env chat_auto_reply_message_update),
      on_key d ''auto_reply_cooldown'' (set_int chat_auto_reply_cooldown_update),
      on_key d ''persist_messages'' (set_bool chat_persist_messages_update),
      on_dict d ''chatbot'' (load_chatbot env) chat_chatbot chat_chatbot_update]"

definition load_metrics :: "pydict \<Rightarrow> metrics_config \<Rightarrow> metrics_config res" where
  "load_metrics d = on_key d ''enabled'' (set_bool met_enabled_update)"

definition load_web_auth :: "pydict \<Rightarrow> web_auth_config \<Rightarrow> web_auth_config res" where
  "load_web_auth d old =
     bind_res (py_int (d_get_or d ''session_ttl'' (PInt 86400))) (\<lambda>ttl.
     Inr \<lparr>auth_enabled = parse_bool (d_get_or d ''enabled'' (PBool False)),
          auth_exempt_localhost = parse_bool (d_get_or d ''exempt_localhost'' (PBool True)), auth_session_ttl = ttl\<rparr>)"

definition load_api :: "config_env \<Rightarrow> pydict \<Rightarrow> api_config \<Rightarrow> api_config res" where
  "load_api env d = in_turn
     [on_key d ''enabled'' (set_bool api_enabled_update), on_key d ''host'' (set_text env api_host_update),
      on_key d ''port'' (set_int api_port_update), on_key d ''public_mode'' (set_bool api_public_mode_update),
      on_dict d ''metrics'' load_metrics api_metrics api_metrics_update,
      on_dict d ''auth'' load_web_auth api_auth api_auth_update]"

definition load_yubikey :: "config_env \<Rightarrow> pydict \<Rightarrow> yubikey_config \<Rightarrow> yubikey_config res" where
  "load_yubikey env d old =
     Inr \<lparr>yk_credential_id = text_of env (d_get_or d ''credential_id'' (PStr [])),
          yk_rp_id = text_of env (d_get_or d ''rp_id'' (PStr ''styrene.mesh'')),
          yk_require_touch = parse_bool (d_get_or d ''require_touch'' (PBool False))\<rparr>"

definition load_identity :: "config_env \<Rightarrow> pydict \<Rightarrow> identity_config \<Rightarrow> identity_config res" where
  "load_identity env d = in_turn
     [on_truthy d ''display_name'' (set_text env id_display_name_update),
      on_truthy d ''icon'' (set_text env id_icon_update),
      on_truthy d ''provider'' (\<lambda>v c. let p = lower (text_of env v) in
        Inr (if p \<in> {''file'', ''yubikey''} then c\<lparr>id_provider := p\<rparr> else c)),
      on_truthy d ''short_name'' (\<lambda>v c. let n = text_of env v in
        Inr (if validate_short_name n then c\<lparr>id_short_name := Some n\<rparr> else c)),
      on_dict d ''yubikey'' (load_yubikey env) id_yubikey id_yubikey_update,
      on_truthy d ''web_url'' (set_text env id_web_url_update)]"

definition load_hour :: "((int option \<Rightarrow> int option) \<Rightarrow> 'c \<Rightarrow> 'c) \<Rightarrow> pyval \<Rightarrow> 'c \<Rightarrow> 'c res" where
  "load_hour upd v c =
     (if v = PNone then Inr c
      else bind_res (py_int v) (\<lambda>i. Inr (if 0 \<le> i \<and> i \<le> 23 then upd (\<lambda>_. Some i) c else c)))"

definition load_notifications :: "pydict \<Rightarrow> notifications_config \<Rightarrow> notifications_config res" where
  "load_notifications d old = in_turn
     [on_key d ''enabled'' (set_bool ntf_enabled_update),
      on_key d ''quiet_hours_start'' (load_hour ntf_quiet_hours_start_update),
      on_key d ''quiet_hours_end'' (load_hour ntf_quiet_hours_end_update)] NotificationsConfig"

definition load_propagation_node :: "pydict \<Rightarrow> propagation_node_config \<Rightarrow> propagation_node_config res" where
  "load_propagation_node d old =
     Inr \<lparr>pn_enabled = parse_bool (d_get_or d ''enabled'' (PBool False)), pn_name = d_get_or d ''name'' PNone\<rparr>"

definition hash_text :: "pyval \<Rightarrow> string option" where
  "hash_text v = (case v of PStr s \<Rightarrow> if py_len s = 32 then Some s else None | _ \<Rightarrow> None)"

definition load_lxmf :: "pydict \<Rightarrow> lxmf_config \<Rightarrow> lxmf_config res" where
  "load_lxmf d = in_turn
     [on_dict d ''propagation_node'' load_propagation_node lx_propagation_node lx_propagation_node_update,
      on_key d ''propagation_destination'' (\<lambda>v c. Inr (case hash_text v of
        None \<Rightarrow> c | Some s \<Rightarrow> c\<lparr>lx_propagation_destination := Some s\<rparr>)),
      on_key d ''propagation_limit'' (set_int lx_propagation_limit_update),
      on_key d ''sync_limit'' (set_int lx_sync_limit_update),
      on_key d ''delivery_limit'' (set_int lx_delivery_limit_update),
      on_key d ''autopeer'' (set_bool lx_autopeer_update),
      on_key d ''autopeer_maxdepth'' (set_int lx_autopeer_maxdepth_update),
      on_key d ''max_peers'' (set_int lx_max_peers_update),
      on_key d ''from_static_only'' (set_bool lx_from_static_only_update),
      on_list d ''static_peers'' (\<lambda>vs c. Inr (c\<lparr>lx_static_peers := List.map_filter hash_text vs\<rparr>)),
      on_key d ''propagation_cost'' (set_int lx_propagation_cost_update),
      on_key d ''propagation_cost_flexibility'' (set_int lx_propagation_cost_flexibility_update),
      on_key d ''peering_cost'' (set_int lx_peering_cost_update),
      on_key d ''max_peering_cost'' (set_int lx_max_peering_cost_update)]"

definition load_ipc :: "config_env \<Rightarrow> pydict \<Rightarrow> ipc_config \<Rightarrow> ipc_config res" where
  "load_ipc env d = in_turn
     [on_key d ''enabled'' (set_bool ipc_enabled_update), on_truthy d ''socket_path'' (set_path env ipc_socket_path_update),
      on_key d ''socket_mode'' (set_int ipc_socket_mode_update)]"

definition shell_text :: "pyval \<Rightarrow> string option" where
  "shell_text v = (case v of PStr s \<Rightarrow> if prefix ''/'' s then Some s else None | _ \<Rightarrow> None)"

definition load_terminal :: "config_env \<Rightarrow> pydict \<Rightarrow> terminal_config \<Rightarrow> terminal_config res" where
  "load_terminal env d = in_turn
     [on_key d ''enabled'' (set_bool trm_enabled_update),
      on_truthy d ''default_shell'' (set_some_text env trm_default_shell_update),
      on_list d ''allowed_shells'' (\<lambda>vs c. Inr (c\<lparr>trm_allowed_shells := set (List.map_filter shell_text vs)\<rparr>)),
      on_key d ''session_idle_timeout'' (set_int trm_session_idle_timeout_update),
      on_key d ''max_sessions_per_identity'' (set_int trm_max_sessions_per_identity_update),
      on_key d ''max_total_sessions'' (set_int trm_max_total_sessions_update),
      on_key d ''rate_limit_requests'' (set_int trm_rate_limit_requests_update)]"

definition load_page_server :: "config_env \<Rightarrow> pydict \<Rightarrow> page_server_config \<Rightarrow> page_server_config res" where
  "load_page_server env d = in_turn
     [on_key d ''enabled'' (set_bool pg_enabled_update), on_truthy d ''pages_dir'' (set_path env pg_pages_dir_update),
      on_truthy d ''node_name'' (set_some_text env pg_node_name_update), on_key d ''demo'' (set_bool pg_demo_update)]"

definition load_pqc :: "pydict \<Rightarrow> pqc_config \<Rightarrow> pqc_config res" where
  "load_pqc d old =
     bind_res (case py_int (d_get_or d ''rekey_interval_hours'' (PInt 24)) of
                 Inl e \<Rightarrow> if e = ValueError \<or> e = TypeError then Inr 24 else Inl e
               | Inr i \<Rightarrow> Inr i) (\<lambda>hours.
     Inr \<lparr>pqc_enabled = parse_bool (d_get_or d ''enabled'' (PBool True)), pqc_rekey_interval_hours = hours,
          pqc_require_pqc_for_rpc = parse_bool (d_get_or d ''require_pqc_for_rpc'' (PBool False)),
          pqc_auto_initiate = parse_bool (d_get_or d ''auto_initiate'' (PBool True))\<rparr>)"

definition load_mesh_vpn :: "config_env \<Rightarrow> pydict \<Rightarrow> mesh_vpn_config \<Rightarrow> mesh_vpn_config res" where
  "load_mesh_vpn env d old =
     bind_res (py_int (d_get_or d ''listen_port'' (PInt 51820))) (\<lambda>port.
     Inr (MeshVPNConfig
       \<lparr>vpn_enable := parse_bool (d_get_or d ''enable'' (PBool False)), vpn_listen_port := port,
        vpn_subnet_prefix := text_of env (d_get_or d ''subnet_prefix'' (PStr ''fd73:7479:7265:6e65'')),
        vpn_gateway := parse_bool (d_get_or d ''gateway'' (PBool False)),
        vpn_endpoint := text_of env (d_get_or d ''endpoint'' (PStr []))\<rparr>))"

definition load_relay :: "pydict \<Rightarrow> relay_config \<Rightarrow> relay_config res" where
  "load_relay d old =
     bind_res (py_int (d_get_or d ''max_sessions'' (PInt 16))) (\<lambda>n.
     bind_res (py_int (d_get_or d ''max_per_identity'' (PInt 2))) (\<lambda>k.
     bind_res (py_int (d_get_or d ''max_bytes_per_session'' (PInt 52428800))) (\<lambda>b.
     bind_res (py_int (d_get_or d ''idle_timeout'' (PInt 900))) (\<lambda>t.
     bind_res (py_list (d_get_or d ''allowed_identities'' (PList []))) (\<lambda>ids.
     Inr \<lparr>rly_enabled = parse_bool (d_get_or d ''enabled'' (PBool False)), rly_max_sessions = n,
          rly_max_per_identity = k, rly_max_bytes_per_session = b, rly_idle_timeout = t,
          rly_allow_permanent = parse_bool (d_get_or d ''allow_permanent'' (PBool False)),
          rly_allowed_identities = ids\<rparr>)))))"

definition load_yggdrasil :: "config_env \<Rightarrow> pydict \<Rightarrow> yggdrasil_config \<Rightarrow> yggdrasil_config res" where
  "load_yggdrasil env d old =
     bind_res (py_int (d_get_or d ''listen_port'' (PInt 9002))) (\<lambda>port.
     Inr (YggdrasilConfig
       \<lparr>ygg_mode := member_or DISABLED daemon_mode_of (d_get_or d ''mode'' (PStr (daemon_mode_value DISABLED))),
        ygg_binary_path := text_of env (d_get_or d ''binary_path'' (PStr ''yggdrasil'')),
        ygg_listen_port := port, ygg_admin_socket := text_of env (d_get_or d ''admin_socket'' (PStr [])),
        ygg_multicast := parse_bool (d_get_or d ''multicast'' (PBool True)),
        ygg_bootstrap_from_rns := parse_bool (d_get_or d ''bootstrap_from_rns'' (PBool False)),
        ygg_initial_peers := (case d_get_or d ''initial_peers'' (PList []) of
                                PList vs \<Rightarrow> map (text_of env) vs | _ \<Rightarrow> [])\<rparr>))"

definition load_i2p :: "config_env \<Rightarrow> pydict \<Rightarrow> i2p_config \<Rightarrow> i2p_config res" where
  "load_i2p env d old =
     bind_res (py_int (d_get_or d ''http_proxy_port'' (PInt 4444))) (\<lambda>p.
     bind_res (py_int (d_get_or d ''managed_http_proxy_port'' (PInt 4445))) (\<lambda>mp.
     bind_res (py_int (d_get_or d ''managed_i2pcontrol_port'' (PInt 7651))) (\<lambda>cp.
     bind_res (py_int (d_get_or d ''cache_ttl'' (PInt 3600))) (\<lambda>ttl.
     bind_res (float_of env (d_get_or d ''fetch_timeout'' (PFloat 45))) (\<lambda>t.
     Inr \<lparr>i2p_mode = member_or DISABLED daemon_mode_of (d_get_or d ''mode'' (PStr (daemon_mode_value DISABLED))),
          i2p_http_proxy_host = text_of env (d_get_or d ''http_proxy_host'' (PStr ''127.0.0.1'')),
          i2p_http_proxy_port = p, i2p_managed_http_proxy_port = mp, i2p_managed_i2pcontrol_port = cp,
          i2p_b32_address = text_of env (d_get_or d ''b32_address'' (PStr [])), i2p_cache_ttl = ttl,
          i2p_fetch_timeout = t\<rparr>)))))"

definition load_group_threads :: "config_env \<Rightarrow> pydict \<Rightarrow> group_threads_config \<Rightarrow> group_threads_config res" where
  "load_group_threads env d old =
     Inr \<lparr>gt_enabled = parse_bool (d_get_or d ''enabled'' (PBool True)),
          gt_feature_tier = member_or BALANCED feature_tier_of
            (PStr (lower (text_of env (d_get_or d ''feature_tier'' (PStr (feature_tier_value BALANCED)))))),
          gt_bounded_retention = parse_bool (d_get_or d ''bounded_retention'' (PBool False)),
          gt_auto_media_fetch = parse_bool (d_get_or d ''auto_media_fetch'' (PBool True)),
          gt_metadata_first_sync = parse_bool (d_get_or d ''metadata_first_sync'' (PBool False)),
          gt_background_catchup = parse_bool (d_get_or d ''background_catchup'' (PBool True)),
          gt_first_run_auto_tier = parse_bool (d_get_or d ''first_run_auto_tier'' (PBool True))\<rparr>"

section \<open>The policy\<close>

definition load_entry ::
    "config_env \<Rightarrow> pyval \<Rightarrow> (string \<times> roster_entry) list \<Rightarrow> (string \<times> roster_entry) list res" where
  "load_entry env v acc =
     (case v of
        PDict e \<Rightarrow>
          let ih = py_strip (lower (text_of env (d_get_or e ''identity'' (PStr [])))) in
          if ih = [] then Inr acc
          else (case role_of_name (upper (text_of env (d_get_or e ''role'' (PStr ''peer'')))) of
            None \<Rightarrow> Inr acc
          | Some r \<Rightarrow>
              bind_res (py_list (d_get_or e ''grants'' (PList []))) (\<lambda>gs.
              Inr (AList.update ih
                \<lparr>identity_hash = ih, erole = r, label = text_of env (d_get_or e ''label'' (PStr [])),
                 grants = set (filter (\<lambda>g. g \<in> set ALL_CAPS) (map (\<lambda>g. py_strip (text_of env g)) gs))\<rparr> acc)))
      | _ \<Rightarrow> Inl AttributeError)"

fun load_roster ::
    "config_env \<Rightarrow> pyval list \<Rightarrow> (string \<times> roster_entry) list \<Rightarrow> (string \<times> roster_entry) list res" where
  "load_roster env [] acc = Inr acc"
| "load_roster env (v # vs) acc = bind_res (load_entry env v acc) (load_roster env vs)"

definition load_rbac :: "config_env \<Rightarrow> pydict \<Rightarrow> rbac res" where
  "load_rbac env data =
     (case d_get_or data ''rbac'' (PDict []) of
        PDict d \<Rightarrow>
          bind_res (py_list (d_get_or d ''roster'' (PList []))) (\<lambda>items.
          bind_res (load_roster env items []) (\<lambda>rs.
          bind_res (py_list (d_get_or d ''blocked'' (PList []))) (\<lambda>hs.
          Inr (RBACPolicy
            (case role_of_name (upper (text_of env (d_get_or d ''default_role'' (PStr ''peer'')))) of
               None \<Rightarrow> PEER | Some r \<Rightarrow> r)
            rs (map (\<lambda>h. py_strip (lower (text_of env h))) (filter truthy hs))))))
      | _ \<Rightarrow> Inl AttributeError)"

section \<open>The whole file\<close>

definition LEGACY_BRIDGE_POISON_KEYS :: "string list" where
  "LEGACY_BRIDGE_POISON_KEYS = [''meshtastic'', ''mqtt'']"

definition legacy_bridge_poison_pill :: "pydict \<Rightarrow> unit res" where
  "legacy_bridge_poison_pill data =
     (if filter (\<lambda>k. d_get data k \<noteq> None) LEGACY_BRIDGE_POISON_KEYS = [] then Inr () else Inl ConfigLoadError)"

definition load_profile :: "pydict \<Rightarrow> profile" where
  "load_profile data =
     (case d_get data ''profile'' of None \<Rightarrow> OPERATOR_PROFILE | Some v \<Rightarrow> member_or OPERATOR_PROFILE profile_of v)"

definition load_sections :: "config_env \<Rightarrow> pydict \<Rightarrow> core_config \<Rightarrow> core_config res" where
  "load_sections env d = in_turn
     [on_dict d ''reticulum'' (load_reticulum env) c_reticulum c_reticulum_update,
      on_dict d ''rpc'' (load_rpc env) c_rpc c_rpc_update,
      on_dict d ''discovery'' (load_discovery env) c_discovery c_discovery_update,
      on_dict d ''chat'' (load_chat env) c_chat c_chat_update,
      on_dict d ''api'' (load_api env) c_api c_api_update,
      on_dict d ''identity'' (load_identity env) c_identity c_identity_update,
      on_dict d ''notifications'' load_notifications c_notifications c_notifications_update,
      on_dict d ''lxmf'' load_lxmf c_lxmf c_lxmf_update,
      on_dict d ''ipc'' (load_ipc env) c_ipc c_ipc_update,
      on_dict d ''terminal'' (load_terminal env) c_terminal c_terminal_update,
      on_dict d ''page_server'' (load_page_server env) c_page_server c_page_server_update,
      on_dict d ''pqc'' load_pqc c_pqc c_pqc_update,
      on_dict d ''mesh_vpn'' (load_mesh_vpn env) c_mesh_vpn c_mesh_vpn_update,
      on_dict d ''relay'' load_relay c_relay c_relay_update,
      on_dict d ''yggdrasil'' (load_yggdrasil env) c_yggdrasil c_yggdrasil_update,
      on_dict d ''i2p'' (load_i2p env) c_i2p c_i2p_update,
      on_dict d ''group_threads'' (load_group_threads env) c_group_threads c_group_threads_update,
      (\<lambda>c. bind_res (load_rbac env d) (\<lambda>p. Inr (c\<lparr>c_rbac := p\<rparr>)))]"

text \<open>
  \<open>file\<close> is \<open>None\<close> when the file does not exist, else what reading it as YAML gives; a file that
  cannot be read or is not YAML is a \<open>ConfigLoadError\<close>, any other exception escapes.
\<close>

definition load_core_config :: "config_env \<Rightarrow> (unit + pyval) option \<Rightarrow> core_config res" where
  "load_core_config env file =
     (case file of
        None \<Rightarrow> Inr get_default_core_config
      | Some (Inl _) \<Rightarrow> Inl ConfigLoadError
      | Some (Inr (PDict data)) \<Rightarrow>
          bind_res (legacy_bridge_poison_pill data)
            (\<lambda>_. load_sections env data (get_profile_defaults (load_profile data)))
      | Some (Inr _) \<Rightarrow> Inr get_default_core_config)"

text \<open>Saving: the value handed to \<^verbatim>\<open>yaml.dump\<close>, or the error of a file that cannot be written.\<close>

definition save_core_config :: "bool \<Rightarrow> core_config \<Rightarrow> pyval res" where
  "save_core_config writable c = (if writable then Inr (PDict (kv (to_dict c))) else Inl ConfigLoadError)"

end
