(* ===== verification/Config_Round.thy ===== *)
theory Config_Round
  imports Config_Load
begin

text \<open>
  What saving a configuration and loading it again gives: for each section the exact condition under
  which it comes back as it was, from which follows the condition for the whole configuration.
\<close>

section \<open>Looking a written key up\<close>

lemma d_get_append: "d_get (xs @ ys) k = (case d_get xs k of None \<Rightarrow> d_get ys k | Some v \<Rightarrow> Some v)"
  by (auto simp: d_get_def map_add_def split: option.splits)

lemma d_get_when: "d_get (kv (when_true b j v)) k = (if b \<and> k = j then Some v else None)"
  by (simp add: when_true_def)

lemma d_get_opt: "d_get (kv (opt_entry j f x)) k = (if k = j then map_option f x else None)"
  by (simp add: opt_entry_def split: option.split)

lemma py_int_PInt [simp]: "py_int (PInt i) = Inr i"
  by (simp add: py_int_def)

lemma text_of_str_list: "map (text_of env \<circ> PStr) ss = ss"
  by (simp add: o_def)

lemma filter_truthy: "filter truthy (map PStr ss) = map PStr (filter (\<lambda>s. s \<noteq> []) ss)"
  by (simp add: filter_map o_def)

lemmas writing = d_get_append d_get_when d_get_opt sub_def d_get_or_def
lemmas reading = step_defs writing

section \<open>Sections that always come back\<close>

lemma server_back: "load_server env (kv (server_to_dict x)) x0 = Inr x"
  by (simp add: load_server_def server_to_dict_def reading)

lemma rpc_back: "load_rpc env (kv (rpc_to_dict x)) x0 = Inr x"
  by (simp add: load_rpc_def rpc_to_dict_def reading)

lemma chatbot_back: "load_chatbot env (kv (chatbot_to_dict x)) x0 = Inr x"
  by (simp add: load_chatbot_def chatbot_to_dict_def reading)

lemma chat_back: "load_chat env (kv (chat_to_dict x)) x0 = Inr x"
  by (simp add: load_chat_def chat_to_dict_def reading chatbot_back)

lemma web_auth_back: "load_web_auth (kv (web_auth_to_dict x)) x0 = Inr x"
  by (simp add: load_web_auth_def web_auth_to_dict_def reading)

lemma api_back: "load_api env (kv (api_to_dict x)) x0 = Inr x"
  by (simp add: load_api_def api_to_dict_def load_metrics_def reading web_auth_back)

lemma yubikey_back: "load_yubikey env (kv (yubikey_to_dict x)) x0 = Inr x"
  by (simp add: load_yubikey_def yubikey_to_dict_def reading)

lemma pqc_back: "load_pqc (kv (pqc_to_dict x)) x0 = Inr x"
  by (simp add: load_pqc_def pqc_to_dict_def reading)

lemma relay_back: "load_relay (kv (relay_to_dict x)) x0 = Inr x"
  by (simp add: load_relay_def relay_to_dict_def reading)

lemma i2p_back: "load_i2p env (kv (i2p_to_dict x)) x0 = Inr x"
  by (simp add: load_i2p_def i2p_to_dict_def reading)

lemma feature_tier_lower [simp]: "lower (feature_tier_value t) = feature_tier_value t"
  by (cases t) (simp_all add: lower_def lower_char_def)

lemma group_threads_back: "load_group_threads env (kv (group_threads_to_dict x)) x0 = Inr x"
  by (simp add: load_group_threads_def group_threads_to_dict_def reading)

lemma propagation_node_back: "load_propagation_node (kv (propagation_node_to_dict x)) x0 = Inr x"
  by (simp add: load_propagation_node_def propagation_node_to_dict_def reading)

section \<open>Sections with a condition\<close>

text \<open>
  In each \<open>keeps_\<close> the last argument is the section that is saved and the one before it the section of
  the profile defaults, which the loader starts from.
\<close>

definition keeps_path :: "config_env \<Rightarrow> string option \<Rightarrow> string option \<Rightarrow> bool" where
  "keeps_path env old new \<longleftrightarrow>
     (case new of
        None \<Rightarrow> old = None
      | Some p \<Rightarrow> if p = [] then old = Some p else expanduser env p = Inr p)"

definition keeps_ipc :: "config_env \<Rightarrow> ipc_config \<Rightarrow> ipc_config \<Rightarrow> bool" where
  "keeps_ipc env x0 x \<longleftrightarrow> keeps_path env (ipc_socket_path x0) (ipc_socket_path x)"

lemma ipc_back: "load_ipc env (kv (ipc_to_dict x)) x0 = Inr x \<longleftrightarrow> keeps_ipc env x0 x"
  by (cases x; cases x0)
    (auto simp: load_ipc_def ipc_to_dict_def reading keeps_ipc_def keeps_path_def split: option.splits)

definition keeps_vpn :: "mesh_vpn_config \<Rightarrow> bool" where
  "keeps_vpn x \<longleftrightarrow> vpn_peer_discovery x = ''lazy''"

lemma vpn_back: "load_mesh_vpn env (kv (mesh_vpn_to_dict x)) x0 = Inr x \<longleftrightarrow> keeps_vpn x"
  by (cases x) (auto simp: load_mesh_vpn_def mesh_vpn_to_dict_def reading keeps_vpn_def MeshVPNConfig_def)

definition keeps_yggdrasil :: "yggdrasil_config \<Rightarrow> bool" where
  "keeps_yggdrasil x \<longleftrightarrow> ygg_peer_discovery x = LAZY"

lemma yggdrasil_back: "load_yggdrasil env (kv (yggdrasil_to_dict x)) x0 = Inr x \<longleftrightarrow> keeps_yggdrasil x"
  by (cases x)
    (auto simp: load_yggdrasil_def yggdrasil_to_dict_def reading keeps_yggdrasil_def YggdrasilConfig_def
      str_list_def text_of_str_list)

definition keeps_discovery :: "discovery_config \<Rightarrow> discovery_config \<Rightarrow> bool" where
  "keeps_discovery x0 x \<longleftrightarrow>
     finite (disc_allowed_peers x) \<and> (\<forall>h \<in> disc_allowed_peers x. h \<noteq> [] \<and> lower h = h) \<and>
     (if disc_operator_label x = [] then disc_operator_label x0 = []
      else py_strip (disc_operator_label x) = disc_operator_label x)"

lemma access_mode_lower [simp]: "lower (mesh_access_mode_value m) = mesh_access_mode_value m"
  by (cases m) (simp_all add: lower_def lower_char_def)

lemma lowered_set: "lower ` (A - {[]}) = A \<longleftrightarrow> (\<forall>h \<in> A. h \<noteq> [] \<and> lower h = h)"
proof
  assume eq: "lower ` (A - {[]}) = A"
  have "h \<noteq> [] \<and> lower h = h" if "h \<in> A" for h
  proof -
    have "h \<in> lower ` (A - {[]})" by (simp only: eq that)
    then obtain g where "g \<noteq> []" "h = lower g" by blast
    then show ?thesis by (simp add: lower_def o_def)
  qed
  then show "\<forall>h \<in> A. h \<noteq> [] \<and> lower h = h" by blast
next
  assume fixed: "\<forall>h \<in> A. h \<noteq> [] \<and> lower h = h"
  then have "A - {[]} = A" by blast
  moreover have "lower ` A = A" using fixed by simp
  ultimately show "lower ` (A - {[]}) = A" by simp
qed

lemma peers_back:
  "set (map (\<lambda>v. lower (text_of env v)) (filter truthy (map PStr (sorted_list_of_set A)))) = A \<longleftrightarrow>
     finite A \<and> (\<forall>h \<in> A. h \<noteq> [] \<and> lower h = h)"
proof (cases "finite A")
  case True
  have "set (map (\<lambda>v. lower (text_of env v)) (filter truthy (map PStr (sorted_list_of_set A)))) = lower ` (A - {[]})"
    using True by (auto simp: filter_truthy image_image)
  then show ?thesis using True lowered_set by simp
next
  case False
  then show ?thesis by auto
qed

lemma discovery_back: "load_discovery env (kv (discovery_to_dict x)) x0 = Inr x \<longleftrightarrow> keeps_discovery x0 x"
  by (cases x; cases x0)
    (auto simp: load_discovery_def discovery_to_dict_def reading sorted_texts_def str_list_def peers_back
      keeps_discovery_def simp del: set_map)

definition keeps_identity :: "identity_config \<Rightarrow> identity_config \<Rightarrow> bool" where
  "keeps_identity x0 x \<longleftrightarrow>
     (id_display_name x = [] \<longrightarrow> id_display_name x0 = []) \<and> (id_icon x = [] \<longrightarrow> id_icon x0 = []) \<and>
     (if lower (id_provider x) \<in> {''file'', ''yubikey''} then lower (id_provider x) = id_provider x
      else id_provider x0 = id_provider x) \<and>
     (case id_short_name x of
        None \<Rightarrow> id_short_name x0 = None
      | Some n \<Rightarrow> n \<noteq> [] \<and> validate_short_name n \<or> id_short_name x0 = Some n) \<and>
     (id_provider x = ''yubikey'' \<or> yk_credential_id (id_yubikey x) \<noteq> [] \<or> id_yubikey x0 = id_yubikey x) \<and>
     (id_web_url x = [] \<longrightarrow> id_web_url x0 = [])"

lemma lower_Nil [simp]: "lower s = [] \<longleftrightarrow> s = []"
  by (simp add: lower_def)

lemma if_flip: "(if \<not> b then x else y) = (if b then y else x)"
  by simp

lemma case_if_None: "(case (if b then None else Some v) of None \<Rightarrow> x | Some y \<Rightarrow> f y) = (if b then x else f v)"
  by simp

lemma if_Inr: "(if b then Inr x else Inr y) = Inr (if b then x else y)"
  by simp

lemma case_if_Some: "(case (if b then Some v else None) of None \<Rightarrow> x | Some y \<Rightarrow> f y) = (if b then f v else x)"
  by simp

lemma if_identity:
  "(if b then \<lparr>id_display_name = d1, id_icon = i1, id_short_name = s1, id_provider = p1, id_yubikey = y1, id_web_url = w1\<rparr>
    else \<lparr>id_display_name = d2, id_icon = i2, id_short_name = s2, id_provider = p2, id_yubikey = y2, id_web_url = w2\<rparr>) =
   \<lparr>id_display_name = if b then d1 else d2, id_icon = if b then i1 else i2, id_short_name = if b then s1 else s2,
    id_provider = if b then p1 else p2, id_yubikey = if b then y1 else y2, id_web_url = if b then w1 else w2\<rparr>"
  by simp

lemma identity_loaded:
  "load_identity env (kv (identity_to_dict x)) x0 = Inr
     \<lparr>id_display_name = if id_display_name x = [] then id_display_name x0 else id_display_name x,
      id_icon = if id_icon x = [] then id_icon x0 else id_icon x,
      id_short_name = (case id_short_name x of
         None \<Rightarrow> id_short_name x0
       | Some n \<Rightarrow> if n = [] then id_short_name x0
                   else if validate_short_name n then Some n else id_short_name x0),
      id_provider = if lower (id_provider x) \<in> {''file'', ''yubikey''} then lower (id_provider x) else id_provider x0,
      id_yubikey = if id_provider x = ''yubikey'' \<or> yk_credential_id (id_yubikey x) \<noteq> []
                   then id_yubikey x else id_yubikey x0,
      id_web_url = if id_web_url x = [] then id_web_url x0 else id_web_url x\<rparr>"
proof (cases x, cases x0)
  fix d i s p y w d0 i0 s0 p0 y0 w0
  assume x: "x = \<lparr>id_display_name = d, id_icon = i, id_short_name = s, id_provider = p, id_yubikey = y, id_web_url = w\<rparr>"
    and x0: "x0 = \<lparr>id_display_name = d0, id_icon = i0, id_short_name = s0, id_provider = p0, id_yubikey = y0, id_web_url = w0\<rparr>"
  have p: "(if p \<noteq> [] then if lower p = ''file'' \<or> lower p = ''yubikey'' then a else b else b) =
      (if lower p = ''file'' \<or> lower p = ''yubikey'' then a else b)" for a b :: string
    by (auto simp: lower_def)
  show ?thesis
    unfolding x x0
    by (cases s; cases "p = []")
      (simp_all add: load_identity_def identity_to_dict_def reading nonempty_text_def yubikey_back Let_def
        if_Inr case_if_Some case_if_None if_identity if_flip lower_def del: bind_res_Inr
        split del: if_split cong: if_cong)
qed

lemma identity_back: "load_identity env (kv (identity_to_dict x)) x0 = Inr x \<longleftrightarrow> keeps_identity x0 x"
  by (cases x) (auto simp: identity_loaded keeps_identity_def split: option.splits if_splits)

definition hour_ok :: "int option \<Rightarrow> bool" where
  "hour_ok h \<longleftrightarrow> (case h of None \<Rightarrow> True | Some i \<Rightarrow> 0 \<le> i \<and> i \<le> 23)"

definition keeps_notifications :: "notifications_config \<Rightarrow> bool" where
  "keeps_notifications x \<longleftrightarrow> hour_ok (ntf_quiet_hours_start x) \<and> hour_ok (ntf_quiet_hours_end x)"

lemma notifications_back: "load_notifications (kv (notifications_to_dict x)) x0 = Inr x \<longleftrightarrow> keeps_notifications x"
  by (cases x)
    (auto simp: load_notifications_def notifications_to_dict_def reading load_hour_def NotificationsConfig_def
      keeps_notifications_def hour_ok_def split: option.splits)

lemma map_filter_partial:
  "List.map_filter f (map PStr ss) = ss \<longleftrightarrow> (\<forall>s \<in> set ss. f (PStr s) = Some s)"
  if "\<And>s t. f (PStr s) = Some t \<Longrightarrow> t = s" for f :: "pyval \<Rightarrow> string option"
proof -
  have "List.map_filter f (map PStr ss) = filter (\<lambda>s. f (PStr s) \<noteq> None) ss"
    using that by (induction ss) (auto simp: List.map_filter_simps split: option.splits)
  then show ?thesis using that by (auto simp: filter_id_conv)
qed

definition keeps_lxmf :: "lxmf_config \<Rightarrow> lxmf_config \<Rightarrow> bool" where
  "keeps_lxmf x0 x \<longleftrightarrow>
     (case lx_propagation_destination x of
        None \<Rightarrow> lx_propagation_destination x0 = None
      | Some s \<Rightarrow> py_len s = 32 \<or> lx_propagation_destination x0 = Some s) \<and>
     (if lx_static_peers x = [] then lx_static_peers x0 = [] else \<forall>s \<in> set (lx_static_peers x). py_len s = 32)"

lemma static_back:
  "List.map_filter hash_text (map PStr ss) = ss \<longleftrightarrow> (\<forall>s \<in> set ss. py_len s = 32)"
proof -
  have "hash_text (PStr s) = Some t \<longleftrightarrow> py_len s = 32 \<and> t = s" for s t by (auto simp: hash_text_def)
  then show ?thesis by (subst map_filter_partial) auto
qed

lemma lxmf_back: "load_lxmf (kv (lxmf_to_dict x)) x0 = Inr x \<longleftrightarrow> keeps_lxmf x0 x"
  by (cases x; cases x0)
    (auto simp: load_lxmf_def lxmf_to_dict_def reading propagation_node_back str_list_def static_back
      keeps_lxmf_def hash_text_def [of "PStr _"] split: option.splits)

definition keeps_terminal :: "terminal_config \<Rightarrow> terminal_config \<Rightarrow> bool" where
  "keeps_terminal x0 x \<longleftrightarrow>
     (case trm_default_shell x of
        None \<Rightarrow> trm_default_shell x0 = None | Some s \<Rightarrow> s \<noteq> [] \<or> trm_default_shell x0 = Some s) \<and>
     (if trm_allowed_shells x = {} then trm_allowed_shells x0 = {}
      else finite (trm_allowed_shells x) \<and> (\<forall>s \<in> trm_allowed_shells x. prefix ''/'' s))"

lemma shells_back:
  "A \<noteq> {} \<Longrightarrow> set (List.map_filter shell_text (map PStr (sorted_list_of_set A))) = A \<longleftrightarrow>
     finite A \<and> (\<forall>s \<in> A. prefix ''/'' s)"
proof (cases "finite A")
  case True
  have "set (List.map_filter shell_text (map PStr ss)) = {s \<in> set ss. prefix ''/'' s}" for ss
    by (induction ss) (auto simp: List.map_filter_simps shell_text_def)
  then show ?thesis using True by auto
next
  case False
  then show "A \<noteq> {} \<Longrightarrow> ?thesis" by (simp add: List.map_filter_simps)
qed

lemma terminal_back: "load_terminal env (kv (terminal_to_dict x)) x0 = Inr x \<longleftrightarrow> keeps_terminal x0 x"
  by (cases x; cases x0)
    (auto simp: load_terminal_def terminal_to_dict_def reading sorted_texts_def str_list_def shells_back
      keeps_terminal_def split: option.splits)

definition keeps_page_server :: "config_env \<Rightarrow> page_server_config \<Rightarrow> page_server_config \<Rightarrow> bool" where
  "keeps_page_server env x0 x \<longleftrightarrow>
     keeps_path env (pg_pages_dir x0) (pg_pages_dir x) \<and>
     (case pg_node_name x of None \<Rightarrow> pg_node_name x0 = None | Some s \<Rightarrow> s \<noteq> [] \<or> pg_node_name x0 = Some s) \<and>
     (pg_demo x \<or> \<not> pg_demo x0)"

lemma page_server_back:
  "load_page_server env (kv (page_server_to_dict x)) x0 = Inr x \<longleftrightarrow> keeps_page_server env x0 x"
  by (cases x; cases x0)
    (auto simp: load_page_server_def page_server_to_dict_def reading keeps_page_server_def keeps_path_def
      split: option.splits)

section \<open>Peers and hubs\<close>

definition good_peer :: "peer_config \<Rightarrow> bool" where
  "good_peer p \<longleftrightarrow> truthy (peer_name p) \<or> peer_name p = PNone"

definition read_peer :: "peer_config \<Rightarrow> peer_config" where
  "read_peer p = (if truthy (peer_name p) then p else p\<lparr>peer_name := PNone\<rparr>)"

lemma peer_back: "load_peer env (peer_to_dict p) = Inr (Some (read_peer p))"
  by (cases p) (simp add: load_peer_def peer_to_dict_def read_peer_def writing)

lemma peers_loaded: "load_peers env (map peer_to_dict ps) = Inr (map read_peer ps)"
  by (induction ps) (simp_all add: peer_back)

lemma read_good: "read_peer p = p \<longleftrightarrow> good_peer p"
  by (cases p) (auto simp: read_peer_def good_peer_def)

lemma endpoint_read [simp]: "endpoint_of (read_peer p) = endpoint_of p"
  by (simp add: read_peer_def endpoint_of_def)

definition hubs_known :: "peer_config list \<Rightarrow> bool" where
  "hubs_known ps \<longleftrightarrow> endpoint_of ` set WELL_KNOWN_HUBS \<subseteq> endpoint_of ` set ps"

lemma missing_none: "filter (\<lambda>h. endpoint_of h \<notin> endpoint_of ` set ps) WELL_KNOWN_HUBS = [] \<longleftrightarrow> hubs_known ps"
  by (auto simp: hubs_known_def filter_empty_conv)

lemma hubs_known_nonempty: "hubs_known ps \<Longrightarrow> ps \<noteq> []"
  by (auto simp: hubs_known_def WELL_KNOWN_HUBS_def)

lemma add_missing_not_Nil: "add_missing_hubs ps \<noteq> []"
  using missing_none [of ps] hubs_known_nonempty [of ps] by (auto simp: add_missing_hubs_def)

lemma map_fixed: "map f xs = xs \<longleftrightarrow> (\<forall>x \<in> set xs. f x = x)"
  by (induction xs) auto

lemma peers_restored:
  "add_missing_hubs (map read_peer ps) = ps \<longleftrightarrow> list_all good_peer ps \<and> hubs_known ps"
proof
  assume eq: "add_missing_hubs (map read_peer ps) = ps"
  let ?missing = "filter (\<lambda>h. endpoint_of h \<notin> endpoint_of ` set (map read_peer ps)) WELL_KNOWN_HUBS"
  from eq have "length (map read_peer ps) + length ?missing = length ps"
    unfolding add_missing_hubs_def by (metis length_append)
  then have none: "?missing = []" by simp
  then have "map read_peer ps = ps" using eq by (simp add: add_missing_hubs_def)
  moreover have "hubs_known ps" using none missing_none [of "map read_peer ps"] by (simp add: hubs_known_def image_image)
  ultimately show "list_all good_peer ps \<and> hubs_known ps"
    using \<open>map read_peer ps = ps\<close> by (simp add: map_fixed list_all_iff read_good)
next
  assume a: "list_all good_peer ps \<and> hubs_known ps"
  then have "map read_peer ps = ps" by (simp add: list_all_iff map_fixed read_good)
  then show "add_missing_hubs (map read_peer ps) = ps"
    using a missing_none [of ps] by (simp add: add_missing_hubs_def)
qed

definition keeps_interfaces :: "interface_config \<Rightarrow> bool" where
  "keeps_interfaces x \<longleftrightarrow> list_all good_peer (if_peers x) \<and> hubs_known (if_peers x)"

lemma interfaces_loaded:
  "load_interfaces env (kv (interfaces_to_dict x)) x0 =
     Inr (x\<lparr>if_peers := add_missing_hubs (if if_peers x = [] then if_peers x0 else map read_peer (if_peers x))\<rparr>)"
  by (cases x; cases x0)
    (simp add: load_interfaces_def interfaces_to_dict_def reading server_back peers_loaded)

lemma interfaces_back:
  "load_interfaces env (kv (interfaces_to_dict x)) x0 = Inr x \<longleftrightarrow> keeps_interfaces x"
  using peers_restored [of "if_peers x"] add_missing_not_Nil hubs_known_nonempty [of "if_peers x"]
  by (cases x) (auto simp: interfaces_loaded keeps_interfaces_def)

definition keeps_override :: "config_env \<Rightarrow> string option \<Rightarrow> string option \<Rightarrow> bool" where
  "keeps_override env old new \<longleftrightarrow>
     (case new of
        None \<Rightarrow> old = None
      | Some s \<Rightarrow> py_strip s \<noteq> [] \<and> lower (py_strip s) \<noteq> ''null'' \<and> expanduser env s = Inr s)"

definition keeps_reticulum :: "config_env \<Rightarrow> reticulum_config \<Rightarrow> reticulum_config \<Rightarrow> bool" where
  "keeps_reticulum env x0 x \<longleftrightarrow>
     (ret_enable_transport x = None \<longrightarrow> ret_enable_transport x0 = None) \<and>
     (case ret_hub_address x of
        None \<Rightarrow> ret_hub_address x0 = None | Some a \<Rightarrow> py_len a = 32 \<or> ret_hub_address x0 = Some a) \<and>
     keeps_path env (ret_operator_identity_path x0) (ret_operator_identity_path x) \<and>
     keeps_override env (ret_config_path_override x0) (ret_config_path_override x) \<and>
     keeps_interfaces (ret_interfaces x)"

lemma py_len_Nil [simp]: "py_len [] = 0"
  by (simp add: py_len_def)

lemma reticulum_back:
  "load_reticulum env (kv (reticulum_to_dict x)) x0 = Inr x \<longleftrightarrow> keeps_reticulum env x0 x"
proof (cases x, cases x0)
  fix o1 ai m et ifs ip an he ha hi o2 ai2 m2 et2 ifs2 ip2 an2 he2 ha2 hi2
  assume x: "x = \<lparr>ret_config_path_override = o1, ret_auto_initialize = ai, ret_mode = m, ret_enable_transport = et,
      ret_interfaces = ifs, ret_operator_identity_path = ip, ret_announce_interval = an, ret_hub_enabled = he,
      ret_hub_address = ha, ret_hub_announce_interval = hi\<rparr>"
    and x0: "x0 = \<lparr>ret_config_path_override = o2, ret_auto_initialize = ai2, ret_mode = m2, ret_enable_transport = et2,
      ret_interfaces = ifs2, ret_operator_identity_path = ip2, ret_announce_interval = an2, ret_hub_enabled = he2,
      ret_hub_address = ha2, ret_hub_announce_interval = hi2\<rparr>"
  note rules = load_reticulum_def reticulum_to_dict_def reading keeps_reticulum_def keeps_path_def
    keeps_override_def load_path_override_def interfaces_back
  show ?thesis
    unfolding x x0
    by (cases et; cases ha; cases ip; cases o1) (auto simp: rules split: if_splits)
qed

section \<open>The policy\<close>

text \<open>A policy as the loaders build it: every key its entry's hash and a fixed point of the clean-up.\<close>

definition fixed_text :: "string \<Rightarrow> bool" where
  "fixed_text s \<longleftrightarrow> s \<noteq> [] \<and> py_strip (lower s) = s"

definition clean_entry :: "roster_entry \<Rightarrow> bool" where
  "clean_entry e \<longleftrightarrow> fixed_text (identity_hash e) \<and> grants e \<subseteq> set ALL_CAPS"

definition clean_policy :: "rbac \<Rightarrow> bool" where
  "clean_policy p \<longleftrightarrow>
     distinct (map fst (roster p)) \<and> (\<forall>(k, e) \<in> set (roster p). k = identity_hash e \<and> clean_entry e) \<and>
     list_all fixed_text (blocked p)"

definition same_policy :: "rbac \<Rightarrow> rbac \<Rightarrow> bool" where
  "same_policy p q \<longleftrightarrow>
     default_role p = default_role q \<and> map_of (roster p) = map_of (roster q) \<and> blocked p = blocked q"

lemma role_of_key: "role_of_name (upper (role_key r)) = Some r"
  by (cases r; hypsubst; code_simp)

lemma caps_stripped: "g \<in> set ALL_CAPS \<Longrightarrow> py_strip g = g"
proof -
  have "list_all (\<lambda>g. py_strip g = g) ALL_CAPS" by code_simp
  then show "g \<in> set ALL_CAPS \<Longrightarrow> py_strip g = g" by (simp add: list_all_iff)
qed

lemma grants_back:
  assumes "A \<subseteq> set ALL_CAPS"
  shows "set (filter (\<lambda>g. g \<in> set ALL_CAPS) (map (\<lambda>g. py_strip (text_of env g)) (map PStr (sorted_list_of_set A)))) = A"
proof -
  have "finite A" using assms finite_subset by blast
  moreover have "map (\<lambda>g. py_strip (text_of env g)) (map PStr (sorted_list_of_set A)) = sorted_list_of_set A"
    using assms caps_stripped \<open>finite A\<close> by (simp add: o_def map_fixed subset_eq)
  ultimately show ?thesis using assms by auto
qed

lemma entry_back:
  assumes "clean_entry e"
  shows "load_entry env (entry_to_dict e) acc = Inr (AList.update (identity_hash e) e acc)"
proof (cases e)
  case (fields ih r l g)
  have g: "g \<noteq> {} \<Longrightarrow> set (filter (\<lambda>g. g \<in> set ALL_CAPS)
      (map (\<lambda>g. py_strip (text_of env g)) (map PStr (sorted_list_of_set g)))) = g"
    using assms fields grants_back by (simp add: clean_entry_def)
  show ?thesis
    using assms g fields
    by (simp add: load_entry_def entry_to_dict_def writing role_of_key clean_entry_def fixed_text_def
        sorted_texts_def str_list_def del: set_map set_filter)
qed

lemma roster_loaded:
  assumes "list_all clean_entry es" and "distinct (map identity_hash es)"
    and "set (map identity_hash es) \<inter> fst ` set acc = {}"
  shows "load_roster env (map entry_to_dict es) acc = Inr (acc @ map (\<lambda>e. (identity_hash e, e)) es)"
  using assms
proof (induction es arbitrary: acc)
  case (Cons e es)
  have "AList.update (identity_hash e) e acc = acc @ [(identity_hash e, e)]"
  proof -
    have "identity_hash e \<notin> fst ` set acc" using Cons.prems by auto
    then show ?thesis by (induction acc) auto
  qed
  then show ?case using Cons by (auto simp: entry_back)
qed simp

lemma blocked_back: "list_all fixed_text hs \<Longrightarrow>
    map (\<lambda>h. py_strip (lower (text_of env h))) (filter truthy (map PStr hs)) = hs"
  by (induction hs) (auto simp: fixed_text_def)

lemma sorted_entries_same:
  assumes "clean_policy p"
  shows "map_of (map (\<lambda>e. (identity_hash e, e)) (sorted_entries p)) = map_of (roster p)"
    and "distinct (map identity_hash (sorted_entries p))" and "list_all clean_entry (sorted_entries p)"
proof -
  have hash: "map identity_hash (map snd (roster p)) = map fst (roster p)"
    using assms by (auto simp: clean_policy_def)
  have dist: "distinct (map identity_hash (sorted_entries p))"
  proof -
    have "distinct (map identity_hash (map snd (roster p)))"
      using assms by (simp only: hash clean_policy_def)
    then show ?thesis by (simp only: sorted_entries_def distinct_map [of identity_hash] distinct_sort set_sort)
  qed
  have "set (map (\<lambda>e. (identity_hash e, e)) (sorted_entries p)) = set (roster p)"
  proof -
    have "map (\<lambda>x. (identity_hash (snd x), snd x)) (roster p) = roster p"
      using assms by (auto simp: map_fixed clean_policy_def)
    then have "(\<lambda>x. (identity_hash (snd x), snd x)) ` set (roster p) = set (roster p)"
      by (metis set_map)
    then show ?thesis by (simp add: sorted_entries_def image_image)
  qed
  then show "map_of (map (\<lambda>e. (identity_hash e, e)) (sorted_entries p)) = map_of (roster p)"
    using assms dist
    by (intro map_of_inject_set [THEN iffD2]) (auto simp: clean_policy_def o_def)
  show "distinct (map identity_hash (sorted_entries p))" by (rule dist)
  show "list_all clean_entry (sorted_entries p)"
    using assms by (auto simp: clean_policy_def sorted_entries_def list_all_iff)
qed

lemma rbac_back:
  assumes "clean_policy p" and "d_get data ''rbac'' = Some (sub (rbac_to_dict p))"
  shows "load_rbac env data =
    Inr (RBACPolicy (default_role p) (map (\<lambda>e. (identity_hash e, e)) (sorted_entries p)) (blocked p))"
proof -
  have "load_roster env (map entry_to_dict (sorted_entries p)) [] =
      Inr (map (\<lambda>e. (identity_hash e, e)) (sorted_entries p))"
    using sorted_entries_same [OF assms(1)] roster_loaded [of "sorted_entries p" "[]"] by simp
  moreover have "map (\<lambda>h. py_strip (lower (text_of env h))) (filter truthy (map PStr (blocked p))) = blocked p"
    using assms(1) by (intro blocked_back) (simp add: clean_policy_def)
  ultimately show ?thesis
    using assms(2) by (simp add: load_rbac_def rbac_to_dict_def writing str_list_def role_of_key)
qed

end
