(* ===== verification/Config_Theorems.thy ===== *)
theory Config_Theorems
  imports Config_Round
begin

text \<open>
  The theorems about a whole configuration file: which configurations survive saving and loading, which
  settings of the file are never read, and which files are refused.
\<close>

section \<open>Saving and loading\<close>

definition keeps :: "config_env \<Rightarrow> core_config \<Rightarrow> bool" where
  "keeps env c \<longleftrightarrow>
     (let b = get_profile_defaults (c_profile c) in
      keeps_reticulum env (c_reticulum b) (c_reticulum c) \<and> keeps_discovery (c_discovery b) (c_discovery c) \<and>
      keeps_identity (c_identity b) (c_identity c) \<and> keeps_notifications (c_notifications c) \<and>
      keeps_lxmf (c_lxmf b) (c_lxmf c) \<and> keeps_ipc env (c_ipc b) (c_ipc c) \<and>
      keeps_terminal (c_terminal b) (c_terminal c) \<and> keeps_page_server env (c_page_server b) (c_page_server c) \<and>
      keeps_vpn (c_mesh_vpn c) \<and> keeps_yggdrasil (c_yggdrasil c) \<and>
      c_security c = SecurityConfig \<and> c_logging c = LoggingConfig)"

lemma profile_frame [simp]:
  "c_profile (get_profile_defaults p) = p" "c_security (get_profile_defaults p) = SecurityConfig"
  "c_logging (get_profile_defaults p) = LoggingConfig"
  by (cases p; simp add: with_hubs_def CoreConfig_def Let_def)+

lemma sections_written:
  "d_get (kv (to_dict c)) ''profile'' = Some (PStr (profile_value (c_profile c)))"
  "d_get (kv (to_dict c)) ''meshtastic'' = None" "d_get (kv (to_dict c)) ''mqtt'' = None"
  "d_get (kv (to_dict c)) ''reticulum'' = Some (sub (reticulum_to_dict (c_reticulum c)))"
  "d_get (kv (to_dict c)) ''rpc'' = Some (sub (rpc_to_dict (c_rpc c)))"
  "d_get (kv (to_dict c)) ''discovery'' = Some (sub (discovery_to_dict (c_discovery c)))"
  "d_get (kv (to_dict c)) ''chat'' = Some (sub (chat_to_dict (c_chat c)))"
  "d_get (kv (to_dict c)) ''api'' = Some (sub (api_to_dict (c_api c)))"
  "d_get (kv (to_dict c)) ''identity'' = Some (sub (identity_to_dict (c_identity c)))"
  "d_get (kv (to_dict c)) ''notifications'' = Some (sub (notifications_to_dict (c_notifications c)))"
  "d_get (kv (to_dict c)) ''lxmf'' = Some (sub (lxmf_to_dict (c_lxmf c)))"
  "d_get (kv (to_dict c)) ''ipc'' = Some (sub (ipc_to_dict (c_ipc c)))"
  "d_get (kv (to_dict c)) ''terminal'' = Some (sub (terminal_to_dict (c_terminal c)))"
  "d_get (kv (to_dict c)) ''page_server'' = Some (sub (page_server_to_dict (c_page_server c)))"
  "d_get (kv (to_dict c)) ''pqc'' = Some (sub (pqc_to_dict (c_pqc c)))"
  "d_get (kv (to_dict c)) ''mesh_vpn'' = Some (sub (mesh_vpn_to_dict (c_mesh_vpn c)))"
  "d_get (kv (to_dict c)) ''relay'' = Some (sub (relay_to_dict (c_relay c)))"
  "d_get (kv (to_dict c)) ''yggdrasil'' = Some (sub (yggdrasil_to_dict (c_yggdrasil c)))"
  "d_get (kv (to_dict c)) ''i2p'' = Some (sub (i2p_to_dict (c_i2p c)))"
  "d_get (kv (to_dict c)) ''group_threads'' = Some (sub (group_threads_to_dict (c_group_threads c)))"
  "d_get (kv (to_dict c)) ''rbac'' = Some (sub (rbac_to_dict (c_rbac c)))"
  by (simp_all add: to_dict_def)

lemma on_section:
  "d_get d k = Some (sub ps) \<Longrightarrow>
     on_dict d k f get upd c = bind_res (f (kv ps) (get c)) (\<lambda>x. Inr (upd (\<lambda>_. x) c))"
  by (simp add: on_dict_def sub_def)

lemmas written_sections = sections_written(4-20) [THEN on_section]

lemmas sections_back = rpc_back chat_back api_back pqc_back relay_back i2p_back group_threads_back

lemmas keeps_backs = reticulum_back discovery_back identity_back notifications_back lxmf_back ipc_back
  terminal_back page_server_back vpn_back yggdrasil_back

lemma sections_loaded:
  assumes "clean_policy (c_rbac c)"
  shows "load_sections env (kv (to_dict c)) b = Inr (c\<lparr>c_rbac := p\<rparr>) \<longleftrightarrow>
    load_reticulum env (kv (reticulum_to_dict (c_reticulum c))) (c_reticulum b) = Inr (c_reticulum c) \<and>
    load_discovery env (kv (discovery_to_dict (c_discovery c))) (c_discovery b) = Inr (c_discovery c) \<and>
    load_identity env (kv (identity_to_dict (c_identity c))) (c_identity b) = Inr (c_identity c) \<and>
    load_notifications (kv (notifications_to_dict (c_notifications c))) (c_notifications b) = Inr (c_notifications c) \<and>
    load_lxmf (kv (lxmf_to_dict (c_lxmf c))) (c_lxmf b) = Inr (c_lxmf c) \<and>
    load_ipc env (kv (ipc_to_dict (c_ipc c))) (c_ipc b) = Inr (c_ipc c) \<and>
    load_terminal env (kv (terminal_to_dict (c_terminal c))) (c_terminal b) = Inr (c_terminal c) \<and>
    load_page_server env (kv (page_server_to_dict (c_page_server c))) (c_page_server b) = Inr (c_page_server c) \<and>
    load_mesh_vpn env (kv (mesh_vpn_to_dict (c_mesh_vpn c))) (c_mesh_vpn b) = Inr (c_mesh_vpn c) \<and>
    load_yggdrasil env (kv (yggdrasil_to_dict (c_yggdrasil c))) (c_yggdrasil b) = Inr (c_yggdrasil c) \<and>
    c_profile b = c_profile c \<and> c_security b = c_security c \<and> c_logging b = c_logging c \<and>
    p = RBACPolicy (default_role (c_rbac c)) (map (\<lambda>e. (identity_hash e, e)) (sorted_entries (c_rbac c)))
          (blocked (c_rbac c))"
  unfolding load_sections_def in_turn.simps written_sections rbac_back [OF assms sections_written(21)]
    sections_back bind_res_Inr
  by (cases c; cases b) auto

text \<open>
Claim C20. A configuration with a clean policy, saved and loaded again, comes back with every field
equal (the roster as a dictionary) exactly if it satisfies \<open>keeps\<close>: the strict verification flag and
the boundary sink are off, both peer-discovery settings are lazy, every well-known hub is among the
peers, an optional field is empty only where the profile's default is, and texts have the form the
loader asks for.
\<close>

theorem saved_config_comes_back:
  assumes "clean_policy (c_rbac c)"
  shows "(\<exists>p. bind_res (save_core_config True c) (\<lambda>v. load_core_config env (Some (Inr v))) = Inr (c\<lparr>c_rbac := p\<rparr>) \<and>
              same_policy p (c_rbac c)) \<longleftrightarrow> keeps env c"
proof -
  let ?p = "RBACPolicy (default_role (c_rbac c))
    (map (\<lambda>e. (identity_hash e, e)) (sorted_entries (c_rbac c))) (blocked (c_rbac c))"
  let ?b = "get_profile_defaults (c_profile c)"
  have same: "same_policy ?p (c_rbac c)"
    using sorted_entries_same(1) [OF assms] by (simp add: same_policy_def RBACPolicy_def)
  have "bind_res (save_core_config True c) (\<lambda>v. load_core_config env (Some (Inr v))) =
      load_sections env (kv (to_dict c)) ?b"
    by (simp add: save_core_config_def load_core_config_def legacy_bridge_poison_pill_def
        LEGACY_BRIDGE_POISON_KEYS_def load_profile_def member_or_def sections_written(1-3))
  then show ?thesis
    using same unfolding sections_loaded [OF assms] keeps_backs keeps_def Let_def
    by (simp only: bind_res_simps profile_frame sections_loaded [OF assms] keeps_backs) auto
qed

definition ex_env :: config_env where
  "ex_env = \<lparr>repr_of = \<lambda>_. ''?'', float_of_text = \<lambda>_. Inl ValueError, expanduser = Inr\<rparr>"

definition operator_defaults :: core_config where
  "operator_defaults = get_profile_defaults OPERATOR_PROFILE"

lemma operator_keeps: "keeps ex_env operator_defaults"
proof -
  have "c_discovery operator_defaults = DiscoveryConfig" by code_simp
  then have "keeps_discovery (c_discovery operator_defaults) (c_discovery operator_defaults)"
    by (simp add: keeps_discovery_def DiscoveryConfig_def)
  moreover have "c_terminal operator_defaults = TerminalConfig" by code_simp
  then have "keeps_terminal (c_terminal operator_defaults) (c_terminal operator_defaults)"
    by (simp add: keeps_terminal_def TerminalConfig_def)
  moreover have "keeps_reticulum ex_env (c_reticulum operator_defaults) (c_reticulum operator_defaults)" by code_simp
  moreover have "keeps_identity (c_identity operator_defaults) (c_identity operator_defaults)" by code_simp
  moreover have "keeps_notifications (c_notifications operator_defaults)" by code_simp
  moreover have "keeps_lxmf (c_lxmf operator_defaults) (c_lxmf operator_defaults)" by code_simp
  moreover have "keeps_ipc ex_env (c_ipc operator_defaults) (c_ipc operator_defaults)" by code_simp
  moreover have "keeps_page_server ex_env (c_page_server operator_defaults) (c_page_server operator_defaults)"
    by code_simp
  moreover have "keeps_vpn (c_mesh_vpn operator_defaults)" by code_simp
  moreover have "keeps_yggdrasil (c_yggdrasil operator_defaults)" by code_simp
  moreover have "c_security operator_defaults = SecurityConfig" "c_logging operator_defaults = LoggingConfig"
    "get_profile_defaults (c_profile operator_defaults) = operator_defaults" by code_simp+
  ultimately show ?thesis by (simp add: keeps_def Let_def)
qed

theorem saved_config_comes_back_witness:
  "(\<exists>p. bind_res (save_core_config True operator_defaults) (\<lambda>v. load_core_config ex_env (Some (Inr v))) =
        Inr (operator_defaults\<lparr>c_rbac := p\<rparr>) \<and> same_policy p (c_rbac operator_defaults)) \<and>
   \<not> (\<exists>p. bind_res (save_core_config True (operator_defaults\<lparr>c_security := \<lparr>sec_strict_binary_verification = True\<rparr>\<rparr>))
          (\<lambda>v. load_core_config ex_env (Some (Inr v))) =
        Inr (operator_defaults\<lparr>c_security := \<lparr>sec_strict_binary_verification = True\<rparr>, c_rbac := p\<rparr>) \<and>
        same_policy p (c_rbac operator_defaults))"
proof -
  let ?s = "operator_defaults\<lparr>c_security := \<lparr>sec_strict_binary_verification = True\<rparr>\<rparr>"
  have clean: "clean_policy (c_rbac operator_defaults)" by code_simp
  have "\<not> keeps ex_env ?s" by (simp add: keeps_def Let_def SecurityConfig_def)
  then show ?thesis
    using saved_config_comes_back [OF clean, of ex_env] operator_keeps
      saved_config_comes_back [of ?s ex_env] clean
    by simp
qed

section \<open>Settings that are never read\<close>

lemma in_turn_keeps:
  assumes "\<And>f c y. f \<in> set fs \<Longrightarrow> f c = Inr y \<Longrightarrow> P c \<Longrightarrow> P y"
  shows "in_turn fs c = Inr y \<Longrightarrow> P c \<Longrightarrow> P y"
  using assms by (induction fs arbitrary: c) auto

definition unread :: "core_config \<Rightarrow> bool" where
  "unread c \<longleftrightarrow>
     c_security c = SecurityConfig \<and> c_logging c = LoggingConfig \<and>
     ygg_peer_discovery (c_yggdrasil c) = LAZY \<and> vpn_peer_discovery (c_mesh_vpn c) = ''lazy''"

lemma unread_defaults: "unread (get_profile_defaults p)"
  by (cases p)
    (simp_all add: unread_def with_hubs_def CoreConfig_def Let_def YggdrasilConfig_def MeshVPNConfig_def)

lemma on_dict_keeps:
  assumes "on_dict d k f get upd c = Inr y" "unread c"
    and "\<And>x s. f s (get c) = Inr x \<Longrightarrow> unread (upd (\<lambda>_. x) c)"
  shows "unread y"
  using assms by (auto simp: on_dict_def split: option.splits pyval.splits)

lemma sections_unread: "load_sections env d c = Inr y \<Longrightarrow> unread c \<Longrightarrow> unread y"
  unfolding load_sections_def
proof (erule in_turn_keeps [rotated], assumption)
  fix f c y
  assume "f \<in> set
     [on_dict d ''reticulum'' (load_reticulum env) c_reticulum c_reticulum_update,
      on_dict d ''rpc'' (load_rpc env) c_rpc c_rpc_update,
      on_dict d ''discovery'' (load_discovery env) c_discovery c_discovery_update,
      on_dict d ''chat'' (load_chat env) c_chat c_chat_update,
      on_dict d ''api'' (load_api env) c_api c_api_update,
      on_dict d ''identity'' (load_identity env) c_identity c_identity_update,
      on_dict d ''notifications'' load_notifications c_notifications c_notifications_update,
      on_dict d ''lxmf'' load_lxmf c_lxmf c_lxmf_update,
      on_dict d ''ipc'' (load_ipc env) c_ipc c_ipc_update,
      on_dict d ''terminal'' (load_terminal env) c_terminal c_terminal_update,
      on_dict d ''page_server'' (load_page_server env) c_page_server c_page_server_update,
      on_dict d ''pqc'' load_pqc c_pqc c_pqc_update,
      on_dict d ''mesh_vpn'' (load_mesh_vpn env) c_mesh_vpn c_mesh_vpn_update,
      on_dict d ''relay'' load_relay c_relay c_relay_update,
      on_dict d ''yggdrasil'' (load_yggdrasil env) c_yggdrasil c_yggdrasil_update,
      on_dict d ''i2p'' (load_i2p env) c_i2p c_i2p_update,
      on_dict d ''group_threads'' (load_group_threads env) c_group_threads c_group_threads_update,
      (\<lambda>c. bind_res (load_rbac env d) (\<lambda>p. Inr (c\<lparr>c_rbac := p\<rparr>)))]"
    and "f c = Inr y" and "unread c"
  then show "unread y"
    by (auto elim!: on_dict_keeps)
      (auto simp: unread_def load_yggdrasil_def load_mesh_vpn_def YggdrasilConfig_def MeshVPNConfig_def)
qed

text \<open>
Whatever the configuration file holds, a configuration loaded from it has strict binary
verification and the boundary sink off and both peer-discovery settings lazy: those settings are
written by the program and never read.
\<close>

theorem security_settings_never_read:
  assumes "load_core_config env file = Inr c"
  shows "c_security c = SecurityConfig \<and> c_logging c = LoggingConfig \<and>
    ygg_peer_discovery (c_yggdrasil c) = LAZY \<and> vpn_peer_discovery (c_mesh_vpn c) = ''lazy''"
proof -
  have "unread c"
    using assms
    by (auto simp: load_core_config_def get_default_core_config_def legacy_bridge_poison_pill_def
        simp del: get_profile_defaults.simps split: option.splits sum.splits pyval.splits if_splits
        intro: unread_defaults sections_unread [OF _ unread_defaults])
  then show ?thesis by (simp add: unread_def)
qed

definition strict_file :: pyval where
  "strict_file = sub [(''security'', sub [(''strict_binary_verification'', PBool True)])]"

theorem security_settings_never_read_witness:
  "\<exists>c. load_core_config ex_env (Some (Inr strict_file)) = Inr c \<and> \<not> sec_strict_binary_verification (c_security c)"
proof -
  have "load_core_config ex_env (Some (Inr strict_file)) = Inr operator_defaults" by code_simp
  then show ?thesis
    using security_settings_never_read [of ex_env "Some (Inr strict_file)" operator_defaults]
    by (simp add: SecurityConfig_def)
qed

end
