(* ===== verification/Config_Validate.thy ===== *)
theory Config_Validate
  imports Config_Round
begin

text \<open>
  The semantic validation of a configuration (\<^verbatim>\<open>validate_core_config\<close> of
  \<^verbatim>\<open>src/styrened/services/config.py\<close>): the list of field errors in the order of the checks, and when it
  is empty. The checks that a profile and a mode are members of their own enumeration never fail and
  are left out.
\<close>

record config_field_error =
  err_field :: string
  err_message :: string
  err_value :: "string option"

definition field_error :: "string \<Rightarrow> string \<Rightarrow> string option \<Rightarrow> config_field_error" where
  "field_error f m v = \<lparr>err_field = f, err_message = m, err_value = v\<rparr>"

definition report :: "bool \<Rightarrow> string \<Rightarrow> string \<Rightarrow> string option \<Rightarrow> config_field_error list" where
  "report bad f m v = (if bad then [field_error f m v] else [])"

text \<open>\<^verbatim>\<open>str(error)\<close>.\<close>

definition show_field_error :: "config_field_error \<Rightarrow> string" where
  "show_field_error e =
     err_field e @ '': '' @ err_message e @
     (case err_value e of None \<Rightarrow> [] | Some v \<Rightarrow> if v = [] then [] else '' (got: '' @ v @ '')'')"

fun show_base :: "nat \<Rightarrow> nat \<Rightarrow> string" where
  "show_base b n = (if n < b \<or> b < 2 then [digit_char n] else show_base b (n div b) @ [digit_char (n mod b)])"

text \<open>\<^verbatim>\<open>oct(i)\<close>.\<close>

definition show_oct :: "int \<Rightarrow> string" where
  "show_oct i = (if i < 0 then ''-0o'' @ show_base 8 (nat (- i)) else ''0o'' @ show_base 8 (nat i))"

definition check_port :: "string \<Rightarrow> int \<Rightarrow> config_field_error list" where
  "check_port f port = report (\<not> (1 \<le> port \<and> port \<le> 65535)) f ''Port must be 1-65535'' (Some (show_int port))"

definition min_public_announce_interval :: int where "min_public_announce_interval = 3600"

definition check_peer :: "nat \<Rightarrow> peer_config \<Rightarrow> config_field_error list" where
  "check_peer i p =
     (let name = ''reticulum.interfaces.peers['' @ show_nat i @ '']'' in
      check_port (name @ ''.port'') (peer_port p) @
      report (peer_host p = []) (name @ ''.host'') ''Host cannot be empty'' None)"

definition check_peers :: "peer_config list \<Rightarrow> config_field_error list" where
  "check_peers ps = concat (map (\<lambda>(i, p). check_peer i p) (zip [0..<length ps] ps))"

definition check_reticulum :: "reticulum_config \<Rightarrow> config_field_error list" where
  "check_reticulum r =
     report (ret_announce_interval r < min_public_announce_interval) ''reticulum.announce_interval''
       (''Must be >= 3600 seconds on public Reticulum transports; '' @
        ''use styrene-rs or isolated test fixtures for faster local simulation'')
       (Some (show_int (ret_announce_interval r))) @
     report (ret_hub_announce_interval r < min_public_announce_interval) ''reticulum.hub_announce_interval''
       (''Must be >= 3600 seconds on public Reticulum transports; '' @
        ''legacy Python hub announces are intentionally rate-limited'')
       (Some (show_int (ret_hub_announce_interval r))) @
     (case ret_hub_address r of
        None \<Rightarrow> []
      | Some a \<Rightarrow> report (py_len a \<noteq> 32) ''reticulum.hub_address'' ''Must be a 32-character hex hash'' (Some a)) @
     check_port ''reticulum.interfaces.server.port'' (srv_port (if_server (ret_interfaces r))) @
     check_peers (if_peers (ret_interfaces r)) @
     report (ret_mode r = HUB_MODE \<and> \<not> srv_enabled (if_server (ret_interfaces r)) \<and> if_peers (ret_interfaces r) = [])
       ''reticulum.mode'' ''Hub mode requires at least a server interface or peer connections'' (Some ''hub'')"

definition check_identity :: "identity_config \<Rightarrow> config_field_error list" where
  "check_identity i =
     report (id_display_name i = [] \<or> 100 < py_len (id_display_name i)) ''identity.display_name''
       ''Must be 1-100 characters'' (Some (py_take 20 (id_display_name i))) @
     (case id_short_name i of
        None \<Rightarrow> []
      | Some n \<Rightarrow> report (\<not> validate_short_name n) ''identity.short_name''
          ''Must be 3-20 lowercase alphanumeric + hyphens, no leading/trailing hyphens'' (Some n)) @
     report (id_provider i \<notin> {''file'', ''yubikey''}) ''identity.provider'' (''Must be 'file' or 'yubikey'' @ [CHR 0x27])
       (Some (id_provider i))"

definition check_api :: "api_config \<Rightarrow> config_field_error list" where
  "check_api a =
     check_port ''api.port'' (api_port a) @
     report (auth_session_ttl (api_auth a) < 60) ''api.auth.session_ttl'' ''Must be >= 60 seconds''
       (Some (show_int (auth_session_ttl (api_auth a))))"

definition check_ipc :: "ipc_config \<Rightarrow> config_field_error list" where
  "check_ipc i =
     report (\<not> (0 \<le> ipc_socket_mode i \<and> ipc_socket_mode i \<le> 511)) ''ipc.socket_mode''
       ''Must be a valid Unix permission (0-0o777)'' (Some (show_oct (ipc_socket_mode i)))"

definition check_chat :: "config_env \<Rightarrow> chat_config \<Rightarrow> config_field_error list" where
  "check_chat env c =
     report (chat_auto_reply_cooldown c < 0) ''chat.auto_reply_cooldown'' ''Must be >= 0''
       (Some (show_int (chat_auto_reply_cooldown c))) @
     report (chat_auto_reply_mode c = CHATBOT \<and> bot_endpoint (chat_chatbot c) = []) ''chat.chatbot.endpoint''
       (''Endpoint is required when auto_reply_mode is 'chatbot'' @ [CHR 0x27]) None @
     report (\<not> (0 \<le> bot_temperature (chat_chatbot c) \<and> bot_temperature (chat_chatbot c) \<le> 2))
       ''chat.chatbot.temperature'' ''Must be between 0.0 and 2.0''
       (Some (repr_of env (PFloat (bot_temperature (chat_chatbot c))))) @
     report (bot_max_tokens (chat_chatbot c) < 1) ''chat.chatbot.max_tokens'' ''Must be >= 1''
       (Some (show_int (bot_max_tokens (chat_chatbot c))))"

definition check_hour :: "string \<Rightarrow> int option \<Rightarrow> config_field_error list" where
  "check_hour f h =
     (case h of None \<Rightarrow> [] | Some i \<Rightarrow> report (\<not> (0 \<le> i \<and> i \<le> 23)) f ''Must be 0-23'' (Some (show_int i)))"

definition check_lxmf :: "lxmf_config \<Rightarrow> config_field_error list" where
  "check_lxmf l =
     report (pn_enabled (lx_propagation_node l) \<and> \<not> truthy (pn_name (lx_propagation_node l)))
       ''lxmf.propagation_node.name'' ''Propagation node requires a name when enabled'' None @
     (case lx_propagation_destination l of
        None \<Rightarrow> []
      | Some d \<Rightarrow> report (py_len d \<noteq> 32) ''lxmf.propagation_destination'' ''Must be a 32-character hex hash'' (Some d)) @
     concat (map (\<lambda>h. report (py_len h \<noteq> 32) ''lxmf.static_peers'' ''Each peer must be a 32-character hex hash''
       (Some h)) (lx_static_peers l))"

definition check_rbac :: "rbac \<Rightarrow> config_field_error list" where
  "check_rbac p =
     concat (map (\<lambda>(k, e). report (py_len k \<noteq> 32) ''rbac.roster'' ''Identity hash must be 32 hex characters'' (Some k))
       (roster p)) @
     concat (map (\<lambda>h. report (py_len h < 4) ''rbac.blocked''
       ''Blocked prefix should be at least 4 chars to avoid collisions'' (Some h)) (blocked p))"

definition check_pqc :: "pqc_config \<Rightarrow> config_field_error list" where
  "check_pqc p =
     report (pqc_rekey_interval_hours p < 1) ''pqc.rekey_interval_hours'' ''Must be >= 1''
       (Some (show_int (pqc_rekey_interval_hours p)))"

definition all_errors :: "config_env \<Rightarrow> core_config \<Rightarrow> config_field_error list" where
  "all_errors env c =
     check_reticulum (c_reticulum c) @ check_identity (c_identity c) @ check_api (c_api c) @ check_ipc (c_ipc c) @
     check_chat env (c_chat c) @ check_hour ''notifications.quiet_hours_start'' (ntf_quiet_hours_start (c_notifications c)) @
     check_hour ''notifications.quiet_hours_end'' (ntf_quiet_hours_end (c_notifications c)) @
     check_lxmf (c_lxmf c) @ check_rbac (c_rbac c) @ check_pqc (c_pqc c)"

text \<open>\<open>Inl\<close>: the \<^verbatim>\<open>ConfigValidationError\<close>, which carries the errors.\<close>

definition validate_core_config ::
    "config_env \<Rightarrow> bool \<Rightarrow> core_config \<Rightarrow> config_field_error list + config_field_error list" where
  "validate_core_config env raise_on_error c =
     (let es = all_errors env c in if raise_on_error \<and> es \<noteq> [] then Inl es else Inr es)"

section \<open>When there is no error\<close>

definition port_ok :: "int \<Rightarrow> bool" where
  "port_ok p \<longleftrightarrow> 1 \<le> p \<and> p \<le> 65535"

lemma report_Nil [simp]: "report bad f m v = [] \<longleftrightarrow> \<not> bad"
  by (simp add: report_def)

lemma check_port_Nil [simp]: "check_port f p = [] \<longleftrightarrow> port_ok p"
  by (simp add: check_port_def port_ok_def)

lemma check_peers_Nil:
  "check_peers ps = [] \<longleftrightarrow> (\<forall>p \<in> set ps. port_ok (peer_port p) \<and> peer_host p \<noteq> [])"
proof -
  have "check_peers ps = [] \<longleftrightarrow> (\<forall>(i, p) \<in> set (zip [0..<length ps] ps). port_ok (peer_port p) \<and> peer_host p \<noteq> [])"
    by (auto simp: check_peers_def check_peer_def Let_def)
  also have "\<dots> \<longleftrightarrow> (\<forall>p \<in> snd ` set (zip [0..<length ps] ps). port_ok (peer_port p) \<and> peer_host p \<noteq> [])"
    by auto
  also have "snd ` set (zip [0..<length ps] ps) = set ps"
    by (metis length_upt list.set_map map_snd_zip minus_nat.diff_0)
  finally show ?thesis .
qed

text \<open>The well-known hubs the loader adds are valid, so adding them keeps a valid list of peers valid.\<close>

lemma hubs_valid: "h \<in> set WELL_KNOWN_HUBS \<Longrightarrow> port_ok (peer_port h) \<and> peer_host h \<noteq> []"
  by (auto simp: WELL_KNOWN_HUBS_def port_ok_def)

lemma added_hubs_valid: "check_peers ps = [] \<Longrightarrow> check_peers (add_missing_hubs ps) = []"
  using hubs_valid by (auto simp: check_peers_Nil add_missing_hubs_def)

text \<open>The defaults of the hub profile are not valid: the propagation node they switch on has no name.\<close>

lemma hub_defaults_invalid:
  "map err_field (all_errors env (get_profile_defaults HUB_PROFILE)) = [''lxmf.propagation_node.name'']"
proof -
  let ?c = "get_profile_defaults HUB_PROFILE"
  note defaults = with_hubs_def CoreConfig_def Let_def
  have "check_reticulum (c_reticulum ?c) = []"
    by (simp add: defaults check_reticulum_def check_peers_Nil hubs_valid ReticulumConfig_def InterfaceConfig_def
        ServerInterfaceConfig_def min_public_announce_interval_def port_ok_def [of 4242] WELL_KNOWN_HUBS_def port_ok_def)
  moreover have "check_identity (c_identity ?c) = []"
    by (simp add: defaults check_identity_def IdentityConfig_def py_len_def utf8_cont_def)
  moreover have "check_api (c_api ?c) = []" "check_ipc (c_ipc ?c) = []" "check_pqc (c_pqc ?c) = []"
    by (simp_all add: defaults check_api_def APIConfig_def WebAuthConfig_def port_ok_def check_ipc_def IPCConfig_def
        check_pqc_def PQCConfig_def)
  moreover have "check_chat env (c_chat ?c) = []"
    by (simp add: defaults check_chat_def ChatConfig_def ChatbotConfig_def)
  moreover have "c_notifications ?c = NotificationsConfig\<lparr>ntf_enabled := False\<rparr>" "c_rbac ?c = RBACPolicy PEER [] []"
    by (simp_all add: defaults)
  moreover have "check_lxmf (c_lxmf ?c) =
      [field_error ''lxmf.propagation_node.name'' ''Propagation node requires a name when enabled'' None]"
    by (simp add: defaults check_lxmf_def LXMFConfig_def PropagationNodeConfig_def report_def)
  ultimately show ?thesis
    by (simp add: all_errors_def check_hour_def NotificationsConfig_def check_rbac_def RBACPolicy_def field_error_def
        del: get_profile_defaults.simps)
qed

end
