(* ===== verification/Micron.thy ===== *)
theory Micron
  imports Py_Numbers
begin

text \<open>
  The markup of NomadNet pages (\<^verbatim>\<open>src/styrened/tui/widgets/micron_parser.py\<close>): the parser from the
  page's text to elements, with the formatting state that persists from line to line, and the
  rendering of the elements to the markup of the Rich library. Pages come from other nodes. An
  element is a constructor for each element type with the fields that type uses.
\<close>

section \<open>Elements\<close>

datatype alignment = LEFT | CENTER | RIGHT

datatype field_type = FT_TEXT | PASSWORD | CHECKBOX | RADIO

record text_style =
  bold :: bool
  italic :: bool
  underline :: bool
  fg_color :: "string option"
  bg_color :: "string option"
  style_alignment :: alignment

definition TextStyle :: text_style where
  "TextStyle = \<lparr>bold = False, italic = False, underline = False, fg_color = None, bg_color = None,
     style_alignment = LEFT\<rparr>"

text \<open>
  \<open>HEADING\<close> has content, level and children; \<open>LINK\<close> label, url, fields and style; \<open>FORM_FIELD\<close> type,
  name, value, width, whether it is checked, and content.
\<close>

datatype micron_element =
    HEADING string nat "micron_element list option"
  | TEXT string text_style
  | DIVIDER string
  | LINK string string string text_style
  | LITERAL string
  | FORM_FIELD field_type string string nat bool string
  | PAGE_DIRECTIVE string string

fun elem_content :: "micron_element \<Rightarrow> string" where
  "elem_content (HEADING t l ch) = t"
| "elem_content (TEXT t s) = t"
| "elem_content (LINK t u f s) = t"
| "elem_content (LITERAL t) = t"
| "elem_content (FORM_FIELD ty n v w c t) = t"
| "elem_content _ = []"

fun elem_style :: "micron_element \<Rightarrow> text_style" where
  "elem_style (HEADING t l ch) = TextStyle\<lparr>bold := True\<rparr>"
| "elem_style (TEXT t s) = s"
| "elem_style (LINK t u f s) = s"
| "elem_style _ = TextStyle"

section \<open>Texts\<close>

abbreviation backslash :: char where "backslash \<equiv> CHR 0x5C"
abbreviation backtick :: char where "backtick \<equiv> CHR 0x60"

text \<open>\<^verbatim>\<open>s[n:]\<close> by code points, \<^verbatim>\<open>s.find(c)\<close> with the two sides, \<^verbatim>\<open>s.replace(c, t)\<close> for one character.\<close>

fun py_drop :: "nat \<Rightarrow> string \<Rightarrow> string" where
  "py_drop n [] = []"
| "py_drop n (c # cs) =
     (if utf8_cont (of_char c) then py_drop n cs
      else case n of 0 \<Rightarrow> c # cs | Suc k \<Rightarrow> py_drop k cs)"

definition cut_at :: "char \<Rightarrow> string \<Rightarrow> (string \<times> string) option" where
  "cut_at c s = (case dropWhile (\<lambda>x. x \<noteq> c) s of [] \<Rightarrow> None | y # after \<Rightarrow> Some (takeWhile (\<lambda>x. x \<noteq> c) s, after))"

definition replace_char :: "char \<Rightarrow> string \<Rightarrow> string \<Rightarrow> string" where
  "replace_char c t s = concat (map (\<lambda>x. if x = c then t else [x]) s)"

lemma length_py_drop: "length (py_drop n s) \<le> length s"
  by (induction n s rule: py_drop.induct) (auto split: nat.splits)

lemma cut_at_length: "cut_at c s = Some (a, b) \<Longrightarrow> length b < length s"
  using length_dropWhile_le [of "\<lambda>x. x \<noteq> c" s] by (auto simp: cut_at_def split: list.splits)

lemma cut_at_word: "c \<notin> set w \<Longrightarrow> cut_at c (w @ c # r) = Some (w, r)"
  by (induction w) (auto simp: cut_at_def split: list.splits)

lemma cut_at_none: "cut_at c s = None \<longleftrightarrow> c \<notin> set s"
proof (cases "c \<in> set s")
  case True
  then obtain w r where "s = w @ c # r" "c \<notin> set w" by (meson split_list_first)
  then show ?thesis by (simp add: cut_at_word)
next
  case False
  then have none: "dropWhile (\<lambda>x. x \<noteq> c) s = []" by (auto simp: dropWhile_eq_Nil_conv)
  show ?thesis unfolding cut_at_def none using False by simp
qed

section \<open>Colours\<close>

text \<open>\<^verbatim>\<open>f"{n:02x}"\<close> of a byte, and whether \<^verbatim>\<open>int(s, 16)\<close> accepts a text (ASCII digits).\<close>

definition hex2 :: "nat \<Rightarrow> string" where
  "hex2 n = [hex_digit (n div 16 mod 16), hex_digit (n mod 16)]"

fun hex_digits :: "bool \<Rightarrow> string \<Rightarrow> bool" where
  "hex_digits us [] = False"
| "hex_digits us (c # cs) =
     (if c = CHR ''_'' then us \<and> hex_digits False cs
      else hex_value c \<noteq> None \<and> (cs = [] \<or> hex_digits True cs))"

definition int16_ok :: "string \<Rightarrow> bool" where
  "int16_ok s =
     (let t = py_strip s; u = (if t \<noteq> [] \<and> (hd t = CHR ''+'' \<or> hd t = CHR ''-'') then tl t else t) in
      if take 2 u = ''0x'' \<or> take 2 u = ''0X'' then hex_digits True (drop 2 u) else hex_digits False u)"

definition clamp_byte :: "int \<Rightarrow> nat" where
  "clamp_byte i = nat (max 0 (min 255 i))"

definition expand_color :: "string \<Rightarrow> string option" where
  "expand_color code =
     (if code = [] then None
      else if hd code = CHR ''g'' \<and> 2 \<le> py_len code
      then (case int_of_text (tl code) of
              Inl _ \<Rightarrow> None
            | Inr p \<Rightarrow> let h = hex2 (clamp_byte (sgn p * (\<bar>p\<bar> * 255 div 99))) in Some (''#'' @ h @ h @ h))
      else if py_len code = 3 then
        (if int16_ok code
         then let c = py_chars code in Some (''#'' @ c!0 @ c!0 @ c!1 @ c!1 @ c!2 @ c!2) else None)
      else if py_len code = 6 then (if int16_ok code then Some (''#'' @ code) else None)
      else None)"

section \<open>Links and form fields\<close>

definition parse_link :: "string \<Rightarrow> text_style \<Rightarrow> micron_element" where
  "parse_link inner st =
     (case split_on backtick inner of
        [url] \<Rightarrow> LINK url url [] (st\<lparr>underline := True\<rparr>)
      | [lab, url] \<Rightarrow> LINK lab url [] (st\<lparr>underline := True\<rparr>)
      | lab # url # fs # rest \<Rightarrow> LINK lab url fs (st\<lparr>underline := True\<rparr>)
      | [] \<Rightarrow> LINK [] [] [] (st\<lparr>underline := True\<rparr>))"

text \<open>
  \<open>digit_char_p\<close> says of a character outside ASCII whether \<^verbatim>\<open>str.isdigit\<close> holds, and
  \<open>decimal_char\<close> its decimal value where \<^verbatim>\<open>int\<close> accepts it: a superscript is a digit without
  one. \<^verbatim>\<open>int\<close> refuses more than 4300 digits.
\<close>

record unicode_digits =
  digit_char_p :: "string \<Rightarrow> bool"
  decimal_char :: "string \<Rightarrow> nat option"

definition char_digit :: "unicode_digits \<Rightarrow> string \<Rightarrow> bool" where
  "char_digit u c = (case c of [a] \<Rightarrow> digit_value a \<noteq> None | _ \<Rightarrow> digit_char_p u c)"

definition char_decimal :: "unicode_digits \<Rightarrow> string \<Rightarrow> nat option" where
  "char_decimal u c = (case c of [a] \<Rightarrow> map_option nat (digit_value a) | _ \<Rightarrow> decimal_char u c)"

definition isdigit :: "unicode_digits \<Rightarrow> string \<Rightarrow> bool" where
  "isdigit u s \<longleftrightarrow> s \<noteq> [] \<and> list_all (char_digit u) (py_chars s)"

fun decimal_value :: "unicode_digits \<Rightarrow> string list \<Rightarrow> nat \<Rightarrow> nat res" where
  "decimal_value u [] acc = Inr acc"
| "decimal_value u (c # cs) acc =
     (case char_decimal u c of None \<Rightarrow> Inl ValueError | Some d \<Rightarrow> decimal_value u cs (10 * acc + d))"

definition field_width :: "unicode_digits \<Rightarrow> string \<Rightarrow> nat res" where
  "field_width u s =
     (if isdigit u s
      then if 4300 < py_len s then Inl ValueError
           else bind_res (decimal_value u (py_chars s) 0) (\<lambda>n. Inr (min n 256))
      else Inr 24)"

definition segment :: "string list \<Rightarrow> nat \<Rightarrow> string" where
  "segment ss n = (if n < length ss then ss ! n else [])"

definition starts :: "char \<Rightarrow> string \<Rightarrow> bool" where
  "starts c s \<longleftrightarrow> s \<noteq> [] \<and> hd s = c"

definition parse_form_field :: "unicode_digits \<Rightarrow> string \<Rightarrow> micron_element res" where
  "parse_form_field u inner =
     (let parts = split_on backtick inner; descriptor = hd parts; dflt = segment parts 1 in
      if CHR ''|'' \<notin> set descriptor then Inr (FORM_FIELD FT_TEXT descriptor dflt 24 False dflt)
      else
        let segs = split_on (CHR ''|'') descriptor; flags = hd segs; checked = (3 < length segs \<and> segs ! 3 = ''*'') in
        if starts (CHR ''?'') flags then Inr (FORM_FIELD CHECKBOX (segment segs 1) (segment segs 2) 24 checked dflt)
        else if starts (CHR ''^'') flags then Inr (FORM_FIELD RADIO (segment segs 1) (segment segs 2) 24 checked dflt)
        else if starts (CHR ''!'') flags
        then bind_res (field_width u (dropWhile (\<lambda>c. c = CHR ''!'') flags)) (\<lambda>w.
               Inr (FORM_FIELD PASSWORD (segment segs 1) dflt w False dflt))
        else bind_res (field_width u flags) (\<lambda>w. Inr (FORM_FIELD FT_TEXT (segment segs 1) dflt w False dflt)))"

section \<open>A line\<close>

definition flush :: "string \<Rightarrow> text_style \<Rightarrow> micron_element list" where
  "flush cur st = (if cur = [] then [] else [TEXT cur st])"

type_synonym parsed = "(micron_element list \<times> text_style) res"

definition after :: "micron_element list \<Rightarrow> parsed \<Rightarrow> parsed" where
  "after es r = map_sum id (\<lambda>(xs, st). (es @ xs, st)) r"

text \<open>The six-character colour is tried before the three-character one.\<close>

definition read_color :: "string \<Rightarrow> string option \<times> string" where
  "read_color r =
     (let six = py_take 6 r; c6 = expand_color six in
      if c6 \<noteq> None \<and> py_len six = 6 then (c6, py_drop 6 r)
      else (expand_color (py_take 3 r), py_drop 3 r))"

lemma read_color_length: "length (snd (read_color r)) \<le> length r"
  by (simp add: read_color_def Let_def length_py_drop)

lemma read_color_tl: "length (snd (read_color (tl r))) < Suc (length r)"
  using read_color_length [of "tl r"] by (cases r) auto

text \<open>The codes that only change the style.\<close>

definition style_code :: "char \<Rightarrow> (text_style \<Rightarrow> text_style) option" where
  "style_code n =
     (if n = backtick then Some (\<lambda>_. TextStyle)
      else if n = CHR ''!'' then Some (\<lambda>st. st\<lparr>bold := \<not> bold st\<rparr>)
      else if n = CHR ''*'' then Some (\<lambda>st. st\<lparr>italic := \<not> italic st\<rparr>)
      else if n = CHR ''_'' then Some (\<lambda>st. st\<lparr>underline := \<not> underline st\<rparr>)
      else if n = CHR ''f'' then Some (\<lambda>st. st\<lparr>fg_color := None\<rparr>)
      else if n = CHR ''b'' then Some (\<lambda>st. st\<lparr>bg_color := None\<rparr>)
      else if n = CHR ''c'' then Some (\<lambda>st. st\<lparr>style_alignment := CENTER\<rparr>)
      else if n = CHR ''l'' \<or> n = CHR ''a'' then Some (\<lambda>st. st\<lparr>style_alignment := LEFT\<rparr>)
      else if n = CHR ''r'' then Some (\<lambda>st. st\<lparr>style_alignment := RIGHT\<rparr>)
      else None)"

function parse_inline :: "unicode_digits \<Rightarrow> string \<Rightarrow> string \<Rightarrow> text_style \<Rightarrow> parsed" where
  "parse_inline u [] cur st = Inr (flush cur st, st)"
| "parse_inline u (ch # r) cur st =
     (if ch = backslash \<and> r \<noteq> [] then parse_inline u (tl r) (cur @ [hd r]) st
      else if ch = backtick \<and> r \<noteq> [] then
        let n = hd r; r' = tl r in
        (case style_code n of
           Some f \<Rightarrow> after (flush cur st) (parse_inline u r' [] (f st))
         | None \<Rightarrow>
             if n = CHR ''F'' then
               after (flush cur st) (parse_inline u (snd (read_color r')) [] (st\<lparr>fg_color := fst (read_color r')\<rparr>))
             else if n = CHR ''B'' then
               after (flush cur st) (parse_inline u (snd (read_color r')) [] (st\<lparr>bg_color := fst (read_color r')\<rparr>))
             else if n = CHR ''['' then
               (case cut_at (CHR '']'') r' of
                  None \<Rightarrow> after (flush cur st) (parse_inline u r' [] st)
                | Some (inner, rest) \<Rightarrow> after (flush cur st @ [parse_link inner st]) (parse_inline u rest [] st))
             else if n = CHR ''<'' then
               (case cut_at (CHR ''>'') r' of
                  None \<Rightarrow> after (flush cur st) (parse_inline u r' [] st)
                | Some (inner, rest) \<Rightarrow>
                    bind_res (parse_form_field u inner) (\<lambda>e. after (flush cur st @ [e]) (parse_inline u rest [] st)))
             else if n = CHR ''='' then parse_inline u r' cur st
             else parse_inline u r (cur @ [ch]) st)
      else parse_inline u r (cur @ [ch]) st)"
  by pat_completeness auto
termination
  by (relation "measure (\<lambda>(u, s, cur, st). length s)") (auto simp: read_color_tl dest!: cut_at_length)

text \<open>A code anywhere in the text.\<close>

fun has_inline_codes :: "string \<Rightarrow> bool" where
  "has_inline_codes [] = False"
| "has_inline_codes (ch # r) =
     (if ch = backslash \<and> r \<noteq> [] then (case r of [] \<Rightarrow> False | c # r' \<Rightarrow> has_inline_codes r')
      else ch = backtick \<and> r \<noteq> [] \<or> has_inline_codes r)"

text \<open>The formatting inside a heading starts from the current style and is forgotten after it.\<close>

definition parse_heading :: "unicode_digits \<Rightarrow> string \<Rightarrow> text_style \<Rightarrow> micron_element res" where
  "parse_heading u s st =
     (let marks = takeWhile (\<lambda>c. c = CHR ''>'') s; t = py_strip (dropWhile (\<lambda>c. c = CHR ''>'') s) in
      if has_inline_codes t
      then bind_res (parse_inline u t [] (st\<lparr>bold := True\<rparr>)) (\<lambda>(es, _). Inr (HEADING t (length marks) (Some es)))
      else Inr (HEADING t (length marks) None))"

fun parse_line :: "unicode_digits \<Rightarrow> string \<Rightarrow> text_style \<Rightarrow> parsed" where
  "parse_line u [] st = Inr ([TEXT [] (TextStyle\<lparr>style_alignment := style_alignment st\<rparr>)], st)"
| "parse_line u (c # r) st =
     (if c = CHR ''<'' then (if r = [] then Inr ([], st) else parse_line u r st)
      else if c = CHR ''>'' then bind_res (parse_heading u (c # r) st) (\<lambda>e. Inr ([e], st))
      else if c = CHR ''-''
      then Inr ([DIVIDER (if r = [] then bytes_text [0xE2, 0x94, 0x80] else py_take 1 r)], st)
      else if c = backtick \<and> r = [] then Inr ([], TextStyle)
      else parse_inline u (c # r) [] st)"

section \<open>A page\<close>

record page_state =
  elements :: "micron_element list"
  literal_mode :: bool
  literal_lines :: "string list"
  sd_block :: "string option"
  sd_block_lines :: "string list"
  style :: text_style

definition page_start :: page_state where
  "page_start = \<lparr>elements = [], literal_mode = False, literal_lines = [], sd_block = None, sd_block_lines = [],
     style = TextStyle\<rparr>"

definition lines_of :: "string list \<Rightarrow> string" where
  "lines_of ls = join_with [CHR 0x0A] ls"

text \<open>\<^verbatim>\<open>#!sd:<enc>:begin\<close>: the encoding, when there is one without a colon.\<close>

definition sd_begin :: "string \<Rightarrow> string option" where
  "sd_begin s =
     (if prefix ''#!sd:'' s \<and> suffix '':begin'' s
      then let inner = drop 5 (take (length s - 6) s) in
           if inner \<noteq> [] \<and> CHR '':'' \<notin> set inner then Some inner else None
      else None)"

definition directive :: "string \<Rightarrow> micron_element list" where
  "directive s =
     (case cut_at (CHR ''='') (drop 2 s) of
        None \<Rightarrow> []
      | Some (k, v) \<Rightarrow> [PAGE_DIRECTIVE (py_strip k) (py_strip v)])"

definition toggle_literal :: "page_state \<Rightarrow> page_state" where
  "toggle_literal p =
     (if literal_mode p
      then p\<lparr>elements := elements p @ [LITERAL (lines_of (literal_lines p))], literal_lines := [], literal_mode := False\<rparr>
      else p\<lparr>literal_mode := True\<rparr>)"

definition hash_bang_line :: "string \<Rightarrow> string \<Rightarrow> page_state \<Rightarrow> page_state" where
  "hash_bang_line line s p =
     (case sd_block p of
        Some enc \<Rightarrow>
          if s = ''#!sd:'' @ enc @ '':end''
          then p\<lparr>elements := elements p @ [PAGE_DIRECTIVE (''sd:'' @ enc @ '':block'') (lines_of (sd_block_lines p))],
                 sd_block := None, sd_block_lines := []\<rparr>
          else p\<lparr>sd_block_lines := sd_block_lines p @ [line]\<rparr>
      | None \<Rightarrow>
          (case sd_begin s of
             Some enc \<Rightarrow> p\<lparr>sd_block := Some enc, sd_block_lines := []\<rparr>
           | None \<Rightarrow> p\<lparr>elements := elements p @ directive s\<rparr>))"

definition page_line :: "unicode_digits \<Rightarrow> string \<Rightarrow> page_state \<Rightarrow> page_state res" where
  "page_line u line p =
     (let s = py_strip line in
      if s = [backtick, CHR ''=''] then Inr (toggle_literal p)
      else if literal_mode p then Inr (p\<lparr>literal_lines := literal_lines p @ [line]\<rparr>)
      else if prefix ''#!'' s then Inr (hash_bang_line line s p)
      else if sd_block p \<noteq> None then Inr (p\<lparr>sd_block_lines := sd_block_lines p @ [line]\<rparr>)
      else if prefix ''#'' s then Inr p
      else bind_res (parse_line u s (style p)) (\<lambda>(es, st). Inr (p\<lparr>elements := elements p @ es, style := st\<rparr>)))"

fun page_lines :: "unicode_digits \<Rightarrow> string list \<Rightarrow> page_state \<Rightarrow> page_state res" where
  "page_lines u [] p = Inr p"
| "page_lines u (l # ls) p = bind_res (page_line u l p) (page_lines u ls)"

definition page_end :: "page_state \<Rightarrow> micron_element list" where
  "page_end p =
     elements p @ (if literal_mode p \<and> literal_lines p \<noteq> [] then [LITERAL (lines_of (literal_lines p))] else [])"

definition parse_micron :: "unicode_digits \<Rightarrow> string \<Rightarrow> micron_element list res" where
  "parse_micron u source =
     (if source = [] then Inr []
      else bind_res (page_lines u (split_on (CHR 0x0A) source) page_start) (\<lambda>p. Inr (page_end p)))"

section \<open>Rendering\<close>

definition escape_rich :: "string \<Rightarrow> string" where
  "escape_rich t = replace_char (CHR ''['') [backslash, CHR ''[''] t"

definition quote_safe :: "string \<Rightarrow> string" where
  "quote_safe t = replace_char (CHR 0x27) [backslash, CHR 0x27] (replace_char backslash [backslash, backslash] t)"

definition tagged :: "string \<Rightarrow> string \<Rightarrow> string" where
  "tagged tag t = ''['' @ tag @ '']'' @ t @ ''[/'' @ tag @ '']''"

definition spaced :: "string list \<Rightarrow> string" where
  "spaced ws = join_with '' '' ws"

definition opt_list :: "string option \<Rightarrow> string list" where
  "opt_list x = (case x of None \<Rightarrow> [] | Some s \<Rightarrow> if s = [] then [] else [s])"

definition style_to_rich :: "text_style \<Rightarrow> string \<Rightarrow> string" where
  "style_to_rich st t =
     (let tags = (if bold st then [''bold''] else []) @ (if italic st then [''italic''] else []) @
                 (if underline st then [''underline''] else []) @ opt_list (fg_color st) in
      if tags = [] then t else tagged (spaced tags) t)"

definition heading_tag :: "nat \<Rightarrow> string" where
  "heading_tag level =
     (if min level 3 = 2 then ''bold #3fbfa0''
      else if min level 3 = 3 then ''bold italic #6a9a8e'' else ''bold #5af0ce'')"

definition render_child :: "string \<Rightarrow> micron_element \<Rightarrow> string" where
  "render_child base e =
     tagged (spaced ([base] @ opt_list (fg_color (elem_style e)) @ (if underline (elem_style e) then [''underline''] else [])))
       (escape_rich (elem_content e))"

text \<open>\<^verbatim>\<open>[@click="action"]\<close> with a text inside.\<close>

definition clickable :: "string \<Rightarrow> string \<Rightarrow> string" where
  "clickable action t = ''[@click='' @ [CHR 0x22] @ action @ [CHR 0x22] @ '']'' @ t @ ''[/]''"

definition call1 :: "string \<Rightarrow> string \<Rightarrow> string" where
  "call1 f a = f @ ''('' @ [CHR 0x27] @ a @ [CHR 0x27] @ '')''"

definition call2 :: "string \<Rightarrow> string \<Rightarrow> string \<Rightarrow> string" where
  "call2 f a b = f @ ''('' @ [CHR 0x27] @ a @ [CHR 0x27] @ '', '' @ [CHR 0x27] @ b @ [CHR 0x27] @ '')''"

definition or_text :: "string \<Rightarrow> string \<Rightarrow> string" where
  "or_text a b = (if a = [] then b else a)"

abbreviation ellipsis :: string where "ellipsis \<equiv> bytes_text [0xE2, 0x80, 0xA6]"

definition render_link :: "string \<Rightarrow> string \<Rightarrow> string \<Rightarrow> string" where
  "render_link lab url fs =
     (let shown = tagged ''underline #5ac8fa'' (bytes_text [0xE2, 0x96, 0xB8] @ '' '' @ or_text (escape_rich lab) (escape_rich url)) in
      if fs \<noteq> [] then clickable (call2 ''submit_form'' (quote_safe url) (quote_safe fs)) shown
      else clickable (call1 ''navigate_link'' (quote_safe url)) shown)"

definition render_input :: "string \<Rightarrow> string \<Rightarrow> string \<Rightarrow> string" where
  "render_input name cur shown =
     clickable (call2 ''edit_field'' (quote_safe name) (quote_safe cur))
       (''[underline]'' @ [backslash] @ ''['' @ escape_rich name @ '': '' @ shown @ '']'' @ ''[/underline]'')"

type_synonym form_state = "(string \<times> string) list"

definition current_value :: "form_state option \<Rightarrow> string \<Rightarrow> string \<Rightarrow> string" where
  "current_value fs name v =
     (case fs of None \<Rightarrow> v | Some d \<Rightarrow> (case map_of d name of None \<Rightarrow> v | Some x \<Rightarrow> x))"

definition note_value :: "form_state option \<Rightarrow> string \<Rightarrow> string \<Rightarrow> form_state option" where
  "note_value fs name v =
     map_option (\<lambda>d. if map_of d name = None then d @ [(name, v)] else d) fs"

definition render_field ::
    "form_state option \<Rightarrow> field_type \<Rightarrow> string \<Rightarrow> string \<Rightarrow> bool \<Rightarrow> string \<Rightarrow> string" where
  "render_field fs ty name v checked t =
     (let cur = current_value fs name v in
      case ty of
        FT_TEXT \<Rightarrow> render_input name cur (or_text (escape_rich cur) ellipsis)
      | PASSWORD \<Rightarrow>
          render_input name cur (if cur = [] then ellipsis
            else concat (replicate (py_len cur) (bytes_text [0xE2, 0x80, 0xA2])))
      | CHECKBOX \<Rightarrow> [backslash] @ ''['' @ (if checked then ''x'' else '' '') @ ''] '' @ escape_rich t
      | RADIO \<Rightarrow> ''('' @ (if checked then ''*'' else '' '') @ '') '' @ escape_rich t)"

definition literal_line :: "string \<Rightarrow> string" where
  "literal_line l = ''[dim #8a9a8e]  '' @ bytes_text [0xE2, 0x94, 0x82] @ '' '' @ escape_rich l @ ''[/dim #8a9a8e]''"

text \<open>The lines of one element, and the form state with the field's value noted.\<close>

fun render_element :: "micron_element \<Rightarrow> form_state option \<Rightarrow> string list \<times> form_state option" where
  "render_element (PAGE_DIRECTIVE k v) fs = ([], fs)"
| "render_element (HEADING t l ch) fs =
     ([case ch of
         Some (e # es) \<Rightarrow> concat (map (render_child (heading_tag l)) (e # es))
       | _ \<Rightarrow> tagged (heading_tag l) (escape_rich t)], fs)"
| "render_element (TEXT t st) fs = ([if t = [] then [] else style_to_rich st (escape_rich t)], fs)"
| "render_element (DIVIDER c) fs = ([tagged ''dim #3a6a5e'' (concat (replicate 48 c))], fs)"
| "render_element (LITERAL t) fs = (map literal_line (split_on (CHR 0x0A) t), fs)"
| "render_element (LINK lab url flds st) fs = ([render_link lab url flds], fs)"
| "render_element (FORM_FIELD ty name v w checked t) fs =
     ([render_field fs ty name v checked t], note_value fs name v)"

fun render_all :: "micron_element list \<Rightarrow> form_state option \<Rightarrow> string list \<times> form_state option" where
  "render_all [] fs = ([], fs)"
| "render_all (e # es) fs =
     (let (ls, fs1) = render_element e fs; (ls', fs2) = render_all es fs1 in (ls @ ls', fs2))"

definition render_to_rich :: "micron_element list \<Rightarrow> form_state option \<Rightarrow> string \<times> form_state option" where
  "render_to_rich es fs = (let (ls, fs') = render_all es fs in (lines_of ls, fs'))"

section \<open>Pages of plain text and literal blocks\<close>

definition plain :: "string \<Rightarrow> bool" where
  "plain s \<longleftrightarrow> backslash \<notin> set s \<and> backtick \<notin> set s"

lemma parse_plain: "plain s \<Longrightarrow> parse_inline u s cur st = Inr (flush (cur @ s) st, st)"
  by (induction s arbitrary: cur) (auto simp: plain_def)

text \<open>A line that is shown as it stands.\<close>

definition plain_line :: "string \<Rightarrow> bool" where
  "plain_line l \<longleftrightarrow>
     plain l \<and> l \<noteq> [] \<and> CHR 0x0A \<notin> set l \<and> py_strip l = l \<and> hd l \<notin> {CHR ''<'', CHR ''>'', CHR ''-'', CHR ''#''}"

definition verbatim :: "string \<Rightarrow> bool" where
  "verbatim l \<longleftrightarrow> CHR 0x0A \<notin> set l \<and> py_strip l \<noteq> [backtick, CHR ''='']"

definition plain_text :: "string \<Rightarrow> micron_element" where
  "plain_text l = TEXT l TextStyle"

lemma page_line_plain:
  assumes "plain_line l" "\<not> literal_mode p" "sd_block p = None" "style p = TextStyle"
  shows "page_line u l p = Inr (p\<lparr>elements := elements p @ [plain_text l]\<rparr>)"
proof (cases l)
  case (Cons c r)
  have "l \<noteq> [backtick, CHR ''='']" using assms(1) by (auto simp: plain_line_def plain_def)
  then have "page_line u l p =
      bind_res (parse_line u l (style p)) (\<lambda>(es, st). Inr (p\<lparr>elements := elements p @ es, style := st\<rparr>))"
    using assms Cons by (auto simp: page_line_def plain_line_def Let_def)
  moreover have "parse_line u l TextStyle = Inr ([plain_text l], TextStyle)"
    using assms(1) Cons by (auto simp: plain_line_def plain_text_def parse_plain flush_def plain_def)
  ultimately show ?thesis using assms(4) by (cases p) simp
qed (use assms in \<open>simp add: plain_line_def\<close>)

lemma page_lines_append: "page_lines u (xs @ ys) p = bind_res (page_lines u xs p) (page_lines u ys)"
proof (induction xs arbitrary: p)
  case (Cons l xs)
  then show ?case by (cases "page_line u l p") simp_all
qed simp

lemma page_lines_plain:
  "list_all plain_line ls \<Longrightarrow> \<not> literal_mode p \<Longrightarrow> sd_block p = None \<Longrightarrow> style p = TextStyle \<Longrightarrow>
     page_lines u ls p = Inr (p\<lparr>elements := elements p @ map plain_text ls\<rparr>)"
  by (induction ls arbitrary: p) (simp_all add: page_line_plain)

lemma page_lines_literal:
  "list_all verbatim ls \<Longrightarrow> literal_mode p \<Longrightarrow>
     page_lines u ls p = Inr (p\<lparr>literal_lines := literal_lines p @ ls\<rparr>)"
  by (induction ls arbitrary: p) (simp_all add: page_line_def verbatim_def)

lemma strip_fence: "py_strip [backtick, CHR ''=''] = [backtick, CHR ''='']"
  by code_simp

lemma page_line_fence: "page_line u [backtick, CHR ''=''] p = Inr (toggle_literal p)"
  by (simp add: page_line_def strip_fence)

lemma parse_lines:
  assumes "ls \<noteq> []" and "\<And>l. l \<in> set ls \<Longrightarrow> CHR 0x0A \<notin> set l" and "lines_of ls \<noteq> []"
  shows "parse_micron u (lines_of ls) = bind_res (page_lines u ls page_start) (\<lambda>p. Inr (page_end p))"
  using assms by (simp add: parse_micron_def lines_of_def split_join)

lemma join_not_Nil: "w \<in> set ws \<Longrightarrow> w \<noteq> [] \<Longrightarrow> join_with sep ws \<noteq> []"
  by (induction sep ws rule: join_with.induct) auto

lemma render_plain: "render_all (map plain_text ls) fs = (map escape_rich ls, fs)"
proof (induction ls)
  case (Cons l ls)
  have "escape_rich [] = []" by (simp add: escape_rich_def replace_char_def)
  then show ?case using Cons
    by (cases "l = []") (simp_all add: plain_text_def style_to_rich_def TextStyle_def opt_list_def)
qed simp

lemma render_literal:
  assumes "ls \<noteq> []" and "\<And>l. l \<in> set ls \<Longrightarrow> CHR 0x0A \<notin> set l"
  shows "render_element (LITERAL (lines_of ls)) fs = (map literal_line ls, fs)"
  using assms by (simp add: lines_of_def split_join)

lemma render_append:
  "render_all (xs @ ys) fs =
     (let (a, f1) = render_all xs fs; (b, f2) = render_all ys f1 in (a @ b, f2))"
  by (induction xs arbitrary: fs) (simp_all add: case_prod_beta Let_def)

text \<open>
A page of plain lines, a literal block and plain lines again is parsed to one text element
per plain line, in the default style, and one literal element that holds the lines of the block
exactly as they were, blank lines, markup and directives included; displaying it shows the plain
lines, the lines of the block in their frame, and the plain lines, each with its brackets escaped.
\<close>

theorem verbatim_text_survives:
  assumes "list_all plain_line upper_part" and "list_all verbatim block" and "block \<noteq> []" and "list_all plain_line lower_part"
  shows "\<exists>es. parse_micron u (lines_of (upper_part @ [[backtick, CHR ''='']] @ block @ [[backtick, CHR ''='']] @ lower_part)) = Inr es \<and>
      es = map plain_text upper_part @ [LITERAL (lines_of block)] @ map plain_text lower_part \<and>
      render_to_rich es fs = (lines_of (map escape_rich upper_part @ map literal_line block @ map escape_rich lower_part), fs)"
proof -
  let ?fence = "[backtick, CHR ''='']"
  let ?ls = "upper_part @ [?fence] @ block @ [?fence] @ lower_part"
  let ?es = "map plain_text upper_part @ [LITERAL (lines_of block)] @ map plain_text lower_part"
  have newline: "CHR 0x0A \<notin> set l" if "l \<in> set ?ls" for l
    using that assms by (auto simp: list_all_iff plain_line_def verbatim_def)
  have "lines_of ?ls \<noteq> []" unfolding lines_of_def by (rule join_not_Nil [of ?fence]) auto
  then have "parse_micron u (lines_of ?ls) = bind_res (page_lines u ?ls page_start) (\<lambda>p. Inr (page_end p))"
    using newline by (intro parse_lines) auto
  also have "page_lines u ?ls page_start =
      Inr (page_start\<lparr>elements := ?es\<rparr>)"
    using assms
    by (simp add: page_lines_append page_lines_plain page_lines_literal page_line_fence toggle_literal_def page_start_def)
  finally have parsed: "parse_micron u (lines_of ?ls) = Inr ?es"
    by (simp add: page_end_def page_start_def)
  have "render_element (LITERAL (lines_of block)) fs = (map literal_line block, fs)"
    using assms newline by (intro render_literal) auto
  then have "render_to_rich ?es fs = (lines_of (map escape_rich upper_part @ map literal_line block @ map escape_rich lower_part), fs)"
    by (simp add: render_to_rich_def render_append render_plain Let_def del: render_element.simps)
  with parsed show ?thesis by blast
qed

definition no_digits :: unicode_digits where
  "no_digits = \<lparr>digit_char_p = \<lambda>_. False, decimal_char = \<lambda>_. None\<rparr>"

lemma set_strip_from: "set (strip_from ws s) \<subseteq> set s"
proof (induction ws s rule: strip_from.induct)
  case (2 ws c cs)
  then show ?case
    by (auto split: option.splits dest!: subsetD [THEN in_set_dropD])
qed simp

lemma set_py_strip: "set (py_strip l) \<subseteq> set l"
  using set_strip_from [of wide_spaces l] set_strip_from [of "map rev wide_spaces" "rev (strip_from wide_spaces l)"]
  by (auto simp: py_strip_def)

lemma verbatim_no_tick: "CHR 0x0A \<notin> set l \<Longrightarrow> backtick \<notin> set l \<Longrightarrow> verbatim l"
  using set_py_strip [of l] by (auto simp: verbatim_def)

theorem verbatim_text_survives_witness:
  "\<exists>es. parse_micron no_digits (lines_of ([''Hello'', ''see [1]''] @ [[backtick, CHR ''='']] @ [''#!x=1'', [], ''  >no''] @
        [[backtick, CHR ''='']] @ [''bye''])) = Inr es \<and>
      es = map plain_text [''Hello'', ''see [1]''] @ [LITERAL (lines_of [''#!x=1'', [], ''  >no''])] @ map plain_text [''bye''] \<and>
      render_to_rich es None =
        (lines_of (map escape_rich [''Hello'', ''see [1]''] @ map literal_line [''#!x=1'', [], ''  >no''] @
           map escape_rich [''bye'']), None)"
proof (rule verbatim_text_survives)
  show "list_all plain_line [''Hello'', ''see [1]'']"
    by (simp add: plain_line_def plain_def py_strip_ascii ascii_char_def is_strip_space_def is_space_def)
  show "list_all verbatim [''#!x=1'', [], ''  >no'']" by (simp add: verbatim_no_tick)
  show "list_all plain_line [''bye'']"
    by (simp add: plain_line_def plain_def py_strip_ascii ascii_char_def is_strip_space_def is_space_def)
qed simp

section \<open>Escaping\<close>

text \<open>
  A bracket opens a tag of Rich when an even number of backslashes stands before it; \<open>behind\<close>: there
  is one with an odd number.
\<close>

fun live :: "bool \<Rightarrow> string \<Rightarrow> bool" where
  "live odd_run [] = False"
| "live odd_run (c # s) =
     (if c = CHR ''['' then \<not> odd_run \<or> live False s else live (c = backslash \<and> \<not> odd_run) s)"

fun behind :: "bool \<Rightarrow> string \<Rightarrow> bool" where
  "behind odd_run [] = False"
| "behind odd_run (c # s) =
     (if c = CHR ''['' then odd_run \<or> behind False s else behind (c = backslash \<and> \<not> odd_run) s)"

lemma escape_Cons: "escape_rich (c # s) = (if c = CHR ''['' then [backslash, c] else [c]) @ escape_rich s"
  by (simp add: escape_rich_def replace_char_def)

lemma live_escape: "live b (escape_rich t) = behind b t"
  by (induction t arbitrary: b) (auto simp: escape_Cons, simp add: escape_rich_def replace_char_def)

lemma behind_plain: "backslash \<notin> set t \<Longrightarrow> \<not> behind False t"
  by (induction t) auto

lemma escape_plain: "CHR ''['' \<notin> set t \<Longrightarrow> escape_rich t = t"
  by (induction t) (auto simp: escape_Cons, simp add: escape_rich_def replace_char_def)

lemma escape_single: "escape_rich [c] = (if c = CHR ''['' then [backslash, c] else [c])"
  by (simp add: escape_rich_def replace_char_def)

text \<open>
The escaping leaves a bracket that opens a tag exactly in a text where a bracket follows an
odd number of backslashes, and pages can make such texts: a line of two backslashes, a bracket and
any tag is displayed unchanged, as an escaped backslash and the tag.
\<close>

theorem escaping_fails_after_backslash:
  assumes "list_all (\<lambda>c. c \<notin> {backslash, backtick, CHR ''['', CHR 0x0A}) tag"
  shows "(live False (escape_rich t) \<longleftrightarrow> behind False t) \<and>
    (\<exists>es. parse_micron u ([backslash, backslash] @ ''['' @ tag @ '']'') = Inr es \<and>
          render_to_rich es fs = ([backslash, backslash] @ ''['' @ tag @ '']'', fs) \<and>
          live False (fst (render_to_rich es fs)))"
proof -
  let ?src = "[backslash, backslash] @ ''['' @ tag @ '']''"
  let ?shown = "backslash # ''['' @ tag @ '']''"
  have "split_on (CHR 0x0A) ?src = [?src]"
    using assms by (intro split_on_word) (auto simp: list_all_iff)
  moreover have "py_strip ?src = ?src"
    by (rule py_strip_ascii) (simp_all add: ascii_char_def is_strip_space_def is_space_def)
  moreover have tail: "plain (''['' @ tag @ '']'')"
    using assms by (simp add: plain_def list_all_iff) blast
  have "parse_line u ?src TextStyle = Inr ([TEXT ?shown TextStyle], TextStyle)"
    using parse_plain [OF tail, of u "[backslash]" TextStyle] by (simp add: flush_def)
  ultimately have "parse_micron u ?src = Inr [TEXT ?shown TextStyle]"
    by (simp add: parse_micron_def page_line_def page_start_def page_end_def Let_def del: parse_line.simps split_on.simps)
  moreover have "escape_rich (tag @ '']'') = tag @ '']''"
    using assms by (intro escape_plain) (auto simp: list_all_iff)
  then have "render_to_rich [TEXT ?shown TextStyle] fs = (?src, fs)"
    by (simp add: render_to_rich_def style_to_rich_def TextStyle_def opt_list_def escape_Cons lines_of_def)
  moreover have "live False ?src" by simp
  ultimately show ?thesis using live_escape by simp
qed

theorem escaping_fails_after_backslash_witness:
  "(live False (escape_rich ''a[b'') \<longleftrightarrow> behind False ''a[b'') \<and>
    (\<exists>es. parse_micron no_digits ([backslash, backslash] @ ''['' @ ''@click=app.quit'' @ '']'') = Inr es \<and>
          render_to_rich es None = ([backslash, backslash] @ ''['' @ ''@click=app.quit'' @ '']'', None) \<and>
          live False (fst (render_to_rich es None)))"
  by (rule escaping_fails_after_backslash) simp

text \<open>A superscript digit in the width of a field makes the parser raise: it is a digit without a value.\<close>

definition superscripts :: unicode_digits where
  "superscripts = \<lparr>digit_char_p = \<lambda>_. True, decimal_char = \<lambda>_. None\<rparr>"

lemma superscript_width_raises:
  "parse_micron superscripts ([backtick] @ ''<'' @ bytes_text [0xC2, 0xB2] @ ''|n>'') = Inl ValueError"
  by code_simp

end
