(* ===== verification/Ipc_Client.thy ===== *)
theory Ipc_Client
  imports Ipc_Data
begin

text \<open>
  The client of the control socket (\<^verbatim>\<open>src/styrened/ipc/client.py\<close>): connecting, the task that
  receives frames, events with their callbacks and their queue, and a request cut at its
  \<^verbatim>\<open>await\<close>s. Sockets, receive tasks and futures are places in lists that only grow, since an
  old receive task can outlive its connection. The requests themselves are in \<open>Ipc_Calls\<close>.
\<close>

section \<open>State\<close>

datatype ipc_failure =
    IPCConnectionError | IPCTimeoutError | IPCResponseError pyval pyval pyval | CallerCancelled | Raised exn

type_synonym 'a ipc_res = "ipc_failure + 'a"

datatype reply = Unanswered | Answer IPCMessageType pydict | CancelledReply

type_synonym callback = nat

text \<open>
  \<open>closed\<close>: \<^verbatim>\<open>writer.is_closing()\<close>. A task reads from a socket or awaits the coroutine of a callback,
  with the callbacks that come after it.
\<close>

record ipc_socket =
  incoming :: stream
  outgoing :: bytes
  closed :: bool

datatype receive_state = Reading nat | InCallback IPCMessageType pydict "callback list" | Finished

record ipc_client =
  up :: bool
  conn :: "nat option"
  receive_task :: "nat option"
  pending_replies :: "(bytes \<times> nat) list"
  event_callbacks :: "(IPCMessageType \<times> callback list) list"
  event_queue :: "(IPCMessageType \<times> pydict) list"
  default_wait :: rat
  sockets :: "ipc_socket list"
  tasks :: "receive_state list"
  replies :: "reply list"
  callback_calls :: "(callback \<times> IPCMessageType \<times> pydict) list"

definition ControlClient :: "rat \<Rightarrow> ipc_client" where
  "ControlClient timeout =
     \<lparr>up = False, conn = None, receive_task = None, pending_replies = [], event_callbacks = [], event_queue = [],
      default_wait = timeout, sockets = [], tasks = [], replies = [], callback_calls = []\<rparr>"

definition is_connected :: "ipc_client \<Rightarrow> bool" where
  "is_connected s \<longleftrightarrow> up s \<and> (case conn s of None \<Rightarrow> False | Some c \<Rightarrow> \<not> closed (sockets s ! c))"

section \<open>Futures and tasks\<close>

definition settle_reply :: "nat \<Rightarrow> reply \<Rightarrow> ipc_client \<Rightarrow> ipc_client" where
  "settle_reply f v s = (if replies s ! f = Unanswered then s\<lparr>replies := (replies s)[f := v]\<rparr> else s)"

definition forget_reply :: "bytes \<Rightarrow> ipc_client \<Rightarrow> ipc_client" where
  "forget_reply rid s = s\<lparr>pending_replies := AList.delete rid (pending_replies s)\<rparr>"

definition set_task :: "nat \<Rightarrow> receive_state \<Rightarrow> ipc_client \<Rightarrow> ipc_client" where
  "set_task i t s = s\<lparr>tasks := (tasks s)[i := t]\<rparr>"

definition set_incoming :: "nat \<Rightarrow> stream \<Rightarrow> ipc_client \<Rightarrow> ipc_client" where
  "set_incoming c st s = s\<lparr>sockets := (sockets s)[c := (sockets s ! c)\<lparr>incoming := st\<rparr>]\<rparr>"

section \<open>Receiving\<close>

text \<open>
  The head of the loop. Two tasks cannot wait on one reader: the second gets a \<^verbatim>\<open>RuntimeError\<close>, which
  the loop treats as a lost connection.
\<close>

definition loop_head :: "msgpack \<Rightarrow> nat \<Rightarrow> ipc_client \<Rightarrow> ipc_client" where
  "loop_head mp i s =
     (case conn s of
        Some c \<Rightarrow>
          if \<not> up s then set_task i Finished s
          else if read_frame mp False (incoming (sockets s ! c)) = None \<and>
                  (\<exists>j \<in> {..<length (tasks s)} - {i}. tasks s ! j = Reading c)
          then set_task i Finished (s\<lparr>up := False\<rparr>)
          else set_task i (Reading c) s
      | None \<Rightarrow> set_task i Finished s)"

text \<open>\<open>suspends\<close>: the callback returns a coroutine that does not end at once.\<close>

fun run_callbacks ::
    "msgpack \<Rightarrow> (callback \<Rightarrow> bool) \<Rightarrow> nat \<Rightarrow> IPCMessageType \<Rightarrow> pydict \<Rightarrow> callback list \<Rightarrow> ipc_client \<Rightarrow> ipc_client" where
  "run_callbacks mp suspends i t d [] s = loop_head mp i s"
| "run_callbacks mp suspends i t d (cb # cbs) s =
     (let s1 = s\<lparr>callback_calls := callback_calls s @ [(cb, t, d)]\<rparr> in
      if suspends cb then set_task i (InCallback t d cbs) s1 else run_callbacks mp suspends i t d cbs s1)"

definition callbacks_of :: "IPCMessageType \<Rightarrow> ipc_client \<Rightarrow> callback list" where
  "callbacks_of t s = (case map_of (event_callbacks s) t of None \<Rightarrow> [] | Some cbs \<Rightarrow> cbs)"

definition dispatch_event ::
    "msgpack \<Rightarrow> (callback \<Rightarrow> bool) \<Rightarrow> nat \<Rightarrow> IPCMessageType \<Rightarrow> pydict \<Rightarrow> ipc_client \<Rightarrow> ipc_client" where
  "dispatch_event mp suspends i t d s =
     run_callbacks mp suspends i t d (callbacks_of t s) (s\<lparr>event_queue := event_queue s @ [(t, d)]\<rparr>)"

definition answer_request :: "bytes \<Rightarrow> IPCMessageType \<Rightarrow> pydict \<Rightarrow> ipc_client \<Rightarrow> ipc_client" where
  "answer_request rid t d s =
     (case map_of (pending_replies s) rid of
        None \<Rightarrow> s
      | Some f \<Rightarrow> settle_reply f (Answer t d) (forget_reply rid s))"

text \<open>What is left on the stream when reading a frame fails: an oversized frame is not skipped.\<close>

definition after_bad_frame :: "stream \<Rightarrow> stream" where
  "after_bad_frame st =
     (case read_exactly LENGTH_SIZE False st of
        Some (Inr (lb, st1)) \<Rightarrow>
          if MAX_FRAME_PAYLOAD + HEADER_SIZE < of_be32 lb then st1
          else (case read_exactly (of_be32 lb) False st1 of Some (Inr (_, st2)) \<Rightarrow> st2 | _ \<Rightarrow> ([], snd st))
      | _ \<Rightarrow> ([], snd st))"

text \<open>One round of \<^verbatim>\<open>_receive_loop\<close>, which waits while no frame has arrived.\<close>

definition receive :: "msgpack \<Rightarrow> (callback \<Rightarrow> bool) \<Rightarrow> nat \<Rightarrow> ipc_client \<Rightarrow> ipc_client" where
  "receive mp suspends i s =
     (case tasks s ! i of
        Reading c \<Rightarrow>
          (let st = incoming (sockets s ! c) in
           case read_frame mp False st of
             None \<Rightarrow> s
           | Some (Inr ((t, rid, d), st')) \<Rightarrow>
               let s1 = set_incoming c st' s in
               if is_event_type t then dispatch_event mp suspends i t d s1
               else loop_head mp i (answer_request rid t d s1)
           | Some (Inl e) \<Rightarrow>
               let s1 = set_incoming c (after_bad_frame st) s in
               if e = FrameDecodeError then loop_head mp i s1
               else set_task i Finished (s1\<lparr>up := False\<rparr>))
      | _ \<Rightarrow> s)"

definition callback_returns :: "msgpack \<Rightarrow> (callback \<Rightarrow> bool) \<Rightarrow> nat \<Rightarrow> ipc_client \<Rightarrow> ipc_client" where
  "callback_returns mp suspends i s =
     (case tasks s ! i of InCallback t d cbs \<Rightarrow> run_callbacks mp suspends i t d cbs s | _ \<Rightarrow> s)"

section \<open>Connecting\<close>

text \<open>\<open>opened\<close>: the socket could be opened. The task starts with a round of its own.\<close>

definition connect :: "msgpack \<Rightarrow> bool \<Rightarrow> ipc_client \<Rightarrow> unit ipc_res \<times> ipc_client" where
  "connect mp opened s =
     (if is_connected s then (Inr (), s)
      else if \<not> opened then (Inl IPCConnectionError, s)
      else (Inr (),
            loop_head mp (length (tasks s))
              (s\<lparr>sockets := sockets s @ [\<lparr>incoming = ([], Silent), outgoing = [], closed = False\<rparr>],
                 conn := Some (length (sockets s)), up := True,
                 receive_task := Some (length (tasks s)), tasks := tasks s @ [Finished]\<rparr>)))"

definition disconnect :: "ipc_client \<Rightarrow> ipc_client" where
  "disconnect s =
     (let s1 = s\<lparr>up := False\<rparr>;
          s2 = (case receive_task s1 of None \<Rightarrow> s1 | Some i \<Rightarrow> (set_task i Finished s1)\<lparr>receive_task := None\<rparr>);
          s3 = (fold (\<lambda>(_, f). settle_reply f CancelledReply) (pending_replies s2) s2)\<lparr>pending_replies := []\<rparr> in
      case conn s3 of
        None \<Rightarrow> s3
      | Some c \<Rightarrow> s3\<lparr>sockets := (sockets s3)[c := (sockets s3 ! c)\<lparr>closed := True\<rparr>], conn := None\<rparr>)"

text \<open>What the daemon and the operating system do to a socket.\<close>

definition arrive :: "nat \<Rightarrow> bytes \<Rightarrow> ipc_client \<Rightarrow> ipc_client" where
  "arrive c bs s = (case incoming (sockets s ! c) of (buf, e) \<Rightarrow> set_incoming c (buf @ bs, e) s)"

definition peer_ends :: "nat \<Rightarrow> bool \<Rightarrow> ipc_client \<Rightarrow> ipc_client" where
  "peer_ends c lost s =
     (let k = sockets s ! c in
      s\<lparr>sockets := (sockets s)[c := k\<lparr>incoming := (fst (incoming k), ConnectionClosed), closed := closed k \<or> lost\<rparr>]\<rparr>)"

section \<open>Events\<close>

definition on_event :: "IPCMessageType \<Rightarrow> callback \<Rightarrow> ipc_client \<Rightarrow> ipc_client" where
  "on_event t cb s =
     (let cbs = callbacks_of t s in
      s\<lparr>event_callbacks := AList.update t (if cb \<in> set cbs then cbs else cbs @ [cb]) (event_callbacks s)\<rparr>)"

definition remove_event_handler :: "IPCMessageType \<Rightarrow> callback \<Rightarrow> ipc_client \<Rightarrow> ipc_client" where
  "remove_event_handler t cb s =
     (case map_of (event_callbacks s) t of
        None \<Rightarrow> s
      | Some cbs \<Rightarrow> s\<lparr>event_callbacks := AList.update t (remove1 cb cbs) (event_callbacks s)\<rparr>)"

text \<open>One round of \<^verbatim>\<open>iter_events\<close>: an event of another type is taken from the queue too.\<close>

definition next_event ::
    "IPCMessageType option \<Rightarrow> ipc_client \<Rightarrow> (IPCMessageType \<times> pydict) option \<times> ipc_client" where
  "next_event kind s =
     (if \<not> up s then (None, s)
      else case event_queue s of
        [] \<Rightarrow> (None, s)
      | (t, d) # q \<Rightarrow>
          (if kind = None \<or> kind = Some t then Some (t, d) else None, s\<lparr>event_queue := q\<rparr>))"

section \<open>A request\<close>

text \<open>
  \<open>rid\<close> is the fresh id, \<open>drained\<close> tells whether the socket took the bytes. The result is the future
  that is awaited.
\<close>

definition note_request :: "bytes \<Rightarrow> ipc_client \<Rightarrow> ipc_client" where
  "note_request rid s =
     s\<lparr>replies := replies s @ [Unanswered], pending_replies := AList.update rid (length (replies s)) (pending_replies s)\<rparr>"

definition request_begin :: "msgpack \<Rightarrow> bytes \<Rightarrow> bool \<Rightarrow> ipc_request \<Rightarrow> ipc_client \<Rightarrow> nat ipc_res \<times> ipc_client" where
  "request_begin mp rid drained r s =
     (case conn s of
        Some c \<Rightarrow>
          if \<not> is_connected s then (Inl IPCConnectionError, s)
          else
            let f = length (replies s); s1 = note_request rid s in
            (case write_frame mp (outgoing (sockets s ! c)) (MSG_TYPE r) rid (to_payload r) of
               Inl _ \<Rightarrow> (Inl IPCConnectionError, forget_reply rid s1)
             | Inr out \<Rightarrow>
                 let s2 = s1\<lparr>sockets := (sockets s)[c := (sockets s ! c)\<lparr>outgoing := out\<rparr>]\<rparr> in
                 if drained then (Inr f, s2) else (Inl IPCConnectionError, forget_reply rid s2))
      | None \<Rightarrow> (Inl IPCConnectionError, s))"

text \<open>\<^verbatim>\<open>timeout or self.default_timeout\<close>.\<close>

definition effective_wait :: "rat option \<Rightarrow> ipc_client \<Rightarrow> rat" where
  "effective_wait w s = (case w of Some t \<Rightarrow> if t = 0 then default_wait s else t | None \<Rightarrow> default_wait s)"

definition reply_result :: "reply \<Rightarrow> pyval ipc_res option" where
  "reply_result v =
     (case v of
        Unanswered \<Rightarrow> None
      | CancelledReply \<Rightarrow> Some (Inl CallerCancelled)
      | Answer t d \<Rightarrow>
          Some (if t = ERROR
                then let e = ErrorResponse_from_payload d in Inl (IPCResponseError (er_code e) (er_message e) (er_details e))
                else Inr (d_get_or d ''data'' (PDict d))))"

definition request_times_out :: "bytes \<Rightarrow> nat \<Rightarrow> ipc_client \<Rightarrow> ipc_failure \<times> ipc_client" where
  "request_times_out rid f s = (IPCTimeoutError, forget_reply rid (settle_reply f CancelledReply s))"

text \<open>The task that made the request is cancelled: its entry stays in the table.\<close>

definition caller_cancelled :: "nat \<Rightarrow> ipc_client \<Rightarrow> ipc_client" where
  "caller_cancelled f s = settle_reply f CancelledReply s"


section \<open>Steps\<close>

text \<open>
  Everything that can happen to a client: its operations, the rounds of its tasks, and what the daemon
  and the operating system do to the sockets.
\<close>

inductive ipc_step :: "msgpack \<Rightarrow> (callback \<Rightarrow> bool) \<Rightarrow> ipc_client \<Rightarrow> ipc_client \<Rightarrow> bool"
  for mp :: msgpack and suspends :: "callback \<Rightarrow> bool" where
  is_connect: "ipc_step mp suspends s (snd (connect mp opened s))"
| is_disconnect: "ipc_step mp suspends s (disconnect s)"
| is_arrive: "ipc_step mp suspends s (arrive c bs s)" if "c < length (sockets s)" "snd (incoming (sockets s ! c)) = Silent"
| is_peer_ends: "ipc_step mp suspends s (peer_ends c lost s)" if "c < length (sockets s)"
| is_receive: "ipc_step mp suspends s (receive mp suspends i s)" if "i < length (tasks s)"
| is_callback_returns: "ipc_step mp suspends s (callback_returns mp suspends i s)" if "i < length (tasks s)"
| is_on_event: "ipc_step mp suspends s (on_event t cb s)"
| is_remove_handler: "ipc_step mp suspends s (remove_event_handler t cb s)"
| is_next_event: "ipc_step mp suspends s (snd (next_event kind s))"
| is_request: "ipc_step mp suspends s (snd (request_begin mp rid drained r s))"
| is_timeout: "ipc_step mp suspends s (snd (request_times_out rid f s))"
    if "replies s ! f = Unanswered" "map_of (pending_replies s) rid = Some f \<or> f \<notin> snd ` set (pending_replies s)"
| is_cancelled: "ipc_step mp suspends s (caller_cancelled f s)"

section \<open>What the operations leave alone\<close>

lemma set_task_same [simp]:
  "pending_replies (set_task i t s) = pending_replies s" "replies (set_task i t s) = replies s"
  "sockets (set_task i t s) = sockets s" "conn (set_task i t s) = conn s" "up (set_task i t s) = up s"
  by (simp_all add: set_task_def)

lemma set_incoming_same [simp]:
  "pending_replies (set_incoming c st s) = pending_replies s" "replies (set_incoming c st s) = replies s"
  "tasks (set_incoming c st s) = tasks s" "conn (set_incoming c st s) = conn s" "up (set_incoming c st s) = up s"
  by (simp_all add: set_incoming_def)

lemma loop_head_same [simp]:
  "pending_replies (loop_head mp i s) = pending_replies s" "replies (loop_head mp i s) = replies s"
  "sockets (loop_head mp i s) = sockets s" "conn (loop_head mp i s) = conn s"
  by (simp_all add: loop_head_def split: option.split)

lemma run_callbacks_same [simp]:
  "pending_replies (run_callbacks mp sus i t d cbs s) = pending_replies s"
  "replies (run_callbacks mp sus i t d cbs s) = replies s"
  by (induction mp sus i t d cbs s rule: run_callbacks.induct) (simp_all add: Let_def)

lemma dispatch_same [simp]:
  "pending_replies (dispatch_event mp sus i t d s) = pending_replies s"
  "replies (dispatch_event mp sus i t d s) = replies s"
  by (simp_all add: dispatch_event_def)

lemma settle_reply_same [simp]:
  "pending_replies (settle_reply f v s) = pending_replies s" "tasks (settle_reply f v s) = tasks s"
  "sockets (settle_reply f v s) = sockets s" "conn (settle_reply f v s) = conn s" "up (settle_reply f v s) = up s"
  "receive_task (settle_reply f v s) = receive_task s"
  by (simp_all add: settle_reply_def)

lemma forget_reply_same [simp]:
  "replies (forget_reply rid s) = replies s" "tasks (forget_reply rid s) = tasks s"
  "sockets (forget_reply rid s) = sockets s" "conn (forget_reply rid s) = conn s" "up (forget_reply rid s) = up s"
  "pending_replies (forget_reply rid s) = AList.delete rid (pending_replies s)"
  by (simp_all add: forget_reply_def)

section \<open>The table of requests\<close>

text \<open>
  Ids and futures in the table are distinct, and no request in it has been answered.
\<close>

definition ipc_inv :: "ipc_client \<Rightarrow> bool" where
  "ipc_inv s \<longleftrightarrow>
     distinct (map fst (pending_replies s)) \<and> distinct (map snd (pending_replies s)) \<and>
     (\<forall>f \<in> snd ` set (pending_replies s). f < length (replies s) \<and> replies s ! f \<in> {Unanswered, CancelledReply})"

lemma ipc_inv_forget: "ipc_inv s \<Longrightarrow> ipc_inv (forget_reply rid s)"
  by (auto simp: ipc_inv_def AList.delete_eq distinct_map_filter)

lemma ipc_inv_cong:
  "pending_replies s' = pending_replies s \<Longrightarrow> replies s' = replies s \<Longrightarrow> ipc_inv s' = ipc_inv s"
  by (simp add: ipc_inv_def)

lemma replies_settle:
  "replies (settle_reply f v s) ! g = (if g = f \<and> f < length (replies s) \<and> replies s ! f = Unanswered then v else replies s ! g)"
  by (cases "f < length (replies s)") (auto simp: settle_reply_def nth_list_update list_update_beyond)

lemma length_settle [simp]: "length (replies (settle_reply f v s)) = length (replies s)"
  by (simp add: settle_reply_def)

lemma ipc_inv_cancel: "ipc_inv s \<Longrightarrow> ipc_inv (settle_reply f CancelledReply s)"
  by (auto simp: ipc_inv_def replies_settle)

lemma ipc_inv_answer:
  assumes inv: "ipc_inv s" and f: "map_of (pending_replies s) rid = Some f"
  shows "ipc_inv (settle_reply f v (forget_reply rid s))"
proof -
  have "f \<notin> snd ` set (AList.delete rid (pending_replies s))"
  proof
    assume "f \<in> snd ` set (AList.delete rid (pending_replies s))"
    then obtain k where k: "(k, f) \<in> set (pending_replies s)" "k \<noteq> rid" by (auto simp: AList.delete_eq)
    have "inj_on snd (set (pending_replies s))" using inv by (simp add: ipc_inv_def distinct_map)
    from inj_onD [OF this, of "(k, f)" "(rid, f)"] k map_of_SomeD [OF f] show False by simp
  qed
  with ipc_inv_forget [OF inv] show ?thesis by (auto simp: ipc_inv_def replies_settle)
qed

lemma ipc_inv_answer_request: "ipc_inv s \<Longrightarrow> ipc_inv (answer_request rid t d s)"
  by (auto simp: answer_request_def ipc_inv_answer split: option.split)

lemma ipc_inv_receive:
  assumes inv: "ipc_inv s"
  shows "ipc_inv (receive mp sus i s)"
proof (cases "tasks s ! i")
  case (Reading c)
  let ?st = "incoming (sockets s ! c)"
  show ?thesis
  proof (cases "read_frame mp False ?st")
    case None
    with Reading inv show ?thesis by (simp add: receive_def)
  next
    case (Some r)
    show ?thesis
    proof (cases r)
      case (Inl e)
      with Some Reading inv show ?thesis by (simp add: receive_def Let_def ipc_inv_def)
    next
      case (Inr q)
      obtain t rid d st' where q: "q = ((t, rid, d), st')" by (metis prod.exhaust)
      have "ipc_inv (answer_request rid t d (set_incoming c st' s))"
        using ipc_inv_answer_request inv by (simp add: ipc_inv_def)
      with inv show ?thesis
        by (simp add: receive_def Reading Some Inr q Let_def ipc_inv_def)
    qed
  qed
qed (use inv in \<open>simp_all add: receive_def\<close>)

lemma ipc_inv_note:
  assumes "ipc_inv s"
  shows "ipc_inv (note_request rid s)"
proof -
  have "length (replies s) \<notin> snd ` set (pending_replies s)" using assms by (auto simp: ipc_inv_def)
  then show ?thesis
    using assms
    by (auto simp: ipc_inv_def note_request_def distinct_update nth_append set_alist_update intro!: distinct_map_update)
qed

lemma note_request_same [simp]:
  "sockets (note_request rid s) = sockets s" "tasks (note_request rid s) = tasks s" "conn (note_request rid s) = conn s"
  by (simp_all add: note_request_def)

lemma request_begin_cases:
  obtains "snd (request_begin mp rid dr r s) = s"
    | s2 where "pending_replies s2 = pending_replies (note_request rid s)" "replies s2 = replies (note_request rid s)"
        "tasks s2 = tasks s" "snd (request_begin mp rid dr r s) \<in> {s2, forget_reply rid s2}"
proof (cases "conn s")
  case None
  then show ?thesis using that(1) by (simp add: request_begin_def)
next
  case (Some c)
  show ?thesis
  proof (cases "is_connected s")
    case True
    show ?thesis
    proof (cases "write_frame mp (outgoing (sockets s ! c)) (MSG_TYPE r) rid (to_payload r)")
      case (Inl e)
      then show ?thesis using that(2) [of "note_request rid s"] Some True by (simp add: request_begin_def Let_def)
    next
      case (Inr out)
      then show ?thesis
        using that(2) [of "note_request rid s\<lparr>sockets := (sockets s)[c := (sockets s ! c)\<lparr>outgoing := out\<rparr>]\<rparr>"] Some True
        by (simp add: request_begin_def Let_def)
    qed
  qed (use Some that(1) in \<open>simp add: request_begin_def\<close>)
qed

lemma ipc_inv_request:
  assumes "ipc_inv s"
  shows "ipc_inv (snd (request_begin mp rid dr r s))"
proof (cases rule: request_begin_cases [of mp rid dr r s])
  case 1
  with assms show ?thesis by simp
next
  case (2 s2)
  then have "ipc_inv s2" using ipc_inv_note [OF assms, of rid] by (simp add: ipc_inv_def)
  with 2(4) ipc_inv_forget show ?thesis by auto
qed

lemma pending_disconnect [simp]: "pending_replies (disconnect s) = []"
  by (simp add: disconnect_def Let_def split: option.split)

lemma same_table:
  "pending_replies (snd (connect mp opened s)) = pending_replies s" "replies (snd (connect mp opened s)) = replies s"
  "pending_replies (arrive c bs s) = pending_replies s" "replies (arrive c bs s) = replies s"
  "pending_replies (peer_ends c lost s) = pending_replies s" "replies (peer_ends c lost s) = replies s"
  "pending_replies (callback_returns mp sus i s) = pending_replies s" "replies (callback_returns mp sus i s) = replies s"
  "pending_replies (on_event t cb s) = pending_replies s" "replies (on_event t cb s) = replies s"
  "pending_replies (remove_event_handler t cb s) = pending_replies s" "replies (remove_event_handler t cb s) = replies s"
  "pending_replies (snd (next_event kind s)) = pending_replies s" "replies (snd (next_event kind s)) = replies s"
  by (simp_all add: connect_def arrive_def peer_ends_def callback_returns_def on_event_def remove_event_handler_def
      next_event_def Let_def split: prod.split receive_state.split option.split list.split)

lemma ipc_inv_step:
  assumes "ipc_inv s" and "ipc_step mp sus s s'"
  shows "ipc_inv s'"
  using assms(2)
proof cases
  case is_disconnect
  then show ?thesis by (simp add: ipc_inv_def)
qed (simp_all add: assms(1) ipc_inv_receive ipc_inv_request request_times_out_def caller_cancelled_def
    ipc_inv_cancel ipc_inv_forget ipc_inv_cong [OF same_table(1,2)] ipc_inv_cong [OF same_table(3,4)]
    ipc_inv_cong [OF same_table(5,6)] ipc_inv_cong [OF same_table(7,8)] ipc_inv_cong [OF same_table(9,10)]
    ipc_inv_cong [OF same_table(11,12)] ipc_inv_cong [OF same_table(13,14)])

interpretation ipc_sys: invariant_system "\<lambda>s. s = ControlClient w" "ipc_step mp sus" ipc_inv for w mp sus
proof unfold_locales
  show "ipc_inv s" if "s = ControlClient w" for s
    using that by (simp add: ipc_inv_def ControlClient_def)
qed (rule ipc_inv_step)

section \<open>Answers\<close>

text \<open>What a step may do to a future, besides answering it.\<close>

definition reply_kept :: "ipc_client \<Rightarrow> ipc_client \<Rightarrow> nat \<Rightarrow> bool" where
  "reply_kept s s' f \<longleftrightarrow>
     replies s' ! f = replies s ! f \<or> (replies s ! f = Unanswered \<and> replies s' ! f = CancelledReply)"

lemma reply_kept_refl: "replies s' = replies s \<Longrightarrow> reply_kept s s' f"
  by (simp add: reply_kept_def)

lemma reply_kept_cancel: "reply_kept s (settle_reply g CancelledReply s) f"
  by (simp add: reply_kept_def replies_settle)

lemma reply_kept_trans: "reply_kept s t f \<Longrightarrow> reply_kept t u f \<Longrightarrow> reply_kept s u f"
  by (auto simp: reply_kept_def)

lemma reply_kept_fold: "reply_kept s (fold (\<lambda>(_, g). settle_reply g CancelledReply) xs s) f"
proof (induction xs arbitrary: s)
  case (Cons x xs)
  obtain k g where "x = (k, g)" by (cases x)
  then show ?case using reply_kept_trans [OF reply_kept_cancel Cons.IH] by simp
qed (simp add: reply_kept_def)

lemma reply_kept_disconnect: "reply_kept s (disconnect s) f"
proof -
  have "reply_kept u (disconnect s) f"
    if "u = (case receive_task s of None \<Rightarrow> s\<lparr>up := False\<rparr> | Some i \<Rightarrow> (set_task i Finished (s\<lparr>up := False\<rparr>))\<lparr>receive_task := None\<rparr>)" for u
    using reply_kept_fold [of u "pending_replies u" f]
    by (simp add: disconnect_def Let_def that [symmetric] reply_kept_def split: option.split)
  moreover have "replies (case receive_task s of None \<Rightarrow> s\<lparr>up := False\<rparr>
      | Some i \<Rightarrow> (set_task i Finished (s\<lparr>up := False\<rparr>))\<lparr>receive_task := None\<rparr>) = replies s"
    by (simp split: option.split)
  ultimately show ?thesis by (metis (no_types, lifting) reply_kept_def)
qed

lemma reply_kept_request: "f < length (replies s) \<Longrightarrow> reply_kept s (snd (request_begin mp rid dr r s)) f"
  by (cases rule: request_begin_cases [of mp rid dr r s])
    (auto simp: reply_kept_def note_request_def nth_append)

text \<open>A future that a step does not merely keep is answered by the frame at the head of a stream.\<close>

definition answered_by :: "msgpack \<Rightarrow> ipc_client \<Rightarrow> ipc_client \<Rightarrow> nat \<Rightarrow> bool" where
  "answered_by mp s s' f \<longleftrightarrow>
     (\<exists>c t rid d rest. Reading c \<in> set (tasks s) \<and>
        read_frame mp False (incoming (sockets s ! c)) = Some (Inr ((t, rid, d), rest)) \<and> \<not> is_event_type t \<and>
        map_of (pending_replies s) rid = Some f \<and> replies s ! f = Unanswered \<and> replies s' ! f = Answer t d \<and>
        map_of (pending_replies s') rid = None)"

lemma receive_answers:
  assumes i: "i < length (tasks s)"
  shows "reply_kept s (receive mp sus i s) f \<or> answered_by mp s (receive mp sus i s) f"
proof (cases "tasks s ! i")
  case (Reading c)
  let ?st = "incoming (sockets s ! c)"
  show ?thesis
  proof (cases "read_frame mp False ?st")
    case None
    with Reading show ?thesis by (simp add: receive_def reply_kept_def)
  next
    case (Some r)
    show ?thesis
    proof (cases r)
      case (Inl e)
      with Some Reading show ?thesis by (simp add: receive_def Let_def reply_kept_def)
    next
      case (Inr q)
      obtain t rid d st' where q: "q = ((t, rid, d), st')" by (metis prod.exhaust)
      have reads: "Reading c \<in> set (tasks s)" using i Reading by (metis nth_mem)
      show ?thesis
      proof (cases "is_event_type t")
        case True
        then show ?thesis by (simp add: receive_def Reading Some Inr q Let_def reply_kept_def)
      next
        case False
        let ?s' = "loop_head mp i (answer_request rid t d (set_incoming c st' s))"
        have s': "receive mp sus i s = ?s'" using False by (simp add: receive_def Reading Some Inr q Let_def)
        show ?thesis
        proof (cases "map_of (pending_replies s) rid = Some f \<and> f < length (replies s) \<and> replies s ! f = Unanswered")
          case True
          then have "replies ?s' ! f = Answer t d" "map_of (pending_replies ?s') rid = None"
            by (simp_all add: answer_request_def replies_settle delete_conv')
          then have "answered_by mp s ?s' f"
            unfolding answered_by_def using True False reads Some Inr q by blast
          then show ?thesis by (simp add: s')
        next
          case False
          then show ?thesis
            by (auto simp: s' reply_kept_def answer_request_def replies_settle split: option.split)
        qed
      qed
    qed
  qed
qed (simp_all add: receive_def reply_kept_def)

lemma step_answers:
  assumes "ipc_step mp sus s s'" and "f < length (replies s)"
  shows "reply_kept s s' f \<or> answered_by mp s s' f"
  using assms
proof cases
  case is_disconnect
  then show ?thesis by (simp add: reply_kept_disconnect)
next
  case (is_receive i)
  then show ?thesis using receive_answers by simp
next
  case (is_request rid drained r)
  then show ?thesis using assms(2) by (simp add: reply_kept_request)
next
  case (is_timeout g rid)
  then show ?thesis using reply_kept_cancel [of s g f] by (simp add: request_times_out_def reply_kept_def)
next
  case (is_cancelled g)
  then show ?thesis by (simp add: caller_cancelled_def reply_kept_cancel)
qed (simp_all add: reply_kept_refl same_table)

text \<open>
Claim C25. A request is answered at most once and only by its own response. Whatever the client, the
daemon and the operating system do, a step leaves each future as it is, cancels it while it is
unanswered, or gives it the payload of a frame that is no event, stands at the head of the stream of
a task that reads, and carries the id under which the future is registered, which is then
unregistered; and no future in the table has been answered.
\<close>

theorem requests_answered_by_id:
  assumes "reach (\<lambda>s. s = ControlClient w) (ipc_step mp sus) s" and "ipc_step mp sus s s'"
  shows "(\<forall>f < length (replies s). reply_kept s s' f \<or> answered_by mp s s' f) \<and>
    (\<forall>f \<in> snd ` set (pending_replies s'). replies s' ! f \<in> {Unanswered, CancelledReply})"
  using step_answers [OF assms(2)] ipc_sys.reach_inv_step [OF assms] by (simp add: ipc_inv_def)


definition asking :: "pydict \<Rightarrow> bytes \<Rightarrow> ipc_client" where
  "asking d rid =
     snd (request_begin (demo_pack d) rid True (Query PingRequest)
            (snd (connect (demo_pack d) True (ControlClient 30))))"

lemma reader_waits [simp]: "read_frame mp False ([], Silent) = None"
  by (simp add: read_frame_def read_exactly_def frame_consts)

lemma asking_state:
  assumes "length rid = REQUEST_ID_SIZE"
  shows "tasks (asking d rid) = [Reading 0]" "pending_replies (asking d rid) = [(rid, 0)]"
    "replies (asking d rid) = [Unanswered]" "length (sockets (asking d rid)) = 1"
    "incoming (sockets (asking d rid) ! 0) = ([], Silent)" "event_callbacks (asking d rid) = []"
  using assms
  by (simp_all add: asking_def connect_def is_connected_def ControlClient_def loop_head_def set_task_def Let_def
      request_begin_def note_request_def write_frame_def encode_frame_def demo_pack_def MAX_FRAME_PAYLOAD_def)

lemma asking_reached: "reach (\<lambda>s. s = ControlClient 30) (ipc_step (demo_pack d) sus) (asking d rid)"
proof -
  have "reach (\<lambda>s. s = ControlClient 30) (ipc_step (demo_pack d) sus) (ControlClient 30)"
    by (rule reach_start) (rule refl)
  then have "reach (\<lambda>s. s = ControlClient 30) (ipc_step (demo_pack d) sus) (snd (connect (demo_pack d) True (ControlClient 30)))"
    by (rule reach_step) (rule is_connect)
  then show ?thesis unfolding asking_def by (rule reach_step) (rule is_request)
qed

theorem requests_answered_by_id_witness:
  "\<exists>s s'. reach (\<lambda>s. s = ControlClient 30) (ipc_step (demo_pack []) (\<lambda>_. False)) s \<and>
     answered_by (demo_pack []) s s' 0 \<and> replies s' = [Answer PONG []]"
proof -
  let ?mp = "demo_pack []"
  let ?rid = "replicate 16 7 :: bytes"
  have rid: "length ?rid = REQUEST_ID_SIZE" by (simp add: REQUEST_ID_SIZE_def)
  have "packs_text ?mp []" by (simp add: packs_text_def demo_pack_def MAX_FRAME_PAYLOAD_def)
  from frame_read_back [OF rid this, of PONG False "[]" Silent] obtain b
    where b: "read_frame ?mp False (b, Silent) = Some (Inr ((PONG, ?rid, []), ([], Silent)))" by auto
  let ?s = "arrive 0 b (asking [] ?rid)"
  let ?s' = "receive ?mp (\<lambda>_. False) 0 ?s"
  have s: "tasks ?s = [Reading 0]" "replies ?s = [Unanswered]" "incoming (sockets ?s ! 0) = (b, Silent)"
    "pending_replies ?s = [(?rid, 0)]"
    using asking_state [OF rid, of "[]"] by (simp_all add: arrive_def set_incoming_def)
  have "reach (\<lambda>s. s = ControlClient 30) (ipc_step ?mp (\<lambda>_. False)) ?s"
    using asking_reached by (rule reach_step) (rule is_arrive, simp_all add: asking_state [OF rid])
  moreover have "ipc_step ?mp (\<lambda>_. False) ?s ?s'" by (rule is_receive) (simp add: s)
  ultimately have "reply_kept ?s ?s' 0 \<or> answered_by ?mp ?s ?s' 0" "reach (\<lambda>s. s = ControlClient 30) (ipc_step ?mp (\<lambda>_. False)) ?s"
    using requests_answered_by_id [of 30 ?mp "\<lambda>_. False" ?s ?s'] by (simp_all add: s)
  moreover have "replies ?s' = [Answer PONG []]"
    by (simp add: receive_def s b is_event_type_def Let_def answer_request_def settle_reply_def)
  ultimately show ?thesis by (auto simp: reply_kept_def s)
qed

section \<open>A client whose loop does not read\<close>

definition no_reader :: "ipc_client \<Rightarrow> bool" where
  "no_reader s \<longleftrightarrow> (\<forall>c. Reading c \<notin> set (tasks s))"

lemma no_reader_update: "no_reader s \<Longrightarrow> t \<notin> range Reading \<Longrightarrow> set (tasks s') \<subseteq> insert t (set (tasks s)) \<Longrightarrow> no_reader s'"
  by (auto simp: no_reader_def)

lemma tasks_set_task: "set (tasks (set_task i t s)) \<subseteq> insert t (set (tasks s))"
  by (simp add: set_task_def set_update_subset_insert)

lemma no_reader_same: "no_reader s \<Longrightarrow> tasks s' = tasks s \<Longrightarrow> no_reader s'"
  by (simp add: no_reader_def)

lemma fold_settle_same:
  "tasks (fold (\<lambda>(_, g). settle_reply g v) xs s) = tasks s" "conn (fold (\<lambda>(_, g). settle_reply g v) xs s) = conn s"
  by (induction xs arbitrary: s) (auto simp: case_prod_beta)

lemma no_reader_set_task: "no_reader s \<Longrightarrow> no_reader (set_task i Finished s)"
  by (rule no_reader_update [OF _ _ tasks_set_task]) auto

lemma no_reader_disconnect:
  assumes "no_reader s"
  shows "no_reader (disconnect s)"
proof (cases "receive_task s")
  case None
  then have "tasks (disconnect s) = tasks s"
    by (simp add: disconnect_def Let_def fold_settle_same split: option.split)
  with assms show ?thesis by (rule no_reader_same)
next
  case (Some i)
  then have "tasks (disconnect s) = tasks (set_task i Finished s)"
    by (simp add: disconnect_def Let_def fold_settle_same set_task_def split: option.split)
  with no_reader_set_task [OF assms] show ?thesis by (rule no_reader_same)
qed

lemma receive_no_reader:
  assumes "no_reader s" and "i < length (tasks s)"
  shows "receive mp sus i s = s"
proof -
  have "tasks s ! i \<noteq> Reading c" for c using assms by (metis no_reader_def nth_mem)
  then show ?thesis by (auto simp: receive_def split: receive_state.split)
qed

lemma tasks_request_begin: "tasks (snd (request_begin mp rid dr r s)) = tasks s"
  by (cases rule: request_begin_cases [of mp rid dr r s]) auto

lemma same_tasks:
  "tasks (arrive c bs s) = tasks s" "tasks (peer_ends c lost s) = tasks s" "tasks (on_event t cb s) = tasks s"
  "tasks (remove_event_handler t cb s) = tasks s" "tasks (snd (next_event kind s)) = tasks s"
  by (simp_all add: arrive_def peer_ends_def on_event_def remove_event_handler_def next_event_def Let_def
      split: prod.split option.split list.split)

lemma what_wakes:
  assumes "no_reader s" and "ipc_step mp sus s s'"
  shows "no_reader s' \<or> (\<exists>opened. s' = snd (connect mp opened s)) \<or> (\<exists>i < length (tasks s). s' = callback_returns mp sus i s)"
  using assms(2)
proof cases
  case is_disconnect
  with assms(1) show ?thesis by (simp add: no_reader_disconnect)
next
  case (is_receive i)
  with assms(1) show ?thesis by (simp add: receive_no_reader)
next
  case (is_request rid drained r)
  with assms(1) show ?thesis by (simp add: no_reader_def tasks_request_begin)
next
  case (is_timeout f rid)
  with assms(1) show ?thesis by (simp add: request_times_out_def no_reader_def)
next
  case (is_cancelled f)
  with assms(1) show ?thesis by (simp add: caller_cancelled_def no_reader_def)
next
  case (is_connect opened)
  then show ?thesis by blast
next
  case (is_callback_returns i)
  then show ?thesis by blast
qed (use assms(1) in \<open>simp_all add: no_reader_def same_tasks\<close>)

lemma no_reader_keeps:
  assumes "no_reader s" and "ipc_step mp sus s s'" and "f < length (replies s)"
  shows "reply_kept s s' f"
  using step_answers [OF assms(2,3)] assms(1) by (auto simp: answered_by_def no_reader_def)

lemma run_callbacks_stalls:
  "list_ex suspends cbs \<Longrightarrow> \<exists>cbs'. tasks (run_callbacks mp suspends i t d cbs s) = (tasks s)[i := InCallback t d cbs']"
  by (induction mp suspends i t d cbs s rule: run_callbacks.induct) (auto simp: Let_def set_task_def)

text \<open>The next round of the only task loses the connection, or starts a callback that suspends.\<close>

definition stalls :: "msgpack \<Rightarrow> (callback \<Rightarrow> bool) \<Rightarrow> ipc_client \<Rightarrow> bool" where
  "stalls mp suspends s \<longleftrightarrow>
     (\<exists>c. tasks s = [Reading c] \<and>
        (case read_frame mp False (incoming (sockets s ! c)) of
           Some (Inl e) \<Rightarrow> e \<noteq> FrameDecodeError
         | Some (Inr ((t, rid, d), rest)) \<Rightarrow> is_event_type t \<and> list_ex suspends (callbacks_of t s)
         | None \<Rightarrow> False))"

lemma stalls_no_reader:
  assumes "stalls mp sus s"
  shows "no_reader (receive mp sus 0 s)" and "replies (receive mp sus 0 s) = replies s"
proof -
  obtain c r where c: "tasks s = [Reading c]" and r: "read_frame mp False (incoming (sockets s ! c)) = Some r"
    and how: "case r of Inl e \<Rightarrow> e \<noteq> FrameDecodeError
      | Inr ((t, rid, d), rest) \<Rightarrow> is_event_type t \<and> list_ex sus (callbacks_of t s)"
    using assms by (auto simp: stalls_def split: option.splits)
  have "no_reader (receive mp sus 0 s) \<and> replies (receive mp sus 0 s) = replies s"
  proof (cases r)
    case (Inl e)
    with c r how show ?thesis by (simp add: receive_def Let_def no_reader_def set_task_def)
  next
    case (Inr q)
    obtain t rid d st' where q: "q = ((t, rid, d), st')" by (metis prod.exhaust)
    have event: "is_event_type t" "list_ex sus (callbacks_of t s)" using how Inr q by simp_all
    have same: "callbacks_of t (set_incoming c st' s) = callbacks_of t s" by (simp add: callbacks_of_def set_incoming_def)
    obtain cbs' where "tasks (run_callbacks mp sus 0 t d (callbacks_of t s)
        (set_incoming c st' s\<lparr>event_queue := event_queue (set_incoming c st' s) @ [(t, d)]\<rparr>)) = [InCallback t d cbs']"
      using run_callbacks_stalls [OF event(2), of mp 0 t d
          "set_incoming c st' s\<lparr>event_queue := event_queue (set_incoming c st' s) @ [(t, d)]\<rparr>"]
      by (auto simp: c)
    then show ?thesis
      using c r event by (simp add: receive_def Inr q Let_def dispatch_event_def same no_reader_def)
  qed
  then show "no_reader (receive mp sus 0 s)" and "replies (receive mp sus 0 s) = replies s" by auto
qed

lemma length_replies_request: "length (replies s) \<le> length (replies (snd (request_begin mp rid dr r s)))"
  by (cases rule: request_begin_cases [of mp rid dr r s]) (auto simp: note_request_def)

lemma length_replies_receive: "length (replies (receive mp sus i s)) = length (replies s)"
  by (simp add: receive_def Let_def answer_request_def
      split: receive_state.split option.split sum.split prod.split)

lemma length_fold_settle: "length (replies (fold (\<lambda>(_, g). settle_reply g v) xs s)) = length (replies s)"
  by (induction xs arbitrary: s) (auto simp: case_prod_beta)

lemma length_replies_disconnect: "length (replies (disconnect s)) = length (replies s)"
  by (simp add: disconnect_def Let_def length_fold_settle split: option.split)

lemma replies_grow: "ipc_step mp sus s s' \<Longrightarrow> length (replies s) \<le> length (replies s')"
  by (erule ipc_step.cases)
    (simp_all add: same_table length_replies_request length_replies_receive length_replies_disconnect
      request_times_out_def caller_cancelled_def)

lemma unanswered_stays:
  assumes "(\<lambda>a b. ipc_step mp sus a b \<and> no_reader b)\<^sup>*\<^sup>* s s'" and "no_reader s"
    and "f < length (replies s)" and "replies s ! f \<in> {Unanswered, CancelledReply}"
  shows "no_reader s' \<and> f < length (replies s') \<and> replies s' ! f \<in> {Unanswered, CancelledReply}"
  using assms(1)
proof induction
  case base
  with assms show ?case by simp
next
  case (step t u)
  then have "reply_kept t u f" using no_reader_keeps by blast
  moreover have "length (replies t) \<le> length (replies u)" using step.hyps(2) replies_grow by blast
  ultimately show ?case using step by (auto simp: reply_kept_def)
qed

lemma no_reader_stays:
  "(\<lambda>a b. ipc_step mp sus a b \<and> no_reader b)\<^sup>*\<^sup>* s s' \<Longrightarrow> no_reader s \<Longrightarrow> no_reader s'"
  by (induction rule: rtranclp_induct) auto

text \<open>
When the loop loses its connection, or calls a callback whose coroutine suspends, no request
is answered from then on: whatever is done and whatever arrives, every request that waits, and every
later one, stays unanswered until it is cancelled, which its timeout does. Only a new connection, or
the return of a callback, lets a task read again. So a callback that itself waits for a request gets
no answer, and a lost connection fails no request before its timeout.
\<close>

theorem stalled_client_answers_nobody:
  assumes "stalls mp sus s" and "(\<lambda>a b. ipc_step mp sus a b \<and> no_reader b)\<^sup>*\<^sup>* (receive mp sus 0 s) s'"
  shows "(\<forall>f < length (replies s). replies s ! f = Unanswered \<longrightarrow> replies s' ! f \<in> {Unanswered, CancelledReply}) \<and>
    (\<forall>s'' f. ipc_step mp sus s' s'' \<longrightarrow> f < length (replies s') \<longrightarrow> reply_kept s' s'' f) \<and>
    (\<forall>s''. ipc_step mp sus s' s'' \<longrightarrow>
       no_reader s'' \<or> (\<exists>opened. s'' = snd (connect mp opened s')) \<or>
       (\<exists>i < length (tasks s'). s'' = callback_returns mp sus i s'))"
  using unanswered_stays [OF assms(2) stalls_no_reader(1) [OF assms(1)]] stalls_no_reader(2) [OF assms(1)]
    no_reader_stays [OF assms(2) stalls_no_reader(1) [OF assms(1)]] no_reader_keeps what_wakes
  by (metis insertCI)

text \<open>A callback for messages that suspends, and a ping that the daemon answers while it runs.\<close>

theorem stalled_client_answers_nobody_witness:
  "\<exists>s b. stalls (demo_pack []) (\<lambda>_. True) s \<and>
     replies (arrive 0 b (receive (demo_pack []) (\<lambda>_. True) 0 s)) ! 0 \<in> {Unanswered, CancelledReply} \<and>
     read_frame (demo_pack []) False (incoming (sockets (arrive 0 b (receive (demo_pack []) (\<lambda>_. True) 0 s)) ! 0)) =
       Some (Inr ((PONG, replicate 16 7, []), ([], Silent)))"
proof -
  let ?mp = "demo_pack []"
  let ?rid = "replicate 16 7 :: bytes"
  have rid: "length ?rid = REQUEST_ID_SIZE" by (simp add: REQUEST_ID_SIZE_def)
  have packs: "packs_text ?mp []" by (simp add: packs_text_def demo_pack_def MAX_FRAME_PAYLOAD_def)
  from frame_read_back [OF rid packs, of EVENT_MESSAGE False "[]" Silent] obtain e
    where e: "read_frame ?mp False (e, Silent) = Some (Inr ((EVENT_MESSAGE, ?rid, []), ([], Silent)))" by auto
  from frame_read_back [OF rid packs, of PONG False "[]" Silent] obtain b
    where b: "read_frame ?mp False (b, Silent) = Some (Inr ((PONG, ?rid, []), ([], Silent)))" by auto
  let ?s = "arrive 0 e (on_event EVENT_MESSAGE 5 (asking [] ?rid))"
  let ?r = "receive ?mp (\<lambda>_. True) 0 ?s"
  have s: "tasks ?s = [Reading 0]" "replies ?s = [Unanswered]" "incoming (sockets ?s ! 0) = (e, Silent)"
    "callbacks_of EVENT_MESSAGE ?s = [5]" "length (sockets ?s) = 1"
    using asking_state [OF rid, of "[]"]
    by (simp_all add: arrive_def set_incoming_def on_event_def callbacks_of_def Let_def)
  have st: "stalls ?mp (\<lambda>_. True) ?s" using s e by (simp add: stalls_def is_event_type_def)
  have r: "length (sockets ?r) = 1" "incoming (sockets ?r ! 0) = ([], Silent)"
    using s by (simp_all add: receive_def e is_event_type_def Let_def dispatch_event_def callbacks_of_def set_incoming_def set_task_def)
  have "ipc_step ?mp (\<lambda>_. True) ?r (arrive 0 b ?r)" by (rule is_arrive) (simp_all add: r)
  moreover have "no_reader (arrive 0 b ?r)" using stalls_no_reader(1) [OF st] by (simp add: no_reader_def same_tasks)
  ultimately have "(\<lambda>a b. ipc_step ?mp (\<lambda>_. True) a b \<and> no_reader b)\<^sup>*\<^sup>* ?r (arrive 0 b ?r)" by blast
  from stalled_client_answers_nobody [OF st this]
  have "replies (arrive 0 b ?r) ! 0 \<in> {Unanswered, CancelledReply}" by (simp add: s)
  moreover have "incoming (sockets (arrive 0 b ?r) ! 0) = (b, Silent)" using r by (simp add: arrive_def set_incoming_def)
  ultimately show ?thesis using st b by metis
qed

text \<open>
  A callback that outlives its connection: when it returns, the old task reads from the new reader and
  the new connection counts as lost.
\<close>

lemma old_callback_drops_new_connection:
  assumes "tasks s = [InCallback t d [], Reading c]" and "conn s = Some c" "up s"
    and "incoming (sockets s ! c) = ([], Silent)"
  shows "up (callback_returns mp sus 0 s) = False"
    and "tasks (callback_returns mp sus 0 s) = [Finished, Reading c]"
proof -
  have "\<exists>j \<in> {..<length (tasks s)} - {0}. tasks s ! j = Reading c" using assms(1) by (intro bexI [of _ 1]) auto
  then have "callback_returns mp sus 0 s = set_task 0 Finished (s\<lparr>up := False\<rparr>)"
    using assms by (simp add: callback_returns_def loop_head_def)
  with assms(1) show "up (callback_returns mp sus 0 s) = False"
    and "tasks (callback_returns mp sus 0 s) = [Finished, Reading c]"
    by (simp_all add: set_task_def)
qed

text \<open>An event taken by an iterator that waits for another type is gone.\<close>

lemma iterator_discards_other_events:
  assumes "up s" and "event_queue s = (t, d) # q" and "kind \<noteq> t"
  shows "next_event (Some kind) s = (None, s\<lparr>event_queue := q\<rparr>)"
  using assms by (simp add: next_event_def)

text \<open>After an oversized frame its contents are read as the next frame.\<close>

lemma oversized_frame_not_skipped:
  assumes "MAX_FRAME_PAYLOAD + HEADER_SIZE < n" and "n < 2 ^ 32"
  shows "read_frame mp False (be32 n @ rest, e) = Some (Inl FrameDecodeError)"
    and "after_bad_frame (be32 n @ rest, e) = (rest, e)"
  using assms of_be32_be32 [OF assms(2)]
  by (simp_all add: read_frame_def after_bad_frame_def read_exactly_def frame_consts Let_def)

end
