(* ===== verification/Ipc_Calls.thy ===== *)
theory Ipc_Calls
  imports Ipc_Client
begin

text \<open>
  The calls of the control client (\<^verbatim>\<open>src/styrened/ipc/client.py\<close>): for each method of
  \<^verbatim>\<open>ControlClient\<close> the request it sends, the time it waits, and what it makes of the data of the
  answer; the function that looks for a running daemon; and the way of a call through the socket to
  the daemon and back.
\<close>

section \<open>Calls\<close>

record 'a ipc_call =
  call_request :: ipc_request
  call_wait :: "rat option"
  call_decode :: "pyval \<Rightarrow> 'a res"

definition ipc_call :: "ipc_request \<Rightarrow> rat option \<Rightarrow> (pyval \<Rightarrow> 'a res) \<Rightarrow> 'a ipc_call" where
  "ipc_call r w f = \<lparr>call_request = r, call_wait = w, call_decode = f\<rparr>"

definition call_outcome :: "'a ipc_call \<Rightarrow> reply \<Rightarrow> 'a ipc_res option" where
  "call_outcome c v =
     map_option (\<lambda>r. case r of Inl e \<Rightarrow> Inl e | Inr d \<Rightarrow> map_sum Raised id (call_decode c d)) (reply_result v)"

text \<open>\<^verbatim>\<open>data.get(k, v)\<close>, a data class read from the data, and one for each item of a value.\<close>

definition get_key :: "string \<Rightarrow> pyval \<Rightarrow> pyval \<Rightarrow> pyval res" where
  "get_key k dflt v = (case v of PDict d \<Rightarrow> Inr (d_get_or d k dflt) | _ \<Rightarrow> Inl AttributeError)"

definition read_dict :: "(pydict \<Rightarrow> 'a) \<Rightarrow> pyval \<Rightarrow> 'a res" where
  "read_dict f v = (case v of PDict d \<Rightarrow> Inr (f d) | _ \<Rightarrow> Inl AttributeError)"

definition py_iter :: "pyval \<Rightarrow> pyval list res" where
  "py_iter v =
     (case v of
        PList vs \<Rightarrow> Inr vs
      | PDict d \<Rightarrow> Inr (map fst d)
      | PStr s \<Rightarrow> Inr (map (\<lambda>c. PStr c) (py_chars s))
      | PBytes b \<Rightarrow> Inr (map (\<lambda>w. PInt (uint w)) b)
      | _ \<Rightarrow> Inl TypeError)"

definition read_each :: "(pydict \<Rightarrow> 'a) \<Rightarrow> pyval \<Rightarrow> 'a list res" where
  "read_each f v = bind_res (py_iter v) (map_res (read_dict f))"

definition cached_page :: "pyval \<Rightarrow> pyval res" where
  "cached_page v =
     bind_res (get_key ''found'' PNone v) (\<lambda>found.
       if truthy found
       then bind_res (get_key ''content'' (PStr []) v) (\<lambda>c.
            bind_res (get_key ''content_length'' (PInt 0) v) (\<lambda>n.
            bind_res (get_key ''fetched_at'' (PFloat 0) v) (\<lambda>t.
              Inr (PDict (kv [(''content'', c), (''content_length'', n), (''fetched_at'', t)])))))
       else Inr PNone)"

definition no_answer :: "pyval \<Rightarrow> unit res" where
  "no_answer v = Inr ()"

text \<open>\<^verbatim>\<open>base64.b64encode\<close>.\<close>

definition b64_char :: "nat \<Rightarrow> char" where
  "b64_char n = (''ABCDEFGHIJKLMNOPQRSTUVWXYZabcdefghijklmnopqrstuvwxyz0123456789+/'' ! (n mod 64))"

fun b64encode :: "bytes \<Rightarrow> string" where
  "b64encode [] = []"
| "b64encode [a] = [b64_char (unat a div 4), b64_char (unat a * 16), CHR ''='', CHR ''='']"
| "b64encode [a, b] =
     [b64_char (unat a div 4), b64_char (unat a * 16 + unat b div 16), b64_char (unat b * 4), CHR ''='']"
| "b64encode (a # b # c # r) =
     [b64_char (unat a div 4), b64_char (unat a * 16 + unat b div 16), b64_char (unat b * 4 + unat c div 64),
      b64_char (unat c)] @ b64encode r"

section \<open>The methods\<close>

subsection \<open>Queries\<close>

definition query_devices :: "bool \<Rightarrow> DeviceInfo list ipc_call" where
  "query_devices styrene_only =
     ipc_call (Query (QueryDevicesRequest (PBool styrene_only))) None (\<lambda>v. bind_res (get_key
       ''devices'' (PList []) v) (read_each DeviceInfo_from_dict))"

definition query_identity :: "IdentityInfo ipc_call" where
  "query_identity =
     ipc_call (Query QueryIdentityRequest) None (read_dict IdentityInfo_from_dict)"

definition query_status :: "DaemonStatus ipc_call" where
  "query_status =
     ipc_call (Query QueryStatusRequest) None (read_dict DaemonStatus_from_dict)"

definition query_config :: "pyval ipc_call" where
  "query_config =
     ipc_call (Query QueryConfigRequest) None (get_key ''config'' (PDict []))"

definition query_conversations :: "pyval ipc_call" where
  "query_conversations =
     ipc_call (Query (QueryConversationsRequest (PBool True))) None (get_key ''conversations''
       (PList []))"

definition query_messages :: "string \<Rightarrow> int \<Rightarrow> rat option \<Rightarrow> string option \<Rightarrow> pyval ipc_call" where
  "query_messages peer count before status =
     ipc_call (Query (QueryMessagesRequest (PStr peer) (PInt count) (opt PFloat before) (opt PStr
       status))) None (get_key ''messages'' (PList []))"

definition search_messages :: "string \<Rightarrow> string option \<Rightarrow> int \<Rightarrow> pyval ipc_call" where
  "search_messages query peer count =
     ipc_call (Query (QuerySearchMessagesRequest (PStr query) (opt PStr peer) (PInt count))) None
       (get_key ''messages'' (PList []))"

subsection \<open>Messages and remote devices\<close>

definition send_message :: "string \<Rightarrow> string \<Rightarrow> string \<Rightarrow> bool \<Rightarrow> rat \<Rightarrow> pyval ipc_call" where
  "send_message dest msg proto retry tmo =
     ipc_call (Command (CmdSendRequest (PStr dest) (PStr msg) (PStr proto) (PBool retry) (PFloat
       tmo))) (Some (tmo + 5)) (get_key ''sent'' (PBool False))"

definition exec_command :: "string \<Rightarrow> string \<Rightarrow> string list \<Rightarrow> rat \<Rightarrow> ExecResultInfo ipc_call" where
  "exec_command dest command argv tmo =
     ipc_call (Command (CmdExecRequest (PStr dest) (PStr command) (str_list argv) (PFloat tmo)))
       (Some (tmo + 5)) (read_dict ExecResultInfo_from_dict)"

definition announce :: "pyval ipc_call" where
  "announce =
     ipc_call (Command CmdAnnounceRequest) None (get_key ''destination_hash'' (PStr []))"

definition device_status :: "string \<Rightarrow> rat \<Rightarrow> RemoteStatusInfo ipc_call" where
  "device_status dest tmo =
     ipc_call (Command (CmdDeviceStatusRequest (PStr dest) (PFloat tmo))) (Some (tmo + 5))
       (read_dict RemoteStatusInfo_from_dict)"

definition reboot_device :: "string \<Rightarrow> int \<Rightarrow> rat \<Rightarrow> RebootResultInfo ipc_call" where
  "reboot_device dest delay tmo =
     ipc_call (Device (CmdRebootDeviceRequest (PStr dest) (PInt delay) (PFloat tmo))) (Some (tmo +
       5)) (read_dict RebootResultInfo_from_dict)"

definition self_update_device :: "string \<Rightarrow> string option \<Rightarrow> rat \<Rightarrow> SelfUpdateResultInfo ipc_call" where
  "self_update_device dest ver tmo =
     ipc_call (Device (CmdSelfUpdateRequest (PStr dest) (opt PStr ver) (PFloat tmo))) (Some (tmo +
       5)) (read_dict SelfUpdateResultInfo_from_dict)"

definition remote_inbox :: "string \<Rightarrow> int \<Rightarrow> rat \<Rightarrow> pyval ipc_call" where
  "remote_inbox dest count tmo =
     ipc_call (Device (CmdRemoteInboxRequest (PStr dest) (PInt count) (PFloat tmo))) (Some (tmo +
       5)) (get_key ''conversations'' (PList []))"

definition remote_messages :: "string \<Rightarrow> string \<Rightarrow> int \<Rightarrow> rat \<Rightarrow> pyval ipc_call" where
  "remote_messages dest peer count tmo =
     ipc_call (Device (CmdRemoteMessagesRequest (PStr dest) (PStr peer) (PInt count) (PFloat tmo)))
       (Some (tmo + 5)) (get_key ''messages'' (PList []))"

subsection \<open>Chat\<close>

definition send_chat :: "string \<Rightarrow> string \<Rightarrow> string option \<Rightarrow> string \<Rightarrow> string option \<Rightarrow> string option \<Rightarrow> string option \<Rightarrow> string option \<Rightarrow> pyval ipc_call" where
  "send_chat peer content title delivery reply_to data_b64 filename mime =
     ipc_call (Command (CmdSendChatRequest (PStr peer) (PStr content) (opt PStr title) (PStr
       delivery) (opt PStr reply_to) (opt PStr data_b64) (opt PStr filename) (opt PStr mime))) None
       Inr"

definition query_attachment :: "int \<Rightarrow> pyval ipc_call" where
  "query_attachment message_id =
     ipc_call (Page (QueryAttachmentRequest (PInt message_id))) None Inr"

definition mark_read :: "string \<Rightarrow> pyval ipc_call" where
  "mark_read peer =
     ipc_call (Command (CmdMarkReadRequest (PStr peer))) None (get_key ''marked_count'' (PInt 0))"

definition delete_conversation :: "string \<Rightarrow> pyval ipc_call" where
  "delete_conversation peer =
     ipc_call (Command (CmdDeleteConversationRequest (PStr peer))) None (\<lambda>v. bind_res
       (get_key ''deleted_count'' (PInt 0) v) (\<lambda>n. get_key ''deleted'' n v))"

definition delete_message :: "int \<Rightarrow> pyval ipc_call" where
  "delete_message message_id =
     ipc_call (Command (CmdDeleteMessageRequest (PInt message_id))) None (get_key ''deleted'' (PBool
       False))"

definition retry_message :: "int \<Rightarrow> pyval ipc_call" where
  "retry_message message_id =
     ipc_call (Command (CmdRetryMessageRequest (PInt message_id))) None Inr"

subsection \<open>Subscriptions\<close>

definition subscribe_messages :: "string list \<Rightarrow> pyval ipc_call" where
  "subscribe_messages peers =
     ipc_call (Sub (SubMessagesRequest (str_list peers))) None (get_key ''subscribed'' (PBool
       False))"

definition subscribe_devices :: "pyval ipc_call" where
  "subscribe_devices =
     ipc_call (Sub SubDevicesRequest) None (get_key ''subscribed'' (PBool False))"

definition subscribe_activity :: "pyval ipc_call" where
  "subscribe_activity =
     ipc_call (Sub SubActivityRequest) None (get_key ''subscribed'' (PBool False))"

definition unsubscribe :: "string \<Rightarrow> pyval ipc_call" where
  "unsubscribe kind =
     ipc_call (Sub (UnsubRequest (PStr kind))) None (get_key ''unsubscribed'' (PBool False))"

subsection \<open>Contacts, automatic replies, the own identity\<close>

definition set_contact :: "string \<Rightarrow> string \<Rightarrow> string option \<Rightarrow> pyval ipc_call" where
  "set_contact peer nick notes =
     ipc_call (Contact (CmdSetContactRequest (PStr peer) (PStr nick) (opt PStr notes))) None Inr"

definition remove_contact :: "string \<Rightarrow> pyval ipc_call" where
  "remove_contact peer =
     ipc_call (Contact (CmdRemoveContactRequest (PStr peer))) None (get_key ''removed'' (PBool
       False))"

definition query_contacts :: "pyval ipc_call" where
  "query_contacts =
     ipc_call (Contact QueryContactsRequest) None (get_key ''contacts'' (PList []))"

definition resolve_name :: "string \<Rightarrow> bool \<Rightarrow> pyval ipc_call" where
  "resolve_name nm prefix_match =
     ipc_call (Contact (QueryResolveNameRequest (PStr nm) (PBool prefix_match))) None (get_key
       ''peer_hash'' PNone)"

definition query_auto_reply :: "pyval ipc_call" where
  "query_auto_reply =
     ipc_call (Contact QueryAutoReplyRequest) None Inr"

definition set_auto_reply :: "string \<Rightarrow> string \<Rightarrow> int \<Rightarrow> pyval ipc_call" where
  "set_auto_reply mode msg cooldown =
     ipc_call (Contact (CmdSetAutoReplyRequest (PStr mode) (PStr msg) (PInt cooldown))) None Inr"

definition set_identity :: "string \<Rightarrow> string \<Rightarrow> string option \<Rightarrow> pyval ipc_call" where
  "set_identity display_name icon short =
     ipc_call (Device (CmdSetIdentityRequest (PStr display_name) (PStr icon) (opt PStr short))) None
       Inr"

definition sync_messages :: "pyval ipc_call" where
  "sync_messages =
     ipc_call (Contact CmdSyncMessagesRequest) None Inr"

definition query_path_info :: "string \<Rightarrow> pyval ipc_call" where
  "query_path_info dest =
     ipc_call (Contact (QueryPathInfoRequest (PStr dest))) None Inr"

subsection \<open>Pages\<close>

definition fetch_page :: "string \<Rightarrow> string \<Rightarrow> pydict option \<Rightarrow> rat \<Rightarrow> pyval ipc_call" where
  "fetch_page dest path form tmo =
     ipc_call (Page (QueryPageRequest (PStr dest) (PStr path) (PStr []) (opt PDict form) (PFloat
       tmo))) (Some (tmo + 20)) Inr"

definition fetch_page_url :: "string \<Rightarrow> rat \<Rightarrow> pyval ipc_call" where
  "fetch_page_url url tmo =
     ipc_call (Page (QueryPageRequest (PStr []) (PStr ''/page/index.mu'') (PStr url) PNone (PFloat
       tmo))) (Some (tmo + 20)) Inr"

definition page_disconnect :: "string \<Rightarrow> pyval ipc_call" where
  "page_disconnect dest =
     ipc_call (Page (CmdPageDisconnectRequest (PStr dest))) None (get_key ''disconnected'' (PBool
       False))"

definition page_save_site :: "string \<Rightarrow> string \<Rightarrow> int \<Rightarrow> int \<Rightarrow> pyval ipc_call" where
  "page_save_site dest display_name refresh depth =
     ipc_call (Page (CmdPageSaveSiteRequest (PStr dest) (PStr display_name) (PInt refresh) (PInt
       depth))) None (get_key ''saved'' (PBool False))"

definition page_remove_site :: "string \<Rightarrow> pyval ipc_call" where
  "page_remove_site dest =
     ipc_call (Page (CmdPageRemoveSiteRequest (PStr dest))) None (get_key ''removed'' (PBool False))"

definition page_list_sites :: "pyval ipc_call" where
  "page_list_sites =
     ipc_call (Page CmdPageListSitesRequest) None (get_key ''sites'' (PList []))"

definition page_crawl_site :: "string \<Rightarrow> int \<Rightarrow> pyval ipc_call" where
  "page_crawl_site dest depth =
     ipc_call (Page (CmdPageCrawlSiteRequest (PStr dest) (PInt depth))) None (get_key
       ''pages_cached'' (PInt 0))"

definition page_get_cached :: "string \<Rightarrow> string \<Rightarrow> pyval ipc_call" where
  "page_get_cached dest path =
     ipc_call (Page (CmdPageGetCachedRequest (PStr dest) (PStr path))) None cached_page"

definition page_regenerate_index :: "pyval ipc_call" where
  "page_regenerate_index =
     ipc_call (Page CmdPageRegenerateRequest) None (get_key ''regenerated'' (PBool False))"

definition query_page_server_status :: "pyval ipc_call" where
  "query_page_server_status =
     ipc_call (Page QueryPageServerStatusRequest) None Inr"

subsection \<open>The node store, the configuration, blocked peers\<close>

definition get_nodes :: "bool \<Rightarrow> DeviceInfo list ipc_call" where
  "get_nodes styrene_only =
     ipc_call (Node (GetNodesRequest (PBool styrene_only))) None (\<lambda>v. bind_res (get_key
       ''nodes'' (PList []) v) (read_each DeviceInfo_from_dict))"

definition get_core_config :: "pyval ipc_call" where
  "get_core_config =
     ipc_call (Node GetCoreConfigRequest) None (get_key ''config'' (PDict []))"

definition save_core_config :: "pydict \<Rightarrow> pyval ipc_call" where
  "save_core_config config_dict =
     ipc_call (Node (SaveCoreConfigRequest (PDict config_dict))) None (get_key ''saved'' (PBool
       False))"

definition get_hub_status :: "pyval ipc_call" where
  "get_hub_status =
     ipc_call (Node GetHubStatusRequest) None Inr"

definition get_unread_counts :: "pyval ipc_call" where
  "get_unread_counts =
     ipc_call (Node GetUnreadCountsRequest) None (get_key ''counts'' (PDict []))"

definition get_adapter_state :: "pyval ipc_call" where
  "get_adapter_state =
     ipc_call (Node GetAdapterStateRequest) None (get_key ''adapters'' (PList []))"

definition get_activity_history :: "int \<Rightarrow> pyval ipc_call" where
  "get_activity_history count =
     ipc_call (Node (GetActivityHistoryRequest (PInt count))) None (get_key ''events'' (PList []))"

definition block_peer :: "string \<Rightarrow> string \<Rightarrow> string \<Rightarrow> pyval ipc_call" where
  "block_peer ident lxmf nick =
     ipc_call (Node (CmdBlockPeerRequest (PStr ident) (PStr lxmf) (PStr nick))) None Inr"

definition unblock_peer :: "string \<Rightarrow> pyval ipc_call" where
  "unblock_peer ident =
     ipc_call (Node (CmdUnblockPeerRequest (PStr ident))) None Inr"

definition get_blocked_peers :: "pyval ipc_call" where
  "get_blocked_peers =
     ipc_call (Node QueryBlockedPeersRequest) None Inr"

definition boundary_snapshot :: "pyval ipc_call" where
  "boundary_snapshot =
     ipc_call (Device CmdBoundarySnapshotRequest) None Inr"

subsection \<open>Data links\<close>

definition datalink_establish :: "string \<Rightarrow> pyval ipc_call" where
  "datalink_establish dest =
     ipc_call (Datalink (CmdDatalinkEstablishRequest (PStr dest))) None Inr"

definition datalink_teardown :: "string \<Rightarrow> pyval ipc_call" where
  "datalink_teardown dest =
     ipc_call (Datalink (CmdDatalinkTeardownRequest (PStr dest))) None Inr"

definition datalink_status :: "string \<Rightarrow> pyval ipc_call" where
  "datalink_status dest =
     ipc_call (Datalink (CmdDatalinkStatusRequest (PStr dest))) None Inr"

definition datalink_query :: "string \<Rightarrow> pyval ipc_call" where
  "datalink_query dest =
     ipc_call (Datalink (CmdDatalinkQueryRequest (PStr dest))) None Inr"

definition datalink_speedtest :: "string \<Rightarrow> pyval ipc_call" where
  "datalink_speedtest dest =
     ipc_call (Datalink (CmdDatalinkSpeedtestRequest (PStr dest))) (Some 120) Inr"

definition datalink_meta :: "string \<Rightarrow> pyval ipc_call" where
  "datalink_meta dest =
     ipc_call (Datalink (CmdDatalinkMetaRequest (PStr dest))) None Inr"

definition datalink_info :: "string \<Rightarrow> pyval ipc_call" where
  "datalink_info dest =
     ipc_call (Datalink (CmdDatalinkInfoRequest (PStr dest))) None Inr"

subsection \<open>Terminals\<close>

definition terminal_open :: "string \<Rightarrow> int \<Rightarrow> int \<Rightarrow> string \<Rightarrow> string option \<Rightarrow> pyval ipc_call" where
  "terminal_open dest nrows ncols term_type shell =
     ipc_call (Terminal (CmdTerminalOpenRequest (PStr dest) (PStr term_type) (PInt nrows) (PInt
       ncols) (opt PStr shell))) (Some 45) Inr"

definition terminal_input :: "string \<Rightarrow> bytes \<Rightarrow> unit ipc_call" where
  "terminal_input session keys =
     ipc_call (Terminal (CmdTerminalInputRequest (PStr session) (PStr (b64encode keys)))) None
       no_answer"

definition terminal_resize :: "string \<Rightarrow> int \<Rightarrow> int \<Rightarrow> unit ipc_call" where
  "terminal_resize session nrows ncols =
     ipc_call (Terminal (CmdTerminalResizeRequest (PStr session) (PInt nrows) (PInt ncols))) None
       no_answer"

definition terminal_close :: "string \<Rightarrow> unit ipc_call" where
  "terminal_close session =
     ipc_call (Terminal (CmdTerminalCloseRequest (PStr session))) None no_answer"

section \<open>Looking for the daemon\<close>

text \<open>
  \<^verbatim>\<open>ping\<close> has no answer for a cancelled task: \<^verbatim>\<open>CancelledError\<close> is no \<^verbatim>\<open>Exception\<close>.
\<close>

definition ping :: "rat \<Rightarrow> pyval ipc_call" where
  "ping timeout = ipc_call (Query PingRequest) (Some timeout) Inr"

definition ping_result :: "'a ipc_res \<Rightarrow> bool ipc_res" where
  "ping_result r =
     (case r of Inl CallerCancelled \<Rightarrow> Inl CallerCancelled | Inl _ \<Rightarrow> Inr False | Inr _ \<Rightarrow> Inr True)"

text \<open>
  Up to the wait for the ping, which is the future returned, or the result; and what follows the ping.
\<close>

definition daemon_client_end :: "pyval ipc_res \<Rightarrow> ipc_client \<Rightarrow> ipc_client option ipc_res \<times> ipc_client" where
  "daemon_client_end r s =
     (case ping_result r of
        Inl e \<Rightarrow> (Inl e, s)
      | Inr True \<Rightarrow> (Inr (Some s), s)
      | Inr False \<Rightarrow> (Inr None, disconnect s))"

definition get_daemon_client ::
    "msgpack \<Rightarrow> bytes \<Rightarrow> bool \<Rightarrow> bool \<Rightarrow> (nat + ipc_client option ipc_res) \<times> ipc_client" where
  "get_daemon_client mp rid opened drained =
     (case connect mp opened (ControlClient 30) of
        (Inl _, s) \<Rightarrow> (Inr (Inr None), s)
      | (Inr _, s) \<Rightarrow>
          (case request_begin mp rid drained (call_request (ping 2)) s of
             (Inr f, s1) \<Rightarrow> (Inl f, s1)
           | (Inl e, s1) \<Rightarrow> map_prod Inr id (daemon_client_end (Inl e) s1)))"


section \<open>A call through the socket\<close>

text \<open>
  A client at rest: its one task that reads does so from its connection, on which nothing waits.
\<close>

definition at_rest :: "nat \<Rightarrow> nat \<Rightarrow> ipc_client \<Rightarrow> bool" where
  "at_rest c i s \<longleftrightarrow>
     is_connected s \<and> conn s = Some c \<and> c < length (sockets s) \<and> incoming (sockets s ! c) = ([], Silent) \<and>
     i < length (tasks s) \<and> tasks s ! i = Reading c \<and> (\<forall>j < length (tasks s). j \<noteq> i \<longrightarrow> tasks s ! j \<noteq> Reading c)"

lemma delete_updated: "k \<notin> fst ` set xs \<Longrightarrow> AList.delete k (AList.update k v xs) = xs"
  by (induction xs) (auto simp: AList.delete_eq filter_id_conv)

lemma request_sent:
  assumes rest: "at_rest c i s" and b: "encode_frame mp (MSG_TYPE r) rid (to_payload r) = Inr b"
  shows "request_begin mp rid True r s =
    (Inr (length (replies s)),
     note_request rid s\<lparr>sockets := (sockets s)[c := (sockets s ! c)\<lparr>outgoing := outgoing (sockets s ! c) @ b\<rparr>]\<rparr>)"
  using rest b by (simp add: at_rest_def request_begin_def write_frame_def Let_def)

lemma answer_received:
  assumes "tasks s ! i = Reading c" "conn s = Some c" "up s" "c < length (sockets s)" "i < length (tasks s)"
    and "incoming (sockets s ! c) = (a, Silent)"
    and "read_frame mp False (a, Silent) = Some (Inr ((t, rid, d), ([], Silent)))" and "\<not> is_event_type t"
    and "map_of (pending_replies s) rid = Some f" "f < length (replies s)" "replies s ! f = Unanswered"
    and "\<forall>j < length (tasks s). j \<noteq> i \<longrightarrow> tasks s ! j \<noteq> Reading c"
  shows "replies (receive mp sus i s) ! f = Answer t d"
    and "pending_replies (receive mp sus i s) = AList.delete rid (pending_replies s)"
    and "at_rest c i (receive mp sus i s) \<longleftrightarrow> \<not> closed (sockets s ! c)"
proof -
  let ?s1 = "set_incoming c ([], Silent) s"
  let ?s2 = "answer_request rid t d ?s1"
  have r: "receive mp sus i s = loop_head mp i ?s2" using assms by (simp add: receive_def Let_def)
  have s2: "conn ?s2 = Some c" "up ?s2" "tasks ?s2 = tasks s" "sockets ?s2 = sockets ?s1"
    "pending_replies ?s2 = AList.delete rid (pending_replies s)" "replies ?s2 ! f = Answer t d"
    using assms by (simp_all add: answer_request_def replies_settle)
  moreover have "\<not> (\<exists>j \<in> {..<length (tasks ?s2)} - {i}. tasks ?s2 ! j = Reading c)" using assms(12) s2(3) by auto
  ultimately have h: "loop_head mp i ?s2 = set_task i (Reading c) ?s2" by (simp add: loop_head_def)
  show "replies (receive mp sus i s) ! f = Answer t d"
    and "pending_replies (receive mp sus i s) = AList.delete rid (pending_replies s)"
    using s2 by (simp_all add: r h)
  show "at_rest c i (receive mp sus i s) \<longleftrightarrow> \<not> closed (sockets s ! c)"
    unfolding r h at_rest_def is_connected_def
    using assms(3-5,12) s2 by (auto simp: set_task_def set_incoming_def nth_list_update)
qed

text \<open>
Claim C24. A call goes through. When a client at rest sends a request under a fresh id, the daemon reads
that frame and rebuilds the request from it if the factory knows how to; and when the daemon writes its
result under the id, the next round of the client's loop gives the caller exactly what the method makes
of the data, forgets the request, and leaves the client at rest with its other requests as they were.
\<close>

theorem call_goes_through:
  assumes "at_rest c i s" and "length rid = REQUEST_ID_SIZE" and "rid \<notin> fst ` set (pending_replies s)"
    and "packs_text mp (to_payload (call_request call))"
    and "packs_text mp (ResultResponse_to_payload (ResultResponse ok v))"
  shows "\<exists>s1 b a. request_begin mp rid True (call_request call) s = (Inr (length (replies s)), s1) \<and>
    outgoing (sockets s1 ! c) = outgoing (sockets s ! c) @ b \<and>
    (\<exists>d. read_frame mp False (b, Silent) = Some (Inr ((MSG_TYPE (call_request call), rid, d), ([], Silent))) \<and>
       (create_request (MSG_TYPE (call_request call)) d = Inr (call_request call) \<longleftrightarrow> arrives (call_request call))) \<and>
    encode_frame mp RESULT rid (ResultResponse_to_payload (ResultResponse ok v)) = Inr a \<and>
    (let s2 = receive mp sus i (arrive c a s1) in
       call_outcome call (replies s2 ! length (replies s)) = Some (map_sum Raised id (call_decode call v)) \<and>
       pending_replies s2 = pending_replies s \<and> at_rest c i s2)"
proof -
  let ?r = "call_request call" and ?f = "length (replies s)"
  obtain b where b: "encode_frame mp (MSG_TYPE ?r) rid (to_payload ?r) = Inr b"
      "read_frame mp False (b, Silent) = Some (Inr ((MSG_TYPE ?r, rid, to_payload ?r), ([], Silent)))"
    using frame_read_back [OF assms(2,4), of "MSG_TYPE ?r" False "[]" Silent] by auto
  obtain a where a: "encode_frame mp RESULT rid (ResultResponse_to_payload (ResultResponse ok v)) = Inr a"
      "read_frame mp False (a, Silent) =
         Some (Inr ((RESULT, rid, ResultResponse_to_payload (ResultResponse ok v)), ([], Silent)))"
    using frame_read_back [OF assms(2,5), of RESULT False "[]" Silent] by auto
  define s1 where "s1 = note_request rid s\<lparr>sockets := (sockets s)[c := (sockets s ! c)\<lparr>outgoing := outgoing (sockets s ! c) @ b\<rparr>]\<rparr>"
  define s2 where "s2 = arrive c a s1"
  have c: "c < length (sockets s)" using assms(1) by (simp add: at_rest_def)
  have s2: "tasks s2 = tasks s" "conn s2 = Some c" "up s2" "length (sockets s2) = length (sockets s)"
    "incoming (sockets s2 ! c) = (a, Silent)" "map_of (pending_replies s2) rid = Some ?f"
    "length (replies s2) = Suc ?f" "replies s2 ! ?f = Unanswered" "\<not> closed (sockets s2 ! c)"
    "pending_replies s2 = AList.update rid ?f (pending_replies s)"
    using assms(1) c
    by (auto simp: at_rest_def is_connected_def s1_def s2_def arrive_def set_incoming_def note_request_def update_conv')
  have s: "tasks s2 ! i = Reading c" "i < length (tasks s2)"
      "\<forall>j < length (tasks s2). j \<noteq> i \<longrightarrow> tasks s2 ! j \<noteq> Reading c"
    using assms(1) s2(1) by (simp_all add: at_rest_def)
  have f: "?f < length (replies s2)" "c < length (sockets s2)" using s2 c by simp_all
  note got = answer_received [OF s(1) s2(2,3) f(2) s(2) s2(5) a(2) _ s2(6) f(1) s2(8) s(3), of sus]
  have "replies (receive mp sus i s2) ! ?f = Answer RESULT (ResultResponse_to_payload (ResultResponse ok v))"
    "pending_replies (receive mp sus i s2) = AList.delete rid (pending_replies s2)"
    "at_rest c i (receive mp sus i s2)"
    using got s2(9) by (simp_all add: is_event_type_def)
  then have "call_outcome call (replies (receive mp sus i s2) ! ?f) = Some (map_sum Raised id (call_decode call v)) \<and>
      pending_replies (receive mp sus i s2) = pending_replies s \<and> at_rest c i (receive mp sus i s2)"
    using s2 assms(3) by (simp add: call_outcome_def reply_result_def d_get_or_def delete_updated)
  moreover have "request_begin mp rid True ?r s = (Inr ?f, s1)"
    unfolding s1_def by (rule request_sent [OF assms(1) b(1)])
  moreover have "outgoing (sockets s1 ! c) = outgoing (sockets s ! c) @ b" using c by (simp add: s1_def)
  moreover have "create_request (MSG_TYPE ?r) (to_payload ?r) = Inr ?r \<longleftrightarrow> arrives ?r"
    using request_arrives [of ?r] by (simp add: rebuilt_def to_wire_def)
  ultimately show ?thesis using a(1) b(2) unfolding s2_def Let_def by blast
qed

definition client_at_rest :: ipc_client where
  "client_at_rest = snd (connect (demo_pack []) True (ControlClient 30))"

text \<open>A library that packs two dictionaries, told apart by the byte they become.\<close>

definition two_pack :: "pydict \<Rightarrow> pydict \<Rightarrow> msgpack" where
  "two_pack d e =
     \<lparr>packb = (\<lambda>v. Inr [if v = PDict d then 1 else 2]), unpackb_strict = (\<lambda>_. Inr (PDict d)),
      unpackb_text = (\<lambda>b. Inr (PDict (if b = [1] then d else e))), unpackb_raw = (\<lambda>_. Inr (PDict d))\<rparr>"

theorem call_goes_through_witness:
  "\<exists>mp b a s1 d. request_begin mp (replicate 16 7) True (call_request (mark_read ''peer'')) client_at_rest = (Inr 0, s1) \<and>
     outgoing (sockets s1 ! 0) = b \<and>
     read_frame mp False (b, Silent) = Some (Inr ((CMD_MARK_READ, replicate 16 7, d), ([], Silent))) \<and>
     create_request CMD_MARK_READ d = Inr (call_request (mark_read ''peer'')) \<and>
     call_outcome (mark_read ''peer'') (replies (receive mp (\<lambda>_. False) 0 (arrive 0 a s1)) ! 0) = Some (Inr (PInt 3))"
proof -
  let ?call = "mark_read ''peer''" and ?rid = "replicate 16 7 :: bytes" and ?v = "PDict [(PStr ''marked_count'', PInt 3)]"
  let ?d = "to_payload (call_request ?call)" and ?e = "ResultResponse_to_payload (ResultResponse (PBool True) ?v)"
  let ?mp = "two_pack ?d ?e"
  have rest: "at_rest 0 0 client_at_rest"
    by (simp add: at_rest_def client_at_rest_def connect_def is_connected_def ControlClient_def loop_head_def
        set_task_def Let_def)
  have rid: "length ?rid = REQUEST_ID_SIZE" by (simp add: REQUEST_ID_SIZE_def)
  have fresh: "?rid \<notin> fst ` set (pending_replies client_at_rest)"
    by (simp add: client_at_rest_def connect_def is_connected_def ControlClient_def)
  have empty: "outgoing (sockets client_at_rest ! 0) = []" "replies client_at_rest = []"
    by (simp_all add: client_at_rest_def connect_def is_connected_def ControlClient_def)
  have "?d \<noteq> ?e" by (simp add: mark_read_def ipc_call_def to_payload_def)
  then have packs: "packs_text ?mp ?d" "packs_text ?mp ?e"
    by (simp_all add: packs_text_def two_pack_def MAX_FRAME_PAYLOAD_def)
  have call: "MSG_TYPE (call_request ?call) = CMD_MARK_READ" "arrives (call_request ?call)"
    "call_decode ?call ?v = Inr (PInt 3)"
    by (simp_all add: mark_read_def ipc_call_def arrives_def get_key_def d_get_or_def)
  from call_goes_through [OF rest rid fresh packs, where sus = "\<lambda>_. False"] show ?thesis
    by (simp only: call empty list.size append_Nil Let_def map_sum.simps id_apply) blast
qed

section \<open>What the client asks\<close>

inductive made_by_client :: "ipc_request \<Rightarrow> bool" where
  mc_query_devices: "made_by_client (call_request (query_devices styrene_only))"
| mc_query_identity: "made_by_client (call_request query_identity)"
| mc_query_status: "made_by_client (call_request query_status)"
| mc_query_config: "made_by_client (call_request query_config)"
| mc_query_conversations: "made_by_client (call_request query_conversations)"
| mc_query_messages: "made_by_client (call_request (query_messages peer count before status))"
| mc_search_messages: "made_by_client (call_request (search_messages query peer count))"
| mc_send_message: "made_by_client (call_request (send_message dest msg proto retry tmo))"
| mc_exec_command: "made_by_client (call_request (exec_command dest command argv tmo))"
| mc_announce: "made_by_client (call_request announce)"
| mc_device_status: "made_by_client (call_request (device_status dest tmo))"
| mc_reboot_device: "made_by_client (call_request (reboot_device dest delay tmo))"
| mc_self_update_device: "made_by_client (call_request (self_update_device dest ver tmo))"
| mc_remote_inbox: "made_by_client (call_request (remote_inbox dest count tmo))"
| mc_remote_messages: "made_by_client (call_request (remote_messages dest peer count tmo))"
| mc_send_chat: "made_by_client (call_request (send_chat peer content title delivery reply_to data_b64 filename mime))"
| mc_query_attachment: "made_by_client (call_request (query_attachment message_id))"
| mc_mark_read: "made_by_client (call_request (mark_read peer))"
| mc_delete_conversation: "made_by_client (call_request (delete_conversation peer))"
| mc_delete_message: "made_by_client (call_request (delete_message message_id))"
| mc_retry_message: "made_by_client (call_request (retry_message message_id))"
| mc_subscribe_messages: "made_by_client (call_request (subscribe_messages peers))"
| mc_subscribe_devices: "made_by_client (call_request subscribe_devices)"
| mc_subscribe_activity: "made_by_client (call_request subscribe_activity)"
| mc_unsubscribe: "made_by_client (call_request (unsubscribe kind))"
| mc_set_contact: "made_by_client (call_request (set_contact peer nick notes))"
| mc_remove_contact: "made_by_client (call_request (remove_contact peer))"
| mc_query_contacts: "made_by_client (call_request query_contacts)"
| mc_resolve_name: "made_by_client (call_request (resolve_name nm prefix_match))"
| mc_query_auto_reply: "made_by_client (call_request query_auto_reply)"
| mc_set_auto_reply: "made_by_client (call_request (set_auto_reply mode msg cooldown))"
| mc_set_identity: "made_by_client (call_request (set_identity display_name icon short))"
| mc_sync_messages: "made_by_client (call_request sync_messages)"
| mc_query_path_info: "made_by_client (call_request (query_path_info dest))"
| mc_fetch_page: "made_by_client (call_request (fetch_page dest path form tmo))"
| mc_fetch_page_url: "made_by_client (call_request (fetch_page_url url tmo))"
| mc_page_disconnect: "made_by_client (call_request (page_disconnect dest))"
| mc_page_save_site: "made_by_client (call_request (page_save_site dest display_name refresh depth))"
| mc_page_remove_site: "made_by_client (call_request (page_remove_site dest))"
| mc_page_list_sites: "made_by_client (call_request page_list_sites)"
| mc_page_crawl_site: "made_by_client (call_request (page_crawl_site dest depth))"
| mc_page_get_cached: "made_by_client (call_request (page_get_cached dest path))"
| mc_page_regenerate_index: "made_by_client (call_request page_regenerate_index)"
| mc_query_page_server_status: "made_by_client (call_request query_page_server_status)"
| mc_get_nodes: "made_by_client (call_request (get_nodes styrene_only))"
| mc_get_core_config: "made_by_client (call_request get_core_config)"
| mc_save_core_config: "made_by_client (call_request (save_core_config config_dict))"
| mc_get_hub_status: "made_by_client (call_request get_hub_status)"
| mc_get_unread_counts: "made_by_client (call_request get_unread_counts)"
| mc_get_adapter_state: "made_by_client (call_request get_adapter_state)"
| mc_get_activity_history: "made_by_client (call_request (get_activity_history count))"
| mc_block_peer: "made_by_client (call_request (block_peer ident lxmf nick))"
| mc_unblock_peer: "made_by_client (call_request (unblock_peer ident))"
| mc_get_blocked_peers: "made_by_client (call_request get_blocked_peers)"
| mc_boundary_snapshot: "made_by_client (call_request boundary_snapshot)"
| mc_datalink_establish: "made_by_client (call_request (datalink_establish dest))"
| mc_datalink_teardown: "made_by_client (call_request (datalink_teardown dest))"
| mc_datalink_status: "made_by_client (call_request (datalink_status dest))"
| mc_datalink_query: "made_by_client (call_request (datalink_query dest))"
| mc_datalink_speedtest: "made_by_client (call_request (datalink_speedtest dest))"
| mc_datalink_meta: "made_by_client (call_request (datalink_meta dest))"
| mc_datalink_info: "made_by_client (call_request (datalink_info dest))"
| mc_terminal_open: "made_by_client (call_request (terminal_open dest nrows ncols term_type shell))"
| mc_terminal_input: "made_by_client (call_request (terminal_input session keys))"
| mc_terminal_resize: "made_by_client (call_request (terminal_resize session nrows ncols))"
| mc_terminal_close: "made_by_client (call_request (terminal_close session))"
| mc_ping: "made_by_client (call_request (ping timeout))"

lemmas call_defs = ipc_call_def
  query_devices_def query_identity_def query_status_def query_config_def query_conversations_def
  query_messages_def search_messages_def send_message_def exec_command_def announce_def
  device_status_def reboot_device_def self_update_device_def remote_inbox_def remote_messages_def
  send_chat_def query_attachment_def mark_read_def delete_conversation_def delete_message_def
  retry_message_def subscribe_messages_def subscribe_devices_def subscribe_activity_def
  unsubscribe_def set_contact_def remove_contact_def query_contacts_def resolve_name_def
  query_auto_reply_def set_auto_reply_def set_identity_def sync_messages_def query_path_info_def
  fetch_page_def fetch_page_url_def page_disconnect_def page_save_site_def page_remove_site_def
  page_list_sites_def page_crawl_site_def page_get_cached_def page_regenerate_index_def
  query_page_server_status_def get_nodes_def get_core_config_def save_core_config_def
  get_hub_status_def get_unread_counts_def get_adapter_state_def get_activity_history_def
  block_peer_def unblock_peer_def get_blocked_peers_def boundary_snapshot_def datalink_establish_def
  datalink_teardown_def datalink_status_def datalink_query_def datalink_speedtest_def
  datalink_meta_def datalink_info_def terminal_open_def terminal_input_def terminal_resize_def
  terminal_close_def ping_def


lemma str_list_default: "no_value (PList []) (str_list xs)"
  by (cases xs) (simp_all add: no_value_def str_list_def)

lemma text_default: "no_value (PStr []) (PStr t)"
  by (simp add: no_value_def)

text \<open>
Claim C26. Whatever method of the client is called, with whatever arguments, the daemon's factory rebuilds
the request that the client made, in two cases only on a condition: the url of \<^verbatim>\<open>fetch_page_url\<close> is
lost unless it is empty, and \<^verbatim>\<open>send_chat\<close> loses the name and the type of an attachment without data.
\<close>

theorem client_requests_rebuilt:
  assumes "made_by_client r"
  shows "create_request (MSG_TYPE r) (to_payload r) = Inr r \<longleftrightarrow>
    (case r of
       Page (QueryPageRequest _ _ url _ _) \<Rightarrow> url = PStr []
     | Command (CmdSendChatRequest _ _ _ _ _ data filename mime) \<Rightarrow> data = PNone \<longrightarrow> filename = PNone \<and> mime = PNone
     | _ \<Rightarrow> True)"
proof -
  have "arrives r \<longleftrightarrow>
    (case r of
       Page (QueryPageRequest _ _ url _ _) \<Rightarrow> url = PStr []
     | Command (CmdSendChatRequest _ _ _ _ _ data filename mime) \<Rightarrow> data = PNone \<longrightarrow> filename = PNone \<and> mime = PNone
     | _ \<Rightarrow> True)"
    using assms by cases (simp_all add: call_defs arrives_def is_text_def str_list_default text_default)
  then show ?thesis using request_arrives [of r] by (simp add: rebuilt_def to_wire_def)
qed

theorem client_requests_rebuilt_witness:
  "create_request QUERY_PAGE (to_payload (call_request (fetch_page_url ''http://node.i2p/'' 30))) \<noteq>
     Inr (call_request (fetch_page_url ''http://node.i2p/'' 30))"
  using client_requests_rebuilt [OF mc_fetch_page_url, of "''http://node.i2p/''" 30]
  by (simp add: fetch_page_url_def ipc_call_def)

text \<open>What the typed methods return is what the daemon put into its answer.\<close>

lemma map_read_dict: "(\<And>x. from_d (to_d x) = x) \<Longrightarrow> map_res (read_dict from_d) (map (\<lambda>x. PDict (to_d x)) xs) = Inr xs"
  by (induction xs) (simp_all add: read_dict_def)

lemma typed_calls_read_back:
  "call_decode query_status (PDict (DaemonStatus_to_dict st)) = Inr st"
  "call_decode query_identity (PDict (IdentityInfo_to_dict ii)) = Inr ii"
  "call_decode (query_devices b) (PDict [(PStr ''devices'', PList (map (\<lambda>x. PDict (DeviceInfo_to_dict x)) ds))]) = Inr ds"
  "call_decode (get_nodes b) (PDict [(PStr ''nodes'', PList (map (\<lambda>x. PDict (DeviceInfo_to_dict x)) ds))]) = Inr ds"
  "call_decode (exec_command dest command argv tmo) (PDict (ExecResultInfo_to_dict x)) = Inr x"
  by (simp_all add: call_defs read_dict_def read_each_def get_key_def d_get_or_def py_iter_def map_read_dict
      daemon_status.read_back identity_info.read_back device_info.read_back exec_result_info.read_back)

text \<open>A ping that is waiting when the client disconnects raises, it does not return false.\<close>

lemma ping_cancelled_by_disconnect:
  "reply_result CancelledReply = Some (Inl CallerCancelled) \<and>
   ping_result (Inl CallerCancelled) = Inl CallerCancelled"
  by (simp add: reply_result_def ping_result_def)

end
