(* ===== verification/File_System.thy ===== *)
theory File_System
  imports Py_Text
begin

text \<open>
  What the code uses of \<^verbatim>\<open>pathlib\<close>, \<^verbatim>\<open>os\<close> and \<^verbatim>\<open>shutil\<close>: a file system as a map from absolute
  paths to files, directories and symbolic links, and the operations on it. A path is the list of its
  components. Links in the middle of a path are not followed. Every change may be refused, which the
  set of paths \<open>denied\<close> tells; missing and wrong kinds of files are refused as the system does.
\<close>

section \<open>Paths and files\<close>

type_synonym path = "string list"

datatype link = Abs path | Rel path

datatype node = File bytes | Dir | Link link

type_synonym fs = "path \<Rightarrow> node option"

definition ENOENT :: exn where "ENOENT = OSError"

text \<open>\<^verbatim>\<open>..\<close> and \<^verbatim>\<open>.\<close> taken out of a path; the first argument is what has been read, backwards.\<close>

fun normal :: "path \<Rightarrow> path \<Rightarrow> path" where
  "normal acc [] = rev acc"
| "normal acc (c # cs) =
     (if c = ''..'' then normal (tl acc) cs else if c = ''.'' \<or> c = [] then normal acc cs else normal (c # acc) cs)"

definition link_target :: "path \<Rightarrow> link \<Rightarrow> path" where
  "link_target p l = (case l of Abs q \<Rightarrow> q | Rel cs \<Rightarrow> normal [] (butlast p @ cs))"

text \<open>\<^verbatim>\<open>with_suffix\<close>: the part from the last dot is the suffix, unless it is the first or the last character.\<close>

definition stem :: "string \<Rightarrow> string" where
  "stem s =
     (case dropWhile (\<lambda>c. c \<noteq> CHR ''.'') (rev s) of
        [] \<Rightarrow> s
      | d # r \<Rightarrow> if r = [] \<or> last s = CHR ''.'' then s else rev r)"

definition with_suffix :: "path \<Rightarrow> string \<Rightarrow> path" where
  "with_suffix p t = butlast p @ [stem (last p) @ t]"

lemma with_suffix_simps [simp]:
  "with_suffix p s = with_suffix p t \<longleftrightarrow> s = t" "with_suffix p s \<noteq> []"
  "butlast (with_suffix p s) = butlast p" "last (with_suffix p s) = stem (last p) @ s"
  by (auto simp: with_suffix_def)

section \<open>Looking\<close>

definition MAXSYMLINKS :: nat where "MAXSYMLINKS = 40"

fun follow :: "nat \<Rightarrow> fs \<Rightarrow> path \<Rightarrow> path" where
  "follow 0 fs p = p"
| "follow (Suc n) fs p = (case fs p of Some (Link l) \<Rightarrow> follow n fs (link_target p l) | _ \<Rightarrow> p)"

definition resolve :: "fs \<Rightarrow> path \<Rightarrow> path" where
  "resolve fs p = follow MAXSYMLINKS fs p"

definition path_exists :: "fs \<Rightarrow> path \<Rightarrow> bool" where
  "path_exists fs p \<longleftrightarrow> (case fs (resolve fs p) of None \<Rightarrow> False | Some (Link _) \<Rightarrow> False | _ \<Rightarrow> True)"

definition is_file :: "fs \<Rightarrow> path \<Rightarrow> bool" where
  "is_file fs p \<longleftrightarrow> (case fs (resolve fs p) of Some (File _) \<Rightarrow> True | _ \<Rightarrow> False)"

definition is_symlink :: "fs \<Rightarrow> path \<Rightarrow> bool" where
  "is_symlink fs p \<longleftrightarrow> (case fs p of Some (Link _) \<Rightarrow> True | _ \<Rightarrow> False)"

definition read_bytes :: "fs \<Rightarrow> path \<Rightarrow> bytes res" where
  "read_bytes fs p = (case fs (resolve fs p) of Some (File b) \<Rightarrow> Inr b | _ \<Rightarrow> Inl OSError)"

definition read_link :: "fs \<Rightarrow> path \<Rightarrow> link res" where
  "read_link fs p = (case fs p of Some (Link l) \<Rightarrow> Inr l | _ \<Rightarrow> Inl OSError)"

section \<open>Changing\<close>

type_synonym denied = "path \<Rightarrow> bool"

definition unlink :: "denied \<Rightarrow> path \<Rightarrow> fs \<Rightarrow> fs res" where
  "unlink deny p fs =
     (case fs p of
        None \<Rightarrow> Inl ENOENT
      | Some Dir \<Rightarrow> Inl OSError
      | Some _ \<Rightarrow> if deny p then Inl OSError else Inr (fs(p := None)))"

text \<open>A directory moves with all that is in it; a file replaces a file or a link.\<close>

definition move_tree :: "path \<Rightarrow> path \<Rightarrow> fs \<Rightarrow> fs" where
  "move_tree p q fs =
     (\<lambda>r. if prefix q r then fs (p @ drop (length q) r) else if prefix p r then None else fs r)"

definition rename :: "denied \<Rightarrow> path \<Rightarrow> path \<Rightarrow> fs \<Rightarrow> fs res" where
  "rename deny p q fs =
     (if deny p \<or> deny q then Inl OSError
      else case fs p of
        None \<Rightarrow> Inl ENOENT
      | Some Dir \<Rightarrow> if fs q = None \<and> \<not> prefix p q then Inr (move_tree p q fs) else Inl OSError
      | Some n \<Rightarrow> if fs q = Some Dir then Inl OSError else Inr ((fs(p := None))(q := Some n)))"

definition mkdir_parents :: "denied \<Rightarrow> path \<Rightarrow> fs \<Rightarrow> fs res" where
  "mkdir_parents deny p fs =
     (if \<exists>r \<in> set (prefixes p). (case fs r of Some Dir \<Rightarrow> False | None \<Rightarrow> deny r | _ \<Rightarrow> True) then Inl OSError
      else Inr (\<lambda>r. if fs r = None \<and> prefix r p then Some Dir else fs r))"

definition symlink_to :: "denied \<Rightarrow> path \<Rightarrow> path \<Rightarrow> fs \<Rightarrow> fs res" where
  "symlink_to deny p q fs = (if deny p \<or> fs p \<noteq> None then Inl OSError else Inr (fs(p \<mapsto> Link (Abs q))))"

text \<open>Writing goes through a link.\<close>

definition write_file :: "denied \<Rightarrow> path \<Rightarrow> bytes \<Rightarrow> fs \<Rightarrow> fs res" where
  "write_file deny p b fs =
     (let q = resolve fs p in
      if deny q then Inl OSError
      else case fs q of
        Some Dir \<Rightarrow> Inl OSError
      | Some (Link _) \<Rightarrow> Inl OSError
      | _ \<Rightarrow> Inr (fs(q \<mapsto> File b)))"

lemma mkdir_no_link: "mkdir_parents deny d fs = Inr fs1 \<Longrightarrow> \<not> is_symlink fs p \<Longrightarrow> \<not> is_symlink fs1 p"
  by (auto simp: mkdir_parents_def is_symlink_def split: if_splits)

lemma resolve_no_link: "\<not> is_symlink fs p \<Longrightarrow> resolve fs p = p"
  by (cases "fs p") (auto simp: resolve_def MAXSYMLINKS_def is_symlink_def numeral_eq_Suc split: node.splits)

lemma plain_file:
  assumes "fs p = Some (File b)"
  shows "resolve fs p = p" "path_exists fs p" "is_file fs p" "read_bytes fs p = Inr b" "\<not> is_symlink fs p"
proof -
  show r: "resolve fs p = p" by (rule resolve_no_link) (simp add: is_symlink_def assms)
  show "path_exists fs p" "is_file fs p" "read_bytes fs p = Inr b" "\<not> is_symlink fs p"
    using assms r by (simp_all add: path_exists_def is_file_def read_bytes_def is_symlink_def)
qed

lemma absent:
  assumes "fs p = None"
  shows "resolve fs p = p" "\<not> path_exists fs p" "\<not> is_file fs p" "\<not> is_symlink fs p"
proof -
  show r: "resolve fs p = p" by (rule resolve_no_link) (simp add: is_symlink_def assms)
  show "\<not> path_exists fs p" "\<not> is_file fs p" "\<not> is_symlink fs p"
    using assms r by (simp_all add: path_exists_def is_file_def is_symlink_def)
qed

end
