(* ===== verification/Paths.thy ===== *)
theory Paths
  imports File_System
begin

text \<open>
  Where the program keeps its files (\<^verbatim>\<open>src/styrened/paths.py\<close>): the directories by environment,
  mode and XDG defaults, the files in them, and the migrations, which move or copy files of earlier
  versions. The environment is a record; a path is refused through \<open>denied\<close>. \<^verbatim>\<open>shutil.move\<close> is a
  rename: its copying between file systems is left out.
\<close>

section \<open>The environment\<close>

record env =
  environ :: "string \<Rightarrow> string option"
  home :: path
  cwd :: path
  denies :: denied

datatype mode = USER | SYSTEM

text \<open>\<^verbatim>\<open>Path(s)\<close>, and an environment variable that is set and not empty.\<close>

definition Path :: "env \<Rightarrow> string \<Rightarrow> path" where
  "Path e s =
     (let cs = filter (\<lambda>c. c \<noteq> [] \<and> c \<noteq> ''.'') (split_on (CHR ''/'') s) in
      if s \<noteq> [] \<and> hd s = CHR ''/'' then cs else cwd e @ cs)"

definition env_path :: "env \<Rightarrow> string \<Rightarrow> path option" where
  "env_path e k = (case environ e k of None \<Rightarrow> None | Some s \<Rightarrow> if s = [] then None else Some (Path e s))"

definition mode_of :: "env \<Rightarrow> fs \<Rightarrow> mode" where
  "mode_of e fs =
     (if lower (case environ e ''STYRENE_SYSTEM'' of None \<Rightarrow> [] | Some s \<Rightarrow> s) \<in> {''1'', ''true'', ''yes''} then SYSTEM
      else if path_exists fs [''etc'', ''styrene'', ''config.yaml''] then SYSTEM else USER)"

section \<open>Directories\<close>

definition home_base :: "env \<Rightarrow> path option" where
  "home_base e = env_path e ''STYRENE_HOME''"

definition config_dir :: "env \<Rightarrow> fs \<Rightarrow> path" where
  "config_dir e fs =
     (case env_path e ''STYRENE_CONFIG_DIR'' of
        Some p \<Rightarrow> p
      | None \<Rightarrow>
          (case home_base e of
             Some h \<Rightarrow> h @ [''config'']
           | None \<Rightarrow>
               if mode_of e fs = SYSTEM then [''etc'', ''styrene'']
               else (case env_path e ''XDG_CONFIG_HOME'' of Some x \<Rightarrow> x | None \<Rightarrow> home e @ [''.config'']) @ [''styrene'']))"

definition data_dir :: "env \<Rightarrow> fs \<Rightarrow> path" where
  "data_dir e fs =
     (case env_path e ''STYRENE_DATA_DIR'' of
        Some p \<Rightarrow> p
      | None \<Rightarrow>
          (case home_base e of
             Some h \<Rightarrow> h @ [''data'']
           | None \<Rightarrow>
               if mode_of e fs = SYSTEM then [''var'', ''lib'', ''styrene'']
               else (case env_path e ''XDG_DATA_HOME'' of Some x \<Rightarrow> x | None \<Rightarrow> home e @ [''.local'', ''share'']) @ [''styrene'']))"

definition state_dir :: "env \<Rightarrow> fs \<Rightarrow> path" where
  "state_dir e fs =
     (case env_path e ''STYRENE_STATE_DIR'' of
        Some p \<Rightarrow> p
      | None \<Rightarrow>
          (case home_base e of
             Some h \<Rightarrow> h @ [''state'']
           | None \<Rightarrow>
               if mode_of e fs = SYSTEM then [''var'', ''log'', ''styrene'']
               else (case env_path e ''XDG_STATE_HOME'' of Some x \<Rightarrow> x | None \<Rightarrow> home e @ [''.local'', ''state'']) @ [''styrene'']))"

definition runtime_dir :: "env \<Rightarrow> fs \<Rightarrow> path" where
  "runtime_dir e fs =
     (case env_path e ''STYRENE_RUNTIME_DIR'' of
        Some p \<Rightarrow> p
      | None \<Rightarrow>
          (case home_base e of
             Some h \<Rightarrow> h @ [''run'']
           | None \<Rightarrow>
               if mode_of e fs = SYSTEM then [''run'', ''styrened'']
               else (case env_path e ''XDG_RUNTIME_DIR'' of
                       Some x \<Rightarrow> x @ [''styrened'']
                     | None \<Rightarrow> home e @ [''.local'', ''run'', ''styrened''])))"

text \<open>The new place of a file or directory, to which the old one is moved when nothing is there.\<close>

definition moved_from :: "env \<Rightarrow> path \<Rightarrow> bool \<Rightarrow> path \<Rightarrow> (fs \<Rightarrow> bool) \<Rightarrow> fs \<Rightarrow> path \<times> fs" where
  "moved_from e old parents new worth fs =
     (if path_exists fs new \<or> \<not> worth fs then (new, fs)
      else case (if parents then mkdir_parents (denies e) (butlast new) fs else Inr fs) of
        Inl _ \<Rightarrow> (new, fs)
      | Inr fs1 \<Rightarrow> (case rename (denies e) old new fs1 of Inl _ \<Rightarrow> (new, fs1) | Inr fs2 \<Rightarrow> (new, fs2)))"

text \<open>\<open>entries\<close> tells whether a directory has an entry.\<close>

definition log_dir :: "env \<Rightarrow> (fs \<Rightarrow> path \<Rightarrow> bool) \<Rightarrow> fs \<Rightarrow> path \<times> fs" where
  "log_dir e entries fs =
     (let old = data_dir e fs @ [''logs''] in
      moved_from e old True (state_dir e fs @ [''logs'']) (\<lambda>fs. path_exists fs old \<and> entries fs old) fs)"

section \<open>Files\<close>

definition config_file :: "env \<Rightarrow> fs \<Rightarrow> path" where
  "config_file e fs = config_dir e fs @ [''config.yaml'']"

definition tui_config_file :: "env \<Rightarrow> fs \<Rightarrow> path" where
  "tui_config_file e fs = config_dir e fs @ [''tui.yaml'']"

definition identity_file :: "env \<Rightarrow> fs \<Rightarrow> path \<times> fs" where
  "identity_file e fs =
     (let old = config_dir e fs @ [''operator.key''] in
      moved_from e old False (config_dir e fs @ [''identity'']) (\<lambda>fs. path_exists fs old) fs)"

definition nodes_db :: "env \<Rightarrow> fs \<Rightarrow> path" where
  "nodes_db e fs = data_dir e fs @ [''nodes.db'']"

definition messages_db :: "env \<Rightarrow> fs \<Rightarrow> path" where
  "messages_db e fs = data_dir e fs @ [''messages.db'']"

definition attachments_dir :: "env \<Rightarrow> fs \<Rightarrow> path" where
  "attachments_dir e fs = data_dir e fs @ [''attachments'']"

definition lxmf_storage :: "env \<Rightarrow> fs \<Rightarrow> path" where
  "lxmf_storage e fs = data_dir e fs @ [''lxmf'']"

definition fleet_inventory :: "env \<Rightarrow> fs \<Rightarrow> path \<times> fs" where
  "fleet_inventory e fs =
     (let old = config_dir e fs @ [''fleet-inventory.yaml''] in
      moved_from e old True (data_dir e fs @ [''fleet-inventory.yaml'']) (\<lambda>fs. path_exists fs old) fs)"

definition control_socket :: "env \<Rightarrow> fs \<Rightarrow> path" where
  "control_socket e fs =
     (case env_path e ''STYRENED_SOCKET'' of Some p \<Rightarrow> p | None \<Rightarrow> runtime_dir e fs @ [''control.sock''])"

section \<open>Directory creation and migration\<close>

fun mkdirs :: "env \<Rightarrow> path list \<Rightarrow> fs \<Rightarrow> unit res \<times> fs" where
  "mkdirs e [] fs = (Inr (), fs)"
| "mkdirs e (d # ds) fs =
     (case mkdir_parents (denies e) d fs of Inl x \<Rightarrow> (Inl x, fs) | Inr fs1 \<Rightarrow> mkdirs e ds fs1)"

definition ensure_directories :: "env \<Rightarrow> (fs \<Rightarrow> path \<Rightarrow> bool) \<Rightarrow> fs \<Rightarrow> unit res \<times> fs" where
  "ensure_directories e entries fs =
     (let (l, fs1) = log_dir e entries fs in
      mkdirs e [config_dir e fs, data_dir e fs, state_dir e fs, l] fs1)"

datatype migration_action = Copied path path | CopyFailed path path

definition copy_file :: "denied \<Rightarrow> path \<Rightarrow> path \<Rightarrow> fs \<Rightarrow> fs res" where
  "copy_file deny src dst fs = bind_res (read_bytes fs src) (\<lambda>b. write_file deny dst b fs)"

definition migrate_one :: "env \<Rightarrow> path \<times> path \<Rightarrow> migration_action list \<times> fs \<Rightarrow> migration_action list \<times> fs" where
  "migrate_one e sd st =
     (let (src, dst) = sd; (acts, fs) = st in
      if path_exists fs src \<and> \<not> path_exists fs dst
      then case mkdir_parents (denies e) (butlast dst) fs of
             Inl _ \<Rightarrow> (acts @ [CopyFailed src dst], fs)
           | Inr fs1 \<Rightarrow>
               (case copy_file (denies e) src dst fs1 of
                  Inl _ \<Rightarrow> (acts @ [CopyFailed src dst], fs1)
                | Inr fs2 \<Rightarrow> (acts @ [Copied src dst], fs2))
      else (acts, fs))"

definition migration_marker :: "env \<Rightarrow> fs \<Rightarrow> path" where
  "migration_marker e fs = config_dir e fs @ [''.paths-migrated'']"

definition migrations :: "env \<Rightarrow> path \<Rightarrow> fs \<Rightarrow> (path \<times> path) list" where
  "migrations e ident fs =
     [(home e @ [''Library'', ''Application Support'', ''styrene'', ''core-config.yaml''], config_file e fs),
      (home e @ [''.config'', ''styrene'', ''core-config.yaml''], config_file e fs),
      (home e @ [''.styrene'', ''config.yaml''], tui_config_file e fs),
      (home e @ [''.styrene'', ''operator.key''], ident),
      (home e @ [''Library'', ''Application Support'', ''styrene'', ''nodes.db''], nodes_db e fs),
      (home e @ [''.config'', ''styrene'', ''nodes.db''], nodes_db e fs),
      (home e @ [''Library'', ''Application Support'', ''styrene'', ''messages.db''], messages_db e fs)]"

definition write_marker :: "env \<Rightarrow> path \<Rightarrow> fs \<Rightarrow> fs" where
  "write_marker e marker fs =
     (case mkdir_parents (denies e) (butlast marker) fs of
        Inl _ \<Rightarrow> fs
      | Inr fs1 \<Rightarrow>
          (case write_file (denies e) marker (str_bytes (''migrated'' @ [CHR 0x0A])) fs1 of Inl _ \<Rightarrow> fs1 | Inr fs2 \<Rightarrow> fs2))"

definition migrate_legacy_paths ::
    "env \<Rightarrow> (fs \<Rightarrow> path \<Rightarrow> bool) \<Rightarrow> fs \<Rightarrow> migration_action list res \<times> fs" where
  "migrate_legacy_paths e entries fs =
     (let marker = migration_marker e fs in
      if path_exists fs marker then (Inr [], fs)
      else if mode_of e fs \<noteq> USER then (Inr [], fs)
      else
        let (ident, fs1) = identity_file e fs; todo = migrations e ident fs in
        (case ensure_directories e entries fs1 of
           (Inl x, fs2) \<Rightarrow> (Inl x, fs2)
         | (Inr _, fs2) \<Rightarrow>
             let (acts, fs3) = fold (migrate_one e) todo ([], fs2) in (Inr acts, write_marker e marker fs3)))"

section \<open>Migration keeps what is there\<close>

text \<open>No file is lost or changed, and neither a link nor a file at \<open>m\<close> appears.\<close>

definition grown :: "path \<Rightarrow> fs \<Rightarrow> fs \<Rightarrow> bool" where
  "grown m fs fs' \<longleftrightarrow>
     (\<forall>p b. fs p = Some (File b) \<longrightarrow> fs' p = Some (File b)) \<and> (\<forall>p. \<not> is_symlink fs' p) \<and> (\<forall>b. fs' m \<noteq> Some (File b))"

lemma mkdir_cases: "mkdir_parents d p fs = Inr fs' \<Longrightarrow> fs' r = fs r \<or> fs' r = Some Dir"
  by (auto simp: mkdir_parents_def split: if_splits)

lemma mkdir_keeps: "mkdir_parents d p fs = Inr fs' \<Longrightarrow> fs r \<noteq> None \<Longrightarrow> fs' r = fs r"
  by (auto simp: mkdir_parents_def split: if_splits)

lemma grown_mkdir:
  assumes "grown m fs fs1" and "mkdir_parents d p fs1 = Inr fs2"
  shows "grown m fs fs2"
proof -
  have "fs2 q = Some (File b)" if "fs q = Some (File b)" for q b
    using assms(1) that mkdir_keeps [OF assms(2), of q] by (simp add: grown_def)
  moreover have "\<not> is_symlink fs2 q" for q
    using assms(1) mkdir_cases [OF assms(2), of q] by (auto simp: grown_def is_symlink_def)
  moreover have "fs2 m \<noteq> Some (File b)" for b
    using assms(1) mkdir_cases [OF assms(2), of m] by (auto simp: grown_def)
  ultimately show ?thesis by (simp add: grown_def)
qed

lemma grown_mkdirs: "grown m fs fs1 \<Longrightarrow> grown m fs (snd (mkdirs e ds fs1))"
  by (induction e ds fs1 rule: mkdirs.induct) (auto split: sum.splits intro: grown_mkdir)

lemma grown_write:
  assumes "grown m fs fs1" and "write_file d p b fs1 = Inr fs2" and "fs1 p = None" and "p \<noteq> m"
  shows "grown m fs fs2"
  using assms absent(1) [of fs1 p, OF assms(3)] by (auto simp: grown_def write_file_def is_symlink_def split: if_splits)

lemma no_link_absent: "\<not> is_symlink fs p \<Longrightarrow> \<not> path_exists fs p \<Longrightarrow> fs p = None"
  by (cases "fs p") (auto simp: path_exists_def resolve_no_link is_symlink_def split: node.splits)

lemma grown_copy:
  assumes "grown m fs fs1" and "copy_file d src dst fs1 = Inr fs2" and "\<not> path_exists fs1 dst" and "dst \<noteq> m"
  shows "grown m fs fs2"
proof -
  have "fs1 dst = None"
    using assms(1,3) no_link_absent [of fs1 dst] by (simp add: grown_def)
  then show ?thesis using assms grown_write by (fastforce simp: copy_file_def split: sum.splits)
qed

lemma exists_after_mkdir:
  assumes "mkdir_parents d (butlast p) fs = Inr fs'" and "\<forall>q. \<not> is_symlink fs q" and "\<not> path_exists fs p" and "p \<noteq> []"
  shows "\<not> path_exists fs' p"
proof -
  have none: "fs p = None"
    using assms(2,3) no_link_absent by blast
  have "\<not> prefix p (butlast p)" using assms(4) prefix_length_le [of p "butlast p"] by (cases p) auto
  then have "fs' p = None" using none assms(1) by (auto simp: mkdir_parents_def split: if_splits)
  then show ?thesis by (rule absent(2))
qed

lemma grown_migrate_one:
  assumes "grown m fs (snd st)" and "snd sd \<noteq> m" and "snd sd \<noteq> []"
  shows "grown m fs (snd (migrate_one e sd st))"
proof -
  obtain src dst acts fs1 where sd: "sd = (src, dst)" "st = (acts, fs1)" by (cases sd; cases st)
  show ?thesis
  proof (cases "path_exists fs1 src \<and> \<not> path_exists fs1 dst")
    case True
    show ?thesis
    proof (cases "mkdir_parents (denies e) (butlast dst) fs1")
      case (Inr fs2)
      have g: "grown m fs fs2" using assms(1) Inr sd by (auto intro: grown_mkdir)
      have "\<not> path_exists fs2 dst"
        using exists_after_mkdir [OF Inr] True assms(1,3) sd by (auto simp: grown_def)
      then show ?thesis using True Inr g grown_copy [OF g] assms(2) sd
        by (auto simp: migrate_one_def split: sum.split)
    qed (use True assms sd in \<open>simp add: migrate_one_def\<close>)
  qed (use assms sd in \<open>auto simp: migrate_one_def\<close>)
qed

lemma grown_fold:
  "grown m fs (snd st) \<Longrightarrow> (\<And>sd. sd \<in> set todo \<Longrightarrow> snd sd \<noteq> m \<and> snd sd \<noteq> []) \<Longrightarrow>
   grown m fs (snd (fold (migrate_one e) todo st))"
  by (induction todo arbitrary: st) (simp_all add: grown_migrate_one)

text \<open>
The migration to the new places loses and overwrites nothing: on a system without links and
without the two files that are moved rather than copied, every file is afterwards what it was, whatever
the system refuses.
\<close>

theorem migration_keeps_files:
  assumes "\<forall>g. config_dir e g = conf" and "\<forall>g. data_dir e g = data" and "\<forall>p. \<not> is_symlink fs p"
    and "fs (conf @ [''operator.key'']) = None" and "fs (data @ [''logs'']) = None"
    and "fs p = Some (File b)"
  shows "snd (migrate_legacy_paths e entries fs) p = Some (File b)"
proof -
  let ?m = "conf @ [''.paths-migrated'']"
  have ident: "identity_file e fs = (conf @ [''identity''], fs)"
    using assms(1,4) absent(2) by (simp add: identity_file_def moved_from_def)
  have logs: "log_dir e entries fs = (state_dir e fs @ [''logs''], fs)"
    using assms(2,5) absent(2) by (simp add: log_dir_def moved_from_def Let_def)
  show ?thesis
  proof (cases "path_exists fs ?m")
    case True
    then show ?thesis using assms(1,6) by (simp add: migrate_legacy_paths_def migration_marker_def)
  next
    case False
    then have g: "grown ?m fs fs"
      using assms(3) plain_file(2) by (fastforce simp: grown_def)
    obtain r fs2 where dirs: "ensure_directories e entries fs = (r, fs2)" by fastforce
    then have g2: "grown ?m fs fs2"
      using grown_mkdirs [OF g, of e "[config_dir e fs, data_dir e fs, state_dir e fs, state_dir e fs @ [''logs'']]"] logs
      by (simp add: ensure_directories_def)
    obtain acts fs3 where f: "fold (migrate_one e) (migrations e (conf @ [''identity'']) fs) ([], fs2) = (acts, fs3)" by fastforce
    have dst: "snd sd \<noteq> ?m \<and> snd sd \<noteq> []" if "sd \<in> set (migrations e (conf @ [''identity'']) fs)" for sd
      using that by (auto simp: migrations_def config_file_def tui_config_file_def nodes_db_def messages_db_def)
    have g3: "grown ?m fs fs3" using grown_fold [of ?m fs "([], fs2)" "migrations e (conf @ [''identity'']) fs" e] dst g2 f by simp
    have "grown ?m fs fs3 \<Longrightarrow> write_marker e ?m fs3 p = Some (File b)"
    proof -
      assume g: "grown ?m fs fs3"
      have "fs4 p = Some (File b) \<and> p \<noteq> ?m \<and> (\<forall>q. \<not> is_symlink fs4 q)" if "mkdir_parents (denies e) conf fs3 = Inr fs4" for fs4
        using grown_mkdir [OF g that] assms(6) by (auto simp: grown_def)
      moreover have "fs3 p = Some (File b)" using g assms(6) by (simp add: grown_def)
      ultimately show ?thesis
        by (auto simp: write_marker_def write_file_def Let_def resolve_no_link split: sum.split option.split node.split)
    qed
    moreover have "fs2 p = Some (File b)" using g2 assms(6) by (simp add: grown_def)
    ultimately show ?thesis
      using False g3 ident dirs f assms(1,6)
      by (simp add: migrate_legacy_paths_def migration_marker_def Let_def split: sum.split)
  qed
qed

definition old_config :: fs where
  "old_config =
     [[''me'', ''.config'', ''styrene'', ''core-config.yaml''] \<mapsto> File [1], [''c'', ''config.yaml''] \<mapsto> File [2]]"

definition two_dirs :: env where
  "two_dirs =
     \<lparr>environ = [''STYRENE_CONFIG_DIR'' \<mapsto> ''/c'', ''STYRENE_DATA_DIR'' \<mapsto> ''/d''], home = [''me''], cwd = [],
      denies = (\<lambda>_. False)\<rparr>"

theorem migration_keeps_files_witness:
  "snd (migrate_legacy_paths two_dirs (\<lambda>_ _. False) old_config) [''c'', ''config.yaml''] = Some (File [2])"
proof -
  have 1: "\<forall>g. config_dir two_dirs g = [''c'']" "\<forall>g. data_dir two_dirs g = [''d'']"
    by (simp_all add: config_dir_def data_dir_def env_path_def two_dirs_def Path_def)
  have 2: "\<forall>p. \<not> is_symlink old_config p" by (simp add: is_symlink_def old_config_def)
  have 3: "old_config ([''c''] @ [''operator.key'']) = None" "old_config ([''d''] @ [''logs'']) = None"
      "old_config [''c'', ''config.yaml''] = Some (File [2])"
    by (simp_all add: old_config_def)
  show ?thesis using migration_keeps_files [of two_dirs _ _ old_config, OF 1 2 3] by simp
qed

end
