(* ===== verification/Identity_Files.thy ===== *)
theory Identity_Files
  imports Paths
begin

text \<open>
  The operator's identity on disk (\<^verbatim>\<open>src/styrened/services/reticulum.py\<close>): finding it, making
  sure there is one, and sharing it with other applications by symbolic links at their places. The RNS
  library, which reads and writes key files, is a record of functions, and the hardware token the
  outcome of its derivation. An identity is its private key.
\<close>

section \<open>Places\<close>

definition SYSTEM_IDENTITY_PATH :: path where
  "SYSTEM_IDENTITY_PATH = [''etc'', ''styrene'', ''identity'']"

definition KNOWN_LXMF_IDENTITY_PATHS :: "env \<Rightarrow> (string \<times> path) list" where
  "KNOWN_LXMF_IDENTITY_PATHS e =
     [(''NomadNet'', home e @ [''.nomadnetwork'', ''storage'', ''identity'']),
      (''NomadNet (XDG)'', home e @ [''.config'', ''nomadnetwork'', ''storage'', ''identity'']),
      (''NomadNet (system)'', [''etc'', ''nomadnetwork'', ''storage'', ''identity'']),
      (''Sideband'', home e @ [''.config'', ''sideband'', ''identity'']),
      (''Sideband (legacy)'', home e @ [''.sideband'', ''identity'']),
      (''MeshChat'', home e @ [''.config'', ''meshchat'', ''identity'']),
      (''MeshChat (legacy)'', home e @ [''.meshchat'', ''identity'']),
      (''LXMF'', home e @ [''.config'', ''lxmf'', ''identity'']),
      (''LXMF (legacy)'', home e @ [''.lxmf'', ''identity''])]"

definition LXMF_SYMLINK_TARGETS :: "env \<Rightarrow> (string \<times> path) list" where
  "LXMF_SYMLINK_TARGETS e =
     [(''nomadnet'', home e @ [''.nomadnetwork'', ''storage'', ''identity'']),
      (''sideband'', home e @ [''.config'', ''sideband'', ''identity'']),
      (''meshchat'', home e @ [''.config'', ''meshchat'', ''identity'']),
      (''lxmf'', home e @ [''.config'', ''lxmf'', ''identity''])]"

definition resolve_identity_path :: "env \<Rightarrow> path option \<Rightarrow> fs \<Rightarrow> path option \<times> fs" where
  "resolve_identity_path e override fs =
     (let (u, fs1) = identity_file e fs;
          candidates = (case override of None \<Rightarrow> [] | Some p \<Rightarrow> [p]) @ [SYSTEM_IDENTITY_PATH, u] in
      (find (\<lambda>p. path_exists fs1 p \<and> is_file fs1 p) candidates, fs1))"

definition detect_existing_lxmf_identity :: "env \<Rightarrow> fs \<Rightarrow> (string \<times> path) option" where
  "detect_existing_lxmf_identity e fs =
     find (\<lambda>(app, p). path_exists fs p \<and> is_file fs p \<and>
             (case read_bytes fs p of Inl _ \<Rightarrow> False | Inr b \<Rightarrow> 32 \<le> length b)) (KNOWN_LXMF_IDENTITY_PATHS e)"

section \<open>The operator's identity\<close>

text \<open>
  \<^verbatim>\<open>Identity.from_file\<close> on the contents of a file: an exception, \<^verbatim>\<open>None\<close>, or the key; the contents that
  \<^verbatim>\<open>to_file\<close> writes; the hexadecimal hash. When \<^verbatim>\<open>to_file\<close> cannot write it returns \<^verbatim>\<open>False\<close>, and the
  code does not look at its result. \<open>token\<close>: the outcome of the hardware token, when it is the provider.
\<close>

record rns_keys =
  load_key :: "bytes \<Rightarrow> bytes option res"
  key_file :: "bytes \<Rightarrow> bytes"
  key_hash :: "bytes \<Rightarrow> string"

definition from_file :: "rns_keys \<Rightarrow> fs \<Rightarrow> path \<Rightarrow> bytes option res" where
  "from_file R fs p = bind_res (read_bytes fs p) (load_key R)"

definition save_identity :: "rns_keys \<Rightarrow> env \<Rightarrow> bytes \<Rightarrow> fs \<Rightarrow> string res \<times> fs" where
  "save_identity R e k fs =
     (let (u, fs1) = identity_file e fs in
      case mkdir_parents (denies e) (butlast u) fs1 of
        Inl x \<Rightarrow> (Inl x, fs1)
      | Inr fs2 \<Rightarrow>
          (case write_file (denies e) u (key_file R k) fs2 of
             Inl _ \<Rightarrow> (Inr (key_hash R k), fs2)
           | Inr fs3 \<Rightarrow> (Inr (key_hash R k), fs3)))"

definition import_or_create :: "rns_keys \<Rightarrow> env \<Rightarrow> bool \<Rightarrow> bytes \<Rightarrow> fs \<Rightarrow> string res \<times> fs" where
  "import_or_create R e use_existing fresh fs =
     (case (if use_existing then detect_existing_lxmf_identity e fs else None) of
        None \<Rightarrow> save_identity R e fresh fs
      | Some (app, p) \<Rightarrow>
          let fs1 = snd (identity_file e fs) in
          (case from_file R fs1 p of
             Inl x \<Rightarrow> (Inl x, fs1)
           | Inr None \<Rightarrow> save_identity R e fresh fs1
           | Inr (Some k) \<Rightarrow> save_identity R e k fs1))"

definition ensure_operator_identity ::
    "rns_keys \<Rightarrow> env \<Rightarrow> bytes option res option \<Rightarrow> bool \<Rightarrow> path option \<Rightarrow> bytes \<Rightarrow> fs \<Rightarrow> string res \<times> fs" where
  "ensure_operator_identity R e token use_existing override fresh fs =
     (case token of
        Some (Inl x) \<Rightarrow> (Inl x, fs)
      | Some (Inr None) \<Rightarrow> (Inl ValueError, fs)
      | Some (Inr (Some k)) \<Rightarrow> (Inr (key_hash R k), fs)
      | None \<Rightarrow>
          (case resolve_identity_path e override fs of
             (None, fs1) \<Rightarrow> import_or_create R e use_existing fresh fs1
           | (Some p, fs1) \<Rightarrow>
               (case from_file R fs1 p of
                  Inr (Some k) \<Rightarrow> (Inr (key_hash R k), fs1)
                | _ \<Rightarrow>
                    (case rename (denies e) p (with_suffix p ''.key.corrupt'') fs1 of
                       Inl _ \<Rightarrow> (Inl ValueError, fs1)
                     | Inr fs2 \<Rightarrow> import_or_create R e use_existing fresh fs2))))"

definition get_operator_identity_object :: "rns_keys \<Rightarrow> env \<Rightarrow> bytes option res option \<Rightarrow> fs \<Rightarrow> bytes option res \<times> fs" where
  "get_operator_identity_object R e token fs =
     (case token of
        Some (Inl _) \<Rightarrow> (Inr None, fs)
      | Some (Inr k) \<Rightarrow> (Inr k, fs)
      | None \<Rightarrow>
          (case resolve_identity_path e None fs of
             (None, fs1) \<Rightarrow> (Inr None, fs1)
           | (Some p, fs1) \<Rightarrow> (from_file R fs1 p, fs1)))"

definition get_operator_identity :: "rns_keys \<Rightarrow> env \<Rightarrow> bytes option res option \<Rightarrow> fs \<Rightarrow> string option \<times> fs" where
  "get_operator_identity R e token fs =
     (case get_operator_identity_object R e token fs of
        (Inr (Some k), fs1) \<Rightarrow> (Some (key_hash R k), fs1)
      | (_, fs1) \<Rightarrow> (None, fs1))"

section \<open>Sharing\<close>

datatype share_message =
    UnknownApplication | AlreadySymlinked | PathExists | FailedToBackup | FailedToRemove
  | FailedToCreateDirectory | FailedToSymlink | Symlinked path
  | NotASymlink | NoSymlinkExists | ForeignSymlink | SymlinkRemoved "path option"

record symlink_result =
  sr_app :: string
  sr_path :: path
  sr_success :: bool
  sr_message :: share_message
  was_existing :: bool
  was_symlink :: bool
  backed_up_to :: "path option"

definition SymlinkResult :: "string \<Rightarrow> path \<Rightarrow> bool \<Rightarrow> share_message \<Rightarrow> symlink_result" where
  "SymlinkResult app p ok msg =
     \<lparr>sr_app = app, sr_path = p, sr_success = ok, sr_message = msg, was_existing = False, was_symlink = False,
      backed_up_to = None\<rparr>"

text \<open>\<^verbatim>\<open>.key.bak\<close>, \<^verbatim>\<open>.key.bak.1\<close>, \<^verbatim>\<open>.key.bak.2\<close>: the first that does not exist.\<close>

definition backup_name :: "path \<Rightarrow> nat \<Rightarrow> path" where
  "backup_name p n = with_suffix p (if n = 0 then ''.key.bak'' else ''.key.bak.'' @ show_nat n)"

partial_function (option) free_backup :: "fs \<Rightarrow> path \<Rightarrow> nat \<Rightarrow> path option" where
  "free_backup fs p n =
     (if path_exists fs (backup_name p n) then free_backup fs p (n + 1) else Some (backup_name p n))"

text \<open>From the creation of the directories on.\<close>

definition place_link :: "env \<Rightarrow> path \<Rightarrow> string \<Rightarrow> path \<Rightarrow> bool \<Rightarrow> path option \<Rightarrow> fs \<Rightarrow> symlink_result \<times> fs" where
  "place_link e active app p existed bak fs =
     (case mkdir_parents (denies e) (butlast p) fs of
        Inl _ \<Rightarrow> (SymlinkResult app p False FailedToCreateDirectory, fs)
      | Inr fs1 \<Rightarrow>
          (case symlink_to (denies e) p active fs1 of
             Inl _ \<Rightarrow> (SymlinkResult app p False FailedToSymlink, fs1)
           | Inr fs2 \<Rightarrow>
               ((SymlinkResult app p True (Symlinked active))\<lparr>was_existing := existed, backed_up_to := bak\<rparr>, fs2)))"

text \<open>The result is \<open>None\<close> when the search for a free backup name does not end.\<close>

definition share_one ::
    "env \<Rightarrow> path \<Rightarrow> bool \<Rightarrow> bool \<Rightarrow> string \<Rightarrow> fs \<Rightarrow> (symlink_result \<times> fs) option" where
  "share_one e active backup force app fs =
     (case map_of (LXMF_SYMLINK_TARGETS e) app of
        None \<Rightarrow> Some (SymlinkResult app [] False UnknownApplication, fs)
      | Some p \<Rightarrow>
          if is_symlink fs p \<and> resolve fs p = resolve fs active
          then Some ((SymlinkResult app p True AlreadySymlinked)\<lparr>was_existing := True, was_symlink := True\<rparr>, fs)
          else
            let existed = (path_exists fs p \<or> is_symlink fs p) in
            if \<not> existed then Some (place_link e active app p False None fs)
            else if \<not> force
            then Some ((SymlinkResult app p False PathExists)\<lparr>was_existing := True, was_symlink := is_symlink fs p\<rparr>, fs)
            else if backup \<and> path_exists fs p \<and> \<not> is_symlink fs p
            then
              (case free_backup fs p 0 of
                 None \<Rightarrow> None
               | Some b \<Rightarrow>
                   (case rename (denies e) p b fs of
                      Inl _ \<Rightarrow> Some ((SymlinkResult app p False FailedToBackup)\<lparr>was_existing := True\<rparr>, fs)
                    | Inr fs1 \<Rightarrow> Some (place_link e active app p True (Some b) fs1)))
            else
              (case unlink (denies e) p fs of
                 Inl _ \<Rightarrow> Some ((SymlinkResult app p False FailedToRemove)
                            \<lparr>was_existing := True, was_symlink := is_symlink fs p\<rparr>, fs)
               | Inr fs1 \<Rightarrow> Some (place_link e active app p True None fs1)))"

fun share_all ::
    "env \<Rightarrow> path \<Rightarrow> bool \<Rightarrow> bool \<Rightarrow> string list \<Rightarrow> fs \<Rightarrow> (symlink_result list \<times> fs) option" where
  "share_all e active backup force [] fs = Some ([], fs)"
| "share_all e active backup force (app # apps) fs =
     (case share_one e active backup force app fs of
        None \<Rightarrow> None
      | Some (r, fs1) \<Rightarrow> map_option (map_prod (Cons r) id) (share_all e active backup force apps fs1))"

definition chosen_apps :: "env \<Rightarrow> string list \<Rightarrow> string list" where
  "chosen_apps e apps = (if apps \<noteq> [] then apps else map fst (LXMF_SYMLINK_TARGETS e))"

definition share_identity_with_apps ::
    "env \<Rightarrow> string list \<Rightarrow> bool \<Rightarrow> bool \<Rightarrow> fs \<Rightarrow> (symlink_result list \<times> fs) option res" where
  "share_identity_with_apps e apps backup force fs =
     (case resolve_identity_path e None fs of
        (None, fs1) \<Rightarrow> Inl OSError
      | (Some active, fs1) \<Rightarrow> Inr (share_all e active backup force (chosen_apps e apps) fs1))"

text \<open>\<^verbatim>\<open>known_paths\<close>.\<close>

definition known_paths :: "env \<Rightarrow> fs \<Rightarrow> path list \<times> fs" where
  "known_paths e fs =
     (let (u, fs1) = identity_file e fs; (active, fs2) = resolve_identity_path e None fs1 in
      ([SYSTEM_IDENTITY_PATH, u] @ (case active of None \<Rightarrow> [] | Some a \<Rightarrow> [resolve fs2 a]), fs2))"

text \<open>\<^verbatim>\<open>path.readlink()\<close> made absolute.\<close>

definition link_destination :: "fs \<Rightarrow> path \<Rightarrow> path res" where
  "link_destination fs p =
     bind_res (read_link fs p) (\<lambda>l. Inr (case l of Abs q \<Rightarrow> q | Rel _ \<Rightarrow> resolve fs (link_target p l)))"

definition unshare_one :: "env \<Rightarrow> path list \<Rightarrow> bool \<Rightarrow> string \<Rightarrow> fs \<Rightarrow> symlink_result \<times> fs" where
  "unshare_one e known restore app fs =
     (case map_of (LXMF_SYMLINK_TARGETS e) app of
        None \<Rightarrow> (SymlinkResult app [] False UnknownApplication, fs)
      | Some p \<Rightarrow>
          if \<not> is_symlink fs p
          then (if path_exists fs p then (SymlinkResult app p False NotASymlink)\<lparr>was_existing := True\<rparr>
                else SymlinkResult app p True NoSymlinkExists, fs)
          else if (case link_destination fs p of Inl _ \<Rightarrow> False | Inr q \<Rightarrow> q \<notin> set known)
          then ((SymlinkResult app p False ForeignSymlink)\<lparr>was_existing := True, was_symlink := True\<rparr>, fs)
          else
            (case unlink (denies e) p fs of
               Inl _ \<Rightarrow> ((SymlinkResult app p False FailedToRemove)\<lparr>was_existing := True, was_symlink := True\<rparr>, fs)
             | Inr fs1 \<Rightarrow>
                 let b = backup_name p 0;
                     restored = (if restore \<and> path_exists fs1 b then rename (denies e) b p fs1 else Inl OSError);
                     from = (case restored of Inl _ \<Rightarrow> None | Inr _ \<Rightarrow> Some b) in
                 ((SymlinkResult app p True (SymlinkRemoved from))
                    \<lparr>was_existing := True, was_symlink := True, backed_up_to := from\<rparr>,
                  case restored of Inl _ \<Rightarrow> fs1 | Inr fs2 \<Rightarrow> fs2)))"

fun unshare_all :: "env \<Rightarrow> path list \<Rightarrow> bool \<Rightarrow> string list \<Rightarrow> fs \<Rightarrow> symlink_result list \<times> fs" where
  "unshare_all e known restore [] fs = ([], fs)"
| "unshare_all e known restore (app # apps) fs =
     (let (r, fs1) = unshare_one e known restore app fs; (rs, fs2) = unshare_all e known restore apps fs1 in (r # rs, fs2))"

definition unshare_identity_from_apps ::
    "env \<Rightarrow> string list \<Rightarrow> bool \<Rightarrow> fs \<Rightarrow> symlink_result list \<times> fs" where
  "unshare_identity_from_apps e apps restore fs =
     (let (known, fs1) = known_paths e fs in unshare_all e known restore (chosen_apps e apps) fs1)"

record sharing_status =
  ss_path :: path
  ss_exists :: bool
  ss_is_symlink :: bool
  points_to_styrened :: bool
  symlink_target :: "path option"

definition get_identity_sharing_status :: "env \<Rightarrow> fs \<Rightarrow> (string \<times> sharing_status) list \<times> fs" where
  "get_identity_sharing_status e fs =
     (let (known, fs1) = known_paths e fs in
      (map (\<lambda>(app, p).
         let dest = (if is_symlink fs1 p then link_destination fs1 p else Inl OSError) in
         (app, \<lparr>ss_path = p, ss_exists = (path_exists fs1 p \<or> is_symlink fs1 p), ss_is_symlink = is_symlink fs1 p,
                points_to_styrened = (case dest of Inl _ \<Rightarrow> False | Inr q \<Rightarrow> q \<in> set known),
                symlink_target = (case dest of Inl _ \<Rightarrow> None | Inr q \<Rightarrow> Some q)\<rparr>))
        (LXMF_SYMLINK_TARGETS e), fs1))"

end
