(* ===== verification/Identity_Theorems.thy ===== *)
theory Identity_Theorems
  imports Identity_Files
begin

text \<open>
  What the identity files promise: sharing loses no file and ends, sharing and unsharing restore what
  was there, the identity that is made sure of is the one that is found afterwards; and the case in
  which it is not.
\<close>

section \<open>Files that stay\<close>

definition target_paths :: "env \<Rightarrow> path set" where
  "target_paths e = snd ` set (LXMF_SYMLINK_TARGETS e)"

definition kept :: "env \<Rightarrow> fs \<Rightarrow> fs \<Rightarrow> bool" where
  "kept e fs fs' \<longleftrightarrow>
     (\<forall>p b. fs p = Some (File b) \<longrightarrow>
        fs' p = Some (File b) \<or> (p \<in> target_paths e \<and> (\<exists>n. fs' (backup_name p n) = Some (File b))))"

lemma digit_char_inj: "m < 10 \<Longrightarrow> n < 10 \<Longrightarrow> digit_char m = digit_char n \<longleftrightarrow> m = n"
  by (auto simp: digit_char_def)

lemma show_nat_not_Nil: "show_nat n \<noteq> []"
  by (subst show_nat.simps) simp

lemma show_nat_inj: "show_nat m = show_nat n \<longleftrightarrow> m = n"
proof (induction m arbitrary: n rule: less_induct)
  case (less m)
  show ?case
  proof
    assume eq: "show_nat m = show_nat n"
    have m: "show_nat k = (if k < 10 then [] else show_nat (k div 10)) @ [digit_char (k mod 10)]" for k
      by (subst show_nat.simps) simp
    from eq have mod: "m mod 10 = n mod 10" and front:
        "(if m < 10 then [] else show_nat (m div 10)) = (if n < 10 then [] else show_nat (n div 10))"
      by (simp_all add: m [of m] m [of n] digit_char_inj)
    have "m div 10 = n div 10"
    proof (cases "m < 10")
      case True
      with front show_nat_not_Nil [of "n div 10"] show ?thesis by (auto split: if_splits)
    next
      case False
      with front show_nat_not_Nil [of "m div 10"] less.IH [of "m div 10" "n div 10"] show ?thesis
        by (auto split: if_splits)
    qed
    with mod show "m = n" by (metis div_mult_mod_eq)
  qed simp
qed

lemma stem_identity: "stem ''identity'' = ''identity''"
  by (simp add: stem_def)

lemma target_last: "p \<in> target_paths e \<Longrightarrow> last p = ''identity'' \<and> p \<noteq> []"
  by (auto simp: target_paths_def LXMF_SYMLINK_TARGETS_def)

lemma backup_last: "p \<in> target_paths e \<Longrightarrow> \<exists>t. last (backup_name p n) = ''identity'' @ ''.key.bak'' @ t"
  using target_last [of p e] by (auto simp: backup_name_def stem_identity)

lemma backup_not_target: "p \<in> target_paths e \<Longrightarrow> backup_name p n \<notin> target_paths e"
proof
  assume p: "p \<in> target_paths e" and "backup_name p n \<in> target_paths e"
  then have "last (backup_name p n) = ''identity''" using target_last by blast
  moreover obtain t where "last (backup_name p n) = ''identity'' @ ''.key.bak'' @ t" using backup_last [OF p] by blast
  ultimately show False by simp
qed

lemma kept_refl: "kept e fs fs"
  by (simp add: kept_def)

lemma kept_trans: "kept e fs fs1 \<Longrightarrow> kept e fs1 fs2 \<Longrightarrow> kept e fs fs2"
  unfolding kept_def using backup_not_target by blast

lemma kept_mkdir: "mkdir_parents d p fs = Inr fs' \<Longrightarrow> kept e fs fs'"
  by (auto simp: mkdir_parents_def kept_def split: if_splits)

lemma kept_symlink: "symlink_to d p q fs = Inr fs' \<Longrightarrow> kept e fs fs'"
  by (auto simp: symlink_to_def kept_def split: if_splits)

lemma not_there: "\<not> path_exists fs p \<Longrightarrow> fs p \<noteq> Some (File b)"
  using plain_file(2) by blast

lemma kept_rename:
  assumes "rename d p q fs = Inr fs'" and "fs p \<noteq> Some Dir" and "p \<in> target_paths e" and "q = backup_name p n"
    and "\<not> path_exists fs q"
  shows "kept e fs fs'"
proof -
  obtain x where x: "fs p = Some x" "fs' = (fs(p := None))(q := Some x)"
    using assms(1,2) by (auto simp: rename_def split: if_splits option.splits node.splits)
  have "fs r \<noteq> Some (File b)" if "r = q" for r b using not_there assms(5) that by blast
  then have "q \<noteq> r" if "fs r = Some (File b)" for r b using that by blast
  moreover have "q \<noteq> p" using backup_not_target [OF assms(3), of n] assms(3,4) by metis
  ultimately show ?thesis using x assms(3,4) unfolding kept_def by (metis fun_upd_apply option.inject)
qed

lemma kept_unlink: "unlink d p fs = Inr fs' \<Longrightarrow> is_symlink fs p \<Longrightarrow> kept e fs fs'"
  by (auto simp: unlink_def kept_def is_symlink_def split: if_splits option.splits node.splits)

lemma place_link_cases:
  obtains "snd (place_link e a app p x bak fs) = fs"
    | fs1 where "mkdir_parents (denies e) (butlast p) fs = Inr fs1" "snd (place_link e a app p x bak fs) = fs1"
    | fs1 fs2 where "mkdir_parents (denies e) (butlast p) fs = Inr fs1" "symlink_to (denies e) p a fs1 = Inr fs2"
        "snd (place_link e a app p x bak fs) = fs2"
proof (cases "mkdir_parents (denies e) (butlast p) fs")
  case (Inr fs1)
  then show ?thesis using that by (cases "symlink_to (denies e) p a fs1") (simp_all add: place_link_def)
qed (simp add: place_link_def that(1))

lemma kept_place_link: "kept e fs (snd (place_link e a app p x bak fs))"
  by (cases rule: place_link_cases [of e a app p x bak fs])
    (auto intro: kept_refl kept_mkdir kept_trans [OF kept_mkdir kept_symlink])

text \<open>No target becomes a directory, and only finitely many paths are ever used.\<close>

definition sane :: "env \<Rightarrow> fs \<Rightarrow> bool" where
  "sane e fs \<longleftrightarrow> finite (dom fs) \<and> (\<forall>p \<in> target_paths e. fs p \<noteq> Some Dir)"

lemma targets_apart: "p \<in> target_paths e \<Longrightarrow> q \<in> target_paths e \<Longrightarrow> \<not> prefix q (butlast p)"
  by (auto simp: target_paths_def LXMF_SYMLINK_TARGETS_def butlast_append)

lemma finite_mkdir: "mkdir_parents d p fs = Inr fs' \<Longrightarrow> finite (dom fs) \<Longrightarrow> finite (dom fs')"
proof -
  assume fs': "mkdir_parents d p fs = Inr fs'" and fin: "finite (dom fs)"
  then have "dom fs' \<subseteq> dom fs \<union> set (prefixes p)"
    by (auto simp: mkdir_parents_def in_set_prefixes split: if_splits)
  moreover have "finite (dom fs \<union> set (prefixes p))" using fin by simp
  ultimately show ?thesis by (rule finite_subset)
qed

lemma sane_mkdir:
  assumes "mkdir_parents d (butlast p) fs = Inr fs'" and "p \<in> target_paths e" and "sane e fs"
  shows "sane e fs'"
proof -
  have "fs' q \<noteq> Some Dir" if "q \<in> target_paths e" for q
    using assms that targets_apart [OF assms(2) that] by (auto simp: sane_def mkdir_parents_def split: if_splits)
  then show ?thesis using assms finite_mkdir by (auto simp: sane_def)
qed

lemma sane_place_link: "p \<in> target_paths e \<Longrightarrow> sane e fs \<Longrightarrow> sane e (snd (place_link e a app p x bak fs))"
proof (cases rule: place_link_cases [of e a app p x bak fs])
  case (3 fs1 fs2)
  assume "p \<in> target_paths e" "sane e fs"
  with 3 have "sane e fs1" by (blast intro: sane_mkdir)
  moreover have "fs2 = fs1(p \<mapsto> Link (Abs a))" using 3(2) by (auto simp: symlink_to_def split: if_splits)
  ultimately show ?thesis unfolding 3(3) by (auto simp: sane_def)
qed (auto intro: sane_mkdir)

lemma sane_rename:
  "rename d p (backup_name p n) fs = Inr fs' \<Longrightarrow> p \<in> target_paths e \<Longrightarrow> sane e fs \<Longrightarrow> sane e fs'"
  using backup_not_target [of p e n]
  by (auto simp: sane_def rename_def split: if_splits option.splits node.splits)

lemma sane_unlink: "unlink d p fs = Inr fs' \<Longrightarrow> sane e fs \<Longrightarrow> sane e fs'"
  by (auto simp: sane_def unlink_def split: if_splits option.splits node.splits)

section \<open>The search for a backup name\<close>

lemma backup_inj: "backup_name p m = backup_name p n \<longleftrightarrow> m = n"
  by (auto simp: backup_name_def show_nat_inj)

lemma some_backup_free:
  assumes "finite (dom fs)"
  shows "\<exists>n \<ge> k. \<not> path_exists fs (backup_name p n)"
proof (rule ccontr)
  assume "\<not> ?thesis"
  then have "backup_name p ` {k..} \<subseteq> dom fs" using absent(2) by (auto simp: dom_def) blast
  then have "finite (backup_name p ` {k..})" using assms by (rule finite_subset)
  moreover have "inj_on (backup_name p) {k..}" by (simp add: inj_on_def backup_inj)
  ultimately show False by (simp add: finite_image_iff infinite_Ici)
qed

lemma free_backup_found:
  assumes "n \<ge> k" and "\<not> path_exists fs (backup_name p n)"
  shows "\<exists>m. free_backup fs p k = Some (backup_name p m) \<and> \<not> path_exists fs (backup_name p m)"
  using assms
proof (induction "n - k" arbitrary: k)
  case 0
  then have "\<not> path_exists fs (backup_name p k)" by simp
  then show ?case by (auto simp: free_backup.simps [of fs p k])
next
  case (Suc d)
  then show ?case using Suc.hyps(1) [of "k + 1"] by (cases "path_exists fs (backup_name p k)") (auto simp: free_backup.simps [of fs p k])
qed

lemma free_backup_ends:
  "finite (dom fs) \<Longrightarrow> \<exists>m. free_backup fs p 0 = Some (backup_name p m) \<and> \<not> path_exists fs (backup_name p m)"
  using some_backup_free free_backup_found by blast

section \<open>Sharing\<close>

lemma share_one_keeps:
  assumes "sane e fs"
  shows "\<exists>r fs'. share_one e active True force app fs = Some (r, fs') \<and> kept e fs fs' \<and> sane e fs'"
proof (cases "map_of (LXMF_SYMLINK_TARGETS e) app")
  case None
  then show ?thesis using assms by (simp add: share_one_def kept_refl)
next
  case (Some p)
  have t: "p \<in> target_paths e" using map_of_SomeD [OF Some] by (force simp: target_paths_def)
  have dir: "fs p \<noteq> Some Dir" using assms t by (simp add: sane_def)
  obtain m where m: "free_backup fs p 0 = Some (backup_name p m)" "\<not> path_exists fs (backup_name p m)"
    using free_backup_ends [of fs p] assms by (auto simp: sane_def)
  have placed: "\<exists>r fs'. Some (place_link e active app p x bak g) = Some (r, fs') \<and> kept e fs fs' \<and> sane e fs'"
    if "kept e fs g" "sane e g" for x bak g
    using kept_trans [OF that(1) kept_place_link] sane_place_link [OF t that(2)]
    by (metis prod.collapse)
  show ?thesis
  proof (cases "is_symlink fs p \<and> resolve fs p = resolve fs active \<or> \<not> force \<and> (path_exists fs p \<or> is_symlink fs p)")
    case True
    then show ?thesis using assms Some by (auto simp: share_one_def kept_refl)
  next
    case False
    consider (fresh) "\<not> path_exists fs p" "\<not> is_symlink fs p" | (plain) "force" "path_exists fs p" "\<not> is_symlink fs p"
      | (linked) "force" "is_symlink fs p" "resolve fs p \<noteq> resolve fs active" using False by blast
    then show ?thesis
    proof cases
      case fresh
      then show ?thesis using placed [OF kept_refl assms] Some False by (simp add: share_one_def Let_def)
    next
      case plain
      show ?thesis
      proof (cases "rename (denies e) p (backup_name p m) fs")
        case (Inl x)
        then show ?thesis using plain Some m False assms by (simp add: share_one_def Let_def kept_refl)
      next
        case (Inr fs1)
        have "kept e fs fs1" using kept_rename [OF Inr dir t refl m(2)] .
        moreover have "sane e fs1" using sane_rename [OF Inr t assms] .
        ultimately show ?thesis using placed Inr plain Some m False by (simp add: share_one_def Let_def)
      qed
    next
      case linked
      show ?thesis
      proof (cases "unlink (denies e) p fs")
        case (Inl x)
        then show ?thesis using linked Some False assms by (simp add: share_one_def Let_def kept_refl)
      next
        case (Inr fs1)
        have "kept e fs fs1" using kept_unlink [OF Inr linked(2)] .
        moreover have "sane e fs1" using sane_unlink [OF Inr assms] .
        ultimately show ?thesis using placed Inr linked Some by (simp add: share_one_def Let_def)
      qed
    qed
  qed
qed

lemma share_all_keeps:
  "sane e fs \<Longrightarrow> \<exists>rs fs'. share_all e active True force apps fs = Some (rs, fs') \<and> length rs = length apps \<and> kept e fs fs'"
proof (induction apps arbitrary: fs)
  case (Cons app apps)
  obtain r fs1 where 1: "share_one e active True force app fs = Some (r, fs1)" "kept e fs fs1" "sane e fs1"
    using share_one_keeps [OF Cons.prems] by blast
  obtain rs fs2 where 2: "share_all e active True force apps fs1 = Some (rs, fs2)" "length rs = length apps" "kept e fs1 fs2"
    using Cons.IH [OF 1(3)] by blast
  show ?case using 1 2 kept_trans by auto
qed (simp add: kept_refl)

text \<open>
Claim C27. Where no application has a directory in the place of its identity file, sharing the identity with backups ends, reports on each application, and loses no file,
whatever it is forced to do and whichever operations the system refuses: every file is afterwards where
it was, or, if it stood at the place of an application, under one of the backup names of that place.
\<close>

theorem sharing_loses_no_identity:
  assumes "finite (dom fs)" and "\<forall>p \<in> target_paths e. fs p \<noteq> Some Dir"
  shows "\<exists>rs fs'. share_all e active True force apps fs = Some (rs, fs') \<and> length rs = length apps \<and>
    (\<forall>p b. fs p = Some (File b) \<longrightarrow>
       fs' p = Some (File b) \<or> (p \<in> target_paths e \<and> (\<exists>n. fs' (backup_name p n) = Some (File b))))"
  using share_all_keeps [of e fs active force apps] assms by (auto simp: sane_def kept_def)

definition demo_env :: env where
  "demo_env = \<lparr>environ = [''STYRENE_CONFIG_DIR'' \<mapsto> ''/c''], home = [''me''], cwd = [], denies = (\<lambda>_. False)\<rparr>"

definition demo_fs :: fs where
  "demo_fs = [[''me'', ''.config'', ''sideband'', ''identity''] \<mapsto> File [1], [''c'', ''identity''] \<mapsto> File [2]]"

theorem sharing_loses_no_identity_witness:
  "\<exists>rs fs' p. share_all demo_env [''c'', ''identity''] True True [''sideband'', ''lxmf''] demo_fs = Some (rs, fs') \<and>
     length rs = 2 \<and> fs' p = Some (File [1]) \<and> fs' [''c'', ''identity''] = Some (File [2])"
proof -
  have fin: "finite (dom demo_fs)" by (simp add: demo_fs_def)
  have dirs: "\<forall>p \<in> target_paths demo_env. demo_fs p \<noteq> Some Dir" by (simp add: demo_fs_def)
  obtain rs fs' where s: "share_all demo_env [''c'', ''identity''] True True [''sideband'', ''lxmf''] demo_fs = Some (rs, fs')"
      "length rs = 2"
    and k: "\<forall>p b. demo_fs p = Some (File b) \<longrightarrow> fs' p = Some (File b) \<or>
        (p \<in> target_paths demo_env \<and> (\<exists>n. fs' (backup_name p n) = Some (File b)))"
    using sharing_loses_no_identity [OF fin dirs, of "[''c'', ''identity'']" True "[''sideband'', ''lxmf'']"] by auto
  have "\<exists>p. fs' p = Some (File [1])"
    using k [rule_format, of "[''me'', ''.config'', ''sideband'', ''identity'']" "[1]"] by (auto simp: demo_fs_def)
  moreover have "fs' [''c'', ''identity''] = Some (File [2])"
    using k [rule_format, of "[''c'', ''identity'']" "[2]"]
    by (auto simp: demo_fs_def demo_env_def target_paths_def LXMF_SYMLINK_TARGETS_def)
  ultimately show ?thesis using s by blast
qed

section \<open>Sharing and unsharing\<close>

lemma dirs_there:
  "(\<And>r. prefix r p \<Longrightarrow> fs r = Some Dir) \<Longrightarrow> mkdir_parents d p fs = Inr fs"
  by (auto simp: mkdir_parents_def in_set_prefixes fun_eq_iff)

lemma free_backup_first: "\<not> path_exists fs (backup_name p 0) \<Longrightarrow> free_backup fs p 0 = Some (backup_name p 0)"
  by (simp add: free_backup.simps)

lemma free_backup_second:
  "path_exists fs (backup_name p 0) \<Longrightarrow> \<not> path_exists fs (backup_name p 1) \<Longrightarrow> free_backup fs p 0 = Some (backup_name p 1)"
  by (simp add: free_backup.simps)

text \<open>
Unsharing undoes sharing, unless there is an older backup. When the identity file of an
application is replaced by a link and the link is then removed, the files are exactly what they were
if no backup existed before; if one did, the application gets that old backup as its identity, and the
file it had stays behind under the second backup name.
\<close>

theorem unsharing_restores:
  assumes "map_of (LXMF_SYMLINK_TARGETS e) app = Some p" and "fs p = Some (File b)"
    and "\<And>r. prefix r (butlast p) \<Longrightarrow> fs r = Some Dir" and "denies e = (\<lambda>_. False)"
    and "active \<in> set known" and "fs (backup_name p 0) = map_option File old" and "fs (backup_name p 1) = None"
  shows "\<exists>r1 fs1. share_one e active True True app fs = Some (r1, fs1) \<and> fs1 p = Some (Link (Abs active)) \<and>
    (\<exists>r2 fs2. unshare_one e known True app fs1 = (r2, fs2) \<and>
       (case old of
          None \<Rightarrow> fs2 = fs
        | Some c \<Rightarrow> fs2 p = Some (File c) \<and> fs2 (backup_name p 1) = Some (File b)))"
proof -
  have t: "p \<in> target_paths e" using map_of_SomeD [OF assms(1)] by (force simp: target_paths_def)
  have neq: "backup_name p n \<noteq> p" for n using backup_not_target [OF t, of n] t by metis
  have two: "backup_name p 1 \<noteq> backup_name p 0" by (simp add: backup_inj)
  have pf: "path_exists fs p" "\<not> is_symlink fs p" using plain_file(2,5) [of fs p b, OF assms(2)] by blast+
  define bak where "bak = (case old of None \<Rightarrow> backup_name p 0 | Some _ \<Rightarrow> backup_name p 1)"
  have free: "free_backup fs p 0 = Some bak"
  proof (cases old)
    case None
    then show ?thesis using assms(6) absent(2) by (simp add: bak_def free_backup_first)
  next
    case (Some c)
    then have "path_exists fs (backup_name p 0)" using assms(6) by (auto intro: plain_file(2))
    then show ?thesis using assms(7) absent(2) Some by (simp add: bak_def free_backup_second)
  qed
  have bak: "bak \<noteq> p" "fs bak = None" using assms(6,7) neq by (auto simp: bak_def split: option.split)
  have not_dir: "\<not> prefix q (butlast p)" if "q = p \<or> q = bak" for q
    using assms(2,3) bak(2) that by auto
  let ?moved = "(fs(p := None))(bak \<mapsto> File b)"
  let ?fs1 = "?moved(p \<mapsto> Link (Abs active))"
  have ren: "rename (denies e) p bak fs = Inr ?moved" using assms(2,4) bak by (simp add: rename_def)
  have mk: "mkdir_parents (denies e) (butlast p) ?moved = Inr ?moved"
    using assms(3) not_dir by (intro dirs_there) (auto simp: fun_upd_def)
  have sym: "symlink_to (denies e) p active ?moved = Inr ?fs1" using assms(4) bak by (simp add: symlink_to_def)
  obtain r1 where share: "share_one e active True True app fs = Some (r1, ?fs1)"
    using assms(1) pf free ren mk sym by (simp add: share_one_def Let_def place_link_def)
  have l: "is_symlink ?fs1 p" "link_destination ?fs1 p = Inr active"
    by (simp_all add: is_symlink_def link_destination_def read_link_def)
  have "?fs1(p := None) = ?moved" using bak(1) by (auto simp: fun_eq_iff)
  then have un: "unlink (denies e) p ?fs1 = Inr ?moved" using assms(4) by (simp add: unlink_def)
  show ?thesis
  proof (cases old)
    case None
    then have b0: "bak = backup_name p 0" by (simp add: bak_def)
    then have ex: "path_exists ?moved (backup_name p 0)" by (intro plain_file(2)) simp
    have undo: "rename (denies e) (backup_name p 0) p ?moved = Inr fs"
      using assms(2,4,6) bak None b0 neq [of 0] by (simp add: rename_def) (auto simp: fun_eq_iff)
    obtain r2 where "unshare_one e known True app ?fs1 = (r2, fs)"
      using assms(1,5) l un ex undo by (simp add: unshare_one_def Let_def)
    with share None show ?thesis by fastforce
  next
    case (Some c)
    then have b1: "bak = backup_name p 1" by (simp add: bak_def)
    have c: "?moved (backup_name p 0) = Some (File c)" using assms(6) Some b1 neq [of 0] two by auto
    then have ex: "path_exists ?moved (backup_name p 0)" by (rule plain_file(2))
    let ?fs2 = "(?moved(backup_name p 0 := None))(p \<mapsto> File c)"
    have undo: "rename (denies e) (backup_name p 0) p ?moved = Inr ?fs2"
      using c assms(4) bak by (simp add: rename_def)
    obtain r2 where "unshare_one e known True app ?fs1 = (r2, ?fs2)"
      using assms(1,5) l un ex undo by (simp add: unshare_one_def Let_def)
    moreover have "?fs2 p = Some (File c)" "?fs2 (backup_name p 1) = Some (File b)"
      using b1 bak(1) two by auto
    ultimately show ?thesis using share Some by fastforce
  qed
qed

definition shared_fs :: fs where
  "shared_fs =
     [[] \<mapsto> Dir, [''me''] \<mapsto> Dir, [''me'', ''.config''] \<mapsto> Dir, [''me'', ''.config'', ''sideband''] \<mapsto> Dir,
      [''me'', ''.config'', ''sideband'', ''identity''] \<mapsto> File [1]]"

theorem unsharing_restores_witness:
  "\<exists>r1 fs1 r2. share_one demo_env [''c'', ''identity''] True True ''sideband'' shared_fs = Some (r1, fs1) \<and>
     fs1 [''me'', ''.config'', ''sideband'', ''identity''] = Some (Link (Abs [''c'', ''identity''])) \<and>
     unshare_one demo_env [[''c'', ''identity'']] True ''sideband'' fs1 = (r2, shared_fs)"
proof -
  let ?p = "[''me'', ''.config'', ''sideband'', ''identity'']"
  have 1: "map_of (LXMF_SYMLINK_TARGETS demo_env) ''sideband'' = Some ?p"
    by (simp add: LXMF_SYMLINK_TARGETS_def demo_env_def)
  have 2: "shared_fs ?p = Some (File [1])" by (simp add: shared_fs_def)
  have 3: "shared_fs r = Some Dir" if "prefix r (butlast ?p)" for r
    using that by (auto simp: shared_fs_def prefix_Cons)
  have 4: "denies demo_env = (\<lambda>_. False)" by (simp add: demo_env_def)
  have 5: "shared_fs (backup_name ?p 0) = map_option File None" "shared_fs (backup_name ?p 1) = None"
    by (simp_all add: shared_fs_def backup_name_def with_suffix_def stem_identity)
  show ?thesis
    using unsharing_restores [OF 1 2 3 4 _ 5, of "[''c'', ''identity'']" "[[''c'', ''identity'']]"] by auto
qed

section \<open>The identity that is made sure of\<close>

definition operator_key :: "path \<Rightarrow> path" where
  "operator_key conf = conf @ [''operator.key'']"

definition identity_at :: "path \<Rightarrow> path" where
  "identity_at conf = conf @ [''identity'']"

lemma places_differ: "operator_key conf \<noteq> identity_at conf'" "SYSTEM_IDENTITY_PATH \<noteq> operator_key conf"
    "with_suffix p ''.key.corrupt'' \<noteq> operator_key conf" if "last p = ''identity''"
  using that by (auto simp: operator_key_def identity_at_def with_suffix_def SYSTEM_IDENTITY_PATH_def stem_identity)

lemma corrupt_not_identity:
  assumes "last p = ''identity''"
  shows "with_suffix p ''.key.corrupt'' \<noteq> SYSTEM_IDENTITY_PATH" "with_suffix p ''.key.corrupt'' \<noteq> identity_at conf"
  using assms by (auto simp: identity_at_def with_suffix_def SYSTEM_IDENTITY_PATH_def stem_identity)

text \<open>
  The directory of the configuration depends on the files through one of them only: the
  configuration of the system, whose existence selects the system's directories.
\<close>

definition SYSTEM_CONFIG :: path where
  "SYSTEM_CONFIG = [''etc'', ''styrene'', ''config.yaml'']"

definition dir_settled :: "env \<Rightarrow> path \<Rightarrow> fs \<Rightarrow> bool" where
  "dir_settled e conf fs \<longleftrightarrow>
     config_dir e fs = conf \<and>
     ((\<forall>g. config_dir e g = conf) \<or> (\<not> is_symlink fs SYSTEM_CONFIG \<and> \<not> prefix SYSTEM_CONFIG conf))"

lemma dir_settled_now: "dir_settled e conf fs \<Longrightarrow> config_dir e fs = conf"
  by (simp add: dir_settled_def)

lemma dir_settled_later:
  assumes "dir_settled e conf fs" and "\<not> prefix SYSTEM_CONFIG conf \<Longrightarrow> g SYSTEM_CONFIG = fs SYSTEM_CONFIG"
  shows "dir_settled e conf g"
proof (cases "\<forall>g. config_dir e g = conf")
  case True
  then show ?thesis by (simp add: dir_settled_def)
next
  case False
  with assms(1) have n: "\<not> is_symlink fs SYSTEM_CONFIG" "\<not> prefix SYSTEM_CONFIG conf" by (auto simp: dir_settled_def)
  with assms(2) have g: "g SYSTEM_CONFIG = fs SYSTEM_CONFIG" "\<not> is_symlink g SYSTEM_CONFIG" by (simp_all add: is_symlink_def)
  then have "path_exists g SYSTEM_CONFIG = path_exists fs SYSTEM_CONFIG"
    using n(1) by (simp add: path_exists_def resolve_no_link)
  then have "config_dir e g = config_dir e fs"
    by (simp add: config_dir_def mode_of_def SYSTEM_CONFIG_def split: option.split)
  with assms(1) g(2) n(2) show ?thesis by (simp add: dir_settled_def)
qed

lemma identity_file_stays:
  assumes "config_dir e fs = conf" and "fs (operator_key conf) = None"
  shows "identity_file e fs = (identity_at conf, fs)"
  using assms absent(2) [of fs "operator_key conf"]
  by (simp add: identity_file_def moved_from_def operator_key_def identity_at_def)

lemma resolve_identity_path_cases:
  assumes "config_dir e fs = conf" and "fs (operator_key conf) = None"
  shows "resolve_identity_path e None fs =
    (find (\<lambda>p. path_exists fs p \<and> is_file fs p) [SYSTEM_IDENTITY_PATH, identity_at conf], fs)"
  by (simp add: resolve_identity_path_def identity_file_stays [of e fs conf, OF assms])

lemma file_there: "path_exists fs p \<Longrightarrow> is_file fs p \<Longrightarrow> \<not> is_symlink fs p \<Longrightarrow> \<exists>b. fs p = Some (File b)"
  by (auto simp: is_file_def resolve_no_link split: option.splits node.splits)

lemma no_file_there: "\<not> (path_exists fs p \<and> is_file fs p) \<Longrightarrow> \<not> is_symlink fs p \<Longrightarrow> fs p \<in> {None, Some Dir}"
  by (auto simp: path_exists_def is_file_def is_symlink_def resolve_no_link split: option.splits node.splits)

lemma save_identity_saves:
  assumes "save_identity R e k fs = (Inr h, fs')" and "config_dir e fs = conf" and "fs (operator_key conf) = None"
    and "\<not> denies e (identity_at conf)" and "fs (identity_at conf) \<noteq> Some Dir" and "\<not> is_symlink fs (identity_at conf)"
  shows "h = key_hash R k \<and> fs' (identity_at conf) = Some (File (key_file R k)) \<and> fs' (operator_key conf) = None \<and>
    (\<forall>q. q \<noteq> identity_at conf \<longrightarrow> fs' q = fs q \<or> (fs' q = Some Dir \<and> prefix q conf))"
proof -
  let ?u = "identity_at conf"
  note id = identity_file_stays [of e fs conf, OF assms(2,3)]
  obtain fs2 where mk: "mkdir_parents (denies e) conf fs = Inr fs2"
    using assms(1) by (cases "mkdir_parents (denies e) conf fs") (simp_all add: save_identity_def id identity_at_def)
  then have fs2: "fs2 = (\<lambda>r. if fs r = None \<and> prefix r conf then Some Dir else fs r)"
    by (simp add: mkdir_parents_def split: if_splits)
  have np: "\<not> prefix ?u conf" "\<not> prefix (operator_key conf) conf"
    by (auto simp: identity_at_def operator_key_def dest: prefix_length_le)
  have u: "fs2 ?u = fs ?u" using np fs2 by simp
  then have nl: "\<not> is_symlink fs2 ?u" using assms(6) by (simp add: is_symlink_def)
  then have "resolve fs2 ?u = ?u" by (rule resolve_no_link)
  then have "write_file (denies e) ?u (key_file R k) fs2 = Inr (fs2(?u \<mapsto> File (key_file R k)))"
    using assms(4,5) u nl by (auto simp: write_file_def is_symlink_def Let_def split: option.splits node.splits)
  then have "h = key_hash R k \<and> fs' = fs2(?u \<mapsto> File (key_file R k))"
    using assms(1) mk by (auto simp: save_identity_def id identity_at_def Let_def)
  moreover have "fs2 (operator_key conf) = None" using np fs2 assms(3) by simp
  ultimately show ?thesis using places_differ(1) fs2 by (auto simp: operator_key_def identity_at_def)
qed

text \<open>A write that the system refuses is reported as success: the hash of a key that is nowhere.\<close>

lemma unwritten_identity_reported:
  assumes "config_dir e fs = conf" and "fs (operator_key conf) = None" and "\<not> is_symlink fs (identity_at conf)"
    and "mkdir_parents (denies e) conf fs = Inr fs2" and "denies e (identity_at conf)"
  shows "save_identity R e k fs = (Inr (key_hash R k), fs2) \<and> fs2 (identity_at conf) = fs (identity_at conf)"
proof -
  have fs2: "fs2 (identity_at conf) = fs (identity_at conf)"
    using assms(4) by (auto simp: mkdir_parents_def identity_at_def dest: prefix_length_le split: if_splits)
  then have "resolve fs2 (identity_at conf) = identity_at conf" using assms(3) by (intro resolve_no_link) (simp add: is_symlink_def)
  with fs2 assms(4,5) show ?thesis
    by (simp add: save_identity_def identity_file_stays [of e fs conf, OF assms(1,2)] identity_at_def write_file_def Let_def)
qed

lemma saved_identity_found:
  assumes "fs (identity_at conf) = Some (File (key_file R k))" and "fs (operator_key conf) = None"
    and "config_dir e fs = conf" and "load_key R (key_file R k) = Inr (Some k)"
    and "SYSTEM_IDENTITY_PATH = identity_at conf \<or> \<not> is_file fs SYSTEM_IDENTITY_PATH"
  shows "get_operator_identity_object R e None fs = (Inr (Some k), fs)"
    and "ensure_operator_identity R e None ue None fresh fs = (Inr (key_hash R k), fs)"
proof -
  have r: "resolve_identity_path e None fs = (Some (identity_at conf), fs)"
    using plain_file(2,3) [of fs "identity_at conf", OF assms(1)] assms(5)
    by (auto simp: resolve_identity_path_cases [of e fs conf, OF assms(3,2)])
  have f: "from_file R fs (identity_at conf) = Inr (Some k)"
    using plain_file(4) [of fs "identity_at conf", OF assms(1)] assms(4) by (simp add: from_file_def)
  show "get_operator_identity_object R e None fs = (Inr (Some k), fs)"
    by (simp add: get_operator_identity_object_def r f)
  show "ensure_operator_identity R e None ue None fresh fs = (Inr (key_hash R k), fs)"
    by (simp add: ensure_operator_identity_def r f)
qed

lemma import_saves:
  assumes "import_or_create R e ue fresh fs = (Inr h, fs')" and "config_dir e fs = conf" and "fs (operator_key conf) = None"
  shows "\<exists>k. save_identity R e k fs = (Inr h, fs')"
proof -
  have "snd (identity_file e fs) = fs" using identity_file_stays [of e fs conf, OF assms(2,3)] by simp
  then show ?thesis
    using assms(1) by (auto simp: import_or_create_def Let_def split: option.splits sum.splits prod.splits)
qed

text \<open>The state in which the identity files are ordinary ones and the one to be written can be written.\<close>

definition plain_places :: "env \<Rightarrow> path \<Rightarrow> fs \<Rightarrow> bool" where
  "plain_places e conf fs \<longleftrightarrow>
     dir_settled e conf fs \<and> fs (operator_key conf) = None \<and> \<not> denies e (identity_at conf) \<and>
     fs (identity_at conf) \<noteq> Some Dir \<and> \<not> is_symlink fs (identity_at conf)"

lemma saved_found:
  assumes "save_identity R e k fs = (Inr h, fs')" and "plain_places e conf fs"
    and "SYSTEM_IDENTITY_PATH = identity_at conf \<or> fs SYSTEM_IDENTITY_PATH \<in> {None, Some Dir}"
    and "\<And>k. load_key R (key_file R k) = Inr (Some k)"
  shows "key_hash R k = h \<and> get_operator_identity_object R e None fs' = (Inr (Some k), fs') \<and>
    (\<forall>ue fresh. ensure_operator_identity R e None ue None fresh fs' = (Inr h, fs'))"
proof -
  have pl: "dir_settled e conf fs" "fs (operator_key conf) = None" "\<not> denies e (identity_at conf)"
      "fs (identity_at conf) \<noteq> Some Dir" "\<not> is_symlink fs (identity_at conf)"
    using assms(2) by (simp_all add: plain_places_def)
  note s = save_identity_saves [of R e k fs h fs' conf, OF assms(1) dir_settled_now [OF pl(1)] pl(2-5)]
  have "SYSTEM_IDENTITY_PATH = identity_at conf \<or> fs' SYSTEM_IDENTITY_PATH \<in> {None, Some Dir}"
    using s assms(3) by fastforce
  then have system: "SYSTEM_IDENTITY_PATH = identity_at conf \<or> \<not> is_file fs' SYSTEM_IDENTITY_PATH"
    by (auto simp: is_file_def is_symlink_def resolve_no_link)
  have "SYSTEM_CONFIG \<noteq> identity_at conf" by (auto simp: SYSTEM_CONFIG_def identity_at_def)
  then have "dir_settled e conf fs'" by (intro dir_settled_later [OF pl(1)]) (use s in blast)
  note dir_settled_now [OF this]
  moreover from s have "fs' (identity_at conf) = Some (File (key_file R k))" "fs' (operator_key conf) = None" "h = key_hash R k"
    by blast+
  ultimately show ?thesis using saved_identity_found [of fs' conf R k e] assms(4) system by blast
qed

text \<open>The key that is made sure of, from the files.\<close>

lemma ensured_key_found:
  assumes "ensure_operator_identity R e None ue None fresh fs = (Inr h, fs')"
    and "plain_places e conf fs" and "\<not> is_symlink fs SYSTEM_IDENTITY_PATH"
    and "\<And>k. load_key R (key_file R k) = Inr (Some k)"
  shows "\<exists>k. key_hash R k = h \<and> get_operator_identity_object R e None fs' = (Inr (Some k), fs') \<and>
    (\<forall>ue fresh. ensure_operator_identity R e None ue None fresh fs' = (Inr h, fs'))"
proof -
  have pl: "dir_settled e conf fs" "fs (operator_key conf) = None" "\<not> denies e (identity_at conf)"
      "fs (identity_at conf) \<noteq> Some Dir" "\<not> is_symlink fs (identity_at conf)"
    using assms(2) by (simp_all add: plain_places_def)
  note now = dir_settled_now [OF pl(1)]
  note r = resolve_identity_path_cases [of e fs conf, OF now pl(2)]
  let ?ok = "\<lambda>p. path_exists fs p \<and> is_file fs p"
  show ?thesis
  proof (cases "find ?ok [SYSTEM_IDENTITY_PATH, identity_at conf]")
    case None
    then have "import_or_create R e ue fresh fs = (Inr h, fs')" using assms(1) r by (simp add: ensure_operator_identity_def)
    then obtain k where k: "save_identity R e k fs = (Inr h, fs')"
      using import_saves [of R e ue fresh fs h fs' conf] now pl(2) by blast
    have "\<not> ?ok SYSTEM_IDENTITY_PATH" using None by (auto split: if_splits)
    then have "fs SYSTEM_IDENTITY_PATH \<in> {None, Some Dir}" using no_file_there assms(3) by blast
    then show ?thesis using saved_found [OF k assms(2) _ assms(4)] by blast
  next
    case (Some p)
    then have p: "p = SYSTEM_IDENTITY_PATH \<or> p = identity_at conf" "?ok p" by (auto split: if_splits)
    have last: "last p = ''identity''" using p(1) by (auto simp: SYSTEM_IDENTITY_PATH_def identity_at_def)
    obtain b where b: "fs p = Some (File b)" using file_there p assms(3) pl(5) by blast
    have rp: "resolve_identity_path e None fs = (Some p, fs)" using r Some by simp
    show ?thesis
    proof (cases "\<exists>k. from_file R fs p = Inr (Some k)")
      case True
      then obtain k where k: "from_file R fs p = Inr (Some k)" by blast
      then have "fs' = fs" "h = key_hash R k" using assms(1) rp by (simp_all add: ensure_operator_identity_def)
      then show ?thesis
        using rp k by (simp add: ensure_operator_identity_def get_operator_identity_object_def)
    next
      case False
      let ?c = "with_suffix p ''.key.corrupt''"
      obtain fs1 where ren: "rename (denies e) p ?c fs = Inr fs1" and imp: "import_or_create R e ue fresh fs1 = (Inr h, fs')"
        using False assms(1) rp by (auto simp: ensure_operator_identity_def split: sum.splits option.splits)
      have fs1: "fs1 = (fs(p := None))(?c := Some (File b))" using ren b by (auto simp: rename_def split: if_splits)
      note ne = places_differ [OF last] corrupt_not_identity [OF last]
      have "?c \<noteq> SYSTEM_CONFIG" "p \<noteq> SYSTEM_CONFIG"
        using last by (auto simp: SYSTEM_CONFIG_def with_suffix_def stem_identity)
      then have settled: "dir_settled e conf fs1" by (intro dir_settled_later [OF pl(1)]) (simp add: fs1)
      have op: "fs1 (operator_key conf) = None" using fs1 ne(3) [of conf] pl(2) by (auto simp del: fun_upd_apply simp: fun_upd_def)
      have pl1: "plain_places e conf fs1"
        using settled op pl(3-5) ne(5) [of conf] by (auto simp: plain_places_def fs1 is_symlink_def)
      obtain k where k: "save_identity R e k fs1 = (Inr h, fs')"
        using import_saves [of R e ue fresh fs1 h fs' conf, OF imp dir_settled_now [OF settled] op] by blast
      have "SYSTEM_IDENTITY_PATH = identity_at conf \<or> fs1 SYSTEM_IDENTITY_PATH \<in> {None, Some Dir}"
      proof (cases "p = SYSTEM_IDENTITY_PATH")
        case True
        then show ?thesis using fs1 ne(4) by auto
      next
        case False
        then have "\<not> ?ok SYSTEM_IDENTITY_PATH" using Some by (auto split: if_splits)
        then have "fs SYSTEM_IDENTITY_PATH \<in> {None, Some Dir}" using no_file_there assms(3) by blast
        then show ?thesis using fs1 ne(4) False by auto
      qed
      then show ?thesis using saved_found [OF k pl1 _ assms(4)] by blast
    qed
  qed
qed

text \<open>The same with a hardware token, whose outcome is the same at both times.\<close>

lemma ensured_key_found_by_any:
  assumes "ensure_operator_identity R e token ue None fresh fs = (Inr h, fs')"
    and "plain_places e conf fs" and "\<not> is_symlink fs SYSTEM_IDENTITY_PATH"
    and "\<And>k. load_key R (key_file R k) = Inr (Some k)"
  shows "\<exists>k. key_hash R k = h \<and> get_operator_identity_object R e token fs' = (Inr (Some k), fs') \<and>
    (\<forall>ue fresh. ensure_operator_identity R e token ue None fresh fs' = (Inr h, fs'))"
proof (cases token)
  case None
  then show ?thesis using ensured_key_found [of R e ue fresh fs h fs' conf] assms by simp
next
  case (Some t)
  then show ?thesis
    using assms(1) by (auto simp: ensure_operator_identity_def get_operator_identity_object_def split: sum.splits option.splits)
qed


lemma save_identity_there:
  assumes "config_dir e fs = conf" and "fs (operator_key conf) = None" and "denies e = (\<lambda>_. False)"
    and "\<And>r. prefix r conf \<Longrightarrow> fs r = Some Dir" and "fs (identity_at conf) \<noteq> Some Dir" and "\<not> is_symlink fs (identity_at conf)"
  shows "save_identity R e k fs = (Inr (key_hash R k), fs(identity_at conf \<mapsto> File (key_file R k)))"
proof -
  have "butlast (identity_at conf) = conf" by (simp add: identity_at_def)
  moreover have "mkdir_parents (denies e) conf fs = Inr fs" by (rule dirs_there) (rule assms(4))
  ultimately show ?thesis
    using assms(3,5,6) resolve_no_link [OF assms(6)]
    by (auto simp: save_identity_def identity_file_stays [of e fs conf, OF assms(1,2)] write_file_def Let_def
        is_symlink_def split: option.splits node.splits)
qed

text \<open>A library whose key files begin with a mark.\<close>

definition demo_keys :: rns_keys where
  "demo_keys =
     \<lparr>load_key = (\<lambda>b. Inr (if b \<noteq> [] \<and> hd b = 7 then Some (tl b) else None)), key_file = Cons 7,
      key_hash = map (\<lambda>w. if w = 5 then CHR ''5'' else CHR ''0'')\<rparr>"

lemma demo_config_dir: "config_dir demo_env g = [''c'']"
  by (simp add: config_dir_def env_path_def demo_env_def Path_def)

text \<open>A first start with nothing set in the environment.\<close>

definition bare_env :: env where
  "bare_env = \<lparr>environ = Map.empty, home = [''me''], cwd = [], denies = (\<lambda>_. False)\<rparr>"

definition first_start :: fs where
  "first_start = [[] \<mapsto> Dir, [''me''] \<mapsto> Dir, [''me'', ''.config''] \<mapsto> Dir, [''me'', ''.config'', ''styrene''] \<mapsto> Dir]"


text \<open>
A corrupt system identity costs the user theirs. When the file under \<^verbatim>\<open>/etc/styrene\<close> does not
hold a key and the user's own file does, making sure of the identity does not fall back on the user's:
it moves the system's file aside and writes a fresh key over the user's file, of which no copy is made.
\<close>

theorem corrupt_system_identity_overwrites_user:
  assumes "dir_settled e conf fs" and "fs (operator_key conf) = None" and "denies e = (\<lambda>_. False)"
    and "\<And>r. prefix r conf \<Longrightarrow> fs r = Some Dir" and "identity_at conf \<noteq> SYSTEM_IDENTITY_PATH"
    and "fs SYSTEM_IDENTITY_PATH = Some (File b)" and "\<And>k. load_key R b \<noteq> Inr (Some k)"
    and "fs (identity_at conf) = Some (File (key_file R k))"
    and "fs (with_suffix SYSTEM_IDENTITY_PATH ''.key.corrupt'') = None"
  shows "ensure_operator_identity R e None False None fresh fs =
    (Inr (key_hash R fresh),
     fs(SYSTEM_IDENTITY_PATH := None, with_suffix SYSTEM_IDENTITY_PATH ''.key.corrupt'' \<mapsto> File b,
        identity_at conf \<mapsto> File (key_file R fresh)))"
proof -
  let ?s = SYSTEM_IDENTITY_PATH and ?c = "with_suffix SYSTEM_IDENTITY_PATH ''.key.corrupt''" and ?u = "identity_at conf"
  let ?fs1 = "fs(?s := None, ?c \<mapsto> File b)"
  have sl: "last ?s = ''identity''" by (simp add: SYSTEM_IDENTITY_PATH_def)
  note ne = places_differ [OF sl] corrupt_not_identity [OF sl]
  have r: "resolve_identity_path e None fs = (Some ?s, fs)"
    using plain_file(2,3) [of fs ?s b, OF assms(6)] by (simp add: resolve_identity_path_cases [of e fs conf, OF dir_settled_now [OF assms(1)] assms(2)])
  have f: "from_file R fs ?s = load_key R b"
    using plain_file(4) [of fs ?s b, OF assms(6)] by (simp add: from_file_def)
  have "?c \<noteq> SYSTEM_CONFIG" "?s \<noteq> SYSTEM_CONFIG"
    by (simp_all add: SYSTEM_CONFIG_def SYSTEM_IDENTITY_PATH_def with_suffix_def stem_identity)
  then have "dir_settled e conf ?fs1" by (intro dir_settled_later [OF assms(1)]) simp
  note dir = dir_settled_now [OF this]
  have ren: "rename (denies e) ?s ?c fs = Inr ?fs1" using assms(3,6,9) by (simp add: rename_def)
  have op: "?fs1 (operator_key conf) = None" using ne(3) [of conf] assms(2) by auto
  have dirs: "?fs1 q = Some Dir" if "prefix q conf" for q
    using assms(4) [OF that] assms(6,9) by auto
  have u: "?fs1 ?u = Some (File (key_file R k))" using ne(5) [of conf] assms(5,8) by auto
  have "save_identity R e fresh ?fs1 = (Inr (key_hash R fresh), ?fs1(?u \<mapsto> File (key_file R fresh)))"
    by (rule save_identity_there [of e ?fs1 conf R fresh, OF dir op assms(3) dirs]) (use u in \<open>simp_all add: is_symlink_def\<close>)
  then show ?thesis
    using r f ren assms(7)
    by (auto simp: ensure_operator_identity_def import_or_create_def split: sum.split option.split)
qed

definition two_identities :: fs where
  "two_identities =
     [[] \<mapsto> Dir, [''c''] \<mapsto> Dir, [''etc'', ''styrene'', ''identity''] \<mapsto> File [1], [''c'', ''identity''] \<mapsto> File [7, 2]]"

theorem corrupt_system_identity_overwrites_user_witness:
  "\<exists>fs'. ensure_operator_identity demo_keys demo_env None False None [5] two_identities = (Inr ''5'', fs') \<and>
     fs' [''c'', ''identity''] = Some (File [7, 5])"
proof -
  have 1: "two_identities (operator_key [''c'']) = None" "denies demo_env = (\<lambda>_. False)"
      "two_identities SYSTEM_IDENTITY_PATH = Some (File [1])" "two_identities (identity_at [''c'']) = Some (File (key_file demo_keys [2]))"
      "identity_at [''c''] \<noteq> SYSTEM_IDENTITY_PATH"
    by (simp_all add: two_identities_def operator_key_def demo_env_def SYSTEM_IDENTITY_PATH_def identity_at_def demo_keys_def)
  have 2: "two_identities r = Some Dir" if "prefix r [''c'']" for r using that by (auto simp: two_identities_def prefix_Cons)
  have 3: "load_key demo_keys [1] \<noteq> Inr (Some k)" for k by (simp add: demo_keys_def)
  have 4: "two_identities (with_suffix SYSTEM_IDENTITY_PATH ''.key.corrupt'') = None"
    by (simp add: two_identities_def SYSTEM_IDENTITY_PATH_def with_suffix_def stem_identity)
  have 5: "dir_settled demo_env [''c''] two_identities" by (simp add: dir_settled_def demo_config_dir)
  show ?thesis
    using corrupt_system_identity_overwrites_user [of demo_env "[''c'']" two_identities "[1]" demo_keys "[2]" "[5]",
        OF 5 1(1,2) 2 1(5,3) 3 1(4) 4]
    by (simp add: demo_keys_def identity_at_def)
qed

end
