(* ===== verification/Rns_Config.thy ===== *)
theory Rns_Config
  imports Config_Models File_System
begin

text \<open>
  The configuration of Reticulum (\<^verbatim>\<open>src/styrened/services/reticulum.py\<close>,
  \<^verbatim>\<open>src/styrened/models/reticulum.py\<close>): finding it, generating it from the program's own
  configuration, and reading the interfaces back out of it with a regular expression, which is written
  here as a scanner.
\<close>

section \<open>Models\<close>

record reticulum_interface =
  ri_name :: string
  ri_type :: string
  ri_enabled :: bool

record reticulum_state =
  rs_address :: string
  rs_interfaces :: "reticulum_interface list"
  rs_config_path :: path

definition truncated_address :: "string \<Rightarrow> nat \<Rightarrow> nat \<Rightarrow> string" where
  "truncated_address address prefix_len suffix_len =
     (if length address \<le> prefix_len + suffix_len + 3 then address
      else take prefix_len address @ ''...'' @ drop (if suffix_len = 0 then 0 else length address - suffix_len) address)"

definition enabled_interface_count :: "reticulum_state \<Rightarrow> nat" where
  "enabled_interface_count s = length (filter ri_enabled (rs_interfaces s))"

definition total_interface_count :: "reticulum_state \<Rightarrow> nat" where
  "total_interface_count s = length (rs_interfaces s)"

section \<open>Finding the configuration\<close>

definition get_reticulum_config_paths :: "path \<Rightarrow> path list" where
  "get_reticulum_config_paths home =
     [[''etc'', ''reticulum''], home @ [''.config'', ''reticulum''], home @ [''.reticulum'']]"

definition default_config_dir :: "path \<Rightarrow> path" where
  "default_config_dir home = home @ [''.reticulum'']"

definition is_reticulum_configured :: "path \<Rightarrow> path option \<Rightarrow> fs \<Rightarrow> bool" where
  "is_reticulum_configured home dir fs =
     (let d = (case dir of None \<Rightarrow> default_config_dir home | Some d \<Rightarrow> d) in
      path_exists fs d \<and> path_exists fs (d @ [''config'']))"

definition find_reticulum_config :: "path \<Rightarrow> path option \<Rightarrow> fs \<Rightarrow> path option" where
  "find_reticulum_config home override fs =
     find (\<lambda>d. is_reticulum_configured home (Some d) fs)
       ((case override of None \<Rightarrow> [] | Some d \<Rightarrow> [d]) @ get_reticulum_config_paths home)"

section \<open>Generating\<close>

definition show_bool :: "bool \<Rightarrow> string" where
  "show_bool b = (if b then ''true'' else ''false'')"

text \<open>\<open>str\<close>: \<^verbatim>\<open>str\<close> of a value that is no text.\<close>

definition interface_name :: "(pyval \<Rightarrow> string) \<Rightarrow> nat \<Rightarrow> pyval \<Rightarrow> string" where
  "interface_name str i n =
     (if truthy n then (case n of PStr s \<Rightarrow> s | v \<Rightarrow> str v) else ''Peer '' @ show_nat (i + 1))"

definition server_lines :: "server_config \<Rightarrow> string list" where
  "server_lines s =
     [''[[TCP Server Interface]]'', ''type = TCPServerInterface'', ''enabled = true'',
      ''listen_ip = '' @ srv_listen_ip s, ''listen_port = '' @ show_int (srv_port s), []]"

fun peer_lines :: "(pyval \<Rightarrow> string) \<Rightarrow> nat \<Rightarrow> peer_config list \<Rightarrow> string list" where
  "peer_lines str i [] = []"
| "peer_lines str i (p # ps) =
     (if peer_enabled p
      then [''[['' @ interface_name str i (peer_name p) @ '']]'', ''type = TCPClientInterface'', ''enabled = true'',
            ''target_host = '' @ peer_host p, ''target_port = '' @ show_int (peer_port p), []]
      else []) @ peer_lines str (i + 1) ps"

definition auto_lines :: "bool \<Rightarrow> string list" where
  "auto_lines on =
     [''# Local multicast discovery (disabled by default - see comments above)'', ''[[AutoInterface]]'',
      ''type = AutoInterface'', ''enabled = '' @ show_bool on] @
     (if on then [''# To exclude problematic interfaces, add:'',
                  ''# ignored_interfaces = utun0,utun1,utun2,utun3,utun4,utun5''] else []) @ [[]]"

definition config_lines :: "(pyval \<Rightarrow> string) \<Rightarrow> reticulum_config \<Rightarrow> bool \<Rightarrow> string list" where
  "config_lines str r client_only =
     [''[reticulum]'', ''enable_transport = '' @ show_bool (resolve_transport_enabled r),
      ''share_instance = '' @ show_bool (ret_mode r \<noteq> STANDALONE), [], ''[interfaces]'', []] @
     (if srv_enabled (if_server (ret_interfaces r)) \<and> \<not> client_only
      then server_lines (if_server (ret_interfaces r)) else []) @
     peer_lines str 0 (if_peers (ret_interfaces r)) @ auto_lines (if_auto (ret_interfaces r))"

definition generate_rns_config :: "(pyval \<Rightarrow> string) \<Rightarrow> core_config \<Rightarrow> bool \<Rightarrow> string" where
  "generate_rns_config str c client_only = join_with [CHR 0x0A] (config_lines str (c_reticulum c) client_only)"

section \<open>Reading the interfaces\<close>

text \<open>\<open>key = value\<close> lines of a block, after the type and the flag read so far.\<close>

fun read_block :: "string list \<Rightarrow> string \<times> bool \<Rightarrow> string \<times> bool" where
  "read_block [] te = te"
| "read_block (l # ls) te =
     (let s = py_strip l; k = takeWhile (\<lambda>c. c \<noteq> CHR ''='') s; rest = dropWhile (\<lambda>c. c \<noteq> CHR ''='') s in
      read_block ls
        (if rest = [] then te
         else let key = lower (py_strip k); v = py_strip (tl rest) in
           if key = ''type'' then (v, snd te)
           else if key = ''enabled'' then (fst te, lower v \<in> {''true'', ''yes'', ''1''})
           else te))"

text \<open>
  \<open>[[name]]\<close>, white space up to a line end: the name and what follows the last line end of the white
  space; and the complete lines that start neither with a bracket nor with a line end, with the rest.
\<close>

definition match_header :: "string \<Rightarrow> (string \<times> string) option" where
  "match_header s =
     (if prefix ''[['' s
      then let name = takeWhile (\<lambda>c. c \<noteq> CHR '']'') (drop 2 s); after = dropWhile (\<lambda>c. c \<noteq> CHR '']'') (drop 2 s) in
        if name \<noteq> [] \<and> prefix '']]'' after
        then let r = drop 2 after; run = take (length r - length (strip_from wide_spaces r)) r in
          if CHR 0x0A \<in> set run
          then Some (name, drop (length run - length (takeWhile (\<lambda>c. c \<noteq> CHR 0x0A) (rev run))) r)
          else None
        else None
      else None)"

function match_block :: "string \<Rightarrow> string \<times> string" where
  "match_block s =
     (let l = takeWhile (\<lambda>c. c \<noteq> CHR 0x0A) s; rest = dropWhile (\<lambda>c. c \<noteq> CHR 0x0A) s in
      if l \<noteq> [] \<and> hd l \<noteq> CHR ''['' \<and> rest \<noteq> []
      then let (b, r) = match_block (tl rest) in (l @ [CHR 0x0A] @ b, r)
      else ([], s))"
  by pat_completeness auto
termination
proof (relation "measure length")
  fix s :: string and l rest
  assume rest: "rest = dropWhile (\<lambda>c. c \<noteq> CHR 0x0A) s" and go: "l \<noteq> [] \<and> hd l \<noteq> CHR ''['' \<and> rest \<noteq> []"
  then have "length (tl rest) < length rest" by simp
  also have "length rest \<le> length s" by (simp add: rest length_dropWhile_le)
  finally show "(tl rest, s) \<in> measure length" by simp
qed simp

declare match_block.simps [simp del]

lemma length_match_block: "length (snd (match_block s)) \<le> length s"
proof (induction s rule: match_block.induct)
  case (1 s)
  let ?l = "takeWhile (\<lambda>c. c \<noteq> CHR 0x0A) s" and ?rest = "dropWhile (\<lambda>c. c \<noteq> CHR 0x0A) s"
  show ?case
  proof (cases "?l \<noteq> [] \<and> hd ?l \<noteq> CHR ''['' \<and> ?rest \<noteq> []")
    case True
    then have "snd (match_block s) = snd (match_block (tl ?rest))"
      by (subst match_block.simps) (simp add: Let_def case_prod_beta)
    also have "length \<dots> \<le> length (tl ?rest)" using 1 [OF refl refl] True by blast
    also have "\<dots> \<le> length ?rest" by simp
    also have "\<dots> \<le> length s" by (rule length_dropWhile_le)
    finally show ?thesis .
  next
    case False
    then show ?thesis by (subst match_block.simps) auto
  qed
qed

lemma length_match_header: "match_header s = Some (n, r) \<Longrightarrow> length r < length s"
proof -
  assume m: "match_header s = Some (n, r)"
  let ?after = "dropWhile (\<lambda>c. c \<noteq> CHR '']'') (drop 2 s)"
  from m obtain k where p: "prefix ''[['' s" and r: "r = drop k (drop 2 ?after)"
    by (auto simp: match_header_def Let_def split: if_splits)
  have "length r \<le> length ?after" using r by simp
  also have "\<dots> \<le> length (drop 2 s)" by (rule length_dropWhile_le)
  finally show ?thesis using prefix_length_le [OF p] by simp
qed

text \<open>\<^verbatim>\<open>finditer\<close>: the names and blocks, each search beginning where the last match ended.\<close>

function find_blocks :: "string \<Rightarrow> (string \<times> string) list" where
  "find_blocks [] = []"
| "find_blocks (c # s) =
     (case match_header (c # s) of
        None \<Rightarrow> find_blocks s
      | Some (n, r) \<Rightarrow> let (b, r') = match_block r in (n, b) # find_blocks r')"
  by pat_completeness auto
termination
proof (relation "measure length")
  fix c s x n r y b r'
  assume "match_header (c # s) = Some x" "(n, r) = x" "y = match_block r" "(b, r') = y"
  then have "length r < length (c # s)" "length r' \<le> length r"
    using length_match_header [of "c # s" n r] length_match_block [of r] by (auto simp: prod_eq_iff)
  then show "(r', c # s) \<in> measure length" by simp
qed simp_all

definition parsed_interface :: "string \<times> string \<Rightarrow> reticulum_interface" where
  "parsed_interface nb =
     (let (t, on) = read_block (split_on (CHR 0x0A) (snd nb)) (''Unknown'', True) in
      \<lparr>ri_name = py_strip (fst nb), ri_type = t, ri_enabled = on\<rparr>)"

text \<open>\<open>content\<close> is the outcome of reading the file as text; what is no \<^verbatim>\<open>OSError\<close> is not caught.\<close>

definition parse_interfaces :: "string res \<Rightarrow> reticulum_interface list res" where
  "parse_interfaces content =
     (case content of
        Inl OSError \<Rightarrow> Inr []
      | Inl x \<Rightarrow> Inl x
      | Inr s \<Rightarrow> Inr (map parsed_interface (find_blocks s)))"

definition read_identity :: "path \<Rightarrow> fs \<Rightarrow> string option" where
  "read_identity dir fs =
     (let f = dir @ [''storage'', ''identity''] in
      if \<not> path_exists fs f then None
      else case read_bytes fs f of Inl _ \<Rightarrow> None | Inr b \<Rightarrow> Some (hex_of (take 32 b)))"

text \<open>\<open>text_at\<close> reads a file as text; \<open>Inr None\<close> stands for \<^verbatim>\<open>ReticulumNotConfiguredError\<close>.\<close>

definition get_reticulum_config_state ::
    "path \<Rightarrow> (fs \<Rightarrow> path \<Rightarrow> string res) \<Rightarrow> path option \<Rightarrow> fs \<Rightarrow> reticulum_state option res" where
  "get_reticulum_config_state home text_at dir fs =
     (case (case dir of Some d \<Rightarrow> Some d | None \<Rightarrow> find_reticulum_config home None fs) of
        None \<Rightarrow> Inr None
      | Some d \<Rightarrow>
          if \<not> is_reticulum_configured home (Some d) fs then Inr None
          else case read_identity d fs of
            None \<Rightarrow> Inr None
          | Some a \<Rightarrow>
              bind_res (parse_interfaces (text_at fs (d @ [''config''])))
                (\<lambda>is. Inr (Some \<lparr>rs_address = a, rs_interfaces = is, rs_config_path = d\<rparr>)))"

section \<open>Reading back what was generated\<close>

definition unlines :: "string list \<Rightarrow> string" where
  "unlines ls = concat (map (\<lambda>l. l @ [CHR 0x0A]) ls)"

lemma unlines_simps [simp]:
  "unlines [] = []" "unlines (l # ls) = l @ CHR 0x0A # unlines ls" "unlines (ls @ ms) = unlines ls @ unlines ms"
  by (simp_all add: unlines_def)

lemma join_unlines: "join_with [CHR 0x0A] (ls @ [[]]) = unlines ls"
proof (induction ls)
  case (Cons l ls)
  then show ?case by (cases ls) auto
qed simp

lemma split_unlines: "(\<And>l. l \<in> set ls \<Longrightarrow> CHR 0x0A \<notin> set l) \<Longrightarrow> split_on (CHR 0x0A) (unlines ls) = ls @ [[]]"
  by (induction ls) (simp_all add: split_on_append)

text \<open>A line in which no section begins, and a line of a block.\<close>

fun quiet :: "string \<Rightarrow> bool" where
  "quiet (c # d # cs) \<longleftrightarrow> \<not> (c = CHR ''['' \<and> d = CHR ''['') \<and> quiet (d # cs)"
| "quiet _ \<longleftrightarrow> True"

lemma quiet_no_bracket: "CHR ''['' \<notin> set l \<Longrightarrow> quiet l"
  by (induction l rule: quiet.induct) auto

lemma no_header: "\<not> prefix ''[['' s \<Longrightarrow> match_header s = None"
  by (simp add: match_header_def)

lemma skip_line: "quiet l \<Longrightarrow> find_blocks (l @ CHR 0x0A # s) = find_blocks s"
  by (induction l rule: quiet.induct) (auto simp: no_header prefix_Cons)

definition block_line :: "string \<Rightarrow> bool" where
  "block_line l \<longleftrightarrow> l \<noteq> [] \<and> hd l \<noteq> CHR ''['' \<and> CHR 0x0A \<notin> set l"

lemma take_until:
  "c \<notin> set l \<Longrightarrow> takeWhile (\<lambda>d. d \<noteq> c) (l @ c # s) = l \<and> dropWhile (\<lambda>d. d \<noteq> c) (l @ c # s) = c # s"
  by (induction l) auto

lemma match_block_lines:
  "(\<And>l. l \<in> set ls \<Longrightarrow> block_line l) \<Longrightarrow> rest = [] \<or> hd rest = CHR 0x0A \<Longrightarrow>
   match_block (unlines ls @ rest) = (unlines ls, rest)"
proof (induction ls)
  case Nil
  then show ?case by (cases rest) (simp_all add: match_block.simps)
next
  case (Cons l ls)
  have l: "l \<noteq> []" "hd l \<noteq> CHR ''[''" "CHR 0x0A \<notin> set l" using Cons.prems(1) [of l] by (simp_all add: block_line_def)
  have "match_block (unlines ls @ rest) = (unlines ls, rest)" using Cons by simp
  then show ?case using l take_until [of "CHR 0x0A" l "unlines ls @ rest"] by (subst match_block.simps) (simp add: Let_def)
qed

lemma match_header_section:
  assumes "n \<noteq> []" and "CHR '']'' \<notin> set n" and "strip_from wide_spaces s = s"
  shows "match_header (''[['' @ n @ '']]'' @ CHR 0x0A # s) = Some (n, s)"
proof -
  have "takeWhile (\<lambda>c. c \<noteq> CHR '']'') (n @ '']]'' @ r) = n" "dropWhile (\<lambda>c. c \<noteq> CHR '']'') (n @ '']]'' @ r) = '']]'' @ r" for r
    using take_until [OF assms(2), of "CHR '']'' # r"] by simp_all
  then show ?thesis using assms(1,3) by (simp add: match_header_def Let_def is_strip_space_def is_space_def)
qed

lemma section_found:
  assumes "n \<noteq> []" and "CHR '']'' \<notin> set n" and "\<And>l. l \<in> set (t # ls) \<Longrightarrow> block_line l"
    and "ascii_char (hd t)" and "\<not> is_strip_space (hd t)" and "rest = [] \<or> hd rest = CHR 0x0A"
  shows "find_blocks (unlines ((''[['' @ n @ '']]'') # t # ls) @ rest) = (n, unlines (t # ls)) # find_blocks rest"
proof -
  have "t \<noteq> []" using assms(3) by (simp add: block_line_def)
  then have "strip_from wide_spaces (unlines (t # ls) @ rest) = unlines (t # ls) @ rest"
    using strip_from_ascii [of wide_spaces "hd t" "tl t @ CHR 0x0A # unlines ls @ rest"] wide_space_bytes assms(4,5)
    by (cases t) auto
  then have "match_header (''[['' @ n @ '']]'' @ CHR 0x0A # unlines (t # ls) @ rest) = Some (n, unlines (t # ls) @ rest)"
    using match_header_section assms(1,2) by blast
  moreover have "match_block (unlines (t # ls) @ rest) = (unlines (t # ls), rest)"
    by (rule match_block_lines) (use assms(3,6) in auto)
  ultimately show ?thesis by simp
qed

lemma strip_from_front: "ascii_char (hd k) \<Longrightarrow> \<not> is_strip_space (hd k) \<Longrightarrow> k \<noteq> [] \<Longrightarrow> strip_from wide_spaces (k @ s) = k @ s"
  using strip_from_ascii [of wide_spaces "hd k" "tl k @ s"] wide_space_bytes by (cases k) auto

lemma read_block_append: "read_block (ls @ ms) te = read_block ms (read_block ls te)"
  by (induction ls arbitrary: te) (simp_all add: Let_def)

lemma strip_from_stops:
  assumes "\<And>w d. w \<in> set ws \<Longrightarrow> d \<in> set w \<Longrightarrow> \<not> ascii_char d" and "ascii_char c" and "\<not> is_strip_space c"
  shows "\<exists>x'. strip_from ws (x @ c # y) = x' @ c # y"
proof (induction "length x" arbitrary: x rule: less_induct)
  case less
  show ?case
  proof (cases x)
    case Nil
    then show ?thesis using strip_from_ascii [of ws c] assms by auto
  next
    case (Cons d x')
    show ?thesis
    proof (cases "is_strip_space d")
      case True
      then show ?thesis using less [of x'] Cons by simp
    next
      case False
      show ?thesis
      proof (cases "find (\<lambda>w. w \<noteq> [] \<and> prefix w (x @ c # y)) ws")
        case None
        then show ?thesis using False Cons by auto
      next
        case (Some w)
        then have w: "w \<in> set ws" "w \<noteq> []" "prefix w (x @ c # y)" by (auto simp: find_Some_iff)
        have "length w \<le> length x"
        proof (rule ccontr)
          assume "\<not> ?thesis"
          then have "c \<in> set w" using w(3) by (auto simp: prefix_def append_eq_append_conv2 Cons_eq_append_conv)
          then show False using assms(1,2) w(1) by blast
        qed
        then have "drop (length w) (x @ c # y) = drop (length w) x @ c # y" by simp
        then have "strip_from ws (x @ c # y) = strip_from ws (drop (length w) x @ c # y)"
          using Some False Cons by simp
        moreover have "length (drop (length w) x) < length x" using w(2) Cons by simp
        ultimately show ?thesis using less by metis
      qed
    qed
  qed
qed

text \<open>Texts with nothing to strip, and keys.\<close>

definition stripped :: "string \<Rightarrow> bool" where
  "stripped k \<longleftrightarrow> k \<noteq> [] \<and> ascii_char (hd k) \<and> \<not> is_strip_space (hd k) \<and> ascii_char (last k) \<and> \<not> is_strip_space (last k)"

definition key_name :: "string \<Rightarrow> bool" where
  "key_name k \<longleftrightarrow> stripped k \<and> CHR ''='' \<notin> set k"

lemma strip_key:
  assumes "stripped k"
  shows "\<exists>w. py_strip (k @ '' = '' @ v) = k @ '' ='' @ w" and "py_strip (k @ '' '') = k"
proof -
  note k = assms [unfolded stripped_def]
  have ws: "w \<in> set (map rev wide_spaces) \<Longrightarrow> d \<in> set w \<Longrightarrow> \<not> ascii_char d" for w d using wide_space_bytes by auto
  obtain x where "strip_from (map rev wide_spaces) (rev v @ '' '' @ CHR ''='' # '' '' @ rev k) = x @ CHR ''='' # '' '' @ rev k"
    using strip_from_stops [of "map rev wide_spaces" "CHR ''=''" "rev v @ '' ''" "'' '' @ rev k"] ws
    by (auto simp: ascii_char_def is_strip_space_def is_space_def)
  then show "\<exists>w. py_strip (k @ '' = '' @ v) = k @ '' ='' @ w"
    using strip_from_front [of k "'' = '' @ v"] k by (auto simp: py_strip_def)
  have "strip_from (map rev wide_spaces) (rev k) = rev k"
    using strip_from_ascii [of "map rev wide_spaces" "last k" "tl (rev k)"] ws k by (cases k rule: rev_cases) auto
  then show "py_strip (k @ '' '') = k"
    using strip_from_front [of k "'' ''"] k by (simp add: py_strip_def is_strip_space_def is_space_def)
qed

lemma split_key:
  assumes "key_name k"
  shows "takeWhile (\<lambda>c. c \<noteq> CHR ''='') (k @ '' ='' @ w) = k @ '' ''" "dropWhile (\<lambda>c. c \<noteq> CHR ''='') (k @ '' ='' @ w) = CHR ''='' # w"
  using assms take_until [of "CHR ''=''" "k @ '' ''" w] by (simp_all add: key_name_def)

lemma read_other_key:
  assumes "key_name k" and "lower k \<notin> {''type'', ''enabled''}"
  shows "read_block ((k @ '' = '' @ v) # ls) te = read_block ls te"
proof -
  have k: "stripped k" using assms(1) by (simp add: key_name_def)
  obtain w where w: "py_strip (k @ '' = '' @ v) = k @ '' ='' @ w" using strip_key(1) [OF k] by blast
  show ?thesis using w strip_key(2) [OF k] split_key [OF assms(1)] assms(2) by simp
qed

lemma read_key:
  assumes "key_name k" and "stripped v"
  shows "read_block ((k @ '' = '' @ v) # ls) te =
    read_block ls (if lower k = ''type'' then (v, snd te)
      else if lower k = ''enabled'' then (fst te, lower v \<in> {''true'', ''yes'', ''1''}) else te)"
proof -
  have k: "stripped k" using assms(1) by (simp add: key_name_def)
  have "py_strip (k @ '' = '' @ v) = k @ '' ='' @ '' '' @ v"
    using py_strip_ascii [of "k @ '' = '' @ v"] k assms(2) by (simp add: stripped_def)
  moreover have "py_strip ('' '' @ v) = v"
    using py_strip_ascii [of v] assms(2) by (simp add: stripped_def py_strip_def is_strip_space_def is_space_def)
  ultimately show ?thesis using strip_key(2) [OF k] split_key [OF assms(1), of "'' '' @ v"] by simp
qed

lemma read_no_key: "stripped l \<Longrightarrow> CHR ''='' \<notin> set l \<Longrightarrow> read_block (l # ls) te = read_block ls te"
  using py_strip_ascii [of l] by (simp add: stripped_def)

lemmas literal_simps = key_name_def stripped_def ascii_char_def is_strip_space_def is_space_def

lemma key_names:
  "key_name ''type''" "key_name ''enabled''" "key_name ''listen_ip''" "key_name ''listen_port''" "key_name ''target_host''"
  "key_name ''target_port''" "key_name ''# ignored_interfaces''"
  by (simp_all add: literal_simps)

lemma read_type: "stripped v \<Longrightarrow> read_block ((''type = '' @ v) # ls) te = read_block ls (v, snd te)"
  using read_key [OF key_names(1), of v ls te] by (simp add: lower_def lower_char_def)

lemma read_enabled: "read_block ((''enabled = '' @ show_bool on) # ls) te = read_block ls (fst te, on)"
proof -
  have "stripped (show_bool on)" by (simp add: show_bool_def literal_simps)
  then show ?thesis using read_key [OF key_names(2), of "show_bool on" ls te]
    by (simp add: lower_def lower_char_def show_bool_def split: if_splits)
qed

definition parsed :: "string \<Rightarrow> string \<Rightarrow> bool \<Rightarrow> reticulum_interface" where
  "parsed n t on = \<lparr>ri_name = n, ri_type = t, ri_enabled = on\<rparr>"

lemma parsed_section:
  assumes "\<And>l. l \<in> set ls \<Longrightarrow> CHR 0x0A \<notin> set l" and "read_block ls (''Unknown'', True) = (t, on)"
  shows "parsed_interface (n, unlines ls) = parsed (py_strip n) t on"
  using assms by (simp add: parsed_interface_def split_unlines read_block_append parsed_def py_strip_def)

lemma section_read:
  assumes "n \<noteq> []" and "CHR '']'' \<notin> set n" and "py_strip n = n" and "\<And>l. l \<in> set (k # ls) \<Longrightarrow> block_line l"
    and "ascii_char (hd k)" and "\<not> is_strip_space (hd k)" and "read_block (k # ls) (''Unknown'', True) = (t, on)"
    and "rest = [] \<or> hd rest = CHR 0x0A"
  shows "map parsed_interface (find_blocks (unlines ((''[['' @ n @ '']]'') # k # ls) @ rest)) =
    parsed n t on # map parsed_interface (find_blocks rest)"
proof -
  have "parsed_interface (n, unlines (k # ls)) = parsed n t on"
    using parsed_section [OF _ assms(7)] assms(3,4) by (simp add: block_line_def)
  then show ?thesis using section_found [OF assms(1,2,4-6,8)] by simp
qed

declare find_blocks.simps(2) [simp del]

lemma newline_not_digit: "k < 10 \<Longrightarrow> digit_char k \<noteq> CHR 0x0A"
proof
  assume "k < 10" and "digit_char k = CHR 0x0A"
  then have "(of_char (char_of (48 + k) :: char) :: nat) = 10" by (simp add: digit_char_def)
  with \<open>k < 10\<close> show False by simp
qed

lemma newline_not_shown: "CHR 0x0A \<notin> set (show_int i)"
proof -
  have "CHR 0x0A \<notin> set (show_nat n)" for n
    by (induction n rule: show_nat.induct) (subst show_nat.simps, auto simp: newline_not_digit [symmetric] dest: newline_not_digit)
  then show ?thesis by (simp add: show_int_def)
qed

text \<open>A peer whose name the pattern can read and whose host stays on its line.\<close>

definition readable_peer :: "(pyval \<Rightarrow> string) \<Rightarrow> nat \<Rightarrow> peer_config \<Rightarrow> bool" where
  "readable_peer str i p \<longleftrightarrow>
     (let n = interface_name str i (peer_name p) in
      n \<noteq> [] \<and> CHR '']'' \<notin> set n \<and> py_strip n = n \<and> CHR 0x0A \<notin> set (peer_host p))"

lemma newline_skipped: "find_blocks (CHR 0x0A # s) = find_blocks s"
  using skip_line [of "[]"] by simp

lemma peers_read:
  assumes "\<And>j p. (j, p) \<in> set (enumerate i ps) \<Longrightarrow> peer_enabled p \<Longrightarrow> readable_peer str j p"
  shows "map parsed_interface (find_blocks (unlines (peer_lines str i ps) @ rest)) =
    map (\<lambda>(j, p). parsed (interface_name str j (peer_name p)) ''TCPClientInterface'' True)
      (filter (\<lambda>(j, p). peer_enabled p) (enumerate i ps)) @ map parsed_interface (find_blocks rest)"
  using assms
proof (induction ps arbitrary: i)
  case (Cons p ps)
  let ?n = "interface_name str i (peer_name p)"
  let ?ls = "[''enabled = true'', ''target_host = '' @ peer_host p, ''target_port = '' @ show_int (peer_port p)]"
  have ih: "map parsed_interface (find_blocks (unlines (peer_lines str (Suc i) ps) @ rest)) =
    map (\<lambda>(j, p). parsed (interface_name str j (peer_name p)) ''TCPClientInterface'' True)
      (filter (\<lambda>(j, p). peer_enabled p) (enumerate (Suc i) ps)) @ map parsed_interface (find_blocks rest)"
    by (rule Cons.IH) (use Cons.prems in auto)
  show ?case
  proof (cases "peer_enabled p")
    case True
    then have "readable_peer str i p" using Cons.prems [of i p] by simp
    then have n: "?n \<noteq> []" "CHR '']'' \<notin> set ?n" "py_strip ?n = ?n" "CHR 0x0A \<notin> set (peer_host p)"
      by (simp_all add: readable_peer_def Let_def)
    have block: "block_line l" if "l \<in> set (''type = TCPClientInterface'' # ?ls)" for l
      using that n(4) newline_not_shown [of "peer_port p"] by (auto simp: block_line_def)
    have read: "read_block (''type = TCPClientInterface'' # ?ls) (''Unknown'', True) = (''TCPClientInterface'', True)"
      using read_type [of "''TCPClientInterface''" ?ls] read_enabled [of True "tl ?ls"]
        read_other_key [OF key_names(5), of "peer_host p"] read_other_key [OF key_names(6), of "show_int (peer_port p)"]
      by (simp add: show_bool_def literal_simps lower_def lower_char_def del: read_block.simps(2))
    have "map parsed_interface (find_blocks (unlines ((''[['' @ ?n @ '']]'') # ''type = TCPClientInterface'' # ?ls) @
        CHR 0x0A # unlines (peer_lines str (Suc i) ps) @ rest)) =
      parsed ?n ''TCPClientInterface'' True # map parsed_interface (find_blocks (CHR 0x0A # unlines (peer_lines str (Suc i) ps) @ rest))"
      by (rule section_read [OF n(1-3) block _ _ read]) (simp_all add: literal_simps)
    then show ?thesis using True ih by (simp add: newline_skipped)
  next
    case False
    then show ?thesis using ih by simp
  qed
qed simp

definition auto_section :: "bool \<Rightarrow> string list" where
  "auto_section on =
     (''enabled = '' @ show_bool on) #
     (if on then [''# To exclude problematic interfaces, add:'',
                  ''# ignored_interfaces = utun0,utun1,utun2,utun3,utun4,utun5''] else [])"

lemma auto_read: "map parsed_interface (find_blocks (unlines (butlast (auto_lines on)))) = [parsed ''AutoInterface'' ''AutoInterface'' on]"
proof -
  let ?c = "''# Local multicast discovery (disabled by default - see comments above)''"
  have e: "unlines (butlast (auto_lines on)) =
      ?c @ CHR 0x0A # unlines ((''[['' @ ''AutoInterface'' @ '']]'') # ''type = AutoInterface'' # auto_section on)"
    by (simp add: auto_lines_def auto_section_def)
  have q: "quiet ?c" by (rule quiet_no_bracket) simp
  have block: "block_line l" if "l \<in> set (''type = AutoInterface'' # auto_section on)" for l
    using that by (auto simp: block_line_def auto_section_def show_bool_def split: if_splits)
  have read: "read_block (''type = AutoInterface'' # auto_section on) (''Unknown'', True) = (''AutoInterface'', on)"
    using read_type [of "''AutoInterface''" "auto_section on"] read_enabled [of on]
      read_other_key [OF key_names(7), of "''utun0,utun1,utun2,utun3,utun4,utun5''"]
      read_no_key [of "''# To exclude problematic interfaces, add:''"]
    by (simp add: auto_section_def literal_simps lower_def lower_char_def del: read_block.simps(2))
  have strip: "py_strip ''AutoInterface'' = ''AutoInterface''" by (rule py_strip_ascii) (simp_all add: literal_simps)
  have "map parsed_interface (find_blocks (unlines ((''[['' @ ''AutoInterface'' @ '']]'') # ''type = AutoInterface'' # auto_section on) @ [])) =
      parsed ''AutoInterface'' ''AutoInterface'' on # map parsed_interface (find_blocks [])"
    by (rule section_read [OF _ _ strip block _ _ read]) (simp_all add: literal_simps)
  then show ?thesis unfolding e skip_line [OF q] by simp
qed

lemma server_read:
  assumes "CHR 0x0A \<notin> set (srv_listen_ip s)"
  shows "map parsed_interface (find_blocks (unlines (server_lines s) @ rest)) =
    parsed ''TCP Server Interface'' ''TCPServerInterface'' True # map parsed_interface (find_blocks rest)"
proof -
  let ?ls = "[''enabled = true'', ''listen_ip = '' @ srv_listen_ip s, ''listen_port = '' @ show_int (srv_port s)]"
  have e: "unlines (server_lines s) @ rest =
      unlines ((''[['' @ ''TCP Server Interface'' @ '']]'') # ''type = TCPServerInterface'' # ?ls) @ CHR 0x0A # rest"
    by (simp add: server_lines_def)
  have block: "block_line l" if "l \<in> set (''type = TCPServerInterface'' # ?ls)" for l
    using that assms newline_not_shown [of "srv_port s"] by (auto simp: block_line_def)
  have read: "read_block (''type = TCPServerInterface'' # ?ls) (''Unknown'', True) = (''TCPServerInterface'', True)"
    using read_type [of "''TCPServerInterface''" ?ls] read_enabled [of True "tl ?ls"]
      read_other_key [OF key_names(3), of "srv_listen_ip s"] read_other_key [OF key_names(4), of "show_int (srv_port s)"]
    by (simp add: show_bool_def literal_simps lower_def lower_char_def del: read_block.simps(2))
  have strip: "py_strip ''TCP Server Interface'' = ''TCP Server Interface''" by (rule py_strip_ascii) (simp_all add: literal_simps)
  have "map parsed_interface (find_blocks (unlines ((''[['' @ ''TCP Server Interface'' @ '']]'') # ''type = TCPServerInterface'' # ?ls) @ CHR 0x0A # rest)) =
      parsed ''TCP Server Interface'' ''TCPServerInterface'' True # map parsed_interface (find_blocks (CHR 0x0A # rest))"
    by (rule section_read [OF _ _ strip block _ _ read]) (simp_all add: literal_simps)
  then show ?thesis unfolding e by (simp add: newline_skipped)
qed

definition head_lines :: "bool \<Rightarrow> bool \<Rightarrow> string list" where
  "head_lines transport share =
     [''[reticulum]'', ''enable_transport = '' @ show_bool transport, ''share_instance = '' @ show_bool share, [], ''[interfaces]'', []]"

lemma skip_lines: "(\<And>l. l \<in> set ls \<Longrightarrow> quiet l) \<Longrightarrow> find_blocks (unlines ls @ rest) = find_blocks rest"
  by (induction ls) (simp_all add: skip_line)

lemma head_skipped: "find_blocks (unlines (head_lines transport share) @ rest) = find_blocks rest"
  by (rule skip_lines) (cases transport; cases share; auto simp: head_lines_def show_bool_def)

text \<open>
Claim C29. The configuration that is generated for Reticulum says what the program was configured to do,
when the names can be written into it: the name of every enabled peer (its own or the numbered default)
is not empty, has no closing bracket and neither begins nor ends with white space, and neither its host nor
the server's listening address has a line end. Read back, the interfaces are then the server's, unless it
is switched off or left out for a client, then one for every enabled peer, in order and under its
name, and the automatic interface, on or off as configured. Nothing checks or escapes the names, so
without these conditions the file may come out with other sections.
\<close>

theorem generated_interfaces_read_back:
  assumes "c_reticulum c = r" and "CHR 0x0A \<notin> set (srv_listen_ip (if_server (ret_interfaces r)))"
    and "\<And>j p. (j, p) \<in> set (enumerate 0 (if_peers (ret_interfaces r))) \<Longrightarrow> peer_enabled p \<Longrightarrow> readable_peer str j p"
  shows "parse_interfaces (Inr (generate_rns_config str c client_only)) = Inr
    ((if srv_enabled (if_server (ret_interfaces r)) \<and> \<not> client_only
      then [parsed ''TCP Server Interface'' ''TCPServerInterface'' True] else []) @
     map (\<lambda>(j, p). parsed (interface_name str j (peer_name p)) ''TCPClientInterface'' True)
       (filter (\<lambda>(j, p). peer_enabled p) (enumerate 0 (if_peers (ret_interfaces r)))) @
     [parsed ''AutoInterface'' ''AutoInterface'' (if_auto (ret_interfaces r))])"
proof -
  let ?s = "if_server (ret_interfaces r)" and ?ps = "if_peers (ret_interfaces r)" and ?on = "if_auto (ret_interfaces r)"
  let ?head = "head_lines (resolve_transport_enabled r) (ret_mode r \<noteq> STANDALONE)"
  let ?server = "if srv_enabled ?s \<and> \<not> client_only then server_lines ?s else []"
  have "config_lines str r client_only = (?head @ ?server @ peer_lines str 0 ?ps @ butlast (auto_lines ?on)) @ [[]]"
    by (simp add: config_lines_def head_lines_def auto_lines_def)
  then have "generate_rns_config str c client_only =
      unlines ?head @ unlines ?server @ unlines (peer_lines str 0 ?ps) @ unlines (butlast (auto_lines ?on))"
    using assms(1) by (simp only: generate_rns_config_def join_unlines unlines_simps)
  moreover have "map parsed_interface (find_blocks (unlines (peer_lines str 0 ?ps) @ unlines (butlast (auto_lines ?on)))) =
      map (\<lambda>(j, p). parsed (interface_name str j (peer_name p)) ''TCPClientInterface'' True)
       (filter (\<lambda>(j, p). peer_enabled p) (enumerate 0 ?ps)) @ [parsed ''AutoInterface'' ''AutoInterface'' ?on]"
    using peers_read [OF assms(3)] auto_read by simp
  ultimately show ?thesis
    using server_read [OF assms(2)] by (simp add: parse_interfaces_def head_skipped)
qed

definition one_hub :: core_config where
  "one_hub = CoreConfig
     \<lparr>c_reticulum := ReticulumConfig
        \<lparr>ret_interfaces := InterfaceConfig
           \<lparr>if_peers := [\<lparr>peer_host = ''hub.example'', peer_port = 4242, peer_name = PStr ''hub'', peer_enabled = True\<rparr>]\<rparr>\<rparr>\<rparr>"

theorem generated_interfaces_read_back_witness:
  "parse_interfaces (Inr (generate_rns_config (\<lambda>_. []) one_hub False)) = Inr
    [parsed ''hub'' ''TCPClientInterface'' True, parsed ''AutoInterface'' ''AutoInterface'' False]"
proof -
  let ?p = "\<lparr>peer_host = ''hub.example'', peer_port = 4242, peer_name = PStr ''hub'', peer_enabled = True\<rparr>"
  let ?r = "ReticulumConfig\<lparr>ret_interfaces := InterfaceConfig\<lparr>if_peers := [?p]\<rparr>\<rparr>"
  have "py_strip ''hub'' = ''hub''" by (rule py_strip_ascii) (simp_all add: literal_simps)
  then have "readable_peer (\<lambda>_. []) 0 ?p" by (simp add: readable_peer_def interface_name_def)
  then have p: "readable_peer (\<lambda>_. []) j q" if "(j, q) \<in> set (enumerate 0 (if_peers (ret_interfaces ?r)))" for j q
    using that by (simp add: ReticulumConfig_def InterfaceConfig_def)
  have c: "c_reticulum one_hub = ?r" by (simp add: one_hub_def)
  show ?thesis
    using generated_interfaces_read_back [OF c, of "\<lambda>_. []" False] p
    by (simp add: ReticulumConfig_def InterfaceConfig_def ServerInterfaceConfig_def interface_name_def)
qed

end
