(* ===== verification/Rns_Service.thy ===== *)
theory Rns_Service
  imports Rns_Config
begin

text \<open>
  The service that owns the Reticulum instance (\<^verbatim>\<open>src/styrened/services/rns_service.py\<close>) and the
  categories of its failures (\<^verbatim>\<open>src/styrened/models/rns_error.py\<close>): starting, the cache of
  destinations, and the monitor that watches the interfaces and calls back after a reconnection. The
  library is a record of functions and the list of the destinations it has registered; a callback is a
  function on the state of the service, with what it raises.
\<close>

section \<open>Failures\<close>

datatype rns_error_category =
    NONE | NOT_CONFIGURED | CONFIG_PARSE_ERROR | CONFIG_PERMISSION | IDENTITY_CORRUPT | IDENTITY_PERMISSION
  | PORT_CONFLICT | INTERFACE_FAILURE | UNKNOWN

record error_info =
  ei_title :: string
  ei_description :: string
  ei_recovery :: string

definition error_text :: "string \<Rightarrow> string \<Rightarrow> string \<Rightarrow> error_info" where
  "error_text t d r = \<lparr>ei_title = t, ei_description = d, ei_recovery = r\<rparr>"

fun RNS_ERROR_INFO :: "rns_error_category \<Rightarrow> error_info" where
  "RNS_ERROR_INFO NONE = error_text ''Online'' ''Reticulum is running normally.'' []"
| "RNS_ERROR_INFO NOT_CONFIGURED =
     error_text ''Not Configured'' ''Reticulum configuration not found.'' ''Run the setup wizard to initialize Reticulum.''"
| "RNS_ERROR_INFO CONFIG_PARSE_ERROR =
     error_text ''Config Error'' ''Reticulum config file is malformed.''
       ''Check ~/.reticulum/config for syntax errors or delete to regenerate.''"
| "RNS_ERROR_INFO CONFIG_PERMISSION =
     error_text ''Permission Denied'' ''Cannot read Reticulum configuration.'' ''Check permissions on ~/.reticulum/ directory.''"
| "RNS_ERROR_INFO IDENTITY_CORRUPT =
     error_text ''Identity Corrupt'' ''Operator identity file is invalid.''
       ''Delete ~/.config/styrene/identity to regenerate identity.''"
| "RNS_ERROR_INFO IDENTITY_PERMISSION =
     error_text ''Identity Permission'' ''Cannot read operator identity file.''
       ''Check permissions on ~/.config/styrene/identity''"
| "RNS_ERROR_INFO PORT_CONFLICT =
     error_text ''Port Conflict'' ''Interface cannot bind to configured port.''
       ''Check for other Reticulum instances or adjust interface config.''"
| "RNS_ERROR_INFO INTERFACE_FAILURE =
     error_text ''Interface Failed'' ''One or more network interfaces failed to start.''
       ''Check network connectivity and interface configuration.''"
| "RNS_ERROR_INFO UNKNOWN =
     error_text ''Error'' ''Reticulum initialization failed.'' ''Check logs for details: ~/.styrene/styrene.log''"

text \<open>An exception as the code sees it: its class name, its text, and the two classes it is tested for.\<close>

record raised =
  exc_type_name :: string
  exc_text :: string
  is_permission_error :: bool
  is_file_not_found :: bool

record rns_error_state =
  category :: rns_error_category
  exception_type :: "string option"
  message :: "string option"

definition no_error :: rns_error_state where
  "no_error = \<lparr>category = NONE, exception_type = None, message = None\<rparr>"

definition is_error :: "rns_error_state \<Rightarrow> bool" where
  "is_error s \<longleftrightarrow> category s \<noteq> NONE"

definition title :: "rns_error_state \<Rightarrow> string" where
  "title s = ei_title (RNS_ERROR_INFO (category s))"

definition description :: "rns_error_state \<Rightarrow> string" where
  "description s = ei_description (RNS_ERROR_INFO (category s))"

definition recovery :: "rns_error_state \<Rightarrow> string" where
  "recovery s = ei_recovery (RNS_ERROR_INFO (category s))"

definition error_category :: "raised \<Rightarrow> rns_error_category" where
  "error_category x =
     (let has = (\<lambda>w. sublist w (lower (exc_text x))) in
      if has ''ed25519'' \<or> has ''private key'' \<or> has ''operator identity'' \<or> has ''identity'' \<and> has ''corrupt''
      then IDENTITY_CORRUPT
      else if is_permission_error x \<or> has ''permission''
      then (if has ''.styrene'' \<or> has ''operator'' then IDENTITY_PERMISSION else CONFIG_PERMISSION)
      else if has ''config'' \<and> (has ''parse'' \<or> has ''syntax'') then CONFIG_PARSE_ERROR
      else if has ''address already in use'' \<or> has ''bind'' then PORT_CONFLICT
      else if has ''interface'' then INTERFACE_FAILURE
      else if (is_file_not_found x \<or> has ''not found'') \<and> (has ''.reticulum'' \<or> has ''config'') then NOT_CONFIGURED
      else UNKNOWN)"

definition from_exception :: "raised \<Rightarrow> rns_error_state" where
  "from_exception x = \<lparr>category = error_category x, exception_type = Some (exc_type_name x), message = Some (exc_text x)\<rparr>"

section \<open>State\<close>

text \<open>
  A destination is a number, its hash a text, an identity its private key. An interface may lack a name and a flag.
  \<open>callback_log\<close> records each reconnect callback that was run, with the interface that was back.
\<close>

record rns_interface =
  iface_name :: "string option"
  iface_online :: "bool option"
  iface_type :: string
  iface_id :: nat

record rns_service =
  reticulum :: "nat option"
  initialized :: bool
  error_state :: rns_error_state
  destinations :: "(string \<times> nat) list"
  filter_installed :: bool
  monitor_running :: bool
  monitor_stop :: bool
  last_interface_states :: "(string \<times> bool) list"
  last_interface_ids :: "(string \<times> nat) list"
  disconnect_times :: "(string \<times> rat) list"
  reconnect_callbacks :: "nat list"
  callback_log :: "(string \<times> nat) list"

definition RNSService :: rns_service where
  "RNSService =
     \<lparr>reticulum = None, initialized = False, error_state = no_error, destinations = [], filter_installed = False,
      monitor_running = False, monitor_stop = False, last_interface_states = [], last_interface_ids = [],
      disconnect_times = [], reconnect_callbacks = [], callback_log = []\<rparr>"

definition get_rns_service :: "rns_service option \<Rightarrow> rns_service" where
  "get_rns_service s = (case s of None \<Rightarrow> RNSService | Some x \<Rightarrow> x)"

definition is_initialized :: "rns_service \<Rightarrow> bool" where
  "is_initialized s \<longleftrightarrow> initialized s \<and> reticulum s \<noteq> None"

text \<open>\<open>show_id\<close>: \<^verbatim>\<open>str\<close> of an object's address.\<close>

definition name_of :: "rns_interface \<Rightarrow> string" where
  "name_of i = (case iface_name i of None \<Rightarrow> show_nat (iface_id i) | Some n \<Rightarrow> n)"

definition online_of :: "rns_interface \<Rightarrow> bool" where
  "online_of i = (case iface_online i of None \<Rightarrow> True | Some b \<Rightarrow> b)"

section \<open>Starting and stopping\<close>

definition install_outbound_error_filter :: "rns_service \<Rightarrow> rns_service" where
  "install_outbound_error_filter s = s\<lparr>filter_installed := True\<rparr>"

text \<open>What the replaced \<^verbatim>\<open>RNS.log\<close> lets through.\<close>

definition LOG_ERROR :: int where "LOG_ERROR = 1"

definition logged :: "string \<Rightarrow> int \<Rightarrow> bool" where
  "logged msg level \<longleftrightarrow> \<not> (level = LOG_ERROR \<and> sublist ''No interfaces could process the outbound packet'' msg)"

definition capture_interface_states :: "rns_interface list \<Rightarrow> rns_service \<Rightarrow> rns_service" where
  "capture_interface_states ifs s =
     s\<lparr>last_interface_states := fold (\<lambda>i. AList.update (name_of i) (online_of i)) ifs (last_interface_states s)\<rparr>"

definition start_interface_monitor :: "rns_service \<Rightarrow> rns_service" where
  "start_interface_monitor s = (if monitor_running s then s else s\<lparr>monitor_stop := False, monitor_running := True\<rparr>)"

definition stop_interface_monitor :: "rns_service \<Rightarrow> rns_service" where
  "stop_interface_monitor s = (if monitor_running s then s\<lparr>monitor_stop := True, monitor_running := False\<rparr> else s)"

text \<open>\<open>made\<close>: the outcome of \<^verbatim>\<open>RNS.Reticulum(...)\<close>; \<open>ifs\<close>: its interfaces then.\<close>

definition initialize :: "raised + nat \<Rightarrow> rns_interface list \<Rightarrow> rns_service \<Rightarrow> bool \<times> rns_service" where
  "initialize made ifs s =
     (if is_initialized s then (True, s)
      else let s1 = install_outbound_error_filter s in
      case made of
        Inl x \<Rightarrow> (False, s1\<lparr>reticulum := None, initialized := False, error_state := from_exception x\<rparr>)
      | Inr r \<Rightarrow>
          (True, start_interface_monitor (capture_interface_states ifs
             (s1\<lparr>reticulum := Some r, initialized := True, error_state := no_error\<rparr>))))"

definition clear_destinations :: "rns_service \<Rightarrow> rns_service" where
  "clear_destinations s = s\<lparr>destinations := []\<rparr>"

definition shutdown :: "rns_service \<Rightarrow> rns_service" where
  "shutdown s =
     (if \<not> initialized s then s
      else (clear_destinations (stop_interface_monitor s))\<lparr>reconnect_callbacks := [], reticulum := None, initialized := False\<rparr>)"

text \<open>\<open>answer\<close>: what \<^verbatim>\<open>transport_enabled()\<close> of the instance returns, unless it cannot be called.\<close>

definition is_transport_enabled :: "bool option \<Rightarrow> rns_service \<Rightarrow> bool" where
  "is_transport_enabled answer s = (is_initialized s \<and> answer = Some True)"

section \<open>Destinations\<close>

text \<open>
  The library: the hash of a destination, and what \<^verbatim>\<open>RNS.Destination\<close> does for a hash that is not
  registered yet. For one that is, it raises an exception that says so.
\<close>

record rns_library =
  dest_hash :: "bytes \<Rightarrow> string \<Rightarrow> string \<Rightarrow> string"
  new_destination :: "bytes \<Rightarrow> string \<Rightarrow> string \<Rightarrow> raised + nat"
  registered_text :: string

type_synonym registered = "(nat \<times> string) list"

definition make_destination :: "rns_library \<Rightarrow> bytes \<Rightarrow> string \<Rightarrow> string \<Rightarrow> registered \<Rightarrow> (raised + nat) \<times> registered" where
  "make_destination L identity app aspect reg =
     (let h = dest_hash L identity app aspect in
      if h \<in> snd ` set reg
      then (Inl \<lparr>exc_type_name = ''KeyError'', exc_text = registered_text L, is_permission_error = False, is_file_not_found = False\<rparr>, reg)
      else case new_destination L identity app aspect of
        Inl x \<Rightarrow> (Inl x, reg)
      | Inr d \<Rightarrow> (Inr d, reg @ [(d, h)]))"

definition create_operator_destination ::
    "rns_library \<Rightarrow> bytes option \<Rightarrow> string \<Rightarrow> string \<Rightarrow> rns_service \<Rightarrow> registered \<Rightarrow> nat option \<times> rns_service \<times> registered" where
  "create_operator_destination L identity app aspect s reg =
     (if \<not> is_initialized s then (None, s, reg)
      else case identity of
        None \<Rightarrow> (None, s, reg)
      | Some i \<Rightarrow>
          let key = app @ ''.'' @ aspect in
          (case map_of (destinations s) key of
             Some d \<Rightarrow> (Some d, s, reg)
           | None \<Rightarrow>
               (case make_destination L i app aspect reg of
                  (Inr d, reg1) \<Rightarrow> (Some d, s\<lparr>destinations := AList.update key d (destinations s)\<rparr>, reg1)
                | (Inl x, reg1) \<Rightarrow>
                    (case (if sublist ''already registered'' (lower (exc_text x))
                           then find (\<lambda>(d, h). h = dest_hash L i app aspect) reg1 else None) of
                       Some (d, _) \<Rightarrow> (Some d, s\<lparr>destinations := AList.update key d (destinations s)\<rparr>, reg1)
                     | None \<Rightarrow> (None, s, reg1)))))"

definition get_or_create_destination ::
    "rns_library \<Rightarrow> bytes option \<Rightarrow> string \<Rightarrow> string \<Rightarrow> rns_service \<Rightarrow> registered \<Rightarrow> nat option \<times> rns_service \<times> registered" where
  "get_or_create_destination = create_operator_destination"

section \<open>The monitor\<close>

definition register_reconnect_callback :: "nat \<Rightarrow> rns_service \<Rightarrow> rns_service" where
  "register_reconnect_callback c s = s\<lparr>reconnect_callbacks := reconnect_callbacks s @ [c]\<rparr>"

text \<open>
  \<open>call c\<close> is what callback \<open>c\<close> does to the service; an exception of its own is caught, so only the
  state it leaves matters. The callbacks are those registered when the cache is cleared.
\<close>

definition handle_reconnection :: "(nat \<Rightarrow> rns_service \<Rightarrow> rns_service) \<Rightarrow> string \<Rightarrow> rns_service \<Rightarrow> rns_service" where
  "handle_reconnection call n s =
     fold (\<lambda>c t. call c (t\<lparr>callback_log := callback_log t @ [(n, c)]\<rparr>)) (reconnect_callbacks s) (s\<lparr>destinations := []\<rparr>)"

definition went_offline :: "rat \<Rightarrow> string \<Rightarrow> rns_service \<Rightarrow> rns_service" where
  "went_offline now n s = s\<lparr>disconnect_times := AList.update n now (disconnect_times s)\<rparr>"

definition came_back :: "(nat \<Rightarrow> rns_service \<Rightarrow> rns_service) \<Rightarrow> string \<Rightarrow> rns_service \<Rightarrow> rns_service" where
  "came_back call n s =
     (case map_of (disconnect_times s) n of
        None \<Rightarrow> s
      | Some _ \<Rightarrow> (let s1 = handle_reconnection call n s in
          s1\<lparr>disconnect_times := AList.delete n (disconnect_times s1)\<rparr>))"

definition track_object :: "rns_interface \<Rightarrow> rns_service \<Rightarrow> rns_service" where
  "track_object i s =
     (if sublist ''TCPClientInterface'' (iface_type i)
      then s\<lparr>last_interface_ids := AList.update (name_of i) (iface_id i) (last_interface_ids s)\<rparr> else s)"

definition check_interface ::
    "(nat \<Rightarrow> rns_service \<Rightarrow> rns_service) \<Rightarrow> rat \<Rightarrow> rns_interface \<Rightarrow> rns_service \<Rightarrow> rns_service" where
  "check_interface call now i s =
     (let n = name_of i; on = online_of i;
          prev = (case map_of (last_interface_states s) n of None \<Rightarrow> True | Some b \<Rightarrow> b);
          s1 = (if prev \<and> \<not> on then went_offline now n s
                else if \<not> prev \<and> on then came_back call n s else s);
          s2 = track_object i s1 in
      s2\<lparr>last_interface_states := AList.update n on (last_interface_states s2)\<rparr>)"

text \<open>One check of all interfaces.\<close>

definition check_interface_states ::
    "(nat \<Rightarrow> rns_service \<Rightarrow> rns_service) \<Rightarrow> rat \<Rightarrow> rns_interface list \<Rightarrow> rns_service \<Rightarrow> rns_service" where
  "check_interface_states call now ifs s = fold (check_interface call now) ifs s"

text \<open>The loop: a check of what there is at each time, until the stop.\<close>

fun interface_monitor_loop ::
    "(nat \<Rightarrow> rns_service \<Rightarrow> rns_service) \<Rightarrow> (rat \<times> rns_interface list) list \<Rightarrow> rns_service \<Rightarrow> rns_service" where
  "interface_monitor_loop call [] s = s"
| "interface_monitor_loop call ((now, ifs) # turns) s =
     (if monitor_stop s then s else interface_monitor_loop call turns (check_interface_states call now ifs s))"

section \<open>Status lines\<close>

text \<open>What is logged of an interface: its target or its binding, when both parts are there, and its bit rate.\<close>

record interface_facts =
  if_online :: "bool option"
  if_target :: "(string \<times> string) option"
  if_bound :: "(string \<times> string) option"
  if_rate :: "string option"

definition interface_status :: "interface_facts \<Rightarrow> string" where
  "interface_status i =
     (let parts = (case if_online i of None \<Rightarrow> [] | Some b \<Rightarrow> [if b then ''UP'' else ''DOWN'']) @
        (case if_target i of
           Some (a, p) \<Rightarrow> [''target='' @ a @ '':'' @ p]
         | None \<Rightarrow> (case if_bound i of Some (a, p) \<Rightarrow> [''listen='' @ a @ '':'' @ p] | None \<Rightarrow> [])) @
        (case if_rate i of None \<Rightarrow> [] | Some r \<Rightarrow> [r @ ''Mbps'']) in
      if parts = [] then ''initializing'' else join_with '', '' parts)"

section \<open>Reconnections\<close>

text \<open>What was seen of an interface: an entry for each check in which it was there.\<close>

definition seen :: "string \<Rightarrow> rns_interface list \<Rightarrow> bool list" where
  "seen n ifs = map online_of (filter (\<lambda>i. name_of i = n) ifs)"

fun rises :: "bool list \<Rightarrow> nat" where
  "rises (a # b # bs) = (if \<not> a \<and> b then 1 else 0) + rises (b # bs)"
| "rises _ = 0"

text \<open>What is known of an interface: whether it was up, and whether a disconnect of it is to be handled.\<close>

definition up_before :: "string \<Rightarrow> rns_service \<Rightarrow> bool" where
  "up_before n s \<longleftrightarrow> map_of (last_interface_states s) n \<noteq> Some False"

text \<open>Callbacks that leave the monitor's own records, its stop flag and the list of callbacks alone.\<close>

definition leaves_monitor :: "(nat \<Rightarrow> rns_service \<Rightarrow> rns_service) \<Rightarrow> bool" where
  "leaves_monitor call \<longleftrightarrow>
     (\<forall>c s. last_interface_states (call c s) = last_interface_states s \<and> disconnect_times (call c s) = disconnect_times s \<and>
        monitor_stop (call c s) = monitor_stop s \<and> reconnect_callbacks (call c s) = reconnect_callbacks s \<and>
        callback_log (call c s) = callback_log s)"

definition leaves_destinations :: "(nat \<Rightarrow> rns_service \<Rightarrow> rns_service) \<Rightarrow> bool" where
  "leaves_destinations call \<longleftrightarrow> (\<forall>c s. destinations (call c s) = destinations s)"

lemma fold_leaves_monitor:
  assumes "leaves_monitor call"
  shows "last_interface_states (fold (\<lambda>c t. call c (t\<lparr>callback_log := callback_log t @ [(n, c)]\<rparr>)) cs s) = last_interface_states s \<and>
   disconnect_times (fold (\<lambda>c t. call c (t\<lparr>callback_log := callback_log t @ [(n, c)]\<rparr>)) cs s) = disconnect_times s \<and>
   monitor_stop (fold (\<lambda>c t. call c (t\<lparr>callback_log := callback_log t @ [(n, c)]\<rparr>)) cs s) = monitor_stop s \<and>
   reconnect_callbacks (fold (\<lambda>c t. call c (t\<lparr>callback_log := callback_log t @ [(n, c)]\<rparr>)) cs s) = reconnect_callbacks s \<and>
   callback_log (fold (\<lambda>c t. call c (t\<lparr>callback_log := callback_log t @ [(n, c)]\<rparr>)) cs s) = callback_log s @ map (Pair n) cs"
  using assms by (induction cs arbitrary: s) (auto simp: leaves_monitor_def)

lemma handled_fields:
  assumes "leaves_monitor call"
  shows "last_interface_states (handle_reconnection call n s) = last_interface_states s"
    "disconnect_times (handle_reconnection call n s) = disconnect_times s"
    "monitor_stop (handle_reconnection call n s) = monitor_stop s"
    "reconnect_callbacks (handle_reconnection call n s) = reconnect_callbacks s"
    "callback_log (handle_reconnection call n s) = callback_log s @ map (Pair n) (reconnect_callbacks s)"
  using fold_leaves_monitor [OF assms] by (simp_all add: handle_reconnection_def)

lemma handled_destinations:
  assumes "leaves_destinations call"
  shows "destinations (handle_reconnection call n s) = []"
proof -
  have "destinations (fold (\<lambda>c t. call c (t\<lparr>callback_log := callback_log t @ [(n, c)]\<rparr>)) cs t) = destinations t" for cs t
    using assms by (induction cs arbitrary: t) (auto simp: leaves_destinations_def)
  then show ?thesis by (simp add: handle_reconnection_def)
qed

text \<open>One interface: its own two entries change, those of the others do not; and a return is handled.\<close>

definition disc :: "string \<Rightarrow> rns_service \<Rightarrow> bool" where
  "disc n s \<longleftrightarrow> map_of (disconnect_times s) n \<noteq> None"

definition is_back :: "rns_interface \<Rightarrow> rns_service \<Rightarrow> bool" where
  "is_back i s \<longleftrightarrow> \<not> up_before (name_of i) s \<and> online_of i \<and> disc (name_of i) s"

lemma check_interface_fields:
  fixes i :: rns_interface
  assumes "leaves_monitor call"
  defines "n \<equiv> name_of i" and "on \<equiv> online_of i"
  shows "up_before m (check_interface call now i s) = (if m = n then on else up_before m s)"
    and "disc m (check_interface call now i s) =
      (if m = n then (if up_before n s \<and> \<not> on then True else if \<not> up_before n s \<and> on then False else disc n s) else disc m s)"
    and "callback_log (check_interface call now i s) =
      callback_log s @ (if is_back i s then map (Pair n) (reconnect_callbacks s) else [])"
    and "reconnect_callbacks (check_interface call now i s) = reconnect_callbacks s"
    and "monitor_stop (check_interface call now i s) = monitor_stop s"
    and "leaves_destinations call \<Longrightarrow>
      destinations (check_interface call now i s) = (if is_back i s then [] else destinations s)"
proof -
  have prev: "(case map_of (last_interface_states s) (name_of i) of None \<Rightarrow> True | Some b \<Rightarrow> b) \<longleftrightarrow> up_before (name_of i) s"
    by (auto simp: up_before_def split: option.split)
  note f = handled_fields [OF assms(1)]
  note e = check_interface_def [of call now i s, unfolded Let_def prev, folded n_def on_def]
  note simps = went_offline_def came_back_def track_object_def Let_def up_before_def disc_def is_back_def update_conv' delete_conv' f
  show "up_before m (check_interface call now i s) = (if m = n then on else up_before m s)"
    unfolding e by (auto simp: simps split: option.splits)
  show "disc m (check_interface call now i s) =
      (if m = n then (if up_before n s \<and> \<not> on then True else if \<not> up_before n s \<and> on then False else disc n s) else disc m s)"
    unfolding e by (auto simp: simps split: option.splits)
  show "callback_log (check_interface call now i s) =
      callback_log s @ (if is_back i s then map (Pair n) (reconnect_callbacks s) else [])"
    unfolding e by (auto simp: simps n_def on_def split: option.splits)
  show "reconnect_callbacks (check_interface call now i s) = reconnect_callbacks s"
    unfolding e by (auto simp: simps split: option.splits)
  show "monitor_stop (check_interface call now i s) = monitor_stop s"
    unfolding e by (auto simp: simps split: option.splits)
  show "destinations (check_interface call now i s) = (if is_back i s then [] else destinations s)"
    if "leaves_destinations call"
    unfolding e by (auto simp: simps n_def on_def handled_destinations [OF that] split: option.splits)
qed

text \<open>What a sequence of observations means for one interface: how often it came back.\<close>

fun returns :: "bool \<Rightarrow> bool \<Rightarrow> bool list \<Rightarrow> nat" where
  "returns up down [] = 0"
| "returns up down (b # bs) =
     (if \<not> up \<and> b \<and> down then 1 else 0) + returns b (if up \<and> \<not> b then True else if \<not> up \<and> b then False else down) bs"

text \<open>What is still to be expected for an interface, when it will be seen as \<open>bs\<close> tells.\<close>

definition due :: "string \<Rightarrow> rns_service \<Rightarrow> bool list \<Rightarrow> nat" where
  "due n s bs = returns (up_before n s) (disc n s) bs"

lemma due_step:
  assumes "leaves_monitor call"
  shows "due n s (seen n [i] @ bs) = (if name_of i = n \<and> is_back i s then 1 else 0) + due n (check_interface call now i s) bs"
  using check_interface_fields(1,2) [OF assms] by (auto simp: due_def seen_def is_back_def)

definition calls_for :: "string \<Rightarrow> rns_service \<Rightarrow> (string \<times> nat) list" where
  "calls_for n s = filter (\<lambda>e. fst e = n) (callback_log s)"

lemma seen_Cons: "seen n (i # ifs) = seen n [i] @ seen n ifs"
  by (simp add: seen_def)

lemma calls_of: "filter (\<lambda>e. fst e = n) (map (Pair m) cs) = (if n = m then map (Pair m) cs else [])"
  by (induction cs) auto

lemma check_states_calls:
  fixes now :: rat
  assumes "leaves_monitor call"
  defines "after \<equiv> \<lambda>ifs s. check_interface_states call now ifs s"
  shows "calls_for n (after ifs s) @ concat (replicate (due n (after ifs s) bs) (map (Pair n) (reconnect_callbacks s))) =
      calls_for n s @ concat (replicate (due n s (seen n ifs @ bs)) (map (Pair n) (reconnect_callbacks s)))
    \<and> reconnect_callbacks (after ifs s) = reconnect_callbacks s \<and> monitor_stop (after ifs s) = monitor_stop s"
proof (induction ifs arbitrary: s)
  case (Cons i ifs)
  let ?t = "check_interface call now i s"
  note f = check_interface_fields(3,4,5) [OF assms(1), of now i s]
  have "after (i # ifs) s = after ifs ?t" by (simp add: after_def check_interface_states_def)
  moreover have "calls_for n ?t =
      calls_for n s @ (if name_of i = n \<and> is_back i s then map (Pair n) (reconnect_callbacks s) else [])"
    using f(1) calls_of [of n "name_of i" "reconnect_callbacks s"] by (simp add: calls_for_def)
  moreover have "due n s (seen n (i # ifs) @ bs) =
      (if name_of i = n \<and> is_back i s then 1 else 0) + due n ?t (seen n ifs @ bs)"
    using due_step [OF assms(1), of n s i "seen n ifs @ bs" now] seen_Cons [of n i ifs] by simp
  ultimately show ?case using Cons.IH [of ?t] f(2,3) by auto
qed (simp add: seen_def after_def check_interface_states_def)

lemma check_states_destinations:
  fixes now :: rat
  assumes "leaves_monitor call" "leaves_destinations call"
  defines "after \<equiv> \<lambda>ifs s. check_interface_states call now ifs s"
  shows "(if \<exists>n. due n (after ifs s) (bs n) \<noteq> 0 then [] else destinations (after ifs s)) =
    (if \<exists>n. due n s (seen n ifs @ bs n) \<noteq> 0 then [] else destinations s)"
proof (induction ifs arbitrary: s)
  case (Cons i ifs)
  let ?t = "check_interface call now i s"
  have tail: "after (i # ifs) s = after ifs ?t" by (simp add: after_def check_interface_states_def)
  have due: "due n s (seen n (i # ifs) @ bs n) =
      (if name_of i = n \<and> is_back i s then 1 else 0) + due n ?t (seen n ifs @ bs n)" for n
    using due_step [OF assms(1), of n s i "seen n ifs @ bs n" now] seen_Cons [of n i ifs] by simp
  have d: "destinations ?t = (if is_back i s then [] else destinations s)"
    by (rule check_interface_fields(6) [OF assms(1,2)])
  show ?case
  proof (cases "is_back i s")
    case True
    then have "due (name_of i) s (seen (name_of i) (i # ifs) @ bs (name_of i)) \<noteq> 0" by (simp add: due)
    then have "\<exists>n. due n s (seen n (i # ifs) @ bs n) \<noteq> 0" by blast
    then show ?thesis using Cons.IH [of ?t] d True unfolding tail by (simp only: if_True if_cancel)
  next
    case False
    then have "due n s (seen n (i # ifs) @ bs n) = due n ?t (seen n ifs @ bs n)" for n by (simp add: due)
    then show ?thesis using Cons.IH [of ?t] d False unfolding tail by (simp only: if_False)
  qed
qed (simp add: seen_def after_def check_interface_states_def)

abbreviation observed :: "string \<Rightarrow> (rat \<times> rns_interface list) list \<Rightarrow> bool list" where
  "observed n turns \<equiv> concat (map (\<lambda>(t, ifs). seen n ifs) turns)"

lemma loop_calls:
  assumes "leaves_monitor call" and "\<not> monitor_stop s"
  shows "calls_for n (interface_monitor_loop call turns s) =
    calls_for n s @ concat (replicate (due n s (observed n turns)) (map (Pair n) (reconnect_callbacks s)))"
  using assms(2)
proof (induction turns arbitrary: s)
  case (Cons turn turns)
  obtain now ifs where turn: "turn = (now, ifs)" by fastforce
  note c = check_states_calls [OF assms(1), of n now ifs s "observed n turns"]
  show ?case using Cons c turn by simp
qed (simp add: due_def)

lemma loop_destinations:
  assumes "leaves_monitor call" "leaves_destinations call" and "\<not> monitor_stop s"
  shows "destinations (interface_monitor_loop call turns s) =
    (if \<exists>n. due n s (observed n turns) \<noteq> 0 then [] else destinations s)"
  using assms(3)
proof (induction turns arbitrary: s)
  case (Cons turn turns)
  obtain now ifs where turn: "turn = (now, ifs)" by fastforce
  note c = check_states_destinations [OF assms(1,2), of now ifs s "\<lambda>n. observed n turns"]
  have "\<not> monitor_stop (check_interface_states call now ifs s)"
    using check_states_calls [OF assms(1)] Cons.prems by blast
  then show ?case using Cons c turn by simp
qed (simp add: due_def)

lemma returns_rises:
  "returns True down bs = rises (True # bs)" "returns False True bs = rises (False # bs)"
  "returns False False bs = rises (dropWhile Not bs)"
proof -
  have a: "returns True down bs = rises (True # bs) \<and> returns False True bs = rises (False # bs)" for down bs
    by (induction bs arbitrary: down) auto
  then show "returns True down bs = rises (True # bs)" "returns False True bs = rises (False # bs)" by simp_all
  show "returns False False bs = rises (dropWhile Not bs)"
    using a by (induction bs) auto
qed

text \<open>How often an interface came back: down and then up again, not counting a first time up of one down at the start.\<close>

definition comebacks :: "rns_interface list \<Rightarrow> (rat \<times> rns_interface list) list \<Rightarrow> string \<Rightarrow> nat" where
  "comebacks ifs turns n =
     (if \<exists>i \<in> set ifs. name_of i = n \<and> \<not> online_of i then rises (dropWhile Not (observed n turns))
      else rises (True # observed n turns))"

lemma due_at_start:
  assumes "initialize (Inr r) ifs RNSService = (True, s)" and "distinct (map name_of ifs)"
  shows "due n (s\<lparr>reconnect_callbacks := cbs, destinations := ds\<rparr>) (observed n turns) = comebacks ifs turns n"
    "callback_log s = []" "\<not> monitor_stop s"
proof -
  have states: "map_of (fold (\<lambda>i. AList.update (name_of i) (online_of i)) is xs) n = Some False \<longleftrightarrow>
      (\<exists>i \<in> set is. name_of i = n \<and> \<not> online_of i) \<or> (\<forall>i \<in> set is. name_of i \<noteq> n) \<and> map_of xs n = Some False"
    if "distinct (map name_of is)" for "is" xs
    using that by (induction "is" arbitrary: xs) (auto simp: update_conv' image_iff)
  have s: "s = start_interface_monitor (capture_interface_states ifs
      ((install_outbound_error_filter RNSService)\<lparr>reticulum := Some r, initialized := True, error_state := no_error\<rparr>))"
    using assms(1) by (simp add: initialize_def is_initialized_def RNSService_def)
  note start = s start_interface_monitor_def capture_interface_states_def install_outbound_error_filter_def RNSService_def
  have up: "up_before n (s\<lparr>reconnect_callbacks := cbs, destinations := ds\<rparr>) \<longleftrightarrow> \<not> (\<exists>i \<in> set ifs. name_of i = n \<and> \<not> online_of i)"
    using states [OF assms(2), of "[]"] by (simp add: start up_before_def)
  have "\<not> disc n (s\<lparr>reconnect_callbacks := cbs, destinations := ds\<rparr>)" by (simp add: start disc_def)
  with up show "due n (s\<lparr>reconnect_callbacks := cbs, destinations := ds\<rparr>) (observed n turns) = comebacks ifs turns n"
    unfolding due_def comebacks_def
    by (cases "\<exists>i \<in> set ifs. name_of i = n \<and> \<not> online_of i") (simp_all only: returns_rises if_True if_False not_True_eq_False not_False_eq_True simp_thms)
  show "callback_log s = []" "\<not> monitor_stop s" by (simp_all add: start)
qed

text \<open>
Claim C32. The monitor reacts to every reconnection, and to nothing else. Take the service after its
start, with any callbacks registered and any destinations cached, and any sequence of checks of the
interfaces. For each interface, the callbacks run for it are all those registered, in order, once
for each time it was seen down and then up again, not counting a first time up of one that was down
at the start. If the callbacks register no destinations, the cache is empty afterwards if any
interface came back, and unchanged otherwise. The callbacks are taken to leave the monitor's own
records, its stop flag and the list of callbacks alone (they may fail: a failure is caught).
\<close>

theorem reconnections_handled:
  assumes "leaves_monitor call" and "initialize (Inr r) ifs RNSService = (True, s)"
    and "distinct (map name_of ifs)"
    and "s' = interface_monitor_loop call turns (s\<lparr>reconnect_callbacks := cbs, destinations := ds\<rparr>)"
  shows "filter (\<lambda>e. fst e = n) (callback_log s') = concat (replicate (comebacks ifs turns n) (map (\<lambda>c. (n, c)) cbs)) \<and>
    (leaves_destinations call \<longrightarrow> destinations s' = (if \<exists>m. comebacks ifs turns m \<noteq> 0 then [] else ds))"
proof -
  let ?s = "s\<lparr>reconnect_callbacks := cbs, destinations := ds\<rparr>"
  note start = due_at_start [OF assms(2,3)]
  have run: "\<not> monitor_stop ?s" using start(3) by simp
  have "calls_for n s' = concat (replicate (comebacks ifs turns n) (map (Pair n) cbs))"
    using loop_calls [OF assms(1) run, of n turns] start by (simp add: assms(4) calls_for_def)
  moreover have "destinations s' = (if \<exists>m. comebacks ifs turns m \<noteq> 0 then [] else ds)" if "leaves_destinations call"
    using loop_destinations [OF assms(1) that run, of turns] by (simp add: assms(4) start(1))
  ultimately show ?thesis by (simp add: calls_for_def)
qed

definition tcp :: "bool \<Rightarrow> rns_interface" where
  "tcp b = \<lparr>iface_name = Some ''hub'', iface_online = Some b, iface_type = ''TCPClientInterface'', iface_id = 7\<rparr>"

definition hub_turns :: "(rat \<times> rns_interface list) list" where
  "hub_turns = [(1, [tcp False]), (2, []), (3, [tcp True])]"

theorem reconnections_handled_witness:
  "let s = (snd (initialize (Inr 0) [tcp True] RNSService))\<lparr>reconnect_callbacks := [4, 5], destinations := [(''lxmf.delivery'', 2)]\<rparr>;
       s' = interface_monitor_loop (\<lambda>_ s. s) hub_turns s in
   filter (\<lambda>e. fst e = ''hub'') (callback_log s') = [(''hub'', 4), (''hub'', 5)] \<and> destinations s' = []"
proof -
  have c: "leaves_monitor (\<lambda>_ s. s)" "leaves_destinations (\<lambda>_ s. s)"
    by (simp_all add: leaves_monitor_def leaves_destinations_def)
  obtain s where s: "initialize (Inr 0) [tcp True] RNSService = (True, s)"
    by (simp add: initialize_def is_initialized_def RNSService_def)
  have n: "name_of (tcp b) = ''hub''" "online_of (tcp b) = b" for b by (simp_all add: tcp_def name_of_def online_of_def)
  have once: "comebacks [tcp True] hub_turns ''hub'' = 1" by (simp add: comebacks_def hub_turns_def n seen_def)
  then have "\<exists>m. comebacks [tcp True] hub_turns m \<noteq> 0" by (intro exI [of _ "''hub''"]) simp
  then show ?thesis
    using reconnections_handled [where turns = hub_turns and cbs = "[4, 5]" and ds = "[(''lxmf.delivery'', 2)]" and n = "''hub''",
        OF c(1) s _ refl] c(2)
    by (simp add: s once)
qed

section \<open>Destinations\<close>

text \<open>
  Every cached destination is one the library registered for the identity under its key, and no two
  entries of the library have the same hash.
\<close>

definition cached_right :: "rns_library \<Rightarrow> bytes \<Rightarrow> rns_service \<Rightarrow> registered \<Rightarrow> bool" where
  "cached_right L i s reg \<longleftrightarrow>
     (\<forall>k d. map_of (destinations s) k = Some d \<longrightarrow>
        (\<exists>app aspect. CHR ''.'' \<notin> set aspect \<and> k = app @ ''.'' @ aspect \<and> (d, dest_hash L i app aspect) \<in> set reg))"

lemma key_unique:
  assumes "CHR ''.'' \<notin> set b" and "CHR ''.'' \<notin> set d" and "a @ ''.'' @ b = c @ ''.'' @ d"
  shows "a = c \<and> b = d"
proof -
  have t: "takeWhile (\<lambda>x. x \<noteq> CHR ''.'') (rev v @ CHR ''.'' # w) = rev v" if "CHR ''.'' \<notin> set v" for v w
    using that by (induction v rule: rev_induct) auto
  have "rev b @ CHR ''.'' # rev a = rev d @ CHR ''.'' # rev c" using arg_cong [OF assms(3), of rev] by simp
  then have "rev b = rev d" using t [OF assms(1), of "rev a"] t [OF assms(2), of "rev c"] by simp
  then show ?thesis using assms(3) by simp
qed

text \<open>
A destination that is handed out is the one asked for: with one identity, aspects without
dots and a library that raises as documented for what is registered, the destination belongs to the
name asked for, from the cache, created, or found again after a reconnection cleared the cache; and
asking keeps the cache right.
\<close>

theorem destination_is_the_one_asked_for:
  assumes "cached_right L i s reg" and "CHR ''.'' \<notin> set aspect" and "sublist ''already registered'' (lower (registered_text L))"
    and "create_operator_destination L (Some i) app aspect s reg = (Some d, s', reg')"
  shows "(d, dest_hash L i app aspect) \<in> set reg' \<and> cached_right L i s' reg' \<and> set reg \<subseteq> set reg'"
proof -
  let ?key = "app @ ''.'' @ aspect" and ?h = "dest_hash L i app aspect"
  have keep: "cached_right L i (s\<lparr>destinations := AList.update ?key d' (destinations s)\<rparr>) reg1"
    if "set reg \<subseteq> set reg1" "(d', ?h) \<in> set reg1" for d' reg1
    unfolding cached_right_def
  proof (intro allI impI)
    fix k e assume m: "map_of (destinations (s\<lparr>destinations := AList.update ?key d' (destinations s)\<rparr>)) k = Some e"
    show "\<exists>app aspect. CHR ''.'' \<notin> set aspect \<and> k = app @ ''.'' @ aspect \<and> (e, dest_hash L i app aspect) \<in> set reg1"
    proof (cases "k = ?key")
      case True
      then have "e = d'" using m by (simp add: update_conv')
      then show ?thesis using True assms(2) that(2) by blast
    next
      case False
      then have "map_of (destinations s) k = Some e" using m by (simp add: update_conv')
      then show ?thesis using assms(1) that(1) unfolding cached_right_def by blast
    qed
  qed
  show ?thesis
  proof (cases "map_of (destinations s) ?key")
    case (Some d0)
    then obtain app' aspect' where k: "CHR ''.'' \<notin> set aspect'" "?key = app' @ ''.'' @ aspect'" "(d0, dest_hash L i app' aspect') \<in> set reg"
      using assms(1) unfolding cached_right_def by blast
    then have "app = app'" "aspect = aspect'" using key_unique [OF assms(2) k(1)] by simp_all
    then show ?thesis using assms(1,4) Some k by (simp add: create_operator_destination_def Let_def split: if_splits)
  next
    case None
    show ?thesis
    proof (cases "?h \<in> snd ` set reg")
      case True
      then obtain p where p: "find (\<lambda>(d, h). h = ?h) reg = Some p"
        by (cases "find (\<lambda>(d, h). h = ?h) reg") (auto simp: find_None_iff)
      then have "p \<in> set reg" "snd p = ?h" by (auto simp: find_Some_iff in_set_conv_nth)
      then obtain d0 where f: "find (\<lambda>(d, h). h = ?h) reg = Some (d0, ?h)" "(d0, ?h) \<in> set reg"
        using p by (metis prod.collapse)
      then show ?thesis using assms(3,4) None True keep [of reg d0]
        by (auto simp: create_operator_destination_def make_destination_def Let_def split: if_splits)
    next
      case False
      then have nf: "find (\<lambda>(d, h). h = ?h) reg = None" by (force simp: find_None_iff)
      show ?thesis
      proof (cases "new_destination L i app aspect")
        case (Inl x)
        then show ?thesis using assms(4) None False nf
          by (auto simp: create_operator_destination_def make_destination_def Let_def split: if_splits)
      next
        case (Inr d0)
        then show ?thesis using assms(4) None False keep [of "reg @ [(d0, ?h)]" d0]
          by (auto simp: create_operator_destination_def make_destination_def Let_def split: if_splits)
      qed
    qed
  qed
qed

text \<open>The cache does not look at the identity, and dotted names run together.\<close>

lemma cache_ignores_identity:
  assumes "create_operator_destination L (Some i) app aspect s reg = (Some d, s', reg')"
    and "app @ ''.'' @ aspect = app' @ ''.'' @ aspect'"
  shows "create_operator_destination L (Some j) app' aspect' s' reg' = (Some d, s', reg')"
  using assms by (auto simp: create_operator_destination_def is_initialized_def Let_def update_conv' split: if_splits option.splits sum.splits prod.splits)

text \<open>Clearing the cache keeps it right.\<close>

lemma reconnection_keeps_right: "cached_right L i (s\<lparr>destinations := []\<rparr>) reg"
  by (simp add: cached_right_def)

text \<open>A refused read of the identity file is reported as a problem of the Reticulum configuration.\<close>

lemma identity_permission_misreported:
  "error_category \<lparr>exc_type_name = ''PermissionError'', exc_text = ''Permission denied: /home/me/.config/styrene/identity'',
     is_permission_error = True, is_file_not_found = False\<rparr> = CONFIG_PERMISSION"
  by code_simp

definition plain_library :: rns_library where
  "plain_library =
     \<lparr>dest_hash = (\<lambda>i app aspect. app @ aspect), new_destination = (\<lambda>i app aspect. Inr (length app)),
      registered_text = ''already registered''\<rparr>"

theorem destination_is_the_one_asked_for_witness:
  "\<exists>s'. create_operator_destination plain_library (Some [5]) ''lxmf'' ''delivery''
      (RNSService\<lparr>reticulum := Some 0, initialized := True\<rparr>) [(3, ''lxmfdelivery'')] = (Some 3, s', [(3, ''lxmfdelivery'')]) \<and>
     cached_right plain_library [5] s' [(3, ''lxmfdelivery'')]"
proof -
  let ?s = "RNSService\<lparr>reticulum := Some 0, initialized := True\<rparr>" and ?reg = "[(3 :: nat, ''lxmfdelivery'')]"
  have 1: "cached_right plain_library [5] ?s ?reg" by (simp add: cached_right_def RNSService_def)
  have 2: "sublist ''already registered'' (lower (registered_text plain_library))" by code_simp
  then obtain s' where 3: "create_operator_destination plain_library (Some [5]) ''lxmf'' ''delivery'' ?s ?reg = (Some 3, s', ?reg)"
    by (auto simp: create_operator_destination_def make_destination_def is_initialized_def RNSService_def plain_library_def Let_def)
  show ?thesis using destination_is_the_one_asked_for [OF 1 _ 2 3] 3 by auto
qed

end
