(* ===== verification/Lifecycle.thy ===== *)
theory Lifecycle
  imports Identity_Theorems Rns_Service Lxmf_Service Discovery
begin

text \<open>
  Starting and stopping the core services (\<^verbatim>\<open>src/styrened/services/lifecycle.py\<close>): the operator's
  identity, the configuration of Reticulum, found or generated into a temporary directory, the check of
  the server's port, the services of Reticulum and LXMF. It composes the operations of those
  components. What the libraries and the system answer is a record of outcomes.
\<close>

section \<open>State\<close>

record core_lifecycle =
  lc_config :: core_config
  lc_client_only :: bool
  lc_initialized :: bool
  rns_error_state :: rns_error_state
  rns_config_dir :: "path option"

definition CoreLifecycle :: "core_config \<Rightarrow> bool \<Rightarrow> core_lifecycle" where
  "CoreLifecycle c client_only =
     \<lparr>lc_config = c, lc_client_only = client_only, lc_initialized = False, rns_error_state = no_error, rns_config_dir = None\<rparr>"

text \<open>The process: its files, the directories to be removed at exit, and the services.\<close>

record process =
  files :: fs
  temp_config_dirs :: "path list"
  rns :: rns_service
  registered_dests :: registered
  lxmf :: lxmf_service
  announces :: "announce_handler option"

text \<open>
  The outcomes: of the token; the key a new identity gets; of \<^verbatim>\<open>RNS.Reticulum\<close> on a directory, and the
  interfaces it has; of \<^verbatim>\<open>mkdtemp\<close>; of binding a port, and the process found to hold it; of the LXMF
  router, its delivery destination and the table of blocked peers; and the exception an error stands for.
\<close>

record outcomes =
  key_files :: rns_keys
  surroundings :: env
  token_outcome :: "bytes option res option"
  fresh_key :: bytes
  library :: rns_library
  made_reticulum :: "path \<Rightarrow> fs \<Rightarrow> raised + nat"
  interfaces_then :: "rns_interface list"
  mkdtemp :: "fs \<Rightarrow> path res"
  bind_port :: "string \<Rightarrow> int \<Rightarrow> unit res"
  port_holder :: "string option"
  lxmf_available :: bool
  router_outcome :: "unit res"
  delivery_outcome :: "bytes res"
  blocks_readable :: bool
  as_raised :: "exn \<Rightarrow> raised"
  text_of_value :: "pyval \<Rightarrow> string"

section \<open>Starting\<close>

definition em_dash :: string where
  "em_dash = bytes_text [0xE2, 0x80, 0x94]"

definition conflict_message :: "string \<Rightarrow> int \<Rightarrow> string option \<Rightarrow> string" where
  "conflict_message host port holder =
     ''TCP port '' @ show_int port @ '' on '' @ host @ '' is already in use'' @
     (case holder of None \<Rightarrow> [] | Some pid \<Rightarrow> '' (held by pid '' @ pid @ '')'') @ '' '' @ em_dash @
     '' another styrened or RNS transport may be running. Stop it first or change reticulum.interfaces.server.port in config.''"

definition check_port_conflicts :: "outcomes \<Rightarrow> core_config \<Rightarrow> string option res" where
  "check_port_conflicts out c =
     (let server = if_server (ret_interfaces (c_reticulum c)) in
      if \<not> srv_enabled server then Inr None
      else
        let host = (if srv_listen_ip server \<noteq> [] then srv_listen_ip server else ''0.0.0.0''); port = srv_port server in
        (case bind_port out host port of
           Inr _ \<Rightarrow> Inr None
         | Inl OSError \<Rightarrow> Inr (Some (conflict_message host port (port_holder out)))
         | Inl x \<Rightarrow> Inl x))"

text \<open>The directory of the configuration, and whether it is a temporary one.\<close>

definition choose_config :: "outcomes \<Rightarrow> core_lifecycle \<Rightarrow> process \<Rightarrow> path res \<times> core_lifecycle \<times> process" where
  "choose_config out l w =
     (let e = surroundings out; c = lc_config l; override = map_option (Path e) (ret_config_path_override (c_reticulum c)) in
      case find_reticulum_config (home e) override (files w) of
        Some d \<Rightarrow> (Inr d, l\<lparr>rns_config_dir := None\<rparr>, w)
      | None \<Rightarrow>
          (case mkdtemp out (files w) of
             Inl x \<Rightarrow> (Inl x, l, w)
           | Inr d \<Rightarrow>
               let content = generate_rns_config (text_of_value out) c (lc_client_only l);
                   l1 = l\<lparr>rns_config_dir := Some d\<rparr>;
                   w1 = w\<lparr>files := (files w)(d \<mapsto> Dir), temp_config_dirs := List.insert d (temp_config_dirs w)\<rparr> in
               (case write_file (denies e) (d @ [''config'']) (str_bytes content) (files w1) of
                  Inl x \<Rightarrow> (Inl x, l1, w1)
                | Inr g \<Rightarrow> (Inr d, l1, w1\<lparr>files := g\<rparr>))))"

definition failed_with :: "rns_error_state \<Rightarrow> core_lifecycle \<Rightarrow> process \<Rightarrow> bool \<times> core_lifecycle \<times> process" where
  "failed_with x l w = (False, l\<lparr>rns_error_state := x\<rparr>, w)"

definition operator_destination :: "outcomes \<Rightarrow> core_lifecycle \<Rightarrow> process \<Rightarrow> bool \<times> core_lifecycle \<times> process" where
  "operator_destination out l w =
     (case get_operator_identity_object (key_files out) (surroundings out) (token_outcome out) (files w) of
        (Inl x, g) \<Rightarrow> failed_with (from_exception (as_raised out x)) l (w\<lparr>files := g\<rparr>)
      | (Inr None, g) \<Rightarrow> (True, l, w\<lparr>files := g\<rparr>)
      | (Inr (Some k), g) \<Rightarrow>
          (case create_operator_destination (library out) (Some k) ''styrene_core'' ''operator'' (rns w) (registered_dests w) of
             (_, s, reg) \<Rightarrow> (True, l, w\<lparr>files := g, rns := s, registered_dests := reg\<rparr>)))"

definition start_rns :: "outcomes \<Rightarrow> core_lifecycle \<Rightarrow> process \<Rightarrow> bool \<times> core_lifecycle \<times> process" where
  "start_rns out l w =
     (case choose_config out l w of
        (Inl x, l1, w1) \<Rightarrow> failed_with (from_exception (as_raised out x)) l1 w1
      | (Inr d, l1, w1) \<Rightarrow>
          (case check_port_conflicts out (lc_config l) of
             Inl x \<Rightarrow> failed_with (from_exception (as_raised out x)) l1 w1
           | Inr (Some conflict) \<Rightarrow>
               failed_with \<lparr>category = PORT_CONFLICT, exception_type = None, message = Some conflict\<rparr> l1 w1
           | Inr None \<Rightarrow>
               (case Rns_Service.initialize (made_reticulum out d (files w1)) (interfaces_then out) (rns w1) of
                  (False, s) \<Rightarrow> failed_with (error_state s) l1 (w1\<lparr>rns := s\<rparr>)
                | (True, s) \<Rightarrow> operator_destination out (l1\<lparr>rns_error_state := no_error\<rparr>) (w1\<lparr>rns := s\<rparr>))))"

definition initialize_reticulum :: "outcomes \<Rightarrow> core_lifecycle \<Rightarrow> process \<Rightarrow> bool \<times> core_lifecycle \<times> process" where
  "initialize_reticulum out l w =
     (let e = surroundings out; r = c_reticulum (lc_config l) in
      case ensure_operator_identity (key_files out) e (token_outcome out) True
          (map_option (Path e) (ret_operator_identity_path r)) (fresh_key out) (files w) of
        (Inl x, g) \<Rightarrow> failed_with (from_exception (as_raised out x)) l (w\<lparr>files := g\<rparr>)
      | (Inr _, g) \<Rightarrow> start_rns out l (w\<lparr>files := g\<rparr>))"

definition initialize_lxmf :: "outcomes \<Rightarrow> core_lifecycle \<Rightarrow> process \<Rightarrow> bool \<times> process" where
  "initialize_lxmf out l w =
     (case get_operator_identity_object (key_files out) (surroundings out) (token_outcome out) (files w) of
        (Inr (Some k), g) \<Rightarrow>
          (case Lxmf_Service.initialize (lxmf_available out) (Rns_Service.is_initialized (rns w)) (router_outcome out)
              (delivery_outcome out) (blocks_readable out) k (Some (c_lxmf (lc_config l)))
              (Some (''[styrene] '' @ id_display_name (c_identity (lc_config l)))) (lxmf w) of
             (b, s) \<Rightarrow> (b, w\<lparr>files := g, lxmf := s\<rparr>))
      | (_, g) \<Rightarrow> (False, w\<lparr>files := g\<rparr>))"

definition lifecycle_initialize :: "outcomes \<Rightarrow> core_lifecycle \<Rightarrow> process \<Rightarrow> bool \<times> core_lifecycle \<times> process" where
  "lifecycle_initialize out l w =
     (if lc_initialized l then (True, l, w)
      else case initialize_reticulum out l w of
        (False, l1, w1) \<Rightarrow> (True, l1\<lparr>lc_initialized := True\<rparr>, w1)
      | (True, l1, w1) \<Rightarrow>
          (True, l1\<lparr>lc_initialized := True\<rparr>,
           if rpc_enabled (c_rpc (lc_config l)) then snd (initialize_lxmf out l1 w1) else w1))"

section \<open>Stopping\<close>

text \<open>\<^verbatim>\<open>shutil.rmtree\<close> of a directory the process has made, in which nothing is refused to it.\<close>

definition rmtree :: "path \<Rightarrow> fs \<Rightarrow> fs" where
  "rmtree p fs = (\<lambda>r. if prefix p r then None else fs r)"

definition remove_config_dir :: "core_lifecycle \<Rightarrow> process \<Rightarrow> core_lifecycle \<times> process" where
  "remove_config_dir l w =
     (case rns_config_dir l of
        None \<Rightarrow> (l, w)
      | Some d \<Rightarrow>
          if path_exists (files w) d
          then (l\<lparr>rns_config_dir := None\<rparr>, w\<lparr>files := rmtree d (files w), temp_config_dirs := removeAll d (temp_config_dirs w)\<rparr>)
          else (l, w))"

definition lifecycle_shutdown :: "core_lifecycle \<Rightarrow> process \<Rightarrow> core_lifecycle \<times> process" where
  "lifecycle_shutdown l w =
     (if \<not> lc_initialized l then (l, w)
      else case remove_config_dir l
          (w\<lparr>announces := stop_discovery (announces w), lxmf := Lxmf_Service.shutdown (lxmf w), rns := Rns_Service.shutdown (rns w)\<rparr>) of
        (l1, w1) \<Rightarrow> (l1\<lparr>lc_initialized := False\<rparr>, w1))"

definition cleanup_temp_dirs :: "process \<Rightarrow> process" where
  "cleanup_temp_dirs w =
     w\<lparr>files := fold (\<lambda>d fs. if path_exists fs d then rmtree d fs else fs) (temp_config_dirs w) (files w), temp_config_dirs := []\<rparr>"

section \<open>What a start does\<close>

text \<open>A start never reports a failure, and a failed one is never tried again.\<close>

lemma start_never_fails:
  "lifecycle_initialize out l w = (b, l', w') \<Longrightarrow> b \<and> lc_initialized l' \<and> lifecycle_initialize out2 l' w' = (True, l', w')"
  by (auto simp: lifecycle_initialize_def split: if_splits prod.splits bool.splits)

lemma seeding_keeps:
  "Lxmf_Service.is_initialized (seed_blocks_to_rbac ok s) = Lxmf_Service.is_initialized s"
  "lxmf_service.identity (seed_blocks_to_rbac ok s) = lxmf_service.identity s" "lxmf_service.trace (seed_blocks_to_rbac ok s) = lxmf_service.trace s"
  by (simp_all add: seed_blocks_to_rbac_def Let_def Lxmf_Service.is_initialized_def)

lemma lxmf_starts:
  assumes "\<not> Lxmf_Service.is_initialized s" and "router_kwargs cfg = Inr kwargs"
  shows "\<exists>ls. Lxmf_Service.initialize True True (Inr ()) (Inr dest) ok k cfg name s = (True, ls) \<and>
    Lxmf_Service.is_initialized ls \<and> lxmf_service.identity ls = Some k \<and> RegisterDelivery name \<in> set (lxmf_service.trace ls)"
  using assms by (simp add: Lxmf_Service.initialize_def seeding_keeps Lxmf_Service.log_def Let_def) (simp add: Lxmf_Service.is_initialized_def)

text \<open>
Claim C33. A start brings up the services under the identity that was made sure of. No explicit identity
path is configured, the conditions on the identity files are those under which the identity made sure
of is found again (no link or legacy key at their places, the user's file writable, the directory of
the configuration settled), a configuration of Reticulum exists, the port is free and Reticulum starts.
Then the operator's destination is registered for a key whose hash is the one reported; if RPC is
enabled in the configuration, and the LXMF library does its part, LXMF runs with the same key under
the configured name with its tag; and if RPC is disabled, LXMF is not touched.
\<close>

theorem start_uses_the_identity_found:
  assumes "\<not> lc_initialized l" and "c = lc_config l" and "e = surroundings out"
    and "ret_operator_identity_path (c_reticulum c) = None"
    and "ensure_operator_identity (key_files out) e (token_outcome out) True None (fresh_key out) (files w) = (Inr h, g)"
    and "config_dir e (files w) = conf"
    and "(\<forall>f. config_dir e f = conf) \<or>
      (\<not> is_symlink (files w) [''etc'', ''styrene'', ''config.yaml''] \<and> \<not> prefix [''etc'', ''styrene'', ''config.yaml''] conf)"
    and "files w (conf @ [''operator.key'']) = None"
    and "\<not> is_symlink (files w) [''etc'', ''styrene'', ''identity'']" and "\<not> is_symlink (files w) (conf @ [''identity''])"
    and "files w (conf @ [''identity'']) \<noteq> Some Dir" and "\<not> denies e (conf @ [''identity''])"
    and "\<And>k. load_key (key_files out) (key_file (key_files out) k) = Inr (Some k)"
    and "find_reticulum_config (home e) (map_option (Path e) (ret_config_path_override (c_reticulum c))) g = Some d"
    and "check_port_conflicts out c = Inr None" and "made_reticulum out d g = Inr r"
    and "rns w = RNSService" and "registered_dests w = []"
    and "\<And>k. key_hash (key_files out) k = h \<Longrightarrow> \<exists>n. new_destination (library out) k ''styrene_core'' ''operator'' = Inr n"
    and "\<not> Lxmf_Service.is_initialized (lxmf w)" and "lxmf_available out"
    and "router_outcome out = Inr ()" and "delivery_outcome out = Inr dest" and "router_kwargs (Some (c_lxmf c)) = Inr kwargs"
  shows "\<exists>k n l' w'. key_hash (key_files out) k = h \<and>
    lifecycle_initialize out l w = (True, l', w') \<and> rns_error_state l' = no_error \<and> files w' = g \<and>
    registered_dests w' = [(n, dest_hash (library out) k ''styrene_core'' ''operator'')] \<and>
    (if rpc_enabled (c_rpc c)
     then Lxmf_Service.is_initialized (lxmf w') \<and> lxmf_service.identity (lxmf w') = Some k \<and>
       RegisterDelivery (Some (''[styrene] '' @ id_display_name (c_identity c))) \<in> set (lxmf_service.trace (lxmf w'))
     else lxmf w' = lxmf w)"
proof -
  let ?w1 = "w\<lparr>files := g\<rparr>"
  have "plain_places e conf (files w)" "\<not> is_symlink (files w) SYSTEM_IDENTITY_PATH"
    using assms(6-12)
    by (simp_all add: plain_places_def dir_settled_def SYSTEM_CONFIG_def SYSTEM_IDENTITY_PATH_def operator_key_def identity_at_def)
  from ensured_key_found_by_any [OF assms(5) this assms(13)]
  obtain k where k: "key_hash (key_files out) k = h"
    and found: "get_operator_identity_object (key_files out) e (token_outcome out) g = (Inr (Some k), g)" by blast
  obtain n where n: "new_destination (library out) k ''styrene_core'' ''operator'' = Inr n" using assms(19) [OF k] by blast
  obtain s where s: "Rns_Service.initialize (Inr r) (interfaces_then out) RNSService = (True, s)"
      "reticulum s = Some r" "rns_service.initialized s" "destinations s = []"
    by (auto simp: Rns_Service.initialize_def Rns_Service.is_initialized_def RNSService_def install_outbound_error_filter_def
        capture_interface_states_def start_interface_monitor_def)
  have ready: "Rns_Service.is_initialized s" using s by (simp add: Rns_Service.is_initialized_def)
  obtain s2 where d: "create_operator_destination (library out) (Some k) ''styrene_core'' ''operator'' s [] =
      (Some n, s2, [(n, dest_hash (library out) k ''styrene_core'' ''operator'')])" "Rns_Service.is_initialized s2"
    using ready s(4) n by (auto simp: create_operator_destination_def make_destination_def Rns_Service.is_initialized_def Let_def)
  obtain l1 w1 where r: "initialize_reticulum out l w = (True, l1, w1)" "rns_error_state l1 = no_error" "files w1 = g" "rns w1 = s2"
      "registered_dests w1 = [(n, dest_hash (library out) k ''styrene_core'' ''operator'')]" "lxmf w1 = lxmf w" "lc_config l1 = c"
    using assms(2-5,14-18) found s(1) d(1)
    by (auto simp: initialize_reticulum_def start_rns_def choose_config_def operator_destination_def Let_def)
  obtain ls where lx: "Lxmf_Service.initialize True True (Inr ()) (Inr dest) (blocks_readable out) k (Some (c_lxmf c))
        (Some (''[styrene] '' @ id_display_name (c_identity c))) (lxmf w) = (True, ls)"
      "Lxmf_Service.is_initialized ls" "lxmf_service.identity ls = Some k"
      "RegisterDelivery (Some (''[styrene] '' @ id_display_name (c_identity c))) \<in> set (lxmf_service.trace ls)"
    using lxmf_starts [OF assms(20,24)] by blast
  have "initialize_lxmf out l1 w1 = (True, w1\<lparr>lxmf := ls\<rparr>)"
    using found assms(3,21-23) r(3,4,6,7) d(2) lx(1) by (simp add: initialize_lxmf_def)
  then have "lifecycle_initialize out l w =
      (True, l1\<lparr>lc_initialized := True\<rparr>, if rpc_enabled (c_rpc c) then w1\<lparr>lxmf := ls\<rparr> else w1)"
    using assms(1,2) r(1) by (simp add: lifecycle_initialize_def r(7))
  then show ?thesis
    using r lx k by (intro exI [of _ k] exI [of _ n]) simp
qed

text \<open>A machine with an identity in \<^verbatim>\<open>/c\<close> and a configuration in \<^verbatim>\<open>/etc/reticulum\<close>.\<close>

definition started_fs :: fs where
  "started_fs = [[''c'', ''identity''] \<mapsto> File [7, 2], [''etc'', ''reticulum''] \<mapsto> Dir, [''etc'', ''reticulum'', ''config''] \<mapsto> File []]"

definition started_process :: process where
  "started_process =
     \<lparr>files = started_fs, temp_config_dirs = [], rns = RNSService, registered_dests = [],
      lxmf = LXMFService [] [] init_db [], announces = None\<rparr>"

definition demo_outcomes :: "unit res \<Rightarrow> outcomes" where
  "demo_outcomes bound =
     \<lparr>key_files = Identity_Theorems.demo_keys, surroundings = Identity_Theorems.demo_env, token_outcome = None, fresh_key = [5],
      library = plain_library, made_reticulum = (\<lambda>_ _. Inr 0), interfaces_then = [], mkdtemp = (\<lambda>_. Inl OSError),
      bind_port = (\<lambda>_ _. bound), port_holder = None, lxmf_available = True, router_outcome = Inr (), delivery_outcome = Inr [9],
      blocks_readable = True, as_raised = (\<lambda>_. \<lparr>exc_type_name = ''OSError'', exc_text = [], is_permission_error = False, is_file_not_found = False\<rparr>), text_of_value = (\<lambda>_. [])\<rparr>"

definition demo_config :: core_config where
  "demo_config =
     CoreConfig\<lparr>c_reticulum := ReticulumConfig\<lparr>ret_interfaces := (ret_interfaces ReticulumConfig)
       \<lparr>if_server := (if_server (ret_interfaces ReticulumConfig))\<lparr>srv_enabled := True\<rparr>\<rparr>\<rparr>\<rparr>"

lemma started_found:
  "ensure_operator_identity Identity_Theorems.demo_keys Identity_Theorems.demo_env None True None [5] started_fs = (Inr (key_hash Identity_Theorems.demo_keys [2]), started_fs)"
  "get_operator_identity_object Identity_Theorems.demo_keys Identity_Theorems.demo_env None started_fs = (Inr (Some [2]), started_fs)"
  "find_reticulum_config [''me''] None started_fs = Some [''etc'', ''reticulum'']"
proof -
  have f: "started_fs (identity_at [''c'']) = Some (File [7, 2])" "started_fs (operator_key [''c'']) = None"
      "started_fs SYSTEM_IDENTITY_PATH = None"
    by (simp_all add: started_fs_def identity_at_def operator_key_def SYSTEM_IDENTITY_PATH_def)
  have r: "resolve_identity_path Identity_Theorems.demo_env None started_fs = (Some (identity_at [''c'']), started_fs)"
    using plain_file(2,3) [of started_fs "identity_at [''c'']" "[7, 2]", OF f(1)] absent(2) [of started_fs SYSTEM_IDENTITY_PATH, OF f(3)]
    by (simp add: resolve_identity_path_cases [of _ started_fs, OF demo_config_dir f(2)])
  have b: "read_bytes started_fs (identity_at [''c'']) = Inr [7, 2]" by (rule plain_file(4) [of started_fs, OF f(1)])
  show "ensure_operator_identity Identity_Theorems.demo_keys Identity_Theorems.demo_env None True None [5] started_fs =
      (Inr (key_hash Identity_Theorems.demo_keys [2]), started_fs)"
    using r b by (simp add: ensure_operator_identity_def from_file_def Identity_Theorems.demo_keys_def)
  show "get_operator_identity_object Identity_Theorems.demo_keys Identity_Theorems.demo_env None started_fs = (Inr (Some [2]), started_fs)"
    using r b by (simp add: get_operator_identity_object_def from_file_def Identity_Theorems.demo_keys_def)
  have d: "started_fs [''etc'', ''reticulum''] = Some Dir" "started_fs [''etc'', ''reticulum'', ''config''] = Some (File [])"
    by (simp_all add: started_fs_def)
  have "path_exists started_fs [''etc'', ''reticulum'']"
    using d(1) resolve_no_link [of started_fs "[''etc'', ''reticulum'']"] by (simp add: path_exists_def is_symlink_def)
  then show "find_reticulum_config [''me''] None started_fs = Some [''etc'', ''reticulum'']"
    using plain_file(2) [of started_fs, OF d(2)]
    by (simp add: find_reticulum_config_def get_reticulum_config_paths_def is_reticulum_configured_def)
qed

lemma demo_lifecycle_facts:
  "key_files (demo_outcomes b) = Identity_Theorems.demo_keys" "surroundings (demo_outcomes b) = Identity_Theorems.demo_env"
  "token_outcome (demo_outcomes b) = None" "fresh_key (demo_outcomes b) = [5]" "files started_process = started_fs"
  "home Identity_Theorems.demo_env = [''me'']" "ret_operator_identity_path (c_reticulum demo_config) = None"
  "ret_config_path_override (c_reticulum demo_config) = None" "srv_enabled (if_server (ret_interfaces (c_reticulum demo_config)))"
  "bind_port (demo_outcomes b) host port = b"
  by (simp_all add: demo_outcomes_def started_process_def Identity_Theorems.demo_env_def demo_config_def CoreConfig_def ReticulumConfig_def)

theorem start_uses_the_identity_found_witness:
  "\<exists>k n l' w'. lifecycle_initialize (demo_outcomes (Inr ())) (CoreLifecycle demo_config False) started_process = (True, l', w') \<and>
     registered_dests w' = [(n, ''styrene_coreoperator'')] \<and> lxmf_service.identity (lxmf w') = Some k \<and>
     key_hash Identity_Theorems.demo_keys k = key_hash Identity_Theorems.demo_keys [2]"
proof -
  let ?out = "demo_outcomes (Inr ())" and ?l = "CoreLifecycle demo_config False"
  have a: "\<not> lc_initialized ?l" "lc_config ?l = demo_config" by (simp_all add: CoreLifecycle_def)
  have p: "check_port_conflicts ?out demo_config = Inr None"
    by (simp add: check_port_conflicts_def demo_lifecycle_facts Let_def)
  have o1: "made_reticulum ?out [''etc'', ''reticulum''] started_fs = Inr 0" "lxmf_available ?out" "router_outcome ?out = Inr ()"
      "delivery_outcome ?out = Inr [9]" "library ?out = plain_library"
    by (simp_all add: demo_outcomes_def)
  have n: "\<exists>n. new_destination (library ?out) k ''styrene_core'' ''operator'' = Inr n" for k by (simp add: o1 plain_library_def)
  have w: "rns started_process = RNSService" "registered_dests started_process = []" "\<not> Lxmf_Service.is_initialized (lxmf started_process)"
    by (simp_all add: started_process_def LXMFService_def Lxmf_Service.is_initialized_def)
  have c: "rpc_enabled (c_rpc demo_config)" "lx_static_peers (c_lxmf demo_config) = []"
    by (simp_all add: demo_config_def CoreConfig_def RPCConfig_def LXMFConfig_def)
  obtain kwargs where k: "router_kwargs (Some (c_lxmf demo_config)) = Inr kwargs"
    using c(2) by (simp add: router_kwargs_def)
  have f: "started_fs [''c'', ''operator.key''] = None" "started_fs [''etc'', ''styrene'', ''identity''] = None"
      "started_fs [''c'', ''identity''] = Some (File [7, 2])" "started_fs [''etc'', ''styrene'', ''config.yaml''] = None"
    by (simp_all add: started_fs_def)
  have keys: "load_key Identity_Theorems.demo_keys (key_file Identity_Theorems.demo_keys k) = Inr (Some k)" for k
    by (simp add: Identity_Theorems.demo_keys_def)
  have "\<exists>k n l' w'. key_hash (key_files ?out) k = key_hash Identity_Theorems.demo_keys [2] \<and>
    lifecycle_initialize ?out ?l started_process = (True, l', w') \<and> rns_error_state l' = no_error \<and> files w' = started_fs \<and>
    registered_dests w' = [(n, dest_hash (library ?out) k ''styrene_core'' ''operator'')] \<and>
    (if rpc_enabled (c_rpc demo_config)
     then Lxmf_Service.is_initialized (lxmf w') \<and> lxmf_service.identity (lxmf w') = Some k \<and>
       RegisterDelivery (Some (''[styrene] '' @ id_display_name (c_identity demo_config))) \<in> set (lxmf_service.trace (lxmf w'))
     else lxmf w' = lxmf started_process)"
    by (rule start_uses_the_identity_found [where e = Identity_Theorems.demo_env and conf = "[''c'']" and
          d = "[''etc'', ''reticulum'']" and r = 0 and dest = "[9]" and kwargs = kwargs])
      (use a p o1 n w k f keys started_found demo_config_dir in
        \<open>simp_all add: demo_lifecycle_facts is_symlink_def Identity_Theorems.demo_env_def\<close>)
  then show ?thesis using c(1) by (simp add: demo_lifecycle_facts o1 plain_library_def) blast
qed

text \<open>With an explicit identity path the identity that is made sure of is not the one that is found.\<close>

lemma override_not_found:
  assumes "config_dir e fs = conf" and "fs (operator_key conf) = None" and "fs SYSTEM_IDENTITY_PATH = None"
    and "fs p = Some (File b1)" and "load_key R b1 = Inr (Some k1)"
    and "fs (identity_at conf) = Some (File b2)" and "load_key R b2 = Inr (Some k2)"
  shows "ensure_operator_identity R e None True (Some p) fr fs = (Inr (key_hash R k1), fs)"
    and "get_operator_identity_object R e None fs = (Inr (Some k2), fs)"
proof -
  have i: "identity_file e fs = (identity_at conf, fs)" by (rule identity_file_stays [of e fs conf, OF assms(1,2)])
  have "resolve_identity_path e (Some p) fs = (Some p, fs)"
    using plain_file(2,3) [of fs p b1, OF assms(4)] i by (simp add: resolve_identity_path_def)
  then show "ensure_operator_identity R e None True (Some p) fr fs = (Inr (key_hash R k1), fs)"
    using plain_file(4) [of fs p b1, OF assms(4)] assms(5) by (simp add: ensure_operator_identity_def from_file_def)
  have "resolve_identity_path e None fs = (Some (identity_at conf), fs)"
    using plain_file(2,3) [of fs "identity_at conf" b2, OF assms(6)] absent(2) [of fs SYSTEM_IDENTITY_PATH, OF assms(3)] i
    by (simp add: resolve_identity_path_def)
  then show "get_operator_identity_object R e None fs = (Inr (Some k2), fs)"
    using plain_file(4) [of fs "identity_at conf" b2, OF assms(6)] assms(7)
    by (simp add: get_operator_identity_object_def from_file_def)
qed

text \<open>
A client cannot start beside the daemon it belongs to: although the configuration generated
for a client leaves the server out, the check of the server's port is made all the same, so while the
daemon holds the port a client of the same configuration gets a port conflict and no Reticulum.
\<close>

theorem client_refused_beside_daemon:
  assumes "\<not> lc_initialized l" and "lc_client_only l" and "srv_enabled (if_server (ret_interfaces (c_reticulum (lc_config l))))"
    and "ensure_operator_identity (key_files out) (surroundings out) (token_outcome out) True
      (map_option (Path (surroundings out)) (ret_operator_identity_path (c_reticulum (lc_config l)))) (fresh_key out) (files w) = (Inr h, g)"
    and "choose_config out l (w\<lparr>files := g\<rparr>) = (Inr d, l1, w1)" and "\<And>host port. bind_port out host port = Inl OSError"
  shows "\<exists>l' w'. lifecycle_initialize out l w = (True, l', w') \<and> category (rns_error_state l') = PORT_CONFLICT \<and>
    rns w' = rns w \<and> lxmf w' = lxmf w \<and>
    generate_rns_config str (lc_config l) True =
      generate_rns_config str (c_reticulum_update (ret_interfaces_update (if_server_update (srv_enabled_update (\<lambda>_. False)))) (lc_config l)) True"
proof -
  have kept: "rns w1 = rns w" "lxmf w1 = lxmf w"
    using assms(5) by (auto simp: choose_config_def Let_def split: option.splits sum.splits)
  obtain m where c: "check_port_conflicts out (lc_config l) = Inr (Some m)"
    using assms(3,6) by (simp add: check_port_conflicts_def Let_def)
  have "initialize_reticulum out l w =
      failed_with \<lparr>category = PORT_CONFLICT, exception_type = None, message = Some m\<rparr> l1 w1"
    using assms(4,5) c by (simp add: initialize_reticulum_def start_rns_def)
  then show ?thesis
    using assms(1) kept by (simp add: lifecycle_initialize_def failed_with_def generate_rns_config_def config_lines_def resolve_transport_enabled_def
      cong: option.case_cong)
qed

theorem client_refused_beside_daemon_witness:
  "\<exists>l' w'. lifecycle_initialize (demo_outcomes (Inl OSError)) (CoreLifecycle demo_config True) started_process = (True, l', w') \<and>
     category (rns_error_state l') = PORT_CONFLICT"
proof -
  let ?out = "demo_outcomes (Inl OSError)" and ?l = "CoreLifecycle demo_config True"
  have a: "\<not> lc_initialized ?l" "lc_client_only ?l" "lc_config ?l = demo_config" by (simp_all add: CoreLifecycle_def)
  have c: "choose_config ?out ?l (started_process\<lparr>files := started_fs\<rparr>) =
      (Inr [''etc'', ''reticulum''], ?l\<lparr>rns_config_dir := None\<rparr>, started_process\<lparr>files := started_fs\<rparr>)"
    by (simp add: choose_config_def a demo_lifecycle_facts started_found Let_def)
  show ?thesis
    using client_refused_beside_daemon [OF a(1,2) _ _ c, where h = "key_hash Identity_Theorems.demo_keys [2]" and str = "\<lambda>_. []"] started_found(1) by (auto simp: a demo_lifecycle_facts)
qed

end
