(* ===== verification/Ui_State.thy ===== *)
theory Ui_State
  imports Config_Models "HOL-Library.Product_Lexorder" "HOL-Library.Multiset"
begin

text \<open>
  The states that the user interfaces are drawn from (\<^verbatim>\<open>src/styrened/ui_state\<close>): what they share, the
  workspaces, the comms workspace, live sessions, the page browser and the configuration draft. A
  snapshot object is what \<^verbatim>\<open>getattr\<close> finds in it, an association list from attribute names to values.
  The text of a value that is no text, and the number \<^verbatim>\<open>float\<close> reads from a value, are arguments.
\<close>

section \<open>What the states share\<close>

datatype load_state = IDLE | LOADING | READY | DEGRADED | ERROR

datatype capability_state = UNSUPPORTED | UNAVAILABLE | AVAILABLE

datatype knowledge_state = KNOWN | UNKNOWN | KNOWLEDGE_UNSUPPORTED

record data_issue =
  issue_code :: string
  issue_message :: string
  issue_severity :: string
  issue_field :: "string option"

record field_authority =
  fa_source :: string
  observed_at :: "rat option"
  fa_complete :: bool

definition FieldAuthority :: "string \<Rightarrow> rat option \<Rightarrow> bool \<Rightarrow> field_authority" where
  "FieldAuthority s t c = \<lparr>fa_source = s, observed_at = t, fa_complete = c\<rparr>"

record refresh_meta =
  rm_load_state :: load_state
  refreshed_at :: "rat option"
  rm_source :: string
  rm_stale :: bool
  rm_partial :: bool
  rm_error_message :: "string option"
  rm_issues :: "data_issue list"

definition RefreshMeta :: refresh_meta where
  "RefreshMeta =
     \<lparr>rm_load_state = IDLE, refreshed_at = None, rm_source = ''ipc'', rm_stale = False, rm_partial = False,
      rm_error_message = None, rm_issues = []\<rparr>"

definition ready_at :: "rat \<Rightarrow> refresh_meta" where
  "ready_at now = RefreshMeta\<lparr>rm_load_state := READY, refreshed_at := Some now\<rparr>"

text \<open>\<open>now\<close>: the time given, or that of the clock.\<close>

definition now_or :: "rat \<Rightarrow> rat option \<Rightarrow> rat" where
  "now_or clock now = (case now of None \<Rightarrow> clock | Some t \<Rightarrow> t)"

type_synonym attrs = "(string \<times> pyval) list"

definition attr :: "attrs \<Rightarrow> string \<Rightarrow> pyval" where
  "attr ob k = (case map_of ob k of None \<Rightarrow> PNone | Some v \<Rightarrow> v)"

text \<open>\<^verbatim>\<open>a or b\<close>, and \<^verbatim>\<open>str\<close>.\<close>

definition py_or :: "pyval \<Rightarrow> pyval \<Rightarrow> pyval" where
  "py_or a b = (if truthy a then a else b)"

definition py_str :: "(pyval \<Rightarrow> string) \<Rightarrow> pyval \<Rightarrow> string" where
  "py_str text_of v = (case v of PStr s \<Rightarrow> s | _ \<Rightarrow> text_of v)"

text \<open>\<^verbatim>\<open>str(getattr(o, k, "") or "")\<close>.\<close>

definition attr_text :: "(pyval \<Rightarrow> string) \<Rightarrow> attrs \<Rightarrow> string \<Rightarrow> string" where
  "attr_text text_of ob k = py_str text_of (py_or (attr ob k) (PStr []))"

text \<open>\<^verbatim>\<open>sort(key=..., reverse=True)\<close>: equal elements keep their order.\<close>

definition sort_desc :: "('a \<Rightarrow> 'k :: linorder) \<Rightarrow> 'a list \<Rightarrow> 'a list" where
  "sort_desc key xs = rev (sort_key key (rev xs))"

lemma set_sort_desc [simp]: "set (sort_desc key xs) = set xs" "length (sort_desc key xs) = length xs"
  by (simp_all add: sort_desc_def)

lemma mset_sort_desc [simp]: "mset (sort_desc key xs) = mset xs"
  by (simp add: sort_desc_def)

lemma sorted_sort_desc: "sorted_wrt (\<lambda>x y. key y \<le> key x) (sort_desc key xs)"
proof -
  have "sorted (map key (sort_key key (rev xs)))" by simp
  then have "sorted_wrt (\<lambda>x y. key x \<le> key y) (sort_key key (rev xs))" by (simp add: sorted_map)
  then show ?thesis by (simp add: sort_desc_def sorted_wrt_rev)
qed

text \<open>A dictionary comprehension over a list: the last entry of a key counts, at the place of the first.\<close>

definition index_by :: "('a \<Rightarrow> string) \<Rightarrow> 'a list \<Rightarrow> (string \<times> 'a) list" where
  "index_by key xs = fold (\<lambda>x. AList.update (key x) x) xs []"

lemma find_in_append: "find P (xs @ ys) = (case find P xs of None \<Rightarrow> find P ys | Some x \<Rightarrow> Some x)"
  by (induction xs) auto

lemma map_of_fold_update:
  "map_of (fold (\<lambda>x. AList.update (key x) (val x)) xs al) k =
     (case find (\<lambda>x. key x = k) (rev xs) of None \<Rightarrow> map_of al k | Some x \<Rightarrow> Some (val x))"
  by (induction xs arbitrary: al) (auto simp: update_conv' find_in_append split: option.splits)

lemma map_of_index_by: "map_of (index_by key xs) k = find (\<lambda>x. key x = k) (rev xs)"
  by (simp add: index_by_def map_of_fold_update [where val = id, simplified] split: option.split)

section \<open>Workspaces\<close>

datatype workspace_id = HOME | NODES | MAIL | COMMS_WORKSPACE | CONTACTS | ADMIN

definition workspace_of :: "string \<Rightarrow> workspace_id option" where
  "workspace_of = map_of [(''home'', HOME), (''nodes'', NODES), (''mail'', MAIL), (''comms'', COMMS_WORKSPACE),
     (''contacts'', CONTACTS), (''admin'', ADMIN)]"

datatype peer_focus = FOCUS_STATUS | FOCUS_MAIL | FOCUS_COMMS | FOCUS_PAGES | FOCUS_OPS | FOCUS_TERMINAL

definition focus_of :: "string \<Rightarrow> peer_focus option" where
  "focus_of = map_of [(''status'', FOCUS_STATUS), (''mail'', FOCUS_MAIL), (''comms'', FOCUS_COMMS), (''pages'', FOCUS_PAGES),
     (''ops'', FOCUS_OPS), (''terminal'', FOCUS_TERMINAL)]"

definition TAB_TO_FOCUS :: "string \<Rightarrow> peer_focus option" where
  "TAB_TO_FOCUS = map_of [(''status'', FOCUS_STATUS), (''chat'', FOCUS_COMMS), (''mail'', FOCUS_MAIL), (''pages'', FOCUS_PAGES),
     (''fleet-ops'', FOCUS_OPS), (''ops'', FOCUS_OPS), (''terminal'', FOCUS_TERMINAL)]"

text \<open>An enumeration member, a text, or nothing.\<close>

definition coerce_workspace :: "(workspace_id + string) option \<Rightarrow> workspace_id" where
  "coerce_workspace v =
     (case v of
        Some (Inl w) \<Rightarrow> w
      | None \<Rightarrow> HOME
      | Some (Inr s) \<Rightarrow> (case workspace_of (lower s) of Some w \<Rightarrow> w | None \<Rightarrow> HOME))"

definition coerce_focus :: "(peer_focus + string) option \<Rightarrow> peer_focus" where
  "coerce_focus v =
     (case v of
        Some (Inl f) \<Rightarrow> f
      | None \<Rightarrow> FOCUS_STATUS
      | Some (Inr s) \<Rightarrow>
          (case TAB_TO_FOCUS (lower s) of
             Some f \<Rightarrow> f
           | None \<Rightarrow> (case focus_of (lower s) of Some f \<Rightarrow> f | None \<Rightarrow> FOCUS_STATUS)))"

record peer_context =
  pc_identity :: string
  origin_workspace :: workspace_id
  pc_focus :: peer_focus

definition build_peer_workspace_context ::
    "string \<Rightarrow> (workspace_id + string) option \<Rightarrow> (peer_focus + string) option \<Rightarrow> peer_context" where
  "build_peer_workspace_context ih origin focus =
     \<lparr>pc_identity = ih, origin_workspace = coerce_workspace origin, pc_focus = coerce_focus focus\<rparr>"

section \<open>The comms workspace\<close>

datatype comms_mode = DIRECT_MODE | ACTIVE_MODE | BRIDGES_MODE | PRESENCE_MODE

definition comms_mode_of :: "string \<Rightarrow> comms_mode option" where
  "comms_mode_of = map_of [(''direct'', DIRECT_MODE), (''active'', ACTIVE_MODE), (''bridges'', BRIDGES_MODE), (''presence'', PRESENCE_MODE)]"

definition coerce_mode :: "(comms_mode + string) option \<Rightarrow> comms_mode" where
  "coerce_mode v =
     (case v of
        Some (Inl m) \<Rightarrow> m
      | None \<Rightarrow> DIRECT_MODE
      | Some (Inr s) \<Rightarrow> (case comms_mode_of (lower s) of Some m \<Rightarrow> m | None \<Rightarrow> DIRECT_MODE))"

record comms_capability =
  cc_key :: string
  cc_title :: string
  cc_state :: capability_state
  cc_description :: "string option"
  cc_warning :: "string option"

definition BRIDGE_TITLES :: "string \<Rightarrow> string option" where
  "BRIDGE_TITLES = map_of [(''meshtastic'', ''Meshtastic''), (''yggdrasil'', ''Yggdrasil''), (''i2p'', ''I2P'')]"

text \<open>\<open>title_case\<close>: \<^verbatim>\<open>str.title\<close> with the underscores replaced.\<close>

definition flag :: "pydict \<Rightarrow> string \<Rightarrow> bool \<Rightarrow> bool" where
  "flag d k dflt = truthy (d_get_or d k (PBool dflt))"

definition bridge_capability :: "(string \<Rightarrow> string) \<Rightarrow> string \<times> pyval \<Rightarrow> comms_capability" where
  "bridge_capability title_case entry =
     (let (key, raw) = entry; data = (case raw of PDict d \<Rightarrow> d | _ \<Rightarrow> []) in
      \<lparr>cc_key = key,
       cc_title = (case BRIDGE_TITLES key of Some t \<Rightarrow> t
                   | None \<Rightarrow> title_case (map (\<lambda>c. if c = CHR ''_'' then CHR '' '' else c) key)),
       cc_state = (if flag data ''available'' False then AVAILABLE
                   else if flag data ''enabled'' False then UNAVAILABLE else UNSUPPORTED),
       cc_description = as_str (d_get_or data ''description'' PNone),
       cc_warning = as_str (d_get_or data ''warning'' PNone)\<rparr>)"

record comms_state =
  cw_active_mode :: comms_mode
  cw_available_modes :: "comms_mode list"
  cw_direct_available :: bool
  cw_active_sessions :: int
  cw_bridges :: "comms_capability list"
  cw_refresh :: refresh_meta

definition build_comms_workspace_state ::
    "(string \<Rightarrow> string) \<Rightarrow> rat \<Rightarrow> (comms_mode + string) option \<Rightarrow> bool \<Rightarrow> int \<Rightarrow> (string \<times> pyval) list \<Rightarrow> rat option \<Rightarrow> comms_state" where
  "build_comms_workspace_state title_case clock mode direct cnt bridges now =
     \<lparr>cw_active_mode = coerce_mode mode,
      cw_available_modes = [DIRECT_MODE, ACTIVE_MODE, BRIDGES_MODE, PRESENCE_MODE],
      cw_direct_available = direct, cw_active_sessions = max 0 cnt,
      cw_bridges = map (bridge_capability title_case) bridges, cw_refresh = ready_at (now_or clock now)\<rparr>"

section \<open>Live sessions\<close>

datatype session_kind = DIRECT_LINK | RELAY_SESSION | TERMINAL_SESSION | PAGE_SESSION | VPN_HANDSHAKE

definition session_kind_of :: "string \<Rightarrow> session_kind option" where
  "session_kind_of = map_of [(''direct_link'', DIRECT_LINK), (''relay'', RELAY_SESSION), (''terminal'', TERMINAL_SESSION),
     (''page'', PAGE_SESSION), (''vpn_handshake'', VPN_HANDSHAKE)]"

datatype session_status = INACTIVE | CONNECTING | ACTIVE | SESSION_DEGRADED | FAILED

definition session_status_of :: "string \<Rightarrow> session_status option" where
  "session_status_of = map_of [(''inactive'', INACTIVE), (''connecting'', CONNECTING), (''active'', ACTIVE),
     (''degraded'', SESSION_DEGRADED), (''failed'', FAILED)]"

definition session_kind_for :: "(pyval \<Rightarrow> string) \<Rightarrow> attrs \<Rightarrow> session_kind" where
  "session_kind_for text_of raw =
     (case session_kind_of (py_str text_of (py_or (attr raw ''kind'') (py_or (attr raw ''session_kind'') (PStr [])))) of
        Some k \<Rightarrow> k
      | None \<Rightarrow> DIRECT_LINK)"

definition session_status_for :: "(pyval \<Rightarrow> string) \<Rightarrow> attrs \<Rightarrow> session_status" where
  "session_status_for text_of raw =
     (case session_status_of (py_str text_of (py_or (attr raw ''status'') (PStr ''inactive''))) of Some s \<Rightarrow> s | None \<Rightarrow> INACTIVE)"

record session_record =
  sn_id :: string
  sn_kind :: session_kind
  sn_peer :: pyval
  sn_status :: session_status
  sn_link_type :: pyval
  sn_started_at :: pyval
  sn_last_activity :: "rat option"
  sn_bytes_in :: int
  sn_bytes_out :: int
  sn_status_text :: pyval

text \<open>\<^verbatim>\<open>int(getattr(o, k, 0) or 0)\<close>.\<close>

definition attr_int :: "attrs \<Rightarrow> string \<Rightarrow> int res" where
  "attr_int ob k = py_int (py_or (attr ob k) (PInt 0))"

text \<open>A time of last activity is a number or absent, as it is compared when the sessions are sorted.\<close>

fun number :: "pyval \<Rightarrow> rat option" where
  "number (PInt i) = Some (of_int i)"
| "number (PBool b) = Some (if b then 1 else 0)"
| "number (PFloat q) = Some q"
| "number _ = None"

definition session_from :: "(pyval \<Rightarrow> string) \<Rightarrow> attrs \<Rightarrow> session_record option res" where
  "session_from text_of raw =
     (let sid = py_str text_of (py_or (attr raw ''session_id'') (py_or (attr raw ''id'') (PStr []))) in
      if sid = [] then Inr None
      else
        bind_res (attr_int raw ''bytes_in'') (\<lambda>bi. bind_res (attr_int raw ''bytes_out'') (\<lambda>bo.
          Inr (Some \<lparr>sn_id = sid, sn_kind = session_kind_for text_of raw, sn_peer = attr raw ''peer_identity_hash'',
             sn_status = session_status_for text_of raw, sn_link_type = attr raw ''link_type'',
             sn_started_at = attr raw ''started_at'', sn_last_activity = number (attr raw ''last_activity_at''),
             sn_bytes_in = bi, sn_bytes_out = bo, sn_status_text = attr raw ''status_text''\<rparr>))))"

fun sessions_from :: "(pyval \<Rightarrow> string) \<Rightarrow> attrs list \<Rightarrow> session_record list res" where
  "sessions_from text_of [] = Inr []"
| "sessions_from text_of (raw # raws) =
     bind_res (session_from text_of raw) (\<lambda>r. bind_res (sessions_from text_of raws) (\<lambda>rs.
       Inr (case r of None \<Rightarrow> rs | Some s \<Rightarrow> s # rs)))"

record session_index =
  si_sessions :: "session_record list"
  si_by_id :: "(string \<times> session_record) list"
  si_by_peer :: "(pyval \<times> session_record list) list"
  si_refresh :: refresh_meta

definition add_to :: "'k \<Rightarrow> 'v \<Rightarrow> ('k \<times> 'v list) list \<Rightarrow> ('k \<times> 'v list) list" where
  "add_to k v m = AList.update k ((case map_of m k of None \<Rightarrow> [] | Some vs \<Rightarrow> vs) @ [v]) m"

definition build_session_index :: "(pyval \<Rightarrow> string) \<Rightarrow> rat \<Rightarrow> attrs list \<Rightarrow> rat option \<Rightarrow> session_index res" where
  "build_session_index text_of clock raws now =
     bind_res (sessions_from text_of raws) (\<lambda>rs.
       let sorted = sort_desc (\<lambda>s. case sn_last_activity s of None \<Rightarrow> 0 | Some t \<Rightarrow> t) rs in
       Inr \<lparr>si_sessions = sorted, si_by_id = index_by sn_id sorted,
            si_by_peer = fold (\<lambda>s. add_to (sn_peer s) s) (filter (\<lambda>s. truthy (sn_peer s)) rs) [],
            si_refresh = ready_at (now_or clock now)\<rparr>)"

section \<open>The page browser\<close>

datatype page_transport = NOMADNET_PAGES | HTTPS_PAGES | I2P_PAGES | UNKNOWN_PAGES

record page_inputs =
  pi_destination :: "string option"
  pi_path :: "string option"
  pi_url :: "string option"
  pi_history :: "string list"
  pi_status :: string
  pi_cache_fallback :: bool
  pi_cache_available :: bool
  pi_submit_forms :: bool
  pi_error :: "string option"
  pi_now :: "rat option"

definition given :: "string option \<Rightarrow> bool" where
  "given s \<longleftrightarrow> s \<noteq> None \<and> s \<noteq> Some []"

definition infer_transport :: "page_inputs \<Rightarrow> page_transport" where
  "infer_transport i =
     (let url = lower (case pi_url i of None \<Rightarrow> [] | Some u \<Rightarrow> u) in
      if given (pi_url i) \<and> sublist ''.i2p'' url then I2P_PAGES
      else if given (pi_url i) \<and> (prefix ''http://'' url \<or> prefix ''https://'' url) then HTTPS_PAGES
      else if given (pi_destination i) then NOMADNET_PAGES
      else UNKNOWN_PAGES)"

definition page_location :: "page_inputs \<Rightarrow> string option" where
  "page_location i =
     (if given (pi_url i) then pi_url i
      else case pi_destination i of
        Some d \<Rightarrow>
          (if d \<noteq> [] then Some (d @ '':'' @ (if given (pi_path i) then the (pi_path i) else ''/page/index.mu''))
           else pi_path i)
      | None \<Rightarrow> pi_path i)"

record page_actions =
  can_go_back :: bool
  can_reload :: bool
  can_save_site :: bool
  can_crawl_site :: bool
  can_submit_forms :: bool

record page_state =
  pg_transport :: page_transport
  pg_location :: "string option"
  pg_inputs :: page_inputs
  pg_cache :: capability_state
  pg_actions :: page_actions
  pg_refresh :: refresh_meta

definition build_page_browser_session_state :: "rat \<Rightarrow> page_inputs \<Rightarrow> page_state" where
  "build_page_browser_session_state clock i =
     (let t = infer_transport i in
      \<lparr>pg_transport = t, pg_location = page_location i, pg_inputs = i,
       pg_cache = (if pi_cache_available i then AVAILABLE else UNSUPPORTED),
       pg_actions = \<lparr>can_go_back = pi_history i \<noteq> [], can_reload = True, can_save_site = t = NOMADNET_PAGES,
                     can_crawl_site = t = NOMADNET_PAGES, can_submit_forms = pi_submit_forms i\<rparr>,
       pg_refresh = (ready_at (now_or clock (pi_now i)))
         \<lparr>rm_load_state := if pi_status i \<noteq> ''error'' then READY else ERROR, rm_error_message := pi_error i\<rparr>\<rparr>)"

section \<open>The configuration draft\<close>

datatype config_save_state = SAVE_IDLE | SAVING | SAVED | SAVE_ERROR

text \<open>\<^verbatim>\<open>==\<close> on values: numbers by value, dictionaries in any order.\<close>

fun py_eq :: "pyval \<Rightarrow> pyval \<Rightarrow> bool" where
  "py_eq (PList xs) (PList ys) \<longleftrightarrow> list_all2 py_eq xs ys"
| "py_eq (PDict d) (PDict e) \<longleftrightarrow>
     length d = length e \<and> (\<forall>p \<in> set d. case map_of e (fst p) of None \<Rightarrow> False | Some w \<Rightarrow> py_eq (snd p) w)"
| "py_eq v w \<longleftrightarrow> v = w \<or> number v \<noteq> None \<and> number v = number w"

text \<open>The keys of both, sorted; a field in a section is written with a dot. Keys are texts.\<close>

definition key_texts :: "pydict \<Rightarrow> string set" where
  "key_texts d = set (List.map_filter (\<lambda>(k, v). as_str k) d)"

definition dotted :: "string \<Rightarrow> string \<Rightarrow> string" where
  "dotted pre k = (if pre \<noteq> [] then pre @ ''.'' @ k else k)"

lemma size_d_get_or: "d_get_or d k PNone = PDict a \<Longrightarrow> size (PDict a) < size (PDict d)"
proof -
  assume "d_get_or d k PNone = PDict a"
  then have "map_of d (PStr k) = Some (PDict a)" by (auto simp: d_get_or_def d_get_def split: option.splits)
  then have "(PStr k, PDict a) \<in> set d" by (rule map_of_SomeD)
  then show ?thesis by (induction d) auto
qed

function collect_dirty_fields :: "pydict \<Rightarrow> pydict \<Rightarrow> string \<Rightarrow> string list" where
  "collect_dirty_fields p e pre =
     concat (map (\<lambda>k.
       case d_get_or p k PNone of
         PDict a \<Rightarrow>
           (case d_get_or e k PNone of
              PDict b \<Rightarrow> collect_dirty_fields a b (dotted pre k)
            | r \<Rightarrow> [dotted pre k])
       | l \<Rightarrow> if py_eq l (d_get_or e k PNone) then [] else [dotted pre k])
       (sorted_list_of_set (key_texts p \<union> key_texts e)))"
  by pat_completeness auto
termination
  by (relation "measure (\<lambda>(p, e, pre). size (PDict p))") (auto dest: size_d_get_or)

declare collect_dirty_fields.simps [simp del]

record config_issue =
  ci_path :: string
  ci_message :: string
  ci_severity :: string

record draft_inputs =
  di_persisted :: "pydict option"
  di_editable :: "pydict option"
  di_errors :: "(string \<times> string) list"
  di_saving :: bool
  di_succeeded :: bool
  di_error :: "string option"
  di_now :: "rat option"

record draft_state =
  ds_persisted :: pydict
  ds_editable :: pydict
  ds_dirty :: "string list"
  ds_issues :: "config_issue list"
  ds_is_dirty :: bool
  ds_save_state :: config_save_state
  ds_error :: "string option"
  ds_refresh :: refresh_meta

definition build_config_draft_state :: "rat \<Rightarrow> draft_inputs \<Rightarrow> draft_state" where
  "build_config_draft_state clock i =
     (let p = (case di_persisted i of None \<Rightarrow> [] | Some d \<Rightarrow> d); e = (case di_editable i of None \<Rightarrow> p | Some d \<Rightarrow> d);
          dirty = collect_dirty_fields p e [] in
      \<lparr>ds_persisted = p, ds_editable = e, ds_dirty = dirty,
       ds_issues = map (\<lambda>(k, m). \<lparr>ci_path = k, ci_message = m, ci_severity = ''error''\<rparr>) (sort (di_errors i)),
       ds_is_dirty = dirty \<noteq> [],
       ds_save_state = (if given (di_error i) then SAVE_ERROR else if di_saving i then SAVING
                        else if di_succeeded i then SAVED else SAVE_IDLE),
       ds_error = di_error i, ds_refresh = ready_at (now_or clock (di_now i))\<rparr>)"

text \<open>An unedited draft is not dirty, and neither is one with a new entry that is \<^verbatim>\<open>None\<close>.\<close>

inductive wf_value :: "pyval \<Rightarrow> bool" where
  "(\<And>x. x \<in> set xs \<Longrightarrow> wf_value x) \<Longrightarrow> wf_value (PList xs)"
| "distinct (map fst d) \<Longrightarrow> (\<And>k v. (k, v) \<in> set d \<Longrightarrow> wf_value v) \<Longrightarrow> wf_value (PDict d)"
| "wf_value PNone" | "wf_value (PBool b)" | "wf_value (PInt i)" | "wf_value (PFloat q)" | "wf_value (PStr s)" | "wf_value (PBytes b)"

lemma py_eq_refl: "wf_value v \<Longrightarrow> py_eq v v"
proof (induction rule: wf_value.induct)
  case (1 xs)
  then show ?case by (simp add: list_all2_same)
next
  case (2 d)
  then show ?case by (auto simp: map_of_is_SomeI split: option.split dest: eq_key_imp_eq_value [of d])
qed simp_all

inductive_cases wf_dict: "wf_value (PDict d)"

lemma wf_d_get_or: "wf_value (PDict d) \<Longrightarrow> wf_value (d_get_or d k PNone)"
  by (auto simp: d_get_or_def d_get_def elim!: wf_dict dest: map_of_SomeD intro: wf_value.intros split: option.split)

lemma concat_map_nil: "(\<And>x. x \<in> set xs \<Longrightarrow> f x = []) \<Longrightarrow> concat (map f xs) = []"
  by simp

lemma unedited_not_dirty: "wf_value (PDict p) \<Longrightarrow> e = p \<Longrightarrow> collect_dirty_fields p e pre = []"
proof (induction p e pre rule: collect_dirty_fields.induct)
  case (1 p e pre)
  have *: "(case d_get_or p k PNone of
         PDict a \<Rightarrow> (case d_get_or p k PNone of PDict b \<Rightarrow> collect_dirty_fields a b (dotted pre k) | r \<Rightarrow> [dotted pre k])
       | l \<Rightarrow> if py_eq l (d_get_or p k PNone) then [] else [dotted pre k]) = []"
    if "k \<in> set (sorted_list_of_set (key_texts p))" for k
    using that wf_d_get_or [OF 1(2), of k] 1(1) [of k] 1(3) by (auto split: pyval.split dest: py_eq_refl)
  show ?case unfolding 1(3) collect_dirty_fields.simps [of p p] Un_absorb by (rule concat_map_nil) (rule *)
qed

text \<open>A field that is added with the value \<^verbatim>\<open>None\<close>, or removed when it was that, is not noticed.\<close>

lemma none_not_dirty: "collect_dirty_fields [] [(PStr k, PNone)] pre = []"
  by (subst collect_dirty_fields.simps) (simp add: key_texts_def map_filter_def d_get_or_def d_get_def)

end
