(* ===== verification/Ui_Nodes.thy ===== *)
theory Ui_Nodes
  imports Ui_State
begin

text \<open>
  The catalog of nodes that the interfaces show (\<^verbatim>\<open>src/styrened/ui_state/nodes.py\<close>): the device snapshots
  of the daemon are grouped by identity and each group becomes one record. \<^verbatim>\<open>str\<close>, \<^verbatim>\<open>float\<close> and
  \<^verbatim>\<open>int\<close> of a value that is no text and no number are arguments.
\<close>

section \<open>Presence and routes\<close>

record conversions =
  to_text :: "pyval \<Rightarrow> string"
  to_float :: "pyval \<Rightarrow> rat res"
  to_int :: "pyval \<Rightarrow> int res"

datatype presence_state = LIVE | STORED | STALE_PEER | LOST | UNKNOWN_PEER

definition presence_value :: "presence_state \<Rightarrow> string" where
  "presence_value p =
     (case p of LIVE \<Rightarrow> ''live'' | STORED \<Rightarrow> ''stored'' | STALE_PEER \<Rightarrow> ''stale'' | LOST \<Rightarrow> ''lost'' | UNKNOWN_PEER \<Rightarrow> ''unknown'')"

datatype route_kind = STYRENE_ROUTE | NOMADNET_ROUTE | LXMF_ROUTE | OTHER_ROUTE

definition LOST_CUTOFF_SECONDS :: rat where "LOST_CUTOFF_SECONDS = 15 * 60"
definition STALE_CUTOFF_SECONDS :: rat where "STALE_CUTOFF_SECONDS = 5 * 60"

definition classify_presence :: "rat option \<Rightarrow> rat \<Rightarrow> presence_state" where
  "classify_presence last_seen now =
     (case last_seen of
        None \<Rightarrow> UNKNOWN_PEER
      | Some t \<Rightarrow>
          if t = 0 then UNKNOWN_PEER
          else if now - t < STALE_CUTOFF_SECONDS then LIVE
          else if now - t < LOST_CUTOFF_SECONDS then STALE_PEER
          else LOST)"

text \<open>A device snapshot with the time of its last announce and the count of its announces.\<close>

record device =
  d_attrs :: attrs
  d_time :: rat
  d_count :: int

definition d_text :: "conversions \<Rightarrow> device \<Rightarrow> string \<Rightarrow> string" where
  "d_text cv d k = attr_text (to_text cv) (d_attrs d) k"

text \<open>\<^verbatim>\<open>x or None\<close> on numbers and on texts.\<close>

definition nonzero :: "rat \<Rightarrow> rat option" where
  "nonzero t = (if t = 0 then None else Some t)"

definition nonempty :: "string \<Rightarrow> string option" where
  "nonempty s = (if s = [] then None else Some s)"

definition get_identity_key :: "(pyval \<Rightarrow> string) \<Rightarrow> attrs \<Rightarrow> string" where
  "get_identity_key text_of ob =
     (let ih = attr_text text_of ob ''identity_hash'' in if ih \<noteq> [] then ih else attr_text text_of ob ''destination_hash'')"

definition get_capabilities :: "(pyval \<Rightarrow> string) \<Rightarrow> attrs \<Rightarrow> string set" where
  "get_capabilities text_of ob =
     (case attr ob ''capabilities'' of PList xs \<Rightarrow> py_str text_of ` set (filter truthy xs) | _ \<Rightarrow> {})"

definition route_kind_of :: "(pyval \<Rightarrow> string) \<Rightarrow> attrs \<Rightarrow> route_kind" where
  "route_kind_of text_of ob =
     (let t = lower (attr_text text_of ob ''device_type'') in
      if t = ''styrene'' then STYRENE_ROUTE
      else if t = ''nomadnet_node'' then NOMADNET_ROUTE
      else if truthy (attr ob ''lxmf_destination_hash'') then LXMF_ROUTE
      else OTHER_ROUTE)"

record route =
  rt_kind :: route_kind
  rt_destination :: string
  rt_device_type :: "string option"
  rt_last_seen :: "rat option"
  rt_hops :: pyval
  rt_interface :: pyval
  rt_authority :: field_authority

definition route_of :: "conversions \<Rightarrow> device \<Rightarrow> route" where
  "route_of cv d =
     \<lparr>rt_kind = route_kind_of (to_text cv) (d_attrs d), rt_destination = d_text cv d ''destination_hash'',
      rt_device_type = nonempty (d_text cv d ''device_type''), rt_last_seen = nonzero (d_time d),
      rt_hops = attr (d_attrs d) ''hops'', rt_interface = attr (d_attrs d) ''discovered_via'',
      rt_authority = FieldAuthority ''ipc'' (nonzero (d_time d)) True\<rparr>"

text \<open>One route for each destination, that of its first device; the latest first.\<close>

fun first_routes :: "conversions \<Rightarrow> string set \<Rightarrow> device list \<Rightarrow> route list" where
  "first_routes cv seen [] = []"
| "first_routes cv seen (d # ds) =
     (let h = d_text cv d ''destination_hash'' in
      if h = [] \<or> h \<in> seen then first_routes cv seen ds
      else route_of cv d # first_routes cv (insert h seen) ds)"

definition or_zero :: "rat option \<Rightarrow> rat" where
  "or_zero t = (case t of None \<Rightarrow> 0 | Some q \<Rightarrow> q)"

definition build_routes :: "conversions \<Rightarrow> device list \<Rightarrow> route list" where
  "build_routes cv ds = sort_desc (\<lambda>r. or_zero (rt_last_seen r)) (first_routes cv {} ds)"

section \<open>Names and overlays\<close>

definition destination_rank :: "conversions \<Rightarrow> device \<Rightarrow> nat \<times> rat \<times> int" where
  "destination_rank cv d = (if d_text cv d ''device_type'' = ''styrene'' then 0 else 1, - d_time d, - d_count d)"

definition select_primary_destination :: "conversions \<Rightarrow> device list \<Rightarrow> string option" where
  "select_primary_destination cv ds =
     (case sort_key (destination_rank cv) ds of [] \<Rightarrow> None | d # _ \<Rightarrow> nonempty (d_text cv d ''destination_hash''))"

text \<open>\<^verbatim>\<open>max(names, key=len)\<close>: the first of the longest.\<close>

definition longest :: "string list \<Rightarrow> string" where
  "longest ns = fold (\<lambda>n b. if py_len b < py_len n then n else b) (tl ns) (hd ns)"

definition select_display_name :: "conversions \<Rightarrow> device list \<Rightarrow> string option \<Rightarrow> string" where
  "select_display_name cv ds alias_name =
     (if given alias_name then the alias_name
      else
        let names = filter (\<lambda>n. n \<noteq> []) (map (\<lambda>d. d_text cv d ''name'') ds) in
        if names \<noteq> [] then longest names
        else case select_primary_destination cv ds of
          Some h \<Rightarrow> h
        | None \<Rightarrow> (let k = get_identity_key (to_text cv) (d_attrs (hd ds)) in if k \<noteq> [] then k else ''unknown''))"

record overlay =
  ov_network :: string
  ov_state :: capability_state
  ov_address :: "string option"
  ov_knowledge :: knowledge_state
  ov_authority :: "field_authority option"

definition all_capabilities :: "conversions \<Rightarrow> device list \<Rightarrow> string set" where
  "all_capabilities cv ds = \<Union> (set (map (\<lambda>d. get_capabilities (to_text cv) (d_attrs d)) ds))"

definition build_overlay_state :: "conversions \<Rightarrow> string \<Rightarrow> string \<Rightarrow> device list \<Rightarrow> overlay" where
  "build_overlay_state cv network address_attr ds =
     (let address = map_option (\<lambda>v. py_str (to_text cv) v) (find truthy (map (\<lambda>d. attr (d_attrs d) address_attr) ds)) in
      if given address
      then \<lparr>ov_network = network, ov_state = AVAILABLE, ov_address = address, ov_knowledge = KNOWN,
            ov_authority = Some (FieldAuthority ''ipc'' None True)\<rparr>
      else if network \<in> all_capabilities cv ds
      then \<lparr>ov_network = network, ov_state = UNAVAILABLE, ov_address = None, ov_knowledge = UNKNOWN,
            ov_authority = Some (FieldAuthority ''ipc'' None False)\<rparr>
      else \<lparr>ov_network = network, ov_state = UNSUPPORTED, ov_address = None, ov_knowledge = KNOWLEDGE_UNSUPPORTED,
            ov_authority = None\<rparr>)"

section \<open>The record of a node\<close>

record relationship =
  rl_alias :: "string option"
  rl_blocked :: bool
  rl_unread :: int
  rl_in_my_mesh :: bool

record node_authority =
  na_name :: field_authority
  na_capabilities :: field_authority
  na_ygg_address :: "field_authority option"
  na_i2p_address :: "field_authority option"
  na_last_seen :: field_authority

record node_record =
  nr_identity :: string
  nr_display_name :: string
  nr_presence :: presence_state
  nr_last_seen :: "rat option"
  nr_primary_destination :: "string option"
  nr_routes :: "route list"
  nr_capabilities :: "string set"
  nr_ygg :: overlay
  nr_i2p :: overlay
  nr_relationship :: relationship
  nr_authority :: node_authority
  nr_status :: string

definition overlay_authority :: "conversions \<Rightarrow> string \<Rightarrow> string \<Rightarrow> rat option \<Rightarrow> device list \<Rightarrow> field_authority option" where
  "overlay_authority cv address_attr capability seen ds =
     (if list_ex (\<lambda>d. truthy (attr (d_attrs d) address_attr) \<or> capability \<in> get_capabilities (to_text cv) (d_attrs d)) ds
      then Some (FieldAuthority ''ipc'' seen False) else None)"

definition record_of_group ::
    "conversions \<Rightarrow> string \<Rightarrow> device list \<Rightarrow> int \<Rightarrow> string option \<Rightarrow> bool \<Rightarrow> string option \<Rightarrow> rat \<Rightarrow> node_record" where
  "record_of_group cv ih ds unread alias_name blk local_hash now =
     (let seen = nonzero (Max (set (map d_time ds))); auth = FieldAuthority ''ipc'' seen True in
      \<lparr>nr_identity = ih, nr_display_name = select_display_name cv ds alias_name,
       nr_presence = classify_presence seen now, nr_last_seen = seen,
       nr_primary_destination = select_primary_destination cv ds, nr_routes = build_routes cv ds,
       nr_capabilities = all_capabilities cv ds,
       nr_ygg = build_overlay_state cv ''yggdrasil'' ''ygg_address'' ds,
       nr_i2p = build_overlay_state cv ''i2p'' ''b32_address'' ds,
       nr_relationship = \<lparr>rl_alias = alias_name, rl_blocked = blk, rl_unread = unread,
                          rl_in_my_mesh = given local_hash \<and> local_hash = Some ih\<rparr>,
       nr_authority = \<lparr>na_name = auth, na_capabilities = auth,
                       na_ygg_address = overlay_authority cv ''ygg_address'' ''yggdrasil'' seen ds,
                       na_i2p_address = overlay_authority cv ''b32_address'' ''i2p'' seen ds, na_last_seen = auth\<rparr>,
       nr_status = presence_value (classify_presence seen now)\<rparr>)"

text \<open>The times of a group are read first, then, to choose its primary destination, the counts.\<close>

definition read_time :: "conversions \<Rightarrow> attrs \<Rightarrow> rat res" where
  "read_time cv ob = to_float cv (py_or (attr ob ''last_announce'') (PFloat 0))"

definition read_count :: "conversions \<Rightarrow> attrs \<Rightarrow> int res" where
  "read_count cv ob = to_int cv (py_or (attr ob ''announce_count'') (PInt 0))"

definition read_group :: "conversions \<Rightarrow> attrs list \<Rightarrow> device list res" where
  "read_group cv obs =
     bind_res (map_res (read_time cv) obs) (\<lambda>ts. bind_res (map_res (read_count cv) obs) (\<lambda>cs.
       Inr (map (\<lambda>(ob, t, c). \<lparr>d_attrs = ob, d_time = t, d_count = c\<rparr>) (zip obs (zip ts cs)))))"

definition build_node_record ::
    "conversions \<Rightarrow> string \<Rightarrow> attrs list \<Rightarrow> int \<Rightarrow> string option \<Rightarrow> bool \<Rightarrow> string option \<Rightarrow> rat \<Rightarrow> node_record res" where
  "build_node_record cv ih obs unread alias_name blk local_hash now =
     bind_res (read_group cv obs) (\<lambda>ds. Inr (record_of_group cv ih ds unread alias_name blk local_hash now))"

section \<open>The catalog\<close>

definition merge_node_inputs_by_identity :: "(pyval \<Rightarrow> string) \<Rightarrow> attrs list \<Rightarrow> (string \<times> attrs list) list" where
  "merge_node_inputs_by_identity text_of obs =
     fold (\<lambda>ob. let k = get_identity_key text_of ob in if k = [] then id else add_to k ob) obs []"

record catalog_inputs =
  ci_devices :: "attrs list"
  ci_unread :: "string \<Rightarrow> int option"
  ci_aliases :: "string \<Rightarrow> string option"
  ci_blocked :: "string set"
  ci_local :: "string option"
  ci_now :: "rat option"

record node_catalog =
  nc_nodes :: "node_record list"
  nc_by_identity :: "(string \<times> node_record) list"
  nc_by_destination :: "(string \<times> string) list"
  nc_refresh :: refresh_meta

definition build_node_catalog :: "conversions \<Rightarrow> rat \<Rightarrow> catalog_inputs \<Rightarrow> node_catalog res" where
  "build_node_catalog cv clock i =
     (let now = now_or clock (ci_now i) in
      bind_res (map_res (\<lambda>(ih, obs).
          build_node_record cv ih obs (case ci_unread i ih of None \<Rightarrow> 0 | Some n \<Rightarrow> n) (ci_aliases i ih)
            (ih \<in> ci_blocked i) (ci_local i) now) (merge_node_inputs_by_identity (to_text cv) (ci_devices i)))
        (\<lambda>records.
          let nodes = sort_desc (\<lambda>n. (or_zero (nr_last_seen n), nr_display_name n)) records in
          Inr \<lparr>nc_nodes = nodes, nc_by_identity = index_by nr_identity nodes,
               nc_by_destination =
                 fold (\<lambda>(h, ih). AList.update h ih)
                   (concat (map (\<lambda>n. map (\<lambda>r. (rt_destination r, nr_identity n)) (nr_routes n)) records)) [],
               nc_refresh = ready_at now\<rparr>))"

section \<open>Groups\<close>

lemma map_of_add_to: "map_of (add_to k v m) j = (if j = k then Some ((case map_of m k of None \<Rightarrow> [] | Some vs \<Rightarrow> vs) @ [v]) else map_of m j)"
  by (simp add: add_to_def update_conv')

lemma distinct_add_to: "distinct (map fst m) \<Longrightarrow> distinct (map fst (add_to k v m))"
  by (simp add: add_to_def distinct_update)

lemma merge_node_inputs_snoc:
  "merge_node_inputs_by_identity text_of (obs @ [ob]) =
     (let k = get_identity_key text_of ob in if k = [] then id else add_to k ob) (merge_node_inputs_by_identity text_of obs)"
  by (simp add: merge_node_inputs_by_identity_def)

text \<open>The group of a key holds its devices, in their order.\<close>

lemma map_of_groups:
  "map_of (merge_node_inputs_by_identity text_of obs) k =
     (let g = filter (\<lambda>ob. get_identity_key text_of ob = k) obs in if k = [] \<or> g = [] then None else Some g)"
proof (induction obs rule: rev_induct)
  case Nil
  then show ?case by (simp add: merge_node_inputs_by_identity_def Let_def)
next
  case (snoc ob obs)
  then show ?case by (auto simp: merge_node_inputs_snoc map_of_add_to Let_def)
qed

lemma distinct_groups: "distinct (map fst (merge_node_inputs_by_identity text_of obs))"
proof (induction obs rule: rev_induct)
  case Nil
  then show ?case by (simp add: merge_node_inputs_by_identity_def)
next
  case (snoc ob obs)
  then show ?case by (simp add: merge_node_inputs_snoc distinct_add_to Let_def)
qed

lemma group_member:
  "(k, g) \<in> set (merge_node_inputs_by_identity text_of obs) \<longleftrightarrow>
     k \<noteq> [] \<and> g \<noteq> [] \<and> g = filter (\<lambda>ob. get_identity_key text_of ob = k) obs"
  unfolding map_of_eq_Some_iff [OF distinct_groups, symmetric] map_of_groups by (auto simp: Let_def)

lemma group_keys: "fst ` set (merge_node_inputs_by_identity text_of obs) = get_identity_key text_of ` set obs - {[]}"
  unfolding dom_map_of_conv_image_fst [symmetric]
  by (auto simp: dom_def map_of_groups Let_def filter_empty_conv split: if_splits)

text \<open>The routes of a group: one for every destination it has.\<close>

lemma first_routes_destinations:
  "rt_destination ` set (first_routes cv seen ds) = (\<lambda>d. d_text cv d ''destination_hash'') ` set ds - insert [] seen \<and>
   distinct (map rt_destination (first_routes cv seen ds))"
  by (induction ds arbitrary: seen) (auto simp: Let_def route_of_def image_iff)

lemma build_routes_destinations:
  "rt_destination ` set (build_routes cv ds) = (\<lambda>d. d_text cv d ''destination_hash'') ` set ds - {[]}"
  using first_routes_destinations [of cv "{}" ds] by (simp add: build_routes_def)

lemma read_group_Inr:
  assumes "read_group cv obs = Inr ds"
  shows "map d_attrs ds = obs" and "map_res (read_time cv) obs = Inr (map d_time ds)"
proof -
  obtain ts cs where t: "map_res (read_time cv) obs = Inr ts" "map_res (read_count cv) obs = Inr cs"
      and ds: "ds = map (\<lambda>(ob, t, c). \<lparr>d_attrs = ob, d_time = t, d_count = c\<rparr>) (zip obs (zip ts cs))"
    using assms by (auto simp: read_group_def)
  have l: "length ts = length obs" "length cs = length obs" using t by (simp_all add: map_res_Inr)
  show "map d_attrs ds = obs" "map_res (read_time cv) obs = Inr (map d_time ds)"
    using l t(1) by (auto simp: ds intro!: nth_equalityI)
qed

lemma map_res_member: "map_res f xs = Inr ys \<Longrightarrow> y \<in> set ys \<longleftrightarrow> (\<exists>x \<in> set xs. f x = Inr y)"
  by (induction xs arbitrary: ys) auto

lemma map_of_fold_pairs:
  "map_of (fold (\<lambda>(h, v). AList.update h v) ps al) k = (case find (\<lambda>p. fst p = k) (rev ps) of None \<Rightarrow> map_of al k | Some p \<Rightarrow> Some (snd p))"
  by (induction ps arbitrary: al) (auto simp: update_conv' find_in_append split: option.splits)

section \<open>What the catalog shows\<close>

definition seen_at :: "conversions \<Rightarrow> attrs \<Rightarrow> rat" where
  "seen_at cv ob = (case read_time cv ob of Inr t \<Rightarrow> t | Inl _ \<Rightarrow> 0)"

lemma map_res_seen: "map_res (read_time cv) obs = Inr ts \<Longrightarrow> ts = map (seen_at cv) obs"
  by (induction obs arbitrary: ts) (auto simp: seen_at_def)

lemma map_res_projection:
  "map_res f xs = Inr ys \<Longrightarrow> (\<And>x y. x \<in> set xs \<Longrightarrow> f x = Inr y \<Longrightarrow> g y = h x) \<Longrightarrow> map g ys = map h xs"
  by (induction xs arbitrary: ys) auto

lemma distinct_sort_desc: "distinct (map g (sort_desc key xs)) \<longleftrightarrow> distinct (map g xs)"
  by (rule mset_eq_imp_distinct_iff) simp

lemma or_zero_nonzero [simp]: "or_zero (nonzero t) = t"
  by (simp add: or_zero_def nonzero_def)

lemma record_of_devices:
  assumes "build_node_record cv ih obs u a b l now = Inr n"
  shows "nr_identity n = ih" and "or_zero (nr_last_seen n) = Max (seen_at cv ` set obs)"
    and "nr_presence n = classify_presence (nr_last_seen n) now"
    and "rt_destination ` set (nr_routes n) = (\<lambda>ob. attr_text (to_text cv) ob ''destination_hash'') ` set obs - {[]}"
proof -
  obtain ds where ds: "read_group cv obs = Inr ds" and n: "n = record_of_group cv ih ds u a b l now"
    using assms by (auto simp: build_node_record_def)
  have 1: "set obs = d_attrs ` set ds" and 2: "seen_at cv ` set obs = d_time ` set ds"
    using read_group_Inr(1) [OF ds] map_res_seen [OF read_group_Inr(2) [OF ds]] by (metis list.set_map)+
  show "nr_identity n = ih" "or_zero (nr_last_seen n) = Max (seen_at cv ` set obs)"
      "nr_presence n = classify_presence (nr_last_seen n) now"
    by (simp_all add: n 2 record_of_group_def Let_def)
  show "rt_destination ` set (nr_routes n) = (\<lambda>ob. attr_text (to_text cv) ob ''destination_hash'') ` set obs - {[]}"
    by (simp add: n 1 record_of_group_def Let_def build_routes_destinations image_image d_text_def)
qed

text \<open>The index by destination is built from the routes of the records.\<close>

definition route_pairs :: "node_record list \<Rightarrow> (string \<times> string) list" where
  "route_pairs ns = concat (map (\<lambda>n. map (\<lambda>r. (rt_destination r, nr_identity n)) (nr_routes n)) ns)"

lemma find_member: "find P xs = Some x \<Longrightarrow> x \<in> set xs \<and> P x"
  by (induction xs) (auto split: if_splits)

lemma route_indexed:
  assumes "n \<in> set ns" and "r \<in> set (nr_routes n)"
  shows "\<exists>m \<in> set ns. map_of (fold (\<lambda>(h, v). AList.update h v) (route_pairs ns) []) (rt_destination r) = Some (nr_identity m) \<and>
    rt_destination r \<in> rt_destination ` set (nr_routes m)"
proof -
  have "(rt_destination r, nr_identity n) \<in> set (route_pairs ns)" using assms by (auto simp: route_pairs_def)
  then obtain p where p: "find (\<lambda>p. fst p = rt_destination r) (rev (route_pairs ns)) = Some p"
    by (cases "find (\<lambda>p. fst p = rt_destination r) (rev (route_pairs ns))") (auto simp: find_None_iff)
  then have "p \<in> set (route_pairs ns)" "fst p = rt_destination r" by (auto dest: find_member)
  then obtain m q where "m \<in> set ns" "q \<in> set (nr_routes m)" "p = (rt_destination q, nr_identity m)"
    by (auto simp: route_pairs_def)
  moreover from this have "rt_destination r \<in> rt_destination ` set (nr_routes m)"
    using \<open>fst p = rt_destination r\<close> by (metis imageI fst_conv)
  ultimately show ?thesis using p \<open>fst p = rt_destination r\<close> by (auto simp: map_of_fold_pairs intro!: bexI [of _ m])
qed

lemma indexed_by_identity:
  assumes "distinct (map nr_identity ns)" and "n \<in> set ns"
  shows "map_of (index_by nr_identity ns) (nr_identity n) = Some n"
proof -
  obtain m where m: "find (\<lambda>x. nr_identity x = nr_identity n) (rev ns) = Some m"
    using assms(2) by (cases "find (\<lambda>x. nr_identity x = nr_identity n) (rev ns)") (auto simp: find_None_iff)
  then have "m \<in> set ns" "nr_identity m = nr_identity n" by (auto dest: find_member)
  then show ?thesis using assms m by (auto simp: map_of_index_by distinct_map inj_on_def)
qed

text \<open>
Claim C34. The catalog shows every peer once, whatever aspects of it have announced: a record for each
identity of the snapshots and no other, the latest seen first, each with the time of the latest announce
of its devices and the presence that follows from it, a route for each destination they have; and the
two indexes lead to the records: that by identity to the record itself, that by destination to a record
with such a route, for every route that a record has.
\<close>

theorem catalog_shows_each_peer_once:
  assumes "build_node_catalog cv clock i = Inr cat"
  shows "distinct (map nr_identity (nc_nodes cat)) \<and>
    set (map nr_identity (nc_nodes cat)) = get_identity_key (to_text cv) ` set (ci_devices i) - {[]} \<and>
    sorted_wrt (\<lambda>m n. or_zero (nr_last_seen n) \<le> or_zero (nr_last_seen m)) (nc_nodes cat) \<and>
    (\<forall>n \<in> set (nc_nodes cat).
      (let group = filter (\<lambda>ob. get_identity_key (to_text cv) ob = nr_identity n) (ci_devices i) in
       or_zero (nr_last_seen n) = Max (seen_at cv ` set group) \<and>
       nr_presence n = classify_presence (nr_last_seen n) (now_or clock (ci_now i)) \<and>
       rt_destination ` set (nr_routes n) = (\<lambda>ob. attr_text (to_text cv) ob ''destination_hash'') ` set group - {[]}) \<and>
      map_of (nc_by_identity cat) (nr_identity n) = Some n \<and>
      (\<forall>r \<in> set (nr_routes n). \<exists>m \<in> set (nc_nodes cat).
        map_of (nc_by_destination cat) (rt_destination r) = Some (nr_identity m) \<and>
        rt_destination r \<in> rt_destination ` set (nr_routes m)))"
proof -
  let ?groups = "merge_node_inputs_by_identity (to_text cv) (ci_devices i)" and ?now = "now_or clock (ci_now i)"
  let ?f = "\<lambda>(ih, obs). build_node_record cv ih obs (case ci_unread i ih of None \<Rightarrow> 0 | Some n \<Rightarrow> n) (ci_aliases i ih)
            (ih \<in> ci_blocked i) (ci_local i) ?now"
  let ?dests = "\<lambda>records. concat (map (\<lambda>n. map (\<lambda>r. (rt_destination r, nr_identity n)) (nr_routes n)) records)"
  obtain records where r: "map_res ?f ?groups = Inr records"
    and nodes: "nc_nodes cat = sort_desc (\<lambda>n. (or_zero (nr_last_seen n), nr_display_name n)) records"
    and byid: "nc_by_identity cat = index_by nr_identity (nc_nodes cat)"
    and bydest: "nc_by_destination cat = fold (\<lambda>(h, ih). AList.update h ih) (?dests records) []"
    using assms by (auto simp: build_node_catalog_def Let_def)
  have rec: "nr_identity n = fst x" if "x \<in> set ?groups" "?f x = Inr n" for x n
    using that(2) by (cases x) (auto dest: record_of_devices(1))
  have ids: "map nr_identity records = map fst ?groups" by (rule map_res_projection [OF r rec])
  have dist: "distinct (map nr_identity (nc_nodes cat))"
    using ids distinct_groups by (simp add: nodes distinct_sort_desc)
  have keys: "set (map nr_identity (nc_nodes cat)) = get_identity_key (to_text cv) ` set (ci_devices i) - {[]}"
  proof -
    have "set (map nr_identity (nc_nodes cat)) = fst ` set ?groups" using ids by (simp add: nodes) (metis list.set_map)
    then show ?thesis by (simp only: group_keys)
  qed
  have order: "sorted_wrt (\<lambda>m n. or_zero (nr_last_seen n) \<le> or_zero (nr_last_seen m)) (nc_nodes cat)"
    by (rule sorted_wrt_mono_rel [OF _ sorted_sort_desc [of "\<lambda>n. (or_zero (nr_last_seen n), nr_display_name n)" records, folded nodes]])
      (auto simp: less_eq_prod_def)
  have group: "?f (nr_identity n, filter (\<lambda>ob. get_identity_key (to_text cv) ob = nr_identity n) (ci_devices i)) = Inr n"
    if n: "n \<in> set (nc_nodes cat)" for n
  proof -
    have "n \<in> set records" using n by (simp add: nodes)
    then obtain k g where x: "(k, g) \<in> set ?groups" "?f (k, g) = Inr n"
      using map_res_member [OF r, of n] by auto
    then show ?thesis using rec [OF x] by (auto simp: group_member)
  qed
  show ?thesis
    using dist keys order record_of_devices(2-4) [OF group [simplified]] indexed_by_identity [OF dist]
      route_indexed [of _ records] by (simp add: Let_def byid bydest nodes route_pairs_def)
qed

definition demo_conversions :: conversions where
  "demo_conversions =
     \<lparr>to_text = (\<lambda>_. []), to_float = (\<lambda>v. Inr (case number v of Some q \<Rightarrow> q | None \<Rightarrow> 0)), to_int = (\<lambda>_. Inr 0)\<rparr>"

definition demo_catalog :: catalog_inputs where
  "demo_catalog =
     \<lparr>ci_devices = [[(''identity_hash'', PStr ''a''), (''destination_hash'', PStr ''d1''), (''last_announce'', PFloat 50)],
                    [(''identity_hash'', PStr ''a''), (''destination_hash'', PStr ''d2''), (''last_announce'', PFloat 90)]],
      ci_unread = Map.empty, ci_aliases = Map.empty, ci_blocked = {}, ci_local = None, ci_now = Some 100\<rparr>"

lemma singleton_list: "distinct (map f xs) \<Longrightarrow> set (map f xs) = {a} \<Longrightarrow> \<exists>x. xs = [x] \<and> f x = a"
  by (cases xs rule: remdups_adj.cases) auto

theorem catalog_shows_each_peer_once_witness:
  "\<exists>cat n. build_node_catalog demo_conversions 0 demo_catalog = Inr cat \<and> nc_nodes cat = [n] \<and> nr_identity n = ''a'' \<and>
     or_zero (nr_last_seen n) = 90 \<and> map_of (nc_by_destination cat) ''d1'' = Some ''a''"
proof -
  obtain cat where c: "build_node_catalog demo_conversions 0 demo_catalog = Inr cat"
    by (simp add: build_node_catalog_def demo_catalog_def merge_node_inputs_by_identity_def get_identity_key_def attr_text_def
        attr_def py_or_def py_str_def add_to_def build_node_record_def read_group_def read_time_def read_count_def
        demo_conversions_def Let_def)
  have keys: "map (get_identity_key (to_text demo_conversions)) (ci_devices demo_catalog) = [''a'', ''a'']"
    and dests: "map (\<lambda>ob. attr_text (to_text demo_conversions) ob ''destination_hash'') (ci_devices demo_catalog) = [''d1'', ''d2'']"
    and times: "map (seen_at demo_conversions) (ci_devices demo_catalog) = [50, 90]"
    by (simp_all add: demo_catalog_def get_identity_key_def attr_text_def attr_def py_or_def py_str_def seen_at_def read_time_def
        demo_conversions_def)
  have grp: "filter (\<lambda>ob. get_identity_key (to_text demo_conversions) ob = ''a'') (ci_devices demo_catalog) = ci_devices demo_catalog"
    using keys by (auto simp: filter_id_conv map_eq_Cons_conv)
  note all = catalog_shows_each_peer_once [OF c]
  have "set (map nr_identity (nc_nodes cat)) = {''a''}"
    unfolding all [THEN conjunct2, THEN conjunct1] set_map [symmetric] keys by simp
  then obtain n where n: "nc_nodes cat = [n]" "nr_identity n = ''a''"
    using singleton_list [OF all [THEN conjunct1]] by metis
  note node = all [THEN conjunct2, THEN conjunct2, THEN conjunct2, unfolded n(1) Let_def, THEN bspec, OF list.set_intros(1)]
  have max: "Max (seen_at demo_conversions ` set (ci_devices demo_catalog)) = 90"
    unfolding set_map [symmetric] times by simp
  have t: "or_zero (nr_last_seen n) = 90" using node [THEN conjunct1] by (simp only: n(2) grp max)
  have "rt_destination ` set (nr_routes n) = {''d1'', ''d2''}"
    using node [THEN conjunct1] unfolding n(2) grp set_map [symmetric] dests by (auto simp del: list.set_map)
  then obtain r where "r \<in> set (nr_routes n)" "rt_destination r = ''d1''" by (metis imageE insertI1)
  then have "map_of (nc_by_destination cat) ''d1'' = Some ''a''" using node [THEN conjunct2, THEN conjunct2] n(2) by auto
  then show ?thesis using c n t by blast
qed

end
