(* ===== verification/Ui_Mail.thy ===== *)
theory Ui_Mail
  imports Ui_Nodes
begin

text \<open>
  The index of the conversations (\<^verbatim>\<open>src/styrened/ui_state/mail.py\<close>): the raw threads of the daemon,
  dictionaries or objects, become records with their scope, their latest message, the transports it came
  by and, for rooms and forums, what is known of those.
\<close>

section \<open>Records\<close>

datatype scope_kind = DIRECT_SCOPE | GROUP_SCOPE | FORUM_SCOPE

definition SCOPE_MAP :: "string \<Rightarrow> scope_kind option" where
  "SCOPE_MAP = map_of [(''direct'', DIRECT_SCOPE), (''group'', GROUP_SCOPE), (''forum'', FORUM_SCOPE)]"

datatype path_class = HIGH_PATH | CONSTRAINED_PATH | STORE_AND_FORWARD_PATH | UNKNOWN_PATH

definition PATH_CLASS_MAP :: "string \<Rightarrow> path_class option" where
  "PATH_CLASS_MAP = map_of [(''high'', HIGH_PATH), (''constrained'', CONSTRAINED_PATH),
     (''store-and-forward'', STORE_AND_FORWARD_PATH), (''store_and_forward'', STORE_AND_FORWARD_PATH), (''unknown'', UNKNOWN_PATH)]"

datatype media_friction = NO_FRICTION | CONFIRM_MEDIA | AVOID_MEDIA

definition MEDIA_FRICTION_MAP :: "string \<Rightarrow> media_friction option" where
  "MEDIA_FRICTION_MAP = map_of [(''none'', NO_FRICTION), (''confirm'', CONFIRM_MEDIA), (''avoid'', AVOID_MEDIA)]"

datatype feature_tier = MINIMAL_TIER | BALANCED_TIER | FULL_TIER

definition FEATURE_TIER_MAP :: "string \<Rightarrow> feature_tier option" where
  "FEATURE_TIER_MAP = map_of [(''minimal'', MINIMAL_TIER), (''balanced'', BALANCED_TIER), (''full'', FULL_TIER)]"

record transport_meta =
  tm_transport :: string
  tm_via_bridge :: bool
  tm_bridge_kind :: "string option"
  tm_fallback :: bool

record group_participant =
  gp_identity :: string
  gp_display_name :: "string option"
  gp_highest :: "string option"
  gp_fallbacks :: "string list"
  gp_path_class :: path_class
  gp_friction :: media_friction
  gp_confirm :: bool

record group_policy =
  po_tier :: feature_tier
  po_bounded :: bool
  po_auto_media :: bool
  po_metadata_first :: bool
  po_catchup :: bool

record group_meta =
  gm_room :: string
  gm_name :: "string option"
  gm_epoch :: "string option"
  gm_members :: "int option"
  gm_participants :: "group_participant list"
  gm_policy :: group_policy

record forum_meta =
  fm_topic :: string
  fm_title :: "string option"
  fm_page :: "string option"

record mail_message =
  mm_id :: string
  mm_thread :: string
  mm_sender :: "string option"
  mm_preview :: string
  mm_timestamp :: "rat option"
  mm_outgoing :: bool
  mm_transport :: "transport_meta option"

record mail_thread =
  mt_id :: string
  mt_scope :: scope_kind
  mt_name :: string
  mt_participant :: "string option"
  mt_unread :: int
  mt_latest :: mail_message
  mt_transports :: "transport_meta list"
  mt_group :: "group_meta option"
  mt_forum :: "forum_meta option"

section \<open>Raw threads\<close>

text \<open>
  A raw thread is a dictionary, or an object; an object may have objects as attributes, and the entries
  of its transports may be records already.
\<close>

datatype raw_thread =
  RawDict pydict
| RawObject attrs "(string \<times> attrs) list" "(transport_meta + pyval) list option"

text \<open>\<^verbatim>\<open>raw.get(k)\<close> or \<^verbatim>\<open>getattr(raw, k, None)\<close>.\<close>

definition field :: "raw_thread \<Rightarrow> string \<Rightarrow> pyval" where
  "field r k = (case r of RawDict d \<Rightarrow> d_get_or d k PNone | RawObject ob _ _ \<Rightarrow> attr ob k)"

text \<open>The first of some fields that is not empty, or the last.\<close>

fun first_of :: "raw_thread \<Rightarrow> string list \<Rightarrow> pyval" where
  "first_of r [] = PNone"
| "first_of r [k] = field r k"
| "first_of r (k # ks) = py_or (field r k) (first_of r ks)"

definition dict_of :: "pyval \<Rightarrow> pydict option" where
  "dict_of v = (case v of PDict d \<Rightarrow> Some d | _ \<Rightarrow> None)"

definition safe_float :: "conversions \<Rightarrow> pyval \<Rightarrow> rat option" where
  "safe_float cv v = (if v = PNone then None else case to_float cv v of Inl _ \<Rightarrow> None | Inr q \<Rightarrow> Some q)"

text \<open>\<^verbatim>\<open>_safe_int\<close> with a minimum and a default of zero, as it is always called.\<close>

definition safe_int :: "conversions \<Rightarrow> pyval \<Rightarrow> int" where
  "safe_int cv v = (case to_int cv v of Inl _ \<Rightarrow> 0 | Inr i \<Rightarrow> max 0 i)"

definition safe_text :: "conversions \<Rightarrow> pyval \<Rightarrow> string option" where
  "safe_text cv v = (if v = PNone then None else Some (py_str (to_text cv) v))"

text \<open>\<^verbatim>\<open>_safe_text(v) or dflt\<close>.\<close>

definition text_or :: "conversions \<Rightarrow> pyval \<Rightarrow> string \<Rightarrow> string" where
  "text_or cv v dflt = (if given (safe_text cv v) then the (safe_text cv v) else dflt)"

definition coerce_scope :: "conversions \<Rightarrow> raw_thread \<Rightarrow> scope_kind" where
  "coerce_scope cv r =
     (let v = py_str (to_text cv) (py_or (first_of r [''scope_kind'', ''thread_scope'', ''scope'']) (PStr ''direct'')) in
      case SCOPE_MAP (lower v) of Some s \<Rightarrow> s | None \<Rightarrow> DIRECT_SCOPE)"

definition coerce_path_class :: "conversions \<Rightarrow> pyval \<Rightarrow> path_class" where
  "coerce_path_class cv v = (case PATH_CLASS_MAP (lower (text_or cv v ''unknown'')) of Some p \<Rightarrow> p | None \<Rightarrow> UNKNOWN_PATH)"

definition coerce_media_friction :: "conversions \<Rightarrow> pyval \<Rightarrow> bool \<Rightarrow> media_friction" where
  "coerce_media_friction cv v confirm =
     (case MEDIA_FRICTION_MAP (lower (text_or cv v [])) of
        Some f \<Rightarrow> f
      | None \<Rightarrow> if confirm then CONFIRM_MEDIA else NO_FRICTION)"

definition coerce_feature_tier :: "conversions \<Rightarrow> pyval \<Rightarrow> feature_tier" where
  "coerce_feature_tier cv v =
     (case FEATURE_TIER_MAP (lower (text_or cv v ''balanced'')) of Some t \<Rightarrow> t | None \<Rightarrow> BALANCED_TIER)"

section \<open>Messages and transports\<close>

text \<open>The transport that the fields of a thread, or of an entry of its transports, tell of.\<close>

definition transport_from :: "conversions \<Rightarrow> raw_thread \<Rightarrow> transport_meta option" where
  "transport_from cv r =
     (let t = first_of r [''transport'', ''transport_kind'']; s = text_or cv t [] in
      if \<not> truthy t \<or> s = [] then None
      else Some \<lparr>tm_transport = s, tm_via_bridge = truthy (field r ''via_bridge''),
                 tm_bridge_kind = safe_text cv (field r ''bridge_kind''), tm_fallback = truthy (field r ''fallback_used'')\<rparr>)"

definition message_record :: "conversions \<Rightarrow> string \<Rightarrow> raw_thread \<Rightarrow> mail_message" where
  "message_record cv tid r =
     (let mid = py_str (to_text cv) (py_or (first_of r [''message_id'', ''id'']) (PStr [])) in
      \<lparr>mm_id = (if mid = [] then tid @ '':latest'' else mid), mm_thread = tid,
       mm_sender = safe_text cv (first_of r [''sender_identity'', ''peer_hash'']),
       mm_preview = py_str (to_text cv) (py_or (first_of r [''last_message_preview'', ''preview'']) (PStr [])),
       mm_timestamp = safe_float cv (first_of r [''last_message_time'', ''timestamp'']),
       mm_outgoing = truthy (field r ''is_outgoing''), mm_transport = transport_from cv r\<rparr>)"

definition entry_transport :: "conversions \<Rightarrow> transport_meta + pyval \<Rightarrow> transport_meta option" where
  "entry_transport cv x =
     (case x of Inl t \<Rightarrow> Some t | Inr (PDict d) \<Rightarrow> transport_from cv (RawDict d) | Inr _ \<Rightarrow> None)"

definition raw_transports :: "raw_thread \<Rightarrow> (transport_meta + pyval) list" where
  "raw_transports r =
     (case r of
        RawObject _ _ (Some xs) \<Rightarrow> xs
      | _ \<Rightarrow> (case field r ''transports'' of PList vs \<Rightarrow> map Inr vs | _ \<Rightarrow> []))"

text \<open>
  The dictionary that removes duplicates has all that a transport is for its key, so it keeps the first
  of equal ones.
\<close>

definition unique :: "'a list \<Rightarrow> 'a list" where
  "unique xs = rev (remdups (rev xs))"

definition transports :: "conversions \<Rightarrow> raw_thread \<Rightarrow> mail_message \<Rightarrow> transport_meta list" where
  "transports cv r latest =
     unique ((case mm_transport latest of None \<Rightarrow> [] | Some t \<Rightarrow> [t]) @ List.map_filter (entry_transport cv) (raw_transports r))"

section \<open>Rooms and forums\<close>

definition participant_from :: "conversions \<Rightarrow> pyval \<Rightarrow> group_participant option" where
  "participant_from cv item =
     (case item of
        PDict d \<Rightarrow>
          (let r = RawDict d; ih = text_or cv (first_of r [''identity'', ''identity_hash'', ''peer_identity'']) [];
               confirm = truthy (field r ''requires_media_confirmation'') in
           if ih = [] then None
           else Some \<lparr>gp_identity = ih, gp_display_name = safe_text cv (first_of r [''display_name'', ''name'']),
                      gp_highest = safe_text cv (first_of r [''highest_available_interface'', ''best_interface'']),
                      gp_fallbacks = (case field r ''fallback_interfaces'' of
                          PList vs \<Rightarrow> filter (\<lambda>t. t \<noteq> []) (List.map_filter (safe_text cv) vs) | _ \<Rightarrow> []),
                      gp_path_class = coerce_path_class cv (first_of r [''delivery_path_class'', ''path_class'']),
                      gp_friction = coerce_media_friction cv (field r ''media_friction'') confirm,
                      gp_confirm = confirm\<rparr>)
      | _ \<Rightarrow> None)"

definition group_participants :: "conversions \<Rightarrow> raw_thread \<Rightarrow> group_participant list" where
  "group_participants cv r =
     (case field r ''participants'' of PList vs \<Rightarrow> List.map_filter (participant_from cv) vs | _ \<Rightarrow> [])"

definition group_policy_of :: "conversions \<Rightarrow> raw_thread \<Rightarrow> group_policy" where
  "group_policy_of cv r =
     (let data = (case field r ''group_policy'' of
                    PDict d \<Rightarrow> d
                  | _ \<Rightarrow> (case field r ''policy'' of PDict d \<Rightarrow> d | _ \<Rightarrow> [])) in
      \<lparr>po_tier = coerce_feature_tier cv (d_get_or data ''feature_tier'' PNone),
       po_bounded = flag data ''bounded_retention'' False, po_auto_media = flag data ''auto_media_fetch'' True,
       po_metadata_first = flag data ''metadata_first_sync'' False, po_catchup = flag data ''background_catchup'' True\<rparr>)"

text \<open>
  The nested field \<open>k\<close> of the section \<open>s\<close>: of a dictionary in a dictionary, of an object in an object.
  A dictionary in an object has no such attributes.
\<close>

definition nested :: "raw_thread \<Rightarrow> string \<Rightarrow> string \<Rightarrow> pyval" where
  "nested r s k =
     (case r of
        RawDict d \<Rightarrow> (case dict_of (field r s) of Some n \<Rightarrow> d_get_or n k PNone | None \<Rightarrow> PNone)
      | RawObject _ subs _ \<Rightarrow> (case map_of subs s of Some n \<Rightarrow> attr n k | None \<Rightarrow> PNone))"

definition own_or_nested :: "raw_thread \<Rightarrow> string \<Rightarrow> string \<Rightarrow> pyval" where
  "own_or_nested r s k = py_or (field r k) (nested r s k)"

text \<open>The section itself when it is a dictionary, and the thread otherwise.\<close>

definition section_or_thread :: "raw_thread \<Rightarrow> string \<Rightarrow> raw_thread" where
  "section_or_thread r s =
     (case r of
        RawObject _ subs _ \<Rightarrow> (if map_of subs s \<noteq> None then r else case dict_of (field r s) of Some d \<Rightarrow> RawDict d | None \<Rightarrow> r)
      | RawDict _ \<Rightarrow> (case dict_of (field r s) of Some d \<Rightarrow> RawDict d | None \<Rightarrow> r))"

definition group_meta_of :: "conversions \<Rightarrow> raw_thread \<Rightarrow> group_meta option" where
  "group_meta_of cv r =
     (let room = own_or_nested r ''group'' ''room_id''; room_text = text_or cv room []; src = section_or_thread r ''group'';
          mc = (if field r ''member_count'' \<noteq> PNone then field r ''member_count'' else nested r ''group'' ''member_count'');
          ps = group_participants cv src in
      if \<not> truthy room \<or> room_text = [] then None
      else Some \<lparr>gm_room = room_text, gm_name = safe_text cv (own_or_nested r ''group'' ''room_name''),
                 gm_epoch = safe_text cv (own_or_nested r ''group'' ''epoch_id''),
                 gm_members = (if mc \<noteq> PNone then Some (safe_int cv mc) else if ps \<noteq> [] then Some (int (length ps)) else None),
                 gm_participants = ps, gm_policy = group_policy_of cv src\<rparr>)"

definition forum_meta_of :: "conversions \<Rightarrow> raw_thread \<Rightarrow> forum_meta option" where
  "forum_meta_of cv r =
     (let topic = own_or_nested r ''forum'' ''topic_id''; topic_text = text_or cv topic [] in
      if \<not> truthy topic \<or> topic_text = [] then None
      else Some \<lparr>fm_topic = topic_text, fm_title = safe_text cv (own_or_nested r ''forum'' ''topic_title''),
                 fm_page = safe_text cv (own_or_nested r ''forum'' ''page_ref'')\<rparr>)"

section \<open>The index\<close>

definition participant_of :: "raw_thread \<Rightarrow> pyval" where
  "participant_of r = first_of r [''peer_identity'', ''peer_hash'']"

definition thread_id :: "conversions \<Rightarrow> raw_thread \<Rightarrow> string" where
  "thread_id cv r =
     text_or cv (py_or (first_of r [''thread_id'', ''room_id'', ''topic_id''])
       (py_or (participant_of r) (py_or (field r ''id'') (PStr [])))) []"

definition display_name :: "conversions \<Rightarrow> raw_thread \<Rightarrow> string" where
  "display_name cv r =
     text_or cv (py_or (first_of r [''display_name'', ''alias'', ''room_name'', ''topic_title''])
       (py_or (participant_of r) (PStr (thread_id cv r)))) (thread_id cv r)"

definition thread_from :: "conversions \<Rightarrow> raw_thread \<Rightarrow> mail_thread option" where
  "thread_from cv r =
     (let tid = thread_id cv r; scope = coerce_scope cv r; latest = message_record cv tid r in
      if tid = [] then None
      else Some \<lparr>mt_id = tid, mt_scope = scope, mt_name = display_name cv r,
                 mt_participant = safe_text cv (participant_of r),
                 mt_unread = safe_int cv (py_or (field r ''unread_count'') (PInt 0)), mt_latest = latest,
                 mt_transports = transports cv r latest,
                 mt_group = (if scope = GROUP_SCOPE then group_meta_of cv r else None),
                 mt_forum = (if scope = FORUM_SCOPE then forum_meta_of cv r else None)\<rparr>)"

record mail_index =
  mi_threads :: "mail_thread list"
  mi_by_id :: "(string \<times> mail_thread) list"
  mi_refresh :: refresh_meta

definition latest_time :: "mail_thread \<Rightarrow> rat" where
  "latest_time t = (case mm_timestamp (mt_latest t) of None \<Rightarrow> 0 | Some q \<Rightarrow> q)"

definition build_mail_index :: "conversions \<Rightarrow> rat \<Rightarrow> raw_thread list \<Rightarrow> rat option \<Rightarrow> mail_index" where
  "build_mail_index cv clock raws now =
     (let sorted = sort_desc latest_time (List.map_filter (thread_from cv) raws) in
      \<lparr>mi_threads = sorted, mi_by_id = index_by mt_id sorted, mi_refresh = ready_at (now_or clock now)\<rparr>)"

section \<open>What the index shows\<close>

lemma unique_facts: "distinct (unique xs)" "set (unique xs) = set xs"
  by (simp_all add: unique_def)

lemma map_filter_member: "y \<in> set (List.map_filter f xs) \<longleftrightarrow> (\<exists>x \<in> set xs. f x = Some y)"
  by (induction xs) (auto simp: map_filter_simps split: option.split)

lemma thread_from_facts:
  assumes "thread_from cv r = Some t"
  shows "mt_id t = thread_id cv r" and "mt_id t \<noteq> []" and "0 \<le> mt_unread t" and "distinct (mt_transports t)"
    and "mt_latest t = message_record cv (mt_id t) r" and "set_option (mm_transport (mt_latest t)) \<subseteq> set (mt_transports t)"
    and "mt_group t = None \<or> mt_forum t = None"
  using assms
  by (auto simp: thread_from_def Let_def safe_int_def transports_def unique_facts split: if_splits sum.splits option.splits)

text \<open>The entry that an index by key keeps is the last of its key, so in a descending list one of the least.\<close>

lemma find_rev_desc:
  assumes "sorted_wrt (\<lambda>x y. f y \<le> (f x :: 'b :: linorder)) xs" and "find P (rev xs) = Some m" and "x \<in> set xs" and "P x"
  shows "f m \<le> f x"
  using assms
proof (induction xs rule: rev_induct)
  case (snoc a xs)
  show ?case
  proof (cases "P a")
    case True
    then show ?thesis using snoc.prems by (auto simp: sorted_wrt_append)
  next
    case False
    then show ?thesis using snoc by (auto simp: sorted_wrt_append)
  qed
qed simp

text \<open>
Claim C35. The index lists the conversations with an identifier, each with what its raw thread says,
those with the latest messages first, no transport twice, and it finds every identifier; but when one
identifier comes twice, the entry it finds is the one whose latest message is the oldest.
\<close>

theorem index_finds_every_thread:
  assumes "r \<in> set raws" and "thread_id cv r \<noteq> []"
  shows "\<exists>t m. t \<in> set (mi_threads (build_mail_index cv clock raws now)) \<and> thread_from cv r = Some t \<and>
    map_of (mi_by_id (build_mail_index cv clock raws now)) (thread_id cv r) = Some m \<and>
    mt_id m = thread_id cv r \<and> m \<in> set (mi_threads (build_mail_index cv clock raws now)) \<and>
    latest_time m \<le> latest_time t \<and> 0 \<le> mt_unread m \<and> distinct (mt_transports m) \<and>
    set_option (mm_transport (mt_latest m)) \<subseteq> set (mt_transports m) \<and>
    sorted_wrt (\<lambda>x y. latest_time y \<le> latest_time x) (mi_threads (build_mail_index cv clock raws now))"
proof -
  let ?ts = "mi_threads (build_mail_index cv clock raws now)"
  have ts: "?ts = sort_desc latest_time (List.map_filter (thread_from cv) raws)"
    by (simp add: build_mail_index_def Let_def)
  obtain t where t: "thread_from cv r = Some t" using assms(2) by (simp add: thread_from_def Let_def)
  have in_ts: "t \<in> set ?ts" using assms(1) t by (auto simp: ts map_filter_member)
  have order: "sorted_wrt (\<lambda>x y. latest_time y \<le> latest_time x) ?ts" unfolding ts by (rule sorted_sort_desc)
  obtain m where m: "find (\<lambda>x. mt_id x = thread_id cv r) (rev ?ts) = Some m"
    using in_ts thread_from_facts(1) [OF t] by (cases "find (\<lambda>x. mt_id x = thread_id cv r) (rev ?ts)") (auto simp: find_None_iff)
  have m_in: "m \<in> set ?ts" "mt_id m = thread_id cv r" using find_member [OF m] by auto
  obtain r' where r': "thread_from cv r' = Some m" using m_in(1) by (auto simp: ts map_filter_member)
  have "latest_time m \<le> latest_time t"
    by (rule find_rev_desc [OF order m in_ts]) (simp add: thread_from_facts(1) [OF t])
  moreover have "map_of (mi_by_id (build_mail_index cv clock raws now)) (thread_id cv r) = Some m"
    using m by (simp add: build_mail_index_def Let_def map_of_index_by)
  ultimately show ?thesis using t in_ts m_in order thread_from_facts(3,4,6) [OF r'] by blast
qed

text \<open>An object whose room is described by a dictionary loses its room.\<close>

lemma room_in_dictionary_lost:
  assumes "map_of subs ''group'' = None" and "\<not> truthy (attr ob ''room_id'')"
  shows "group_meta_of cv (RawObject ob subs ts) = None"
  using assms by (simp add: group_meta_of_def own_or_nested_def nested_def field_def py_or_def Let_def)


definition two_reports :: "raw_thread list" where
  "two_reports =
     [RawDict [(PStr ''peer_hash'', PStr ''p''), (PStr ''timestamp'', PInt 20)],
      RawObject [(''peer_hash'', PStr ''p''), (''timestamp'', PInt 10)] [] None]"

theorem index_finds_every_thread_witness:
  "\<exists>m. map_of (mi_by_id (build_mail_index demo_conversions 0 two_reports None)) ''p'' = Some m \<and> latest_time m \<le> 10"
proof -
  let ?r = "RawObject [(''peer_hash'', PStr ''p''), (''timestamp'', PInt 10)] [] None"
  have i: "thread_id demo_conversions ?r = ''p''"
    by (simp add: thread_id_def field_def participant_of_def attr_def py_or_def text_or_def safe_text_def given_def py_str_def)
  then have "latest_time t = 10" if "thread_from demo_conversions ?r = Some t" for t
    using that by (auto simp: thread_from_def Let_def latest_time_def message_record_def field_def attr_def py_or_def
        safe_float_def demo_conversions_def)
  then show ?thesis
    using index_finds_every_thread [of ?r two_reports demo_conversions 0 None] i by (auto simp: two_reports_def)
qed

end
