(* ===== verification/Ui_Daemon.thy ===== *)
theory Ui_Daemon
  imports Ui_Mail Hub_Connection
begin

text \<open>
  The state of the local daemon and of the Home panels (\<^verbatim>\<open>src/styrened/ui_state/daemon.py\<close>). A status
  object is what \<^verbatim>\<open>getattr\<close> finds in it; the dictionaries are those the daemon answers with. What the
  hardware report holds is kept as the argument it is.
\<close>

section \<open>The local daemon\<close>

definition hub_status_of :: "pyval \<Rightarrow> hub_status option" where
  "hub_status_of v =
     (case v of
        PStr s \<Rightarrow> map_of [(''disabled'', DISABLED), (''waiting'', WAITING), (''connected'', CONNECTED), (''disconnected'', DISCONNECTED)] s
      | _ \<Rightarrow> None)"

record overlay_runtime =
  or_state :: capability_state
  or_mode :: "string option"
  or_running :: bool
  or_address :: pyval
  or_peers :: pyval
  or_warning :: pyval

definition OverlayRuntimeState :: overlay_runtime where
  "OverlayRuntimeState =
     \<lparr>or_state = UNSUPPORTED, or_mode = None, or_running = False, or_address = PNone, or_peers = PNone, or_warning = PNone\<rparr>"

text \<open>\<^verbatim>\<open>(section or {})\<close>, which is then read as a dictionary.\<close>

definition section_dict :: "pyval \<Rightarrow> pydict res" where
  "section_dict v = (case v of PDict d \<Rightarrow> Inr d | _ \<Rightarrow> if truthy v then Inl AttributeError else Inr [])"

definition overlay_state :: "conversions \<Rightarrow> pyval \<Rightarrow> pydict \<Rightarrow> string \<Rightarrow> overlay_runtime res" where
  "overlay_state cv sec runtime address_key =
     bind_res (section_dict sec) (\<lambda>c.
       let mode = py_str (to_text cv) (py_or (d_get_or c ''mode'' (PStr [])) (PStr [])); running = flag runtime ''running'' False in
       Inr (if mode = [] \<or> mode = ''disabled'' then OverlayRuntimeState
            else \<lparr>or_state = (if running then AVAILABLE else UNAVAILABLE), or_mode = Some mode, or_running = running,
                  or_address = d_get_or runtime address_key PNone, or_peers = d_get_or runtime ''peer_count'' PNone,
                  or_warning = d_get_or runtime ''warning'' PNone\<rparr>))"

record daemon_inputs =
  dn_status :: "attrs option"
  dn_identity :: "attrs option"
  dn_hub :: pydict
  dn_config :: pydict
  dn_ygg :: pydict
  dn_i2p :: pydict
  dn_now :: "rat option"

record daemon_state =
  dm_running :: bool
  dm_identity :: pyval
  dm_hub_connected :: bool
  dm_hub_status :: hub_status
  dm_hub_address :: pyval
  dm_hub_destination :: pyval
  dm_ygg :: overlay_runtime
  dm_i2p :: overlay_runtime
  dm_tier :: feature_tier
  dm_groups_enabled :: bool
  dm_bounded :: bool
  dm_auto_media :: bool
  dm_metadata_first :: bool
  dm_warnings :: "string list"
  dm_refresh :: refresh_meta

definition status_attr :: "attrs option \<Rightarrow> string \<Rightarrow> pyval" where
  "status_attr ob k = (case ob of None \<Rightarrow> PNone | Some a \<Rightarrow> attr a k)"

definition build_local_daemon_state :: "conversions \<Rightarrow> rat \<Rightarrow> daemon_inputs \<Rightarrow> daemon_state res" where
  "build_local_daemon_state cv clock i =
     (let hub = dn_hub i; cfg = dn_config i; connected = flag hub ''is_connected'' False in
      bind_res (section_dict (d_get_or cfg ''group_threads'' PNone)) (\<lambda>groups.
      bind_res (overlay_state cv (d_get_or cfg ''yggdrasil'' PNone) (dn_ygg i) ''address'') (\<lambda>ygg.
      bind_res (overlay_state cv (d_get_or cfg ''i2p'' PNone) (dn_i2p i) ''b32_address'') (\<lambda>i2p.
        Inr \<lparr>dm_running = truthy (status_attr (dn_status i) ''rns_initialized''),
             dm_identity = status_attr (dn_identity i) ''identity_hash'', dm_hub_connected = connected,
             dm_hub_status = (case hub_status_of (d_get_or hub ''status'' (PStr ''disabled'')) of
                                Some s \<Rightarrow> s | None \<Rightarrow> if connected then CONNECTED else DISABLED),
             dm_hub_address = py_or (d_get_or hub ''hub_address'' PNone) (status_attr (dn_status i) ''hub_address''),
             dm_hub_destination = d_get_or hub ''hub_destination'' PNone, dm_ygg = ygg, dm_i2p = i2p,
             dm_tier = (case FEATURE_TIER_MAP (lower (py_str (to_text cv) (d_get_or groups ''feature_tier'' (PStr ''balanced'')))) of
                          Some t \<Rightarrow> t | None \<Rightarrow> BALANCED_TIER),
             dm_groups_enabled = flag groups ''enabled'' True, dm_bounded = flag groups ''bounded_retention'' False,
             dm_auto_media = flag groups ''auto_media_fetch'' True,
             dm_metadata_first = flag groups ''metadata_first_sync'' False,
             dm_warnings = (if dn_status i \<noteq> None \<and> \<not> truthy (status_attr (dn_status i) ''lxmf_initialized'')
                            then [''LXMF not initialized''] else []),
             dm_refresh = ready_at (now_or clock (dn_now i))\<rparr>))))"

section \<open>The Home panels\<close>

record 'h home_local =
  hl_system_info :: "'h option"
  hl_interface :: "'h option"
  hl_removable :: int
  hl_error :: "string option"
  hl_mode :: string
  hl_display_name :: string
  hl_icon :: string
  hl_short_name :: "string option"
  hl_tier :: string
  hl_refresh :: refresh_meta

text \<open>The time given counts when it is not zero.\<close>

definition build_home_node_local_state ::
    "rat \<Rightarrow> 'h option \<Rightarrow> 'h option \<Rightarrow> int \<Rightarrow> string option \<Rightarrow> string \<Rightarrow> string \<Rightarrow> string \<Rightarrow> string option \<Rightarrow> string \<Rightarrow> rat option
      \<Rightarrow> 'h home_local" where
  "build_home_node_local_state clock info iface removable err mode dname icon sname provider at_time =
     \<lparr>hl_system_info = info, hl_interface = iface, hl_removable = removable, hl_error = err, hl_mode = mode,
      hl_display_name = dname, hl_icon = icon, hl_short_name = sname,
      hl_tier = (if provider = ''yubikey'' then ''YubiKey/FIDO2'' else ''X25519''),
      hl_refresh = (ready_at (if or_zero at_time = 0 then clock else or_zero at_time))\<lparr>rm_source := ''local''\<rparr>\<rparr>"

record home_info =
  hi_connected :: bool
  hi_version :: string
  hi_uptime :: rat
  hi_identity :: pyval
  hi_hub :: hub_status
  hi_mesh_count :: int
  hi_rns_online :: bool
  hi_interfaces :: int
  hi_propagation :: bool
  hi_transport :: bool
  hi_links :: int
  hi_unread :: int
  hi_conversations :: int
  hi_contacts :: int
  hi_sent :: int
  hi_received :: int
  hi_pending :: int
  hi_auto_reply :: bool
  hi_refresh :: refresh_meta

definition count_in :: "conversions \<Rightarrow> string \<Rightarrow> pydict list \<Rightarrow> int res" where
  "count_in cv k ds = bind_res (map_res (\<lambda>d. to_int cv (py_or (d_get_or d k (PInt 0)) (PInt 0))) ds) (\<lambda>ns. Inr (sum_list ns))"

definition build_home_node_info_state ::
    "conversions \<Rightarrow> rat \<Rightarrow> daemon_state \<Rightarrow> attrs option \<Rightarrow> int \<Rightarrow> pydict list \<Rightarrow> pydict list \<Rightarrow> pydict \<Rightarrow> home_info res" where
  "build_home_node_info_state cv clock dm st meshed convs contact_list reply =
     bind_res (count_in cv ''unread_count'' convs) (\<lambda>unread.
     bind_res (count_in cv ''message_count'' convs) (\<lambda>messages.
     bind_res (to_float cv (py_or (status_attr st ''uptime'') (PFloat 0))) (\<lambda>up.
     bind_res (to_int cv (py_or (status_attr st ''interface_count'') (PInt 0))) (\<lambda>ifs.
     bind_res (to_int cv (py_or (status_attr st ''active_links'') (PInt 0))) (\<lambda>links.
       Inr \<lparr>hi_connected = dm_running dm, hi_version = py_str (to_text cv) (py_or (status_attr st ''daemon_version'') (PStr [])),
            hi_uptime = up, hi_identity = dm_identity dm, hi_hub = dm_hub_status dm, hi_mesh_count = meshed,
            hi_rns_online = truthy (status_attr st ''rns_initialized''), hi_interfaces = ifs,
            hi_propagation = truthy (status_attr st ''propagation_enabled''),
            hi_transport = truthy (status_attr st ''transport_enabled''), hi_links = links, hi_unread = unread,
            hi_conversations = int (length convs), hi_contacts = int (length contact_list), hi_sent = 0,
            hi_received = messages, hi_pending = 0, hi_auto_reply = flag reply ''enabled'' False,
            hi_refresh = (if st \<noteq> None \<and> refreshed_at (dm_refresh dm) = None then ready_at clock else dm_refresh dm)\<rparr>)))))"

section \<open>What the panels show\<close>

text \<open>An overlay is shown as available only while it runs, and one that is disabled shows nothing of its runtime.\<close>

lemma overlay_available:
  assumes "overlay_state cv sec runtime k = Inr ov"
  shows "or_state ov = AVAILABLE \<Longrightarrow> flag runtime ''running'' False" and "or_running ov \<longleftrightarrow> or_state ov = AVAILABLE"
    and "or_mode ov = None \<Longrightarrow> ov = OverlayRuntimeState"
  using assms by (auto simp: overlay_state_def OverlayRuntimeState_def Let_def split: if_splits)

text \<open>
  A status that the daemon reports and the interface does not know is shown as connected or disabled,
  whatever it says; and every message of a conversation is counted as received, none as sent.
\<close>

lemma unknown_hub_status:
  "hub_status_of (d_get_or (dn_hub i) ''status'' (PStr ''disabled'')) = None \<Longrightarrow> build_local_daemon_state cv clock i = Inr dm \<Longrightarrow>
     dm_hub_status dm = (if dm_hub_connected dm then CONNECTED else DISABLED)"
  by (auto simp: build_local_daemon_state_def Let_def)

lemma all_messages_received:
  "build_home_node_info_state cv clock dm st meshed convs cs reply = Inr h \<Longrightarrow>
     hi_sent h = 0 \<and> count_in cv ''message_count'' convs = Inr (hi_received h)"
  by (auto simp: build_home_node_info_state_def)

end
