(* ===== verification/Ipc_Bridge.thy ===== *)
theory Ipc_Bridge
  imports Ipc_Calls
begin

text \<open>
  The bridge that the interfaces reach the daemon through (\<^verbatim>\<open>src/styrened/ipc/bridge.py\<close>): a control
  client that is replaced by a new one when its connection is lost, the calls made through it, and the
  methods under the names they have here. One task uses the bridge at a time. What the other side does
  while an answer is awaited is a change of the client, an argument; no operation of the bridge sets its
  reconnect task.
\<close>

section \<open>Waiting for an answer\<close>

record wait =
  w_id :: bytes
  w_drained :: bool
  w_during :: "ipc_client \<Rightarrow> ipc_client"

text \<open>An answer that is not there when the wait ends has timed out.\<close>

definition await_call :: "msgpack \<Rightarrow> wait \<Rightarrow> 'a ipc_call \<Rightarrow> ipc_client \<Rightarrow> 'a ipc_res \<times> ipc_client" where
  "await_call mp w c s =
     (case request_begin mp (w_id w) (w_drained w) (call_request c) s of
        (Inl e, s1) \<Rightarrow> (Inl e, s1)
      | (Inr f, s1) \<Rightarrow>
          let s2 = w_during w s1 in
          (case call_outcome c (replies s2 ! f) of
             Some r \<Rightarrow> (r, s2)
           | None \<Rightarrow> (case request_times_out (w_id w) f s2 of (e, s3) \<Rightarrow> (Inl e, s3))))"

section \<open>The bridge\<close>

definition RECONNECT_DELAY_INITIAL :: rat where "RECONNECT_DELAY_INITIAL = 1"
definition RECONNECT_DELAY_MAX :: rat where "RECONNECT_DELAY_MAX = 30"
definition RECONNECT_BACKOFF_FACTOR :: rat where "RECONNECT_BACKOFF_FACTOR = 2"
definition MAX_RECONNECT_ATTEMPTS :: nat where "MAX_RECONNECT_ATTEMPTS = 5"

text \<open>\<open>br_left\<close>: the clients that the bridge no longer holds, as it left them.\<close>

record bridge =
  br_timeout :: rat
  br_auto :: bool
  br_lane :: string
  br_client :: "ipc_client option"
  br_connected :: bool
  br_left :: "ipc_client list"

definition IPCBridge :: "rat \<Rightarrow> bool \<Rightarrow> string \<Rightarrow> bridge" where
  "IPCBridge timeout auto_reconnect lane =
     \<lparr>br_timeout = timeout, br_auto = auto_reconnect, br_lane = lane, br_client = None, br_connected = False, br_left = []\<rparr>"

definition spawn_lane :: "string \<Rightarrow> bridge \<Rightarrow> bridge" where
  "spawn_lane lane b = IPCBridge (br_timeout b) (br_auto b) lane"

definition bridge_up :: "bridge \<Rightarrow> bool" where
  "bridge_up b \<longleftrightarrow> br_connected b \<and> (case br_client b of None \<Rightarrow> False | Some s \<Rightarrow> is_connected s)"

definition put_client :: "ipc_client option \<Rightarrow> bridge \<Rightarrow> bridge" where
  "put_client x b = b\<lparr>br_client := x, br_left := br_left b @ (case br_client b of None \<Rightarrow> [] | Some s \<Rightarrow> [s])\<rparr>"

record attempt =
  a_opened :: bool
  a_ping :: wait

definition short_ping :: "pyval ipc_call" where
  "short_ping = ping 3"

definition bridge_connect :: "msgpack \<Rightarrow> attempt \<Rightarrow> bridge \<Rightarrow> bool ipc_res \<times> bridge" where
  "bridge_connect mp a b =
     (if bridge_up b then (Inr True, b)
      else
        case connect mp (a_opened a) (ControlClient (br_timeout b)) of
          (Inl e, s) \<Rightarrow> (Inr False, put_client None b)
        | (Inr _, s) \<Rightarrow>
            (case await_call mp (a_ping a) short_ping s of
               (r, s1) \<Rightarrow>
                 (case ping_result r of
                    Inl e \<Rightarrow> (Inl e, put_client (Some s1) b)
                  | Inr True \<Rightarrow> (Inr True, (put_client (Some s1) b)\<lparr>br_connected := True\<rparr>)
                  | Inr False \<Rightarrow> (Inr False, put_client None (put_client (Some (disconnect s1)) b)))))"

definition bridge_disconnect :: "bridge \<Rightarrow> bridge" where
  "bridge_disconnect b =
     (case br_client b of
        None \<Rightarrow> b\<lparr>br_connected := False\<rparr>
      | Some s \<Rightarrow> put_client None (b\<lparr>br_connected := False, br_client := Some (disconnect s)\<rparr>))"

text \<open>The attempts that are left, from the \<open>k\<close>-th on; and the sleeps between them.\<close>

fun reconnect_from ::
    "msgpack \<Rightarrow> (nat \<Rightarrow> attempt) \<Rightarrow> nat \<Rightarrow> nat \<Rightarrow> rat \<Rightarrow> bridge \<Rightarrow> bool ipc_res \<times> bridge \<times> rat list" where
  "reconnect_from mp as 0 k delay b = (Inr False, b, [])"
| "reconnect_from mp as (Suc n) k delay b =
     (case bridge_connect mp (as k) b of
        (Inl e, b1) \<Rightarrow> (Inl e, b1, [])
      | (Inr True, b1) \<Rightarrow> (Inr True, b1, [])
      | (Inr False, b1) \<Rightarrow>
          if n = 0 then (Inr False, b1, [])
          else
            case reconnect_from mp as n (Suc k) (min (delay * RECONNECT_BACKOFF_FACTOR) RECONNECT_DELAY_MAX) b1 of
              (r, b2, ds) \<Rightarrow> (r, b2, delay # ds))"

definition reconnect :: "msgpack \<Rightarrow> (nat \<Rightarrow> attempt) \<Rightarrow> bridge \<Rightarrow> bool ipc_res \<times> bridge \<times> rat list" where
  "reconnect mp as b = reconnect_from mp as MAX_RECONNECT_ATTEMPTS 0 RECONNECT_DELAY_INITIAL b"

definition ensure_connected :: "msgpack \<Rightarrow> (nat \<Rightarrow> attempt) \<Rightarrow> bridge \<Rightarrow> ipc_client ipc_res \<times> bridge" where
  "ensure_connected mp as b =
     (if bridge_up b then (Inr (the (br_client b)), b)
      else if br_auto b then
        case reconnect mp as b of
          (Inl e, b1, _) \<Rightarrow> (Inl e, b1)
        | (Inr True, b1, _) \<Rightarrow> (case br_client b1 of Some s \<Rightarrow> (Inr s, b1) | None \<Rightarrow> (Inl (Raised AssertionError), b1))
        | (Inr False, b1, _) \<Rightarrow> (Inl IPCConnectionError, b1)
      else (Inl IPCConnectionError, b))"

record conduct =
  first_attempts :: "nat \<Rightarrow> attempt"
  first_wait :: wait
  later_attempts :: "nat \<Rightarrow> attempt"
  later_wait :: wait

definition bridge_call :: "msgpack \<Rightarrow> conduct \<Rightarrow> 'a ipc_call \<Rightarrow> bridge \<Rightarrow> 'a ipc_res \<times> bridge" where
  "bridge_call mp w c b =
     (case ensure_connected mp (first_attempts w) b of
        (Inl e, b1) \<Rightarrow> (Inl e, b1)
      | (Inr s, b1) \<Rightarrow>
          (case await_call mp (first_wait w) c s of
             (Inl IPCConnectionError, s1) \<Rightarrow>
               if \<not> br_auto b1 then (Inl IPCConnectionError, b1\<lparr>br_client := Some s1\<rparr>)
               else
                 (case ensure_connected mp (later_attempts w) (b1\<lparr>br_client := Some s1, br_connected := False\<rparr>) of
                    (Inl e, b2) \<Rightarrow> (Inl e, b2)
                  | (Inr s2, b2) \<Rightarrow>
                      (case await_call mp (later_wait w) c s2 of (r, s3) \<Rightarrow> (r, b2\<lparr>br_client := Some s3\<rparr>)))
           | (r, s1) \<Rightarrow> (r, b1\<lparr>br_client := Some s1\<rparr>)))"

section \<open>Events\<close>

definition on_bridge_event :: "IPCMessageType \<Rightarrow> callback \<Rightarrow> bridge \<Rightarrow> bridge" where
  "on_bridge_event t cb b = b\<lparr>br_client := map_option (on_event t cb) (br_client b)\<rparr>"

definition remove_bridge_handler :: "IPCMessageType \<Rightarrow> callback \<Rightarrow> bridge \<Rightarrow> bridge" where
  "remove_bridge_handler t cb b = b\<lparr>br_client := map_option (remove_event_handler t cb) (br_client b)\<rparr>"

text \<open>The client whose events are then iterated over, to its end.\<close>

definition iter_events :: "msgpack \<Rightarrow> (nat \<Rightarrow> attempt) \<Rightarrow> bridge \<Rightarrow> ipc_client ipc_res \<times> bridge" where
  "iter_events mp as b = ensure_connected mp as b"

section \<open>Methods that make something of the answer\<close>

text \<open>\<^verbatim>\<open>except Exception\<close>, which a cancellation is not.\<close>

definition or_else :: "'a \<Rightarrow> 'a ipc_res \<times> bridge \<Rightarrow> 'a ipc_res \<times> bridge" where
  "or_else dflt rb = (case rb of (Inl CallerCancelled, b) \<Rightarrow> (Inl CallerCancelled, b) | (Inl e, b) \<Rightarrow> (Inr dflt, b) | (Inr v, b) \<Rightarrow> (Inr v, b))"

definition entry_of :: "string \<Rightarrow> pyval \<Rightarrow> pyval" where
  "entry_of k v = (case v of PDict d \<Rightarrow> d_get_or d k PNone | _ \<Rightarrow> PNone)"

definition datalink_meta :: "msgpack \<Rightarrow> conduct \<Rightarrow> string \<Rightarrow> bridge \<Rightarrow> pyval ipc_res \<times> bridge" where
  "datalink_meta mp w dest b =
     or_else PNone (apfst (map_sum id (entry_of ''meta'')) (bridge_call mp w (Ipc_Calls.datalink_meta dest) b))"

definition datalink_info :: "msgpack \<Rightarrow> conduct \<Rightarrow> string \<Rightarrow> bridge \<Rightarrow> pyval ipc_res \<times> bridge" where
  "datalink_info mp w dest b =
     or_else PNone (apfst (map_sum id (entry_of ''info'')) (bridge_call mp w (Ipc_Calls.datalink_info dest) b))"

text \<open>The client has no method of this name, so looking it up raises.\<close>

definition provision_adapter :: "msgpack \<Rightarrow> conduct \<Rightarrow> string \<Rightarrow> bridge \<Rightarrow> pyval ipc_res \<times> bridge" where
  "provision_adapter mp w adapter_name b =
     (case ensure_connected mp (first_attempts w) b of
        (Inl e, b1) \<Rightarrow> (Inl e, b1)
      | (Inr s, b1) \<Rightarrow> (Inl (Raised AttributeError), b1))"

definition boundary_snapshot :: "msgpack \<Rightarrow> conduct \<Rightarrow> bridge \<Rightarrow> pyval list ipc_res \<times> bridge" where
  "boundary_snapshot mp w b =
     or_else [] (apfst (map_sum id (\<lambda>v. case v of
         PDict d \<Rightarrow> (case d_get_or d ''records'' (PList []) of PList rs \<Rightarrow> rs | _ \<Rightarrow> [])
       | _ \<Rightarrow> [])) (bridge_call mp w Ipc_Calls.boundary_snapshot b))"

section \<open>The other methods\<close>

definition get_devices ::
    "msgpack \<Rightarrow> conduct \<Rightarrow> bool \<Rightarrow> bridge \<Rightarrow> DeviceInfo list ipc_res \<times> bridge" where
  "get_devices mp w styrene_only = bridge_call mp w (Ipc_Calls.query_devices styrene_only)"

definition get_status ::
    "msgpack \<Rightarrow> conduct \<Rightarrow> bridge \<Rightarrow> DaemonStatus ipc_res \<times> bridge" where
  "get_status mp w = bridge_call mp w Ipc_Calls.query_status"

definition get_identity ::
    "msgpack \<Rightarrow> conduct \<Rightarrow> bridge \<Rightarrow> IdentityInfo ipc_res \<times> bridge" where
  "get_identity mp w = bridge_call mp w Ipc_Calls.query_identity"

definition send_chat ::
    "msgpack \<Rightarrow> conduct \<Rightarrow> string \<Rightarrow> string \<Rightarrow> string option \<Rightarrow> string \<Rightarrow> string option \<Rightarrow> string option \<Rightarrow> string option \<Rightarrow> string option \<Rightarrow> bridge \<Rightarrow> pyval ipc_res \<times> bridge" where
  "send_chat mp w peer content title delivery reply_to data_b64 filename mime =
     bridge_call mp w (Ipc_Calls.send_chat peer content title delivery reply_to data_b64 filename mime)"

definition get_attachment ::
    "msgpack \<Rightarrow> conduct \<Rightarrow> int \<Rightarrow> bridge \<Rightarrow> pyval ipc_res \<times> bridge" where
  "get_attachment mp w message_id = bridge_call mp w (Ipc_Calls.query_attachment message_id)"

definition get_messages ::
    "msgpack \<Rightarrow> conduct \<Rightarrow> string \<Rightarrow> int \<Rightarrow> rat option \<Rightarrow> string option \<Rightarrow> bridge \<Rightarrow> pyval ipc_res \<times> bridge" where
  "get_messages mp w peer count before status =
     bridge_call mp w (Ipc_Calls.query_messages peer count before status)"

definition get_conversations ::
    "msgpack \<Rightarrow> conduct \<Rightarrow> bridge \<Rightarrow> pyval ipc_res \<times> bridge" where
  "get_conversations mp w = bridge_call mp w Ipc_Calls.query_conversations"

definition mark_read ::
    "msgpack \<Rightarrow> conduct \<Rightarrow> string \<Rightarrow> bridge \<Rightarrow> pyval ipc_res \<times> bridge" where
  "mark_read mp w peer = bridge_call mp w (Ipc_Calls.mark_read peer)"

definition search_messages ::
    "msgpack \<Rightarrow> conduct \<Rightarrow> string \<Rightarrow> string option \<Rightarrow> int \<Rightarrow> bridge \<Rightarrow> pyval ipc_res \<times> bridge" where
  "search_messages mp w query peer count =
     bridge_call mp w (Ipc_Calls.search_messages query peer count)"

definition delete_conversation ::
    "msgpack \<Rightarrow> conduct \<Rightarrow> string \<Rightarrow> bridge \<Rightarrow> pyval ipc_res \<times> bridge" where
  "delete_conversation mp w peer = bridge_call mp w (Ipc_Calls.delete_conversation peer)"

definition delete_message ::
    "msgpack \<Rightarrow> conduct \<Rightarrow> int \<Rightarrow> bridge \<Rightarrow> pyval ipc_res \<times> bridge" where
  "delete_message mp w message_id = bridge_call mp w (Ipc_Calls.delete_message message_id)"

definition retry_message ::
    "msgpack \<Rightarrow> conduct \<Rightarrow> int \<Rightarrow> bridge \<Rightarrow> pyval ipc_res \<times> bridge" where
  "retry_message mp w message_id = bridge_call mp w (Ipc_Calls.retry_message message_id)"

definition query_device_status ::
    "msgpack \<Rightarrow> conduct \<Rightarrow> string \<Rightarrow> rat \<Rightarrow> bridge \<Rightarrow> RemoteStatusInfo ipc_res \<times> bridge" where
  "query_device_status mp w dest tmo =
     bridge_call mp w (Ipc_Calls.device_status dest tmo)"

definition send_rpc ::
    "msgpack \<Rightarrow> conduct \<Rightarrow> string \<Rightarrow> string \<Rightarrow> string list \<Rightarrow> rat \<Rightarrow> bridge \<Rightarrow> ExecResultInfo ipc_res \<times> bridge" where
  "send_rpc mp w dest command argv tmo =
     bridge_call mp w (Ipc_Calls.exec_command dest command argv tmo)"

definition reboot_device ::
    "msgpack \<Rightarrow> conduct \<Rightarrow> string \<Rightarrow> int \<Rightarrow> rat \<Rightarrow> bridge \<Rightarrow> RebootResultInfo ipc_res \<times> bridge" where
  "reboot_device mp w dest delay tmo =
     bridge_call mp w (Ipc_Calls.reboot_device dest delay tmo)"

definition self_update_device ::
    "msgpack \<Rightarrow> conduct \<Rightarrow> string \<Rightarrow> string option \<Rightarrow> rat \<Rightarrow> bridge \<Rightarrow> SelfUpdateResultInfo ipc_res \<times> bridge" where
  "self_update_device mp w dest ver tmo =
     bridge_call mp w (Ipc_Calls.self_update_device dest ver tmo)"

definition send_message ::
    "msgpack \<Rightarrow> conduct \<Rightarrow> string \<Rightarrow> string \<Rightarrow> string \<Rightarrow> bool \<Rightarrow> rat \<Rightarrow> bridge \<Rightarrow> pyval ipc_res \<times> bridge" where
  "send_message mp w dest msg proto retry tmo =
     bridge_call mp w (Ipc_Calls.send_message dest msg proto retry tmo)"

definition announce :: "msgpack \<Rightarrow> conduct \<Rightarrow> bridge \<Rightarrow> pyval ipc_res \<times> bridge" where
  "announce mp w = bridge_call mp w Ipc_Calls.announce"

definition get_config :: "msgpack \<Rightarrow> conduct \<Rightarrow> bridge \<Rightarrow> pyval ipc_res \<times> bridge" where
  "get_config mp w = bridge_call mp w Ipc_Calls.query_config"

definition get_contacts :: "msgpack \<Rightarrow> conduct \<Rightarrow> bridge \<Rightarrow> pyval ipc_res \<times> bridge" where
  "get_contacts mp w = bridge_call mp w Ipc_Calls.query_contacts"

definition set_contact ::
    "msgpack \<Rightarrow> conduct \<Rightarrow> string \<Rightarrow> string \<Rightarrow> string option \<Rightarrow> bridge \<Rightarrow> pyval ipc_res \<times> bridge" where
  "set_contact mp w peer nick notes =
     bridge_call mp w (Ipc_Calls.set_contact peer nick notes)"

definition remove_contact ::
    "msgpack \<Rightarrow> conduct \<Rightarrow> string \<Rightarrow> bridge \<Rightarrow> pyval ipc_res \<times> bridge" where
  "remove_contact mp w peer = bridge_call mp w (Ipc_Calls.remove_contact peer)"

definition resolve_name ::
    "msgpack \<Rightarrow> conduct \<Rightarrow> string \<Rightarrow> bool \<Rightarrow> bridge \<Rightarrow> pyval ipc_res \<times> bridge" where
  "resolve_name mp w nm prefix_match =
     bridge_call mp w (Ipc_Calls.resolve_name nm prefix_match)"

definition get_auto_reply ::
    "msgpack \<Rightarrow> conduct \<Rightarrow> bridge \<Rightarrow> pyval ipc_res \<times> bridge" where
  "get_auto_reply mp w = bridge_call mp w Ipc_Calls.query_auto_reply"

definition set_auto_reply ::
    "msgpack \<Rightarrow> conduct \<Rightarrow> string \<Rightarrow> string \<Rightarrow> int \<Rightarrow> bridge \<Rightarrow> pyval ipc_res \<times> bridge" where
  "set_auto_reply mp w mode msg cooldown =
     bridge_call mp w (Ipc_Calls.set_auto_reply mode msg cooldown)"

definition set_identity ::
    "msgpack \<Rightarrow> conduct \<Rightarrow> string \<Rightarrow> string \<Rightarrow> string option \<Rightarrow> bridge \<Rightarrow> pyval ipc_res \<times> bridge" where
  "set_identity mp w display_name icon short =
     bridge_call mp w (Ipc_Calls.set_identity display_name icon short)"

definition sync_messages :: "msgpack \<Rightarrow> conduct \<Rightarrow> bridge \<Rightarrow> pyval ipc_res \<times> bridge" where
  "sync_messages mp w = bridge_call mp w Ipc_Calls.sync_messages"

definition get_path_info ::
    "msgpack \<Rightarrow> conduct \<Rightarrow> string \<Rightarrow> bridge \<Rightarrow> pyval ipc_res \<times> bridge" where
  "get_path_info mp w dest = bridge_call mp w (Ipc_Calls.query_path_info dest)"

definition fetch_page ::
    "msgpack \<Rightarrow> conduct \<Rightarrow> string \<Rightarrow> string \<Rightarrow> pydict option \<Rightarrow> rat \<Rightarrow> bridge \<Rightarrow> pyval ipc_res \<times> bridge" where
  "fetch_page mp w dest path form tmo =
     bridge_call mp w (Ipc_Calls.fetch_page dest path form tmo)"

definition fetch_page_url ::
    "msgpack \<Rightarrow> conduct \<Rightarrow> string \<Rightarrow> rat \<Rightarrow> bridge \<Rightarrow> pyval ipc_res \<times> bridge" where
  "fetch_page_url mp w url tmo =
     bridge_call mp w (Ipc_Calls.fetch_page_url url tmo)"

definition page_disconnect ::
    "msgpack \<Rightarrow> conduct \<Rightarrow> string \<Rightarrow> bridge \<Rightarrow> pyval ipc_res \<times> bridge" where
  "page_disconnect mp w dest = bridge_call mp w (Ipc_Calls.page_disconnect dest)"

definition page_save_site ::
    "msgpack \<Rightarrow> conduct \<Rightarrow> string \<Rightarrow> string \<Rightarrow> int \<Rightarrow> int \<Rightarrow> bridge \<Rightarrow> pyval ipc_res \<times> bridge" where
  "page_save_site mp w dest display_name refresh depth =
     bridge_call mp w (Ipc_Calls.page_save_site dest display_name refresh depth)"

definition page_remove_site ::
    "msgpack \<Rightarrow> conduct \<Rightarrow> string \<Rightarrow> bridge \<Rightarrow> pyval ipc_res \<times> bridge" where
  "page_remove_site mp w dest = bridge_call mp w (Ipc_Calls.page_remove_site dest)"

definition page_list_sites ::
    "msgpack \<Rightarrow> conduct \<Rightarrow> bridge \<Rightarrow> pyval ipc_res \<times> bridge" where
  "page_list_sites mp w = bridge_call mp w Ipc_Calls.page_list_sites"

definition page_crawl_site ::
    "msgpack \<Rightarrow> conduct \<Rightarrow> string \<Rightarrow> int \<Rightarrow> bridge \<Rightarrow> pyval ipc_res \<times> bridge" where
  "page_crawl_site mp w dest depth =
     bridge_call mp w (Ipc_Calls.page_crawl_site dest depth)"

definition page_get_cached ::
    "msgpack \<Rightarrow> conduct \<Rightarrow> string \<Rightarrow> string \<Rightarrow> bridge \<Rightarrow> pyval ipc_res \<times> bridge" where
  "page_get_cached mp w dest path =
     bridge_call mp w (Ipc_Calls.page_get_cached dest path)"

definition page_regenerate_index ::
    "msgpack \<Rightarrow> conduct \<Rightarrow> bridge \<Rightarrow> pyval ipc_res \<times> bridge" where
  "page_regenerate_index mp w = bridge_call mp w Ipc_Calls.page_regenerate_index"

definition subscribe_messages ::
    "msgpack \<Rightarrow> conduct \<Rightarrow> string list \<Rightarrow> bridge \<Rightarrow> pyval ipc_res \<times> bridge" where
  "subscribe_messages mp w peers = bridge_call mp w (Ipc_Calls.subscribe_messages peers)"

definition get_nodes ::
    "msgpack \<Rightarrow> conduct \<Rightarrow> bool \<Rightarrow> bridge \<Rightarrow> DeviceInfo list ipc_res \<times> bridge" where
  "get_nodes mp w styrene_only = bridge_call mp w (Ipc_Calls.get_nodes styrene_only)"

definition get_core_config ::
    "msgpack \<Rightarrow> conduct \<Rightarrow> bridge \<Rightarrow> pyval ipc_res \<times> bridge" where
  "get_core_config mp w = bridge_call mp w Ipc_Calls.get_core_config"

definition save_core_config ::
    "msgpack \<Rightarrow> conduct \<Rightarrow> pydict \<Rightarrow> bridge \<Rightarrow> pyval ipc_res \<times> bridge" where
  "save_core_config mp w config_dict = bridge_call mp w (Ipc_Calls.save_core_config config_dict)"

definition get_hub_status ::
    "msgpack \<Rightarrow> conduct \<Rightarrow> bridge \<Rightarrow> pyval ipc_res \<times> bridge" where
  "get_hub_status mp w = bridge_call mp w Ipc_Calls.get_hub_status"

definition get_unread_counts ::
    "msgpack \<Rightarrow> conduct \<Rightarrow> bridge \<Rightarrow> pyval ipc_res \<times> bridge" where
  "get_unread_counts mp w = bridge_call mp w Ipc_Calls.get_unread_counts"

definition get_adapter_state ::
    "msgpack \<Rightarrow> conduct \<Rightarrow> bridge \<Rightarrow> pyval ipc_res \<times> bridge" where
  "get_adapter_state mp w = bridge_call mp w Ipc_Calls.get_adapter_state"

definition get_activity_history ::
    "msgpack \<Rightarrow> conduct \<Rightarrow> int \<Rightarrow> bridge \<Rightarrow> pyval ipc_res \<times> bridge" where
  "get_activity_history mp w count = bridge_call mp w (Ipc_Calls.get_activity_history count)"

definition block_peer ::
    "msgpack \<Rightarrow> conduct \<Rightarrow> string \<Rightarrow> string \<Rightarrow> string \<Rightarrow> bridge \<Rightarrow> pyval ipc_res \<times> bridge" where
  "block_peer mp w ident lxmf nick =
     bridge_call mp w (Ipc_Calls.block_peer ident lxmf nick)"

definition unblock_peer ::
    "msgpack \<Rightarrow> conduct \<Rightarrow> string \<Rightarrow> bridge \<Rightarrow> pyval ipc_res \<times> bridge" where
  "unblock_peer mp w ident = bridge_call mp w (Ipc_Calls.unblock_peer ident)"

definition get_blocked_peers ::
    "msgpack \<Rightarrow> conduct \<Rightarrow> bridge \<Rightarrow> pyval ipc_res \<times> bridge" where
  "get_blocked_peers mp w = bridge_call mp w Ipc_Calls.get_blocked_peers"

definition datalink_establish ::
    "msgpack \<Rightarrow> conduct \<Rightarrow> string \<Rightarrow> bridge \<Rightarrow> pyval ipc_res \<times> bridge" where
  "datalink_establish mp w dest = bridge_call mp w (Ipc_Calls.datalink_establish dest)"

definition datalink_teardown ::
    "msgpack \<Rightarrow> conduct \<Rightarrow> string \<Rightarrow> bridge \<Rightarrow> pyval ipc_res \<times> bridge" where
  "datalink_teardown mp w dest = bridge_call mp w (Ipc_Calls.datalink_teardown dest)"

definition datalink_status ::
    "msgpack \<Rightarrow> conduct \<Rightarrow> string \<Rightarrow> bridge \<Rightarrow> pyval ipc_res \<times> bridge" where
  "datalink_status mp w dest = bridge_call mp w (Ipc_Calls.datalink_status dest)"

definition datalink_query ::
    "msgpack \<Rightarrow> conduct \<Rightarrow> string \<Rightarrow> bridge \<Rightarrow> pyval ipc_res \<times> bridge" where
  "datalink_query mp w dest = bridge_call mp w (Ipc_Calls.datalink_query dest)"

definition datalink_speedtest ::
    "msgpack \<Rightarrow> conduct \<Rightarrow> string \<Rightarrow> bridge \<Rightarrow> pyval ipc_res \<times> bridge" where
  "datalink_speedtest mp w dest = bridge_call mp w (Ipc_Calls.datalink_speedtest dest)"

definition subscribe_devices ::
    "msgpack \<Rightarrow> conduct \<Rightarrow> bridge \<Rightarrow> pyval ipc_res \<times> bridge" where
  "subscribe_devices mp w = bridge_call mp w Ipc_Calls.subscribe_devices"

definition subscribe_activity ::
    "msgpack \<Rightarrow> conduct \<Rightarrow> bridge \<Rightarrow> pyval ipc_res \<times> bridge" where
  "subscribe_activity mp w = bridge_call mp w Ipc_Calls.subscribe_activity"

definition unsubscribe ::
    "msgpack \<Rightarrow> conduct \<Rightarrow> string \<Rightarrow> bridge \<Rightarrow> pyval ipc_res \<times> bridge" where
  "unsubscribe mp w kind = bridge_call mp w (Ipc_Calls.unsubscribe kind)"

definition terminal_open ::
    "msgpack \<Rightarrow> conduct \<Rightarrow> string \<Rightarrow> int \<Rightarrow> int \<Rightarrow> string \<Rightarrow> string option \<Rightarrow> bridge \<Rightarrow> pyval ipc_res \<times> bridge" where
  "terminal_open mp w dest nrows ncols term_type shell =
     bridge_call mp w (Ipc_Calls.terminal_open dest nrows ncols term_type shell)"

definition terminal_input ::
    "msgpack \<Rightarrow> conduct \<Rightarrow> string \<Rightarrow> bytes \<Rightarrow> bridge \<Rightarrow> unit ipc_res \<times> bridge" where
  "terminal_input mp w session keys =
     bridge_call mp w (Ipc_Calls.terminal_input session keys)"

definition terminal_resize ::
    "msgpack \<Rightarrow> conduct \<Rightarrow> string \<Rightarrow> int \<Rightarrow> int \<Rightarrow> bridge \<Rightarrow> unit ipc_res \<times> bridge" where
  "terminal_resize mp w session nrows ncols =
     bridge_call mp w (Ipc_Calls.terminal_resize session nrows ncols)"

definition terminal_close ::
    "msgpack \<Rightarrow> conduct \<Rightarrow> string \<Rightarrow> bridge \<Rightarrow> unit ipc_res \<times> bridge" where
  "terminal_close mp w session = bridge_call mp w (Ipc_Calls.terminal_close session)"

section \<open>Reconnecting\<close>

text \<open>What an attempt comes to does not depend on the bridge but for its timeout.\<close>

definition attempt_result :: "msgpack \<Rightarrow> rat \<Rightarrow> attempt \<Rightarrow> bool ipc_res" where
  "attempt_result mp timeout a = fst (bridge_connect mp a (IPCBridge timeout True []))"

lemma put_client_same [simp]:
  "br_timeout (put_client x b) = br_timeout b" "br_client (put_client x b) = x" "br_connected (put_client x b) = br_connected b"
  "br_auto (put_client x b) = br_auto b"
  by (simp_all add: put_client_def)

lemma new_bridge [simp]: "\<not> bridge_up (IPCBridge timeout r lane)" "br_timeout (IPCBridge timeout r lane) = timeout"
  by (simp_all add: IPCBridge_def bridge_up_def)

lemma connect_result:
  assumes "\<not> bridge_up b"
  shows "fst (bridge_connect mp a b) = attempt_result mp (br_timeout b) a"
    and "br_timeout (snd (bridge_connect mp a b)) = br_timeout b" "br_auto (snd (bridge_connect mp a b)) = br_auto b"
    and "fst (bridge_connect mp a b) = Inr False \<Longrightarrow> br_client (snd (bridge_connect mp a b)) = None"
    and "fst (bridge_connect mp a b) = Inr True \<Longrightarrow> br_client (snd (bridge_connect mp a b)) \<noteq> None"
    and "set_option (br_client b) \<subseteq> set (br_left (snd (bridge_connect mp a b)))"
    and "set (br_left b) \<subseteq> set (br_left (snd (bridge_connect mp a b)))"
  using assms
  by (auto simp: bridge_connect_def attempt_result_def put_client_def split: sum.splits prod.splits bool.splits option.splits)

lemma no_client_down: "br_client b = None \<Longrightarrow> \<not> bridge_up b"
  by (simp add: bridge_up_def)

text \<open>The client after an attempt that succeeds: a new one, connected by that attempt and asked once.\<close>

definition new_client :: "msgpack \<Rightarrow> rat \<Rightarrow> attempt \<Rightarrow> ipc_client \<Rightarrow> bool" where
  "new_client mp timeout a s \<longleftrightarrow>
     (\<exists>sc. connect mp (a_opened a) (ControlClient timeout) = (Inr (), sc) \<and> s = snd (await_call mp (a_ping a) short_ping sc))"

lemma connect_makes_client:
  assumes "\<not> bridge_up b" and "fst (bridge_connect mp a b) = Inr True"
  shows "\<exists>s. br_client (snd (bridge_connect mp a b)) = Some s \<and> new_client mp (br_timeout b) a s"
proof -
  obtain sc where c: "connect mp (a_opened a) (ControlClient (br_timeout b)) = (Inr (), sc)"
    using assms by (cases "connect mp (a_opened a) (ControlClient (br_timeout b))") (auto simp: bridge_connect_def split: sum.splits)
  obtain q s1 where w: "await_call mp (a_ping a) short_ping sc = (q, s1)" by (rule prod.exhaust)
  have "br_client (snd (bridge_connect mp a b)) = Some s1"
    using assms c w by (auto simp: bridge_connect_def split: sum.splits bool.splits)
  with c w show ?thesis by (auto simp: new_client_def)
qed

lemma reconnect_makes_client:
  assumes "\<not> bridge_up b" and "reconnect_from mp as n k d b = (Inr True, b', ds)"
  shows "\<exists>j s. k \<le> j \<and> j < k + n \<and> br_client b' = Some s \<and> new_client mp (br_timeout b) (as j) s"
  using assms
proof (induction n arbitrary: k d b ds)
  case (Suc n)
  obtain q b1 where c: "bridge_connect mp (as k) b = (q, b1)" by (rule prod.exhaust)
  show ?case
  proof (cases "q = Inr True")
    case True
    then have "b' = b1" using Suc.prems(2) c by simp
    then show ?thesis using connect_makes_client [OF Suc.prems(1), of mp "as k"] c True by fastforce
  next
    case False
    then have q: "q = Inr False" and n: "n \<noteq> 0"
      using Suc.prems(2) c by (auto split: sum.splits bool.splits if_splits)
    obtain r2 b2 ds2 where rest: "reconnect_from mp as n (Suc k) (min (d * RECONNECT_BACKOFF_FACTOR) RECONNECT_DELAY_MAX) b1 = (r2, b2, ds2)"
      by (rule prod_cases3)
    then have "r2 = Inr True" "b2 = b'" using Suc.prems(2) c q n by simp_all
    moreover have "\<not> bridge_up b1" "br_timeout b1 = br_timeout b"
      using connect_result(2,4) [OF Suc.prems(1), of mp "as k"] c q by (simp_all add: no_client_down)
    ultimately have "\<exists>j s. Suc k \<le> j \<and> j < Suc k + n \<and> br_client b' = Some s \<and> new_client mp (br_timeout b) (as j) s"
      using Suc.IH [of b1 "Suc k"] rest by metis
    then show ?thesis by (metis Suc_leD add_Suc_shift)
  qed
qed simp

text \<open>The result of a sequence of attempts, and the sleeps between them.\<close>

fun first_settled :: "bool ipc_res list \<Rightarrow> bool ipc_res" where
  "first_settled [] = Inr False"
| "first_settled (r # rs) = (if r = Inr False then first_settled rs else r)"

fun pauses :: "rat \<Rightarrow> bool ipc_res list \<Rightarrow> rat list" where
  "pauses d (r # q # rs) = (if r = Inr False then d # pauses (min (d * 2) 30) (q # rs) else [])"
| "pauses d rs = []"

lemma reconnect_from_result:
  assumes "\<not> bridge_up b" and "reconnect_from mp as n k d b = (r, b', ds)"
  shows "r = first_settled (map (\<lambda>j. attempt_result mp (br_timeout b) (as j)) [k..<k + n]) \<and>
    ds = pauses d (map (\<lambda>j. attempt_result mp (br_timeout b) (as j)) [k..<k + n]) \<and>
    (r = Inr True \<longrightarrow> br_client b' \<noteq> None) \<and> br_auto b' = br_auto b \<and> set (br_left b) \<subseteq> set (br_left b') \<and>
    (n \<noteq> 0 \<longrightarrow> set_option (br_client b) \<subseteq> set (br_left b'))"
  using assms
proof (induction n arbitrary: k d b r b' ds)
  case (Suc n)
  let ?r = "attempt_result mp (br_timeout b) (as k)"
  obtain b1 where c: "bridge_connect mp (as k) b = (?r, b1)"
    using connect_result(1) [OF Suc.prems(1), of mp "as k"] by (cases "bridge_connect mp (as k) b") auto
  note b1 = connect_result(2-7) [OF Suc.prems(1), of mp "as k", unfolded c, simplified]
  have up: "[k..<k + Suc n] = k # [Suc k..<Suc k + n]" by (simp add: upt_conv_Cons)
  show ?case
  proof (cases "?r = Inr False \<and> n \<noteq> 0")
    case True
    obtain r2 b2 ds2 where rest: "reconnect_from mp as n (Suc k) (min (d * 2) 30) b1 = (r2, b2, ds2)"
      by (cases "reconnect_from mp as n (Suc k) (min (d * 2) 30) b1") auto
    have out: "r = r2" "b' = b2" "ds = d # ds2"
      using Suc.prems(2) True rest by (simp_all add: c RECONNECT_BACKOFF_FACTOR_def RECONNECT_DELAY_MAX_def)
    have "\<not> bridge_up b1" using b1(3) True by (simp add: no_client_down)
    note IH = Suc.IH [OF this rest]
    obtain m where "n = Suc m" using True by (cases n) auto
    then have "[Suc k..<Suc k + n] = Suc k # [Suc (Suc k)..<Suc k + n]" by (simp add: upt_conv_Cons)
    then have eqs: "first_settled (map (\<lambda>j. attempt_result mp (br_timeout b) (as j)) [k..<k + Suc n]) = r"
        "pauses d (map (\<lambda>j. attempt_result mp (br_timeout b) (as j)) [k..<k + Suc n]) = ds"
      using IH True out(1,3) b1(1) unfolding up by simp_all
    have "r2 = Inr True \<longrightarrow> br_client b2 \<noteq> None" "br_auto b2 = br_auto b1" "set (br_left b1) \<subseteq> set (br_left b2)"
      using IH by blast+
    then show ?thesis unfolding eqs out(2) using out(1) b1(2,5,6) by auto
  next
    case False
    then have out: "r = ?r" "b' = b1" "ds = []"
      using Suc.prems(2) by (auto simp: c split: sum.splits bool.splits)
    have "first_settled (map (\<lambda>j. attempt_result mp (br_timeout b) (as j)) [k..<k + Suc n]) = ?r"
        "pauses d (map (\<lambda>j. attempt_result mp (br_timeout b) (as j)) [k..<k + Suc n]) = []"
      unfolding up using False upt_conv_Cons [of "Suc k" "Suc k + n"] by (cases n; simp)+
    then show ?thesis using out b1 by simp
  qed
qed auto

text \<open>
Claim C36. Reconnecting ends: at most five attempts are made, the first that does not merely fail decides
the result, and the sleeps between the attempts that fail are of one, two, four and eight seconds, so no
call waits longer than fifteen seconds for its connection beside the attempts themselves.
\<close>

theorem reconnecting_is_bounded:
  assumes "\<not> bridge_up b" and "reconnect mp as b = (r, b', ds)"
  shows "(let tried = map (\<lambda>k. attempt_result mp (br_timeout b) (as k)) [0..<5];
              n = length (takeWhile (\<lambda>x. x = Inr False) tried) in
          r = (if n < 5 then tried ! n else Inr False) \<and> ds = take n [1, 2, 4, 8]) \<and>
    sum_list ds \<le> 15 \<and> (r = Inr True \<longrightarrow> br_client b' \<noteq> None)"
proof -
  let ?R = "\<lambda>k. attempt_result mp (br_timeout b) (as k)"
  note res = reconnect_from_result [OF assms(1) assms(2) [unfolded reconnect_def MAX_RECONNECT_ATTEMPTS_def]]
  have five: "[0..<0 + 5] = [0, 1, 2, 3, 4]" "[0..<5] = [0, 1, 2, 3, 4::nat]" by (simp_all add: upt_rec)
  have "(let tried = map ?R [0..<5]; n = length (takeWhile (\<lambda>x. x = Inr False) tried) in
          r = (if n < 5 then tried ! n else Inr False) \<and> ds = take n [1, 2, 4, 8])"
    using res unfolding five by (simp add: Let_def RECONNECT_DELAY_INITIAL_def)
  moreover have "sum_list (take n [1, 2, 4, 8 :: rat]) \<le> 15" for n
    by (cases "n < 4") (auto simp: numeral_eq_Suc less_Suc_eq)
  ultimately show ?thesis using res by (simp add: Let_def)
qed


definition still :: wait where
  "still = \<lparr>w_id = [], w_drained = True, w_during = id\<rparr>"

theorem reconnecting_is_bounded_witness:
  "fst (reconnect (demo_pack []) (\<lambda>_. \<lparr>a_opened = False, a_ping = still\<rparr>) (IPCBridge 30 True ''control'')) = Inr False \<and>
   snd (snd (reconnect (demo_pack []) (\<lambda>_. \<lparr>a_opened = False, a_ping = still\<rparr>) (IPCBridge 30 True ''control''))) = [1, 2, 4, 8]"
proof -
  let ?as = "\<lambda>_ :: nat. \<lparr>a_opened = False, a_ping = still\<rparr>"
  have "attempt_result (demo_pack []) 30 (?as k) = Inr False" for k
    by (simp add: attempt_result_def bridge_connect_def connect_def is_connected_def ControlClient_def)
  moreover have "[0..<5] = [0, 1, 2, 3, 4::nat]" by (simp add: upt_rec)
  ultimately show ?thesis
    using reconnecting_is_bounded [of "IPCBridge 30 True ''control''" "demo_pack []" ?as]
    by (cases "reconnect (demo_pack []) ?as (IPCBridge 30 True ''control'')") (auto simp: Let_def)
qed

section \<open>Calling again\<close>

text \<open>
Claim C37. A call whose connection breaks while the request is written is made again, with the result of
the second call: so a message may be sent twice. The first client, to whose socket the whole frame has
been given, is dropped as it is, never disconnected. The second call is made on a client that one of
the at most five new attempts has just made, connected and pinged, and it writes the request anew under
an identifier of its own; that client is the one that the bridge then holds.
\<close>

theorem broken_call_is_made_again:
  assumes "bridge_up b" and "br_client b = Some s" and "br_auto b"
    and "conn s = Some k" and "k < length (sockets s)" and "\<not> w_drained (first_wait w)"
    and "encode_frame mp (MSG_TYPE (call_request c)) (w_id (first_wait w)) (to_payload (call_request c)) = Inr frame"
    and "\<And>b1. \<not> bridge_up b1 \<Longrightarrow> br_timeout b1 = br_timeout b \<Longrightarrow> fst (reconnect mp (later_attempts w) b1) = Inr True"
    and "bridge_call mp w c b = (r, b')" and "r \<noteq> Inl IPCConnectionError"
  shows "\<exists>s1 j sc s2 k2 frame2 f.
    s1 \<in> set (br_left b') \<and> outgoing (sockets s1 ! k) = outgoing (sockets s ! k) @ frame \<and> conn s1 = Some k \<and> \<not> closed (sockets s1 ! k) \<and>
    j < 5 \<and> connect mp (a_opened (later_attempts w j)) (ControlClient (br_timeout b)) = (Inr (), sc) \<and>
    s2 = snd (await_call mp (a_ping (later_attempts w j)) short_ping sc) \<and>
    conn s2 = Some k2 \<and> encode_frame mp (MSG_TYPE (call_request c)) (w_id (later_wait w)) (to_payload (call_request c)) = Inr frame2 \<and>
    fst (request_begin mp (w_id (later_wait w)) (w_drained (later_wait w)) (call_request c) s2) = Inr f \<and>
    r = fst (await_call mp (later_wait w) c s2) \<and> br_client b' = Some (snd (await_call mp (later_wait w) c s2))"
proof -
  have up: "is_connected s" using assms(1,2) by (simp add: bridge_up_def)
  let ?s1 = "forget_reply (w_id (first_wait w))
      (note_request (w_id (first_wait w)) s\<lparr>sockets := (sockets s)[k := (sockets s ! k)\<lparr>outgoing := outgoing (sockets s ! k) @ frame\<rparr>]\<rparr>)"
  have a1: "await_call mp (first_wait w) c s = (Inl IPCConnectionError, ?s1)"
    using up assms(4,6,7) by (simp add: await_call_def request_begin_def write_frame_def Let_def)
  let ?b1 = "b\<lparr>br_client := Some ?s1, br_connected := False\<rparr>"
  have down: "\<not> bridge_up ?b1" by (simp add: bridge_up_def)
  obtain b2 ds where rc: "reconnect mp (later_attempts w) ?b1 = (Inr True, b2, ds)"
    using assms(8) [OF down] by (cases "reconnect mp (later_attempts w) ?b1") auto
  note rr = reconnect_from_result [OF down rc [unfolded reconnect_def]]
  have left: "?s1 \<in> set (br_left b2)" using rr by (simp add: MAX_RECONNECT_ATTEMPTS_def)
  obtain j s2 where s2: "br_client b2 = Some s2" and j: "j < 5" and new: "new_client mp (br_timeout b) (later_attempts w j) s2"
    using reconnect_makes_client [OF down rc [unfolded reconnect_def]] by (auto simp: MAX_RECONNECT_ATTEMPTS_def)
  then obtain sc where sc: "connect mp (a_opened (later_attempts w j)) (ControlClient (br_timeout b)) = (Inr (), sc)"
      "s2 = snd (await_call mp (a_ping (later_attempts w j)) short_ping sc)"
    unfolding new_client_def by blast
  obtain s3 where a2: "await_call mp (later_wait w) c s2 = (r, s3)" and b': "b' = b2\<lparr>br_client := Some s3\<rparr>"
    using assms(1-3,9) a1 down rc s2
    by (auto simp: bridge_call_def ensure_connected_def split: prod.splits)
  obtain k2 frame2 f where "conn s2 = Some k2"
      "encode_frame mp (MSG_TYPE (call_request c)) (w_id (later_wait w)) (to_payload (call_request c)) = Inr frame2"
      "fst (request_begin mp (w_id (later_wait w)) (w_drained (later_wait w)) (call_request c) s2) = Inr f"
    using a2 assms(10)
    by (auto simp: await_call_def request_begin_def write_frame_def Let_def bind_res_def split: option.splits if_splits sum.splits)
  moreover have "outgoing (sockets ?s1 ! k) = outgoing (sockets s ! k) @ frame" "conn ?s1 = Some k" "\<not> closed (sockets ?s1 ! k)"
    using assms(4,5) up by (simp_all add: forget_reply_def note_request_def is_connected_def)
  moreover have "?s1 \<in> set (br_left b')" using left by (simp add: b')
  moreover have "r = fst (await_call mp (later_wait w) c s2)" "br_client b' = Some (snd (await_call mp (later_wait w) c s2))"
    by (simp_all add: a2 b')
  ultimately show ?thesis using j sc by blast
qed

definition answered_ping :: wait where
  "answered_ping = \<lparr>w_id = replicate 16 7, w_drained = True, w_during = (\<lambda>s. s\<lparr>replies := [Answer PONG []]\<rparr>)\<rparr>"

definition broken_then_whole :: conduct where
  "broken_then_whole =
     \<lparr>first_attempts = (\<lambda>_. \<lparr>a_opened = True, a_ping = answered_ping\<rparr>),
      first_wait = \<lparr>w_id = replicate 16 8, w_drained = False, w_during = id\<rparr>,
      later_attempts = (\<lambda>_. \<lparr>a_opened = True, a_ping = answered_ping\<rparr>),
      later_wait = \<lparr>w_id = replicate 16 9, w_drained = True, w_during = id\<rparr>\<rparr>"

definition connected_bridge :: bridge where
  "connected_bridge =
     (IPCBridge 30 True ''control'')\<lparr>br_client := Some (snd (connect (demo_pack []) True (ControlClient 30))), br_connected := True\<rparr>"

lemmas client_state_defs = connect_def is_connected_def ControlClient_def loop_head_def set_task_def request_begin_def
  note_request_def write_frame_def encode_frame_def demo_pack_def MAX_FRAME_PAYLOAD_def REQUEST_ID_SIZE_def

lemma ping_answered:
  assumes "\<not> bridge_up b"
  shows "\<exists>s. bridge_connect (demo_pack []) \<lparr>a_opened = True, a_ping = answered_ping\<rparr> b =
      (Inr True, (put_client (Some s) b)\<lparr>br_connected := True\<rparr>) \<and>
    is_connected s \<and> conn s = Some 0 \<and> replies s = [Answer PONG []] \<and> length (sockets s) = 1"
  using assms
  by (simp add: bridge_connect_def await_call_def answered_ping_def short_ping_def ping_def ipc_call_def call_outcome_def reply_result_def
      ping_result_def client_state_defs Let_def)
    (rule exI, rule conjI, rule refl, simp)

theorem broken_call_is_made_again_witness:
  "\<exists>b' s1 frame. bridge_call (demo_pack []) broken_then_whole (Ipc_Calls.mark_read ''peer'') connected_bridge = (Inl IPCTimeoutError, b') \<and>
     s1 \<in> set (br_left b') \<and>
     encode_frame (demo_pack []) CMD_MARK_READ (replicate 16 8) (to_payload (call_request (Ipc_Calls.mark_read ''peer''))) = Inr frame \<and>
     outgoing (sockets s1 ! 0) = frame"
proof -
  let ?mp = "demo_pack []" and ?s = "snd (connect (demo_pack []) True (ControlClient 30))"
  let ?c = "Ipc_Calls.mark_read ''peer''" and ?w = broken_then_whole
  have b: "bridge_up connected_bridge" "br_client connected_bridge = Some ?s" "br_auto connected_bridge"
    by (simp_all add: connected_bridge_def bridge_up_def IPCBridge_def client_state_defs)
  have s: "conn ?s = Some 0" "length (sockets ?s) = 1" "outgoing (sockets ?s ! 0) = []" by (simp_all add: client_state_defs)
  have nd: "\<not> w_drained (first_wait ?w)" and ids: "w_id (first_wait ?w) = replicate 16 8" by (simp_all add: broken_then_whole_def)
  have ty: "MSG_TYPE (call_request ?c) = CMD_MARK_READ" by (simp add: Ipc_Calls.mark_read_def ipc_call_def)
  obtain frame where f: "encode_frame ?mp CMD_MARK_READ (replicate 16 8) (to_payload (call_request ?c)) = Inr frame"
    by (simp add: client_state_defs)
  have five: "MAX_RECONNECT_ATTEMPTS = Suc 4" by (simp add: MAX_RECONNECT_ATTEMPTS_def)
  have rc: "\<exists>s2 b2. reconnect ?mp (later_attempts ?w) b1 = (Inr True, b2, []) \<and> br_client b2 = Some s2 \<and>
      is_connected s2 \<and> conn s2 = Some 0 \<and> replies s2 = [Answer PONG []] \<and> length (sockets s2) = 1" if "\<not> bridge_up b1" for b1
    using ping_answered [OF that] unfolding reconnect_def five reconnect_from.simps(2)
    by (auto simp: broken_then_whole_def)
  then have h8: "fst (reconnect ?mp (later_attempts ?w) b1) = Inr True" if "\<not> bridge_up b1" for b1
    using that by (metis fst_conv)
  have late: "fst (await_call ?mp (later_wait ?w) ?c s2) = Inl IPCTimeoutError"
    if "is_connected s2" "conn s2 = Some 0" "replies s2 = [Answer PONG []]" for s2
    using that
    by (simp add: await_call_def broken_then_whole_def request_begin_def note_request_def write_frame_def encode_frame_def
        demo_pack_def MAX_FRAME_PAYLOAD_def REQUEST_ID_SIZE_def call_outcome_def reply_result_def request_times_out_def Let_def)
  obtain r b' where call: "bridge_call ?mp ?w ?c connected_bridge = (r, b')" by fastforce
  obtain s1 where first: "await_call ?mp (first_wait ?w) ?c ?s = (Inl IPCConnectionError, s1)"
    by (simp add: await_call_def broken_then_whole_def client_state_defs Let_def)
  let ?b1 = "connected_bridge\<lparr>br_client := Some s1, br_connected := False\<rparr>"
  have down: "\<not> bridge_up ?b1" by (simp add: bridge_up_def)
  obtain s2 b2 where second: "reconnect ?mp (later_attempts ?w) ?b1 = (Inr True, b2, [])" "br_client b2 = Some s2"
      "is_connected s2" "conn s2 = Some 0" "replies s2 = [Answer PONG []]"
    using rc [OF down] by blast
  have "r = Inl IPCTimeoutError"
    using call b first down second(1,2) late [OF second(3-5)]
    by (auto simp: bridge_call_def ensure_connected_def split: prod.splits)
  then show ?thesis
    using broken_call_is_made_again [OF b(1,2,3) s(1) _ nd, of ?mp ?c frame r b'] s f h8 call by (auto simp: ty ids)
qed

text \<open>
  The client of a new connection has none of the handlers that were registered with the one before, and
  nothing subscribes it again.
\<close>

lemma reconnecting_forgets_handlers:
  assumes "\<not> bridge_up b" and "bridge_connect mp a b = (Inr True, b')"
    and "\<And>s. event_callbacks (w_during (a_ping a) s) = event_callbacks s"
  shows "\<exists>s. br_client b' = Some s \<and> event_callbacks s = []"
proof -
  obtain s where c: "connect mp (a_opened a) (ControlClient (br_timeout b)) = (Inr (), s)"
    using assms(1,2) by (cases "connect mp (a_opened a) (ControlClient (br_timeout b))") (auto simp: bridge_connect_def split: sum.splits)
  have "event_callbacks s = []"
    using c by (auto simp: connect_def is_connected_def ControlClient_def loop_head_def set_task_def split: if_splits)
  moreover have "event_callbacks (snd (await_call mp (a_ping a) short_ping s)) = event_callbacks s"
    using assms(3)
    by (auto simp: await_call_def request_begin_def request_times_out_def forget_reply_def settle_reply_def note_request_def Let_def
        split: option.splits sum.splits prod.splits)
  ultimately show ?thesis
    using assms(1,2) c by (auto simp: bridge_connect_def split: prod.splits sum.splits bool.splits)
qed

text \<open>Provisioning an adapter through the bridge never succeeds.\<close>

lemma provision_adapter_fails: "fst (provision_adapter mp w nm b) \<noteq> Inr v"
  by (simp add: provision_adapter_def split: sum.split prod.split)

text \<open>A lane has the bridge's timeout and way of reconnecting, and starts without a connection.\<close>

lemma lane_starts_down: "\<not> bridge_up (spawn_lane t b) \<and> br_timeout (spawn_lane t b) = br_timeout b \<and> br_auto (spawn_lane t b) = br_auto b"
  by (simp add: spawn_lane_def) (simp add: IPCBridge_def)

end
