(* ===== verification/Tui_Config.thy ===== *)
theory Tui_Config
  imports Config_Theorems Config_Validate
begin

text \<open>
  The configuration of the terminal UI (\<^verbatim>\<open>src/styrened/tui/services/config.py\<close>, with its classes in
  \<^verbatim>\<open>tui/models/config.py\<close> and the first-run tiers of \<^verbatim>\<open>services/group_threads.py\<close>): its own sections
  beside a copy of the core configuration, the parser, the writer, validation, the overlay of the core
  file, and what is left of a configuration that is saved and loaded. A path is its text; what exists is
  an argument.
\<close>

section \<open>Classes\<close>

datatype log_level = DEBUG_LEVEL | INFO_LEVEL | WARNING_LEVEL | ERROR_LEVEL

primrec log_level_value :: "log_level \<Rightarrow> string" where
  "log_level_value DEBUG_LEVEL = ''debug''"
| "log_level_value INFO_LEVEL = ''info''"
| "log_level_value WARNING_LEVEL = ''warning''"
| "log_level_value ERROR_LEVEL = ''error''"

definition log_level_of :: "pyval \<Rightarrow> log_level option" where
  "log_level_of = enum_of log_level_value [DEBUG_LEVEL, INFO_LEVEL, WARNING_LEVEL, ERROR_LEVEL]"

lemma log_level_of_value [simp]: "log_level_of (PStr (log_level_value l)) = Some l"
  by (cases l) (simp_all add: log_level_of_def enum_of_def)

datatype gateway_mode = GATEWAY_OFF | GATEWAY_CLIENT | GATEWAY_SERVER

primrec gateway_mode_value :: "gateway_mode \<Rightarrow> string" where
  "gateway_mode_value GATEWAY_OFF = ''off''"
| "gateway_mode_value GATEWAY_CLIENT = ''client''"
| "gateway_mode_value GATEWAY_SERVER = ''server''"

definition gateway_mode_of :: "pyval \<Rightarrow> gateway_mode option" where
  "gateway_mode_of = enum_of gateway_mode_value [GATEWAY_OFF, GATEWAY_CLIENT, GATEWAY_SERVER]"

lemma gateway_mode_of_value [simp]: "gateway_mode_of (PStr (gateway_mode_value m)) = Some m"
  by (cases m) (simp_all add: gateway_mode_of_def enum_of_def)

record tui_config =
  tui_theme :: string
  tui_custom_theme_url :: string
  tui_custom_theme_colors :: "(string \<times> string) list"
  tui_identity_nudge_dismissed :: bool
  tui_log_level :: log_level
  tui_show_hardware_panel :: bool
  tui_confirm_destructive :: bool

definition TUIConfig :: tui_config where
  "TUIConfig =
     \<lparr>tui_theme = ''styrene'', tui_custom_theme_url = [], tui_custom_theme_colors = [],
      tui_identity_nudge_dismissed = False, tui_log_level = INFO_LEVEL, tui_show_hardware_panel = True,
      tui_confirm_destructive = True\<rparr>"

record fleet_config =
  flt_edge_fleet_path :: "string option"
  flt_inventory_file :: string
  flt_auto_sync_inventory :: bool

definition FleetConfig :: fleet_config where
  "FleetConfig =
     \<lparr>flt_edge_fleet_path = None, flt_inventory_file = ''inventory/devices.yaml'', flt_auto_sync_inventory = True\<rparr>"

record provisioning_defaults =
  prv_default_device_type :: pyval
  prv_ssh_key_paths :: "string list"
  prv_default_hostname_prefix :: string

definition ProvisioningDefaults :: provisioning_defaults where
  "ProvisioningDefaults =
     \<lparr>prv_default_device_type = PNone, prv_ssh_key_paths = [], prv_default_hostname_prefix = ''node''\<rparr>"

record mesh_defaults =
  msh_enable :: bool
  msh_mesh_id :: string
  msh_channel :: int
  msh_gateway_mode :: gateway_mode
  msh_interface :: pyval

definition MeshDefaults :: mesh_defaults where
  "MeshDefaults =
     \<lparr>msh_enable = True, msh_mesh_id = ''styrene'', msh_channel = 6, msh_gateway_mode = GATEWAY_CLIENT,
      msh_interface = PNone\<rparr>"

record advanced_config =
  adv_debug_mode :: bool
  adv_telemetry_enabled :: bool
  adv_config_version :: int
  adv_headless :: bool

definition AdvancedConfig :: advanced_config where
  "AdvancedConfig =
     \<lparr>adv_debug_mode = False, adv_telemetry_enabled = False, adv_config_version = 1, adv_headless = False\<rparr>"

text \<open>
  The parser stores any value as the hub address. The core record holds a text there or nothing;
  \<open>sc_odd_hub\<close> is a value that is neither.
\<close>

record styrene_config =
  sc_core :: core_config
  sc_tui :: tui_config
  sc_fleet :: fleet_config
  sc_provisioning :: provisioning_defaults
  sc_mesh :: mesh_defaults
  sc_advanced :: advanced_config
  sc_odd_hub :: "pyval option"

definition StyreneConfig :: styrene_config where
  "StyreneConfig =
     \<lparr>sc_core = CoreConfig, sc_tui = TUIConfig, sc_fleet = FleetConfig, sc_provisioning = ProvisioningDefaults,
      sc_mesh = MeshDefaults, sc_advanced = AdvancedConfig, sc_odd_hub = None\<rparr>"

text \<open>The accessors of the sections of the core configuration, and writing through them.\<close>

definition in_core :: "(core_config \<Rightarrow> core_config) \<Rightarrow> styrene_config \<Rightarrow> styrene_config" where
  "in_core f c = c\<lparr>sc_core := f (sc_core c)\<rparr>"

definition in_reticulum :: "(reticulum_config \<Rightarrow> reticulum_config) \<Rightarrow> styrene_config \<Rightarrow> styrene_config" where
  "in_reticulum f = in_core (c_reticulum_update f)"

definition in_interfaces :: "(interface_config \<Rightarrow> interface_config) \<Rightarrow> styrene_config \<Rightarrow> styrene_config" where
  "in_interfaces f = in_reticulum (ret_interfaces_update f)"

section \<open>First-run defaults\<close>

record hardware_inputs =
  hw_memory_mb :: "int option"
  hw_storage_gb :: "int option"
  hw_device_profile :: "string option"

text \<open>\<^verbatim>\<open>x or 0\<close> and \<^verbatim>\<open>x and x <= n\<close>.\<close>

definition or_zero :: "int option \<Rightarrow> int" where
  "or_zero x = (case x of None \<Rightarrow> 0 | Some i \<Rightarrow> i)"

definition known_at_most :: "int \<Rightarrow> int \<Rightarrow> bool" where
  "known_at_most x n \<longleftrightarrow> x \<noteq> 0 \<and> x \<le> n"

definition low_power_profiles :: "string list" where
  "low_power_profiles = [''lora'', ''field'', ''tiny'', ''micro'', ''endpoint-lowpower'']"

definition choose_group_thread_feature_tier :: "hardware_inputs \<Rightarrow> feature_tier" where
  "choose_group_thread_feature_tier x =
     (let p = lower (case hw_device_profile x of None \<Rightarrow> [] | Some s \<Rightarrow> s);
          memory = or_zero (hw_memory_mb x); storage = or_zero (hw_storage_gb x)
      in if p \<in> set low_power_profiles then MINIMAL
         else if known_at_most memory 1024 then MINIMAL
         else if known_at_most storage 8 then MINIMAL
         else if known_at_most memory 4096 then BALANCED
         else if known_at_most storage 32 then BALANCED
         else FULL)"

text \<open>
  The system: \<open>None\<close> for a probe that raises. A disk is its size in GB and whether it can be removed.
  Memory is divided by a power of two, which is exact.
\<close>

record machine =
  ram_total_bytes :: "int option"
  disks :: "(rat \<times> bool) list option"
  profile_variable :: "string option"

definition detect_group_thread_hardware_inputs :: "machine \<Rightarrow> hardware_inputs" where
  "detect_group_thread_hardware_inputs m =
     \<lparr>hw_memory_mb = (case ram_total_bytes m of
        None \<Rightarrow> None | Some n \<Rightarrow> if 0 < n then Some (n div (1024 * 1024)) else None),
      hw_storage_gb = (case ram_total_bytes m of None \<Rightarrow> None | Some n \<Rightarrow>
        (case disks m of
           None \<Rightarrow> None
         | Some ds \<Rightarrow>
             (let fixed = map fst (filter (\<lambda>d. \<not> snd d) ds)
              in if fixed = [] then None
                 else (case py_int (PFloat (foldr max (tl fixed) (hd fixed))) of Inl e \<Rightarrow> None | Inr i \<Rightarrow> Some i)))),
      hw_device_profile = (case profile_variable m of
        None \<Rightarrow> None
      | Some s \<Rightarrow> if s = [] \<or> lower (py_strip s) = [] then None else Some (lower (py_strip s)))\<rparr>"

definition tier_settings :: "feature_tier \<Rightarrow> group_threads_config \<Rightarrow> group_threads_config" where
  "tier_settings t g =
     (case t of
        MINIMAL \<Rightarrow> g\<lparr>gt_feature_tier := t, gt_bounded_retention := True, gt_metadata_first_sync := True,
                     gt_auto_media_fetch := False, gt_background_catchup := False\<rparr>
      | BALANCED \<Rightarrow> g\<lparr>gt_feature_tier := t, gt_bounded_retention := True, gt_metadata_first_sync := False,
                      gt_auto_media_fetch := False, gt_background_catchup := True\<rparr>
      | FULL \<Rightarrow> g\<lparr>gt_feature_tier := t, gt_bounded_retention := False, gt_metadata_first_sync := False,
                  gt_auto_media_fetch := True, gt_background_catchup := True\<rparr>)"

definition apply_group_thread_first_run_defaults ::
    "machine \<Rightarrow> styrene_config \<Rightarrow> hardware_inputs option \<Rightarrow> styrene_config" where
  "apply_group_thread_first_run_defaults m c inputs =
     (if \<not> gt_first_run_auto_tier (c_group_threads (sc_core c)) then c
      else
        let x = (case inputs of None \<Rightarrow> detect_group_thread_hardware_inputs m | Some i \<Rightarrow> i)
        in in_core (c_group_threads_update (tier_settings (choose_group_thread_feature_tier x))) c)"

text \<open>The home directory (empty for the root), and which paths exist and are directories.\<close>

record tui_world =
  home_dir :: string
  there :: "string \<Rightarrow> bool"
  directory_there :: "string \<Rightarrow> bool"
  this_machine :: machine

definition common_keys :: "tui_world \<Rightarrow> string list" where
  "common_keys w = [home_dir w @ ''/.ssh/id_ed25519.pub'', home_dir w @ ''/.ssh/id_rsa.pub'']"

definition get_default_config :: "tui_world \<Rightarrow> styrene_config" where
  "get_default_config w =
     (let c = StyreneConfig\<lparr>sc_provisioning := ProvisioningDefaults\<lparr>prv_ssh_key_paths := filter (there w) (common_keys w)\<rparr>\<rparr>;
          c1 = in_reticulum (\<lambda>r. r\<lparr>ret_hub_enabled := True,
                 ret_hub_address := Some ''6fc8bf22aa293588c9bf8d7488102e95'', ret_hub_announce_interval := 3600\<rparr>) c;
          c2 = in_interfaces (if_peers_update (\<lambda>_. WELL_KNOWN_HUBS)) c1
      in apply_group_thread_first_run_defaults (this_machine w) c2 None)"

section \<open>Reading\<close>

text \<open>\<^verbatim>\<open>bool(v)\<close>, and \<^verbatim>\<open>Path(v).expanduser()\<close>, which takes a text only.\<close>

definition set_truth :: "((bool \<Rightarrow> bool) \<Rightarrow> 'c \<Rightarrow> 'c) \<Rightarrow> pyval \<Rightarrow> 'c \<Rightarrow> 'c res" where
  "set_truth upd v c = Inr (upd (\<lambda>_. truthy v) c)"

definition set_value :: "((pyval \<Rightarrow> pyval) \<Rightarrow> 'c \<Rightarrow> 'c) \<Rightarrow> pyval \<Rightarrow> 'c \<Rightarrow> 'c res" where
  "set_value upd v c = Inr (upd (\<lambda>_. v) c)"

definition user_path :: "config_env \<Rightarrow> pyval \<Rightarrow> string res" where
  "user_path env v = (case v of PStr s \<Rightarrow> expanduser env s | _ \<Rightarrow> Inl TypeError)"

definition set_user_path ::
    "config_env \<Rightarrow> ((string option \<Rightarrow> string option) \<Rightarrow> 'c \<Rightarrow> 'c) \<Rightarrow> pyval \<Rightarrow> 'c \<Rightarrow> 'c res" where
  "set_user_path env upd v c = bind_res (user_path env v) (\<lambda>p. Inr (upd (\<lambda>_. Some p) c))"

text \<open>\<^verbatim>\<open>{str(k): str(v) for k, v in raw.items()}\<close>.\<close>

definition text_items :: "config_env \<Rightarrow> pydict \<Rightarrow> (string \<times> string) list" where
  "text_items env d = fold (\<lambda>(k, v). AList.update (text_of env k) (text_of env v)) d []"

definition read_tui :: "config_env \<Rightarrow> pydict \<Rightarrow> tui_config \<Rightarrow> tui_config res" where
  "read_tui env d = in_turn
     [on_key d ''theme'' (set_text env tui_theme_update),
      on_key d ''custom_theme_url'' (set_text env tui_custom_theme_url_update),
      on_key d ''custom_theme_colors'' (\<lambda>v c. Inr (case v of
        PDict raw \<Rightarrow> c\<lparr>tui_custom_theme_colors := text_items env raw\<rparr> | _ \<Rightarrow> c)),
      on_key d ''log_level'' (set_enum log_level_of tui_log_level_update),
      on_key d ''show_hardware_panel'' (set_truth tui_show_hardware_panel_update),
      on_key d ''confirm_destructive'' (set_truth tui_confirm_destructive_update),
      on_key d ''identity_nudge_dismissed'' (set_truth tui_identity_nudge_dismissed_update)]"

definition read_fleet :: "config_env \<Rightarrow> pydict \<Rightarrow> fleet_config \<Rightarrow> fleet_config res" where
  "read_fleet env d = in_turn
     [on_truthy d ''edge_fleet_path'' (set_user_path env flt_edge_fleet_path_update),
      on_key d ''inventory_file'' (set_text env flt_inventory_file_update),
      on_key d ''auto_sync_inventory'' (set_truth flt_auto_sync_inventory_update)]"

definition read_provisioning :: "config_env \<Rightarrow> pydict \<Rightarrow> provisioning_defaults \<Rightarrow> provisioning_defaults res" where
  "read_provisioning env d = in_turn
     [on_key d ''default_device_type'' (set_value prv_default_device_type_update),
      on_list d ''ssh_key_paths'' (\<lambda>vs c. bind_res (map_res (user_path env) (filter truthy vs))
        (\<lambda>ps. Inr (c\<lparr>prv_ssh_key_paths := ps\<rparr>))),
      on_key d ''default_hostname_prefix'' (set_text env prv_default_hostname_prefix_update)]"

definition read_mesh :: "config_env \<Rightarrow> pydict \<Rightarrow> mesh_defaults \<Rightarrow> mesh_defaults res" where
  "read_mesh env d = in_turn
     [on_key d ''enable'' (set_truth msh_enable_update), on_key d ''mesh_id'' (set_text env msh_mesh_id_update),
      on_key d ''channel'' (set_int msh_channel_update),
      on_key d ''gateway_mode'' (set_enum gateway_mode_of msh_gateway_mode_update),
      on_key d ''interface'' (set_value msh_interface_update)]"

definition read_server :: "config_env \<Rightarrow> pydict \<Rightarrow> server_config \<Rightarrow> server_config res" where
  "read_server env d = in_turn
     [on_key d ''enabled'' (set_truth srv_enabled_update), on_key d ''listen_ip'' (set_text env srv_listen_ip_update),
      on_key d ''port'' (set_int srv_port_update)]"

definition read_peer_entry :: "config_env \<Rightarrow> pyval \<Rightarrow> peer_config option res" where
  "read_peer_entry env v =
     (case v of
        PDict p \<Rightarrow>
          (case d_get p ''host'' of
             None \<Rightarrow> Inr None
           | Some h \<Rightarrow>
               bind_res (py_int (d_get_or p ''port'' (PInt 4242))) (\<lambda>port.
               Inr (Some \<lparr>peer_host = text_of env h, peer_port = port, peer_name = d_get_or p ''name'' PNone,
                          peer_enabled = truthy (d_get_or p ''enabled'' (PBool True))\<rparr>)))
      | _ \<Rightarrow> Inr None)"

text \<open>Missing hubs are added switched off.\<close>

definition add_missing_hubs_off :: "peer_config list \<Rightarrow> peer_config list" where
  "add_missing_hubs_off ps =
     ps @ map (\<lambda>h. h\<lparr>peer_enabled := False\<rparr>) (filter (\<lambda>h. endpoint_of h \<notin> endpoint_of ` set ps) WELL_KNOWN_HUBS)"

definition read_interfaces :: "config_env \<Rightarrow> pydict \<Rightarrow> interface_config \<Rightarrow> interface_config res" where
  "read_interfaces env d = in_turn
     [on_key d ''auto'' (set_truth if_auto_update),
      on_dict d ''server'' (read_server env) if_server if_server_update,
      on_list d ''peers'' (\<lambda>vs c. bind_res (map_res (read_peer_entry env) vs)
        (\<lambda>ps. Inr (c\<lparr>if_peers := List.map_filter id ps\<rparr>))),
      (\<lambda>c. Inr (c\<lparr>if_peers := add_missing_hubs_off (if_peers c)\<rparr>))]"

text \<open>The section of Reticulum but for the hub address, which is read last.\<close>

definition read_reticulum :: "config_env \<Rightarrow> pydict \<Rightarrow> reticulum_config \<Rightarrow> reticulum_config res" where
  "read_reticulum env d = in_turn
     [on_truthy d ''config_path_override'' (set_user_path env ret_config_path_override_update),
      on_key d ''auto_initialize'' (set_truth ret_auto_initialize_update),
      on_key d ''mode'' (set_enum deployment_mode_of ret_mode_update),
      on_key d ''enable_transport'' (\<lambda>v c. Inr (if v = PNone then c else c\<lparr>ret_enable_transport := Some (truthy v)\<rparr>)),
      on_truthy d ''operator_identity_path'' (set_user_path env ret_operator_identity_path_update),
      on_key d ''announce_interval'' (set_int ret_announce_interval_update),
      on_dict d ''interfaces'' (read_interfaces env) ret_interfaces ret_interfaces_update,
      on_key d ''hub_enabled'' (set_truth ret_hub_enabled_update)]"

definition read_hub_address :: "pyval \<Rightarrow> styrene_config \<Rightarrow> styrene_config res" where
  "read_hub_address v c =
     Inr (case v of
            PStr s \<Rightarrow> (in_reticulum (ret_hub_address_update (\<lambda>_. Some s)) c)\<lparr>sc_odd_hub := None\<rparr>
          | PNone \<Rightarrow> (in_reticulum (ret_hub_address_update (\<lambda>_. None)) c)\<lparr>sc_odd_hub := None\<rparr>
          | _ \<Rightarrow> (in_reticulum (ret_hub_address_update (\<lambda>_. None)) c)\<lparr>sc_odd_hub := Some v\<rparr>)"

definition read_reticulum_section :: "config_env \<Rightarrow> pydict \<Rightarrow> styrene_config \<Rightarrow> styrene_config res" where
  "read_reticulum_section env d c =
     bind_res (read_reticulum env d (c_reticulum (sc_core c)))
       (\<lambda>r. on_key d ''hub_address'' read_hub_address (in_reticulum (\<lambda>_. r) c))"

definition read_rpc :: "pydict \<Rightarrow> rpc_config \<Rightarrow> rpc_config res" where
  "read_rpc d = in_turn
     [on_key d ''enabled'' (set_truth rpc_enabled_update), on_key d ''relay_mode'' (set_truth rpc_relay_mode_update),
      on_key d ''allow_command_execution'' (set_truth rpc_allow_command_execution_update)]"

definition read_discovery :: "pydict \<Rightarrow> discovery_config \<Rightarrow> discovery_config res" where
  "read_discovery d = in_turn
     [on_key d ''enabled'' (set_truth disc_enabled_update),
      on_key d ''auto_announce'' (set_truth disc_auto_announce_update)]"

definition read_api :: "config_env \<Rightarrow> pydict \<Rightarrow> api_config \<Rightarrow> api_config res" where
  "read_api env d = in_turn
     [on_key d ''enabled'' (set_truth api_enabled_update), on_key d ''host'' (set_text env api_host_update),
      on_key d ''port'' (set_int api_port_update)]"

definition read_advanced :: "pydict \<Rightarrow> advanced_config \<Rightarrow> advanced_config res" where
  "read_advanced d = in_turn
     [on_key d ''debug_mode'' (set_truth adv_debug_mode_update),
      on_key d ''telemetry_enabled'' (set_truth adv_telemetry_enabled_update),
      on_key d ''headless'' (set_truth adv_headless_update),
      on_key d ''config_version'' (set_int adv_config_version_update)]"

definition read_identity_section :: "config_env \<Rightarrow> pydict \<Rightarrow> identity_config \<Rightarrow> identity_config res" where
  "read_identity_section env d = in_turn
     [on_truthy d ''display_name'' (set_text env id_display_name_update),
      on_truthy d ''icon'' (set_text env id_icon_update),
      on_truthy d ''short_name'' (set_some_text env id_short_name_update),
      on_key d ''provider'' (set_text env id_provider_update)]"

definition read_lxmf :: "config_env \<Rightarrow> pydict \<Rightarrow> lxmf_config \<Rightarrow> lxmf_config res" where
  "read_lxmf env d = on_truthy d ''propagation_destination'' (set_some_text env lx_propagation_destination_update)"

definition core_section :: "(core_config \<Rightarrow> 's) \<Rightarrow> styrene_config \<Rightarrow> 's" where
  "core_section get c = get (sc_core c)"

text \<open>The sections in the order in which they are read.\<close>

definition read_sections :: "config_env \<Rightarrow> pydict \<Rightarrow> styrene_config \<Rightarrow> styrene_config res" where
  "read_sections env d = in_turn
     [on_dict d ''tui'' (read_tui env) sc_tui sc_tui_update,
      on_dict d ''fleet'' (read_fleet env) sc_fleet sc_fleet_update,
      on_dict d ''provisioning'' (read_provisioning env) sc_provisioning sc_provisioning_update,
      on_dict d ''mesh'' (read_mesh env) sc_mesh sc_mesh_update,
      on_dict d ''reticulum'' (read_reticulum_section env) id (\<lambda>f. f),
      on_dict d ''rpc'' read_rpc (core_section c_rpc) (in_core \<circ> c_rpc_update),
      on_dict d ''discovery'' read_discovery (core_section c_discovery) (in_core \<circ> c_discovery_update),
      on_dict d ''api'' (read_api env) (core_section c_api) (in_core \<circ> c_api_update),
      on_dict d ''advanced'' read_advanced sc_advanced sc_advanced_update,
      on_dict d ''identity'' (read_identity_section env) (core_section c_identity) (in_core \<circ> c_identity_update),
      on_dict d ''lxmf'' (read_lxmf env) (core_section c_lxmf) (in_core \<circ> c_lxmf_update)]"

definition section_names :: "string list" where
  "section_names = [''tui'', ''fleet'', ''provisioning'', ''mesh'', ''reticulum'', ''rpc'', ''discovery'', ''api'',
     ''advanced'', ''identity'', ''lxmf'']"

text \<open>
  A file need not hold a dictionary. \<^verbatim>\<open>"tui" in data\<close> looks for an item of a list or for a part of a
  text, and \<^verbatim>\<open>data["tui"]\<close> then raises; other values raise at once.
\<close>

definition parse_config_dict :: "config_env \<Rightarrow> tui_world \<Rightarrow> pyval \<Rightarrow> styrene_config res" where
  "parse_config_dict env w v =
     (case v of
        PDict d \<Rightarrow> read_sections env d (get_default_config w)
      | PList vs \<Rightarrow> if list_ex (\<lambda>k. PStr k \<in> set vs) section_names then Inl TypeError else Inr (get_default_config w)
      | PStr s \<Rightarrow> if list_ex (\<lambda>k. sublist k s) section_names then Inl TypeError else Inr (get_default_config w)
      | _ \<Rightarrow> Inl TypeError)"

section \<open>Writing\<close>

definition tui_to_dict :: "tui_config \<Rightarrow> (string \<times> pyval) list" where
  "tui_to_dict x =
     [(''theme'', PStr (tui_theme x)), (''custom_theme_url'', PStr (tui_custom_theme_url x)),
      (''custom_theme_colors'', PDict (map (\<lambda>(k, v). (PStr k, PStr v)) (tui_custom_theme_colors x))),
      (''log_level'', PStr (log_level_value (tui_log_level x))),
      (''show_hardware_panel'', PBool (tui_show_hardware_panel x)),
      (''confirm_destructive'', PBool (tui_confirm_destructive x)),
      (''identity_nudge_dismissed'', PBool (tui_identity_nudge_dismissed x))]"

definition fleet_to_dict :: "fleet_config \<Rightarrow> (string \<times> pyval) list" where
  "fleet_to_dict x =
     [(''edge_fleet_path'', opt PStr (flt_edge_fleet_path x)), (''inventory_file'', PStr (flt_inventory_file x)),
      (''auto_sync_inventory'', PBool (flt_auto_sync_inventory x))]"

definition provisioning_to_dict :: "provisioning_defaults \<Rightarrow> (string \<times> pyval) list" where
  "provisioning_to_dict x =
     [(''default_device_type'', prv_default_device_type x), (''ssh_key_paths'', str_list (prv_ssh_key_paths x)),
      (''default_hostname_prefix'', PStr (prv_default_hostname_prefix x))]"

definition mesh_to_dict :: "mesh_defaults \<Rightarrow> (string \<times> pyval) list" where
  "mesh_to_dict x =
     [(''enable'', PBool (msh_enable x)), (''mesh_id'', PStr (msh_mesh_id x)), (''channel'', PInt (msh_channel x)),
      (''gateway_mode'', PStr (gateway_mode_value (msh_gateway_mode x))), (''interface'', msh_interface x)]"

text \<open>Neither whether a peer is enabled nor the announce interval of the hub is written.\<close>

definition peer_entry_to_dict :: "peer_config \<Rightarrow> pyval" where
  "peer_entry_to_dict p =
     PDict (kv [(''host'', PStr (peer_host p)), (''port'', PInt (peer_port p)), (''name'', peer_name p)])"

definition reticulum_section_to_dict :: "reticulum_config \<Rightarrow> pyval option \<Rightarrow> (string \<times> pyval) list" where
  "reticulum_section_to_dict r other =
     [(''config_path_override'', opt PStr (ret_config_path_override r)),
      (''auto_initialize'', PBool (ret_auto_initialize r)), (''mode'', PStr (deployment_mode_value (ret_mode r))),
      (''enable_transport'', opt PBool (ret_enable_transport r)),
      (''operator_identity_path'', opt PStr (ret_operator_identity_path r)),
      (''announce_interval'', PInt (ret_announce_interval r)),
      (''interfaces'', sub
        [(''auto'', PBool (if_auto (ret_interfaces r))),
         (''server'', sub
           [(''enabled'', PBool (srv_enabled (if_server (ret_interfaces r)))),
            (''listen_ip'', PStr (srv_listen_ip (if_server (ret_interfaces r)))),
            (''port'', PInt (srv_port (if_server (ret_interfaces r))))]),
         (''peers'', PList (map peer_entry_to_dict (if_peers (ret_interfaces r))))]),
      (''hub_enabled'', PBool (ret_hub_enabled r)),
      (''hub_address'', case other of None \<Rightarrow> opt PStr (ret_hub_address r) | Some v \<Rightarrow> v)]"

definition advanced_to_dict :: "advanced_config \<Rightarrow> (string \<times> pyval) list" where
  "advanced_to_dict x =
     [(''debug_mode'', PBool (adv_debug_mode x)), (''telemetry_enabled'', PBool (adv_telemetry_enabled x)),
      (''headless'', PBool (adv_headless x)), (''config_version'', PInt (adv_config_version x))]"

definition config_to_dict :: "styrene_config \<Rightarrow> (string \<times> pyval) list" where
  "config_to_dict c =
     [(''tui'', sub (tui_to_dict (sc_tui c))), (''fleet'', sub (fleet_to_dict (sc_fleet c))),
      (''provisioning'', sub (provisioning_to_dict (sc_provisioning c))), (''mesh'', sub (mesh_to_dict (sc_mesh c))),
      (''reticulum'', sub (reticulum_section_to_dict (c_reticulum (sc_core c)) (sc_odd_hub c))),
      (''rpc'', sub
        [(''enabled'', PBool (rpc_enabled (c_rpc (sc_core c)))), (''relay_mode'', PBool (rpc_relay_mode (c_rpc (sc_core c)))),
         (''allow_command_execution'', PBool (rpc_allow_command_execution (c_rpc (sc_core c))))]),
      (''discovery'', sub
        [(''enabled'', PBool (disc_enabled (c_discovery (sc_core c)))),
         (''auto_announce'', PBool (disc_auto_announce (c_discovery (sc_core c))))]),
      (''api'', sub
        [(''enabled'', PBool (api_enabled (c_api (sc_core c)))), (''host'', PStr (api_host (c_api (sc_core c)))),
         (''port'', PInt (api_port (c_api (sc_core c))))]),
      (''advanced'', sub (advanced_to_dict (sc_advanced c)))]"

section \<open>Validation\<close>

definition check_edge_fleet :: "tui_world \<Rightarrow> fleet_config \<Rightarrow> config_field_error list" where
  "check_edge_fleet w x =
     (case flt_edge_fleet_path x of
        None \<Rightarrow> []
      | Some p \<Rightarrow>
          if \<not> there w p then [field_error ''fleet.edge_fleet_path'' ''Directory does not exist'' (Some p)]
          else report (\<not> directory_there w p) ''fleet.edge_fleet_path'' ''Path is not a directory'' (Some p))"

definition check_ssh_keys :: "tui_world \<Rightarrow> string list \<Rightarrow> config_field_error list" where
  "check_ssh_keys w ps =
     concat (map (\<lambda>(i, p). report (\<not> there w p) (''provisioning.ssh_key_paths['' @ show_nat i @ '']'')
       ''SSH key file does not exist'' (Some p)) (zip [0..<length ps] ps))"

definition check_channel :: "mesh_defaults \<Rightarrow> config_field_error list" where
  "check_channel x =
     report (\<not> (1 \<le> msh_channel x \<and> msh_channel x \<le> 14)) ''mesh.channel'' ''Channel must be between 1 and 14''
       (Some (show_int (msh_channel x)))"

definition check_override :: "tui_world \<Rightarrow> reticulum_config \<Rightarrow> config_field_error list" where
  "check_override w r =
     (case ret_config_path_override r of
        None \<Rightarrow> []
      | Some p \<Rightarrow> report (\<not> there w p) ''reticulum.config_path_override'' ''Directory does not exist'' (Some p))"

definition check_hub_text :: "string \<Rightarrow> config_field_error list" where
  "check_hub_text a =
     (if a = [] then []
      else if py_len a \<noteq> 32 then
        [field_error ''reticulum.hub_address'' ''LXMF address must be 32 hexadecimal characters''
          (Some (if 8 < py_len a then py_take 8 a @ ''...'' else a))]
      else report (\<not> list_all (\<lambda>c. c \<in> set ''0123456789abcdefABCDEF'') a) ''reticulum.hub_address''
        ''LXMF address must contain only hexadecimal characters'' (Some (py_take 8 a @ ''...'')))"

text \<open>
  A value that is no text: \<^verbatim>\<open>len\<close> of a number raises, and so does adding dots to a part of a list, of
  bytes or of a dictionary. A container with 32 items passes if each is a part of the text of the digits.
  The value reported for a short container is its text.
\<close>

definition digits_part :: "pyval \<Rightarrow> bool" where
  "digits_part v = (case v of PStr s \<Rightarrow> sublist s ''0123456789abcdefABCDEF'' | _ \<Rightarrow> False)"

definition check_odd_items :: "config_env \<Rightarrow> pyval \<Rightarrow> pyval list \<Rightarrow> config_field_error list res" where
  "check_odd_items env v items =
     (if length items = 32 then (if list_all digits_part items then Inr [] else Inl TypeError)
      else if 8 < length items then Inl TypeError
      else Inr [field_error ''reticulum.hub_address'' ''LXMF address must be 32 hexadecimal characters''
                  (Some (text_of env v))])"

definition check_odd_hub :: "config_env \<Rightarrow> pyval \<Rightarrow> config_field_error list res" where
  "check_odd_hub env v =
     (if \<not> truthy v then Inr []
      else case v of
        PList vs \<Rightarrow> check_odd_items env v vs
      | PDict d \<Rightarrow> check_odd_items env v (map fst d)
      | PBytes b \<Rightarrow> check_odd_items env v (map (\<lambda>x. PInt (uint x)) b)
      | _ \<Rightarrow> Inl TypeError)"

definition check_hub_address :: "config_env \<Rightarrow> styrene_config \<Rightarrow> config_field_error list res" where
  "check_hub_address env c =
     (case sc_odd_hub c of
        Some v \<Rightarrow> check_odd_hub env v
      | None \<Rightarrow> Inr (case ret_hub_address (c_reticulum (sc_core c)) of None \<Rightarrow> [] | Some a \<Rightarrow> check_hub_text a))"

definition validate_config :: "config_env \<Rightarrow> tui_world \<Rightarrow> styrene_config \<Rightarrow> config_field_error list res" where
  "validate_config env w c =
     bind_res (check_hub_address env c) (\<lambda>hub.
     Inr (check_edge_fleet w (sc_fleet c) @ check_ssh_keys w (prv_ssh_key_paths (sc_provisioning c)) @
          check_channel (sc_mesh c) @ check_override w (c_reticulum (sc_core c)) @ hub))"

section \<open>The file of the core configuration\<close>

record core_store =
  core_file :: "(unit + pyval) option"
  core_writable :: bool

definition write_core :: "core_config \<Rightarrow> core_store \<Rightarrow> core_store" where
  "write_core k st =
     (case save_core_config (core_writable st) k of Inl e \<Rightarrow> st | Inr v \<Rightarrow> st\<lparr>core_file := Some (Inr v)\<rparr>)"

definition unnamed :: "identity_config \<Rightarrow> bool" where
  "unnamed i \<longleftrightarrow> id_display_name i \<in> {[], ''Anonymous Styrene''}"

definition overlay_core_config ::
    "config_env \<Rightarrow> core_store \<Rightarrow> styrene_config \<Rightarrow> styrene_config \<times> core_store" where
  "overlay_core_config env st c =
     (case load_core_config env (core_file st) of
        Inl e \<Rightarrow> (c, st)
      | Inr k \<Rightarrow>
          let old = c_identity (sc_core c);
              c1 = c\<lparr>sc_core := k, sc_odd_hub := None\<rparr>
          in if unnamed (c_identity k) \<and> \<not> unnamed old then
               let k2 = k\<lparr>c_identity := old\<rparr> in (c1\<lparr>sc_core := k2\<rparr>, write_core k2 st)
             else if unnamed (c_identity k) then
               (in_core (c_identity_update (\<lambda>i. i
                  \<lparr>id_icon := if id_icon old \<noteq> id_icon IdentityConfig then id_icon old else id_icon i,
                   id_provider := if id_provider old \<noteq> id_provider IdentityConfig then id_provider old
                                  else id_provider i\<rparr>)) c1, st)
             else (c1, st))"

section \<open>Loading and saving\<close>

text \<open>What reading the file as YAML gives, and how a load or a save ends.\<close>

datatype file_read = Unreadable | Not_Yaml | Undecodable | Content pyval

datatype load_outcome = Loaded styrene_config | Load_Raised exn | Load_Invalid "config_field_error list"

datatype save_outcome = Saved pyval | Save_Raised exn | Save_Invalid "config_field_error list"

definition CURRENT_CONFIG_VERSION :: int where "CURRENT_CONFIG_VERSION = 1"

definition migrate_config :: "styrene_config \<Rightarrow> styrene_config" where
  "migrate_config c = c\<lparr>sc_advanced := (sc_advanced c)\<lparr>adv_config_version := CURRENT_CONFIG_VERSION\<rparr>\<rparr>"

definition checked_load :: "config_env \<Rightarrow> tui_world \<Rightarrow> styrene_config \<Rightarrow> load_outcome" where
  "checked_load env w c =
     (case validate_config env w c of
        Inl e \<Rightarrow> Load_Raised e | Inr [] \<Rightarrow> Loaded c | Inr es \<Rightarrow> Load_Invalid es)"

definition load_config ::
    "config_env \<Rightarrow> tui_world \<Rightarrow> core_store \<Rightarrow> file_read option \<Rightarrow> load_outcome \<times> core_store" where
  "load_config env w st file =
     (case file of
        None \<Rightarrow> (case overlay_core_config env st (get_default_config w) of (c, st') \<Rightarrow> (Loaded c, st'))
      | Some Unreadable \<Rightarrow> (Load_Raised ConfigLoadError, st)
      | Some Not_Yaml \<Rightarrow> (Load_Raised ConfigLoadError, st)
      | Some Undecodable \<Rightarrow> (Load_Raised UnicodeDecodeError, st)
      | Some (Content v) \<Rightarrow>
          (case parse_config_dict env w (if truthy v then v else PDict []) of
             Inl e \<Rightarrow> (Load_Raised e, st)
           | Inr c \<Rightarrow>
               (case overlay_core_config env st
                  (if adv_config_version (sc_advanced c) < CURRENT_CONFIG_VERSION then migrate_config c else c) of
                  (c', st') \<Rightarrow> (checked_load env w c', st'))))"

definition save_config :: "config_env \<Rightarrow> tui_world \<Rightarrow> bool \<Rightarrow> styrene_config \<Rightarrow> save_outcome" where
  "save_config env w writable c =
     (case validate_config env w c of
        Inl e \<Rightarrow> Save_Raised e
      | Inr [] \<Rightarrow> if writable then Saved (PDict (kv (config_to_dict c))) else Save_Raised OSError
      | Inr es \<Rightarrow> Save_Invalid es)"

definition create_default_config :: "config_env \<Rightarrow> tui_world \<Rightarrow> bool \<Rightarrow> styrene_config \<times> save_outcome" where
  "create_default_config env w writable =
     (let c = get_default_config w in (c, save_config env w writable c))"

text \<open>The options of the command line: \<open>None\<close> or zero for an option that is not given.\<close>

record cli_options =
  cli_mode :: "deployment_mode option"
  cli_server_port :: int
  cli_peers :: "peer_config list"
  cli_api_port :: int
  cli_headless :: bool

definition cli_overrides :: "cli_options \<Rightarrow> styrene_config \<Rightarrow> styrene_config" where
  "cli_overrides x c0 =
     (let enable = if_server_update (srv_enabled_update (\<lambda>_. True));
          c1 = (case cli_mode x of None \<Rightarrow> c0 | Some m \<Rightarrow> in_reticulum (ret_mode_update (\<lambda>_. m)) c0);
          c2 = (if cli_headless x then c1\<lparr>sc_advanced := (sc_advanced c1)\<lparr>adv_headless := True\<rparr>\<rparr> else c1);
          is_hub = (ret_mode (c_reticulum (sc_core c2)) = HUB_MODE);
          c3 = (if cli_server_port x \<noteq> 0
                then let c = in_interfaces (if_server_update (srv_port_update (\<lambda>_. cli_server_port x))) c2
                     in if is_hub then in_interfaces enable c else c
                else c2);
          c4 = in_interfaces (if_peers_update (\<lambda>ps. ps @ cli_peers x)) c3;
          c5 = (if cli_api_port x \<noteq> 0
                then in_core (c_api_update (\<lambda>a. a\<lparr>api_enabled := True, api_port := cli_api_port x\<rparr>)) c4 else c4)
      in if is_hub then in_interfaces enable c5 else c5)"

definition update_styrene_config_from_cli ::
    "config_env \<Rightarrow> tui_world \<Rightarrow> bool \<Rightarrow> cli_options \<Rightarrow> styrene_config \<Rightarrow> styrene_config \<times> save_outcome" where
  "update_styrene_config_from_cli env w writable x c =
     (let c' = cli_overrides x c in (c', save_config env w writable c'))"

section \<open>Reading what was written\<close>

lemmas tui_reading = reading set_truth_def set_value_def set_user_path_def user_path_def opt_def

lemma update_new_key: "k \<notin> fst ` set al \<Longrightarrow> AList.update k v al = al @ [(k, v)]"
  by (induction al) auto

lemma fold_update_distinct:
  "distinct (map fst (acc @ xs)) \<Longrightarrow> fold (\<lambda>(k, v). AList.update k v) xs acc = acc @ xs"
proof (induction xs arbitrary: acc)
  case Nil
  then show ?case by simp
next
  case (Cons p xs)
  obtain k v where p: "p = (k, v)" by (cases p)
  with Cons.prems have "AList.update k v acc = acc @ [(k, v)]" by (intro update_new_key) auto
  then show ?case using Cons.IH [of "acc @ [(k, v)]"] Cons.prems by (simp add: p)
qed

lemma distinct_fold_update: "distinct (map fst acc) \<Longrightarrow> distinct (map fst (fold (\<lambda>(k, v). AList.update k v) xs acc))"
  by (induction xs arbitrary: acc) (auto simp: distinct_update)

lemma colors_back: "text_items env (map (\<lambda>(k, v). (PStr k, PStr v)) cs) = cs \<longleftrightarrow> distinct (map fst cs)"
proof -
  have "text_items env (map (\<lambda>(k, v). (PStr k, PStr v)) cs) = fold (\<lambda>(k, v). AList.update k v) cs []"
    by (simp add: text_items_def fold_map o_def case_prod_unfold)
  then show ?thesis using fold_update_distinct [of "[]" cs] distinct_fold_update [of "[]" cs] by auto
qed

lemma tui_loaded:
  "read_tui env (kv (tui_to_dict x)) x0 =
     Inr (x\<lparr>tui_custom_theme_colors := text_items env (map (\<lambda>(k, v). (PStr k, PStr v)) (tui_custom_theme_colors x))\<rparr>)"
  by (cases x; cases x0) (simp add: read_tui_def tui_to_dict_def tui_reading)

lemma tui_back: "read_tui env (kv (tui_to_dict x)) x0 = Inr x \<longleftrightarrow> distinct (map fst (tui_custom_theme_colors x))"
  by (cases x) (auto simp: tui_loaded colors_back)

definition fixed_path :: "config_env \<Rightarrow> string \<Rightarrow> bool" where
  "fixed_path env p \<longleftrightarrow> p \<noteq> [] \<and> expanduser env p = Inr p"

lemma fleet_back:
  "flt_edge_fleet_path x0 = None \<Longrightarrow> read_fleet env (kv (fleet_to_dict x)) x0 = Inr x \<longleftrightarrow>
     (case flt_edge_fleet_path x of None \<Rightarrow> True | Some p \<Rightarrow> fixed_path env p)"
  by (cases x; cases x0)
    (auto simp: read_fleet_def fleet_to_dict_def tui_reading fixed_path_def split: option.splits)

lemma paths_back:
  "map_res (user_path env) (filter truthy (map PStr ps)) = Inr ps \<longleftrightarrow> list_all (fixed_path env) ps"
proof
  assume read: "map_res (user_path env) (filter truthy (map PStr ps)) = Inr ps"
  then have len: "length (filter (\<lambda>s. s \<noteq> []) ps) = length ps"
    using map_res_Inr [OF read] by (simp add: filter_truthy)
  have nonempty: "s \<noteq> []" if "s \<in> set ps" for s
    using length_filter_less [OF that, of "\<lambda>s. s \<noteq> []"] len by auto
  then have "filter (\<lambda>s. s \<noteq> []) ps = ps" by (simp add: filter_id_conv)
  then have "user_path env (PStr (ps ! i)) = Inr (ps ! i)" if "i < length ps" for i
    using map_res_Inr [OF read] that by (simp add: filter_truthy)
  then show "list_all (fixed_path env) ps"
    using nonempty by (simp add: list_all_length fixed_path_def user_path_def)
next
  assume fixed: "list_all (fixed_path env) ps"
  then have "filter (\<lambda>s. s \<noteq> []) ps = ps" by (auto simp: list_all_iff fixed_path_def filter_id_conv)
  then have "map_res (user_path env) (filter truthy (map PStr ps)) = map_res (user_path env) (map PStr ps)"
    by (simp add: filter_truthy)
  also have "\<dots> = Inr ps" using fixed by (induction ps) (auto simp: user_path_def fixed_path_def)
  finally show "map_res (user_path env) (filter truthy (map PStr ps)) = Inr ps" .
qed

lemma provisioning_loaded:
  "read_provisioning env (kv (provisioning_to_dict x)) x0 =
     bind_res (map_res (user_path env) (filter truthy (map PStr (prv_ssh_key_paths x))))
       (\<lambda>ps. Inr (x\<lparr>prv_ssh_key_paths := ps\<rparr>))"
  by (cases x; cases x0)
    (simp add: read_provisioning_def provisioning_to_dict_def reading set_value_def str_list_def bind_res_def
      split: sum.split)

lemma provisioning_back:
  "read_provisioning env (kv (provisioning_to_dict x)) x0 = Inr x \<longleftrightarrow> list_all (fixed_path env) (prv_ssh_key_paths x)"
proof -
  have "x\<lparr>prv_ssh_key_paths := ps\<rparr> = x \<longleftrightarrow> ps = prv_ssh_key_paths x" for ps by (cases x) auto
  then show ?thesis by (simp add: provisioning_loaded paths_back)
qed

lemma mesh_back: "read_mesh env (kv (mesh_to_dict x)) x0 = Inr x"
  by (cases x; cases x0) (simp add: read_mesh_def mesh_to_dict_def tui_reading)

lemma advanced_back: "read_advanced (kv (advanced_to_dict x)) x0 = Inr x"
  by (cases x; cases x0) (simp add: read_advanced_def advanced_to_dict_def tui_reading)

text \<open>A peer comes back switched on, whatever it was.\<close>

lemma peer_entry_back: "read_peer_entry env (peer_entry_to_dict p) = Inr (Some (p\<lparr>peer_enabled := True\<rparr>))"
  by (cases p) (simp add: read_peer_entry_def peer_entry_to_dict_def writing)

lemma peer_entries_back:
  "map_res (read_peer_entry env) (map peer_entry_to_dict ps) = Inr (map (\<lambda>p. Some (p\<lparr>peer_enabled := True\<rparr>)) ps)"
  by (induction ps) (simp_all add: peer_entry_back)

lemma map_filter_Some: "List.map_filter id (map (\<lambda>p. Some (f p)) ps) = map f ps"
  by (induction ps) (simp_all add: List.map_filter_simps)

definition readable_path :: "config_env \<Rightarrow> string option \<Rightarrow> bool" where
  "readable_path env x \<longleftrightarrow> (case x of None \<Rightarrow> True | Some p \<Rightarrow> p = [] \<or> (\<exists>q. expanduser env p = Inr q))"

definition switched_on :: "peer_config list \<Rightarrow> peer_config list" where
  "switched_on ps = map (\<lambda>p. p\<lparr>peer_enabled := True\<rparr>) ps"

text \<open>The interfaces of a Reticulum section read back.\<close>

lemma reticulum_read:
  "read_reticulum env (kv (reticulum_section_to_dict r v)) r0 = Inr r1 \<Longrightarrow>
     if_peers (ret_interfaces r1) = add_missing_hubs_off (switched_on (if_peers (ret_interfaces r)))"
  by (cases r; cases r0; cases "ret_interfaces r"; cases "if_server (ret_interfaces r)";
      cases "ret_config_path_override r"; cases "ret_operator_identity_path r"; cases "ret_enable_transport r")
    (auto simp: read_reticulum_def reticulum_section_to_dict_def tui_reading read_interfaces_def read_server_def
      peer_entries_back map_filter_Some switched_on_def split: if_splits)

lemma reticulum_readable:
  "(\<exists>r1. read_reticulum env (kv (reticulum_section_to_dict r v)) r0 = Inr r1) \<longleftrightarrow>
     readable_path env (ret_config_path_override r) \<and> readable_path env (ret_operator_identity_path r)"
  by (cases r; cases r0; cases "ret_interfaces r"; cases "if_server (ret_interfaces r)";
      cases "ret_config_path_override r"; cases "ret_operator_identity_path r"; cases "ret_enable_transport r")
    (auto simp: read_reticulum_def reticulum_section_to_dict_def tui_reading read_interfaces_def read_server_def
      peer_entries_back readable_path_def split: if_splits)

text \<open>What is the UI's own in a configuration.\<close>

definition own_part ::
    "styrene_config \<Rightarrow> tui_config \<times> fleet_config \<times> provisioning_defaults \<times> mesh_defaults \<times> advanced_config" where
  "own_part c = (sc_tui c, sc_fleet c, sc_provisioning c, sc_mesh c, sc_advanced c)"

lemma own_part_core [simp]:
  "own_part (in_core f c) = own_part c" "own_part (in_reticulum g c) = own_part c"
  "own_part (c\<lparr>sc_odd_hub := v\<rparr>) = own_part c" "own_part (c\<lparr>sc_core := k\<rparr>) = own_part c"
  by (simp_all add: own_part_def in_core_def in_reticulum_def)

lemma peers_of_hub [simp]:
  "read_hub_address v c = Inr c1 \<Longrightarrow> own_part c1 = own_part c"
  "read_hub_address v c = Inr c1 \<Longrightarrow>
     ret_interfaces (c_reticulum (sc_core c1)) = ret_interfaces (c_reticulum (sc_core c))"
  by (auto simp: read_hub_address_def in_core_def in_reticulum_def split: pyval.splits)

lemma hub_total: "\<exists>c1. on_key d k read_hub_address c = Inr c1"
  by (simp add: on_key_def read_hub_address_def split: option.split)

lemma reticulum_section_frame:
  assumes "read_reticulum_section env d c = Inr c1"
  shows "own_part c1 = own_part c"
  using assms by (auto simp: read_reticulum_section_def on_key_def split: option.splits)

lemma section_readable:
  "(\<exists>c1. read_reticulum_section env (kv (reticulum_section_to_dict r v)) c = Inr c1) \<longleftrightarrow>
     readable_path env (ret_config_path_override r) \<and> readable_path env (ret_operator_identity_path r)"
  unfolding read_reticulum_section_def bind_res_Inr
  using reticulum_readable [of env r v "c_reticulum (sc_core c)"] hub_total by meson

lemma in_core_sc: "sc_core (in_core f c) = f (sc_core c)"
  by (simp add: in_core_def)

lemma section_peers:
  "read_reticulum_section env (kv (reticulum_section_to_dict r v)) c = Inr c1 \<Longrightarrow>
     if_peers (ret_interfaces (c_reticulum (sc_core c1))) = add_missing_hubs_off (switched_on (if_peers (ret_interfaces r)))"
  by (auto simp: read_reticulum_section_def on_key_def in_reticulum_def in_core_sc reticulum_read
      split: option.splits)

lemma own_sections_written:
  "d_get (kv (config_to_dict c)) ''tui'' = Some (sub (tui_to_dict (sc_tui c)))"
  "d_get (kv (config_to_dict c)) ''fleet'' = Some (sub (fleet_to_dict (sc_fleet c)))"
  "d_get (kv (config_to_dict c)) ''provisioning'' = Some (sub (provisioning_to_dict (sc_provisioning c)))"
  "d_get (kv (config_to_dict c)) ''mesh'' = Some (sub (mesh_to_dict (sc_mesh c)))"
  "d_get (kv (config_to_dict c)) ''reticulum'' = Some (sub (reticulum_section_to_dict (c_reticulum (sc_core c)) (sc_odd_hub c)))"
  "d_get (kv (config_to_dict c)) ''advanced'' = Some (sub (advanced_to_dict (sc_advanced c)))"
  "d_get (kv (config_to_dict c)) ''identity'' = None" "d_get (kv (config_to_dict c)) ''lxmf'' = None"
  by (simp_all add: config_to_dict_def)

text \<open>The three sections of the core that are written besides.\<close>

definition core_steps :: "config_env \<Rightarrow> pydict \<Rightarrow> (styrene_config \<Rightarrow> styrene_config res) list" where
  "core_steps env d =
     [on_dict d ''rpc'' read_rpc (core_section c_rpc) (in_core \<circ> c_rpc_update),
      on_dict d ''discovery'' read_discovery (core_section c_discovery) (in_core \<circ> c_discovery_update),
      on_dict d ''api'' (read_api env) (core_section c_api) (in_core \<circ> c_api_update)]"

lemma core_steps_read:
  "\<exists>c2. in_turn (core_steps env (kv (config_to_dict c))) b = Inr c2 \<and> own_part c2 = own_part b \<and>
     c_reticulum (sc_core c2) = c_reticulum (sc_core b) \<and> c_identity (sc_core c2) = c_identity (sc_core b)"
  by (simp add: core_steps_def config_to_dict_def on_dict_def sub_def read_rpc_def read_discovery_def read_api_def
      on_key_def set_truth_def set_text_def set_int_def in_core_def core_section_def own_part_def)

section \<open>Saving and loading\<close>

definition keeps_own :: "config_env \<Rightarrow> styrene_config \<Rightarrow> bool" where
  "keeps_own env c \<longleftrightarrow>
     distinct (map fst (tui_custom_theme_colors (sc_tui c))) \<and>
     (case flt_edge_fleet_path (sc_fleet c) of None \<Rightarrow> True | Some p \<Rightarrow> fixed_path env p) \<and>
     list_all (fixed_path env) (prv_ssh_key_paths (sc_provisioning c)) \<and>
     readable_path env (ret_config_path_override (c_reticulum (sc_core c))) \<and>
     readable_path env (ret_operator_identity_path (c_reticulum (sc_core c)))"

lemma bind_assoc: "bind_res (bind_res r f) g = bind_res r (\<lambda>x. bind_res (f x) g)"
  by (cases r) simp_all

lemma in_turn_append: "in_turn (fs @ gs) c = bind_res (in_turn fs c) (in_turn gs)"
proof (induction fs arbitrary: c)
  case (Cons f fs)
  then have "in_turn (fs @ gs) = (\<lambda>x. bind_res (in_turn fs x) (in_turn gs))" by blast
  then show ?case by (simp add: bind_assoc)
qed simp

lemmas own_sections = own_sections_written(1-6) [THEN on_section]

lemma read_sections_eq:
  "read_sections env (kv (config_to_dict c)) b =
     bind_res (read_tui env (kv (tui_to_dict (sc_tui c))) (sc_tui b)) (\<lambda>t.
     bind_res (read_fleet env (kv (fleet_to_dict (sc_fleet c))) (sc_fleet b)) (\<lambda>f.
     bind_res (read_provisioning env (kv (provisioning_to_dict (sc_provisioning c))) (sc_provisioning b)) (\<lambda>p.
     bind_res (read_mesh env (kv (mesh_to_dict (sc_mesh c))) (sc_mesh b)) (\<lambda>m.
     bind_res (read_reticulum_section env
         (kv (reticulum_section_to_dict (c_reticulum (sc_core c)) (sc_odd_hub c)))
         (b\<lparr>sc_tui := t, sc_fleet := f, sc_provisioning := p, sc_mesh := m\<rparr>)) (\<lambda>r.
     bind_res (in_turn (core_steps env (kv (config_to_dict c))) r)
       (in_turn [on_dict (kv (config_to_dict c)) ''advanced'' read_advanced sc_advanced sc_advanced_update]))))))"
proof -
  have order: "read_sections env (kv (config_to_dict c)) b =
    in_turn ([on_dict (kv (config_to_dict c)) ''tui'' (read_tui env) sc_tui sc_tui_update,
      on_dict (kv (config_to_dict c)) ''fleet'' (read_fleet env) sc_fleet sc_fleet_update,
      on_dict (kv (config_to_dict c)) ''provisioning'' (read_provisioning env) sc_provisioning sc_provisioning_update,
      on_dict (kv (config_to_dict c)) ''mesh'' (read_mesh env) sc_mesh sc_mesh_update,
      on_dict (kv (config_to_dict c)) ''reticulum'' (read_reticulum_section env) id (\<lambda>f. f)] @
      core_steps env (kv (config_to_dict c)) @
      [on_dict (kv (config_to_dict c)) ''advanced'' read_advanced sc_advanced sc_advanced_update]) b"
    by (simp add: read_sections_def core_steps_def on_dict_def [of _ "''identity''"] on_dict_def [of _ "''lxmf''"]
        own_sections_written bind_res_def split: sum.split)
  show ?thesis
    unfolding order in_turn_append by (simp add: own_sections bind_assoc del: bind_res_Inr)
qed

lemma sections_read:
  "read_sections env (kv (config_to_dict c)) b = Inr c1 \<longleftrightarrow>
     (\<exists>t f p r c2.
       read_tui env (kv (tui_to_dict (sc_tui c))) (sc_tui b) = Inr t \<and>
       read_fleet env (kv (fleet_to_dict (sc_fleet c))) (sc_fleet b) = Inr f \<and>
       read_provisioning env (kv (provisioning_to_dict (sc_provisioning c))) (sc_provisioning b) = Inr p \<and>
       read_reticulum_section env (kv (reticulum_section_to_dict (c_reticulum (sc_core c)) (sc_odd_hub c)))
         (b\<lparr>sc_tui := t, sc_fleet := f, sc_provisioning := p, sc_mesh := sc_mesh c\<rparr>) = Inr r \<and>
       in_turn (core_steps env (kv (config_to_dict c))) r = Inr c2 \<and>
       c1 = c2\<lparr>sc_advanced := sc_advanced c\<rparr>)"
  unfolding read_sections_eq bind_res_Inr mesh_back by (auto simp: own_sections advanced_back)

lemma own_read:
  assumes "flt_edge_fleet_path (sc_fleet b) = None"
  shows "(\<exists>c1. read_sections env (kv (config_to_dict c)) b = Inr c1 \<and> own_part c1 = own_part c) \<longleftrightarrow> keeps_own env c"
proof
  assume "\<exists>c1. read_sections env (kv (config_to_dict c)) b = Inr c1 \<and> own_part c1 = own_part c"
  then obtain c1 t f p r c2 where own: "own_part c1 = own_part c"
    and t: "read_tui env (kv (tui_to_dict (sc_tui c))) (sc_tui b) = Inr t"
    and f: "read_fleet env (kv (fleet_to_dict (sc_fleet c))) (sc_fleet b) = Inr f"
    and p: "read_provisioning env (kv (provisioning_to_dict (sc_provisioning c))) (sc_provisioning b) = Inr p"
    and r: "read_reticulum_section env (kv (reticulum_section_to_dict (c_reticulum (sc_core c)) (sc_odd_hub c)))
        (b\<lparr>sc_tui := t, sc_fleet := f, sc_provisioning := p, sc_mesh := sc_mesh c\<rparr>) = Inr r"
    and c2: "in_turn (core_steps env (kv (config_to_dict c))) r = Inr c2" and c1: "c1 = c2\<lparr>sc_advanced := sc_advanced c\<rparr>"
    unfolding sections_read by blast
  have "own_part c2 = own_part r" using core_steps_read [of env c r] c2 by auto
  then have "t = sc_tui c" "f = sc_fleet c" "p = sc_provisioning c"
    using own reticulum_section_frame [OF r] by (simp_all add: c1 own_part_def)
  with t f p r show "keeps_own env c"
    using section_readable tui_back fleet_back [OF assms] provisioning_back unfolding keeps_own_def by metis
next
  assume keeps: "keeps_own env c"
  then obtain r where r: "read_reticulum_section env
      (kv (reticulum_section_to_dict (c_reticulum (sc_core c)) (sc_odd_hub c)))
      (b\<lparr>sc_tui := sc_tui c, sc_fleet := sc_fleet c, sc_provisioning := sc_provisioning c, sc_mesh := sc_mesh c\<rparr>) = Inr r"
    using section_readable unfolding keeps_own_def by metis
  obtain c2 where c2: "in_turn (core_steps env (kv (config_to_dict c))) r = Inr c2" "own_part c2 = own_part r"
    using core_steps_read by blast
  have "read_sections env (kv (config_to_dict c)) b = Inr (c2\<lparr>sc_advanced := sc_advanced c\<rparr>)"
    unfolding sections_read using keeps tui_back fleet_back [OF assms] provisioning_back r c2(1) keeps_own_def by blast
  moreover have "own_part (c2\<lparr>sc_advanced := sc_advanced c\<rparr>) = own_part c"
    using c2(2) reticulum_section_frame [OF r] by (simp add: own_part_def)
  ultimately show "\<exists>c1. read_sections env (kv (config_to_dict c)) b = Inr c1 \<and> own_part c1 = own_part c" by blast
qed

lemma default_edge [simp]: "flt_edge_fleet_path (sc_fleet (get_default_config w)) = None"
  by (simp add: get_default_config_def apply_group_thread_first_run_defaults_def in_interfaces_def in_reticulum_def
      in_core_def StyreneConfig_def FleetConfig_def Let_def)

lemma overlay_named:
  assumes "load_core_config env (core_file st) = Inr k" "\<not> unnamed (c_identity k)"
  shows "overlay_core_config env st c = (c\<lparr>sc_core := k, sc_odd_hub := None\<rparr>, st)"
  using assms by (simp add: overlay_core_config_def)

lemma same_own_part: "c1\<lparr>sc_core := k, sc_odd_hub := v\<rparr> = c2\<lparr>sc_core := k, sc_odd_hub := v\<rparr> \<longleftrightarrow> own_part c1 = own_part c2"
  by (cases c1; cases c2) (auto simp: own_part_def)

lemma saved_is: "save_config env w True c = Saved v \<longleftrightarrow> validate_config env w c = Inr [] \<and> v = PDict (kv (config_to_dict c))"
  by (auto simp: save_config_def split: sum.splits list.splits)

lemma checked_load_Loaded: "checked_load env w c = Loaded c' \<longleftrightarrow> validate_config env w c = Inr [] \<and> c' = c"
  by (auto simp: checked_load_def split: sum.splits list.splits)

definition core_valid :: "tui_world \<Rightarrow> core_config \<Rightarrow> bool" where
  "core_valid w k \<longleftrightarrow> check_override w (c_reticulum k) = [] \<and>
     (case ret_hub_address (c_reticulum k) of None \<Rightarrow> True | Some a \<Rightarrow> check_hub_text a = [])"

lemma valid_with_core:
  assumes "validate_config env w c = Inr []" "core_valid w k"
  shows "validate_config env w (c\<lparr>sc_core := k, sc_odd_hub := None\<rparr>) = Inr []"
  using assms by (auto simp: validate_config_def core_valid_def check_hub_address_def split: option.splits)

lemma saved_truthy: "truthy (PDict (kv (config_to_dict c)))"
  by (simp add: config_to_dict_def)

lemma loaded_core:
  assumes "load_core_config env (core_file st) = Inr k" "\<not> unnamed (c_identity k)"
    and "load_config env w st file = (Loaded c, st')"
  shows "sc_core c = k \<and> st' = st"
  using assms(3)
  by (auto simp: load_config_def overlay_named [OF assms(1,2)] checked_load_Loaded
      split: option.splits file_read.splits sum.splits)

lemma load_saved:
  assumes "load_core_config env (core_file st) = Inr k" "\<not> unnamed (c_identity k)"
  shows "load_config env w st (Some (Content (PDict (kv (config_to_dict c))))) = (Loaded c', st) \<longleftrightarrow>
    (\<exists>c1. read_sections env (kv (config_to_dict c)) (get_default_config w) = Inr c1 \<and>
       (let c2 = if adv_config_version (sc_advanced c1) < 1 then migrate_config c1 else c1
        in validate_config env w (c2\<lparr>sc_core := k, sc_odd_hub := None\<rparr>) = Inr [] \<and>
           c' = c2\<lparr>sc_core := k, sc_odd_hub := None\<rparr>))"
  by (auto simp: load_config_def saved_truthy parse_config_dict_def overlay_named [OF assms] checked_load_Loaded
      CURRENT_CONFIG_VERSION_def Let_def split: sum.splits)

lemma advanced_read:
  "read_sections env (kv (config_to_dict c)) b = Inr c1 \<Longrightarrow> sc_advanced c1 = sc_advanced c"
  unfolding sections_read by auto

text \<open>
Claim C38. While the core's file can be read and names an identity, every load of the UI's configuration
takes the core settings from that file and leaves it alone, whatever the UI's file says of them; and a
configuration that was saved comes back with the UI's own sections exactly if its paths are texts that
expanding does not change, the paths of its core part can be expanded, no colour occurs twice and its
version is at least 1.
\<close>

theorem saved_tui_config_comes_back:
  assumes saved: "save_config env w True c = Saved v"
    and core: "load_core_config env (core_file st) = Inr k" "\<not> unnamed (c_identity k)"
    and valid: "core_valid w k"
  shows "(\<forall>file c' st'. load_config env w st file = (Loaded c', st') \<longrightarrow> sc_core c' = k \<and> st' = st) \<and>
    (load_config env w st (Some (Content v)) = (Loaded (c\<lparr>sc_core := k, sc_odd_hub := None\<rparr>), st) \<longleftrightarrow>
       keeps_own env c \<and> 1 \<le> adv_config_version (sc_advanced c))"
proof (intro conjI)
  show "\<forall>file c' st'. load_config env w st file = (Loaded c', st') \<longrightarrow> sc_core c' = k \<and> st' = st"
    using loaded_core [OF core] by blast
  let ?read = "read_sections env (kv (config_to_dict c)) (get_default_config w)"
  have v: "v = PDict (kv (config_to_dict c))" and ok: "validate_config env w c = Inr []"
    using saved by (simp_all add: saved_is)
  show "load_config env w st (Some (Content v)) = (Loaded (c\<lparr>sc_core := k, sc_odd_hub := None\<rparr>), st) \<longleftrightarrow>
      keeps_own env c \<and> 1 \<le> adv_config_version (sc_advanced c)" (is "?load \<longleftrightarrow> _")
  proof
    assume ?load
    then obtain c1 where c1: "?read = Inr c1" and same: "c\<lparr>sc_core := k, sc_odd_hub := None\<rparr> =
        (if adv_config_version (sc_advanced c1) < 1 then migrate_config c1 else c1)\<lparr>sc_core := k, sc_odd_hub := None\<rparr>"
      unfolding v load_saved [OF core] Let_def by blast
    have adv: "sc_advanced c1 = sc_advanced c" by (rule advanced_read [OF c1])
    have recent: "\<not> adv_config_version (sc_advanced c1) < 1"
    proof
      assume old: "adv_config_version (sc_advanced c1) < 1"
      then have "own_part (migrate_config c1) = own_part c" using same by (simp add: same_own_part)
      then have "adv_config_version (sc_advanced c) = 1"
        by (auto simp: own_part_def migrate_config_def CURRENT_CONFIG_VERSION_def dest: sym)
      with old adv show False by simp
    qed
    then have "own_part c1 = own_part c" using same by (simp add: same_own_part)
    with recent show "keeps_own env c \<and> 1 \<le> adv_config_version (sc_advanced c)"
      using c1 own_read [of "get_default_config w" env c] adv by auto
  next
    assume keeps: "keeps_own env c \<and> 1 \<le> adv_config_version (sc_advanced c)"
    then obtain c1 where c1: "?read = Inr c1" "own_part c1 = own_part c"
      using own_read [of "get_default_config w" env c] by auto
    then have same: "c1\<lparr>sc_core := k, sc_odd_hub := None\<rparr> = c\<lparr>sc_core := k, sc_odd_hub := None\<rparr>"
      by (simp add: same_own_part)
    have "\<not> adv_config_version (sc_advanced c1) < 1" using advanced_read [OF c1(1)] keeps by simp
    with c1(1) show ?load
      unfolding v load_saved [OF core] Let_def
      by (intro exI [of _ c1]) (simp add: same valid_with_core [OF ok valid])
  qed
qed

definition no_machine :: machine where
  "no_machine = \<lparr>ram_total_bytes = None, disks = None, profile_variable = None\<rparr>"

definition bare_world :: tui_world where
  "bare_world = \<lparr>home_dir = ''/home/op'', there = \<lambda>_. False, directory_there = \<lambda>_. False, this_machine = no_machine\<rparr>"

definition ada_file :: core_store where
  "ada_file = \<lparr>core_file = Some (Inr (PDict (kv [(''identity'', PDict (kv [(''display_name'', PStr ''Ada'')]))]))),
     core_writable = True\<rparr>"

definition ada :: core_config where
  "ada = get_default_core_config
     \<lparr>c_identity := (c_identity get_default_core_config)\<lparr>id_display_name := ''Ada''\<rparr>, c_rbac := RBACPolicy PEER [] []\<rparr>"

lemma ada_loaded: "load_core_config ex_env (core_file ada_file) = Inr ada"
proof -
  have peer: "role_of_name (upper ''peer'') = Some PEER" by code_simp
  show ?thesis
    by (simp add: load_core_config_def ada_file_def legacy_bridge_poison_pill_def LEGACY_BRIDGE_POISON_KEYS_def
        load_profile_def load_sections_def on_dict_def load_identity_def on_truthy_def on_key_def set_text_def
        load_rbac_def d_get_or_def peer ada_def get_default_core_config_def)
qed

lemma default_core_parts:
  "ret_config_path_override (c_reticulum get_default_core_config) = None"
  "ret_hub_address (c_reticulum get_default_core_config) = None"
  "id_display_name (c_identity get_default_core_config) = ''Anonymous Styrene''"
  by (simp_all add: get_default_core_config_def with_hubs_def Let_def ReticulumConfig_def CoreConfig_def IdentityConfig_def)

theorem saved_tui_config_comes_back_witness:
  "load_config ex_env bare_world ada_file
     (Some (Content (PDict (kv (config_to_dict (StyreneConfig\<lparr>sc_mesh := MeshDefaults\<lparr>msh_channel := 11\<rparr>\<rparr>)))))) =
     (Loaded (StyreneConfig\<lparr>sc_mesh := MeshDefaults\<lparr>msh_channel := 11\<rparr>, sc_core := ada, sc_odd_hub := None\<rparr>), ada_file)"
proof -
  let ?c = "StyreneConfig\<lparr>sc_mesh := MeshDefaults\<lparr>msh_channel := 11\<rparr>\<rparr>"
  have "save_config ex_env bare_world True ?c = Saved (PDict (kv (config_to_dict ?c)))"
    by (simp add: saved_is validate_config_def check_hub_address_def check_edge_fleet_def check_ssh_keys_def
        check_channel_def check_override_def report_def StyreneConfig_def FleetConfig_def ProvisioningDefaults_def
        CoreConfig_def ReticulumConfig_def)
  moreover have "\<not> unnamed (c_identity ada)" by (simp add: unnamed_def ada_def)
  moreover have "core_valid bare_world ada"
    by (simp add: core_valid_def ada_def check_override_def default_core_parts)
  moreover have "keeps_own ex_env ?c \<and> 1 \<le> adv_config_version (sc_advanced ?c)"
    by (simp add: keeps_own_def StyreneConfig_def TUIConfig_def FleetConfig_def ProvisioningDefaults_def
        AdvancedConfig_def CoreConfig_def ReticulumConfig_def readable_path_def)
  ultimately show ?thesis
    using saved_tui_config_comes_back [of ex_env bare_world ?c _ ada_file ada] ada_loaded by simp
qed

text \<open>
  The overrides of the command line are saved in the UI's file and gone with the next load, but for the
  headless flag.
\<close>

lemma cli_overrides_not_kept:
  assumes "update_styrene_config_from_cli env w True x c = (c', Saved v)"
    and "load_core_config env (core_file st) = Inr k" "\<not> unnamed (c_identity k)"
    and "load_config env w st (Some (Content v)) = (Loaded c2, st')"
  shows "sc_core c2 = k"
  using loaded_core [OF assms(2-4)] by simp

text \<open>A core file that cannot be read leaves the copy in the UI's file, where every peer is switched on.\<close>

lemma peers_switched_on:
  assumes "load_core_config env (core_file st) = Inl e"
    and "load_config env w st (Some (Content (PDict (kv (config_to_dict c))))) = (Loaded c2, st')"
  shows "if_peers (ret_interfaces (c_reticulum (sc_core c2))) =
    add_missing_hubs_off (switched_on (if_peers (ret_interfaces (c_reticulum (sc_core c)))))"
proof -
  have overlay: "overlay_core_config env st x = (x, st)" for x
    using assms(1) by (simp add: overlay_core_config_def)
  obtain c1 where c1: "read_sections env (kv (config_to_dict c)) (get_default_config w) = Inr c1"
    "sc_core c2 = sc_core c1"
    using assms(2)
    by (auto simp: load_config_def saved_truthy parse_config_dict_def overlay checked_load_Loaded migrate_config_def
        split: sum.splits if_splits)
  then obtain b r c3 where r: "read_reticulum_section env
      (kv (reticulum_section_to_dict (c_reticulum (sc_core c)) (sc_odd_hub c))) b = Inr r"
    and "in_turn (core_steps env (kv (config_to_dict c))) r = Inr c3" "sc_core c1 = sc_core c3"
    unfolding sections_read by auto
  then have "c_reticulum (sc_core c2) = c_reticulum (sc_core r)"
    using core_steps_read [of env c r] c1(2) by auto
  with section_peers [OF r] show ?thesis by simp
qed

text \<open>A name found in the UI's file only is written to the core's file.\<close>

lemma name_migrated:
  assumes "parse_config_dict env w v = Inr c" "truthy v" "\<not> unnamed (c_identity (sc_core c))"
    and "load_core_config env (core_file st) = Inr k" "unnamed (c_identity k)" "core_writable st"
  shows "core_file (snd (load_config env w st (Some (Content v)))) =
    Some (Inr (PDict (kv (to_dict (k\<lparr>c_identity := c_identity (sc_core c)\<rparr>)))))"
  using assms
  by (simp add: load_config_def overlay_core_config_def migrate_config_def write_core_def save_core_config_def
      Let_def)

end
