(* ===== verification/Tui_Reticulum.thy ===== *)
theory Tui_Reticulum
  imports Rns_Config Rns_Service Tui_Config
begin

text \<open>
  The configuration of Reticulum as the terminal UI writes and uses it
  (\<^verbatim>\<open>src/styrened/tui/services/reticulum.py\<close> and the last part of \<^verbatim>\<open>tui/services/config.py\<close>): where it
  is saved, starting the service from it, the status that is shown, and the file written on the first run.
\<close>

section \<open>Saving\<close>

definition get_rns_config_dir :: "path \<Rightarrow> fs \<Rightarrow> path" where
  "get_rns_config_dir home fs =
     (let xdg = home @ [''.config'', ''reticulum'']; legacy = home @ [''.reticulum''] in
      if path_exists fs xdg then xdg else if path_exists fs legacy then legacy else xdg)"

definition rns_config_exists :: "path \<Rightarrow> fs \<Rightarrow> bool" where
  "rns_config_exists home fs = list_ex (path_exists fs)
     [[''etc'', ''reticulum'', ''config''], home @ [''.config'', ''reticulum'', ''config''],
      home @ [''.reticulum'', ''config'']]"

text \<open>The wrapper passes the core part on, for a node that may serve.\<close>

definition generate_tui_rns_config :: "(pyval \<Rightarrow> string) \<Rightarrow> styrene_config \<Rightarrow> string" where
  "generate_tui_rns_config str c = generate_rns_config str (sc_core c) False"

definition rns_config_header :: "deployment_mode \<Rightarrow> string list" where
  "rns_config_header m =
     [''# Reticulum Configuration'', ''# Generated by Styrene'', ''# Mode: '' @ deployment_mode_value m, ''#'',
      ''# Edit this file or use Styrene CLI flags to change settings.'', []]"

definition save_rns_config ::
    "(pyval \<Rightarrow> string) \<Rightarrow> denied \<Rightarrow> path \<Rightarrow> styrene_config \<Rightarrow> fs \<Rightarrow> (path \<times> fs) res" where
  "save_rns_config str deny home c fs =
     (let dir = get_rns_config_dir home fs; file = dir @ [''config''] in
      bind_res (mkdir_parents deny dir fs) (\<lambda>g.
      bind_res (write_file deny file
        (str_bytes (unlines (rns_config_header (ret_mode (c_reticulum (sc_core c)))) @ generate_tui_rns_config str c)) g)
        (\<lambda>h. Inr (file, h))))"

section \<open>Starting\<close>

text \<open>
  \<open>made\<close> is what constructing the library does with a directory, in the file system as it is then;
  \<open>tmp\<close> the outcome of making a temporary directory, which is removed when the block is left.
\<close>

record start_outcomes =
  so_rns_there :: bool
  so_made :: "path option \<Rightarrow> fs \<Rightarrow> raised + nat"
  so_interfaces :: "rns_interface list"
  so_tmp :: "path res"
  so_denied :: denied

definition remove_tree :: "path \<Rightarrow> fs \<Rightarrow> fs" where
  "remove_tree d fs = (\<lambda>p. if prefix d p then None else fs p)"

definition initialize_reticulum_with_config ::
    "(pyval \<Rightarrow> string) \<Rightarrow> start_outcomes \<Rightarrow> path \<Rightarrow> styrene_config \<Rightarrow> rns_service \<Rightarrow> fs \<Rightarrow> bool \<times> rns_service \<times> fs" where
  "initialize_reticulum_with_config str out home c s fs =
     (if \<not> so_rns_there out then (False, s, fs)
      else case find_reticulum_config home None fs of
        Some d \<Rightarrow> (case Rns_Service.initialize (so_made out None fs) (so_interfaces out) s of (ok, s') \<Rightarrow> (ok, s', fs))
      | None \<Rightarrow>
          (case so_tmp out of
             Inl _ \<Rightarrow> (False, s, fs)
           | Inr d \<Rightarrow>
               (case write_file (so_denied out) (d @ [''config'']) (str_bytes (generate_tui_rns_config str c)) (fs(d \<mapsto> Dir)) of
                  Inl _ \<Rightarrow> (False, s, remove_tree d fs)
                | Inr g \<Rightarrow>
                    (case Rns_Service.initialize (so_made out (Some d) g) (so_interfaces out) s of
                       (ok, s') \<Rightarrow> (ok, s', remove_tree d g)))))"

section \<open>Status\<close>

record rns_status =
  st_running :: bool
  st_interfaces :: int
  st_identity :: "string option"
  st_transport_enabled :: bool

definition get_reticulum_status ::
    "path \<Rightarrow> (fs \<Rightarrow> path \<Rightarrow> string res) \<Rightarrow> bool option \<Rightarrow> string option \<Rightarrow> rns_service \<Rightarrow> fs \<Rightarrow> rns_status res" where
  "get_reticulum_status home text_at transport operator_hash s fs =
     bind_res (get_reticulum_config_state home text_at None fs) (\<lambda>state.
     Inr \<lparr>st_running = is_initialized s,
          st_interfaces = (case state of None \<Rightarrow> 0 | Some r \<Rightarrow> int (enabled_interface_count r)),
          st_identity = operator_hash,
          st_transport_enabled = is_initialized s \<and> is_transport_enabled transport s\<rparr>)"

section \<open>The first run\<close>

definition base_lines :: "string list" where
  "base_lines =
     [''# Reticulum Configuration'', ''# Generated by Styrene TUI'', [], ''[reticulum]'',
      ''  # Run as a client node (not a transport/routing node)'', ''  enable_transport = False'', [],
      ''  # Use shared RNS instance for multiple programs'', ''  share_instance = Yes'',
      ''  instance_name = default'', [], ''  # Log level (4 = info, 5 = verbose, 6 = debug)'',
      ''  loglevel = 4'', [], ''[logging]'', ''  loglevel = 4'', [], ''[interfaces]'']"

definition auto_choice :: "string list" where
  "auto_choice =
     [[], ''  # AutoInterface - Local network discovery via UDP multicast'',
      ''  # Automatically discovers other Reticulum nodes on the same LAN'', ''  [[Default Interface]]'',
      ''    type = AutoInterface'', ''    enabled = Yes'', [],
      ''  # Styrene Community Hub - Public transport node'',
      ''  # Provides access to the Styrene mesh network over the internet'', ''  [[Styrene Community Hub]]'',
      ''    type = TCPClientInterface'', ''    enabled = Yes'', ''    target_host = rns.styrene.io'',
      ''    target_port = 4242'']"

definition tcp_choice :: "string list" where
  "tcp_choice =
     [[], ''  # TCP Client Interface - Connect to a specific Reticulum node'',
      ''  # Replace the target_host and target_port with your gateway details'', ''  [[TCP Interface]]'',
      ''    type = TCPClientInterface'', ''    enabled = Yes'', ''    target_host = 127.0.0.1'',
      ''    target_port = 4242'']"

definition tcp_server_choice :: "string list" where
  "tcp_server_choice =
     [[], ''  # TCP Server Interface - Listen for incoming connections'',
      ''  # Other nodes can connect to this system as a gateway'', ''  [[TCP Server Interface]]'',
      ''    type = TCPServerInterface'', ''    enabled = Yes'', ''    listen_ip = 0.0.0.0'', ''    listen_port = 4242'']"

definition other_choice :: "string list" where
  "other_choice = [[], ''  [[Default Interface]]'', ''    type = AutoInterface'', ''    enabled = Yes'']"

definition interface_choice :: "string \<Rightarrow> string list" where
  "interface_choice t =
     (if t = ''auto'' then auto_choice else if t = ''tcp'' then tcp_choice
      else if t = ''tcp-server'' then tcp_server_choice else other_choice)"

definition generate_config_content :: "string \<Rightarrow> string" where
  "generate_config_content t = unlines (base_lines @ interface_choice t)"

definition create_default_reticulum_config :: "denied \<Rightarrow> path \<Rightarrow> string \<Rightarrow> fs \<Rightarrow> (path \<times> fs) res" where
  "create_default_reticulum_config deny home t fs =
     (let dir = home @ [''.reticulum''] in
      bind_res (mkdir_parents deny dir fs) (\<lambda>g.
      bind_res (mkdir_parents deny (dir @ [''storage'']) g) (\<lambda>h.
      bind_res (write_file deny (dir @ [''config'']) (str_bytes (generate_config_content t)) h)
        (\<lambda>i. Inr (dir @ [''config''], i)))))"

lemma base_quiet: "\<forall>l \<in> set base_lines. quiet l"
  by (simp add: base_lines_def)

section \<open>Reading indented sections\<close>

lemma py_strip_space: "py_strip (CHR '' '' # s) = py_strip s"
  by (simp add: py_strip_def is_strip_space_def is_space_def)

lemma read_indented: "read_block ((CHR '' '' # l) # ls) te = read_block (l # ls) te"
  by (simp add: py_strip_space)

lemma header_then:
  assumes "n \<noteq> []" "CHR '']'' \<notin> set n" "strip_from wide_spaces (run @ s) = s" "CHR 0x0A \<in> set run"
  shows "match_header (''[['' @ n @ '']]'' @ run @ s) =
    Some (n, drop (length run - length (takeWhile (\<lambda>c. c \<noteq> CHR 0x0A) (rev run))) (run @ s))"
proof -
  have "takeWhile (\<lambda>c. c \<noteq> CHR '']'') (n @ '']]'' @ r) = n" "dropWhile (\<lambda>c. c \<noteq> CHR '']'') (n @ '']]'' @ r) = '']]'' @ r" for r
    using take_until [OF assms(2), of "CHR '']'' # r"] by simp_all
  then show ?thesis using assms by (simp add: match_header_def Let_def)
qed

lemma header_indented:
  assumes "n \<noteq> []" "CHR '']'' \<notin> set n" and s: "strip_from wide_spaces s = s"
  shows "match_header (''[['' @ n @ '']]'' @ CHR 0x0A # ''    '' @ s) = Some (n, ''    '' @ s)"
proof -
  let ?run = "CHR 0x0A # ''    ''"
  have "strip_from wide_spaces (?run @ s) = s"
    using s by (simp add: is_strip_space_def is_space_def)
  moreover have "CHR 0x0A \<in> set ?run" by simp
  ultimately have "match_header (''[['' @ n @ '']]'' @ ?run @ s) =
      Some (n, drop (length ?run - length (takeWhile (\<lambda>c. c \<noteq> CHR 0x0A) (rev ?run))) (?run @ s))"
    by (rule header_then [OF assms(1,2)])
  moreover have "drop (length ?run - length (takeWhile (\<lambda>c. c \<noteq> CHR 0x0A) (rev ?run))) (?run @ s) = ''    '' @ s"
    by simp
  ultimately show ?thesis by (simp only: append_Cons)
qed

lemma indented_section:
  assumes "n \<noteq> []" "CHR '']'' \<notin> set n" "py_strip n = n"
    and t: "ascii_char (hd t)" "\<not> is_strip_space (hd t)" "t \<noteq> []"
    and block: "\<And>l. l \<in> set ((''    '' @ t) # ls) \<Longrightarrow> block_line l"
    and read: "read_block ((''    '' @ t) # ls) (''Unknown'', True) = (ty, on)"
    and rest: "rest = [] \<or> hd rest = CHR 0x0A"
  shows "map parsed_interface (find_blocks (unlines ((''  [['' @ n @ '']]'') # (''    '' @ t) # ls) @ rest)) =
    parsed n ty on # map parsed_interface (find_blocks rest)"
proof -
  have "match_block (unlines ((''    '' @ t) # ls) @ rest) = (unlines ((''    '' @ t) # ls), rest)"
    by (rule match_block_lines) (use block rest in auto)
  moreover have "match_header (''[['' @ n @ '']]'' @ CHR 0x0A # unlines ((''    '' @ t) # ls) @ rest) =
      Some (n, unlines ((''    '' @ t) # ls) @ rest)"
    using header_indented [OF assms(1,2), of "t @ CHR 0x0A # unlines ls @ rest"]
      strip_from_front [OF t] by simp
  ultimately have "find_blocks (unlines ((''  [['' @ n @ '']]'') # (''    '' @ t) # ls) @ rest) =
      (n, unlines ((''    '' @ t) # ls)) # find_blocks rest"
    by (simp add: find_blocks.simps(2) no_header)
  moreover have "parsed_interface (n, unlines ((''    '' @ t) # ls)) = parsed n ty on"
    using parsed_section [OF _ read] assms(3) block by (simp add: block_line_def)
  ultimately show ?thesis by simp
qed

lemma read_yes: "read_block (''    enabled = Yes'' # ls) te = read_block ls (fst te, True)"
proof -
  have "lower ''Yes'' = ''yes''" "lower ''enabled'' = ''enabled''" by code_simp+
  then show ?thesis
    using read_key [OF key_names(2), of "''Yes''" ls te] read_indented
    by (simp add: literal_simps del: read_block.simps(2))
qed

lemma read_indented_type: "stripped v \<Longrightarrow> read_block ((''    type = '' @ v) # ls) te = read_block ls (v, snd te)"
  using read_type [of v ls te] read_indented by (simp del: read_block.simps(2))

lemma read_indented_other:
  assumes "key_name k" "lower k \<notin> {''type'', ''enabled''}"
  shows "read_block ((''    '' @ k @ '' = '' @ v) # ls) te = read_block ls te"
  using read_other_key [OF assms, of v ls te] read_indented by (simp del: read_block.simps(2))

lemma plain_interface:
  assumes "n \<noteq> []" "CHR '']'' \<notin> set n" "py_strip n = n" "stripped v" "CHR 0x0A \<notin> set v"
    and others: "\<And>l. l \<in> set others \<Longrightarrow> block_line l" "\<And>te. read_block others te = te"
    and rest: "rest = [] \<or> hd rest = CHR 0x0A"
  shows "map parsed_interface (find_blocks
      (unlines ((''  [['' @ n @ '']]'') # (''    type = '' @ v) # ''    enabled = Yes'' # others) @ rest)) =
    parsed n v True # map parsed_interface (find_blocks rest)"
proof -
  have "read_block ((''    '' @ ''type = '' @ v) # ''    enabled = Yes'' # others) (''Unknown'', True) = (v, True)"
    using read_indented_type [OF assms(4)] read_yes others(2) by (simp del: read_block.simps(2))
  moreover have "block_line l" if "l \<in> set ((''    '' @ ''type = '' @ v) # ''    enabled = Yes'' # others)" for l
    using that others(1) assms(5) by (auto simp: block_line_def)
  ultimately show ?thesis
    using indented_section [OF assms(1-3), of "''type = '' @ v" "''    enabled = Yes'' # others" v True rest] rest
    by (simp add: literal_simps del: read_block.simps(2))
qed

lemma name_strips:
  "py_strip ''Default Interface'' = ''Default Interface''" "py_strip ''TCP Interface'' = ''TCP Interface''"
  "py_strip ''Styrene Community Hub'' = ''Styrene Community Hub''"
  "py_strip ''TCP Server Interface'' = ''TCP Server Interface''"
  by (rule py_strip_ascii; simp add: literal_simps)+

lemma two_keys:
  assumes "key_name j" "key_name k" "lower j \<notin> {''type'', ''enabled''}" "lower k \<notin> {''type'', ''enabled''}"
  shows "read_block [''    '' @ j @ '' = '' @ v, ''    '' @ k @ '' = '' @ w] te = te"
  using read_indented_other [OF assms(1,3)] read_indented_other [OF assms(2,4)] by (simp del: read_block.simps(2))

lemma other_read: "map parsed_interface (find_blocks (unlines other_choice)) = [parsed ''Default Interface'' ''AutoInterface'' True]"
  using plain_interface [OF _ _ name_strips(1), of "''AutoInterface''" "[]" "[]"]
  by (simp add: other_choice_def newline_skipped literal_simps)

lemma client_read:
  assumes "CHR 0x0A \<notin> set h" "rest = [] \<or> hd rest = CHR 0x0A" "n \<noteq> []" "CHR '']'' \<notin> set n" "py_strip n = n"
  shows "map parsed_interface (find_blocks (unlines
      [''  [['' @ n @ '']]'', ''    type = '' @ ''TCPClientInterface'', ''    enabled = Yes'', ''    target_host = '' @ h,
       ''    target_port = 4242''] @ rest)) = parsed n ''TCPClientInterface'' True # map parsed_interface (find_blocks rest)"
proof (rule plain_interface [OF assms(3-5)])
  show "read_block [''    target_host = '' @ h, ''    target_port = 4242''] te = te" for te
    using two_keys [OF key_names(5,6), of h "''4242''" te] by (simp add: lower_def lower_char_def del: read_block.simps(2))
  show "block_line l" if "l \<in> set [''    target_host = '' @ h, ''    target_port = 4242'']" for l
    using that assms(1) by (auto simp: block_line_def)
qed (use assms(2) in \<open>simp_all add: literal_simps\<close>)

lemma server_choice_read:
  "map parsed_interface (find_blocks (unlines
      [''  [['' @ ''TCP Server Interface'' @ '']]'', ''    type = '' @ ''TCPServerInterface'', ''    enabled = Yes'',
       ''    listen_ip = 0.0.0.0'', ''    listen_port = 4242''] @ [])) =
    parsed ''TCP Server Interface'' ''TCPServerInterface'' True # map parsed_interface (find_blocks [])"
proof (rule plain_interface [OF _ _ name_strips(4)])
  show "read_block [''    listen_ip = 0.0.0.0'', ''    listen_port = 4242''] te = te" for te
    using two_keys [OF key_names(3,4), of "''0.0.0.0''" "''4242''" te]
    by (simp add: lower_def lower_char_def del: read_block.simps(2))
  show "block_line l" if "l \<in> set [''    listen_ip = 0.0.0.0'', ''    listen_port = 4242'']" for l
    using that by (auto simp: block_line_def)
qed (simp_all add: literal_simps)

lemma auto_choice_read:
  "map parsed_interface (find_blocks (unlines auto_choice)) =
     [parsed ''Default Interface'' ''AutoInterface'' True, parsed ''Styrene Community Hub'' ''TCPClientInterface'' True]"
proof -
  let ?hub = "[''  [['' @ ''Styrene Community Hub'' @ '']]'', ''    type = '' @ ''TCPClientInterface'',
    ''    enabled = Yes'', ''    target_host = '' @ ''rns.styrene.io'', ''    target_port = 4242'']"
  let ?intro = "[''  # Styrene Community Hub - Public transport node'',
      ''  # Provides access to the Styrene mesh network over the internet'']"
  let ?head = "[[], ''  # AutoInterface - Local network discovery via UDP multicast'',
      ''  # Automatically discovers other Reticulum nodes on the same LAN'']"
  have e: "unlines auto_choice = unlines ?head @
      unlines ((''  [['' @ ''Default Interface'' @ '']]'') # (''    type = '' @ ''AutoInterface'') # ''    enabled = Yes'' # []) @
      CHR 0x0A # unlines ?intro @ unlines ?hub @ []"
    by (simp add: auto_choice_def)
  have "map parsed_interface (find_blocks (CHR 0x0A # unlines ?intro @ unlines ?hub @ [])) =
      [parsed ''Styrene Community Hub'' ''TCPClientInterface'' True]"
    unfolding newline_skipped using client_read [OF _ _ _ _ name_strips(3), of "''rns.styrene.io''" "[]"]
    by (subst skip_lines) auto
  moreover have "map parsed_interface (find_blocks (unlines ((''  [['' @ ''Default Interface'' @ '']]'') #
      (''    type = '' @ ''AutoInterface'') # ''    enabled = Yes'' # []) @ s)) =
      parsed ''Default Interface'' ''AutoInterface'' True # map parsed_interface (find_blocks s)" if "hd s = CHR 0x0A" for s
    by (rule plain_interface [OF _ _ name_strips(1)]) (use that in \<open>simp_all add: literal_simps\<close>)
  moreover have "find_blocks (unlines ?head @ s) = find_blocks s" for s by (rule skip_lines) auto
  ultimately show ?thesis unfolding e by (simp only: list.sel)
qed

lemma tcp_choice_read: "map parsed_interface (find_blocks (unlines tcp_choice)) = [parsed ''TCP Interface'' ''TCPClientInterface'' True]"
proof -
  let ?head = "[[], ''  # TCP Client Interface - Connect to a specific Reticulum node'',
      ''  # Replace the target_host and target_port with your gateway details'']"
  have e: "unlines tcp_choice = unlines ?head @ unlines [''  [['' @ ''TCP Interface'' @ '']]'', ''    type = '' @ ''TCPClientInterface'',
    ''    enabled = Yes'', ''    target_host = '' @ ''127.0.0.1'', ''    target_port = 4242''] @ []"
    by (simp add: tcp_choice_def)
  have "find_blocks (unlines ?head @ s) = find_blocks s" for s by (rule skip_lines) auto
  then show ?thesis
    unfolding e using client_read [OF _ _ _ _ name_strips(2), of "''127.0.0.1''" "[]"] by (simp only:) auto
qed

lemma tcp_server_choice_read:
  "map parsed_interface (find_blocks (unlines tcp_server_choice)) = [parsed ''TCP Server Interface'' ''TCPServerInterface'' True]"
proof -
  let ?head = "[[], ''  # TCP Server Interface - Listen for incoming connections'',
      ''  # Other nodes can connect to this system as a gateway'']"
  have e: "unlines tcp_server_choice = unlines ?head @ unlines [''  [['' @ ''TCP Server Interface'' @ '']]'',
    ''    type = '' @ ''TCPServerInterface'', ''    enabled = Yes'', ''    listen_ip = 0.0.0.0'', ''    listen_port = 4242''] @ []"
    by (simp add: tcp_server_choice_def)
  have "find_blocks (unlines ?head @ s) = find_blocks s" for s by (rule skip_lines) auto
  then show ?thesis unfolding e using server_choice_read by (simp only:) auto
qed

text \<open>The interfaces of the file written on the first run, as the program reads them back.\<close>

lemma first_run_interfaces:
  "parse_interfaces (Inr (generate_config_content t)) = Inr
     (if t = ''auto'' then [parsed ''Default Interface'' ''AutoInterface'' True,
                            parsed ''Styrene Community Hub'' ''TCPClientInterface'' True]
      else if t = ''tcp'' then [parsed ''TCP Interface'' ''TCPClientInterface'' True]
      else if t = ''tcp-server'' then [parsed ''TCP Server Interface'' ''TCPServerInterface'' True]
      else [parsed ''Default Interface'' ''AutoInterface'' True])"
proof -
  have "find_blocks (unlines base_lines @ s) = find_blocks s" for s
    by (rule skip_lines) (use base_quiet in blast)
  then show ?thesis
    using auto_choice_read tcp_choice_read tcp_server_choice_read other_read
    by (simp only: parse_interfaces_def sum.case generate_config_content_def interface_choice_def unlines_simps(3)
        if_distrib [of unlines] if_distrib [of find_blocks] if_distrib [of "map parsed_interface"])
qed

text \<open>A configuration that was saved is not the one in use while the system has one.\<close>

lemma saved_config_shadowed:
  assumes "is_reticulum_configured home (Some [''etc'', ''reticulum'']) fs"
  shows "find_reticulum_config home None fs = Some [''etc'', ''reticulum'']"
    and "get_rns_config_dir home fs \<in> {home @ [''.config'', ''reticulum''], home @ [''.reticulum'']}"
  using assms by (simp_all add: find_reticulum_config_def get_reticulum_config_paths_def get_rns_config_dir_def Let_def)

text \<open>A service that was started from a generated configuration runs without the directory it was started from.\<close>

lemma started_without_directory:
  assumes "initialize_reticulum_with_config str out home c s fs = (True, s', fs')"
    and "find_reticulum_config home None fs = None" "so_tmp out = Inr d"
  shows "fs' d = None \<and> fs' (d @ [''config'']) = None"
  using assms
  by (auto simp: initialize_reticulum_with_config_def remove_tree_def split: if_splits sum.splits prod.splits)

end
