(* ===== verification/Rust_Daemon.thy ===== *)
theory Rust_Daemon
  imports Paths
begin

text \<open>
  Finding and launching the compiled daemon (\<^verbatim>\<open>src/styrened/rust_daemon.py\<close>). The search of
  \<^verbatim>\<open>PATH\<close> and the right to execute a file are arguments; replacing the process is the result
  \<open>Replaced\<close>.
\<close>

definition show_path :: "path \<Rightarrow> string" where
  "show_path p = (if p = [] then ''/'' else concat (map (\<lambda>c. CHR ''/'' # c) p))"

definition BINARY_NAMES :: "string list" where
  "BINARY_NAMES = [''styrened'', ''styrened-rs'']"

definition EXTRA_SEARCH_PATHS :: "path \<Rightarrow> path list" where
  "EXTRA_SEARCH_PATHS home_dir =
     [home_dir @ [''.cargo'', ''bin''], [''usr'', ''local'', ''bin''], [''opt'', ''styrene'', ''bin'']]"

text \<open>The numbers that start an executable of Linux or macOS.\<close>

definition binary_magics :: "bytes list" where
  "binary_magics =
     [[0x7F, 0x45, 0x4C, 0x46], [0xFE, 0xED, 0xFA, 0xCE], [0xFE, 0xED, 0xFA, 0xCF], [0xCE, 0xFA, 0xED, 0xFE],
      [0xCF, 0xFA, 0xED, 0xFE], [0xCA, 0xFE, 0xBA, 0xBE], [0xBE, 0xBA, 0xFE, 0xCA]]"

definition is_compiled_binary :: "fs \<Rightarrow> path \<Rightarrow> bool" where
  "is_compiled_binary fs p =
     (case read_bytes fs p of Inl _ \<Rightarrow> False | Inr b \<Rightarrow> take 4 b \<in> set binary_magics)"

text \<open>\<open>which\<close> searches \<^verbatim>\<open>PATH\<close>, \<open>runs\<close> tells whether a file may be executed.\<close>

record search_outcomes =
  which :: "string \<Rightarrow> path option"
  runs :: "path \<Rightarrow> bool"

definition override_binary :: "env \<Rightarrow> string option" where
  "override_binary e =
     (case environ e ''STYRENED_BIN'' of
        Some s \<Rightarrow> if s \<noteq> [] then Some s else
          (case environ e ''STYRENED_RS_BIN'' of Some t \<Rightarrow> if t \<noteq> [] then Some t else None | None \<Rightarrow> None)
      | None \<Rightarrow> (case environ e ''STYRENED_RS_BIN'' of Some t \<Rightarrow> if t \<noteq> [] then Some t else None | None \<Rightarrow> None))"

fun first_of :: "('a \<Rightarrow> 'b option) \<Rightarrow> 'a list \<Rightarrow> 'b option" where
  "first_of f [] = None"
| "first_of f (x # xs) = (case f x of Some y \<Rightarrow> Some y | None \<Rightarrow> first_of f xs)"

definition on_search_path :: "search_outcomes \<Rightarrow> fs \<Rightarrow> string \<Rightarrow> path option" where
  "on_search_path out fs name =
     (case which out name of Some p \<Rightarrow> if is_compiled_binary fs p then Some p else None | None \<Rightarrow> None)"

definition in_directory :: "search_outcomes \<Rightarrow> fs \<Rightarrow> path \<Rightarrow> path option" where
  "in_directory out fs p = (if is_file fs p \<and> runs out p \<and> is_compiled_binary fs p then Some (resolve fs p) else None)"

definition find_rust_daemon :: "search_outcomes \<Rightarrow> env \<Rightarrow> fs \<Rightarrow> path option" where
  "find_rust_daemon out e fs =
     (case override_binary e of
        Some s \<Rightarrow> (let p = Path e s in if is_file fs p \<and> runs out p then Some (resolve fs p) else None)
      | None \<Rightarrow>
          (case first_of (on_search_path out fs) BINARY_NAMES of
             Some p \<Rightarrow> Some p
           | None \<Rightarrow> first_of (in_directory out fs)
               (concat (map (\<lambda>d. map (\<lambda>n. d @ [n]) BINARY_NAMES) (EXTRA_SEARCH_PATHS (home e))))))"

record launch_options =
  lo_db :: "string option"
  lo_config :: "string option"
  lo_transport :: "string option"
  lo_identity :: "string option"
  lo_socket :: "string option"
  lo_announce_interval :: "int option"

definition option_args :: "string \<Rightarrow> string option \<Rightarrow> string list" where
  "option_args flag x = (case x of None \<Rightarrow> [] | Some v \<Rightarrow> if v = [] then [] else [flag, v])"

definition build_rust_daemon_args :: "string \<Rightarrow> launch_options \<Rightarrow> string list" where
  "build_rust_daemon_args binary x =
     [binary] @ option_args ''--db'' (lo_db x) @ option_args ''--config'' (lo_config x) @
     option_args ''--transport'' (lo_transport x) @ option_args ''--identity'' (lo_identity x) @
     option_args ''--socket'' (lo_socket x) @
     (case lo_announce_interval x of None \<Rightarrow> [] | Some i \<Rightarrow> [''--announce-interval'', show_int i])"

datatype exec_outcome = Replaced "string list" | Exit_Code int

definition exec_rust_daemon ::
    "search_outcomes \<Rightarrow> env \<Rightarrow> fs \<Rightarrow> (string list \<Rightarrow> bool) \<Rightarrow> launch_options \<Rightarrow> exec_outcome" where
  "exec_rust_daemon out e fs execs x =
     (case find_rust_daemon out e fs of
        None \<Rightarrow> Exit_Code (- 1)
      | Some p \<Rightarrow> let cmd = build_rust_daemon_args (show_path p) x in
          if execs cmd then Replaced cmd else Exit_Code 1)"

definition spawn_rust_daemon :: "search_outcomes \<Rightarrow> env \<Rightarrow> fs \<Rightarrow> launch_options \<Rightarrow> string list option" where
  "spawn_rust_daemon out e fs x =
     (case find_rust_daemon out e fs of None \<Rightarrow> None | Some p \<Rightarrow> Some (build_rust_daemon_args (show_path p) x))"

lemma first_of_Some: "first_of f xs = Some y \<Longrightarrow> \<exists>x \<in> set xs. f x = Some y"
  by (induction xs) (auto split: option.splits)

lemma resolved_reads: "resolve fs p = q \<Longrightarrow> fs q = Some (File b) \<Longrightarrow> read_bytes fs q = Inr b"
  by (rule plain_file)

text \<open>
  Without an override only a compiled program is found, never the script of the Python package that has
  the same name; with one nothing else is tried.
\<close>

lemma only_binaries_found:
  assumes "find_rust_daemon out e fs = Some p" "override_binary e = None"
  shows "is_compiled_binary fs p"
proof -
  from assms consider n where "on_search_path out fs n = Some p" | q where "in_directory out fs q = Some p"
    by (auto simp: find_rust_daemon_def split: option.splits dest!: first_of_Some)
  then show ?thesis
  proof cases
    case 1
    then show ?thesis by (auto simp: on_search_path_def split: option.splits if_splits)
  next
    case 2
    then obtain b where q: "is_compiled_binary fs q" "p = resolve fs q" "fs p = Some (File b)"
      by (auto simp: in_directory_def is_file_def split: if_splits option.splits node.splits)
    then have "read_bytes fs p = read_bytes fs q"
      using resolved_reads [OF q(2) [symmetric] q(3)] by (simp add: read_bytes_def)
    then show ?thesis using q(1) by (simp add: is_compiled_binary_def)
  qed
qed

lemma override_decides:
  assumes "override_binary e = Some s" "\<not> (is_file fs (Path e s) \<and> runs out (Path e s))"
  shows "exec_rust_daemon out e fs execs x = Exit_Code (- 1)"
  using assms by (auto simp: exec_rust_daemon_def find_rust_daemon_def Let_def)

end
