(* ===== verification/Doctor_Checks.thy ===== *)
theory Doctor_Checks
  imports Rust_Daemon Identity_Files Rns_Config Config_Load
begin

text \<open>
  The checks of the diagnosis (\<^verbatim>\<open>src/styrened/services/doctor.py\<close>): version, identity,
  configuration, Reticulum, daemon and directories. Each gives a list of findings. They look at the files
  through the functions of the other components; what the system, the network and the optional adapters
  answer is a record of outcomes.
\<close>

section \<open>Findings\<close>

datatype severity = OK_SEVERITY | WARN_SEVERITY | ERROR_SEVERITY

primrec severity_value :: "severity \<Rightarrow> string" where
  "severity_value OK_SEVERITY = ''OK''"
| "severity_value WARN_SEVERITY = ''WARN''"
| "severity_value ERROR_SEVERITY = ''ERR''"

datatype check_category =
    VERSION_CHECK | IDENTITY_CHECK | CONFIG_CHECK | RETICULUM_CHECK | DAEMON_CHECK | PATHS_CHECK
  | YGGDRASIL_CHECK | I2P_CHECK | BOUNDARY_LOG_CHECK

primrec category_value :: "check_category \<Rightarrow> string" where
  "category_value VERSION_CHECK = ''version''"
| "category_value IDENTITY_CHECK = ''identity''"
| "category_value CONFIG_CHECK = ''config''"
| "category_value RETICULUM_CHECK = ''reticulum''"
| "category_value DAEMON_CHECK = ''daemon''"
| "category_value PATHS_CHECK = ''paths''"
| "category_value YGGDRASIL_CHECK = ''yggdrasil''"
| "category_value I2P_CHECK = ''i2p''"
| "category_value BOUNDARY_LOG_CHECK = ''boundary_log''"

record finding =
  fd_category :: check_category
  fd_severity :: severity
  fd_message :: string
  fd_fix_hint :: "string option"

definition finding_of :: "check_category \<Rightarrow> severity \<Rightarrow> string \<Rightarrow> string option \<Rightarrow> finding" where
  "finding_of c s msg hint = \<lparr>fd_category = c, fd_severity = s, fd_message = msg, fd_fix_hint = hint\<rparr>"

text \<open>Signs outside ASCII in the messages.\<close>

definition dash :: string where "dash = [CHR 0xE2, CHR 0x80, CHR 0x94]"
definition check_mark :: string where "check_mark = [CHR 0xE2, CHR 0x9C, CHR 0x93]"
definition cross_mark :: string where "cross_mark = [CHR 0xE2, CHR 0x9C, CHR 0x97]"
definition warning_mark :: string where "warning_mark = [CHR 0xE2, CHR 0x9A, CHR 0xA0]"
definition ellipsis :: string where "ellipsis = [CHR 0xE2, CHR 0x80, CHR 0xA6]"

section \<open>What the checks are told\<close>

text \<open>
  What \<^verbatim>\<open>ping\<close> answers, a flag or an object with a version. The first try: an exception before the
  answer (with its text) or the answer, and the exception of disconnecting. The second: an exception, no
  client, or the answer with the exception of disconnecting.
\<close>

datatype pong = Pong_Flag bool | Pong_Object "string option"

record daemon_outcomes =
  do_first :: "string + pong"
  do_disconnect :: "string option"
  do_second :: "string + (pong \<times> string option) option"

text \<open>
  \<open>pypi\<close> is the latest version on PyPI or the text of an exception, \<open>older\<close> compares versions or raises;
  \<open>version_run\<close> is the code and the output of a program asked for its version, unless it cannot be run;
  \<open>file_mode\<close> is \<^verbatim>\<open>st_mode\<close> or an error text; \<open>yaml_at\<close> reads a file as YAML; \<open>error_text\<close> is \<^verbatim>\<open>str\<close> of an
  exception.
\<close>

record doctor_outcomes =
  dr_env :: env
  dr_version :: string
  dr_pypi :: "string + string"
  dr_older :: "string \<Rightarrow> string \<Rightarrow> string + bool"
  dr_search :: search_outcomes
  dr_version_run :: "path \<Rightarrow> (int \<times> string) option"
  dr_keys :: rns_keys
  dr_token :: "bytes option res option"
  dr_file_mode :: "path \<Rightarrow> string + nat"
  dr_yaml_at :: "path \<Rightarrow> fs \<Rightarrow> unit + pyval"
  dr_values :: config_env
  dr_error_text :: "exn \<Rightarrow> string"
  dr_text_at :: "fs \<Rightarrow> path \<Rightarrow> string res"
  dr_daemon :: daemon_outcomes
  dr_may_write :: "path \<Rightarrow> bool"
  dr_has_entries :: "fs \<Rightarrow> path \<Rightarrow> bool"

definition text_or :: "string \<Rightarrow> string \<Rightarrow> string" where
  "text_or s d = (if s = [] then d else s)"

section \<open>Version and daemon program\<close>

definition check_rust_daemon :: "doctor_outcomes \<Rightarrow> fs \<Rightarrow> finding list" where
  "check_rust_daemon out fs =
     (case find_rust_daemon (dr_search out) (dr_env out) fs of
        Some b \<Rightarrow>
          finding_of DAEMON_CHECK OK_SEVERITY (''Rust daemon found: '' @ show_path b) None #
          (case dr_version_run out b of
             Some (code, output) \<Rightarrow>
               if code = 0 \<and> py_strip output \<noteq> []
               then [finding_of DAEMON_CHECK OK_SEVERITY (''Rust daemon version: '' @ py_strip output) None] else []
           | None \<Rightarrow> [])
      | None \<Rightarrow>
          [finding_of DAEMON_CHECK WARN_SEVERITY
             (''Rust daemon (styrened) not found '' @ dash @ '' using Python daemon fallback'')
             (Some (''Install via: cargo install styrened'' @ [CHR 0x0A] @
                    ''  Or download from GitHub releases'' @ [CHR 0x0A] @
                    ''  Or set STYRENED_BIN=/path/to/styrened''))])"

definition update_findings :: "doctor_outcomes \<Rightarrow> finding list" where
  "update_findings out =
     (let failed = (\<lambda>x. [finding_of VERSION_CHECK WARN_SEVERITY (''Could not check PyPI for updates: '' @ x)
                          (Some ''Check network connectivity or use --offline'')])
      in case dr_pypi out of
           Inl x \<Rightarrow> failed x
         | Inr latest \<Rightarrow>
             if latest = [] then []
             else case dr_older out (dr_version out) latest of
               Inl x \<Rightarrow> failed x
             | Inr True \<Rightarrow>
                 [finding_of VERSION_CHECK WARN_SEVERITY
                    (''Newer version available: '' @ latest @ '' (installed: '' @ dr_version out @ '')'')
                    (Some ''pip install --upgrade styrened'')]
             | Inr False \<Rightarrow> [finding_of VERSION_CHECK OK_SEVERITY ''Up to date with PyPI'' None])"

definition check_version :: "doctor_outcomes \<Rightarrow> bool \<Rightarrow> finding list" where
  "check_version out offline =
     finding_of VERSION_CHECK OK_SEVERITY (''styrened '' @ dr_version out @ '' installed'') None #
     (if offline then [] else update_findings out)"

section \<open>Identity\<close>

text \<open>The bit that lets others read a file.\<close>

definition world_readable :: "nat \<Rightarrow> bool" where
  "world_readable m \<longleftrightarrow> m div 4 mod 2 = 1"

definition permission_findings :: "doctor_outcomes \<Rightarrow> path \<Rightarrow> finding list" where
  "permission_findings out p =
     (case dr_file_mode out p of
        Inl x \<Rightarrow> [finding_of IDENTITY_CHECK WARN_SEVERITY (''Could not check identity file permissions: '' @ x) None]
      | Inr m \<Rightarrow>
          if world_readable m
          then [finding_of IDENTITY_CHECK WARN_SEVERITY (''Identity file is world-readable: '' @ show_path p)
                  (Some (''chmod 600 '' @ show_path p))]
          else [finding_of IDENTITY_CHECK OK_SEVERITY ''Identity file permissions OK'' None])"

definition existing_findings :: "bool \<Rightarrow> (string \<times> path) option \<Rightarrow> finding list" where
  "existing_findings have existing =
     (case existing of
        None \<Rightarrow> []
      | Some (app, p) \<Rightarrow>
          if \<not> have
          then [finding_of IDENTITY_CHECK OK_SEVERITY (''Found existing identity from '' @ app @ '': '' @ show_path p)
                  (Some ''Run 'styrened doctor --setup' to adopt it'')]
          else [finding_of IDENTITY_CHECK OK_SEVERITY (''Existing identity detected from '' @ app) None])"

definition sharing_findings :: "(string \<times> sharing_status) list \<Rightarrow> finding list" where
  "sharing_findings st =
     (let shared = map fst (filter (\<lambda>(a, s). points_to_styrened s) st);
          independent = map fst (filter (\<lambda>(a, s). ss_exists s \<and> \<not> points_to_styrened s \<and> \<not> ss_is_symlink s) st)
      in (if shared = [] then []
          else [finding_of IDENTITY_CHECK OK_SEVERITY (''Identity shared with: '' @ join_with '', '' shared) None]) @
         (if independent = [] then []
          else [finding_of IDENTITY_CHECK WARN_SEVERITY (''Independent identities: '' @ join_with '', '' independent)
                  (Some ''Run 'styrened identity-share' to unify identities'')]))"

definition check_identity :: "doctor_outcomes \<Rightarrow> fs \<Rightarrow> finding list \<times> fs" where
  "check_identity out fs =
     (let e = dr_env out;
          (id, fs1) = get_operator_identity (dr_keys out) e (dr_token out) fs;
          (place, fs2) = resolve_identity_path e None fs1;
          own = (case (id, place) of
                   (Some h, Some p) \<Rightarrow>
                     finding_of IDENTITY_CHECK OK_SEVERITY (''Operator identity: '' @ py_take 16 h @ ''...'') None #
                     permission_findings out p
                 | _ \<Rightarrow> [finding_of IDENTITY_CHECK ERROR_SEVERITY ''No operator identity found''
                          (Some (''Run 'styrened identity --create' or 'styrened doctor --setup'' @ [CHR 0x27]))]);
          (st, fs3) = get_identity_sharing_status e fs2
      in (own @ existing_findings (id \<noteq> None) (detect_existing_lxmf_identity e fs2) @ sharing_findings st, fs3))"

section \<open>Configuration and Reticulum\<close>

definition core_config_at :: "doctor_outcomes \<Rightarrow> fs \<Rightarrow> core_config res" where
  "core_config_at out fs =
     (let p = config_file (dr_env out) fs in
      load_core_config (dr_values out) (if path_exists fs p then Some (dr_yaml_at out p fs) else None))"

definition check_config :: "doctor_outcomes \<Rightarrow> fs \<Rightarrow> finding list" where
  "check_config out fs =
     (let p = config_file (dr_env out) fs in
      if \<not> path_exists fs p
      then [finding_of CONFIG_CHECK WARN_SEVERITY (''Config file not found: '' @ show_path p)
              (Some ''Run 'styrened doctor --setup' to create one, or start with defaults'')]
      else case core_config_at out fs of
        Inl x \<Rightarrow> [finding_of CONFIG_CHECK ERROR_SEVERITY (''Config parse error: '' @ dr_error_text out x)
                   (Some (''Check YAML syntax in '' @ show_path p))]
      | Inr c \<Rightarrow>
          let name = id_display_name (c_identity c) in
          [finding_of CONFIG_CHECK OK_SEVERITY (''Config loaded from '' @ show_path p) None,
           if name \<in> {[], ''styrene-node'', ''Anonymous Styrene''}
           then finding_of CONFIG_CHECK WARN_SEVERITY ''Display name not customized (using default)''
                  (Some (''Set 'display_name' in config or run 'styrened doctor --setup'' @ [CHR 0x27]))
           else finding_of CONFIG_CHECK OK_SEVERITY (''Display name: '' @ name) None])"

text \<open>
  The number of interfaces is read with \<^verbatim>\<open>getattr(config_state, "interface_count", 0)\<close>. A state has the
  attributes of its class only.
\<close>

definition state_attributes :: "string list" where
  "state_attributes =
     [''identity'', ''interfaces'', ''config_path'', ''enabled_interface_count'', ''total_interface_count'']"

definition state_count :: "reticulum_state \<Rightarrow> string \<Rightarrow> int option" where
  "state_count s a =
     (if a = ''enabled_interface_count'' then Some (int (enabled_interface_count s))
      else if a = ''total_interface_count'' then Some (int (total_interface_count s)) else None)"

definition interface_count :: "reticulum_state \<Rightarrow> int" where
  "interface_count s = (case state_count s ''interface_count'' of None \<Rightarrow> 0 | Some n \<Rightarrow> n)"

definition check_reticulum :: "doctor_outcomes \<Rightarrow> fs \<Rightarrow> finding list" where
  "check_reticulum out fs =
     (case find_reticulum_config (home (dr_env out)) None fs of
        None \<Rightarrow> [finding_of RETICULUM_CHECK WARN_SEVERITY ''No Reticulum config directory found''
                  (Some ''RNS will create a default config on first run'')]
      | Some d \<Rightarrow>
          finding_of RETICULUM_CHECK OK_SEVERITY (''Reticulum config: '' @ show_path d) None #
          (if \<not> is_reticulum_configured (home (dr_env out)) (Some d) fs
           then [finding_of RETICULUM_CHECK WARN_SEVERITY
                   ''Reticulum config exists but may not be fully configured'' None]
           else case get_reticulum_config_state (home (dr_env out)) (dr_text_at out) (Some d) fs of
             Inr (Some s) \<Rightarrow>
               if interface_count s > 0
               then [finding_of RETICULUM_CHECK OK_SEVERITY
                       (show_int (interface_count s) @ '' interface(s) configured'') None]
               else [finding_of RETICULUM_CHECK WARN_SEVERITY ''No interfaces configured in Reticulum config''
                       (Some ''Add interfaces to ~/.reticulum/config'')]
           | _ \<Rightarrow> [finding_of RETICULUM_CHECK OK_SEVERITY
                     ''Reticulum configured (detailed state unavailable)'' None]))"

section \<open>Daemon and directories\<close>

definition pong_true :: "pong \<Rightarrow> bool" where
  "pong_true p = (case p of Pong_Flag b \<Rightarrow> b | Pong_Object v \<Rightarrow> True)"

definition daemon_running :: finding where
  "daemon_running = finding_of DAEMON_CHECK OK_SEVERITY ''Daemon is running and responsive'' None"

definition version_findings :: "doctor_outcomes \<Rightarrow> pong \<Rightarrow> finding list" where
  "version_findings out p =
     (case p of
        Pong_Flag b \<Rightarrow> []
      | Pong_Object None \<Rightarrow> []
      | Pong_Object (Some v) \<Rightarrow>
          if v = [] then []
          else if v \<noteq> dr_version out
          then [finding_of DAEMON_CHECK WARN_SEVERITY
                  (''Version mismatch: running daemon is v'' @ v @ '', installed binary is v'' @ dr_version out)
                  (Some (''Restart the service to pick up the new binary: '' @
                         [CHR 0x27] @ ''systemctl --user restart styrened' (Linux) or '' @
                         [CHR 0x27] @ ''launchctl unload/load ~/Library/LaunchAgents/com.styrene.styrened.plist' (macOS). '' @
                         ''Or run: just dev-daemon''))]
          else [finding_of DAEMON_CHECK OK_SEVERITY (''Daemon version matches: v'' @ v) None])"

definition second_try :: "daemon_outcomes \<Rightarrow> finding list" where
  "second_try x =
     (let failed = (\<lambda>t. [finding_of DAEMON_CHECK WARN_SEVERITY (''Daemon connection error: '' @ t)
                          (Some ''Try restarting the daemon'')])
      in case do_second x of
           Inl t \<Rightarrow> failed t
         | Inr None \<Rightarrow>
             [finding_of DAEMON_CHECK WARN_SEVERITY
                ''Could not connect to daemon (socket exists but connection failed)''
                (Some ''Check if daemon process is running'')]
         | Inr (Some (p, d)) \<Rightarrow>
             (if pong_true p then [daemon_running] else []) @ (case d of None \<Rightarrow> [] | Some t \<Rightarrow> failed t))"

definition check_daemon :: "doctor_outcomes \<Rightarrow> fs \<Rightarrow> finding list" where
  "check_daemon out fs =
     (if \<not> path_exists fs (control_socket (dr_env out) fs)
      then [finding_of DAEMON_CHECK WARN_SEVERITY ''Daemon not running (no control socket)''
              (Some (''Start with 'styrened daemon' or 'systemctl start styrened'' @ [CHR 0x27]))]
      else
        let x = dr_daemon out in
        (case do_first x of
           Inl _ \<Rightarrow> []
         | Inr p \<Rightarrow>
             if pong_true p then daemon_running # version_findings out p
             else [finding_of DAEMON_CHECK WARN_SEVERITY ''Daemon socket exists but did not respond to ping'' None]) @
        (if (case do_first x of Inl _ \<Rightarrow> True | Inr _ \<Rightarrow> False) \<or> do_disconnect x \<noteq> None then second_try x else []))"

definition check_directory :: "doctor_outcomes \<Rightarrow> fs \<Rightarrow> string \<times> path \<Rightarrow> finding" where
  "check_directory out fs np =
     (case np of (n, p) \<Rightarrow>
        if path_exists fs p
        then if dr_may_write out p then finding_of PATHS_CHECK OK_SEVERITY (n @ '': '' @ show_path p) None
             else finding_of PATHS_CHECK ERROR_SEVERITY (n @ '' directory not writable: '' @ show_path p)
                    (Some (''chmod u+w '' @ show_path p))
        else finding_of PATHS_CHECK WARN_SEVERITY (n @ '' directory missing: '' @ show_path p)
               (Some (''mkdir -p '' @ show_path p)))"

definition check_paths :: "doctor_outcomes \<Rightarrow> fs \<Rightarrow> finding list" where
  "check_paths out fs =
     (let e = dr_env out in
      map (check_directory out fs)
        [(''Config'', config_dir e fs), (''Data'', data_dir e fs), (''State'', state_dir e fs),
         (''Runtime'', runtime_dir e fs)])"

end
