(* ===== verification/Doctor.thy ===== *)
theory Doctor
  imports Doctor_Checks
begin

text \<open>
  The rest of the diagnosis (\<^verbatim>\<open>src/styrened/services/doctor.py\<close>): the optional adapters and their
  programs, the boundary log, the whole run with its exit code, fixing, the setup wizard, and the command
  of \<^verbatim>\<open>src/styrened/cli.py\<close>. An adapter class is absent when its module is, as it is in the repository.
\<close>

section \<open>Adapters\<close>

record adapter_status =
  as_running :: bool
  as_details :: pydict
  as_warming_up :: bool
  as_warm_up_expected :: rat
  as_warm_up_elapsed :: rat

record adapter =
  ad_status :: "string + adapter_status"
  ad_binary :: "string option"

text \<open>
  \<open>ao_manifest\<close> is the manifest that was read, unless that fails; \<open>ao_version_output\<close> what a program prints
  for its version; \<open>ao_provision\<close> provisions a program or gives the text of an exception; it is absent when
  its module is.
\<close>

record adapter_outcomes =
  ao_yggdrasil :: "(yggdrasil_config \<Rightarrow> adapter) option"
  ao_i2p :: "(i2p_config \<Rightarrow> adapter) option"
  ao_which :: "string \<Rightarrow> string option"
  ao_manifest :: "pyval option"
  ao_machine :: string
  ao_platform :: string
  ao_hash :: "string \<Rightarrow> string res"
  ao_version_output :: "string \<Rightarrow> string option"
  ao_provision :: "(string \<Rightarrow> string option) option"

definition given_or_loaded :: "doctor_outcomes \<Rightarrow> fs \<Rightarrow> core_config option \<Rightarrow> core_config option" where
  "given_or_loaded out fs config =
     (case config of Some c \<Rightarrow> Some c | None \<Rightarrow> (case core_config_at out fs of Inl _ \<Rightarrow> None | Inr c \<Rightarrow> Some c))"

text \<open>Calling a class that is \<^verbatim>\<open>None\<close> raises.\<close>

definition make_adapter :: "('c \<Rightarrow> adapter) option \<Rightarrow> 'c \<Rightarrow> adapter res" where
  "make_adapter cls cfg = (case cls of None \<Rightarrow> Inl TypeError | Some f \<Rightarrow> Inr (f cfg))"

definition yggdrasil_running :: "config_env \<Rightarrow> adapter_status \<Rightarrow> finding list" where
  "yggdrasil_running env s =
     [finding_of YGGDRASIL_CHECK OK_SEVERITY
        (''Yggdrasil running '' @ dash @ '' address: '' @ text_of env (d_get_or (as_details s) ''address'' (PStr ''unknown'')) @
         '', peers: '' @ text_of env (d_get_or (as_details s) ''peer_count'' (PInt 0))) None]"

definition check_yggdrasil :: "doctor_outcomes \<Rightarrow> adapter_outcomes \<Rightarrow> fs \<Rightarrow> core_config option \<Rightarrow> finding list res" where
  "check_yggdrasil out ao fs config =
     (case given_or_loaded out fs config of
        None \<Rightarrow> Inr []
      | Some c \<Rightarrow>
          let y = c_yggdrasil c in
          if ygg_mode y = DISABLED then Inr []
          else if ygg_mode y = MANAGED \<and> ao_which ao (ygg_binary_path y) = None
          then Inr [finding_of YGGDRASIL_CHECK ERROR_SEVERITY ''yggdrasil binary not found in PATH''
                      (Some ''styrened setup --enable yggdrasil'')]
          else bind_res (make_adapter (ao_yggdrasil ao) y) (\<lambda>a.
            Inr (case ad_status a of
                   Inl x \<Rightarrow> [finding_of YGGDRASIL_CHECK WARN_SEVERITY (''Yggdrasil status check error: '' @ x) None]
                 | Inr s \<Rightarrow>
                     if as_running s then yggdrasil_running (dr_values out) s
                     else if ygg_mode y = ADOPT
                     then [finding_of YGGDRASIL_CHECK WARN_SEVERITY
                             (''yggdrasil not detected at expected socket paths '' @ dash @ '' is it running?'') None]
                     else [finding_of YGGDRASIL_CHECK WARN_SEVERITY ''Managed yggdrasil process is not responding''
                             (Some ''styrened setup --enable yggdrasil'')])))"

definition i2p_findings :: "config_env \<Rightarrow> i2p_config \<Rightarrow> adapter_status \<Rightarrow> finding list" where
  "i2p_findings env y s =
     (if \<not> as_running s
      then if i2p_mode y = ADOPT
           then [finding_of I2P_CHECK WARN_SEVERITY
                   (''i2pd not detected at '' @ i2p_http_proxy_host y @ '':'' @ show_int (i2p_http_proxy_port y)) None]
           else [finding_of I2P_CHECK WARN_SEVERITY ''Managed i2pd process is not responding''
                   (Some ''styrened setup --enable i2p'')]
      else if as_warming_up s \<and> i2p_mode y = MANAGED
      then [finding_of I2P_CHECK OK_SEVERITY
              (''i2pd warming up (~'' @
               show_int \<lceil>max 0 (as_warm_up_expected s - as_warm_up_elapsed s) / 60\<rceil> @ '' min remaining)'') None]
      else [finding_of I2P_CHECK OK_SEVERITY
              (''i2pd running '' @ dash @ '' HTTP proxy on port '' @
               text_of env (d_get_or (as_details s) ''proxy_port'' (PInt (i2p_http_proxy_port y)))) None])"

definition check_i2p :: "doctor_outcomes \<Rightarrow> adapter_outcomes \<Rightarrow> fs \<Rightarrow> core_config option \<Rightarrow> finding list res" where
  "check_i2p out ao fs config =
     (case given_or_loaded out fs config of
        None \<Rightarrow> Inr []
      | Some c \<Rightarrow>
          let y = c_i2p c in
          if i2p_mode y = DISABLED then Inr []
          else if i2p_mode y = MANAGED \<and> ao_which ao ''i2pd'' = None
          then Inr [finding_of I2P_CHECK ERROR_SEVERITY ''i2pd binary not found in PATH''
                      (Some ''styrened setup --enable i2p'')]
          else bind_res (make_adapter (ao_i2p ao) y) (\<lambda>a.
            Inr (case ad_status a of
                   Inl x \<Rightarrow> [finding_of I2P_CHECK WARN_SEVERITY (''I2P status check error: '' @ x) None]
                 | Inr s \<Rightarrow> i2p_findings (dr_values out) y s)))"

section \<open>Programs of the adapters\<close>

text \<open>\<^verbatim>\<open>v.get(k, default)\<close>, which only a dictionary has.\<close>

definition json_get :: "pyval \<Rightarrow> string \<Rightarrow> pyval \<Rightarrow> pyval res" where
  "json_get v k dflt = (case v of PDict d \<Rightarrow> Inr (d_get_or d k dflt) | _ \<Rightarrow> Inl AttributeError)"

definition load_manifest :: "adapter_outcomes \<Rightarrow> pyval" where
  "load_manifest ao = (case ao_manifest ao of None \<Rightarrow> PDict [] | Some v \<Rightarrow> v)"

definition arch_map :: "(string \<times> string) list" where
  "arch_map = [(''x86_64'', ''amd64''), (''amd64'', ''amd64''), (''aarch64'', ''arm64''), (''arm64'', ''arm64''),
     (''armv7l'', ''armhf''), (''armv6l'', ''armhf'')]"

definition detect_platform :: "adapter_outcomes \<Rightarrow> string" where
  "detect_platform ao =
     (let m = lower (ao_machine ao); arch = (case map_of arch_map m of None \<Rightarrow> m | Some a \<Rightarrow> a)
      in if ao_platform ao = ''darwin'' then ''darwin-'' @ arch
         else if prefix ''linux'' (ao_platform ao) then ''linux-'' @ arch else ''unknown-'' @ arch)"

definition manifest_adapter :: "adapter_outcomes \<Rightarrow> string \<Rightarrow> pyval res" where
  "manifest_adapter ao name =
     bind_res (json_get (load_manifest ao) ''adapters'' (PDict [])) (\<lambda>v. json_get v name PNone)"

definition get_manifest_entry :: "adapter_outcomes \<Rightarrow> string \<Rightarrow> pyval res" where
  "get_manifest_entry ao name =
     bind_res (manifest_adapter ao name) (\<lambda>a.
     if \<not> truthy a then Inr PNone
     else bind_res (json_get a ''platforms'' (PDict [])) (\<lambda>ps. json_get ps (detect_platform ao) PNone))"

definition get_manifest_version :: "adapter_outcomes \<Rightarrow> string \<Rightarrow> pyval res" where
  "get_manifest_version ao name =
     bind_res (manifest_adapter ao name) (\<lambda>a. if truthy a then json_get a ''version'' PNone else Inr PNone)"

text \<open>The pattern \<^verbatim>\<open>\d+\.\d+\.\d+\<close> at the beginning of a text, and its first occurrence.\<close>

definition is_digit :: "char \<Rightarrow> bool" where
  "is_digit c \<longleftrightarrow> digit_value c \<noteq> None"

definition version_here :: "string \<Rightarrow> string option" where
  "version_here s =
     (let a = takeWhile is_digit s; r = dropWhile is_digit s
      in if a = [] \<or> r = [] \<or> hd r \<noteq> CHR ''.'' then None
         else let b = takeWhile is_digit (tl r); q = dropWhile is_digit (tl r)
              in if b = [] \<or> q = [] \<or> hd q \<noteq> CHR ''.'' then None
                 else let c = takeWhile is_digit (tl q) in if c = [] then None else Some (a @ ''.'' @ b @ ''.'' @ c))"

fun find_version :: "string \<Rightarrow> string option" where
  "find_version [] = None"
| "find_version (c # s) = (case version_here (c # s) of Some v \<Rightarrow> Some v | None \<Rightarrow> find_version s)"

definition check_binary_version :: "adapter_outcomes \<Rightarrow> string \<Rightarrow> string option" where
  "check_binary_version ao binary = (case ao_version_output ao binary of None \<Rightarrow> None | Some s \<Rightarrow> find_version s)"

text \<open>The first characters of a value of the manifest in a message: a number or \<^verbatim>\<open>None\<close> cannot be cut.\<close>

definition cut_value :: "config_env \<Rightarrow> pyval \<Rightarrow> string res" where
  "cut_value env v =
     (case v of PStr s \<Rightarrow> Inr (py_take 12 s) | PList vs \<Rightarrow> Inr (text_of env (PList (take 12 vs))) | _ \<Rightarrow> Inl TypeError)"

text \<open>The adapters: name, category, mode, and the object that is made for them.\<close>

definition adapter_specs ::
    "adapter_outcomes \<Rightarrow> core_config \<Rightarrow> (string \<times> check_category \<times> daemon_mode \<times> adapter res) list" where
  "adapter_specs ao c =
     [(''yggdrasil'', YGGDRASIL_CHECK, ygg_mode (c_yggdrasil c), make_adapter (ao_yggdrasil ao) (c_yggdrasil c)),
      (''i2pd'', I2P_CHECK, i2p_mode (c_i2p c), make_adapter (ao_i2p ao) (c_i2p c))]"

definition integrity_finding ::
    "config_env \<Rightarrow> adapter_outcomes \<Rightarrow> string \<Rightarrow> check_category \<Rightarrow> string \<Rightarrow> finding res" where
  "integrity_finding env ao name cat binary =
     bind_res (get_manifest_entry ao name) (\<lambda>entry.
     if \<not> truthy entry
     then Inr (finding_of cat OK_SEVERITY
                 (check_mark @ '' '' @ name @ '' found at '' @ binary @ '' (no manifest entry for verification)'') None)
     else bind_res (ao_hash ao binary) (\<lambda>actual.
          bind_res (json_get entry ''binary_sha256'' (PStr [])) (\<lambda>expected.
          if expected = PStr actual
          then Inr (finding_of cat OK_SEVERITY (check_mark @ '' '' @ name @ '' found at '' @ binary @ '', hash matches'') None)
          else bind_res (cut_value env expected) (\<lambda>cut.
               Inr (finding_of cat WARN_SEVERITY
                 (warning_mark @ '' '' @ name @ '' binary hash mismatch '' @ dash @ '' expected '' @ cut @ ellipsis @
                  '', got '' @ py_take 12 actual @ ellipsis)
                 (Some (''Run 'styrened doctor --fix' to re-provision '' @ name)))))))"

definition version_check :: "config_env \<Rightarrow> adapter_outcomes \<Rightarrow> string \<Rightarrow> check_category \<Rightarrow> string \<Rightarrow> finding list res" where
  "version_check env ao name cat binary =
     bind_res (get_manifest_version ao name) (\<lambda>expected.
     Inr (case check_binary_version ao binary of
            None \<Rightarrow> []
          | Some actual \<Rightarrow>
              if \<not> truthy expected then []
              else if expected = PStr actual
              then [finding_of cat OK_SEVERITY (check_mark @ '' '' @ name @ '' version '' @ actual) None]
              else [finding_of cat WARN_SEVERITY
                      (warning_mark @ '' '' @ name @ '' version mismatch '' @ dash @ '' installed '' @ actual @
                       '', manifest expects '' @ text_of env expected) None]))"

definition check_one_binary ::
    "config_env \<Rightarrow> adapter_outcomes \<Rightarrow> string \<times> check_category \<times> daemon_mode \<times> adapter res \<Rightarrow> finding list res" where
  "check_one_binary env ao spec =
     (case spec of (name, cat, m, made) \<Rightarrow>
        if m = DISABLED then Inr []
        else bind_res made (\<lambda>a.
          case ad_binary a of
            None \<Rightarrow> Inr [finding_of cat (if m = MANAGED then ERROR_SEVERITY else WARN_SEVERITY)
                          (cross_mark @ '' '' @ name @ '' binary not found'')
                          (Some (''Run 'styrened doctor --fix' to provision '' @ name))]
          | Some binary \<Rightarrow>
              bind_res (integrity_finding env ao name cat binary) (\<lambda>f.
              bind_res (version_check env ao name cat binary) (\<lambda>vs. Inr (f # vs)))))"

definition check_adapter_binaries :: "config_env \<Rightarrow> adapter_outcomes \<Rightarrow> core_config \<Rightarrow> finding list res" where
  "check_adapter_binaries env ao c =
     bind_res (map_res (check_one_binary env ao) (adapter_specs ao c)) (\<lambda>fss. Inr (concat fss))"

text \<open>Whether a program that is there is left as it is.\<close>

definition binary_kept :: "adapter_outcomes \<Rightarrow> string \<Rightarrow> string \<Rightarrow> bool res" where
  "binary_kept ao name binary =
     bind_res (get_manifest_entry ao name) (\<lambda>entry.
     if \<not> truthy entry then Inr True
     else bind_res (ao_hash ao binary) (\<lambda>actual.
          bind_res (json_get entry ''binary_sha256'' (PStr [])) (\<lambda>expected. Inr (expected = PStr actual))))"

definition provision_finding :: "adapter_outcomes \<Rightarrow> string \<Rightarrow> check_category \<Rightarrow> finding" where
  "provision_finding ao name cat =
     (case ao_provision ao of
        None \<Rightarrow> finding_of cat ERROR_SEVERITY (cross_mark @ '' '' @ name @ '' provisioner not available'')
                 (Some ''Install binary manually or upgrade styrened'')
      | Some f \<Rightarrow>
          (case f name of
             None \<Rightarrow> finding_of cat OK_SEVERITY (check_mark @ '' '' @ name @ '' installed'') None
           | Some x \<Rightarrow> finding_of cat ERROR_SEVERITY (cross_mark @ '' '' @ name @ '' provisioning failed: '' @ x) None))"

definition fix_one_binary ::
    "adapter_outcomes \<Rightarrow> string \<times> check_category \<times> daemon_mode \<times> adapter res \<Rightarrow> finding list res" where
  "fix_one_binary ao spec =
     (case spec of (name, cat, m, made) \<Rightarrow>
        if m = DISABLED then Inr []
        else bind_res made (\<lambda>a.
          bind_res (case ad_binary a of None \<Rightarrow> Inr False | Some binary \<Rightarrow> binary_kept ao name binary) (\<lambda>kept.
          Inr (if kept then [] else [provision_finding ao name cat]))))"

definition fix_adapter_binaries :: "adapter_outcomes \<Rightarrow> core_config \<Rightarrow> finding list res" where
  "fix_adapter_binaries ao c =
     bind_res (map_res (fix_one_binary ao) (adapter_specs ao c)) (\<lambda>fss. Inr (concat fss))"

section \<open>The boundary log\<close>

text \<open>
  \<open>bl_raw\<close> is what the daemon answers, or \<open>None\<close> when it cannot be asked; \<open>bl_sorted\<close> is \<^verbatim>\<open>sorted\<close> of tags
  that are not all texts; \<open>bl_time\<close> reads a time stamp.
\<close>

record boundary_outcomes =
  bl_raw :: "pyval option"
  bl_sorted :: "pyval list \<Rightarrow> pyval list res"
  bl_time :: "string \<Rightarrow> rat option"

definition BOUNDARY_WARN_THRESHOLD :: nat where "BOUNDARY_WARN_THRESHOLD = 5"

definition hashable :: "pyval \<Rightarrow> bool" where
  "hashable v = (case v of PList _ \<Rightarrow> False | PDict _ \<Rightarrow> False | _ \<Rightarrow> True)"

text \<open>The records by tag, in the order in which the tags appear.\<close>

definition put_record :: "pyval \<Rightarrow> pydict \<Rightarrow> (pyval \<times> pydict list) list \<Rightarrow> (pyval \<times> pydict list) list" where
  "put_record tag r groups =
     AList.update tag ((case map_of groups tag of None \<Rightarrow> [] | Some rs \<Rightarrow> rs) @ [r]) groups"

fun group_by_tag :: "pyval list \<Rightarrow> (pyval \<times> pydict list) list \<Rightarrow> (pyval \<times> pydict list) list res" where
  "group_by_tag [] groups = Inr groups"
| "group_by_tag (PDict r # vs) groups =
     (let tag = d_get_or r ''boundary'' (PStr ''UNKNOWN'')
      in if hashable tag then group_by_tag vs (put_record tag r groups) else Inl TypeError)"
| "group_by_tag (_ # vs) groups = Inl AttributeError"

definition sorted_tags :: "boundary_outcomes \<Rightarrow> pyval list \<Rightarrow> pyval list res" where
  "sorted_tags bl tags =
     (case as_str_list (PList tags) of Some ss \<Rightarrow> Inr (map PStr (sort ss)) | None \<Rightarrow> bl_sorted bl tags)"

text \<open>\<^verbatim>\<open>max\<close> by time, the first of the latest; a stamp that cannot be read is before all others.\<close>

definition later :: "boundary_outcomes \<Rightarrow> string \<Rightarrow> string \<Rightarrow> bool" where
  "later bl s t = (case (bl_time bl s, bl_time bl t) of (Some x, Some y) \<Rightarrow> y < x | (Some x, None) \<Rightarrow> True | _ \<Rightarrow> False)"

definition last_seen :: "config_env \<Rightarrow> boundary_outcomes \<Rightarrow> pydict list \<Rightarrow> string" where
  "last_seen env bl rs =
     (let stamps = map (text_of env) (filter truthy (map (\<lambda>r. d_get_or r ''ts'' PNone) rs))
      in case stamps of [] \<Rightarrow> ''unknown'' | t # ts \<Rightarrow> fold (\<lambda>s best. if later bl s best then s else best) ts t)"

definition tag_finding :: "config_env \<Rightarrow> boundary_outcomes \<Rightarrow> pyval \<Rightarrow> pydict list \<Rightarrow> finding res" where
  "tag_finding env bl tag rs =
     (let name = text_of env tag; n = length rs; seen = last_seen env bl rs;
          sevs = map (\<lambda>r. d_get_or r ''severity'' (PStr ''transient'')) rs
      in if \<not> list_all hashable sevs then Inl TypeError
         else if BOUNDARY_WARN_THRESHOLD < n
         then Inr (finding_of BOUNDARY_LOG_CHECK WARN_SEVERITY
                (''Boundary ['' @ name @ '']: '' @ show_nat n @ '' error records (last seen: '' @ seen @ '')'')
                (Some (''Check logs for repeated '' @ name @ '' failures. '' @
                       ''Run 'styrened doctor --offline' for offline diagnostics '' @
                       ''or 'journalctl -u styrened' for full service logs.'')))
         else if set sevs \<subseteq> {PStr ''transient''}
         then Inr (finding_of BOUNDARY_LOG_CHECK OK_SEVERITY
                (''Boundary ['' @ name @ '']: '' @ show_nat n @ '' transient record(s) (last seen: '' @ seen @ '')'') None)
         else case as_str_list (PList sevs) of
           None \<Rightarrow> Inl TypeError
         | Some ss \<Rightarrow> Inr (finding_of BOUNDARY_LOG_CHECK OK_SEVERITY
                (''Boundary ['' @ name @ '']: '' @ show_nat n @ '' record(s) (severities: '' @
                 join_with '', '' (sort (remdups ss)) @ '', last seen: '' @ seen @ '')'') None))"

definition check_boundary_log :: "doctor_outcomes \<Rightarrow> boundary_outcomes \<Rightarrow> fs \<Rightarrow> finding list res" where
  "check_boundary_log out bl fs =
     (if \<not> path_exists fs (control_socket (dr_env out) fs) then Inr []
      else case bl_raw bl of
        Some (PList vs) \<Rightarrow>
          bind_res (group_by_tag vs []) (\<lambda>groups.
          bind_res (sorted_tags bl (map fst groups)) (\<lambda>tags.
          map_res (\<lambda>t. tag_finding (dr_values out) bl t (case map_of groups t of None \<Rightarrow> [] | Some rs \<Rightarrow> rs)) tags))
      | _ \<Rightarrow> Inr [])"

section \<open>The report\<close>

record doctor_report =
  rp_findings :: "finding list"
  rp_installed :: string
  rp_identity_hash :: "string option"
  rp_identity_path :: "string option"
  rp_checked_at :: string

definition has_errors :: "doctor_report \<Rightarrow> bool" where
  "has_errors r = list_ex (\<lambda>f. fd_severity f = ERROR_SEVERITY) (rp_findings r)"

definition has_warnings :: "doctor_report \<Rightarrow> bool" where
  "has_warnings r = list_ex (\<lambda>f. fd_severity f = WARN_SEVERITY) (rp_findings r)"

definition report_exit_code :: "doctor_report \<Rightarrow> int" where
  "report_exit_code r = (if has_errors r then 2 else if has_warnings r then 1 else 0)"

definition finding_to_dict :: "finding \<Rightarrow> pyval" where
  "finding_to_dict f =
     PDict (kv [(''category'', PStr (category_value (fd_category f))), (''severity'', PStr (severity_value (fd_severity f))),
                (''message'', PStr (fd_message f)), (''fix_hint'', opt PStr (fd_fix_hint f))])"

definition report_to_dict :: "doctor_report \<Rightarrow> pyval" where
  "report_to_dict r =
     PDict (kv [(''findings'', PList (map finding_to_dict (rp_findings r))),
                (''version_info'', PDict (kv [(''installed'', PStr (rp_installed r))])),
                (''identity_info'', PDict (kv [(''identity_hash'', opt PStr (rp_identity_hash r)),
                                               (''identity_path'', opt PStr (rp_identity_path r))])),
                (''checked_at'', PStr (rp_checked_at r)), (''has_errors'', PBool (has_errors r)),
                (''has_warnings'', PBool (has_warnings r)), (''exit_code'', PInt (report_exit_code r))])"

text \<open>The checks that look at the files only.\<close>

definition plain_checks :: "doctor_outcomes \<Rightarrow> bool \<Rightarrow> fs \<Rightarrow> finding list \<times> fs" where
  "plain_checks out offline fs =
     (let (identity, fs1) = check_identity out fs
      in (check_version out offline @ check_rust_daemon out fs @ identity @ check_config out fs1 @
          check_reticulum out fs1 @ check_paths out fs1 @ check_daemon out fs1, fs1))"

definition run_doctor ::
    "doctor_outcomes \<Rightarrow> adapter_outcomes \<Rightarrow> boundary_outcomes \<Rightarrow> string \<Rightarrow> bool \<Rightarrow> fs \<Rightarrow> (doctor_report \<times> fs) res" where
  "run_doctor out ao bl now offline fs =
     (let config = (case core_config_at out fs of Inl _ \<Rightarrow> None | Inr c \<Rightarrow> Some c);
          (plain, fs1) = plain_checks out offline fs
      in bind_res (check_boundary_log out bl fs1) (\<lambda>boundary.
         bind_res (check_yggdrasil out ao fs1 config) (\<lambda>ygg.
         bind_res (check_i2p out ao fs1 config) (\<lambda>i2p.
         bind_res (case config of None \<Rightarrow> Inr [] | Some c \<Rightarrow> check_adapter_binaries (dr_values out) ao c) (\<lambda>binaries.
         let (hash, fs2) = get_operator_identity (dr_keys out) (dr_env out) (dr_token out) fs1;
             (place, fs3) = resolve_identity_path (dr_env out) None fs2
         in Inr (\<lparr>rp_findings = plain @ boundary @ ygg @ i2p @ binaries, rp_installed = dr_version out,
                  rp_identity_hash = hash, rp_identity_path = map_option show_path place, rp_checked_at = now\<rparr>, fs3))))))"

section \<open>Fixing\<close>

definition fixable :: "finding \<Rightarrow> bool" where
  "fixable f \<longleftrightarrow>
     fd_severity f \<noteq> OK_SEVERITY \<and> fd_category f = PATHS_CHECK \<and> sublist ''directory missing'' (fd_message f)"

fun fix_findings :: "doctor_outcomes \<Rightarrow> finding list \<Rightarrow> fs \<Rightarrow> finding list \<times> fs" where
  "fix_findings out [] fs = ([], fs)"
| "fix_findings out (f # rest) fs =
     (if \<not> fixable f then fix_findings out rest fs
      else case ensure_directories (dr_env out) (dr_has_entries out) fs of
        (Inr _, fs1) \<Rightarrow> ([finding_of PATHS_CHECK OK_SEVERITY ''Created missing directories'' None], fs1)
      | (Inl x, fs1) \<Rightarrow>
          (case fix_findings out rest fs1 of (more_found, fs2) \<Rightarrow>
             (finding_of PATHS_CHECK ERROR_SEVERITY (''Failed to create directories: '' @ dr_error_text out x) None # more_found,
              fs2)))"

definition apply_fixes :: "doctor_outcomes \<Rightarrow> doctor_report \<Rightarrow> fs \<Rightarrow> finding list \<times> fs" where
  "apply_fixes out r fs = fix_findings out (rp_findings r) fs"

section \<open>The setup wizard\<close>

text \<open>The answers, in the order of the questions; the first is asked only about an identity that was found.\<close>

record wizard_answers =
  wa_adopt :: string
  wa_name :: string
  wa_profile :: string

definition identity_done :: "string \<Rightarrow> string \<Rightarrow> finding" where
  "identity_done what h = finding_of IDENTITY_CHECK OK_SEVERITY (what @ '': '' @ py_take 16 h @ ''...'') None"

definition ensured :: "doctor_outcomes \<Rightarrow> bytes \<Rightarrow> bool \<Rightarrow> fs \<Rightarrow> string res \<times> fs" where
  "ensured out fresh_key use_existing fs =
     ensure_operator_identity (dr_keys out) (dr_env out) (dr_token out) use_existing None fresh_key fs"

definition wizard_identity :: "doctor_outcomes \<Rightarrow> bytes \<Rightarrow> wizard_answers \<Rightarrow> fs \<Rightarrow> (finding \<times> fs) res" where
  "wizard_identity out fresh_key a fs =
     (let finish = (\<lambda>what use (r, g). bind_res r (\<lambda>h. Inr (identity_done what h, g))) in
      case get_operator_identity (dr_keys out) (dr_env out) (dr_token out) fs of
        (Some h, fs1) \<Rightarrow> Inr (identity_done ''Identity already exists'' h, fs1)
      | (None, fs1) \<Rightarrow>
          (case detect_existing_lxmf_identity (dr_env out) fs1 of
             Some (app, p) \<Rightarrow>
               if lower (py_strip (wa_adopt a)) \<in> {[], ''y'', ''yes''}
               then finish (''Adopted identity from '' @ app) True (ensured out fresh_key True fs1)
               else finish ''Created new identity'' False (ensured out fresh_key False fs1)
           | None \<Rightarrow> finish ''Created new identity'' True (ensured out fresh_key True fs1)))"

definition chosen_name :: "wizard_answers \<Rightarrow> string" where
  "chosen_name a = text_or (py_strip (wa_name a)) ''styrene-node''"

definition chosen_profile :: "wizard_answers \<Rightarrow> profile" where
  "chosen_profile a =
     (let t = py_strip (wa_profile a)
      in if t = ''2'' then ENDPOINT_PROFILE else if t = ''3'' then HUB_PROFILE else OPERATOR_PROFILE)"

definition wizard_config :: "doctor_outcomes \<Rightarrow> wizard_answers \<Rightarrow> fs \<Rightarrow> core_config" where
  "wizard_config out a fs =
     (let c = (case core_config_at out fs of Inl _ \<Rightarrow> get_profile_defaults (chosen_profile a) | Inr c \<Rightarrow> c)
      in c\<lparr>c_identity := (c_identity c)\<lparr>id_display_name := chosen_name a\<rparr>, c_profile := chosen_profile a\<rparr>)"

text \<open>The findings, the value written to the configuration file, and the files.\<close>

definition run_setup_wizard ::
    "doctor_outcomes \<Rightarrow> bytes \<Rightarrow> bool \<Rightarrow> wizard_answers \<Rightarrow> fs \<Rightarrow> (finding list \<times> pyval \<times> fs) res" where
  "run_setup_wizard out fresh_key writable a fs =
     (case ensure_directories (dr_env out) (dr_has_entries out) fs of
        (Inl x, fs1) \<Rightarrow> Inl x
      | (Inr _, fs1) \<Rightarrow>
          bind_res (wizard_identity out fresh_key a fs1) (\<lambda>(f, fs2).
          bind_res (save_core_config writable (wizard_config out a fs2)) (\<lambda>v.
          Inr ([f, finding_of CONFIG_CHECK OK_SEVERITY (''Config saved to '' @ show_path (config_file (dr_env out) fs2)) None],
               v, fs2))))"

section \<open>The command\<close>

definition severity_prefix :: "severity \<Rightarrow> string" where
  "severity_prefix s = (case s of OK_SEVERITY \<Rightarrow> ''[OK] '' | WARN_SEVERITY \<Rightarrow> ''[WARN]'' | ERROR_SEVERITY \<Rightarrow> ''[ERR] '')"

definition finding_lines :: "finding \<Rightarrow> string list" where
  "finding_lines f =
     (''  '' @ severity_prefix (fd_severity f) @ '' '' @ fd_message f) #
     (case fd_fix_hint f of
        None \<Rightarrow> []
      | Some h \<Rightarrow> if h = [] \<or> fd_severity f = OK_SEVERITY then [] else [''         -> '' @ h])"

definition all_categories :: "check_category list" where
  "all_categories = [VERSION_CHECK, IDENTITY_CHECK, CONFIG_CHECK, RETICULUM_CHECK, DAEMON_CHECK, PATHS_CHECK,
     YGGDRASIL_CHECK, I2P_CHECK, BOUNDARY_LOG_CHECK]"

definition category_labels :: "check_category \<Rightarrow> string option" where
  "category_labels c =
     (case c of VERSION_CHECK \<Rightarrow> Some ''Version'' | IDENTITY_CHECK \<Rightarrow> Some ''Identity'' | CONFIG_CHECK \<Rightarrow> Some ''Configuration''
      | RETICULUM_CHECK \<Rightarrow> Some ''Reticulum'' | DAEMON_CHECK \<Rightarrow> Some ''Daemon'' | PATHS_CHECK \<Rightarrow> Some ''Paths'' | _ \<Rightarrow> None)"

definition category_lines :: "finding list \<Rightarrow> check_category \<Rightarrow> string list" where
  "category_lines fs c =
     (let own = filter (\<lambda>f. fd_category f = c) fs;
          label = (case category_labels c of Some l \<Rightarrow> l | None \<Rightarrow> category_value c)
      in if own = [] then [] else (''  '' @ label) # concat (map finding_lines own) @ [[]])"

definition severity_count :: "severity \<Rightarrow> finding list \<Rightarrow> nat" where
  "severity_count s fs = length (filter (\<lambda>f. fd_severity f = s) fs)"

definition report_lines :: "doctor_report \<Rightarrow> string list" where
  "report_lines r =
     [[], ''styrened doctor'', []] @ concat (map (category_lines (rp_findings r)) all_categories) @
     [''  '' @ show_nat (severity_count OK_SEVERITY (rp_findings r)) @ '' passed, '' @
      show_nat (severity_count WARN_SEVERITY (rp_findings r)) @ '' warnings, '' @
      show_nat (severity_count ERROR_SEVERITY (rp_findings r)) @ '' errors'']"

record doctor_args =
  ag_setup :: bool
  ag_offline :: bool
  ag_fix :: bool
  ag_json :: bool

datatype doctor_output = Text_Output "string list" | Json_Output pyval

definition fixed_report :: "doctor_outcomes \<Rightarrow> bool \<Rightarrow> doctor_report \<times> fs \<Rightarrow> doctor_report \<times> fs" where
  "fixed_report out fix_asked rf =
     (case rf of (r, fs) \<Rightarrow>
        if fix_asked then (case apply_fixes out r fs of (found, g) \<Rightarrow> (r\<lparr>rp_findings := rp_findings r @ found\<rparr>, g))
        else (r, fs))"

definition cmd_doctor ::
    "doctor_outcomes \<Rightarrow> adapter_outcomes \<Rightarrow> boundary_outcomes \<Rightarrow> bytes \<Rightarrow> bool \<Rightarrow> wizard_answers \<Rightarrow> string \<Rightarrow> doctor_args \<Rightarrow>
       fs \<Rightarrow> (doctor_output \<times> int \<times> fs) res" where
  "cmd_doctor out ao bl fresh_key writable answers now args fs =
     (if ag_setup args
      then bind_res (run_setup_wizard out fresh_key writable answers fs) (\<lambda>(found, v, g).
           Inr (Text_Output ([] # concat (map finding_lines found)), 0, g))
      else bind_res (run_doctor out ao bl now (ag_offline args) fs) (\<lambda>rf.
           case fixed_report out (ag_fix args) rf of (r, g) \<Rightarrow>
             Inr (if ag_json args then Json_Output (report_to_dict r) else Text_Output (report_lines r),
                  report_exit_code r, g)))"

section \<open>What the diagnosis can say\<close>

lemma exit_code_cases:
  "report_exit_code r = 2 \<longleftrightarrow> (\<exists>f \<in> set (rp_findings r). fd_severity f = ERROR_SEVERITY)"
  "report_exit_code r = 0 \<longleftrightarrow> (\<forall>f \<in> set (rp_findings r). fd_severity f = OK_SEVERITY)"
proof -
  show "report_exit_code r = 2 \<longleftrightarrow> (\<exists>f \<in> set (rp_findings r). fd_severity f = ERROR_SEVERITY)"
    by (simp add: report_exit_code_def has_errors_def list_ex_iff)
  have "fd_severity f = OK_SEVERITY \<longleftrightarrow> fd_severity f \<noteq> ERROR_SEVERITY \<and> fd_severity f \<noteq> WARN_SEVERITY" for f
    by (cases "fd_severity f") simp_all
  then show "report_exit_code r = 0 \<longleftrightarrow> (\<forall>f \<in> set (rp_findings r). fd_severity f = OK_SEVERITY)"
    by (auto simp: report_exit_code_def has_errors_def has_warnings_def list_ex_iff)
qed

text \<open>The attribute the check asks for is none a state has.\<close>

lemma no_interface_count: "interface_count s = 0"
  by (simp add: interface_count_def state_count_def)

lemma reticulum_warned:
  "(\<forall>f \<in> set (check_reticulum out fs). fd_severity f = OK_SEVERITY) \<longleftrightarrow>
     (\<exists>d. find_reticulum_config (home (dr_env out)) None fs = Some d \<and>
          (\<forall>s. get_reticulum_config_state (home (dr_env out)) (dr_text_at out) (Some d) fs \<noteq> Inr (Some s)))"
proof (cases "find_reticulum_config (home (dr_env out)) None fs")
  case None
  then show ?thesis by (simp add: check_reticulum_def finding_of_def)
next
  case (Some d)
  then have "is_reticulum_configured (home (dr_env out)) (Some d) fs"
    by (auto simp: find_reticulum_config_def find_Some_iff)
  then show ?thesis
    using Some
    by (auto simp: check_reticulum_def finding_of_def no_interface_count split: sum.split option.split)
qed

lemma run_doctor_findings:
  assumes "run_doctor out ao bl now offline fs = Inr (r, fs')"
  shows "set (check_reticulum out (snd (check_identity out fs))) \<subseteq> set (rp_findings r)"
  using assms
  by (auto simp: run_doctor_def plain_checks_def Let_def case_prod_beta)

text \<open>
Claim C39. The diagnosis ends with exit code 0 only when it could not look: the configuration of Reticulum was
found but reading its state failed. Whatever interfaces a readable configuration has, the report warns that
it has none.
\<close>

theorem doctor_passes_only_blind:
  assumes "run_doctor out ao bl now offline fs = Inr (r, fs')"
  defines "fs1 \<equiv> snd (check_identity out fs)" and "h \<equiv> home (dr_env out)"
  shows "(report_exit_code r = 0 \<longrightarrow>
      (\<exists>d. find_reticulum_config h None fs1 = Some d \<and>
           (\<forall>s. get_reticulum_config_state h (dr_text_at out) (Some d) fs1 \<noteq> Inr (Some s)))) \<and>
    (\<forall>d s. find_reticulum_config h None fs1 = Some d \<and>
           get_reticulum_config_state h (dr_text_at out) (Some d) fs1 = Inr (Some s) \<longrightarrow>
       finding_of RETICULUM_CHECK WARN_SEVERITY ''No interfaces configured in Reticulum config''
         (Some ''Add interfaces to ~/.reticulum/config'') \<in> set (rp_findings r))"
proof (intro conjI impI allI)
  note within = run_doctor_findings [OF assms(1), folded fs1_def]
  show "\<exists>d. find_reticulum_config h None fs1 = Some d \<and>
      (\<forall>s. get_reticulum_config_state h (dr_text_at out) (Some d) fs1 \<noteq> Inr (Some s))"
    if "report_exit_code r = 0"
    using that within reticulum_warned [of out fs1] unfolding exit_code_cases h_def by blast
  show "finding_of RETICULUM_CHECK WARN_SEVERITY ''No interfaces configured in Reticulum config''
      (Some ''Add interfaces to ~/.reticulum/config'') \<in> set (rp_findings r)"
    if a: "find_reticulum_config h None fs1 = Some d \<and>
      get_reticulum_config_state h (dr_text_at out) (Some d) fs1 = Inr (Some s)" for d s
  proof -
    have "is_reticulum_configured h (Some d) fs1" using a by (auto simp: find_reticulum_config_def find_Some_iff)
    then show ?thesis
      using a within by (auto simp: check_reticulum_def no_interface_count h_def)
  qed
qed

text \<open>A machine whose Reticulum has an identity and an interface, and on which nothing else is set up.\<close>

definition meshed_fs :: fs where
  "meshed_fs =
     [[''etc'', ''reticulum''] \<mapsto> Dir, [''etc'', ''reticulum'', ''config''] \<mapsto> File [],
      [''etc'', ''reticulum'', ''storage'', ''identity''] \<mapsto> File [1, 2, 3]]"

definition meshed_env :: env where
  "meshed_env =
     \<lparr>environ = (\<lambda>k. if k = ''STYRENE_CONFIG_DIR'' then Some ''/c'' else if k = ''STYRENED_SOCKET'' then Some ''/s'' else None),
      home = [''home'', ''op''], cwd = [], denies = \<lambda>_. False\<rparr>"

definition meshed_outcomes :: doctor_outcomes where
  "meshed_outcomes =
     \<lparr>dr_env = meshed_env, dr_version = ''0.15.0'', dr_pypi = Inr [], dr_older = (\<lambda>_ _. Inr False),
      dr_search = \<lparr>which = \<lambda>_. None, runs = \<lambda>_. False\<rparr>, dr_version_run = (\<lambda>_. None),
      dr_keys = \<lparr>load_key = \<lambda>b. Inr None, key_file = id, key_hash = \<lambda>_. []\<rparr>, dr_token = None,
      dr_file_mode = (\<lambda>_. Inr 0), dr_yaml_at = (\<lambda>_ _. Inl ()),
      dr_values = \<lparr>repr_of = \<lambda>_. [], float_of_text = \<lambda>_. Inl ValueError, expanduser = Inr\<rparr>,
      dr_error_text = (\<lambda>_. []), dr_text_at = (\<lambda>_ _. Inr ''[[tcp]]''), dr_daemon = \<lparr>do_first = Inl [], do_disconnect = None, do_second = Inr None\<rparr>,
      dr_may_write = (\<lambda>_. True), dr_has_entries = (\<lambda>_ _. False)\<rparr>"

definition no_adapters :: adapter_outcomes where
  "no_adapters =
     \<lparr>ao_yggdrasil = None, ao_i2p = None, ao_which = (\<lambda>_. None), ao_manifest = None, ao_machine = ''x86_64'',
      ao_platform = ''linux'', ao_hash = (\<lambda>_. Inl OSError), ao_version_output = (\<lambda>_. None), ao_provision = None\<rparr>"

definition no_boundary :: boundary_outcomes where
  "no_boundary = \<lparr>bl_raw = None, bl_sorted = Inr, bl_time = \<lambda>_. None\<rparr>"

lemma meshed_files:
  "path_exists meshed_fs [''etc'', ''reticulum'']" "path_exists meshed_fs [''etc'', ''reticulum'', ''config'']"
  "path_exists meshed_fs [''etc'', ''reticulum'', ''storage'', ''identity'']"
  "\<not> path_exists meshed_fs [''c'', ''config.yaml'']" "\<not> path_exists meshed_fs [''c'', ''operator.key'']"
  "\<not> path_exists meshed_fs [''c'', ''identity'']" "\<not> path_exists meshed_fs [''etc'', ''styrene'', ''identity'']"
  "\<not> path_exists meshed_fs [''s'']"
  by (simp_all add: path_exists_def resolve_no_link is_symlink_def meshed_fs_def)

lemma meshed_places:
  "config_dir meshed_env fs = [''c'']" "control_socket meshed_env fs = [''s'']"
  by (simp_all add: config_dir_def control_socket_def env_path_def meshed_env_def Path_def)

lemma meshed_identity: "identity_file meshed_env meshed_fs = ([''c'', ''identity''], meshed_fs)"
  by (simp add: identity_file_def moved_from_def meshed_places meshed_files)

lemma meshed_resolved: "resolve_identity_path meshed_env None meshed_fs = (None, meshed_fs)"
  by (simp add: resolve_identity_path_def meshed_identity SYSTEM_IDENTITY_PATH_def meshed_files)

lemma meshed_checked: "snd (check_identity meshed_outcomes meshed_fs) = meshed_fs"
  by (simp add: check_identity_def meshed_outcomes_def get_operator_identity_def get_operator_identity_object_def
      meshed_resolved get_identity_sharing_status_def known_paths_def meshed_identity case_prod_beta)

lemma meshed_state:
  "find_reticulum_config (home meshed_env) None meshed_fs = Some [''etc'', ''reticulum'']"
  "\<exists>s. get_reticulum_config_state (home meshed_env) (dr_text_at meshed_outcomes) (Some [''etc'', ''reticulum'']) meshed_fs =
     Inr (Some s)"
proof -
  show found: "find_reticulum_config (home meshed_env) None meshed_fs = Some [''etc'', ''reticulum'']"
    by (simp add: find_reticulum_config_def get_reticulum_config_paths_def is_reticulum_configured_def meshed_files)
  have "read_identity [''etc'', ''reticulum''] meshed_fs = Some (hex_of [1, 2, 3])"
    using meshed_files(3)
    by (simp add: read_identity_def read_bytes_def resolve_no_link is_symlink_def meshed_fs_def)
  then show "\<exists>s. get_reticulum_config_state (home meshed_env) (dr_text_at meshed_outcomes)
      (Some [''etc'', ''reticulum'']) meshed_fs = Inr (Some s)"
    by (simp add: get_reticulum_config_state_def is_reticulum_configured_def meshed_files parse_interfaces_def
        meshed_outcomes_def)
qed

lemma meshed_run: "\<exists>r g. run_doctor meshed_outcomes no_adapters no_boundary [] True meshed_fs = Inr (r, g)"
proof -
  have c: "core_config_at meshed_outcomes meshed_fs = Inr get_default_core_config"
    by (simp add: core_config_at_def config_file_def load_core_config_def meshed_outcomes_def meshed_places meshed_files)
  have off: "ygg_mode (c_yggdrasil get_default_core_config) = DISABLED" "i2p_mode (c_i2p get_default_core_config) = DISABLED"
    by (simp_all add: get_default_core_config_def with_hubs_def Let_def CoreConfig_def YggdrasilConfig_def I2PConfig_def)
  have e: "dr_env meshed_outcomes = meshed_env" by (simp add: meshed_outcomes_def)
  have "check_boundary_log meshed_outcomes no_boundary meshed_fs = Inr []"
    by (simp add: check_boundary_log_def e meshed_places meshed_files)
  moreover have "check_yggdrasil meshed_outcomes no_adapters meshed_fs (Some get_default_core_config) = Inr []"
    "check_i2p meshed_outcomes no_adapters meshed_fs (Some get_default_core_config) = Inr []"
    by (simp_all add: check_yggdrasil_def check_i2p_def given_or_loaded_def off)
  moreover have "check_adapter_binaries env no_adapters get_default_core_config = Inr []" for env
    by (simp add: check_adapter_binaries_def adapter_specs_def check_one_binary_def off)
  moreover have "snd (plain_checks meshed_outcomes True meshed_fs) = meshed_fs"
    by (simp add: plain_checks_def meshed_checked case_prod_beta)
  ultimately show ?thesis
    by (simp add: run_doctor_def c case_prod_beta Let_def)
qed

theorem doctor_passes_only_blind_witness:
  "\<exists>r g. run_doctor meshed_outcomes no_adapters no_boundary [] True meshed_fs = Inr (r, g) \<and> report_exit_code r \<noteq> 0 \<and>
     finding_of RETICULUM_CHECK WARN_SEVERITY ''No interfaces configured in Reticulum config''
       (Some ''Add interfaces to ~/.reticulum/config'') \<in> set (rp_findings r)"
proof -
  obtain r g where run: "run_doctor meshed_outcomes no_adapters no_boundary [] True meshed_fs = Inr (r, g)"
    using meshed_run by blast
  have e: "dr_env meshed_outcomes = meshed_env" by (simp add: meshed_outcomes_def)
  show ?thesis
    using doctor_passes_only_blind [OF run] run meshed_state unfolding meshed_checked e by fastforce
qed

section \<open>Adapters, fixes and the wizard\<close>

text \<open>Without the module of an adapter the diagnosis of a configuration that adopts it raises.\<close>

lemma absent_adapter_raises:
  assumes "core_config_at out fs = Inr c" "ygg_mode (c_yggdrasil c) = ADOPT" "ao_yggdrasil ao = None"
    and "check_boundary_log out bl (snd (plain_checks out offline fs)) = Inr b"
  shows "run_doctor out ao bl now offline fs = Inl TypeError"
  using assms
  by (simp add: run_doctor_def case_prod_beta check_yggdrasil_def given_or_loaded_def make_adapter_def)

lemma mkdirs_elsewhere:
  "mkdirs e ds fs = (r, g) \<Longrightarrow> (\<And>d. d \<in> set ds \<Longrightarrow> \<not> prefix p d) \<Longrightarrow> g p = fs p"
proof (induction ds arbitrary: fs)
  case (Cons d ds)
  show ?case
  proof (cases "mkdir_parents (denies e) d fs")
    case (Inl x)
    then show ?thesis using Cons.prems(1) by simp
  next
    case (Inr fs1)
    then have "fs1 p = fs p" using Cons.prems(2) [of d] by (auto simp: mkdir_parents_def split: if_splits)
    then show ?thesis using Inr Cons by simp
  qed
qed simp

text \<open>
  Fixing makes the directories of the configuration, the data, the state and the log. It reports the missing
  directories made, and the runtime directory, which is among those checked, is as it was.
\<close>

lemma runtime_directory_not_made:
  assumes "apply_fixes out r fs = ([finding_of PATHS_CHECK OK_SEVERITY ''Created missing directories'' None], g)"
    and "\<exists>f \<in> set (rp_findings r). fixable f"
    and "\<not> path_exists fs (data_dir (dr_env out) fs @ [''logs''])"
    and "\<And>d. d \<in> {config_dir (dr_env out) fs, data_dir (dr_env out) fs, state_dir (dr_env out) fs,
               state_dir (dr_env out) fs @ [''logs'']} \<Longrightarrow> \<not> prefix p d"
  shows "g p = fs p"
proof -
  let ?e = "dr_env out"
  have log: "log_dir ?e (dr_has_entries out) fs = (state_dir ?e fs @ [''logs''], fs)"
    using assms(3) by (simp add: log_dir_def moved_from_def)
  have "g p = fs p" if "fix_findings out fnds fs = ([finding_of PATHS_CHECK OK_SEVERITY ''Created missing directories'' None], g)"
    for fnds
    using that
  proof (induction fnds)
    case (Cons f fnds)
    then show ?case
      using mkdirs_elsewhere [of ?e "[config_dir ?e fs, data_dir ?e fs, state_dir ?e fs, state_dir ?e fs @ [''logs'']]" fs _ g p]
        assms(4)
      by (auto simp: ensure_directories_def log finding_of_def split: if_splits prod.splits sum.splits)
  qed simp
  then show ?thesis using assms(1) by (simp add: apply_fixes_def)
qed

text \<open>Nor does fixing change how the command ends: what was found stays in the report.\<close>

lemma fixing_keeps_findings:
  "fixed_report out True (r, fs) = (r', g) \<Longrightarrow> report_exit_code r \<le> report_exit_code r'"
  by (auto simp: fixed_report_def report_exit_code_def has_errors_def has_warnings_def split: prod.splits)

text \<open>A configuration that cannot be read is replaced by the defaults of the chosen profile.\<close>

lemma wizard_replaces_unreadable:
  assumes "run_setup_wizard out fresh_key writable a fs = Inr (found, v, g)"
    and "core_config_at out g = Inl x"
  shows "v = PDict (kv (to_dict ((get_profile_defaults (chosen_profile a))
    \<lparr>c_identity := (c_identity (get_profile_defaults (chosen_profile a)))\<lparr>id_display_name := chosen_name a\<rparr>,
     c_profile := chosen_profile a\<rparr>)))"
  using assms
  by (auto simp: run_setup_wizard_def wizard_config_def save_core_config_def Let_def split: prod.splits sum.splits if_splits)

text \<open>The printed report has the lines of every finding.\<close>

lemma every_finding_printed:
  assumes "f \<in> set (rp_findings r)"
  shows "set (finding_lines f) \<subseteq> set (report_lines r)"
proof -
  have "fd_category f \<in> set all_categories" by (cases "fd_category f") (simp_all add: all_categories_def)
  moreover have "set (finding_lines f) \<subseteq> set (category_lines (rp_findings r) (fd_category f))"
    using assms by (auto simp: category_lines_def Let_def filter_empty_conv)
  ultimately show ?thesis by (auto simp: report_lines_def)
qed

text \<open>What \<^verbatim>\<open>ping\<close> of the control client answers is a flag, so the versions are never compared.\<close>

lemma versions_not_compared: "version_findings out (Pong_Flag b) = []"
  by (simp add: version_findings_def)

end
