(* ===== verification/Attachment_Store.thy ===== *)
theory Attachment_Store
  imports Paths
begin

text \<open>
  The attachments on disk (\<^verbatim>\<open>src/styrened/services/attachment_store.py\<close>): one directory per peer,
  one file per attachment, and the eviction of the oldest files over the budget. The order in which
  the system lists the entries of a directory is the list \<open>order\<close>, and \<open>mtime\<close> gives the times
  of last modification.
\<close>

section \<open>Names\<close>

definition UNSAFE_CHARS :: "char list" where
  "UNSAFE_CHARS = [CHR ''/'', CHR 0x5C, CHR '':'', CHR ''<'', CHR ''>'', CHR 0x22, CHR ''|'', CHR ''?'', CHR ''*'']"

definition unsafe :: "char \<Rightarrow> bool" where
  "unsafe c \<longleftrightarrow> (of_char c :: nat) < 32 \<or> c \<in> set UNSAFE_CHARS"

definition basename :: "string \<Rightarrow> string" where
  "basename s = rev (takeWhile (\<lambda>c. c \<noteq> CHR ''/'') (rev s))"

fun collapse :: "string \<Rightarrow> string" where
  "collapse (c # d # cs) = (if c = CHR ''_'' \<and> d = CHR ''_'' then collapse (d # cs) else c # collapse (d # cs))"
| "collapse s = s"

definition strip_underscores :: "string \<Rightarrow> string" where
  "strip_underscores s = rev (dropWhile (\<lambda>c. c = CHR ''_'') (rev (dropWhile (\<lambda>c. c = CHR ''_'') s)))"

definition MAX_FILENAME_LEN :: nat where "MAX_FILENAME_LEN = 200"

text \<open>\<^verbatim>\<open>rpartition\<close> at a dot; without one everything is the extension.\<close>

definition limit_name :: "string \<Rightarrow> string" where
  "limit_name n =
     (if MAX_FILENAME_LEN < py_len n
      then let ext = rev (takeWhile (\<lambda>c. c \<noteq> CHR ''.'') (rev n)); front = butlast (take (length n - length ext) n) in
        if ext \<noteq> [] \<and> py_len ext < 20 then py_take (MAX_FILENAME_LEN - py_len ext - 1) front @ CHR ''.'' # ext
        else py_take MAX_FILENAME_LEN n
      else n)"

definition sanitize_filename :: "string \<Rightarrow> string" where
  "sanitize_filename name =
     (let n = limit_name (strip_underscores (collapse (map (\<lambda>c. if unsafe c then CHR ''_'' else c) (basename name)))) in
      if n = [] then ''attachment'' else n)"

section \<open>The store\<close>

record attachment_store =
  base_dir :: path
  max_file_size :: int
  storage_budget :: int

definition DEFAULT_MAX_FILE_SIZE :: int where "DEFAULT_MAX_FILE_SIZE = 10 * 1024 * 1024"
definition DEFAULT_STORAGE_BUDGET :: int where "DEFAULT_STORAGE_BUDGET = 500 * 1024 * 1024"
definition PEER_DIR_PREFIX_LEN :: nat where "PEER_DIR_PREFIX_LEN = 16"

definition AttachmentStore :: "env \<Rightarrow> path option \<Rightarrow> int \<Rightarrow> int \<Rightarrow> fs \<Rightarrow> attachment_store res \<times> fs" where
  "AttachmentStore e dir max_size budget fs =
     (let b = (case dir of None \<Rightarrow> data_dir e fs @ [''attachments''] | Some p \<Rightarrow> p) in
      case mkdir_parents (denies e) b fs of
        Inl x \<Rightarrow> (Inl x, fs)
      | Inr fs1 \<Rightarrow> (Inr \<lparr>base_dir = b, max_file_size = max_size, storage_budget = budget\<rparr>, fs1))"

text \<open>The one of the module, made when it is first asked for.\<close>

definition get_attachment_store ::
    "env \<Rightarrow> attachment_store option \<Rightarrow> fs \<Rightarrow> attachment_store res \<times> attachment_store option \<times> fs" where
  "get_attachment_store e st fs =
     (case st of
        Some s \<Rightarrow> (Inr s, st, fs)
      | None \<Rightarrow>
          (case AttachmentStore e None DEFAULT_MAX_FILE_SIZE DEFAULT_STORAGE_BUDGET fs of
             (Inl x, fs1) \<Rightarrow> (Inl x, None, fs1)
           | (Inr s, fs1) \<Rightarrow> (Inr s, Some s, fs1)))"

definition join_path :: "path \<Rightarrow> string \<Rightarrow> path" where
  "join_path p s =
     (let cs = filter (\<lambda>c. c \<noteq> [] \<and> c \<noteq> ''.'') (split_on (CHR ''/'') s) in
      if s \<noteq> [] \<and> hd s = CHR ''/'' then cs else p @ cs)"

definition resolved :: "fs \<Rightarrow> path \<Rightarrow> path" where
  "resolved fs p = normal [] (resolve fs (normal [] p))"

text \<open>The text of the base with a separator begins the text of the path; with the root as base it never does.\<close>

definition require_contained :: "attachment_store \<Rightarrow> fs \<Rightarrow> path \<Rightarrow> path res" where
  "require_contained s fs p =
     (let r = resolved fs p; b = resolved fs (base_dir s) in
      if r = b \<or> b \<noteq> [] \<and> strict_prefix b r then Inr r else Inl ValueError)"

definition peer_path :: "attachment_store \<Rightarrow> nat \<Rightarrow> string \<Rightarrow> path" where
  "peer_path s n h = normal [] (join_path (base_dir s) (py_take n h))"

definition peer_dir :: "denied \<Rightarrow> attachment_store \<Rightarrow> string \<Rightarrow> fs \<Rightarrow> path res \<times> fs" where
  "peer_dir d s h fs =
     (let new = peer_path s PEER_DIR_PREFIX_LEN h; old = peer_path s 8 h;
          fs1 = (if \<not> path_exists fs new \<and> path_exists fs old
                 then case rename d old new fs of Inl _ \<Rightarrow> fs | Inr g \<Rightarrow> g
                 else fs) in
      case mkdir_parents d new fs1 of Inl x \<Rightarrow> (Inl x, fs1) | Inr fs2 \<Rightarrow> (Inr new, fs2))"

definition attachment_name :: "int \<Rightarrow> string \<Rightarrow> string" where
  "attachment_name message_id name = show_int message_id @ ''_'' @ sanitize_filename name"

definition discard :: "denied \<Rightarrow> path \<Rightarrow> fs \<Rightarrow> fs" where
  "discard d p fs = (case unlink d p fs of Inl _ \<Rightarrow> fs | Inr g \<Rightarrow> g)"

definition save :: "denied \<Rightarrow> attachment_store \<Rightarrow> string \<Rightarrow> int \<Rightarrow> string \<Rightarrow> bytes \<Rightarrow> fs \<Rightarrow> path res \<times> fs" where
  "save d s h message_id name data fs =
     (if max_file_size s < int (length data) then (Inl ValueError, fs)
      else case peer_dir d s h fs of
        (Inl x, fs1) \<Rightarrow> (Inl x, fs1)
      | (Inr dir, fs1) \<Rightarrow>
          let target = dir @ [attachment_name message_id name]; tmp = dir @ [attachment_name message_id name @ ''.tmp''] in
          (case require_contained s fs1 target of
             Inl x \<Rightarrow> (Inl x, fs1)
           | Inr _ \<Rightarrow>
               (case write_file d tmp data fs1 of
                  Inl x \<Rightarrow> (Inl x, discard d tmp fs1)
                | Inr fs2 \<Rightarrow>
                    (case rename d tmp target fs2 of
                       Inl x \<Rightarrow> (Inl x, discard d tmp fs2)
                     | Inr fs3 \<Rightarrow> (Inr target, fs3)))))"

definition rename_for_message :: "denied \<Rightarrow> path \<Rightarrow> int \<Rightarrow> fs \<Rightarrow> path res \<times> fs" where
  "rename_for_message d p message_id fs =
     (let name = last p in
      if \<not> prefix ''0_'' name then (Inr p, fs)
      else let q = butlast p @ [show_int message_id @ ''_'' @ drop 2 name] in
        (case rename d p q fs of
           Inr fs1 \<Rightarrow> (Inr q, fs1)
         | Inl x \<Rightarrow> (if fs p = None \<and> \<not> d p \<and> \<not> d q then Inr p else Inl x, fs)))"

definition in_store :: "attachment_store \<Rightarrow> link \<Rightarrow> path" where
  "in_store s l = (case l of Abs p \<Rightarrow> p | Rel cs \<Rightarrow> base_dir s @ cs)"

definition load :: "attachment_store \<Rightarrow> link \<Rightarrow> fs \<Rightarrow> bytes res" where
  "load s l fs = bind_res (require_contained s fs (in_store s l)) (read_bytes fs)"

definition delete :: "denied \<Rightarrow> attachment_store \<Rightarrow> link \<Rightarrow> fs \<Rightarrow> bool res \<times> fs" where
  "delete d s l fs =
     (case require_contained s fs (in_store s l) of
        Inl x \<Rightarrow> (Inl x, fs)
      | Inr p \<Rightarrow>
          if fs p = None then (Inr False, fs)
          else case unlink d p fs of Inl x \<Rightarrow> (Inl x, fs) | Inr g \<Rightarrow> (Inr True, g))"

section \<open>Directories\<close>

definition entries :: "path list \<Rightarrow> fs \<Rightarrow> path \<Rightarrow> path list" where
  "entries order fs p = filter (\<lambda>q. q \<noteq> [] \<and> butlast q = p \<and> fs q \<noteq> None) order"

definition below :: "path list \<Rightarrow> fs \<Rightarrow> path \<Rightarrow> path list" where
  "below order fs p = filter (\<lambda>q. strict_prefix p q \<and> fs q \<noteq> None) order"

definition rmdir :: "denied \<Rightarrow> path list \<Rightarrow> path \<Rightarrow> fs \<Rightarrow> fs res" where
  "rmdir d order p fs =
     (if fs p = Some Dir \<and> below order fs p = [] \<and> \<not> d p then Inr (fs(p := None)) else Inl OSError)"

definition try_rmdir :: "denied \<Rightarrow> path list \<Rightarrow> path \<Rightarrow> fs \<Rightarrow> fs" where
  "try_rmdir d order p fs = (case rmdir d order p fs of Inl _ \<Rightarrow> fs | Inr g \<Rightarrow> g)"

fun delete_files :: "denied \<Rightarrow> path list \<Rightarrow> nat \<Rightarrow> fs \<Rightarrow> nat res \<times> fs" where
  "delete_files d [] n fs = (Inr n, fs)"
| "delete_files d (p # ps) n fs =
     (if is_file fs p
      then case unlink d p fs of Inl x \<Rightarrow> (Inl x, fs) | Inr g \<Rightarrow> delete_files d ps (n + 1) g
      else delete_files d ps n fs)"

definition delete_for_peer :: "denied \<Rightarrow> path list \<Rightarrow> attachment_store \<Rightarrow> string \<Rightarrow> fs \<Rightarrow> nat res \<times> fs" where
  "delete_for_peer d order s h fs =
     (let new = peer_path s PEER_DIR_PREFIX_LEN h; dir = (if path_exists fs new then new else peer_path s 8 h) in
      if \<not> path_exists fs dir then (Inr 0, fs)
      else case require_contained s fs dir of
        Inl x \<Rightarrow> (Inl x, fs)
      | Inr _ \<Rightarrow>
          (case delete_files d (entries order fs dir) 0 fs of
             (Inl x, fs1) \<Rightarrow> (Inl x, fs1)
           | (Inr n, fs1) \<Rightarrow> (Inr n, try_rmdir d order dir fs1)))"

section \<open>The budget\<close>

definition file_size :: "fs \<Rightarrow> path \<Rightarrow> int" where
  "file_size fs p = (case read_bytes fs p of Inl _ \<Rightarrow> 0 | Inr b \<Rightarrow> int (length b))"

definition get_usage :: "path list \<Rightarrow> attachment_store \<Rightarrow> fs \<Rightarrow> int \<times> int" where
  "get_usage order s fs =
     (sum_list (map (file_size fs) (filter (is_file fs) (below order fs (base_dir s)))), storage_budget s)"

definition candidates :: "(path \<Rightarrow> int) \<Rightarrow> path list \<Rightarrow> attachment_store \<Rightarrow> fs \<Rightarrow> path list" where
  "candidates mtime order s fs =
     sort_key mtime (filter (\<lambda>p. is_file fs p \<and> \<not> suffix ''.tmp'' (last p)) (below order fs (base_dir s)))"

fun evict :: "denied \<Rightarrow> int \<Rightarrow> int \<Rightarrow> (path \<times> int) list \<Rightarrow> int \<Rightarrow> fs \<Rightarrow> int \<times> fs" where
  "evict d used budget [] freed fs = (freed, fs)"
| "evict d used budget ((p, n) # ps) freed fs =
     (if used - freed \<le> budget then (freed, fs)
      else case unlink d p fs of
        Inl _ \<Rightarrow> evict d used budget ps freed fs
      | Inr g \<Rightarrow> evict d used budget ps (freed + n) g)"

definition enforce_budget :: "denied \<Rightarrow> (path \<Rightarrow> int) \<Rightarrow> path list \<Rightarrow> attachment_store \<Rightarrow> fs \<Rightarrow> int \<times> fs" where
  "enforce_budget d mtime order s fs =
     (let (used, budget) = get_usage order s fs in
      if used \<le> budget then (0, fs)
      else
        let (freed, fs1) = evict d used budget (map (\<lambda>p. (p, file_size fs p)) (candidates mtime order s fs)) 0 fs in
        (freed, fold (try_rmdir d order) (filter (\<lambda>p. fs1 p = Some Dir) (entries order fs1 (base_dir s))) fs1))"

section \<open>Names stay inside their directory\<close>

lemma set_collapse: "set (collapse s) \<subseteq> set s"
  by (induction s rule: collapse.induct) auto

lemma set_strip_underscores: "set (strip_underscores s) \<subseteq> set s"
  by (auto simp: strip_underscores_def dest!: set_dropWhileD)

lemma set_py_take: "set (py_take n s) \<subseteq> set s"
  by (induction n s rule: py_take.induct) (auto split: nat.splits)

lemma set_limit_name: "set (limit_name n) \<subseteq> set n \<union> {CHR ''.''}"
  using set_py_take
  by (auto simp: limit_name_def Let_def dest!: set_takeWhileD in_set_butlastD in_set_takeD split: if_splits)

lemma unsafe_simps [simp]: "\<not> unsafe (CHR ''_'')" "\<not> unsafe (CHR ''.'')"
  by (simp_all add: unsafe_def UNSAFE_CHARS_def)

lemma sanitize_filename_safe: "sanitize_filename s \<noteq> [] \<and> (\<forall>c \<in> set (sanitize_filename s). \<not> unsafe c)"
proof -
  let ?m = "map (\<lambda>c. if unsafe c then CHR ''_'' else c) (basename s)"
  have "\<forall>c \<in> set ?m. \<not> unsafe c" by auto
  have "\<forall>c \<in> set (limit_name (strip_underscores (collapse ?m))). \<not> unsafe c"
  proof
    fix c assume "c \<in> set (limit_name (strip_underscores (collapse ?m)))"
    then have "c \<in> set (strip_underscores (collapse ?m)) \<or> c = CHR ''.''" using set_limit_name by blast
    then have "c \<in> set ?m \<or> c = CHR ''.''" using set_strip_underscores set_collapse by blast
    then show "\<not> unsafe c" using \<open>\<forall>c \<in> set ?m. \<not> unsafe c\<close> unsafe_simps(2) by blast
  qed
  moreover have "\<forall>c \<in> set ''attachment''. \<not> unsafe c" by (simp add: unsafe_def UNSAFE_CHARS_def)
  ultimately show ?thesis by (simp add: sanitize_filename_def Let_def)
qed

section \<open>The store on disk\<close>

definition plain_component :: "string \<Rightarrow> bool" where
  "plain_component c \<longleftrightarrow> c \<noteq> [] \<and> c \<noteq> ''.'' \<and> c \<noteq> ''..'' \<and> CHR ''/'' \<notin> set c"

lemma normal_plain: "list_all plain_component p \<Longrightarrow> normal acc p = rev acc @ p"
  by (induction p arbitrary: acc) (auto simp: plain_component_def)

text \<open>The base is there, there are no links, and under it there are directories with files.\<close>

definition store_ok :: "attachment_store \<Rightarrow> fs \<Rightarrow> bool" where
  "store_ok s fs \<longleftrightarrow>
     base_dir s \<noteq> [] \<and> list_all plain_component (base_dir s) \<and> (\<forall>r. prefix r (base_dir s) \<longrightarrow> fs r = Some Dir) \<and>
     (\<forall>q. \<not> is_symlink fs q) \<and> (\<forall>a. fs (base_dir s @ [a]) \<in> {None, Some Dir}) \<and>
     (\<forall>a b. fs (base_dir s @ [a, b]) \<noteq> Some Dir)"

lemma resolved_plain: "store_ok s fs \<Longrightarrow> list_all plain_component p \<Longrightarrow> resolved fs p = p"
  by (simp add: resolved_def normal_plain resolve_no_link store_ok_def)

lemma contained:
  "store_ok s fs \<Longrightarrow> list_all plain_component cs \<Longrightarrow> require_contained s fs (base_dir s @ cs) = Inr (base_dir s @ cs)"
  by (auto simp: require_contained_def Let_def resolved_plain store_ok_def strict_prefix_def)

lemma peer_path_plain:
  "store_ok s fs \<Longrightarrow> plain_component (py_take n h) \<Longrightarrow> peer_path s n h = base_dir s @ [py_take n h]"
  by (cases "py_take n h")
    (auto simp: peer_path_def join_path_def plain_component_def split_on_word normal_plain store_ok_def Let_def)

lemma attachment_name_plain:
  "plain_component (attachment_name i name)" "plain_component (attachment_name i name @ ''.tmp'')"
proof -
  have digits: "CHR ''/'' \<notin> set (show_nat n)" for n
  proof (induction n rule: show_nat.induct)
    case (1 n)
    have "digit_char (n mod 10) \<noteq> CHR ''/''"
    proof
      assume "digit_char (n mod 10) = CHR ''/''"
      then have "(of_char (char_of (48 + n mod 10) :: char) :: nat) = 47" by (simp add: digit_char_def)
      then show False by simp
    qed
    then show ?case using 1 by (subst show_nat.simps) auto
  qed
  have safe: "CHR ''/'' \<notin> set (sanitize_filename name)"
    using sanitize_filename_safe [of name] by (auto simp: unsafe_def UNSAFE_CHARS_def)
  have long: "attachment_name i name \<noteq> ''.''" "attachment_name i name \<noteq> ''..''"
    by (auto simp: attachment_name_def show_int_def append_eq_Cons_conv)
  show "plain_component (attachment_name i name)" "plain_component (attachment_name i name @ ''.tmp'')"
    using digits safe long by (auto simp: plain_component_def attachment_name_def show_int_def append_eq_Cons_conv)
qed

lemma moved_store_ok:
  assumes "store_ok s fs" and "fs (base_dir s @ [c]) = None" and "fs (base_dir s @ [old]) = Some Dir"
  shows "store_ok s (move_tree (base_dir s @ [old]) (base_dir s @ [c]) fs)"
proof -
  let ?b = "base_dir s"
  have ne: "c \<noteq> old" using assms(2,3) by auto
  have up: "\<not> prefix (?b @ [x]) r" if "prefix r ?b" for x r using that prefix_length_le [of "?b @ [x]" r] prefix_length_le [of r ?b] by auto
  have "move_tree (?b @ [old]) (?b @ [c]) fs r = fs r" if "prefix r ?b" for r
    using up [OF that] by (simp add: move_tree_def)
  moreover have "\<not> is_symlink (move_tree (?b @ [old]) (?b @ [c]) fs) q" for q
    using assms(1) by (simp add: store_ok_def move_tree_def is_symlink_def)
  ultimately show ?thesis
    using assms ne by (auto simp: store_ok_def move_tree_def)
qed

lemma peer_dir_ok:
  assumes "store_ok s fs" and "plain_component (py_take 16 h)" and "plain_component (py_take 8 h)"
    and "\<not> d (base_dir s @ [py_take 16 h])"
  shows "\<exists>fs1. peer_dir d s h fs = (Inr (base_dir s @ [py_take 16 h]), fs1) \<and> store_ok s fs1 \<and>
    fs1 (base_dir s @ [py_take 16 h]) = Some Dir \<and>
    (\<forall>r. \<not> prefix (base_dir s @ [py_take 16 h]) r \<and> \<not> prefix (base_dir s @ [py_take 8 h]) r \<longrightarrow> fs1 r = fs r)"
proof -
  let ?b = "base_dir s" let ?new = "?b @ [py_take 16 h]" and ?old = "?b @ [py_take 8 h]"
  have nodes: "fs ?new \<in> {None, Some Dir}" "fs ?old \<in> {None, Some Dir}" using assms(1) by (auto simp: store_ok_def)
  have ex: "path_exists fs q \<longleftrightarrow> fs q = Some Dir" if "fs q \<in> {None, Some Dir}" for q
    using that assms(1) by (auto simp: path_exists_def resolve_no_link store_ok_def)
  define fs1 where "fs1 = (if fs ?new = None \<and> fs ?old = Some Dir \<and> \<not> d ?old then move_tree ?old ?new fs else fs)"
  have moved: "(if \<not> path_exists fs ?new \<and> path_exists fs ?old
      then case rename d ?old ?new fs of Inl _ \<Rightarrow> fs | Inr g \<Rightarrow> g else fs) = fs1"
    using nodes ex assms(4) by (auto simp: fs1_def rename_def)
  have ok: "store_ok s fs1" using assms(1) moved_store_ok by (simp add: fs1_def)
  have keep: "fs1 r = fs r" if "\<not> prefix ?new r" "\<not> prefix ?old r" for r using that by (simp add: fs1_def move_tree_def)
  let ?fs2 = "\<lambda>r. if fs1 r = None \<and> prefix r ?new then Some Dir else fs1 r"
  have dirs: "fs1 r = Some Dir \<or> (fs1 r = None \<and> r = ?new)" if "prefix r ?new" for r
    using that ok by (auto simp: prefix_snoc store_ok_def)
  have "\<not> (case fs1 r of Some Dir \<Rightarrow> False | None \<Rightarrow> d r | _ \<Rightarrow> True)" if "prefix r ?new" for r
    using dirs [OF that] assms(4) by (elim disjE conjE) simp_all
  then have "\<not> (\<exists>r \<in> set (prefixes ?new). case fs1 r of Some Dir \<Rightarrow> False | None \<Rightarrow> d r | _ \<Rightarrow> True)"
    by (simp only: Bex_def in_set_prefixes) blast
  then have "mkdir_parents d ?new fs1 = Inr ?fs2"
    unfolding mkdir_parents_def by (rule if_not_P)
  then have "peer_dir d s h fs = (Inr ?new, ?fs2)"
    using moved assms by (simp add: peer_dir_def peer_path_plain PEER_DIR_PREFIX_LEN_def Let_def)
  moreover have "store_ok s ?fs2" using ok by (auto simp: store_ok_def is_symlink_def)
  moreover have "?fs2 ?new = Some Dir" using dirs [of ?new] by auto
  moreover have "?fs2 r = fs r" if "\<not> prefix ?new r" "\<not> prefix ?old r" for r
  proof (cases "prefix r ?new")
    case True
    then have "prefix r ?b" using that by (auto simp: prefix_snoc)
    then have "fs1 r = Some Dir" using ok by (simp add: store_ok_def)
    then show ?thesis using keep [OF that] by simp
  qed (simp add: keep that)
  ultimately show ?thesis by blast
qed

text \<open>A file more or less in the directory of a peer leaves the store in order.\<close>

lemma file_store_ok:
  assumes "store_ok s fs" and "n = None \<or> (\<exists>b. n = Some (File b))"
  shows "store_ok s (fs(base_dir s @ [x, y] := n))"
proof -
  let ?p = "base_dir s @ [x, y]"
  have "\<not> prefix ?p q" if "prefix q (base_dir s)" for q
    using that prefix_length_le [of ?p q] prefix_length_le [of q "base_dir s"] by auto
  then have "q \<noteq> ?p" if "prefix q (base_dir s)" for q using that by auto
  then show ?thesis using assms by (auto simp: store_ok_def is_symlink_def)
qed

text \<open>
Claim C30. An attachment that is saved can be loaded. In a store without links, with a file no larger than
allowed, a peer whose hash names a directory, and a system that does not refuse that directory: unless
the system refuses the name of the file or of the temporary file beside it, saving succeeds, whatever
the file was called by its sender; the file is in the peer's directory under the base, and loading it
gives the data. If it refuses one of the two names, saving raises \<^verbatim>\<open>OSError\<close>. In both cases nothing
outside the peer's directories changes.
\<close>

theorem saved_attachment_loads:
  assumes "store_ok s fs" and "plain_component (py_take 16 h)" and "plain_component (py_take 8 h)"
    and "int (length data) \<le> max_file_size s" and "\<not> d (base_dir s @ [py_take 16 h])"
  shows "\<exists>r fs'. save d s h i name data fs = (r, fs') \<and> store_ok s fs' \<and>
    (if d (base_dir s @ [py_take 16 h, attachment_name i name]) \<or> d (base_dir s @ [py_take 16 h, attachment_name i name @ ''.tmp''])
     then r = Inl OSError
     else r = Inr (base_dir s @ [py_take 16 h, attachment_name i name]) \<and>
       load s (Abs (base_dir s @ [py_take 16 h, attachment_name i name])) fs' = Inr data) \<and>
    (\<forall>q. \<not> prefix (base_dir s @ [py_take 16 h]) q \<and> \<not> prefix (base_dir s @ [py_take 8 h]) q \<longrightarrow> fs' q = fs q)"
proof -
  let ?b = "base_dir s" and ?n = "attachment_name i name"
  let ?new = "?b @ [py_take 16 h]" and ?t = "?b @ [py_take 16 h, ?n]" and ?tmp = "?b @ [py_take 16 h, ?n @ ''.tmp'']"
  obtain fs1 where dir: "peer_dir d s h fs = (Inr ?new, fs1)" and ok: "store_ok s fs1" and new: "fs1 ?new = Some Dir"
    and same: "\<forall>r. \<not> prefix ?new r \<and> \<not> prefix (?b @ [py_take 8 h]) r \<longrightarrow> fs1 r = fs r"
    using peer_dir_ok [where d = d, OF assms(1-3,5)] by blast
  have plain: "list_all plain_component [py_take 16 h, ?n]" using assms(2) attachment_name_plain(1) by simp
  have no_link: "\<not> is_symlink fs1 q" for q using ok by (simp add: store_ok_def)
  have not_dir: "fs1 ?t \<noteq> Some Dir" "fs1 ?tmp \<noteq> Some Dir" using ok by (simp_all add: store_ok_def)
  let ?fs2 = "fs1(?tmp \<mapsto> File data)"
  have w: "write_file d ?tmp data fs1 = (if d ?tmp then Inl OSError else Inr ?fs2)"
    using not_dir(2) no_link [of ?tmp]
    by (auto simp: write_file_def Let_def resolve_no_link no_link is_symlink_def split: option.split node.split)
  have frame: "g q = fs q" if "\<forall>q. q \<noteq> ?t \<and> q \<noteq> ?tmp \<longrightarrow> g q = fs1 q" "\<not> prefix ?new q" "\<not> prefix (?b @ [py_take 8 h]) q" for g q
  proof -
    have "q \<noteq> ?t" "q \<noteq> ?tmp" using that(2) by (auto simp: prefix_def)
    then show ?thesis using that same by simp
  qed
  consider (refused) "d ?tmp" | (stuck) "\<not> d ?tmp" "d ?t" | (fine) "\<not> d ?tmp" "\<not> d ?t" by blast
  then show ?thesis
  proof cases
    case refused
    have "discard d ?tmp fs1 = fs1" using refused by (auto simp: discard_def unlink_def split: option.splits node.splits)
    then have "save d s h i name data fs = (Inl OSError, fs1)"
      using assms(4) dir contained [OF ok plain] w refused by (simp add: save_def Let_def)
    then show ?thesis using ok same refused by simp
  next
    case stuck
    let ?fs3 = "fs1(?tmp := None)"
    have "rename d ?tmp ?t ?fs2 = Inl OSError" using stuck by (simp add: rename_def)
    moreover have "discard d ?tmp ?fs2 = ?fs3" using stuck by (simp add: discard_def unlink_def)
    ultimately have "save d s h i name data fs = (Inl OSError, ?fs3)"
      using assms(4) dir contained [OF ok plain] w stuck by (simp add: save_def Let_def)
    moreover have "store_ok s ?fs3" using file_store_ok [OF ok] by simp
    moreover have "?fs3 q = fs q" if "\<not> prefix ?new q" "\<not> prefix (?b @ [py_take 8 h]) q" for q
      by (rule frame [OF _ that]) simp
    ultimately show ?thesis using stuck by simp
  next
    case fine
    let ?fs3 = "fs1(?tmp := None, ?t \<mapsto> File data)"
    have "rename d ?tmp ?t ?fs2 = Inr ?fs3" using not_dir(1) fine by (auto simp: rename_def)
    then have "save d s h i name data fs = (Inr ?t, ?fs3)"
      using assms(4) dir contained [OF ok plain] w fine by (simp add: save_def Let_def)
    moreover have ok3: "store_ok s ?fs3" using file_store_ok [OF file_store_ok [OF ok]] by simp
    moreover have "load s (Abs ?t) ?fs3 = Inr data"
      using contained [OF ok3 plain] plain_file(4) [of ?fs3 ?t data] by (simp add: load_def in_store_def)
    moreover have "?fs3 q = fs q" if "\<not> prefix ?new q" "\<not> prefix (?b @ [py_take 8 h]) q" for q
      by (rule frame [OF _ that]) simp
    ultimately show ?thesis using fine by simp
  qed
qed

text \<open>
  File systems refuse a name of more than 255 bytes. The limit on the names counts characters, so a
  name of 130 characters of two bytes passes it, and the file cannot be saved.
\<close>

definition name_limit :: denied where
  "name_limit p \<longleftrightarrow> p \<noteq> [] \<and> 255 < length (last p)"

definition wide_name :: string where
  "wide_name = concat (replicate 130 (bytes_text [0xC3, 0xA9]))"

lemma wide_name_too_long: "py_len wide_name = 130" "255 < length (attachment_name 7 wide_name)"
  by code_simp+

lemma wide_name_refused:
  assumes "store_ok s fs" and "plain_component (py_take 16 h)" and "plain_component (py_take 8 h)"
    and "int (length data) \<le> max_file_size s" and "length (py_take 16 h) \<le> 255"
  shows "fst (save name_limit s h 7 wide_name data fs) = Inl OSError"
proof -
  have "\<not> name_limit (base_dir s @ [py_take 16 h])" using assms(5) by (simp add: name_limit_def)
  from peer_dir_ok [where d = name_limit, OF assms(1-3) this]
  obtain fs1 where dir: "peer_dir name_limit s h fs = (Inr (base_dir s @ [py_take 16 h]), fs1)" and ok: "store_ok s fs1" by blast
  have plain: "list_all plain_component [py_take 16 h, attachment_name 7 wide_name]"
    using assms(2) attachment_name_plain(1) by simp
  let ?tmp = "base_dir s @ [py_take 16 h, attachment_name 7 wide_name @ ''.tmp'']"
  have "name_limit ?tmp" using wide_name_too_long(2) by (simp add: name_limit_def)
  moreover have "resolve fs1 ?tmp = ?tmp" using ok by (intro resolve_no_link) (simp add: store_ok_def)
  ultimately have "write_file name_limit ?tmp data fs1 = Inl OSError" by (simp add: write_file_def Let_def)
  then show ?thesis using assms(4) dir contained [OF ok plain] by (simp add: save_def Let_def)
qed

definition demo_store :: attachment_store where
  "demo_store = \<lparr>base_dir = [''b''], max_file_size = 10, storage_budget = 1\<rparr>"

definition empty_store :: fs where
  "empty_store = [[] \<mapsto> Dir, [''b''] \<mapsto> Dir]"

theorem saved_attachment_loads_witness:
  "\<exists>t fs'. save name_limit demo_store ''0123456789abcdef'' 7 ''../x'' [1, 2] empty_store = (Inr t, fs') \<and>
     load demo_store (Abs t) fs' = Inr [1, 2]"
proof -
  let ?h = "''0123456789abcdef''"
  have ok: "store_ok demo_store empty_store"
    by (auto simp: store_ok_def demo_store_def empty_store_def plain_component_def is_symlink_def prefix_Cons)
  have h: "py_take 16 ?h = ?h" "py_take 8 ?h = ''01234567''" by code_simp+
  have c: "plain_component (py_take 16 ?h)" "plain_component (py_take 8 ?h)" unfolding h by (simp_all add: plain_component_def)
  have n: "attachment_name 7 ''../x'' = ''7_x''" by code_simp
  have fits: "\<not> name_limit (base_dir demo_store @ [py_take 16 ?h])" "\<not> name_limit (base_dir demo_store @ [py_take 16 ?h, ''7_x''])"
    "\<not> name_limit (base_dir demo_store @ [py_take 16 ?h, ''7_x.tmp''])"
    unfolding name_limit_def h by simp_all
  have m: "int (length [1, 2 :: 8 word]) \<le> max_file_size demo_store" by (simp add: demo_store_def)
  have short: "\<not> (name_limit (base_dir demo_store @ [py_take 16 ?h, attachment_name 7 ''../x'']) \<or>
      name_limit (base_dir demo_store @ [py_take 16 ?h, attachment_name 7 ''../x'' @ ''.tmp'']))"
    using fits(2,3) unfolding n by simp
  from saved_attachment_loads [where d = name_limit, OF ok c m fits(1), of 7 "''../x''", unfolded if_not_P [OF short]]
  show ?thesis by blast
qed

section \<open>Usage and eviction\<close>

definition fsize :: "fs \<Rightarrow> path \<Rightarrow> int" where
  "fsize fs p = (case fs p of Some (File b) \<Rightarrow> int (length b) | _ \<Rightarrow> 0)"

definition under_base :: "path list \<Rightarrow> attachment_store \<Rightarrow> path list" where
  "under_base order s = filter (\<lambda>p. strict_prefix (base_dir s) p) order"

lemma no_links:
  assumes "\<forall>q. \<not> is_symlink fs q"
  shows "is_file fs p \<longleftrightarrow> (\<exists>b. fs p = Some (File b))" "file_size fs p = fsize fs p"
  using assms by (auto simp: is_file_def file_size_def fsize_def read_bytes_def resolve_no_link split: option.splits node.splits)

lemma usage_sum:
  assumes "\<forall>q. \<not> is_symlink fs q"
  shows "fst (get_usage order s fs) = sum_list (map (fsize fs) (under_base order s))"
proof -
  have "sum_list (map (file_size fs) (filter (is_file fs) (below ps fs b))) = sum_list (map (fsize fs) (filter (strict_prefix b) ps))" for ps b
  proof (induction ps)
    case (Cons p ps)
    have "fsize fs p = 0" if "\<not> is_file fs p \<or> fs p = None"
      using that no_links(1) [OF assms, of p] by (auto simp: fsize_def split: option.splits node.splits)
    then show ?case using Cons no_links(2) [OF assms] by (auto simp: below_def)
  qed (simp add: below_def)
  then show ?thesis by (simp add: get_usage_def under_base_def)
qed

lemma evict_first:
  assumes "distinct (map fst ps)" and "\<forall>p \<in> fst ` set ps. \<exists>b. fs p = Some (File b)"
  shows "\<exists>k \<le> length ps. evict (\<lambda>_. False) used budget ps freed fs =
      (freed + sum_list (map snd (take k ps)), \<lambda>r. if r \<in> fst ` set (take k ps) then None else fs r) \<and>
    (k = length ps \<or> used - (freed + sum_list (map snd (take k ps))) \<le> budget) \<and>
    (\<forall>j < k. budget < used - (freed + sum_list (map snd (take j ps))))"
  using assms
proof (induction ps arbitrary: freed fs)
  case (Cons pn ps)
  obtain p n where pn: "pn = (p, n)" by fastforce
  show ?case
  proof (cases "used - freed \<le> budget")
    case True
    then show ?thesis using pn by (intro exI [of _ 0]) auto
  next
    case False
    obtain b where b: "fs p = Some (File b)" using Cons.prems(2) pn by fastforce
    let ?g = "fs(p := None)"
    have d: "distinct (map fst ps)" using Cons.prems(1) by simp
    have g: "\<forall>q \<in> fst ` set ps. \<exists>b. ?g q = Some (File b)"
    proof
      fix q assume q: "q \<in> fst ` set ps"
      then have "q \<noteq> p" using Cons.prems(1) pn by auto
      then show "\<exists>b. ?g q = Some (File b)" using Cons.prems(2) q by auto
    qed
    from Cons.IH [of ?g "freed + n", OF d g] obtain k where k: "k \<le> length ps" "evict (\<lambda>_. False) used budget ps (freed + n) ?g =
        (freed + n + sum_list (map snd (take k ps)), \<lambda>r. if r \<in> fst ` set (take k ps) then None else ?g r)"
      "k = length ps \<or> used - (freed + n + sum_list (map snd (take k ps))) \<le> budget"
      "\<forall>j < k. budget < used - (freed + n + sum_list (map snd (take j ps)))"
      by (elim exE conjE) (rule that)
    have "evict (\<lambda>_. False) used budget (pn # ps) freed fs = evict (\<lambda>_. False) used budget ps (freed + n) ?g"
      using False b pn by (simp add: unlink_def)
    moreover have "(\<lambda>r. if r \<in> fst ` set (take k ps) then None else ?g r) =
        (\<lambda>r. if r \<in> fst ` set (take (Suc k) (pn # ps)) then None else fs r)"
      using pn by (auto simp: fun_eq_iff)
    moreover have "budget < used - (freed + sum_list (map snd (take j (pn # ps))))" if "j < Suc k" for j
      using that k(4) False pn by (cases j) (auto simp: algebra_simps)
    ultimately show ?thesis using k(1-3) pn by (intro exI [of _ "Suc k"]) (auto simp: algebra_simps)
  qed
qed simp

lemma rmdirs_keep_files:
  "fold (try_rmdir d order) ds fs p = Some (File b) \<longleftrightarrow> fs p = Some (File b)"
  "(\<forall>q. \<not> is_symlink fs q) \<Longrightarrow> \<not> is_symlink (fold (try_rmdir d order) ds fs) q"
  by (induction ds arbitrary: fs)
    (auto simp: try_rmdir_def rmdir_def is_symlink_def split: if_splits)

lemma sum_removed:
  fixes f :: "'a \<Rightarrow> int"
  assumes "distinct xs" and "E \<subseteq> set xs"
  shows "sum_list (map (\<lambda>p. if p \<in> E then 0 else f p) xs) = sum_list (map f xs) - (\<Sum>p\<in>E. f p)"
proof -
  have "(\<Sum>p\<in>set xs. f p) = (\<Sum>p\<in>set xs. if p \<in> E then 0 else f p) + (\<Sum>p\<in>E. f p)"
    using assms(2) by (simp add: sum.If_cases Int_absorb1 sum.subset_diff [of E "set xs"] Diff_eq Collect_neg_eq)
  then show ?thesis using assms(1) by (simp add: sum_list_distinct_conv_sum_set)
qed

lemma candidates_files:
  assumes "\<forall>q. \<not> is_symlink fs q"
  shows "p \<in> set (candidates mtime order s fs) \<longleftrightarrow>
      p \<in> set (under_base order s) \<and> (\<exists>b. fs p = Some (File b)) \<and> \<not> suffix ''.tmp'' (last p)"
  by (auto simp: candidates_def below_def under_base_def no_links [OF assms])

lemma usage_after:
  assumes "\<forall>q. \<not> is_symlink fs q" and "\<forall>q. \<not> is_symlink g q" and "distinct order" and "E \<subseteq> set (under_base order s)"
    and "\<And>p b. g p = Some (File b) \<longleftrightarrow> fs p = Some (File b) \<and> p \<notin> E"
  shows "fst (get_usage order s g) = fst (get_usage order s fs) - (\<Sum>p\<in>E. fsize fs p)"
proof -
  have none: "fsize h p = 0" if "\<nexists>b. h p = Some (File b)" for h p
    using that by (auto simp: fsize_def split: option.splits node.splits)
  have "fsize g p = (if p \<in> E then 0 else fsize fs p)" for p
  proof (cases "\<exists>b. g p = Some (File b)")
    case True
    then obtain b where "g p = Some (File b)" by blast
    moreover from this have "fs p = Some (File b)" "p \<notin> E" using assms(5) by simp_all
    ultimately show ?thesis by (simp add: fsize_def)
  next
    case False
    then have "p \<in> E \<or> (\<nexists>b. fs p = Some (File b))" unfolding assms(5) by blast
    then show ?thesis using none [of g p, OF False] none [of fs p] by auto
  qed
  then have "fsize g = (\<lambda>p. if p \<in> E then 0 else fsize fs p)" by (rule ext)
  moreover have "distinct (under_base order s)" using assms(3) by (simp add: under_base_def)
  ultimately show ?thesis
    using sum_removed [of "under_base order s" E "fsize fs"] assms(4) usage_sum [OF assms(1)] usage_sum [OF assms(2)] by simp
qed

lemma enforce_shape:
  fixes mtime :: "path \<Rightarrow> int" and s :: attachment_store and fs :: fs and order :: "path list"
  assumes "\<forall>q. \<not> is_symlink fs q" and "distinct order"
  defines "F \<equiv> candidates mtime order s fs"
  shows "\<exists>k \<le> length F. \<exists>fs'. enforce_budget (\<lambda>_. False) mtime order s fs = (sum_list (map (fsize fs) (take k F)), fs') \<and>
    fst (get_usage order s fs') = fst (get_usage order s fs) - sum_list (map (fsize fs) (take k F)) \<and>
    (\<forall>p b. fs' p = Some (File b) \<longleftrightarrow> fs p = Some (File b) \<and> p \<notin> set (take k F)) \<and>
    (k = length F \<or> fst (get_usage order s fs') \<le> storage_budget s) \<and>
    (\<forall>j < k. storage_budget s < fst (get_usage order s fs) - sum_list (map (fsize fs) (take j F)))"
proof (cases "fst (get_usage order s fs) \<le> storage_budget s")
  case True
  then have "enforce_budget (\<lambda>_. False) mtime order s fs = (0, fs)"
    by (simp add: enforce_budget_def get_usage_def)
  then show ?thesis using True by (intro exI [of _ 0]) auto
next
  case False
  let ?used = "fst (get_usage order s fs)" and ?ps = "map (\<lambda>p. (p, file_size fs p)) F"
  have sizes: "map snd (take j ?ps) = map (fsize fs) (take j F)" for j
    using no_links(2) [OF assms(1)] by (simp add: take_map comp_def)
  have d: "distinct F" using assms(2) by (simp add: F_def candidates_def below_def)
  then have d': "distinct (map fst ?ps)" by (simp add: comp_def)
  have files: "\<forall>p \<in> fst ` set ?ps. \<exists>b. fs p = Some (File b)"
    using candidates_files [OF assms(1)] by (auto simp: F_def)
  obtain k where k: "k \<le> length F" and ev: "evict (\<lambda>_. False) ?used (storage_budget s) ?ps 0 fs =
      (sum_list (map (fsize fs) (take k F)), \<lambda>r. if r \<in> set (take k F) then None else fs r)"
    and enough: "k = length F \<or> ?used - sum_list (map (fsize fs) (take k F)) \<le> storage_budget s"
    and least: "\<forall>j < k. storage_budget s < ?used - sum_list (map (fsize fs) (take j F))"
    using evict_first [of ?ps fs ?used "storage_budget s" 0, OF d' files] unfolding sizes
    by (auto simp: take_map image_comp comp_def)
  let ?fs1 = "\<lambda>r. if r \<in> set (take k F) then None else fs r"
  let ?fs' = "fold (try_rmdir (\<lambda>_. False) order) (filter (\<lambda>p. ?fs1 p = Some Dir) (entries order ?fs1 (base_dir s))) ?fs1"
  have e: "enforce_budget (\<lambda>_. False) mtime order s fs = (sum_list (map (fsize fs) (take k F)), ?fs')"
    using False ev by (simp add: enforce_budget_def get_usage_def F_def Let_def)
  have files': "?fs' p = Some (File b) \<longleftrightarrow> fs p = Some (File b) \<and> p \<notin> set (take k F)" for p b
  proof -
    have "?fs' p = Some (File b) \<longleftrightarrow> ?fs1 p = Some (File b)" by (rule rmdirs_keep_files(1))
    also have "\<dots> \<longleftrightarrow> fs p = Some (File b) \<and> p \<notin> set (take k F)" by (cases "p \<in> set (take k F)") simp_all
    finally show ?thesis .
  qed
  have nl: "\<forall>q. \<not> is_symlink ?fs' q"
    by (intro allI rmdirs_keep_files(2)) (use assms(1) in \<open>auto simp: is_symlink_def\<close>)
  have sub: "set (take k F) \<subseteq> set (under_base order s)"
    using candidates_files [OF assms(1)] set_take_subset [of k F] by (auto simp: F_def)
  have u: "fst (get_usage order s ?fs') = ?used - sum_list (map (fsize fs) (take k F))"
    using usage_after [OF assms(1) nl assms(2) sub files'] d by (simp add: sum_list_distinct_conv_sum_set)
  show ?thesis using k e u files' enough least by (intro exI [of _ k] exI [of _ ?fs'] conjI) (simp_all add: u)
qed

text \<open>
Claim C31. Over the budget the oldest attachments go, and no more than needed: enforcing the budget
deletes the first \<open>k\<close> of the candidates in the order of their times, no other file, reports the bytes
freed, and stops at the first \<open>k\<close> that meets the budget; only when it has run out of candidates does
the usage stay above it.
\<close>

theorem oldest_attachments_evicted:
  assumes "\<forall>q. \<not> is_symlink fs q" and "distinct order"
  shows "\<exists>k fs'. enforce_budget (\<lambda>_. False) mtime order s fs =
      (sum_list (map (fsize fs) (take k (candidates mtime order s fs))), fs') \<and>
    (\<forall>p b. fs' p = Some (File b) \<longleftrightarrow> fs p = Some (File b) \<and> p \<notin> set (take k (candidates mtime order s fs))) \<and>
    (\<forall>p \<in> set (take k (candidates mtime order s fs)). \<forall>q \<in> set (drop k (candidates mtime order s fs)). mtime p \<le> mtime q) \<and>
    (k = length (candidates mtime order s fs) \<or> fst (get_usage order s fs') \<le> storage_budget s) \<and>
    (\<forall>j < k. storage_budget s < fst (get_usage order s fs) - sum_list (map (fsize fs) (take j (candidates mtime order s fs))))"
proof -
  let ?F = "candidates mtime order s fs"
  have sorted: "sorted (map mtime ?F)" by (simp add: candidates_def)
  have old: "mtime p \<le> mtime q" if "p \<in> set (take k ?F)" "q \<in> set (drop k ?F)" for k p q
  proof -
    have "sorted (map mtime (take k ?F) @ map mtime (drop k ?F))" using sorted by (metis append_take_drop_id map_append)
    then show ?thesis using that by (auto simp: sorted_append)
  qed
  show ?thesis using enforce_shape [OF assms, of mtime s] old by blast
qed

definition two_files :: fs where
  "two_files = [[''b''] \<mapsto> Dir, [''b'', ''p'', ''5_x.tmp''] \<mapsto> File [1, 2], [''b'', ''p'', ''6_y''] \<mapsto> File [9]]"

definition two_listed :: "path list" where
  "two_listed = [[''b''], [''b'', ''p'', ''5_x.tmp''], [''b'', ''p'', ''6_y'']]"

lemma two_files_plain: "\<forall>q. \<not> is_symlink two_files q" "distinct two_listed"
  by (simp_all add: two_files_def is_symlink_def two_listed_def)

theorem oldest_attachments_evicted_witness:
  "\<exists>freed fs'. enforce_budget (\<lambda>_. False) (\<lambda>_. 0) two_listed demo_store two_files = (freed, fs') \<and>
     (\<forall>p b. fs' p = Some (File b) \<longrightarrow> two_files p = Some (File b))"
  using oldest_attachments_evicted [OF two_files_plain, of "\<lambda>_. 0" demo_store] by blast

text \<open>
Files whose names end in \<^verbatim>\<open>.tmp\<close> count and are never evicted. When those alone are over the
budget, enforcing it deletes every other attachment, and they all stay; and a sender chooses the name.
\<close>

theorem tmp_names_crowd_out:
  assumes "\<forall>q. \<not> is_symlink fs q" and "distinct order"
    and "storage_budget s < sum_list (map (fsize fs) (filter (\<lambda>p. suffix ''.tmp'' (last p)) (under_base order s)))"
    and "enforce_budget (\<lambda>_. False) mtime order s fs = (freed, fs')" and "p \<in> set (under_base order s)"
  shows "(fs' p = Some (File b) \<longleftrightarrow> fs p = Some (File b) \<and> suffix ''.tmp'' (last p)) \<and>
    suffix ''.tmp'' (sanitize_filename ''x.tmp'')"
proof -
  let ?F = "candidates mtime order s fs" and ?tmp = "\<lambda>p. suffix ''.tmp'' (last p)"
  obtain k where k: "k \<le> length ?F" "freed = sum_list (map (fsize fs) (take k ?F))"
    "\<forall>p b. fs' p = Some (File b) \<longleftrightarrow> fs p = Some (File b) \<and> p \<notin> set (take k ?F)"
    "fst (get_usage order s fs') = fst (get_usage order s fs) - freed"
    "k = length ?F \<or> fst (get_usage order s fs') \<le> storage_budget s"
    using enforce_shape [OF assms(1,2), of mtime s] assms(4) by auto
  have c: "q \<in> set ?F \<longleftrightarrow> q \<in> set (under_base order s) \<and> (\<exists>b. fs q = Some (File b)) \<and> \<not> ?tmp q" for q
    by (rule candidates_files [OF assms(1)])
  have d: "distinct (under_base order s)" "distinct ?F"
    using assms(2) by (simp_all add: under_base_def candidates_def below_def)
  have "freed = (\<Sum>q\<in>set (take k ?F). fsize fs q)" using k(2) d(2) by (simp add: sum_list_distinct_conv_sum_set)
  also have "\<dots> \<le> (\<Sum>q\<in>{q \<in> set (under_base order s). \<not> ?tmp q}. fsize fs q)"
    by (rule sum_mono2) (use c set_take_subset [of k ?F] in \<open>auto simp: fsize_def split: option.split node.split\<close>)
  finally have "freed \<le> (\<Sum>q\<in>{q \<in> set (under_base order s). \<not> ?tmp q}. fsize fs q)" .
  moreover have "fst (get_usage order s fs) =
      (\<Sum>q\<in>{q \<in> set (under_base order s). ?tmp q}. fsize fs q) + (\<Sum>q\<in>{q \<in> set (under_base order s). \<not> ?tmp q}. fsize fs q)"
  proof -
    have "fst (get_usage order s fs) = (\<Sum>q\<in>set (under_base order s). fsize fs q)"
      using usage_sum [OF assms(1)] d(1) by (simp add: sum_list_distinct_conv_sum_set)
    also have "\<dots> = (\<Sum>q\<in>{q \<in> set (under_base order s). ?tmp q} \<union> {q \<in> set (under_base order s). \<not> ?tmp q}. fsize fs q)"
      by (rule sum.cong) auto
    finally show ?thesis by (subst (asm) sum.union_disjoint) auto
  qed
  moreover have "sum_list (map (fsize fs) (filter ?tmp (under_base order s))) = (\<Sum>q\<in>{q \<in> set (under_base order s). ?tmp q}. fsize fs q)"
    using d(1) by (simp add: sum_list_distinct_conv_sum_set)
  ultimately have "storage_budget s < fst (get_usage order s fs')" using assms(3) k(4) by simp
  then have "k = length ?F" using k(5) by simp
  then have "fs' p = Some (File b) \<longleftrightarrow> fs p = Some (File b) \<and> p \<notin> set ?F" using k(3) by simp
  then have "fs' p = Some (File b) \<longleftrightarrow> fs p = Some (File b) \<and> ?tmp p" using c [of p] assms(5) by blast
  moreover have "suffix ''.tmp'' (sanitize_filename ''x.tmp'')" by code_simp
  ultimately show ?thesis by blast
qed

theorem tmp_names_crowd_out_witness:
  "snd (enforce_budget (\<lambda>_. False) (\<lambda>_. 0) two_listed demo_store two_files) [''b'', ''p'', ''6_y''] \<noteq> Some (File [9]) \<and>
   snd (enforce_budget (\<lambda>_. False) (\<lambda>_. 0) two_listed demo_store two_files) [''b'', ''p'', ''5_x.tmp''] = Some (File [1, 2])"
proof -
  have u: "under_base two_listed demo_store = [[''b'', ''p'', ''5_x.tmp''], [''b'', ''p'', ''6_y'']]"
    by (simp add: under_base_def two_listed_def demo_store_def)
  have t: "suffix ''.tmp'' ''5_x.tmp''" "\<not> suffix ''.tmp'' ''6_y''" by (simp_all add: suffix_def append_eq_Cons_conv)
  have over: "storage_budget demo_store <
      sum_list (map (fsize two_files) (filter (\<lambda>p. suffix ''.tmp'' (last p)) (under_base two_listed demo_store)))"
    unfolding u using t by (simp add: demo_store_def fsize_def two_files_def)
  have e: "enforce_budget (\<lambda>_. False) (\<lambda>_. 0) two_listed demo_store two_files = (freed, fs') \<Longrightarrow>
      fs' [''b'', ''p'', ''6_y''] \<noteq> Some (File [9]) \<and> fs' [''b'', ''p'', ''5_x.tmp''] = Some (File [1, 2])" for freed fs'
    using tmp_names_crowd_out [OF two_files_plain over, of "\<lambda>_. 0" freed fs' "[''b'', ''p'', ''6_y'']" "[9]"]
      tmp_names_crowd_out [OF two_files_plain over, of "\<lambda>_. 0" freed fs' "[''b'', ''p'', ''5_x.tmp'']" "[1, 2]"] t
    by (simp add: u two_files_def)
  show ?thesis using e [OF surjective_pairing] .
qed

end
