(* ===== verification/Ui_Scope.thy ===== *)
theory Ui_Scope
  imports Interfaces "HOL-Library.AList" "HOL-Library.Multiset"
begin

text \<open>
  What the screens and widgets of the terminal UI own while they are mounted
  (\<^verbatim>\<open>src/styrened/tui/lifecycle/\<close>): the scope of a widget with its timers, workers, cleanups and
  auxiliary lanes, and the host of the panes embedded in a screen. A timer, a worker, a callback and a
  lane are numbers; what is called on them is a trace. A callback that raises has been called, and
  changes nothing else, because every call is guarded.
\<close>

section \<open>The scope of a widget (\<^verbatim>\<open>widget_resources.py\<close>)\<close>

type_synonym handle = nat

record auxiliary_lane_entry =
  shared_lane :: "handle option"
  disconnect_method :: string

record close_state =
  cs_timers :: "(string \<times> handle) list"
  cs_cleanups :: "handle list"
  cs_async_cleanups :: "handle list"
  cs_auxiliary_lanes :: "(string \<times> handle option \<times> auxiliary_lane_entry) list"
  cs_workers :: "handle list"

datatype action =
    Cancel handle
  | Stop handle
  | Run handle
  | Run_Async handle
  | Disconnect handle string

text \<open>
  \<open>owner_attrs\<close> are the attributes of the widget that are not \<^verbatim>\<open>None\<close>, \<open>pending_closes\<close> the
  teardown tasks that are scheduled and not yet run, \<open>given_up\<close> those that could not be scheduled.
\<close>

record resource_scope =
  owner_attrs :: "string \<rightharpoonup> handle"
  timers :: "(string \<times> handle) list"
  cleanups :: "handle list"
  async_cleanups :: "handle list"
  auxiliary_lanes :: "(string \<times> auxiliary_lane_entry) list"
  workers :: "handle list"
  pending_closes :: "(handle list \<times> (string \<times> handle option \<times> auxiliary_lane_entry) list) list"
  given_up :: "(handle list \<times> (string \<times> handle option \<times> auxiliary_lane_entry) list) list"
  actions :: "action list"

definition WidgetResourceScope :: "(string \<rightharpoonup> handle) \<Rightarrow> resource_scope" where
  "WidgetResourceScope attrs =
     \<lparr>owner_attrs = attrs, timers = [], cleanups = [], async_cleanups = [], auxiliary_lanes = [],
      workers = [], pending_closes = [], given_up = [], actions = []\<rparr>"

definition act :: "action list \<Rightarrow> resource_scope \<Rightarrow> resource_scope" where
  "act as s = s\<lparr>actions := actions s @ as\<rparr>"

definition set_attr :: "string \<Rightarrow> handle option \<Rightarrow> resource_scope \<Rightarrow> resource_scope" where
  "set_attr a v s = s\<lparr>owner_attrs := (owner_attrs s)(a := v)\<rparr>"

definition stop_timer :: "string \<Rightarrow> resource_scope \<Rightarrow> resource_scope" where
  "stop_timer a s =
     (let t = (case map_of (timers s) a of Some t \<Rightarrow> Some t | None \<Rightarrow> owner_attrs s a);
          s1 = s\<lparr>timers := AList.delete a (timers s)\<rparr>;
          s2 = (case t of Some t \<Rightarrow> act [Stop t] s1 | None \<Rightarrow> s1) in
      set_attr a None s2)"

definition adopt_timer :: "string \<Rightarrow> handle option \<Rightarrow> resource_scope \<Rightarrow> resource_scope" where
  "adopt_timer a t s =
     (let s1 = set_attr a t (stop_timer a s) in
      (case t of Some t \<Rightarrow> s1\<lparr>timers := AList.update a t (timers s1)\<rparr> | None \<Rightarrow> s1))"

text \<open>The timer that the library makes is an argument.\<close>

definition set_interval :: "string \<Rightarrow> handle \<Rightarrow> resource_scope \<Rightarrow> handle \<times> resource_scope" where
  "set_interval a t s = (t, adopt_timer a (Some t) s)"

definition set_timer :: "string \<Rightarrow> handle \<Rightarrow> resource_scope \<Rightarrow> handle \<times> resource_scope" where
  "set_timer a t s = (t, adopt_timer a (Some t) s)"

definition own_cleanup :: "handle \<Rightarrow> resource_scope \<Rightarrow> resource_scope" where
  "own_cleanup c s = s\<lparr>cleanups := cleanups s @ [c]\<rparr>"

definition own_async_cleanup :: "handle \<Rightarrow> resource_scope \<Rightarrow> resource_scope" where
  "own_async_cleanup c s = s\<lparr>async_cleanups := async_cleanups s @ [c]\<rparr>"

definition own_worker :: "handle \<Rightarrow> resource_scope \<Rightarrow> resource_scope" where
  "own_worker w s = s\<lparr>workers := workers s @ [w]\<rparr>"

definition cancel_workers :: "resource_scope \<Rightarrow> resource_scope" where
  "cancel_workers s = act (map Cancel (workers s)) (s\<lparr>workers := []\<rparr>)"

definition own_subscription :: "handle option \<Rightarrow> handle option \<Rightarrow> resource_scope \<Rightarrow> resource_scope" where
  "own_subscription remove unsubscribe s =
     (let s1 = (case remove of Some c \<Rightarrow> own_cleanup c s | None \<Rightarrow> s) in
      (case unsubscribe of Some c \<Rightarrow> own_async_cleanup c s1 | None \<Rightarrow> s1))"

definition adopt_auxiliary_lane ::
    "string \<Rightarrow> handle option \<Rightarrow> handle option \<Rightarrow> string \<Rightarrow> resource_scope \<Rightarrow> resource_scope" where
  "adopt_auxiliary_lane a lane sh meth s =
     (set_attr a lane s)\<lparr>auxiliary_lanes :=
        AList.update a \<lparr>shared_lane = sh, disconnect_method = meth\<rparr> (auxiliary_lanes s)\<rparr>"

definition clear_attrs :: "string list \<Rightarrow> (string \<rightharpoonup> handle) \<Rightarrow> (string \<rightharpoonup> handle)" where
  "clear_attrs as m = foldl (\<lambda>m a. m(a := None)) m as"

text \<open>The lane that is disconnected is the one the attribute holds now.\<close>

definition drain_close_state :: "resource_scope \<Rightarrow> close_state \<times> resource_scope" where
  "drain_close_state s =
     (\<lparr>cs_timers = timers s, cs_cleanups = cleanups s, cs_async_cleanups = async_cleanups s,
       cs_auxiliary_lanes = map (\<lambda>(a, e). (a, owner_attrs s a, e)) (auxiliary_lanes s),
       cs_workers = workers s\<rparr>,
      s\<lparr>timers := [], cleanups := [], async_cleanups := [], auxiliary_lanes := [], workers := [],
        owner_attrs := clear_attrs (map fst (auxiliary_lanes s) @ map fst (timers s)) (owner_attrs s)\<rparr>)"

definition close_sync :: "close_state \<Rightarrow> action list" where
  "close_sync c = map Cancel (cs_workers c) @ map (\<lambda>(a, t). Stop t) (cs_timers c) @ map Run (cs_cleanups c)"

text \<open>\<open>callable\<close>: whether a lane has a method of that name.\<close>

definition lane_close :: "(handle \<Rightarrow> string \<Rightarrow> bool) \<Rightarrow> string \<times> handle option \<times> auxiliary_lane_entry \<Rightarrow> action list" where
  "lane_close callable x =
     (case x of (a, lane, e) \<Rightarrow>
        (case lane of
           None \<Rightarrow> []
         | Some l \<Rightarrow> if shared_lane e = Some l then []
                     else if callable l (disconnect_method e) then [Disconnect l (disconnect_method e)] else []))"

definition close_async ::
    "(handle \<Rightarrow> string \<Rightarrow> bool) \<Rightarrow> handle list \<Rightarrow> (string \<times> handle option \<times> auxiliary_lane_entry) list \<Rightarrow> action list" where
  "close_async callable cs lanes = map Run_Async cs @ concat (map (lane_close callable) lanes)"

text \<open>How the second part of a teardown is scheduled: as a task of the running loop, as a worker of the widget, not at all.\<close>

datatype scheduling = As_Task | As_Worker | Not_Scheduled

definition release :: "scheduling \<Rightarrow> resource_scope \<Rightarrow> resource_scope" where
  "release how s =
     (let (c, s1) = drain_close_state s;
          s2 = act (close_sync c) s1;
          job = (cs_async_cleanups c, cs_auxiliary_lanes c) in
      if fst job = [] \<and> snd job = [] then s2
      else case how of
             Not_Scheduled \<Rightarrow> s2\<lparr>given_up := given_up s2 @ [job]\<rparr>
           | _ \<Rightarrow> s2\<lparr>pending_closes := pending_closes s2 @ [job]\<rparr>)"

definition aclose :: "(handle \<Rightarrow> string \<Rightarrow> bool) \<Rightarrow> resource_scope \<Rightarrow> resource_scope" where
  "aclose callable s =
     (let (c, s1) = drain_close_state s in
      act (close_sync c @ close_async callable (cs_async_cleanups c) (cs_auxiliary_lanes c)) s1)"

text \<open>The loop runs the \<open>i\<close>-th scheduled teardown.\<close>

definition run_close :: "(handle \<Rightarrow> string \<Rightarrow> bool) \<Rightarrow> nat \<Rightarrow> resource_scope \<Rightarrow> resource_scope" where
  "run_close callable i s =
     (if i < length (pending_closes s)
      then act (close_async callable (fst (pending_closes s ! i)) (snd (pending_closes s ! i)))
             (s\<lparr>pending_closes := take i (pending_closes s) @ drop (Suc i) (pending_closes s)\<rparr>)
      else s)"

lemmas scope_defs = act_def set_attr_def stop_timer_def adopt_timer_def set_interval_def set_timer_def
  own_cleanup_def own_async_cleanup_def own_worker_def cancel_workers_def own_subscription_def
  adopt_auxiliary_lane_def drain_close_state_def close_sync_def close_async_def release_def aclose_def
  run_close_def

section \<open>Every owned resource is released once\<close>

datatype scope_op =
    Adopt_Timer string "handle option"
  | Stop_Timer string
  | Own_Cleanup handle
  | Own_Async handle
  | Own_Worker handle
  | Cancel_Workers
  | Own_Subscription "handle option" "handle option"
  | Adopt_Lane string "handle option" "handle option" string
  | Release scheduling
  | Aclose
  | Loop_Turn nat
  | Widget_Sets string "handle option"

text \<open>The last operation is the widget assigning one of its attributes.\<close>

fun scope_step :: "(handle \<Rightarrow> string \<Rightarrow> bool) \<Rightarrow> scope_op \<Rightarrow> resource_scope \<Rightarrow> resource_scope" where
  "scope_step f (Adopt_Timer a t) s = adopt_timer a t s"
| "scope_step f (Stop_Timer a) s = stop_timer a s"
| "scope_step f (Own_Cleanup c) s = own_cleanup c s"
| "scope_step f (Own_Async c) s = own_async_cleanup c s"
| "scope_step f (Own_Worker w) s = own_worker w s"
| "scope_step f Cancel_Workers s = cancel_workers s"
| "scope_step f (Own_Subscription r u) s = own_subscription r u s"
| "scope_step f (Adopt_Lane a l sh m) s = adopt_auxiliary_lane a l sh m s"
| "scope_step f (Release how) s = release how s"
| "scope_step f Aclose s = aclose f s"
| "scope_step f (Loop_Turn i) s = run_close f i s"
| "scope_step f (Widget_Sets a v) s = set_attr a v s"

definition scope_run :: "(handle \<Rightarrow> string \<Rightarrow> bool) \<Rightarrow> scope_op list \<Rightarrow> resource_scope \<Rightarrow> resource_scope" where
  "scope_run f ops s = foldl (\<lambda>s op. scope_step f op s) s ops"

text \<open>What was given to the scope, and how often something was done to it.\<close>

fun workers_given :: "scope_op \<Rightarrow> handle list" where
  "workers_given (Own_Worker w) = [w]" | "workers_given _ = []"

fun cleanups_given :: "scope_op \<Rightarrow> handle list" where
  "cleanups_given (Own_Cleanup c) = [c]"
| "cleanups_given (Own_Subscription (Some c) u) = [c]"
| "cleanups_given _ = []"

fun asyncs_given :: "scope_op \<Rightarrow> handle list" where
  "asyncs_given (Own_Async c) = [c]"
| "asyncs_given (Own_Subscription r (Some c)) = [c]"
| "asyncs_given _ = []"

definition cancelled :: "action list \<Rightarrow> handle multiset" where
  "cancelled as = mset (concat (map (\<lambda>a. case a of Cancel w \<Rightarrow> [w] | _ \<Rightarrow> []) as))"

definition ran :: "action list \<Rightarrow> handle multiset" where
  "ran as = mset (concat (map (\<lambda>a. case a of Run c \<Rightarrow> [c] | _ \<Rightarrow> []) as))"

definition ran_async :: "action list \<Rightarrow> handle multiset" where
  "ran_async as = mset (concat (map (\<lambda>a. case a of Run_Async c \<Rightarrow> [c] | _ \<Rightarrow> []) as))"

definition owed :: "(handle list \<times> 'a) list \<Rightarrow> handle multiset" where
  "owed js = mset (concat (map fst js))"

lemma trace_counts [simp]:
  "cancelled (as @ bs) = cancelled as + cancelled bs" "ran (as @ bs) = ran as + ran bs"
  "ran_async (as @ bs) = ran_async as + ran_async bs" "owed (js @ ks) = owed js + owed ks"
  by (simp_all add: cancelled_def ran_def ran_async_def owed_def)

lemma trace_counts_base [simp]:
  "cancelled [] = {#}" "ran [] = {#}" "ran_async [] = {#}" "owed [] = {#}" "owed [j] = mset (fst j)"
  "cancelled (map Cancel ws) = mset ws" "cancelled (map Run cs) = {#}" "cancelled (map Run_Async cs) = {#}"
  "ran (map Cancel ws) = {#}" "ran (map Run cs) = mset cs" "ran (map Run_Async cs) = {#}"
  "ran_async (map Cancel ws) = {#}" "ran_async (map Run cs) = {#}" "ran_async (map Run_Async cs) = mset cs"
  "cancelled [Stop t] = {#}" "ran [Stop t] = {#}" "ran_async [Stop t] = {#}"
  by (simp_all add: cancelled_def ran_def ran_async_def owed_def comp_def)

lemma trace_counts_timers [simp]:
  "cancelled (map (\<lambda>(a, t). Stop t) ts) = {#}" "ran (map (\<lambda>(a, t). Stop t) ts) = {#}"
  "ran_async (map (\<lambda>(a, t). Stop t) ts) = {#}"
  by (induction ts) (auto simp: cancelled_def ran_def ran_async_def)

lemma trace_counts_lane [simp]:
  "cancelled (lane_close f x) = {#}" "ran (lane_close f x) = {#}" "ran_async (lane_close f x) = {#}"
  by (auto simp: cancelled_def ran_def ran_async_def lane_close_def split: prod.splits option.splits)

lemma trace_counts_lanes [simp]:
  "cancelled (concat (map (lane_close f) ls)) = {#}" "ran (concat (map (lane_close f) ls)) = {#}"
  "ran_async (concat (map (lane_close f) ls)) = {#}"
  by (induction ls) simp_all

lemma owed_take_drop:
  assumes "i < length js"
  shows "owed js = owed (take i js @ drop (Suc i) js) + mset (fst (js ! i))"
proof -
  have "owed js = owed (take i js @ js ! i # drop (Suc i) js)"
    using assms by (simp add: id_take_nth_drop [symmetric])
  then show ?thesis by (simp add: owed_def)
qed

definition balanced :: "scope_op list \<Rightarrow> resource_scope \<Rightarrow> bool" where
  "balanced ops s \<longleftrightarrow>
     mset (concat (map workers_given ops)) = mset (workers s) + cancelled (actions s) \<and>
     mset (concat (map cleanups_given ops)) = mset (cleanups s) + ran (actions s) \<and>
     mset (concat (map asyncs_given ops)) =
       mset (async_cleanups s) + owed (pending_closes s) + owed (given_up s) + ran_async (actions s)"

lemma balanced_step: "balanced ops s \<Longrightarrow> balanced (ops @ [op]) (scope_step f op s)"
proof (cases op)
  case (Loop_Turn i)
  assume b: "balanced ops s"
  show ?thesis
  proof (cases "i < length (pending_closes s)")
    case True
    with b Loop_Turn owed_take_drop [OF True] show ?thesis
      by (simp add: balanced_def run_close_def act_def close_async_def ac_simps)
  qed (use b Loop_Turn in \<open>simp add: balanced_def run_close_def\<close>)
next
  case (Release how)
  assume "balanced ops s"
  with Release show ?thesis
    by (cases how) (auto simp: balanced_def scope_defs Let_def ac_simps)
next
  case (Own_Subscription r u)
  assume "balanced ops s"
  with Own_Subscription show ?thesis
    by (cases r; cases u) (auto simp: balanced_def scope_defs ac_simps)
qed (auto simp: balanced_def scope_defs Let_def ac_simps simp del: map_map split: option.splits)

lemma scope_run_simps [simp]:
  "scope_run f [] s = s" "scope_run f (ops @ [op]) s = scope_step f op (scope_run f ops s)"
  by (simp_all add: scope_run_def)

lemma scope_balanced: "balanced ops (scope_run f ops (WidgetResourceScope attrs))"
proof (induction ops rule: rev_induct)
  case Nil
  show ?case by (simp add: balanced_def WidgetResourceScope_def)
next
  case (snoc op ops)
  then show ?case by (simp add: balanced_step)
qed

text \<open>
  Whatever a widget gives to its scope is released once and not twice, in any order of
  operations, with teardowns that overlap later ones: each worker and cleanup is tracked or has been
  cancelled or run, each asynchronous cleanup is tracked, in a scheduled teardown, in one that could
  not be scheduled, or has been run; after a teardown nothing is tracked.
\<close>

lemma scope_releases_each_once:
  "let s = scope_run f ops (WidgetResourceScope attrs); e = aclose f s; r = release how s in
   mset (concat (map workers_given ops)) = mset (workers s) + cancelled (actions s) \<and>
   mset (concat (map cleanups_given ops)) = mset (cleanups s) + ran (actions s) \<and>
   mset (concat (map asyncs_given ops)) =
     mset (async_cleanups s) + owed (pending_closes s) + owed (given_up s) + ran_async (actions s) \<and>
   cancelled (actions e) = mset (concat (map workers_given ops)) \<and>
   ran (actions e) = mset (concat (map cleanups_given ops)) \<and>
   cancelled (actions r) = mset (concat (map workers_given ops)) \<and>
   ran (actions r) = mset (concat (map cleanups_given ops))"
proof -
  let ?s = "scope_run f ops (WidgetResourceScope attrs)"
  have b: "balanced ops ?s" by (rule scope_balanced)
  have "balanced (ops @ [Aclose]) (aclose f ?s)" using balanced_step [OF b, of Aclose f] by simp
  moreover have "balanced (ops @ [Release how]) (release how ?s)"
    using balanced_step [OF b, of "Release how" f] by simp
  moreover have "workers (aclose f ?s) = []" "cleanups (aclose f ?s) = []"
    by (simp_all add: aclose_def drain_close_state_def act_def)
  moreover have "workers (release how ?s) = []" "cleanups (release how ?s) = []"
    by (cases how; simp add: release_def drain_close_state_def act_def Let_def)+
  ultimately show ?thesis using b by (simp add: balanced_def Let_def)
qed

text \<open>A timer that was adopted is tracked until it is stopped.\<close>

definition timers_kept :: "scope_op list \<Rightarrow> resource_scope \<Rightarrow> bool" where
  "timers_kept ops s \<longleftrightarrow>
     distinct (map fst (timers s)) \<and>
     (\<forall>a t. Adopt_Timer a (Some t) \<in> set ops \<longrightarrow> t \<in> snd ` set (timers s) \<or> Stop t \<in> set (actions s))"

lemma delete_or_stopped:
  assumes "distinct (map fst ts)" "t \<in> snd ` set ts"
  shows "t \<in> snd ` set (AList.delete a ts) \<or> map_of ts a = Some t"
proof -
  from assms(2) obtain b where b: "(b, t) \<in> set ts" by auto
  show ?thesis
  proof (cases "b = a")
    case True
    then show ?thesis using b assms(1) by simp
  next
    case False
    with b have "(b, t) \<in> set (AList.delete a ts)" by (auto simp: AList.delete_eq)
    then show ?thesis by force
  qed
qed

lemma timers_kept_mono:
  assumes "timers_kept ops s" "distinct (map fst (timers s'))"
    and "\<And>t. t \<in> snd ` set (timers s) \<Longrightarrow> t \<in> snd ` set (timers s') \<or> Stop t \<in> set (actions s')"
    and "set (actions s) \<subseteq> set (actions s')"
    and "\<And>a t. Adopt_Timer a (Some t) \<in> set ops' \<Longrightarrow>
           Adopt_Timer a (Some t) \<in> set ops \<or> t \<in> snd ` set (timers s')"
  shows "timers_kept ops' s'"
  using assms unfolding timers_kept_def by blast

lemma stop_timer_views:
  "timers (stop_timer a s) = AList.delete a (timers s)"
  "map_of (timers s) a = Some t \<Longrightarrow> Stop t \<in> set (actions (stop_timer a s))"
  "set (actions s) \<subseteq> set (actions (stop_timer a s))"
  by (auto simp: stop_timer_def act_def set_attr_def Let_def split: option.splits)

lemma timers_kept_stop:
  assumes "timers_kept ops s"
  shows "timers_kept ops (stop_timer a s)"
proof (rule timers_kept_mono [OF assms])
  have d: "distinct (map fst (timers s))" using assms by (simp add: timers_kept_def)
  then show "distinct (map fst (timers (stop_timer a s)))" by (simp add: stop_timer_views distinct_delete)
  show "t \<in> snd ` set (timers (stop_timer a s)) \<or> Stop t \<in> set (actions (stop_timer a s))"
    if "t \<in> snd ` set (timers s)" for t
    using delete_or_stopped [OF d that, of a] by (auto simp: stop_timer_views)
qed (auto simp: stop_timer_views)

lemma update_absent: "map_of ts a = None \<Longrightarrow> AList.update a t ts = ts @ [(a, t)]"
  by (induction ts) (auto split: if_splits)

lemma timers_kept_update:
  assumes "timers_kept ops s" "map_of (timers s) a = None"
  shows "timers_kept (ops @ [Adopt_Timer a (Some t)]) (s\<lparr>owner_attrs := m, timers := AList.update a t (timers s)\<rparr>)"
  by (rule timers_kept_mono [OF assms(1)])
    (use assms in \<open>auto simp: timers_kept_def update_absent map_of_eq_None_iff\<close>)

text \<open>The operations that keep the timers, and those that stop them all.\<close>

lemma timers_kept_frame:
  assumes "timers_kept ops s" "\<And>a t. op \<noteq> Adopt_Timer a t" "timers s' = timers s \<or>
      timers s' = [] \<and> (\<lambda>(a, t). Stop t) ` set (timers s) \<subseteq> set (actions s')"
    and "set (actions s) \<subseteq> set (actions s')"
  shows "timers_kept (ops @ [op]) s'"
proof (rule timers_kept_mono [OF assms(1)])
  show "distinct (map fst (timers s'))" using assms(1,3) by (auto simp: timers_kept_def)
  show "t \<in> snd ` set (timers s') \<or> Stop t \<in> set (actions s')" if "t \<in> snd ` set (timers s)" for t
    using assms(3) that by auto
  show "Adopt_Timer a (Some t) \<in> set ops \<or> t \<in> snd ` set (timers s')"
    if "Adopt_Timer a (Some t) \<in> set (ops @ [op])" for a t
    using that assms(2) by auto
qed (rule assms(4))

lemma timers_kept_adopt:
  assumes "timers_kept ops s"
  shows "timers_kept (ops @ [Adopt_Timer a t]) (adopt_timer a t s)"
proof (cases t)
  case None
  with timers_kept_stop [OF assms, of a] show ?thesis by (simp add: adopt_timer_def set_attr_def timers_kept_def)
next
  case (Some u)
  have "map_of (timers (stop_timer a s)) a = None" by (simp add: stop_timer_views delete_conv)
  from timers_kept_update [OF timers_kept_stop [OF assms] this] Some show ?thesis
    by (simp add: adopt_timer_def set_attr_def)
qed

lemma timers_kept_step: "timers_kept ops s \<Longrightarrow> timers_kept (ops @ [op]) (scope_step f op s)"
proof (induction op)
  case (Stop_Timer a)
  from timers_kept_stop [OF this, of a] show ?case by (simp add: timers_kept_def)
next
  case (Release how)
  show ?case by (rule timers_kept_frame [OF Release]; cases how) (auto simp: scope_defs Let_def)
next
  case Aclose
  show ?case by (rule timers_kept_frame [OF Aclose]) (auto simp: scope_defs)
next
  case (Own_Subscription r u)
  show ?case
    by (rule timers_kept_frame [OF Own_Subscription]; cases r; cases u) (simp_all add: scope_defs)
next
  case (Loop_Turn i)
  show ?case by (rule timers_kept_frame [OF Loop_Turn]) (auto simp: run_close_def act_def)
next
  case Cancel_Workers
  show ?case by (rule timers_kept_frame [OF Cancel_Workers]) (auto simp: cancel_workers_def act_def)
next
  case (Adopt_Timer a t)
  then show ?case by (simp add: timers_kept_adopt)
qed (simp_all add: timers_kept_frame own_cleanup_def own_async_cleanup_def own_worker_def
      adopt_auxiliary_lane_def set_attr_def)

lemma timers_stay_tracked: "timers_kept ops (scope_run f ops (WidgetResourceScope attrs))"
proof (induction ops rule: rev_induct)
  case Nil
  show ?case by (simp add: timers_kept_def WidgetResourceScope_def)
qed (simp add: timers_kept_step)

lemma release_lane_order:
  "actions (aclose f s) =
     actions s @ map Cancel (workers s) @ map (\<lambda>(a, t). Stop t) (timers s) @ map Run (cleanups s) @
     map Run_Async (async_cleanups s) @
     concat (map (\<lambda>x. lane_close f (fst x, owner_attrs s (fst x), snd x)) (auxiliary_lanes s))"
  by (simp add: scope_defs comp_def case_prod_beta)

text \<open>A second lane under a name hides the first, which is never disconnected.\<close>

lemma second_lane_hides_first:
  assumes "l1 \<noteq> l2"
  shows "Disconnect l1 m \<notin> set (actions (aclose f (adopt_auxiliary_lane a (Some l2) sh m
           (adopt_auxiliary_lane a (Some l1) sh m (WidgetResourceScope attrs)))))"
  using assms by (auto simp: scope_defs WidgetResourceScope_def lane_close_def)

section \<open>Panes embedded in a screen (\<^verbatim>\<open>screen_content.py\<close>)\<close>

record content_hooks =
  on_activate :: "handle option"
  on_resume :: "handle option"
  on_deactivate :: "handle option"
  on_suspend :: "handle option"
  on_cleanup :: "handle option"

text \<open>\<open>content\<close> is the object as the attributes \<^verbatim>\<open>getattr\<close> finds.\<close>

definition from_content :: "(string \<rightharpoonup> handle) \<Rightarrow> content_hooks" where
  "from_content content =
     \<lparr>on_activate = content ''activate_content'', on_resume = content ''resume_content'',
      on_deactivate = content ''deactivate_content'', on_suspend = content ''suspend_content'',
      on_cleanup = content ''cleanup_content''\<rparr>"

datatype hook_call = Called handle | Activated handle bool

record content_host =
  slots :: "(string \<times> content_hooks) list"
  active_slot_id :: "string option"
  activated_slots :: "string set"
  hook_calls :: "(string \<times> hook_call) list"

definition ScreenContentHost :: content_host where
  "ScreenContentHost = \<lparr>slots = [], active_slot_id = None, activated_slots = {}, hook_calls = []\<rparr>"

definition register_slot :: "string \<Rightarrow> (string \<rightharpoonup> handle) \<Rightarrow> content_hooks option \<Rightarrow> content_host \<Rightarrow> content_host" where
  "register_slot i content hooks h =
     h\<lparr>slots := AList.update i (case hooks of Some k \<Rightarrow> k | None \<Rightarrow> from_content content) (slots h)\<rparr>"

text \<open>The trace notes for which slot a hook is called; the result tells whether there was one.\<close>

definition call_hook :: "string \<Rightarrow> handle option \<Rightarrow> content_host \<Rightarrow> bool \<times> content_host" where
  "call_hook i c h =
     (case c of None \<Rightarrow> (False, h) | Some f \<Rightarrow> (True, h\<lparr>hook_calls := hook_calls h @ [(i, Called f)]\<rparr>))"

definition call_activate :: "string \<Rightarrow> content_hooks \<Rightarrow> bool \<Rightarrow> content_host \<Rightarrow> content_host" where
  "call_activate i k initial h =
     (case on_activate k of
        None \<Rightarrow> (if on_resume k \<noteq> None then snd (call_hook i (on_resume k) h) else h)
      | Some f \<Rightarrow> h\<lparr>hook_calls := hook_calls h @ [(i, Activated f initial)]\<rparr>)"

definition deactivate_previous :: "content_host \<Rightarrow> content_host" where
  "deactivate_previous h =
     (case active_slot_id h of
        None \<Rightarrow> h
      | Some p \<Rightarrow> (case map_of (slots h) p of
                     Some k \<Rightarrow> snd (call_hook p (on_deactivate k) h)
                   | None \<Rightarrow> h))"

definition activate_slot :: "string \<Rightarrow> content_host \<Rightarrow> content_host" where
  "activate_slot i h =
     (case map_of (slots h) i of
        None \<Rightarrow> h
      | Some k \<Rightarrow>
          if active_slot_id h = Some i then h
          else (let h1 = (deactivate_previous h)\<lparr>active_slot_id := Some i\<rparr> in
                if i \<in> activated_slots h1
                then (let (resumed, h2) = call_hook i (on_resume k) h1 in
                      if resumed then h2 else call_activate i k False h2)
                else call_activate i k True (h1\<lparr>activated_slots := insert i (activated_slots h1)\<rparr>)))"

definition resume_active :: "content_host \<Rightarrow> content_host" where
  "resume_active h =
     (case active_slot_id h of
        None \<Rightarrow> h
      | Some i \<Rightarrow>
          (case map_of (slots h) i of
             None \<Rightarrow> h
           | Some k \<Rightarrow>
               if i \<in> activated_slots h
               then (let (resumed, h2) = call_hook i (on_resume k) h in
                     if resumed then h2 else call_activate i k False h2)
               else call_activate i k True (h\<lparr>activated_slots := insert i (activated_slots h)\<rparr>)))"

definition suspend_active :: "content_host \<Rightarrow> content_host" where
  "suspend_active h =
     (case active_slot_id h of
        None \<Rightarrow> h
      | Some i \<Rightarrow>
          (case map_of (slots h) i of
             None \<Rightarrow> h
           | Some k \<Rightarrow>
               (let (suspended, h2) = call_hook i (on_suspend k) h in
                if suspended then h2 else snd (call_hook i (on_deactivate k) h2))))"

definition cleanup_all :: "content_host \<Rightarrow> content_host" where
  "cleanup_all h =
     (let h1 = suspend_active h;
          h2 = foldl (\<lambda>h (i, k). snd (call_hook i (on_cleanup k) h)) h1 (slots h1) in
      h2\<lparr>active_slot_id := None, activated_slots := {}\<rparr>)"

datatype host_op =
    Register string "string \<rightharpoonup> handle" "content_hooks option"
  | Activate_Slot string
  | Resume_Active
  | Suspend_Active

fun host_step :: "host_op \<Rightarrow> content_host \<Rightarrow> content_host" where
  "host_step (Register i c k) h = register_slot i c k h"
| "host_step (Activate_Slot i) h = activate_slot i h"
| "host_step Resume_Active h = resume_active h"
| "host_step Suspend_Active h = suspend_active h"

definition host_run :: "host_op list \<Rightarrow> content_host \<Rightarrow> content_host" where
  "host_run ops h = foldl (\<lambda>h op. host_step op h) h ops"

text \<open>How often a pane was told that it is shown for the first time.\<close>

definition first_shown :: "string \<Rightarrow> content_host \<Rightarrow> nat" where
  "first_shown i h = length (List.filter (\<lambda>(j, c). j = i \<and> (\<exists>f. c = Activated f True)) (hook_calls h))"

definition host_inv :: "content_host \<Rightarrow> bool" where
  "host_inv h \<longleftrightarrow>
     (\<forall>i. active_slot_id h = Some i \<longrightarrow> i \<in> activated_slots h \<and> map_of (slots h) i \<noteq> None) \<and>
     (\<forall>i. first_shown i h \<le> (if i \<in> activated_slots h then 1 else 0))"

lemma call_hook_frame [simp]:
  "slots (snd (call_hook i c h)) = slots h" "active_slot_id (snd (call_hook i c h)) = active_slot_id h"
  "activated_slots (snd (call_hook i c h)) = activated_slots h" "first_shown j (snd (call_hook i c h)) = first_shown j h"
  by (auto simp: call_hook_def first_shown_def split: option.splits)

lemma call_activate_frame [simp]:
  "slots (call_activate i k b h) = slots h" "active_slot_id (call_activate i k b h) = active_slot_id h"
  "activated_slots (call_activate i k b h) = activated_slots h"
  by (auto simp: call_activate_def split: option.splits)

lemma call_activate_shown:
  "first_shown j (call_activate i k True h) \<le> first_shown j h + (if j = i then 1 else 0)"
  "first_shown j (call_activate i k False h) = first_shown j h"
  by (auto simp: call_activate_def split: option.splits) (auto simp: first_shown_def)

lemma deactivate_frame [simp]:
  "slots (deactivate_previous h) = slots h" "activated_slots (deactivate_previous h) = activated_slots h"
  "first_shown j (deactivate_previous h) = first_shown j h"
  by (auto simp: deactivate_previous_def split: option.splits)

lemma first_shown_fields [simp]:
  "first_shown j (h\<lparr>active_slot_id := x\<rparr>) = first_shown j h"
  "first_shown j (h\<lparr>activated_slots := y\<rparr>) = first_shown j h"
  "first_shown j (h\<lparr>slots := z\<rparr>) = first_shown j h"
  by (simp_all add: first_shown_def)

lemma host_inv_call:
  "host_inv h \<Longrightarrow> host_inv (snd (call_hook i c h))"
  by (simp add: host_inv_def)

lemma host_inv_activate_again:
  assumes "host_inv h"
  shows "host_inv (call_activate i k False h)"
  using assms by (simp add: host_inv_def call_activate_shown)

text \<open>The first showing of a pane, which becomes the active one.\<close>

lemma host_inv_first:
  assumes h: "host_inv h" and i: "i \<notin> activated_slots h" "map_of (slots h) i \<noteq> None"
    and that: "slots g = slots h" "activated_slots g = activated_slots h" "\<And>j. first_shown j g = first_shown j h"
  shows "host_inv (call_activate i k True ((g\<lparr>active_slot_id := Some i\<rparr>)\<lparr>activated_slots := insert i (activated_slots h)\<rparr>))"
proof -
  let ?g = "(g\<lparr>active_slot_id := Some i\<rparr>)\<lparr>activated_slots := insert i (activated_slots h)\<rparr>"
  have "first_shown j (call_activate i k True ?g) \<le> (if j \<in> insert i (activated_slots h) then 1 else 0)" for j
  proof -
    have "first_shown j (call_activate i k True ?g) \<le> first_shown j h + (if j = i then 1 else 0)"
      using call_activate_shown(1) [of j i k ?g] that(3) [of j] by simp
    moreover have "first_shown j h \<le> (if j \<in> activated_slots h then 1 else 0)" using h by (simp add: host_inv_def)
    ultimately show ?thesis using i(1) by (cases "j = i") auto
  qed
  with i(2) that(1) show ?thesis by (auto simp: host_inv_def)
qed

lemma host_inv_again:
  assumes "host_inv h" "i \<in> activated_slots h" "map_of (slots h) i = Some k"
    and "slots g = slots h" "activated_slots g = activated_slots h" "\<And>j. first_shown j g = first_shown j h"
  shows "host_inv (g\<lparr>active_slot_id := Some i\<rparr>)"
  using assms by (auto simp: host_inv_def)

lemma host_inv_step: "host_inv h \<Longrightarrow> host_inv (host_step op h)"
proof (induction op)
  case (Register i c k)
  then show ?case by (auto simp: host_inv_def register_slot_def update_conv)
next
  case (Activate_Slot i)
  note again = host_inv_again [OF Activate_Slot, of i _ "deactivate_previous h"]
  note first = host_inv_first [OF Activate_Slot, of i "deactivate_previous h"]
  show ?case
    using Activate_Slot again first
    by (auto simp: activate_slot_def Let_def split_beta host_inv_call host_inv_activate_again split: option.splits)
next
  case Resume_Active
  then show ?case
    by (auto simp: resume_active_def Let_def split_beta host_inv_call host_inv_activate_again
        split: option.splits) (auto simp: host_inv_def)
next
  case Suspend_Active
  then show ?case
    by (auto simp: suspend_active_def Let_def split_beta host_inv_call split: option.splits)
qed

lemma host_run_inv: "host_inv h \<Longrightarrow> host_inv (host_run ops h)"
  unfolding host_run_def by (induction ops arbitrary: h) (simp_all add: host_inv_step)

lemma host_inv_empty: "host_inv ScreenContentHost"
  by (simp add: host_inv_def ScreenContentHost_def first_shown_def)

text \<open>
  Between two cleanups a pane is told at most once that it is shown for the first time, and the active
  pane is registered and has been activated, so that \<^verbatim>\<open>resume_active\<close> never takes its branch for a pane
  that has not.
\<close>

lemma panes_first_shown_once:
  "first_shown i (host_run ops ScreenContentHost) \<le> 1 \<and>
   (active_slot_id (host_run ops ScreenContentHost) = Some i \<longrightarrow>
      i \<in> activated_slots (host_run ops ScreenContentHost) \<and>
      map_of (slots (host_run ops ScreenContentHost)) i \<noteq> None)"
  using host_run_inv [OF host_inv_empty, of ops]
  by (auto simp: host_inv_def split: if_splits dest: spec [where x = i])

text \<open>
  A pane without a hook for suspending is deactivated when the screen is suspended; if another pane is
  activated before the screen resumes, it is deactivated a second time.
\<close>

lemma suspended_pane_deactivated_twice:
  assumes "map_of (slots h) i = Some k" "map_of (slots h) j = Some l" "i \<noteq> j"
    and "active_slot_id h = Some i" "on_suspend k = None" "on_deactivate k = Some d"
  shows "take (length (hook_calls h) + 2) (hook_calls (activate_slot j (suspend_active h))) =
           hook_calls h @ [(i, Called d), (i, Called d)]"
  using assms
  by (auto simp: activate_slot_def suspend_active_def deactivate_previous_def call_hook_def call_activate_def
      Let_def split: option.splits)

end
