(* ===== verification/Service_Installer.thy ===== *)
theory Service_Installer
  imports Rust_Daemon Py_Numbers
begin

text \<open>
  The daemon as a service of the system (\<^verbatim>\<open>src/styrened/tui/services/service_installer.py\<close>): a
  launchd agent or a systemd user unit, a file each and the commands that load, start, stop and remove it.
  What a command answers is an argument; the commands that were run are a trace. Output is split into lines
  and words at ASCII white space.
\<close>

section \<open>Platform and status\<close>

datatype service_platform = LAUNCHD | SYSTEMD | UNSUPPORTED_PLATFORM

datatype service_status = NOT_INSTALLED | INSTALLED_STOPPED | SERVICE_RUNNING | SERVICE_ERROR

record service_info =
  si_platform :: service_platform
  si_status :: service_status
  si_unit_path :: "path option"
  si_error :: "string option"
  si_pid :: "int option"

definition ServiceInfo :: "service_platform \<Rightarrow> service_status \<Rightarrow> path option \<Rightarrow> string option \<Rightarrow> service_info" where
  "ServiceInfo p s u e = \<lparr>si_platform = p, si_status = s, si_unit_path = u, si_error = e, si_pid = None\<rparr>"

text \<open>
  The machine: \<open>sm_run\<close> tells for a command its exit code with what it wrote to both outputs, or the
  exception of starting it; \<open>sm_lossy\<close> is decoding with replacement.
\<close>

type_synonym command = "string list"

record machine =
  sm_os :: string
  sm_which :: "string \<Rightarrow> path option"
  sm_bin_dir :: path
  sm_home :: path
  sm_run :: "command \<Rightarrow> exn + int \<times> bytes \<times> bytes"
  sm_lossy :: "bytes \<Rightarrow> string"
  sm_exn_text :: "exn \<Rightarrow> string"
  sm_denied :: denied

definition LAUNCHD_LABEL :: string where "LAUNCHD_LABEL = ''com.styrene.styrened''"
definition SYSTEMD_UNIT_NAME :: string where "SYSTEMD_UNIT_NAME = ''styrened.service''"

definition plist_path :: "machine \<Rightarrow> path" where
  "plist_path m = sm_home m @ [''Library'', ''LaunchAgents'', LAUNCHD_LABEL @ ''.plist'']"

definition log_dir :: "machine \<Rightarrow> path" where
  "log_dir m = sm_home m @ [''Library'', ''Logs'', ''styrened'']"

definition unit_path :: "machine \<Rightarrow> path" where
  "unit_path m = sm_home m @ [''.config'', ''systemd'', ''user'', SYSTEMD_UNIT_NAME]"

definition detect_platform :: "machine \<Rightarrow> service_platform" where
  "detect_platform m =
     (if sm_os m = ''darwin'' then LAUNCHD
      else if sm_os m = ''linux'' \<and> sm_which m ''systemctl'' \<noteq> None then SYSTEMD
      else UNSUPPORTED_PLATFORM)"

definition get_styrened_executable :: "machine \<Rightarrow> fs \<Rightarrow> path option" where
  "get_styrened_executable m fs =
     (case sm_which m ''styrened'' of
        Some p \<Rightarrow> Some p
      | None \<Rightarrow> (let c = sm_bin_dir m @ [''styrened''] in if path_exists fs c then Some c else None))"

definition text_lines :: "string list \<Rightarrow> string" where
  "text_lines ls = concat (map (\<lambda>l. l @ [CHR 10]) ls)"

definition generate_launchd_plist :: "machine \<Rightarrow> path \<Rightarrow> string" where
  "generate_launchd_plist m p = text_lines
     [''<?xml version='' @ [CHR 34] @ ''1.0'' @ [CHR 34] @ '' encoding='' @ [CHR 34] @ ''UTF-8'' @ [CHR 34] @ ''?>'',
      ''<!DOCTYPE plist PUBLIC '' @ [CHR 34] @ ''-//Apple//DTD PLIST 1.0//EN'' @ [CHR 34],
      ''  '' @ [CHR 34] @ ''http://www.apple.com/DTDs/PropertyList-1.0.dtd'' @ [CHR 34] @ ''>'',
      ''<plist version='' @ [CHR 34] @ ''1.0'' @ [CHR 34] @ ''>'',
      ''<dict>'',
      ''    <key>Label</key>'',
      ''    <string>'' @ LAUNCHD_LABEL @ ''</string>'',
      ''    <key>ProgramArguments</key>'',
      ''    <array>'',
      ''        <string>'' @ show_path p @ ''</string>'',
      ''        <string>daemon</string>'',
      ''    </array>'',
      ''    <key>RunAtLoad</key>'',
      ''    <true/>'',
      ''    <key>KeepAlive</key>'',
      ''    <true/>'',
      ''    <key>StandardOutPath</key>'',
      ''    <string>'' @ show_path (log_dir m @ [''stdout.log'']) @ ''</string>'',
      ''    <key>StandardErrorPath</key>'',
      ''    <string>'' @ show_path (log_dir m @ [''stderr.log'']) @ ''</string>'',
      ''</dict>'',
      ''</plist>'']"

definition exec_start :: "path \<Rightarrow> string" where
  "exec_start p = ''ExecStart='' @ show_path p @ '' daemon''"

definition generate_systemd_unit :: "path \<Rightarrow> string" where
  "generate_systemd_unit p = text_lines
     [''[Unit]'', ''Description=Styrene Daemon'', ''After=network-online.target'', ''Wants=network-online.target'',
      [], ''[Service]'', ''Type=simple'', exec_start p, ''Restart=on-failure'', ''RestartSec=5'',
      [], ''[Install]'', ''WantedBy=default.target'']"

section \<open>Status\<close>

text \<open>Splitting at every character of a kind.\<close>

fun split_at :: "(char \<Rightarrow> bool) \<Rightarrow> string \<Rightarrow> string list" where
  "split_at f [] = [[]]"
| "split_at f (c # cs) =
     (if f c then [] # split_at f cs
      else case split_at f cs of [] \<Rightarrow> [[c]] | w # ws \<Rightarrow> (c # w) # ws)"

definition line_break :: "char \<Rightarrow> bool" where
  "line_break c \<longleftrightarrow> (of_char c :: nat) \<in> {10, 11, 12, 13, 28, 29, 30}"

definition ws_words :: "string \<Rightarrow> string list" where
  "ws_words s = filter (\<lambda>w. w \<noteq> []) (split_at is_strip_space s)"

definition rstrip_semicolons :: "string \<Rightarrow> string" where
  "rstrip_semicolons s = rev (dropWhile (\<lambda>c. c = CHR '';'') (rev s))"

definition digits_only :: "string \<Rightarrow> bool" where
  "digits_only s \<longleftrightarrow> s \<noteq> [] \<and> list_all (\<lambda>c. digit_value c \<noteq> None) s"

definition line_pid :: "string \<Rightarrow> int option" where
  "line_pid l =
     (if sublist ''PID'' l
      then (case find digits_only (map rstrip_semicolons (ws_words (rstrip_semicolons (py_strip l)))) of
              Some w \<Rightarrow> decimal w 0
            | None \<Rightarrow> None)
      else None)"

definition output_pid :: "string \<Rightarrow> int option" where
  "output_pid out = foldl (\<lambda>p l. case line_pid l of Some n \<Rightarrow> Some n | None \<Rightarrow> p) None (split_at line_break out)"

definition launchd_status :: "machine \<Rightarrow> fs \<Rightarrow> service_info \<times> command list" where
  "launchd_status m fs =
     (if \<not> path_exists fs (plist_path m) then (ServiceInfo LAUNCHD NOT_INSTALLED None None, [])
      else
        let c = [''launchctl'', ''list'', LAUNCHD_LABEL]; place = Some (plist_path m) in
        (case sm_run m c of
           Inl e \<Rightarrow> ServiceInfo LAUNCHD SERVICE_ERROR place (Some (sm_exn_text m e))
         | Inr (code, out, err) \<Rightarrow>
             if code \<noteq> 0 then ServiceInfo LAUNCHD INSTALLED_STOPPED place None
             else (ServiceInfo LAUNCHD SERVICE_RUNNING place None)\<lparr>si_pid := output_pid (sm_lossy m out)\<rparr>,
         [c]))"

definition systemd_status :: "machine \<Rightarrow> fs \<Rightarrow> service_info \<times> command list" where
  "systemd_status m fs =
     (if \<not> path_exists fs (unit_path m) then (ServiceInfo SYSTEMD NOT_INSTALLED None None, [])
      else
        let c = [''systemctl'', ''--user'', ''is-active'', SYSTEMD_UNIT_NAME]; place = Some (unit_path m) in
        (case sm_run m c of
           Inl e \<Rightarrow> ServiceInfo SYSTEMD SERVICE_ERROR place (Some (sm_exn_text m e))
         | Inr (code, out, err) \<Rightarrow>
             (case decode_utf8 out of
                Inl e \<Rightarrow> ServiceInfo SYSTEMD SERVICE_ERROR place (Some (sm_exn_text m e))
              | Inr s \<Rightarrow> ServiceInfo SYSTEMD (if py_strip s = ''active'' then SERVICE_RUNNING else INSTALLED_STOPPED) place None),
         [c]))"

definition platform_status :: "machine \<Rightarrow> fs \<Rightarrow> service_info \<times> command list" where
  "platform_status m fs =
     (case detect_platform m of
        LAUNCHD \<Rightarrow> launchd_status m fs
      | SYSTEMD \<Rightarrow> systemd_status m fs
      | UNSUPPORTED_PLATFORM \<Rightarrow> (ServiceInfo UNSUPPORTED_PLATFORM NOT_INSTALLED None None, []))"

section \<open>Installing\<close>

type_synonym service_result = "service_info \<times> fs \<times> command list"

text \<open>The status at the end, after the commands \<open>cs\<close>.\<close>

definition then_status :: "(service_info \<times> command list) \<Rightarrow> fs \<Rightarrow> command list \<Rightarrow> service_result" where
  "then_status st fs cs = (fst st, fs, cs @ snd st)"

definition load_failed :: "machine \<Rightarrow> string \<Rightarrow> bytes \<Rightarrow> string option" where
  "load_failed m what err = Some (what @ '' failed: '' @ py_strip (sm_lossy m err))"

text \<open>Directories, then the file; a failure leaves what has been made.\<close>

definition write_unit :: "machine \<Rightarrow> path list \<Rightarrow> path \<Rightarrow> string \<Rightarrow> fs \<Rightarrow> exn option \<times> fs" where
  "write_unit m dirs p content fs =
     (let (r, fs1) = foldl (\<lambda>(r, fs) d. case r of
             Some e \<Rightarrow> (Some e, fs)
           | None \<Rightarrow> (case mkdir_parents (sm_denied m) d fs of Inl e \<Rightarrow> (Some e, fs) | Inr fs1 \<Rightarrow> (None, fs1))) (None, fs) dirs in
      case r of
        Some e \<Rightarrow> (Some e, fs1)
      | None \<Rightarrow> (case write_file (sm_denied m) p (str_bytes content) fs1 of
                   Inl e \<Rightarrow> (Some e, fs1) | Inr fs2 \<Rightarrow> (None, fs2)))"

definition install_launchd :: "machine \<Rightarrow> path \<Rightarrow> fs \<Rightarrow> service_result" where
  "install_launchd m exe fs =
     (let p = plist_path m; c = [''launchctl'', ''load'', show_path p];
          failed = (\<lambda>e. ServiceInfo LAUNCHD SERVICE_ERROR (Some p) e) in
      case write_unit m [butlast p, log_dir m] p (generate_launchd_plist m exe) fs of
        (Some e, fs1) \<Rightarrow> (failed (Some (sm_exn_text m e)), fs1, [])
      | (None, fs1) \<Rightarrow>
          (case sm_run m c of
             Inl e \<Rightarrow> (failed (Some (sm_exn_text m e)), fs1, [c])
           | Inr (code, out, err) \<Rightarrow>
               if code \<noteq> 0 then (failed (load_failed m ''launchctl load'' err), fs1, [c])
               else then_status (launchd_status m fs1) fs1 [c]))"

definition install_systemd :: "machine \<Rightarrow> path \<Rightarrow> fs \<Rightarrow> service_result" where
  "install_systemd m exe fs =
     (let p = unit_path m; c1 = [''systemctl'', ''--user'', ''daemon-reload''];
          c2 = [''systemctl'', ''--user'', ''enable'', ''--now'', SYSTEMD_UNIT_NAME];
          failed = (\<lambda>e. ServiceInfo SYSTEMD SERVICE_ERROR (Some p) e) in
      case write_unit m [butlast p] p (generate_systemd_unit exe) fs of
        (Some e, fs1) \<Rightarrow> (failed (Some (sm_exn_text m e)), fs1, [])
      | (None, fs1) \<Rightarrow>
          (case sm_run m c1 of
             Inl e \<Rightarrow> (failed (Some (sm_exn_text m e)), fs1, [c1])
           | Inr _ \<Rightarrow>
               (case sm_run m c2 of
                  Inl e \<Rightarrow> (failed (Some (sm_exn_text m e)), fs1, [c1, c2])
                | Inr (code, out, err) \<Rightarrow>
                    if code \<noteq> 0 then (failed (load_failed m ''systemctl enable --now'' err), fs1, [c1, c2])
                    else then_status (systemd_status m fs1) fs1 [c1, c2])))"

definition install_service :: "machine \<Rightarrow> fs \<Rightarrow> service_result" where
  "install_service m fs =
     (case get_styrened_executable m fs of
        None \<Rightarrow> (ServiceInfo (detect_platform m) SERVICE_ERROR None (Some ''styrened executable not found''), fs, [])
      | Some exe \<Rightarrow>
          (case detect_platform m of
             LAUNCHD \<Rightarrow> install_launchd m exe fs
           | SYSTEMD \<Rightarrow> install_systemd m exe fs
           | UNSUPPORTED_PLATFORM \<Rightarrow>
               (ServiceInfo UNSUPPORTED_PLATFORM SERVICE_ERROR None
                  (Some ''Unsupported platform for service installation''), fs, [])))"

section \<open>Starting, stopping, restarting\<close>

definition unsupported :: "fs \<Rightarrow> service_result" where
  "unsupported fs = (ServiceInfo UNSUPPORTED_PLATFORM SERVICE_ERROR None (Some ''Unsupported platform''), fs, [])"

text \<open>One command whose exit code is not looked at; that it cannot be started is raised.\<close>

definition run_then_status ::
    "machine \<Rightarrow> command \<Rightarrow> (service_info \<times> command list) \<Rightarrow> fs \<Rightarrow> service_result res" where
  "run_then_status m c st fs = (case sm_run m c of Inl e \<Rightarrow> Inl e | Inr _ \<Rightarrow> Inr (then_status st fs [c]))"

definition start_service :: "machine \<Rightarrow> fs \<Rightarrow> service_result res" where
  "start_service m fs =
     (case detect_platform m of
        LAUNCHD \<Rightarrow> run_then_status m [''launchctl'', ''start'', LAUNCHD_LABEL] (launchd_status m fs) fs
      | SYSTEMD \<Rightarrow> run_then_status m [''systemctl'', ''--user'', ''start'', SYSTEMD_UNIT_NAME] (systemd_status m fs) fs
      | UNSUPPORTED_PLATFORM \<Rightarrow> Inr (unsupported fs))"

definition stop_service :: "machine \<Rightarrow> fs \<Rightarrow> service_result res" where
  "stop_service m fs =
     (case detect_platform m of
        LAUNCHD \<Rightarrow> run_then_status m [''launchctl'', ''stop'', LAUNCHD_LABEL] (launchd_status m fs) fs
      | SYSTEMD \<Rightarrow> run_then_status m [''systemctl'', ''--user'', ''stop'', SYSTEMD_UNIT_NAME] (systemd_status m fs) fs
      | UNSUPPORTED_PLATFORM \<Rightarrow> Inr (unsupported fs))"

definition restart_service :: "machine \<Rightarrow> fs \<Rightarrow> service_result res" where
  "restart_service m fs =
     (case detect_platform m of
        LAUNCHD \<Rightarrow>
          (let p = plist_path m; c1 = [''launchctl'', ''unload'', show_path p]; c2 = [''launchctl'', ''load'', show_path p] in
           if \<not> path_exists fs p
           then Inr (ServiceInfo LAUNCHD NOT_INSTALLED None (Some ''Service not installed''), fs, [])
           else case sm_run m c1 of
                  Inl e \<Rightarrow> Inl e
                | Inr _ \<Rightarrow>
                    (case sm_run m c2 of
                       Inl e \<Rightarrow> Inl e
                     | Inr (code, out, err) \<Rightarrow>
                         if code \<noteq> 0
                         then Inr (ServiceInfo LAUNCHD SERVICE_ERROR (Some p) (load_failed m ''launchctl load'' err), fs, [c1, c2])
                         else Inr (then_status (launchd_status m fs) fs [c1, c2])))
      | SYSTEMD \<Rightarrow>
          (let p = unit_path m; c = [''systemctl'', ''--user'', ''restart'', SYSTEMD_UNIT_NAME] in
           case sm_run m c of
             Inl e \<Rightarrow> Inl e
           | Inr (code, out, err) \<Rightarrow>
               if code \<noteq> 0
               then Inr (ServiceInfo SYSTEMD SERVICE_ERROR (Some p) (load_failed m ''systemctl restart'' err), fs, [c])
               else Inr (then_status (systemd_status m fs) fs [c]))
      | UNSUPPORTED_PLATFORM \<Rightarrow> Inr (unsupported fs))"

section \<open>Removing\<close>

definition uninstall_launchd :: "machine \<Rightarrow> fs \<Rightarrow> service_result" where
  "uninstall_launchd m fs =
     (let p = plist_path m; c = [''launchctl'', ''unload'', show_path p];
          failed = (\<lambda>e. ServiceInfo LAUNCHD SERVICE_ERROR None (Some (sm_exn_text m e))) in
      if \<not> path_exists fs p then (ServiceInfo LAUNCHD NOT_INSTALLED None None, fs, [])
      else case sm_run m c of
             Inl e \<Rightarrow> (failed e, fs, [c])
           | Inr _ \<Rightarrow>
               (case unlink (sm_denied m) p fs of
                  Inl e \<Rightarrow> (failed e, fs, [c])
                | Inr fs1 \<Rightarrow> (ServiceInfo LAUNCHD NOT_INSTALLED None None, fs1, [c])))"

definition uninstall_systemd :: "machine \<Rightarrow> fs \<Rightarrow> service_result" where
  "uninstall_systemd m fs =
     (let p = unit_path m; c1 = [''systemctl'', ''--user'', ''disable'', ''--now'', SYSTEMD_UNIT_NAME];
          c2 = [''systemctl'', ''--user'', ''daemon-reload''];
          failed = (\<lambda>e. ServiceInfo SYSTEMD SERVICE_ERROR None (Some (sm_exn_text m e))) in
      case sm_run m c1 of
        Inl e \<Rightarrow> (failed e, fs, [c1])
      | Inr _ \<Rightarrow>
          (case (if path_exists fs p then unlink (sm_denied m) p fs else Inr fs) of
             Inl e \<Rightarrow> (failed e, fs, [c1])
           | Inr fs1 \<Rightarrow>
               (case sm_run m c2 of
                  Inl e \<Rightarrow> (failed e, fs1, [c1, c2])
                | Inr _ \<Rightarrow> (ServiceInfo SYSTEMD NOT_INSTALLED None None, fs1, [c1, c2]))))"

definition uninstall_service :: "machine \<Rightarrow> fs \<Rightarrow> service_result" where
  "uninstall_service m fs =
     (case detect_platform m of
        LAUNCHD \<Rightarrow> uninstall_launchd m fs
      | SYSTEMD \<Rightarrow> uninstall_systemd m fs
      | UNSUPPORTED_PLATFORM \<Rightarrow> unsupported fs)"

section \<open>What installing and removing leave\<close>

lemma mkdirs_keep_files:
  "foldl (\<lambda>(r, fs) d. case r of
       Some e \<Rightarrow> (Some e, fs)
     | None \<Rightarrow> (case mkdir_parents deny d fs of Inl e \<Rightarrow> (Some e, fs) | Inr fs1 \<Rightarrow> (None, fs1))) (r0, fs) dirs = (r, fs')
   \<Longrightarrow> fs p \<noteq> None \<Longrightarrow> fs' p = fs p"
  by (induction dirs arbitrary: r0 fs) (auto simp: mkdir_parents_def split: option.splits sum.splits if_splits)

lemma mkdirs_no_links:
  "foldl (\<lambda>(r, fs) d. case r of
       Some e \<Rightarrow> (Some e, fs)
     | None \<Rightarrow> (case mkdir_parents deny d fs of Inl e \<Rightarrow> (Some e, fs) | Inr fs1 \<Rightarrow> (None, fs1))) (r0, fs) dirs = (r, fs')
   \<Longrightarrow> \<not> is_symlink fs p \<Longrightarrow> \<not> is_symlink fs' p"
proof (induction dirs arbitrary: r0 fs)
  case (Cons d dirs)
  have "\<not> is_symlink fs1 p" if "mkdir_parents deny d fs = Inr fs1" for fs1
    by (rule mkdir_no_link [OF that Cons.prems(2)])
  with Cons show ?case by (cases r0) (auto split: sum.splits)
qed simp

lemma write_unit_writes:
  assumes "write_unit m dirs p content fs = (None, fs')" "\<not> is_symlink fs p"
  shows "fs' p = Some (File (str_bytes content))"
proof -
  obtain r fs1 where f: "foldl (\<lambda>(r, fs) d. case r of
             Some e \<Rightarrow> (Some e, fs)
           | None \<Rightarrow> (case mkdir_parents (sm_denied m) d fs of Inl e \<Rightarrow> (Some e, fs) | Inr fs1 \<Rightarrow> (None, fs1))) (None, fs) dirs = (r, fs1)"
    by fastforce
  have "resolve fs1 p = p" by (rule resolve_no_link, rule mkdirs_no_links [OF f assms(2)])
  with assms(1) f show ?thesis
    by (auto simp: write_unit_def write_file_def Let_def split: option.splits sum.splits if_splits node.splits)
qed

lemma file_is_installed: "fs p = Some (File b) \<Longrightarrow> path_exists fs p"
  by (rule plain_file(2))

text \<open>
  An installation that reports no error has written the file, and what it reports is what asking for the
  status reports: the service is installed.
\<close>

lemma installed_is_installed:
  assumes "install_service m fs = (i, fs', cs)" "si_status i \<noteq> SERVICE_ERROR"
    and "\<not> is_symlink fs (plist_path m)" "\<not> is_symlink fs (unit_path m)"
  shows "i = fst (platform_status m fs') \<and> si_status i \<noteq> NOT_INSTALLED \<and>
    (\<exists>exe. get_styrened_executable m fs = Some exe \<and>
       (fs' (plist_path m) = Some (File (str_bytes (generate_launchd_plist m exe))) \<or>
        fs' (unit_path m) = Some (File (str_bytes (generate_systemd_unit exe)))))"
proof -
  obtain exe where e: "get_styrened_executable m fs = Some exe"
    using assms(1,2) by (auto simp: install_service_def ServiceInfo_def split: option.splits)
  show ?thesis
  proof (cases "detect_platform m")
    case LAUNCHD
    then have "install_launchd m exe fs = (i, fs', cs)" using assms(1) e by (simp add: install_service_def)
    then have w: "write_unit m [butlast (plist_path m), log_dir m] (plist_path m) (generate_launchd_plist m exe) fs = (None, fs')"
      and i: "i = fst (launchd_status m fs')"
      using assms(2)
      by (auto simp: install_launchd_def then_status_def ServiceInfo_def Let_def split: prod.splits option.splits sum.splits if_splits)
    note f = write_unit_writes [OF w assms(3)]
    have "path_exists fs' (plist_path m)" by (rule file_is_installed, rule f)
    then have "si_status (fst (launchd_status m fs')) \<noteq> NOT_INSTALLED"
      by (auto simp: launchd_status_def ServiceInfo_def Let_def split: sum.splits)
    with LAUNCHD i f e show ?thesis by (simp add: platform_status_def)
  next
    case SYSTEMD
    then have "install_systemd m exe fs = (i, fs', cs)" using assms(1) e by (simp add: install_service_def)
    then have w: "write_unit m [butlast (unit_path m)] (unit_path m) (generate_systemd_unit exe) fs = (None, fs')"
      and i: "i = fst (systemd_status m fs')"
      using assms(2)
      by (auto simp: install_systemd_def then_status_def ServiceInfo_def Let_def split: prod.splits option.splits sum.splits if_splits)
    note f = write_unit_writes [OF w assms(4)]
    have "path_exists fs' (unit_path m)" by (rule file_is_installed, rule f)
    then have "si_status (fst (systemd_status m fs')) \<noteq> NOT_INSTALLED"
      by (auto simp: systemd_status_def ServiceInfo_def Let_def split: sum.splits)
    with SYSTEMD i f e show ?thesis by (simp add: platform_status_def)
  next
    case UNSUPPORTED_PLATFORM
    with assms(1,2) e show ?thesis by (auto simp: install_service_def ServiceInfo_def)
  qed
qed

text \<open>A removal that reports no error has removed the file, and nothing is installed afterwards.\<close>

lemma removed_is_removed:
  assumes "uninstall_service m fs = (i, fs', cs)" "si_status i \<noteq> SERVICE_ERROR"
  shows "si_status (fst (platform_status m fs')) = NOT_INSTALLED"
proof -
  have gone: "\<not> path_exists fs1 p" if "unlink deny p fs = Inr fs1" for deny p fs1
  proof -
    have "fs1 p = None" using that by (auto simp: unlink_def split: option.splits node.splits if_splits)
    then show ?thesis by (simp add: path_exists_def resolve_no_link is_symlink_def)
  qed
  show ?thesis
  proof (cases "detect_platform m")
    case LAUNCHD
    then have "uninstall_launchd m fs = (i, fs', cs)" using assms(1) by (simp add: uninstall_service_def)
    then have "\<not> path_exists fs' (plist_path m)"
      using assms(2) gone
      by (auto simp: uninstall_launchd_def ServiceInfo_def Let_def split: sum.splits if_splits)
    with LAUNCHD show ?thesis by (simp add: platform_status_def launchd_status_def ServiceInfo_def)
  next
    case SYSTEMD
    then have "uninstall_systemd m fs = (i, fs', cs)" using assms(1) by (simp add: uninstall_service_def)
    then have "\<not> path_exists fs' (unit_path m)"
      using assms(2) gone
      by (auto simp: uninstall_systemd_def ServiceInfo_def Let_def split: sum.splits if_splits)
    with SYSTEMD show ?thesis by (simp add: platform_status_def systemd_status_def ServiceInfo_def)
  next
    case UNSUPPORTED_PLATFORM
    then show ?thesis by (simp add: platform_status_def ServiceInfo_def)
  qed
qed

text \<open>
  An installation that fails at its last command leaves the unit file, so the service counts as installed.
\<close>

lemma failed_install_stays_installed:
  assumes "detect_platform m = SYSTEMD" "get_styrened_executable m fs = Some exe" "\<not> is_symlink fs (unit_path m)"
    and "write_unit m [butlast (unit_path m)] (unit_path m) (generate_systemd_unit exe) fs = (None, fs1)"
    and "sm_run m [''systemctl'', ''--user'', ''daemon-reload''] = Inr x"
    and "sm_run m [''systemctl'', ''--user'', ''enable'', ''--now'', SYSTEMD_UNIT_NAME] = Inr (1, [], err)"
    and "sm_run m [''systemctl'', ''--user'', ''is-active'', SYSTEMD_UNIT_NAME] = Inr (code, [], err2)"
  shows "\<exists>i cs. install_service m fs = (i, fs1, cs) \<and> si_status i = SERVICE_ERROR \<and>
    si_status (fst (platform_status m fs1)) = INSTALLED_STOPPED"
proof -
  have "path_exists fs1 (unit_path m)" by (rule file_is_installed, rule write_unit_writes [OF assms(4,3)])
  moreover have "decode_utf8 [] = Inr []" "py_strip [] = []"
    by (simp_all add: decode_utf8_def bytes_str_def py_strip_def)
  ultimately show ?thesis
    using assms
    by (simp add: install_service_def install_systemd_def platform_status_def systemd_status_def ServiceInfo_def Let_def)
qed

text \<open>
  The unit names the program without quotes; systemd splits the line at spaces, so a path with a space in
  it is not one of the words.
\<close>

lemma split_at_parts: "w \<in> set (split_at f s) \<Longrightarrow> c \<in> set w \<Longrightarrow> \<not> f c"
proof (induction s arbitrary: w)
  case (Cons a s)
  show ?case
  proof (cases "f a \<or> split_at f s = []")
    case True
    with Cons show ?thesis by (auto split: if_splits)
  next
    case False
    then obtain v vs where v: "split_at f s = v # vs" by (cases "split_at f s") auto
    have v1: "\<not> f c" if "c \<in> set v" using Cons.IH [of v] v that by simp
    from False v Cons.prems(1) have "w = a # v \<or> w \<in> set vs" by simp
    then show ?thesis
    proof
      assume "w = a # v"
      with Cons.prems(2) False v1 show ?thesis by auto
    next
      assume "w \<in> set vs"
      with Cons.IH [of w] v Cons.prems(2) show ?thesis by simp
    qed
  qed
qed simp

lemma path_with_space_is_cut:
  assumes "CHR '' '' \<in> set (show_path p)"
  shows "show_path p \<notin> set (ws_words (exec_start p))"
proof
  assume "show_path p \<in> set (ws_words (exec_start p))"
  then have "show_path p \<in> set (split_at is_strip_space (exec_start p))" by (simp add: ws_words_def)
  from split_at_parts [OF this assms] show False by (simp add: is_strip_space_def is_space_def)
qed

end
