(* ===== verification/Daemon_Manager.thy ===== *)
theory Daemon_Manager
  imports Ipc_Bridge Service_Installer
begin

text \<open>
  How the terminal UI gets its daemon: the manager of the daemon process
  (\<^verbatim>\<open>src/styrened/tui/services/daemon_manager.py\<close>) and the lifecycle of the UI that uses it with a
  bridge (\<^verbatim>\<open>src/styrened/tui/services/app_lifecycle.py\<close>). What happens to a process is a trace; what
  the operating system and the daemon answer are arguments, one per poll where the code polls. The
  cancellation of the caller is the exception \<open>CallerCancelled\<close> that a ping can end with.
\<close>

section \<open>The manager\<close>

datatype daemon_mode = Managed | External | Fallback

definition detect_mode :: "service_status \<Rightarrow> daemon_mode" where
  "detect_mode st = (if st \<in> {SERVICE_RUNNING, INSTALLED_STOPPED} then External else Managed)"

definition SOCKET_POLL_TIMEOUT :: rat where "SOCKET_POLL_TIMEOUT = 15"
definition SOCKET_POLL_INTERVAL :: rat where "SOCKET_POLL_INTERVAL = 1 / 4"

datatype process_event = Spawned nat | Found_Exited nat | Terminated nat | Killed nat

text \<open>
  The task that watches the daemon: it counts failures in a row; a task that has ended is still the
  task of the manager.
\<close>

datatype health_task = Watching nat | Watch_Ended

record daemon_manager =
  dm_mode :: daemon_mode
  dm_process :: "nat option"
  dm_health :: "health_task option"
  dm_running :: bool
  dm_events :: "process_event list"

definition DaemonManager :: "daemon_mode \<Rightarrow> daemon_manager" where
  "DaemonManager mode =
     \<lparr>dm_mode = mode, dm_process = None, dm_health = None, dm_running = False, dm_events = []\<rparr>"

definition process_event :: "process_event \<Rightarrow> daemon_manager \<Rightarrow> daemon_manager" where
  "process_event e m = m\<lparr>dm_events := dm_events m @ [e]\<rparr>"

definition start_health_monitor :: "daemon_manager \<Rightarrow> daemon_manager" where
  "start_health_monitor m = (if dm_health m \<noteq> None then m else m\<lparr>dm_health := Some (Watching 0)\<rparr>)"

definition stop_health_monitor :: "daemon_manager \<Rightarrow> daemon_manager" where
  "stop_health_monitor m = m\<lparr>dm_health := None\<rparr>"

definition went_up :: "daemon_manager \<Rightarrow> daemon_manager" where
  "went_up m = start_health_monitor (m\<lparr>dm_running := True\<rparr>)"

text \<open>A ping: whether the socket exists, and the attempt of a client to connect and to be answered.\<close>

record probe =
  pr_socket :: bool
  pr_attempt :: attempt

definition two_second_ping :: "pyval ipc_call" where
  "two_second_ping = ping 2"

definition ping_daemon :: "msgpack \<Rightarrow> probe \<Rightarrow> bool ipc_res" where
  "ping_daemon mp p =
     (if \<not> pr_socket p then Inr False
      else case connect mp (a_opened (pr_attempt p)) (ControlClient 3) of
             (Inl e, s) \<Rightarrow> Inr False
           | (Inr _, s) \<Rightarrow> ping_result (fst (await_call mp (a_ping (pr_attempt p)) two_second_ping s)))"

text \<open>\<^verbatim>\<open>elapsed\<close> at the \<open>k\<close>-th turn of the loop is \<open>k\<close> times the interval, a sum of binary fractions.\<close>

datatype poll_result = Poll_Ready nat | Poll_Exited | Poll_Timeout | Poll_Raised ipc_failure

function poll_daemon :: "msgpack \<Rightarrow> (nat \<Rightarrow> bool) \<Rightarrow> (nat \<Rightarrow> probe) \<Rightarrow> nat \<Rightarrow> poll_result" where
  "poll_daemon mp exited ps k =
     (if of_nat k * SOCKET_POLL_INTERVAL < SOCKET_POLL_TIMEOUT
      then if exited k then Poll_Exited
           else case ping_daemon mp (ps k) of
                  Inl e \<Rightarrow> Poll_Raised e
                | Inr True \<Rightarrow> Poll_Ready k
                | Inr False \<Rightarrow> poll_daemon mp exited ps (Suc k)
      else Poll_Timeout)"
  by pat_completeness auto
termination
proof (relation "measure (\<lambda>(mp, exited, ps, k). 60 - k)")
  fix k :: nat
  assume "of_nat k * SOCKET_POLL_INTERVAL < SOCKET_POLL_TIMEOUT"
  then have "of_nat k < (of_nat 60 :: rat)" by (simp add: SOCKET_POLL_INTERVAL_def SOCKET_POLL_TIMEOUT_def)
  then have "k < 60" by (simp only: of_nat_less_iff)
  then show "((mp, exited, ps, Suc k), (mp, exited, ps, k)) \<in> measure (\<lambda>(mp, exited, ps, k). 60 - k)"
    for mp :: msgpack and exited :: "nat \<Rightarrow> bool" and ps :: "nat \<Rightarrow> probe" by simp
qed simp

declare poll_daemon.simps [simp del]

text \<open>
  How a process that is told to stop behaves: it ends on \<^verbatim>\<open>SIGTERM\<close> within the grace time, or on
  \<^verbatim>\<open>SIGKILL\<close> only; there is none to signal; or the signal cannot be sent. A wait returns when the
  process has ended.
\<close>

datatype exit_conduct = Exits | Ignores_Signal | Already_Gone | Signal_Fails

definition ended_by :: "exit_conduct \<Rightarrow> process_event \<Rightarrow> bool" where
  "ended_by how e = (case e of Terminated _ \<Rightarrow> how = Exits | Killed _ \<Rightarrow> True | _ \<Rightarrow> False)"

definition signal_and_wait :: "exit_conduct \<Rightarrow> process_event \<Rightarrow> nat \<Rightarrow> daemon_manager \<Rightarrow> bool \<times> daemon_manager" where
  "signal_and_wait how e p m =
     (let m1 = process_event e m in
      if ended_by how e then (True, process_event (Found_Exited p) m1) else (False, m1))"

definition stop_process :: "exit_conduct \<Rightarrow> daemon_manager \<Rightarrow> daemon_manager" where
  "stop_process how m =
     (case dm_process m of
        None \<Rightarrow> m
      | Some p \<Rightarrow>
          (case how of
             Already_Gone \<Rightarrow> process_event (Found_Exited p) m
           | Signal_Fails \<Rightarrow> m
           | _ \<Rightarrow>
               (let (ended, m1) = signal_and_wait how (Terminated p) p m in
                if ended then m1 else snd (signal_and_wait how (Killed p) p m1)))
          \<lparr>dm_process := None, dm_running := False\<rparr>)"

definition manager_shutdown :: "exit_conduct \<Rightarrow> daemon_manager \<Rightarrow> daemon_manager" where
  "manager_shutdown how m =
     (let m1 = stop_health_monitor m in
      if dm_mode m1 \<noteq> Managed \<or> dm_process m1 = None then m1\<lparr>dm_running := False\<rparr>
      else stop_process how m1)"

text \<open>\<open>sibling\<close>: the file next to the interpreter, if it is there; \<open>on_path\<close>: what \<^verbatim>\<open>PATH\<close> has.\<close>

definition find_styrened_binary :: "string option \<Rightarrow> string option \<Rightarrow> string option" where
  "find_styrened_binary sibling on_path = (case sibling of Some p \<Rightarrow> Some p | None \<Rightarrow> on_path)"

record spawn_outcomes =
  so_beside :: "string option"
  so_which :: "string option"
  so_process :: "nat option"
  so_exited :: "nat \<Rightarrow> bool"
  so_probes :: "nat \<Rightarrow> probe"
  so_stops :: exit_conduct

definition spawn :: "msgpack \<Rightarrow> spawn_outcomes \<Rightarrow> daemon_manager \<Rightarrow> bool ipc_res \<times> daemon_manager" where
  "spawn mp so m =
     (case find_styrened_binary (so_beside so) (so_which so) of
        None \<Rightarrow> (Inr False, m)
      | Some path \<Rightarrow>
          (case so_process so of
             None \<Rightarrow> (Inr False, m)
           | Some p \<Rightarrow>
               (let m1 = process_event (Spawned p) (m\<lparr>dm_process := Some p\<rparr>) in
                case poll_daemon mp (so_exited so) (so_probes so) 0 of
                  Poll_Ready _ \<Rightarrow> (Inr True, went_up m1)
                | Poll_Exited \<Rightarrow> (Inr False, (process_event (Found_Exited p) m1)\<lparr>dm_process := None\<rparr>)
                | Poll_Timeout \<Rightarrow> (Inr False, manager_shutdown (so_stops so) m1)
                | Poll_Raised e \<Rightarrow> (Inl e, m1))))"

definition ensure_running ::
    "msgpack \<Rightarrow> probe \<Rightarrow> spawn_outcomes \<Rightarrow> daemon_manager \<Rightarrow> bool ipc_res \<times> daemon_manager" where
  "ensure_running mp p so m =
     (if dm_mode m = Fallback then (Inr False, m)
      else case ping_daemon mp p of
             Inl e \<Rightarrow> (Inl e, m)
           | Inr True \<Rightarrow> (Inr True, went_up m)
           | Inr False \<Rightarrow> if dm_mode m = External then (Inr False, m) else spawn mp so m)"

text \<open>\<open>restarted\<close>: what the service manager reports of the restart.\<close>

record restart_outcomes =
  ro_restarted :: service_status
  ro_probes :: "nat \<Rightarrow> probe"
  ro_stops :: exit_conduct
  ro_first :: probe
  ro_spawn :: spawn_outcomes

definition restart :: "msgpack \<Rightarrow> restart_outcomes \<Rightarrow> daemon_manager \<Rightarrow> bool ipc_res \<times> daemon_manager" where
  "restart mp ro m =
     (if dm_mode m = External then
        (let m1 = (stop_health_monitor m)\<lparr>dm_running := False\<rparr> in
         if ro_restarted ro = SERVICE_ERROR then (Inr False, m1)
         else case poll_daemon mp (\<lambda>_. False) (ro_probes ro) 0 of
                Poll_Ready _ \<Rightarrow> (Inr True, went_up m1)
              | Poll_Raised e \<Rightarrow> (Inl e, m1)
              | _ \<Rightarrow> (Inr False, m1))
      else ensure_running mp (ro_first ro) (ro_spawn ro) (manager_shutdown (ro_stops ro) m))"

text \<open>One turn of the task that watches the daemon, after its sleep.\<close>

definition health_turn :: "msgpack \<Rightarrow> probe \<Rightarrow> daemon_manager \<Rightarrow> daemon_manager" where
  "health_turn mp p m =
     (case dm_health m of
        Some (Watching n) \<Rightarrow>
          (case ping_daemon mp p of
             Inl e \<Rightarrow> m\<lparr>dm_health := Some Watch_Ended\<rparr>
           | Inr True \<Rightarrow> m\<lparr>dm_health := Some (if dm_running m then Watching 0 else Watch_Ended)\<rparr>
           | Inr False \<Rightarrow>
               if 3 \<le> Suc n then m\<lparr>dm_running := False, dm_health := Some Watch_Ended\<rparr>
               else m\<lparr>dm_health := Some (if dm_running m then Watching (Suc n) else Watch_Ended)\<rparr>)
      | _ \<Rightarrow> m)"

section \<open>The lifecycle of the UI (\<^verbatim>\<open>app_lifecycle.py\<close>)\<close>

text \<open>\<open>tl_past\<close>: the managers that the lifecycle no longer holds, as it left them.\<close>

record tui_lifecycle =
  tl_initialized :: bool
  tl_active :: bool
  tl_manager :: "daemon_manager option"
  tl_bridge :: "bridge option"
  tl_past :: "daemon_manager list"

definition StyreneLifecycle :: tui_lifecycle where
  "StyreneLifecycle =
     \<lparr>tl_initialized = False, tl_active = False, tl_manager = None, tl_bridge = None, tl_past = []\<rparr>"

definition tui_initialize :: "tui_lifecycle \<Rightarrow> bool" where
  "tui_initialize l = tl_initialized l"

definition put_manager :: "daemon_manager option \<Rightarrow> tui_lifecycle \<Rightarrow> tui_lifecycle" where
  "put_manager m l =
     l\<lparr>tl_manager := m, tl_past := tl_past l @ (case tl_manager l of None \<Rightarrow> [] | Some x \<Rightarrow> [x])\<rparr>"

definition stop_manager :: "exit_conduct \<Rightarrow> tui_lifecycle \<Rightarrow> tui_lifecycle" where
  "stop_manager how l =
     (case tl_manager l of
        None \<Rightarrow> l
      | Some m \<Rightarrow> put_manager None (l\<lparr>tl_manager := Some (manager_shutdown how m)\<rparr>))"

definition stop_bridge :: "tui_lifecycle \<Rightarrow> tui_lifecycle" where
  "stop_bridge l = l\<lparr>tl_bridge := None\<rparr>"

record init_outcomes =
  io_probe :: probe
  io_spawn :: spawn_outcomes
  io_connect :: attempt
  io_stops :: exit_conduct

text \<open>The bridge of the UI has a timeout of 30 seconds, reconnects, and its lane is called \<^verbatim>\<open>control\<close>.\<close>

definition ui_bridge :: bridge where
  "ui_bridge = IPCBridge 30 True ''control''"

definition initialize_ipc :: "msgpack \<Rightarrow> init_outcomes \<Rightarrow> tui_lifecycle \<Rightarrow> bool ipc_res \<times> tui_lifecycle" where
  "initialize_ipc mp io l =
     (case ensure_running mp (io_probe io) (io_spawn io) (DaemonManager Managed) of
        (Inl e, m) \<Rightarrow> (Inl e, (put_manager (Some m) l))
      | (Inr False, m) \<Rightarrow> (Inr False, put_manager None (put_manager (Some m) l))
      | (Inr True, m) \<Rightarrow>
          (case bridge_connect mp (io_connect io) ui_bridge of
             (Inl CallerCancelled, b) \<Rightarrow> (Inl CallerCancelled, (put_manager (Some m) l)\<lparr>tl_bridge := Some b\<rparr>)
           | (Inl e, b) \<Rightarrow> (Inr False, stop_manager (io_stops io) (stop_bridge (put_manager (Some m) l)))
           | (Inr False, b) \<Rightarrow> (Inr False, stop_manager (io_stops io) (stop_bridge (put_manager (Some m) l)))
           | (Inr True, b) \<Rightarrow>
               (Inr True, (put_manager (Some m) l)\<lparr>tl_bridge := Some b, tl_initialized := True, tl_active := True\<rparr>)))"

definition initialize_async :: "msgpack \<Rightarrow> init_outcomes \<Rightarrow> tui_lifecycle \<Rightarrow> bool ipc_res \<times> tui_lifecycle" where
  "initialize_async mp io l = (if tl_initialized l then (Inr True, l) else initialize_ipc mp io l)"

text \<open>The synchronous shutdown keeps the bridge and the daemon.\<close>

definition tui_shutdown :: "tui_lifecycle \<Rightarrow> tui_lifecycle" where
  "tui_shutdown l = l\<lparr>tl_initialized := False\<rparr>"

definition shutdown_async :: "exit_conduct \<Rightarrow> tui_lifecycle \<Rightarrow> tui_lifecycle" where
  "shutdown_async how l =
     (if \<not> tl_initialized l then l
      else (stop_manager how (stop_bridge l))\<lparr>tl_initialized := False, tl_active := False\<rparr>)"

section \<open>Polling ends\<close>

lemma poll_daemon_ends:
  "k \<le> 60 \<Longrightarrow> poll_daemon mp exited ps k = Poll_Ready n \<Longrightarrow> k \<le> n \<and> n < 60"
proof (induction mp exited ps k rule: poll_daemon.induct)
  case (1 mp exited ps k)
  have "k < 60" if "of_nat k * SOCKET_POLL_INTERVAL < SOCKET_POLL_TIMEOUT"
  proof -
    from that have "of_nat k < (of_nat 60 :: rat)" by (simp add: SOCKET_POLL_INTERVAL_def SOCKET_POLL_TIMEOUT_def)
    then show ?thesis by (simp only: of_nat_less_iff)
  qed
  with 1 show ?case by (subst (asm) poll_daemon.simps) (fastforce split: if_splits sum.splits bool.splits)
qed

section \<open>Which processes are stopped\<close>

text \<open>The processes a manager has started and has not seen the end of.\<close>

definition still_there :: "daemon_manager \<Rightarrow> nat set" where
  "still_there m = {p. Spawned p \<in> set (dm_events m) \<and> Found_Exited p \<notin> set (dm_events m)}"

definition manager_inv :: "daemon_manager \<Rightarrow> bool" where
  "manager_inv m \<longleftrightarrow>
     (\<forall>p. dm_process m = Some p \<longrightarrow> Spawned p \<in> set (dm_events m) \<and> dm_mode m = Managed) \<and>
     (\<forall>p. Terminated p \<in> set (dm_events m) \<or> Killed p \<in> set (dm_events m) \<or> Found_Exited p \<in> set (dm_events m) \<longrightarrow>
          Spawned p \<in> set (dm_events m))"

lemmas manager_defs = manager_shutdown_def stop_health_monitor_def stop_process_def signal_and_wait_def ended_by_def process_event_def
  went_up_def start_health_monitor_def

lemma manager_inv_start: "manager_inv (DaemonManager mode)"
  by (simp add: manager_inv_def DaemonManager_def)

lemma manager_inv_shutdown: "manager_inv m \<Longrightarrow> manager_inv (manager_shutdown how m)"
  by (cases how) (auto simp: manager_inv_def manager_defs Let_def split: option.splits)

lemma manager_inv_up: "manager_inv m \<Longrightarrow> manager_inv (went_up m)"
  by (simp add: manager_inv_def manager_defs)

lemma manager_inv_spawn:
  assumes "manager_inv m" "dm_mode m = Managed"
  shows "manager_inv (snd (spawn mp so m))"
proof -
  have "manager_inv (process_event (Spawned p) (m\<lparr>dm_process := Some p\<rparr>))" for p
    using assms by (auto simp: manager_inv_def process_event_def)
  moreover have "manager_inv (process_event (Found_Exited p) (process_event (Spawned p) (m\<lparr>dm_process := Some p\<rparr>))\<lparr>dm_process := None\<rparr>)" for p
    using assms by (auto simp: manager_inv_def process_event_def)
  ultimately show ?thesis
    using assms(1)
    by (auto simp: spawn_def Let_def manager_inv_up manager_inv_shutdown split: option.splits poll_result.splits)
qed

lemma manager_inv_ensure: "manager_inv m \<Longrightarrow> manager_inv (snd (ensure_running mp p so m))"
  by (cases "dm_mode m")
    (auto simp: ensure_running_def manager_inv_up manager_inv_spawn split: sum.splits bool.splits)

lemma manager_inv_restart: "manager_inv m \<Longrightarrow> manager_inv (snd (restart mp ro m))"
  by (auto simp: restart_def Let_def manager_inv_ensure manager_inv_shutdown manager_inv_up
      split: poll_result.splits) (auto simp: manager_inv_def manager_defs)

lemma manager_inv_health: "manager_inv m \<Longrightarrow> manager_inv (health_turn mp p m)"
  by (auto simp: health_turn_def manager_inv_def split: option.splits health_task.splits sum.splits bool.splits)

datatype manager_op =
    Ensure probe spawn_outcomes
  | Shut exit_conduct
  | Restart restart_outcomes
  | Health probe

fun manager_step :: "msgpack \<Rightarrow> manager_op \<Rightarrow> daemon_manager \<Rightarrow> daemon_manager" where
  "manager_step mp (Ensure p so) m = snd (ensure_running mp p so m)"
| "manager_step mp (Shut how) m = manager_shutdown how m"
| "manager_step mp (Restart ro) m = snd (restart mp ro m)"
| "manager_step mp (Health p) m = health_turn mp p m"

definition manager_run :: "msgpack \<Rightarrow> manager_op list \<Rightarrow> daemon_manager \<Rightarrow> daemon_manager" where
  "manager_run mp ops m = foldl (\<lambda>m op. manager_step mp op m) m ops"

text \<open>Whatever the manager does, it signals only what it has started itself.\<close>

lemma manager_run_inv: "manager_inv m \<Longrightarrow> manager_inv (manager_run mp ops m)"
  unfolding manager_run_def
proof (induction ops arbitrary: m)
  case (Cons op ops)
  then show ?case
    by (cases op) (simp_all add: manager_inv_ensure manager_inv_shutdown manager_inv_restart manager_inv_health)
qed simp

lemma only_own_processes_signalled:
  assumes "Terminated p \<in> set (dm_events (manager_run mp ops (DaemonManager mode))) \<or>
    Killed p \<in> set (dm_events (manager_run mp ops (DaemonManager mode)))"
  shows "Spawned p \<in> set (dm_events (manager_run mp ops (DaemonManager mode)))"
  using manager_run_inv [OF manager_inv_start, of mp ops mode] assms by (auto simp: manager_inv_def)

section \<open>Starting and stopping the UI\<close>

text \<open>What a new manager has at the end of \<^verbatim>\<open>ensure_running\<close>.\<close>

lemma ensure_new_manager:
  assumes "so_stops so \<noteq> Signal_Fails"
  shows "(case ensure_running mp p so (DaemonManager Managed) of
      (Inr True, m) \<Rightarrow> dm_mode m = Managed \<and> dm_running m \<and> still_there m = set_option (dm_process m)
    | (Inr False, m) \<Rightarrow> still_there m = {} \<and> \<not> dm_running m
    | (Inl _, m) \<Rightarrow> True)"
  using assms
  by (cases "so_stops so")
    (auto simp: ensure_running_def spawn_def manager_defs still_there_def DaemonManager_def Let_def
      split: sum.splits bool.splits option.splits poll_result.splits)

lemma shutdown_stops_own:
  assumes "how \<noteq> Signal_Fails" "dm_mode m = Managed" "still_there m = set_option (dm_process m)"
  shows "still_there (manager_shutdown how m) = {}"
proof (cases "dm_process m")
  case None
  with assms(3) show ?thesis by (simp add: manager_defs still_there_def)
next
  case (Some p)
  with assms show ?thesis
    by (cases how) (auto simp: manager_defs still_there_def Let_def set_eq_iff)
qed

definition left_over :: "tui_lifecycle \<Rightarrow> nat set" where
  "left_over l = (\<Union>m \<in> set (tl_past l). still_there m) \<union>
     (case tl_manager l of None \<Rightarrow> {} | Some m \<Rightarrow> still_there m)"

text \<open>
  Claim C40. When the UI cannot start, it leaves no daemon process behind: if \<^verbatim>\<open>initialize_async\<close> returns
  \<^verbatim>\<open>False\<close>, every process that was started has been seen to end, by itself, on \<^verbatim>\<open>SIGTERM\<close> within the
  grace time, or else on \<^verbatim>\<open>SIGKILL\<close>; there is no manager and no bridge, and the UI counts as not
  started. When it does start, its manager is running and holds the only process that is there, and
  the shutdown then brings this one to its end; a daemon that was there before is not the
  manager's and is not stopped. This is when the operating system sends the signals it is asked to
  send: a process that cannot be signalled is forgotten. (When the caller is cancelled, nothing is
  claimed but that the UI does not count as started.)
\<close>

theorem ui_leaves_no_daemon:
  assumes "so_stops (io_spawn io) \<noteq> Signal_Fails" "io_stops io \<noteq> Signal_Fails" "how \<noteq> Signal_Fails"
  shows "case initialize_async mp io StyreneLifecycle of
      (Inl _, l) \<Rightarrow> \<not> tl_initialized l
    | (Inr False, l) \<Rightarrow> left_over l = {} \<and> tl_manager l = None \<and> tl_bridge l = None \<and> \<not> tl_initialized l
    | (Inr True, l) \<Rightarrow>
        (\<exists>m b. tl_manager l = Some m \<and> dm_running m \<and> tl_bridge l = Some b \<and> left_over l = set_option (dm_process m) \<and>
           (ping_daemon mp (io_probe io) = Inr True \<longrightarrow> dm_process m = None)) \<and>
        left_over (shutdown_async how l) = {} \<and> tl_manager (shutdown_async how l) = None \<and>
        tl_bridge (shutdown_async how l) = None"
proof -
  let ?e = "ensure_running mp (io_probe io) (io_spawn io) (DaemonManager Managed)"
  note new = ensure_new_manager [OF assms(1), of mp "io_probe io"]
  have found: "dm_process (snd ?e) = None" if "ping_daemon mp (io_probe io) = Inr True"
    using that by (simp add: ensure_running_def DaemonManager_def manager_defs)
  obtain r m where e: "?e = (r, m)" by (cases ?e)
  show ?thesis
  proof (cases r)
    case (Inl x)
    with e show ?thesis by (simp add: initialize_async_def initialize_ipc_def StyreneLifecycle_def put_manager_def)
  next
    case (Inr ok)
    show ?thesis
    proof (cases ok)
      case False
      with Inr e new show ?thesis
        by (simp add: initialize_async_def initialize_ipc_def StyreneLifecycle_def put_manager_def left_over_def)
    next
      case True
      with Inr e new have m: "dm_mode m = Managed" "dm_running m" "still_there m = set_option (dm_process m)" by auto
      note stops = shutdown_stops_own [OF _ m(1,3)]
      obtain c b where c: "bridge_connect mp (io_connect io) ui_bridge = (c, b)" by (cases "bridge_connect mp (io_connect io) ui_bridge")
      show ?thesis
        using e Inr True c m found stops [OF assms(2)] stops [OF assms(3)]
        by (cases c; cases "projl c"; cases "projr c")
          (simp_all add: initialize_async_def initialize_ipc_def StyreneLifecycle_def put_manager_def stop_manager_def
            stop_bridge_def left_over_def shutdown_async_def)
    qed
  qed
qed

definition no_probe :: probe where
  "no_probe = \<lparr>pr_socket = False, pr_attempt = \<lparr>a_opened = False, a_ping = still\<rparr>\<rparr>"

text \<open>A daemon that is started and has ended at the second poll.\<close>

definition short_lived :: init_outcomes where
  "short_lived = \<lparr>io_probe = no_probe,
     io_spawn = \<lparr>so_beside = None, so_which = Some ''/usr/bin/styrened'', so_process = Some 7,
       so_exited = (\<lambda>k. k = 1), so_probes = (\<lambda>k. no_probe), so_stops = Exits\<rparr>,
     io_connect = \<lparr>a_opened = False, a_ping = still\<rparr>, io_stops = Exits\<rparr>"

theorem ui_leaves_no_daemon_witness:
  "\<exists>l m. initialize_async (demo_pack []) short_lived StyreneLifecycle = (Inr False, l) \<and> tl_past l = [m] \<and>
     dm_events m = [Spawned 7, Found_Exited 7] \<and> left_over l = {} \<and> tl_manager l = None"
proof -
  have poll: "poll_daemon (demo_pack []) (\<lambda>k. k = 1) (\<lambda>k. no_probe) 0 = Poll_Exited"
    by (simp add: poll_daemon.simps [of _ _ _ 0] poll_daemon.simps [of _ _ _ "Suc 0"] ping_daemon_def no_probe_def
        SOCKET_POLL_INTERVAL_def SOCKET_POLL_TIMEOUT_def)
  obtain l m where i: "initialize_async (demo_pack []) short_lived StyreneLifecycle = (Inr False, l)" "tl_past l = [m]"
      "dm_events m = [Spawned 7, Found_Exited 7]"
    using poll
    by (simp add: initialize_async_def initialize_ipc_def StyreneLifecycle_def short_lived_def ensure_running_def
        DaemonManager_def ping_daemon_def no_probe_def spawn_def find_styrened_binary_def process_event_def put_manager_def)
  with ui_leaves_no_daemon [of short_lived Exits "demo_pack []"] show ?thesis
    by (simp add: short_lived_def)
qed

section \<open>Restarting and watching\<close>

text \<open>
  The UI always makes its manager in the managed mode. Its restart of a daemon that it has found running
  reports success and touches nothing: the same process goes on.
\<close>

lemma restart_of_found_daemon:
  assumes "dm_mode m = Managed" "dm_process m = None" "ping_daemon mp (ro_first ro) = Inr True"
  shows "\<exists>m'. restart mp ro m = (Inr True, m') \<and> dm_events m' = dm_events m"
  using assms by (simp add: restart_def ensure_running_def manager_defs Let_def)

text \<open>
  A watch that has ended, after three failures in a row, is not begun again when the daemon is back: the
  ended task still counts as the task.
\<close>

lemma watch_ends_after_three:
  assumes "dm_health m = Some (Watching 0)" "dm_running m"
    and "ping_daemon mp (ps (0::nat)) = Inr False" "ping_daemon mp (ps 1) = Inr False"
      "ping_daemon mp (ps 2) = Inr False"
  shows "dm_health (health_turn mp (ps 2) (health_turn mp (ps 1) (health_turn mp (ps 0) m))) = Some Watch_Ended \<and>
    \<not> dm_running (health_turn mp (ps 2) (health_turn mp (ps 1) (health_turn mp (ps 0) m)))"
  using assms by (simp add: health_turn_def)

lemma watch_not_begun_again:
  assumes "dm_health m = Some Watch_Ended" "dm_mode m \<noteq> Fallback" "ping_daemon mp p = Inr True"
  shows "\<exists>m'. ensure_running mp p so m = (Inr True, m') \<and> dm_running m' \<and> (\<forall>q. health_turn mp q m' = m')"
  using assms by (simp add: ensure_running_def manager_defs health_turn_def)

text \<open>
  A daemon that does not answer is replaced without being stopped: the manager forgets its process.
\<close>

lemma silent_daemon_forgotten:
  assumes "dm_mode m = Managed" "dm_process m = Some p" "ping_daemon mp pr = Inr False"
    and "find_styrened_binary (so_beside so) (so_which so) = Some path" "so_process so = Some q"
    and "poll_daemon mp (so_exited so) (so_probes so) 0 = Poll_Ready k"
    and "p \<noteq> q" "Terminated p \<notin> set (dm_events m)"
  shows "\<exists>m'. ensure_running mp pr so m = (Inr True, m') \<and> dm_process m' = Some q \<and>
    Terminated p \<notin> set (dm_events (manager_shutdown how m'))"
  using assms by (cases how) (auto simp: ensure_running_def spawn_def manager_defs Let_def)

end
