(* ===== verification/Device_Cache.thy ===== *)
theory Device_Cache
  imports Ui_State Ipc_Bridge Discovery "HOL-Library.Char_ord" "HOL-Library.List_Lexorder"
begin

text \<open>
  The devices that the screens of the terminal UI show
  (\<^verbatim>\<open>src/styrened/tui/services/device_cache.py\<close>, with the conversion of
  \<^verbatim>\<open>src/styrened/tui/utils.py\<close>): the list that was fetched last, when it is fetched again, and who is
  told. The application's timers are numbers; its callbacks run in steps of their own, as the loop calls
  them. A device is what the daemon sent, so its fields are values of any type.
\<close>

section \<open>Devices as the UI has them\<close>

record ui_device =
  ud_destination_hash :: pyval
  ud_identity_hash :: pyval
  ud_name :: pyval
  ud_type :: device_type
  ud_last_announce :: pyval
  ud_announce_count :: pyval
  ud_capabilities :: "string list option"
  ud_version :: pyval
  ud_lxmf_destination_hash :: pyval
  ud_short_name :: pyval
  ud_system_fingerprint :: pyval
  ud_nomadnet_destination_hash :: pyval
  ud_discovered_via :: pyval
  ud_hops :: pyval
  ud_ygg_address :: pyval
  ud_b32_address :: pyval
  ud_web_url :: pyval

definition type_or_unknown :: "pyval \<Rightarrow> device_type" where
  "type_or_unknown v =
     (case v of PStr s \<Rightarrow> (case device_type_of s of Inr t \<Rightarrow> t | Inl _ \<Rightarrow> UNKNOWN) | _ \<Rightarrow> UNKNOWN)"

definition device_info_to_mesh :: "DeviceInfo \<Rightarrow> ui_device" where
  "device_info_to_mesh i =
     \<lparr>ud_destination_hash = di_destination_hash i, ud_identity_hash = di_identity_hash i, ud_name = di_name i,
      ud_type = type_or_unknown (di_device_type i), ud_last_announce = di_last_announce i,
      ud_announce_count = di_announce_count i, ud_capabilities = None, ud_version = PNone,
      ud_lxmf_destination_hash = di_lxmf_destination_hash i, ud_short_name = di_short_name i,
      ud_system_fingerprint = di_system_fingerprint i, ud_nomadnet_destination_hash = PNone,
      ud_discovered_via = di_discovered_via i, ud_hops = di_hops i, ud_ygg_address = PNone,
      ud_b32_address = PNone, ud_web_url = PNone\<rparr>"

definition str_value :: "string option \<Rightarrow> pyval" where
  "str_value x = (case x of None \<Rightarrow> PNone | Some s \<Rightarrow> PStr s)"

definition ui_device_of :: "mesh_device \<Rightarrow> ui_device" where
  "ui_device_of d =
     \<lparr>ud_destination_hash = PStr (mesh_device.destination_hash d), ud_identity_hash = PStr (identity_hash d),
      ud_name = PStr (dev_name d), ud_type = mesh_device.device_type d, ud_last_announce = PInt (last_announce d),
      ud_announce_count = PInt (announce_count d), ud_capabilities = capabilities d,
      ud_version = str_value (dev_version d), ud_lxmf_destination_hash = str_value (lxmf_destination_hash d),
      ud_short_name = str_value (mesh_device.short_name d), ud_system_fingerprint = str_value (system_fingerprint d),
      ud_nomadnet_destination_hash = str_value (nomadnet_destination_hash d),
      ud_discovered_via = str_value (discovered_via d),
      ud_hops = (case hops d of None \<Rightarrow> PNone | Some n \<Rightarrow> PInt n), ud_ygg_address = str_value (ygg_address d),
      ud_b32_address = str_value (b32_address d), ud_web_url = str_value (web_url d)\<rparr>"

section \<open>The cache\<close>

text \<open>
  \<open>dc_app\<close>: attached to an application; \<open>dc_live\<close>: the interval timers that the application still
  fires; \<open>dc_posts\<close>: the lists that were posted to it; \<open>dc_next\<close>: the number of the next timer.
\<close>

record device_cache =
  dc_bridge :: "bridge option"
  dc_devices :: "ui_device list"
  dc_app :: bool
  dc_timer :: "nat option"
  dc_prime_timer :: "nat option"
  dc_live :: "nat set"
  dc_primes :: "nat set"
  dc_next :: nat
  dc_posts :: "ui_device list list"

definition DeviceCache :: "bridge option \<Rightarrow> device_cache" where
  "DeviceCache b =
     \<lparr>dc_bridge = b, dc_devices = [], dc_app = False, dc_timer = None, dc_prime_timer = None, dc_live = {},
      dc_primes = {}, dc_next = 0, dc_posts = []\<rparr>"

definition cache_stop :: "device_cache \<Rightarrow> device_cache" where
  "cache_stop c =
     (let c1 = (case dc_prime_timer c of
                  None \<Rightarrow> c
                | Some t \<Rightarrow> c\<lparr>dc_primes := dc_primes c - {t}, dc_prime_timer := None\<rparr>) in
      (case dc_timer c1 of
         None \<Rightarrow> c1
       | Some t \<Rightarrow> c1\<lparr>dc_live := dc_live c1 - {t}, dc_timer := None\<rparr>))"

text \<open>After this the application calls \<open>schedule_initial_load\<close> once it has painted.\<close>

definition cache_start :: "device_cache \<Rightarrow> device_cache" where
  "cache_start c = (cache_stop c)\<lparr>dc_app := True\<rparr>"

definition update_bridge :: "bridge option \<Rightarrow> device_cache \<Rightarrow> device_cache" where
  "update_bridge b c = c\<lparr>dc_bridge := b\<rparr>"

definition cached :: "device_cache \<Rightarrow> ui_device list" where
  "cached c = dc_devices c"

definition get_styrene :: "device_cache \<Rightarrow> ui_device list" where
  "get_styrene c = filter (\<lambda>d. ud_type d = STYRENE_NODE) (dc_devices c)"

definition get_by_hash :: "string \<Rightarrow> device_cache \<Rightarrow> ui_device option" where
  "get_by_hash h c = find (\<lambda>d. py_eq (ud_destination_hash d) (PStr h)) (dc_devices c)"

definition schedule_initial_load :: "device_cache \<Rightarrow> device_cache" where
  "schedule_initial_load c =
     (if \<not> dc_app c then c
      else c\<lparr>dc_prime_timer := Some (dc_next c), dc_primes := insert (dc_next c) (dc_primes c), dc_next := Suc (dc_next c)\<rparr>)"

text \<open>The timer \<open>t\<close> fires; with the second result the application starts a worker for the first load.\<close>

definition run_initial_refresh :: "nat \<Rightarrow> device_cache \<Rightarrow> device_cache \<times> bool" where
  "run_initial_refresh t c =
     (if t \<notin> dc_primes c then (c, False)
      else (c\<lparr>dc_primes := dc_primes c - {t}, dc_prime_timer := None\<rparr>, dc_app c))"

section \<open>Refreshing\<close>

fun hashable_value :: "pyval \<Rightarrow> bool" where
  "hashable_value (PList _) = False"
| "hashable_value (PDict _) = False"
| "hashable_value _ = True"

definition shown_fields :: "ui_device \<Rightarrow> pyval list" where
  "shown_fields d =
     [ud_destination_hash d, ud_name d, ud_last_announce d, ud_announce_count d, ud_hops d, ud_version d,
      ud_lxmf_destination_hash d, ud_short_name d, ud_system_fingerprint d, ud_nomadnet_destination_hash d,
      ud_discovered_via d, ud_ygg_address d, ud_b32_address d, ud_web_url d]"

definition sorted_capabilities :: "ui_device \<Rightarrow> string list option" where
  "sorted_capabilities d =
     (case ud_capabilities d of None \<Rightarrow> None | Some cs \<Rightarrow> if cs = [] then None else Some (sort cs))"

text \<open>Equality of the fingerprints of two devices.\<close>

definition same_fingerprint :: "ui_device \<Rightarrow> ui_device \<Rightarrow> bool" where
  "same_fingerprint d e \<longleftrightarrow>
     list_all2 py_eq (shown_fields d) (shown_fields e) \<and> ud_type d = ud_type e \<and>
     sorted_capabilities d = sorted_capabilities e"

text \<open>A set of fingerprints is built only of hashable ones.\<close>

definition list_changed :: "ui_device list \<Rightarrow> device_cache \<Rightarrow> bool res" where
  "list_changed new c =
     (if length new \<noteq> length (dc_devices c) then Inr True
      else if \<not> list_all (\<lambda>d. list_all hashable_value (shown_fields d)) (dc_devices c @ new) then Inl TypeError
      else Inr (\<not> (list_all (\<lambda>d. list_ex (same_fingerprint d) new) (dc_devices c) \<and>
                   list_all (\<lambda>d. list_ex (same_fingerprint d) (dc_devices c)) new)))"

text \<open>\<^verbatim>\<open>seen[d.destination_hash] = d\<close> for each device, and the values.\<close>

fun put_device :: "ui_device \<Rightarrow> ui_device list \<Rightarrow> ui_device list" where
  "put_device d [] = [d]"
| "put_device d (e # es) =
     (if py_eq (ud_destination_hash e) (ud_destination_hash d) then d # es else e # put_device d es)"

definition last_of_each :: "ui_device list \<Rightarrow> ui_device list res" where
  "last_of_each ds =
     (if list_all (\<lambda>d. hashable_value (ud_destination_hash d)) ds then Inr (foldl (\<lambda>es d. put_device d es) [] ds)
      else Inl TypeError)"

definition post_update :: "ui_device list \<Rightarrow> device_cache \<Rightarrow> device_cache" where
  "post_update ds c = (if dc_app c then c\<lparr>dc_posts := dc_posts c @ [ds]\<rparr> else c)"

text \<open>
  The end of a refresh, when the devices are there or the fetch has failed: \<open>Inl None\<close> is an exception
  that is caught, \<open>Inl (Some e)\<close> one that is not.
\<close>

definition refresh_end :: "(ipc_failure option + ui_device list) \<Rightarrow> device_cache \<Rightarrow> unit ipc_res \<times> device_cache" where
  "refresh_end fetched c =
     (case fetched of
        Inl None \<Rightarrow> (Inr (), c)
      | Inl (Some e) \<Rightarrow> (Inl e, c)
      | Inr ds \<Rightarrow>
          (case last_of_each ds of
             Inl e \<Rightarrow> (Inl (Raised e), c)
           | Inr new \<Rightarrow>
               (case list_changed new c of
                  Inl e \<Rightarrow> (Inl (Raised e), c)
                | Inr False \<Rightarrow> (Inr (), c)
                | Inr True \<Rightarrow> (Inr (), post_update new (c\<lparr>dc_devices := new\<rparr>)))))"

definition fetch :: "msgpack \<Rightarrow> conduct \<Rightarrow> announce_handler option \<Rightarrow> device_cache \<Rightarrow>
    (ipc_failure option + ui_device list) \<times> device_cache" where
  "fetch mp w handler c =
     (case dc_bridge c of
        None \<Rightarrow> (Inr (map ui_device_of (discover_devices handler)), c)
      | Some b \<Rightarrow>
          (case get_devices mp w False b of
             (Inl CallerCancelled, b1) \<Rightarrow> (Inl (Some CallerCancelled), c\<lparr>dc_bridge := Some b1\<rparr>)
           | (Inl e, b1) \<Rightarrow> (Inl None, c\<lparr>dc_bridge := Some b1\<rparr>)
           | (Inr infos, b1) \<Rightarrow> (Inr (map device_info_to_mesh infos), c\<lparr>dc_bridge := Some b1\<rparr>)))"

definition cache_refresh :: "msgpack \<Rightarrow> conduct \<Rightarrow> announce_handler option \<Rightarrow> device_cache \<Rightarrow> unit ipc_res \<times> device_cache" where
  "cache_refresh mp w handler c = (case fetch mp w handler c of (r, c1) \<Rightarrow> refresh_end r c1)"

text \<open>The first load once its refresh is done: the interval timer is set if there is none.\<close>

definition initial_load_end :: "(ipc_failure option + ui_device list) \<Rightarrow> device_cache \<Rightarrow> unit ipc_res \<times> device_cache" where
  "initial_load_end fetched c =
     (case refresh_end fetched c of
        (Inl e, c1) \<Rightarrow> (Inl e, c1)
      | (Inr _, c1) \<Rightarrow>
          (Inr (),
           if dc_app c1 \<and> dc_timer c1 = None
           then c1\<lparr>dc_timer := Some (dc_next c1), dc_live := insert (dc_next c1) (dc_live c1), dc_next := Suc (dc_next c1)\<rparr>
           else c1))"

text \<open>Whether a timer that fires, the interval timer or the one of the follow-up, starts a refresh.\<close>

definition on_timer :: "device_cache \<Rightarrow> bool" where
  "on_timer c = dc_app c"

section \<open>What the cache keeps\<close>

lemma py_eq_hashable:
  "hashable_value v \<Longrightarrow> py_eq v w \<longleftrightarrow> v = w \<or> number v \<noteq> None \<and> number v = number w"
  by (cases v; cases w) simp_all

definition apart :: "ui_device list \<Rightarrow> bool" where
  "apart ds \<longleftrightarrow> sorted_wrt (\<lambda>d e. \<not> py_eq (ud_destination_hash d) (ud_destination_hash e)) ds"

lemma put_device_members: "set (put_device d es) \<subseteq> insert d (set es)"
  by (induction es) auto

lemma put_device_apart:
  assumes "list_all (\<lambda>e. hashable_value (ud_destination_hash e)) (d # es)" "apart es"
  shows "apart (put_device d es)"
  using assms
proof (induction es)
  case (Cons e es)
  show ?case
  proof (cases "py_eq (ud_destination_hash e) (ud_destination_hash d)")
    case True
    with Cons.prems show ?thesis by (auto simp: apart_def list_all_iff py_eq_hashable)
  next
    case False
    with Cons put_device_members [of d es] show ?thesis by (auto simp: apart_def list_all_iff)
  qed
qed (simp add: apart_def)

text \<open>No two devices of the cache share a destination.\<close>

lemma last_of_each_apart:
  assumes "last_of_each ds = Inr es"
  shows "apart es \<and> list_all (\<lambda>e. hashable_value (ud_destination_hash e)) es \<and> set es \<subseteq> set ds"
proof -
  have "apart (foldl (\<lambda>es d. put_device d es) es ds) \<and>
      list_all (\<lambda>e. hashable_value (ud_destination_hash e)) (foldl (\<lambda>es d. put_device d es) es ds) \<and>
      set (foldl (\<lambda>es d. put_device d es) es ds) \<subseteq> set ds \<union> set es"
    if "list_all (\<lambda>e. hashable_value (ud_destination_hash e)) (ds @ es)" "apart es" for ds es
    using that
  proof (induction ds arbitrary: es)
    case (Cons d ds)
    have "list_all (\<lambda>e. hashable_value (ud_destination_hash e)) (ds @ put_device d es)"
      using Cons.prems(1) put_device_members [of d es] by (auto simp: list_all_iff)
    moreover have "apart (put_device d es)" using Cons.prems by (auto intro!: put_device_apart)
    ultimately show ?case using Cons.IH [of "put_device d es"] put_device_members [of d es] by fastforce
  qed simp
  from this [of ds "[]"] assms show ?thesis by (auto simp: last_of_each_def apart_def split: if_splits)
qed

text \<open>A failed fetch keeps the devices; a refresh that finds the same tells nobody.\<close>

lemma failed_fetch_keeps_devices: "refresh_end (Inl x) c = (r, c') \<Longrightarrow> c' = c"
  by (auto simp: refresh_end_def split: option.splits)

lemma posted_is_cached:
  assumes "refresh_end f c = (r, c')" "dc_app c"
  shows "dc_posts c' = dc_posts c \<and> dc_devices c' = dc_devices c \<or> dc_posts c' = dc_posts c @ [dc_devices c']"
  using assms by (auto simp: refresh_end_def post_update_def split: sum.splits option.splits bool.splits)

lemma same_fingerprint_refl:
  "list_all hashable_value (shown_fields d) \<Longrightarrow> same_fingerprint d d"
  by (auto simp: same_fingerprint_def list_all2_same list_all_iff py_eq_hashable)

lemma cached_list_unchanged: "dc_devices c = new \<Longrightarrow> list_changed new c \<in> {Inr False, Inl TypeError}"
  by (auto simp: list_changed_def list_all_iff list_ex_iff intro!: bexI same_fingerprint_refl)

lemma second_refresh_is_silent:
  assumes "refresh_end (Inr ds) c = (Inr (), c1)" "dc_devices c1 \<noteq> dc_devices c"
  shows "snd (refresh_end (Inr ds) c1) = c1"
proof -
  from assms obtain new where "last_of_each ds = Inr new" "dc_devices c1 = new"
    by (auto simp: refresh_end_def post_update_def split: sum.splits bool.splits if_splits)
  with cached_list_unchanged [of c1 new] show ?thesis by (auto simp: refresh_end_def)
qed

text \<open>
  What the daemon knows of a device's version, capabilities, pages and addresses does not reach the cache
  through the bridge, although the fingerprint compares them.
\<close>

lemma bridge_devices_lack_details:
  assumes "dc_bridge c \<noteq> None" "fetch mp w h c = (Inr ds, c')" "d \<in> set ds"
  shows "ud_version d = PNone \<and> ud_capabilities d = None \<and> ud_nomadnet_destination_hash d = PNone \<and>
    ud_ygg_address d = PNone \<and> ud_b32_address d = PNone \<and> ud_web_url d = PNone"
  using assms by (auto simp: fetch_def device_info_to_mesh_def split: prod.splits sum.splits ipc_failure.splits)

section \<open>Timers\<close>

datatype cache_op =
    Cache_Start | Cache_Stop | Painted | Prime_Fires nat
  | Load_Ends "ipc_failure option + ui_device list"
  | Refresh_Ends "ipc_failure option + ui_device list"

fun cache_step :: "cache_op \<Rightarrow> device_cache \<Rightarrow> device_cache" where
  "cache_step Cache_Start c = cache_start c"
| "cache_step Cache_Stop c = cache_stop c"
| "cache_step Painted c = schedule_initial_load c"
| "cache_step (Prime_Fires t) c = fst (run_initial_refresh t c)"
| "cache_step (Load_Ends f) c = snd (initial_load_end f c)"
| "cache_step (Refresh_Ends f) c = snd (refresh_end f c)"

lemma refresh_end_timers [simp]:
  "dc_live (snd (refresh_end f c)) = dc_live c" "dc_timer (snd (refresh_end f c)) = dc_timer c"
  "dc_app (snd (refresh_end f c)) = dc_app c"
  by (auto simp: refresh_end_def post_update_def split: sum.splits option.splits bool.splits)

text \<open>However starts, stops and loads follow each other, there is one interval timer at most.\<close>

lemma one_interval_timer:
  "dc_live (foldl (\<lambda>c op. cache_step op c) (DeviceCache b) ops) =
   set_option (dc_timer (foldl (\<lambda>c op. cache_step op c) (DeviceCache b) ops))"
proof (induction ops rule: rev_induct)
  case (snoc op ops)
  let ?c = "foldl (\<lambda>c op. cache_step op c) (DeviceCache b) ops"
  have stop: "dc_live (cache_stop ?c) = set_option (dc_timer (cache_stop ?c))"
    using snoc by (auto simp: cache_stop_def Let_def split: option.splits)
  show ?case
  proof (cases op)
    case (Load_Ends f)
    have "dc_live (snd (refresh_end f ?c)) = set_option (dc_timer (snd (refresh_end f ?c)))" using snoc by simp
    then show ?thesis using Load_Ends
      by (cases "refresh_end f ?c") (auto simp: initial_load_end_def split: sum.splits)
  qed (use snoc stop in \<open>auto simp: cache_start_def schedule_initial_load_def run_initial_refresh_def\<close>)
qed (simp add: DeviceCache_def)

text \<open>
  Stopping does not detach the application, so a first load that is under way sets the interval timer
  after the stop: the cache goes on refreshing.
\<close>

lemma stopped_cache_goes_on:
  assumes "dc_app c"
  shows "\<exists>t. dc_timer (snd (initial_load_end (Inl None) (cache_stop c))) = Some t \<and>
    t \<in> dc_live (snd (initial_load_end (Inl None) (cache_stop c))) \<and>
    on_timer (snd (initial_load_end (Inl None) (cache_stop c)))"
  using assms
  by (auto simp: initial_load_end_def refresh_end_def cache_stop_def on_timer_def Let_def split: option.splits)

end
