(* ===== verification/Cop_Situation.thy ===== *)
theory Cop_Situation
  imports Ui_State "HOL-Library.Char_ord" "HOL-Library.List_Lexorder"
begin

text \<open>
  What the Home screen reports of the mesh: the tracker of situations
  (\<^verbatim>\<open>src/styrened/tui/models/cop_situation.py\<close>), the states of the adapters
  (\<^verbatim>\<open>src/styrened/tui/models/adapter_status.py\<close>), and how the screen feeds them the events of the
  daemon (\<^verbatim>\<open>src/styrened/tui/screens/dashboard.py\<close>). The clock is an argument; \<open>fmt\<close> is the text
  that Python makes of a value in a formatted text.
\<close>

section \<open>Transports\<close>

definition long_dash :: string where "long_dash = bytes_text [0xE2, 0x80, 0x94]"
definition right_arrow :: string where "right_arrow = bytes_text [0xE2, 0x86, 0x92]"

definition TRANSPORT_LABELS :: "(string \<times> string) list" where
  "TRANSPORT_LABELS =
     [(''TCPClientInterface'', ''TCP''), (''TCPServerInterface'', ''TCP''), (''AutoInterface'', ''Auto''),
      (''RNodeInterface'', ''RNode''), (''I2PInterface'', ''I2P''), (''YggdrasilInterface'', ''Ygg''),
      (''UDPInterface'', ''UDP''), (''SerialInterface'', ''SER''), (''KISSInterface'', ''KISS''),
      (''PipeInterface'', ''Pipe''), (''MeshtasticBridge'', ''Mesh'')]"

text \<open>\<^verbatim>\<open>s.split(sep)[0]\<close>.\<close>

fun before_sep :: "string \<Rightarrow> string \<Rightarrow> string" where
  "before_sep sep [] = []"
| "before_sep sep (c # cs) = (if prefix sep (c # cs) then [] else c # before_sep sep cs)"

definition transport_label :: "string option \<Rightarrow> string" where
  "transport_label via =
     (case via of
        None \<Rightarrow> long_dash
      | Some s \<Rightarrow>
          if s = [] then long_dash
          else (let pre = py_strip (before_sep '' '' (before_sep ('' '' @ right_arrow @ '' '') s)) in
                case map_of TRANSPORT_LABELS pre of
                  Some l \<Rightarrow> l
                | None \<Rightarrow> if pre = [] then long_dash else py_take 4 pre))"

section \<open>Situations\<close>

datatype situation_priority = ANOMALY | ACTIONABLE | FILE_EVENT | SECURITY | HUB_STATE | INFO

primrec priority_value :: "situation_priority \<Rightarrow> int" where
  "priority_value ANOMALY = 0"
| "priority_value ACTIONABLE = 1"
| "priority_value FILE_EVENT = 2"
| "priority_value SECURITY = 3"
| "priority_value HUB_STATE = 4"
| "priority_value INFO = 5"

primrec situation_icon :: "situation_priority \<Rightarrow> string" where
  "situation_icon ANOMALY = bytes_text [0xE2, 0x96, 0xB2]"
| "situation_icon ACTIONABLE = bytes_text [0xE2, 0x9C, 0x89]"
| "situation_icon FILE_EVENT = bytes_text [0xE2, 0x97, 0x87]"
| "situation_icon SECURITY = bytes_text [0xE2, 0x97, 0x86]"
| "situation_icon HUB_STATE = bytes_text [0xE2, 0x97, 0x8F]"
| "situation_icon INFO = bytes_text [0xE2, 0x97, 0x8F]"

record situation_line =
  sl_priority :: situation_priority
  sl_message :: string
  sl_tag :: string
  sl_dim :: bool

definition plain_line :: "situation_priority \<Rightarrow> string \<Rightarrow> situation_line" where
  "plain_line p msg = \<lparr>sl_priority = p, sl_message = msg, sl_tag = long_dash, sl_dim = False\<rparr>"

definition MAX_SITUATIONS :: nat where "MAX_SITUATIONS = 6"
definition EPHEMERAL_TTL :: rat where "EPHEMERAL_TTL = 30 * 60"
definition EPHEMERAL_DIM :: rat where "EPHEMERAL_DIM = 10 * 60"
definition MAX_EPHEMERALS :: nat where "MAX_EPHEMERALS = 4"

record ephemeral =
  ep_message :: string
  ep_priority :: situation_priority
  ep_created_at :: rat

text \<open>A node: the text of its status, or of the value of the status if that is a member of an enumeration.\<close>

record cop_node =
  cn_status :: string
  cn_via :: "string option"

definition node_status_str :: "cop_node \<Rightarrow> string" where
  "node_status_str n = last (split_on (CHR ''.'') (lower (cn_status n)))"

record cop_tracker =
  ephemerals :: "ephemeral list"
  ct_nodes :: "cop_node list"
  unread_map :: "(string \<times> int) list"
  ct_hub_status :: string
  node_names :: "(string \<times> string) list"

definition CopSituationTracker :: cop_tracker where
  "CopSituationTracker = \<lparr>ephemerals = [], ct_nodes = [], unread_map = [], ct_hub_status = [], node_names = []\<rparr>"

definition push_ephemeral :: "rat \<Rightarrow> string \<Rightarrow> situation_priority \<Rightarrow> cop_tracker \<Rightarrow> cop_tracker" where
  "push_ephemeral now msg p t =
     (let es = ephemerals t @ [\<lparr>ep_message = msg, ep_priority = p, ep_created_at = now\<rparr>] in
      t\<lparr>ephemerals := (if length es > MAX_EPHEMERALS then drop (length es - MAX_EPHEMERALS) es else es)\<rparr>)"

record daemon_event =
  ev_type :: string
  ev_action :: string
  ev_data :: pydict

text \<open>The first eight items of what names a peer; a value that cannot be sliced raises.\<close>

fun first_eight :: "pyval \<Rightarrow> pyval res" where
  "first_eight (PStr s) = Inr (PStr (py_take 8 s))"
| "first_eight (PBytes b) = Inr (PBytes (take 8 b))"
| "first_eight (PList xs) = Inr (PList (take 8 xs))"
| "first_eight _ = Inl TypeError"

definition or_value :: "pyval option \<Rightarrow> pyval \<Rightarrow> pyval" where
  "or_value x d = (case x of Some v \<Rightarrow> if truthy v then v else d | None \<Rightarrow> d)"

definition peer_of :: "pydict \<Rightarrow> pyval res" where
  "peer_of d =
     (case or_value (d_get d ''peer_name'') PNone of
        PNone \<Rightarrow>
          (case first_eight (or_value (d_get d ''peer_hash'') (PStr [])) of
             Inl e \<Rightarrow> Inl e
           | Inr v \<Rightarrow> Inr (or_value (Some v) (PStr ''unknown'')))
      | v \<Rightarrow> Inr v)"

definition filename_of :: "pydict \<Rightarrow> pyval res" where
  "filename_of d =
     (case or_value (d_get d ''metadata'') (PDict []) of
        PDict m \<Rightarrow> Inr (or_value (d_get m ''filename'') (d_get_or d ''filename'' (PStr ''file'')))
      | _ \<Rightarrow> Inl AttributeError)"

definition situation_ingest :: "(pyval \<Rightarrow> string) \<Rightarrow> rat \<Rightarrow> daemon_event \<Rightarrow> cop_tracker \<Rightarrow> cop_tracker res" where
  "situation_ingest fmt now ev t =
     (case peer_of (ev_data ev) of
        Inl e \<Rightarrow> Inl e
      | Inr peer \<Rightarrow>
          if ev_type ev = ''message_changed'' then
            if ev_action ev = ''file_offer'' then
              map_sum id (\<lambda>f. push_ephemeral now (''file from '' @ fmt peer @ '': '' @ fmt f) FILE_EVENT t)
                (filename_of (ev_data ev))
            else if ev_action ev = ''file_complete'' then
              map_sum id (\<lambda>f. push_ephemeral now (''transfer complete: '' @ fmt f) FILE_EVENT t)
                (filename_of (ev_data ev))
            else Inr t
          else if ev_type ev = ''link_changed'' then
            if ev_action ev = ''pqc_established'' then Inr (push_ephemeral now (''PQC session with '' @ fmt peer) SECURITY t)
            else if ev_action ev = ''pqc_rekey'' then Inr (push_ephemeral now (''PQC rekey with '' @ fmt peer) SECURITY t)
            else Inr t
          else Inr t)"

definition update_from_state ::
    "cop_node list \<Rightarrow> (string \<times> int) list \<Rightarrow> string option \<Rightarrow> (string \<times> string) list \<Rightarrow> cop_tracker \<Rightarrow> cop_tracker" where
  "update_from_state nodes unread hub names t =
     t\<lparr>ct_nodes := nodes, unread_map := unread, ct_hub_status := (case hub of None \<Rightarrow> [] | Some h \<Rightarrow> h), node_names := names\<rparr>"

section \<open>The snapshot\<close>

definition stale_lines :: "cop_node list \<Rightarrow> situation_line list" where
  "stale_lines ns =
     (let n = length (filter (\<lambda>x. node_status_str x = ''stale'') ns) in
      if n = 0 then []
      else [plain_line ANOMALY (show_nat n @ '' node'' @ (if n \<noteq> 1 then ''s'' else []) @ '' stale'')])"

definition join_commas :: "string list \<Rightarrow> string" where
  "join_commas xs = concat (case xs of [] \<Rightarrow> [] | y # ys \<Rightarrow> y # map (\<lambda>z. '', '' @ z) ys)"

definition unread_lines :: "(string \<times> int) list \<Rightarrow> (string \<times> string) list \<Rightarrow> situation_line list" where
  "unread_lines unread names =
     (let total = sum_list (map snd unread) in
      if total \<le> 0 then []
      else (let peers = filter (\<lambda>p. snd p > 0) (sort_key (\<lambda>p. - snd p) unread);
                ns = map (\<lambda>p. case map_of names (fst p) of Some n \<Rightarrow> n | None \<Rightarrow> py_take 8 (fst p)) peers;
                shown = join_commas (take 3 ns) @
                        (if length ns > 3 then '' +'' @ show_nat (length ns - 3) else []) in
            [plain_line ACTIONABLE (show_int total @ '' unread from '' @ shown)]))"

definition hub_lines :: "string \<Rightarrow> situation_line list" where
  "hub_lines h =
     (if h \<noteq> [] \<and> lower h \<notin> {''connected'', ''unknown'', ''''} then [plain_line HUB_STATE (''hub '' @ h)] else [])"

definition young :: "rat \<Rightarrow> ephemeral \<Rightarrow> bool" where
  "young now e \<longleftrightarrow> now - ep_created_at e < EPHEMERAL_TTL"

definition ephemeral_line :: "rat \<Rightarrow> ephemeral \<Rightarrow> situation_line" where
  "ephemeral_line now e =
     (plain_line (ep_priority e) (ep_message e))\<lparr>sl_dim := EPHEMERAL_DIM < now - ep_created_at e\<rparr>"

definition active_tags :: "cop_node list \<Rightarrow> string list" where
  "active_tags ns = map (\<lambda>n. transport_label (cn_via n)) (filter (\<lambda>n. node_status_str n = ''active'') ns)"

definition discovery_lines :: "cop_node list \<Rightarrow> situation_line list" where
  "discovery_lines ns =
     (let tags = active_tags ns in
      map (\<lambda>tag. let n = length (filter (\<lambda>x. x = tag) tags) in
             (plain_line INFO (show_nat n @ '' '' @ (if n = 1 then ''node'' else ''nodes'') @ '' ['' @ tag @ '']''))
               \<lparr>sl_tag := tag\<rparr>)
        (sort (remdups tags)))"

definition all_situations :: "rat \<Rightarrow> cop_tracker \<Rightarrow> situation_line list" where
  "all_situations now t =
     stale_lines (ct_nodes t) @ unread_lines (unread_map t) (node_names t) @ hub_lines (ct_hub_status t) @
     map (ephemeral_line now) (filter (young now) (ephemerals t)) @ discovery_lines (ct_nodes t)"

definition situation_snapshot :: "rat \<Rightarrow> cop_tracker \<Rightarrow> situation_line list \<times> cop_tracker" where
  "situation_snapshot now t =
     (take MAX_SITUATIONS (sort_key (\<lambda>l. priority_value (sl_priority l)) (all_situations now t)),
      t\<lparr>ephemerals := filter (young now) (ephemerals t)\<rparr>)"

section \<open>The adapters\<close>

datatype adapter_display = A_DISABLED | A_PROBING | A_WARMING | A_READY | A_DEGRADED

primrec adapter_display_value :: "adapter_display \<Rightarrow> string" where
  "adapter_display_value A_DISABLED = ''disabled''"
| "adapter_display_value A_PROBING = ''probing''"
| "adapter_display_value A_WARMING = ''warming''"
| "adapter_display_value A_READY = ''ready''"
| "adapter_display_value A_DEGRADED = ''degraded''"

text \<open>An unknown value is read as probing.\<close>

definition adapter_display_of :: "string \<Rightarrow> adapter_display" where
  "adapter_display_of s =
     (case find (\<lambda>a. adapter_display_value a = s) [A_DISABLED, A_PROBING, A_WARMING, A_READY, A_DEGRADED] of
        Some a \<Rightarrow> a | None \<Rightarrow> A_PROBING)"

record adapter_record =
  ar_state :: adapter_display
  ar_detail :: pyval
  ar_pending :: "situation_line option"

type_synonym adapter_tracker = "(pyval \<times> adapter_record) list"

definition derive_situation :: "string \<Rightarrow> adapter_display \<Rightarrow> adapter_display \<Rightarrow> situation_line option" where
  "derive_situation name old new =
     (if old = A_DISABLED then None
      else if old = A_WARMING \<and> new = A_READY then Some (plain_line INFO (name @ '' ready''))
      else if old = A_READY \<and> new = A_DEGRADED then Some (plain_line ANOMALY (name @ '' degraded''))
      else if old = A_DEGRADED \<and> new = A_READY then Some (plain_line INFO (name @ '' recovered''))
      else None)"

fun unhashable :: "pyval \<Rightarrow> bool" where
  "unhashable (PList _) = True"
| "unhashable (PDict _) = True"
| "unhashable _ = False"

definition adapter_ingest :: "(pyval \<Rightarrow> string) \<Rightarrow> daemon_event \<Rightarrow> adapter_tracker \<Rightarrow> adapter_tracker res" where
  "adapter_ingest fmt ev t =
     (if ev_type ev \<noteq> ''adapter_changed'' then Inr t
      else
        let d = ev_data ev;
            name = or_value (d_get d ''adapter_name'') (d_get_or d ''name'' (PStr ''unknown'')) in
        case d_get_or d ''state'' (PStr ''probing'') of
          PStr raw \<Rightarrow>
            if unhashable name then Inl TypeError
            else (let new = adapter_display_of (lower raw);
                      line = (case map_of t name of
                                Some r \<Rightarrow> derive_situation (fmt name) (ar_state r) new
                              | None \<Rightarrow> None) in
                  Inr (AList.update name \<lparr>ar_state = new, ar_detail = d_get_or d ''detail'' (PStr []), ar_pending = line\<rparr> t))
        | _ \<Rightarrow> Inl AttributeError)"

definition adapter_snapshot :: "adapter_tracker \<Rightarrow> (pyval \<times> adapter_display \<times> pyval) list" where
  "adapter_snapshot t = map (\<lambda>(n, r). (n, ar_state r, ar_detail r)) t"

definition has_degraded :: "adapter_tracker \<Rightarrow> bool" where
  "has_degraded t \<longleftrightarrow> list_ex (\<lambda>(n, r). ar_state r = A_DEGRADED) t"

definition all_disabled :: "adapter_tracker \<Rightarrow> bool" where
  "all_disabled t \<longleftrightarrow> list_all (\<lambda>(n, r). ar_state r = A_DISABLED) t"

text \<open>From the last adapter to the first, the first line that waits is taken.\<close>

definition get_situation_line :: "adapter_tracker \<Rightarrow> situation_line option \<times> adapter_tracker" where
  "get_situation_line t =
     (case find (\<lambda>(n, r). ar_pending r \<noteq> None) (rev t) of
        None \<Rightarrow> (None, t)
      | Some (n, r) \<Rightarrow> (ar_pending r, AList.update n (r\<lparr>ar_pending := None\<rparr>) t))"

text \<open>
  The part of \<^verbatim>\<open>on_daemon_event\<close> that feeds both, with the widgets mounted; an exception of either
  tracker ends it.
\<close>

definition on_daemon_event ::
    "(pyval \<Rightarrow> string) \<Rightarrow> rat \<Rightarrow> daemon_event \<Rightarrow> cop_tracker \<times> adapter_tracker \<Rightarrow> (cop_tracker \<times> adapter_tracker) res" where
  "on_daemon_event fmt now ev s =
     (case s of (t, a) \<Rightarrow>
        (case situation_ingest fmt now ev t of
           Inl e \<Rightarrow> Inl e
         | Inr t0 \<Rightarrow>
             (let t1 = snd (situation_snapshot now t0) in
              if ev_type ev \<noteq> ''adapter_changed'' then Inr (t1, a)
              else case adapter_ingest fmt ev a of
                     Inl e \<Rightarrow> Inl e
                   | Inr a1 \<Rightarrow>
                       (case get_situation_line a1 of
                          (None, a2) \<Rightarrow> Inr (t1, a2)
                        | (Some l, a2) \<Rightarrow>
                            Inr (snd (situation_snapshot now (push_ephemeral now (sl_message l) (sl_priority l) t1)), a2)))))"

section \<open>What is reported\<close>

lemma push_bounded: "length (ephemerals (push_ephemeral now msg p t)) \<le> MAX_EPHEMERALS"
  by (simp add: push_ephemeral_def Let_def MAX_EPHEMERALS_def)

lemma snapshot_bounded:
  assumes "length (ephemerals t) \<le> MAX_EPHEMERALS"
  shows "length (ephemerals (snd (situation_snapshot now t))) \<le> MAX_EPHEMERALS"
  using assms by (simp add: situation_snapshot_def order_trans [OF length_filter_le])

lemma ingest_bounded:
  assumes "length (ephemerals t) \<le> MAX_EPHEMERALS" "situation_ingest fmt now ev t = Inr t'"
  shows "length (ephemerals t') \<le> MAX_EPHEMERALS"
  using assms push_bounded
  by (simp add: situation_ingest_def split: sum.splits if_splits) (auto simp: map_sum_def split: sum.splits)

text \<open>However many events come, four of them are kept at most.\<close>

lemma events_bounded:
  assumes "length (ephemerals t) \<le> MAX_EPHEMERALS" "on_daemon_event fmt now ev (t, a) = Inr (t', a')"
  shows "length (ephemerals t') \<le> MAX_EPHEMERALS"
proof -
  from assms(2) obtain t0 where t0: "situation_ingest fmt now ev t = Inr t0"
    and t': "t' = snd (situation_snapshot now t0) \<or>
      (\<exists>m p. t' = snd (situation_snapshot now (push_ephemeral now m p (snd (situation_snapshot now t0)))))"
    by (auto simp: on_daemon_event_def Let_def split: sum.splits if_splits prod.splits option.splits)
  from t' show ?thesis
    using snapshot_bounded [OF ingest_bounded [OF assms(1) t0]] snapshot_bounded [OF push_bounded] by auto
qed

lemma snapshot_ranked:
  "length (fst (situation_snapshot now t)) \<le> MAX_SITUATIONS"
  "sorted (map (\<lambda>l. priority_value (sl_priority l)) (fst (situation_snapshot now t)))"
  by (simp_all add: situation_snapshot_def sorted_wrt_take flip: take_map)

text \<open>What is left out is not more urgent than what is shown.\<close>

lemma left_out_less_urgent:
  assumes "l \<in> set (all_situations now t)" "l \<notin> set (fst (situation_snapshot now t))"
    and "k \<in> set (fst (situation_snapshot now t))"
  shows "priority_value (sl_priority k) \<le> priority_value (sl_priority l)"
proof -
  let ?p = "\<lambda>l. priority_value (sl_priority l)"
  let ?xs = "sort_key ?p (all_situations now t)"
  have split: "?xs = take MAX_SITUATIONS ?xs @ drop MAX_SITUATIONS ?xs" by simp
  have "sorted (map ?p (take MAX_SITUATIONS ?xs) @ map ?p (drop MAX_SITUATIONS ?xs))"
    by (simp flip: map_append)
  then have s: "\<forall>x \<in> set (take MAX_SITUATIONS ?xs). \<forall>y \<in> set (drop MAX_SITUATIONS ?xs). ?p x \<le> ?p y"
    by (simp add: sorted_append)
  have "l \<in> set ?xs" using assms(1) by simp
  then have "l \<in> set (take MAX_SITUATIONS ?xs) \<or> l \<in> set (drop MAX_SITUATIONS ?xs)"
    by (subst (asm) split) (simp only: set_append Un_iff)
  with s assms(2,3) show ?thesis by (auto simp: situation_snapshot_def)
qed

lemma hd_insort_min:
  "(\<forall>y \<in> set xs. f x \<le> f y) \<Longrightarrow> sort_key f (x # xs) = x # sort_key f xs"
  by (simp add: insort_is_Cons)

text \<open>Stale nodes are reported first, whatever else there is.\<close>

lemma stale_nodes_first:
  assumes "n \<in> set (ct_nodes t)" "node_status_str n = ''stale''"
  shows "\<exists>rest. fst (situation_snapshot now t) = hd (stale_lines (ct_nodes t)) # rest \<and>
    sl_priority (hd (stale_lines (ct_nodes t))) = ANOMALY"
proof -
  have "filter (\<lambda>x. node_status_str x = ''stale'') (ct_nodes t) \<noteq> []" using assms by (auto simp: filter_empty_conv)
  then obtain m where "stale_lines (ct_nodes t) = [plain_line ANOMALY m]" by (simp add: stale_lines_def Let_def)
  moreover have "0 \<le> priority_value p" for p by (cases p) simp_all
  ultimately show ?thesis
    by (simp add: situation_snapshot_def all_situations_def hd_insort_min plain_line_def MAX_SITUATIONS_def
        del: sort_key_simps)
qed

text \<open>Each active node is counted in the line of its transport.\<close>

lemma active_nodes_counted:
  "(\<Sum>tag \<in> set (active_tags ns). length (filter (\<lambda>x. x = tag) (active_tags ns))) =
   length (filter (\<lambda>n. node_status_str n = ''active'') ns)"
proof -
  have "(\<Sum>tag \<in> set xs. length (filter (\<lambda>x. x = tag) xs)) = length xs" for xs :: "string list"
    using sum_count_set [of xs "set xs"] by (simp add: count_list_eq_length_filter eq_commute)
  from this [of "active_tags ns"] show ?thesis by (simp only:) (simp add: active_tags_def)
qed

text \<open>
  The line of a degraded adapter is kept like any event: four later ones push it out, while the adapter
  is still degraded.
\<close>

lemma push_newest_first:
  "rev (ephemerals (push_ephemeral now m p t)) =
     take 4 (\<lparr>ep_message = m, ep_priority = p, ep_created_at = now\<rparr> # rev (ephemerals t))"
  by (simp add: push_ephemeral_def Let_def MAX_EPHEMERALS_def take_rev)

lemma four_events_push_out:
  assumes "e \<in> set (ephemerals (push_ephemeral n4 m4 p4 (push_ephemeral n3 m3 p3
             (push_ephemeral n2 m2 p2 (push_ephemeral n1 m1 p1 t)))))"
  shows "ep_message e \<in> {m1, m2, m3, m4}"
proof -
  from assms have "e \<in> set (rev (ephemerals (push_ephemeral n4 m4 p4 (push_ephemeral n3 m3 p3
             (push_ephemeral n2 m2 p2 (push_ephemeral n1 m1 p1 t))))))" by simp
  then show ?thesis by (simp only: push_newest_first) (auto simp: numeral_eq_Suc)
qed

section \<open>The lines of the adapters\<close>

definition keyed_adapters :: "adapter_tracker \<Rightarrow> bool" where
  "keyed_adapters t \<longleftrightarrow> distinct (map fst t)"

lemma adapter_ingest_updates:
  assumes "adapter_ingest fmt ev t = Inr t'"
  shows "t' = t \<or> (\<exists>n r. t' = AList.update n r t)"
proof (cases "ev_type ev = ''adapter_changed''")
  case True
  with assms show ?thesis
    by (cases "d_get_or (ev_data ev) ''state'' (PStr ''probing'')")
      (fastforce simp: adapter_ingest_def Let_def simp del: d_get_simps split: if_split_asm)+
qed (use assms in \<open>simp add: adapter_ingest_def\<close>)

lemma adapters_keyed: "keyed_adapters t \<Longrightarrow> adapter_ingest fmt ev t = Inr t' \<Longrightarrow> keyed_adapters t'"
  by (drule adapter_ingest_updates) (auto simp: keyed_adapters_def distinct_update)

text \<open>A line is given once: afterwards the adapter that had it has none, and no state has changed.\<close>

lemma lines_given_once:
  assumes "keyed_adapters t" "get_situation_line t = (Some l, t')"
  shows "\<exists>n r. map_of t n = Some r \<and> ar_pending r = Some l \<and> map_of t' n = Some (r\<lparr>ar_pending := None\<rparr>) \<and>
    (\<forall>m. m \<noteq> n \<longrightarrow> map_of t' m = map_of t m) \<and> map fst t' = map fst t"
proof -
  from assms(2) obtain n r where f: "find (\<lambda>(n, r). ar_pending r \<noteq> None) (rev t) = Some (n, r)"
    and l: "ar_pending r = Some l" "t' = AList.update n (r\<lparr>ar_pending := None\<rparr>) t"
    by (auto simp: get_situation_line_def split: option.splits)
  from f have "(n, r) \<in> set (rev t)" by (metis (no_types, lifting) find_Some_iff nth_mem)
  then have i: "(n, r) \<in> set t" by simp
  then have m: "map_of t n = Some r" using assms(1) by (simp add: keyed_adapters_def)
  moreover have "map fst t' = map fst t"
    using i l(2) by (force simp: update_keys)
  ultimately show ?thesis using l by (auto simp: update_conv')
qed

text \<open>
  When two adapters have a line, the one that was heard of first comes second, however recent its line:
  not the most recent line is given but that of the adapter last in the table.
\<close>

lemma older_line_first:
  "get_situation_line
     [(PStr ''a'', \<lparr>ar_state = A_DEGRADED, ar_detail = PNone, ar_pending = Some newer\<rparr>),
      (PStr ''b'', \<lparr>ar_state = A_READY, ar_detail = PNone, ar_pending = Some older\<rparr>)] =
   (Some older,
     [(PStr ''a'', \<lparr>ar_state = A_DEGRADED, ar_detail = PNone, ar_pending = Some newer\<rparr>),
      (PStr ''b'', \<lparr>ar_state = A_READY, ar_detail = PNone, ar_pending = None\<rparr>)])"
  by (simp add: get_situation_line_def)

end
