(* ===== verification/Boundary_Log.thy ===== *)
theory Boundary_Log
  imports Ipc_Bridge File_System
begin

text \<open>
  Two helpers beside the components: the log of the errors that cross into other programs
  (\<^verbatim>\<open>src/styrened/boundary.py\<close>), kept in a ring and, if asked for, in a file that is rotated; and the
  chat session over the control client (\<^verbatim>\<open>src/styrened/chat_session.py\<close>). Formatting a log record,
  \<^verbatim>\<open>str\<close> of a value and \<^verbatim>\<open>json.dumps\<close> are arguments; the rotating file is that of the standard
  library.
\<close>

section \<open>Records\<close>

datatype interface_boundary =
    B_RNS | B_LXMF | B_NOMADNET | B_YGGDRASIL | B_I2P | B_WIREGUARD | B_IPC | B_RPC | B_SERVICE_MANAGER
  | B_ASYNC_WORKER | B_INTERNAL

primrec boundary_value :: "interface_boundary \<Rightarrow> string" where
  "boundary_value B_RNS = ''rns''"
| "boundary_value B_LXMF = ''lxmf''"
| "boundary_value B_NOMADNET = ''nomadnet''"
| "boundary_value B_YGGDRASIL = ''yggdrasil''"
| "boundary_value B_I2P = ''i2p''"
| "boundary_value B_WIREGUARD = ''wireguard''"
| "boundary_value B_IPC = ''ipc''"
| "boundary_value B_RPC = ''rpc''"
| "boundary_value B_SERVICE_MANAGER = ''service_manager''"
| "boundary_value B_ASYNC_WORKER = ''async_worker''"
| "boundary_value B_INTERNAL = ''internal''"

record boundary_record =
  br_ts :: rat
  br_boundary :: string
  br_severity :: string
  br_retryable :: bool
  br_stack_name :: string
  br_operation :: string
  br_message :: string

definition boundary_to_dict :: "boundary_record \<Rightarrow> pydict" where
  "boundary_to_dict r =
     kv [(''ts'', PFloat (br_ts r)), (''boundary'', PStr (br_boundary r)), (''severity'', PStr (br_severity r)),
         (''retryable'', PBool (br_retryable r)), (''stack_name'', PStr (br_stack_name r)),
         (''operation'', PStr (br_operation r)), (''message'', PStr (br_message r))]"

text \<open>
  A record of the logging library: \<open>lr_boundary\<close> and \<open>lr_extra\<close> are its attributes, \<open>lr_formatted\<close> what
  the handler makes of it and \<open>lr_bare\<close> its message alone.
\<close>

datatype boundary_attr = Tag interface_boundary | Other_Tag pyval

record log_record =
  lr_created :: rat
  lr_name :: string
  lr_boundary :: "boundary_attr option"
  lr_extra :: "string \<rightharpoonup> pyval"
  lr_formatted :: string
  lr_bare :: string

definition RING_MAXLEN :: nat where "RING_MAXLEN = 200"
definition SINK_MAX_BYTES :: nat where "SINK_MAX_BYTES = 1 * 1024 * 1024"
definition SINK_BACKUPS :: nat where "SINK_BACKUPS = 3"

section \<open>The handler\<close>

record sink =
  sk_current :: string
  sk_backups :: "string list"

record boundary_handler =
  bh_records :: "boundary_record list"
  bh_sink :: "sink option"
  bh_closed :: bool

text \<open>\<open>mkdir_allowed\<close>: the directory of the file could be made. The file is appended to.\<close>

definition BoundaryLogHandler :: "bool \<Rightarrow> sink option \<Rightarrow> boundary_handler" where
  "BoundaryLogHandler mkdir_allowed file =
     \<lparr>bh_records = [], bh_sink = (if mkdir_allowed then file else None), bh_closed = False\<rparr>"

definition sink_path :: "path \<Rightarrow> path" where
  "sink_path home_dir = home_dir @ [''.local'', ''share'', ''styrene'', ''boundary.log'']"

definition make_boundary_handler :: "bool \<Rightarrow> bool \<Rightarrow> sink \<Rightarrow> boundary_handler" where
  "make_boundary_handler boundary_sink mkdir_allowed file =
     BoundaryLogHandler mkdir_allowed (if boundary_sink then Some file else None)"

text \<open>A tag that is \<^verbatim>\<open>None\<close> counts as none.\<close>

definition tag_text :: "(pyval \<Rightarrow> string) \<Rightarrow> log_record \<Rightarrow> string option" where
  "tag_text fmt r =
     (case lr_boundary r of
        None \<Rightarrow> None
      | Some (Tag b) \<Rightarrow> Some (boundary_value b)
      | Some (Other_Tag PNone) \<Rightarrow> None
      | Some (Other_Tag v) \<Rightarrow> Some (fmt v))"

definition extra_text :: "(pyval \<Rightarrow> string) \<Rightarrow> log_record \<Rightarrow> string \<Rightarrow> string \<Rightarrow> string" where
  "extra_text fmt r k dflt = (case lr_extra r k of Some v \<Rightarrow> fmt v | None \<Rightarrow> dflt)"

definition boundary_record_of :: "(pyval \<Rightarrow> string) \<Rightarrow> log_record \<Rightarrow> boundary_record option" where
  "boundary_record_of fmt r =
     map_option (\<lambda>tag.
       \<lparr>br_ts = lr_created r, br_boundary = tag, br_severity = extra_text fmt r ''severity'' ''transient'',
        br_retryable = (case lr_extra r ''retryable'' of Some v \<Rightarrow> truthy v | None \<Rightarrow> False),
        br_stack_name = extra_text fmt r ''stack_name'' (lr_name r),
        br_operation = extra_text fmt r ''operation'' [], br_message = lr_formatted r\<rparr>)
     (tag_text fmt r)"

text \<open>\<^verbatim>\<open>deque(maxlen=200)\<close>.\<close>

definition ring_append :: "'a \<Rightarrow> 'a list \<Rightarrow> 'a list" where
  "ring_append x xs = (let ys = xs @ [x] in drop (length ys - RING_MAXLEN) ys)"

text \<open>Rotation is decided by the bare message, not by the line that is written.\<close>

definition should_rollover :: "log_record \<Rightarrow> sink \<Rightarrow> bool" where
  "should_rollover r f \<longleftrightarrow>
     sk_current f \<noteq> [] \<and> SINK_MAX_BYTES \<le> length (sk_current f) + py_len (lr_bare r) + 1"

definition do_rollover :: "sink \<Rightarrow> sink" where
  "do_rollover f = \<lparr>sk_current = [], sk_backups = take SINK_BACKUPS (sk_current f # sk_backups f)\<rparr>"

text \<open>\<open>dumps\<close> is \<^verbatim>\<open>json.dumps\<close>, which may fail; then the line is lost.\<close>

definition write_sink :: "(pydict \<Rightarrow> string option) \<Rightarrow> log_record \<Rightarrow> boundary_record \<Rightarrow> sink \<Rightarrow> sink" where
  "write_sink dumps r b f =
     (case dumps (boundary_to_dict b) of
        None \<Rightarrow> f
      | Some l \<Rightarrow>
          (let f1 = (if should_rollover r f then do_rollover f else f) in
           f1\<lparr>sk_current := sk_current f1 @ l @ [CHR 10]\<rparr>))"

definition emit :: "(pyval \<Rightarrow> string) \<Rightarrow> (pydict \<Rightarrow> string option) \<Rightarrow> log_record \<Rightarrow> boundary_handler \<Rightarrow> boundary_handler" where
  "emit fmt dumps r h =
     (case boundary_record_of fmt r of
        None \<Rightarrow> h
      | Some b \<Rightarrow> h\<lparr>bh_records := ring_append b (bh_records h), bh_sink := map_option (write_sink dumps r b) (bh_sink h)\<rparr>)"

definition boundary_dicts :: "boundary_handler \<Rightarrow> pydict list" where
  "boundary_dicts h = map boundary_to_dict (bh_records h)"

definition clear_boundary :: "boundary_handler \<Rightarrow> boundary_handler" where
  "clear_boundary h = h\<lparr>bh_records := []\<rparr>"

definition close_boundary :: "boundary_handler \<Rightarrow> boundary_handler" where
  "close_boundary h = h\<lparr>bh_closed := True\<rparr>"

section \<open>What the log holds\<close>

lemma drop_drop_last:
  "drop (length (drop (length xs - n) xs @ [y]) - n) (drop (length xs - n) xs @ [y]) =
   drop (length (xs @ [y]) - n) (xs @ [y])"
  by (cases "length xs < n") (auto simp: not_less Suc_diff_le)

text \<open>The log is the last two hundred records that carry a tag, in their order; the others leave no trace.\<close>

lemma log_holds_the_last:
  "bh_records (foldl (\<lambda>h r. emit fmt dumps r h) (BoundaryLogHandler ok f) rs) =
   drop (length (List.map_filter (boundary_record_of fmt) rs) - RING_MAXLEN)
     (List.map_filter (boundary_record_of fmt) rs)"
proof (induction rs rule: rev_induct)
  case Nil
  show ?case by (simp add: BoundaryLogHandler_def map_filter_simps)
next
  case (snoc r rs)
  have mf: "List.map_filter (boundary_record_of fmt) (rs @ [r]) =
      List.map_filter (boundary_record_of fmt) rs @ (case boundary_record_of fmt r of None \<Rightarrow> [] | Some b \<Rightarrow> [b])"
    by (simp add: map_filter_def split: option.split)
  have e: "bh_records (emit fmt dumps r h) =
      (case boundary_record_of fmt r of None \<Rightarrow> bh_records h | Some b \<Rightarrow> ring_append b (bh_records h))" for h
    by (simp add: emit_def split: option.split)
  show ?case
  proof (cases "boundary_record_of fmt r")
    case None
    with snoc mf show ?thesis by (simp add: e)
  next
    case (Some b)
    then have "bh_records (foldl (\<lambda>h r. emit fmt dumps r h) (BoundaryLogHandler ok f) (rs @ [r])) =
        ring_append b (drop (length (List.map_filter (boundary_record_of fmt) rs) - RING_MAXLEN)
          (List.map_filter (boundary_record_of fmt) rs))"
      by (simp add: e snoc)
    then show ?thesis unfolding ring_append_def Let_def drop_drop_last mf Some by simp
  qed
qed

text \<open>The file is never longer than the limit and one line, and there are three old ones at most.\<close>

lemma sink_bounded:
  assumes "length (sk_backups f) \<le> SINK_BACKUPS" "dumps (boundary_to_dict b) = Some l" "sk_current f \<noteq> []"
  shows "length (sk_backups (write_sink dumps r b f)) \<le> SINK_BACKUPS \<and>
    length (sk_current (write_sink dumps r b f)) < SINK_MAX_BYTES + length l + 1"
  using assms by (auto simp: write_sink_def should_rollover_def do_rollover_def SINK_MAX_BYTES_def Let_def)

section \<open>The chat session\<close>

record chat_event =
  ce_event_type :: pyval
  ce_message_id :: pyval
  ce_peer_hash :: pyval
  ce_content :: pyval
  ce_timestamp :: pyval
  ce_status :: pyval
  ce_is_outgoing :: pyval
  ce_delivery_method :: pyval
  ce_signature_valid :: pyval
  ce_transport_encrypted :: pyval
  ce_metadata :: pydict

definition chat_event_of :: "pydict \<Rightarrow> chat_event" where
  "chat_event_of d =
     \<lparr>ce_event_type = d_get_or d ''event_type'' (PStr []), ce_message_id = d_get_or d ''message_id'' (PInt 0),
      ce_peer_hash = d_get_or d ''peer_hash'' (PStr []), ce_content = d_get_or d ''content'' PNone,
      ce_timestamp = d_get_or d ''timestamp'' (PFloat 0), ce_status = d_get_or d ''status'' (PStr []),
      ce_is_outgoing = d_get_or d ''is_outgoing'' (PBool False),
      ce_delivery_method = d_get_or d ''delivery_method'' PNone,
      ce_signature_valid = d_get_or d ''signature_valid'' PNone,
      ce_transport_encrypted = d_get_or d ''transport_encrypted'' PNone, ce_metadata = []\<rparr>"

record chat_session =
  cs_client :: "ipc_client option"
  cs_owns :: bool
  cs_filter :: "string list"

definition ChatSession :: "ipc_client option \<Rightarrow> string list option \<Rightarrow> chat_session" where
  "ChatSession client filt =
     \<lparr>cs_client = client, cs_owns = (client = None), cs_filter = (case filt of None \<Rightarrow> [] | Some f \<Rightarrow> f)\<rparr>"

definition chat_call :: "msgpack \<Rightarrow> wait \<Rightarrow> 'a ipc_call \<Rightarrow> chat_session \<Rightarrow> 'a ipc_res \<times> chat_session" where
  "chat_call mp w c s =
     (case cs_client s of
        None \<Rightarrow> (Inl (Raised AssertionError), s)
      | Some k \<Rightarrow> (case await_call mp w c k of (r, k1) \<Rightarrow> (r, s\<lparr>cs_client := Some k1\<rparr>)))"

definition chat_enter :: "msgpack \<Rightarrow> bool \<Rightarrow> wait \<Rightarrow> chat_session \<Rightarrow> unit ipc_res \<times> chat_session" where
  "chat_enter mp opened w s =
     (let (r0, s0) = (if cs_owns s
                      then (case connect mp opened (ControlClient 30) of (r, k) \<Rightarrow> (r, s\<lparr>cs_client := Some k\<rparr>))
                      else (Inr (), s)) in
      case r0 of
        Inl e \<Rightarrow> (Inl e, s0)
      | Inr _ \<Rightarrow>
          (case chat_call mp w (Ipc_Calls.subscribe_messages (cs_filter s0)) s0 of
             (Inl e, s1) \<Rightarrow> (Inl e, s1)
           | (Inr _, s1) \<Rightarrow> (Inr (), s1)))"

definition chat_exit :: "msgpack \<Rightarrow> wait \<Rightarrow> chat_session \<Rightarrow> unit ipc_res \<times> chat_session" where
  "chat_exit mp w s =
     (case cs_client s of
        None \<Rightarrow> (Inr (), s)
      | Some k \<Rightarrow>
          (case (if is_connected k then await_call mp w (Ipc_Calls.unsubscribe ''messages'') k else (Inr PNone, k)) of
             (Inl CallerCancelled, k1) \<Rightarrow> (Inl CallerCancelled, s\<lparr>cs_client := Some k1\<rparr>)
           | (_, k1) \<Rightarrow> (Inr (), s\<lparr>cs_client := Some (if cs_owns s then disconnect k1 else k1)\<rparr>)))"

definition chat_send :: "msgpack \<Rightarrow> wait \<Rightarrow> string \<Rightarrow> string \<Rightarrow> string option \<Rightarrow> string \<Rightarrow> string option \<Rightarrow> string option \<Rightarrow>
    string option \<Rightarrow> string option \<Rightarrow> chat_session \<Rightarrow> pyval ipc_res \<times> chat_session" where
  "chat_send mp w peer content title delivery reply_to data_b64 filename mime =
     chat_call mp w (Ipc_Calls.send_chat peer content title delivery reply_to data_b64 filename mime)"

definition chat_mark_read :: "msgpack \<Rightarrow> wait \<Rightarrow> string \<Rightarrow> chat_session \<Rightarrow> pyval ipc_res \<times> chat_session" where
  "chat_mark_read mp w peer = chat_call mp w (Ipc_Calls.mark_read peer)"

definition chat_conversations :: "msgpack \<Rightarrow> wait \<Rightarrow> chat_session \<Rightarrow> pyval ipc_res \<times> chat_session" where
  "chat_conversations mp w = chat_call mp w Ipc_Calls.query_conversations"

definition chat_messages ::
    "msgpack \<Rightarrow> wait \<Rightarrow> string \<Rightarrow> int \<Rightarrow> rat option \<Rightarrow> chat_session \<Rightarrow> pyval ipc_res \<times> chat_session" where
  "chat_messages mp w peer n before = chat_call mp w (Ipc_Calls.query_messages peer n before None)"

definition chat_search ::
    "msgpack \<Rightarrow> wait \<Rightarrow> string \<Rightarrow> string option \<Rightarrow> int \<Rightarrow> chat_session \<Rightarrow> pyval ipc_res \<times> chat_session" where
  "chat_search mp w q peer n = chat_call mp w (Ipc_Calls.search_messages q peer n)"

definition chat_set_contact ::
    "msgpack \<Rightarrow> wait \<Rightarrow> string \<Rightarrow> string \<Rightarrow> string option \<Rightarrow> chat_session \<Rightarrow> pyval ipc_res \<times> chat_session" where
  "chat_set_contact mp w peer nick notes = chat_call mp w (Ipc_Calls.set_contact peer nick notes)"

definition chat_remove_contact :: "msgpack \<Rightarrow> wait \<Rightarrow> string \<Rightarrow> chat_session \<Rightarrow> pyval ipc_res \<times> chat_session" where
  "chat_remove_contact mp w peer = chat_call mp w (Ipc_Calls.remove_contact peer)"

definition chat_contacts :: "msgpack \<Rightarrow> wait \<Rightarrow> chat_session \<Rightarrow> pyval ipc_res \<times> chat_session" where
  "chat_contacts mp w = chat_call mp w Ipc_Calls.query_contacts"

definition chat_resolve_name :: "msgpack \<Rightarrow> wait \<Rightarrow> string \<Rightarrow> chat_session \<Rightarrow> pyval ipc_res \<times> chat_session" where
  "chat_resolve_name mp w name = chat_call mp w (Ipc_Calls.resolve_name name True)"

text \<open>One round of the iteration over the events; an event of another type is dropped from the queue.\<close>

definition chat_next_event :: "ipc_client \<Rightarrow> chat_event option \<times> ipc_client" where
  "chat_next_event k =
     (case next_event (Some EVENT_MESSAGE) k of (e, k1) \<Rightarrow> (map_option (\<lambda>(t, d). chat_event_of d) e, k1))"

lemma disconnected: "\<not> is_connected (disconnect k)"
  by (simp add: is_connected_def disconnect_def Let_def split: option.split)

text \<open>Leaving a session closes the client it made itself.\<close>

lemma left_session_is_closed:
  assumes "chat_exit mp w s = (Inr (), s')" "cs_owns s" "cs_client s' = Some k"
  shows "\<not> is_connected k"
  using assms disconnected
  by (auto simp: chat_exit_def split: option.splits prod.splits sum.splits ipc_failure.splits if_splits)

text \<open>
  When the subscription fails the session is not entered, and nothing disconnects the client that it has
  just connected: the block that would leave the session never begins.
\<close>

lemma failed_enter_stays_connected:
  assumes "cs_owns s" "connect mp opened (ControlClient 30) = (Inr (), k)"
    and "await_call mp w (Ipc_Calls.subscribe_messages (cs_filter s)) k = (Inl e, k1)" "is_connected k1"
  shows "\<exists>s'. chat_enter mp opened w s = (Inl e, s') \<and> cs_client s' = Some k1 \<and> is_connected k1"
  using assms by (simp add: chat_enter_def chat_call_def)

end
