(* ===== verification/Contacts_Db.thy ===== *)
theory Contacts_Db
  imports Styrened_Prelude "HOL-Library.Sublist"
begin

text \<open>
  The database of messages and contacts (\<^verbatim>\<open>src/styrened/models/messages.py\<close>,
  \<^verbatim>\<open>models/contacts.py\<close>): what opening it does to the tables it finds, the migration of the contacts from
  destination hashes to identity hashes, and the later replacement of the hashes that were kept as
  placeholders. A table is its columns and its rows; each statement outside a transaction is in the file
  once it has been executed, as SQLite does for the creation of a table.
\<close>

section \<open>Tables\<close>

text \<open>A field of a row means something when its column is there.\<close>

record contact_row =
  c_peer :: "string option"
  c_identity :: "string option"
  c_alias :: string
  c_notes :: "string option"
  c_blocked :: "bool option"
  c_blocked_at :: "rat option"
  c_created :: rat
  c_updated :: rat
  c_backfill :: bool

record contacts_table =
  columns :: "string list"
  contact_rows :: "contact_row list"

record message_db =
  message_columns :: "string list option"
  contacts :: "contacts_table option"
  contacts_new :: "contacts_table option"
  contacts_clean :: "contacts_table option"
  peer_blocks :: bool
  indexes :: bool
  full_text :: bool

definition Contact :: "rat \<Rightarrow> string \<Rightarrow> string \<Rightarrow> string option \<Rightarrow> bool \<Rightarrow> rat option \<Rightarrow> rat option \<Rightarrow> rat option \<Rightarrow> contact_row" where
  "Contact now ih nick notes blocked blocked_at created updated =
     \<lparr>c_peer = None, c_identity = Some ih, c_alias = nick, c_notes = notes, c_blocked = Some blocked,
      c_blocked_at = blocked_at, c_created = (case created of Some t \<Rightarrow> if t \<noteq> 0 then t else now | None \<Rightarrow> now),
      c_updated = (case updated of Some t \<Rightarrow> if t \<noteq> 0 then t else now | None \<Rightarrow> now), c_backfill = False\<rparr>"

definition first_columns :: "string list" where
  "first_columns =
     [''id'', ''source_hash'', ''destination_hash'', ''timestamp'', ''content'', ''fields'', ''protocol_id'', ''status'',
      ''delivery_method'', ''delivery_attempts'', ''lxmf_hash'', ''signature_valid'', ''transport_encrypted'']"

text \<open>The columns that are added to a table of an older release, in this order.\<close>

definition later_columns :: "string list" where
  "later_columns =
     [''title'', ''read_by_recipient'', ''read_by_recipient_at'', ''read_receipt_sent'', ''has_attachment'',
      ''attachment_type'', ''attachment_name'', ''attachment_size'', ''attachment_mime'', ''attachment_data'',
      ''attachment_path'', ''thread_id'', ''reply_to_hash'']"

definition contact_columns :: "string list" where
  "contact_columns =
     [''identity_hash'', ''alias'', ''notes'', ''blocked'', ''blocked_at'', ''created_at'', ''updated_at'']"

definition add_column :: "string \<Rightarrow> string list \<Rightarrow> string list" where
  "add_column c cs = (if c \<in> set cs then cs else cs @ [c])"

section \<open>The migration of the contacts\<close>

text \<open>A primary key: no two rows have the same value that is not \<^verbatim>\<open>NULL\<close>.\<close>

definition unique_keys :: "contact_row list \<Rightarrow> bool" where
  "unique_keys rs \<longleftrightarrow> distinct (List.map_filter c_identity rs)"

text \<open>Both columns: an earlier migration did not end. The rows are copied without the flag.\<close>

definition clean_row :: "contact_row \<Rightarrow> contact_row" where
  "clean_row r =
     r\<lparr>c_peer := None, c_blocked := Some (case c_blocked r of Some b \<Rightarrow> b | None \<Rightarrow> False), c_backfill := False\<rparr>"

definition recover_contacts :: "contacts_table \<Rightarrow> message_db \<Rightarrow> exn option \<times> message_db" where
  "recover_contacts t db =
     (if contacts_clean db \<noteq> None then (Some OtherError, db)
      else
        let made = db\<lparr>contacts_clean := Some \<lparr>columns = contact_columns, contact_rows = []\<rparr>\<rparr>;
            rows = map clean_row (contact_rows t) in
        if \<not> set contact_columns \<subseteq> set (columns t) \<or> \<not> unique_keys rows then (Some OtherError, made)
        else (None, db\<lparr>contacts := Some \<lparr>columns = contact_columns, contact_rows = rows\<rparr>\<rparr>))"

text \<open>The old column only: its hashes become placeholders, and the rows are flagged.\<close>

definition placeholder_row :: "string list \<Rightarrow> contact_row \<Rightarrow> contact_row" where
  "placeholder_row cs r =
     r\<lparr>c_peer := None, c_identity := c_peer r,
       c_notes := (if ''notes'' \<in> set cs then c_notes r else None),
       c_blocked := Some (if ''blocked'' \<in> set cs then (case c_blocked r of Some b \<Rightarrow> b | None \<Rightarrow> False) else False),
       c_blocked_at := (if ''blocked_at'' \<in> set cs then c_blocked_at r else None), c_backfill := True\<rparr>"

definition migrate_contacts :: "contacts_table \<Rightarrow> message_db \<Rightarrow> exn option \<times> message_db" where
  "migrate_contacts t db =
     (if contacts_new db \<noteq> None then (Some OtherError, db)
      else
        let cols = contact_columns @ [''needs_identity_backfill''];
            made = db\<lparr>contacts_new := Some \<lparr>columns = cols, contact_rows = []\<rparr>\<rparr>;
            rows = map (placeholder_row (columns t)) (contact_rows t) in
        if \<not> {''alias'', ''created_at'', ''updated_at''} \<subseteq> set (columns t) \<or> \<not> unique_keys rows
        then (Some OtherError, made)
        else (None, db\<lparr>contacts := Some \<lparr>columns = cols, contact_rows = rows\<rparr>\<rparr>))"

definition contacts_step :: "contacts_table \<Rightarrow> message_db \<Rightarrow> exn option \<times> message_db" where
  "contacts_step t db =
     (if ''peer_hash'' \<in> set (columns t) \<and> ''identity_hash'' \<in> set (columns t) then recover_contacts t db
      else if ''peer_hash'' \<in> set (columns t) then migrate_contacts t db
      else (None, db))"

text \<open>The columns that may be missing, with their defaults.\<close>

definition complete_table :: "contacts_table \<Rightarrow> contacts_table" where
  "complete_table t =
     \<lparr>columns = add_column ''needs_identity_backfill'' (add_column ''blocked_at'' (add_column ''blocked'' (columns t))),
      contact_rows = map (\<lambda>r. r\<lparr>
          c_blocked := (if ''blocked'' \<in> set (columns t) then c_blocked r else Some False),
          c_blocked_at := (if ''blocked_at'' \<in> set (columns t) then c_blocked_at r else None),
          c_backfill := (if ''needs_identity_backfill'' \<in> set (columns t) then c_backfill r else False)\<rparr>)
        (contact_rows t)\<rparr>"

section \<open>Opening the database\<close>

text \<open>
  \<open>registered\<close>: the class of the contacts has been imported, so that \<^verbatim>\<open>create_all\<close> makes their table too;
  it is the same table that the statement after it makes.
\<close>

definition create_all :: "bool \<Rightarrow> message_db \<Rightarrow> message_db" where
  "create_all registered db =
     db\<lparr>message_columns := (case message_columns db of Some cs \<Rightarrow> Some cs | None \<Rightarrow> Some (first_columns @ later_columns)),
        contacts := (case contacts db of
            Some t \<Rightarrow> Some t
          | None \<Rightarrow> if registered then Some \<lparr>columns = contact_columns, contact_rows = []\<rparr> else None)\<rparr>"

definition prepare_tables :: "bool \<Rightarrow> message_db \<Rightarrow> contacts_table \<times> message_db" where
  "prepare_tables registered db =
     (let db1 = create_all registered db;
          db2 = db1\<lparr>message_columns := map_option (\<lambda>cs. foldl (\<lambda>cs c. add_column c cs) cs later_columns) (message_columns db1)\<rparr>;
          t = (case contacts db2 of Some t \<Rightarrow> t | None \<Rightarrow> \<lparr>columns = contact_columns, contact_rows = []\<rparr>) in
      (t, db2\<lparr>contacts := Some t\<rparr>))"

definition init_db :: "bool \<Rightarrow> message_db \<Rightarrow> exn option \<times> message_db" where
  "init_db registered db =
     (let (t, db1) = prepare_tables registered db in
      case contacts_step t db1 of
        (Some e, db2) \<Rightarrow> (Some e, db2)
      | (None, db2) \<Rightarrow>
          (None, db2\<lparr>contacts := map_option complete_table (contacts db2), peer_blocks := True, indexes := True,
             full_text := True\<rparr>))"

section \<open>Resolving the placeholders\<close>

definition has_identity :: "string \<Rightarrow> contact_row list \<Rightarrow> bool" where
  "has_identity ih rs \<longleftrightarrow> list_ex (\<lambda>r. c_identity r = Some ih) rs"

definition at_identity :: "string \<Rightarrow> (contact_row \<Rightarrow> contact_row) \<Rightarrow> contact_row list \<Rightarrow> contact_row list" where
  "at_identity ih f rs = map (\<lambda>r. if c_identity r = Some ih then f r else r) rs"

definition backfill_one :: "(string \<Rightarrow> string option) \<Rightarrow> nat \<times> contact_row list \<Rightarrow> string \<Rightarrow> nat \<times> contact_row list" where
  "backfill_one lookup s ih =
     (case s of (n, rs) \<Rightarrow>
        (case lookup ih of
           None \<Rightarrow> (n, rs)
         | Some new \<Rightarrow>
             if new = [] \<or> new = ih then (n, rs)
             else if has_identity new rs then (n, at_identity ih (\<lambda>r. r\<lparr>c_backfill := False\<rparr>) rs)
             else (Suc n, at_identity ih (\<lambda>r. r\<lparr>c_identity := Some new, c_backfill := False\<rparr>) rs)))"

definition flagged :: "contact_row list \<Rightarrow> string list" where
  "flagged rs = List.map_filter c_identity (filter c_backfill rs)"

definition backfill_contacts_identity_hash ::
    "(string \<Rightarrow> string option) \<Rightarrow> contact_row list \<Rightarrow> nat \<times> contact_row list" where
  "backfill_contacts_identity_hash lookup rs = foldl (backfill_one lookup) (0, rs) (flagged rs)"

text \<open>The class of the node store has no method of the name that is called.\<close>

definition backfill_from_store :: "contact_row list \<Rightarrow> (nat \<times> contact_row list) res" where
  "backfill_from_store rs = (if flagged rs = [] then Inr (0, rs) else Inl AttributeError)"

section \<open>What opening keeps\<close>

text \<open>What the user sees of a contact.\<close>

definition shown_contact :: "contact_row \<Rightarrow> string \<times> string option \<times> rat \<times> rat" where
  "shown_contact r = (c_alias r, c_notes r, c_created r, c_updated r)"

lemma completed_rows [simp]:
  "map c_identity (contact_rows (complete_table t)) = map c_identity (contact_rows t)"
  "map shown_contact (contact_rows (complete_table t)) = map shown_contact (contact_rows t)"
  by (simp_all add: complete_table_def shown_contact_def comp_def)

lemma migrated_keys: "List.map_filter c_identity (map (placeholder_row cs) rs) = List.map_filter c_peer rs"
  by (induction rs) (simp_all add: map_filter_simps placeholder_row_def split: option.split)

text \<open>
  Contacts under the old key come through the migration: each keeps its alias, notes and times, its old
  hash stands in for its identity, and it is flagged.
\<close>

lemma contacts_migrated:
  assumes t: "contacts db = Some t" and cols: "''identity_hash'' \<notin> set (columns t)"
      "{''peer_hash'', ''alias'', ''notes'', ''created_at'', ''updated_at''} \<subseteq> set (columns t)"
    and keys: "distinct (List.map_filter c_peer (contact_rows t))" and new: "contacts_new db = None"
  shows "\<exists>db' u. init_db registered db = (None, db') \<and> contacts db' = Some u \<and>
    map shown_contact (contact_rows u) = map shown_contact (contact_rows t) \<and>
    map c_identity (contact_rows u) = map c_peer (contact_rows t) \<and> (\<forall>r \<in> set (contact_rows u). c_backfill r)"
proof -
  have mf: "List.map_filter c_identity (map (placeholder_row (columns t)) (contact_rows t)) =
      List.map_filter c_peer (contact_rows t)"
    by (simp only: migrated_keys)
  have "prepare_tables registered db = (t, (snd (prepare_tables registered db)))"
    and "contacts_new (snd (prepare_tables registered db)) = None"
    using t new by (simp_all add: prepare_tables_def create_all_def Let_def)
  moreover from this have "contacts_step t (snd (prepare_tables registered db)) =
      (None, (snd (prepare_tables registered db))\<lparr>contacts :=
        Some \<lparr>columns = contact_columns @ [''needs_identity_backfill''],
              contact_rows = map (placeholder_row (columns t)) (contact_rows t)\<rparr>\<rparr>)"
    using cols keys mf by (simp add: contacts_step_def migrate_contacts_def unique_keys_def Let_def)
  ultimately show ?thesis
    using cols
    by (cases "prepare_tables registered db")
      (simp add: init_db_def complete_table_def placeholder_row_def shown_contact_def comp_def contact_columns_def)
qed

text \<open>Opening a database again changes nothing.\<close>

lemma add_column_set [simp]: "set (add_column c cs) = insert c (set cs)"
  by (auto simp: add_column_def)

lemma add_column_again [simp]: "c \<in> set cs \<Longrightarrow> add_column c cs = cs"
  by (simp add: add_column_def)

lemma add_columns_set: "set (foldl (\<lambda>cs c. add_column c cs) cs ds) = set cs \<union> set ds"
  by (induction ds arbitrary: cs) auto

lemma add_columns_again: "set ds \<subseteq> set cs \<Longrightarrow> foldl (\<lambda>cs c. add_column c cs) cs ds = cs"
  by (induction ds) auto

lemma complete_again: "{''blocked'', ''blocked_at'', ''needs_identity_backfill''} \<subseteq> set (columns t) \<Longrightarrow> complete_table t = t"
  by (cases t) (auto simp: complete_table_def intro!: map_idI)

lemma complete_twice: "complete_table (complete_table t) = complete_table t"
  by (rule complete_again) (auto simp: complete_table_def)

lemma step_contacts:
  assumes "contacts_step t db = (None, db')"
  shows "(\<exists>u. contacts db' = Some u \<and> ''peer_hash'' \<notin> set (columns u)) \<or> db' = db \<and> ''peer_hash'' \<notin> set (columns t)"
  using assms
  by (auto simp: contacts_step_def recover_contacts_def migrate_contacts_def contact_columns_def Let_def
      split: if_splits)

lemma opened_database:
  assumes "init_db registered db = (None, db')"
  shows "(\<exists>cs. message_columns db' = Some cs \<and> set later_columns \<subseteq> set cs) \<and>
    (\<exists>u. contacts db' = Some (complete_table u) \<and> ''peer_hash'' \<notin> set (columns u)) \<and>
    peer_blocks db' \<and> indexes db' \<and> full_text db'"
proof -
  obtain t db1 where p: "prepare_tables registered db = (t, db1)" by (cases "prepare_tables registered db")
  then have c: "contacts db1 = Some t" and m: "\<exists>cs. message_columns db1 = Some cs \<and> set later_columns \<subseteq> set cs"
    by (auto simp: prepare_tables_def create_all_def Let_def add_columns_set split: option.splits)
  from assms p obtain db2 where s: "contacts_step t db1 = (None, db2)"
    and d: "db' = db2\<lparr>contacts := map_option complete_table (contacts db2), peer_blocks := True, indexes := True, full_text := True\<rparr>"
    by (auto simp: init_db_def split: prod.splits option.splits)
  have "message_columns db2 = message_columns db1"
    using s by (auto simp: contacts_step_def recover_contacts_def migrate_contacts_def Let_def split: if_splits)
  with m d step_contacts [OF s] c show ?thesis by auto
qed

lemma opening_again_changes_nothing:
  assumes "init_db registered db = (None, db')"
  shows "init_db again db' = (None, db')"
proof -
  from opened_database [OF assms] obtain cs u where m: "message_columns db' = Some cs" "set later_columns \<subseteq> set cs"
    and u: "contacts db' = Some (complete_table u)" "''peer_hash'' \<notin> set (columns u)"
    and x: "peer_blocks db'" "indexes db'" "full_text db'" by blast
  have "''peer_hash'' \<notin> set (columns (complete_table u))" using u(2) by (simp add: complete_table_def)
  moreover have "prepare_tables again db' = (complete_table u, db')"
    using m u(1) by (cases db') (simp add: prepare_tables_def create_all_def Let_def add_columns_again)
  ultimately show ?thesis
    using u(1) x by (cases db') (simp add: init_db_def contacts_step_def complete_twice)
qed

section \<open>Interrupted migrations\<close>

text \<open>
  A migration that is interrupted after the new table was made leaves that table; every later opening
  then fails at making it again.
\<close>

definition interrupted :: "contacts_table \<Rightarrow> message_db \<Rightarrow> message_db" where
  "interrupted t db = db\<lparr>contacts_new := Some \<lparr>columns = contact_columns @ [''needs_identity_backfill''], contact_rows = []\<rparr>\<rparr>"

lemma interrupted_migration_blocks:
  assumes "contacts db = Some t" "''peer_hash'' \<in> set (columns t)" "''identity_hash'' \<notin> set (columns t)"
  shows "fst (init_db registered (interrupted t db)) \<noteq> None"
proof -
  have "fst (prepare_tables registered (interrupted t db)) = t"
    "contacts_new (snd (prepare_tables registered (interrupted t db))) \<noteq> None"
    using assms(1) by (simp_all add: prepare_tables_def create_all_def interrupted_def Let_def)
  with assms(2,3) show ?thesis
    by (cases "prepare_tables registered (interrupted t db)")
      (auto simp: init_db_def contacts_step_def migrate_contacts_def split: prod.splits)
qed

text \<open>The recovery of a table with both columns drops the flags: its placeholders are never resolved.\<close>

lemma recovery_forgets_flags:
  assumes "recover_contacts t db = (None, db')"
  shows "\<exists>u. contacts db' = Some u \<and> flagged (contact_rows (complete_table u)) = [] \<and>
    map c_identity (contact_rows u) = map c_identity (contact_rows t)"
proof -
  have "flagged rs = []" if "\<forall>r \<in> set rs. \<not> c_backfill r" for rs
    using that by (simp add: flagged_def filter_empty_conv map_filter_simps)
  moreover have "contacts db' = Some \<lparr>columns = contact_columns, contact_rows = map clean_row (contact_rows t)\<rparr>"
    using assms by (auto simp: recover_contacts_def Let_def split: if_splits)
  ultimately show ?thesis by (simp add: complete_table_def contact_columns_def clean_row_def comp_def)
qed

section \<open>Resolving keeps the contacts\<close>

lemma at_identity_shown [simp]:
  assumes "\<And>r. shown_contact (f r) = shown_contact r"
  shows "map shown_contact (at_identity ih f rs) = map shown_contact rs"
  using assms by (simp add: at_identity_def comp_def if_distrib cong: if_cong)

lemma backfill_one_shown: "map shown_contact (snd (backfill_one lookup (n, rs) ih)) = map shown_contact rs"
  by (auto simp: backfill_one_def shown_contact_def split: option.split)

text \<open>Replacing one key by one that no row has keeps the keys distinct.\<close>

lemma keys_at_identity:
  "map c_identity (at_identity ih (\<lambda>r. r\<lparr>c_identity := Some new, c_backfill := b\<rparr>) rs) =
   map (\<lambda>k. if k = Some ih then Some new else k) (map c_identity rs)"
  by (simp add: at_identity_def comp_def if_distrib cong: if_cong)

lemma map_filter_keys: "List.map_filter c_identity rs = List.map_filter (\<lambda>k. k) (map c_identity rs)"
  by (induction rs) (simp_all add: map_filter_simps split: option.split)

lemma distinct_replaced:
  fixes ks :: "'a option list"
  assumes "distinct (List.map_filter (\<lambda>k. k) ks)" "Some new \<notin> set ks"
  shows "distinct (List.map_filter (\<lambda>k. k) (map (\<lambda>k. if k = Some ih then Some new else k) ks))"
  using assms
proof (induction ks)
  case (Cons k ks)
  have mem: "x \<in> set (List.map_filter (\<lambda>k. k) xs) \<longleftrightarrow> Some x \<in> set xs" for x and xs :: "'a option list"
    by (force simp: map_filter_def)
  from Cons show ?case
    by (cases k) (auto simp: map_filter_simps mem split: if_splits)
qed simp

lemma backfill_one_unique:
  assumes "unique_keys rs"
  shows "unique_keys (snd (backfill_one lookup (n, rs) ih))"
proof -
  have "unique_keys (at_identity ih (\<lambda>r. r\<lparr>c_backfill := False\<rparr>) rs)"
  proof -
    have "map c_identity (at_identity ih (\<lambda>r. r\<lparr>c_backfill := False\<rparr>) rs) = map c_identity rs"
      by (simp add: at_identity_def comp_def if_distrib cong: if_cong)
    with assms show ?thesis unfolding unique_keys_def map_filter_keys by simp
  qed
  moreover have "unique_keys (at_identity ih (\<lambda>r. r\<lparr>c_identity := Some new, c_backfill := False\<rparr>) rs)"
    if "\<not> has_identity new rs" for new
  proof -
    have "Some new \<notin> set (map c_identity rs)" using that by (auto simp: has_identity_def list_ex_iff)
    from distinct_replaced [OF _ this, of ih] assms show ?thesis
      unfolding unique_keys_def map_filter_keys keys_at_identity by simp
  qed
  ultimately show ?thesis using assms by (auto simp: backfill_one_def split: option.split)
qed

text \<open>
  Whatever the lookup answers, resolving loses no contact, changes nothing of what is shown of it, and
  keeps the keys distinct.
\<close>

lemma resolving_keeps_contacts:
  assumes "unique_keys rs"
  shows "map shown_contact (snd (backfill_contacts_identity_hash lookup rs)) = map shown_contact rs \<and>
    unique_keys (snd (backfill_contacts_identity_hash lookup rs))"
proof -
  have "map shown_contact (snd (foldl (backfill_one lookup) (n, rs) ihs)) = map shown_contact rs \<and>
      unique_keys (snd (foldl (backfill_one lookup) (n, rs) ihs))" if "unique_keys rs" for n rs ihs
    using that
  proof (induction ihs arbitrary: n rs)
    case (Cons ih ihs)
    obtain n' rs' where b: "backfill_one lookup (n, rs) ih = (n', rs')" by fastforce
    with backfill_one_shown [of lookup n rs ih] backfill_one_unique [OF Cons.prems, of lookup n ih] Cons.IH [of rs' n']
    show ?case by simp
  qed simp
  from this [OF assms] show ?thesis by (simp add: backfill_contacts_identity_hash_def)
qed

end
