(* ===== verification/Pqc.thy ===== *)
theory Pqc
  imports Styrened_Prelude
begin

text \<open>
  The cryptographic functions of the post-quantum sessions
  (\<^verbatim>\<open>src/styrened/crypto/pqc_crypto.py\<close>) and the data of a session
  (\<^verbatim>\<open>src/styrened/models/pqc.py\<close>). The primitives are those of two libraries, a record of functions;
  random bytes are arguments. Keys have the length their primitive asks for.
\<close>

section \<open>The libraries\<close>

text \<open>
  \<open>oqs\<close>: the optional library is there, \<open>oqs_kem\<close>: it offers the mechanism; the three operations of the
  mechanism, X25519, HKDF with SHA-256 to 32 bytes (salt, info, key material), AES-256-GCM.
\<close>

record pqc_lib =
  oqs :: bool
  oqs_kem :: bool
  kem_keys :: "bytes \<Rightarrow> bytes \<times> bytes"
  kem_encap :: "bytes \<Rightarrow> bytes \<Rightarrow> bytes \<times> bytes"
  kem_decap :: "bytes \<Rightarrow> bytes \<Rightarrow> bytes"
  x_public :: "bytes \<Rightarrow> bytes"
  x_exchange :: "bytes \<Rightarrow> bytes \<Rightarrow> bytes"
  hkdf :: "bytes \<Rightarrow> bytes \<Rightarrow> bytes \<Rightarrow> bytes"
  gcm_encrypt :: "bytes \<Rightarrow> bytes \<Rightarrow> bytes \<Rightarrow> bytes option \<Rightarrow> bytes"
  gcm_decrypt :: "bytes \<Rightarrow> bytes \<Rightarrow> bytes \<Rightarrow> bytes option \<Rightarrow> bytes option"

datatype pqc_error = PQCNotAvailable | No_Mechanism | Bad_Value | Invalid_Tag | Counter_Overflow

definition pqc_available :: "pqc_lib \<Rightarrow> bool" where
  "pqc_available L \<longleftrightarrow> oqs L \<and> oqs_kem L"

section \<open>Key exchange\<close>

text \<open>The library is imported, then it is asked for the mechanism.\<close>

definition with_kem :: "pqc_lib \<Rightarrow> 'a \<Rightarrow> pqc_error + 'a" where
  "with_kem L x = (if \<not> oqs L then Inl PQCNotAvailable else if \<not> oqs_kem L then Inl No_Mechanism else Inr x)"

definition kem_generate_keypair :: "pqc_lib \<Rightarrow> bytes \<Rightarrow> pqc_error + bytes \<times> bytes" where
  "kem_generate_keypair L seed = with_kem L (kem_keys L seed)"

definition kem_encapsulate :: "pqc_lib \<Rightarrow> bytes \<Rightarrow> bytes \<Rightarrow> pqc_error + bytes \<times> bytes" where
  "kem_encapsulate L seed public_key = with_kem L (kem_encap L seed public_key)"

definition kem_decapsulate :: "pqc_lib \<Rightarrow> bytes \<Rightarrow> bytes \<Rightarrow> pqc_error + bytes" where
  "kem_decapsulate L secret_key ciphertext =
     with_kem L (kem_decap L secret_key ciphertext)"

definition x25519_generate_keypair :: "pqc_lib \<Rightarrow> bytes \<Rightarrow> bytes \<times> bytes" where
  "x25519_generate_keypair L seed = (x_public L seed, seed)"

definition x25519_derive_shared :: "pqc_lib \<Rightarrow> bytes \<Rightarrow> bytes \<Rightarrow> bytes" where
  "x25519_derive_shared L private_key peer = x_exchange L private_key peer"

definition hybrid_kdf :: "pqc_lib \<Rightarrow> bytes \<Rightarrow> bytes \<Rightarrow> bytes \<Rightarrow> bytes" where
  "hybrid_kdf L x_shared kem_shared session_id =
     hkdf L session_id (str_bytes ''styrene.io:hybrid-pqc:v1'') (x_shared @ kem_shared)"

section \<open>Encryption and the ratchet\<close>

definition aes_gcm_encrypt :: "pqc_lib \<Rightarrow> bytes \<Rightarrow> bytes \<Rightarrow> bytes \<Rightarrow> bytes option \<Rightarrow> pqc_error + bytes" where
  "aes_gcm_encrypt L nonce key plaintext aad =
     (if length key \<noteq> 32 then Inl Bad_Value else Inr (nonce @ gcm_encrypt L key nonce plaintext aad))"

definition aes_gcm_decrypt :: "pqc_lib \<Rightarrow> bytes \<Rightarrow> bytes \<Rightarrow> bytes option \<Rightarrow> pqc_error + bytes" where
  "aes_gcm_decrypt L key data aad =
     (if length key \<noteq> 32 then Inl Bad_Value
      else if length data < 12 + 16 then Inl Bad_Value
      else case gcm_decrypt L key (take 12 data) (drop 12 data) aad of
             None \<Rightarrow> Inl Invalid_Tag
           | Some p \<Rightarrow> Inr p)"

text \<open>\<^verbatim>\<open>counter.to_bytes(8, "big")\<close>.\<close>

definition eight_bytes :: "nat \<Rightarrow> bytes" where
  "eight_bytes n = map (\<lambda>i. word_of_nat (n div 256 ^ i)) (rev [0..<8])"

definition counter_bytes :: "int \<Rightarrow> pqc_error + bytes" where
  "counter_bytes n = (if n < 0 \<or> 2 ^ 64 \<le> n then Inl Counter_Overflow else Inr (eight_bytes (nat n)))"

definition ratchet_key :: "pqc_lib \<Rightarrow> bytes \<Rightarrow> int \<Rightarrow> pqc_error + bytes" where
  "ratchet_key L key n =
     (case counter_bytes n of
        Inl e \<Rightarrow> Inl e
      | Inr salt \<Rightarrow> Inr (hkdf L salt (str_bytes ''styrene.io:ratchet:v1'') key))"

section \<open>Sessions\<close>

datatype security_tier = TIER_NONE | RNS_ONLY | PQC_HYBRID | PQC_DEGRADED

datatype pqc_session_state = INITIATING | RESPONDING | ESTABLISHED | REKEYING | EXPIRED

fun tier_value :: "security_tier \<Rightarrow> string" where
  "tier_value TIER_NONE = ''none''"
| "tier_value RNS_ONLY = ''rns_only''"
| "tier_value PQC_HYBRID = ''pqc_hybrid''"
| "tier_value PQC_DEGRADED = ''pqc_degraded''"

fun session_state_value :: "pqc_session_state \<Rightarrow> string" where
  "session_state_value INITIATING = ''initiating''"
| "session_state_value RESPONDING = ''responding''"
| "session_state_value ESTABLISHED = ''established''"
| "session_state_value REKEYING = ''rekeying''"
| "session_state_value EXPIRED = ''expired''"

record pqc_session =
  session_id :: bytes
  ps_peer_hash :: string
  ps_state :: pqc_session_state
  created_at :: rat
  last_rekeyed_at :: rat
  rekey_count :: int
  ps_tier :: security_tier

definition PQCSession :: "bytes \<Rightarrow> rat \<Rightarrow> rat \<Rightarrow> pqc_session" where
  "PQCSession random_id now1 now2 =
     \<lparr>session_id = random_id, ps_peer_hash = [], ps_state = INITIATING, created_at = now1, last_rekeyed_at = now2,
      rekey_count = 0, ps_tier = PQC_HYBRID\<rparr>"

section \<open>What the functions give\<close>

text \<open>What the libraries document.\<close>

definition sound_library :: "pqc_lib \<Rightarrow> bool" where
  "sound_library L \<longleftrightarrow>
     (\<forall>s r. let (pk, sk) = kem_keys L s; (ct, sh) = kem_encap L r pk in kem_decap L sk ct = sh) \<and>
     (\<forall>a b. x_exchange L a (x_public L b) = x_exchange L b (x_public L a)) \<and>
     (\<forall>k n p a. gcm_decrypt L k n (gcm_encrypt L k n p a) a = Some p \<and>
        length (gcm_encrypt L k n p a) = length p + 16)"

text \<open>Both sides of a handshake derive the same key.\<close>

lemma both_sides_agree:
  assumes "sound_library L" "kem_generate_keypair L s = Inr (pk, sk)" "kem_encapsulate L r pk = Inr (ct, sh)"
  shows "kem_decapsulate L sk ct = Inr sh \<and>
    hybrid_kdf L (x25519_derive_shared L a (fst (x25519_generate_keypair L b))) sh sid =
    hybrid_kdf L (x25519_derive_shared L b (fst (x25519_generate_keypair L a))) sh sid"
proof -
  have k: "kem_keys L s = (pk, sk)" "kem_encap L r pk = (ct, sh)" "oqs L" "oqs_kem L"
    using assms by (simp_all add: kem_generate_keypair_def kem_encapsulate_def with_kem_def split: if_splits)
  have "let (pk, sk) = kem_keys L s; (ct, sh) = kem_encap L r pk in kem_decap L sk ct = sh"
    and x: "x_exchange L a (x_public L b) = x_exchange L b (x_public L a)"
    using assms(1) by (simp_all add: sound_library_def)
  with k show ?thesis
    by (simp add: kem_decapsulate_def with_kem_def hybrid_kdf_def x25519_derive_shared_def x25519_generate_keypair_def)
qed

text \<open>What was encrypted is decrypted, with the same key and the same associated data.\<close>

lemma decrypts_what_was_encrypted:
  assumes "sound_library L" "length nonce = 12" "aes_gcm_encrypt L nonce key p aad = Inr c"
  shows "aes_gcm_decrypt L key c aad = Inr p"
  using assms
  by (auto simp: aes_gcm_encrypt_def aes_gcm_decrypt_def sound_library_def split: if_splits)

text \<open>Without the library, or without the mechanism, nothing is made.\<close>

lemma no_mechanism_no_keys: "\<not> pqc_available L \<Longrightarrow> \<exists>e. kem_generate_keypair L s = Inl e"
  by (auto simp: pqc_available_def kem_generate_keypair_def with_kem_def)

lemma short_data_refused: "length d < 28 \<Longrightarrow> aes_gcm_decrypt L key d aad = Inl Bad_Value"
  by (simp add: aes_gcm_decrypt_def)

text \<open>Different counters give different salts, so a counter never repeats a step of the ratchet.\<close>

lemma big_endian_value:
  "foldl (\<lambda>v (b :: byte). v * 256 + unat b) a (map (\<lambda>i. word_of_nat (n div 256 ^ i)) (rev [0..<k])) =
   a * 256 ^ k + n mod 256 ^ k"
proof (induction k arbitrary: a)
  case (Suc k)
  have "unat (word_of_nat (n div 256 ^ k) :: byte) = n div 256 ^ k mod 256"
    by (simp add: unsigned_of_nat take_bit_eq_mod)
  moreover have "n mod 256 ^ Suc k = 256 ^ k * (n div 256 ^ k mod 256) + n mod 256 ^ k"
    using mod_mult2_eq [of n "256 ^ k" 256] by (simp add: mult.commute)
  ultimately show ?case by (simp add: Suc.IH) (simp add: algebra_simps)
qed simp

lemma eight_bytes_value:
  assumes "n < 2 ^ 64"
  shows "foldl (\<lambda>v b. v * 256 + unat b) 0 (eight_bytes n) = n"
proof -
  have "(256 :: nat) ^ 8 = 2 ^ 64" by simp
  with assms show ?thesis unfolding eight_bytes_def big_endian_value by simp
qed

lemma counters_differ:
  assumes "counter_bytes i = Inr s" "counter_bytes j = Inr s"
  shows "i = j"
proof -
  from assms have "0 \<le> i" "i < 2 ^ 64" "0 \<le> j" "j < 2 ^ 64" and e: "eight_bytes (nat i) = eight_bytes (nat j)"
    by (auto simp: counter_bytes_def split: if_splits)
  then have b: "nat i < 2 ^ 64" "nat j < 2 ^ 64" by (simp_all add: nat_less_iff)
  have "nat i = nat j"
    using eight_bytes_value [OF b(1)] eight_bytes_value [OF b(2)] unfolding e by (rule trans [OF sym])
  with \<open>0 \<le> i\<close> \<open>0 \<le> j\<close> show ?thesis by simp
qed

end
