(* ===== verification/Fleet.thy ===== *)
theory Fleet
  imports Paths
begin

text \<open>
  The fleet inventory (\<^verbatim>\<open>src/styrened/tui/services/fleet.py\<close>,
  \<^verbatim>\<open>src/styrened/tui/models/fleet.py\<close>): a list of devices in a YAML or JSON file, read and written
  whole by every operation. The YAML and JSON libraries and the dates of Python are a record of functions; a
  value of the file is any YAML value, and the fields of a device are not checked. The texts of the errors
  are left out, and so are infinite numbers.
\<close>

section \<open>Values of the file and the libraries\<close>

text \<open>A moment is a date with a time; a day without one is kept as its text.\<close>

datatype 't yv =
    YNone
  | YBool bool
  | YInt int
  | YFloat rat
  | YStr string
  | YBytes bytes
  | YMoment 't
  | YDay string
  | YList "'t yv list"
  | YDict "('t yv \<times> 't yv) list"

datatype 't parsed = Parsed "'t yv" | Not_Parsed | Parse_Raises exn

record 't fleet_lib =
  fl_yaml :: "string \<Rightarrow> 't parsed"
  fl_json :: "string \<Rightarrow> 't parsed"
  fl_dump :: "'t yv \<Rightarrow> string"
  fl_iso :: "'t \<Rightarrow> string"
  fl_from_iso :: "string \<Rightarrow> 't option"
  fl_timestamp :: "rat \<Rightarrow> exn + 't"
  fl_seconds :: "'t \<Rightarrow> 't \<Rightarrow> exn + rat"
  fl_default :: path
  fl_denied :: denied

datatype fleet_exn = InventoryLoadError | Raised exn

section \<open>Devices\<close>

record 't device =
  fd_name :: "'t yv"
  fd_profile :: "'t yv"
  fd_hardware :: "'t yv"
  fd_status :: "'t yv"
  fd_last_seen :: "'t option"
  fd_identity :: "'t yv"
  fd_ip :: "'t yv"
  fd_notes :: "'t yv"

definition is_online :: "'t device \<Rightarrow> bool" where "is_online d \<longleftrightarrow> fd_status d = YStr ''online''"
definition is_offline :: "'t device \<Rightarrow> bool" where "is_offline d \<longleftrightarrow> fd_status d = YStr ''offline''"
definition is_pending :: "'t device \<Rightarrow> bool" where "is_pending d \<longleftrightarrow> fd_status d = YStr ''pending''"
definition has_error :: "'t device \<Rightarrow> bool" where "has_error d \<longleftrightarrow> fd_status d = YStr ''error''"

text \<open>\<open>fl_seconds now t\<close> is the time between them; one with and one without a zone cannot be subtracted.\<close>

definition last_seen_display :: "'t fleet_lib \<Rightarrow> 't \<Rightarrow> 't device \<Rightarrow> string res" where
  "last_seen_display L now d =
     (case fd_last_seen d of
        None \<Rightarrow> Inr ''-''
      | Some t \<Rightarrow>
          bind_res (fl_seconds L now t) (\<lambda>s.
            if s < 60 then Inr ''just now''
            else if s < 3600 then Inr (show_int \<lfloor>s / 60\<rfloor> @ ''m ago'')
            else if s < 86400 then Inr (show_int \<lfloor>s / 3600\<rfloor> @ ''h ago'')
            else Inr (show_int \<lfloor>s / 86400\<rfloor> @ ''d ago'')))"

fun parse_datetime :: "'t fleet_lib \<Rightarrow> 't yv \<Rightarrow> 't option res" where
  "parse_datetime L (YMoment t) = Inr (Some t)"
| "parse_datetime L (YStr s) = Inr (fl_from_iso L s)"
| "parse_datetime L (YInt i) = map_sum id Some (fl_timestamp L (of_int i))"
| "parse_datetime L (YBool b) = map_sum id Some (fl_timestamp L (if b then 1 else 0))"
| "parse_datetime L (YFloat q) = map_sum id Some (fl_timestamp L q)"
| "parse_datetime L _ = Inr None"

definition y_get :: "('t yv \<times> 't yv) list \<Rightarrow> string \<Rightarrow> 't yv \<Rightarrow> 't yv" where
  "y_get d k v = (case map_of d (YStr k) of None \<Rightarrow> v | Some x \<Rightarrow> x)"

definition y_item :: "('t yv \<times> 't yv) list \<Rightarrow> string \<Rightarrow> 't yv res" where
  "y_item d k = (case map_of d (YStr k) of None \<Rightarrow> Inl KeyError | Some x \<Rightarrow> Inr x)"

definition device_to_dict :: "'t fleet_lib \<Rightarrow> 't device \<Rightarrow> 't yv" where
  "device_to_dict L d = YDict
     [(YStr ''name'', fd_name d), (YStr ''profile'', fd_profile d), (YStr ''hardware'', fd_hardware d),
      (YStr ''status'', fd_status d),
      (YStr ''last_seen'', case fd_last_seen d of None \<Rightarrow> YNone | Some t \<Rightarrow> YStr (fl_iso L t)),
      (YStr ''reticulum_identity'', fd_identity d), (YStr ''ip_address'', fd_ip d), (YStr ''notes'', fd_notes d)]"

text \<open>Subscripting what is no dictionary with a text.\<close>

fun dict_to_device :: "'t fleet_lib \<Rightarrow> 't yv \<Rightarrow> 't device res" where
  "dict_to_device L (YDict d) =
     bind_res (y_item d ''name'') (\<lambda>n.
     bind_res (y_item d ''profile'') (\<lambda>p.
     bind_res (y_item d ''hardware'') (\<lambda>h.
     bind_res (parse_datetime L (y_get d ''last_seen'' YNone)) (\<lambda>t.
       Inr \<lparr>fd_name = n, fd_profile = p, fd_hardware = h, fd_status = y_get d ''status'' (YStr ''pending''),
            fd_last_seen = t, fd_identity = y_get d ''reticulum_identity'' YNone,
            fd_ip = y_get d ''ip_address'' YNone, fd_notes = y_get d ''notes'' YNone\<rparr>))))"
| "dict_to_device L _ = Inl TypeError"

section \<open>Loading and saving\<close>

definition get_inventory_path :: "'t fleet_lib \<Rightarrow> path option \<Rightarrow> path" where
  "get_inventory_path L p = (case p of None \<Rightarrow> fl_default L | Some q \<Rightarrow> q)"

text \<open>The handler around the reading: an \<^verbatim>\<open>OSError\<close> becomes the error of the inventory.\<close>

definition handled :: "exn \<Rightarrow> fleet_exn" where
  "handled e = (if e = OSError then InventoryLoadError else Raised e)"

fun devices_of :: "'t fleet_lib \<Rightarrow> 't yv list \<Rightarrow> 't device list res" where
  "devices_of L [] = Inr []"
| "devices_of L (v # vs) = bind_res (dict_to_device L v) (\<lambda>d. bind_res (devices_of L vs) (\<lambda>ds. Inr (d # ds)))"

fun inventory_of :: "'t fleet_lib \<Rightarrow> 't yv \<Rightarrow> fleet_exn + 't device list" where
  "inventory_of L (YDict d) =
     (case y_get d ''devices'' (YList []) of
        YList vs \<Rightarrow> map_sum handled id (devices_of L vs)
      | _ \<Rightarrow> Inl InventoryLoadError)"
| "inventory_of L _ = Inl InventoryLoadError"

definition load_inventory :: "'t fleet_lib \<Rightarrow> path option \<Rightarrow> fs \<Rightarrow> fleet_exn + 't device list" where
  "load_inventory L path fs =
     (let p = get_inventory_path L path in
      if \<not> path_exists fs p then Inr []
      else case bind_res (read_bytes fs p) decode_utf8 of
        Inl e \<Rightarrow> Inl (handled e)
      | Inr s \<Rightarrow>
          (case fl_yaml L s of
             Parsed v \<Rightarrow> inventory_of L v
           | Parse_Raises e \<Rightarrow> Inl (handled e)
           | Not_Parsed \<Rightarrow>
               (case fl_json L s of
                  Parsed v \<Rightarrow> inventory_of L v
                | Parse_Raises e \<Rightarrow> Inl (handled e)
                | Not_Parsed \<Rightarrow> Inl InventoryLoadError)))"

definition inventory_doc :: "'t fleet_lib \<Rightarrow> 't device list \<Rightarrow> 't yv" where
  "inventory_doc L ds =
     YDict [(YStr ''version'', YStr ''1.0''), (YStr ''devices'', YList (map (device_to_dict L) ds))]"

text \<open>The directory is made outside the handler.\<close>

definition save_inventory :: "'t fleet_lib \<Rightarrow> 't device list \<Rightarrow> path option \<Rightarrow> fs \<Rightarrow> fleet_exn option \<times> fs" where
  "save_inventory L ds path fs =
     (let p = get_inventory_path L path in
      case mkdir_parents (fl_denied L) (butlast p) fs of
        Inl e \<Rightarrow> (Some (Raised e), fs)
      | Inr fs1 \<Rightarrow>
          (case write_file (fl_denied L) p (str_bytes (fl_dump L (inventory_doc L ds))) fs1 of
             Inl e \<Rightarrow> (Some (handled e), fs1)
           | Inr fs2 \<Rightarrow> (None, fs2)))"

section \<open>Operations\<close>

text \<open>The name of a device that is added is a text, \<open>n\<close>.\<close>

definition add_device :: "'t fleet_lib \<Rightarrow> string \<Rightarrow> 't device \<Rightarrow> path option \<Rightarrow> fs \<Rightarrow> fleet_exn option \<times> fs" where
  "add_device L n d path fs =
     (case load_inventory L path fs of
        Inl e \<Rightarrow> (Some e, fs)
      | Inr ds \<Rightarrow>
          save_inventory L (filter (\<lambda>x. fd_name x \<noteq> YStr n) ds @ [d\<lparr>fd_name := YStr n\<rparr>]) path fs)"

fun set_status :: "'t \<Rightarrow> string \<Rightarrow> string \<Rightarrow> 't device list \<Rightarrow> 't device list option" where
  "set_status now n st [] = None"
| "set_status now n st (d # ds) =
     (if fd_name d = YStr n
      then Some ((if st = ''online'' then d\<lparr>fd_status := YStr st, fd_last_seen := Some now\<rparr>
                  else d\<lparr>fd_status := YStr st\<rparr>) # ds)
      else map_option (Cons d) (set_status now n st ds))"

definition update_device_status ::
    "'t fleet_lib \<Rightarrow> 't \<Rightarrow> string \<Rightarrow> string \<Rightarrow> path option \<Rightarrow> fs \<Rightarrow> fleet_exn option \<times> fs" where
  "update_device_status L now n st path fs =
     (case load_inventory L path fs of
        Inl e \<Rightarrow> (Some e, fs)
      | Inr ds \<Rightarrow>
          (case set_status now n st ds of
             None \<Rightarrow> (Some (Raised ValueError), fs)
           | Some ds1 \<Rightarrow> save_inventory L ds1 path fs))"

definition get_device :: "'t fleet_lib \<Rightarrow> string \<Rightarrow> path option \<Rightarrow> fs \<Rightarrow> fleet_exn + 't device option" where
  "get_device L n path fs = map_sum id (find (\<lambda>d. fd_name d = YStr n)) (load_inventory L path fs)"

record fleet_summary =
  fs_online :: nat
  fs_offline :: nat
  fs_pending :: nat
  fs_error :: nat
  fs_total :: nat

definition count_device :: "fleet_summary \<Rightarrow> 't device \<Rightarrow> fleet_summary" where
  "count_device s d =
     (if is_online d then s\<lparr>fs_online := fs_online s + 1\<rparr>
      else if is_offline d then s\<lparr>fs_offline := fs_offline s + 1\<rparr>
      else if is_pending d then s\<lparr>fs_pending := fs_pending s + 1\<rparr>
      else if has_error d then s\<lparr>fs_error := fs_error s + 1\<rparr>
      else s)"

definition get_fleet_summary :: "'t fleet_lib \<Rightarrow> path option \<Rightarrow> fs \<Rightarrow> fleet_exn + fleet_summary" where
  "get_fleet_summary L path fs =
     map_sum id (\<lambda>ds. foldl count_device
         \<lparr>fs_online = 0, fs_offline = 0, fs_pending = 0, fs_error = 0, fs_total = length ds\<rparr> ds)
       (load_inventory L path fs)"

section \<open>The sample\<close>

definition sample_device ::
    "string \<Rightarrow> string \<Rightarrow> string \<Rightarrow> string \<Rightarrow> 't option \<Rightarrow> string option \<Rightarrow> string option \<Rightarrow> string option \<Rightarrow> 't device" where
  "sample_device n p h st t ident ip notes =
     (let text = (\<lambda>x. case x of None \<Rightarrow> YNone | Some s \<Rightarrow> YStr s) in
      \<lparr>fd_name = YStr n, fd_profile = YStr p, fd_hardware = YStr h, fd_status = YStr st, fd_last_seen = t,
       fd_identity = text ident, fd_ip = text ip, fd_notes = text notes\<rparr>)"

text \<open>Each call of the clock is one moment.\<close>

definition sample_devices :: "'t \<Rightarrow> 't \<Rightarrow> 't \<Rightarrow> 't \<Rightarrow> 't device list" where
  "sample_devices t1 t2 t3 t4 =
     [sample_device ''rpi-01'' ''node'' ''rpi-zero2w'' ''online'' (Some t1)
        (Some ''a3f5d8e9b1c2'') (Some ''192.168.0.101'') (Some ''Test device 1''),
      sample_device ''rpi-02'' ''node'' ''rpi-zero2w'' ''online'' (Some t2)
        (Some ''b4e6c7d8a2f3'') (Some ''192.168.0.102'') None,
      sample_device ''t100ta-01'' ''workstation'' ''t100ta'' ''offline'' (Some t3)
        (Some ''c5d7a8e9f3b4'') (Some ''192.168.0.110'') None,
      sample_device ''x86-dev'' ''workstation'' ''x86-generic'' ''online'' (Some t4) None (Some ''192.168.0.120'') None,
      sample_device ''libre-01'' ''edge-router'' ''libre-board'' ''pending'' None None None (Some ''Awaiting provisioning'')]"

definition create_sample_inventory ::
    "'t fleet_lib \<Rightarrow> 't \<Rightarrow> 't \<Rightarrow> 't \<Rightarrow> 't \<Rightarrow> path option \<Rightarrow> fs \<Rightarrow> fleet_exn option \<times> fs" where
  "create_sample_inventory L t1 t2 t3 t4 path fs = save_inventory L (sample_devices t1 t2 t3 t4) path fs"

section \<open>What was saved is loaded\<close>

text \<open>
  What the libraries promise: a document that was dumped is parsed to itself, a moment that was written is
  read, and the text of a dump can be encoded.
\<close>

definition faithful_lib :: "'t fleet_lib \<Rightarrow> bool" where
  "faithful_lib L \<longleftrightarrow>
     (\<forall>v. fl_yaml L (fl_dump L v) = Parsed v \<and> utf8_valid (str_bytes (fl_dump L v))) \<and>
     (\<forall>t. fl_from_iso L (fl_iso L t) = Some t)"

lemma dict_device: "faithful_lib L \<Longrightarrow> dict_to_device L (device_to_dict L d) = Inr d"
  by (cases d) (auto simp: device_to_dict_def y_item_def y_get_def faithful_lib_def split: option.splits)

lemma devices_of_saved: "faithful_lib L \<Longrightarrow> devices_of L (map (device_to_dict L) ds) = Inr ds"
  by (induction ds) (simp_all add: dict_device)

lemma saved_file:
  assumes "save_inventory L ds path fs = (None, fs')" "\<not> is_symlink fs (get_inventory_path L path)"
  shows "fs' (get_inventory_path L path) = Some (File (str_bytes (fl_dump L (inventory_doc L ds))))"
proof -
  let ?p = "get_inventory_path L path"
  from assms(1) obtain fs1 where m: "mkdir_parents (fl_denied L) (butlast ?p) fs = Inr fs1"
    and w: "write_file (fl_denied L) ?p (str_bytes (fl_dump L (inventory_doc L ds))) fs1 = Inr fs'"
    by (auto simp: save_inventory_def Let_def split: sum.splits)
  have "resolve fs1 ?p = ?p" by (rule resolve_no_link, rule mkdir_no_link [OF m assms(2)])
  with w show ?thesis by (auto simp: write_file_def Let_def split: if_splits option.splits node.splits)
qed

lemma load_what_was_saved:
  assumes "save_inventory L ds path fs = (None, fs')" "faithful_lib L"
    and "\<not> is_symlink fs (get_inventory_path L path)"
  shows "load_inventory L path fs' = Inr ds"
proof -
  note f = plain_file [of fs' "get_inventory_path L path", OF saved_file [OF assms(1,3)]]
  from assms(2) have "utf8_valid (str_bytes (fl_dump L (inventory_doc L ds)))"
    and y: "fl_yaml L (fl_dump L (inventory_doc L ds)) = Parsed (inventory_doc L ds)"
    by (simp_all add: faithful_lib_def)
  then have d: "decode_utf8 (str_bytes (fl_dump L (inventory_doc L ds))) = Inr (fl_dump L (inventory_doc L ds))"
    by (simp add: decode_utf8_def)
  have "inventory_of L (inventory_doc L ds) = Inr ds"
    by (simp add: inventory_doc_def y_get_def devices_of_saved [OF assms(2)])
  with f y d show ?thesis by (simp add: load_inventory_def Let_def)
qed

section \<open>Adding and updating\<close>

text \<open>After a device was added it is found, once, and what other names find is as before.\<close>

lemma find_append: "find P (xs @ ys) = (case find P xs of None \<Rightarrow> find P ys | Some x \<Rightarrow> Some x)"
  by (induction xs) auto

lemma find_filter: "(\<And>x. P x \<Longrightarrow> Q x) \<Longrightarrow> find P (filter Q xs) = find P xs"
  by (induction xs) auto

lemma find_none: "(\<And>x. x \<in> set xs \<Longrightarrow> \<not> P x) \<Longrightarrow> find P xs = None"
  by (induction xs) auto

lemma added_device_found:
  assumes "add_device L n d path fs = (None, fs')" "faithful_lib L"
    and "\<not> is_symlink fs (get_inventory_path L path)"
  shows "get_device L n path fs' = Inr (Some (d\<lparr>fd_name := YStr n\<rparr>)) \<and>
    (n' \<noteq> n \<longrightarrow> get_device L n' path fs' = get_device L n' path fs)"
proof -
  from assms(1) obtain ds where l: "load_inventory L path fs = Inr ds"
    and s: "save_inventory L (filter (\<lambda>x. fd_name x \<noteq> YStr n) ds @ [d\<lparr>fd_name := YStr n\<rparr>]) path fs = (None, fs')"
    by (auto simp: add_device_def split: sum.splits)
  note l' = load_what_was_saved [OF s assms(2,3)]
  have "find (\<lambda>x. fd_name x = YStr n) (filter (\<lambda>x. fd_name x \<noteq> YStr n) ds) = None" by (rule find_none) simp
  then have "get_device L n path fs' = Inr (Some (d\<lparr>fd_name := YStr n\<rparr>))"
    by (simp add: get_device_def l' find_append)
  moreover have "get_device L n' path fs' = get_device L n' path fs" if "n' \<noteq> n"
  proof -
    from that have "find (\<lambda>x. fd_name x = YStr n') (filter (\<lambda>x. fd_name x \<noteq> YStr n) ds) =
        find (\<lambda>x. fd_name x = YStr n') ds" by (intro find_filter) auto
    with that show ?thesis by (simp add: get_device_def l l' find_append split: option.splits)
  qed
  ultimately show ?thesis by blast
qed

text \<open>A new status is what is found; no device is added, removed or renamed.\<close>

lemma set_status_names: "set_status now n st ds = Some ds' \<Longrightarrow> map fd_name ds' = map fd_name ds"
  by (induction ds arbitrary: ds') (auto split: if_splits)

lemma set_status_found:
  "set_status now n st ds = Some ds' \<Longrightarrow> find (\<lambda>d. fd_name d = YStr n') ds' =
     map_option (\<lambda>d. if n' \<noteq> n then d
                  else if st = ''online'' then d\<lparr>fd_status := YStr st, fd_last_seen := Some now\<rparr>
                  else d\<lparr>fd_status := YStr st\<rparr>) (find (\<lambda>d. fd_name d = YStr n') ds)"
  by (induction ds arbitrary: ds') (auto simp: option.map_ident split: if_splits)

lemma updated_status_found:
  assumes "update_device_status L now n st path fs = (None, fs')" "faithful_lib L"
    and "\<not> is_symlink fs (get_inventory_path L path)"
  shows "\<exists>d. get_device L n path fs = Inr (Some d) \<and>
    get_device L n path fs' = Inr (Some
      (if st = ''online'' then d\<lparr>fd_status := YStr st, fd_last_seen := Some now\<rparr> else d\<lparr>fd_status := YStr st\<rparr>)) \<and>
    (\<forall>n'. n' \<noteq> n \<longrightarrow> get_device L n' path fs' = get_device L n' path fs)"
proof -
  from assms(1) obtain ds ds1 where l: "load_inventory L path fs = Inr ds"
    and s: "set_status now n st ds = Some ds1" and w: "save_inventory L ds1 path fs = (None, fs')"
    by (auto simp: update_device_status_def split: sum.splits option.splits)
  note l' = load_what_was_saved [OF w assms(2,3)]
  have "find (\<lambda>d. fd_name d = YStr n) ds \<noteq> None"
    using s by (induction ds arbitrary: ds1) (auto split: if_splits)
  then obtain d where "find (\<lambda>d. fd_name d = YStr n) ds = Some d" by auto
  then show ?thesis using set_status_found [OF s] by (simp add: get_device_def l l' option.map_ident)
qed

section \<open>The summary\<close>

lemma summary_counts:
  "foldl count_device s ds = s
     \<lparr>fs_online := fs_online s + length (filter is_online ds), fs_offline := fs_offline s + length (filter is_offline ds),
      fs_pending := fs_pending s + length (filter is_pending ds), fs_error := fs_error s + length (filter has_error ds)\<rparr>"
  by (induction ds arbitrary: s)
    (simp_all add: count_device_def is_online_def is_offline_def is_pending_def has_error_def)

text \<open>
  Every count is that of the devices with the status; together they are at most the total, and less when
  a device has a status that the UI does not know.
\<close>

lemma summary_within_total:
  assumes "get_fleet_summary L path fs = Inr s" "load_inventory L path fs = Inr ds"
  shows "fs_total s = length ds \<and> fs_online s = length (filter is_online ds) \<and>
    fs_online s + fs_offline s + fs_pending s + fs_error s +
      length (filter (\<lambda>d. \<not> is_online d \<and> \<not> is_offline d \<and> \<not> is_pending d \<and> \<not> has_error d) ds) = fs_total s"
proof -
  have "length (filter is_online ds) + length (filter is_offline ds) + length (filter is_pending ds) +
      length (filter has_error ds) +
      length (filter (\<lambda>d. \<not> is_online d \<and> \<not> is_offline d \<and> \<not> is_pending d \<and> \<not> has_error d) ds) = length ds"
    by (induction ds) (auto simp: is_online_def is_offline_def is_pending_def has_error_def)
  with assms show ?thesis by (auto simp: get_fleet_summary_def summary_counts)
qed

section \<open>Errors that are not those of the inventory\<close>

text \<open>
  Reading gives the error of the inventory for a file that cannot be read, cannot be parsed or is no
  inventory; a device without a name raises another error, and so does a text that is not UTF-8.
\<close>

lemma nameless_device_raises:
  assumes "path_exists fs (get_inventory_path L path)" "read_bytes fs (get_inventory_path L path) = Inr b"
    and "decode_utf8 b = Inr s" "fl_yaml L s = Parsed (YDict [(YStr ''devices'', YList [YDict [(YStr ''profile'', YStr ''node'')]])])"
  shows "load_inventory L path fs = Inl (Raised KeyError)"
  using assms by (simp add: load_inventory_def Let_def y_get_def y_item_def handled_def)

lemma not_utf8_raises:
  assumes "path_exists fs (get_inventory_path L path)" "read_bytes fs (get_inventory_path L path) = Inr b" "\<not> utf8_valid b"
  shows "load_inventory L path fs = Inl (Raised UnicodeDecodeError)"
  using assms by (simp add: load_inventory_def Let_def decode_utf8_def handled_def)

lemma unreadable_is_inventory_error:
  assumes "load_inventory L path fs = Inl (Raised e)" shows "e \<noteq> OSError"
proof -
  have h: "map_sum handled id r \<noteq> Inl (Raised OSError)" for r :: "'a device list res"
    by (cases r) (auto simp: handled_def)
  have i: "inventory_of L v \<noteq> Inl (Raised OSError)" for v
    by (cases v) (auto simp: h split: yv.splits)
  from assms i show ?thesis
    by (auto simp: load_inventory_def Let_def handled_def split: if_splits sum.splits parsed.splits)
qed

text \<open>When the directory cannot be made, saving raises the error of the system as it is.\<close>

lemma unmade_directory_raises:
  assumes "mkdir_parents (fl_denied L) (butlast (get_inventory_path L path)) fs = Inl e"
  shows "save_inventory L ds path fs = (Some (Raised e), fs)"
  using assms by (simp add: save_inventory_def Let_def)

end
