(* ===== verification/Spec2Isabelle.thy ===== *)
theory Spec2Isabelle
  imports Wire_Messages Rbac Rns_Limits Term_Properties Ipc_Requests Ipc_Data Rpc_Client Discovery Term_Client Hub_Connection Lxmf_Service Config_Theorems Config_Validate Micron Ipc_Calls Identity_Theorems Lifecycle Ui_Daemon Ipc_Bridge Tui_Reticulum Doctor Attachment_Store Ui_Scope Daemon_Manager Device_Cache Cop_Situation Boundary_Log Contacts_Db Pqc Fleet
begin

text \<open>
  A model of styrened, the Python daemon, library and terminal UI for Reticulum mesh networks
  (\<^verbatim>\<open>src/src/styrened\<close>; the paths below are relative to it).

  \<^bold>\<open>The program.\<close> A daemon owns one Reticulum instance and one LXMF router. It finds the other nodes by
  their announces, keeps them in a SQLite store, answers and makes remote procedure calls in the Styrene
  wire format inside LXMF messages, and serves remote terminals over Reticulum links. Who may do what is
  decided by one authorization policy. The terminal UI and the command line are clients of the daemon over a
  Unix socket. The configuration, the operator's identity and the attachments are files.

  \<^bold>\<open>Conventions.\<close> \<open>Styrened_Prelude\<close> has bytes as lists of 8-bit words, texts as the lists of
  their UTF-8 bytes, hexadecimal text, the exceptions of Python as the type \<open>exn\<close>, and results that may
  be exceptions as sums, \<open>Inl\<close> being the exception. \<open>Py_Values\<close> has the values that cross the wire,
  \<open>Py_Text\<close> the text operations that depend on code points, \<open>Py_Numbers\<close> \<^verbatim>\<open>int\<close> and \<^verbatim>\<open>list\<close> of a
  value of any type. A dataclass is a record, an enumeration a datatype with a function to its values, a
  dictionary an association list in insertion order, shared mutable objects places in a heap or a list. Time
  is an argument, a rational number. What a library or the operating system answers is an argument: msgpack,
  Reticulum, LXMF, YAML, hashing, \<^verbatim>\<open>json\<close>, the network and the programs that are run. What is done to them
  is written to a trace in the state. An asynchronous operation is cut at its awaits, so that a step relation
  interleaves the parts; a callback changes a component in steps of its own.

  \<open>Interfaces\<close> has the locales that several components share: \<open>invariant_system\<close> (reachable states and an
  inductive invariant; interpreted for the policy, the path limiter, the RPC client, the terminal service,
  the node store, discovery, the hub connection, the LXMF service and the control client), \<open>codec\<close> and
  \<open>canonical_codec\<close> (wire format, control frames, terminal messages), \<open>int_enum\<close>, and \<open>authorizer\<close> (what the
  terminal service asks of a policy). \<open>Ipc_Data\<close> has \<open>dict_codec\<close> for its dictionaries, \<open>Node_Store\<close>
  \<open>keyed_table\<close> for a table with a primary key, \<open>Protocols\<close> \<open>routable\<close> for what the registry routes.

  \<^bold>\<open>The mesh side.\<close>
  \<^item> \<open>Wire\<close> and \<open>Wire_Messages\<close> (\<^verbatim>\<open>models/styrene_wire.py\<close>): envelopes of both versions and every message
    factory. Decoding accepts exactly the encodings of well-formed envelopes and every other input gives the
    error of its first defect.
  \<^item> \<open>Protocols\<close> (\<^verbatim>\<open>protocols/\<close>): the registry and the Styrene handler; every handler of a message runs once,
    and the message is stored, if the database takes it.
  \<^item> \<open>Rpc_Messages\<close>, \<open>Rpc_Client\<close> (\<^verbatim>\<open>rpc/\<close>): the pending table; a call is answered at most once, and a
    response that arrives answers it.
  \<^item> \<open>Rbac\<close> (\<^verbatim>\<open>models/rbac.py\<close>): the policy; its cached allow lists are never stale and agree with the decision,
    a blocked identity has no capability.
  \<^item> \<open>Rns_Limits\<close> (\<^verbatim>\<open>services/rns_limits.py\<close>), \<open>Hub_Connection\<close> (\<^verbatim>\<open>services/hub_connection.py\<close>): path
    requests are spaced, a hub counts as connected only after a path check that is recent.
  \<^item> \<open>Mesh_Device\<close>, \<open>Discovery\<close>, \<open>Node_Store\<close> (\<^verbatim>\<open>models/mesh_device.py\<close>, \<^verbatim>\<open>services/reticulum.py\<close>,
    \<^verbatim>\<open>services/node_store.py\<close>): announces, admission, the table of devices, the store behind it, which
    outlives the daemon and is written by other components too: announces add to it only what is admitted;
    the store refines a map from destinations to rows.
  \<^item> \<open>Lxmf_Service\<close> (\<^verbatim>\<open>services/lxmf_service.py\<close>): sending, waiting for a path, blocked peers, incoming mail. The
    step relation has every operation at any time, the injection of a policy included, which forgets the
    blocks; between injections a block holds.
  \<^item> \<open>Rns_Service\<close>, \<open>Rns_Config\<close> (\<^verbatim>\<open>services/rns_service.py\<close>, \<^verbatim>\<open>services/reticulum.py\<close>): the service that
    owns the instance with its interface monitor (which callback ran for which interface is in a log), and the configuration file of Reticulum, which is generated
    and read back.
  \<^item> \<open>Term_Messages\<close>, \<open>Term_State\<close>, \<open>Term_Service\<close>, \<open>Term_Safety\<close>, \<open>Term_Properties\<close>, \<open>Term_Client\<close>
    (\<^verbatim>\<open>terminal/\<close>): the messages on the link; the sessions in a heap with their table, limits and filters; the
    handlers; the step relation with its invariants; the client. Limits hold in every reachable state, a link
    is bound only to the identity that owns the session, control messages need ownership, window sizes fit
    16 bits.
  \<^item> \<open>Pqc\<close> (\<^verbatim>\<open>crypto/pqc_crypto.py\<close>, \<^verbatim>\<open>models/pqc.py\<close>): the hybrid key exchange over the primitives of its
    libraries; both sides derive one key.

  \<^bold>\<open>Files.\<close>
  \<^item> \<open>File_System\<close> and \<open>Paths\<close> (\<^verbatim>\<open>paths.py\<close>): a file system as a map from paths to files, directories and links.
  \<^item> \<open>Identity_Files\<close>, \<open>Identity_Theorems\<close> (\<^verbatim>\<open>services/reticulum.py\<close>): the operator's identity; sharing loses
    no identity, and the one that is made sure of is found afterwards, when it could be written: that it could not goes
    unnoticed in the code, and so in the model.
  \<^item> \<open>Attachment_Store\<close> (\<^verbatim>\<open>services/attachment_store.py\<close>): what is saved loads again; the oldest go first. Which
    paths the system refuses, names that are too long among them, is an argument.
  \<^item> \<open>Contacts_Db\<close> (\<^verbatim>\<open>models/messages.py\<close>, \<^verbatim>\<open>models/contacts.py\<close>): what opening the database of messages
    does to its tables; the migration of the contacts keeps them, and opening again changes nothing.
  \<^item> \<open>Config_Models\<close>, \<open>Config_Load\<close>, \<open>Config_Round\<close>, \<open>Config_Theorems\<close>, \<open>Config_Validate\<close>
    (\<^verbatim>\<open>models/config.py\<close>, \<^verbatim>\<open>services/config.py\<close>): the sections with their defaults, the loader and the writer
    on the value a YAML file holds, the condition under which a saved configuration comes back, validation.

  \<^bold>\<open>Starting, and looking after it.\<close>
  \<^item> \<open>Lifecycle\<close> (\<^verbatim>\<open>services/lifecycle.py\<close>) composes the operations of identity, configuration, RNS, LXMF and
    discovery to the start and stop of the daemon.
  \<^item> \<open>Rust_Daemon\<close> (\<^verbatim>\<open>rust_daemon.py\<close>): finding and launching the compiled daemon.
  \<^item> \<open>Doctor_Checks\<close>, \<open>Doctor\<close> (\<^verbatim>\<open>services/doctor.py\<close>, the doctor command of \<^verbatim>\<open>cli.py\<close>): the diagnosis over the
    models of what it looks at, its fixes, the setup wizard, the report.
  \<^item> \<open>Boundary_Log\<close> (\<^verbatim>\<open>boundary.py\<close>, \<^verbatim>\<open>chat_session.py\<close>): the log of errors that cross into other programs,
    and the chat session.

  \<^bold>\<open>The control socket.\<close>
  \<^item> \<open>Ipc_Protocol\<close>, \<open>Ipc_Requests\<close>, \<open>Ipc_Data\<close> (\<^verbatim>\<open>ipc/protocol.py\<close>, \<^verbatim>\<open>ipc/messages.py\<close>): frames, requests,
    answers and events, each of which reads back as it was written.
  \<^item> \<open>Ipc_Client\<close>, \<open>Ipc_Calls\<close> (\<^verbatim>\<open>ipc/client.py\<close>): the receive loop and the table of requests, and what each
    method sends and makes of the answer; an answer settles the request whose identifier it carries.
  \<^item> \<open>Ipc_Bridge\<close> (\<^verbatim>\<open>ipc/bridge.py\<close>): reconnecting, at most five attempts, and making a broken call
    again on the client that the attempt has made.

  \<^bold>\<open>The terminal UI.\<close>
  \<^item> \<open>Ui_State\<close>, \<open>Ui_Nodes\<close>, \<open>Ui_Mail\<close>, \<open>Ui_Daemon\<close> (\<^verbatim>\<open>ui_state/\<close>): the states the screens are drawn from.
  \<^item> \<open>Tui_Config\<close>, \<open>Tui_Reticulum\<close> (\<^verbatim>\<open>tui/services/config.py\<close>, \<^verbatim>\<open>tui/services/reticulum.py\<close>): the configuration
    of the UI beside that of the daemon.
  \<^item> \<open>Daemon_Manager\<close> (\<^verbatim>\<open>tui/services/daemon_manager.py\<close>, \<^verbatim>\<open>app_lifecycle.py\<close>): starting the daemon and the
    bridge to it; a process is there until it has been seen to end, and a UI that cannot start leaves none behind.
  \<^item> \<open>Service_Installer\<close>, \<open>Fleet\<close> (\<^verbatim>\<open>tui/services/service_installer.py\<close>, \<^verbatim>\<open>tui/services/fleet.py\<close>): the daemon
    as a service of launchd or systemd, and the inventory of the fleet, each operation of which reads and
    writes the whole file.
  \<^item> \<open>Device_Cache\<close> (\<^verbatim>\<open>tui/services/device_cache.py\<close>), \<open>Cop_Situation\<close> (\<^verbatim>\<open>tui/models/cop_situation.py\<close>,
    \<^verbatim>\<open>adapter_status.py\<close>), \<open>Ui_Scope\<close> (\<^verbatim>\<open>tui/lifecycle/\<close>): the devices that are shown, the situations that
    are reported, and what a widget owns, each of which is released once.
  \<^item> \<open>Micron\<close> (\<^verbatim>\<open>tui/widgets/micron_parser.py\<close>): the page markup, parsed and rendered.

  \<^bold>\<open>Termination.\<close> Loops over data are recursive functions with a measure. Two loops may run for ever and are
  partial functions with values in an option: the wait for a path (\<open>Lxmf_Service.await_path\<close>), which is proved
  to end when the clock passes the deadline, and the search for a free backup name
  (\<open>Identity_Files.free_backup\<close>), which ends because a file system is finite. Polling for the daemon ends after
  sixty turns. The only fuel is the number of attempts that the bridge has, which the code has too.

  \<^bold>\<open>What is not modelled.\<close> Inside the models: the recursion limit of Python; text encodings other than UTF-8, and
  case mapping outside ASCII; floating-point rounding, numbers being rational; links in the middle of a path and
  moves between file systems; threads and locks; two tasks that use one bridge at the same time; the steps inside
  a disconnect; a handler that registers another for the message that is being dispatched; a database that
  fails while a message is sent. Conversions by \<^verbatim>\<open>str\<close>, \<^verbatim>\<open>float\<close> and \<^verbatim>\<open>int\<close> that depend on the library's number formats are
  arguments. Of the program: screens, widgets, themes and the menu bar, which paint the states above; the command
  line except the doctor command, which parses arguments and prints; writing media, which runs
  external commands; probing of hardware and tokens; the column types of SQLAlchemy's tables, whose rows appear
  where they are used. The daemon's own server loop is
  not in the repository in Python; its clients are modelled against the frames they exchange.

  Each lemma that shows a weakness of the code says so in the text before it.
\<close>

end
